(* ===== verification/Prelude.thy ===== *)
theory Prelude
  imports Main "HOL-Library.Word" "HOL-Library.Char_ord" "HOL-Library.List_Lexorder"
begin

text \<open>
  Shared vocabulary of the development: Python exceptions as values, the result type of a
  function that can raise, and the generic lemmas on results, lists and association lists
  (Python dictionaries in insertion order) that the component theories use.

  An exception is a constructor of \<open>py_error\<close> named after the Python class; its argument is the
  message, with the interpolated names kept and the interpolated numbers left out.
\<close>

section \<open>Errors and results\<close>

datatype py_error =
    ValueError string
  | RuntimeError string
  | TypeError string
  | KeyError string
  | AttributeError string
  | IndexError
  | ZeroDivisionError
  | OverflowError
  | OSError
  | BlockingIOError
  | KeyboardInterrupt
  | AssertionError string
  | StructError string
  | SocketCanTimestampError string

type_synonym 'a result = "py_error + 'a"

text \<open>
  \<open>str(exc)\<close>: the message; the text of an exception the operating system or the interpreter words
  itself is its class name.
\<close>

fun exc_text :: "py_error \<Rightarrow> string" where
  "exc_text (ValueError m) = m"
| "exc_text (RuntimeError m) = m"
| "exc_text (TypeError m) = m"
| "exc_text (KeyError m) = CHR 0x27 # m @ [CHR 0x27]"
| "exc_text (AttributeError m) = m"
| "exc_text (AssertionError m) = m"
| "exc_text (StructError m) = m"
| "exc_text (SocketCanTimestampError m) = m"
| "exc_text IndexError = ''index out of range''"
| "exc_text ZeroDivisionError = ''division by zero''"
| "exc_text OverflowError = ''overflow''"
| "exc_text OSError = ''OSError''"
| "exc_text BlockingIOError = ''BlockingIOError''"
| "exc_text KeyboardInterrupt = []"

definition rbind :: "'a result \<Rightarrow> ('a \<Rightarrow> 'b result) \<Rightarrow> 'b result" where
  "rbind m f = (case m of Inl e \<Rightarrow> Inl e | Inr x \<Rightarrow> f x)"

definition returns :: "'a result \<Rightarrow> bool" where
  "returns m = (case m of Inl _ \<Rightarrow> False | Inr _ \<Rightarrow> True)"

fun rmap :: "('a \<Rightarrow> 'b result) \<Rightarrow> 'a list \<Rightarrow> 'b list result" where
  "rmap f [] = Inr []"
| "rmap f (x # xs) = rbind (f x) (\<lambda>y. rbind (rmap f xs) (\<lambda>ys. Inr (y # ys)))"

named_theorems result_simps "equations that evaluate results"

lemma rbind_Inl [simp, result_simps]: "rbind (Inl e) f = Inl e"
  by (simp add: rbind_def)

lemma rbind_Inr [simp, result_simps]: "rbind (Inr x) f = f x"
  by (simp add: rbind_def)

lemma rbind_eq_Inr [result_simps]:
  "(rbind m f = Inr y) = (\<exists>x. m = Inr x \<and> f x = Inr y)"
  by (cases m) (auto simp: rbind_def)

lemma rbind_eq_Inl:
  "(rbind m f = Inl e) = (m = Inl e \<or> (\<exists>x. m = Inr x \<and> f x = Inl e))"
  by (cases m) (auto simp: rbind_def)

lemma returns_iff: "returns m = (\<exists>x. m = Inr x)"
  by (cases m) (auto simp: returns_def)

lemma returns_Inr [simp]: "returns (Inr x)"
  and returns_Inl [simp]: "\<not> returns (Inl e)"
  by (simp_all add: returns_def)

lemma if_Inl_eq_Inr [simp, result_simps]:
  "((if b then Inl e else m) = Inr x) = (\<not> b \<and> m = Inr x)"
  by simp

lemma rmap_eq_Inr:
  "(rmap f xs = Inr ys) = (list_all2 (\<lambda>x y. f x = Inr y) xs ys)"
proof (induction xs arbitrary: ys)
  case Nil
  then show ?case by auto
next
  case (Cons x xs)
  then show ?case by (auto simp: rbind_eq_Inr list_all2_Cons1)
qed

lemma rmap_length: "rmap f xs = Inr ys \<Longrightarrow> length ys = length xs"
  by (auto simp: rmap_eq_Inr dest: list_all2_lengthD)

section \<open>Dictionaries in insertion order\<close>

type_synonym ('k, 'v) dict = "('k \<times> 'v) list"

abbreviation keys :: "('k, 'v) dict \<Rightarrow> 'k list" where
  "keys d \<equiv> map fst d"

fun dict_set :: "('k, 'v) dict \<Rightarrow> 'k \<Rightarrow> 'v \<Rightarrow> ('k, 'v) dict" where
  "dict_set [] k v = [(k, v)]"
| "dict_set ((k', v') # d) k v =
     (if k' = k then (k', v) # d else (k', v') # dict_set d k v)"

text \<open>A dict display or comprehension: later entries overwrite, first positions are kept.\<close>

definition dict_of :: "('k \<times> 'v) list \<Rightarrow> ('k, 'v) dict" where
  "dict_of kvs = foldl (\<lambda>d (k, v). dict_set d k v) [] kvs"

lemma map_of_dict_set [simp]:
  "map_of (dict_set d k v) = (map_of d)(k \<mapsto> v)"
  by (induction d) (auto simp: fun_eq_iff)

lemma keys_dict_set [simp]: "fst ` set (dict_set d k v) = insert k (fst ` set d)"
  by (induction d k v rule: dict_set.induct) auto

lemma keys_dict_set_new:
  "keys (dict_set d k v) = (if k \<in> fst ` set d then keys d else keys d @ [k])"
  by (induction d k v rule: dict_set.induct) auto

lemma distinct_keys_dict_set: "distinct (keys d) \<Longrightarrow> distinct (keys (dict_set d k v))"
  by (simp add: keys_dict_set_new)

lemma dict_fold_keys:
  "fst ` set (foldl (\<lambda>d (k, v). dict_set d k v) d kvs) = fst ` set d \<union> fst ` set kvs"
  by (induction kvs arbitrary: d) (simp_all add: split_beta)

lemma dict_fold_distinct:
  "distinct (keys d) \<Longrightarrow> distinct (keys (foldl (\<lambda>d (k, v). dict_set d k v) d kvs))"
  by (induction kvs arbitrary: d) (auto intro!: distinct_keys_dict_set simp del: distinct_map)

lemma set_keys_dict_of [simp]: "fst ` set (dict_of kvs) = fst ` set kvs"
  by (simp add: dict_of_def dict_fold_keys)

lemma distinct_keys_dict_of [simp]: "distinct (keys (dict_of kvs))"
  unfolding dict_of_def by (rule dict_fold_distinct) simp

lemma dict_fold_new:
  assumes "distinct (keys d @ map fst kvs)"
  shows "foldl (\<lambda>d (k, v). dict_set d k v) d kvs = d @ kvs"
  using assms
proof (induction kvs arbitrary: d)
  case Nil
  then show ?case by simp
next
  case (Cons kv kvs)
  obtain k v where kv: "kv = (k, v)" by (cases kv)
  have new: "dict_set d k v = d @ [(k, v)]" if "k \<notin> fst ` set d" for d :: "('a \<times> 'b) list"
    using that by (induction d) auto
  from Cons.prems kv have "k \<notin> fst ` set d" by simp
  with Cons.prems Cons.IH [of "d @ [(k, v)]"] kv show ?case
    by (simp add: new)
qed

lemma dict_of_distinct [simp]: "distinct (map fst kvs) \<Longrightarrow> dict_of kvs = kvs"
  unfolding dict_of_def by (subst dict_fold_new) auto

lemma dict_set_subset: "set (dict_set d k v) \<subseteq> insert (k, v) (set d)"
  by (induction d k v rule: dict_set.induct) auto

lemma dict_fold_subset:
  "set (foldl (\<lambda>d (k, v). dict_set d k v) d kvs) \<subseteq> set d \<union> set kvs"
proof (induction kvs arbitrary: d)
  case Nil
  then show ?case by simp
next
  case (Cons kv kvs)
  obtain k v where kv: "kv = (k, v)" by (cases kv)
  show ?case using Cons [of "dict_set d k v"] dict_set_subset [of d k v] by (auto simp: kv)
qed

lemma dict_of_subset: "set (dict_of kvs) \<subseteq> set kvs"
  using dict_fold_subset [of "[]" kvs] by (simp add: dict_of_def)

lemma ball_dict_set:
  "\<forall>x \<in> set d. P x \<Longrightarrow> P (k, v) \<Longrightarrow> \<forall>x \<in> set (dict_set d k v). P x"
  using dict_set_subset [of d k v] by blast

section \<open>Lists\<close>

lemma fst_imageI: "(a, b) \<in> S \<Longrightarrow> a \<in> fst ` S"
  by force

lemma nth_eq_of_list_all2:
  "list_all2 P xs ys \<Longrightarrow> i < length xs \<Longrightarrow> P (xs ! i) (ys ! i)"
  by (simp add: list_all2_conv_all_nth)

lemma foldl_pres:
  assumes "P s" and "\<And>s x. x \<in> set xs \<Longrightarrow> P s \<Longrightarrow> P (f s x)"
  shows "P (foldl f s xs)"
  using assms by (induction xs arbitrary: s) auto

section \<open>Sorted collections of names\<close>

text \<open>\<open>sorted(s)\<close> of a set, and \<open>", ".join(xs)\<close>.\<close>

definition sorted_set :: "'a::linorder list \<Rightarrow> 'a list" where
  "sorted_set xs = sort (remdups xs)"

lemma set_sorted_set [simp]: "set (sorted_set xs) = set xs"
  by (simp add: sorted_set_def)

lemma sorted_set_Nil [simp]: "sorted_set xs = [] \<longleftrightarrow> xs = []"
  by (metis set_empty set_sorted_set)

lemma sorted_sorted_set [simp]: "sorted (sorted_set xs)" and
  distinct_sorted_set [simp]: "distinct (sorted_set xs)"
  by (simp_all add: sorted_set_def)

fun join :: "string \<Rightarrow> string list \<Rightarrow> string" where
  "join sep [] = []"
| "join sep [x] = x"
| "join sep (x # xs) = x @ sep @ join sep xs"

end
