(* ===== verification/PyFloat.thy ===== *)
theory PyFloat
  imports Complex_Main Prelude
begin

text \<open>
  Python floats: IEEE 754 binary64 with round to nearest, ties to even. A finite double is the
  rational number it stands for, so comparisons are exact and every arithmetic operation is the
  exact rational operation followed by \<open>rnd\<close>, which is what the standard prescribes. The two
  zeros are one value here: no operation modelled tells them apart.
\<close>

section \<open>Binary exponents and rounding\<close>

fun log2n :: "nat \<Rightarrow> nat" where
  "log2n n = (if n < 2 then 0 else Suc (log2n (n div 2)))"

declare log2n.simps [simp del]

definition rlog2 :: "rat \<Rightarrow> int" where
  "rlog2 x = (if 1 \<le> x then int (log2n (nat \<lfloor>x\<rfloor>))
     else - int (log2n (nat (\<lceil>1 / x\<rceil> - 1))) - 1)"

definition pow2 :: "int \<Rightarrow> rat" where
  "pow2 e = (if 0 \<le> e then 2 ^ nat e else 1 / 2 ^ nat (- e))"

text \<open>Round half to even, as Python's \<open>round\<close>.\<close>

definition rhe :: "rat \<Rightarrow> int" where
  "rhe x = (let f = \<lfloor>x\<rfloor>; d = x - of_int f in
     if d < 1 / 2 then f else if 1 / 2 < d then f + 1 else if even f then f else f + 1)"

definition qexp :: "rat \<Rightarrow> int" where
  "qexp x = max (rlog2 \<bar>x\<bar> - 52) (- 1074)"

definition rnd_rat :: "rat \<Rightarrow> rat" where
  "rnd_rat x = (if x = 0 then 0 else (let q = pow2 (qexp x) in of_int (rhe (x / q)) * q))"

datatype pyfloat = Fin rat | PInf | NInf | NaN

definition rnd :: "rat \<Rightarrow> pyfloat" where
  "rnd x = (let r = rnd_rat x in
     if r \<noteq> 0 \<and> 1024 \<le> rlog2 \<bar>r\<bar> then (if 0 < r then PInf else NInf) else Fin r)"

section \<open>Exponents\<close>

lemma pow2_powi: "pow2 e = 2 powi e"
  by (simp add: pow2_def power_int_def power_one_over inverse_eq_divide)

lemma pow2_pos [simp]: "0 < pow2 e"
  by (simp add: pow2_def)

lemma pow2_nonneg [simp]: "0 \<le> pow2 e"
  by (simp add: less_imp_le)

lemma pow2_not_le_0 [simp]: "\<not> pow2 e \<le> 0"
  by (simp add: not_le)

lemma le_minus_pow2_neg: "x \<le> - pow2 e \<Longrightarrow> x < 0"
  using pow2_pos [of e] by linarith

lemma pow2_le_pos: "pow2 e \<le> x \<Longrightarrow> 0 < x"
  by (rule order_less_le_trans [OF pow2_pos])

lemma pow2_nonzero [simp]: "pow2 e \<noteq> 0"
  by (simp add: pow2_def)

lemma pow2_add: "pow2 (a + b) = pow2 a * pow2 b"
  by (simp add: pow2_powi power_int_add)

lemma pow2_diff: "pow2 (a - b) = pow2 a / pow2 b"
  by (simp add: pow2_powi power_int_diff)

lemma pow2_0 [simp]: "pow2 0 = 1"
  by (simp add: pow2_def)

lemma pow2_Suc: "pow2 (a + 1) = 2 * pow2 a"
  using pow2_add [of a 1] by (simp add: pow2_def [of 1])

lemma pow2_le_iff [simp]: "pow2 a \<le> pow2 b \<longleftrightarrow> a \<le> b"
  unfolding pow2_powi
  by (metis linorder_not_le one_less_numeral_iff power_int_strict_increasing
      power_int_increasing semiring_norm(76) less_imp_le)

lemma pow2_less_iff [simp]: "pow2 a < pow2 b \<longleftrightarrow> a < b"
  by (simp add: not_le [symmetric])

lemma pow2_nat: "0 \<le> a \<Longrightarrow> pow2 a = of_int (2 ^ nat a)"
  by (simp add: pow2_def)

lemma log2n_bounds: "0 < n \<Longrightarrow> 2 ^ log2n n \<le> n \<and> n < 2 ^ Suc (log2n n)"
proof (induction n rule: log2n.induct)
  case (1 n)
  show ?case
  proof (cases "n < 2")
    case True
    with "1.prems" show ?thesis by (simp add: log2n.simps)
  next
    case False
    with 1 have "2 ^ log2n (n div 2) \<le> n div 2 \<and> n div 2 < 2 ^ Suc (log2n (n div 2))"
      by simp
    with False show ?thesis by (simp add: log2n.simps [of n]) arith
  qed
qed

lemma rlog2_bounds:
  assumes "0 < x"
  shows "pow2 (rlog2 x) \<le> x" and "x < pow2 (rlog2 x + 1)"
proof -
  have "pow2 (rlog2 x) \<le> x \<and> x < pow2 (rlog2 x + 1)"
  proof (cases "1 \<le> x")
    case True
    define n where "n = nat \<lfloor>x\<rfloor>"
    have n: "of_int \<lfloor>x\<rfloor> = (of_nat n :: rat)" "0 < n"
      using True by (auto simp: n_def)
    from log2n_bounds [OF n(2)] have b: "2 ^ log2n n \<le> n" "Suc n \<le> 2 ^ Suc (log2n n)"
      by simp_all
    have "pow2 (rlog2 x) = 2 ^ log2n n" "pow2 (rlog2 x + 1) = 2 ^ Suc (log2n n)"
      using True by (simp_all add: rlog2_def n_def pow2_def nat_add_distrib)
    moreover have "(2 ^ log2n n :: rat) \<le> of_nat n" "(of_nat (Suc n) :: rat) \<le> 2 ^ Suc (log2n n)"
      using b by (metis of_nat_le_iff of_nat_numeral of_nat_power)+
    moreover have "of_nat n \<le> x" "x < of_nat (Suc n)"
      using n floor_correct [of x] by auto
    ultimately show ?thesis by (metis order_trans order_less_le_trans)
  next
    case False
    define m where "m = nat (\<lceil>1 / x\<rceil> - 1)"
    have "1 < 1 / x" using False assms by simp
    then have c: "1 < \<lceil>1 / x\<rceil>" by linarith
    then have "\<lceil>1 / x\<rceil> = int m + 1" and m0: "0 < m"
      unfolding m_def by linarith+
    then have m: "of_int \<lceil>1 / x\<rceil> = (of_nat m + 1 :: rat)" "0 < m"
      by simp_all
    from log2n_bounds [OF m(2)] have b: "2 ^ log2n m \<le> m" "Suc m \<le> 2 ^ Suc (log2n m)"
      by simp_all
    have e: "rlog2 x = - int (log2n m) - 1"
      using False by (simp add: rlog2_def m_def)
    have p: "pow2 (rlog2 x) = 1 / 2 ^ Suc (log2n m)" "pow2 (rlog2 x + 1) = 1 / 2 ^ log2n m"
      by (simp_all add: e pow2_def nat_add_distrib)
    have "(2 ^ log2n m :: rat) \<le> of_nat m" "(of_nat (Suc m) :: rat) \<le> 2 ^ Suc (log2n m)"
      using b by (metis of_nat_le_iff of_nat_numeral of_nat_power)+
    moreover have "of_nat m < 1 / x" "1 / x \<le> of_nat (Suc m)"
      using m ceiling_correct [of "1 / x"] by auto
    ultimately have "2 ^ log2n m < 1 / x" "1 / x \<le> 2 ^ Suc (log2n m)"
      by (metis order_le_less_trans, metis order_trans)
    then show ?thesis unfolding p using assms by (simp add: field_simps)
  qed
  then show "pow2 (rlog2 x) \<le> x" and "x < pow2 (rlog2 x + 1)" by blast+
qed

lemma rlog2_less_iff: "0 < x \<Longrightarrow> rlog2 x < e \<longleftrightarrow> x < pow2 e"
  by (meson linorder_not_le order_le_less_trans order_less_le_trans pow2_le_iff pow2_less_iff
      rlog2_bounds zless_imp_add1_zle)

lemma rlog2_ge_iff: "0 < x \<Longrightarrow> e \<le> rlog2 x \<longleftrightarrow> pow2 e \<le> x"
  using rlog2_less_iff [of x e] by linarith

lemma rlog2_mono: "0 < x \<Longrightarrow> x \<le> y \<Longrightarrow> rlog2 x \<le> rlog2 y"
  using rlog2_bounds(1) [of x] by (subst rlog2_ge_iff) auto

section \<open>Rounding to an integer\<close>

lemma rhe_ge_floor: "\<lfloor>x\<rfloor> \<le> rhe x" and rhe_le_floor1: "rhe x \<le> \<lfloor>x\<rfloor> + 1"
  by (auto simp: rhe_def Let_def)

lemma rhe_of_int [simp]: "rhe (of_int n) = n"
  by (simp add: rhe_def)

lemma rhe_0 [simp]: "rhe 0 = 0"
  by (simp add: rhe_def)

lemma rhe_mono: "x \<le> y \<Longrightarrow> rhe x \<le> rhe y"
proof -
  assume le: "x \<le> y"
  show ?thesis
  proof (cases "\<lfloor>x\<rfloor> = \<lfloor>y\<rfloor>")
    case True
    with le show ?thesis by (auto simp: rhe_def Let_def)
  next
    case False
    with floor_mono [OF le] have "\<lfloor>x\<rfloor> + 1 \<le> \<lfloor>y\<rfloor>" by simp
    with rhe_le_floor1 [of x] rhe_ge_floor [of y] show ?thesis by linarith
  qed
qed

lemma rhe_le: "x \<le> of_int n \<Longrightarrow> rhe x \<le> n"
  using rhe_mono [of x "of_int n"] by simp

lemma rhe_ge: "of_int n \<le> x \<Longrightarrow> n \<le> rhe x"
  using rhe_mono [of "of_int n" x] by simp

lemma rhe_error: "\<bar>of_int (rhe x) - x\<bar> \<le> 1 / 2"
  using floor_correct [of x] by (auto simp: rhe_def Let_def abs_le_iff)

lemma rhe_minus: "rhe (- x) = - rhe x"
proof (cases "x = of_int \<lfloor>x\<rfloor>")
  case True
  then show ?thesis by (metis of_int_minus rhe_of_int)
next
  case False
  then have f: "\<lfloor>- x\<rfloor> = - \<lfloor>x\<rfloor> - 1" by linarith
  define d where "d = x - of_int \<lfloor>x\<rfloor>"
  have x: "x = of_int \<lfloor>x\<rfloor> + d" by (simp add: d_def)
  have "- x - of_int \<lfloor>- x\<rfloor> = 1 - d" by (simp add: f d_def)
  then have "rhe (- x) = (if 1 - d < 1 / 2 then - \<lfloor>x\<rfloor> - 1 else if 1 / 2 < 1 - d then - \<lfloor>x\<rfloor>
      else if even (- \<lfloor>x\<rfloor> - 1) then - \<lfloor>x\<rfloor> - 1 else - \<lfloor>x\<rfloor>)"
    unfolding rhe_def Let_def f by simp
  moreover have "rhe x = (if d < 1 / 2 then \<lfloor>x\<rfloor> else if 1 / 2 < d then \<lfloor>x\<rfloor> + 1
      else if even \<lfloor>x\<rfloor> then \<lfloor>x\<rfloor> else \<lfloor>x\<rfloor> + 1)"
    by (simp add: rhe_def Let_def d_def)
  ultimately show ?thesis by auto
qed

section \<open>Rounding to a double\<close>

lemma rnd_rat_0 [simp]: "rnd_rat 0 = 0"
  by (simp add: rnd_rat_def)

lemma qexp_minus [simp]: "qexp (- x) = qexp x"
  by (simp add: qexp_def)

lemma rnd_rat_minus: "rnd_rat (- x) = - rnd_rat x"
  by (simp add: rnd_rat_def Let_def rhe_minus)

lemma qexp_ge: "- 1074 \<le> qexp x"
  by (simp add: qexp_def)

text \<open>A value on the grid of \<open>x\<close> bounds the rounded \<open>x\<close> on its own side.\<close>

lemma rnd_rat_le_grid:
  assumes "x \<le> z" and "z = of_int k * pow2 (qexp x)" and "x \<noteq> 0"
  shows "rnd_rat x \<le> z"
proof -
  have "x / pow2 (qexp x) \<le> of_int k"
    using assms(1,2) by (simp add: divide_le_eq)
  then have "rhe (x / pow2 (qexp x)) \<le> k" by (rule rhe_le)
  with assms show ?thesis by (simp add: rnd_rat_def Let_def)
qed

lemma rnd_rat_ge_grid:
  assumes "z \<le> x" and "z = of_int k * pow2 (qexp x)" and "x \<noteq> 0"
  shows "z \<le> rnd_rat x"
proof -
  have "of_int k \<le> x / pow2 (qexp x)"
    using assms(1,2) by (simp add: le_divide_eq)
  then have "k \<le> rhe (x / pow2 (qexp x))" by (rule rhe_ge)
  with assms show ?thesis by (simp add: rnd_rat_def Let_def)
qed

lemma pow2_grid: "e' \<le> e \<Longrightarrow> pow2 e = of_int (2 ^ nat (e - e')) * pow2 e'"
  using pow2_add [of "e - e'" e'] by (simp add: pow2_nat)

lemma rnd_rat_nonneg: "0 \<le> x \<Longrightarrow> 0 \<le> rnd_rat x"
  using rnd_rat_ge_grid [of 0 x 0] by (cases "x = 0") auto

lemma rnd_rat_mono_pos:
  assumes "0 < x" and "x \<le> y"
  shows "rnd_rat x \<le> rnd_rat y"
proof (cases "qexp x = qexp y")
  case True
  have "x / pow2 (qexp y) \<le> y / pow2 (qexp y)" using assms by (simp add: divide_right_mono)
  with True assms show ?thesis
    by (simp add: rnd_rat_def Let_def rhe_mono mult_right_mono)
next
  case False
  have le: "rlog2 x \<le> rlog2 y" using assms by (rule rlog2_mono)
  with False assms have lt: "rlog2 x < rlog2 y" and big: "- 1022 < rlog2 y"
    by (auto simp: qexp_def max_def split: if_splits)
  let ?P = "pow2 (rlog2 y)"
  have "x < ?P" using assms(1) lt by (simp add: rlog2_less_iff [symmetric])
  moreover have "qexp x \<le> rlog2 y" "qexp y \<le> rlog2 y"
    using assms lt big by (auto simp: qexp_def)
  ultimately have "rnd_rat x \<le> ?P" "?P \<le> rnd_rat y"
    using assms rlog2_bounds(1) [of y]
    by (auto intro!: rnd_rat_le_grid [OF _ pow2_grid] rnd_rat_ge_grid [OF _ pow2_grid])
  then show ?thesis by simp
qed

lemma rnd_rat_mono: "x \<le> y \<Longrightarrow> rnd_rat x \<le> rnd_rat y"
proof -
  assume le: "x \<le> y"
  consider "0 < x" | "x \<le> 0" "0 \<le> y" | "y < 0" by linarith
  then show ?thesis
  proof cases
    case 1
    then show ?thesis using le by (rule rnd_rat_mono_pos)
  next
    case 2
    then have "rnd_rat x \<le> 0" "0 \<le> rnd_rat y"
      using rnd_rat_nonneg [of "- x"] rnd_rat_nonneg [of y] by (auto simp: rnd_rat_minus)
    then show ?thesis by simp
  next
    case 3
    with le rnd_rat_mono_pos [of "- y" "- x"] show ?thesis by (simp add: rnd_rat_minus)
  qed
qed

text \<open>Numbers with at most 53 significant bits are kept.\<close>

lemma rnd_rat_exact:
  assumes "\<bar>m\<bar> \<le> 2 ^ 53" and "- 1074 \<le> e"
  shows "rnd_rat (of_int m * pow2 e) = of_int m * pow2 e"
proof (cases "m = 0")
  case True
  then show ?thesis by simp
next
  case False
  let ?x = "of_int m * pow2 e :: rat"
  have pos: "0 < \<bar>?x\<bar>" using False by simp
  have ab: "\<bar>?x\<bar> = of_int \<bar>m\<bar> * pow2 e" by (simp add: abs_mult)
  have "\<exists>k. ?x = of_int k * pow2 (qexp ?x)"
  proof (cases "\<bar>m\<bar> = 2 ^ 53")
    case True
    have "\<bar>?x\<bar> = pow2 (e + 53)" by (simp add: ab True pow2_add pow2_nat)
    then have "rlog2 \<bar>?x\<bar> = e + 53"
      using pos rlog2_less_iff [of "\<bar>?x\<bar>" "e + 54"] rlog2_ge_iff [of "\<bar>?x\<bar>" "e + 53"]
      by simp
    then have "qexp ?x = e + 1" using assms by (simp add: qexp_def)
    moreover have "?x = of_int (m div 2) * pow2 (e + 1)"
    proof -
      have "m = 2 ^ 53 \<or> m = - (2 ^ 53)" using True by linarith
      then have "2 * (m div 2) = m" by (elim disjE) simp_all
      then have "(of_int m :: rat) = 2 * of_int (m div 2)"
        by (metis of_int_mult of_int_numeral)
      then show ?thesis by (simp add: pow2_Suc)
    qed
    ultimately show ?thesis by metis
  next
    case False
    then have "\<bar>m\<bar> < 2 ^ 53" using assms by simp
    then have "(of_int \<bar>m\<bar> :: rat) < of_int (2 ^ 53)" by (simp only: of_int_less_iff)
    then have "\<bar>?x\<bar> < pow2 (53 + e)" by (simp add: ab pow2_add pow2_nat)
    then have "rlog2 \<bar>?x\<bar> < 53 + e" using pos by (simp only: rlog2_less_iff)
    then have "qexp ?x \<le> e" using assms by (simp add: qexp_def)
    then have "?x = of_int m * (of_int (2 ^ nat (e - qexp ?x)) * pow2 (qexp ?x))"
      by (simp only: pow2_grid [symmetric])
    then have "?x = of_int (m * 2 ^ nat (e - qexp ?x)) * pow2 (qexp ?x)"
      by (simp only: of_int_mult mult.assoc)
    then show ?thesis by (rule exI)
  qed
  then obtain k where k: "?x = of_int k * pow2 (qexp ?x)" by blast
  then have "rnd_rat ?x \<le> ?x" "?x \<le> rnd_rat ?x"
    using \<open>m \<noteq> 0\<close> by (auto intro: rnd_rat_le_grid [OF order_refl] rnd_rat_ge_grid [OF order_refl])
  then show ?thesis by simp
qed

section \<open>The value range\<close>

definition is_double :: "pyfloat \<Rightarrow> bool" where
  "is_double x = (case x of Fin r \<Rightarrow> rnd r = Fin r | _ \<Rightarrow> True)"

definition isfinite :: "pyfloat \<Rightarrow> bool" where
  "isfinite x = (case x of Fin _ \<Rightarrow> True | _ \<Rightarrow> False)"

definition isnan :: "pyfloat \<Rightarrow> bool" where
  "isnan x = (x = NaN)"

fun fle :: "pyfloat \<Rightarrow> pyfloat \<Rightarrow> bool" where
  "fle (Fin a) (Fin b) = (a \<le> b)"
| "fle NaN _ = False"
| "fle _ NaN = False"
| "fle NInf _ = True"
| "fle _ PInf = True"
| "fle _ _ = False"

fun flt :: "pyfloat \<Rightarrow> pyfloat \<Rightarrow> bool" where
  "flt (Fin a) (Fin b) = (a < b)"
| "flt NaN _ = False"
| "flt _ NaN = False"
| "flt NInf NInf = False"
| "flt NInf _ = True"
| "flt PInf _ = False"
| "flt _ PInf = True"
| "flt _ NInf = False"

definition feq :: "pyfloat \<Rightarrow> pyfloat \<Rightarrow> bool" where
  "feq a b = (a \<noteq> NaN \<and> a = b)"

lemma isfinite_iff: "isfinite x \<longleftrightarrow> (\<exists>r. x = Fin r)"
  by (cases x) (auto simp: isfinite_def)

lemma isfinite_simps [simp]:
  "isfinite (Fin r)" "\<not> isfinite PInf" "\<not> isfinite NInf" "\<not> isfinite NaN"
  by (simp_all add: isfinite_def)

lemma fle_refl [simp]: "fle x x \<longleftrightarrow> x \<noteq> NaN"
  by (cases x) auto

lemma fle_trans: "fle x y \<Longrightarrow> fle y z \<Longrightarrow> fle x z"
  by (cases x; cases y; cases z) auto

lemma flt_irrefl [simp]: "\<not> flt x x"
  by (cases x) auto

lemma flt_imp_fle: "flt x y \<Longrightarrow> fle x y"
  by (cases x; cases y) auto

lemma not_flt: "x \<noteq> NaN \<Longrightarrow> y \<noteq> NaN \<Longrightarrow> \<not> flt x y \<longleftrightarrow> fle y x"
  by (cases x; cases y) auto

lemma not_fle: "x \<noteq> NaN \<Longrightarrow> y \<noteq> NaN \<Longrightarrow> \<not> fle x y \<longleftrightarrow> flt y x"
  by (cases x; cases y) auto

lemma fle_NaN: "fle x y \<Longrightarrow> x \<noteq> NaN \<and> y \<noteq> NaN"
  by (cases x; cases y) auto

lemma flt_Fin: "flt (Fin a) y \<Longrightarrow> y = PInf \<or> (\<exists>b. y = Fin b \<and> a < b)"
  by (cases y) auto

section \<open>Arithmetic\<close>

fun fneg :: "pyfloat \<Rightarrow> pyfloat" where
  "fneg (Fin a) = Fin (- a)"
| "fneg PInf = NInf"
| "fneg NInf = PInf"
| "fneg NaN = NaN"

fun fabs :: "pyfloat \<Rightarrow> pyfloat" where
  "fabs (Fin a) = Fin \<bar>a\<bar>"
| "fabs NaN = NaN"
| "fabs _ = PInf"

fun fadd :: "pyfloat \<Rightarrow> pyfloat \<Rightarrow> pyfloat" where
  "fadd (Fin a) (Fin b) = rnd (a + b)"
| "fadd NaN _ = NaN"
| "fadd _ NaN = NaN"
| "fadd PInf NInf = NaN"
| "fadd NInf PInf = NaN"
| "fadd PInf _ = PInf"
| "fadd _ PInf = PInf"
| "fadd NInf _ = NInf"
| "fadd _ NInf = NInf"

definition fsub :: "pyfloat \<Rightarrow> pyfloat \<Rightarrow> pyfloat" where
  "fsub a b = fadd a (fneg b)"

fun fsgn :: "pyfloat \<Rightarrow> int" where
  "fsgn (Fin a) = (if 0 < a then 1 else if a < 0 then - 1 else 0)"
| "fsgn PInf = 1"
| "fsgn NInf = - 1"
| "fsgn NaN = 0"

definition inf_of_sign :: "int \<Rightarrow> pyfloat" where
  "inf_of_sign s = (if 0 < s then PInf else if s < 0 then NInf else NaN)"

fun fmul :: "pyfloat \<Rightarrow> pyfloat \<Rightarrow> pyfloat" where
  "fmul (Fin a) (Fin b) = rnd (a * b)"
| "fmul NaN _ = NaN"
| "fmul _ NaN = NaN"
| "fmul a b = inf_of_sign (fsgn a * fsgn b)"

text \<open>Python's \<open>/\<close> raises on a zero divisor; otherwise it is the IEEE quotient.\<close>

fun fdiv :: "pyfloat \<Rightarrow> pyfloat \<Rightarrow> pyfloat result" where
  "fdiv x (Fin b) =
     (if b = 0 then Inl ZeroDivisionError
      else case x of Fin a \<Rightarrow> Inr (rnd (a / b)) | NaN \<Rightarrow> Inr NaN
        | _ \<Rightarrow> Inr (inf_of_sign (fsgn x * fsgn (Fin b))))"
| "fdiv x NaN = Inr NaN"
| "fdiv (Fin a) _ = Inr (Fin 0)"
| "fdiv _ _ = Inr NaN"

text \<open>\<open>max(a, b)\<close> and \<open>min(a, b)\<close> keep the first argument unless the second is strictly better.\<close>

definition fmax :: "pyfloat \<Rightarrow> pyfloat \<Rightarrow> pyfloat" where
  "fmax a b = (if flt a b then b else a)"

definition fmin :: "pyfloat \<Rightarrow> pyfloat \<Rightarrow> pyfloat" where
  "fmin a b = (if flt b a then b else a)"

definition rtrunc :: "rat \<Rightarrow> int" where
  "rtrunc x = (if 0 \<le> x then \<lfloor>x\<rfloor> else \<lceil>x\<rceil>)"

text \<open>\<open>int(x)\<close>, \<open>round(x)\<close>, \<open>math.ceil(x)\<close> and the conversion of an int.\<close>

fun to_int_by :: "(rat \<Rightarrow> int) \<Rightarrow> pyfloat \<Rightarrow> int result" where
  "to_int_by f (Fin a) = Inr (f a)"
| "to_int_by f NaN = Inl (ValueError ''cannot convert float NaN to integer'')"
| "to_int_by f _ = Inl OverflowError"

definition fint :: "pyfloat \<Rightarrow> int result" where
  "fint = to_int_by rtrunc"

definition fround :: "pyfloat \<Rightarrow> int result" where
  "fround = to_int_by rhe"

definition fceil :: "pyfloat \<Rightarrow> int result" where
  "fceil = to_int_by ceiling"

definition float_of_int :: "int \<Rightarrow> pyfloat result" where
  "float_of_int n = (case rnd (of_int n) of Fin r \<Rightarrow> Inr (Fin r) | _ \<Rightarrow> Inl OverflowError)"

text \<open>\<open>int / int\<close> is the correctly rounded quotient.\<close>

definition int_truediv :: "int \<Rightarrow> int \<Rightarrow> pyfloat result" where
  "int_truediv a b = (if b = 0 then Inl ZeroDivisionError else
     (case rnd (of_int a / of_int b) of Fin r \<Rightarrow> Inr (Fin r) | _ \<Rightarrow> Inl OverflowError))"

text \<open>\<open>x % y\<close>: the exact remainder of \<open>fmod\<close>, moved to the sign of the divisor.\<close>

fun fmod_py :: "pyfloat \<Rightarrow> pyfloat \<Rightarrow> pyfloat result" where
  "fmod_py (Fin a) (Fin b) =
     (if b = 0 then Inl ZeroDivisionError
      else let m = a - b * of_int (rtrunc (a / b)) in
        Inr (if m \<noteq> 0 \<and> (b < 0) \<noteq> (m < 0) then rnd (m + b) else Fin m))"
| "fmod_py x (Fin b) = (if b = 0 then Inl ZeroDivisionError else Inr NaN)"
| "fmod_py (Fin a) PInf = Inr (if a < 0 then PInf else Fin a)"
| "fmod_py (Fin a) NInf = Inr (if 0 < a then NInf else Fin a)"
| "fmod_py _ _ = Inr NaN"

named_theorems float_eval "unfold the float operations on numerals"

lemmas [float_eval] = rnd_def rnd_rat_def rlog2_def qexp_def pow2_def rhe_def log2n.simps Let_def
  fsub_def fmax_def fmin_def feq_def isnan_def is_double_def rtrunc_def fint_def fround_def
  fceil_def float_of_int_def int_truediv_def inf_of_sign_def

lemma floor_rat_num [simp]:
  "\<lfloor>numeral a / numeral b :: rat\<rfloor> = numeral a div numeral b"
  "\<lfloor>1 / numeral b :: rat\<rfloor> = 1 div numeral b"
  by (metis floor_divide_of_int_eq of_int_numeral of_int_1)+

lemma floor_rat_neg_num [simp]:
  "\<lfloor>- (numeral a / numeral b) :: rat\<rfloor> = - numeral a div numeral b"
  "\<lfloor>- (1 / numeral b) :: rat\<rfloor> = - 1 div numeral b"
  by (metis floor_divide_of_int_eq of_int_numeral of_int_minus divide_minus_left of_int_1)+

lemma ceil_rat_num [simp]:
  "\<lceil>numeral a / numeral b :: rat\<rceil> = - (- numeral a div numeral b)"
  "\<lceil>- (numeral a / numeral b) :: rat\<rceil> = - (numeral a div numeral b)"
  by (simp_all add: ceiling_def)

section \<open>Laws of rounding\<close>

lemma rnd_alt:
  "rnd x = (if pow2 1024 \<le> rnd_rat x then PInf else if rnd_rat x \<le> - pow2 1024 then NInf
     else Fin (rnd_rat x))"
  by (cases "rnd_rat x = 0"; cases "0 < rnd_rat x")
    (auto simp: rnd_def Let_def rlog2_ge_iff le_minus_iff dest: pow2_le_pos)

lemma rnd_not_NaN [simp]: "rnd x \<noteq> NaN"
  by (simp add: rnd_alt)

lemma rnd_mono: "x \<le> y \<Longrightarrow> fle (rnd x) (rnd y)"
  using rnd_rat_mono [of x y] pow2_pos [of 1024] by (auto simp: rnd_alt)

lemma rnd_minus: "rnd (- x) = fneg (rnd x)"
  by (auto simp: rnd_alt rnd_rat_minus le_minus_iff) (use pow2_pos [of 1024] in linarith)+

lemma rnd_exact:
  assumes "\<bar>m\<bar> \<le> 2 ^ 53" and "- 1074 \<le> e" and "e \<le> 970"
  shows "rnd (of_int m * pow2 e) = Fin (of_int m * pow2 e)"
proof -
  have "(of_int \<bar>m\<bar> :: rat) \<le> of_int (2 ^ 53)" using assms(1) by (simp only: of_int_le_iff)
  then have "(of_int \<bar>m\<bar> :: rat) \<le> pow2 53" by (simp add: pow2_def)
  then have "of_int \<bar>m\<bar> * pow2 e \<le> pow2 (53 + e)" by (simp add: pow2_add)
  also have "pow2 (53 + e) < pow2 1024" using assms(3) by simp
  finally have "\<bar>of_int m * pow2 e\<bar> < pow2 1024" by (simp add: abs_mult)
  then show ?thesis using assms by (auto simp: rnd_alt rnd_rat_exact abs_less_iff)
qed

lemma rnd_of_int: "\<bar>n\<bar> \<le> 2 ^ 53 \<Longrightarrow> rnd (of_int n) = Fin (of_int n)"
  using rnd_exact [of n 0] by simp

lemma rnd_0 [simp]: "rnd 0 = Fin 0"
  and rnd_1 [simp]: "rnd 1 = Fin 1"
  using rnd_of_int [of 0] rnd_of_int [of 1] by simp_all

lemma rnd_rat_form: "\<exists>m e. rnd_rat x = of_int m * pow2 e \<and> \<bar>m\<bar> \<le> 2 ^ 53 \<and> - 1074 \<le> e"
proof (cases "x = 0")
  case True
  then show ?thesis by (intro exI [of _ 0]) auto
next
  case False
  let ?q = "pow2 (qexp x)"
  have "\<bar>x\<bar> < pow2 (rlog2 \<bar>x\<bar> + 1)" using False by (simp add: rlog2_bounds)
  also have "\<dots> \<le> pow2 (53 + qexp x)" by (simp add: qexp_def)
  finally have "\<bar>x\<bar> < 2 ^ 53 * ?q" by (simp add: pow2_add pow2_def [of 53])
  then have "\<bar>x / ?q\<bar> < 2 ^ 53" by (simp add: divide_less_eq)
  then have "x / ?q \<le> of_int (2 ^ 53)" "of_int (- (2 ^ 53)) \<le> x / ?q"
    unfolding of_int_minus of_int_power of_int_numeral by linarith+
  then have "\<bar>rhe (x / ?q)\<bar> \<le> 2 ^ 53"
    using rhe_le rhe_ge by (metis abs_le_iff minus_le_iff)
  with False show ?thesis
    by (intro exI [of _ "rhe (x / ?q)"] exI [of _ "qexp x"]) (simp add: rnd_rat_def Let_def qexp_ge)
qed

lemma rnd_rat_idem [simp]: "rnd_rat (rnd_rat x) = rnd_rat x"
  using rnd_rat_form [of x] rnd_rat_exact by metis

lemma is_double_rnd [simp]: "is_double (rnd x)"
  by (auto simp: is_double_def rnd_alt split: pyfloat.split)

lemma is_double_Fin: "is_double (Fin r) \<longleftrightarrow> rnd_rat r = r \<and> \<bar>r\<bar> < pow2 1024"
  by (auto simp: is_double_def rnd_alt abs_less_iff)

lemma double_grid: "is_double (Fin r) \<Longrightarrow> \<exists>k. r = of_int k * pow2 (- 1074)"
proof -
  assume "is_double (Fin r)"
  then obtain m e where r: "r = of_int m * pow2 e" "- 1074 \<le> e"
    using rnd_rat_form [of r] by (auto simp: is_double_Fin)
  then have "r = of_int m * (of_int (2 ^ nat (e - - 1074)) * pow2 (- 1074))"
    by (simp only: pow2_grid [symmetric])
  then have "r = of_int (m * 2 ^ nat (e - - 1074)) * pow2 (- 1074)"
    by (simp only: of_int_mult mult.assoc)
  then show ?thesis by (rule exI)
qed

text \<open>Gradual underflow: the difference of two distinct doubles does not round to zero.\<close>

lemma rnd_diff_pos:
  assumes "is_double (Fin x)" and "is_double (Fin y)" and "x < y"
  shows "fle (Fin (pow2 (- 1074))) (rnd (y - x))"
proof -
  from double_grid [OF assms(1)] double_grid [OF assms(2)] obtain j k where
    xy: "x = of_int j * pow2 (- 1074)" "y = of_int k * pow2 (- 1074)" by blast
  with assms(3) have "j < k" by simp
  then have "(1 :: rat) \<le> of_int (k - j)" by simp
  then have "1 * pow2 (- 1074) \<le> of_int (k - j) * pow2 (- 1074)"
    by (rule mult_right_mono) simp
  also have "\<dots> = y - x" by (simp add: xy algebra_simps)
  finally have "pow2 (- 1074) \<le> y - x" by simp
  from rnd_mono [OF this] show ?thesis
    using rnd_exact [of 1 "- 1074"] by simp
qed

text \<open>The sign of a difference of doubles is exact.\<close>

lemma fsub_Fin: "fsub (Fin x) (Fin y) = rnd (x - y)"
  by (simp add: fsub_def)

lemma fsub_neg_iff:
  assumes "is_double (Fin x)" and "is_double (Fin y)"
  shows "flt (fsub (Fin x) (Fin y)) (Fin 0) \<longleftrightarrow> x < y"
proof
  assume neg: "flt (fsub (Fin x) (Fin y)) (Fin 0)"
  show "x < y"
  proof (rule ccontr)
    assume "\<not> x < y"
    then have "fle (Fin 0) (rnd (x - y))" using rnd_mono [of 0 "x - y"] by simp
    with neg show False by (cases "rnd (x - y)") (auto simp: fsub_Fin)
  qed
next
  assume "x < y"
  from rnd_diff_pos [OF assms this] have "flt (Fin 0) (rnd (y - x))"
    by (cases "rnd (y - x)") (auto dest: pow2_le_pos)
  moreover have "rnd (x - y) = fneg (rnd (y - x))" using rnd_minus [of "y - x"] by simp
  ultimately show "flt (fsub (Fin x) (Fin y)) (Fin 0)"
    by (cases "rnd (y - x)") (auto simp: fsub_Fin)
qed

lemma is_double_abs: "is_double (Fin x) \<Longrightarrow> is_double (Fin \<bar>x\<bar>)"
  by (cases "0 \<le> x") (auto simp: is_double_Fin rnd_rat_minus abs_if)

lemma is_double_of_int: "\<bar>n\<bar> \<le> 2 ^ 53 \<Longrightarrow> is_double (Fin (of_int n))"
  by (simp add: is_double_def rnd_of_int)

lemma rnd_rat_error: "\<bar>rnd_rat x - x\<bar> \<le> pow2 (qexp x) / 2"
proof (cases "x = 0")
  case True
  then show ?thesis by simp
next
  case False
  let ?q = "pow2 (qexp x)"
  have "\<bar>rnd_rat x - x\<bar> = \<bar>(of_int (rhe (x / ?q)) - x / ?q) * ?q\<bar>"
    using False by (simp add: rnd_rat_def Let_def left_diff_distrib)
  also have "\<dots> = \<bar>of_int (rhe (x / ?q)) - x / ?q\<bar> * ?q" by (simp add: abs_mult)
  also have "\<dots> \<le> 1 / 2 * ?q" using rhe_error by (rule mult_right_mono) simp
  finally show ?thesis by simp
qed

section \<open>The contract of a rounding mode\<close>

text \<open>
  What the range arguments of the components need of floating point: a rounding that is
  monotone, keeps the integers up to \<open>2 ^ 53\<close> and is symmetric.
\<close>

locale rounding =
  fixes rd :: "rat \<Rightarrow> pyfloat"
  assumes rd_mono: "x \<le> y \<Longrightarrow> fle (rd x) (rd y)"
    and rd_int: "\<bar>n\<bar> \<le> 2 ^ 53 \<Longrightarrow> rd (of_int n) = Fin (of_int n)"
    and rd_minus: "rd (- x) = fneg (rd x)"
begin

lemma rd_between:
  assumes "of_int a \<le> x" and "x \<le> of_int b" and "\<bar>a\<bar> \<le> 2 ^ 53" and "\<bar>b\<bar> \<le> 2 ^ 53"
  shows "\<exists>r. rd x = Fin r \<and> of_int a \<le> r \<and> r \<le> of_int b"
  using rd_mono [OF assms(1)] rd_mono [OF assms(2)] rd_int [OF assms(3)] rd_int [OF assms(4)]
  by (cases "rd x") auto

lemma rd_unit:
  assumes "0 \<le> a" and "a \<le> b" and "0 < b"
  shows "\<exists>r. rd (a / b) = Fin r \<and> 0 \<le> r \<and> r \<le> 1"
  using rd_between [of 0 "a / b" 1] assms by simp

lemma rd_nonneg: "0 \<le> x \<Longrightarrow> fle (Fin 0) (rd x)"
  using rd_mono [of 0 x] rd_int [of 0] by simp

lemma rd_scaled:
  assumes "0 \<le> u" and "u \<le> 1" and "0 \<le> n" and "n \<le> 2 ^ 53"
  shows "\<exists>r. rd (u * of_int n) = Fin r \<and> 0 \<le> r \<and> r \<le> of_int n"
proof -
  have "0 \<le> u * of_int n" using assms by simp
  moreover have "u * of_int n \<le> of_int n" using assms by (simp add: mult_left_le_one_le)
  ultimately show ?thesis using rd_between [of 0 "u * of_int n" n] assms by simp
qed

end

interpretation ieee: rounding rnd
  by unfold_locales (auto simp: rnd_mono rnd_of_int rnd_minus)

end
