(* ===== verification/Gate.thy ===== *)
theory Gate
  imports Prelude
begin

text \<open>
  The interface of a latching gate: a component that is polled with inputs, answers with a
  decision, remembers faults, and forgets one only when the caller names it. A caller is a
  sequence of polls and clears; a poll that raises leaves the gate as it was and produces no
  decision.
\<close>

datatype 'i gate_op = Poll 'i | Clear "string list"

fun drive ::
  "('s \<Rightarrow> 'i \<Rightarrow> ('s \<times> 'd) result) \<Rightarrow> (string list \<Rightarrow> 's \<Rightarrow> 's) \<Rightarrow> 's \<Rightarrow> 'i gate_op list
     \<Rightarrow> 's \<times> 'd list" where
  "drive step clear s [] = (s, [])"
| "drive step clear s (Poll i # ops) =
     (case step s i of
        Inl e \<Rightarrow> drive step clear s ops
      | Inr (s', d) \<Rightarrow> (let (t, ds) = drive step clear s' ops in (t, d # ds)))"
| "drive step clear s (Clear fs # ops) = drive step clear (clear fs s) ops"

lemma drive_invariant:
  assumes "P s" and "\<And>s i s' d. P s \<Longrightarrow> step s i = Inr (s', d) \<Longrightarrow> P s'"
    and "\<And>s fs. P s \<Longrightarrow> P (clear fs s)"
  shows "P (fst (drive step clear s ops))"
  using assms(1)
proof (induction ops arbitrary: s)
  case Nil
  then show ?case by simp
next
  case (Cons op ops)
  show ?case
  proof (cases op)
    case (Poll i)
    show ?thesis
    proof (cases "step s i")
      case (Inl e)
      with Poll Cons show ?thesis by simp
    next
      case (Inr sd)
      then have "P (fst sd)" using Cons.prems assms(2) [of s i "fst sd" "snd sd"] by simp
      from Cons.IH [OF this] Poll Inr show ?thesis by (auto split: prod.splits)
    qed
  next
    case (Clear fs)
    with Cons assms(3) show ?thesis by simp
  qed
qed

locale latching_gate =
  fixes step :: "'s \<Rightarrow> 'i \<Rightarrow> ('s \<times> 'd) result"
    and clear :: "string list \<Rightarrow> 's \<Rightarrow> 's"
    and faults :: "'s \<Rightarrow> string set"
    and permitted :: "'d \<Rightarrow> bool"
  assumes step_latches: "step s i = Inr (s', d) \<Longrightarrow> faults s \<subseteq> faults s'"
    and permitted_clean: "step s i = Inr (s', d) \<Longrightarrow> permitted d \<Longrightarrow> faults s' = {}"
    and clear_named: "faults s - set fs \<subseteq> faults (clear fs s)"
begin

lemma drive_latched:
  assumes "f \<in> faults s" and "\<forall>fs. Clear fs \<in> set ops \<longrightarrow> f \<notin> set fs"
  shows "f \<in> faults (fst (drive step clear s ops)) \<and>
    (\<forall>d \<in> set (snd (drive step clear s ops)). \<not> permitted d)"
  using assms
proof (induction ops arbitrary: s)
  case Nil
  then show ?case by simp
next
  case (Cons op ops)
  show ?case
  proof (cases op)
    case (Poll i)
    show ?thesis
    proof (cases "step s i")
      case (Inl e)
      with Cons Poll show ?thesis by simp
    next
      case (Inr sd)
      obtain s' d where sd: "sd = (s', d)" by (cases sd)
      from Inr sd Cons.prems(1) have "f \<in> faults s'" using step_latches by blast
      moreover from this Inr sd have "\<not> permitted d" using permitted_clean by blast
      ultimately show ?thesis
        using Cons.IH [of s'] Cons.prems(2) Poll Inr sd by (auto split: prod.splits)
    qed
  next
    case (Clear fs)
    with Cons.prems have "f \<in> faults (clear fs s)" using clear_named by fastforce
    with Cons Clear show ?thesis by simp
  qed
qed

end

end
