(* ===== verification/Safety.thy ===== *)
theory Safety
  imports PyFloat Gate
begin

text \<open>
  The runtime safety supervisor (\<open>safety.py\<close>): the gate every hardware transmission passes.
  \<open>evaluate\<close> is one call of \<open>SafetySupervisor.evaluate\<close>, \<open>clear_latched_faults\<close> the
  explicit clear; the supervisor's mutable state is its set of latched faults.
\<close>

section \<open>State and inputs\<close>

datatype runtime_mode = DRY_RUN | SHADOW | ARMED

fun mode_value :: "runtime_mode \<Rightarrow> string" where
  "mode_value DRY_RUN = ''dry_run''"
| "mode_value SHADOW = ''shadow''"
| "mode_value ARMED = ''armed''"

record safety_state =
  ss_allow_hardware_tx :: bool
  ss_hardware_configured :: bool
  ss_left_ankle_calibrated :: bool
  ss_right_ankle_calibrated :: bool
  ss_head_differential_calibrated :: bool
  ss_imu_valid :: bool
  ss_estop_healthy :: bool
  ss_state_fresh :: bool
  ss_motor_telemetry_healthy :: bool

definition not_ready :: "(string \<times> bool) list \<Rightarrow> string list" where
  "not_ready checks = map fst (filter (\<lambda>(name, ready). \<not> ready) checks)"

definition state_blockers :: "safety_state \<Rightarrow> string list" where
  "state_blockers s = not_ready
     [(''allow_hardware_tx'', ss_allow_hardware_tx s),
      (''hardware_configured'', ss_hardware_configured s),
      (''left_ankle_calibrated'', ss_left_ankle_calibrated s),
      (''right_ankle_calibrated'', ss_right_ankle_calibrated s),
      (''head_differential_calibrated'', ss_head_differential_calibrated s),
      (''imu_valid'', ss_imu_valid s),
      (''estop_healthy'', ss_estop_healthy s),
      (''state_fresh'', ss_state_fresh s),
      (''motor_telemetry_healthy'', ss_motor_telemetry_healthy s)]"

definition require_armed :: "safety_state \<Rightarrow> unit result" where
  "require_armed s =
     (let blockers = state_blockers s in
      if blockers \<noteq> []
      then Inl (RuntimeError (''hardware arm blocked by: '' @ join '', '' blockers))
      else Inr ())"

record safety_limits =
  maximum_state_age_ms :: pyfloat
  maximum_command_age_ms :: pyfloat
  maximum_policy_overrun_ms :: pyfloat

definition default_limits :: safety_limits where
  "default_limits = \<lparr>maximum_state_age_ms = Fin 6, maximum_command_age_ms = Fin 100,
     maximum_policy_overrun_ms = Fin 2\<rparr>"

definition validate_limits :: "safety_limits \<Rightarrow> unit result" where
  "validate_limits l =
     (if fle (maximum_state_age_ms l) (Fin 0)
      then Inl (ValueError ''maximum_state_age_ms must be positive'')
      else if fle (maximum_command_age_ms l) (Fin 0)
      then Inl (ValueError ''maximum_command_age_ms must be positive'')
      else if fle (maximum_policy_overrun_ms l) (Fin 0)
      then Inl (ValueError ''maximum_policy_overrun_ms must be positive'')
      else Inr ())"

record safety_inputs =
  now_ns :: int
  state_timestamp_ns :: int
  command_timestamp_ns :: int
  policy_overrun_ms :: pyfloat
  allow_hardware_tx :: bool
  hardware_configured :: bool
  left_ankle_calibrated :: bool
  right_ankle_calibrated :: bool
  head_differential_calibrated :: bool
  imu_valid :: bool
  estop_healthy :: bool
  motor_telemetry_healthy :: bool
  command_envelope_healthy :: bool

record safety_decision =
  d_mode :: runtime_mode
  hardware_tx_permitted :: bool
  safe_hold_required :: bool
  blockers :: "string list"
  d_latched_faults :: "string list"
  state_age_ms :: pyfloat
  command_age_ms :: pyfloat

record safety_supervisor =
  sv_mode :: runtime_mode
  sv_limits :: safety_limits
  sv_latched :: "string list"

section \<open>The supervisor\<close>

definition latching_faults :: "string list" where
  "latching_faults =
     [''estop_unhealthy'', ''state_stale'', ''policy_overrun'', ''motor_limit'', ''command_limit'']"

definition new_supervisor :: "runtime_mode \<Rightarrow> safety_limits \<Rightarrow> safety_supervisor result" where
  "new_supervisor mode limits =
     rbind (validate_limits limits) (\<lambda>_.
       Inr \<lparr>sv_mode = mode, sv_limits = limits, sv_latched = []\<rparr>)"

definition latched_faults :: "safety_supervisor \<Rightarrow> string list" where
  "latched_faults sv = sorted_set (sv_latched sv)"

definition clear_latched_faults :: "string list \<Rightarrow> safety_supervisor \<Rightarrow> safety_supervisor" where
  "clear_latched_faults healthy sv =
     sv\<lparr>sv_latched := filter (\<lambda>f. \<not> (f \<in> set healthy \<and> f \<in> set latching_faults)) (sv_latched sv)\<rparr>"

definition age_ms :: "int \<Rightarrow> int \<Rightarrow> pyfloat result" where
  "age_ms now ts = rbind (float_of_int (now - ts)) (\<lambda>d. fdiv d (Fin 1000000))"

definition dynamic_checks ::
  "safety_limits \<Rightarrow> safety_inputs \<Rightarrow> pyfloat \<Rightarrow> pyfloat \<Rightarrow> (string \<times> bool) list" where
  "dynamic_checks l i state_age command_age =
     [(''allow_hardware_tx'', allow_hardware_tx i),
      (''hardware_configured'', hardware_configured i),
      (''left_ankle_calibrated'', left_ankle_calibrated i),
      (''right_ankle_calibrated'', right_ankle_calibrated i),
      (''head_differential_calibrated'', head_differential_calibrated i),
      (''imu_invalid'', imu_valid i),
      (''estop_unhealthy'', estop_healthy i),
      (''motor_limit'', motor_telemetry_healthy i),
      (''command_limit'', command_envelope_healthy i),
      (''state_stale'', fle state_age (maximum_state_age_ms l)),
      (''command_stale'', fle command_age (maximum_command_age_ms l)),
      (''policy_overrun'', fle (policy_overrun_ms i) (maximum_policy_overrun_ms l))]"

text \<open>The latched set is kept as a list without repetitions, in the order of latching.\<close>

definition evaluate ::
  "safety_supervisor \<Rightarrow> safety_inputs \<Rightarrow> (safety_supervisor \<times> safety_decision) result" where
  "evaluate sv i =
     (if now_ns i < state_timestamp_ns i \<or> now_ns i < command_timestamp_ns i
      then Inl (ValueError ''timestamps cannot be in the future'')
      else rbind (age_ms (now_ns i) (state_timestamp_ns i)) (\<lambda>state_age.
        rbind (age_ms (now_ns i) (command_timestamp_ns i)) (\<lambda>command_age.
          let dynamic = not_ready (dynamic_checks (sv_limits sv) i state_age command_age);
              latched = List.union (filter (\<lambda>f. f \<in> set latching_faults) dynamic) (sv_latched sv);
              sv' = sv\<lparr>sv_latched := latched\<rparr>;
              mode_blockers = (if sv_mode sv \<noteq> ARMED
                then [''mode_'' @ mode_value (sv_mode sv) @ ''_no_tx''] else []);
              all_blockers = dynamic @ latched @ mode_blockers;
              permitted = (sv_mode sv = ARMED \<and> all_blockers = [])
          in Inr (sv', \<lparr>d_mode = sv_mode sv,
               hardware_tx_permitted = permitted,
               safe_hold_required = \<not> permitted,
               blockers = sorted_set all_blockers,
               d_latched_faults = latched_faults sv',
               state_age_ms = state_age,
               command_age_ms = command_age\<rparr>))))"

section \<open>Ages in milliseconds\<close>

lemma float_of_int_mono:
  "m \<le> n \<Longrightarrow> float_of_int m = Inr x \<Longrightarrow> float_of_int n = Inr y \<Longrightarrow> fle x y"
  using rnd_mono [of "of_int m" "of_int n"]
  by (auto simp: float_of_int_def split: pyfloat.splits)

lemma float_of_int_exact: "\<bar>n\<bar> \<le> 2 ^ 53 \<Longrightarrow> float_of_int n = Inr (Fin (of_int n))"
  by (simp add: float_of_int_def rnd_of_int)

lemma float_of_int_Fin: "float_of_int n = Inr x \<Longrightarrow> \<exists>r. x = Fin r"
  by (cases "rnd (of_int n)") (auto simp: float_of_int_def)

lemma age_ms_mono:
  assumes "now - ts \<le> now' - ts'" and "age_ms now ts = Inr a" and "age_ms now' ts' = Inr b"
  shows "fle a b"
proof -
  from assms(2,3) obtain x y where
    x: "float_of_int (now - ts) = Inr x" "fdiv x (Fin 1000000) = Inr a" and
    y: "float_of_int (now' - ts') = Inr y" "fdiv y (Fin 1000000) = Inr b"
    by (auto simp: age_ms_def rbind_eq_Inr)
  from x y obtain r s where "x = Fin r" "y = Fin s"
    using float_of_int_Fin by blast
  with x y float_of_int_mono [OF assms(1) x(1) y(1)] show ?thesis
    by (auto intro!: rnd_mono divide_right_mono)
qed

lemma age_ms_exact:
  "\<bar>n\<bar> \<le> 2 ^ 53 \<Longrightarrow> age_ms n 0 = Inr (rnd (of_int n / 1000000))"
  by (simp add: age_ms_def float_of_int_exact)

text \<open>
  An age passes a bound of \<open>k\<close> milliseconds exactly when the nanosecond difference does, when one
  nanosecond past the bound survives rounding.
\<close>

lemma age_ms_bound:
  assumes "age_ms now ts = Inr a" and "0 \<le> k" and "k \<le> 1000000000"
    and "\<not> fle (rnd (of_int (k * 1000000 + 1) / 1000000)) (Fin (of_int k))"
  shows "fle a (Fin (of_int k)) \<longleftrightarrow> now - ts \<le> k * 1000000"
proof
  assume le: "fle a (Fin (of_int k))"
  show "now - ts \<le> k * 1000000"
  proof (rule ccontr)
    assume "\<not> now - ts \<le> k * 1000000"
    then have "k * 1000000 + 1 - 0 \<le> now - ts" by simp
    from age_ms_mono [OF this age_ms_exact assms(1)] assms(2,3)
    have "fle (rnd (of_int (k * 1000000 + 1) / 1000000)) a" by simp
    with le assms(4) show False by (blast dest: fle_trans)
  qed
next
  assume "now - ts \<le> k * 1000000"
  then have "now - ts \<le> k * 1000000 - 0" by simp
  from age_ms_mono [OF this assms(1) age_ms_exact] assms(2,3) show "fle a (Fin (of_int k))"
    using rnd_of_int [of k] by simp
qed

lemma age_ms_6: "age_ms now ts = Inr a \<Longrightarrow> fle a (Fin 6) \<longleftrightarrow> now - ts \<le> 6000000"
  using age_ms_bound [of now ts a 6] by (simp add: float_eval)

lemma age_ms_100: "age_ms now ts = Inr a \<Longrightarrow> fle a (Fin 100) \<longleftrightarrow> now - ts \<le> 100000000"
  using age_ms_bound [of now ts a 100] by (simp add: float_eval)

section \<open>The decision\<close>

lemma not_ready_Nil: "not_ready cs = [] \<longleftrightarrow> (\<forall>(n, r) \<in> set cs. r)"
  by (auto simp: not_ready_def filter_empty_conv)

lemma set_not_ready: "set (not_ready cs) = {n. (n, False) \<in> set cs}"
  by (auto simp: not_ready_def image_iff)

lemma evaluateE:
  assumes "evaluate sv i = Inr (sv', d)"
  obtains state_age command_age where
    "state_timestamp_ns i \<le> now_ns i" "command_timestamp_ns i \<le> now_ns i"
    "age_ms (now_ns i) (state_timestamp_ns i) = Inr state_age"
    "age_ms (now_ns i) (command_timestamp_ns i) = Inr command_age"
    "state_age_ms d = state_age" "command_age_ms d = command_age"
    "d_mode d = sv_mode sv"
    "sv' = sv\<lparr>sv_latched := sv_latched sv'\<rparr>"
    "set (sv_latched sv') = set (sv_latched sv) \<union>
       (set (not_ready (dynamic_checks (sv_limits sv) i state_age command_age)) \<inter> set latching_faults)"
    "set (blockers d) = set (not_ready (dynamic_checks (sv_limits sv) i state_age command_age))
       \<union> set (sv_latched sv')
       \<union> (if sv_mode sv \<noteq> ARMED then {''mode_'' @ mode_value (sv_mode sv) @ ''_no_tx''} else {})"
    "hardware_tx_permitted d \<longleftrightarrow> sv_mode sv = ARMED \<and> blockers d = []"
    "safe_hold_required d \<longleftrightarrow> \<not> hardware_tx_permitted d"
    "d_latched_faults d = sorted_set (sv_latched sv')"
proof -
  from assms obtain sa ca where ages: "\<not> now_ns i < state_timestamp_ns i"
      "\<not> now_ns i < command_timestamp_ns i"
      "age_ms (now_ns i) (state_timestamp_ns i) = Inr sa"
      "age_ms (now_ns i) (command_timestamp_ns i) = Inr ca"
    by (auto simp: evaluate_def rbind_eq_Inr split: if_splits)
  note r = assms [unfolded evaluate_def, simplified ages if_False disj_not1 simp_thms rbind_Inr Let_def]
  show ?thesis
    by (rule that [of sa ca]) (use ages r in \<open>auto simp: latched_faults_def\<close>)
qed

section \<open>What a decision says\<close>

lemma blockers_eq_Nil:
  assumes "evaluate sv i = Inr (sv', d)"
  shows "blockers d = [] \<longleftrightarrow> sv_mode sv = ARMED \<and> sv_latched sv = [] \<and>
    not_ready (dynamic_checks (sv_limits sv) i (state_age_ms d) (command_age_ms d)) = []"
  using assms
  by (elim evaluateE) (auto simp flip: set_empty split: if_splits)

lemma permitted_no_faults:
  assumes "evaluate sv i = Inr (sv', d)" and "hardware_tx_permitted d"
  shows "sv_latched sv' = []"
  using assms by (elim evaluateE) (auto simp flip: set_empty)

lemma evaluate_latches:
  "evaluate sv i = Inr (sv', d) \<Longrightarrow> set (sv_latched sv) \<subseteq> set (sv_latched sv')"
  by (elim evaluateE) auto

lemma evaluate_frame:
  "evaluate sv i = Inr (sv', d) \<Longrightarrow> sv_mode sv' = sv_mode sv \<and> sv_limits sv' = sv_limits sv"
  by (elim evaluateE) (metis safety_supervisor.select_convs(1,2) safety_supervisor.surjective
      safety_supervisor.update_convs(3))

lemma set_clear_latched:
  "set (sv_latched (clear_latched_faults fs sv)) =
     set (sv_latched sv) - (set fs \<inter> set latching_faults)"
  by (auto simp: clear_latched_faults_def)

interpretation supervisor: latching_gate evaluate clear_latched_faults
  "\<lambda>sv. set (sv_latched sv)" hardware_tx_permitted
proof
  show "set (sv_latched s) \<subseteq> set (sv_latched s')" if "evaluate s i = Inr (s', d)" for s i s' d
    using that by (rule evaluate_latches)
  show "set (sv_latched s') = {}" if "evaluate s i = Inr (s', d)" "hardware_tx_permitted d" for s i s' d
    using that by (simp add: permitted_no_faults)
  show "set (sv_latched s) - set fs \<subseteq> set (sv_latched (clear_latched_faults fs s))" for s fs
    by (auto simp: set_clear_latched)
qed

definition sv_wf :: "safety_supervisor \<Rightarrow> bool" where
  "sv_wf sv \<longleftrightarrow> set (sv_latched sv) \<subseteq> set latching_faults"

lemma evaluate_wf: "evaluate sv i = Inr (sv', d) \<Longrightarrow> sv_wf sv \<Longrightarrow> sv_wf sv'"
  by (elim evaluateE) (auto simp: sv_wf_def)

lemma clear_wf: "sv_wf sv \<Longrightarrow> sv_wf (clear_latched_faults fs sv)"
  by (auto simp: sv_wf_def set_clear_latched)

lemma drive_wf: "sv_wf sv \<Longrightarrow> sv_wf (fst (drive evaluate clear_latched_faults sv ops))"
  by (rule drive_invariant [where P = sv_wf]) (auto intro: clear_wf evaluate_wf)

lemma drive_frame:
  "sv_mode (fst (drive evaluate clear_latched_faults sv ops)) = sv_mode sv \<and>
   sv_limits (fst (drive evaluate clear_latched_faults sv ops)) = sv_limits sv"
  by (rule drive_invariant [where P = "\<lambda>s. sv_mode s = sv_mode sv \<and> sv_limits s = sv_limits sv"])
    (auto simp: clear_latched_faults_def dest: evaluate_frame)

definition healthy_inputs :: "int \<Rightarrow> safety_inputs" where
  "healthy_inputs now = \<lparr>now_ns = now, state_timestamp_ns = now - 2000000,
     command_timestamp_ns = now - 20000000, policy_overrun_ms = Fin 0, allow_hardware_tx = True,
     hardware_configured = True, left_ankle_calibrated = True, right_ankle_calibrated = True,
     head_differential_calibrated = True, imu_valid = True, estop_healthy = True,
     motor_telemetry_healthy = True, command_envelope_healthy = True\<rparr>"

definition armed_supervisor :: safety_supervisor where
  "armed_supervisor = \<lparr>sv_mode = ARMED, sv_limits = default_limits, sv_latched = []\<rparr>"

lemmas safety_eval = evaluate_def age_ms_def float_of_int_def dynamic_checks_def not_ready_def
  healthy_inputs_def armed_supervisor_def default_limits_def latching_faults_def
  sorted_set_def latched_faults_def rbind_def List.union_def

lemma healthy_evaluation:
  "\<exists>d. evaluate armed_supervisor (healthy_inputs 1000000000) = Inr (armed_supervisor, d)
    \<and> hardware_tx_permitted d"
  by (simp add: safety_eval float_eval)

lemma permitted_ages:
  assumes "evaluate sv i = Inr (sv', d)" and "hardware_tx_permitted d"
  shows "fle (state_age_ms d) (maximum_state_age_ms (sv_limits sv)) \<and>
    fle (command_age_ms d) (maximum_command_age_ms (sv_limits sv))"
proof -
  have "blockers d = []" using assms by (auto elim: evaluateE)
  then show ?thesis
    using blockers_eq_Nil [OF assms(1)] by (auto simp: not_ready_Nil dynamic_checks_def)
qed

lemma permitted_overrun:
  assumes "evaluate sv i = Inr (sv', d)" and "hardware_tx_permitted d"
  shows "fle (policy_overrun_ms i) (maximum_policy_overrun_ms (sv_limits sv))"
proof -
  have "blockers d = []" using assms by (auto elim: evaluateE)
  then show ?thesis
    using blockers_eq_Nil [OF assms(1)] by (auto simp: not_ready_Nil dynamic_checks_def)
qed

section \<open>Properties\<close>

text \<open>
  C3. Transmission is permitted exactly when the runtime is armed, nothing is latched, every
  health flag of the inputs is set, and the two ages and the policy overrun are within the
  supervisor's limits; otherwise a safe hold is required.
\<close>

theorem safety_permits_iff:
  assumes "evaluate sv i = Inr (sv', d)"
  shows "(hardware_tx_permitted d \<longleftrightarrow>
      sv_mode sv = ARMED \<and> sv_latched sv = [] \<and>
      allow_hardware_tx i \<and> hardware_configured i \<and> left_ankle_calibrated i \<and>
      right_ankle_calibrated i \<and> head_differential_calibrated i \<and> imu_valid i \<and>
      estop_healthy i \<and> motor_telemetry_healthy i \<and> command_envelope_healthy i \<and>
      fle (state_age_ms d) (maximum_state_age_ms (sv_limits sv)) \<and>
      fle (command_age_ms d) (maximum_command_age_ms (sv_limits sv)) \<and>
      fle (policy_overrun_ms i) (maximum_policy_overrun_ms (sv_limits sv)))
    \<and> safe_hold_required d = (\<not> hardware_tx_permitted d)
    \<and> hardware_tx_permitted d = (blockers d = [])"
proof -
  have "hardware_tx_permitted d \<longleftrightarrow> sv_mode sv = ARMED \<and> blockers d = []"
    and "safe_hold_required d = (\<not> hardware_tx_permitted d)"
    using assms by (auto elim: evaluateE)
  then show ?thesis
    using blockers_eq_Nil [OF assms] by (auto simp: not_ready_Nil dynamic_checks_def)
qed

theorem safety_permits_iff_witness:
  "\<exists>d. evaluate armed_supervisor (healthy_inputs 1000000000) = Inr (armed_supervisor, d) \<and>
    safe_hold_required d = False"
  using healthy_evaluation safety_permits_iff by blast

text \<open>
  With the default limits a transmission is permitted only on data that is at most 6 ms
  (state) and 100 ms (command) old, to the nanosecond: the rounding of the age computation never
  admits an older sample.
\<close>

theorem safety_permits_only_fresh:
  assumes "evaluate sv i = Inr (sv', d)" and "sv_limits sv = default_limits"
    and "hardware_tx_permitted d"
  shows "0 \<le> now_ns i - state_timestamp_ns i \<and> now_ns i - state_timestamp_ns i \<le> 6000000 \<and>
    0 \<le> now_ns i - command_timestamp_ns i \<and> now_ns i - command_timestamp_ns i \<le> 100000000"
  using assms(1)
proof (rule evaluateE)
  fix sa ca
  assume ages: "age_ms (now_ns i) (state_timestamp_ns i) = Inr sa"
      "age_ms (now_ns i) (command_timestamp_ns i) = Inr ca"
    and d: "state_age_ms d = sa" "command_age_ms d = ca"
    and order: "state_timestamp_ns i \<le> now_ns i" "command_timestamp_ns i \<le> now_ns i"
  have "fle sa (Fin 6)" "fle ca (Fin 100)"
    using permitted_ages [OF assms(1,3)] assms(2) d by (simp_all add: default_limits_def)
  with ages order show ?thesis by (simp add: age_ms_6 age_ms_100)
qed

theorem safety_permits_only_fresh_witness:
  "now_ns (healthy_inputs 1000000000) - state_timestamp_ns (healthy_inputs 1000000000) \<le> 6000000"
proof -
  obtain d where "evaluate armed_supervisor (healthy_inputs 1000000000) = Inr (armed_supervisor, d)"
    "hardware_tx_permitted d"
    using healthy_evaluation by blast
  from safety_permits_only_fresh [OF this(1) _ this(2)] show ?thesis
    by (simp add: armed_supervisor_def)
qed

lemma blocking_fault_latched:
  assumes "evaluate sv i = Inr (sv', d)" and "f \<in> set (blockers d)" and "f \<in> set latching_faults"
  shows "f \<in> set (sv_latched sv')"
proof -
  have "f \<noteq> ''mode_'' @ mode_value m @ ''_no_tx''" for m
    using assms(3) by (cases m) (auto simp: latching_faults_def)
  with assms show ?thesis by (elim evaluateE) (auto split: if_splits)
qed

text \<open>
  C4. Once an evaluation reports a latching fault (emergency stop, stale state, policy overrun,
  motor or command limit), no later evaluation permits transmission, however healthy its inputs,
  until the caller clears that fault by name.
\<close>

theorem safety_fault_blocks_until_cleared:
  assumes "evaluate sv i = Inr (sv1, d1)" and "f \<in> set (blockers d1)" and "f \<in> set latching_faults"
    and "\<forall>fs. Clear fs \<in> set ops \<longrightarrow> f \<notin> set fs"
  shows "f \<in> set (sv_latched (fst (drive evaluate clear_latched_faults sv (Poll i # ops)))) \<and>
    (\<forall>d \<in> set (snd (drive evaluate clear_latched_faults sv (Poll i # ops))). \<not> hardware_tx_permitted d)"
proof -
  have "\<not> hardware_tx_permitted d1"
    using assms(1,2) by (auto elim!: evaluateE)
  moreover have "f \<in> set (sv_latched sv1)"
    using assms by (auto intro: blocking_fault_latched)
  ultimately show ?thesis
    using supervisor.drive_latched [of f sv1 ops] assms(1,4) by (auto split: prod.splits)
qed

theorem safety_fault_blocks_until_cleared_witness:
  "list_all (\<lambda>d. hardware_tx_permitted d = False)
    (snd (drive evaluate clear_latched_faults armed_supervisor
      [Poll ((healthy_inputs 1000000000)\<lparr>estop_healthy := False\<rparr>),
       Clear [''state_stale''], Poll (healthy_inputs 1000000000)]))"
proof -
  have "\<exists>sv1 d1. evaluate armed_supervisor ((healthy_inputs 1000000000)\<lparr>estop_healthy := False\<rparr>)
      = Inr (sv1, d1) \<and> ''estop_unhealthy'' \<in> set (blockers d1)"
    by (simp add: safety_eval float_eval)
  then obtain sv1 d1 where "evaluate armed_supervisor
      ((healthy_inputs 1000000000)\<lparr>estop_healthy := False\<rparr>) = Inr (sv1, d1)"
      "''estop_unhealthy'' \<in> set (blockers d1)"
    by blast
  from safety_fault_blocks_until_cleared [OF this,
      of "[Clear [''state_stale''], Poll (healthy_inputs 1000000000)]"]
  show ?thesis by (auto simp: latching_faults_def list_all_iff)
qed

text \<open>
  A supervisor that was built from validated limits and driven through any sequence of
  evaluations and clears latches only the five declared faults, keeps its mode and limits, and
  permits transmission only when all three limits are positive numbers: a NaN limit passes
  \<open>validate\<close> but then blocks every transmission.
\<close>

theorem safety_reachable_permits_positive_limits:
  assumes "new_supervisor mode limits = Inr sv0"
    and "sv = fst (drive evaluate clear_latched_faults sv0 ops)"
    and "evaluate sv i = Inr (sv', d)"
  shows "set (sv_latched sv') \<subseteq> set latching_faults \<and> d_mode d = mode \<and>
    (hardware_tx_permitted d \<longrightarrow> flt (Fin 0) (maximum_state_age_ms limits) \<and>
       flt (Fin 0) (maximum_command_age_ms limits) \<and> flt (Fin 0) (maximum_policy_overrun_ms limits))"
proof -
  have sv0: "sv0 = \<lparr>sv_mode = mode, sv_limits = limits, sv_latched = []\<rparr>"
    and val: "validate_limits limits = Inr ()"
    using assms(1) by (auto simp: new_supervisor_def rbind_eq_Inr)
  have frame: "sv_mode sv = mode \<and> sv_limits sv = limits"
    using drive_frame [of sv0 ops] by (simp add: assms(2) sv0)
  have "sv_wf sv'" using evaluate_wf [OF assms(3)] drive_wf [of sv0 ops] assms(2)
    by (simp add: sv0 sv_wf_def)
  moreover have "d_mode d = mode" using assms(3) frame by (auto elim: evaluateE)
  moreover have "hardware_tx_permitted d \<Longrightarrow> fle (state_age_ms d) (maximum_state_age_ms limits) \<and>
      fle (command_age_ms d) (maximum_command_age_ms limits) \<and>
      fle (policy_overrun_ms i) (maximum_policy_overrun_ms limits)"
    using permitted_ages [OF assms(3)] permitted_overrun [OF assms(3)] frame by simp
  ultimately show ?thesis
    using val by (auto simp: validate_limits_def sv_wf_def fle_NaN not_fle split: if_splits)
qed

theorem safety_reachable_permits_positive_limits_witness:
  "flt (Fin 0) (maximum_state_age_ms default_limits)"
proof -
  have new: "new_supervisor ARMED default_limits = Inr armed_supervisor"
    by (simp add: new_supervisor_def validate_limits_def default_limits_def armed_supervisor_def)
  obtain d where d: "evaluate armed_supervisor (healthy_inputs 1000000000) = Inr (armed_supervisor, d)"
    "hardware_tx_permitted d"
    using healthy_evaluation by blast
  from safety_reachable_permits_positive_limits [OF new _ d(1), of "[]"] d(2) show ?thesis
    by simp
qed

end
