(* ===== verification/Telemetry.thy ===== *)
theory Telemetry
  imports PyFloat
begin

text \<open>
  Checks on measured motor state (\<open>telemetry.py\<close>). numpy is not part of the repository: its
  element-by-element tests on float64 are the scalar IEEE operations on lists, and
  \<open>np.interp\<close> is the parameter \<open>interp\<close> of the definitions that call it.
\<close>

section \<open>Limits\<close>

type_synonym interp = "pyfloat \<Rightarrow> pyfloat list \<Rightarrow> pyfloat list \<Rightarrow> pyfloat"

record motor_limits =
  hard_position_rad :: "pyfloat \<times> pyfloat"
  maximum_speed_rad_s :: pyfloat
  peak_torque_nm :: pyfloat
  peak_current_a :: pyfloat
  maximum_temperature_c :: pyfloat
  torque_speed_envelope :: "(pyfloat \<times> pyfloat) list"

definition limit_scalars :: "motor_limits \<Rightarrow> pyfloat list" where
  "limit_scalars l =
     [fst (hard_position_rad l), snd (hard_position_rad l), maximum_speed_rad_s l,
      peak_torque_nm l, peak_current_a l, maximum_temperature_c l]"

fun diffs :: "pyfloat list \<Rightarrow> pyfloat list" where
  "diffs (x # y # zs) = fsub y x # diffs (y # zs)"
| "diffs _ = []"

definition fmin_list :: "pyfloat list \<Rightarrow> pyfloat" where
  "fmin_list xs = foldl fmin (hd xs) (tl xs)"

definition limits_validate :: "motor_limits \<Rightarrow> unit result" where
  "limits_validate l =
     (let (low, high) = hard_position_rad l;
          scalars = limit_scalars l;
          points = torque_speed_envelope l;
          speeds = map fst points; torques = map snd points
      in
      if \<not> list_all isfinite scalars \<or> fle high low
      then Inl (ValueError ''motor telemetry limits must be finite with lower < upper'')
      else if fle (fmin_list (drop 2 scalars)) (Fin 0)
      then Inl (ValueError ''speed, torque, current, and temperature limits must be positive'')
      else if length points < 2
      then Inl (ValueError ''torque-speed envelope requires at least two [speed, torque] points'')
      else if \<not> list_all isfinite (speeds @ torques) \<or> list_ex (\<lambda>x. flt x (Fin 0)) (speeds @ torques)
      then Inl (ValueError ''torque-speed envelope points must be finite and non-negative'')
      else if list_ex (\<lambda>d. fle d (Fin 0)) (diffs speeds)
      then Inl (ValueError ''torque-speed envelope speeds must be strictly increasing'')
      else if list_ex (\<lambda>d. flt (Fin 0) d) (diffs torques)
      then Inl (ValueError ''torque-speed envelope torque must be non-increasing'')
      else if flt (maximum_speed_rad_s l) (last speeds)
      then Inl (ValueError ''torque-speed envelope exceeds maximum speed'')
      else if flt (peak_torque_nm l) (hd torques)
      then Inl (ValueError ''torque-speed envelope exceeds peak torque'')
      else Inr ())"

definition torque_limit_at_speed :: "interp \<Rightarrow> motor_limits \<Rightarrow> pyfloat \<Rightarrow> pyfloat result" where
  "torque_limit_at_speed interp l speed_rad_s =
     rbind (limits_validate l) (\<lambda>_.
       let speed = fabs speed_rad_s; points = torque_speed_envelope l in
       if flt (fst (last points)) speed then Inr (Fin 0)
       else Inr (interp speed (map fst points) (map snd points)))"

section \<open>One motor\<close>

record motor_telemetry =
  position_rad :: pyfloat
  velocity_rad_s :: pyfloat
  torque_nm :: pyfloat
  current_a :: pyfloat
  temperature_c :: pyfloat

record telemetry_decision =
  td_healthy :: bool
  td_violations :: "string list"
  td_margins :: "(string, pyfloat) dict"

definition telemetry_values :: "motor_telemetry \<Rightarrow> pyfloat list" where
  "telemetry_values s =
     [position_rad s, velocity_rad_s s, torque_nm s, current_a s, temperature_c s]"

definition telemetry_margins ::
  "motor_telemetry \<Rightarrow> motor_limits \<Rightarrow> pyfloat \<Rightarrow> (string, pyfloat) dict" where
  "telemetry_margins s l envelope_torque =
     (let (low, high) = hard_position_rad l;
          speed = fabs (velocity_rad_s s); torque = fabs (torque_nm s); current = fabs (current_a s)
      in [(''position_lower_rad'', fsub (position_rad s) low),
          (''position_upper_rad'', fsub high (position_rad s)),
          (''speed_rad_s'', fsub (maximum_speed_rad_s l) speed),
          (''peak_torque_nm'', fsub (peak_torque_nm l) torque),
          (''torque_speed_nm'', fsub envelope_torque torque),
          (''peak_current_a'', fsub (peak_current_a l) current),
          (''temperature_c'', fsub (maximum_temperature_c l) (temperature_c s))])"

definition evaluate_motor_telemetry ::
  "interp \<Rightarrow> motor_telemetry \<Rightarrow> motor_limits \<Rightarrow> telemetry_decision result" where
  "evaluate_motor_telemetry interp s l =
     rbind (limits_validate l) (\<lambda>_.
       if \<not> list_all isfinite (telemetry_values s)
       then Inr \<lparr>td_healthy = False, td_violations = [''nonfinite''], td_margins = []\<rparr>
       else rbind (torque_limit_at_speed interp l (fabs (velocity_rad_s s))) (\<lambda>envelope_torque.
         let margins = telemetry_margins s l envelope_torque;
             violations = map fst (filter (\<lambda>(_, m). flt m (Fin 0)) margins)
         in Inr \<lparr>td_healthy = (violations = []), td_violations = violations,
                 td_margins = margins\<rparr>))"

section \<open>The motor bank\<close>

record bank_report =
  br_healthy :: bool
  expected_motor_count :: nat
  received_motor_count :: nat
  missing_motors :: "string list"
  extra_motors :: "string list"
  missing_limits :: "string list"
  unhealthy_motors :: "string list"
  decisions :: "(string, telemetry_decision) dict"

definition names_without :: "string list \<Rightarrow> string list \<Rightarrow> string list" where
  "names_without xs ys = sorted_set (filter (\<lambda>x. x \<notin> set ys) xs)"

fun bank_decisions ::
  "interp \<Rightarrow> (string, motor_telemetry) dict \<Rightarrow> (string, motor_limits) dict \<Rightarrow> string list
     \<Rightarrow> (string, telemetry_decision) dict \<Rightarrow> (string, telemetry_decision) dict result" where
  "bank_decisions interp samples limits [] ds = Inr ds"
| "bank_decisions interp samples limits (name # names) ds =
     (case (map_of samples name, map_of limits name) of
        (Some s, Some l) \<Rightarrow>
          rbind (evaluate_motor_telemetry interp s l) (\<lambda>d.
            bank_decisions interp samples limits names (dict_set ds name d))
      | _ \<Rightarrow> bank_decisions interp samples limits names ds)"

definition evaluate_motor_bank ::
  "interp \<Rightarrow> (string, motor_telemetry) dict \<Rightarrow> (string, motor_limits) dict \<Rightarrow> string list
     \<Rightarrow> bank_report result" where
  "evaluate_motor_bank interp samples limits expected =
     (let missing = names_without expected (keys samples);
          extra = names_without (keys samples) expected;
          no_limits = names_without expected (keys limits)
      in rbind (bank_decisions interp samples limits expected []) (\<lambda>ds.
        let unhealthy = sorted_set (map fst (filter (\<lambda>(_, d). \<not> td_healthy d) ds)) in
        Inr \<lparr>br_healthy = (missing = [] \<and> extra = [] \<and> no_limits = [] \<and> unhealthy = []),
             expected_motor_count = length expected,
             received_motor_count = length samples,
             missing_motors = missing,
             extra_motors = extra,
             missing_limits = no_limits,
             unhealthy_motors = unhealthy,
             decisions = ds\<rparr>))"

section \<open>Decisions\<close>

definition double_sample :: "motor_telemetry \<Rightarrow> bool" where
  "double_sample s \<longleftrightarrow> list_all (\<lambda>x. is_double x \<and> isfinite x) (telemetry_values s)"

definition double_limits :: "motor_limits \<Rightarrow> bool" where
  "double_limits l \<longleftrightarrow> list_all (\<lambda>x. is_double x \<and> isfinite x) (limit_scalars l)"

text \<open>The exact, unrounded meaning of a healthy motor.\<close>

definition within_limits :: "motor_telemetry \<Rightarrow> motor_limits \<Rightarrow> pyfloat \<Rightarrow> bool" where
  "within_limits s l envelope \<longleftrightarrow>
     fle (fst (hard_position_rad l)) (position_rad s) \<and>
     fle (position_rad s) (snd (hard_position_rad l)) \<and>
     fle (fabs (velocity_rad_s s)) (maximum_speed_rad_s l) \<and>
     fle (fabs (torque_nm s)) (peak_torque_nm l) \<and>
     fle (fabs (torque_nm s)) envelope \<and>
     fle (fabs (current_a s)) (peak_current_a l) \<and>
     fle (temperature_c s) (maximum_temperature_c l)"

lemma margin_neg:
  assumes "is_double a" and "isfinite a" and "is_double b" and "isfinite b"
  shows "flt (fsub b a) (Fin 0) \<longleftrightarrow> \<not> fle a b"
  using assms fsub_neg_iff by (auto simp: isfinite_iff)

lemma double_fabs:
  "is_double a \<Longrightarrow> isfinite a \<Longrightarrow> is_double (fabs a)"
  "isfinite a \<Longrightarrow> isfinite (fabs a)"
  by (auto simp: isfinite_iff is_double_abs)

lemma margins_within_limits:
  assumes "double_sample s" and "double_limits l" and "is_double e" and "isfinite e"
  shows "filter (\<lambda>(_, m). flt m (Fin 0)) (telemetry_margins s l e) = [] \<longleftrightarrow> within_limits s l e"
  using assms
  by (simp add: telemetry_margins_def within_limits_def double_sample_def double_limits_def
      telemetry_values_def limit_scalars_def filter_empty_conv margin_neg double_fabs split_beta
      Let_def)

lemma telemetry_decides:
  assumes "evaluate_motor_telemetry interp s l = Inr d" and "list_all isfinite (telemetry_values s)"
  obtains e where "torque_limit_at_speed interp l (fabs (velocity_rad_s s)) = Inr e"
    "td_healthy d \<longleftrightarrow> filter (\<lambda>(_, m). flt m (Fin 0)) (telemetry_margins s l e) = []"
  using assms by (auto simp: evaluate_motor_telemetry_def rbind_eq_Inr Let_def)

lemma nonfinite_unhealthy:
  "evaluate_motor_telemetry interp s l = Inr d \<Longrightarrow> td_healthy d \<Longrightarrow>
    list_all isfinite (telemetry_values s)"
  by (auto simp: evaluate_motor_telemetry_def rbind_eq_Inr split: if_splits)

lemma bank_decisions_spec:
  assumes "bank_decisions interp samples limits names ds = Inr ds'"
  shows "map_of ds' n = (case (map_of samples n, map_of limits n) of
      (Some s, Some l) \<Rightarrow>
        if n \<in> set names then Some (projr (evaluate_motor_telemetry interp s l)) else map_of ds n
    | _ \<Rightarrow> map_of ds n)"
  using assms
proof (induction names arbitrary: ds)
  case Nil
  then show ?case by (auto split: option.splits)
next
  case (Cons name names)
  show ?case
  proof (cases "map_of samples name = None \<or> map_of limits name = None")
    case True
    with Cons.prems have "bank_decisions interp samples limits names ds = Inr ds'"
      by (auto split: option.splits)
    from Cons.IH [OF this] True show ?thesis by (auto split: option.splits)
  next
    case False
    then obtain s l where sl: "map_of samples name = Some s" "map_of limits name = Some l" by auto
    with Cons.prems obtain d where d: "evaluate_motor_telemetry interp s l = Inr d"
      "bank_decisions interp samples limits names (dict_set ds name d) = Inr ds'"
      by (auto simp: rbind_eq_Inr)
    from Cons.IH [OF d(2)] d(1) sl show ?thesis by (auto split: option.splits)
  qed
qed

lemma bank_decisions_returns:
  assumes "bank_decisions interp samples limits names ds = Inr ds'" and "n \<in> set names"
    and "map_of samples n = Some s" and "map_of limits n = Some l"
  shows "\<exists>d. evaluate_motor_telemetry interp s l = Inr d"
  using assms
proof (induction names arbitrary: ds)
  case Nil
  then show ?case by simp
next
  case (Cons name names)
  then show ?case
    by (cases "n = name") (auto simp: rbind_eq_Inr split: option.splits)
qed

lemma bank_decisions_distinct:
  "bank_decisions interp samples limits names ds = Inr ds' \<Longrightarrow> distinct (keys ds) \<Longrightarrow>
    distinct (keys ds')"
  by (induction names arbitrary: ds)
    (auto simp: rbind_eq_Inr distinct_keys_dict_set split: option.splits)

lemma names_without_Nil: "names_without xs ys = [] \<longleftrightarrow> set xs \<subseteq> set ys"
  by (auto simp: names_without_def filter_empty_conv)

section \<open>Properties\<close>

text \<open>
  C13. For measured values and limits that are finite doubles, a motor is healthy exactly when
  every exact inequality holds: the rounding of the reported margins never hides a violation and
  never invents one.
\<close>

theorem telemetry_healthy_exact:
  assumes "evaluate_motor_telemetry interp s l = Inr d"
    and "double_sample s" and "double_limits l"
    and "torque_limit_at_speed interp l (fabs (velocity_rad_s s)) = Inr e"
    and "is_double e" and "isfinite e"
  shows "td_healthy d \<longleftrightarrow> within_limits s l e"
proof -
  have "list_all isfinite (telemetry_values s)"
    using assms(2) by (auto simp: double_sample_def list_all_iff)
  from telemetry_decides [OF assms(1) this] assms(4)
  have "td_healthy d \<longleftrightarrow> filter (\<lambda>(_, m). flt m (Fin 0)) (telemetry_margins s l e) = []"
    by auto
  then show ?thesis using margins_within_limits [OF assms(2,3,5,6)] by simp
qed

definition sample_limits :: motor_limits where
  "sample_limits = \<lparr>hard_position_rad = (Fin (- 1), Fin 1), maximum_speed_rad_s = Fin 10,
     peak_torque_nm = Fin 5, peak_current_a = Fin 20, maximum_temperature_c = Fin 80,
     torque_speed_envelope = [(Fin 0, Fin 5), (Fin 10, Fin 0)]\<rparr>"

definition sample_motor :: "pyfloat \<Rightarrow> motor_telemetry" where
  "sample_motor temperature = \<lparr>position_rad = Fin (1 / 2), velocity_rad_s = Fin 2, torque_nm = Fin 1,
     current_a = Fin 1, temperature_c = temperature\<rparr>"

lemma sample_limits_valid: "limits_validate sample_limits = Inr ()"
  by (simp add: limits_validate_def sample_limits_def limit_scalars_def fmin_list_def fmin_def
      fsub_def rnd_of_int [of 10, simplified] rnd_of_int [of "- 5", simplified])

lemma sample_torque_limit:
  "torque_limit_at_speed (\<lambda>_ _ _. Fin 4) sample_limits (fabs (velocity_rad_s (sample_motor t))) = Inr (Fin 4)"
  by (simp add: torque_limit_at_speed_def sample_limits_valid)
    (simp add: sample_limits_def sample_motor_def)

lemma sample_doubles: "double_sample (sample_motor (Fin 90))" "double_limits sample_limits"
  "is_double (Fin 4)"
  by (simp_all add: double_sample_def double_limits_def sample_motor_def sample_limits_def
      telemetry_values_def limit_scalars_def is_double_def float_eval)

lemma sample_finite: "list_all isfinite (telemetry_values (sample_motor (Fin t)))"
  by (simp add: telemetry_values_def sample_motor_def)

theorem telemetry_healthy_exact_witness:
  "\<exists>d. evaluate_motor_telemetry (\<lambda>_ _ _. Fin 4) (sample_motor (Fin 90)) sample_limits = Inr d \<and>
    td_healthy d = False"
proof -
  obtain d where d: "evaluate_motor_telemetry (\<lambda>_ _ _. Fin 4) (sample_motor (Fin 90)) sample_limits = Inr d"
    by (simp add: evaluate_motor_telemetry_def sample_limits_valid sample_finite
        sample_torque_limit Let_def)
  from telemetry_healthy_exact [OF d sample_doubles(1,2) sample_torque_limit sample_doubles(3)]
  have "td_healthy d \<longleftrightarrow> within_limits (sample_motor (Fin 90)) sample_limits (Fin 4)" by simp
  with d show ?thesis by (simp add: within_limits_def sample_motor_def sample_limits_def)
qed

lemma bank_decisions_healthy:
  assumes ds: "bank_decisions interp samples limits expected [] = Inr ds"
    and names: "fst ` set samples = set expected" "set expected \<subseteq> fst ` set limits"
  shows "(\<forall>(n, d) \<in> set ds. td_healthy d) \<longleftrightarrow> (\<forall>n \<in> set expected. \<exists>s l d. map_of samples n = Some s \<and>
    map_of limits n = Some l \<and> evaluate_motor_telemetry interp s l = Inr d \<and> td_healthy d)"
proof -
  have dist: "distinct (keys ds)" using bank_decisions_distinct [OF ds] by simp
  have look: "\<exists>s l d. map_of samples n = Some s \<and> map_of limits n = Some l \<and>
      evaluate_motor_telemetry interp s l = Inr d \<and> map_of ds n = Some d"
    if "n \<in> set expected" for n
  proof -
    from that names obtain s l where sl: "map_of samples n = Some s" "map_of limits n = Some l"
      by (metis (no_types) map_of_eq_None_iff not_None_eq subsetD)
    with bank_decisions_returns [OF ds that] obtain d
      where "evaluate_motor_telemetry interp s l = Inr d" by blast
    with bank_decisions_spec [OF ds, of n] sl that show ?thesis by simp
  qed
  have mem: "n \<in> set expected \<and> map_of ds n = Some d" if "(n, d) \<in> set ds" for n d
    using bank_decisions_spec [OF ds, of n] map_of_is_SomeI [OF dist that]
    by (auto split: option.splits if_splits)
  have "(\<forall>(n, d) \<in> set ds. td_healthy d) \<longleftrightarrow>
      (\<forall>n \<in> set expected. \<exists>d. map_of ds n = Some d \<and> td_healthy d)"
  proof (intro iffI ballI)
    fix n assume "\<forall>(n, d) \<in> set ds. td_healthy d" "n \<in> set expected"
    with look [of n] show "\<exists>d. map_of ds n = Some d \<and> td_healthy d"
      by (blast dest: map_of_SomeD)
  next
    fix nd assume "\<forall>n \<in> set expected. \<exists>d. map_of ds n = Some d \<and> td_healthy d" "nd \<in> set ds"
    with mem [of "fst nd" "snd nd"] show "case nd of (n, d) \<Rightarrow> td_healthy d"
      by (cases nd) force
  qed
  also have "\<dots> \<longleftrightarrow> (\<forall>n \<in> set expected. \<exists>s l d. map_of samples n = Some s \<and>
      map_of limits n = Some l \<and> evaluate_motor_telemetry interp s l = Inr d \<and> td_healthy d)"
  proof (intro ball_cong refl)
    fix n assume "n \<in> set expected"
    from look [OF this] show "(\<exists>d. map_of ds n = Some d \<and> td_healthy d) \<longleftrightarrow>
      (\<exists>s l d. map_of samples n = Some s \<and> map_of limits n = Some l \<and>
        evaluate_motor_telemetry interp s l = Inr d \<and> td_healthy d)" by auto
  qed
  finally show ?thesis .
qed

text \<open>
  A bank of motors is healthy only when the received frames are exactly the expected motors,
  each has limits, and each was evaluated healthy; missing, extra and unconfigured motors all
  fail closed.
\<close>

theorem bank_healthy_iff:
  assumes "evaluate_motor_bank interp samples limits expected = Inr r"
  shows "br_healthy r \<longleftrightarrow>
    fst ` set samples = set expected \<and> set expected \<subseteq> fst ` set limits \<and>
    (\<forall>n \<in> set expected. \<exists>s l d. map_of samples n = Some s \<and> map_of limits n = Some l \<and>
       evaluate_motor_telemetry interp s l = Inr d \<and> td_healthy d)"
proof -
  from assms obtain ds where ds: "bank_decisions interp samples limits expected [] = Inr ds"
    and h: "br_healthy r \<longleftrightarrow> names_without expected (keys samples) = [] \<and>
      names_without (keys samples) expected = [] \<and> names_without expected (keys limits) = [] \<and>
      filter (\<lambda>(_, d). \<not> td_healthy d) ds = []"
    by (auto simp: evaluate_motor_bank_def rbind_eq_Inr Let_def)
  have r: "br_healthy r \<longleftrightarrow> fst ` set samples = set expected \<and>
      set expected \<subseteq> fst ` set limits \<and> (\<forall>(n, d) \<in> set ds. td_healthy d)"
    unfolding h names_without_Nil filter_empty_conv set_eq_subset set_map split_beta by blast
  show ?thesis using r bank_decisions_healthy [OF ds] by blast
qed

theorem bank_healthy_iff_witness:
  "\<exists>r. evaluate_motor_bank (\<lambda>_ _ _. Fin 4) [(''hip'', sample_motor (Fin 40))]
      [(''hip'', sample_limits)] [''hip'', ''knee''] = Inr r \<and> br_healthy r = False"
proof -
  obtain r where r: "evaluate_motor_bank (\<lambda>_ _ _. Fin 4) [(''hip'', sample_motor (Fin 40))]
      [(''hip'', sample_limits)] [''hip'', ''knee''] = Inr r"
    by (simp add: evaluate_motor_bank_def evaluate_motor_telemetry_def sample_limits_valid
        sample_finite sample_torque_limit Let_def)
  from bank_healthy_iff [OF r] have "br_healthy r = False" by auto
  with r show ?thesis by blast
qed

end
