(* ===== verification/Bytes.thy ===== *)
theory Bytes
  imports Prelude
begin

text \<open>
  Byte strings as lists of 8-bit words, and the little-endian integer fields of Python's
  \<open>struct\<close> module on them (the \<open>=\<close> formats are read on the little-endian hosts the runtime
  targets).
\<close>

unbundle bit_operations_syntax

type_synonym byte = "8 word"
type_synonym bytes = "byte list"

fun le_bytes :: "nat \<Rightarrow> int \<Rightarrow> bytes" where
  "le_bytes 0 v = []"
| "le_bytes (Suc n) v = word_of_int (v mod 256) # le_bytes n (v div 256)"

fun le_int :: "bytes \<Rightarrow> int" where
  "le_int [] = 0"
| "le_int (b # bs) = uint b + 256 * le_int bs"

definition le_sint :: "bytes \<Rightarrow> int" where
  "le_sint bs = (let v = le_int bs; w = 8 * length bs in
     if 2 ^ (w - 1) \<le> v then v - 2 ^ w else v)"

text \<open>\<open>struct.pack\<close> of one unsigned or signed field of \<open>n\<close> bytes.\<close>

definition pack_uint :: "nat \<Rightarrow> int \<Rightarrow> bytes result" where
  "pack_uint n v = (if 0 \<le> v \<and> v < 2 ^ (8 * n) then Inr (le_bytes n v)
     else Inl (StructError ''integer out of range''))"

definition pack_sint :: "nat \<Rightarrow> int \<Rightarrow> bytes result" where
  "pack_sint n v = (if - (2 ^ (8 * n - 1)) \<le> v \<and> v < 2 ^ (8 * n - 1) then Inr (le_bytes n v)
     else Inl (StructError ''integer out of range''))"

definition slice :: "nat \<Rightarrow> nat \<Rightarrow> 'a list \<Rightarrow> 'a list" where
  "slice a b xs = take (b - a) (drop a xs)"

text \<open>\<open>data.ljust(n, b"\0")\<close>\<close>

definition ljust :: "nat \<Rightarrow> bytes \<Rightarrow> bytes" where
  "ljust n bs = bs @ replicate (n - length bs) 0"

lemma length_le_bytes [simp]: "length (le_bytes n v) = n"
  by (induction n arbitrary: v) auto

lemma uint_byte_of_int: "uint (word_of_int (v mod 256) :: byte) = v mod 256"
  by (simp add: uint_word_of_int take_bit_eq_mod)

lemma le_int_le_bytes_mod: "le_int (le_bytes n v) = v mod 2 ^ (8 * n)"
proof (induction n arbitrary: v)
  case 0
  then show ?case by simp
next
  case (Suc n)
  have "v mod (256 * 2 ^ (8 * n)) = 256 * (v div 256 mod 2 ^ (8 * n)) + v mod 256"
    by (rule zmod_zmult2_eq) simp
  then show ?case by (simp add: Suc uint_byte_of_int power_add)
qed

lemma le_int_le_bytes: "0 \<le> v \<Longrightarrow> v < 2 ^ (8 * n) \<Longrightarrow> le_int (le_bytes n v) = v"
  by (simp add: le_int_le_bytes_mod)

lemma uint_byte: "0 \<le> uint (b :: byte)" "uint b < 256"
  using unsigned_less [of b, where 'a = int] by simp_all

lemma le_int_bounds: "0 \<le> le_int bs \<and> le_int bs < 2 ^ (8 * length bs)"
proof (induction bs)
  case Nil
  then show ?case by simp
next
  case (Cons b bs)
  have "0 \<le> uint b" "uint b < 256" by (rule uint_byte)+
  with Cons show ?case by (simp add: power_add)
qed

lemma le_bytes_le_int: "le_bytes (length bs) (le_int bs) = bs"
proof (induction bs)
  case Nil
  then show ?case by simp
next
  case (Cons b bs)
  have "0 \<le> uint b" "uint b < 256" by (rule uint_byte)+
  then have "(uint b + 256 * le_int bs) mod 256 = uint b" "(uint b + 256 * le_int bs) div 256 = le_int bs"
    by simp_all
  with Cons show ?case by simp
qed

lemma le_sint_le_bytes:
  assumes "0 < n" and "- (2 ^ (8 * n - 1)) \<le> v" and "v < 2 ^ (8 * n - 1)"
  shows "le_sint (le_bytes n v) = v"
proof -
  have w: "(2::int) ^ (8 * n) = 2 * 2 ^ (8 * n - 1)"
    using assms(1) by (metis mult_pos_pos power_minus_mult zero_less_numeral mult.commute)
  have "le_int (le_bytes n v) = (if 0 \<le> v then v else v + 2 ^ (8 * n))"
  proof (cases "0 \<le> v")
    case True
    with assms w show ?thesis by (simp add: le_int_le_bytes)
  next
    case False
    have "v mod 2 ^ (8 * n) = (v + 2 ^ (8 * n)) mod 2 ^ (8 * n)" by simp
    also have "\<dots> = v + 2 ^ (8 * n)" using False assms w by (intro mod_pos_pos_trivial) auto
    finally show ?thesis using False by (simp add: le_int_le_bytes_mod)
  qed
  with assms w show ?thesis by (auto simp: le_sint_def Let_def)
qed

lemma length_ljust [simp]: "length (ljust n bs) = max n (length bs)"
  by (simp add: ljust_def)

lemma take_ljust [simp]: "take (length bs) (ljust n bs) = bs"
  by (simp add: ljust_def)

lemma slice_append1: "b \<le> length xs \<Longrightarrow> slice a b (xs @ ys) = slice a b xs"
  by (simp add: slice_def)

section \<open>Bit fields of integers\<close>

lemma int_and_mask: "(v :: int) AND (2 ^ n - 1) = v mod 2 ^ n"
  by (simp add: take_bit_eq_mod [symmetric] take_bit_eq_mask mask_eq_exp_minus_1)

lemma int_and_255: "(v :: int) AND 255 = v mod 256"
  using int_and_mask [of v 8] by simp

lemma int_and_15: "(v :: int) AND 15 = v mod 16"
  using int_and_mask [of v 4] by simp

lemma push_bit_or:
  fixes a b :: int
  assumes "0 \<le> b" and "b < 2 ^ n"
  shows "push_bit n a OR b = a * 2 ^ n + b"
proof -
  have "take_bit n b = b" using assms by (simp add: take_bit_eq_mod)
  then have "\<not> bit (push_bit n a) k \<or> \<not> bit b k" for k
    by (metis bit_push_bit_iff_int bit_take_bit_iff linorder_not_le)
  then have "push_bit n a + b = push_bit n a OR b" by (rule disjunctive_add)
  then show ?thesis by (simp add: push_bit_eq_mult)
qed

lemmas int_fields = int_and_255 int_and_15 push_bit_or drop_bit_eq_div push_bit_eq_mult

end
