(* ===== verification/Json.thy ===== *)
theory Json
  imports PyFloat
begin

text \<open>
  Parsed JSON documents (the hardware inventory, \<open>ip -j\<close> snapshots, policy contracts) and the
  dynamically typed accesses the code makes to them. Objects are association lists in document
  order. \<open>py_str\<close> is \<open>str(v)\<close>, with one kind of quotes, no escapes, and the digits of floats left
  out: the code only searches the text for fixed keywords, none of which contains a quote.
\<close>

datatype json =
    JNull
  | JBool bool
  | JInt int
  | JFloat pyfloat
  | JStr string
  | JArr "json list"
  | JObj "(string \<times> json) list"

fun is_dict :: "json \<Rightarrow> bool" where
  "is_dict (JObj _) = True"
| "is_dict _ = False"

fun is_list :: "json \<Rightarrow> bool" where
  "is_list (JArr _) = True"
| "is_list _ = False"

fun is_str :: "json \<Rightarrow> bool" where
  "is_str (JStr _) = True"
| "is_str _ = False"

text \<open>\<open>v.get(key)\<close> of a dictionary: \<open>None\<close> when the key is absent.\<close>

fun jfields :: "json \<Rightarrow> (string, json) dict" where
  "jfields (JObj kvs) = kvs"
| "jfields _ = []"

definition jget :: "json \<Rightarrow> string \<Rightarrow> json" where
  "jget v k = (case map_of (jfields v) k of None \<Rightarrow> JNull | Some x \<Rightarrow> x)"

text \<open>\<open>x.get(key) if isinstance(x, dict) else None\<close> is \<open>jget\<close> itself.\<close>

fun jstring :: "json \<Rightarrow> string" where
  "jstring (JStr s) = s"
| "jstring _ = []"

definition upper_char :: "char \<Rightarrow> char" where
  "upper_char c = (if (97::nat) \<le> of_char c \<and> of_char c \<le> (122::nat)
     then char_of (of_char c - (32::nat)) else c)"

definition upper :: "string \<Rightarrow> string" where
  "upper s = map upper_char s"

fun show_nat :: "nat \<Rightarrow> string" where
  "show_nat n = (if n < 10 then [char_of (48 + n)] else show_nat (n div 10) @ [char_of (48 + n mod 10)])"

declare show_nat.simps [simp del]

definition show_int :: "int \<Rightarrow> string" where
  "show_int n = (if n < 0 then ''-'' @ show_nat (nat (- n)) else show_nat (nat n))"

definition quoted :: "string \<Rightarrow> string" where
  "quoted s = CHR 0x22 # s @ [CHR 0x22]"

fun py_repr :: "json \<Rightarrow> string" where
  "py_repr (JStr s) = quoted s"
| "py_repr JNull = ''None''"
| "py_repr (JBool b) = (if b then ''True'' else ''False'')"
| "py_repr (JInt n) = show_int n"
| "py_repr (JFloat x) = ''<float>''"
| "py_repr (JArr xs) = ''['' @ join '', '' (map py_repr xs) @ '']''"
| "py_repr (JObj kvs) = ''{'' @ join '', '' (map (\<lambda>(k, v). quoted k @ '': '' @ py_repr v) kvs) @ ''}''"

definition py_str :: "json \<Rightarrow> string" where
  "py_str v = (case v of JStr s \<Rightarrow> s | _ \<Rightarrow> py_repr v)"

lemma py_str_JStr [simp]: "py_str (JStr s) = s"
  by (simp add: py_str_def)

text \<open>\<open>for x in v\<close>\<close>

fun json_iter :: "json \<Rightarrow> json list result" where
  "json_iter (JArr xs) = Inr xs"
| "json_iter (JObj kvs) = Inr (map (\<lambda>(k, _). JStr k) kvs)"
| "json_iter (JStr s) = Inr (map (\<lambda>c. JStr [c]) s)"
| "json_iter _ = Inl (TypeError ''object is not iterable'')"

text \<open>\<open>v == n\<close> for an int \<open>n\<close>: booleans are 0 and 1, floats compare by value.\<close>

fun json_eq_int :: "json \<Rightarrow> int \<Rightarrow> bool" where
  "json_eq_int (JInt m) n = (m = n)"
| "json_eq_int (JBool b) n = ((if b then 1 else 0) = n)"
| "json_eq_int (JFloat x) n = feq x (Fin (of_int n))"
| "json_eq_int _ n = False"

lemma jget_None: "k \<notin> fst ` set (jfields v) \<Longrightarrow> jget v k = JNull"
  by (simp add: jget_def map_of_eq_None_iff [symmetric] split: option.splits)

lemma upper_upper_char [simp]: "upper_char (upper_char c) = upper_char c"
proof (cases "(97::nat) \<le> of_char c \<and> of_char c \<le> (122::nat)")
  case True
  then have "(of_char c - 32 :: nat) < 256" by linarith
  then have "of_char (char_of (of_char c - 32 :: nat) :: char) = (of_char c - 32 :: nat)"
    by (simp add: of_char_of)
  with True show ?thesis by (auto simp: upper_char_def)
next
  case False
  then show ?thesis by (auto simp: upper_char_def)
qed

lemma upper_upper [simp]: "upper (upper s) = upper s"
  by (simp add: upper_def)

section \<open>Numbers and texts of a document\<close>

text \<open>\<open>float(v)\<close>; \<open>parse\<close> is the conversion of a string.\<close>

fun to_float :: "(string \<Rightarrow> pyfloat option) \<Rightarrow> json \<Rightarrow> pyfloat result" where
  "to_float parse (JInt n) = float_of_int n"
| "to_float parse (JFloat x) = Inr x"
| "to_float parse (JBool b) = Inr (Fin (if b then 1 else 0))"
| "to_float parse (JStr s) = (case parse s of Some x \<Rightarrow> Inr x
     | None \<Rightarrow> Inl (ValueError ''could not convert string to float''))"
| "to_float parse _ = Inl (TypeError ''float() argument must be a string or a real number'')"

text \<open>\<open>isinstance(v, int)\<close>, which holds for booleans too, and the value of such a \<open>v\<close>.\<close>

fun int_value :: "json \<Rightarrow> int option" where
  "int_value (JInt n) = Some n"
| "int_value (JBool b) = Some (if b then 1 else 0)"
| "int_value _ = None"

definition is_int :: "json \<Rightarrow> bool" where
  "is_int v = (int_value v \<noteq> None)"

definition hashable :: "json \<Rightarrow> bool" where
  "hashable v = (\<not> is_list v \<and> \<not> is_dict v)"

fun contains :: "string \<Rightarrow> string \<Rightarrow> bool" where
  "contains needle [] = (needle = [])"
| "contains needle (c # cs) = (take (length needle) (c # cs) = needle \<or> contains needle cs)"

definition ends_with :: "string \<Rightarrow> string \<Rightarrow> bool" where
  "ends_with suffix s = (length suffix \<le> length s \<and> drop (length s - length suffix) s = suffix)"

definition is_space :: "char \<Rightarrow> bool" where
  "is_space c = ((9 :: nat) \<le> of_char c \<and> of_char c \<le> (13 :: nat) \<or>
     (28 :: nat) \<le> of_char c \<and> of_char c \<le> (32 :: nat) \<or> of_char c \<in> {133, 160 :: nat})"

end
