(* ===== verification/SocketCan.thy ===== *)
theory SocketCan
  imports Bytes Json
begin

text \<open>
  SocketCAN transport (\<open>socketcan.py\<close>): the audits of \<open>ip -j -d link show\<close> snapshots, the
  parsing of received frames with their timestamps, and the capability-restricted writers.

  The operating system is the environment. A receive takes what \<open>recvmsg\<close> and the clock
  returned; a send takes the byte count \<open>socket.send\<close> returned, and every frame handed to
  \<open>socket.send\<close> is appended to the writer's \<open>wire\<close>, so that what a writer can put on the bus
  is a statement about \<open>wire\<close>. A call returns the changed object and its result, since Python
  objects keep their changes when a call raises. \<open>open\<close> is a sequence of system calls of which
  any may fail.
\<close>

section \<open>Constants and frame layouts\<close>

definition CAN_EFF_FLAG :: int where "CAN_EFF_FLAG = 0x80000000"
definition CAN_RTR_FLAG :: int where "CAN_RTR_FLAG = 0x40000000"
definition CAN_ERR_FLAG :: int where "CAN_ERR_FLAG = 0x20000000"
definition CAN_ID_MASK :: int where "CAN_ID_MASK = 0x1FFFFFFF"
definition SO_TIMESTAMPING_LINUX_64 :: int where "SO_TIMESTAMPING_LINUX_64 = 37"
definition SOL_SOCKET :: int where "SOL_SOCKET = 1"
definition SOL_CAN_RAW :: int where "SOL_CAN_RAW = 101"
definition CAN_RAW_FD_FRAMES :: int where "CAN_RAW_FD_FRAMES = 5"

definition timestamp_flags :: int where
  "timestamp_flags = (1 * 2 ^ 2) OR (1 * 2 ^ 3) OR (1 * 2 ^ 4) OR (1 * 2 ^ 6)"

text \<open>\<open>CANFD_FRAME = struct.Struct("=IBBBB64s")\<close>, 72 bytes, and \<open>CAN_FRAME = "=IB3x8s"\<close>, 16.\<close>

definition canfd_pack :: "int \<Rightarrow> int \<Rightarrow> int \<Rightarrow> int \<Rightarrow> int \<Rightarrow> bytes \<Rightarrow> bytes result" where
  "canfd_pack raw_id len flags r0 r1 data =
     rbind (pack_uint 4 raw_id) (\<lambda>i. rbind (pack_uint 1 len) (\<lambda>l. rbind (pack_uint 1 flags) (\<lambda>f.
     rbind (pack_uint 1 r0) (\<lambda>a. rbind (pack_uint 1 r1) (\<lambda>b.
       Inr (i @ l @ f @ a @ b @ take 64 (ljust 64 data)))))))"

definition canfd_unpack :: "bytes \<Rightarrow> int \<times> int \<times> int \<times> bytes" where
  "canfd_unpack p = (le_int (slice 0 4 p), le_int (slice 4 5 p), le_int (slice 5 6 p), slice 8 72 p)"

definition can_unpack :: "bytes \<Rightarrow> int \<times> int \<times> bytes" where
  "can_unpack p = (le_int (slice 0 4 p), le_int (slice 4 5 p), slice 8 16 p)"

section \<open>Snapshot audits\<close>

record rx_preflight =
  expected_interfaces :: "string list"
  observed_interfaces :: "string list"
  listen_only_interfaces :: "string list"
  rx_errors :: "string list"

definition rx_passed :: "rx_preflight \<Rightarrow> bool" where
  "rx_passed r = (rx_errors r = [])"

record fd_preflight =
  fd_interface :: string
  arbitration_bitrate :: int
  data_bitrate :: int
  fd_errors :: "string list"

definition fd_passed :: "fd_preflight \<Rightarrow> bool" where
  "fd_passed r = (fd_errors r = [])"

definition ctrlmodes :: "json \<Rightarrow> string list" where
  "ctrlmodes entry =
     (case jget (jget (jget entry ''linkinfo'') ''info_data'') ''ctrlmode'' of
        JStr s \<Rightarrow> [upper s]
      | JArr vs \<Rightarrow> map (\<lambda>v. upper (py_str v)) vs
      | JObj kvs \<Rightarrow> map (\<lambda>(k, _). upper k) (filter (\<lambda>(_, v). v = JBool True) kvs)
      | _ \<Rightarrow> [])"

definition snapshot_entries :: "json list \<Rightarrow> (string, json) dict" where
  "snapshot_entries snapshot =
     dict_of (map (\<lambda>e. (jstring (jget e ''ifname''), e))
       (filter (\<lambda>e. is_dict e \<and> is_str (jget e ''ifname'')) snapshot))"

definition link_is_up :: "json \<Rightarrow> bool" where
  "link_is_up flags = (case flags of JArr fs \<Rightarrow> ''UP'' \<in> set (map (\<lambda>f. upper (py_str f)) fs) | _ \<Rightarrow> False)"

definition is_can :: "json \<Rightarrow> bool" where
  "is_can entry \<longleftrightarrow> jget entry ''link_type'' = JStr ''can'' \<or>
     jget (jget entry ''linkinfo'') ''info_kind'' = JStr ''can''"

definition rx_entry_errors :: "string \<Rightarrow> json option \<Rightarrow> string list" where
  "rx_entry_errors name entry =
     (case entry of None \<Rightarrow> [name @ '': interface is missing'']
      | Some e \<Rightarrow>
          (if is_can e then [] else [name @ '': interface is not CAN'']) @
          (if link_is_up (jget e ''flags'') then [] else [name @ '': interface is not UP'']) @
          (if ''LISTEN-ONLY'' \<in> set (ctrlmodes e) then []
           else [name @ '': kernel LISTEN-ONLY is not enabled'']))"

definition audit_rx_snapshot :: "json \<Rightarrow> string list \<Rightarrow> rx_preflight" where
  "audit_rx_snapshot snapshot expected =
     (let errors0 = (if length expected \<noteq> 4 \<or> length (remdups expected) \<noteq> 4
            then [''exactly four unique expected interfaces are required''] else []);
          (snap, errors1) = (case snapshot of JArr xs \<Rightarrow> (xs, [])
            | _ \<Rightarrow> ([], [''SocketCAN snapshot must be a JSON array'']));
          entries = snapshot_entries snap;
          listen_only = filter (\<lambda>name. case map_of entries name of None \<Rightarrow> False
            | Some e \<Rightarrow> ''LISTEN-ONLY'' \<in> set (ctrlmodes e)) expected
      in \<lparr>expected_interfaces = expected,
          observed_interfaces = sorted_set (keys entries),
          listen_only_interfaces = listen_only,
          rx_errors = errors0 @ errors1 @
            concat (map (\<lambda>name. rx_entry_errors name (map_of entries name)) expected)\<rparr>)"

definition fd_entry_errors :: "string \<Rightarrow> int \<Rightarrow> int \<Rightarrow> json \<Rightarrow> string list result" where
  "fd_entry_errors name nominal_rate data_rate e =
     rbind (if ''flags'' \<in> set (keys (jfields e)) then json_iter (jget e ''flags'') else Inr [])
       (\<lambda>flags.
        let modes = ctrlmodes e;
            info = jget (jget e ''linkinfo'') ''info_data'';
            state = (if is_dict info \<and> ''state'' \<in> set (keys (jfields info))
              then upper (py_str (jget info ''state'')) else [])
        in Inr (
          (if ''UP'' \<in> set (map (\<lambda>f. upper (py_str f)) flags) then []
           else [name @ '': interface is not UP'']) @
          (if ''LISTEN-ONLY'' \<in> set modes
           then [name @ '': LISTEN-ONLY must be disabled for the active probe''] else []) @
          (if ''FD'' \<in> set modes then [] else [name @ '': CAN FD is not enabled'']) @
          (if json_eq_int (jget (jget info ''bittiming'') ''bitrate'') nominal_rate then []
           else [name @ '': arbitration bitrate must be the configured one'']) @
          (if json_eq_int (jget (jget info ''data_bittiming'') ''bitrate'') data_rate then []
           else [name @ '': data bitrate must be the configured one'']) @
          (if state \<noteq> [] \<and> state \<noteq> ''ERROR-ACTIVE''
           then [name @ '': CAN state must be ERROR-ACTIVE''] else [])))"

definition audit_active_fd_snapshot ::
  "json \<Rightarrow> string \<Rightarrow> int \<Rightarrow> int \<Rightarrow> fd_preflight result" where
  "audit_active_fd_snapshot snapshot name nominal_rate data_rate =
     (let entries = (case snapshot of JArr xs \<Rightarrow> snapshot_entries xs | _ \<Rightarrow> []) in
      rbind (case map_of entries name of
               None \<Rightarrow> Inr [name @ '': interface is missing'']
             | Some e \<Rightarrow> fd_entry_errors name nominal_rate data_rate e)
        (\<lambda>errors. Inr \<lparr>fd_interface = name, arbitration_bitrate = nominal_rate,
           data_bitrate = data_rate, fd_errors = errors\<rparr>))"

section \<open>Opening a socket\<close>

datatype sys_call =
    Setsockopt int int int
  | Bind string
  | Setblocking bool
  | Close

text \<open>
  The body of every \<open>open\<close>: the calls in order until one raises, then \<open>close\<close>. The result is the
  calls made and whether the object is returned; \<open>fails\<close> tells which call the kernel refuses.
\<close>

fun run_setup :: "(sys_call \<Rightarrow> bool) \<Rightarrow> sys_call list \<Rightarrow> sys_call list \<times> bool" where
  "run_setup fails [] = ([], True)"
| "run_setup fails (c # cs) =
     (if fails c then ([c, Close], False)
      else let (log, ok) = run_setup fails cs in (c # log, ok))"

definition fd_frames_call :: sys_call where
  "fd_frames_call = Setsockopt SOL_CAN_RAW CAN_RAW_FD_FRAMES 1"

definition timestamping_call :: sys_call where
  "timestamping_call = Setsockopt SOL_SOCKET SO_TIMESTAMPING_LINUX_64 timestamp_flags"

definition receiver_open ::
  "(sys_call \<Rightarrow> bool) \<Rightarrow> string \<Rightarrow> rx_preflight \<Rightarrow> (sys_call list \<times> bool) result" where
  "receiver_open fails iface preflight =
     (if \<not> rx_passed preflight
      then Inl (RuntimeError ''SocketCAN RX preflight did not pass'')
      else if iface \<notin> set (listen_only_interfaces preflight)
      then Inl (RuntimeError (iface @ '': no listen-only preflight evidence''))
      else Inr (run_setup fails [fd_frames_call, timestamping_call, Bind iface]))"

definition fd_open ::
  "sys_call list \<Rightarrow> (sys_call \<Rightarrow> bool) \<Rightarrow> string \<Rightarrow> fd_preflight \<Rightarrow> (sys_call list \<times> bool) result" where
  "fd_open calls fails iface preflight =
     (if \<not> fd_passed preflight \<or> fd_interface preflight \<noteq> iface
      then Inl (RuntimeError (iface @ '': active CAN-FD preflight did not pass''))
      else Inr (run_setup fails calls))"

definition active_observer_open ::
  "(sys_call \<Rightarrow> bool) \<Rightarrow> string \<Rightarrow> fd_preflight \<Rightarrow> (sys_call list \<times> bool) result" where
  "active_observer_open fails iface preflight =
     (if \<not> fd_passed preflight \<or> fd_interface preflight \<noteq> iface
      then Inl (RuntimeError (iface @ '': active CAN-FD observer preflight did not pass''))
      else Inr (run_setup fails [fd_frames_call, timestamping_call, Bind iface, Setblocking False]))"

definition transceiver_open ::
  "(sys_call \<Rightarrow> bool) \<Rightarrow> string \<Rightarrow> fd_preflight \<Rightarrow> (sys_call list \<times> bool) result" where
  "transceiver_open fails iface =
     fd_open [fd_frames_call, timestamping_call, Bind iface, Setblocking False] fails iface"

definition set_zero_open ::
  "(sys_call \<Rightarrow> bool) \<Rightarrow> string \<Rightarrow> fd_preflight \<Rightarrow> (sys_call list \<times> bool) result" where
  "set_zero_open fails iface = fd_open [fd_frames_call, Bind iface] fails iface"

section \<open>Receiving\<close>

record can_frame =
  f_interface :: string
  f_can_id :: int
  f_data :: bytes
  is_extended :: bool
  is_remote :: bool
  is_error :: bool
  is_fd :: bool
  bit_rate_switch :: bool
  error_state_indicator :: bool
  software_timestamp_ns :: int
  hardware_timestamp_ns :: int
  userspace_receive_timestamp_ns :: int

definition frame_queue_age_ns :: "can_frame \<Rightarrow> int" where
  "frame_queue_age_ns f = userspace_receive_timestamp_ns f - software_timestamp_ns f"

type_synonym ancillary = "(int \<times> int \<times> bytes) list"

text \<open>\<open>struct.unpack_from("=6q", payload)\<close>\<close>

definition timespec_values :: "bytes \<Rightarrow> int list" where
  "timespec_values p = map (\<lambda>i. le_sint (slice (8 * i) (8 * i + 8) p)) [0..<6]"

fun socket_timestamps_ns :: "ancillary \<Rightarrow> (int \<times> int) result" where
  "socket_timestamps_ns [] =
     Inl (SocketCanTimestampError ''SCM_TIMESTAMPING evidence is missing'')"
| "socket_timestamps_ns ((level, kind, payload) # rest) =
     (if level \<noteq> SOL_SOCKET \<or> kind \<noteq> SO_TIMESTAMPING_LINUX_64 then socket_timestamps_ns rest
      else if length payload < 6 * 8
      then Inl (SocketCanTimestampError
        ''SCM_TIMESTAMPING payload is shorter than three timespec values'')
      else
        let v = timespec_values payload;
            software = v ! 0 * 1000000000 + v ! 1;
            hardware = v ! 4 * 1000000000 + v ! 5
        in if software \<le> 0
           then Inl (SocketCanTimestampError ''kernel software RX timestamp is missing'')
           else if hardware \<le> 0
           then Inl (SocketCanTimestampError
             ''raw hardware RX timestamp is missing; software fallback is forbidden'')
           else Inr (software, hardware))"

definition int_bit :: "int \<Rightarrow> int \<Rightarrow> bool" where
  "int_bit v m = ((v AND m) \<noteq> 0)"

text \<open>\<open>SocketCanReceiver.receive\<close> on what \<open>recvmsg\<close> returned at userspace time \<open>clock_ns\<close>.\<close>

definition receive :: "string \<Rightarrow> bytes \<Rightarrow> ancillary \<Rightarrow> int \<Rightarrow> can_frame result" where
  "receive iface payload ancillary clock_ns =
     rbind (socket_timestamps_ns ancillary) (\<lambda>(software, hardware).
       if clock_ns < software
       then Inl (RuntimeError ''kernel RX timestamp is in the future relative to userspace'')
       else
         rbind (if length payload = 72
                then (case canfd_unpack payload of (raw_id, len, flags, data) \<Rightarrow>
                  Inr (raw_id, len, data, True, int_bit flags 1, int_bit flags 2))
                else if length payload = 16
                then (case can_unpack payload of (raw_id, len, data) \<Rightarrow>
                  Inr (raw_id, len, data, False, False, False))
                else Inl (RuntimeError ''unexpected SocketCAN frame size''))
           (\<lambda>(raw_id, len, data, fd, brs, esi).
             if int (length data) < len
             then Inl (RuntimeError ''invalid CAN payload length'')
             else Inr \<lparr>f_interface = iface,
                 f_can_id = raw_id AND CAN_ID_MASK,
                 f_data = take (nat len) data,
                 is_extended = int_bit raw_id CAN_EFF_FLAG,
                 is_remote = int_bit raw_id CAN_RTR_FLAG,
                 is_error = int_bit raw_id CAN_ERR_FLAG,
                 is_fd = fd,
                 bit_rate_switch = brs,
                 error_state_indicator = esi,
                 software_timestamp_ns = software,
                 hardware_timestamp_ns = hardware,
                 userspace_receive_timestamp_ns = clock_ns\<rparr>))"

section \<open>Capability-restricted writers\<close>

text \<open>An encoded command as \<open>damiao.EncodedDamiaoMitCommand\<close> hands it over.\<close>

record encoded_command =
  ec_motor_name :: string
  ec_interface :: string
  ec_can_id :: int
  ec_data :: bytes

text \<open>What \<open>socket.send\<close> answered: \<open>None\<close> when it raised, else the number of bytes written.\<close>

type_synonym sent = "int option"

definition short_write_check :: "bytes \<Rightarrow> int \<Rightarrow> unit result" where
  "short_write_check frame n =
     (if n \<noteq> int (length frame) then Inl (RuntimeError ''short CAN-FD write'') else Inr ())"

definition standard_id :: "int \<Rightarrow> bool" where
  "standard_id i = (0 \<le> i \<and> i \<le> 0x7FF)"

definition byte_at :: "bytes \<Rightarrow> nat \<Rightarrow> int" where
  "byte_at data i = uint (data ! i)"

definition mit_velocity_raw :: "bytes \<Rightarrow> int" where
  "mit_velocity_raw data = push_bit 4 (byte_at data 2) OR drop_bit 4 (byte_at data 3)"

definition mit_kp_raw :: "bytes \<Rightarrow> int" where
  "mit_kp_raw data = push_bit 8 (byte_at data 3 AND 0x0F) OR byte_at data 4"

definition mit_kd_raw :: "bytes \<Rightarrow> int" where
  "mit_kd_raw data = push_bit 4 (byte_at data 5) OR drop_bit 4 (byte_at data 6)"

definition mit_torque_raw :: "bytes \<Rightarrow> int" where
  "mit_torque_raw data = push_bit 8 (byte_at data 6 AND 0x0F) OR byte_at data 7"

definition validate_zero_gain_mit_payload :: "bytes \<Rightarrow> unit result" where
  "validate_zero_gain_mit_payload data =
     (if length data \<noteq> 8
      then Inl (ValueError ''zero-gain MIT poll must contain exactly eight bytes'')
      else if mit_kp_raw data \<noteq> 0 \<or> mit_kd_raw data \<noteq> 0
      then Inl (ValueError ''zero-gain MIT poll requires raw Kp=Kd=0'')
      else if mit_velocity_raw data \<notin> {2047, 2048} \<or> mit_torque_raw data \<notin> {2047, 2048}
      then Inl (ValueError ''zero-gain MIT poll requires encoded velocity=torque=0'')
      else Inr ())"

record zero_gain_poller =
  zg_interface :: string
  zg_wire :: "bytes list"
  zg_tx_attempts :: int

definition new_zero_gain_poller :: "string \<Rightarrow> zero_gain_poller" where
  "new_zero_gain_poller iface = \<lparr>zg_interface = iface, zg_wire = [], zg_tx_attempts = 0\<rparr>"

definition send_zero_gain_poll ::
  "zero_gain_poller \<Rightarrow> int \<times> bytes \<Rightarrow> sent \<Rightarrow> zero_gain_poller \<times> unit result" where
  "send_zero_gain_poll p call sent =
     (case call of (can_id, data) \<Rightarrow>
      if \<not> standard_id can_id
      then (p, Inl (ValueError ''zero-gain poll requires an 11-bit standard CAN ID''))
      else case validate_zero_gain_mit_payload data of Inl e \<Rightarrow> (p, Inl e)
      | Inr _ \<Rightarrow> (case canfd_pack can_id 8 1 0 0 (ljust 64 data) of Inl e \<Rightarrow> (p, Inl e)
        | Inr frame \<Rightarrow> (case sent of None \<Rightarrow> (p, Inl OSError)
          | Some n \<Rightarrow> (p\<lparr>zg_wire := zg_wire p @ [frame], zg_tx_attempts := zg_tx_attempts p + 1\<rparr>,
                        short_write_check frame n))))"

record register_reader =
  rr_interface :: string
  rr_allowed_motor_can_ids :: "int list"
  rr_wire :: "bytes list"
  rr_tx_attempts :: int

definition PARAMETER_CAN_ID :: int where "PARAMETER_CAN_ID = 0x7FF"
definition READ_OPCODE :: int where "READ_OPCODE = 0x33"
definition range_register_ids :: "int list" where "range_register_ids = [21, 22, 23]"
definition commissioning_register_ids :: "int list" where
  "commissioning_register_ids = [2, 3, 6, 13, 14, 36]"

definition new_register_reader :: "string \<Rightarrow> int list \<Rightarrow> register_reader result" where
  "new_register_reader iface ids =
     (if ids = [] then Inl (ValueError ''at least one motor CAN ID must be allowed'')
      else if list_ex (\<lambda>i. \<not> standard_id i) ids
      then Inl (ValueError ''motor allowlist requires 11-bit standard CAN IDs'')
      else Inr \<lparr>rr_interface = iface, rr_allowed_motor_can_ids = ids, rr_wire = [],
                rr_tx_attempts = 0\<rparr>)"

definition read_request_data :: "int \<Rightarrow> int \<Rightarrow> bytes" where
  "read_request_data motor_can_id register_id =
     map word_of_int [motor_can_id AND 0xFF, drop_bit 8 motor_can_id AND 0xFF, READ_OPCODE,
       register_id, 0, 0, 0, 0]"

definition send_read_request_with ::
  "int list \<Rightarrow> string \<Rightarrow> register_reader \<Rightarrow> int \<times> int \<Rightarrow> sent \<Rightarrow> register_reader \<times> unit result" where
  "send_read_request_with allowed message r call sent =
     (case call of (motor_can_id, register_id) \<Rightarrow>
      if motor_can_id \<notin> set (rr_allowed_motor_can_ids r)
      then (r, Inl (ValueError ''motor CAN ID is outside the register-read allowlist''))
      else if register_id \<notin> set allowed then (r, Inl (ValueError message))
      else (case canfd_pack PARAMETER_CAN_ID 8 1 0 0
                   (ljust 64 (read_request_data motor_can_id register_id)) of
              Inl e \<Rightarrow> (r, Inl e)
            | Inr frame \<Rightarrow> (case sent of None \<Rightarrow> (r, Inl OSError)
              | Some n \<Rightarrow> (r\<lparr>rr_wire := rr_wire r @ [frame], rr_tx_attempts := rr_tx_attempts r + 1\<rparr>,
                            short_write_check frame n))))"

definition send_read_request ::
  "register_reader \<Rightarrow> int \<times> int \<Rightarrow> sent \<Rightarrow> register_reader \<times> unit result" where
  "send_read_request = send_read_request_with range_register_ids
     ''only PMAX/VMAX/TMAX registers 21/22/23 may be read''"

definition send_commissioning_read_request ::
  "register_reader \<Rightarrow> int \<times> int \<Rightarrow> sent \<Rightarrow> register_reader \<times> unit result" where
  "send_commissioning_read_request = send_read_request_with commissioning_register_ids
     ''only OT/OC/MAX_SPD/version commissioning registers may be read''"

record set_zero_writer =
  sz_interface :: string
  sz_allowed_can_ids :: "int list"
  sz_wire :: "bytes list"
  sz_tx_attempts :: int

definition SET_ZERO_PAYLOAD :: bytes where
  "SET_ZERO_PAYLOAD = replicate 7 0xFF @ [0xFE]"

definition new_set_zero_writer :: "string \<Rightarrow> int list \<Rightarrow> set_zero_writer result" where
  "new_set_zero_writer iface ids =
     (if ids = [] then Inl (ValueError ''at least one set-zero CAN ID must be allowed'')
      else if list_ex (\<lambda>i. \<not> standard_id i) ids
      then Inl (ValueError ''set-zero allowlist requires 11-bit standard CAN IDs'')
      else Inr \<lparr>sz_interface = iface, sz_allowed_can_ids = ids, sz_wire = [], sz_tx_attempts = 0\<rparr>)"

definition send_set_zero ::
  "set_zero_writer \<Rightarrow> int \<Rightarrow> sent \<Rightarrow> set_zero_writer \<times> unit result" where
  "send_set_zero w can_id sent =
     (if can_id \<notin> set (sz_allowed_can_ids w)
      then (w, Inl (ValueError ''CAN ID is not in the set-zero allowlist''))
      else (case canfd_pack can_id 8 1 0 0 (ljust 64 SET_ZERO_PAYLOAD) of
              Inl e \<Rightarrow> (w, Inl e)
            | Inr frame \<Rightarrow> (case sent of None \<Rightarrow> (w, Inl OSError)
              | Some n \<Rightarrow> (w\<lparr>sz_wire := sz_wire w @ [frame], sz_tx_attempts := sz_tx_attempts w + 1\<rparr>,
                            short_write_check frame n))))"

record single_motor_writer =
  sm_interface :: string
  sm_motor_name :: string
  sm_can_id :: int
  sm_wire :: "bytes list"
  sm_command_tx_attempts :: int
  sm_enable_attempts :: int
  sm_disable_attempts :: int

definition ENABLE_PAYLOAD :: bytes where "ENABLE_PAYLOAD = replicate 7 0xFF @ [0xFC]"
definition DISABLE_PAYLOAD :: bytes where "DISABLE_PAYLOAD = replicate 7 0xFF @ [0xFD]"

definition new_single_motor_writer :: "string \<Rightarrow> string \<Rightarrow> int \<Rightarrow> single_motor_writer result" where
  "new_single_motor_writer iface name can_id =
     (if name = [] \<or> \<not> standard_id can_id
      then Inl (ValueError ''single-motor writer requires one named 11-bit CAN endpoint'')
      else Inr \<lparr>sm_interface = iface, sm_motor_name = name, sm_can_id = can_id, sm_wire = [],
                sm_command_tx_attempts = 0, sm_enable_attempts = 0, sm_disable_attempts = 0\<rparr>)"

definition sm_send_payload ::
  "single_motor_writer \<Rightarrow> bytes \<Rightarrow> sent \<Rightarrow> single_motor_writer \<times> unit result" where
  "sm_send_payload w data sent =
     (if length data \<noteq> 8
      then (w, Inl (ValueError ''single-motor MIT payload must contain exactly eight bytes''))
      else (case canfd_pack (sm_can_id w) 8 1 0 0 (ljust 64 data) of Inl e \<Rightarrow> (w, Inl e)
        | Inr frame \<Rightarrow> (case sent of None \<Rightarrow> (w, Inl OSError)
          | Some n \<Rightarrow> (w\<lparr>sm_wire := sm_wire w @ [frame]\<rparr>, short_write_check frame n))))"

datatype single_call = SCommand encoded_command | SEnable | SDisable

fun sm_call :: "single_motor_writer \<Rightarrow> single_call \<Rightarrow> sent \<Rightarrow> single_motor_writer \<times> unit result" where
  "sm_call w (SCommand c) sent =
     (if ec_motor_name c \<noteq> sm_motor_name w \<or> ec_interface c \<noteq> sm_interface w
         \<or> ec_can_id c \<noteq> sm_can_id w
      then (w, Inl (ValueError ''encoded MIT command is outside the single-motor allowlist''))
      else (case sm_send_payload w (ec_data c) sent of (w', Inl e) \<Rightarrow> (w', Inl e)
        | (w', Inr _) \<Rightarrow>
            (w'\<lparr>sm_command_tx_attempts := sm_command_tx_attempts w' + 1\<rparr>, Inr ())))"
| "sm_call w SEnable sent =
     (case sm_send_payload w ENABLE_PAYLOAD sent of (w', Inl e) \<Rightarrow> (w', Inl e)
      | (w', Inr _) \<Rightarrow> (w'\<lparr>sm_enable_attempts := sm_enable_attempts w' + 1\<rparr>, Inr ()))"
| "sm_call w SDisable sent =
     (case sm_send_payload w DISABLE_PAYLOAD sent of (w', Inl e) \<Rightarrow> (w', Inl e)
      | (w', Inr _) \<Rightarrow> (w'\<lparr>sm_disable_attempts := sm_disable_attempts w' + 1\<rparr>, Inr ()))"

record motor_group_writer =
  mg_interface :: string
  mg_can_id_by_name :: "(string, int) dict"
  mg_wire :: "bytes list"
  mg_command_tx_attempts :: "(string, int) dict"
  mg_enable_attempts :: "(string, int) dict"
  mg_disable_attempts :: "(string, int) dict"

definition new_motor_group_writer ::
  "string \<Rightarrow> (string \<times> int) list \<Rightarrow> motor_group_writer result" where
  "new_motor_group_writer iface endpoints =
     (let by_name = dict_of endpoints; zeros = map (\<lambda>(n, _). (n, 0)) by_name in
      if \<not> (2 \<le> length endpoints \<and> length endpoints \<le> 8)
      then Inl (ValueError ''motor-group writer requires 2..8 endpoints'')
      else if length by_name \<noteq> length endpoints
      then Inl (ValueError ''motor-group writer endpoint names must be unique'')
      else if length (remdups (map snd by_name)) \<noteq> length endpoints
      then Inl (ValueError ''motor-group writer CAN IDs must be unique'')
      else if list_ex (\<lambda>(n, i). n = [] \<or> \<not> standard_id i) endpoints
      then Inl (ValueError ''motor-group writer requires named 11-bit CAN endpoints'')
      else Inr \<lparr>mg_interface = iface, mg_can_id_by_name = by_name, mg_wire = [],
                mg_command_tx_attempts = zeros, mg_enable_attempts = zeros,
                mg_disable_attempts = zeros\<rparr>)"

definition mg_send_payload ::
  "motor_group_writer \<Rightarrow> string \<Rightarrow> bytes \<Rightarrow> sent \<Rightarrow> motor_group_writer \<times> unit result" where
  "mg_send_payload w name data sent =
     (case map_of (mg_can_id_by_name w) name of
        None \<Rightarrow> (w, Inl (ValueError ''motor is outside the fixed motor-group allowlist''))
      | Some can_id \<Rightarrow>
          if length data \<noteq> 8
          then (w, Inl (ValueError ''motor-group MIT payload must contain exactly eight bytes''))
          else (case canfd_pack can_id 8 1 0 0 (ljust 64 data) of Inl e \<Rightarrow> (w, Inl e)
            | Inr frame \<Rightarrow> (case sent of None \<Rightarrow> (w, Inl OSError)
              | Some n \<Rightarrow> (w\<lparr>mg_wire := mg_wire w @ [frame]\<rparr>, short_write_check frame n))))"

definition bump :: "(string, int) dict \<Rightarrow> string \<Rightarrow> (string, int) dict" where
  "bump d k = (case map_of d k of None \<Rightarrow> d | Some n \<Rightarrow> dict_set d k (n + 1))"

datatype group_call = GCommand encoded_command | GEnable string | GDisable string

fun mg_call :: "motor_group_writer \<Rightarrow> group_call \<Rightarrow> sent \<Rightarrow> motor_group_writer \<times> unit result" where
  "mg_call w (GCommand c) sent =
     (if map_of (mg_can_id_by_name w) (ec_motor_name c) \<noteq> Some (ec_can_id c)
         \<or> ec_interface c \<noteq> mg_interface w
      then (w, Inl (ValueError ''encoded MIT command is outside the motor-group allowlist''))
      else (case mg_send_payload w (ec_motor_name c) (ec_data c) sent of (w', Inl e) \<Rightarrow> (w', Inl e)
        | (w', Inr _) \<Rightarrow> (w'\<lparr>mg_command_tx_attempts :=
             bump (mg_command_tx_attempts w') (ec_motor_name c)\<rparr>, Inr ())))"
| "mg_call w (GEnable name) sent =
     (case mg_send_payload w name ENABLE_PAYLOAD sent of (w', Inl e) \<Rightarrow> (w', Inl e)
      | (w', Inr _) \<Rightarrow> (w'\<lparr>mg_enable_attempts := bump (mg_enable_attempts w') name\<rparr>, Inr ()))"
| "mg_call w (GDisable name) sent =
     (case mg_send_payload w name DISABLE_PAYLOAD sent of (w', Inl e) \<Rightarrow> (w', Inl e)
      | (w', Inr _) \<Rightarrow> (w'\<lparr>mg_disable_attempts := bump (mg_disable_attempts w') name\<rparr>, Inr ()))"

end
