(* ===== verification/Writers.thy ===== *)
theory Writers
  imports SocketCan
begin

text \<open>
  What the restricted writers can put on the bus. The contract of a restricted writer is the
  locale \<open>restricted_writer\<close>: every call appends at most one frame to the wire, every frame
  appended is permitted, and the permission never changes. Its consequence, that no sequence of
  calls ever emits anything else, is proved once and interpreted for the five writers.
\<close>

section \<open>Frames on the wire\<close>

lemma canfd_pack_simp:
  assumes "standard_id i"
  shows "canfd_pack i 8 1 0 0 (ljust 64 data) =
    Inr (le_bytes 4 i @ [8, 1, 0, 0] @ take 64 (ljust 64 data))"
  using assms
  by (simp add: canfd_pack_def pack_uint_def standard_id_def rbind_def numeral_eq_Suc ljust_def)

lemma canfd_unpack_wire:
  assumes "standard_id i" and "length data \<le> 64"
  shows "canfd_unpack (le_bytes 4 i @ [8, 1, 0, 0] @ take 64 (ljust 64 data)) =
    (i, 8, 1, ljust 64 data)"
proof -
  have "le_int (le_bytes 4 i) = i" using assms(1) by (simp add: le_int_le_bytes standard_id_def)
  moreover have "length (ljust 64 data) = 64" using assms(2) by simp
  ultimately show ?thesis by (simp add: canfd_unpack_def slice_def)
qed

definition wire_frame :: "int \<Rightarrow> bytes \<Rightarrow> bytes" where
  "wire_frame i data = le_bytes 4 i @ [8, 1, 0, 0] @ take 64 (ljust 64 data)"

lemma length_wire_frame: "length data \<le> 64 \<Longrightarrow> length (wire_frame i data) = 72"
  by (simp add: wire_frame_def)

lemma wire_frame_unpack:
  "standard_id i \<Longrightarrow> length data \<le> 64 \<Longrightarrow>
    canfd_unpack (wire_frame i data) = (i, 8, 1, ljust 64 data)"
  by (simp only: wire_frame_def canfd_unpack_wire)

lemma canfd_pack_wire:
  "standard_id i \<Longrightarrow> canfd_pack i 8 1 0 0 (ljust 64 data) = Inr (wire_frame i data)"
  by (simp only: wire_frame_def canfd_pack_simp)

section \<open>The contract of a restricted writer\<close>

fun writer_run :: "('s \<Rightarrow> 'c \<Rightarrow> sent \<Rightarrow> 's \<times> unit result) \<Rightarrow> 's \<Rightarrow> ('c \<times> sent) list \<Rightarrow> 's" where
  "writer_run call s [] = s"
| "writer_run call s ((c, n) # cs) = writer_run call (fst (call s c n)) cs"

locale restricted_writer =
  fixes call :: "'s \<Rightarrow> 'c \<Rightarrow> sent \<Rightarrow> 's \<times> unit result"
    and wire :: "'s \<Rightarrow> bytes list"
    and config :: "'s \<Rightarrow> 'k"
    and permitted :: "'k \<Rightarrow> bytes \<Rightarrow> bool"
  assumes call_config: "config (fst (call s c n)) = config s"
    and call_wire: "wire (fst (call s c n)) = wire s \<or>
      (\<exists>f. wire (fst (call s c n)) = wire s @ [f] \<and> permitted (config s) f)"
begin

lemma run_config: "config (writer_run call s cs) = config s"
  by (induction cs arbitrary: s) (auto simp: call_config split: prod.splits)

lemma run_wire:
  "\<exists>fs. wire (writer_run call s cs) = wire s @ fs \<and> list_all (permitted (config s)) fs"
proof (induction cs arbitrary: s)
  case Nil
  then show ?case by simp
next
  case (Cons cn cs)
  obtain c n where cn: "cn = (c, n)" by (cases cn)
  from Cons.IH [of "fst (call s c n)"] obtain fs where
    fs: "wire (writer_run call s (cn # cs)) = wire (fst (call s c n)) @ fs"
    "list_all (permitted (config s)) fs"
    by (auto simp: cn call_config)
  from call_wire [of s c n] show ?case
  proof
    assume "wire (fst (call s c n)) = wire s"
    with fs show ?thesis by auto
  next
    assume "\<exists>f. wire (fst (call s c n)) = wire s @ [f] \<and> permitted (config s) f"
    then obtain f where "wire (fst (call s c n)) = wire s @ [f]" "permitted (config s) f" by blast
    with fs show ?thesis by (intro exI [of _ "f # fs"]) simp
  qed
qed

lemma run_only_permitted:
  "list_all (permitted (config s)) (wire s) \<Longrightarrow>
    list_all (permitted (config s)) (wire (writer_run call s cs))"
  using run_wire [of s cs] by auto

end

section \<open>The five writers\<close>

definition zero_gain_frame :: "bytes \<Rightarrow> bool" where
  "zero_gain_frame f \<longleftrightarrow>
     (case canfd_unpack f of (i, len, flags, data) \<Rightarrow>
        length f = 72 \<and> standard_id i \<and> len = 8 \<and> flags = 1 \<and>
        mit_kp_raw data = 0 \<and> mit_kd_raw data = 0 \<and>
        mit_velocity_raw data \<in> {2047, 2048} \<and> mit_torque_raw data \<in> {2047, 2048})"

lemma byte_at_ljust: "i < length data \<Longrightarrow> byte_at (ljust n data) i = byte_at data i"
  by (simp add: byte_at_def ljust_def nth_append)

lemma mit_raw_ljust:
  assumes "length data = 8"
  shows "mit_kp_raw (ljust n data) = mit_kp_raw data"
    "mit_kd_raw (ljust n data) = mit_kd_raw data"
    "mit_velocity_raw (ljust n data) = mit_velocity_raw data"
    "mit_torque_raw (ljust n data) = mit_torque_raw data"
  using assms
  by (simp_all add: mit_kp_raw_def mit_kd_raw_def mit_velocity_raw_def mit_torque_raw_def
      byte_at_ljust)

lemma validated_zero_gain_frame:
  assumes "standard_id i" and "validate_zero_gain_mit_payload data = Inr ()"
  shows "zero_gain_frame (wire_frame i data)"
  using assms
  by (auto simp: validate_zero_gain_mit_payload_def zero_gain_frame_def wire_frame_unpack
      length_wire_frame mit_raw_ljust split: if_splits)

interpretation zero_gain: restricted_writer send_zero_gain_poll zg_wire zg_interface
  "\<lambda>_. zero_gain_frame"
  by unfold_locales
    (auto simp: send_zero_gain_poll_def canfd_pack_wire validated_zero_gain_frame
      split: prod.splits sum.splits option.splits)

text \<open>A read request names an allowed motor and register under the read opcode, nothing else.\<close>

definition read_request_frame :: "int list \<Rightarrow> int list \<Rightarrow> bytes \<Rightarrow> bool" where
  "read_request_frame rids ids f \<longleftrightarrow>
     (\<exists>m \<in> set ids. \<exists>r \<in> set rids. f = wire_frame PARAMETER_CAN_ID (read_request_data m r))"

lemma standard_PARAMETER_CAN_ID: "standard_id PARAMETER_CAN_ID"
  by (simp add: standard_id_def PARAMETER_CAN_ID_def)

lemma send_read_request_frame:
  "rr_allowed_motor_can_ids (fst (send_read_request_with rids msg w c n)) = rr_allowed_motor_can_ids w
   \<and> (rr_wire (fst (send_read_request_with rids msg w c n)) = rr_wire w \<or>
      (\<exists>f. rr_wire (fst (send_read_request_with rids msg w c n)) = rr_wire w @ [f] \<and>
         read_request_frame rids (rr_allowed_motor_can_ids w) f))"
  by (auto simp: send_read_request_with_def canfd_pack_wire standard_PARAMETER_CAN_ID
      read_request_frame_def split: prod.splits option.splits)

interpretation range_reader: restricted_writer send_read_request rr_wire
  rr_allowed_motor_can_ids "read_request_frame range_register_ids"
  unfolding send_read_request_def using send_read_request_frame by unfold_locales blast+

interpretation commissioning_reader: restricted_writer send_commissioning_read_request rr_wire
  rr_allowed_motor_can_ids "read_request_frame commissioning_register_ids"
  unfolding send_commissioning_read_request_def using send_read_request_frame
  by unfold_locales blast+

definition set_zero_frame :: "int list \<Rightarrow> bytes \<Rightarrow> bool" where
  "set_zero_frame ids f \<longleftrightarrow> (\<exists>i \<in> set ids. f = wire_frame i SET_ZERO_PAYLOAD)"

lemma canfd_pack_Inr:
  "canfd_pack i 8 1 0 0 (ljust 64 data) = Inr f \<Longrightarrow> f = wire_frame i data"
  by (auto simp: canfd_pack_def pack_uint_def rbind_eq_Inr wire_frame_def numeral_eq_Suc ljust_def
      split: if_splits)

interpretation set_zero: restricted_writer send_set_zero sz_wire sz_allowed_can_ids set_zero_frame
  by unfold_locales
    (auto simp: send_set_zero_def set_zero_frame_def dest: canfd_pack_Inr
      split: sum.splits option.splits)

definition single_motor_frame :: "int \<Rightarrow> bytes \<Rightarrow> bool" where
  "single_motor_frame i f \<longleftrightarrow> (\<exists>data. length data = 8 \<and> f = wire_frame i data)"

lemma sm_send_payload_frame:
  "sm_can_id (fst (sm_send_payload w data n)) = sm_can_id w \<and>
   (sm_wire (fst (sm_send_payload w data n)) = sm_wire w \<or>
    (\<exists>f. sm_wire (fst (sm_send_payload w data n)) = sm_wire w @ [f] \<and>
       single_motor_frame (sm_can_id w) f))"
  by (auto simp: sm_send_payload_def single_motor_frame_def dest: canfd_pack_Inr
      split: sum.splits option.splits)

lemma sm_call_frame:
  "sm_can_id (fst (sm_call w c n)) = sm_can_id w \<and>
   (sm_wire (fst (sm_call w c n)) = sm_wire w \<or>
    (\<exists>f. sm_wire (fst (sm_call w c n)) = sm_wire w @ [f] \<and> single_motor_frame (sm_can_id w) f))"
proof (cases c)
  case (SCommand x)
  then show ?thesis using sm_send_payload_frame [of w "ec_data x" n]
    by (auto split: prod.splits sum.splits)
next
  case SEnable
  then show ?thesis using sm_send_payload_frame [of w ENABLE_PAYLOAD n]
    by (auto split: prod.splits sum.splits)
next
  case SDisable
  then show ?thesis using sm_send_payload_frame [of w DISABLE_PAYLOAD n]
    by (auto split: prod.splits sum.splits)
qed

interpretation single_motor: restricted_writer sm_call sm_wire sm_can_id single_motor_frame
  using sm_call_frame by unfold_locales blast+

definition group_frame :: "(string, int) dict \<Rightarrow> bytes \<Rightarrow> bool" where
  "group_frame ids f \<longleftrightarrow>
     (\<exists>name i data. map_of ids name = Some i \<and> length data = 8 \<and> f = wire_frame i data)"

lemma mg_send_payload_frame:
  "mg_can_id_by_name (fst (mg_send_payload w name data n)) = mg_can_id_by_name w \<and>
   (mg_wire (fst (mg_send_payload w name data n)) = mg_wire w \<or>
    (\<exists>f. mg_wire (fst (mg_send_payload w name data n)) = mg_wire w @ [f] \<and>
       group_frame (mg_can_id_by_name w) f))"
  by (auto simp: mg_send_payload_def group_frame_def dest: canfd_pack_Inr
      split: sum.splits option.splits)

lemma mg_call_frame:
  "mg_can_id_by_name (fst (mg_call w c n)) = mg_can_id_by_name w \<and>
   (mg_wire (fst (mg_call w c n)) = mg_wire w \<or>
    (\<exists>f. mg_wire (fst (mg_call w c n)) = mg_wire w @ [f] \<and> group_frame (mg_can_id_by_name w) f))"
proof (cases c)
  case (GCommand x)
  then show ?thesis using mg_send_payload_frame [of w "ec_motor_name x" "ec_data x" n]
    by (auto split: prod.splits sum.splits)
next
  case (GEnable name)
  then show ?thesis using mg_send_payload_frame [of w name ENABLE_PAYLOAD n]
    by (auto split: prod.splits sum.splits)
next
  case (GDisable name)
  then show ?thesis using mg_send_payload_frame [of w name DISABLE_PAYLOAD n]
    by (auto split: prod.splits sum.splits)
qed

interpretation motor_group: restricted_writer mg_call mg_wire mg_can_id_by_name group_frame
  using mg_call_frame by unfold_locales blast+

section \<open>Bytes of the frames\<close>

lemma read_request_bytes:
  assumes "read_request_frame rids ids f" and "list_all standard_id ids"
  shows "\<exists>m \<in> set ids. \<exists>r \<in> set rids. canfd_unpack f =
    (0x7FF, 8, 1, ljust 64 [word_of_int (m mod 256), word_of_int (m div 256), 0x33, word_of_int r, 0, 0, 0, 0])"
proof -
  from assms(1) obtain m r where mr: "m \<in> set ids" "r \<in> set rids"
    "f = wire_frame PARAMETER_CAN_ID (read_request_data m r)"
    by (auto simp: read_request_frame_def)
  have "0 \<le> m" "m \<le> 0x7FF"
    using mr(1) assms(2) by (auto simp: list_all_iff standard_id_def)
  then have "m AND 0xFF = m mod 256" "drop_bit 8 m AND 0xFF = m div 256"
    by (simp_all add: int_and_255 drop_bit_eq_div)
  then have "read_request_data m r =
      [word_of_int (m mod 256), word_of_int (m div 256), 0x33, word_of_int r, 0, 0, 0, 0]"
    by (simp add: read_request_data_def READ_OPCODE_def)
  then have "canfd_unpack f = (0x7FF, 8, 1, ljust 64 [word_of_int (m mod 256),
      word_of_int (m div 256), 0x33, word_of_int r, 0, 0, 0, 0])"
    using mr(3) standard_PARAMETER_CAN_ID
    by (simp add: wire_frame_unpack PARAMETER_CAN_ID_def)
  with mr(1,2) show ?thesis by blast
qed

text \<open>A frame on the wire reads back as the standard CAN-FD frame that was sent.\<close>

lemma int_bit_standard:
  assumes "standard_id i" and "m \<in> {CAN_EFF_FLAG, CAN_RTR_FLAG, CAN_ERR_FLAG}"
  shows "\<not> int_bit i m"
proof -
  have i: "take_bit 11 i = i" using assms(1) by (simp add: standard_id_def take_bit_eq_mod)
  obtain k where "m = 2 ^ k" "11 \<le> k"
    using assms(2) that [of 31] that [of 30] that [of 29]
    by (auto simp: CAN_EFF_FLAG_def CAN_RTR_FLAG_def CAN_ERR_FLAG_def)
  moreover have "\<not> bit i k" if "11 \<le> k" for k
    using i that by (metis bit_take_bit_iff linorder_not_le)
  ultimately show ?thesis
    by (simp add: int_bit_def and_exp_eq_0_iff_not_bit)
qed

lemma can_id_mask_standard: "standard_id i \<Longrightarrow> i AND CAN_ID_MASK = i"
  using int_and_mask [of i 29] by (simp add: CAN_ID_MASK_def standard_id_def)

lemma receive_wire_frame:
  assumes "standard_id i" and "length data = 8"
    and "socket_timestamps_ns anc = Inr (sw, hw)" and "sw \<le> clock"
  shows "receive iface (wire_frame i data) anc clock = Inr \<lparr>f_interface = iface, f_can_id = i,
    f_data = data, is_extended = False, is_remote = False, is_error = False, is_fd = True,
    bit_rate_switch = True, error_state_indicator = False, software_timestamp_ns = sw,
    hardware_timestamp_ns = hw, userspace_receive_timestamp_ns = clock\<rparr>"
proof -
  have "take 8 (ljust 64 data) = data" using assms(2) by (metis take_ljust)
  moreover have "int_bit 1 1" "\<not> int_bit 1 2" by (simp_all add: int_bit_def)
  ultimately show ?thesis
    using assms
    by (simp add: receive_def wire_frame_unpack length_wire_frame int_bit_standard
        can_id_mask_standard)
qed

lemma socket_timestamps_positive:
  "socket_timestamps_ns anc = Inr (sw, hw) \<Longrightarrow> 0 < sw \<and> 0 < hw"
  by (induction anc rule: socket_timestamps_ns.induct) (auto simp: Let_def split: if_splits)

section \<open>Properties\<close>

text \<open>
  C6. Whatever a caller asks a zero-gain poller to send, and however the socket answers, every
  frame that reaches the socket is a 72-byte CAN-FD frame with a standard identifier whose MIT
  fields Kp and Kd are zero and whose velocity and torque fields encode zero: the object cannot
  command motion.
\<close>

theorem zero_gain_poller_cannot_actuate:
  "list_all zero_gain_frame (zg_wire (writer_run send_zero_gain_poll (new_zero_gain_poller iface) calls))"
  using zero_gain.run_only_permitted [of "new_zero_gain_poller iface" calls]
  by (simp add: new_zero_gain_poller_def)

text \<open>
  A register reader, whatever it is asked, only ever sends read requests: CAN identifier
  0x7FF, opcode 0x33, an allowlisted motor and, for the range reader, one of the registers 21, 22
  and 23, with the four value bytes zero.
\<close>

theorem register_reader_only_reads:
  assumes "new_register_reader iface ids = Inr r"
    and "f \<in> set (rr_wire (writer_run send_read_request r calls))"
  shows "\<exists>m \<in> set ids. \<exists>rid \<in> {21, 22, 23}. canfd_unpack f = (0x7FF, 8, 1,
    ljust 64 [word_of_int (m mod 256), word_of_int (m div 256), 0x33, word_of_int rid, 0, 0, 0, 0])"
proof -
  have r: "rr_wire r = []" "rr_allowed_motor_can_ids r = ids" "list_all standard_id ids"
    using assms(1) by (auto simp: new_register_reader_def list_ex_iff list_all_iff split: if_splits)
  with range_reader.run_only_permitted [of r calls] assms(2)
  have "read_request_frame range_register_ids ids f" by (simp add: list_all_iff)
  from read_request_bytes [OF this r(3)] show ?thesis
    by (simp add: range_register_ids_def)
qed

theorem register_reader_only_reads_witness:
  "\<exists>m \<in> {1, 2}. \<exists>rid \<in> {21, 22, 23}. canfd_unpack (wire_frame 0x7FF (read_request_data 1 21)) =
    (0x7FF, 8, 1, ljust 64 [word_of_int (m mod 256), word_of_int (m div 256), 0x33,
      word_of_int rid, 0, 0, 0, 0])"
proof -
  have new: "new_register_reader ''can0'' [1, 2] = Inr \<lparr>rr_interface = ''can0'',
      rr_allowed_motor_can_ids = [1, 2], rr_wire = [], rr_tx_attempts = 0\<rparr>"
    by (simp add: new_register_reader_def standard_id_def)
  show ?thesis
    using register_reader_only_reads [OF new, of "wire_frame 0x7FF (read_request_data 1 21)"
        "[((1, 21), Some 72)]"]
    by (simp add: send_read_request_def send_read_request_with_def canfd_pack_wire
        standard_PARAMETER_CAN_ID range_register_ids_def PARAMETER_CAN_ID_def standard_id_def
        wire_frame_def [symmetric])
qed

text \<open>
  A motor-group writer that was built sends only eight-byte payloads to the CAN identifiers
  of its own, uniquely named motors, all of them standard identifiers.
\<close>

theorem group_writer_only_own_motors:
  assumes "new_motor_group_writer iface endpoints = Inr w"
    and "f \<in> set (mg_wire (writer_run mg_call w calls))"
  shows "\<exists>name i data. (name, i) \<in> set endpoints \<and> standard_id i \<and> length data = 8 \<and>
    canfd_unpack f = (i, 8, 1, ljust 64 data)"
proof -
  have w: "mg_wire w = []" "mg_can_id_by_name w = dict_of endpoints"
    and len: "length (dict_of endpoints) = length endpoints"
    and ids: "\<forall>(n, i) \<in> set endpoints. standard_id i"
    using assms(1) by (auto simp: new_motor_group_writer_def Let_def list_ex_iff split: if_splits)
  from w motor_group.run_only_permitted [of w calls] assms(2)
  have "group_frame (dict_of endpoints) f" by (simp add: list_all_iff)
  then obtain name i data where f: "map_of (dict_of endpoints) name = Some i" "length data = 8"
    "f = wire_frame i data" by (auto simp: group_frame_def)
  from f(1) have "(name, i) \<in> set endpoints" using dict_of_subset map_of_SomeD by fast
  with ids f show ?thesis by (intro exI [of _ name] exI [of _ i] exI [of _ data])
      (auto simp: wire_frame_unpack)
qed

definition two_motor_writer :: motor_group_writer where
  "two_motor_writer = \<lparr>mg_interface = ''can0'', mg_can_id_by_name = [(''hip'', 1), (''knee'', 2)],
     mg_wire = [], mg_command_tx_attempts = [(''hip'', 0), (''knee'', 0)],
     mg_enable_attempts = [(''hip'', 0), (''knee'', 0)],
     mg_disable_attempts = [(''hip'', 0), (''knee'', 0)]\<rparr>"

lemma new_two_motor_writer:
  "new_motor_group_writer ''can0'' [(''hip'', 1), (''knee'', 2)] = Inr two_motor_writer"
  by (simp add: new_motor_group_writer_def two_motor_writer_def standard_id_def Let_def)

theorem group_writer_only_own_motors_witness:
  "\<exists>name i data. (name, i) \<in> {(''hip'', 1), (''knee'', 2)} \<and> standard_id i \<and> length data = 8 \<and>
    canfd_unpack (wire_frame 2 DISABLE_PAYLOAD) = (i, 8, 1, ljust 64 data)"
  using group_writer_only_own_motors [OF new_two_motor_writer,
      of "wire_frame 2 DISABLE_PAYLOAD" "[(GDisable ''knee'', Some 72)]"]
  by (simp add: two_motor_writer_def mg_send_payload_def DISABLE_PAYLOAD_def canfd_pack_wire
      standard_id_def short_write_check_def length_wire_frame wire_frame_def [symmetric])

text \<open>
  The frame a restricted writer puts on the bus for a standard identifier and eight data bytes
  is read back by the receiver as that identifier and those bytes, as a non-extended, non-remote,
  error-free CAN-FD frame with bit-rate switching, with the timestamps the kernel supplied.
\<close>

theorem wire_roundtrip:
  assumes "canfd_pack i 8 1 0 0 (ljust 64 data) = Inr frame" and "standard_id i" and "length data = 8"
    and "socket_timestamps_ns anc = Inr (sw, hw)" and "sw \<le> clock"
  shows "receive iface frame anc clock = Inr \<lparr>f_interface = iface, f_can_id = i,
    f_data = data, is_extended = False, is_remote = False, is_error = False, is_fd = True,
    bit_rate_switch = True, error_state_indicator = False, software_timestamp_ns = sw,
    hardware_timestamp_ns = hw, userspace_receive_timestamp_ns = clock\<rparr>"
  using receive_wire_frame [OF assms(2-5), of iface] assms(1) by (auto dest: canfd_pack_Inr)

definition sample_ancillary :: ancillary where
  "sample_ancillary = [(1, 37, [5, 0, 0, 0, 0, 0, 0, 0, 7, 0, 0, 0, 0, 0, 0, 0] @ replicate 16 0 @
     [6, 0, 0, 0, 0, 0, 0, 0, 9, 0, 0, 0, 0, 0, 0, 0])]"

lemma sample_timestamps: "socket_timestamps_ns sample_ancillary = Inr (5000000007, 6000000009)"
proof -
  have r: "replicate 16 (0 :: byte) = [0,0,0,0,0,0,0,0,0,0,0,0,0,0,0,0]"
    by (simp add: numeral_eq_Suc)
  have six: "[0..<6] = [0, 1, 2, 3, 4, 5 :: nat]" by (simp add: upt_rec)
  show ?thesis
    unfolding sample_ancillary_def r
    by (simp add: SOL_SOCKET_def SO_TIMESTAMPING_LINUX_64_def Let_def timespec_values_def six
        slice_def le_sint_def)
qed

theorem wire_roundtrip_witness:
  "receive ''can0'' (wire_frame 3 DISABLE_PAYLOAD) sample_ancillary 7000000000 = Inr
    \<lparr>f_interface = ''can0'', f_can_id = 3,
    f_data = DISABLE_PAYLOAD, is_extended = False, is_remote = False, is_error = False, is_fd = True,
    bit_rate_switch = True, error_state_indicator = False, software_timestamp_ns = 5000000007,
    hardware_timestamp_ns = 6000000009, userspace_receive_timestamp_ns = 7000000000\<rparr>"
  by (rule wire_roundtrip [OF canfd_pack_wire _ _ sample_timestamps])
    (simp_all add: standard_id_def DISABLE_PAYLOAD_def)

text \<open>
  A frame is only accepted with timestamp evidence: a positive kernel timestamp that is not
  later than the userspace receipt, and a positive raw hardware timestamp of its own (the software
  timestamp is never used in its place); its identifier has 29 bits and its data at most 64 bytes.
\<close>

theorem received_frame_timestamps:
  assumes "receive iface payload anc clock = Inr fr"
  shows "0 < software_timestamp_ns fr \<and> software_timestamp_ns fr \<le> userspace_receive_timestamp_ns fr \<and>
    0 < hardware_timestamp_ns fr \<and> 0 \<le> frame_queue_age_ns fr \<and>
    socket_timestamps_ns anc = Inr (software_timestamp_ns fr, hardware_timestamp_ns fr) \<and>
    f_interface fr = iface \<and> 0 \<le> f_can_id fr \<and> f_can_id fr < 2 ^ 29 \<and> length (f_data fr) \<le> 64"
proof -
  from assms obtain sw hw raw len data fd brs esi where ts: "socket_timestamps_ns anc = Inr (sw, hw)"
    "sw \<le> clock" and fr: "software_timestamp_ns fr = sw" "hardware_timestamp_ns fr = hw"
    "userspace_receive_timestamp_ns fr = clock" "f_interface fr = iface"
    "f_can_id fr = raw AND CAN_ID_MASK" "f_data fr = take (nat len) data" "length data \<le> 64"
    by (auto simp: receive_def rbind_eq_Inr canfd_unpack_def can_unpack_def slice_def
        split: if_splits)
  have "f_can_id fr = raw mod 2 ^ 29" using int_and_mask [of raw 29] fr(5) by (simp add: CAN_ID_MASK_def)
  then have "0 \<le> f_can_id fr" "f_can_id fr < 2 ^ 29" by simp_all
  with socket_timestamps_positive [OF ts(1)] ts fr show ?thesis
    by (simp add: frame_queue_age_ns_def)
qed

theorem received_frame_timestamps_witness:
  "\<exists>fr. receive ''can0'' (wire_frame 3 DISABLE_PAYLOAD) sample_ancillary 7000000000 = Inr fr \<and>
    0 < hardware_timestamp_ns fr"
proof -
  have "\<exists>fr. receive ''can0'' (wire_frame 3 DISABLE_PAYLOAD) sample_ancillary 7000000000 = Inr fr"
    using receive_wire_frame [OF _ _ sample_timestamps, of 3 DISABLE_PAYLOAD 7000000000 "''can0''"]
    by (simp add: standard_id_def DISABLE_PAYLOAD_def)
  then show ?thesis using received_frame_timestamps by blast
qed

end
