(* ===== verification/Preflight.thy ===== *)
theory Preflight
  imports SocketCan
begin

text \<open>
  What a passed snapshot audit says of the snapshot, and what opening a socket on its strength
  does: the audits fail closed, and an open that fails has closed the socket.
\<close>

section \<open>Snapshots\<close>

lemma snapshot_entry:
  assumes "map_of (snapshot_entries snap) name = Some e"
  shows "e \<in> set snap \<and> jget e ''ifname'' = JStr name"
proof -
  from map_of_SomeD [OF assms [unfolded snapshot_entries_def]]
  have "(name, e) \<in> set (map (\<lambda>e. (jstring (jget e ''ifname''), e))
      (filter (\<lambda>e. is_dict e \<and> is_str (jget e ''ifname'')) snap))"
    by (rule subsetD [OF dict_of_subset])
  then have "e \<in> set snap" "is_str (jget e ''ifname'')" "jstring (jget e ''ifname'') = name"
    by auto
  then show ?thesis by (cases "jget e ''ifname''") auto
qed

lemma rx_entry_errors_Nil:
  "rx_entry_errors name entry = [] \<longleftrightarrow>
    (\<exists>e. entry = Some e \<and> is_can e \<and> link_is_up (jget e ''flags'') \<and> ''LISTEN-ONLY'' \<in> set (ctrlmodes e))"
  by (auto simp: rx_entry_errors_def split: option.splits)

lemma audit_rx_passed:
  assumes "rx_passed (audit_rx_snapshot snapshot expected)" and "name \<in> set expected"
  shows "\<exists>xs e. snapshot = JArr xs \<and> e \<in> set xs \<and> jget e ''ifname'' = JStr name \<and> is_can e \<and>
    link_is_up (jget e ''flags'') \<and> ''LISTEN-ONLY'' \<in> set (ctrlmodes e)"
proof -
  from assms(1) obtain xs where xs: "snapshot = JArr xs"
    and err: "\<forall>n \<in> set expected. rx_entry_errors n (map_of (snapshot_entries xs) n) = []"
    by (cases snapshot) (auto simp: rx_passed_def audit_rx_snapshot_def Let_def split: if_splits)
  from err assms(2) obtain e where e: "map_of (snapshot_entries xs) name = Some e" "is_can e"
    "link_is_up (jget e ''flags'')" "''LISTEN-ONLY'' \<in> set (ctrlmodes e)"
    by (auto simp: rx_entry_errors_Nil)
  with snapshot_entry [OF e(1)] xs show ?thesis by blast
qed

lemma audit_rx_expected:
  assumes "rx_passed (audit_rx_snapshot snapshot expected)"
  shows "length expected = 4 \<and> distinct expected"
proof -
  from assms have "length expected = 4" "length (remdups expected) = 4"
    by (auto simp: rx_passed_def audit_rx_snapshot_def Let_def split: if_splits json.splits)
  then have "length (remdups expected) = length expected" by simp
  then have "distinct expected" by (simp only: length_remdups_eq remdups_id_iff_distinct)
  with \<open>length expected = 4\<close> show ?thesis by simp
qed

lemma fd_entry_errors_Nil:
  assumes "fd_entry_errors name nominal data e = Inr []"
  shows "\<exists>fs. json_iter (jget e ''flags'') = Inr fs \<and> ''UP'' \<in> set (map (\<lambda>f. upper (py_str f)) fs) \<and>
    ''LISTEN-ONLY'' \<notin> set (ctrlmodes e) \<and> ''FD'' \<in> set (ctrlmodes e) \<and>
    json_eq_int (jget (jget (jget (jget e ''linkinfo'') ''info_data'') ''bittiming'') ''bitrate'') nominal \<and>
    json_eq_int (jget (jget (jget (jget e ''linkinfo'') ''info_data'') ''data_bittiming'') ''bitrate'') data"
  using assms by (auto simp: fd_entry_errors_def rbind_eq_Inr Let_def split: if_splits)

section \<open>Opening\<close>

lemma run_setup_outcome:
  "run_setup fails calls = (calls_made, ok) \<Longrightarrow>
    (if ok then calls_made = calls else last calls_made = Close \<and> calls_made \<noteq> [])"
  by (induction calls arbitrary: calls_made) (auto split: if_splits prod.splits)

section \<open>Properties\<close>

text \<open>
  C14. A receiver only opens an interface that the audited snapshot shows as a CAN link that is up
  with kernel LISTEN-ONLY on, one of exactly four distinct expected interfaces; and when a system
  call of the open is refused, the socket was closed as the last step.
\<close>

theorem receiver_open_listen_only:
  assumes "receiver_open fails iface (audit_rx_snapshot snapshot expected) = Inr (calls_made, ok)"
  shows "length expected = 4 \<and> distinct expected \<and> iface \<in> set expected \<and>
    (\<exists>xs e. snapshot = JArr xs \<and> e \<in> set xs \<and> jget e ''ifname'' = JStr iface \<and> is_can e \<and>
       link_is_up (jget e ''flags'') \<and> ''LISTEN-ONLY'' \<in> set (ctrlmodes e)) \<and>
    (if ok then calls_made = [fd_frames_call, timestamping_call, Bind iface] else last calls_made = Close)"
proof -
  let ?r = "audit_rx_snapshot snapshot expected"
  from assms have p: "rx_passed ?r" "iface \<in> set (listen_only_interfaces ?r)"
    "run_setup fails [fd_frames_call, timestamping_call, Bind iface] = (calls_made, ok)"
    by (auto simp: receiver_open_def simp del: run_setup.simps split: if_splits)
  from p(2) have "iface \<in> set expected"
    by (auto simp: audit_rx_snapshot_def Let_def split: json.splits)
  moreover have "if ok then calls_made = [fd_frames_call, timestamping_call, Bind iface]
      else last calls_made = Close"
    using run_setup_outcome [OF p(3)] by (simp split: if_splits)
  ultimately show ?thesis
    using audit_rx_passed [OF p(1)] audit_rx_expected [OF p(1)] by blast
qed

definition can_entry :: "string \<Rightarrow> string list \<Rightarrow> json" where
  "can_entry name modes = JObj [(''ifname'', JStr name), (''flags'', JArr [JStr ''UP'']),
     (''linkinfo'', JObj [(''info_kind'', JStr ''can''), (''info_data'', JObj
       [(''ctrlmode'', JArr (map JStr modes)), (''bittiming'', JObj [(''bitrate'', JInt 1000000)]),
        (''data_bittiming'', JObj [(''bitrate'', JInt 5000000)])])])]"

lemma jget_can_entry [simp]:
  "is_dict (can_entry name modes)"
  "jget (can_entry name modes) ''ifname'' = JStr name"
  "jget (can_entry name modes) ''flags'' = JArr [JStr ''UP'']"
  "''flags'' \<in> set (keys (jfields (can_entry name modes)))"
  "is_can (can_entry name modes)"
  "ctrlmodes (can_entry name modes) = map upper modes"
  "jget (jget (jget (jget (can_entry name modes) ''linkinfo'') ''info_data'') ''bittiming'') ''bitrate''
    = JInt 1000000"
  "jget (jget (jget (jget (can_entry name modes) ''linkinfo'') ''info_data'') ''data_bittiming'') ''bitrate''
    = JInt 5000000"
  "''state'' \<notin> set (keys (jfields (jget (jget (can_entry name modes) ''linkinfo'') ''info_data'')))"
  by (simp_all add: can_entry_def jget_def is_can_def ctrlmodes_def)

lemma upper_keywords [simp]:
  "upper ''UP'' = ''UP''" "upper ''FD'' = ''FD''" "upper ''LISTEN-ONLY'' = ''LISTEN-ONLY''"
  by (simp_all add: upper_def upper_char_def)

definition listening_snapshot :: json where
  "listening_snapshot =
     JArr (map (\<lambda>n. can_entry n [''LISTEN-ONLY'']) [''can0'', ''can1'', ''can2'', ''can3''])"

theorem receiver_open_listen_only_witness:
  "\<exists>xs e. listening_snapshot = JArr xs \<and> e \<in> set xs \<and> jget e ''ifname'' = JStr ''can2'' \<and>
    ''LISTEN-ONLY'' \<in> set (ctrlmodes e)"
proof -
  let ?r = "audit_rx_snapshot listening_snapshot [''can0'', ''can1'', ''can2'', ''can3'']"
  have "receiver_open (\<lambda>_. False) ''can2'' ?r =
      Inr ([fd_frames_call, timestamping_call, Bind ''can2''], True)"
    by (simp add: receiver_open_def rx_passed_def audit_rx_snapshot_def listening_snapshot_def
        snapshot_entries_def rx_entry_errors_def link_is_up_def Let_def)
  from receiver_open_listen_only [OF this] show ?thesis by blast
qed

text \<open>
  An active transceiver only opens on a preflight of the same interface that found the link up
  with CAN FD on, LISTEN-ONLY off and exactly the required arbitration and data bitrates.
\<close>

theorem transceiver_open_fd_bitrates:
  assumes "audit_active_fd_snapshot snapshot name nominal data = Inr pre"
    and "transceiver_open fails iface pre = Inr (calls_made, ok)"
  shows "iface = name \<and>
    (\<exists>xs e fs. snapshot = JArr xs \<and> e \<in> set xs \<and> jget e ''ifname'' = JStr iface \<and>
       json_iter (jget e ''flags'') = Inr fs \<and> ''UP'' \<in> set (map (\<lambda>f. upper (py_str f)) fs) \<and>
       ''LISTEN-ONLY'' \<notin> set (ctrlmodes e) \<and> ''FD'' \<in> set (ctrlmodes e) \<and>
       json_eq_int (jget (jget (jget (jget e ''linkinfo'') ''info_data'') ''bittiming'') ''bitrate'') nominal \<and>
       json_eq_int (jget (jget (jget (jget e ''linkinfo'') ''info_data'') ''data_bittiming'') ''bitrate'') data)
    \<and> (if ok then calls_made = [fd_frames_call, timestamping_call, Bind iface, Setblocking False]
       else last calls_made = Close)"
proof -
  from assms(2) have p: "fd_errors pre = []" "fd_interface pre = iface"
    "run_setup fails [fd_frames_call, timestamping_call, Bind iface, Setblocking False] = (calls_made, ok)"
    by (auto simp: transceiver_open_def fd_open_def fd_passed_def simp del: run_setup.simps
        split: if_splits)
  from assms(1) p(1,2) obtain xs e where x: "snapshot = JArr xs" "iface = name"
    "map_of (snapshot_entries xs) name = Some e" "fd_entry_errors name nominal data e = Inr []"
    by (cases snapshot) (auto simp: audit_active_fd_snapshot_def rbind_eq_Inr Let_def
        split: option.splits)
  have "if ok then calls_made = [fd_frames_call, timestamping_call, Bind iface, Setblocking False]
      else last calls_made = Close"
    using run_setup_outcome [OF p(3)] by (simp split: if_splits)
  with snapshot_entry [OF x(3)] fd_entry_errors_Nil [OF x(4)] x(1,2) show ?thesis by blast
qed

theorem transceiver_open_fd_bitrates_witness:
  "\<exists>xs e. JArr [can_entry ''can0'' [''FD'']] = JArr xs \<and> e \<in> set xs \<and>
    jget e ''ifname'' = JStr ''can0'' \<and> ''FD'' \<in> set (ctrlmodes e)"
proof -
  have fd: "fd_entry_errors ''can0'' 1000000 5000000 (can_entry ''can0'' [''FD'']) = Inr []"
    by (simp add: fd_entry_errors_def can_entry_def jget_def ctrlmodes_def)
  obtain pre where pre: "audit_active_fd_snapshot (JArr [can_entry ''can0'' [''FD'']]) ''can0'' 1000000
      5000000 = Inr pre" "fd_errors pre = []" "fd_interface pre = ''can0''"
    by (simp add: audit_active_fd_snapshot_def snapshot_entries_def fd Let_def)
  then have "transceiver_open (\<lambda>c. c = Setblocking False) ''can0'' pre = Inr ([fd_frames_call,
      timestamping_call, Bind ''can0'', Setblocking False, Close], False)"
    by (simp add: transceiver_open_def fd_open_def fd_passed_def fd_frames_call_def
        timestamping_call_def)
  from transceiver_open_fd_bitrates [OF pre(1) this] show ?thesis by blast
qed

end
