(* ===== verification/Damiao.thy ===== *)
theory Damiao
  imports SocketCan Telemetry
begin

text \<open>
  The Damiao MIT frame codec (\<open>damiao.py\<close>): ranges, endpoints, commands and their project
  envelope, the strict quantisation and packing of a command, the all-or-nothing encoding of a
  motor bank, and the decoding of feedback frames. A \<open>__post_init__\<close> that validates is the
  \<open>new_\<close> function of its class.
\<close>

section \<open>Ranges and endpoints\<close>

definition STATUS_NAMES :: "(int, string) dict" where
  "STATUS_NAMES = [(0x0, ''disabled''), (0x1, ''enabled''), (0x8, ''over_voltage''),
     (0x9, ''under_voltage''), (0xA, ''over_current''), (0xB, ''mos_over_temperature''),
     (0xC, ''motor_coil_over_temperature''), (0xD, ''communication_lost''), (0xE, ''overload'')]"

type_synonym frange = "pyfloat \<times> pyfloat"

definition validate_range :: "string \<Rightarrow> pyfloat list \<Rightarrow> frange result" where
  "validate_range name value =
     (case value of
        [low, high] \<Rightarrow>
          if \<not> isfinite low \<or> \<not> isfinite high \<or> fle high low
          then Inl (ValueError (name @ '' must have finite lower < upper''))
          else Inr (low, high)
      | _ \<Rightarrow> Inl (ValueError (name @ '' must contain exactly two values'')))"

record mit_ranges =
  rng_position_rad :: frange
  rng_velocity_rad_s :: frange
  rng_torque_nm :: frange
  rng_source :: string

definition new_mit_ranges ::
  "pyfloat list \<Rightarrow> pyfloat list \<Rightarrow> pyfloat list \<Rightarrow> string \<Rightarrow> mit_ranges result" where
  "new_mit_ranges position velocity torque source =
     rbind (validate_range ''position_rad'' position) (\<lambda>p.
     rbind (validate_range ''velocity_rad_s'' velocity) (\<lambda>v.
     rbind (validate_range ''torque_nm'' torque) (\<lambda>t.
       if source \<notin> {''motor_register_readback'', ''operator_confirmed_drive_configuration''}
       then Inl (ValueError (''MIT ranges must use motor_register_readback or an explicitly '' @
         ''operator_confirmed_drive_configuration source''))
       else Inr \<lparr>rng_position_rad = p, rng_velocity_rad_s = v, rng_torque_nm = t,
                 rng_source = source\<rparr>)))"

definition register_readback_verified :: "mit_ranges \<Rightarrow> bool" where
  "register_readback_verified r = (rng_source r = ''motor_register_readback'')"

record feedback_endpoint =
  ep_motor_name :: string
  ep_interface :: string
  ep_can_id :: int
  ep_master_id :: int
  ep_ranges :: mit_ranges

definition new_feedback_endpoint ::
  "string \<Rightarrow> string \<Rightarrow> int \<Rightarrow> int \<Rightarrow> mit_ranges \<Rightarrow> feedback_endpoint result" where
  "new_feedback_endpoint name iface can_id master_id ranges =
     (if name = [] \<or> iface = [] then Inl (ValueError ''motor_name and interface are required'')
      else if \<not> (0 \<le> can_id \<and> can_id \<le> 0x7FF)
      then Inl (ValueError ''can_id must be an 11-bit CAN identifier'')
      else if \<not> (0 \<le> master_id \<and> master_id \<le> 0x7FF)
      then Inl (ValueError ''master_id must be an 11-bit CAN identifier'')
      else if 0xF < can_id
      then Inl (ValueError ''can_id must fit the feedback frame's four-bit controller ID field'')
      else Inr \<lparr>ep_motor_name = name, ep_interface = iface, ep_can_id = can_id,
                ep_master_id = master_id, ep_ranges = ranges\<rparr>)"

section \<open>Commands, measured states and envelopes\<close>

record mit_command =
  mc_position_rad :: pyfloat
  mc_velocity_rad_s :: pyfloat
  mc_kp :: pyfloat
  mc_kd :: pyfloat
  mc_feedforward_torque_nm :: pyfloat

fun all_finite :: "string \<Rightarrow> (string \<times> pyfloat) list \<Rightarrow> unit result" where
  "all_finite prefix [] = Inr ()"
| "all_finite prefix ((name, value) # rest) =
     (if \<not> isfinite value then Inl (ValueError (prefix @ name @ '' must be finite''))
      else all_finite prefix rest)"

definition new_mit_command ::
  "pyfloat \<Rightarrow> pyfloat \<Rightarrow> pyfloat \<Rightarrow> pyfloat \<Rightarrow> pyfloat \<Rightarrow> mit_command result" where
  "new_mit_command position velocity kp kd torque =
     rbind (all_finite [] [(''position_rad'', position), (''velocity_rad_s'', velocity),
         (''kp'', kp), (''kd'', kd), (''feedforward_torque_nm'', torque)])
       (\<lambda>_. Inr \<lparr>mc_position_rad = position, mc_velocity_rad_s = velocity, mc_kp = kp, mc_kd = kd,
              mc_feedforward_torque_nm = torque\<rparr>)"

record mit_state =
  ms_position_rad :: pyfloat
  ms_velocity_rad_s :: pyfloat

definition new_mit_state :: "pyfloat \<Rightarrow> pyfloat \<Rightarrow> mit_state result" where
  "new_mit_state position velocity =
     rbind (all_finite ''measured '' [(''position_rad'', position), (''velocity_rad_s'', velocity)])
       (\<lambda>_. Inr \<lparr>ms_position_rad = position, ms_velocity_rad_s = velocity\<rparr>)"

record command_envelope =
  env_position_rad :: frange
  env_maximum_velocity_rad_s :: pyfloat
  env_maximum_feedforward_torque_nm :: pyfloat
  env_maximum_output_torque_nm :: pyfloat

fun all_positive :: "(string \<times> pyfloat) list \<Rightarrow> unit result" where
  "all_positive [] = Inr ()"
| "all_positive ((name, value) # rest) =
     (if \<not> isfinite value \<or> fle value (Fin 0)
      then Inl (ValueError (name @ '' must be finite and positive''))
      else all_positive rest)"

definition new_command_envelope ::
  "frange \<Rightarrow> pyfloat \<Rightarrow> pyfloat \<Rightarrow> pyfloat \<Rightarrow> command_envelope result" where
  "new_command_envelope position velocity feedforward output =
     rbind (validate_range ''position_rad'' [fst position, snd position]) (\<lambda>p.
     rbind (all_positive [(''maximum_velocity_rad_s'', velocity),
         (''maximum_feedforward_torque_nm'', feedforward), (''maximum_output_torque_nm'', output)])
       (\<lambda>_. Inr \<lparr>env_position_rad = p, env_maximum_velocity_rad_s = velocity,
              env_maximum_feedforward_torque_nm = feedforward,
              env_maximum_output_torque_nm = output\<rparr>))"

section \<open>Encoding one command\<close>

text \<open>The \<open>2 ^ bits - 1\<close> levels are a double exactly, for the 12 and 16 bits used.\<close>

definition float_to_uint_strict :: "string \<Rightarrow> pyfloat \<Rightarrow> frange \<Rightarrow> nat \<Rightarrow> int result" where
  "float_to_uint_strict name value limits bits =
     (case limits of (low, high) \<Rightarrow>
      if \<not> isfinite value then Inl (ValueError (name @ '' must be finite''))
      else if \<not> (fle low value \<and> fle value high)
      then Inl (ValueError (name @ '' is outside the range''))
      else rbind (fdiv (fsub value low) (fsub high low))
        (\<lambda>unit. fint (fmul unit (Fin (of_int (2 ^ bits - 1))))))"

definition min_abs :: "frange \<Rightarrow> pyfloat" where
  "min_abs r = fmin (fabs (fst r)) (fabs (snd r))"

definition max_abs :: "frange \<Rightarrow> pyfloat" where
  "max_abs r = fmax (fabs (fst r)) (fabs (snd r))"

definition estimated_output_torque :: "mit_command \<Rightarrow> mit_state \<Rightarrow> pyfloat" where
  "estimated_output_torque c s =
     fadd (fadd (fmul (mc_kp c) (fsub (mc_position_rad c) (ms_position_rad s)))
                (fmul (mc_kd c) (fsub (mc_velocity_rad_s c) (ms_velocity_rad_s s))))
       (mc_feedforward_torque_nm c)"

definition pack_mit :: "int \<Rightarrow> int \<Rightarrow> int \<Rightarrow> int \<Rightarrow> int \<Rightarrow> bytes" where
  "pack_mit position velocity kp kd torque = map word_of_int
     [drop_bit 8 position AND 0xFF,
      position AND 0xFF,
      drop_bit 4 velocity AND 0xFF,
      push_bit 4 (velocity AND 0xF) OR (drop_bit 8 kp AND 0xF),
      kp AND 0xFF,
      drop_bit 4 kd AND 0xFF,
      push_bit 4 (kd AND 0xF) OR (drop_bit 8 torque AND 0xF),
      torque AND 0xFF]"

definition encode_damiao_mit_command ::
  "feedback_endpoint \<Rightarrow> mit_command \<Rightarrow> mit_state \<Rightarrow> command_envelope \<Rightarrow> encoded_command result" where
  "encode_damiao_mit_command e c s env =
     (let protocol = ep_ranges e;
          protocol_velocity = max_abs (rng_velocity_rad_s protocol);
          protocol_torque = max_abs (rng_torque_nm protocol);
          estimated = estimated_output_torque c s
      in
      if flt (fst (env_position_rad env)) (fst (rng_position_rad protocol))
         \<or> flt (snd (rng_position_rad protocol)) (snd (env_position_rad env))
      then Inl (ValueError ''position envelope exceeds the motor register-readback MIT range'')
      else if flt protocol_velocity (env_maximum_velocity_rad_s env)
      then Inl (ValueError ''velocity envelope exceeds the motor register-readback MIT range'')
      else if flt protocol_torque (env_maximum_feedforward_torque_nm env)
      then Inl (ValueError ''torque envelope exceeds the motor register-readback MIT range'')
      else if flt protocol_torque (env_maximum_output_torque_nm env)
      then Inl (ValueError ''output torque envelope exceeds the motor register-readback MIT range'')
      else
      rbind (float_to_uint_strict ''position_rad'' (mc_position_rad c) (env_position_rad env) 16) (\<lambda>_.
      if flt (env_maximum_velocity_rad_s env) (fabs (mc_velocity_rad_s c))
      then Inl (ValueError ''velocity_rad_s exceeds the project command envelope'')
      else if flt (env_maximum_feedforward_torque_nm env) (fabs (mc_feedforward_torque_nm c))
      then Inl (ValueError ''feedforward_torque_nm exceeds the project command envelope'')
      else if \<not> isfinite estimated
      then Inl (ValueError ''estimated MIT output torque must be finite'')
      else if flt (env_maximum_output_torque_nm env) (fabs estimated)
      then Inl (ValueError ''estimated MIT output torque exceeds the project command envelope'')
      else
      rbind (float_to_uint_strict ''position_rad'' (mc_position_rad c) (rng_position_rad protocol) 16) (\<lambda>position.
      rbind (float_to_uint_strict ''velocity_rad_s'' (mc_velocity_rad_s c) (rng_velocity_rad_s protocol) 12) (\<lambda>velocity.
      rbind (float_to_uint_strict ''kp'' (mc_kp c) (Fin 0, Fin 500) 12) (\<lambda>kp.
      rbind (float_to_uint_strict ''kd'' (mc_kd c) (Fin 0, Fin 5) 12) (\<lambda>kd.
      rbind (float_to_uint_strict ''feedforward_torque_nm'' (mc_feedforward_torque_nm c) (rng_torque_nm protocol) 12) (\<lambda>torque.
        Inr \<lparr>ec_motor_name = ep_motor_name e, ec_interface = ep_interface e,
             ec_can_id = ep_can_id e, ec_data = pack_mit position velocity kp kd torque\<rparr>)))))))"

definition encode_zero_gain_position_echo ::
  "feedback_endpoint \<Rightarrow> pyfloat \<Rightarrow> encoded_command result" where
  "encode_zero_gain_position_echo e position =
     (let protocol = ep_ranges e;
          maximum_velocity = min_abs (rng_velocity_rad_s protocol);
          maximum_torque = min_abs (rng_torque_nm protocol)
      in rbind (new_mit_state position (Fin 0)) (\<lambda>state.
         rbind (new_mit_command position (Fin 0) (Fin 0) (Fin 0) (Fin 0)) (\<lambda>command.
         rbind (new_command_envelope (rng_position_rad protocol) maximum_velocity maximum_torque
             maximum_torque) (\<lambda>envelope.
           encode_damiao_mit_command e command state envelope))))"

section \<open>Command profiles and the motor bank\<close>

definition DAMIAO_PROJECT_MAX_EMBEDDED_KD :: pyfloat where
  "DAMIAO_PROJECT_MAX_EMBEDDED_KD = Fin 3"

record command_profile =
  pf_endpoint :: feedback_endpoint
  pf_soft_position_rad :: frange
  pf_telemetry_limits :: motor_limits
  pf_maximum_embedded_kd :: pyfloat

definition new_command_profile ::
  "feedback_endpoint \<Rightarrow> pyfloat list \<Rightarrow> motor_limits \<Rightarrow> pyfloat \<Rightarrow> command_profile result" where
  "new_command_profile e soft limits kd_max =
     rbind (validate_range ''soft_position_rad'' soft) (\<lambda>(low, high).
     rbind (limits_validate limits) (\<lambda>_.
       if \<not> isfinite kd_max \<or> fle kd_max (Fin 0) \<or> flt (Fin 5) kd_max
       then Inl (ValueError ''maximum_embedded_kd must be finite and in (0, 5]'')
       else if flt low (fst (rng_position_rad (ep_ranges e)))
           \<or> flt (snd (rng_position_rad (ep_ranges e))) high
       then Inl (ValueError ''motor soft limits exceed the register-readback MIT position range'')
       else Inr \<lparr>pf_endpoint = e, pf_soft_position_rad = (low, high),
                 pf_telemetry_limits = limits, pf_maximum_embedded_kd = kd_max\<rparr>))"

definition envelope_for_state ::
  "interp \<Rightarrow> command_profile \<Rightarrow> mit_state \<Rightarrow> command_envelope result" where
  "envelope_for_state interp p s =
     (let ranges = ep_ranges (pf_endpoint p);
          maximum_velocity = fmin (maximum_speed_rad_s (pf_telemetry_limits p))
            (min_abs (rng_velocity_rad_s ranges))
      in rbind (torque_limit_at_speed interp (pf_telemetry_limits p) (ms_velocity_rad_s s)) (\<lambda>limit.
         let maximum_torque = fmin limit (min_abs (rng_torque_nm ranges)) in
         if fle maximum_velocity (Fin 0) \<or> fle maximum_torque (Fin 0)
         then Inl (ValueError ''motor state leaves no positive MIT command envelope'')
         else new_command_envelope (pf_soft_position_rad p) maximum_velocity maximum_torque
           maximum_torque))"

definition profile_encode ::
  "interp \<Rightarrow> command_profile \<Rightarrow> mit_command \<Rightarrow> mit_state \<Rightarrow> encoded_command result" where
  "profile_encode interp p c s =
     (if flt (pf_maximum_embedded_kd p) (mc_kd c)
      then Inl (ValueError (''kd exceeds the qualified Damiao embedded Kd limit for '' @
        ep_motor_name (pf_endpoint p)))
      else rbind (envelope_for_state interp p s)
        (\<lambda>envelope. encode_damiao_mit_command (pf_endpoint p) c s envelope))"

definition profile_map :: "command_profile list \<Rightarrow> (string, command_profile) dict" where
  "profile_map profiles = dict_of (map (\<lambda>p. (ep_motor_name (pf_endpoint p), p)) profiles)"

definition encode_damiao_mit_command_bank ::
  "interp \<Rightarrow> command_profile list \<Rightarrow> (string, mit_command) dict \<Rightarrow> (string, mit_state) dict
     \<Rightarrow> encoded_command list result" where
  "encode_damiao_mit_command_bank interp profiles commands states =
     (let pm = profile_map profiles in
      if length pm \<noteq> length profiles then Inl (ValueError ''duplicate physical motor profile'')
      else if set (keys commands) \<noteq> set (keys pm)
      then Inl (ValueError ''MIT commands must exactly cover the physical motor profiles'')
      else if set (keys states) \<noteq> set (keys pm)
      then Inl (ValueError ''measured states must exactly cover the physical motor profiles'')
      else rmap (\<lambda>(name, p). case (map_of commands name, map_of states name) of
          (Some c, Some s) \<Rightarrow> profile_encode interp p c s
        | _ \<Rightarrow> Inl (KeyError name)) pm)"

section \<open>Decoding feedback\<close>

record feedback =
  fb_motor_name :: string
  fb_interface :: string
  fb_can_id :: int
  fb_master_id :: int
  fb_status_code :: int
  fb_status_name :: string
  fb_position_rad :: pyfloat
  fb_velocity_rad_s :: pyfloat
  fb_estimated_output_torque_nm :: pyfloat
  fb_mos_temperature_c :: int
  fb_rotor_temperature_c :: int
  fb_software_timestamp_ns :: int
  fb_hardware_timestamp_ns :: int
  fb_userspace_receive_timestamp_ns :: int

definition userspace_queue_age_ns :: "feedback \<Rightarrow> int" where
  "userspace_queue_age_ns f = fb_userspace_receive_timestamp_ns f - fb_software_timestamp_ns f"

definition uint_to_float :: "int \<Rightarrow> frange \<Rightarrow> nat \<Rightarrow> pyfloat result" where
  "uint_to_float value limits bits =
     (case limits of (low, high) \<Rightarrow>
      rbind (float_of_int value) (\<lambda>v.
      rbind (fdiv (fmul v (fsub high low)) (Fin (of_int (2 ^ bits - 1)))) (\<lambda>q. Inr (fadd q low))))"

definition decode_damiao_feedback :: "can_frame \<Rightarrow> feedback_endpoint \<Rightarrow> feedback result" where
  "decode_damiao_feedback frame e =
     (if f_interface frame \<noteq> ep_interface e
      then Inl (ValueError ''frame interface does not match the configured motor endpoint'')
      else if f_can_id frame \<noteq> ep_master_id e
      then Inl (ValueError ''frame CAN ID does not match the configured Damiao Master ID'')
      else if is_extended frame \<or> is_remote frame \<or> is_error frame
      then Inl (ValueError ''Damiao feedback must be a standard CAN data frame'')
      else if length (f_data frame) \<noteq> 8
      then Inl (ValueError ''Damiao feedback must contain exactly eight data bytes'')
      else
        let data = f_data frame;
            controller_id = byte_at data 0 AND 0x0F;
            status = drop_bit 4 (byte_at data 0) AND 0x0F;
            position_raw = push_bit 8 (byte_at data 1) OR byte_at data 2;
            velocity_raw = push_bit 4 (byte_at data 3) OR drop_bit 4 (byte_at data 4);
            torque_raw = push_bit 8 (byte_at data 4 AND 0x0F) OR byte_at data 5;
            ranges = ep_ranges e
        in
        if controller_id \<noteq> ep_can_id e
        then Inl (ValueError ''feedback payload controller ID does not match configured CAN ID'')
        else
        rbind (uint_to_float position_raw (rng_position_rad ranges) 16) (\<lambda>position.
        rbind (uint_to_float velocity_raw (rng_velocity_rad_s ranges) 12) (\<lambda>velocity.
        rbind (uint_to_float torque_raw (rng_torque_nm ranges) 12) (\<lambda>torque.
          Inr \<lparr>fb_motor_name = ep_motor_name e, fb_interface = f_interface frame,
               fb_can_id = ep_can_id e, fb_master_id = f_can_id frame, fb_status_code = status,
               fb_status_name = (case map_of STATUS_NAMES status of
                  Some n \<Rightarrow> n | None \<Rightarrow> ''reserved_or_unknown''),
               fb_position_rad = position, fb_velocity_rad_s = velocity,
               fb_estimated_output_torque_nm = torque,
               fb_mos_temperature_c = byte_at data 6, fb_rotor_temperature_c = byte_at data 7,
               fb_software_timestamp_ns = software_timestamp_ns frame,
               fb_hardware_timestamp_ns = hardware_timestamp_ns frame,
               fb_userspace_receive_timestamp_ns = userspace_receive_timestamp_ns frame\<rparr>))))"

text \<open>The decoder maps \<open>(interface, Master ID)\<close> to its endpoint.\<close>

type_synonym decoder = "(string \<times> int, feedback_endpoint) dict"

fun register_endpoints :: "decoder \<Rightarrow> feedback_endpoint list \<Rightarrow> decoder result" where
  "register_endpoints d [] = Inr d"
| "register_endpoints d (e # es) =
     (if (ep_interface e, ep_master_id e) \<in> set (keys d)
      then Inl (ValueError (''duplicate Damiao feedback endpoint: '' @ ep_interface e))
      else register_endpoints (dict_set d (ep_interface e, ep_master_id e) e) es)"

definition new_feedback_decoder :: "feedback_endpoint list \<Rightarrow> decoder result" where
  "new_feedback_decoder es =
     rbind (register_endpoints [] es) (\<lambda>d.
       if d = [] then Inl (ValueError ''at least one Damiao feedback endpoint is required'')
       else Inr d)"

definition decoder_decode :: "decoder \<Rightarrow> can_frame \<Rightarrow> feedback result" where
  "decoder_decode d frame =
     (case map_of d (f_interface frame, f_can_id frame) of
        None \<Rightarrow> Inl (ValueError (''unconfigured Damiao feedback endpoint: '' @ f_interface frame))
      | Some e \<Rightarrow> decode_damiao_feedback frame e)"

end
