(* ===== verification/DamiaoCodec.thy ===== *)
theory DamiaoCodec
  imports Damiao Writers
begin

text \<open>
  What the codec promises: every raw field fits its bits and is a monotone function of the value,
  an encoded command respects the project envelope of its motor, the position echo of the
  zero-gain probe is exactly what the zero-gain writer accepts, a bank is encoded completely or
  not at all, and feedback is attributed to the endpoint it came from.
\<close>

section \<open>Comparisons\<close>

lemma fle_antisym: "fle x y \<Longrightarrow> fle y x \<Longrightarrow> x = y"
  by (cases x; cases y) auto

lemma fle_inf [simp]: "fle x PInf \<longleftrightarrow> x \<noteq> NaN" "fle NInf x \<longleftrightarrow> x \<noteq> NaN"
  by (cases x; simp)+

lemma fmin_le1: "fmin a b \<noteq> NaN \<Longrightarrow> fle (fmin a b) a"
  by (cases a; cases b) (auto simp: fmin_def)

lemma fmin_le2: "fmin a b \<noteq> NaN \<Longrightarrow> b \<noteq> NaN \<Longrightarrow> fle (fmin a b) b"
  by (cases a; cases b) (auto simp: fmin_def)

lemma fabs_eq_NaN [simp]: "fabs x = NaN \<longleftrightarrow> x = NaN"
  by (cases x) auto

lemma isfinite_not_NaN: "isfinite x \<Longrightarrow> x \<noteq> NaN"
  by auto

section \<open>Quantisation\<close>

lemma fsub_right_mono: "fle a b \<Longrightarrow> fsub a c \<noteq> NaN \<Longrightarrow> fsub b c \<noteq> NaN \<Longrightarrow> fle (fsub a c) (fsub b c)"
  by (cases a; cases b; cases c) (auto simp: fsub_def intro: rnd_mono)

text \<open>The exact quantities of a successful quantisation.\<close>

lemma strict_cases:
  assumes "float_to_uint_strict name v (lo, hi) bits = Inr n"
  obtains x where "v = Fin x" "fle lo v" "fle v hi"
    and "rbind (fdiv (fsub v lo) (fsub hi lo)) (\<lambda>u. fint (fmul u (Fin (of_int (2 ^ bits - 1))))) = Inr n"
  using assms by (auto simp: float_to_uint_strict_def isfinite_iff split: if_splits)

lemma unit_quotient:
  assumes "fdiv d w = Inr u" and "u \<noteq> NaN" and "fle (Fin 0) d" and "fle d w"
  shows "\<exists>a. u = Fin a \<and> 0 \<le> a \<and> a \<le> 1"
proof (cases w)
  case (Fin b)
  with assms(3,4) obtain a where a: "d = Fin a" "0 \<le> a" "a \<le> b" by (cases d) auto
  moreover from a Fin assms(1) have "b \<noteq> 0" "u = rnd (a / b)" by (auto split: if_splits)
  ultimately show ?thesis using ieee.rd_unit [of a b] by auto
next
  case PInf
  with assms show ?thesis by (cases d) auto
qed (use assms in \<open>auto dest: fle_NaN elim: fle.elims\<close>)

lemma levels_int: "bits \<le> 53 \<Longrightarrow> (0 :: int) \<le> 2 ^ bits - 1 \<and> (2 :: int) ^ bits - 1 \<le> 2 ^ 53"
proof -
  assume "bits \<le> 53"
  then have "(2 :: int) ^ bits \<le> 2 ^ 53" by (intro power_increasing) auto
  moreover have "(1 :: int) \<le> 2 ^ bits" by simp
  ultimately show ?thesis by linarith
qed

lemma scaled_unit:
  assumes "0 \<le> a" and "a \<le> 1" and "bits \<le> 53"
  shows "\<exists>r. fmul (Fin a) (Fin (of_int (2 ^ bits - 1))) = Fin r \<and> 0 \<le> r \<and> r \<le> of_int (2 ^ bits - 1)"
  using ieee.rd_scaled [OF assms(1,2), of "2 ^ bits - 1"] levels_int [OF assms(3)]
  by (simp del: of_int_diff of_int_power)

lemma fint_range: "0 \<le> r \<Longrightarrow> r \<le> of_int m \<Longrightarrow> fint (Fin r) = Inr n \<Longrightarrow> 0 \<le> n \<and> n \<le> m"
  by (auto simp: fint_def rtrunc_def floor_le_iff)

lemma difference_unit:
  assumes "fle lo (Fin x)" and "fle (Fin x) hi" and "fdiv (fsub (Fin x) lo) (fsub hi lo) = Inr u"
    and "u \<noteq> NaN"
  shows "\<exists>a. u = Fin a \<and> 0 \<le> a \<and> a \<le> 1"
proof -
  have nn: "fsub (Fin x) lo \<noteq> NaN" "fsub hi lo \<noteq> NaN"
    using assms by (cases lo; cases hi; auto simp: fsub_def split: if_splits)+
  have "fle (Fin 0) (fsub (Fin x) lo)"
    using assms(1) ieee.rd_nonneg by (cases lo) (auto simp: fsub_def)
  moreover have "fle (fsub (Fin x) lo) (fsub hi lo)"
    using fsub_right_mono [OF assms(2) nn] .
  ultimately show ?thesis using unit_quotient [OF assms(3,4)] by blast
qed

lemma strict_spec:
  assumes "float_to_uint_strict name v limits bits = Inr n" and "bits \<le> 53"
  shows "isfinite v \<and> fle (fst limits) v \<and> fle v (snd limits) \<and> 0 \<le> n \<and> n < 2 ^ bits"
proof -
  obtain lo hi where l: "limits = (lo, hi)" by fastforce
  from assms(1) obtain x where x: "v = Fin x" "fle lo v" "fle v hi"
    and n: "rbind (fdiv (fsub v lo) (fsub hi lo)) (\<lambda>u. fint (fmul u (Fin (of_int (2 ^ bits - 1))))) = Inr n"
    unfolding l by (rule strict_cases)
  from n obtain u where u: "fdiv (fsub (Fin x) lo) (fsub hi lo) = Inr u"
    "fint (fmul u (Fin (of_int (2 ^ bits - 1)))) = Inr n" by (auto simp: rbind_eq_Inr x(1))
  then have "u \<noteq> NaN" by (auto simp: fint_def)
  with difference_unit [OF _ _ u(1)] x obtain a where "u = Fin a" "0 \<le> a" "a \<le> 1" by auto
  with scaled_unit [OF _ _ assms(2)] u(2) have "0 \<le> n \<and> n \<le> 2 ^ bits - 1"
    by (metis fint_range)
  with x l show ?thesis by simp
qed

lemma rtrunc_mono: "0 \<le> a \<Longrightarrow> a \<le> b \<Longrightarrow> rtrunc a \<le> rtrunc b"
  by (simp add: rtrunc_def floor_mono)

lemma quotient_mono:
  assumes "fle (Fin 0) d" and "fle d d'" and "fle d' w" and "fdiv d w = Inr (Fin a)"
    and "fdiv d' w = Inr (Fin b)"
  shows "a \<le> b"
proof (cases w)
  case (Fin c)
  with assms(1-3) obtain p q where pq: "d = Fin p" "d' = Fin q" "0 \<le> p" "p \<le> q" "q \<le> c"
    by (cases d; cases d') auto
  with Fin assms(4,5) have "rnd (p / c) = Fin a" "rnd (q / c) = Fin b" by (auto split: if_splits)
  moreover have "p / c \<le> q / c" using pq by (simp add: divide_right_mono)
  ultimately show ?thesis using rnd_mono [of "p / c" "q / c"] by simp
next
  case PInf
  with assms show ?thesis by (cases d; cases d') auto
qed (use assms in \<open>auto dest: fle_NaN elim: fle.elims\<close>)

lemma strict_unit:
  assumes "float_to_uint_strict name v (lo, hi) bits = Inr n" and "bits \<le> 53"
  obtains x a r where "v = Fin x" "fle lo v" "fle v hi"
    "fdiv (fsub v lo) (fsub hi lo) = Inr (Fin a)" "0 \<le> a" "a \<le> 1"
    "rnd (a * of_int (2 ^ bits - 1)) = Fin r" "0 \<le> r" "n = rtrunc r"
proof -
  from assms(1) obtain x where x: "v = Fin x" "fle lo v" "fle v hi"
    "rbind (fdiv (fsub v lo) (fsub hi lo)) (\<lambda>u. fint (fmul u (Fin (of_int (2 ^ bits - 1))))) = Inr n"
    by (rule strict_cases)
  from x(4) obtain u where u: "fdiv (fsub v lo) (fsub hi lo) = Inr u"
    "fint (fmul u (Fin (of_int (2 ^ bits - 1)))) = Inr n" by (auto simp: rbind_eq_Inr)
  then have "u \<noteq> NaN" by (auto simp: fint_def)
  with difference_unit [of lo x hi u] x(1-3) u(1) obtain a where a: "u = Fin a" "0 \<le> a" "a \<le> 1"
    by auto
  from scaled_unit [OF a(2,3) assms(2)] obtain r where
    r: "fmul (Fin a) (Fin (of_int (2 ^ bits - 1))) = Fin r" "0 \<le> r" by blast
  then have "rnd (a * of_int (2 ^ bits - 1)) = Fin r" by (simp only: fmul.simps)
  moreover have "n = rtrunc r" using u(2) by (simp only: a(1) r(1) fint_def to_int_by.simps sum.inject)
  ultimately show ?thesis using that x(1-3) u(1) a r(2) by blast
qed

lemma strict_mono:
  assumes "float_to_uint_strict name v limits bits = Inr n"
    and "float_to_uint_strict name' v' limits bits = Inr n'" and "fle v v'" and "bits \<le> 53"
  shows "n \<le> n'"
proof -
  obtain lo hi where l: "limits = (lo, hi)" by fastforce
  from assms(1) [unfolded l] assms(4) obtain x a r where x: "v = Fin x" "fle lo v" "fle v hi"
    "fdiv (fsub v lo) (fsub hi lo) = Inr (Fin a)" "0 \<le> a" "a \<le> 1"
    "rnd (a * of_int (2 ^ bits - 1)) = Fin r" "0 \<le> r" "n = rtrunc r" by (rule strict_unit)
  from assms(2) [unfolded l] assms(4) obtain y b s where y: "v' = Fin y" "fle lo v'" "fle v' hi"
    "fdiv (fsub v' lo) (fsub hi lo) = Inr (Fin b)" "0 \<le> b" "b \<le> 1"
    "rnd (b * of_int (2 ^ bits - 1)) = Fin s" "0 \<le> s" "n' = rtrunc s" by (rule strict_unit)
  have nn: "fsub v lo \<noteq> NaN" "fsub v' lo \<noteq> NaN" "fsub hi lo \<noteq> NaN"
    using x y by (cases lo; cases hi; auto simp: fsub_def split: if_splits)+
  have "a \<le> b"
  proof (rule quotient_mono [OF _ _ _ x(4) y(4)])
    show "fle (Fin 0) (fsub v lo)"
      using x ieee.rd_nonneg by (cases lo) (auto simp: fsub_def)
    show "fle (fsub v lo) (fsub v' lo)" by (rule fsub_right_mono [OF assms(3) nn(1,2)])
    show "fle (fsub v' lo) (fsub hi lo)" by (rule fsub_right_mono [OF y(3) nn(2,3)])
  qed
  then have "a * of_int (2 ^ bits - 1) \<le> b * of_int (2 ^ bits - 1)"
    using levels_int [OF assms(4)] by (intro mult_right_mono) auto
  from rnd_mono [OF this] x(7,8) y(7) have "0 \<le> r" "r \<le> s" by simp_all
  then show ?thesis using rtrunc_mono x(9) y(9) by simp
qed

section \<open>The packed payload\<close>

definition mit_position_raw :: "bytes \<Rightarrow> int" where
  "mit_position_raw data = push_bit 8 (byte_at data 0) OR byte_at data 1"

lemma uint_word_byte: "0 \<le> v \<Longrightarrow> v < 256 \<Longrightarrow> uint (word_of_int v :: byte) = v"
  by (simp add: uint_word_of_int take_bit_eq_mod)

lemma nibbles:
  fixes a b :: int
  shows "push_bit 4 (a AND 15) OR (b AND 15) = a mod 16 * 16 + b mod 16"
  unfolding int_and_15 by (subst push_bit_or) auto

lemma pack_mit_fields:
  assumes "0 \<le> p" "p < 2 ^ 16" "0 \<le> v" "v < 2 ^ 12" "0 \<le> kp" "kp < 2 ^ 12" "0 \<le> kd" "kd < 2 ^ 12"
    "0 \<le> t" "t < 2 ^ 12"
  shows "length (pack_mit p v kp kd t) = 8"
    and "mit_position_raw (pack_mit p v kp kd t) = p"
    and "mit_velocity_raw (pack_mit p v kp kd t) = v"
    and "mit_kp_raw (pack_mit p v kp kd t) = kp"
    and "mit_kd_raw (pack_mit p v kp kd t) = kd"
    and "mit_torque_raw (pack_mit p v kp kd t) = t"
proof -
  let ?d = "pack_mit p v kp kd t"
  have nib: "(a mod 16 * 16 + c mod 16) mod 256 = a mod 16 * 16 + c mod 16" for a c :: int
    by (rule mod_pos_pos_trivial) (use pos_mod_bound [of 16 a] pos_mod_bound [of 16 c] in auto)
  have d: "?d = [word_of_int (p div 256 mod 256), word_of_int (p mod 256),
      word_of_int (v div 16 mod 256), word_of_int (v mod 16 * 16 + kp div 256 mod 16),
      word_of_int (kp mod 256), word_of_int (kd div 16 mod 256),
      word_of_int (kd mod 16 * 16 + t div 256 mod 16), word_of_int (t mod 256)]"
    by (simp only: pack_mit_def nibbles int_and_255 drop_bit_eq_div list.map) simp
  have b: "byte_at ?d 0 = p div 256 mod 256" "byte_at ?d 1 = p mod 256"
    "byte_at ?d 2 = v div 16 mod 256" "byte_at ?d 3 = v mod 16 * 16 + kp div 256 mod 16"
    "byte_at ?d 4 = kp mod 256" "byte_at ?d 5 = kd div 16 mod 256"
    "byte_at ?d 6 = kd mod 16 * 16 + t div 256 mod 16" "byte_at ?d 7 = t mod 256"
    unfolding d byte_at_def
    by (simp_all add: uint_word_of_int take_bit_eq_mod nib del: of_int_add of_int_mult)
  have or8: "push_bit 8 a OR c = a * 256 + c" if "0 \<le> c" "c < 256" for a c :: int
    using push_bit_or [of c 8 a] that by simp
  have or4: "push_bit 4 a OR c = a * 16 + c" if "0 \<le> c" "c < 16" for a c :: int
    using push_bit_or [of c 4 a] that by simp
  show "length ?d = 8" by (simp add: pack_mit_def)
  show "mit_position_raw ?d = p"
    unfolding mit_position_raw_def b using assms by (subst or8) auto
  have dv: "(a mod 16 * 16 + c mod 16) div 16 = a mod 16" "(a mod 16 * 16 + c mod 16) mod 16 = c mod 16"
    for a c :: int by auto
  show "mit_velocity_raw ?d = v"
    unfolding mit_velocity_raw_def b drop_bit_eq_div using assms dv
    by (subst or4) auto
  show "mit_kp_raw ?d = kp"
    unfolding mit_kp_raw_def b int_and_15 dv using assms by (subst or8) auto
  show "mit_kd_raw ?d = kd"
    unfolding mit_kd_raw_def b drop_bit_eq_div using assms dv
    by (subst or4) auto
  show "mit_torque_raw ?d = t"
    unfolding mit_torque_raw_def b int_and_15 dv using assms by (subst or8) auto
qed

section \<open>One encoded command\<close>

lemma encode_spec:
  assumes "encode_damiao_mit_command e c s env = Inr ec"
  obtains p v kp kd t where
    "ec = \<lparr>ec_motor_name = ep_motor_name e, ec_interface = ep_interface e,
       ec_can_id = ep_can_id e, ec_data = pack_mit p v kp kd t\<rparr>"
    "float_to_uint_strict ''position_rad'' (mc_position_rad c) (rng_position_rad (ep_ranges e)) 16 = Inr p"
    "float_to_uint_strict ''velocity_rad_s'' (mc_velocity_rad_s c) (rng_velocity_rad_s (ep_ranges e)) 12 = Inr v"
    "float_to_uint_strict ''kp'' (mc_kp c) (Fin 0, Fin 500) 12 = Inr kp"
    "float_to_uint_strict ''kd'' (mc_kd c) (Fin 0, Fin 5) 12 = Inr kd"
    "float_to_uint_strict ''feedforward_torque_nm'' (mc_feedforward_torque_nm c) (rng_torque_nm (ep_ranges e)) 12 = Inr t"
  using assms unfolding encode_damiao_mit_command_def Let_def
  by (auto simp: rbind_eq_Inr split: if_splits)

lemma encode_checks:
  assumes "encode_damiao_mit_command e c s env = Inr ec"
  shows "\<exists>n. float_to_uint_strict ''position_rad'' (mc_position_rad c) (env_position_rad env) 16 = Inr n"
    and "\<not> flt (env_maximum_velocity_rad_s env) (fabs (mc_velocity_rad_s c))"
    and "\<not> flt (env_maximum_feedforward_torque_nm env) (fabs (mc_feedforward_torque_nm c))"
    and "isfinite (estimated_output_torque c s)"
    and "\<not> flt (env_maximum_output_torque_nm env) (fabs (estimated_output_torque c s))"
  using assms unfolding encode_damiao_mit_command_def Let_def
  by (auto simp: rbind_eq_Inr split: if_splits)

lemma envelope_spec:
  assumes "new_command_envelope p v ff out = Inr env"
  shows "env = \<lparr>env_position_rad = p, env_maximum_velocity_rad_s = v,
      env_maximum_feedforward_torque_nm = ff, env_maximum_output_torque_nm = out\<rparr>"
    and "isfinite v" and "isfinite ff" and "isfinite out"
  using assms by (auto simp: new_command_envelope_def validate_range_def rbind_eq_Inr split: if_splits)

lemma envelope_for_state_spec:
  assumes "envelope_for_state interp p s = Inr env"
  obtains limit where
    "torque_limit_at_speed interp (pf_telemetry_limits p) (ms_velocity_rad_s s) = Inr limit"
    "new_command_envelope (pf_soft_position_rad p)
       (fmin (maximum_speed_rad_s (pf_telemetry_limits p)) (min_abs (rng_velocity_rad_s (ep_ranges (pf_endpoint p)))))
       (fmin limit (min_abs (rng_torque_nm (ep_ranges (pf_endpoint p)))))
       (fmin limit (min_abs (rng_torque_nm (ep_ranges (pf_endpoint p))))) = Inr env"
  using assms by (auto simp: envelope_for_state_def rbind_eq_Inr Let_def split: if_splits)

lemma not_flt_fabs:
  assumes "\<not> flt (fmin a b) (fabs x)" and "isfinite (fmin a b)" and "isfinite x"
  shows "fle (fabs x) a"
proof -
  have nn: "fmin a b \<noteq> NaN" "fabs x \<noteq> NaN" using assms by auto
  with assms(1) have "fle (fabs x) (fmin a b)" by (simp add: not_flt)
  then show ?thesis using fmin_le1 [OF nn(1)] by (rule fle_trans)
qed

lemma profile_encode_limits:
  assumes "profile_encode interp p c s = Inr ec"
    and "torque_limit_at_speed interp (pf_telemetry_limits p) (ms_velocity_rad_s s) = Inr limit"
    and "pf_maximum_embedded_kd p \<noteq> NaN"
  shows "fle (fst (pf_soft_position_rad p)) (mc_position_rad c) \<and>
    fle (mc_position_rad c) (snd (pf_soft_position_rad p)) \<and>
    fle (fabs (mc_velocity_rad_s c)) (maximum_speed_rad_s (pf_telemetry_limits p)) \<and>
    fle (fabs (mc_feedforward_torque_nm c)) limit \<and>
    fle (fabs (estimated_output_torque c s)) limit \<and>
    fle (Fin 0) (mc_kp c) \<and> fle (mc_kp c) (Fin 500) \<and>
    fle (Fin 0) (mc_kd c) \<and> fle (mc_kd c) (Fin 5) \<and> fle (mc_kd c) (pf_maximum_embedded_kd p) \<and>
    ec_motor_name ec = ep_motor_name (pf_endpoint p) \<and>
    ec_interface ec = ep_interface (pf_endpoint p) \<and> ec_can_id ec = ep_can_id (pf_endpoint p) \<and>
    length (ec_data ec) = 8"
proof -
  let ?e = "pf_endpoint p"
  from assms(1) obtain env where kd: "\<not> flt (pf_maximum_embedded_kd p) (mc_kd c)"
    and env: "envelope_for_state interp p s = Inr env"
    and ec: "encode_damiao_mit_command ?e c s env = Inr ec"
    by (auto simp: profile_encode_def rbind_eq_Inr split: if_splits)
  from env obtain limit' where l: "torque_limit_at_speed interp (pf_telemetry_limits p) (ms_velocity_rad_s s) = Inr limit'"
    and new: "new_command_envelope (pf_soft_position_rad p)
       (fmin (maximum_speed_rad_s (pf_telemetry_limits p)) (min_abs (rng_velocity_rad_s (ep_ranges ?e))))
       (fmin limit' (min_abs (rng_torque_nm (ep_ranges ?e))))
       (fmin limit' (min_abs (rng_torque_nm (ep_ranges ?e)))) = Inr env"
    by (rule envelope_for_state_spec)
  from l assms(2) have "limit' = limit" by simp
  note n = envelope_spec [OF new [unfolded this]]
  from ec obtain pr v kp kdr t where e: "ec = \<lparr>ec_motor_name = ep_motor_name ?e,
      ec_interface = ep_interface ?e, ec_can_id = ep_can_id ?e, ec_data = pack_mit pr v kp kdr t\<rparr>"
    and strict: "float_to_uint_strict ''velocity_rad_s'' (mc_velocity_rad_s c) (rng_velocity_rad_s (ep_ranges ?e)) 12 = Inr v"
    "float_to_uint_strict ''kp'' (mc_kp c) (Fin 0, Fin 500) 12 = Inr kp"
    "float_to_uint_strict ''kd'' (mc_kd c) (Fin 0, Fin 5) 12 = Inr kdr"
    "float_to_uint_strict ''feedforward_torque_nm'' (mc_feedforward_torque_nm c) (rng_torque_nm (ep_ranges ?e)) 12 = Inr t"
    by (rule encode_spec)
  note ch = encode_checks [OF ec, unfolded n(1), simplified]
  have s: "isfinite (mc_velocity_rad_s c)" "isfinite (mc_feedforward_torque_nm c)"
    "isfinite (mc_kd c)" "fle (Fin 0) (mc_kp c)" "fle (mc_kp c) (Fin 500)"
    "fle (Fin 0) (mc_kd c)" "fle (mc_kd c) (Fin 5)"
    using strict_spec [OF strict(1)] strict_spec [OF strict(2)] strict_spec [OF strict(3)]
      strict_spec [OF strict(4)] by simp_all
  from ch(1) obtain k where "float_to_uint_strict ''position_rad'' (mc_position_rad c)
      (pf_soft_position_rad p) 16 = Inr k" by blast
  from strict_spec [OF this] have pos: "fle (fst (pf_soft_position_rad p)) (mc_position_rad c)"
    "fle (mc_position_rad c) (snd (pf_soft_position_rad p))" by simp_all
  have "fle (mc_kd c) (pf_maximum_embedded_kd p)" using kd assms(3) s(3) by (simp add: not_flt isfinite_not_NaN)
  moreover have "length (ec_data ec) = 8" by (simp add: e pack_mit_def)
  ultimately show ?thesis
    using pos s not_flt_fabs [OF ch(2) n(2) s(1)] not_flt_fabs [OF ch(3) n(3) s(2)]
      not_flt_fabs [OF ch(5) n(4) ch(4)] by (simp add: e)
qed

lemma new_command_profile_spec:
  assumes "new_command_profile e soft limits kd_max = Inr p"
  shows "pf_endpoint p = e" and "pf_telemetry_limits p = limits" and "pf_maximum_embedded_kd p = kd_max"
    and "kd_max \<noteq> NaN" and "soft = [fst (pf_soft_position_rad p), snd (pf_soft_position_rad p)]"
  using assms
  by (auto simp: new_command_profile_def validate_range_def rbind_eq_Inr
      split: if_splits list.splits prod.splits)

section \<open>The zero-gain position echo\<close>

text \<open>Zero is the middle of a symmetric range: raw 2047 of 4095.\<close>

lemma strict_zero_symmetric:
  assumes "0 < a" and "rnd (2 * a) = Fin (2 * a)" and "is_double (Fin a)"
  shows "float_to_uint_strict name (Fin 0) (Fin (- a), Fin a) 12 = Inr 2047"
proof -
  have "fsub (Fin 0) (Fin (- a)) = Fin a" using assms(3) by (simp add: fsub_def is_double_def)
  moreover have "fsub (Fin a) (Fin (- a)) = Fin (2 * a)" using assms(2) by (simp add: fsub_def)
  moreover have "rnd (1 / 2) = Fin (1 / 2)" "rnd (4095 / 2) = Fin (4095 / 2)"
    using rnd_exact [of 1 "- 1"] rnd_exact [of 4095 "- 1"] by (simp_all add: pow2_def)
  ultimately show ?thesis using assms(1)
    by (simp add: float_to_uint_strict_def fint_def rtrunc_def)
qed

lemma strict_zero_low:
  assumes "0 < b" "rnd b = Fin b"
  shows "float_to_uint_strict name (Fin 0) (Fin 0, Fin b) bits = Inr 0"
  using assms by (simp add: float_to_uint_strict_def fsub_def fint_def rtrunc_def)

lemma strict_returns:
  assumes "is_double (Fin lo)" "is_double (Fin hi)" "lo \<le> x" "x \<le> hi" "lo < hi"
    and "isfinite (fsub (Fin hi) (Fin lo))" and "bits \<le> 53"
  shows "\<exists>n. float_to_uint_strict name (Fin x) (Fin lo, Fin hi) bits = Inr n"
proof -
  from assms(6) obtain w where w: "rnd (hi - lo) = Fin w" by (auto simp: isfinite_iff fsub_def)
  with rnd_diff_pos [OF assms(1,2,5)] have w0: "0 < w" by (auto dest: pow2_le_pos)
  from rnd_mono [of "x - lo" "hi - lo"] ieee.rd_nonneg [of "x - lo"] assms(3,4) w
  obtain d where d: "rnd (x - lo) = Fin d" "0 \<le> d" "d \<le> w" by (cases "rnd (x - lo)") auto
  from ieee.rd_unit [OF d(2,3) w0] obtain a where a: "rnd (d / w) = Fin a" "0 \<le> a" "a \<le> 1" by blast
  from scaled_unit [OF a(2,3) assms(7)] obtain r where
    "fmul (Fin a) (Fin (of_int (2 ^ bits - 1))) = Fin r" by blast
  then have "fint (fmul (Fin a) (Fin (of_int (2 ^ bits - 1)))) = Inr (rtrunc r)"
    by (simp only: fint_def to_int_by.simps)
  then show ?thesis using assms(3,4) w0
    by (simp add: float_to_uint_strict_def fsub_def w d(1) a(1) del: fmul.simps)
qed

lemma echo_encodes:
  assumes r: "ep_ranges e = \<lparr>rng_position_rad = (Fin lo, Fin hi), rng_velocity_rad_s = (Fin (- v), Fin v),
      rng_torque_nm = (Fin (- t), Fin t), rng_source = src\<rparr>"
    and v: "0 < v" "is_double (Fin v)" "rnd (2 * v) = Fin (2 * v)"
    and t: "0 < t" "is_double (Fin t)" "rnd (2 * t) = Fin (2 * t)"
    and p: "is_double (Fin lo)" "is_double (Fin hi)" "lo < hi" "isfinite (fsub (Fin hi) (Fin lo))"
    and x: "lo \<le> x" "x \<le> hi"
  shows "\<exists>n. encode_zero_gain_position_echo e (Fin x) = Inr \<lparr>ec_motor_name = ep_motor_name e,
      ec_interface = ep_interface e, ec_can_id = ep_can_id e, ec_data = pack_mit n 2047 0 0 2047\<rparr> \<and>
      0 \<le> n \<and> n < 2 ^ 16"
proof -
  obtain n where n: "\<And>name. float_to_uint_strict name (Fin x) (Fin lo, Fin hi) 16 = Inr n"
  proof -
    from strict_returns [OF p(1,2) x p(3,4), of 16 "''position_rad''"] obtain n where
      "float_to_uint_strict ''position_rad'' (Fin x) (Fin lo, Fin hi) 16 = Inr n" by auto
    then have "float_to_uint_strict name (Fin x) (Fin lo, Fin hi) 16 = Inr n" for name
      by (auto simp: float_to_uint_strict_def split: if_splits)
    then show ?thesis by (rule that)
  qed
  have z: "float_to_uint_strict ''velocity_rad_s'' (Fin 0) (Fin (- v), Fin v) 12 = Inr 2047"
    "float_to_uint_strict ''feedforward_torque_nm'' (Fin 0) (Fin (- t), Fin t) 12 = Inr 2047"
    using strict_zero_symmetric [OF v(1,3,2)] strict_zero_symmetric [OF t(1,3,2)] by blast+
  have k: "float_to_uint_strict ''kp'' (Fin 0) (Fin 0, Fin 500) 12 = Inr 0"
    "float_to_uint_strict ''kd'' (Fin 0) (Fin 0, Fin 5) 12 = Inr 0"
    by (rule strict_zero_low; simp add: rnd_of_int [of 500, simplified] rnd_of_int [of 5, simplified])+
  have m: "min_abs (Fin (- v), Fin v) = Fin v" "max_abs (Fin (- v), Fin v) = Fin v"
    "min_abs (Fin (- t), Fin t) = Fin t" "max_abs (Fin (- t), Fin t) = Fin t"
    using v(1) t(1) by (simp_all add: min_abs_def max_abs_def fmin_def fmax_def)
  have "encode_zero_gain_position_echo e (Fin x) = Inr \<lparr>ec_motor_name = ep_motor_name e,
      ec_interface = ep_interface e, ec_can_id = ep_can_id e, ec_data = pack_mit n 2047 0 0 2047\<rparr>"
    using v(1) t(1) p(3)
    by (simp add: encode_zero_gain_position_echo_def r m new_mit_state_def new_mit_command_def
        new_command_envelope_def validate_range_def encode_damiao_mit_command_def
        estimated_output_torque_def fsub_def n z k)
  moreover have "0 \<le> n \<and> n < 2 ^ 16" using strict_spec [OF n] by simp
  ultimately show ?thesis by blast
qed

section \<open>A sample motor\<close>

definition sample_ranges :: mit_ranges where
  "sample_ranges = \<lparr>rng_position_rad = (Fin (- 4), Fin 4), rng_velocity_rad_s = (Fin (- 10), Fin 10),
     rng_torque_nm = (Fin (- 5), Fin 5), rng_source = ''motor_register_readback''\<rparr>"

definition sample_endpoint :: feedback_endpoint where
  "sample_endpoint = \<lparr>ep_motor_name = ''hip'', ep_interface = ''can0'', ep_can_id = 1,
     ep_master_id = 17, ep_ranges = sample_ranges\<rparr>"

definition sample_command :: mit_command where
  "sample_command = \<lparr>mc_position_rad = Fin (1 / 4), mc_velocity_rad_s = Fin 1, mc_kp = Fin 2,
     mc_kd = Fin 1, mc_feedforward_torque_nm = Fin (1 / 2)\<rparr>"

definition sample_state :: mit_state where
  "sample_state = \<lparr>ms_position_rad = Fin 0, ms_velocity_rad_s = Fin 0\<rparr>"

definition sample_profile :: command_profile where
  "sample_profile = \<lparr>pf_endpoint = sample_endpoint, pf_soft_position_rad = (Fin (- 1), Fin 1),
     pf_telemetry_limits = sample_limits, pf_maximum_embedded_kd = Fin 3\<rparr>"

lemma sample_profile_new:
  "new_command_profile sample_endpoint [Fin (- 1), Fin 1] sample_limits (Fin 3) = Inr sample_profile"
  by (simp add: new_command_profile_def validate_range_def sample_limits_valid sample_profile_def
      sample_endpoint_def sample_ranges_def)

lemma sample_encoded:
  "\<exists>ec. profile_encode (\<lambda>_ _ _. Fin 4) sample_profile sample_command sample_state = Inr ec"
  by (simp add: profile_encode_def sample_profile_def sample_command_def sample_state_def
      envelope_for_state_def torque_limit_at_speed_def sample_limits_valid)
    (simp add: sample_endpoint_def sample_ranges_def sample_limits_def min_abs_def max_abs_def
      new_command_envelope_def validate_range_def encode_damiao_mit_command_def
      float_to_uint_strict_def estimated_output_torque_def float_eval)

section \<open>Properties of one command\<close>

lemma sample_ranges_form:
  "ep_ranges sample_endpoint = \<lparr>rng_position_rad = (Fin (- 4), Fin 4),
     rng_velocity_rad_s = (Fin (- 10), Fin 10), rng_torque_nm = (Fin (- 5), Fin 5),
     rng_source = ''motor_register_readback''\<rparr>"
  by (simp add: sample_endpoint_def sample_ranges_def)

lemma sample_symmetric:
  "0 < (10 :: rat)" "is_double (Fin 10)" "rnd (2 * 10) = Fin (2 * 10)"
  "0 < (5 :: rat)" "is_double (Fin 5)" "rnd (2 * 5) = Fin (2 * 5)"
  "is_double (Fin (- 4))" "is_double (Fin 4)" "(- 4 :: rat) < 4" "isfinite (fsub (Fin 4) (Fin (- 4)))"
  by (simp_all add: float_eval)

lemma sample_echo: "\<exists>ec. encode_zero_gain_position_echo sample_endpoint (Fin 1) = Inr ec"
  using echo_encodes [OF sample_ranges_form sample_symmetric, of 1] by auto

text \<open>
  C5. What a command profile encodes respects the limits of its motor: the position is inside the
  soft limits, the velocity inside the maximum speed, the estimated MIT output torque inside the
  torque-speed limit at the measured velocity, Kp and Kd inside the protocol range, Kd inside the
  qualified limit, and the payload is addressed to the profile's own endpoint.
\<close>

theorem profile_encode_within_limits:
  assumes "new_command_profile e [low, high] limits kd_max = Inr p"
    and "profile_encode interp p c s = Inr ec"
  shows "fle low (mc_position_rad c) \<and> fle (mc_position_rad c) high \<and>
    fle (fabs (mc_velocity_rad_s c)) (maximum_speed_rad_s limits) \<and>
    (\<exists>limit. torque_limit_at_speed interp limits (ms_velocity_rad_s s) = Inr limit \<and>
       fle (fabs (mc_feedforward_torque_nm c)) limit \<and>
       fle (fabs (estimated_output_torque c s)) limit) \<and>
    fle (Fin 0) (mc_kp c) \<and> fle (mc_kp c) (Fin 500) \<and>
    fle (Fin 0) (mc_kd c) \<and> fle (mc_kd c) (Fin 5) \<and> fle (mc_kd c) kd_max \<and>
    ec_motor_name ec = ep_motor_name e \<and> ec_interface ec = ep_interface e \<and>
    ec_can_id ec = ep_can_id e \<and> length (ec_data ec) = 8"
proof -
  note n = new_command_profile_spec [OF assms(1)]
  from assms(2) obtain env where "envelope_for_state interp p s = Inr env"
    by (auto simp: profile_encode_def rbind_eq_Inr split: if_splits)
  then obtain limit where "torque_limit_at_speed interp (pf_telemetry_limits p) (ms_velocity_rad_s s) = Inr limit"
    by (rule envelope_for_state_spec)
  with profile_encode_limits [OF assms(2) this] n show ?thesis by auto
qed

theorem profile_encode_within_limits_witness:
  "fle (mc_kd sample_command) (Fin 3) \<and>
    (\<exists>limit. torque_limit_at_speed (\<lambda>_ _ _. Fin 4) sample_limits (Fin 0) = Inr limit \<and>
       fle (fabs (estimated_output_torque sample_command sample_state)) limit)"
proof -
  obtain ec where "profile_encode (\<lambda>_ _ _. Fin 4) sample_profile sample_command sample_state = Inr ec"
    using sample_encoded by blast
  from profile_encode_within_limits [OF sample_profile_new this] show ?thesis
    by (auto simp: sample_state_def)
qed

text \<open>
  C12. The payload of an encoded command carries exactly the strictly quantised values: reading its
  bit fields back gives the position in 16 bits and velocity, Kp, Kd and torque in 12 bits each,
  with no value spilling into a neighbouring field.
\<close>

theorem encoded_payload_fields:
  assumes "encode_damiao_mit_command e c s env = Inr ec"
  shows "length (ec_data ec) = 8 \<and>
    float_to_uint_strict ''position_rad'' (mc_position_rad c) (rng_position_rad (ep_ranges e)) 16 =
      Inr (mit_position_raw (ec_data ec)) \<and>
    float_to_uint_strict ''velocity_rad_s'' (mc_velocity_rad_s c) (rng_velocity_rad_s (ep_ranges e)) 12 =
      Inr (mit_velocity_raw (ec_data ec)) \<and>
    float_to_uint_strict ''kp'' (mc_kp c) (Fin 0, Fin 500) 12 = Inr (mit_kp_raw (ec_data ec)) \<and>
    float_to_uint_strict ''kd'' (mc_kd c) (Fin 0, Fin 5) 12 = Inr (mit_kd_raw (ec_data ec)) \<and>
    float_to_uint_strict ''feedforward_torque_nm'' (mc_feedforward_torque_nm c) (rng_torque_nm (ep_ranges e)) 12 =
      Inr (mit_torque_raw (ec_data ec))"
proof -
  from assms obtain p v kp kd t where e: "ec_data ec = pack_mit p v kp kd t"
    and strict: "float_to_uint_strict ''position_rad'' (mc_position_rad c) (rng_position_rad (ep_ranges e)) 16 = Inr p"
    "float_to_uint_strict ''velocity_rad_s'' (mc_velocity_rad_s c) (rng_velocity_rad_s (ep_ranges e)) 12 = Inr v"
    "float_to_uint_strict ''kp'' (mc_kp c) (Fin 0, Fin 500) 12 = Inr kp"
    "float_to_uint_strict ''kd'' (mc_kd c) (Fin 0, Fin 5) 12 = Inr kd"
    "float_to_uint_strict ''feedforward_torque_nm'' (mc_feedforward_torque_nm c) (rng_torque_nm (ep_ranges e)) 12 = Inr t"
    by (rule encode_spec) simp
  have r: "0 \<le> p \<and> p < 2 ^ 16" "0 \<le> v \<and> v < 2 ^ 12" "0 \<le> kp \<and> kp < 2 ^ 12"
    "0 \<le> kd \<and> kd < 2 ^ 12" "0 \<le> t \<and> t < 2 ^ 12"
    using strict_spec [OF strict(1)] strict_spec [OF strict(2)] strict_spec [OF strict(3)]
      strict_spec [OF strict(4)] strict_spec [OF strict(5)] by simp_all
  then show ?thesis unfolding e strict by (simp add: pack_mit_fields)
qed

theorem encoded_payload_fields_witness:
  "\<exists>ec. encode_zero_gain_position_echo sample_endpoint (Fin 1) = Inr ec \<and>
    float_to_uint_strict ''kp'' (Fin 0) (Fin 0, Fin 500) 12 = Inr (mit_kp_raw (ec_data ec))"
proof -
  obtain ec env where e: "encode_zero_gain_position_echo sample_endpoint (Fin 1) = Inr ec"
    "encode_damiao_mit_command sample_endpoint \<lparr>mc_position_rad = Fin 1, mc_velocity_rad_s = Fin 0,
       mc_kp = Fin 0, mc_kd = Fin 0, mc_feedforward_torque_nm = Fin 0\<rparr>
       \<lparr>ms_position_rad = Fin 1, ms_velocity_rad_s = Fin 0\<rparr> env = Inr ec"
    using sample_echo
    by (auto simp: encode_zero_gain_position_echo_def rbind_eq_Inr new_mit_state_def
        new_mit_command_def Let_def)
  from encoded_payload_fields [OF e(2)] e(1) show ?thesis by auto
qed

text \<open>
  Quantisation is monotone and stays in its field: of two values accepted against the same
  limits, the larger one never gets the smaller code, and the code fits the bits.
\<close>

theorem quantisation_monotone:
  assumes "float_to_uint_strict name v limits bits = Inr n"
    and "float_to_uint_strict name v' limits bits = Inr n'" and "fle v v'" and "bits \<le> 53"
  shows "0 \<le> n \<and> n \<le> n' \<and> n' < 2 ^ bits"
  using strict_mono [OF assms] strict_spec [OF assms(1,4)] strict_spec [OF assms(2,4)] by simp

theorem quantisation_monotone_witness:
  "\<exists>n. float_to_uint_strict ''kp'' (Fin 0) (Fin 0, Fin 500) 12 = Inr n \<and> 0 \<le> n"
proof -
  have "float_to_uint_strict ''kp'' (Fin 0) (Fin 0, Fin 500) 12 = Inr 0"
    by (rule strict_zero_low) (simp_all add: rnd_of_int [of 500, simplified])
  from quantisation_monotone [OF this this] this show ?thesis by simp
qed

text \<open>
  The position echo of the zero-gain probe always passes the writer's own check: for an endpoint
  with symmetric velocity and torque ranges and a position inside its range, the encoder returns a
  payload, and the zero-gain writer puts exactly that payload on the bus and reports success.
\<close>

theorem zero_gain_echo_is_sent:
  assumes "ep_ranges e = \<lparr>rng_position_rad = (Fin lo, Fin hi), rng_velocity_rad_s = (Fin (- v), Fin v),
      rng_torque_nm = (Fin (- t), Fin t), rng_source = src\<rparr>"
    and "0 < v" "is_double (Fin v)" "rnd (2 * v) = Fin (2 * v)"
    and "0 < t" "is_double (Fin t)" "rnd (2 * t) = Fin (2 * t)"
    and "is_double (Fin lo)" "is_double (Fin hi)" "lo < hi" "isfinite (fsub (Fin hi) (Fin lo))"
    and "lo \<le> x" "x \<le> hi" and "standard_id (ep_can_id e)"
  shows "\<exists>ec. encode_zero_gain_position_echo e (Fin x) = Inr ec \<and> ec_can_id ec = ep_can_id e \<and>
    send_zero_gain_poll w (ec_can_id ec, ec_data ec) (Some 72) =
      (w\<lparr>zg_wire := zg_wire w @ [wire_frame (ep_can_id e) (ec_data ec)],
         zg_tx_attempts := zg_tx_attempts w + 1\<rparr>, Inr ())"
proof -
  from echo_encodes [OF assms(1-13)] obtain n where
    ec: "encode_zero_gain_position_echo e (Fin x) = Inr \<lparr>ec_motor_name = ep_motor_name e,
      ec_interface = ep_interface e, ec_can_id = ep_can_id e, ec_data = pack_mit n 2047 0 0 2047\<rparr>"
    and n: "0 \<le> n" "n < 2 ^ 16" by blast
  have "validate_zero_gain_mit_payload (pack_mit n 2047 0 0 2047) = Inr ()"
    using n by (simp add: validate_zero_gain_mit_payload_def pack_mit_fields)
  with assms(14) have "send_zero_gain_poll w (ep_can_id e, pack_mit n 2047 0 0 2047) (Some 72) =
      (w\<lparr>zg_wire := zg_wire w @ [wire_frame (ep_can_id e) (pack_mit n 2047 0 0 2047)],
         zg_tx_attempts := zg_tx_attempts w + 1\<rparr>, Inr ())"
    using n by (simp add: send_zero_gain_poll_def canfd_pack_wire short_write_check_def
        length_wire_frame pack_mit_fields)
  with ec show ?thesis by simp
qed

theorem zero_gain_echo_is_sent_witness:
  "\<exists>ec. encode_zero_gain_position_echo sample_endpoint (Fin 1) = Inr ec \<and>
    snd (send_zero_gain_poll (new_zero_gain_poller ''can0'') (1, ec_data ec) (Some 72)) = Inr ()"
proof -
  obtain ec where e: "encode_zero_gain_position_echo sample_endpoint (Fin 1) = Inr ec"
    "ec_can_id ec = ep_can_id sample_endpoint"
    "snd (send_zero_gain_poll (new_zero_gain_poller ''can0'') (ec_can_id ec, ec_data ec) (Some 72)) = Inr ()"
    using zero_gain_echo_is_sent [OF sample_ranges_form sample_symmetric,
        of 1 "new_zero_gain_poller ''can0''"] by (force simp: sample_endpoint_def standard_id_def)
  moreover have "ep_can_id sample_endpoint = 1" by (simp add: sample_endpoint_def)
  ultimately show ?thesis by metis
qed

section \<open>The bank and the decoder\<close>

lemma profile_map_length:
  "length (profile_map ps) = length ps \<longleftrightarrow> distinct (map (ep_motor_name \<circ> pf_endpoint) ps)"
proof -
  let ?n = "map (ep_motor_name \<circ> pf_endpoint) ps"
  have k: "set (keys (profile_map ps)) = set ?n"
    by (simp add: profile_map_def image_image)
  have "distinct (keys (profile_map ps))"
    unfolding profile_map_def by (rule distinct_keys_dict_of)
  then have "length (profile_map ps) = card (set (keys (profile_map ps)))"
    by (metis distinct_card length_map)
  then have "length (profile_map ps) = card (set ?n)" by (simp only: k)
  then show ?thesis by (metis card_distinct distinct_card length_map)
qed

lemma profile_map_distinct:
  "distinct (map (ep_motor_name \<circ> pf_endpoint) ps) \<Longrightarrow>
    profile_map ps = map (\<lambda>p. (ep_motor_name (pf_endpoint p), p)) ps"
  by (simp add: profile_map_def comp_def)

text \<open>
  A bank of commands is encoded completely or not at all: encoding returns exactly when motor
  names are unique, commands and measured states cover exactly the profiles, and every single
  command is accepted for its own motor; the result then is one payload per profile, in order.
\<close>

theorem bank_encodes_all_or_nothing:
  "encode_damiao_mit_command_bank interp profiles commands states = Inr ecs \<longleftrightarrow>
    distinct (map (ep_motor_name \<circ> pf_endpoint) profiles) \<and>
    fst ` set commands = (ep_motor_name \<circ> pf_endpoint) ` set profiles \<and>
    fst ` set states = (ep_motor_name \<circ> pf_endpoint) ` set profiles \<and>
    list_all2 (\<lambda>p ec. \<exists>c s. map_of commands (ep_motor_name (pf_endpoint p)) = Some c \<and>
      map_of states (ep_motor_name (pf_endpoint p)) = Some s \<and>
      profile_encode interp p c s = Inr ec) profiles ecs"
proof (cases "distinct (map (ep_motor_name \<circ> pf_endpoint) profiles)")
  case False
  then show ?thesis
    by (simp add: encode_damiao_mit_command_bank_def Let_def profile_map_length)
next
  case True
  have k: "fst ` set (profile_map profiles) = (ep_motor_name \<circ> pf_endpoint) ` set profiles"
    by (simp add: profile_map_def image_image)
  show ?thesis using True
    by (auto simp: encode_damiao_mit_command_bank_def Let_def profile_map_length k rmap_eq_Inr
        profile_map_distinct list_all2_map1 image_image split: option.splits
        elim!: list_all2_mono intro: list_all2_mono)
qed

lemma register_endpoints_spec:
  assumes "register_endpoints d es = Inr d'"
    and "\<forall>k e. map_of d k = Some e \<longrightarrow> k = (ep_interface e, ep_master_id e)"
  shows "map_of d' k = Some e \<longleftrightarrow>
    map_of d k = Some e \<or> (e \<in> set es \<and> k = (ep_interface e, ep_master_id e))"
  using assms
proof (induction es arbitrary: d)
  case Nil
  then show ?case by simp
next
  case (Cons a es)
  let ?k = "(ep_interface a, ep_master_id a)"
  from Cons.prems(1) have new: "map_of d ?k = None"
    and rest: "register_endpoints (dict_set d ?k a) es = Inr d'"
    by (auto simp: map_of_eq_None_iff split: if_splits)
  have "\<forall>k e. map_of (dict_set d ?k a) k = Some e \<longrightarrow> k = (ep_interface e, ep_master_id e)"
    using Cons.prems(2) by simp
  from Cons.IH [OF rest this] new show ?case by (cases "k = ?k") auto
qed

lemma decoder_lookup:
  assumes "new_feedback_decoder es = Inr d"
  shows "map_of d k = Some e \<longleftrightarrow> e \<in> set es \<and> k = (ep_interface e, ep_master_id e)"
proof -
  from assms have "register_endpoints [] es = Inr d"
    by (auto simp: new_feedback_decoder_def rbind_eq_Inr split: if_splits)
  from register_endpoints_spec [OF this] show ?thesis by simp
qed

lemma int_nibble: "0 \<le> (v :: int) AND 15" "(v :: int) AND 15 < 16"
  by (simp_all add: int_and_15)

text \<open>
  Feedback is attributed by interface and Master ID alone: a decoded frame belongs to the one
  configured endpoint with that key, is a standard data frame of eight bytes whose controller nibble
  names the same motor, and its status, temperatures and timestamps are those of the frame.
\<close>

theorem decoded_feedback_identity:
  assumes "new_feedback_decoder endpoints = Inr d" and "decoder_decode d frame = Inr fb"
  shows "\<exists>e \<in> set endpoints. f_interface frame = ep_interface e \<and> f_can_id frame = ep_master_id e \<and>
    list_all (\<lambda>e'. (ep_interface e', ep_master_id e') = (f_interface frame, f_can_id frame) \<longrightarrow> e' = e) endpoints \<and>
    \<not> is_extended frame \<and> \<not> is_remote frame \<and> \<not> is_error frame \<and> length (f_data frame) = 8 \<and>
    uint (f_data frame ! 0) mod 16 = ep_can_id e \<and> fb_can_id fb = ep_can_id e \<and>
    fb_motor_name fb = ep_motor_name e \<and> fb_interface fb = ep_interface e \<and>
    fb_status_code fb = uint (f_data frame ! 0) div 16 \<and>
    fb_mos_temperature_c fb = uint (f_data frame ! 6) \<and>
    fb_rotor_temperature_c fb = uint (f_data frame ! 7) \<and>
    userspace_queue_age_ns fb = frame_queue_age_ns frame \<and>
    fb_hardware_timestamp_ns fb = hardware_timestamp_ns frame"
proof -
  from assms(2) obtain e where e: "map_of d (f_interface frame, f_can_id frame) = Some e"
    "decode_damiao_feedback frame e = Inr fb"
    by (auto simp: decoder_decode_def split: option.splits)
  note look = decoder_lookup [OF assms(1)]
  have u: "list_all (\<lambda>e'. (ep_interface e', ep_master_id e') = (f_interface frame, f_can_id frame) \<longrightarrow> e' = e) endpoints"
    unfolding list_all_iff using e(1) look by (metis option.inject)
  have s: "drop_bit 4 (byte_at x 0) AND 15 = uint (x ! 0) div 16" for x :: bytes
  proof -
    have "uint (x ! 0) div 16 < 16" using uint_byte(2) [of "x ! 0"] by linarith
    moreover have "0 \<le> uint (x ! 0) div 16" using uint_byte(1) [of "x ! 0"] by linarith
    ultimately show ?thesis by (simp add: byte_at_def int_and_15 drop_bit_eq_div)
  qed
  have "\<not> is_extended frame \<and> \<not> is_remote frame \<and> \<not> is_error frame \<and> length (f_data frame) = 8 \<and>
    uint (f_data frame ! 0) mod 16 = ep_can_id e \<and> fb_can_id fb = ep_can_id e \<and>
    fb_motor_name fb = ep_motor_name e \<and> fb_interface fb = ep_interface e \<and>
    fb_status_code fb = uint (f_data frame ! 0) div 16 \<and>
    fb_mos_temperature_c fb = uint (f_data frame ! 6) \<and>
    fb_rotor_temperature_c fb = uint (f_data frame ! 7) \<and>
    userspace_queue_age_ns fb = frame_queue_age_ns frame \<and>
    fb_hardware_timestamp_ns fb = hardware_timestamp_ns frame"
    using e(2) unfolding decode_damiao_feedback_def Let_def s
    by (auto simp: rbind_eq_Inr userspace_queue_age_ns_def frame_queue_age_ns_def byte_at_def
        int_and_15 split: if_splits)
  moreover from e(1) look have "e \<in> set endpoints"
    "f_interface frame = ep_interface e" "f_can_id frame = ep_master_id e" by auto
  ultimately show ?thesis using u by blast
qed

definition sample_feedback_frame :: can_frame where
  "sample_feedback_frame = \<lparr>f_interface = ''can0'', f_can_id = 17,
     f_data = [0x11, 0, 0, 0, 0, 0, 30, 31], is_extended = False, is_remote = False,
     is_error = False, is_fd = True, bit_rate_switch = True, error_state_indicator = False,
     software_timestamp_ns = 9, hardware_timestamp_ns = 6, userspace_receive_timestamp_ns = 9\<rparr>"

lemma sample_decoder:
  "new_feedback_decoder [sample_endpoint] = Inr [((''can0'', 17), sample_endpoint)]"
  by (simp add: new_feedback_decoder_def sample_endpoint_def)

definition sample_feedback :: "int \<Rightarrow> feedback" where
  "sample_feedback h = \<lparr>fb_motor_name = ''hip'', fb_interface = ''can0'', fb_can_id = 1,
     fb_master_id = 17, fb_status_code = 1, fb_status_name = ''enabled'',
     fb_position_rad = Fin (- 4), fb_velocity_rad_s = Fin (- 10),
     fb_estimated_output_torque_nm = Fin (- 5), fb_mos_temperature_c = 30,
     fb_rotor_temperature_c = 31, fb_software_timestamp_ns = 9, fb_hardware_timestamp_ns = h,
     fb_userspace_receive_timestamp_ns = 9\<rparr>"

lemma sample_decoded:
  "decoder_decode [((''can0'', 17), sample_endpoint)]
     (sample_feedback_frame\<lparr>hardware_timestamp_ns := h\<rparr>) = Inr (sample_feedback h)"
  by (simp add: decoder_decode_def decode_damiao_feedback_def sample_feedback_frame_def
      sample_feedback_def STATUS_NAMES_def
      sample_endpoint_def sample_ranges_def byte_at_def uint_to_float_def int_fields float_eval)

theorem decoded_feedback_identity_witness:
  "\<exists>fb. decoder_decode [((''can0'', 17), sample_endpoint)] sample_feedback_frame = Inr fb \<and>
    fb_motor_name fb = ''hip'' \<and> fb_status_code fb = 1"
proof -
  obtain fb where f: "decoder_decode [((''can0'', 17), sample_endpoint)] sample_feedback_frame = Inr fb"
    using sample_decoded [of 6] by (auto simp: sample_feedback_frame_def)
  from decoded_feedback_identity [OF sample_decoder f]
  have "fb_motor_name fb = ''hip'' \<and> fb_status_code fb = 1"
    by (simp add: sample_endpoint_def sample_feedback_frame_def)
  with f show ?thesis by blast
qed

end
