(* ===== verification/DamiaoAudit.thy ===== *)
theory DamiaoAudit
  imports Damiao "HOL-Library.Product_Lexorder"
begin

text \<open>
  The receive-only audit of \<open>damiao.py\<close> (\<open>DamiaoRxAudit\<close>, \<open>_percentile_99\<close> and
  \<open>collect_receive_only_audit\<close>). Python sets whose iteration order is not defined (the expected
  names, the unexpected keys) are lists without duplicates; the report sorts them, so their order
  does not show.
\<close>

section \<open>Percentiles\<close>

text \<open>\<open>sorted\<close> of floats compares with \<open><\<close>; the order below is that one, with NaN last.\<close>

instantiation pyfloat :: linorder
begin

definition less_eq_pyfloat :: "pyfloat \<Rightarrow> pyfloat \<Rightarrow> bool" where
  "less_eq_pyfloat x y \<longleftrightarrow> y = NaN \<or> fle x y"

definition less_pyfloat :: "pyfloat \<Rightarrow> pyfloat \<Rightarrow> bool" where
  "less_pyfloat x y \<longleftrightarrow> \<not> (x = NaN \<or> fle y x)"

instance
proof
  fix x y z :: pyfloat
  show "x < y \<longleftrightarrow> x \<le> y \<and> \<not> y \<le> x"
    by (cases x; cases y) (auto simp: less_eq_pyfloat_def less_pyfloat_def)
  show "x \<le> x" by (auto simp: less_eq_pyfloat_def)
  show "x \<le> y \<Longrightarrow> y \<le> z \<Longrightarrow> x \<le> z"
    by (auto simp: less_eq_pyfloat_def dest: fle_NaN intro: fle_trans)
  show "x \<le> y \<Longrightarrow> y \<le> x \<Longrightarrow> x = y"
    by (cases x; cases y) (auto simp: less_eq_pyfloat_def)
  show "x \<le> y \<or> y \<le> x"
    by (cases x; cases y) (auto simp: less_eq_pyfloat_def)
qed

end

lemma pyfloat_le_iff: "y \<noteq> NaN \<Longrightarrow> x \<le> y \<longleftrightarrow> fle x y"
  by (simp add: less_eq_pyfloat_def)

definition nth_result :: "'a list \<Rightarrow> nat \<Rightarrow> 'a result" where
  "nth_result xs i = (if i < length xs then Inr (xs ! i) else Inl IndexError)"

definition percentile_99 :: "pyfloat list \<Rightarrow> pyfloat result" where
  "percentile_99 values =
     (if values = [] then Inr PInf
      else rbind (float_of_int (int (length values))) (\<lambda>n.
           rbind (fceil (fmul (rnd (99 / 100)) n)) (\<lambda>c.
             nth_result (sort values) (nat (max 0 (c - 1))))))"

section \<open>The audit\<close>

record motor_rx_stats =
  st_samples :: nat
  st_feedback_hz :: pyfloat
  st_maximum_hardware_gap_ms :: pyfloat
  st_userspace_queue_age_p99_ms :: pyfloat
  st_maximum_mos_temperature_c :: int
  st_maximum_rotor_temperature_c :: int

record rx_audit_report =
  rp_expected_motor_count :: nat
  rp_seen_motor_count :: int
  rp_missing_motors :: "string list"
  rp_motor_stats :: "(string, motor_rx_stats) dict"
  rp_errors :: "string list"
  rp_observed_control_frame_count :: nat
  rp_decoded_feedback_frame_count :: nat
  rp_unexpected_frame_count :: nat
  rp_hardware_tx_attempts :: nat

definition rx_audit_passed :: "rx_audit_report \<Rightarrow> bool" where
  "rx_audit_passed r = (rp_errors r = [])"

type_synonym bus_key = "string \<times> int"

record rx_audit =
  au_decoder :: decoder
  au_expected :: "string list"
  au_feedback_keys :: "bus_key list"
  au_command_keys :: "bus_key list"
  au_minimum_samples :: int
  au_minimum_feedback_hz :: pyfloat
  au_maximum_hardware_gap_ms :: pyfloat
  au_maximum_queue_age_ms :: pyfloat
  au_samples :: "(string, feedback list) dict"
  au_errors :: "string list"
  au_unexpected_keys :: "bus_key list"
  au_control_frames :: nat
  au_feedback_frames :: nat

definition new_rx_audit ::
  "feedback_endpoint list \<Rightarrow> int \<Rightarrow> pyfloat \<Rightarrow> pyfloat \<Rightarrow> pyfloat \<Rightarrow> rx_audit result" where
  "new_rx_audit endpoints minimum_samples minimum_hz maximum_gap_ms maximum_age_ms =
     rbind (new_feedback_decoder endpoints) (\<lambda>d.
       let expected = remdups (map ep_motor_name endpoints);
           feedback_keys = remdups (map (\<lambda>e. (ep_interface e, ep_master_id e)) endpoints);
           command_keys = remdups (map (\<lambda>e. (ep_interface e, ep_can_id e)) endpoints)
       in
       if set feedback_keys \<inter> set command_keys \<noteq> {}
       then Inl (ValueError ''Damiao command and feedback endpoints overlap'')
       else if minimum_samples \<le> 0
       then Inl (ValueError ''minimum_samples_per_motor must be positive'')
       else rbind (all_positive [(''minimum_feedback_hz'', minimum_hz),
           (''maximum_hardware_gap_ms'', maximum_gap_ms),
           (''maximum_userspace_queue_age_p99_ms'', maximum_age_ms)]) (\<lambda>_.
         Inr \<lparr>au_decoder = d, au_expected = expected, au_feedback_keys = feedback_keys,
              au_command_keys = command_keys, au_minimum_samples = minimum_samples,
              au_minimum_feedback_hz = minimum_hz, au_maximum_hardware_gap_ms = maximum_gap_ms,
              au_maximum_queue_age_ms = maximum_age_ms,
              au_samples = map (\<lambda>n. (n, [])) expected, au_errors = [], au_unexpected_keys = [],
              au_control_frames = 0, au_feedback_frames = 0\<rparr>))"

definition feedback_errors :: "feedback list \<Rightarrow> feedback \<Rightarrow> string list" where
  "feedback_errors samples fb =
     (if samples \<noteq> [] \<and> fb_hardware_timestamp_ns fb \<le> fb_hardware_timestamp_ns (last samples)
      then [fb_motor_name fb @ '': raw hardware timestamp regressed''] else []) @
     (if fb_status_code fb \<notin> {0, 1}
      then [fb_motor_name fb @ '': motor fault '' @ fb_status_name fb] else [])"

definition ingest :: "rx_audit \<Rightarrow> can_frame \<Rightarrow> rx_audit \<times> feedback result" where
  "ingest a frame =
     (case decoder_decode (au_decoder a) frame of Inl e \<Rightarrow> (a, Inl e)
      | Inr fb \<Rightarrow> (case map_of (au_samples a) (fb_motor_name fb) of
          None \<Rightarrow> (a, Inl (KeyError (fb_motor_name fb)))
        | Some samples \<Rightarrow>
            (a\<lparr>au_errors := au_errors a @ feedback_errors samples fb,
               au_samples := dict_set (au_samples a) (fb_motor_name fb) (samples @ [fb]),
               au_feedback_frames := au_feedback_frames a + 1\<rparr>, Inr fb)))"

definition ingest_bus_frame :: "rx_audit \<Rightarrow> can_frame \<Rightarrow> rx_audit \<times> feedback option result" where
  "ingest_bus_frame a frame =
     (let key = (f_interface frame, f_can_id frame) in
      if key \<in> set (au_feedback_keys a)
      then (case ingest a frame of (a', Inl e) \<Rightarrow> (a', Inl e) | (a', Inr fb) \<Rightarrow> (a', Inr (Some fb)))
      else if key \<in> set (au_command_keys a)
      then (a\<lparr>au_control_frames := au_control_frames a + 1\<rparr>, Inr None)
      else (a\<lparr>au_unexpected_keys := List.insert key (au_unexpected_keys a)\<rparr>, Inr None))"

definition gaps_ns :: "feedback list \<Rightarrow> int list" where
  "gaps_ns samples =
     map (\<lambda>(p, c). fb_hardware_timestamp_ns c - fb_hardware_timestamp_ns p)
       (filter (\<lambda>(p, c). fb_hardware_timestamp_ns p < fb_hardware_timestamp_ns c)
          (zip samples (tl samples)))"

definition maximum_default :: "int \<Rightarrow> int list \<Rightarrow> int" where
  "maximum_default d xs = (if xs = [] then d else Max (set xs))"

definition int_over :: "int \<Rightarrow> pyfloat \<Rightarrow> pyfloat result" where
  "int_over n d = rbind (float_of_int n) (\<lambda>x. fdiv x d)"

definition feedback_rate_hz :: "feedback list \<Rightarrow> pyfloat result" where
  "feedback_rate_hz samples =
     (let elapsed_ns = fb_hardware_timestamp_ns (last samples) - fb_hardware_timestamp_ns (hd samples) in
      if 1 < length samples \<and> 0 < elapsed_ns
      then rbind (float_of_int (int (length samples) - 1)) (\<lambda>n.
           rbind (float_of_int elapsed_ns) (\<lambda>t. fdiv (fmul n (Fin 1000000000)) t))
      else Inr (Fin 0))"

definition motor_stats :: "feedback list \<Rightarrow> motor_rx_stats result" where
  "motor_stats samples =
     rbind (feedback_rate_hz samples) (\<lambda>hz.
     rbind (int_over (maximum_default 0 (gaps_ns samples)) (Fin 1000000)) (\<lambda>gap.
     rbind (rmap (\<lambda>s. int_over (userspace_queue_age_ns s) (Fin 1000000)) samples) (\<lambda>ages.
     rbind (percentile_99 ages) (\<lambda>p99.
       Inr \<lparr>st_samples = length samples, st_feedback_hz = hz, st_maximum_hardware_gap_ms = gap,
            st_userspace_queue_age_p99_ms = p99,
            st_maximum_mos_temperature_c = Max (set (map fb_mos_temperature_c samples)),
            st_maximum_rotor_temperature_c = Max (set (map fb_rotor_temperature_c samples))\<rparr>))))"

definition stats_errors :: "rx_audit \<Rightarrow> string \<Rightarrow> motor_rx_stats \<Rightarrow> string list" where
  "stats_errors a name s =
     (if int (st_samples s) < au_minimum_samples a then [name @ '': received too few samples''] else []) @
     (if flt (st_feedback_hz s) (au_minimum_feedback_hz a)
      then [name @ '': feedback rate is too low''] else []) @
     (if flt (au_maximum_hardware_gap_ms a) (st_maximum_hardware_gap_ms s)
      then [name @ '': hardware timestamp gap is too large''] else []) @
     (if flt (au_maximum_queue_age_ms a) (st_userspace_queue_age_p99_ms s)
      then [name @ '': userspace queue age P99 is too large''] else [])"

fun stats_loop ::
  "rx_audit \<Rightarrow> string list \<Rightarrow> (string list \<times> (string, motor_rx_stats) dict) result" where
  "stats_loop a [] = Inr ([], [])"
| "stats_loop a (name # names) =
     (let samples = (case map_of (au_samples a) name of Some s \<Rightarrow> s | None \<Rightarrow> []) in
      if samples = [] then stats_loop a names
      else rbind (motor_stats samples) (\<lambda>s.
           rbind (stats_loop a names) (\<lambda>(es, ds). Inr (stats_errors a name s @ es, (name, s) # ds))))"

definition audit_report :: "rx_audit \<Rightarrow> rx_audit_report result" where
  "audit_report a =
     (let missing = sorted_set (map fst (filter (\<lambda>(_, s). s = []) (au_samples a))) in
      rbind (stats_loop a (sorted_set (keys (au_samples a)))) (\<lambda>(stat_errors, stats).
        Inr \<lparr>rp_expected_motor_count = length (au_expected a),
             rp_seen_motor_count = int (length (au_expected a)) - int (length missing),
             rp_missing_motors = missing,
             rp_motor_stats = stats,
             rp_errors = au_errors a @
               map (\<lambda>(iface, _). ''unexpected CAN endpoint: '' @ iface)
                 (sorted_set (au_unexpected_keys a)) @
               stat_errors @
               (if missing = [] then [] else [''missing motor feedback: '' @ join '', '' missing]),
             rp_observed_control_frame_count = au_control_frames a,
             rp_decoded_feedback_frame_count = au_feedback_frames a,
             rp_unexpected_frame_count = length (au_unexpected_keys a),
             rp_hardware_tx_attempts = 0\<rparr>))"

section \<open>Collecting from receive-only sockets\<close>

text \<open>
  One turn of the collection loop as the environment drives it: what \<open>keep_running\<close> answers, the
  clock when the remaining time is computed, and what \<open>receive\<close> gives for the ready sockets.
\<close>

record collect_turn =
  ct_keep_running :: bool
  ct_clock :: pyfloat
  ct_ready :: "can_frame result list"

fun ingest_ready ::
  "rx_audit \<Rightarrow> can_frame result list \<Rightarrow> feedback list \<Rightarrow> rx_audit \<times> feedback list \<times> unit result" where
  "ingest_ready a [] seen = (a, seen, Inr ())"
| "ingest_ready a (Inl e # rs) seen = (a, seen, Inl e)"
| "ingest_ready a (Inr frame # rs) seen =
     (case ingest_bus_frame a frame of (a', Inl e) \<Rightarrow> (a', seen, Inl e)
      | (a', Inr None) \<Rightarrow> ingest_ready a' rs seen
      | (a', Inr (Some fb)) \<Rightarrow> ingest_ready a' rs (seen @ [fb]))"

text \<open>
  The loop over the turns of the environment; \<open>None\<close> means that the turns given ended while the
  loop was still running. The list is what \<open>on_feedback\<close> was called with.
\<close>

fun collect_loop ::
  "pyfloat \<Rightarrow> pyfloat \<Rightarrow> rx_audit \<Rightarrow> feedback list \<Rightarrow> collect_turn list
     \<Rightarrow> (rx_audit \<times> feedback list \<times> unit result) option" where
  "collect_loop duration start a seen [] = None"
| "collect_loop duration start a seen (t # ts) =
     (if \<not> ct_keep_running t then Some (a, seen, Inr ())
      else if fle (fsub duration (fsub (ct_clock t) start)) (Fin 0) then Some (a, seen, Inr ())
      else (case ingest_ready a (ct_ready t) seen of
          (a', seen', Inl e) \<Rightarrow> Some (a', seen', Inl e)
        | (a', seen', Inr _) \<Rightarrow> collect_loop duration start a' seen' ts))"

record receiver_view =
  rv_interface :: string
  rv_has_send :: bool
  rv_has_enable :: bool

fun check_receivers :: "(string, receiver_view) dict \<Rightarrow> unit result" where
  "check_receivers [] = Inr ()"
| "check_receivers ((iface, r) # rs) =
     (if rv_interface r \<noteq> iface
      then Inl (ValueError ''receiver mapping key does not match its interface'')
      else if rv_has_send r \<or> rv_has_enable r
      then Inl (ValueError ''collector accepts receive-only interfaces only'')
      else check_receivers rs)"

definition collect_receive_only_audit ::
  "(string, receiver_view) dict \<Rightarrow> rx_audit \<Rightarrow> pyfloat \<Rightarrow> pyfloat \<Rightarrow> collect_turn list
     \<Rightarrow> (rx_audit \<times> feedback list \<times> rx_audit_report result) option" where
  "collect_receive_only_audit receivers a duration start turns =
     (if \<not> isfinite duration \<or> fle duration (Fin 0)
      then Some (a, [], Inl (ValueError ''duration_s must be finite and positive''))
      else if receivers = []
      then Some (a, [], Inl (ValueError ''at least one receive-only socket is required''))
      else (case check_receivers receivers of Inl e \<Rightarrow> Some (a, [], Inl e)
        | Inr _ \<Rightarrow> (case collect_loop duration start a [] turns of None \<Rightarrow> None
          | Some (a', seen, Inl e) \<Rightarrow> Some (a', seen, Inl e)
          | Some (a', seen, Inr _) \<Rightarrow> Some (a', seen, audit_report a'))))"

end
