(* ===== verification/AuditEvidence.thy ===== *)
theory AuditEvidence
  imports DamiaoAudit DamiaoCodec "HOL-Library.Multiset"
begin

text \<open>
  What a passed receive-only audit is evidence of: the invariant of the audit's state over any
  sequence of bus frames, the exact meaning of the 99th percentile, and that the audit fails closed.
\<close>

section \<open>The 99th percentile\<close>

lemma sorted_filter_above:
  assumes "sorted xs" and "i < length xs"
  shows "length (filter (\<lambda>v. xs ! i < v) xs) \<le> length xs - Suc i"
proof -
  have "filter (\<lambda>v. xs ! i < v) (take (Suc i) xs) = []"
    using assms by (auto simp: filter_empty_conv in_set_conv_nth not_less sorted_iff_nth_mono less_Suc_eq_le)
  then have "filter (\<lambda>v. xs ! i < v) xs = filter (\<lambda>v. xs ! i < v) (drop (Suc i) xs)"
    by (metis append_Nil append_take_drop_id filter_append)
  then show ?thesis by (metis length_drop length_filter_le)
qed

lemma length_filter_sort: "length (filter P (sort xs)) = length (filter P xs)"
  by (metis mset_filter mset_sort size_mset)

definition double_99 :: rat where
  "double_99 = 4458563631096791 / 4503599627370496"

lemma rnd_99: "rnd (99 / 100) = Fin double_99"
  by (simp add: float_eval double_99_def)

lemma rank_99:
  assumes "0 < n" and "n \<le> 1000000000"
  shows "\<exists>r. rnd (double_99 * of_nat n) = Fin r \<and> 0 < \<lceil>r\<rceil> \<and> \<lceil>r\<rceil> \<le> int n \<and>
    int n - \<lceil>r\<rceil> \<le> int n div 100"
proof -
  let ?x = "double_99 * of_nat n :: rat"
  have n: "(1 :: rat) \<le> of_nat n" "(of_nat n :: rat) \<le> 1000000000"
    using assms of_nat_le_iff [of n 1000000000] by auto
  have x: "1 / 2 \<le> ?x" "?x \<le> of_nat n"
    using n by (simp_all add: double_99_def)
  have "rlog2 ?x < 30"
  proof -
    have "?x < pow2 30" by (rule order_le_less_trans [OF x(2)], rule order_le_less_trans [OF n(2)])
        (simp add: pow2_def)
    then show ?thesis using x(1) by (simp add: rlog2_less_iff)
  qed
  then have "qexp ?x \<le> - 23" using x by (simp add: qexp_def)
  then have "pow2 (qexp ?x) \<le> pow2 (- 23)" by simp
  then have e: "\<bar>rnd_rat ?x - ?x\<bar> \<le> 1 / 10000"
    using rnd_rat_error [of ?x] by (simp add: pow2_def)
  from ieee.rd_between [of 0 ?x "int n"] x assms obtain r where
    r: "rnd ?x = Fin r" "r \<le> of_nat n" by auto
  then have "r = rnd_rat ?x" by (auto simp: rnd_alt split: if_splits)
  with e have r2: "?x - 1 / 10000 \<le> r" by linarith
  then have "0 < r" using x by simp
  then have c: "0 < \<lceil>r\<rceil>" "\<lceil>r\<rceil> \<le> int n" using r(2) by (simp_all add: ceiling_le_iff)
  have "99 / 100 * of_nat n - 1 / 1000 \<le> ?x - 1 / 10000"
    using n by (simp add: double_99_def)
  then have "99 / 100 * of_nat n - 1 / 1000 \<le> (of_int \<lceil>r\<rceil> :: rat)"
    using r2 le_of_int_ceiling [of r] by linarith
  then have "(100 :: rat) * (of_nat n - of_int \<lceil>r\<rceil>) < of_nat n + 1" by (simp add: field_simps)
  then have "of_int (100 * (int n - \<lceil>r\<rceil>)) < (of_int (int n + 1) :: rat)" by simp
  then have "100 * (int n - \<lceil>r\<rceil>) < int n + 1" by (simp only: of_int_less_iff)
  moreover have "k \<le> m div 100" if "100 * k < m + 1" for k m :: int
    using that by linarith
  ultimately have "int n - \<lceil>r\<rceil> \<le> int n div 100" by blast
  with c r(1) show ?thesis by blast
qed

lemma percentile_spec:
  assumes "values \<noteq> []" and "length values \<le> 1000000000"
  shows "\<exists>i. percentile_99 values = Inr (sort values ! i) \<and> i < length values \<and>
    length values - Suc i \<le> length values div 100"
proof -
  let ?n = "length values"
  have n: "0 < ?n" "rnd (of_nat ?n) = Fin (of_nat ?n)"
    using assms rnd_of_int [of "int ?n"] by simp_all
  from rank_99 [OF n(1) assms(2)] obtain r where
    r: "rnd (double_99 * of_nat ?n) = Fin r" "0 < \<lceil>r\<rceil>" "\<lceil>r\<rceil> \<le> int ?n"
    "int ?n - \<lceil>r\<rceil> \<le> int ?n div 100" by blast
  let ?i = "nat (\<lceil>r\<rceil> - 1)"
  have "?i < ?n" using r(2,3) by linarith
  moreover have "?n - Suc ?i \<le> ?n div 100"
  proof -
    have "int (?n - Suc ?i) = int ?n - \<lceil>r\<rceil>" using r(2,3) by linarith
    also have "\<dots> \<le> int (?n div 100)" using r(4) by (simp add: zdiv_int)
    finally show ?thesis by simp
  qed
  moreover have "max 0 (\<lceil>r\<rceil> - 1) = \<lceil>r\<rceil> - 1" using r(2) by simp
  ultimately show ?thesis using assms(1) n(2) r(1)
    by (intro exI [of _ ?i]) (simp add: percentile_99_def float_of_int_def rnd_99 fceil_def nth_result_def)
qed

text \<open>
  The queue-age percentile means what it says, rounding included: it is one of the values, and
  at most one hundredth of the values, rounded down, are larger.
\<close>

theorem percentile_99_meaning:
  assumes "percentile_99 values = Inr p" and "values \<noteq> []" and "length values \<le> 1000000000"
    and "NaN \<notin> set values"
  shows "p \<in> set values \<and> length (filter (\<lambda>v. flt p v) values) \<le> length values div 100"
proof -
  from percentile_spec [OF assms(2,3)] assms(1) obtain i where
    i: "p = sort values ! i" "i < length values" "length values - Suc i \<le> length values div 100"
    by auto
  then have p: "p \<in> set values" by (metis length_sort nth_mem set_sort)
  have "filter (\<lambda>v. flt p v) values = filter (\<lambda>v. p < v) values"
    using assms(4) p by (intro filter_cong) (metis less_pyfloat_def not_fle)+
  moreover have "length (filter (\<lambda>v. p < v) (sort values)) \<le> length values - Suc i"
    using sorted_filter_above [of "sort values" i] i by simp
  ultimately show ?thesis using p i(3) by (simp add: length_filter_sort)
qed

theorem percentile_99_meaning_witness:
  "\<exists>p. percentile_99 [Fin 3, Fin 1, Fin 2] = Inr p \<and>
    length (filter (\<lambda>v. flt p v) [Fin 3, Fin 1, Fin 2]) = 0"
proof -
  from percentile_spec [of "[Fin 3, Fin 1, Fin 2]"] obtain p where
    p: "percentile_99 [Fin 3, Fin 1, Fin 2] = Inr p" by auto
  from percentile_99_meaning [OF p] have "length (filter (\<lambda>v. flt p v) [Fin 3, Fin 1, Fin 2]) = 0"
    by (simp del: filter.simps)
  with p show ?thesis by blast
qed

section \<open>The state of the audit\<close>

definition samples_ok :: "feedback list \<Rightarrow> bool" where
  "samples_ok fs \<longleftrightarrow> sorted_wrt (<) (map fb_hardware_timestamp_ns fs) \<and>
     list_all (\<lambda>f. fb_status_code f \<in> {0, 1}) fs"

definition audit_inv :: "rx_audit \<Rightarrow> bool" where
  "audit_inv a \<longleftrightarrow> distinct (keys (au_samples a)) \<and>
     (\<forall>(n, fs) \<in> set (au_samples a). \<forall>f \<in> set fs. fb_motor_name f = n) \<and>
     (au_errors a = [] \<longrightarrow> (\<forall>(n, fs) \<in> set (au_samples a). samples_ok fs)) \<and>
     au_feedback_frames a = sum_list (map (length \<circ> snd) (au_samples a))"

lemma samples_ok_snoc:
  assumes "samples_ok fs" and "feedback_errors fs fb = []"
  shows "samples_ok (fs @ [fb])"
proof (cases "fs = []")
  case True
  with assms show ?thesis by (auto simp: samples_ok_def feedback_errors_def split: if_splits)
next
  case False
  have s: "sorted_wrt (<) (map fb_hardware_timestamp_ns fs)" using assms(1) by (simp add: samples_ok_def)
  have l: "fb_hardware_timestamp_ns (last fs) < fb_hardware_timestamp_ns fb"
    using assms(2) False by (auto simp: feedback_errors_def split: if_splits)
  have "fb_hardware_timestamp_ns f < fb_hardware_timestamp_ns fb" if "f \<in> set fs" for f
  proof -
    have "map fb_hardware_timestamp_ns fs =
        map fb_hardware_timestamp_ns (butlast fs) @ [fb_hardware_timestamp_ns (last fs)]"
      using False by (metis append_butlast_last_id list.simps(8,9) map_append)
    with s have "\<forall>g \<in> set (butlast fs). fb_hardware_timestamp_ns g < fb_hardware_timestamp_ns (last fs)"
      by (simp add: sorted_wrt_append)
    moreover have "f \<in> set (butlast fs) \<or> f = last fs"
      using that False by (metis append_butlast_last_id in_set_conv_decomp rotate1.simps(2) set_ConsD set_rotate1)
    ultimately show ?thesis using l by auto
  qed
  with assms s show ?thesis
    by (auto simp: samples_ok_def feedback_errors_def sorted_wrt_append split: if_splits)
qed

lemma dict_set_sum_length:
  "map_of d k = Some fs \<Longrightarrow>
    sum_list (map (length \<circ> snd) (dict_set d k (fs @ [x]))) = Suc (sum_list (map (length \<circ> snd) d))"
  by (induction d) auto

lemma audit_inv_add:
  assumes "audit_inv a" and "map_of (au_samples a) (fb_motor_name fb) = Some fs"
  shows "audit_inv (a\<lparr>au_errors := au_errors a @ feedback_errors fs fb,
    au_samples := dict_set (au_samples a) (fb_motor_name fb) (fs @ [fb]),
    au_feedback_frames := au_feedback_frames a + 1\<rparr>)"
proof -
  let ?d = "dict_set (au_samples a) (fb_motor_name fb) (fs @ [fb])"
  have mem: "(fb_motor_name fb, fs) \<in> set (au_samples a)" using assms(2) by (rule map_of_SomeD)
  have "distinct (keys ?d)"
    using assms(1) unfolding audit_inv_def by (intro distinct_keys_dict_set) blast
  moreover have "\<forall>(n, gs) \<in> set ?d. \<forall>f \<in> set gs. fb_motor_name f = n"
  proof (rule ball_dict_set)
    show "\<forall>(n, gs) \<in> set (au_samples a). \<forall>f \<in> set gs. fb_motor_name f = n"
      using assms(1) by (simp add: audit_inv_def)
    with mem show "case (fb_motor_name fb, fs @ [fb]) of (n, gs) \<Rightarrow> \<forall>f \<in> set gs. fb_motor_name f = n"
      by auto
  qed
  moreover have "\<forall>(n, gs) \<in> set ?d. samples_ok gs"
    if e: "au_errors a = []" "feedback_errors fs fb = []"
  proof (rule ball_dict_set)
    show ok: "\<forall>(n, gs) \<in> set (au_samples a). samples_ok gs"
      using assms(1) e(1) by (simp add: audit_inv_def)
    have "samples_ok fs" using bspec [OF ok mem] by simp
    then show "case (fb_motor_name fb, fs @ [fb]) of (n, gs) \<Rightarrow> samples_ok gs"
      using samples_ok_snoc e(2) by simp
  qed
  ultimately show ?thesis
    using assms(1) dict_set_sum_length [OF assms(2)] by (simp add: audit_inv_def)
qed

lemma ingest_inv: "audit_inv a \<Longrightarrow> audit_inv (fst (ingest a frame))"
  by (auto simp: ingest_def audit_inv_add simp del: One_nat_def split: sum.split option.split)

definition frame_key :: "can_frame \<Rightarrow> bus_key" where
  "frame_key f = (f_interface f, f_can_id f)"

lemma fst_bus:
  "fst (ingest_bus_frame a frame) =
    (if frame_key frame \<in> set (au_feedback_keys a) then fst (ingest a frame)
     else if frame_key frame \<in> set (au_command_keys a) then a\<lparr>au_control_frames := au_control_frames a + 1\<rparr>
     else a\<lparr>au_unexpected_keys := List.insert (frame_key frame) (au_unexpected_keys a)\<rparr>)"
  by (simp add: ingest_bus_frame_def frame_key_def Let_def split: prod.split sum.split)

lemma audit_inv_update [simp]:
  "audit_inv (a\<lparr>au_control_frames := c\<rparr>) = audit_inv a"
  "audit_inv (a\<lparr>au_unexpected_keys := u\<rparr>) = audit_inv a"
  by (simp_all add: audit_inv_def)

lemma bus_inv: "audit_inv a \<Longrightarrow> audit_inv (fst (ingest_bus_frame a frame))"
  by (simp add: fst_bus ingest_inv)

definition audit_run :: "rx_audit \<Rightarrow> can_frame list \<Rightarrow> rx_audit" where
  "audit_run = foldl (\<lambda>a frame. fst (ingest_bus_frame a frame))"

definition audit_config ::
  "rx_audit \<Rightarrow> decoder \<times> bus_key list \<times> bus_key list \<times> string set \<times> int \<times> pyfloat \<times> pyfloat \<times> pyfloat" where
  "audit_config a = (au_decoder a, au_feedback_keys a, au_command_keys a, fst ` set (au_samples a),
     au_minimum_samples a, au_minimum_feedback_hz a, au_maximum_hardware_gap_ms a,
     au_maximum_queue_age_ms a)"

lemma ingest_config: "audit_config (fst (ingest a frame)) = audit_config a"
  by (auto simp: ingest_def audit_config_def insert_absorb dom_map_of_conv_image_fst [symmetric]
      split: sum.split option.split)

lemma bus_config: "audit_config (fst (ingest_bus_frame a frame)) = audit_config a"
  by (simp add: fst_bus ingest_config) (simp add: audit_config_def)

lemma ingest_unexpected: "au_unexpected_keys (fst (ingest a frame)) = au_unexpected_keys a"
  by (auto simp: ingest_def split: sum.split option.split)

lemma bus_unexpected:
  "set (au_unexpected_keys (fst (ingest_bus_frame a frame))) = set (au_unexpected_keys a) \<union>
    ({frame_key frame} - set (au_feedback_keys a) - set (au_command_keys a))"
  by (auto simp: fst_bus ingest_unexpected)

lemma run_facts:
  "audit_inv a \<Longrightarrow> audit_inv (audit_run a fs) \<and> audit_config (audit_run a fs) = audit_config a \<and>
    set (au_unexpected_keys (audit_run a fs)) = set (au_unexpected_keys a) \<union>
      (frame_key ` set fs - set (au_feedback_keys a) - set (au_command_keys a))"
proof (induction fs arbitrary: a)
  case Nil
  then show ?case by (simp add: audit_run_def)
next
  case (Cons f fs)
  let ?b = "fst (ingest_bus_frame a f)"
  have c: "audit_config ?b = audit_config a" by (rule bus_config)
  then have "au_feedback_keys ?b = au_feedback_keys a" "au_command_keys ?b = au_command_keys a"
    by (simp_all add: audit_config_def)
  with Cons.IH [OF bus_inv [OF Cons.prems, of f]] bus_unexpected [of a f] c show ?case
    by (auto simp: audit_run_def)
qed

section \<open>The report\<close>

lemma float_of_int_finite: "float_of_int n = Inr x \<Longrightarrow> \<exists>r. x = Fin r"
  by (cases "rnd (of_int n)") (auto simp: float_of_int_def)

lemma int_over_not_NaN: "int_over n (Fin 1000000) = Inr x \<Longrightarrow> x \<noteq> NaN"
  by (auto simp: int_over_def rbind_eq_Inr dest!: float_of_int_finite)

lemma inf_of_sign_NaN [simp]: "inf_of_sign s = NaN \<longleftrightarrow> s = 0"
  by (simp add: inf_of_sign_def)

lemma rate_not_NaN: "feedback_rate_hz fs = Inr x \<Longrightarrow> x \<noteq> NaN"
proof -
  have q: "x \<noteq> NaN" if "fdiv (rnd y) (Fin t) = Inr x" for y t
    using that by (cases "rnd y") (auto split: if_splits)
  assume x: "feedback_rate_hz fs = Inr x"
  show "x \<noteq> NaN"
  proof (cases "x = Fin 0")
    case False
    with x obtain n t m e where nt: "float_of_int m = Inr n" "float_of_int e = Inr t"
      "fdiv (fmul n (Fin 1000000000)) t = Inr x"
      unfolding feedback_rate_hz_def Let_def by (auto simp: rbind_eq_Inr split: if_splits)
    from float_of_int_finite [OF nt(1)] float_of_int_finite [OF nt(2)] obtain a b where "n = Fin a" "t = Fin b"
      by blast
    with nt(3) have "fdiv (rnd (a * 1000000000)) (Fin b) = Inr x" by (simp only: fmul.simps)
    then show ?thesis by (rule q)
  qed simp
qed

lemma percentile_member:
  "percentile_99 values = Inr p \<Longrightarrow> p = PInf \<or> p \<in> set values"
proof -
  have "nth_result (sort values) i = Inr p \<Longrightarrow> p \<in> set values" for i
    using nth_mem [of i "sort values"] by (auto simp: nth_result_def split: if_splits)
  then show "percentile_99 values = Inr p \<Longrightarrow> p = PInf \<or> p \<in> set values"
    by (auto simp: percentile_99_def rbind_eq_Inr split: if_splits)
qed

lemma motor_stats_spec:
  assumes "motor_stats fs = Inr s"
  shows "st_samples s = length fs" and "st_feedback_hz s \<noteq> NaN"
    and "st_maximum_hardware_gap_ms s \<noteq> NaN" and "st_userspace_queue_age_p99_ms s \<noteq> NaN"
proof -
  from assms obtain hz gap ages p where m: "feedback_rate_hz fs = Inr hz"
    "int_over (maximum_default 0 (gaps_ns fs)) (Fin 1000000) = Inr gap"
    "rmap (\<lambda>s. int_over (userspace_queue_age_ns s) (Fin 1000000)) fs = Inr ages"
    "percentile_99 ages = Inr p"
    and s: "st_samples s = length fs" "st_feedback_hz s = hz" "st_maximum_hardware_gap_ms s = gap"
    "st_userspace_queue_age_p99_ms s = p"
    by (auto simp: motor_stats_def rbind_eq_Inr)
  have "list_all2 (\<lambda>f x. int_over (userspace_queue_age_ns f) (Fin 1000000) = Inr x) fs ages"
    using m(3) by (simp add: rmap_eq_Inr)
  then have "NaN \<notin> set ages"
    by (auto simp: list_all2_conv_all_nth in_set_conv_nth dest: int_over_not_NaN)
  then show "st_samples s = length fs" and "st_feedback_hz s \<noteq> NaN"
    and "st_maximum_hardware_gap_ms s \<noteq> NaN" and "st_userspace_queue_age_p99_ms s \<noteq> NaN"
    using s rate_not_NaN [OF m(1)] int_over_not_NaN [OF m(2)] percentile_member [OF m(4)] by auto
qed

lemma stats_loop_clean:
  assumes "stats_loop a names = Inr ([], ds)" and "n \<in> set names"
    and "map_of (au_samples a) n = Some fs" and "fs \<noteq> []"
  shows "\<exists>s. motor_stats fs = Inr s \<and> stats_errors a n s = []"
  using assms
proof (induction names arbitrary: ds)
  case Nil
  then show ?case by simp
next
  case (Cons m names)
  then show ?case
    by (cases "n = m") (auto simp: Let_def rbind_eq_Inr split: option.splits if_splits)
qed

lemma report_passed:
  assumes "audit_report a = Inr r" and "rx_audit_passed r"
  shows "au_errors a = []" and "au_unexpected_keys a = []"
    and "(n, fs) \<in> set (au_samples a) \<Longrightarrow> fs \<noteq> []"
    and "\<exists>ds. stats_loop a (sorted_set (keys (au_samples a))) = Inr ([], ds)"
proof -
  from assms have e: "au_errors a = []" "sorted_set (au_unexpected_keys a) = []"
    "sorted_set (map fst (filter (\<lambda>(_, s). s = []) (au_samples a))) = []"
    "\<exists>ds. stats_loop a (sorted_set (keys (au_samples a))) = Inr ([], ds)"
    by (auto simp: audit_report_def rx_audit_passed_def rbind_eq_Inr Let_def split: if_splits)
  from e show "au_errors a = []" "au_unexpected_keys a = []"
    "\<exists>ds. stats_loop a (sorted_set (keys (au_samples a))) = Inr ([], ds)" by simp_all
  from e(3) have "filter (\<lambda>(_, s). s = []) (au_samples a) = []"
    by (simp only: sorted_set_Nil map_is_Nil_conv)
  then show "(n, fs) \<in> set (au_samples a) \<Longrightarrow> fs \<noteq> []" by (auto simp: filter_empty_conv)
qed

lemma new_audit_spec:
  assumes "new_rx_audit es m hz gap age = Inr a"
  shows "audit_inv a" and "fst ` set (au_samples a) = ep_motor_name ` set es"
    and "au_minimum_samples a = m" and "au_minimum_feedback_hz a = hz"
    and "au_maximum_hardware_gap_ms a = gap" and "au_maximum_queue_age_ms a = age"
    and "hz \<noteq> NaN" and "gap \<noteq> NaN" and "age \<noteq> NaN" and "au_unexpected_keys a = []"
    and "set (au_feedback_keys a) = (\<lambda>e. (ep_interface e, ep_master_id e)) ` set es"
    and "set (au_command_keys a) = (\<lambda>e. (ep_interface e, ep_can_id e)) ` set es"
  using assms
  by (auto simp: new_rx_audit_def rbind_eq_Inr Let_def audit_inv_def samples_ok_def comp_def
      image_image intro!: sum_list_0 split: if_splits)

section \<open>Evidence\<close>

lemma passed_report_motor:
  assumes "audit_report a = Inr r" and "rx_audit_passed r" and "audit_inv a"
    and "map_of (au_samples a) name = Some fs"
  shows "\<exists>s. motor_stats fs = Inr s \<and> au_minimum_samples a \<le> int (length fs) \<and>
    list_all (\<lambda>f. fb_motor_name f = name) fs \<and> sorted_wrt (<) (map fb_hardware_timestamp_ns fs) \<and>
    list_all (\<lambda>f. fb_status_code f \<in> {0, 1}) fs \<and> \<not> flt (st_feedback_hz s) (au_minimum_feedback_hz a) \<and>
    \<not> flt (au_maximum_hardware_gap_ms a) (st_maximum_hardware_gap_ms s) \<and>
    \<not> flt (au_maximum_queue_age_ms a) (st_userspace_queue_age_p99_ms s)"
proof -
  note p = report_passed [OF assms(1,2)]
  from map_of_SomeD [OF assms(4)] have mem: "(name, fs) \<in> set (au_samples a)" .
  then have k: "name \<in> fst ` set (au_samples a)" by force
  from p(4) obtain ds where "stats_loop a (sorted_set (keys (au_samples a))) = Inr ([], ds)" by blast
  from stats_loop_clean [OF this _ assms(4) p(3) [OF mem]] k obtain s where
    s: "motor_stats fs = Inr s" "stats_errors a name s = []" by auto
  have "samples_ok fs" "\<forall>f \<in> set fs. fb_motor_name f = name"
    using assms(3) p(1) mem unfolding audit_inv_def by auto
  then show ?thesis
    using s motor_stats_spec [OF s(1)]
    by (intro exI [of _ s]) (auto simp: samples_ok_def stats_errors_def list_all_iff split: if_splits)
qed

text \<open>
  C11. The receive-only audit fails closed: when its report passes after any sequence of bus frames,
  every configured motor was heard often enough, with strictly increasing raw hardware timestamps,
  never in a fault state, and within the rate, gap and queue-age limits; and no frame on the bus had
  an unknown address.
\<close>

theorem passed_audit_is_evidence:
  assumes "new_rx_audit endpoints minimum hz gap age = Inr a0"
    and "audit_report (audit_run a0 frames) = Inr r" and "rx_audit_passed r"
  shows "list_all (\<lambda>e. \<exists>fs s. map_of (au_samples (audit_run a0 frames)) (ep_motor_name e) = Some fs \<and>
      minimum \<le> int (length fs) \<and> list_all (\<lambda>f. fb_motor_name f = ep_motor_name e) fs \<and>
      sorted_wrt (<) (map fb_hardware_timestamp_ns fs) \<and>
      list_all (\<lambda>f. fb_status_code f \<in> {0, 1}) fs \<and>
      motor_stats fs = Inr s \<and> fle hz (st_feedback_hz s) \<and>
      fle (st_maximum_hardware_gap_ms s) gap \<and> fle (st_userspace_queue_age_p99_ms s) age) endpoints \<and>
    list_all (\<lambda>f. \<exists>e \<in> set endpoints. f_interface f = ep_interface e \<and>
      f_can_id f \<in> {ep_master_id e, ep_can_id e}) frames"
proof
  let ?a = "audit_run a0 frames"
  note n = new_audit_spec [OF assms(1)] and p = report_passed [OF assms(2,3)]
  from run_facts [OF n(1), of frames] have inv: "audit_inv ?a"
    and cfg: "audit_config ?a = audit_config a0"
    and unk: "set (au_unexpected_keys ?a) = frame_key ` set frames - set (au_feedback_keys a0) - set (au_command_keys a0)"
    by (simp_all add: n(10))
  from cfg have c: "fst ` set (au_samples ?a) = ep_motor_name ` set endpoints"
    "au_minimum_samples ?a = minimum" "au_minimum_feedback_hz ?a = hz"
    "au_maximum_hardware_gap_ms ?a = gap" "au_maximum_queue_age_ms ?a = age"
    using n by (simp_all add: audit_config_def)
  have "\<exists>fs s. map_of (au_samples ?a) (ep_motor_name e) = Some fs \<and>
      minimum \<le> int (length fs) \<and> list_all (\<lambda>f. fb_motor_name f = ep_motor_name e) fs \<and>
      sorted_wrt (<) (map fb_hardware_timestamp_ns fs) \<and> list_all (\<lambda>f. fb_status_code f \<in> {0, 1}) fs \<and>
      motor_stats fs = Inr s \<and> fle hz (st_feedback_hz s) \<and>
      fle (st_maximum_hardware_gap_ms s) gap \<and> fle (st_userspace_queue_age_p99_ms s) age"
    if "e \<in> set endpoints" for e
  proof -
    have "ep_motor_name e \<in> fst ` set (au_samples ?a)" using that by (simp add: c(1))
    then obtain fs where fs: "map_of (au_samples ?a) (ep_motor_name e) = Some fs"
      by (metis map_of_eq_None_iff not_None_eq)
    from passed_report_motor [OF assms(2,3) inv fs] obtain s where s: "motor_stats fs = Inr s"
      "minimum \<le> int (length fs)" "list_all (\<lambda>f. fb_motor_name f = ep_motor_name e) fs"
      "sorted_wrt (<) (map fb_hardware_timestamp_ns fs)" "list_all (\<lambda>f. fb_status_code f \<in> {0, 1}) fs"
      "\<not> flt (st_feedback_hz s) hz" "\<not> flt gap (st_maximum_hardware_gap_ms s)"
      "\<not> flt age (st_userspace_queue_age_p99_ms s)"
      unfolding c(2-5) by blast
    with fs motor_stats_spec [OF s(1)] n(7-9) show ?thesis
      by (intro exI [of _ fs] exI [of _ s]) (simp add: not_flt)
  qed
  then show "list_all (\<lambda>e. \<exists>fs s. map_of (au_samples ?a) (ep_motor_name e) = Some fs \<and>
      minimum \<le> int (length fs) \<and> list_all (\<lambda>f. fb_motor_name f = ep_motor_name e) fs \<and>
      sorted_wrt (<) (map fb_hardware_timestamp_ns fs) \<and> list_all (\<lambda>f. fb_status_code f \<in> {0, 1}) fs \<and>
      motor_stats fs = Inr s \<and> fle hz (st_feedback_hz s) \<and>
      fle (st_maximum_hardware_gap_ms s) gap \<and> fle (st_userspace_queue_age_p99_ms s) age) endpoints"
    by (simp only: list_all_iff) blast
  from p(2) unk have "frame_key ` set frames \<subseteq> set (au_feedback_keys a0) \<union> set (au_command_keys a0)" by auto
  then show "list_all (\<lambda>f. \<exists>e \<in> set endpoints. f_interface f = ep_interface e \<and>
      f_can_id f \<in> {ep_master_id e, ep_can_id e}) frames"
    unfolding n(11,12) list_all_iff frame_key_def by (auto simp: image_subset_iff)
qed

definition sample_audit :: rx_audit where
  "sample_audit = \<lparr>au_decoder = [((''can0'', 17), sample_endpoint)], au_expected = [''hip''],
     au_feedback_keys = [(''can0'', 17)], au_command_keys = [(''can0'', 1)], au_minimum_samples = 2,
     au_minimum_feedback_hz = Fin 100, au_maximum_hardware_gap_ms = Fin 20,
     au_maximum_queue_age_ms = Fin 6, au_samples = [(''hip'', [])], au_errors = [],
     au_unexpected_keys = [], au_control_frames = 0, au_feedback_frames = 0\<rparr>"

lemma new_sample_audit:
  "new_rx_audit [sample_endpoint] 2 (Fin 100) (Fin 20) (Fin 6) = Inr sample_audit"
  by (simp add: new_rx_audit_def sample_decoder sample_audit_def) (simp add: sample_endpoint_def)

definition sample_frames :: "can_frame list" where
  "sample_frames = map (\<lambda>h. sample_feedback_frame\<lparr>hardware_timestamp_ns := h\<rparr>) [1000000, 6000000]"

lemma sample_ingest:
  "map_of (au_samples a) ''hip'' = Some fs \<Longrightarrow> au_decoder a = [((''can0'', 17), sample_endpoint)] \<Longrightarrow>
    (''can0'', 17) \<in> set (au_feedback_keys a) \<Longrightarrow>
    fst (ingest_bus_frame a (sample_feedback_frame\<lparr>hardware_timestamp_ns := h\<rparr>)) =
      a\<lparr>au_errors := au_errors a @ feedback_errors fs (sample_feedback h),
        au_samples := dict_set (au_samples a) ''hip'' (fs @ [sample_feedback h]),
        au_feedback_frames := au_feedback_frames a + 1\<rparr>"
  by (simp add: fst_bus frame_key_def ingest_def sample_decoded)
    (simp add: sample_feedback_frame_def sample_feedback_def)

lemma sample_run:
  "audit_run sample_audit sample_frames = sample_audit\<lparr>au_samples :=
     [(''hip'', [sample_feedback 1000000, sample_feedback 6000000])], au_feedback_frames := 2\<rparr>"
  by (simp add: audit_run_def sample_frames_def sample_ingest sample_audit_def)
    (simp add: feedback_errors_def sample_feedback_def)

lemma sample_stats:
  "\<exists>s. motor_stats [sample_feedback 1000000, sample_feedback 6000000] = Inr s \<and>
    stats_errors sample_audit ''hip'' s = []"
proof -
  have p: "percentile_99 [Fin 0, Fin 0] = Inr (Fin 0)"
    by (simp add: percentile_99_def rnd_99 double_99_def nth_result_def float_eval)
  show ?thesis
    by (simp add: motor_stats_def sample_feedback_def feedback_rate_hz_def int_over_def
        maximum_default_def gaps_ns_def userspace_queue_age_ns_def p)
      (simp add: p stats_errors_def sample_audit_def float_eval)
qed

theorem passed_audit_is_evidence_witness:
  "\<exists>fs. map_of (au_samples (audit_run sample_audit sample_frames)) ''hip'' = Some fs \<and>
    sorted_wrt (<) (map fb_hardware_timestamp_ns fs)"
proof -
  obtain s where s: "motor_stats [sample_feedback 1000000, sample_feedback 6000000] = Inr s"
    "stats_errors sample_audit ''hip'' s = []" using sample_stats by blast
  obtain r where r: "audit_report (audit_run sample_audit sample_frames) = Inr r" "rx_audit_passed r"
    unfolding sample_run
    using s by (simp add: audit_report_def rx_audit_passed_def sorted_set_def stats_errors_def)
      (simp add: sample_audit_def)
  from passed_audit_is_evidence [OF new_sample_audit r] show ?thesis
    by (auto simp: sample_endpoint_def)
qed

end
