(* ===== verification/DamiaoProbe.thy ===== *)
theory DamiaoProbe
  imports Damiao
begin

text \<open>
  The finite zero-gain probes of \<open>damiao.py\<close>: \<open>collect_zero_gain_position_echo\<close> for one motor and
  \<open>collect_zero_gain_group_position_echo\<close> for up to eight motors of one bus.

  The loops run over turns of the environment: what \<open>keep_running\<close> answers, the clock at the head
  of the turn, the outcome of the send if one is due, the received frames each with the clock read
  when its feedback is accepted, and the clock of the timeout check. The select timeout only bounds
  how long a turn waits and is left out. \<open>None\<close> means that the given turns ended while the loop was
  running. The feedback handed to \<open>on_feedback\<close> is exactly the accepted feedback that did not end
  the turn. The rolled-up sum of floats depends on the interpreter version and is the parameter
  \<open>py_sum\<close>.
\<close>

section \<open>One motor\<close>

record probe_turn =
  pt_keep_running :: bool
  pt_now :: pyfloat
  pt_sent :: sent
  pt_ready :: "(can_frame result \<times> pyfloat) list"
  pt_end_clock :: pyfloat

record probe_state =
  pb_poller :: zero_gain_poller
  pb_next_send :: pyfloat
  pb_last_feedback :: pyfloat
  pb_target_position :: pyfloat
  pb_values :: "feedback list"
  pb_discarded :: nat
  pb_errors :: "string list"

record probe_report =
  pr_motor_name :: string
  pr_interface :: string
  pr_can_id :: int
  pr_master_id :: int
  pr_requested_duration_s :: pyfloat
  pr_requested_rate_hz :: pyfloat
  pr_elapsed_s :: pyfloat
  pr_tx_count :: int
  pr_rx_count :: nat
  pr_first_position_rad :: "pyfloat option"
  pr_last_position_rad :: "pyfloat option"
  pr_minimum_position_rad :: "pyfloat option"
  pr_maximum_position_rad :: "pyfloat option"
  pr_status_codes :: "int list"
  pr_discarded_timestamp_frames :: nat
  pr_errors :: "string list"

definition probe_passed :: "probe_report \<Rightarrow> bool" where
  "probe_passed r \<longleftrightarrow> pr_errors r = [] \<and> 0 < pr_tx_count r \<and> 0 < pr_rx_count r"

definition in_range :: "pyfloat \<Rightarrow> pyfloat \<Rightarrow> bool" where
  "in_range x high \<longleftrightarrow> isfinite x \<and> flt (Fin 0) x \<and> fle x high"

definition next_send_after :: "pyfloat \<Rightarrow> pyfloat \<Rightarrow> pyfloat \<Rightarrow> pyfloat" where
  "next_send_after next_send period now =
     (let n = fadd next_send period in if fle n now then fadd now period else n)"

definition probe_send ::
  "feedback_endpoint \<Rightarrow> pyfloat \<Rightarrow> pyfloat \<Rightarrow> sent \<Rightarrow> probe_state \<Rightarrow> probe_state \<times> unit result" where
  "probe_send e period now sent s =
     (if \<not> fle (pb_next_send s) now then (s, Inr ())
      else (case encode_zero_gain_position_echo e (pb_target_position s) of Inl err \<Rightarrow> (s, Inl err)
        | Inr c \<Rightarrow> (case send_zero_gain_poll (pb_poller s) (ec_can_id c, ec_data c) sent of
            (p, Inl err) \<Rightarrow> (s\<lparr>pb_poller := p\<rparr>, Inl err)
          | (p, Inr _) \<Rightarrow> (s\<lparr>pb_poller := p,
               pb_next_send := next_send_after (pb_next_send s) period now\<rparr>, Inr ()))))"

fun is_timestamp_error :: "py_error \<Rightarrow> bool" where
  "is_timestamp_error (SocketCanTimestampError _) = True"
| "is_timestamp_error _ = False"

definition command_keys :: "feedback_endpoint list \<Rightarrow> (string \<times> int) set" where
  "command_keys es = set (map (\<lambda>e. (ep_interface e, ep_can_id e)) es)"

definition feedback_keys :: "feedback_endpoint list \<Rightarrow> (string \<times> int) set" where
  "feedback_keys es = set (map (\<lambda>e. (ep_interface e, ep_master_id e)) es)"

fun probe_ready ::
  "feedback_endpoint \<Rightarrow> feedback_endpoint list \<Rightarrow> decoder \<Rightarrow> (can_frame result \<times> pyfloat) list
     \<Rightarrow> probe_state \<Rightarrow> probe_state \<times> unit result" where
  "probe_ready e es d [] s = (s, Inr ())"
| "probe_ready e es d ((Inl err, clock) # rs) s =
     (if is_timestamp_error err then probe_ready e es d rs (s\<lparr>pb_discarded := pb_discarded s + 1\<rparr>)
      else (s, Inl err))"
| "probe_ready e es d ((Inr frame, clock) # rs) s =
     (let key = (f_interface frame, f_can_id frame) in
      if key \<in> command_keys es then probe_ready e es d rs s
      else if key \<notin> feedback_keys es
      then probe_ready e es d rs
        (s\<lparr>pb_errors := pb_errors s @ [''unexpected CAN endpoint: '' @ f_interface frame]\<rparr>)
      else (case decoder_decode d frame of Inl err \<Rightarrow> (s, Inl err)
        | Inr fb \<Rightarrow>
            if fb_motor_name fb \<noteq> ep_motor_name e then probe_ready e es d rs s
            else if \<not> is_fd frame \<or> \<not> bit_rate_switch frame
            then (s\<lparr>pb_errors := pb_errors s @
                [''selected feedback was not CAN-FD with bit-rate switching'']\<rparr>, Inr ())
            else let s' = s\<lparr>pb_values := pb_values s @ [fb],
                   pb_target_position := fb_position_rad fb, pb_last_feedback := clock\<rparr> in
              if fb_status_code fb \<notin> {0, 1}
              then (s'\<lparr>pb_errors := pb_errors s' @ [''motor fault: '' @ fb_status_name fb]\<rparr>, Inr ())
              else probe_ready e es d rs s'))"

fun probe_loop ::
  "feedback_endpoint \<Rightarrow> feedback_endpoint list \<Rightarrow> decoder \<Rightarrow> pyfloat \<Rightarrow> pyfloat \<Rightarrow> pyfloat \<Rightarrow> pyfloat
     \<Rightarrow> probe_turn list \<Rightarrow> probe_state \<Rightarrow> (probe_state \<times> unit result) option" where
  "probe_loop e es d start duration period timeout [] s = None"
| "probe_loop e es d start duration period timeout (t # ts) s =
     (if \<not> pt_keep_running t then Some (s, Inr ())
      else if fle duration (fsub (pt_now t) start) then Some (s, Inr ())
      else (case probe_send e period (pt_now t) (pt_sent t) s of (s1, Inl err) \<Rightarrow> Some (s1, Inl err)
        | (s1, Inr _) \<Rightarrow> (case probe_ready e es d (pt_ready t) s1 of (s2, Inl err) \<Rightarrow> Some (s2, Inl err)
          | (s2, Inr _) \<Rightarrow>
              if pb_errors s2 \<noteq> [] then Some (s2, Inr ())
              else if flt timeout (fsub (pt_end_clock t) (pb_last_feedback s2))
              then Some (s2\<lparr>pb_errors := pb_errors s2 @
                 [''no selected-motor feedback within the feedback timeout'']\<rparr>, Inr ())
              else probe_loop e es d start duration period timeout ts s2)))"

definition first_option :: "'a list \<Rightarrow> 'a option" where
  "first_option xs = (if xs = [] then None else Some (hd xs))"

definition last_option :: "'a list \<Rightarrow> 'a option" where
  "last_option xs = (if xs = [] then None else Some (last xs))"

definition fold_option :: "('a \<Rightarrow> 'a \<Rightarrow> 'a) \<Rightarrow> 'a list \<Rightarrow> 'a option" where
  "fold_option f xs = (if xs = [] then None else Some (foldl f (hd xs) (tl xs)))"

definition probe_report_of ::
  "feedback_endpoint \<Rightarrow> pyfloat \<Rightarrow> pyfloat \<Rightarrow> pyfloat \<Rightarrow> probe_state \<Rightarrow> probe_report" where
  "probe_report_of e duration rate elapsed s =
     (let positions = map fb_position_rad (pb_values s) in
      \<lparr>pr_motor_name = ep_motor_name e, pr_interface = ep_interface e, pr_can_id = ep_can_id e,
       pr_master_id = ep_master_id e, pr_requested_duration_s = duration,
       pr_requested_rate_hz = rate, pr_elapsed_s = elapsed,
       pr_tx_count = zg_tx_attempts (pb_poller s), pr_rx_count = length (pb_values s),
       pr_first_position_rad = first_option positions, pr_last_position_rad = last_option positions,
       pr_minimum_position_rad = fold_option fmin positions,
       pr_maximum_position_rad = fold_option fmax positions,
       pr_status_codes = sorted_set (map fb_status_code (pb_values s)),
       pr_discarded_timestamp_frames = pb_discarded s, pr_errors = pb_errors s\<rparr>)"

text \<open>The poller keeps what it sent also when the probe raises, so it is part of the result.\<close>

definition collect_zero_gain_position_echo ::
  "zero_gain_poller \<Rightarrow> feedback_endpoint \<Rightarrow> feedback_endpoint list \<Rightarrow> pyfloat \<Rightarrow> pyfloat \<Rightarrow> pyfloat
     \<Rightarrow> pyfloat \<Rightarrow> pyfloat \<Rightarrow> probe_turn list \<Rightarrow> pyfloat
     \<Rightarrow> (zero_gain_poller \<times> probe_report result) option" where
  "collect_zero_gain_position_echo poller e es duration rate timeout max_duration start turns stop =
     (if \<not> in_range max_duration (Fin 120)
      then Some (poller, Inl (ValueError ''maximum_duration_s must be finite and in (0, 120]''))
      else if \<not> in_range duration max_duration
      then Some (poller, Inl (ValueError ''duration_s must be finite and in the allowed range''))
      else if \<not> in_range rate (Fin 100)
      then Some (poller, Inl (ValueError ''rate_hz must be finite and in (0, 100]''))
      else if \<not> in_range timeout (Fin 1)
      then Some (poller, Inl (ValueError ''feedback_timeout_s must be finite and in (0, 1]''))
      else if zg_interface poller \<noteq> ep_interface e
      then Some (poller, Inl (ValueError ''poller interface does not match selected endpoint''))
      else (case new_feedback_decoder es of Inl err \<Rightarrow> Some (poller, Inl err)
        | Inr d \<Rightarrow> (case fdiv (Fin 1) rate of Inl err \<Rightarrow> Some (poller, Inl err)
          | Inr period \<Rightarrow>
              let s0 = \<lparr>pb_poller = poller, pb_next_send = start, pb_last_feedback = start,
                   pb_target_position = Fin 0, pb_values = [], pb_discarded = 0, pb_errors = []\<rparr>
              in (case probe_loop e es d start duration period timeout turns s0 of None \<Rightarrow> None
                | Some (s, Inl err) \<Rightarrow> Some (pb_poller s, Inl err)
                | Some (s, Inr _) \<Rightarrow>
                    Some (pb_poller s, Inr (probe_report_of e duration rate (fsub stop start) s))))))"

section \<open>A group of motors on one bus\<close>

record group_state =
  gp_poller :: zero_gain_poller
  gp_next_send :: pyfloat
  gp_next_motor_index :: nat
  gp_last_feedback :: "(string, pyfloat) dict"
  gp_targets :: "(string, pyfloat) dict"
  gp_values :: "(string, feedback list) dict"
  gp_discarded :: nat
  gp_errors :: "string list"

record group_report =
  gr_interface :: string
  gr_motor_names :: "string list"
  gr_requested_duration_s :: pyfloat
  gr_requested_rate_hz_per_motor :: pyfloat
  gr_elapsed_s :: pyfloat
  gr_tx_count :: int
  gr_minimum_sample_coverage :: pyfloat
  gr_rx_count_by_motor :: "(string, nat) dict"
  gr_sample_coverage_by_motor :: "(string, pyfloat) dict"
  gr_first_position_rad_by_motor :: "(string, pyfloat option) dict"
  gr_last_position_rad_by_motor :: "(string, pyfloat option) dict"
  gr_minimum_estimated_torque_nm_by_motor :: "(string, pyfloat option) dict"
  gr_maximum_estimated_torque_nm_by_motor :: "(string, pyfloat option) dict"
  gr_mean_estimated_torque_nm_by_motor :: "(string, pyfloat option) dict"
  gr_status_codes_by_motor :: "(string, int list) dict"
  gr_discarded_timestamp_frames :: nat
  gr_errors :: "string list"

definition group_passed :: "group_report \<Rightarrow> bool" where
  "group_passed r \<longleftrightarrow> gr_errors r = [] \<and> 0 < gr_tx_count r \<and>
     list_all (\<lambda>name. fle (gr_minimum_sample_coverage r)
       (case map_of (gr_sample_coverage_by_motor r) name of Some c \<Rightarrow> c | None \<Rightarrow> Fin 0))
       (gr_motor_names r)"

definition lookup_result :: "(string, 'v) dict \<Rightarrow> string \<Rightarrow> 'v result" where
  "lookup_result d k = (case map_of d k of Some v \<Rightarrow> Inr v | None \<Rightarrow> Inl (KeyError k))"

text \<open>One due send; an \<open>OSError\<close> of the transmission becomes an error of the report.\<close>

definition group_send ::
  "feedback_endpoint list \<Rightarrow> pyfloat \<Rightarrow> pyfloat \<Rightarrow> sent \<Rightarrow> group_state \<Rightarrow> group_state \<times> unit result" where
  "group_send sel slot now sent s =
     (if \<not> fle (gp_next_send s) now then (s, Inr ())
      else let e = sel ! gp_next_motor_index s in
        (case rbind (lookup_result (gp_targets s) (ep_motor_name e)) (encode_zero_gain_position_echo e) of
           Inl err \<Rightarrow> (s, Inl err)
         | Inr c \<Rightarrow> (case send_zero_gain_poll (gp_poller s) (ec_can_id c, ec_data c) sent of
             (p, Inl err) \<Rightarrow>
               if err = OSError
               then (s\<lparr>gp_poller := p, gp_errors := gp_errors s @
                  [''SocketCAN transmit failed for '' @ ep_motor_name e]\<rparr>, Inr ())
               else (s\<lparr>gp_poller := p\<rparr>, Inl err)
           | (p, Inr _) \<Rightarrow> (s\<lparr>gp_poller := p,
                gp_next_motor_index := (gp_next_motor_index s + 1) mod length sel,
                gp_next_send := next_send_after (gp_next_send s) slot now\<rparr>, Inr ()))))"

definition append_value :: "(string, feedback list) dict \<Rightarrow> feedback \<Rightarrow> (string, feedback list) dict" where
  "append_value d fb = dict_set d (fb_motor_name fb)
     ((case map_of d (fb_motor_name fb) of Some vs \<Rightarrow> vs | None \<Rightarrow> []) @ [fb])"

fun group_ready ::
  "feedback_endpoint list \<Rightarrow> feedback_endpoint list \<Rightarrow> decoder \<Rightarrow> (can_frame result \<times> pyfloat) list
     \<Rightarrow> group_state \<Rightarrow> group_state \<times> unit result" where
  "group_ready sel es d [] s = (s, Inr ())"
| "group_ready sel es d ((Inl err, clock) # rs) s =
     (if is_timestamp_error err then group_ready sel es d rs (s\<lparr>gp_discarded := gp_discarded s + 1\<rparr>)
      else (s, Inl err))"
| "group_ready sel es d ((Inr frame, clock) # rs) s =
     (let key = (f_interface frame, f_can_id frame) in
      if key \<in> command_keys es then group_ready sel es d rs s
      else if key \<notin> feedback_keys es
      then group_ready sel es d rs
        (s\<lparr>gp_errors := gp_errors s @ [''unexpected CAN endpoint: '' @ f_interface frame]\<rparr>)
      else (case decoder_decode d frame of Inl err \<Rightarrow> (s, Inl err)
        | Inr fb \<Rightarrow>
            if fb_motor_name fb \<notin> set (map ep_motor_name sel) then group_ready sel es d rs s
            else if \<not> is_fd frame \<or> \<not> bit_rate_switch frame
            then (s\<lparr>gp_errors := gp_errors s @
                [fb_motor_name fb @ '' feedback was not CAN-FD with bit-rate switching'']\<rparr>, Inr ())
            else let s' = s\<lparr>gp_values := append_value (gp_values s) fb,
                   gp_targets := dict_set (gp_targets s) (fb_motor_name fb) (fb_position_rad fb),
                   gp_last_feedback := dict_set (gp_last_feedback s) (fb_motor_name fb) clock\<rparr> in
              if fb_status_code fb \<notin> {0, 1}
              then (s'\<lparr>gp_errors := gp_errors s' @
                 [fb_motor_name fb @ '' motor fault: '' @ fb_status_name fb]\<rparr>, Inr ())
              else group_ready sel es d rs s'))"

definition stale_motors :: "pyfloat \<Rightarrow> pyfloat \<Rightarrow> (string, pyfloat) dict \<Rightarrow> string list" where
  "stale_motors now timeout last_feedback =
     map fst (filter (\<lambda>(_, seen). flt timeout (fsub now seen)) last_feedback)"

fun group_loop ::
  "feedback_endpoint list \<Rightarrow> feedback_endpoint list \<Rightarrow> decoder \<Rightarrow> pyfloat \<Rightarrow> pyfloat \<Rightarrow> pyfloat
     \<Rightarrow> pyfloat \<Rightarrow> probe_turn list \<Rightarrow> group_state \<Rightarrow> (group_state \<times> unit result) option" where
  "group_loop sel es d start duration slot timeout [] s = None"
| "group_loop sel es d start duration slot timeout (t # ts) s =
     (if \<not> pt_keep_running t then Some (s, Inr ())
      else if fle duration (fsub (pt_now t) start) then Some (s, Inr ())
      else (case group_send sel slot (pt_now t) (pt_sent t) s of (s1, Inl err) \<Rightarrow> Some (s1, Inl err)
        | (s1, Inr _) \<Rightarrow>
            if gp_errors s1 \<noteq> [] then Some (s1, Inr ())
            else (case group_ready sel es d (pt_ready t) s1 of (s2, Inl err) \<Rightarrow> Some (s2, Inl err)
              | (s2, Inr _) \<Rightarrow>
                  if gp_errors s2 \<noteq> [] then Some (s2, Inr ())
                  else let stale = stale_motors (pt_end_clock t) timeout (gp_last_feedback s2) in
                    if stale \<noteq> []
                    then Some (s2\<lparr>gp_errors := gp_errors s2 @
                       [''no feedback within the timeout from: '' @ join '', '' (sort stale)]\<rparr>, Inr ())
                    else group_loop sel es d start duration slot timeout ts s2)))"

definition on_values :: "('a list \<Rightarrow> 'b) \<Rightarrow> (string, 'a list) dict \<Rightarrow> (string, 'b) dict" where
  "on_values f d = map (\<lambda>(name, vs). (name, f vs)) d"

definition mean_option :: "(pyfloat list \<Rightarrow> pyfloat) \<Rightarrow> pyfloat list \<Rightarrow> pyfloat option result" where
  "mean_option py_sum xs = (if xs = [] then Inr None
     else rbind (float_of_int (int (length xs))) (\<lambda>n. rbind (fdiv (py_sum xs) n) (\<lambda>m. Inr (Some m))))"

definition coverage_of :: "pyfloat \<Rightarrow> pyfloat \<Rightarrow> 'a list \<Rightarrow> pyfloat result" where
  "coverage_of elapsed rate vs =
     rbind (fint (fmul elapsed rate)) (\<lambda>n.
     rbind (int_truediv (int (length vs)) (max 1 n)) (\<lambda>c. Inr (fmin (Fin 1) c)))"

definition on_values_result ::
  "('a list \<Rightarrow> 'b result) \<Rightarrow> (string, 'a list) dict \<Rightarrow> (string, 'b) dict result" where
  "on_values_result f = rmap (\<lambda>(name, vs). rbind (f vs) (\<lambda>y. Inr (name, y)))"

definition group_report_of ::
  "(pyfloat list \<Rightarrow> pyfloat) \<Rightarrow> feedback_endpoint list \<Rightarrow> pyfloat \<Rightarrow> pyfloat \<Rightarrow> pyfloat \<Rightarrow> pyfloat
     \<Rightarrow> group_state \<Rightarrow> group_report result" where
  "group_report_of py_sum sel duration rate coverage elapsed s =
     (let torques = map fb_estimated_output_torque_nm; values = gp_values s in
      rbind (on_values_result (coverage_of elapsed rate) values) (\<lambda>coverages.
      rbind (on_values_result (\<lambda>vs. mean_option py_sum (torques vs)) values) (\<lambda>means.
        Inr \<lparr>gr_interface = zg_interface (gp_poller s), gr_motor_names = map ep_motor_name sel,
             gr_requested_duration_s = duration, gr_requested_rate_hz_per_motor = rate,
             gr_elapsed_s = elapsed, gr_tx_count = zg_tx_attempts (gp_poller s),
             gr_minimum_sample_coverage = coverage,
             gr_rx_count_by_motor = on_values length values,
             gr_sample_coverage_by_motor = coverages,
             gr_first_position_rad_by_motor = on_values (first_option \<circ> map fb_position_rad) values,
             gr_last_position_rad_by_motor = on_values (last_option \<circ> map fb_position_rad) values,
             gr_minimum_estimated_torque_nm_by_motor = on_values (fold_option fmin \<circ> torques) values,
             gr_maximum_estimated_torque_nm_by_motor = on_values (fold_option fmax \<circ> torques) values,
             gr_mean_estimated_torque_nm_by_motor = means,
             gr_status_codes_by_motor = on_values (sorted_set \<circ> map fb_status_code) values,
             gr_discarded_timestamp_frames = gp_discarded s, gr_errors = gp_errors s\<rparr>)))"

definition group_checks ::
  "zero_gain_poller \<Rightarrow> feedback_endpoint list \<Rightarrow> pyfloat \<Rightarrow> pyfloat \<Rightarrow> pyfloat \<Rightarrow> pyfloat \<Rightarrow> pyfloat
     \<Rightarrow> unit result" where
  "group_checks poller sel duration rate timeout max_duration coverage =
     (if \<not> (1 \<le> length sel \<and> length sel \<le> 8)
      then Inl (ValueError ''zero-gain group must contain between one and eight motors'')
      else if \<not> distinct (map ep_motor_name sel)
      then Inl (ValueError ''zero-gain group contains duplicate motor names'')
      else if \<not> distinct (map ep_can_id sel)
      then Inl (ValueError ''zero-gain group contains duplicate command CAN IDs'')
      else if \<not> list_all (\<lambda>e. ep_interface e = zg_interface poller) sel
      then Inl (ValueError ''all selected motors must use the poller interface'')
      else if \<not> in_range max_duration (Fin 120)
      then Inl (ValueError ''maximum_duration_s must be finite and in (0, 120]'')
      else if \<not> in_range duration max_duration
      then Inl (ValueError ''duration_s must be finite and in the allowed range'')
      else if \<not> in_range rate (Fin 500)
      then Inl (ValueError ''rate_hz_per_motor must be finite and in (0, 500]'')
      else if \<not> in_range timeout (Fin 1)
      then Inl (ValueError ''feedback_timeout_s must be finite and in (0, 1]'')
      else if \<not> in_range coverage (Fin 1)
      then Inl (ValueError ''minimum_sample_coverage must be finite and in (0, 1]'')
      else Inr ())"

definition collect_zero_gain_group_position_echo ::
  "(pyfloat list \<Rightarrow> pyfloat) \<Rightarrow> zero_gain_poller \<Rightarrow> feedback_endpoint list \<Rightarrow> feedback_endpoint list
     \<Rightarrow> pyfloat \<Rightarrow> pyfloat \<Rightarrow> pyfloat \<Rightarrow> pyfloat \<Rightarrow> pyfloat \<Rightarrow> pyfloat \<Rightarrow> probe_turn list \<Rightarrow> pyfloat
     \<Rightarrow> (zero_gain_poller \<times> group_report result) option" where
  "collect_zero_gain_group_position_echo py_sum poller sel es duration rate timeout max_duration
       coverage start turns stop =
     (case rbind (group_checks poller sel duration rate timeout max_duration coverage) (\<lambda>_.
           rbind (new_feedback_decoder es) (\<lambda>d.
           rbind (fdiv (Fin 1) (fmul rate (Fin (of_nat (length sel))))) (\<lambda>slot. Inr (d, slot)))) of
        Inl err \<Rightarrow> Some (poller, Inl err)
      | Inr (d, slot) \<Rightarrow>
          let names = map ep_motor_name sel;
              s0 = \<lparr>gp_poller = poller, gp_next_send = start, gp_next_motor_index = 0,
                gp_last_feedback = map (\<lambda>n. (n, start)) names,
                gp_targets = map (\<lambda>n. (n, Fin 0)) names, gp_values = map (\<lambda>n. (n, [])) names,
                gp_discarded = 0, gp_errors = []\<rparr>
          in (case group_loop sel es d start duration slot timeout turns s0 of None \<Rightarrow> None
            | Some (s, Inl err) \<Rightarrow> Some (gp_poller s, Inl err)
            | Some (s, Inr _) \<Rightarrow> Some (gp_poller s,
                group_report_of py_sum sel duration rate coverage (fsub stop start) s)))"

end
