(* ===== verification/World.thy ===== *)
theory World
  imports Damiao
begin

text \<open>
  Programs that talk to one bus. A program is a state transformer with exceptions: the state holds
  the writer, the local variables of the Python function that outlive an exception, and what the
  environment will answer: the readings of the monotonic clock, the outcomes of \<open>receive\<close>, of each
  transmission and of each \<open>sleep\<close> (a sleep or a receive can raise \<open>KeyboardInterrupt\<close>). The result
  \<open>None\<close> means that the answers given ended while the program was still running.

  The laws of a program are stated as \<open>holds P m Q E\<close>: from a state satisfying \<open>P\<close>, \<open>m\<close> returns only
  in states satisfying \<open>Q\<close> and raises only in states satisfying \<open>E\<close>.
\<close>

section \<open>The environment\<close>

record 'w world =
  wd_writer :: 'w
  wd_clock :: "pyfloat list"
  wd_rx :: "can_frame result list"
  wd_tx :: "sent list"
  wd_sleeps :: "unit result list"

type_synonym ('s, 'a) io = "'s \<Rightarrow> ('a result \<times> 's) option"

section \<open>Sequencing, exceptions and loops\<close>

definition io_return :: "'a \<Rightarrow> ('s, 'a) io" where
  "io_return x = (\<lambda>s. Some (Inr x, s))"

definition io_lift :: "'a result \<Rightarrow> ('s, 'a) io" where
  "io_lift r = (\<lambda>s. Some (r, s))"

definition io_raise :: "py_error \<Rightarrow> ('s, 'a) io" where
  "io_raise e = io_lift (Inl e)"

definition io_modify :: "('s \<Rightarrow> 's) \<Rightarrow> ('s, unit) io" where
  "io_modify f = (\<lambda>s. Some (Inr (), f s))"

definition io_get :: "('s \<Rightarrow> 'a) \<Rightarrow> ('s, 'a) io" where
  "io_get f = (\<lambda>s. Some (Inr (f s), s))"

definition io_bind :: "('s, 'a) io \<Rightarrow> ('a \<Rightarrow> ('s, 'b) io) \<Rightarrow> ('s, 'b) io" where
  "io_bind m f = (\<lambda>s. case m s of None \<Rightarrow> None
     | Some (Inl e, s') \<Rightarrow> Some (Inl e, s') | Some (Inr x, s') \<Rightarrow> f x s')"

definition io_then :: "('s, 'a) io \<Rightarrow> ('s, 'b) io \<Rightarrow> ('s, 'b) io" where
  "io_then m n = io_bind m (\<lambda>_. n)"

text \<open>\<open>try: m except BaseException as exc: h(exc)\<close>\<close>

definition io_catch :: "('s, 'a) io \<Rightarrow> (py_error \<Rightarrow> ('s, 'a) io) \<Rightarrow> ('s, 'a) io" where
  "io_catch m h = (\<lambda>s. case m s of None \<Rightarrow> None
     | Some (Inl e, s') \<Rightarrow> h e s' | Some (Inr x, s') \<Rightarrow> Some (Inr x, s'))"

definition io_when :: "bool \<Rightarrow> ('s, unit) io \<Rightarrow> ('s, unit) io" where
  "io_when b m = (if b then m else io_return ())"

fun steps :: "('s, unit) io list \<Rightarrow> ('s, unit) io" where
  "steps [] = io_return ()"
| "steps (m # ms) = io_then m (steps ms)"

fun io_for :: "('x \<Rightarrow> ('s, unit) io) \<Rightarrow> 'x list \<Rightarrow> ('s, unit) io" where
  "io_for f [] = io_return ()"
| "io_for f (x # xs) = io_then (f x) (io_for f xs)"

fun io_map :: "('x \<Rightarrow> ('s, 'y) io) \<Rightarrow> 'x list \<Rightarrow> ('s, 'y list) io" where
  "io_map f [] = io_return []"
| "io_map f (x # xs) = io_bind (f x) (\<lambda>y. io_bind (io_map f xs) (\<lambda>ys. io_return (y # ys)))"

text \<open>
  A loop: the body goes on with \<open>Inl\<close> and stops with \<open>Inr\<close>. The fuel of \<open>io_loop\<close> is the number of
  clock readings left plus \<open>k\<close>: a loop whose body reads the clock in all but \<open>k\<close> of its rounds
  never runs out of it before the environment does (\<open>io_while_fuel\<close>).
\<close>

fun io_while :: "nat \<Rightarrow> ('a \<Rightarrow> ('s, 'a + 'b) io) \<Rightarrow> 'a \<Rightarrow> ('s, 'b) io" where
  "io_while 0 body x = (\<lambda>s. None)"
| "io_while (Suc n) body x = io_bind (body x)
     (\<lambda>r. case r of Inl y \<Rightarrow> io_while n body y | Inr z \<Rightarrow> io_return z)"

definition io_loop ::
  "nat \<Rightarrow> ('a \<Rightarrow> (('w, 'm) world_scheme, 'a + 'b) io) \<Rightarrow> 'a \<Rightarrow> (('w, 'm) world_scheme, 'b) io" where
  "io_loop k body x = (\<lambda>s. io_while (Suc (k + length (wd_clock s))) body x s)"

section \<open>What a program asks of the environment\<close>

definition monotonic :: "(('w, 'm) world_scheme, pyfloat) io" where
  "monotonic = (\<lambda>s. case wd_clock s of [] \<Rightarrow> None | t # ts \<Rightarrow> Some (Inr t, s\<lparr>wd_clock := ts\<rparr>))"

definition receive_frame :: "(('w, 'm) world_scheme, can_frame) io" where
  "receive_frame = (\<lambda>s. case wd_rx s of [] \<Rightarrow> None | r # rs \<Rightarrow> Some (r, s\<lparr>wd_rx := rs\<rparr>))"

definition pause :: "(('w, 'm) world_scheme, unit) io" where
  "pause = (\<lambda>s. case wd_sleeps s of [] \<Rightarrow> None | r # rs \<Rightarrow> Some (r, s\<lparr>wd_sleeps := rs\<rparr>))"

definition io_call ::
  "('w \<Rightarrow> 'c \<Rightarrow> sent \<Rightarrow> 'w \<times> unit result) \<Rightarrow> 'c \<Rightarrow> (('w, 'm) world_scheme, unit) io" where
  "io_call call c = (\<lambda>s. case wd_tx s of [] \<Rightarrow> None
     | t # ts \<Rightarrow> (case call (wd_writer s) c t of (w, r) \<Rightarrow> Some (r, s\<lparr>wd_writer := w, wd_tx := ts\<rparr>)))"

section \<open>Laws\<close>

definition holds ::
  "('s \<Rightarrow> bool) \<Rightarrow> ('s, 'a) io \<Rightarrow> ('a \<Rightarrow> 's \<Rightarrow> bool) \<Rightarrow> (py_error \<Rightarrow> 's \<Rightarrow> bool) \<Rightarrow> bool" where
  "holds P m Q E \<longleftrightarrow> (\<forall>s r s'. P s \<longrightarrow> m s = Some (r, s') \<longrightarrow>
     (case r of Inl e \<Rightarrow> E e s' | Inr x \<Rightarrow> Q x s'))"

lemma holdsI:
  assumes "\<And>s x s'. P s \<Longrightarrow> m s = Some (Inr x, s') \<Longrightarrow> Q x s'"
    and "\<And>s e s'. P s \<Longrightarrow> m s = Some (Inl e, s') \<Longrightarrow> E e s'"
  shows "holds P m Q E"
  using assms unfolding holds_def by (metis sum.case sum.exhaust)

lemma holdsD:
  assumes "holds P m Q E" and "P s"
  shows "m s = Some (Inr x, s') \<Longrightarrow> Q x s'" and "m s = Some (Inl e, s') \<Longrightarrow> E e s'"
  using assms unfolding holds_def by force+

lemma holds_conseq:
  assumes "holds P' m Q' E'" and "\<And>s. P s \<Longrightarrow> P' s"
    and "\<And>x s. Q' x s \<Longrightarrow> Q x s" and "\<And>e s. E' e s \<Longrightarrow> E e s"
  shows "holds P m Q E"
  using assms unfolding holds_def by (fastforce split: sum.splits)

lemma holds_return: "(\<And>s. P s \<Longrightarrow> Q x s) \<Longrightarrow> holds P (io_return x) Q E"
  by (simp add: holds_def io_return_def)

lemma holds_lift:
  "(\<And>s x. P s \<Longrightarrow> r = Inr x \<Longrightarrow> Q x s) \<Longrightarrow> (\<And>s e. P s \<Longrightarrow> r = Inl e \<Longrightarrow> E e s) \<Longrightarrow>
    holds P (io_lift r) Q E"
  by (auto simp: holds_def io_lift_def split: sum.splits)

lemma holds_raise: "(\<And>s. P s \<Longrightarrow> E e s) \<Longrightarrow> holds P (io_raise e) Q E"
  by (simp add: holds_def io_raise_def io_lift_def)

lemma holds_modify: "(\<And>s. P s \<Longrightarrow> Q () (f s)) \<Longrightarrow> holds P (io_modify f) Q E"
  by (simp add: holds_def io_modify_def)

lemma holds_get: "(\<And>s. P s \<Longrightarrow> Q (f s) s) \<Longrightarrow> holds P (io_get f) Q E"
  by (simp add: holds_def io_get_def)

lemma holds_bind:
  assumes "holds P m R E" and "\<And>x. holds (R x) (f x) Q E"
  shows "holds P (io_bind m f) Q E"
proof (rule holdsI)
  fix s x s' assume "P s" "io_bind m f s = Some (Inr x, s')"
  then show "Q x s'"
    using holdsD(1) [OF assms(1)] holdsD(1) [OF assms(2)]
    by (fastforce simp: io_bind_def split: option.splits prod.splits sum.splits)
next
  fix s e s' assume "P s" "io_bind m f s = Some (Inl e, s')"
  then show "E e s'"
    using holdsD [OF assms(1)] holdsD(2) [OF assms(2)]
    by (fastforce simp: io_bind_def split: option.splits prod.splits sum.splits)
qed

lemma holds_then:
  "holds P m (\<lambda>_. R) E \<Longrightarrow> holds R n Q E \<Longrightarrow> holds P (io_then m n) Q E"
  unfolding io_then_def by (rule holds_bind)

lemma holds_catch:
  assumes "holds P m Q R" and "\<And>e. holds (R e) (h e) Q E"
  shows "holds P (io_catch m h) Q E"
proof (rule holdsI)
  fix s x s' assume "P s" "io_catch m h s = Some (Inr x, s')"
  then show "Q x s'"
    using holdsD [OF assms(1)] holdsD(1) [OF assms(2)]
    by (fastforce simp: io_catch_def split: option.splits prod.splits sum.splits)
next
  fix s e s' assume "P s" "io_catch m h s = Some (Inl e, s')"
  then show "E e s'"
    using holdsD(2) [OF assms(1)] holdsD(2) [OF assms(2)]
    by (fastforce simp: io_catch_def split: option.splits prod.splits sum.splits)
qed

lemma holds_when:
  "(b \<Longrightarrow> holds P m Q E) \<Longrightarrow> (\<And>s. \<not> b \<Longrightarrow> P s \<Longrightarrow> Q () s) \<Longrightarrow> holds P (io_when b m) Q E"
  by (auto simp: io_when_def intro: holds_return)

lemma holds_steps_Nil: "(\<And>s. P s \<Longrightarrow> Q () s) \<Longrightarrow> holds P (steps []) Q E"
  by (simp add: holds_return)

lemma holds_steps_Cons:
  "holds P m (\<lambda>_. R) E \<Longrightarrow> holds R (steps ms) Q E \<Longrightarrow> holds P (steps (m # ms)) Q E"
  unfolding steps.simps by (rule holds_then)

lemma holds_while:
  assumes "\<And>x. holds (I x) (body x) (\<lambda>r s. case r of Inl y \<Rightarrow> I y s | Inr z \<Rightarrow> Q z s) E"
  shows "holds (I x) (io_while n body x) Q E"
proof (induction n arbitrary: x)
  case 0
  then show ?case by (simp add: holds_def)
next
  case (Suc n)
  show ?case unfolding io_while.simps
  proof (rule holds_bind [OF assms])
    fix r show "holds (\<lambda>s. case r of Inl y \<Rightarrow> I y s | Inr z \<Rightarrow> Q z s)
        (case r of Inl y \<Rightarrow> io_while n body y | Inr z \<Rightarrow> io_return z) Q E"
      using Suc by (cases r) (auto intro: holds_return)
  qed
qed

lemma holds_loop:
  assumes "\<And>x. holds (I x) (body x) (\<lambda>r s. case r of Inl y \<Rightarrow> I y s | Inr z \<Rightarrow> Q z s) E"
  shows "holds (I x) (io_loop k body x) Q E"
  using holds_while [of I body Q E, OF assms] unfolding io_loop_def holds_def by blast

lemma holds_for:
  assumes "\<And>x. x \<in> set xs \<Longrightarrow> holds I (f x) (\<lambda>_. I) E"
  shows "holds I (io_for f xs) (\<lambda>_. I) E"
  using assms by (induction xs) (auto intro!: holds_return holds_then)

text \<open>A loop that establishes \<open>I\<close> for one more element in every round.\<close>

lemma holds_for_prefix:
  assumes "\<And>xs x ys. zs = xs @ x # ys \<Longrightarrow> holds (I xs) (f x) (\<lambda>_. I (xs @ [x])) E"
  shows "holds (I []) (io_for f zs) (\<lambda>_. I zs) E"
proof -
  have "holds (I xs) (io_for f ys) (\<lambda>_. I zs) E" if "zs = xs @ ys" for xs ys
    using that
  proof (induction ys arbitrary: xs)
    case Nil
    then show ?case by (simp add: holds_return)
  next
    case (Cons y ys)
    then have "holds (I xs) (f y) (\<lambda>_. I (xs @ [y])) E" "holds (I (xs @ [y])) (io_for f ys) (\<lambda>_. I zs) E"
      using assms by simp_all
    then show ?case unfolding io_for.simps by (rule holds_then)
  qed
  from this [of "[]" zs] show ?thesis by simp
qed

text \<open>An invariant that a program keeps whether it returns or raises.\<close>

abbreviation keeps :: "('s \<Rightarrow> bool) \<Rightarrow> ('s, 'a) io \<Rightarrow> bool" where
  "keeps I m \<equiv> holds I m (\<lambda>_. I) (\<lambda>_. I)"

section \<open>The fuel of a loop is enough\<close>

lemma io_while_fuel:
  assumes progress: "\<And>x s y s'. body x s = Some (Inr (Inl y), s') \<Longrightarrow> rank y s' < rank x s"
  shows "rank x s < n \<Longrightarrow> rank x s < m \<Longrightarrow> io_while n body x s = io_while m body x s"
proof (induction n arbitrary: m x s)
  case 0
  then show ?case by simp
next
  case (Suc n)
  obtain k where m: "m = Suc k" using Suc.prems(2) by (cases m) auto
  have "io_while n body y s' = io_while k body y s'" if "body x s = Some (Inr (Inl y), s')" for y s'
    using progress [OF that] Suc.prems by (intro Suc.IH) (simp_all add: m)
  then show ?case
    by (auto simp: m io_bind_def split: option.splits prod.splits sum.splits)
qed

section \<open>Programs applied to a state\<close>

lemma io_app:
  "io_return x s = Some (Inr x, s)" "io_lift r s = Some (r, s)" "io_raise e s = Some (Inl e, s)"
  "io_modify f s = Some (Inr (), f s)" "io_get h s = Some (Inr (h s), s)"
  "io_bind m k s = (case m s of None \<Rightarrow> None
     | Some (Inl e, s') \<Rightarrow> Some (Inl e, s') | Some (Inr y, s') \<Rightarrow> k y s')"
  "io_then m n s = (case m s of None \<Rightarrow> None
     | Some (Inl e, s') \<Rightarrow> Some (Inl e, s') | Some (Inr y, s') \<Rightarrow> n s')"
  "io_catch m c s = (case m s of None \<Rightarrow> None
     | Some (Inl e, s') \<Rightarrow> c e s' | Some (Inr y, s') \<Rightarrow> Some (Inr y, s'))"
  "steps [] s = Some (Inr (), s)"
  "steps (m' # ms) s = (case m' s of None \<Rightarrow> None
     | Some (Inl e, s') \<Rightarrow> Some (Inl e, s') | Some (Inr y, s') \<Rightarrow> steps ms s')"
  "io_while (Suc i) body z s = (case body z s of None \<Rightarrow> None
     | Some (Inl e, s') \<Rightarrow> Some (Inl e, s') | Some (Inr (Inl y), s') \<Rightarrow> io_while i body y s'
     | Some (Inr (Inr x), s') \<Rightarrow> Some (Inr x, s'))"
  by (auto simp: io_return_def io_lift_def io_raise_def io_modify_def io_get_def io_bind_def io_then_def
      io_catch_def split: option.splits sum.splits)

lemma io_while_numeral:
  "io_while (numeral k) body z s = (case body z s of None \<Rightarrow> None
     | Some (Inl e, s') \<Rightarrow> Some (Inl e, s') | Some (Inr (Inl y), s') \<Rightarrow> io_while (pred_numeral k) body y s'
     | Some (Inr (Inr x), s') \<Rightarrow> Some (Inr x, s'))"
  unfolding numeral_eq_Suc by (rule io_app(11))

lemma io_when_app: "io_when b m s = (if b then m s else Some (Inr (), s))"
  by (simp add: io_when_def io_app)

lemma environment_app:
  "monotonic \<lparr>wd_writer = w, wd_clock = t # ts, wd_rx = rx, wd_tx = tx, wd_sleeps = sl, \<dots> = m\<rparr> =
    Some (Inr t, \<lparr>wd_writer = w, wd_clock = ts, wd_rx = rx, wd_tx = tx, wd_sleeps = sl, \<dots> = m\<rparr>)"
  "pause \<lparr>wd_writer = w, wd_clock = ts, wd_rx = rx, wd_tx = tx, wd_sleeps = b # sl, \<dots> = m\<rparr> =
    Some (b, \<lparr>wd_writer = w, wd_clock = ts, wd_rx = rx, wd_tx = tx, wd_sleeps = sl, \<dots> = m\<rparr>)"
  "io_call call c \<lparr>wd_writer = w, wd_clock = ts, wd_rx = rx, wd_tx = a # tx, wd_sleeps = sl, \<dots> = m\<rparr> =
    (case call w c a of (w', res) \<Rightarrow>
      Some (res, \<lparr>wd_writer = w', wd_clock = ts, wd_rx = rx, wd_tx = tx, wd_sleeps = sl, \<dots> = m\<rparr>))"
  by (simp_all add: monotonic_def pause_def io_call_def)

end
