(* ===== verification/HardwareTables.thy ===== *)
theory HardwareTables
  imports Json
begin

text \<open>
  The frozen tables of \<open>hardware.py\<close>: the specifications of the four motor models, the
  differential pairs, the confirmed CAN endpoint and model of every motor, and the required fields.
  A decimal literal is the double nearest to it.
\<close>

definition py_pi :: rat where
  "py_pi = 884279719003555 / 281474976710656"

text \<open>\<open>r * 2.0 * math.pi / 60.0\<close>\<close>

definition rpm :: "pyfloat \<Rightarrow> pyfloat" where
  "rpm r = (case fdiv (fmul (fmul r (Fin 2)) (Fin py_pi)) (Fin 60) of Inr x \<Rightarrow> x | Inl _ \<Rightarrow> NaN)"

definition DAMIAO_MODEL_SPECS :: "(string, (string, json) dict) dict" where
  "DAMIAO_MODEL_SPECS =
     [(''DM-J4340P-2EC V1.1 (48V)'',
       [(''rated_torque_nm'', JFloat (Fin 14)),
        (''peak_torque_nm'', JFloat (Fin 40)),
        (''rated_speed_rad_s'', JFloat (rpm (Fin 36))),
        (''maximum_no_load_speed_rad_s_at_48v'', JFloat (rpm (Fin 112))),
        (''rated_phase_current_a'', JFloat (rnd (411 / 100))),
        (''rated_supply_current_a'', JFloat (rnd (18 / 10))),
        (''peak_phase_current_a'', JFloat (rnd (1985 / 100))),
        (''peak_supply_current_a'', JFloat (rnd (112 / 10))),
        (''recommended_motor_temperature_limit_c'', JFloat (Fin 100)),
        (''drive_shutdown_temperature_c'', JFloat (Fin 120)),
        (''source_document'', JStr ''DM-J4340P-2EC V1.1 User Manual V1.1 2026-04-09'')]),
      (''DM-J4310P-2EC (48V)'',
       [(''rated_torque_nm'', JFloat (rnd (35 / 10))),
        (''peak_torque_nm'', JFloat (rnd (125 / 10))),
        (''rated_speed_rad_s'', JFloat (rpm (Fin 120))),
        (''maximum_no_load_speed_rad_s_at_48v'', JFloat (rpm (Fin 450))),
        (''rated_phase_current_a'', JFloat (rnd (48 / 10))),
        (''rated_supply_current_a'', JFloat (rnd (16 / 10))),
        (''peak_phase_current_a'', JFloat (Fin 20)),
        (''peak_supply_current_a'', JFloat (rnd (128 / 10))),
        (''recommended_motor_temperature_limit_c'', JFloat (Fin 100)),
        (''drive_shutdown_temperature_c'', JFloat (Fin 120)),
        (''source_document'', JStr ''DM-J4310P-2EC User Manual V1.1'')]),
      (''DM-J3507-2EC (48V)'',
       [(''rated_torque_nm'', JFloat (rnd (8 / 10))),
        (''peak_torque_nm'', JFloat (Fin 3)),
        (''rated_speed_rad_s'', JFloat (rpm (Fin 150))),
        (''maximum_no_load_speed_rad_s_at_48v'', JFloat (rpm (Fin 910))),
        (''rated_phase_current_a'', JFloat (Fin 3)),
        (''rated_supply_current_a'', JFloat (rnd (6 / 10))),
        (''peak_phase_current_a'', JFloat (rnd (83 / 10))),
        (''peak_supply_current_a'', JFloat (Fin 2)),
        (''recommended_motor_temperature_limit_c'', JFloat (Fin 100)),
        (''drive_shutdown_temperature_c'', JFloat (Fin 120)),
        (''source_document'', JStr ''DM-J3507-2EC Gear Motor User Manual V1.1 2026-04-16'')]),
      (''DM-J6248P-2EC'',
       [(''rated_torque_nm'', JFloat (Fin 30)),
        (''peak_torque_nm'', JFloat (Fin 97)),
        (''rated_speed_rad_s'', JFloat (rpm (Fin 40))),
        (''maximum_no_load_speed_rad_s_at_48v'', JFloat (rpm (Fin 60))),
        (''rated_phase_current_a'', JFloat (rnd (113 / 10))),
        (''rated_supply_current_a'', JFloat (rnd (37 / 10))),
        (''peak_phase_current_a'', JFloat (rnd (387 / 10))),
        (''peak_supply_current_a'', JFloat (Fin 8)),
        (''recommended_motor_temperature_limit_c'', JFloat (Fin 100)),
        (''drive_shutdown_temperature_c'', JFloat (Fin 120)),
        (''source_document'', JStr ''DM-J6248P-2EC Gear Motor User Manual V1.1 2026-04-13'')])]"

definition CONFIRMED_CAN_ENDPOINTS :: "(string, int \<times> int) dict" where
  "CONFIRMED_CAN_ENDPOINTS =
     [(''left_hip_pitch_joint'', (0, 1)), (''left_hip_roll_joint'', (0, 2)),
      (''left_hip_yaw_joint'', (0, 3)), (''left_knee_joint'', (0, 4)),
      (''left_ankle_motor_a'', (0, 5)), (''left_ankle_motor_b'', (0, 6)),
      (''waist_yaw_joint'', (0, 7)), (''waist_roll_joint'', (0, 8)),
      (''right_hip_pitch_joint'', (1, 1)), (''right_hip_roll_joint'', (1, 2)),
      (''right_hip_yaw_joint'', (1, 3)), (''right_knee_joint'', (1, 4)),
      (''right_ankle_motor_a'', (1, 5)), (''right_ankle_motor_b'', (1, 6)),
      (''head_motor_a'', (1, 7)), (''head_motor_b'', (1, 8)),
      (''left_shoulder_pitch_joint'', (2, 1)), (''left_shoulder_roll_joint'', (2, 2)),
      (''left_shoulder_yaw_joint'', (2, 3)), (''left_elbow_joint'', (2, 4)),
      (''left_wrist_yaw_joint'', (2, 5)), (''left_wrist_pitch_joint'', (2, 6)),
      (''left_wrist_roll_joint'', (2, 7)), (''head_yaw_joint'', (2, 8)),
      (''right_shoulder_pitch_joint'', (3, 1)), (''right_shoulder_roll_joint'', (3, 2)),
      (''right_shoulder_yaw_joint'', (3, 3)), (''right_elbow_joint'', (3, 4)),
      (''right_wrist_yaw_joint'', (3, 5)), (''right_wrist_pitch_joint'', (3, 6)),
      (''right_wrist_roll_joint'', (3, 7))]"

definition J4340P :: string where "J4340P = ''DM-J4340P-2EC V1.1 (48V)''"
definition J4310P :: string where "J4310P = ''DM-J4310P-2EC (48V)''"
definition J3507 :: string where "J3507 = ''DM-J3507-2EC (48V)''"
definition J6248P :: string where "J6248P = ''DM-J6248P-2EC''"

definition CONFIRMED_MOTOR_MODELS :: "(string, string) dict" where
  "CONFIRMED_MOTOR_MODELS =
     [(''left_hip_pitch_joint'', J4340P), (''left_hip_roll_joint'', J4340P),
      (''left_hip_yaw_joint'', J4340P), (''left_knee_joint'', J4340P),
      (''left_ankle_motor_a'', J4310P), (''left_ankle_motor_b'', J4310P),
      (''waist_yaw_joint'', J4340P), (''waist_roll_joint'', J6248P),
      (''right_hip_pitch_joint'', J4340P), (''right_hip_roll_joint'', J4340P),
      (''right_hip_yaw_joint'', J4340P), (''right_knee_joint'', J4340P),
      (''right_ankle_motor_a'', J4310P), (''right_ankle_motor_b'', J4310P),
      (''head_motor_a'', J3507), (''head_motor_b'', J3507),
      (''left_shoulder_pitch_joint'', J4340P), (''left_shoulder_roll_joint'', J4340P),
      (''left_shoulder_yaw_joint'', J4310P), (''left_elbow_joint'', J4310P),
      (''left_wrist_yaw_joint'', J4310P), (''left_wrist_pitch_joint'', J3507),
      (''left_wrist_roll_joint'', J3507), (''head_yaw_joint'', J3507),
      (''right_shoulder_pitch_joint'', J4340P), (''right_shoulder_roll_joint'', J4340P),
      (''right_shoulder_yaw_joint'', J4310P), (''right_elbow_joint'', J4310P),
      (''right_wrist_yaw_joint'', J4310P), (''right_wrist_pitch_joint'', J3507),
      (''right_wrist_roll_joint'', J3507)]"

definition MOTOR_REQUIRED_FIELDS :: "string list" where
  "MOTOR_REQUIRED_FIELDS =
     [''model'', ''firmware'', ''can_channel'', ''can_id'',
      ''master_id'', ''motor_zero_rad'', ''encoder_sign'', ''reduction_ratio'',
      ''linkage_ratio'', ''soft_limit_rad'', ''hard_limit_rad'', ''rated_torque_nm'',
      ''peak_torque_nm'', ''rated_speed_rad_s'', ''max_speed_rad_s'', ''rated_current_a'',
      ''peak_current_a'', ''temperature_limit_c'', ''mit_ranges'']"

definition LEFT_ANKLE :: "string list" where
  "LEFT_ANKLE = [''left_ankle_pitch_joint'', ''left_ankle_roll_joint'']"

definition RIGHT_ANKLE :: "string list" where
  "RIGHT_ANKLE = [''right_ankle_pitch_joint'', ''right_ankle_roll_joint'']"

definition ANKLE_PAIRS :: "(string, string list) dict" where
  "ANKLE_PAIRS = [(''left'', LEFT_ANKLE), (''right'', RIGHT_ANKLE)]"

definition DIFFERENTIAL_PAIRS :: "(string, string list) dict" where
  "DIFFERENTIAL_PAIRS =
     [(''left_ankle'', LEFT_ANKLE), (''right_ankle'', RIGHT_ANKLE),
      (''head'', [''head_pitch_joint'', ''head_roll_joint''])]"

definition DIFFERENTIAL_JOINTS :: "string list" where
  "DIFFERENTIAL_JOINTS = concat (map snd DIFFERENTIAL_PAIRS)"

definition CONFIRMED_POLICY_TO_MOTOR_SIGNS :: "(string, int) dict" where
  "CONFIRMED_POLICY_TO_MOTOR_SIGNS =
     [(''waist_yaw_joint'', - 1), (''left_wrist_pitch_joint'', - 1), (''left_wrist_roll_joint'', - 1),
      (''right_wrist_roll_joint'', - 1), (''head_yaw_joint'', - 1)]"

end
