(* ===== verification/Hardware.thy ===== *)
theory Hardware
  imports HardwareTables
begin

text \<open>
  The fail-closed validation of the hardware inventory (\<open>hardware.py\<close>). The inventory is a parsed
  JSON document. Each check returns the errors it appends, in order; it raises where the code does:
  an integer too large for a float, or an unhashable value looked up in a set. numpy and the parsing
  of numeric strings are not part of the repository; they are the record \<open>numerics\<close>.
\<close>

section \<open>The environment\<close>

record numerics =
  parse_float :: "string \<Rightarrow> pyfloat option"
  parse_int :: "string \<Rightarrow> int option"
  as_array :: "json \<Rightarrow> (nat list \<times> pyfloat list) result"
  orthonormal :: "pyfloat list \<Rightarrow> bool"
  det :: "pyfloat list \<Rightarrow> pyfloat"

section \<open>Single values\<close>

definition sequence :: "'a list result list \<Rightarrow> 'a list result" where
  "sequence rs = rbind (rmap id rs) (\<lambda>xss. Inr (concat xss))"

definition unless :: "bool \<Rightarrow> string \<Rightarrow> string list result" where
  "unless ok message = Inr (if ok then [] else [message])"

definition nonempty :: "json \<Rightarrow> bool" where
  "nonempty v = (case v of
     JStr s \<Rightarrow> list_ex (\<lambda>c. \<not> is_space c) s \<and> \<not> contains ''TODO'' (upper s)
   | _ \<Rightarrow> False)"

text \<open>
  A numeric test \<open>try: ... float(v) ... except (KeyError, TypeError, ValueError)\<close>: a missing or
  unusable value fails the test, an integer beyond the float range raises.
\<close>

definition numeric_test :: "numerics \<Rightarrow> (pyfloat \<Rightarrow> bool) \<Rightarrow> json \<Rightarrow> bool result" where
  "numeric_test N ok v =
     (case to_float (parse_float N) v of
        Inr x \<Rightarrow> Inr (ok x)
      | Inl OverflowError \<Rightarrow> Inl OverflowError
      | Inl _ \<Rightarrow> Inr False)"

definition numeric_check ::
  "numerics \<Rightarrow> (pyfloat \<Rightarrow> bool) \<Rightarrow> json \<Rightarrow> string \<Rightarrow> string list result" where
  "numeric_check N ok v message = rbind (numeric_test N ok v) (\<lambda>b. unless b message)"

definition pair_of ::
  "numerics \<Rightarrow> json \<Rightarrow> string \<Rightarrow> ((pyfloat \<times> pyfloat) option \<times> string list) result" where
  "pair_of N v name =
     (case v of
        JArr [a, b] \<Rightarrow>
          (case rbind (to_float (parse_float N) a) (\<lambda>low. rbind (to_float (parse_float N) b) (\<lambda>high.
               Inr (low, high))) of
             Inl OverflowError \<Rightarrow> Inl OverflowError
           | Inl _ \<Rightarrow> Inr (None, [name @ '' must contain finite numeric values''])
           | Inr (low, high) \<Rightarrow>
               if \<not> isfinite low \<or> \<not> isfinite high \<or> fle high low
               then Inr (None, [name @ '' must have finite lower < upper''])
               else Inr (Some (low, high), []))
      | _ \<Rightarrow> Inr (None, [name @ '' must contain [lower, upper]'']))"

definition positive_field ::
  "numerics \<Rightarrow> json \<Rightarrow> string \<Rightarrow> string \<Rightarrow> string list result" where
  "positive_field N rec field label =
     (case to_float (parse_float N) (jget rec field) of
        Inr x \<Rightarrow> unless (isfinite x \<and> \<not> fle x (Fin 0)) (label @ ''.'' @ field @ '' must be finite and positive'')
      | Inl OverflowError \<Rightarrow> Inl OverflowError
      | Inl _ \<Rightarrow> Inr [label @ ''.'' @ field @ '' must be numeric''])"

definition close_to :: "numerics \<Rightarrow> pyfloat \<Rightarrow> pyfloat \<Rightarrow> json \<Rightarrow> bool result" where
  "close_to N tolerance expected v =
     numeric_test N (\<lambda>x. fle (fabs (fsub x expected)) tolerance) v"

definition default_tolerance :: pyfloat where
  "default_tolerance = rnd (1 / 1000000)"

section \<open>The CAN adapter\<close>

definition interface_char :: "char \<Rightarrow> bool" where
  "interface_char c =
     ((65 :: nat) \<le> of_char c \<and> of_char c \<le> (90 :: nat) \<or> (97 :: nat) \<le> of_char c \<and> of_char c \<le> (122 :: nat) \<or>
      (48 :: nat) \<le> of_char c \<and> of_char c \<le> (57 :: nat) \<or> c \<in> set ''_.-'')"

text \<open>\<open>re.compile(r"^[A-Za-z0-9_.-]+$").fullmatch\<close>\<close>

definition interface_name :: "string \<Rightarrow> bool" where
  "interface_name s = (s \<noteq> [] \<and> list_all interface_char s)"

definition interface_errors :: "json \<Rightarrow> string list" where
  "interface_errors v =
     (case v of
        JArr names \<Rightarrow>
          if length names \<noteq> 4
          then [''can_adapter.interfaces must contain four SocketCAN interface names'']
          else if list_ex (\<lambda>n. \<not> is_str n \<or> \<not> interface_name (jstring n)) names
          then [''can_adapter.interfaces contains an invalid interface name'']
          else if \<not> distinct names then [''can_adapter.interfaces must be unique'']
          else []
      | _ \<Rightarrow> [''can_adapter.interfaces must contain four SocketCAN interface names''])"

definition shadow_requirements :: "(string, pyfloat \<times> pyfloat) dict" where
  "shadow_requirements =
     [(''duration_s'', (Fin 120, PInf)), (''minimum_motor_sample_coverage'', (rnd (99 / 100), Fin 1)),
      (''deadline_misses'', (Fin 0, Fin 0)), (''can_error_delta'', (Fin 0, Fin 0)),
      (''can_drop_delta'', (Fin 0, Fin 0)), (''nonzero_gain_or_torque_tx_attempts'', (Fin 0, Fin 0)),
      (''automatic_enable_attempts'', (Fin 0, Fin 0)),
      (''automatic_mode_switch_attempts'', (Fin 0, Fin 0))]"

definition shadow_errors :: "numerics \<Rightarrow> json \<Rightarrow> string list result" where
  "shadow_errors N shadow =
     (if \<not> is_dict shadow
      then Inr [''can_adapter.commissioning_shadow configuration is missing'']
      else sequence (
        map (\<lambda>f. unless (jget shadow f = JBool True)
              (''can_adapter.commissioning_shadow.'' @ f @ '' must be true''))
          [''required_before_arm'', ''completed'', ''all_motors_disabled''] @
        [unless (jget shadow ''method'' = JStr ''active_zero_gain_position_echo'')
           ''can_adapter.commissioning_shadow.method must be active_zero_gain_position_echo'',
         unless (jget shadow ''payload'' = JStr ''position_echo_v0_kp0_kd0_tau0'')
           ''can_adapter.commissioning_shadow.payload is not the qualified zero-gain payload'',
         unless (nonempty (jget shadow ''evidence_report''))
           ''can_adapter.commissioning_shadow.evidence_report is empty or TODO''] @
        map (\<lambda>(f, (minimum, maximum)). numeric_check N
              (\<lambda>x. isfinite x \<and> \<not> flt x minimum \<and> \<not> flt maximum x) (jget shadow f)
              (''can_adapter.commissioning_shadow.'' @ f @ '' must be in its range''))
          shadow_requirements))"

definition can_adapter_errors :: "numerics \<Rightarrow> json \<Rightarrow> string list result" where
  "can_adapter_errors N hardware =
     (let adapter = jget hardware ''can_adapter'' in
      if \<not> is_dict adapter then Inr [''can_adapter configuration is missing'']
      else sequence
        [unless (jget adapter ''backend'' = JStr ''socketcan'') ''can_adapter.backend must be socketcan'',
         unless (nonempty (jget adapter ''vendor'')) ''can_adapter.vendor is empty or TODO'',
         unless (nonempty (jget adapter ''sdk_version'')) ''can_adapter.sdk_version is empty or TODO'',
         unless (jget adapter ''logical_bus_names'' =
             JArr (map JStr [''CANFD1'', ''CANFD2'', ''CANFD3'', ''CANFD4'']))
           ''can_adapter.logical_bus_names must be CANFD1 through CANFD4'',
         Inr (interface_errors (jget adapter ''interfaces'')),
         shadow_errors N (jget adapter ''commissioning_shadow'')])"

section \<open>One motor record\<close>

definition present :: "json \<Rightarrow> string \<Rightarrow> bool" where
  "present rec field = (jget rec field \<noteq> JNull)"

definition in_pairs :: "json list \<Rightarrow> (string, string list) dict \<Rightarrow> bool" where
  "in_pairs coupled pairs = (coupled \<in> set (map (\<lambda>(_, p). map JStr p) pairs))"

text \<open>\<open>v in policy_joints\<close> hashes \<open>v\<close>.\<close>

definition in_name_set :: "json \<Rightarrow> string list \<Rightarrow> bool result" where
  "in_name_set v names =
     (if hashable v then Inr (is_str v \<and> jstring v \<in> set names)
      else Inl (TypeError ''unhashable type''))"

definition id_errors :: "string \<Rightarrow> json \<Rightarrow> string list" where
  "id_errors label rec =
     (let channel = jget rec ''can_channel''; can_id = jget rec ''can_id''; master = jget rec ''master_id'' in
      (if channel \<noteq> JNull \<and> \<not> (case int_value channel of Some n \<Rightarrow> 0 \<le> n \<and> n < 4 | None \<Rightarrow> False)
       then [label @ ''.can_channel must be an integer in [0, 3]''] else []) @
      (if can_id \<noteq> JNull \<and> \<not> (case int_value can_id of Some n \<Rightarrow> 0 \<le> n \<and> n \<le> 0x7FF | None \<Rightarrow> False)
       then [label @ ''.can_id must be an 11-bit integer'']
       else if (case int_value can_id of Some n \<Rightarrow> 0xF < n | None \<Rightarrow> False)
       then [label @ ''.can_id must fit the Damiao feedback controller-ID nibble''] else []) @
      (if master \<noteq> JNull \<and> \<not> (case int_value master of Some n \<Rightarrow> 0 \<le> n \<and> n \<le> 0x7FF | None \<Rightarrow> False)
       then [label @ ''.master_id must be an 11-bit integer'']
       else if (case (int_value can_id, int_value master) of
           (Some i, Some m) \<Rightarrow> m \<noteq> i + 0x10 | _ \<Rightarrow> False)
       then [label @ ''.master_id must equal can_id + 0x10''] else []))"

definition sign_error :: "json \<Rightarrow> string \<Rightarrow> string \<Rightarrow> string list" where
  "sign_error rec field label =
     (let v = jget rec field in
      if v \<noteq> JNull \<and> \<not> json_eq_int v (- 1) \<and> \<not> json_eq_int v 1
      then [label @ ''.'' @ field @ '' must be -1 or 1''] else [])"

definition optional_pair ::
  "numerics \<Rightarrow> json \<Rightarrow> string \<Rightarrow> string \<Rightarrow> ((pyfloat \<times> pyfloat) option \<times> string list) result" where
  "optional_pair N rec field label =
     (if present rec field then pair_of N (jget rec field) (label @ ''.'' @ field) else Inr (None, []))"

definition limit_errors :: "numerics \<Rightarrow> string \<Rightarrow> json \<Rightarrow> string list result" where
  "limit_errors N label rec =
     rbind (optional_pair N rec ''soft_limit_rad'' label) (\<lambda>(soft, es1).
     rbind (optional_pair N rec ''hard_limit_rad'' label) (\<lambda>(hard, es2).
       Inr (es1 @ es2 @
         (case (soft, hard) of
            (Some (s0, s1), Some (h0, h1)) \<Rightarrow>
              if fle h0 s0 \<and> flt s0 s1 \<and> fle s1 h1 then []
              else [label @ '' soft limit must lie inside hard limit'']
          | _ \<Rightarrow> []))))"

definition mit_range_errors :: "numerics \<Rightarrow> string \<Rightarrow> json \<Rightarrow> string list result" where
  "mit_range_errors N label rec =
     (let mit = jget rec ''mit_ranges'' in
      if mit = JNull then Inr []
      else if \<not> is_dict mit then Inr [label @ ''.mit_ranges must be an object'']
      else let unset = filter (\<lambda>f. \<not> present mit f)
          [''position_rad'', ''velocity_rad_s'', ''kp'', ''kd'', ''torque_nm'', ''source''] in
        sequence (
          [unless (unset = []) (label @ ''.mit_ranges unset fields: '' @ join '', '' unset)] @
          map (\<lambda>f. rbind (optional_pair N mit f (label @ ''.mit_ranges'')) (\<lambda>(_, es). Inr es))
            [''position_rad'', ''velocity_rad_s'', ''kp'', ''kd'', ''torque_nm''] @
          [unless (\<not> present mit ''source'' \<or> jget mit ''source'' = JStr ''motor_register_readback'')
             (label @ ''.mit_ranges.source must be motor_register_readback'')]))"

definition POSITIVE_FIELDS :: "string list" where
  "POSITIVE_FIELDS =
     [''reduction_ratio'', ''linkage_ratio'', ''rated_torque_nm'', ''peak_torque_nm'',
      ''rated_speed_rad_s'', ''max_speed_rad_s'', ''rated_current_a'', ''peak_current_a'',
      ''temperature_limit_c'']"

record motor_facts =
  mf_direct :: "string option"
  mf_coupled :: "json list option"
  mf_endpoint :: "string option"

definition coupled_of :: "json \<Rightarrow> json list option" where
  "coupled_of rec = (case jget rec ''coupled_joints'' of JArr xs \<Rightarrow> Some xs | _ \<Rightarrow> None)"

definition endpoint_text :: "json \<Rightarrow> json \<Rightarrow> string option" where
  "endpoint_text a b = (if is_int a \<and> is_int b then Some (py_str a @ '':'' @ py_str b) else None)"

definition motor_record_errors ::
  "numerics \<Rightarrow> string \<Rightarrow> json \<Rightarrow> string list \<Rightarrow> string list result" where
  "motor_record_errors N name rec policy =
     (let label = ''motor_map.'' @ name;
          direct = jget rec ''policy_joint''; coupled = coupled_of rec;
          required = MOTOR_REQUIRED_FIELDS @ (if direct \<noteq> JNull then [''policy_to_motor_sign''] else []);
          unset = filter (\<lambda>f. \<not> present rec f) required
      in sequence (
        [unless ((direct = JNull) \<noteq> (coupled = None))
           (label @ '' must define exactly one of policy_joint/coupled_joints''),
         if direct = JNull then Inr []
         else rbind (in_name_set direct policy)
           (\<lambda>b. unless b (label @ ''.policy_joint is not in the frozen policy order'')),
         unless (case coupled of Some c \<Rightarrow> in_pairs c DIFFERENTIAL_PAIRS | None \<Rightarrow> True)
           (label @ ''.coupled_joints is not a physical differential pair''),
         unless (unset = []) (label @ '' unset fields: '' @ join '', '' unset)] @
        map (\<lambda>f. unless (\<not> present rec f \<or> nonempty (jget rec f)) (label @ ''.'' @ f @ '' is empty or TODO''))
          [''model'', ''firmware''] @
        [Inr (id_errors label rec),
         if present rec ''motor_zero_rad''
         then numeric_check N isfinite (jget rec ''motor_zero_rad'') (label @ ''.motor_zero_rad must be finite'')
         else Inr [],
         Inr (sign_error rec ''encoder_sign'' label),
         Inr (if direct \<noteq> JNull then sign_error rec ''policy_to_motor_sign'' label else [])] @
        map (\<lambda>f. if present rec f then positive_field N rec f label else Inr []) POSITIVE_FIELDS @
        [limit_errors N label rec, mit_range_errors N label rec]))"

definition validate_motor_record ::
  "numerics \<Rightarrow> string \<Rightarrow> json \<Rightarrow> string list \<Rightarrow> (motor_facts \<times> string list) result" where
  "validate_motor_record N name rec policy =
     (if \<not> is_dict rec
      then Inr (\<lparr>mf_direct = None, mf_coupled = None, mf_endpoint = None\<rparr>,
        [''motor_map.'' @ name @ '' must be an object''])
      else rbind (motor_record_errors N name rec policy) (\<lambda>es.
        Inr (\<lparr>mf_direct = (case jget rec ''policy_joint'' of JStr s \<Rightarrow> Some s | _ \<Rightarrow> None),
              mf_coupled = coupled_of rec,
              mf_endpoint = endpoint_text (jget rec ''can_channel'') (jget rec ''can_id'')\<rparr>, es)))"

section \<open>Model specifications and known profiles\<close>

definition model_spec_errors :: "numerics \<Rightarrow> json \<Rightarrow> string list result" where
  "model_spec_errors N hardware =
     (let specs = jget hardware ''motor_model_specs'' in
      if \<not> is_dict specs then Inr [''motor_model_specs is missing'']
      else if set (keys (jfields specs)) \<noteq> set (keys DAMIAO_MODEL_SPECS)
      then Inr [''motor_model_specs must exactly cover the four installed models'']
      else sequence (map (\<lambda>(model, expected).
        let actual = jget specs model; label = ''motor_model_specs.'' @ model in
        if \<not> is_dict actual then Inr [label @ '' must be an object'']
        else if set (keys (jfields actual)) \<noteq> set (keys expected)
        then Inr [label @ '' fields do not match the frozen schema'']
        else sequence (map (\<lambda>(field, value).
          (case value of
             JFloat x \<Rightarrow> rbind (close_to N default_tolerance x (jget actual field))
               (\<lambda>b. unless b (label @ ''.'' @ field @ '' value mismatch''))
           | _ \<Rightarrow> unless (jget actual field = value) (label @ ''.'' @ field @ '' source mismatch'')))
          expected)) DAMIAO_MODEL_SPECS))"

definition drop_char :: "char \<Rightarrow> string \<Rightarrow> string" where
  "drop_char c s = filter (\<lambda>x. x \<noteq> c) s"

definition is_leg :: "string \<Rightarrow> bool" where
  "is_leg joint = (contains ''_hip_'' joint \<or> ends_with ''_knee_joint'' joint)"

definition UPGRADED_SHOULDERS :: "string list" where
  "UPGRADED_SHOULDERS =
     [''left_shoulder_pitch_joint'', ''left_shoulder_roll_joint'', ''right_shoulder_pitch_joint'',
      ''right_shoulder_roll_joint'']"

definition speed_errors :: "numerics \<Rightarrow> string \<Rightarrow> json \<Rightarrow> string list result" where
  "speed_errors N label rec =
     (case rbind (to_float (parse_float N) (jget rec ''rated_speed_rad_s'')) (\<lambda>rated.
           rbind (to_float (parse_float N) (jget rec ''max_speed_rad_s'')) (\<lambda>maximum. Inr (rated, maximum))) of
        Inl OverflowError \<Rightarrow> Inl OverflowError
      | Inl _ \<Rightarrow> Inr []
      | Inr (rated, maximum) \<Rightarrow> Inr (
          (if fle (rnd (36 / 10)) rated \<and> fle rated (Fin 4) then []
           else [label @ '' J4340P rated speed must be about 3.8 rad/s'']) @
          (if fle (fabs (fsub maximum (rnd (93 / 10)))) (rnd (2 / 100)) then []
           else [label @ '' J4340P 38 V max speed must match the frozen 9.3 rad/s envelope''])))"

definition known_profile_errors ::
  "numerics \<Rightarrow> string \<Rightarrow> json \<Rightarrow> string option \<Rightarrow> json list option \<Rightarrow> string list result" where
  "known_profile_errors N name rec direct coupled =
     (let label = ''motor_map.'' @ name;
          model = drop_char CHR ''-'' (upper (if ''model'' \<in> set (keys (jfields rec))
            then py_str (jget rec ''model'') else []));
          leg = (case direct of Some d \<Rightarrow> is_leg d | None \<Rightarrow> False);
          shoulder = (case direct of Some d \<Rightarrow> d \<in> set UPGRADED_SHOULDERS | None \<Rightarrow> False);
          close = (\<lambda>field expected tolerance message.
            rbind (close_to N tolerance expected (jget rec field)) (\<lambda>b. unless b (label @ message)))
      in sequence (
        (if leg \<or> shoulder
         then [unless (contains ''4340P'' model)
                 (label @ (if leg then '' leg'' else '' shoulder pitch/roll'') @ '' motor must be DM-J4340P-2EC''),
               close ''rated_torque_nm'' (Fin 14) default_tolerance '' J4340P rated torque must be 14 Nm'',
               close ''peak_torque_nm'' (Fin 40) default_tolerance '' J4340P peak torque must be 40 Nm'',
               speed_errors N label rec]
         else []) @
        (if (case coupled of Some c \<Rightarrow> in_pairs c ANKLE_PAIRS | None \<Rightarrow> False)
         then [unless (contains ''4310P'' model) (label @ '' ankle motor must be DM-J4310P-2EC'')] @
           map (\<lambda>(field, expected). close field expected (rnd (2 / 100)) ('' J4310P '' @ field @ '' is wrong''))
             [(''rated_torque_nm'', rnd (35 / 10)), (''peak_torque_nm'', rnd (125 / 10)),
              (''rated_speed_rad_s'', rnd (1256 / 100)), (''max_speed_rad_s'', rnd (362 / 10))]
         else [])))"

section \<open>The inventory\<close>

text \<open>
  The counts and labels the loop over the motors collects. The code keeps the number of coupled
  records of a pair and their labels in two dictionaries that are always updated together; here the
  number is the length of the labels.
\<close>

record inventory =
  iv_errors :: "string list"
  iv_direct_counts :: "(string, nat) dict"
  iv_coupled_labels :: "(string list, string list) dict"
  iv_endpoints :: "string list"
  iv_feedback_endpoints :: "string list"

definition option_list :: "'a option \<Rightarrow> 'a list" where
  "option_list x = (case x of Some y \<Rightarrow> [y] | None \<Rightarrow> [])"

definition confirmed_errors :: "string \<Rightarrow> json \<Rightarrow> string option \<Rightarrow> string list" where
  "confirmed_errors name rec direct =
     (let label = ''motor_map.'' @ name;
          role = (case direct of Some d \<Rightarrow> d | None \<Rightarrow> name) in
      (case map_of CONFIRMED_CAN_ENDPOINTS role of
         None \<Rightarrow> [label @ '' has no confirmed Sprite0825 CAN endpoint'']
       | Some (channel, can_id) \<Rightarrow>
           if json_eq_int (jget rec ''can_channel'') channel \<and> json_eq_int (jget rec ''can_id'') can_id
           then [] else [label @ '' CAN endpoint must be the confirmed channel and ID'']) @
      (case map_of CONFIRMED_MOTOR_MODELS role of
         None \<Rightarrow> [label @ '' has no confirmed Sprite0825 motor model'']
       | Some model \<Rightarrow> if jget rec ''model'' = JStr model then [] else [label @ ''.model must be '' @ model]))"

definition count_direct :: "string option \<Rightarrow> (string, nat) dict \<Rightarrow> (string, nat) dict" where
  "count_direct direct counts =
     (case direct of None \<Rightarrow> counts
      | Some d \<Rightarrow> dict_set counts d ((case map_of counts d of Some n \<Rightarrow> n | None \<Rightarrow> 0) + 1))"

definition note_coupled ::
  "string \<Rightarrow> json list option \<Rightarrow> (string list, string list) dict \<Rightarrow> (string list, string list) dict result" where
  "note_coupled name coupled labels =
     (case coupled of None \<Rightarrow> Inr labels
      | Some c \<Rightarrow>
          if list_ex (\<lambda>v. \<not> hashable v) c then Inl (TypeError ''unhashable type'')
          else if list_all is_str c
          then (case map_of labels (map jstring c) of None \<Rightarrow> Inr labels
            | Some ls \<Rightarrow> Inr (dict_set labels (map jstring c) (ls @ [name])))
          else Inr labels)"

fun inventory_loop ::
  "numerics \<Rightarrow> string list \<Rightarrow> (string \<times> json) list \<Rightarrow> inventory \<Rightarrow> inventory result" where
  "inventory_loop N policy [] s = Inr s"
| "inventory_loop N policy ((name, rec) # rest) s =
     rbind (validate_motor_record N name rec policy) (\<lambda>(facts, es1).
     rbind (if is_dict rec
            then rbind (known_profile_errors N name rec (mf_direct facts) (mf_coupled facts))
              (\<lambda>es. Inr (es @ confirmed_errors name rec (mf_direct facts)))
            else Inr []) (\<lambda>es2.
     rbind (note_coupled name (mf_coupled facts) (iv_coupled_labels s)) (\<lambda>labels.
       inventory_loop N policy rest
         \<lparr>iv_errors = iv_errors s @ es1 @ es2,
          iv_direct_counts = count_direct (mf_direct facts) (iv_direct_counts s),
          iv_coupled_labels = labels,
          iv_endpoints = iv_endpoints s @ option_list (mf_endpoint facts),
          iv_feedback_endpoints = iv_feedback_endpoints s @
            option_list (endpoint_text (jget rec ''can_channel'') (jget rec ''master_id''))\<rparr>)))"

definition duplicates :: "string list \<Rightarrow> string list" where
  "duplicates xs = sorted_set (filter (\<lambda>x. 1 < count_list xs x) xs)"

definition listed :: "string \<Rightarrow> string list \<Rightarrow> string list" where
  "listed message names = (if names = [] then [] else [message @ join '', '' names])"

definition missing_direct :: "string list \<Rightarrow> inventory \<Rightarrow> string list" where
  "missing_direct policy s =
     sorted_set (filter (\<lambda>j. j \<notin> set DIFFERENTIAL_JOINTS \<and> j \<notin> set (keys (iv_direct_counts s))) policy)"

definition duplicate_direct :: "inventory \<Rightarrow> string list" where
  "duplicate_direct s = sort (map fst (filter (\<lambda>(_, n). 1 < n) (iv_direct_counts s)))"

definition cross_errors :: "string list \<Rightarrow> inventory \<Rightarrow> string list" where
  "cross_errors policy s =
     listed ''missing direct motor mappings for: '' (missing_direct policy s) @
     listed ''duplicate direct motor mappings for: '' (duplicate_direct s) @
     listed ''differential policy joints must use coupled_joints, not direct mappings: ''
       (sorted_set (filter (\<lambda>j. j \<in> set DIFFERENTIAL_JOINTS) (keys (iv_direct_counts s)))) @
     concat (map (\<lambda>(name, pair).
       if (case map_of (iv_coupled_labels s) pair of Some ls \<Rightarrow> length ls | None \<Rightarrow> 0) = 2 then []
       else [name @ '' requires exactly two coupled motor records'']) DIFFERENTIAL_PAIRS) @
     listed ''duplicate CAN channel/ID endpoints: '' (duplicates (iv_endpoints s)) @
     listed ''duplicate CAN channel/Master-ID feedback endpoints: '' (duplicates (iv_feedback_endpoints s)) @
     listed ''CAN command and feedback endpoints overlap: ''
       (sorted_set (filter (\<lambda>e. e \<in> set (iv_feedback_endpoints s)) (iv_endpoints s)))"

section \<open>Controller, IMU, emergency stop and differentials\<close>

definition controller_errors :: "numerics \<Rightarrow> json \<Rightarrow> string list result" where
  "controller_errors N hardware =
     (let controller = jget hardware ''controller'' in
      if \<not> is_dict controller then Inr [''controller configuration is missing'']
      else sequence
        [numeric_check N (\<lambda>v. isfinite v \<and> fle (Fin 36) v \<and> fle v (Fin 40))
           (jget controller ''nominal_bus_voltage_v'')
           ''controller.nominal_bus_voltage_v must be within the qualified 36-40 V range'',
         numeric_check N (\<lambda>k. isfinite k \<and> flt (Fin 0) k \<and> fle k (Fin 5))
           (jget controller ''damiao_embedded_kd_max'')
           ''controller.damiao_embedded_kd_max must be finite and in (0, 5]''])"

text \<open>\<open>math.isclose(a, b, abs_tol=t)\<close> with the default relative tolerance\<close>

definition isclose :: "pyfloat \<Rightarrow> pyfloat \<Rightarrow> pyfloat \<Rightarrow> bool" where
  "isclose a b tolerance =
     (feq a b \<or> isfinite a \<and> isfinite b \<and>
       (let d = fabs (fsub b a); rel = rnd (1 / 1000000000) in
        fle d (fabs (fmul rel b)) \<or> fle d (fabs (fmul rel a)) \<or> fle d tolerance))"

definition imu_errors :: "numerics \<Rightarrow> json \<Rightarrow> string list result" where
  "imu_errors N hardware =
     (let imu = jget hardware ''imu'' in
      if \<not> is_dict imu \<or> jget imu ''configured'' \<noteq> JBool True then Inr [''pelvis IMU is not configured'']
      else sequence (
        map (\<lambda>f. unless (present imu f) (''imu.'' @ f @ '' is missing''))
          [''mount_link'', ''body_to_sensor_quaternion_wxyz'', ''gyro_units'', ''quaternion_order'',
           ''update_hz'', ''timestamp_source'', ''measured_yaw_drift_deg_per_min''] @
        [if ''sensor_to_body_matrix'' \<notin> set (keys (jfields imu)) then Inr []
         else rbind (as_array N (jget imu ''sensor_to_body_matrix'')) (\<lambda>(shape, values).
           Inr (if shape \<noteq> [3, 3] then [''imu.sensor_to_body_matrix must be 3x3'']
             else if \<not> list_all isfinite values
             then [''imu.sensor_to_body_matrix contains non-finite values'']
             else if \<not> orthonormal N values then [''imu.sensor_to_body_matrix is not orthonormal'']
             else if \<not> isclose (det N values) (Fin 1) (rnd (1 / 1000000))
             then [''imu.sensor_to_body_matrix is not a proper rotation''] else []))]))"

definition estop_errors :: "json \<Rightarrow> string list" where
  "estop_errors hardware =
     (let estop = jget hardware ''estop'' in
      if \<not> is_dict estop \<or> jget estop ''configured'' \<noteq> JBool True
      then [''independent hardware e-stop is not configured'']
      else if \<not> nonempty (jget estop ''hardware_chain'') then [''estop.hardware_chain is empty or TODO'']
      else [])"

definition array_field :: "numerics \<Rightarrow> json \<Rightarrow> string \<Rightarrow> (nat list \<times> pyfloat list) result" where
  "array_field N config field =
     (if field \<in> set (keys (jfields config)) then as_array N (jget config field) else Inl (KeyError field))"

fun caught :: "py_error \<Rightarrow> bool" where
  "caught (KeyError _) = True"
| "caught (TypeError _) = True"
| "caught (ValueError _) = True"
| "caught _ = False"

definition matrix_errors :: "numerics \<Rightarrow> string \<Rightarrow> json \<Rightarrow> string list result" where
  "matrix_errors N name config =
     (case rbind (array_field N config ''joint_to_motor_matrix'') (\<lambda>m.
           rbind (array_field N config ''motor_zero_rad'') (\<lambda>z. Inr (m, z))) of
        Inl e \<Rightarrow> if caught e then Inr [name @ '' differential matrix/zeros are invalid''] else Inl e
      | Inr ((mshape, m), (zshape, z)) \<Rightarrow>
          if mshape \<noteq> [2, 2] \<or> zshape \<noteq> [2] \<or> \<not> list_all isfinite m \<or> \<not> list_all isfinite z
          then Inr [name @ '' differential matrix/zeros are invalid'']
          else unless (\<not> flt (fabs (det N m)) (rnd (1 / 1000000)))
            (name @ '' differential matrix is singular''))"

definition motor_names_errors :: "string \<Rightarrow> json \<Rightarrow> string list \<Rightarrow> string list" where
  "motor_names_errors name config labels =
     (case jget config ''motor_names'' of
        JArr ns \<Rightarrow>
          if length ns \<noteq> 2 \<or> list_ex (\<lambda>n. \<not> is_str n \<or> jstring n = []) ns \<or> \<not> distinct ns
          then [name @ '' motor_names must contain two unique motor labels'']
          else if set (map jstring ns) \<noteq> set labels
          then [name @ '' motor_names must exactly match its two coupled motor records''] else []
      | _ \<Rightarrow> [name @ '' motor_names must contain two unique motor labels''])"

definition differential_errors :: "numerics \<Rightarrow> json \<Rightarrow> inventory \<Rightarrow> string list result" where
  "differential_errors N hardware s =
     sequence (map (\<lambda>(name, pair).
       let config = jget (jget hardware ''differentials'') name in
       if \<not> is_dict config \<or> jget config ''calibrated'' \<noteq> JBool True
       then Inr [name @ '' differential is not calibrated'']
       else sequence
         [Inr (motor_names_errors name config
            (case map_of (iv_coupled_labels s) pair of Some ls \<Rightarrow> ls | None \<Rightarrow> [])),
          matrix_errors N name config,
          unless (nonempty (jget config ''source'') \<and> \<not> contains ''PLACEHOLDER'' (py_str (jget config ''source'')))
            (name @ '' differential calibration source is missing or placeholder'')])
       DIFFERENTIAL_PAIRS)"

section \<open>The report\<close>

record inventory_report =
  hw_physical_motor_count :: nat
  hw_expected_motor_count :: nat
  hw_direct_policy_joints :: "string list"
  hw_missing_policy_joints :: "string list"
  hw_duplicate_policy_joints :: "string list"
  hw_can_endpoints :: "string list"
  hw_errors :: "string list"
  hw_warnings :: "string list"

definition inventory_valid :: "inventory_report \<Rightarrow> bool" where
  "inventory_valid r = (hw_errors r = [])"

definition empty_inventory :: inventory where
  "empty_inventory = \<lparr>iv_errors = [], iv_direct_counts = [],
     iv_coupled_labels = map (\<lambda>(_, pair). (pair, [])) DIFFERENTIAL_PAIRS,
     iv_endpoints = [], iv_feedback_endpoints = []\<rparr>"

definition validate_hardware_inventory ::
  "numerics \<Rightarrow> json \<Rightarrow> string list \<Rightarrow> inventory_report result" where
  "validate_hardware_inventory N hardware policy =
     (let motor_map = jget hardware ''motor_map''; motors = jfields motor_map;
          configured = (jget hardware ''configured'' = JBool True) in
      rbind (sequence
        [unless (length policy = 31 \<and> length (remdups policy) = 31)
           ''frozen policy contract must contain 31 unique joints'',
         can_adapter_errors N hardware, model_spec_errors N hardware, controller_errors N hardware,
         unless (is_dict motor_map) ''motor_map must be an object'']) (\<lambda>es1.
      rbind (inventory_loop N policy motors empty_inventory) (\<lambda>s.
      rbind (imu_errors N hardware) (\<lambda>es2.
      rbind (differential_errors N hardware s) (\<lambda>es3.
        let errors = es1 @ iv_errors s @ cross_errors policy s @
              (if length motors \<noteq> 31 then [''motor_map must have 31 physical motors''] else []) @
              es2 @ estop_errors hardware @ es3
        in Inr \<lparr>hw_physical_motor_count = length motors, hw_expected_motor_count = 31,
             hw_direct_policy_joints = sort (keys (iv_direct_counts s)),
             hw_missing_policy_joints = missing_direct policy s,
             hw_duplicate_policy_joints = duplicate_direct s,
             hw_can_endpoints = sort (iv_endpoints s),
             hw_errors = errors @ (if configured \<and> errors \<noteq> []
               then [''configured=true is inconsistent with an incomplete hardware inventory''] else []),
             hw_warnings = (if configured then []
               else [''hardware remains intentionally unconfigured and must not arm''])\<rparr>)))))"

end
