(* ===== verification/HardwareConfig.thy ===== *)
theory HardwareConfig
  imports Hardware Damiao
begin

text \<open>
  From a validated inventory to the objects of the runtime: the decoder endpoints and command
  profiles of \<open>damiao.py\<close> and the telemetry limits of \<open>telemetry.py\<close>.
\<close>

section \<open>Accesses that raise\<close>

definition jindex :: "json \<Rightarrow> string \<Rightarrow> json result" where
  "jindex v k = (if \<not> is_dict v then Inl (TypeError ''indices must be integers'')
     else case map_of (jfields v) k of Some x \<Rightarrow> Inr x | None \<Rightarrow> Inl (KeyError k))"

fun jnth :: "json \<Rightarrow> nat \<Rightarrow> json result" where
  "jnth (JArr xs) i = (if i < length xs then Inr (xs ! i) else Inl IndexError)"
| "jnth (JStr s) i = (if i < length s then Inr (JStr [s ! i]) else Inl IndexError)"
| "jnth (JObj kvs) i = Inl (KeyError [])"
| "jnth _ i = Inl (TypeError ''object is not subscriptable'')"

fun json_int :: "(string \<Rightarrow> int option) \<Rightarrow> json \<Rightarrow> int result" where
  "json_int parse (JInt n) = Inr n"
| "json_int parse (JBool b) = Inr (if b then 1 else 0)"
| "json_int parse (JFloat x) = fint x"
| "json_int parse (JStr s) = (case parse s of Some n \<Rightarrow> Inr n
     | None \<Rightarrow> Inl (ValueError ''invalid literal for int()''))"
| "json_int parse _ = Inl (TypeError ''int() argument must be a string or a real number'')"

text \<open>\<open>xs[i]\<close> of a list: a negative index counts from the end.\<close>

definition list_index :: "'a list \<Rightarrow> int \<Rightarrow> 'a result" where
  "list_index xs i =
     (let n = int (length xs); j = (if i < 0 then i + n else i) in
      if 0 \<le> j \<and> j < n then Inr (xs ! nat j) else Inl IndexError)"

definition float_field :: "numerics \<Rightarrow> json \<Rightarrow> string \<Rightarrow> pyfloat result" where
  "float_field N v k = rbind (jindex v k) (to_float (parse_float N))"

definition float_list :: "numerics \<Rightarrow> json \<Rightarrow> pyfloat list result" where
  "float_list N v = rbind (json_iter v) (rmap (to_float (parse_float N)))"

section \<open>Telemetry limits\<close>

definition nameplate_envelope :: "numerics \<Rightarrow> json \<Rightarrow> json result" where
  "nameplate_envelope N rec =
     rbind (float_field N rec ''peak_torque_nm'') (\<lambda>peak.
     rbind (float_field N rec ''rated_speed_rad_s'') (\<lambda>speed.
     rbind (float_field N rec ''rated_torque_nm'') (\<lambda>torque.
     rbind (float_field N rec ''max_speed_rad_s'') (\<lambda>maximum.
       Inr (JArr (map (\<lambda>(a, b). JArr [JFloat a, JFloat b])
         [(Fin 0, peak), (speed, torque), (maximum, Fin 0)]))))))"

definition envelope_point :: "numerics \<Rightarrow> json \<Rightarrow> (pyfloat \<times> pyfloat) result" where
  "envelope_point N p =
     rbind (rbind (jnth p 0) (to_float (parse_float N))) (\<lambda>a.
     rbind (rbind (jnth p 1) (to_float (parse_float N))) (\<lambda>b. Inr (a, b)))"

definition limits_from_hardware_record :: "numerics \<Rightarrow> json \<Rightarrow> motor_limits result" where
  "limits_from_hardware_record N rec =
     rbind (if jget rec ''torque_speed_envelope'' = JNull then nameplate_envelope N rec
            else Inr (jget rec ''torque_speed_envelope'')) (\<lambda>envelope.
     rbind (rbind (jindex rec ''hard_limit_rad'') (float_list N)) (\<lambda>hard.
     rbind (float_field N rec ''max_speed_rad_s'') (\<lambda>max_speed.
     rbind (float_field N rec ''peak_torque_nm'') (\<lambda>peak_torque.
     rbind (float_field N rec ''peak_current_a'') (\<lambda>peak_current.
     rbind (float_field N rec ''temperature_limit_c'') (\<lambda>temperature.
     rbind (rbind (json_iter envelope) (rmap (envelope_point N))) (\<lambda>points.
       (case hard of [low, high] \<Rightarrow>
          let limits = \<lparr>hard_position_rad = (low, high), maximum_speed_rad_s = max_speed,
                peak_torque_nm = peak_torque, peak_current_a = peak_current,
                maximum_temperature_c = temperature, torque_speed_envelope = points\<rparr>
          in rbind (limits_validate limits) (\<lambda>_. Inr limits)
        | _ \<Rightarrow> Inl (ValueError ''not enough or too many values to unpack'')))))))))"

section \<open>Decoder endpoints\<close>

definition range_list :: "numerics \<Rightarrow> json list \<Rightarrow> pyfloat list result" where
  "range_list N xs =
     (if length xs \<noteq> 2 then Inl (ValueError ''range must contain exactly two values'')
      else rmap (to_float (parse_float N)) xs)"

definition ranges_of_json :: "numerics \<Rightarrow> json \<Rightarrow> mit_ranges result" where
  "ranges_of_json N mit =
     rbind (rbind (jindex mit ''position_rad'') json_iter) (\<lambda>ps.
     rbind (rbind (jindex mit ''velocity_rad_s'') json_iter) (\<lambda>vs.
     rbind (rbind (jindex mit ''torque_nm'') json_iter) (\<lambda>ts.
     rbind (jindex mit ''source'') (\<lambda>source.
     rbind (range_list N ps) (\<lambda>p. rbind (validate_range ''position_rad'' p) (\<lambda>_.
     rbind (range_list N vs) (\<lambda>v. rbind (validate_range ''velocity_rad_s'' v) (\<lambda>_.
     rbind (range_list N ts) (\<lambda>t. new_mit_ranges p v t (jstring source))))))))))"

fun mapping_error :: "py_error \<Rightarrow> bool" where
  "mapping_error (KeyError _) = True"
| "mapping_error IndexError = True"
| "mapping_error (TypeError _) = True"
| "mapping_error (ValueError _) = True"
| "mapping_error _ = False"

text \<open>An identifier that is not an integer fails the same test as an integer out of range.\<close>

definition endpoint_of_json ::
  "string \<Rightarrow> string \<Rightarrow> json \<Rightarrow> json \<Rightarrow> mit_ranges \<Rightarrow> feedback_endpoint result" where
  "endpoint_of_json name iface can_id master ranges =
     (let value = (\<lambda>v. case int_value v of Some n \<Rightarrow> n | None \<Rightarrow> - 1) in
      new_feedback_endpoint name iface (value can_id) (value master) ranges)"

definition motor_endpoint ::
  "numerics \<Rightarrow> string list \<Rightarrow> string \<Rightarrow> json \<Rightarrow> feedback_endpoint result" where
  "motor_endpoint N interfaces name raw =
     (if \<not> is_dict raw then Inl (ValueError (''motor_map.'' @ name @ '' must be an object''))
      else (case rbind (rbind (jindex raw ''can_channel'') (json_int (parse_int N))) (\<lambda>channel.
              rbind (jindex raw ''can_id'') (\<lambda>can_id.
              rbind (jindex raw ''master_id'') (\<lambda>master.
              rbind (rbind (jindex raw ''mit_ranges'') (ranges_of_json N)) (\<lambda>ranges.
              rbind (list_index interfaces channel) (\<lambda>iface. Inr (can_id, master, ranges, iface)))))) of
          Inl e \<Rightarrow> if mapping_error e
            then Inl (ValueError (''motor_map.'' @ name @ '' feedback mapping is incomplete'')) else Inl e
        | Inr (can_id, master, ranges, iface) \<Rightarrow> endpoint_of_json name iface can_id master ranges))"

definition endpoints_from_hardware_config ::
  "numerics \<Rightarrow> json \<Rightarrow> nat \<Rightarrow> feedback_endpoint list result" where
  "endpoints_from_hardware_config N hardware expected =
     (let adapter = jget hardware ''can_adapter''; motor_map = jget hardware ''motor_map'' in
      if \<not> is_dict adapter then Inl (ValueError ''can_adapter configuration is missing'')
      else (case jget adapter ''interfaces'' of
        JArr names \<Rightarrow>
          if length names \<noteq> 4
          then Inl (ValueError ''can_adapter.interfaces must contain four entries'')
          else if \<not> list_all (\<lambda>n. is_str n \<and> jstring n \<noteq> []) names
          then Inl (ValueError ''all SocketCAN interface names must be measured'')
          else if \<not> is_dict motor_map \<or> jfields motor_map = []
          then Inl (ValueError ''motor_map is missing or empty'')
          else if length (jfields motor_map) \<noteq> expected
          then Inl (ValueError ''motor_map has an unexpected number of motors'')
          else rbind (rmap (\<lambda>(name, raw). motor_endpoint N (map jstring names) name raw) (jfields motor_map))
            (\<lambda>es. rbind (new_feedback_decoder es) (\<lambda>_.
              let command = map (\<lambda>e. (ep_interface e, ep_can_id e)) es;
                  feedback = map (\<lambda>e. (ep_interface e, ep_master_id e)) es in
              if \<not> distinct command then Inl (ValueError ''duplicate Damiao command endpoint'')
              else if set command \<inter> set feedback \<noteq> {}
              then Inl (ValueError ''Damiao command and feedback endpoints overlap'')
              else Inr es))
      | _ \<Rightarrow> Inl (ValueError ''can_adapter.interfaces must contain four entries'')))"

section \<open>Command profiles\<close>

definition profile_of_endpoint ::
  "numerics \<Rightarrow> interp \<Rightarrow> json \<Rightarrow> pyfloat \<Rightarrow> feedback_endpoint \<Rightarrow> command_profile result" where
  "profile_of_endpoint N interp motor_map kd_max e =
     rbind (jindex motor_map (ep_motor_name e)) (\<lambda>rec.
     rbind (rbind (jindex rec ''soft_limit_rad'') (float_list N)) (\<lambda>soft.
     rbind (limits_from_hardware_record N rec) (\<lambda>limits.
     rbind (new_command_profile e soft limits kd_max) (\<lambda>p.
     rbind (new_mit_state (Fin 0) (Fin 0)) (\<lambda>rest.
     rbind (envelope_for_state interp p rest) (\<lambda>_. Inr p))))))"

definition command_profiles_from_hardware_config ::
  "numerics \<Rightarrow> interp \<Rightarrow> json \<Rightarrow> string list \<Rightarrow> nat \<Rightarrow> command_profile list result" where
  "command_profiles_from_hardware_config N interp hardware policy expected =
     (if jget hardware ''configured'' \<noteq> JBool True
      then Inl (ValueError ''hardware configured=true is required for command profiles'')
      else rbind (validate_hardware_inventory N hardware policy) (\<lambda>report.
        if \<not> inventory_valid report
        then Inl (ValueError (''hardware inventory is invalid: '' @ join ''; '' (hw_errors report)))
        else rbind (endpoints_from_hardware_config N hardware expected) (\<lambda>es.
        rbind (jindex hardware ''motor_map'') (\<lambda>motor_map.
        rbind (rbind (jindex hardware ''controller'') (\<lambda>c. float_field N c ''damiao_embedded_kd_max'')) (\<lambda>kd_max.
        rbind (rmap (profile_of_endpoint N interp motor_map kd_max) es) (\<lambda>profiles.
          if length profiles \<noteq> expected
          then Inl (ValueError ''built an unexpected number of command profiles'')
          else Inr profiles))))))"

end
