(* ===== verification/Registers.thy ===== *)
theory Registers
  imports World HardwareConfig
begin

text \<open>
  The read-only register transactions of \<open>damiao_registers.py\<close>: the request, the two decoders, the
  two register audits as programs over the buses of several readers, and the installation of the
  range readback in a hardware document. The frames of all interfaces arrive in the order in which
  the program asks for them.
\<close>

section \<open>Requests and responses\<close>

definition DAMIAO_PARAMETER_CAN_ID :: int where "DAMIAO_PARAMETER_CAN_ID = 0x7FF"

definition MIT_RANGE_REGISTERS :: "(int \<times> string) list" where
  "MIT_RANGE_REGISTERS = [(21, ''PMAX''), (22, ''VMAX''), (23, ''TMAX'')]"

datatype value_type = Float32 | Uint32

definition COMMISSIONING_REGISTERS :: "(int \<times> string \<times> value_type) list" where
  "COMMISSIONING_REGISTERS = [(2, ''OT_Value'', Float32), (3, ''OC_Value'', Float32),
     (6, ''MAX_SPD'', Float32), (13, ''hw_ver'', Uint32), (14, ''sw_ver'', Uint32),
     (36, ''sub_ver'', Uint32)]"

definition build_read_request :: "int \<Rightarrow> int \<Rightarrow> bytes result" where
  "build_read_request command_can_id register_id =
     (if \<not> standard_id command_can_id
      then Inl (ValueError ''Damiao command CAN ID must be an 11-bit standard ID'')
      else if register_id \<notin> set (map fst MIT_RANGE_REGISTERS)
      then Inl (ValueError ''only PMAX/VMAX/TMAX registers 21/22/23 may be read'')
      else Inr (map word_of_int [command_can_id AND 0xFF, drop_bit 8 command_can_id AND 0xFF,
        READ_OPCODE, register_id, 0, 0, 0, 0]))"

text \<open>\<open>struct.unpack("<f", b)\<close>: a single precision number is a double.\<close>

definition float32_of_int :: "int \<Rightarrow> pyfloat" where
  "float32_of_int v =
     (let e = v div 2 ^ 23 mod 256; m = v mod 2 ^ 23; negative = 2 ^ 31 \<le> v in
      if e = 255 then (if m \<noteq> 0 then NaN else if negative then NInf else PInf)
      else let x = (if e = 0 then of_int m * pow2 (- 149) else of_int (2 ^ 23 + m) * pow2 (e - 150))
           in Fin (if negative then - x else x))"

definition float32 :: "bytes \<Rightarrow> pyfloat" where
  "float32 b = float32_of_int (le_int b)"

record register_value =
  rv_master_id :: int
  rv_register_id :: int
  rv_register_name :: string
  rv_value :: json

definition payload_command_id :: "bytes \<Rightarrow> int" where
  "payload_command_id data = byte_at data 0 OR push_bit 8 (byte_at data 1)"

definition positive_value :: "pyfloat \<Rightarrow> json result" where
  "positive_value x = (if \<not> isfinite x \<or> fle x (Fin 0)
     then Inl (ValueError ''register value must be finite and positive'') else Inr (JFloat x))"

text \<open>The checks of the frame that both decoders make in the same order.\<close>

definition response_checks :: "can_frame \<Rightarrow> int \<Rightarrow> int \<Rightarrow> int \<Rightarrow> unit result" where
  "response_checks frame command_id master_id register_id =
     (if f_can_id frame \<noteq> master_id
      then Inl (ValueError ''register response arbitration ID does not match Master ID'')
      else if \<not> is_fd frame \<or> \<not> bit_rate_switch frame
      then Inl (ValueError ''register response must be CAN-FD with bit-rate switching'')
      else if length (f_data frame) \<noteq> 8
      then Inl (ValueError ''register response must contain exactly eight bytes'')
      else if payload_command_id (f_data frame) \<noteq> command_id
      then Inl (ValueError ''register response payload command CAN ID mismatch'')
      else if byte_at (f_data frame) 2 \<noteq> READ_OPCODE
      then Inl (ValueError ''register response is not a read response'')
      else if byte_at (f_data frame) 3 \<noteq> register_id
      then Inl (ValueError ''register response RID mismatch'')
      else Inr ())"

definition decode_commissioning_read_response ::
  "can_frame \<Rightarrow> int \<Rightarrow> int \<Rightarrow> int \<Rightarrow> register_value result" where
  "decode_commissioning_read_response frame command_id master_id register_id =
     (case map_of COMMISSIONING_REGISTERS register_id of
        None \<Rightarrow> Inl (ValueError ''unexpected commissioning register ID'')
      | Some (name, kind) \<Rightarrow>
          rbind (response_checks frame command_id master_id register_id) (\<lambda>_.
          rbind (case kind of
                   Uint32 \<Rightarrow> Inr (JInt (le_int (slice 4 8 (f_data frame))))
                 | Float32 \<Rightarrow> positive_value (float32 (slice 4 8 (f_data frame))))
            (\<lambda>value. Inr \<lparr>rv_master_id = master_id, rv_register_id = register_id,
               rv_register_name = name, rv_value = value\<rparr>)))"

definition decode_read_response ::
  "can_frame \<Rightarrow> int \<Rightarrow> int \<Rightarrow> int \<Rightarrow> register_value result" where
  "decode_read_response frame command_id master_id register_id =
     rbind (response_checks frame command_id master_id register_id) (\<lambda>_.
       (case map_of MIT_RANGE_REGISTERS register_id of
          None \<Rightarrow> Inl (ValueError ''unexpected register ID'')
        | Some name \<Rightarrow> rbind (positive_value (float32 (slice 4 8 (f_data frame))))
            (\<lambda>value. Inr \<lparr>rv_master_id = master_id, rv_register_id = register_id,
               rv_register_name = name, rv_value = value\<rparr>)))"

section \<open>The register audits\<close>

type_synonym readers = "(string, register_reader) dict"

record reading = "readers world" +
  rd_attempts :: int
  rd_discarded :: int
  rd_motors :: "(string, json) dict"

text \<open>What the two audits differ in: mode, registers, writer, decoder, the counters that stay 0.\<close>

record audit_kind =
  ak_mode :: string
  ak_registers :: "(int \<times> string) list"
  ak_send :: "register_reader \<Rightarrow> int \<times> int \<Rightarrow> sent \<Rightarrow> register_reader \<times> unit result"
  ak_decode :: "can_frame \<Rightarrow> int \<Rightarrow> int \<Rightarrow> int \<Rightarrow> register_value result"
  ak_never :: "string list"

text \<open>\<open>readers[interface].send_read_request(can_id, register_id)\<close>\<close>

definition reader_call ::
  "(register_reader \<Rightarrow> int \<times> int \<Rightarrow> sent \<Rightarrow> register_reader \<times> unit result) \<Rightarrow>
     readers \<Rightarrow> string \<times> int \<times> int \<Rightarrow> sent \<Rightarrow> readers \<times> unit result" where
  "reader_call send readers call sent =
     (case call of (iface, request) \<Rightarrow> (case map_of readers iface of
        None \<Rightarrow> (readers, Inl (KeyError iface))
      | Some r \<Rightarrow> (case send r request sent of (r', res) \<Rightarrow> (dict_set readers iface r', res))))"

definition receive_or_skip :: "(reading, can_frame option) io" where
  "receive_or_skip = io_catch (io_bind receive_frame (\<lambda>f. io_return (Some f)))
     (\<lambda>exc. case exc of
        BlockingIOError \<Rightarrow> io_then pause (io_return None)
      | SocketCanTimestampError _ \<Rightarrow>
          io_then (io_modify (\<lambda>s. s\<lparr>rd_discarded := rd_discarded s + 1\<rparr>)) (io_return None)
      | _ \<Rightarrow> io_raise exc)"

definition response_step ::
  "audit_kind \<Rightarrow> feedback_endpoint \<Rightarrow> int \<Rightarrow> pyfloat \<Rightarrow> unit \<Rightarrow>
     (reading, unit + register_value option) io" where
  "response_step k e register_id deadline _ = io_bind monotonic (\<lambda>t.
     if \<not> flt t deadline then io_return (Inr None)
     else io_bind receive_or_skip (\<lambda>received. case received of
        None \<Rightarrow> io_return (Inl ())
      | Some frame \<Rightarrow>
          if f_can_id frame = DAMIAO_PARAMETER_CAN_ID \<or> f_can_id frame \<noteq> ep_master_id e
          then io_return (Inl ())
          else io_bind (io_lift (ak_decode k frame (ep_can_id e) (ep_master_id e) register_id))
            (\<lambda>v. io_return (Inr (Some v)))))"

definition read_once ::
  "audit_kind \<Rightarrow> pyfloat \<Rightarrow> feedback_endpoint \<Rightarrow> int \<Rightarrow> (reading, register_value option) io" where
  "read_once k timeout e register_id =
     io_then (io_call (reader_call (ak_send k)) (ep_interface e, ep_can_id e, register_id))
     (io_then (io_modify (\<lambda>s. s\<lparr>rd_attempts := rd_attempts s + 1\<rparr>))
     (io_bind monotonic (\<lambda>t. io_loop 0 (response_step k e register_id (fadd t timeout)) ())))"

fun read_retrying ::
  "nat \<Rightarrow> audit_kind \<Rightarrow> pyfloat \<Rightarrow> feedback_endpoint \<Rightarrow> int \<Rightarrow> (reading, register_value option) io" where
  "read_retrying 0 k timeout e register_id = io_return None"
| "read_retrying (Suc n) k timeout e register_id =
     io_bind (read_once k timeout e register_id) (\<lambda>decoded. case decoded of
        None \<Rightarrow> read_retrying n k timeout e register_id
      | Some v \<Rightarrow> io_return (Some v))"

definition read_register ::
  "nat \<Rightarrow> audit_kind \<Rightarrow> pyfloat \<Rightarrow> feedback_endpoint \<Rightarrow> int \<times> string \<Rightarrow> (reading, string \<times> json) io" where
  "read_register retries k timeout e = (\<lambda>(register_id, name).
     io_bind (read_retrying retries k timeout e register_id) (\<lambda>decoded. case decoded of
        None \<Rightarrow> io_raise (RuntimeError
          (''no valid '' @ name @ '' response from '' @ ep_motor_name e @ '' after the attempts''))
      | Some v \<Rightarrow> io_return (name, rv_value v)))"

definition read_motor ::
  "nat \<Rightarrow> audit_kind \<Rightarrow> pyfloat \<Rightarrow> feedback_endpoint \<Rightarrow> (reading, unit) io" where
  "read_motor retries k timeout e =
     io_bind (io_map (read_register retries k timeout e) (ak_registers k)) (\<lambda>values.
       io_modify (\<lambda>s. s\<lparr>rd_motors := dict_set (rd_motors s) (ep_motor_name e) (JObj (dict_of values))\<rparr>))"

definition audit_checks :: "readers \<Rightarrow> feedback_endpoint list \<Rightarrow> pyfloat \<Rightarrow> int \<Rightarrow> unit result" where
  "audit_checks readers es timeout retries =
     (if \<not> isfinite timeout \<or> \<not> (fle (rnd (1 / 100)) timeout \<and> fle timeout (Fin 1))
      then Inl (ValueError ''timeout_s must be finite and in [0.01, 1.0]'')
      else if \<not> (1 \<le> retries \<and> retries \<le> 10)
      then Inl (ValueError ''retries must be an integer in [1, 10]'')
      else if es = [] then Inl (ValueError ''at least one endpoint is required'')
      else if \<not> distinct (map ep_motor_name es) then Inl (ValueError ''motor names must be unique'')
      else if list_ex (\<lambda>e. ep_interface e \<notin> fst ` set readers) es
      then Inl (ValueError ''every endpoint must have a register reader'')
      else Inr ())"

definition total_tx :: "readers \<Rightarrow> int" where
  "total_tx readers = sum_list (map (\<lambda>(_, r). rr_tx_attempts r) readers)"

definition audit_document :: "audit_kind \<Rightarrow> nat \<Rightarrow> reading \<Rightarrow> json" where
  "audit_document k n s = JObj
     ([(''mode'', JStr (ak_mode k)),
       (''allowed_register_ids'', JArr (map (\<lambda>(i, _). JInt i) (ak_registers k)))] @
      map (\<lambda>name. (name, JInt 0)) (ak_never k) @
      [(''tx_count'', JInt (total_tx (wd_writer s))),
       (''discarded_timestamp_frames'', JInt (rd_discarded s)),
       (''motors'', JObj (rd_motors s)),
       (''passed'', JBool (length (rd_motors s) = n))])"

definition collect_registers ::
  "audit_kind \<Rightarrow> feedback_endpoint list \<Rightarrow> pyfloat \<Rightarrow> int \<Rightarrow> (reading, json) io" where
  "collect_registers k es timeout retries =
     io_bind (io_get (\<lambda>s. audit_checks (wd_writer s) es timeout retries)) (\<lambda>checked.
     io_then (io_lift checked)
     (io_then (io_modify (\<lambda>s. s\<lparr>rd_attempts := 0, rd_discarded := 0, rd_motors := []\<rparr>))
     (io_then (io_for (read_motor (nat retries) k timeout) es)
     (io_then (io_bind (io_get (\<lambda>s. total_tx (wd_writer s) \<noteq> rd_attempts s)) (\<lambda>mismatch.
        io_when mismatch (io_raise (RuntimeError ''register reader TX accounting mismatch''))))
     (io_get (audit_document k (length es)))))))"

definition commissioning_audit :: audit_kind where
  "commissioning_audit = \<lparr>ak_mode = ''read_only_damiao_commissioning_register_audit'',
     ak_registers = map (\<lambda>(i, name, _). (i, name)) COMMISSIONING_REGISTERS,
     ak_send = send_commissioning_read_request, ak_decode = decode_commissioning_read_response,
     ak_never = [''write_register_attempts'', ''enable_attempts'', ''mode_switch_attempts'',
       ''mit_control_attempts'']\<rparr>"

definition mit_range_audit :: audit_kind where
  "mit_range_audit = \<lparr>ak_mode = ''read_only_damiao_mit_range_register_audit'',
     ak_registers = MIT_RANGE_REGISTERS,
     ak_send = send_read_request, ak_decode = decode_read_response,
     ak_never = [''write_register_attempts'', ''enable_attempts'', ''mode_switch_attempts'']\<rparr>"

definition collect_commissioning_registers ::
  "feedback_endpoint list \<Rightarrow> pyfloat \<Rightarrow> int \<Rightarrow> (reading, json) io" where
  "collect_commissioning_registers = collect_registers commissioning_audit"

definition collect_mit_range_registers ::
  "feedback_endpoint list \<Rightarrow> pyfloat \<Rightarrow> int \<Rightarrow> (reading, json) io" where
  "collect_mit_range_registers = collect_registers mit_range_audit"

section \<open>Installing the readback\<close>

text \<open>
  The hardware document is updated in place, record by record, so it is part of the answer also
  when a later record raises. \<open>digest\<close> is the SHA-256 of the serialised report.
\<close>

definition readback_checks :: "json \<Rightarrow> json \<Rightarrow> unit result" where
  "readback_checks hardware report =
     (if jget report ''mode'' \<noteq> JStr ''read_only_damiao_mit_range_register_audit''
      then Inl (ValueError ''unexpected MIT range report mode'')
      else if jget report ''passed'' \<noteq> JBool True
      then Inl (ValueError ''MIT range report did not pass'')
      else if list_ex (\<lambda>key. \<not> json_eq_int (jget report key) 0)
        [''write_register_attempts'', ''enable_attempts'', ''mode_switch_attempts'']
      then Inl (ValueError ''MIT range report contains prohibited TX attempts'')
      else if \<not> is_dict (jget report ''motors'') \<or> \<not> is_dict (jget hardware ''motor_map'')
      then Inl (ValueError ''report motors and hardware motor_map must be objects'')
      else if fst ` set (jfields (jget report ''motors'')) \<noteq>
              fst ` set (jfields (jget hardware ''motor_map''))
      then Inl (ValueError ''MIT range report must exactly cover the hardware motor map'')
      else Inr ())"

definition symmetric_range :: "pyfloat \<Rightarrow> json" where
  "symmetric_range x = JArr [JFloat (fneg x), JFloat x]"

definition readback_ranges :: "string \<Rightarrow> json \<Rightarrow> pyfloat \<Rightarrow> pyfloat \<Rightarrow> pyfloat \<Rightarrow> json" where
  "readback_ranges digest evidence pmax vmax tmax = JObj
     [(''position_rad'', symmetric_range pmax), (''velocity_rad_s'', symmetric_range vmax),
      (''kp'', JArr [JFloat (Fin 0), JFloat (Fin 500)]), (''kd'', JArr [JFloat (Fin 0), JFloat (Fin 5)]),
      (''torque_nm'', symmetric_range tmax), (''source'', JStr ''motor_register_readback''),
      (''evidence_report'', evidence), (''report_content_sha256'', JStr digest)]"

definition readback_record ::
  "numerics \<Rightarrow> string \<Rightarrow> json \<Rightarrow> json \<Rightarrow> string \<Rightarrow> json \<Rightarrow> json result" where
  "readback_record N digest evidence values name rec =
     rbind (float_field N values ''PMAX'') (\<lambda>pmax.
     rbind (float_field N values ''VMAX'') (\<lambda>vmax.
     rbind (float_field N values ''TMAX'') (\<lambda>tmax.
       if \<not> list_all (\<lambda>x. isfinite x \<and> flt (Fin 0) x) [pmax, vmax, tmax]
       then Inl (ValueError (''invalid MIT range readback for '' @ name))
       else if \<not> is_dict rec then Inl (TypeError ''object does not support item assignment'')
       else Inr (JObj (dict_set (jfields rec) ''mit_ranges''
              (readback_ranges digest evidence pmax vmax tmax))))))"

fun readback_loop ::
  "numerics \<Rightarrow> string \<Rightarrow> json \<Rightarrow> json \<Rightarrow> (string, json) dict \<Rightarrow> (string, json) dict \<times> int result" where
  "readback_loop N digest evidence motors [] = ([], Inr 0)"
| "readback_loop N digest evidence motors ((name, rec) # rest) =
     (case rbind (jindex motors name) (\<lambda>values. readback_record N digest evidence values name rec) of
        Inl e \<Rightarrow> ((name, rec) # rest, Inl e)
      | Inr rec' \<Rightarrow> (case readback_loop N digest evidence motors rest of
          (rest', updated) \<Rightarrow> ((name, rec') # rest', rbind updated (\<lambda>n. Inr (n + 1)))))"

definition apply_mit_range_readback ::
  "numerics \<Rightarrow> (json \<Rightarrow> string) \<Rightarrow> json \<Rightarrow> json \<Rightarrow> json \<Rightarrow> json \<times> int result" where
  "apply_mit_range_readback N digest hardware report evidence =
     (case readback_checks hardware report of Inl e \<Rightarrow> (hardware, Inl e)
      | Inr _ \<Rightarrow> (case readback_loop N (digest report) evidence (jget report ''motors'')
                    (jfields (jget hardware ''motor_map'')) of
          (motor_map, updated) \<Rightarrow>
            (JObj (dict_set (jfields hardware) ''motor_map'' (JObj motor_map)), updated)))"

end
