(* ===== verification/Yahboom.thy ===== *)
theory Yahboom
  imports Registers
begin

text \<open>
  The streaming decoder of the Yahboom IMU serial protocol (\<open>yahboom_imu.py\<close>) and the configuration
  commands of \<open>yahboom_imu.py\<close> and \<open>imu_fusion.py\<close>. The main results: the packets of a stream do not
  depend on how the serial port cuts it into chunks, the decoder holds less than one frame, and a stream
  of valid frames is decoded completely, in order and without a rejection.
\<close>

section \<open>Packets\<close>

definition FRAME_HEADER :: bytes where "FRAME_HEADER = [0x7E, 0x23]"
definition FUNCTION_RAW_IMU :: byte where "FUNCTION_RAW_IMU = 0x04"
definition FUNCTION_QUATERNION :: byte where "FUNCTION_QUATERNION = 0x16"
definition FUNCTION_EULER :: byte where "FUNCTION_EULER = 0x26"
definition FUNCTION_REPORT_RATE :: byte where "FUNCTION_REPORT_RATE = 0x60"
definition CONFIGURATION_GUARD :: byte where "CONFIGURATION_GUARD = 0x5F"

definition STANDARD_GRAVITY_M_S2 :: pyfloat where "STANDARD_GRAVITY_M_S2 = rnd (980665 / 100000)"
definition ACCELERATION_SCALE_G :: pyfloat where "ACCELERATION_SCALE_G = rnd (16 / 32767)"
definition ANGULAR_VELOCITY_SCALE_RAD_S :: pyfloat where
  "ANGULAR_VELOCITY_SCALE_RAD_S = fmul (rnd (2000 / 32767)) (rnd (py_pi / 180))"
definition MAGNETIC_FIELD_SCALE_UT :: pyfloat where "MAGNETIC_FIELD_SCALE_UT = rnd (800 / 32767)"

datatype yahboom_packet =
    YahboomRawImu "pyfloat list" "pyfloat list" "pyfloat list"
  | YahboomQuaternion "pyfloat list"
  | YahboomEuler "pyfloat list"

fun is_raw :: "yahboom_packet \<Rightarrow> bool" where
  "is_raw (YahboomRawImu _ _ _) = True"
| "is_raw _ = False"

fun is_quaternion :: "yahboom_packet \<Rightarrow> bool" where
  "is_quaternion (YahboomQuaternion _) = True"
| "is_quaternion _ = False"

section \<open>Configuration commands\<close>

text \<open>\<open>sum(frame) & 0xFF\<close> is the sum of the bytes.\<close>

definition checksum :: "bytes \<Rightarrow> byte" where
  "checksum frame = sum_list frame"

definition with_checksum :: "bytes \<Rightarrow> bytes" where
  "with_checksum frame = frame @ [checksum frame]"

definition build_report_rate_command :: "json \<Rightarrow> bytes result" where
  "build_report_rate_command rate = (case rate of
       JInt r \<Rightarrow> if \<not> (10 \<le> r \<and> r \<le> 100) then Inl (ValueError ''rate_hz must be in [10, 100]'')
         else Inr (with_checksum (FRAME_HEADER @ [0x07, FUNCTION_REPORT_RATE, word_of_int r, CONFIGURATION_GUARD]))
     | _ \<Rightarrow> Inl (TypeError ''rate_hz must be an integer''))"

definition build_fusion_command :: "json \<Rightarrow> bytes result" where
  "build_fusion_command axes = (case axes of
       JInt a \<Rightarrow> if a = 6 \<or> a = 9 then Inr (with_checksum [0x7E, 0x23, 7, 0x61, word_of_int a, 0x5F])
         else Inl (ValueError ''fusion axes must be integer 6 or 9'')
     | _ \<Rightarrow> Inl (ValueError ''fusion axes must be integer 6 or 9''))"

section \<open>One frame\<close>

text \<open>\<open>struct.unpack("<9h", payload)\<close> and \<open>struct.unpack("<4f", payload)\<close> of a payload of the right size.\<close>

definition int16_fields :: "nat \<Rightarrow> bytes \<Rightarrow> int list" where
  "int16_fields n b = map (\<lambda>i. le_sint (slice (2 * i) (2 * i + 2) b)) [0..<n]"

definition float_fields :: "nat \<Rightarrow> bytes \<Rightarrow> pyfloat list" where
  "float_fields n b = map (\<lambda>i. float32 (slice (4 * i) (4 * i + 4) b)) [0..<n]"

definition decode_frame :: "bytes \<Rightarrow> yahboom_packet result" where
  "decode_frame frame =
     (if length frame < 5 \<or> take 2 frame \<noteq> FRAME_HEADER then Inl (ValueError ''invalid Yahboom frame header'')
      else if unat (frame ! 2) \<noteq> length frame then Inl (ValueError ''Yahboom frame length mismatch'')
      else if checksum (butlast frame) \<noteq> last frame then Inl (ValueError ''Yahboom frame checksum mismatch'')
      else let function = frame ! 3; payload = slice 4 (length frame - 1) frame in
      if function = FUNCTION_RAW_IMU \<and> length payload = 18
      then let raw = int16_fields 9 payload; scaled = (\<lambda>f a b. map f (slice a b raw)) in
        Inr (YahboomRawImu
          (scaled (\<lambda>v. fmul (fmul (Fin (of_int v)) ACCELERATION_SCALE_G) STANDARD_GRAVITY_M_S2) 0 3)
          (scaled (\<lambda>v. fmul (Fin (of_int v)) ANGULAR_VELOCITY_SCALE_RAD_S) 3 6)
          (scaled (\<lambda>v. fmul (Fin (of_int v)) MAGNETIC_FIELD_SCALE_UT) 6 9))
      else if function = FUNCTION_QUATERNION \<and> length payload = 16
      then Inr (YahboomQuaternion (float_fields 4 payload))
      else if function = FUNCTION_EULER \<and> length payload = 12
      then Inr (YahboomEuler (float_fields 3 payload))
      else Inl (ValueError ''unsupported Yahboom frame function''))"

section \<open>The stream\<close>

text \<open>\<open>buffer.find(FRAME_HEADER)\<close>\<close>

fun find_header :: "bytes \<Rightarrow> nat option" where
  "find_header (x # y # zs) = (if [x, y] = FRAME_HEADER then Some 0 else map_option Suc (find_header (y # zs)))"
| "find_header _ = None"

lemma find_header_less: "find_header b = Some i \<Longrightarrow> i < length b"
  by (induction b arbitrary: i rule: find_header.induct) (auto split: if_splits)

text \<open>
  The loop of \<open>feed\<close> on the buffer: the packets, the rest of the buffer and the number of rejected
  frames. Every iteration stops or shortens the buffer.
\<close>

function scan :: "nat \<Rightarrow> bytes \<Rightarrow> yahboom_packet list \<times> bytes \<times> nat" where
  "scan maximum buffer = (case find_header buffer of
       None \<Rightarrow> ([], if buffer \<noteq> [] \<and> last buffer = hd FRAME_HEADER then [last buffer] else [], 0)
     | Some start \<Rightarrow> let b = drop start buffer in
         if length b < 3 then ([], b, 0)
         else let n = unat (b ! 2) in
         if n < 5 \<or> maximum < n then (case scan maximum (tl b) of (ps, r, k) \<Rightarrow> (ps, r, k + 1))
         else if length b < n then ([], b, 0)
         else case decode_frame (take n b) of
             Inl _ \<Rightarrow> (case scan maximum (tl b) of (ps, r, k) \<Rightarrow> (ps, r, k + 1))
           | Inr p \<Rightarrow> (case scan maximum (drop n b) of (ps, r, k) \<Rightarrow> (p # ps, r, k)))"
  by pat_completeness auto

termination
proof (relation "measure (\<lambda>(_, b). length b)")
qed (auto dest: find_header_less)

declare scan.simps [simp del]

record stream_decoder =
  sd_maximum_frame_length :: nat
  sd_buffer :: bytes
  sd_rejected_frame_count :: nat

definition new_stream_decoder :: "int \<Rightarrow> stream_decoder result" where
  "new_stream_decoder maximum =
     (if maximum < 5 \<or> maximum > 255 then Inl (ValueError ''maximum_frame_length must be in [5, 255]'')
      else Inr \<lparr>sd_maximum_frame_length = nat maximum, sd_buffer = [], sd_rejected_frame_count = 0\<rparr>)"

definition feed :: "stream_decoder \<Rightarrow> bytes \<Rightarrow> yahboom_packet list \<times> stream_decoder" where
  "feed d data = (case scan (sd_maximum_frame_length d) (sd_buffer d @ data) of
     (packets, rest, rejected) \<Rightarrow> (packets, d\<lparr>sd_buffer := rest,
        sd_rejected_frame_count := sd_rejected_frame_count d + rejected\<rparr>))"

fun feed_all :: "stream_decoder \<Rightarrow> bytes list \<Rightarrow> yahboom_packet list \<times> stream_decoder" where
  "feed_all d [] = ([], d)"
| "feed_all d (c # cs) = (let (ps, d') = feed d c; (qs, d'') = feed_all d' cs in (ps @ qs, d''))"

section \<open>Resynchronisation\<close>

text \<open>What \<open>find\<close> and the two deletions leave: nothing before the first header, or a possible first byte of one.\<close>

fun sync :: "bytes \<Rightarrow> bytes" where
  "sync [] = []"
| "sync [x] = (if x = hd FRAME_HEADER then [x] else [])"
| "sync (x # y # zs) = (if [x, y] = FRAME_HEADER then x # y # zs else sync (y # zs))"

lemma sync_find:
  "sync b = (case find_header b of Some i \<Rightarrow> drop i b
     | None \<Rightarrow> if b \<noteq> [] \<and> last b = hd FRAME_HEADER then [last b] else [])"
  by (induction b rule: sync.induct) (auto split: option.splits)

lemma sync_none: "find_header b = None \<Longrightarrow> length (sync b) < 3"
  by (simp add: sync_find)

lemma scan_sync:
  "scan m buffer = (let b = sync buffer in
     if length b < 3 then ([], b, 0)
     else let n = unat (b ! 2) in
     if n < 5 \<or> m < n then (case scan m (tl b) of (ps, r, k) \<Rightarrow> (ps, r, k + 1))
     else if length b < n then ([], b, 0)
     else case decode_frame (take n b) of
         Inl _ \<Rightarrow> (case scan m (tl b) of (ps, r, k) \<Rightarrow> (ps, r, k + 1))
       | Inr p \<Rightarrow> (case scan m (drop n b) of (ps, r, k) \<Rightarrow> (p # ps, r, k)))"
  by (subst scan.simps) (auto simp: sync_find Let_def split: option.split)

lemma sync_append: "sync (a @ b) = sync (sync a @ b)"
proof (induction a rule: sync.induct)
  case (2 x)
  then show ?case by (cases b) (auto simp: FRAME_HEADER_def)
next
  case (3 x y zs)
  then show ?case by (cases "[x, y] = FRAME_HEADER") auto
qed simp

lemma sync_header: "3 \<le> length (sync a) \<Longrightarrow> sync (sync a @ b) = sync a @ b"
proof (induction a rule: sync.induct)
  case (3 x y zs)
  then show ?case by (cases "[x, y] = FRAME_HEADER") auto
qed (auto split: if_splits)

lemma sync_idem: "sync (sync a) = sync a"
  using sync_append [of a "[]"] by simp

lemma sync_length: "length (sync a) \<le> length a"
  by (induction a rule: sync.induct) auto

section \<open>Chunks\<close>

text \<open>Scanning more data is scanning the rest of the buffer with the new data.\<close>

lemma scan_append:
  "scan m (a @ b) = (case scan m a of (ps, r, k) \<Rightarrow> (case scan m (r @ b) of (qs, r', k') \<Rightarrow> (ps @ qs, r', k + k')))"
proof (induction a rule: measure_induct_rule [of length])
  case (less a)
  let ?a = "sync a"
  have sync: "sync (a @ b) = sync (?a @ b)" by (rule sync_append)
  then have same: "scan m (a @ b) = scan m (?a @ b)" by (subst (1 2) scan_sync) simp
  show ?case
  proof (cases "length ?a < 3")
    case True
    then have "scan m a = ([], ?a, 0)" by (subst scan_sync) (simp add: Let_def)
    with same show ?thesis by (simp split: prod.split)
  next
    case False
    let ?n = "unat (?a ! 2)"
    have tl: "length (tl ?a) < length a" and drop: "5 \<le> ?n \<Longrightarrow> length (drop ?n ?a) < length a"
      using False sync_length [of a] by auto
    have head: "sync (?a @ b) = ?a @ b" using False by (intro sync_header) simp
    have third: "(?a @ b) ! 2 = ?a ! 2" "tl (?a @ b) = tl ?a @ b" using False by (auto simp: nth_append tl_append split: list.splits)
    note left = scan_sync [of m a, unfolded Let_def] and right = scan_sync [of m "?a @ b", unfolded head Let_def third]
    consider (size) "?n < 5 \<or> m < ?n" | (more) "\<not> (?n < 5 \<or> m < ?n)" "length ?a < ?n"
      | (bad) e where "\<not> (?n < 5 \<or> m < ?n)" "\<not> length ?a < ?n" "decode_frame (take ?n ?a) = Inl e"
      | (good) p where "\<not> (?n < 5 \<or> m < ?n)" "\<not> length ?a < ?n" "decode_frame (take ?n ?a) = Inr p"
      by (cases "decode_frame (take ?n ?a)") blast+
    then show ?thesis
    proof cases
      case size
      then show ?thesis using False less.IH [OF tl] unfolding same left right by (auto split: prod.splits)
    next
      case more
      then show ?thesis using False unfolding left by (simp add: same split: prod.split)
    next
      case bad
      then show ?thesis using False less.IH [OF tl] unfolding same left right by (auto split: prod.splits)
    next
      case good
      then show ?thesis using False less.IH [OF drop] unfolding same left right by (auto split: prod.splits)
    qed
  qed
qed

section \<open>The decoder\<close>

lemma scan_rest: "scan m a = (ps, r, k) \<Longrightarrow> scan m r = ([], r, 0)"
proof (induction a arbitrary: ps k rule: measure_induct_rule [of length])
  case (less a)
  let ?a = "sync a" and ?n = "unat (sync a ! 2)"
  have shorter: "length (tl ?a) < length a" "5 \<le> ?n \<Longrightarrow> length (drop ?n ?a) < length a" if "3 \<le> length ?a"
    using that sync_length [of a] by auto
  have stop: "scan m ?a = scan m a" by (subst (1 2) scan_sync) (simp add: sync_idem)
  from less.prems [unfolded scan_sync [of m a] Let_def] show ?case
  proof (simp only: split: if_splits, goal_cases)
    case 1
    then show ?case using stop less.prems by simp
  next
    case 2
    then show ?case using less.IH [OF shorter(1)] by (auto split: prod.splits)
  next
    case 3
    then show ?case using stop less.prems by simp
  next
    case 4
    then show ?case using less.IH [OF shorter(1)] less.IH [OF shorter(2)] by (auto split: sum.splits prod.splits)
  qed
qed

text \<open>
  The bytes of packets, rejections and the rest are bytes of the stream, each counted once; what is
  kept is less than a frame.
\<close>

lemma decode_frame_size: "decode_frame f = Inr p \<Longrightarrow> 5 \<le> length f"
  by (auto simp: decode_frame_def split: if_splits)

lemma scan_size:
  assumes "scan m a = (ps, r, k)" and "5 \<le> m"
  shows "length r < m \<and> length r + 5 * length ps + k \<le> length a"
  using assms(1)
proof (induction a arbitrary: ps r k rule: measure_induct_rule [of length])
  case (less a)
  let ?a = "sync a" and ?n = "unat (sync a ! 2)"
  have shorter: "length (tl ?a) < length a" "5 \<le> ?n \<Longrightarrow> length (drop ?n ?a) < length a" if "3 \<le> length ?a"
    using that sync_length [of a] by auto
  note len = sync_length [of a]
  from less.prems [unfolded scan_sync [of m a] Let_def] show ?case
  proof (simp only: split: if_splits, goal_cases)
    case 1
    then show ?case using assms(2) len by auto
  next
    case 2
    then show ?case using less.IH [OF shorter(1)] len by (fastforce split: prod.splits)
  next
    case 3
    then show ?case using len by auto
  next
    case 4
    then show ?case using less.IH [OF shorter(1)] less.IH [OF shorter(2)] len
      by (fastforce split: sum.splits prod.splits)
  qed
qed

lemma new_decoder: "new_stream_decoder m = Inr d \<Longrightarrow>
    5 \<le> m \<and> d = \<lparr>sd_maximum_frame_length = nat m, sd_buffer = [], sd_rejected_frame_count = 0\<rparr>"
  by (auto simp: new_stream_decoder_def split: if_splits)

text \<open>A decoder whose buffer holds no complete frame, as every feed leaves it.\<close>

definition settled :: "stream_decoder \<Rightarrow> bool" where
  "settled d \<longleftrightarrow> scan (sd_maximum_frame_length d) (sd_buffer d) = ([], sd_buffer d, 0)"

lemma feed_settled: "settled (snd (feed d b))"
  by (auto simp: settled_def feed_def dest: scan_rest split: prod.splits)

lemma feed_append:
  "feed d (a @ b) = (let (ps, d') = feed d a; (qs, d'') = feed d' b in (ps @ qs, d''))"
  using scan_append [of "sd_maximum_frame_length d" "sd_buffer d @ a" b]
  by (simp add: feed_def split: prod.split)

lemma feed_all_settled: "settled d \<Longrightarrow> feed_all d cs = feed d (concat cs)"
proof (induction cs arbitrary: d)
  case Nil
  then show ?case by (simp add: feed_def settled_def)
next
  case (Cons c cs)
  obtain ps d' where f: "feed d c = (ps, d')" by force
  with feed_settled [of d c] have "settled d'" by simp
  with Cons.IH f show ?case by (simp add: feed_append)
qed

lemma new_settled: "new_stream_decoder m = Inr d \<Longrightarrow> settled d"
  by (auto simp: settled_def dest!: new_decoder) (subst scan_sync, simp)

text \<open>
  C31. However the serial port cuts a stream into chunks, the decoder finds the packets, keeps the bytes
  and counts the rejections that it would for the whole stream at once.
\<close>
theorem chunks_do_not_matter:
  assumes "new_stream_decoder m = Inr d" and "concat chunks = concat chunks'"
  shows "feed_all d chunks = feed d (concat chunks) \<and> feed_all d chunks = feed_all d chunks'"
  using assms by (simp add: feed_all_settled new_settled)

lemma feed_all_size:
  assumes "new_stream_decoder m = Inr d" and "feed_all d chunks = (packets, d')"
  shows "length (sd_buffer d') < nat m \<and> sd_maximum_frame_length d' = nat m \<and>
    length (sd_buffer d') + 5 * length packets + sd_rejected_frame_count d' \<le> length (concat chunks)"
proof -
  from assms have "feed d (concat chunks) = (packets, d')" by (simp add: feed_all_settled new_settled)
  with new_decoder [OF assms(1)] scan_size [of "nat m" "concat chunks"] show ?thesis
    by (fastforce simp: feed_def split: prod.splits)
qed

text \<open>
  The decoder never holds a whole frame, so its memory is bounded by the frame length it was made
  with, and a byte is never used twice: what it holds, five bytes for every packet it returned and one
  for every rejection add up to at most the bytes it was fed.
\<close>
theorem decoder_memory_bound:
  assumes "new_stream_decoder m = Inr d" and "feed_all d chunks = (packets, d')"
  shows "length (sd_buffer d') < nat m \<and> length (sd_buffer d') < 255 \<and>
    length (sd_buffer d') + 5 * length packets + sd_rejected_frame_count d' \<le> length (concat chunks)"
proof -
  from assms(1) have "nat m \<le> 255" by (auto simp: new_stream_decoder_def split: if_splits)
  with feed_all_size [OF assms] show ?thesis by linarith
qed

section \<open>Streams of valid frames\<close>

lemma sync_noise:
  assumes "0x7E \<notin> set noise"
  shows "sync (noise @ b) = sync b"
  using assms
proof (induction noise)
  case (Cons x noise)
  then have "x \<noteq> 0x7E" by auto
  then have "sync (x # b) = sync b" for b by (cases b) (auto simp: FRAME_HEADER_def)
  with Cons show ?case by simp
qed simp

lemma decode_frame_parts:
  assumes "decode_frame f = Inr p"
  shows "sync (f @ b) = f @ b" and "unat ((f @ b) ! 2) = length f" and "5 \<le> length f"
proof -
  from assms have f: "5 \<le> length f" "take 2 f = FRAME_HEADER" "unat (f ! 2) = length f"
    by (auto simp: decode_frame_def split: if_splits)
  then obtain x y zs where xy: "f = x # y # zs" by (cases f rule: sync.cases) auto
  with f(2) show "sync (f @ b) = f @ b" by simp
  from f show "unat ((f @ b) ! 2) = length f" "5 \<le> length f" by (simp_all add: nth_append)
qed

lemma scan_frame:
  assumes "decode_frame f = Inr p" and "length f \<le> m" and "0x7E \<notin> set noise"
  shows "scan m (noise @ f @ b) = (case scan m b of (ps, r, k) \<Rightarrow> (p # ps, r, k))"
  using assms decode_frame_parts(1,2) [OF assms(1), of b] decode_frame_parts(3) [OF assms(1)]
  by (subst scan_sync) (simp add: sync_noise Let_def)

fun noisy_stream :: "(bytes \<times> bytes) list \<Rightarrow> bytes" where
  "noisy_stream [] = []"
| "noisy_stream ((noise, f) # rest) = noise @ f @ noisy_stream rest"

lemma scan_stream:
  assumes "list_all2 (\<lambda>(noise, f) p. 0x7E \<notin> set noise \<and> length f \<le> m \<and> decode_frame f = Inr p) items packets"
  shows "scan m (noisy_stream items) = (packets, [], 0)"
  using assms
proof (induction items packets rule: list_all2_induct)
  case Nil
  show ?case by (subst scan_sync) simp
next
  case (Cons x xs p ps)
  then show ?case by (cases x) (auto simp: scan_frame)
qed

text \<open>
  C32. A stream of valid frames, with bytes between them in which no frame can begin, is decoded to the
  packet of every frame in order, whatever the chunks are: nothing is rejected and nothing remains.
\<close>
theorem valid_frames_decode:
  assumes "new_stream_decoder m = Inr d" and "concat chunks = noisy_stream items"
    and "list_all2 (\<lambda>(noise, f) p. 0x7E \<notin> set noise \<and> length f \<le> nat m \<and> decode_frame f = Inr p) items packets"
  shows "feed_all d chunks = (packets, d)"
proof -
  from scan_stream [OF assms(3)] have "feed d (concat chunks) = (packets, d)"
    using new_decoder [OF assms(1)] by (simp add: feed_def assms(2))
  then show ?thesis using assms(1) by (simp add: feed_all_settled new_settled)
qed

section \<open>A sample stream\<close>

definition euler_frame :: bytes where
  "euler_frame = [0x7E, 0x23, 17, 0x26, 0, 0, 0x80, 0x3F, 0, 0, 0, 0, 0, 0, 0, 0, 0x97]"

lemma euler_frame_decodes: "decode_frame euler_frame = Inr (YahboomEuler [Fin 1, Fin 0, Fin 0])"
  by (simp add: decode_frame_def euler_frame_def FRAME_HEADER_def checksum_def FUNCTION_RAW_IMU_def FUNCTION_QUATERNION_def
      FUNCTION_EULER_def slice_def float_fields_def float32_def float32_of_int_def upt_rec pow2_def Let_def)

lemma sample_stream_decoder:
  "new_stream_decoder 64 = Inr \<lparr>sd_maximum_frame_length = 64, sd_buffer = [], sd_rejected_frame_count = 0\<rparr>"
  by (simp add: new_stream_decoder_def)

theorem valid_frames_decode_witness:
  "feed_all \<lparr>sd_maximum_frame_length = 64, sd_buffer = [], sd_rejected_frame_count = 0\<rparr>
     [1 # take 7 euler_frame, drop 7 euler_frame @ [2, 3], euler_frame] =
   ([YahboomEuler [Fin 1, Fin 0, Fin 0], YahboomEuler [Fin 1, Fin 0, Fin 0]],
    \<lparr>sd_maximum_frame_length = 64, sd_buffer = [], sd_rejected_frame_count = 0\<rparr>)"
  by (rule valid_frames_decode [OF sample_stream_decoder, of _ "[([1], euler_frame), ([2, 3], euler_frame)]"])
    (simp_all add: euler_frame_decodes, simp_all add: euler_frame_def)

theorem chunks_do_not_matter_witness:
  "feed_all \<lparr>sd_maximum_frame_length = 64, sd_buffer = [], sd_rejected_frame_count = 0\<rparr> [[0x7E], [0x23, 3], [5]] =
   feed_all \<lparr>sd_maximum_frame_length = 64, sd_buffer = [], sd_rejected_frame_count = 0\<rparr> [[0x7E, 0x23], [3, 5]]"
  by (rule chunks_do_not_matter [OF sample_stream_decoder, THEN conjunct2]) simp

theorem decoder_memory_bound_witness:
  "length (sd_buffer (snd (feed_all \<lparr>sd_maximum_frame_length = 64, sd_buffer = [], sd_rejected_frame_count = 0\<rparr>
     [euler_frame, [0x7E, 0x23]]))) < 64"
  using decoder_memory_bound [where chunks = "[euler_frame, [0x7E, 0x23]]", OF sample_stream_decoder prod.collapse [symmetric]] by simp

end
