(* ===== verification/FullBody.thy ===== *)
theory FullBody
  imports DamiaoProbe Yahboom
begin

text \<open>
  The zero-gain probe of the whole robot (\<open>full_body_probe.py\<close>): all four buses are polled and the IMU is
  read in one loop.

  As in the other probes the loop runs over turns of the environment: what \<open>keep_running\<close> answers, the
  clock at the head of the turn, the outcome of each send (by interface, and counted down from the
  fifteenth remaining send), what the selector reports ready, and the clock of the timeout checks.
  \<open>None\<close> means that the given turns ended while the loop was running. The dictionaries the code keeps by
  interface (the pollers, their endpoints, slots, next sends and next indices) have the keys of
  \<open>pollers\<close> and are the fields of one record per bus, in that order. The status codes of a motor are those
  of its kept feedback. The callbacks and the select timeout do not change the state and are left out.
\<close>

section \<open>State\<close>

text \<open>
  An IMU event carries what the port read and the clock after the last packet of it. The outcomes of
  \<open>receive\<close> end with the \<open>BlockingIOError\<close>; each comes with the clock read when its feedback is accepted.
\<close>

datatype ready_event =
    ImuReady "bytes result" pyfloat
  | CanReady "(can_frame result \<times> pyfloat) list"

record body_turn =
  bt_keep_running :: bool
  bt_now :: pyfloat
  bt_sent :: "string \<Rightarrow> nat \<Rightarrow> sent"
  bt_ready :: "ready_event list"
  bt_end_clock :: pyfloat

record bus =
  bu_interface :: string
  bu_items :: "feedback_endpoint list"
  bu_slot :: pyfloat
  bu_poller :: zero_gain_poller
  bu_next_send :: pyfloat
  bu_next_index :: nat

record body_state =
  bd_buses :: "bus list"
  bd_targets :: "(string, pyfloat) dict"
  bd_values :: "(string, feedback list) dict"
  bd_last_feedback :: "(string, pyfloat) dict"
  bd_last_imu :: pyfloat
  bd_imu_decoder :: stream_decoder
  bd_imu_raw :: nat
  bd_imu_quaternion :: nat
  bd_discarded :: nat
  bd_errors :: "string list"

record body_report =
  br_requested_duration_s :: pyfloat
  br_requested_rate_hz_per_motor :: pyfloat
  br_elapsed_s :: pyfloat
  br_motor_names :: "string list"
  br_tx_count_by_interface :: "(string, int) dict"
  br_rx_count_by_motor :: "(string, nat) dict"
  br_sample_coverage_by_motor :: "(string, pyfloat) dict"
  br_first_position_rad_by_motor :: "(string, pyfloat option) dict"
  br_last_position_rad_by_motor :: "(string, pyfloat option) dict"
  br_status_codes_by_motor :: "(string, int list) dict"
  br_discarded_timestamp_frames :: nat
  br_imu_raw_count :: nat
  br_imu_quaternion_count :: nat
  br_imu_raw_rate_hz :: pyfloat
  br_imu_quaternion_rate_hz :: pyfloat
  br_imu_rejected_frame_count :: nat
  br_minimum_motor_sample_coverage :: pyfloat
  br_minimum_imu_rate_hz :: pyfloat
  br_serial_write_count :: nat
  br_automatic_enable_attempts :: nat
  br_automatic_mode_switch_attempts :: nat
  br_errors :: "string list"

definition body_passed :: "body_report \<Rightarrow> bool" where
  "body_passed r \<longleftrightarrow> br_errors r = [] \<and>
     list_all (\<lambda>name. fle (br_minimum_motor_sample_coverage r)
       (case map_of (br_sample_coverage_by_motor r) name of Some c \<Rightarrow> c | None \<Rightarrow> Fin 0))
       (br_motor_names r) \<and>
     fle (br_minimum_imu_rate_hz r) (br_imu_raw_rate_hz r) \<and>
     fle (br_minimum_imu_rate_hz r) (br_imu_quaternion_rate_hz r) \<and>
     br_imu_rejected_frame_count r = 0 \<and>
     list_all (\<lambda>(_, count). 0 < count) (br_tx_count_by_interface r) \<and>
     br_serial_write_count r = 0 \<and> br_automatic_enable_attempts r = 0 \<and>
     br_automatic_mode_switch_attempts r = 0"

section \<open>The arguments\<close>

definition on_interface :: "feedback_endpoint list \<Rightarrow> string \<Rightarrow> feedback_endpoint list" where
  "on_interface sel interface = filter (\<lambda>e. ep_interface e = interface) sel"

definition body_checks ::
  "feedback_endpoint list \<Rightarrow> bool \<Rightarrow> pyfloat \<Rightarrow> pyfloat \<Rightarrow> pyfloat \<Rightarrow> pyfloat \<Rightarrow> pyfloat \<Rightarrow> unit result" where
  "body_checks sel imu_readable duration rate timeout coverage imu_rate =
     (if length sel \<noteq> 31 then Inl (ValueError ''full-body probe requires 31 motors'')
      else if \<not> distinct (map ep_motor_name sel)
      then Inl (ValueError ''full-body probe contains duplicate motor names'')
      else if \<not> in_range duration (Fin 120)
      then Inl (ValueError ''duration_s must be finite and in (0, 120]'')
      else if \<not> in_range rate (Fin 100)
      then Inl (ValueError ''rate_hz_per_motor must be finite and in (0, 100]'')
      else if \<not> in_range timeout (Fin 1)
      then Inl (ValueError ''feedback_timeout_s must be finite and in (0, 1]'')
      else if \<not> (flt (Fin 0) coverage \<and> fle coverage (Fin 1))
      then Inl (ValueError ''minimum_motor_sample_coverage must be in (0, 1]'')
      else if \<not> isfinite imu_rate \<or> fle imu_rate (Fin 0)
      then Inl (ValueError ''minimum_imu_rate_hz must be finite and positive'')
      else if \<not> imu_readable then Inl (ValueError ''a readable IMU serial port is required'')
      else Inr ())"

fun poller_checks ::
  "feedback_endpoint list \<Rightarrow> (string, zero_gain_poller) dict \<Rightarrow> unit result" where
  "poller_checks sel [] = Inr ()"
| "poller_checks sel ((interface, poller) # ps) =
     (let n = length (on_interface sel interface) in
      if \<not> (1 \<le> n \<and> n \<le> 8)
      then Inl (ValueError (interface @ '' must contain between one and eight motors''))
      else if zg_interface poller \<noteq> interface
      then Inl (ValueError (''poller interface mismatch for '' @ interface))
      else poller_checks sel ps)"

definition interface_check ::
  "feedback_endpoint list \<Rightarrow> (string, zero_gain_poller) dict \<Rightarrow> unit result" where
  "interface_check sel pollers =
     (if set (keys pollers) \<noteq> set (map ep_interface sel) \<or> length pollers \<noteq> 4
      then Inl (ValueError ''full-body probe requires exactly the four configured interfaces'')
      else Inr ())"

text \<open>\<open>slot_s\<close>, with the other dictionaries by interface.\<close>

definition new_buses ::
  "feedback_endpoint list \<Rightarrow> pyfloat \<Rightarrow> pyfloat \<Rightarrow> (string, zero_gain_poller) dict \<Rightarrow> bus list result" where
  "new_buses sel rate start = rmap (\<lambda>(interface, poller).
     let items = on_interface sel interface in
     rbind (fdiv (Fin 1) (fmul rate (Fin (of_nat (length items))))) (\<lambda>slot.
       Inr \<lparr>bu_interface = interface, bu_items = items, bu_slot = slot, bu_poller = poller,
            bu_next_send = start, bu_next_index = 0\<rparr>))"

section \<open>Sends\<close>

text \<open>
  The sends of one bus that are due, at most the given number: the bus, and the sends that were left
  with the errors.
\<close>

fun bus_send ::
  "(string, pyfloat) dict \<Rightarrow> pyfloat \<Rightarrow> (nat \<Rightarrow> sent) \<Rightarrow> nat \<Rightarrow> bus \<Rightarrow> bus \<times> (nat \<times> string list) result" where
  "bus_send targets now sent 0 b = (b, Inr (0, []))"
| "bus_send targets now sent (Suc n) b =
     (if \<not> fle (bu_next_send b) now then (b, Inr (Suc n, []))
      else let e = bu_items b ! bu_next_index b in
        (case rbind (lookup_result targets (ep_motor_name e)) (encode_zero_gain_position_echo e) of
           Inl err \<Rightarrow> (b, Inl err)
         | Inr c \<Rightarrow> (case send_zero_gain_poll (bu_poller b) (ec_can_id c, ec_data c) (sent n) of
             (p, Inl err) \<Rightarrow>
               if err = OSError
               then (b\<lparr>bu_poller := p\<rparr>, Inr (Suc n, [''SocketCAN transmit failed on '' @ bu_interface b
                  @ '' for '' @ ep_motor_name e]))
               else (b\<lparr>bu_poller := p\<rparr>, Inl err)
           | (p, Inr _) \<Rightarrow> bus_send targets now sent n (b\<lparr>bu_poller := p,
                bu_next_index := (bu_next_index b + 1) mod length (bu_items b),
                bu_next_send := fadd (bu_next_send b) (bu_slot b)\<rparr>))))"

definition drop_backlog :: "pyfloat \<Rightarrow> nat \<Rightarrow> bus \<Rightarrow> bus" where
  "drop_backlog now left b = (if left = 0 \<and> fle (bu_next_send b) now
     then b\<lparr>bu_next_send := fadd now (bu_slot b)\<rparr> else b)"

fun buses_send ::
  "(string, pyfloat) dict \<Rightarrow> pyfloat \<Rightarrow> (string \<Rightarrow> nat \<Rightarrow> sent) \<Rightarrow> bus list
     \<Rightarrow> bus list \<times> string list result" where
  "buses_send targets now sent [] = ([], Inr [])"
| "buses_send targets now sent (b # bs) =
     (case bus_send targets now (sent (bu_interface b)) 16 b of
        (b', Inl err) \<Rightarrow> (b' # bs, Inl err)
      | (b', Inr (left, errors)) \<Rightarrow>
          if errors \<noteq> [] then (b' # bs, Inr errors)
          else (case buses_send targets now sent bs of
            (bs', out) \<Rightarrow> (drop_backlog now left b' # bs', out)))"

section \<open>Events\<close>

text \<open>The frames of one ready bus, at most 64 of them.\<close>

definition body_accept :: "feedback \<Rightarrow> pyfloat \<Rightarrow> body_state \<Rightarrow> body_state" where
  "body_accept fb clock s = s\<lparr>bd_values := append_value (bd_values s) fb,
     bd_targets := dict_set (bd_targets s) (fb_motor_name fb) (fb_position_rad fb),
     bd_last_feedback := dict_set (bd_last_feedback s) (fb_motor_name fb) clock\<rparr>"

definition body_error :: "string \<Rightarrow> body_state \<Rightarrow> body_state" where
  "body_error message s = s\<lparr>bd_errors := bd_errors s @ [message]\<rparr>"

fun can_drain ::
  "feedback_endpoint list \<Rightarrow> decoder \<Rightarrow> (can_frame result \<times> pyfloat) list \<Rightarrow> body_state
     \<Rightarrow> body_state \<times> unit result" where
  "can_drain sel d [] s = (s, Inr ())"
| "can_drain sel d ((Inl err, clock) # rs) s =
     (if is_timestamp_error err then can_drain sel d rs (s\<lparr>bd_discarded := bd_discarded s + 1\<rparr>)
      else (s, Inl err))"
| "can_drain sel d ((Inr frame, clock) # rs) s =
     (let key = (f_interface frame, f_can_id frame) in
      if key \<in> command_keys sel then can_drain sel d rs s
      else if key \<notin> feedback_keys sel
      then can_drain sel d rs (body_error (''unexpected CAN endpoint: '' @ f_interface frame) s)
      else (case decoder_decode d frame of Inl err \<Rightarrow> (s, Inl err)
        | Inr fb \<Rightarrow>
            if fb_motor_name fb \<notin> set (map ep_motor_name sel) then can_drain sel d rs s
            else if \<not> is_fd frame \<or> \<not> bit_rate_switch frame
            then (body_error (fb_motor_name fb @ '' feedback was not CAN-FD with BRS'') s, Inr ())
            else if fb_status_code fb \<noteq> 0
            then (body_error (fb_motor_name fb @ '' is not disabled: '' @ fb_status_name fb)
                (body_accept fb clock s), Inr ())
            else can_drain sel d rs (body_accept fb clock s)))"

definition imu_read :: "bytes \<Rightarrow> pyfloat \<Rightarrow> body_state \<Rightarrow> body_state" where
  "imu_read payload clock s = (case feed (bd_imu_decoder s) payload of (packets, d) \<Rightarrow>
     s\<lparr>bd_imu_decoder := d,
       bd_imu_raw := bd_imu_raw s + length (filter is_raw packets),
       bd_imu_quaternion := bd_imu_quaternion s + length (filter is_quaternion packets),
       bd_last_imu := (if packets = [] then bd_last_imu s else clock)\<rparr>)"

fun body_ready ::
  "feedback_endpoint list \<Rightarrow> decoder \<Rightarrow> ready_event list \<Rightarrow> body_state \<Rightarrow> body_state \<times> unit result" where
  "body_ready sel d [] s = (s, Inr ())"
| "body_ready sel d (ImuReady (Inl err) clock # events) s = (s, Inl err)"
| "body_ready sel d (ImuReady (Inr payload) clock # events) s =
     body_ready sel d events (imu_read payload clock s)"
| "body_ready sel d (CanReady outcomes # events) s =
     (case can_drain sel d (take 64 outcomes) s of (s', Inl err) \<Rightarrow> (s', Inl err)
      | (s', Inr _) \<Rightarrow> body_ready sel d events s')"

section \<open>The loop\<close>

fun body_loop ::
  "feedback_endpoint list \<Rightarrow> decoder \<Rightarrow> pyfloat \<Rightarrow> pyfloat \<Rightarrow> pyfloat \<Rightarrow> body_turn list \<Rightarrow> body_state
     \<Rightarrow> (body_state \<times> unit result) option" where
  "body_loop sel d start duration timeout [] s = None"
| "body_loop sel d start duration timeout (t # ts) s =
     (if \<not> bt_keep_running t then Some (s, Inr ())
      else if fle duration (fsub (bt_now t) start) then Some (s, Inr ())
      else (case buses_send (bd_targets s) (bt_now t) (bt_sent t) (bd_buses s) of
          (bs, Inl err) \<Rightarrow> Some (s\<lparr>bd_buses := bs\<rparr>, Inl err)
        | (bs, Inr errors) \<Rightarrow>
            let s1 = s\<lparr>bd_buses := bs, bd_errors := bd_errors s @ errors\<rparr> in
            if bd_errors s1 \<noteq> [] then Some (s1, Inr ())
            else (case body_ready sel d (bt_ready t) s1 of (s2, Inl err) \<Rightarrow> Some (s2, Inl err)
              | (s2, Inr _) \<Rightarrow>
                  if bd_errors s2 \<noteq> [] then Some (s2, Inr ())
                  else let stale = stale_motors (bt_end_clock t) timeout (bd_last_feedback s2) in
                    if stale \<noteq> [] then Some (body_error
                      (''no feedback within the timeout from: '' @ join '', '' (sort stale)) s2, Inr ())
                    else if flt timeout (fsub (bt_end_clock t) (bd_last_imu s2))
                    then Some (body_error ''no IMU packet within the timeout'' s2, Inr ())
                    else body_loop sel d start duration timeout ts s2)))"

section \<open>The report\<close>

definition per_second :: "nat \<Rightarrow> pyfloat \<Rightarrow> pyfloat result" where
  "per_second count elapsed = rbind (float_of_int (int count)) (\<lambda>n. fdiv n elapsed)"

definition body_report_of ::
  "feedback_endpoint list \<Rightarrow> pyfloat \<Rightarrow> pyfloat \<Rightarrow> pyfloat \<Rightarrow> pyfloat \<Rightarrow> pyfloat \<Rightarrow> body_state
     \<Rightarrow> body_report result" where
  "body_report_of sel duration rate coverage imu_rate elapsed s =
     (let values = bd_values s in
      rbind (on_values_result (coverage_of elapsed rate) values) (\<lambda>coverages.
      rbind (per_second (bd_imu_raw s) elapsed) (\<lambda>raw_rate.
      rbind (per_second (bd_imu_quaternion s) elapsed) (\<lambda>quaternion_rate.
        Inr \<lparr>br_requested_duration_s = duration, br_requested_rate_hz_per_motor = rate,
             br_elapsed_s = elapsed, br_motor_names = map ep_motor_name sel,
             br_tx_count_by_interface =
               map (\<lambda>b. (bu_interface b, zg_tx_attempts (bu_poller b))) (bd_buses s),
             br_rx_count_by_motor = on_values length values,
             br_sample_coverage_by_motor = coverages,
             br_first_position_rad_by_motor = on_values (first_option \<circ> map fb_position_rad) values,
             br_last_position_rad_by_motor = on_values (last_option \<circ> map fb_position_rad) values,
             br_status_codes_by_motor = on_values (sorted_set \<circ> map fb_status_code) values,
             br_discarded_timestamp_frames = bd_discarded s,
             br_imu_raw_count = bd_imu_raw s, br_imu_quaternion_count = bd_imu_quaternion s,
             br_imu_raw_rate_hz = raw_rate, br_imu_quaternion_rate_hz = quaternion_rate,
             br_imu_rejected_frame_count = sd_rejected_frame_count (bd_imu_decoder s),
             br_minimum_motor_sample_coverage = coverage, br_minimum_imu_rate_hz = imu_rate,
             br_serial_write_count = 0, br_automatic_enable_attempts = 0,
             br_automatic_mode_switch_attempts = 0, br_errors = bd_errors s\<rparr>))))"

text \<open>The pollers keep what they sent also when the probe raises, so they are part of the result.\<close>

definition bus_pollers :: "bus list \<Rightarrow> (string, zero_gain_poller) dict" where
  "bus_pollers bs = map (\<lambda>b. (bu_interface b, bu_poller b)) bs"

definition collect_full_body_shadow ::
  "(string, zero_gain_poller) dict \<Rightarrow> feedback_endpoint list \<Rightarrow> bool \<Rightarrow> pyfloat \<Rightarrow> pyfloat \<Rightarrow> pyfloat
     \<Rightarrow> pyfloat \<Rightarrow> pyfloat \<Rightarrow> pyfloat \<Rightarrow> body_turn list \<Rightarrow> pyfloat
     \<Rightarrow> ((string, zero_gain_poller) dict \<times> body_report result) option" where
  "collect_full_body_shadow pollers sel imu_readable duration rate timeout coverage imu_rate start turns stop =
     (case rbind (body_checks sel imu_readable duration rate timeout coverage imu_rate) (\<lambda>_.
           rbind (poller_checks sel pollers) (\<lambda>_.
           rbind (interface_check sel pollers) (\<lambda>_.
           rbind (new_feedback_decoder sel) (\<lambda>d.
           rbind (new_stream_decoder 64) (\<lambda>imu.
           rbind (new_buses sel rate start pollers) (\<lambda>bs. Inr (d, imu, bs))))))) of
        Inl err \<Rightarrow> Some (pollers, Inl err)
      | Inr (d, imu, bs) \<Rightarrow>
          let names = map ep_motor_name sel;
              s0 = \<lparr>bd_buses = bs, bd_targets = map (\<lambda>n. (n, Fin 0)) names,
                bd_values = map (\<lambda>n. (n, [])) names, bd_last_feedback = map (\<lambda>n. (n, start)) names,
                bd_last_imu = start, bd_imu_decoder = imu, bd_imu_raw = 0, bd_imu_quaternion = 0,
                bd_discarded = 0, bd_errors = []\<rparr>
          in (case body_loop sel d start duration timeout turns s0 of None \<Rightarrow> None
            | Some (s, Inl err) \<Rightarrow> Some (bus_pollers (bd_buses s), Inl err)
            | Some (s, Inr _) \<Rightarrow> Some (bus_pollers (bd_buses s),
                body_report_of sel duration rate coverage imu_rate (fsub stop start) s)))"

end
