(* ===== verification/ProbeSafety.thy ===== *)
theory ProbeSafety
  imports DamiaoProbe DamiaoCodec
begin

text \<open>
  What the zero-gain probes put on the bus and what a passed probe says: only zero-gain frames,
  in a fixed rotation over the selected motors, and no fault hidden behind a passed report.
\<close>

section \<open>Sends\<close>

lemma echo_can_id:
  "encode_zero_gain_position_echo e x = Inr c \<Longrightarrow> ec_can_id c = ep_can_id e"
  by (auto simp: encode_zero_gain_position_echo_def rbind_eq_Inr Let_def elim!: encode_spec)

definition frame_target :: "bytes \<Rightarrow> int" where
  "frame_target f = fst (canfd_unpack f)"

lemma poll_cases:
  "fst (send_zero_gain_poll p (i, data) n) = p \<or>
    (\<exists>f. zg_wire (fst (send_zero_gain_poll p (i, data) n)) = zg_wire p @ [f] \<and>
       zg_interface (fst (send_zero_gain_poll p (i, data) n)) = zg_interface p \<and>
       zero_gain_frame f \<and> frame_target f = i)"
proof -
  have "canfd_unpack (wire_frame i data) = (i, 8, 1, ljust 64 data)"
    if "standard_id i" "validate_zero_gain_mit_payload data = Inr ()"
    using that by (intro wire_frame_unpack)
      (auto simp: validate_zero_gain_mit_payload_def split: if_splits)
  then show ?thesis
    by (auto simp: send_zero_gain_poll_def canfd_pack_wire validated_zero_gain_frame frame_target_def
        split: sum.split option.split)
qed

lemma poll_success:
  assumes "send_zero_gain_poll p (i, data) n = (p', Inr ())"
  shows "\<exists>f. zg_wire p' = zg_wire p @ [f] \<and> zero_gain_frame f \<and> frame_target f = i"
proof -
  from assms have "zg_wire p' \<noteq> zg_wire p"
    by (auto simp: send_zero_gain_poll_def split: if_splits sum.splits option.splits)
  with poll_cases [of p i data n] assms show ?thesis by auto
qed

section \<open>The rotation of a group probe\<close>

definition rotation :: "feedback_endpoint list \<Rightarrow> nat \<Rightarrow> int list" where
  "rotation sel k = map (\<lambda>i. ep_can_id (sel ! (i mod length sel))) [0..<k]"

definition rotated :: "feedback_endpoint list \<Rightarrow> bytes list \<Rightarrow> zero_gain_poller \<Rightarrow> nat \<Rightarrow> bool" where
  "rotated sel w0 p k \<longleftrightarrow> (\<exists>fs. zg_wire p = w0 @ fs \<and> length fs = k \<and>
     list_all zero_gain_frame fs \<and> map frame_target fs = rotation sel k)"

lemma rotated_add:
  assumes "rotated sel w0 p k" and "zg_wire p' = zg_wire p @ [f]" and "zero_gain_frame f"
    and "frame_target f = ep_can_id (sel ! (k mod length sel))"
  shows "rotated sel w0 p' (Suc k)"
proof -
  from assms(1) obtain fs where "zg_wire p = w0 @ fs" "length fs = k"
    "list_all zero_gain_frame fs" "map frame_target fs = rotation sel k" by (auto simp: rotated_def)
  with assms(2-4) show ?thesis unfolding rotated_def
    by (intro exI [of _ "fs @ [f]"]) (simp add: rotation_def)
qed

definition group_inv :: "feedback_endpoint list \<Rightarrow> bytes list \<Rightarrow> group_state \<Rightarrow> bool" where
  "group_inv sel w0 s \<longleftrightarrow> (\<exists>k. rotated sel w0 (gp_poller s) k \<and>
     gp_next_motor_index s = k mod length sel)"

definition group_wire :: "feedback_endpoint list \<Rightarrow> bytes list \<Rightarrow> group_state \<Rightarrow> bool" where
  "group_wire sel w0 s \<longleftrightarrow> (\<exists>k. rotated sel w0 (gp_poller s) k)"

lemma group_inv_wire: "group_inv sel w0 s \<Longrightarrow> group_wire sel w0 s"
  by (auto simp: group_inv_def group_wire_def)

lemma group_send_raise:
  assumes "group_send sel slot now sent s = (s', Inl err)" and "group_inv sel w0 s"
  shows "group_wire sel w0 s'"
proof -
  from assms(2) obtain k where k: "rotated sel w0 (gp_poller s) k"
    "gp_next_motor_index s = k mod length sel" by (auto simp: group_inv_def)
  have "rotated sel w0 (fst (send_zero_gain_poll (gp_poller s) (ec_can_id c, ec_data c) sent)) k \<or>
      rotated sel w0 (fst (send_zero_gain_poll (gp_poller s) (ec_can_id c, ec_data c) sent)) (Suc k)"
    if "encode_zero_gain_position_echo (sel ! gp_next_motor_index s) x = Inr c" for c x
    using poll_cases [of "gp_poller s" "ec_can_id c" "ec_data c" sent] k rotated_add [OF k(1)]
      echo_can_id [OF that] by auto
  note step = this
  show ?thesis
  proof (cases "fle (gp_next_send s) now")
    case True
    note assms(1)
    with True k(1) step show ?thesis
      by (auto simp: group_send_def group_wire_def Let_def rbind_eq_Inr
          split: sum.splits prod.splits if_splits)
        (metis fst_conv)+
  qed (use assms in \<open>simp add: group_send_def\<close>)
qed

lemma poll_oserror:
  "send_zero_gain_poll p (i, data) n = (p', Inl OSError) \<Longrightarrow> p' = p"
  by (auto simp: send_zero_gain_poll_def short_write_check_def validate_zero_gain_mit_payload_def
      split: if_splits sum.splits option.splits)

lemma group_send_returns:
  assumes "group_send sel slot now sent s = (s', Inr ())" and "group_inv sel w0 s"
  shows "group_inv sel w0 s'"
proof (cases "fle (gp_next_send s) now")
  case False
  with assms show ?thesis by (simp add: group_send_def)
next
  case True
  let ?e = "sel ! gp_next_motor_index s"
  from assms(2) obtain k where k: "rotated sel w0 (gp_poller s) k"
    "gp_next_motor_index s = k mod length sel" by (auto simp: group_inv_def)
  from assms(1) True obtain x c where c: "encode_zero_gain_position_echo ?e x = Inr c"
    and s': "(case send_zero_gain_poll (gp_poller s) (ec_can_id c, ec_data c) sent of
       (p, Inl err) \<Rightarrow>
         if err = OSError
         then (s\<lparr>gp_poller := p, gp_errors := gp_errors s @
            [''SocketCAN transmit failed for '' @ ep_motor_name ?e]\<rparr>, Inr ())
         else (s\<lparr>gp_poller := p\<rparr>, Inl err)
     | (p, Inr _) \<Rightarrow> (s\<lparr>gp_poller := p,
          gp_next_motor_index := Suc (gp_next_motor_index s) mod length sel,
          gp_next_send := next_send_after (gp_next_send s) slot now\<rparr>, Inr ())) = (s', Inr ())"
    by (cases "rbind (lookup_result (gp_targets s) (ep_motor_name ?e)) (encode_zero_gain_position_echo ?e)")
      (auto simp: group_send_def Let_def rbind_eq_Inr)
  obtain p out where p: "send_zero_gain_poll (gp_poller s) (ec_can_id c, ec_data c) sent = (p, out)"
    by fastforce
  show ?thesis
  proof (cases out)
    case (Inr u)
    with p have "send_zero_gain_poll (gp_poller s) (ec_can_id c, ec_data c) sent = (p, Inr ())" by simp
    from poll_success [OF this] obtain f where f: "zg_wire p = zg_wire (gp_poller s) @ [f]"
      "zero_gain_frame f" "frame_target f = ep_can_id (sel ! (k mod length sel))"
      using echo_can_id [OF c] k(2) by auto
    have "gp_poller s' = p" "gp_next_motor_index s' = Suc k mod length sel"
      using s' p Inr k(2) by (auto simp: mod_Suc_eq)
    with rotated_add [OF k(1) f] show ?thesis unfolding group_inv_def by metis
  next
    case (Inl err)
    with s' p have "err = OSError" by (auto split: if_splits)
    with poll_oserror p Inl have "p = gp_poller s" by blast
    with s' p Inl \<open>err = OSError\<close> k show ?thesis by (auto simp: group_inv_def)
  qed
qed

lemma group_ready_poller:
  "gp_poller (fst (group_ready sel es d rs s)) = gp_poller s \<and>
   gp_next_motor_index (fst (group_ready sel es d rs s)) = gp_next_motor_index s"
  by (induction sel es d rs s rule: group_ready.induct)
    (auto simp: Let_def split: sum.split if_splits)

lemma group_inv_ready:
  "group_inv sel w0 s \<Longrightarrow> group_ready sel es d rs s = (s', out) \<Longrightarrow> group_inv sel w0 s'"
  using group_ready_poller [of sel es d rs s] by (auto simp: group_inv_def)

lemma group_loop_wire:
  assumes "group_loop sel es d start duration slot timeout ts s = Some (s', out)"
    and "group_inv sel w0 s"
  shows "group_wire sel w0 s'"
  using assms
proof (induction ts arbitrary: s)
  case Nil
  then show ?case by simp
next
  case (Cons t ts)
  show ?case
  proof (cases "pt_keep_running t \<and> \<not> fle duration (fsub (pt_now t) start)")
    case False
    with Cons.prems show ?thesis by (auto intro: group_inv_wire split: if_splits)
  next
    case True
    obtain s1 o1 where s1: "group_send sel slot (pt_now t) (pt_sent t) s = (s1, o1)" by fastforce
    show ?thesis
    proof (cases o1)
      case (Inl err)
      with Cons.prems True s1 group_send_raise show ?thesis by auto
    next
      case (Inr u)
      from s1 [unfolded Inr] Cons.prems(2) have i1: "group_inv sel w0 s1" by (auto dest: group_send_returns)
      obtain s2 o2 where s2: "group_ready sel es d (pt_ready t) s1 = (s2, o2)" by fastforce
      have i2: "group_inv sel w0 s2" using group_inv_ready [OF i1 s2] .
      have w: "group_wire sel w0 (s2\<lparr>gp_errors := x\<rparr>)" for x
        using group_inv_wire [OF i2] by (simp add: group_wire_def)
      show ?thesis
        using Cons.prems(1) True s1 Inr s2 Cons.IH [OF _ i2] group_inv_wire [OF i1] group_inv_wire [OF i2] w
        by (auto simp: Let_def split: sum.splits if_splits)
    qed
  qed
qed

text \<open>
  Whatever the bus and the clock do, and even when the probe raises, a group probe only sends
  zero-gain frames and polls the selected motors in strict rotation: the k-th frame of the probe is
  addressed to motor k modulo the group size.
\<close>

theorem group_probe_rotates_zero_gain:
  assumes "collect_zero_gain_group_position_echo py_sum poller sel es duration rate timeout
      max_duration coverage start turns stop = Some (poller', out)"
  shows "\<exists>fs. zg_wire poller' = zg_wire poller @ fs \<and> list_all zero_gain_frame fs \<and>
    map frame_target fs = map (\<lambda>i. ep_can_id (sel ! (i mod length sel))) [0..<length fs]"
proof -
  have conclude: "\<exists>fs. zg_wire poller' = zg_wire poller @ fs \<and> list_all zero_gain_frame fs \<and>
    map frame_target fs = map (\<lambda>i. ep_can_id (sel ! (i mod length sel))) [0..<length fs]"
    if "rotated sel (zg_wire poller) poller' k" for k
    using that by (auto simp: rotated_def rotation_def)
  have base: "rotated sel (zg_wire poller) poller 0" by (simp add: rotated_def rotation_def)
  show ?thesis
  proof (cases "poller' = poller")
    case True
    with base conclude show ?thesis by blast
  next
    case False
    with assms obtain d slot s' out' s0 where
      "group_loop sel es d start duration slot timeout turns s0 = Some (s', out')"
      "poller' = gp_poller s'" "gp_poller s0 = poller" "gp_next_motor_index s0 = 0"
      unfolding collect_zero_gain_group_position_echo_def Let_def
      by (force split: sum.splits option.splits prod.splits)
    moreover from this(3,4) base have "group_inv sel (zg_wire poller) s0"
      by (auto simp: group_inv_def)
    ultimately have "group_wire sel (zg_wire poller) s'" using group_loop_wire by blast
    with \<open>poller' = gp_poller s'\<close> conclude show ?thesis by (auto simp: group_wire_def)
  qed
qed

definition sample_turns :: "probe_turn list" where
  "sample_turns =
     [\<lparr>pt_keep_running = True, pt_now = Fin 0, pt_sent = Some 72, pt_ready = [], pt_end_clock = Fin 0\<rparr>,
      \<lparr>pt_keep_running = False, pt_now = Fin 0, pt_sent = None, pt_ready = [], pt_end_clock = Fin 0\<rparr>]"

lemma sample_poll:
  "\<exists>c f. encode_zero_gain_position_echo sample_endpoint (Fin 0) = Inr c \<and>
    send_zero_gain_poll (new_zero_gain_poller ''can0'') (ec_can_id c, ec_data c) (Some 72) =
      (\<lparr>zg_interface = ''can0'', zg_wire = [f], zg_tx_attempts = 1\<rparr>, Inr ())"
proof -
  from echo_encodes [OF sample_ranges_form sample_symmetric, of 0] obtain n where
    n: "encode_zero_gain_position_echo sample_endpoint (Fin 0) = Inr \<lparr>ec_motor_name = ''hip'',
      ec_interface = ''can0'', ec_can_id = 1, ec_data = pack_mit n 2047 0 0 2047\<rparr>"
    "0 \<le> n" "n < 2 ^ 16" by (auto simp: sample_endpoint_def)
  then show ?thesis
    by (simp add: send_zero_gain_poll_def standard_id_def validate_zero_gain_mit_payload_def
        pack_mit_fields canfd_pack_wire short_write_check_def length_wire_frame new_zero_gain_poller_def)
qed

lemma sample_probe:
  "\<exists>f out. collect_zero_gain_group_position_echo (\<lambda>_. Fin 0) (new_zero_gain_poller ''can0'')
      [sample_endpoint] [sample_endpoint] (Fin 1) (Fin 100) (Fin 1) (Fin 10) (Fin 1) (Fin 0)
      sample_turns (Fin 0) = Some (\<lparr>zg_interface = ''can0'', zg_wire = [f], zg_tx_attempts = 1\<rparr>, out)"
proof -
  from sample_poll obtain c f where
    c: "encode_zero_gain_position_echo sample_endpoint (Fin 0) = Inr c"
    "send_zero_gain_poll (new_zero_gain_poller ''can0'') (ec_can_id c, ec_data c) (Some 72) =
      (\<lparr>zg_interface = ''can0'', zg_wire = [f], zg_tx_attempts = 1\<rparr>, Inr ())" by blast
  have i: "ep_interface sample_endpoint = zg_interface (new_zero_gain_poller ''can0'')"
    by (simp add: sample_endpoint_def new_zero_gain_poller_def)
  have m: "rnd 100 = Fin 100" using rnd_of_int [of 100] by simp
  show ?thesis
    by (simp add: collect_zero_gain_group_position_echo_def group_checks_def in_range_def i
        sample_decoder m sample_turns_def group_send_def lookup_result_def c stale_motors_def fsub_def Let_def)
qed

theorem group_probe_rotates_zero_gain_witness:
  "\<exists>f out. collect_zero_gain_group_position_echo (\<lambda>_. Fin 0) (new_zero_gain_poller ''can0'')
      [sample_endpoint] [sample_endpoint] (Fin 1) (Fin 100) (Fin 1) (Fin 10) (Fin 1) (Fin 0)
      sample_turns (Fin 0) = Some (\<lparr>zg_interface = ''can0'', zg_wire = [f], zg_tx_attempts = 1\<rparr>, out) \<and>
    frame_target f = 1"
proof -
  from sample_probe obtain f out where
    p: "collect_zero_gain_group_position_echo (\<lambda>_. Fin 0) (new_zero_gain_poller ''can0'')
      [sample_endpoint] [sample_endpoint] (Fin 1) (Fin 100) (Fin 1) (Fin 10) (Fin 1) (Fin 0)
      sample_turns (Fin 0) = Some (\<lparr>zg_interface = ''can0'', zg_wire = [f], zg_tx_attempts = 1\<rparr>, out)"
    by blast
  from group_probe_rotates_zero_gain [OF p] have "frame_target f = 1"
    by (auto simp: new_zero_gain_poller_def sample_endpoint_def)
  with p show ?thesis by blast
qed

section \<open>What a passed group probe says\<close>

definition values_all :: "(feedback \<Rightarrow> bool) \<Rightarrow> (string, feedback list) dict \<Rightarrow> bool" where
  "values_all P d \<longleftrightarrow> (\<forall>(n, vs) \<in> set d. \<forall>f \<in> set vs. fb_motor_name f = n \<and> P f)"

abbreviation values_ok :: "(string, feedback list) dict \<Rightarrow> bool" where
  "values_ok \<equiv> values_all (\<lambda>f. fb_status_code f \<in> {0, 1})"

definition values_inv :: "feedback_endpoint list \<Rightarrow> group_state \<Rightarrow> bool" where
  "values_inv sel s \<longleftrightarrow> keys (gp_values s) = map ep_motor_name sel \<and>
     (gp_errors s = [] \<longrightarrow> values_ok (gp_values s))"

lemma append_value_keys:
  "fb_motor_name fb \<in> fst ` set d \<Longrightarrow> keys (append_value d fb) = keys d"
  by (simp only: append_value_def keys_dict_set_new if_True)

lemma append_value_all:
  assumes "values_all P d" and "P fb"
  shows "values_all P (append_value d fb)"
  unfolding append_value_def values_all_def
proof (rule ball_dict_set)
  show d: "\<forall>(n, vs) \<in> set d. \<forall>f \<in> set vs. fb_motor_name f = n \<and> P f"
    using assms(1) by (simp add: values_all_def)
  show "case (fb_motor_name fb, (case map_of d (fb_motor_name fb) of Some vs \<Rightarrow> vs | None \<Rightarrow> []) @ [fb])
      of (n, vs) \<Rightarrow> \<forall>f \<in> set vs. fb_motor_name f = n \<and> P f"
  proof (cases "map_of d (fb_motor_name fb)")
    case None
    with assms(2) show ?thesis by simp
  next
    case (Some vs)
    from bspec [OF d map_of_SomeD [OF Some]] assms(2) Some show ?thesis by simp
  qed
qed

lemma values_inv_errors: "values_inv sel s \<Longrightarrow> values_inv sel (s\<lparr>gp_errors := gp_errors s @ es\<rparr>)"
  by (simp add: values_inv_def)

lemma values_inv_accept:
  assumes "values_inv sel s" and "fb_motor_name fb \<in> ep_motor_name ` set sel"
  shows "fb_status_code fb \<in> {0, 1} \<Longrightarrow> values_inv sel (s\<lparr>gp_values := append_value (gp_values s) fb,
      gp_targets := x, gp_last_feedback := y\<rparr>)"
    and "values_inv sel (s\<lparr>gp_values := append_value (gp_values s) fb, gp_targets := x,
      gp_last_feedback := y, gp_errors := gp_errors s @ [e]\<rparr>)"
proof -
  from assms(1) have k: "keys (gp_values s) = map ep_motor_name sel" by (simp add: values_inv_def)
  then have "fst ` set (gp_values s) = ep_motor_name ` set sel" by (metis list.set_map)
  with assms(2) k have k': "keys (append_value (gp_values s) fb) = map ep_motor_name sel"
    by (simp add: append_value_keys)
  then show "fb_status_code fb \<in> {0, 1} \<Longrightarrow> values_inv sel (s\<lparr>gp_values := append_value (gp_values s) fb,
      gp_targets := x, gp_last_feedback := y\<rparr>)"
    using assms(1) by (simp add: values_inv_def append_value_all)
  from k' show "values_inv sel (s\<lparr>gp_values := append_value (gp_values s) fb, gp_targets := x,
      gp_last_feedback := y, gp_errors := gp_errors s @ [e]\<rparr>)"
    by (simp add: values_inv_def)
qed

lemma group_send_values:
  "values_inv sel s \<Longrightarrow> values_inv sel (fst (group_send sel' slot now sent s))"
  by (auto simp: group_send_def Let_def values_inv_def split: sum.split prod.split)

lemma group_ready_values:
  "values_inv sel s \<Longrightarrow> values_inv sel (fst (group_ready sel es d rs s))"
proof (induction sel es d rs s rule: group_ready.induct)
  case (1 sel es d s)
  then show ?case by simp
next
  case (2 sel es d err clock rs s)
  then show ?case by (simp add: values_inv_def)
next
  case (3 sel es d frame clock rs s)
  show ?case
  proof (cases "(f_interface frame, f_can_id frame) \<in> command_keys es \<or>
      (f_interface frame, f_can_id frame) \<notin> feedback_keys es")
    case True
    with 3 show ?thesis by (auto simp: Let_def values_inv_errors)
  next
    case False
    show ?thesis
    proof (cases "decoder_decode d frame")
      case (Inl err)
      with False "3.prems" show ?thesis by (simp add: Let_def)
    next
      case (Inr fb)
      show ?thesis
      proof (cases "fb_motor_name fb \<in> ep_motor_name ` set sel \<and> is_fd frame \<and> bit_rate_switch frame")
        case fd: True
        note acc = values_inv_accept [OF "3.prems" conjunct1 [OF fd]]
        from fd acc(1) "3.IH" Inr False show ?thesis
          by (cases "fb_status_code fb \<in> {0, 1}") (simp_all add: Let_def acc(2))
      next
        case other: False
        from other "3.IH" "3.prems" Inr False show ?thesis
          by (cases "fb_motor_name fb \<in> ep_motor_name ` set sel")
            (auto simp: Let_def values_inv_errors)
      qed
    qed
  qed
qed

lemma group_loop_values:
  "group_loop sel es d start duration slot timeout ts s = Some (s', out) \<Longrightarrow> values_inv sel s \<Longrightarrow>
    values_inv sel s'"
proof (induction ts arbitrary: s)
  case Nil
  then show ?case by simp
next
  case (Cons t ts)
  obtain s1 o1 where s1: "group_send sel slot (pt_now t) (pt_sent t) s = (s1, o1)" by fastforce
  have i1: "values_inv sel s1" using group_send_values [OF Cons.prems(2), of sel slot "pt_now t" "pt_sent t"] s1
    by simp
  obtain s2 o2 where s2: "group_ready sel es d (pt_ready t) s1 = (s2, o2)" by fastforce
  have i2: "values_inv sel s2" using group_ready_values [OF i1, of es d "pt_ready t"] s2 by simp
  show ?case
    using Cons.prems s1 s2 Cons.IH [OF _ i2] i1 i2 values_inv_errors [OF i2]
    by (auto simp: Let_def split: sum.splits if_splits)
qed

lemma on_values_lookup: "map_of (on_values f d) n = map_option f (map_of d n)"
  by (simp add: on_values_def map_of_map)

lemma on_values_result_lookup:
  "on_values_result f d = Inr d' \<Longrightarrow> map_of d n = Some vs \<Longrightarrow> \<exists>y. f vs = Inr y \<and> map_of d' n = Some y"
proof (induction d arbitrary: d')
  case Nil
  then show ?case by simp
next
  case (Cons kv d)
  obtain k v where kv: "kv = (k, v)" by fastforce
  from Cons.prems(1) obtain y d1 where y: "f v = Inr y" "on_values_result f d = Inr d1" "d' = (k, y) # d1"
    by (auto simp: on_values_result_def kv rbind_eq_Inr)
  with Cons.prems(2) Cons.IH [OF y(2)] show ?case by (auto simp: kv split: if_splits)
qed

lemma no_samples_no_coverage:
  assumes "coverage_of elapsed rate [] = Inr c" and "flt (Fin 0) minimum"
  shows "\<not> fle minimum c"
proof -
  have "c = Fin 0" using assms(1)
    by (auto simp: coverage_of_def rbind_eq_Inr int_truediv_def fmin_def split: if_splits)
  with assms(2) show ?thesis by (cases minimum) auto
qed

text \<open>A motor with the required coverage has kept feedback.\<close>

lemma covered_motor:
  assumes "on_values_result (coverage_of elapsed rate) d = Inr coverages" and "values_all P d"
    and "name \<in> set (keys d)" and "flt (Fin 0) minimum"
    and "fle minimum (case map_of coverages name of Some c \<Rightarrow> c | None \<Rightarrow> Fin 0)"
  obtains fbs where "map_of d name = Some fbs" and "fbs \<noteq> []" and "list_all P fbs"
proof -
  from assms(3) obtain fbs where fbs: "map_of d name = Some fbs"
    by (metis list.set_map map_of_eq_None_iff not_None_eq)
  from on_values_result_lookup [OF assms(1) fbs] obtain y where
    y: "coverage_of elapsed rate fbs = Inr y" "map_of coverages name = Some y" by blast
  with assms(5) no_samples_no_coverage [OF _ assms(4)] have "fbs \<noteq> []" by auto
  moreover have "list_all P fbs"
    using assms(2) map_of_SomeD [OF fbs] by (auto simp: values_all_def list_all_iff)
  ultimately show thesis using fbs that by blast
qed

text \<open>
  A passed group probe hides nothing: something was sent, every selected motor answered at
  least once, and no accepted answer reported a status other than disabled or enabled.
\<close>

theorem passed_group_probe_is_evidence:
  assumes "collect_zero_gain_group_position_echo py_sum poller sel es duration rate timeout
      max_duration coverage start turns stop = Some (poller', Inr r)"
    and "group_passed r"
  shows "0 < gr_tx_count r \<and> list_all (\<lambda>e. \<exists>n codes.
    map_of (gr_rx_count_by_motor r) (ep_motor_name e) = Some n \<and> 0 < n \<and>
    map_of (gr_status_codes_by_motor r) (ep_motor_name e) = Some codes \<and> set codes \<subseteq> {0, 1}) sel"
proof -
  from assms(1) obtain d slot s s0 where chk: "group_checks poller sel duration rate timeout max_duration coverage = Inr ()"
    and loop: "group_loop sel es d start duration slot timeout turns s0 = Some (s, Inr ())"
    and s0: "gp_values s0 = map (\<lambda>n. (n, [])) (map ep_motor_name sel)" "gp_errors s0 = []"
    and rep: "group_report_of py_sum sel duration rate coverage (fsub stop start) s = Inr r"
    unfolding collect_zero_gain_group_position_echo_def Let_def
    by (force simp: rbind_eq_Inr rbind_eq_Inl split: sum.splits option.splits prod.splits)
  from chk have cov: "in_range coverage (Fin 1)" by (auto simp: group_checks_def split: if_splits)
  have "values_inv sel s0" by (simp add: values_inv_def s0 values_all_def comp_def)
  with loop have inv: "values_inv sel s" by (rule group_loop_values)
  from rep obtain coverages where c: "on_values_result (coverage_of (fsub stop start) rate) (gp_values s) = Inr coverages"
    "gr_errors r = gp_errors s" "gr_motor_names r = map ep_motor_name sel"
    "gr_sample_coverage_by_motor r = coverages" "gr_minimum_sample_coverage r = coverage"
    "gr_rx_count_by_motor r = on_values length (gp_values s)"
    "gr_status_codes_by_motor r = on_values (sorted_set \<circ> map fb_status_code) (gp_values s)"
    by (auto simp: group_report_of_def rbind_eq_Inr Let_def)
  from assms(2) c(2) inv have ok: "values_ok (gp_values s)" and keys: "keys (gp_values s) = map ep_motor_name sel"
    by (auto simp: group_passed_def values_inv_def)
  have "\<exists>n codes. map_of (gr_rx_count_by_motor r) (ep_motor_name e) = Some n \<and> 0 < n \<and>
    map_of (gr_status_codes_by_motor r) (ep_motor_name e) = Some codes \<and> set codes \<subseteq> {0, 1}"
    if e: "e \<in> set sel" for e
  proof -
    have name: "ep_motor_name e \<in> set (keys (gp_values s))" using e keys by simp
    from assms(2) e c(3,4,5)
    have "fle coverage (case map_of coverages (ep_motor_name e) of Some c \<Rightarrow> c | None \<Rightarrow> Fin 0)"
      by (auto simp: group_passed_def list_all_iff)
    with covered_motor [OF c(1) ok name] cov obtain fbs where "map_of (gp_values s) (ep_motor_name e) = Some fbs"
      "fbs \<noteq> []" "list_all (\<lambda>f. fb_status_code f \<in> {0, 1}) fbs" by (auto simp: in_range_def)
    then show ?thesis by (auto simp: c(6,7) on_values_lookup list_all_iff)
  qed
  then show ?thesis using assms(2) by (simp add: list_all_iff group_passed_def)
qed

definition answered_turns :: "probe_turn list" where
  "answered_turns = (case sample_turns of t # ts \<Rightarrow>
     t\<lparr>pt_ready := [(Inr (sample_feedback_frame\<lparr>hardware_timestamp_ns := 6\<rparr>), Fin 0)]\<rparr> # ts | [] \<Rightarrow> [])"

lemma answered_probe:
  "\<exists>p r. collect_zero_gain_group_position_echo (\<lambda>_. Fin 0) (new_zero_gain_poller ''can0'')
      [sample_endpoint] [sample_endpoint] (Fin 1) (Fin 100) (Fin 1) (Fin 10) (Fin 1) (Fin 0)
      answered_turns (Fin 0) = Some (p, Inr r) \<and> group_passed r"
proof -
  from sample_poll obtain c f where
    c: "encode_zero_gain_position_echo sample_endpoint (Fin 0) = Inr c"
    "send_zero_gain_poll (new_zero_gain_poller ''can0'') (ec_can_id c, ec_data c) (Some 72) =
      (\<lparr>zg_interface = ''can0'', zg_wire = [f], zg_tx_attempts = 1\<rparr>, Inr ())" by blast
  have e: "ep_interface sample_endpoint = zg_interface (new_zero_gain_poller ''can0'')"
    "ep_motor_name sample_endpoint = ''hip''"
    "command_keys [sample_endpoint] = {(''can0'', 1)}" "feedback_keys [sample_endpoint] = {(''can0'', 17)}"
    by (simp_all add: sample_endpoint_def new_zero_gain_poller_def command_keys_def feedback_keys_def)
  have fr: "f_interface (sample_feedback_frame\<lparr>hardware_timestamp_ns := 6\<rparr>) = ''can0''"
    "f_can_id (sample_feedback_frame\<lparr>hardware_timestamp_ns := 6\<rparr>) = 17"
    "is_fd (sample_feedback_frame\<lparr>hardware_timestamp_ns := 6\<rparr>)"
    "bit_rate_switch (sample_feedback_frame\<lparr>hardware_timestamp_ns := 6\<rparr>)"
    by (simp_all add: sample_feedback_frame_def)
  have fb: "fb_motor_name (sample_feedback 6) = ''hip''" "fb_status_code (sample_feedback 6) = 1"
    by (simp_all add: sample_feedback_def)
  have m: "rnd 100 = Fin 100" using rnd_of_int [of 100] by simp
  show ?thesis
    by (simp add: collect_zero_gain_group_position_echo_def group_checks_def in_range_def e
        sample_decoder m answered_turns_def sample_turns_def group_send_def lookup_result_def c
        stale_motors_def fsub_def Let_def fr sample_decoded fb append_value_def group_report_of_def
        on_values_result_def coverage_of_def mean_option_def fint_def rtrunc_def int_truediv_def
        float_of_int_def fmin_def group_passed_def)
qed

theorem passed_group_probe_is_evidence_witness:
  "\<exists>p r n. collect_zero_gain_group_position_echo (\<lambda>_. Fin 0) (new_zero_gain_poller ''can0'')
      [sample_endpoint] [sample_endpoint] (Fin 1) (Fin 100) (Fin 1) (Fin 10) (Fin 1) (Fin 0)
      answered_turns (Fin 0) = Some (p, Inr r) \<and>
    map_of (gr_rx_count_by_motor r) ''hip'' = Some n \<and> 0 < n"
proof -
  from answered_probe obtain p r where
    r: "collect_zero_gain_group_position_echo (\<lambda>_. Fin 0) (new_zero_gain_poller ''can0'')
      [sample_endpoint] [sample_endpoint] (Fin 1) (Fin 100) (Fin 1) (Fin 10) (Fin 1) (Fin 0)
      answered_turns (Fin 0) = Some (p, Inr r)" "group_passed r" by blast
  from passed_group_probe_is_evidence [OF r] have
    "\<exists>n. map_of (gr_rx_count_by_motor r) ''hip'' = Some n \<and> 0 < n"
    by (auto simp: sample_endpoint_def)
  with r(1) show ?thesis by blast
qed

end
