(* ===== verification/FullBodySafety.thy ===== *)
theory FullBodySafety
  imports FullBody ProbeSafety
begin

text \<open>
  What the probe of the whole robot puts on its buses and what its passed report says: each bus sees only
  zero-gain frames, in a fixed rotation over its motors and at most sixteen in a turn, and a passed report
  means that every motor answered and was disabled, that every bus was driven and that the IMU was heard.
\<close>

section \<open>One bus\<close>

lemma rotated_poll:
  assumes "send_zero_gain_poll p (i, data) n = (p', out)" and "rotated sel w0 p k"
    and "i = ep_can_id (sel ! (k mod length sel))"
  shows "rotated sel w0 p' k \<or> rotated sel w0 p' (Suc k)"
    and "out = Inr () \<Longrightarrow> rotated sel w0 p' (Suc k)"
    and "out = Inl OSError \<Longrightarrow> p' = p"
proof -
  show "rotated sel w0 p' k \<or> rotated sel w0 p' (Suc k)"
    using poll_cases [of p i data n] assms(1) rotated_add [OF assms(2)] assms(2,3) by auto
  show "rotated sel w0 p' (Suc k)" if "out = Inr ()"
    using poll_success [of p i data n p'] assms(1) rotated_add [OF assms(2)] assms(3) that by auto
  show "p' = p" if "out = Inl OSError"
    using poll_oserror [of p i data n p'] assms(1) that by simp
qed

text \<open>The constant fields of a bus, and what it has sent: \<open>k\<close> frames, and the next one is due to item \<open>k\<close>.\<close>

definition same_bus :: "bus \<Rightarrow> bus \<Rightarrow> bool" where
  "same_bus b b' \<longleftrightarrow> bu_interface b' = bu_interface b \<and> bu_items b' = bu_items b"

definition bus_wire :: "bytes list \<Rightarrow> nat \<Rightarrow> bus \<Rightarrow> bool" where
  "bus_wire w0 k b \<longleftrightarrow> rotated (bu_items b) w0 (bu_poller b) k"

definition bus_inv :: "bytes list \<Rightarrow> nat \<Rightarrow> bus \<Rightarrow> bool" where
  "bus_inv w0 k b \<longleftrightarrow> bus_wire w0 k b \<and> bu_next_index b = k mod length (bu_items b)"

lemma bus_send_cases [consumes 2, case_names idle failed raised sent]:
  assumes "bus_send targets now sent (Suc n) b = (b', out)" and "bus_inv w0 k b"
  obtains (idle) "b' = b" and "out = Inr (Suc n, [])"
  | (failed) errors where "b' = b" and "out = Inr (Suc n, errors)" and "errors \<noteq> []"
  | (raised) err j where "out = Inl err" and "same_bus b b'" and "bus_wire w0 j b'" and "k \<le> j" and "j \<le> Suc k"
  | (sent) b1 where "same_bus b b1" and "bus_inv w0 (Suc k) b1" and "bus_send targets now sent n b1 = (b', out)"
proof (cases "fle (bu_next_send b) now")
  case False
  with assms(1) idle show ?thesis by simp
next
  case True
  let ?e = "bu_items b ! bu_next_index b"
  from assms(2) have k: "rotated (bu_items b) w0 (bu_poller b) k"
    "bu_next_index b = k mod length (bu_items b)" by (simp_all add: bus_inv_def bus_wire_def)
  show ?thesis
  proof (cases "rbind (lookup_result targets (ep_motor_name ?e)) (encode_zero_gain_position_echo ?e)")
    case (Inl err)
    with True assms(1) k(1) raised [of err k] show ?thesis by (simp add: Let_def same_bus_def bus_wire_def)
  next
    case (Inr c)
    then have c: "ec_can_id c = ep_can_id (bu_items b ! (k mod length (bu_items b)))"
      using k(2) by (auto simp: rbind_eq_Inr dest: echo_can_id)
    obtain p r where p: "send_zero_gain_poll (bu_poller b) (ec_can_id c, ec_data c) (sent n) = (p, r)" by fastforce
    note step = rotated_poll [OF p k(1) c]
    show ?thesis
    proof (cases r)
      case (Inr u)
      let ?b = "b\<lparr>bu_poller := p, bu_next_index := (bu_next_index b + 1) mod length (bu_items b),
        bu_next_send := fadd (bu_next_send b) (bu_slot b)\<rparr>"
      have "bus_send targets now sent n ?b = (b', out)"
        using assms(1) True p Inr \<open>rbind _ _ = Inr c\<close> by (simp add: Let_def)
      moreover have "same_bus b ?b" "bus_inv w0 (Suc k) ?b"
        using step(2) Inr k(2) by (simp_all add: same_bus_def bus_inv_def bus_wire_def mod_Suc_eq)
      ultimately show ?thesis by (rule sent [rotated 2])
    next
      case (Inl err)
      show ?thesis
      proof (cases "err = OSError")
        case oserror: True
        with step(3) Inl have "p = bu_poller b" by simp
        with assms(1) True p Inl oserror \<open>rbind _ _ = Inr c\<close>
        have "b' = b \<and> (\<exists>errors. out = Inr (Suc n, errors) \<and> errors \<noteq> [])" by (auto simp: Let_def)
        with failed show ?thesis by blast
      next
        case False
        with assms(1) True p Inl \<open>rbind _ _ = Inr c\<close> have "out = Inl err" "b' = b\<lparr>bu_poller := p\<rparr>"
          by (simp_all add: Let_def)
        with step(1) raised [of err k] raised [of err "Suc k"] show ?thesis
          by (auto simp: same_bus_def bus_wire_def)
      qed
    qed
  qed
qed

lemma bus_send_wire:
  "bus_send targets now sent n b = (b', out) \<Longrightarrow> bus_inv w0 k b \<Longrightarrow> same_bus b b' \<and>
    (\<exists>j. k \<le> j \<and> j \<le> k + n \<and> bus_wire w0 j b' \<and> (isl out \<or> bus_inv w0 j b'))"
proof (induction n arbitrary: b k)
  case 0
  then show ?case by (auto simp: same_bus_def bus_inv_def)
next
  case (Suc n)
  from Suc.prems show ?case
  proof (cases rule: bus_send_cases)
    case (sent b1)
    from Suc.IH [OF sent(3,2)] obtain j where "same_bus b1 b'" "Suc k \<le> j" "j \<le> Suc k + n" "bus_wire w0 j b'"
      "isl out \<or> bus_inv w0 j b'" by blast
    with sent(1) show ?thesis by (intro conjI exI [of _ j]) (auto simp: same_bus_def)
  qed (use Suc.prems(2) in \<open>auto simp: same_bus_def bus_inv_def intro: exI [of _ k]\<close>)
qed

section \<open>All buses\<close>

text \<open>
  After at most \<open>n\<close> sends of each bus: every bus belongs to a poller, in order, and its rotation holds;
  \<open>buses_ready\<close> also says which endpoint is next.
\<close>

definition sent_at_most ::
  "(bytes list \<Rightarrow> nat \<Rightarrow> bus \<Rightarrow> bool) \<Rightarrow> feedback_endpoint list \<Rightarrow> nat \<Rightarrow> string \<times> zero_gain_poller \<Rightarrow> bus \<Rightarrow> bool" where
  "sent_at_most I sel n p b \<longleftrightarrow> bu_interface b = fst p \<and> bu_items b = on_interface sel (fst p) \<and>
     (\<exists>k\<le>n. I (zg_wire (snd p)) k b)"

abbreviation buses_wire ::
  "feedback_endpoint list \<Rightarrow> (string, zero_gain_poller) dict \<Rightarrow> nat \<Rightarrow> bus list \<Rightarrow> bool" where
  "buses_wire sel ps n \<equiv> list_all2 (sent_at_most bus_wire sel n) ps"

abbreviation buses_ready ::
  "feedback_endpoint list \<Rightarrow> (string, zero_gain_poller) dict \<Rightarrow> nat \<Rightarrow> bus list \<Rightarrow> bool" where
  "buses_ready sel ps n \<equiv> list_all2 (sent_at_most bus_inv sel n) ps"

lemma sent_at_most_le: "sent_at_most I sel n p b \<Longrightarrow> n \<le> m \<Longrightarrow> sent_at_most I sel m p b"
  unfolding sent_at_most_def by (meson le_trans)

lemma sent_at_most_weaken:
  "sent_at_most bus_inv sel n p b \<Longrightarrow> n \<le> m \<Longrightarrow> sent_at_most bus_wire sel m p b"
  by (auto simp: sent_at_most_def bus_inv_def intro: le_trans)

lemma buses_ready_wire: "buses_ready sel ps n bs \<Longrightarrow> n \<le> m \<Longrightarrow> buses_wire sel ps m bs"
  by (erule list_all2_mono) (rule sent_at_most_weaken)

lemma bus_send_at_most:
  assumes "sent_at_most bus_inv sel n p b" and "bus_send targets now sent m b = (b', out)"
  shows "sent_at_most bus_wire sel (n + m) p b'"
    and "out = Inr r \<Longrightarrow> sent_at_most bus_inv sel (n + m) p b'"
proof -
  from assms(1) obtain k where k: "k \<le> n" "bus_inv (zg_wire (snd p)) k b" by (auto simp: sent_at_most_def)
  from bus_send_wire [OF assms(2) k(2)] obtain j where j: "same_bus b b'" "j \<le> k + m"
    "bus_wire (zg_wire (snd p)) j b'" "isl out \<or> bus_inv (zg_wire (snd p)) j b'" by blast
  with k(1) have "j \<le> n + m" by simp
  with j assms(1) show "sent_at_most bus_wire sel (n + m) p b'" "out = Inr r \<Longrightarrow> sent_at_most bus_inv sel (n + m) p b'"
    by (auto simp: sent_at_most_def same_bus_def)
qed

lemma drop_backlog_at_most: "sent_at_most bus_inv sel n p (drop_backlog now left b) = sent_at_most bus_inv sel n p b"
  "sent_at_most bus_wire sel n p (drop_backlog now left b) = sent_at_most bus_wire sel n p b"
  by (simp_all add: drop_backlog_def sent_at_most_def bus_inv_def bus_wire_def)

lemma buses_send_at_most:
  assumes "buses_ready sel ps n bs" and "buses_send targets now sent bs = (bs', out)"
  shows "buses_wire sel ps (n + 16) bs' \<and> (out = Inr [] \<longrightarrow> buses_ready sel ps (n + 16) bs')"
  using assms
proof (induction ps bs arbitrary: bs' out rule: list_all2_induct)
  case Nil
  then show ?case by simp
next
  case (Cons p ps b bs)
  obtain b1 o1 where b1: "bus_send targets now (sent (bu_interface b)) 16 b = (b1, o1)" by fastforce
  note wire = bus_send_at_most(1) [OF Cons.hyps(1) b1] and idx = bus_send_at_most(2) [OF Cons.hyps(1) b1]
  have rest: "buses_wire sel ps (n + 16) bs" using Cons.hyps(2) by (rule buses_ready_wire) simp
  obtain bs2 o2 where bs2: "buses_send targets now sent bs = (bs2, o2)" by fastforce
  from Cons.prems b1 bs2 wire idx rest Cons.IH [OF bs2] show ?case
    by (auto split: sum.splits if_splits simp: drop_backlog_at_most intro: sent_at_most_weaken)
qed

section \<open>The loop\<close>

lemma body_updates: "bd_buses (body_error m s) = bd_buses s" "bd_buses (body_accept fb clock s) = bd_buses s"
  "bd_buses (imu_read payload clock s) = bd_buses s"
  by (simp_all add: body_error_def body_accept_def imu_read_def split: prod.split)

lemma can_drain_buses: "bd_buses (fst (can_drain sel d rs s)) = bd_buses s"
  by (induction sel d rs s rule: can_drain.induct)
    (auto simp: Let_def body_updates split: sum.split if_splits)

lemma body_ready_buses: "bd_buses (fst (body_ready sel d events s)) = bd_buses s"
proof (induction sel d events s rule: body_ready.induct)
  case (4 sel d outcomes events s)
  then show ?case using can_drain_buses [of sel d "take 64 outcomes" s] by (auto split: prod.split sum.split)
qed (simp_all add: body_updates)

lemma body_loop_wire:
  "body_loop sel d start duration timeout ts s = Some (s', out) \<Longrightarrow> buses_ready sel' ps n (bd_buses s) \<Longrightarrow>
    buses_wire sel' ps (n + 16 * length ts) (bd_buses s')"
proof (induction ts arbitrary: s n)
  case Nil
  then show ?case by simp
next
  case (Cons t ts)
  show ?case
  proof (cases "bt_keep_running t \<and> \<not> fle duration (fsub (bt_now t) start)")
    case False
    with Cons.prems buses_ready_wire [OF Cons.prems(2)] show ?thesis by (auto split: if_splits)
  next
    case True
    obtain bs o1 where bs: "buses_send (bd_targets s) (bt_now t) (bt_sent t) (bd_buses s) = (bs, o1)" by fastforce
    note sent = buses_send_at_most [OF Cons.prems(2) bs]
    have late: "buses_wire sel' ps (n + 16 * length (t # ts)) bs"
      using conjunct1 [OF sent] by (rule list_all2_mono) (erule sent_at_most_le, simp)
    show ?thesis
    proof (cases "o1 = Inr [] \<and> bd_errors s = []")
      case False
      with Cons.prems(1) True bs late show ?thesis by (auto simp: Let_def split: sum.splits if_splits)
    next
      case ok: True
      let ?s1 = "s\<lparr>bd_buses := bs, bd_errors := []\<rparr>"
      obtain s2 o2 where s2: "body_ready sel d (bt_ready t) ?s1 = (s2, o2)" by fastforce
      then have same: "bd_buses s2 = bs" using body_ready_buses [of sel d "bt_ready t" ?s1] by simp
      show ?thesis
        using Cons.prems(1) True bs ok s2 late same Cons.IH [of s2 "n + 16"] sent
        by (auto simp: Let_def body_updates add.assoc split: sum.splits if_splits)
    qed
  qed
qed

lemma new_buses_ready:
  "new_buses sel rate start ps = Inr bs \<Longrightarrow> buses_ready sel ps 0 bs \<and> bus_pollers bs = ps"
  by (induction ps arbitrary: bs)
    (auto simp: new_buses_def bus_pollers_def rbind_eq_Inr sent_at_most_def bus_inv_def bus_wire_def
      rotated_def rotation_def Let_def)

lemma collect_body_cases:
  assumes "collect_full_body_shadow pollers sel readable duration rate timeout coverage imu_rate start turns stop
      = Some (pollers', out)"
  obtains (refused) err where "pollers' = pollers" and "out = Inl err"
  | (ran) d imu bs s s' out' where
      "body_checks sel readable duration rate timeout coverage imu_rate = Inr ()"
      and "poller_checks sel pollers = Inr ()" and "interface_check sel pollers = Inr ()"
      and "new_stream_decoder 64 = Inr imu" and "new_buses sel rate start pollers = Inr bs"
      and "body_loop sel d start duration timeout turns s = Some (s', out')"
      and "s = \<lparr>bd_buses = bs, bd_targets = map (\<lambda>n. (n, Fin 0)) (map ep_motor_name sel),
        bd_values = map (\<lambda>n. (n, [])) (map ep_motor_name sel),
        bd_last_feedback = map (\<lambda>n. (n, start)) (map ep_motor_name sel),
        bd_last_imu = start, bd_imu_decoder = imu, bd_imu_raw = 0, bd_imu_quaternion = 0,
        bd_discarded = 0, bd_errors = []\<rparr>"
      and "pollers' = bus_pollers (bd_buses s')"
      and "out = rbind out' (\<lambda>_. body_report_of sel duration rate coverage imu_rate (fsub stop start) s')"
proof (cases "rbind (body_checks sel readable duration rate timeout coverage imu_rate) (\<lambda>_.
    rbind (poller_checks sel pollers) (\<lambda>_. rbind (interface_check sel pollers) (\<lambda>_.
    rbind (new_feedback_decoder sel) (\<lambda>d. rbind (new_stream_decoder 64) (\<lambda>imu.
    rbind (new_buses sel rate start pollers) (\<lambda>bs. Inr (d, imu, bs)))))))")
  case (Inl err)
  with assms show ?thesis by (intro refused [of err]) (simp_all add: collect_full_body_shadow_def)
next
  case (Inr r)
  then obtain d imu bs where r: "r = (d, imu, bs)" by (cases r) auto
  with Inr have "body_checks sel readable duration rate timeout coverage imu_rate = Inr ()"
    "poller_checks sel pollers = Inr ()" "interface_check sel pollers = Inr ()"
    "new_stream_decoder 64 = Inr imu" "new_buses sel rate start pollers = Inr bs"
    by (auto simp: rbind_eq_Inr)
  note made = this
  from assms [unfolded collect_full_body_shadow_def Inr r] ran [OF made] show ?thesis
    by (auto simp: Let_def split: option.splits prod.splits sum.splits)
qed

section \<open>Turn by turn\<close>

text \<open>What one turn may add to the wire of a bus: at most sixteen frames after those already sent.\<close>

definition appends_at_most :: "nat \<Rightarrow> string \<times> zero_gain_poller \<Rightarrow> string \<times> zero_gain_poller \<Rightarrow> bool" where
  "appends_at_most n p p' \<longleftrightarrow> fst p' = fst p \<and>
     (\<exists>fs. zg_wire (snd p') = zg_wire (snd p) @ fs \<and> length fs \<le> n)"

definition bus_appends :: "nat \<Rightarrow> bus \<Rightarrow> bus \<Rightarrow> bool" where
  "bus_appends n b b' \<longleftrightarrow> appends_at_most n (bu_interface b, bu_poller b) (bu_interface b', bu_poller b')"

lemma appends_none [simp, intro]: "appends_at_most n p p" "bus_appends n b b"
  by (simp_all add: appends_at_most_def bus_appends_def)

lemma appends_bus_pollers:
  "list_all2 (appends_at_most n) (bus_pollers bs) (bus_pollers bs') \<longleftrightarrow> list_all2 (bus_appends n) bs bs'"
  by (simp add: bus_pollers_def list_all2_map1 list_all2_map2 bus_appends_def [abs_def])

lemma appends_pairs:
  "appends_at_most n = (\<lambda>(i, p) (i', p'). i' = i \<and> (\<exists>fs. zg_wire p' = zg_wire p @ fs \<and> length fs \<le> n))"
  by (auto simp: appends_at_most_def fun_eq_iff)

lemma poll_appends:
  "send_zero_gain_poll p cmd n = (p', out) \<Longrightarrow> zg_wire p' = zg_wire p \<or> (\<exists>f. zg_wire p' = zg_wire p @ [f])"
  using poll_cases [of p "fst cmd" "snd cmd" n] by auto

lemma bus_appends_trans: "bus_appends m a b \<Longrightarrow> bus_appends n b c \<Longrightarrow> bus_appends (m + n) a c"
  unfolding bus_appends_def appends_at_most_def by auto

lemma bus_send_appends: "bus_send targets now sent n b = (b', out) \<Longrightarrow> bus_appends n b b'"
proof (induction n arbitrary: b)
  case 0
  then show ?case by simp
next
  case (Suc n)
  let ?e = "bu_items b ! bu_next_index b"
  show ?case
  proof (cases "fle (bu_next_send b) now \<and>
      \<not> isl (rbind (lookup_result targets (ep_motor_name ?e)) (encode_zero_gain_position_echo ?e))")
    case False
    with Suc.prems show ?thesis by (auto simp: Let_def isl_def split: if_splits sum.splits)
  next
    case True
    then obtain c where c: "fle (bu_next_send b) now"
      "rbind (lookup_result targets (ep_motor_name ?e)) (encode_zero_gain_position_echo ?e) = Inr c"
      by (auto simp: isl_def) (metis sum.exhaust)
    obtain p r where p: "send_zero_gain_poll (bu_poller b) (ec_can_id c, ec_data c) (sent n) = (p, r)" by fastforce
    from poll_appends [OF p] obtain fs where fs: "zg_wire p = zg_wire (bu_poller b) @ fs" "length fs \<le> 1" by force
    show ?thesis
    proof (cases r)
      case (Inl err)
      with Suc.prems c p have "bu_interface b' = bu_interface b" "bu_poller b' = p" by (auto simp: Let_def split: if_splits)
      with fs show ?thesis by (simp add: bus_appends_def appends_at_most_def)
    next
      case (Inr u)
      let ?b = "b\<lparr>bu_poller := p, bu_next_index := (bu_next_index b + 1) mod length (bu_items b),
        bu_next_send := fadd (bu_next_send b) (bu_slot b)\<rparr>"
      have "bus_send targets now sent n ?b = (b', out)" using Suc.prems c p Inr by (simp add: Let_def)
      from Suc.IH [OF this] have "bus_appends n ?b b'" .
      moreover from fs have "bus_appends 1 b ?b" by (simp add: bus_appends_def appends_at_most_def)
      ultimately have "bus_appends (1 + n) b b'" by (rule bus_appends_trans [rotated])
      then show ?thesis by simp
    qed
  qed
qed

lemma drop_backlog_appends [simp]: "bus_appends n b (drop_backlog now left b') = bus_appends n b b'"
  by (simp add: drop_backlog_def bus_appends_def)

lemma buses_send_appends:
  "buses_send targets now sent bs = (bs', out) \<Longrightarrow> list_all2 (bus_appends 16) bs bs'"
proof (induction bs arbitrary: bs' out)
  case Nil
  then show ?case by simp
next
  case (Cons b bs)
  obtain b1 o1 where b1: "bus_send targets now (sent (bu_interface b)) 16 b = (b1, o1)" by fastforce
  obtain bs2 o2 where bs2: "buses_send targets now sent bs = (bs2, o2)" by fastforce
  have same: "list_all2 (bus_appends 16) bs bs" by (rule list_all2_refl) simp
  from Cons.prems b1 bs2 bus_send_appends [OF b1] Cons.IH [OF bs2] same show ?case
    by (auto split: sum.splits if_splits)
qed

text \<open>
  One turn of the loop ends the run, whatever turns would follow, or hands its state to the next turn; either
  way a bus has at most sixteen more frames on its wire.
\<close>

definition turn_outcome ::
  "(body_turn list \<Rightarrow> body_state \<Rightarrow> (body_state \<times> 'o) option) \<Rightarrow> (body_turn list \<Rightarrow> (body_state \<times> 'o) option)
     \<Rightarrow> body_state \<Rightarrow> bool" where
  "turn_outcome loop turn s \<longleftrightarrow> (\<exists>s'. list_all2 (bus_appends 16) (bd_buses s) (bd_buses s') \<and>
     ((\<exists>o'. \<forall>ts. turn ts = Some (s', o')) \<or> (\<forall>ts. turn ts = loop ts s')))"

lemma turn_over: "list_all2 (bus_appends 16) (bd_buses s) (bd_buses s') \<Longrightarrow> turn_outcome loop (\<lambda>_. Some (s', o')) s"
  unfolding turn_outcome_def by blast

lemma turn_on: "list_all2 (bus_appends 16) (bd_buses s) (bd_buses s') \<Longrightarrow> turn_outcome loop (\<lambda>ts. loop ts s') s"
  unfolding turn_outcome_def by blast

lemma turn_if: "turn_outcome loop (\<lambda>ts. if c then f ts else g ts) s =
    (if c then turn_outcome loop f s else turn_outcome loop g s)"
  by simp

lemma body_loop_turn:
  "turn_outcome (body_loop sel d start duration timeout) (\<lambda>ts. body_loop sel d start duration timeout (t # ts) s) s"
proof -
  obtain bs o1 where bs: "buses_send (bd_targets s) (bt_now t) (bt_sent t) (bd_buses s) = (bs, o1)" by fastforce
  note grown = buses_send_appends [OF bs]
  have same: "list_all2 (bus_appends 16) (bd_buses s) (bd_buses s)" by (rule list_all2_refl) simp
  show ?thesis
  proof (cases "\<not> bt_keep_running t \<or> fle duration (fsub (bt_now t) start)")
    case True
    then have "(\<lambda>ts. body_loop sel d start duration timeout (t # ts) s) = (\<lambda>_. Some (s, Inr ()))" by auto
    with turn_over [OF same] show ?thesis by simp
  next
    case go: False
    show ?thesis
    proof (cases o1)
      case (Inl err)
      with go grown bs show ?thesis by (simp add: turn_over)
    next
      case (Inr es)
      obtain s2 o2 where s2: "body_ready sel d (bt_ready t) (s\<lparr>bd_buses := bs, bd_errors := bd_errors s @ es\<rparr>) = (s2, o2)"
        by fastforce
      then have "bd_buses s2 = bs"
        using body_ready_buses [of sel d "bt_ready t" "s\<lparr>bd_buses := bs, bd_errors := bd_errors s @ es\<rparr>"] by simp
      with grown bs Inr s2 go show ?thesis
        by (cases "bd_errors s = [] \<and> es = []"; cases o2) (auto simp: Let_def turn_if body_updates turn_over turn_on)
    qed
  qed
qed

lemma body_loop_cut:
  assumes "\<not> bt_keep_running halt"
  shows "\<exists>r r'. body_loop sel d start duration timeout (take n ts @ [halt]) s = Some r \<and>
    body_loop sel d start duration timeout (take (Suc n) ts @ [halt]) s = Some r' \<and>
    list_all2 (bus_appends 16) (bd_buses (fst r)) (bd_buses (fst r'))"
proof (induction ts arbitrary: n s)
  case Nil
  with assms show ?case by (auto intro: list_all2_refl)
next
  case (Cons t ts)
  from body_loop_turn [of sel d start duration timeout t s]
  consider s' o' where "list_all2 (bus_appends 16) (bd_buses s) (bd_buses s')"
      "\<And>us. body_loop sel d start duration timeout (t # us) s = Some (s', o')"
    | s' where "list_all2 (bus_appends 16) (bd_buses s) (bd_buses s')"
      "\<And>us. body_loop sel d start duration timeout (t # us) s = body_loop sel d start duration timeout us s'"
    unfolding turn_outcome_def by blast
  moreover have halted: "body_loop sel d start duration timeout [halt] s = Some (s, Inr ())" for s using assms by simp
  ultimately show ?case
  proof cases
    case 1
    with halted show ?thesis by (cases n) (auto simp del: body_loop.simps(2) intro: list_all2_refl)
  next
    case 2
    with halted Cons.IH [of "n - 1" s'] show ?thesis by (cases n) (auto simp del: body_loop.simps(2))
  qed
qed

lemma body_loop_append:
  "body_loop sel d start duration timeout ts s = Some r \<Longrightarrow> body_loop sel d start duration timeout (ts @ us) s = Some r"
proof (induction ts arbitrary: s)
  case Nil
  then show ?case by simp
next
  case (Cons t ts)
  from body_loop_turn [of sel d start duration timeout t s] Cons show ?case
    unfolding turn_outcome_def by (auto simp del: body_loop.simps(2))
qed

text \<open>
  The pollers after \<open>n\<close> turns of a run: the same run, stopped by \<open>keep_running\<close> at the turn after.
\<close>

definition pollers_after :: "(body_turn list \<Rightarrow> ('p \<times> 'r) option) \<Rightarrow> body_turn list \<Rightarrow> body_turn \<Rightarrow> nat \<Rightarrow> 'p option" where
  "pollers_after run turns halt n = map_option fst (run (take n turns @ [halt]))"

lemma collect_body_refused:
  assumes "collect_full_body_shadow pollers sel readable duration rate timeout coverage imu_rate start [] stop \<noteq> None"
  shows "\<exists>err. \<forall>ts. collect_full_body_shadow pollers sel readable duration rate timeout coverage imu_rate start ts stop =
    Some (pollers, Inl err)"
  using assms by (auto simp: collect_full_body_shadow_def Let_def split: sum.splits)

lemma collect_body_ran:
  assumes "collect_full_body_shadow pollers sel readable duration rate timeout coverage imu_rate start [] stop = None"
  shows "\<exists>d s. bus_pollers (bd_buses s) = pollers \<and>
    (\<forall>ts. collect_full_body_shadow pollers sel readable duration rate timeout coverage imu_rate start ts stop =
      map_option (\<lambda>(s', out). (bus_pollers (bd_buses s'), rbind out (\<lambda>_.
        body_report_of sel duration rate coverage imu_rate (fsub stop start) s')))
        (body_loop sel d start duration timeout ts s))"
proof -
  let ?made = "rbind (body_checks sel readable duration rate timeout coverage imu_rate) (\<lambda>_.
    rbind (poller_checks sel pollers) (\<lambda>_. rbind (interface_check sel pollers) (\<lambda>_.
    rbind (new_feedback_decoder sel) (\<lambda>d. rbind (new_stream_decoder 64) (\<lambda>imu.
    rbind (new_buses sel rate start pollers) (\<lambda>bs. Inr (d, imu, bs)))))))"
  from assms obtain d imu bs where made: "?made = Inr (d, imu, bs)"
    by (auto simp: collect_full_body_shadow_def split: sum.splits)
  then have "bus_pollers bs = pollers" by (auto simp: rbind_eq_Inr dest: new_buses_ready)
  then show ?thesis unfolding collect_full_body_shadow_def made
    by (intro exI [of _ d] exI [of _ "\<lparr>bd_buses = bs, bd_targets = map (\<lambda>n. (n, Fin 0)) (map ep_motor_name sel),
        bd_values = map (\<lambda>n. (n, [])) (map ep_motor_name sel),
        bd_last_feedback = map (\<lambda>n. (n, start)) (map ep_motor_name sel),
        bd_last_imu = start, bd_imu_decoder = imu, bd_imu_raw = 0, bd_imu_quaternion = 0,
        bd_discarded = 0, bd_errors = []\<rparr>"])
      (simp add: Let_def split: option.split sum.split)
qed

lemma body_run_rotates:
  assumes "collect_full_body_shadow pollers sel readable duration rate timeout coverage imu_rate start turns stop
      = Some (pollers', out)"
  shows "list_all2 (\<lambda>(i, p) (i', p'). i' = i \<and> (\<exists>fs. zg_wire p' = zg_wire p @ fs \<and>
    length fs \<le> 16 * length turns \<and> list_all zero_gain_frame fs \<and>
    map frame_target fs =
      map (\<lambda>k. ep_can_id (on_interface sel i ! (k mod length (on_interface sel i)))) [0..<length fs]))
    pollers pollers'"
  using assms
proof (cases rule: collect_body_cases)
  case (refused err)
  then show ?thesis by (auto intro!: list_all2_refl)
next
  case (ran d imu bs s s' out')
  from new_buses_ready [OF ran(5)] ran(7) have "buses_ready sel pollers 0 (bd_buses s)" by simp
  from body_loop_wire [OF ran(6) this] have "buses_wire sel pollers (16 * length turns) (bd_buses s')" by simp
  then show ?thesis unfolding ran(8) bus_pollers_def list_all2_map2
    by (rule list_all2_mono) (auto simp: sent_at_most_def bus_wire_def rotated_def rotation_def)
qed

lemma body_run_turns:
  assumes "collect_full_body_shadow pollers sel readable duration rate timeout coverage imu_rate start turns stop
      = Some (pollers', out)" and "\<not> bt_keep_running halt"
  defines "after \<equiv> pollers_after (\<lambda>ts. collect_full_body_shadow pollers sel readable duration rate timeout
      coverage imu_rate start ts stop) turns halt"
  shows "after 0 = Some pollers \<and> after (length turns) = Some pollers' \<and>
    (\<forall>n<length turns. \<exists>ps ps'. after n = Some ps \<and> after (Suc n) = Some ps' \<and> list_all2 (appends_at_most 16) ps ps')"
proof (cases "collect_full_body_shadow pollers sel readable duration rate timeout coverage imu_rate start [] stop = None")
  case False
  from collect_body_refused [OF this] assms(1) show ?thesis
    by (auto simp: after_def pollers_after_def intro: list_all2_refl)
next
  case True
  from collect_body_ran [OF this] obtain d s where run: "bus_pollers (bd_buses s) = pollers"
    "\<And>ts. collect_full_body_shadow pollers sel readable duration rate timeout coverage imu_rate start ts stop =
      map_option (\<lambda>(s', out). (bus_pollers (bd_buses s'), rbind out (\<lambda>_.
        body_report_of sel duration rate coverage imu_rate (fsub stop start) s')))
        (body_loop sel d start duration timeout ts s)" by blast
  have after: "after n = map_option (\<lambda>r. bus_pollers (bd_buses (fst r)))
      (body_loop sel d start duration timeout (take n turns @ [halt]) s)" for n
    by (simp add: after_def pollers_after_def run(2) option.map_comp comp_def case_prod_beta)
  from assms(1) run(2) [of turns] obtain r where r: "body_loop sel d start duration timeout turns s = Some r"
    "pollers' = bus_pollers (bd_buses (fst r))" by (auto split: prod.splits)
  have "\<exists>ps ps'. after n = Some ps \<and> after (Suc n) = Some ps' \<and> list_all2 (appends_at_most 16) ps ps'" for n
    using body_loop_cut [OF assms(2), of sel d start duration timeout n turns s] by (auto simp: after appends_bus_pollers)
  with body_loop_append [OF r(1), of "[halt]"] r(2) run(1) assms(2) show ?thesis by (simp add: after)
qed

text \<open>
  C33. Whatever the buses, the IMU and the clock do, and even when the probe raises, every bus of the full-body
  probe sees only zero-gain frames, polling its own motors in strict rotation, and never more than sixteen
  in a turn of the loop: between stopping the run after n turns and after n + 1, for every n, the wire of a bus
  grows by at most sixteen frames, from the wire it came with to the wire the run ends with.
\<close>

theorem full_body_probe_rotates_zero_gain:
  assumes "collect_full_body_shadow pollers sel readable duration rate timeout coverage imu_rate start turns stop
      = Some (pollers', out)" and "\<not> bt_keep_running halt"
  shows "list_all2 (\<lambda>(i, p) (i', p'). i' = i \<and> (\<exists>fs. zg_wire p' = zg_wire p @ fs \<and>
    length fs \<le> 16 * length turns \<and> list_all zero_gain_frame fs \<and>
    map frame_target fs =
      map (\<lambda>k. ep_can_id (on_interface sel i ! (k mod length (on_interface sel i)))) [0..<length fs]))
    pollers pollers' \<and>
   (let after = pollers_after (\<lambda>ts. collect_full_body_shadow pollers sel readable duration rate timeout
        coverage imu_rate start ts stop) turns halt
    in after 0 = Some pollers \<and> after (length turns) = Some pollers' \<and>
      (\<forall>n<length turns. \<exists>ps ps'. after n = Some ps \<and> after (Suc n) = Some ps' \<and>
        list_all2 (\<lambda>(i, p) (i', p'). i' = i \<and> (\<exists>fs. zg_wire p' = zg_wire p @ fs \<and> length fs \<le> 16)) ps ps'))"
proof -
  have "list_all2 (\<lambda>(i, p) (i', p'). i' = i \<and> (\<exists>fs. zg_wire p' = zg_wire p @ fs \<and>
    length fs \<le> 16 * length turns \<and> list_all zero_gain_frame fs \<and>
    map frame_target fs =
      map (\<lambda>k. ep_can_id (on_interface sel i ! (k mod length (on_interface sel i)))) [0..<length fs]))
    pollers pollers'" using body_run_rotates [OF assms(1)] .
  with body_run_turns [OF assms] show ?thesis by (simp add: Let_def appends_pairs)
qed

section \<open>What a passed probe says\<close>

abbreviation disabled :: "feedback \<Rightarrow> bool" where
  "disabled fb \<equiv> fb_status_code fb = 0"

definition body_values :: "feedback_endpoint list \<Rightarrow> body_state \<Rightarrow> bool" where
  "body_values sel s \<longleftrightarrow> keys (bd_values s) = map ep_motor_name sel \<and>
     (bd_errors s = [] \<longrightarrow> values_all disabled (bd_values s))"

lemma body_values_error: "keys (bd_values s) = map ep_motor_name sel \<Longrightarrow> body_values sel (body_error m s)"
  by (simp add: body_values_def body_error_def)

lemma body_values_keys: "body_values sel s \<Longrightarrow> keys (bd_values s) = map ep_motor_name sel"
  by (simp add: body_values_def)

lemma body_values_accept:
  assumes "body_values sel s" and "fb_motor_name fb \<in> ep_motor_name ` set sel"
  shows "keys (bd_values (body_accept fb clock s)) = map ep_motor_name sel"
    and "disabled fb \<Longrightarrow> body_values sel (body_accept fb clock s)"
proof -
  from assms(1) have k: "keys (bd_values s) = map ep_motor_name sel" by (rule body_values_keys)
  then have "fst ` set (bd_values s) = ep_motor_name ` set sel" by (metis list.set_map)
  with assms(2) k show k': "keys (bd_values (body_accept fb clock s)) = map ep_motor_name sel"
    by (simp add: body_accept_def append_value_keys)
  show "body_values sel (body_accept fb clock s)" if "disabled fb"
    using assms(1) that k' by (simp add: body_values_def body_accept_def append_value_all)
qed

lemma can_drain_values: "body_values sel s \<Longrightarrow> body_values sel (fst (can_drain sel d rs s))"
proof (induction sel d rs s rule: can_drain.induct)
  case (1 sel d s)
  then show ?case by simp
next
  case (2 sel d err clock rs s)
  then show ?case by (simp add: body_values_def)
next
  case (3 sel d frame clock rs s)
  note keys = body_values_keys [OF "3.prems"]
  show ?case
  proof (cases "(f_interface frame, f_can_id frame) \<in> command_keys sel \<or>
      (f_interface frame, f_can_id frame) \<notin> feedback_keys sel")
    case True
    with 3 show ?thesis by (auto simp: Let_def body_values_error [OF keys])
  next
    case False
    show ?thesis
    proof (cases "decoder_decode d frame")
      case (Inl err)
      with False "3.prems" show ?thesis by (simp add: Let_def)
    next
      case (Inr fb)
      show ?thesis
      proof (cases "fb_motor_name fb \<in> ep_motor_name ` set sel")
        case name: True
        note acc = body_values_accept [OF "3.prems" name, of clock]
        from name acc "3.IH" Inr False show ?thesis
          by (auto simp: Let_def body_values_error [OF keys] body_values_error [OF acc(1)])
      next
        case other: False
        with 3 Inr False show ?thesis by (auto simp: Let_def)
      qed
    qed
  qed
qed

lemma body_ready_values: "body_values sel s \<Longrightarrow> body_values sel (fst (body_ready sel d events s))"
proof (induction sel d events s rule: body_ready.induct)
  case (3 sel d payload clock events s)
  then show ?case by (simp add: body_values_def imu_read_def split: prod.split)
next
  case (4 sel d outcomes events s)
  from can_drain_values [OF "4.prems", of d "take 64 outcomes"] "4.IH" show ?case
    by (auto split: prod.split sum.split)
qed simp_all

lemma body_loop_values:
  "body_loop sel d start duration timeout ts s = Some (s', out) \<Longrightarrow> body_values sel s \<Longrightarrow> body_values sel s'"
proof (induction ts arbitrary: s)
  case Nil
  then show ?case by simp
next
  case (Cons t ts)
  obtain bs o1 where bs: "buses_send (bd_targets s) (bt_now t) (bt_sent t) (bd_buses s) = (bs, o1)" by fastforce
  let ?s1 = "\<lambda>es. s\<lparr>bd_buses := bs, bd_errors := bd_errors s @ es\<rparr>"
  from Cons.prems(2) have i1: "body_values sel (?s1 es)" "body_values sel (s\<lparr>bd_buses := bs\<rparr>)" for es
    by (simp_all add: body_values_def)
  have i2: "body_values sel s2" if "body_ready sel d (bt_ready t) (?s1 es) = (s2, o2)" for s2 o2 es
    using body_ready_values [OF i1(1), of d "bt_ready t" es] that by simp
  note late = body_values_error [OF body_values_keys]
  from Cons.prems bs Cons.IH i1 i2 late show ?case
    by (auto simp: Let_def split: sum.splits if_splits prod.splits)
qed

lemma sorted_set_constant:
  assumes "xs \<noteq> []" and "list_all (\<lambda>x. x = c) xs"
  shows "sorted_set xs = [c]"
proof -
  from assms have "set xs = {c}" by (auto simp: list_all_iff neq_Nil_conv)
  then have "set (sorted_set xs) = {c}" by simp
  moreover have "distinct (sorted_set xs)" by simp
  ultimately show ?thesis by (cases "sorted_set xs" rule: remdups_adj.cases) auto
qed

lemma no_packets_no_rate:
  "per_second 0 elapsed = Inr r \<Longrightarrow> isfinite m \<Longrightarrow> \<not> fle m (Fin 0) \<Longrightarrow> \<not> fle m r"
  by (cases elapsed; cases m) (auto simp: per_second_def float_of_int_def rbind_eq_Inr split: if_splits)

text \<open>
  C34. A passed report of the full-body probe is evidence of the whole robot: it covers 31 distinct motors on the
  four buses of the pollers, every motor answered and every accepted answer said disabled, every bus was
  driven, and the IMU sent both kinds of packets without a rejected frame.
\<close>

theorem passed_full_body_probe_is_evidence:
  assumes "collect_full_body_shadow pollers sel readable duration rate timeout coverage imu_rate start turns stop
      = Some (pollers', Inr r)" and "body_passed r"
  shows "length sel = 31 \<and> distinct (map ep_motor_name sel) \<and> length pollers = 4 \<and>
    set (map ep_interface sel) = set (keys pollers) \<and>
    list_all (\<lambda>e. \<exists>n. map_of (br_rx_count_by_motor r) (ep_motor_name e) = Some n \<and> 0 < n \<and>
      map_of (br_status_codes_by_motor r) (ep_motor_name e) = Some [0]) sel \<and>
    map fst (br_tx_count_by_interface r) = map fst pollers' \<and>
    list_all (\<lambda>(i, p). 0 < zg_tx_attempts p) pollers' \<and>
    0 < br_imu_raw_count r \<and> 0 < br_imu_quaternion_count r \<and> br_imu_rejected_frame_count r = 0"
  using assms(1)
proof (cases rule: collect_body_cases)
  case (ran d imu bs s s' out')
  from ran(9) have rep: "body_report_of sel duration rate coverage imu_rate (fsub stop start) s' = Inr r"
    by (cases out') auto
  from ran(1) have chk: "length sel = 31" "distinct (map ep_motor_name sel)" "flt (Fin 0) coverage"
    "isfinite imu_rate" "\<not> fle imu_rate (Fin 0)" by (auto simp: body_checks_def split: if_splits)
  have "body_values sel s" by (simp add: ran(7) body_values_def values_all_def comp_def)
  with ran(6) have inv: "body_values sel s'" by (rule body_loop_values)
  from rep obtain coverages raw quat where
    c: "on_values_result (coverage_of (fsub stop start) rate) (bd_values s') = Inr coverages"
      "per_second (bd_imu_raw s') (fsub stop start) = Inr raw"
      "per_second (bd_imu_quaternion s') (fsub stop start) = Inr quat"
    and r: "br_errors r = bd_errors s'" "br_motor_names r = map ep_motor_name sel"
      "br_sample_coverage_by_motor r = coverages" "br_minimum_motor_sample_coverage r = coverage"
      "br_imu_raw_rate_hz r = raw" "br_imu_quaternion_rate_hz r = quat" "br_minimum_imu_rate_hz r = imu_rate"
      "br_imu_raw_count r = bd_imu_raw s'" "br_imu_quaternion_count r = bd_imu_quaternion s'"
      "br_rx_count_by_motor r = on_values length (bd_values s')"
      "br_status_codes_by_motor r = on_values (sorted_set \<circ> map fb_status_code) (bd_values s')"
      "br_tx_count_by_interface r = map (\<lambda>b. (bu_interface b, zg_tx_attempts (bu_poller b))) (bd_buses s')"
    by (auto simp: body_report_of_def rbind_eq_Inr Let_def)
  from assms(2) r inv have ok: "values_all disabled (bd_values s')"
    and keys: "keys (bd_values s') = map ep_motor_name sel" by (auto simp: body_passed_def body_values_def)
  have motor: "\<exists>n. map_of (br_rx_count_by_motor r) (ep_motor_name e) = Some n \<and> 0 < n \<and>
      map_of (br_status_codes_by_motor r) (ep_motor_name e) = Some [0]" if e: "e \<in> set sel" for e
  proof -
    have name: "ep_motor_name e \<in> set (keys (bd_values s'))" using e keys by simp
    from assms(2) e r(2,3,4)
    have "fle coverage (case map_of coverages (ep_motor_name e) of Some c \<Rightarrow> c | None \<Rightarrow> Fin 0)"
      by (auto simp: body_passed_def list_all_iff)
    with covered_motor [OF c(1) ok name chk(3)] obtain fbs where fbs: "map_of (bd_values s') (ep_motor_name e) = Some fbs"
      "fbs \<noteq> []" "list_all disabled fbs" by blast
    with sorted_set_constant [of "map fb_status_code fbs" 0] show ?thesis
      by (auto simp: r(10,11) on_values_lookup list_all_iff)
  qed
  have imu: "0 < bd_imu_raw s'" "0 < bd_imu_quaternion s'"
    using c(2,3) assms(2) r no_packets_no_rate [OF _ chk(4,5), of "fsub stop start"]
    by (auto simp: body_passed_def intro!: Nat.gr0I)
  show ?thesis
    using assms(2) chk(1,2) ran(3,8) motor imu r(8,9,12)
    by (auto simp: interface_check_def body_passed_def bus_pollers_def list_all_iff split: if_splits)
qed simp

end
