(* ===== verification/HardwareTemplate.thy ===== *)
theory HardwareTemplate
  imports Hardware
begin

text \<open>
  The measurement worksheet \<open>make_hardware_template\<close> of \<open>hardware.py\<close>: a document that names every
  motor with its confirmed endpoint and model and leaves every measured value unset.
\<close>

definition unset :: "string list \<Rightarrow> (string, json) dict" where
  "unset names = map (\<lambda>f. (f, JNull)) names"

definition base_record :: "(string, json) dict" where
  "base_record = unset
     [''model'', ''firmware'', ''can_channel'', ''can_id'', ''master_id'', ''motor_zero_rad'',
      ''encoder_sign'', ''reduction_ratio'', ''linkage_ratio'', ''soft_limit_rad'', ''hard_limit_rad'',
      ''rated_torque_nm'', ''peak_torque_nm'', ''rated_speed_rad_s'', ''max_speed_rad_s'',
      ''rated_current_a'', ''peak_current_a'', ''temperature_limit_c''] @
     [(''mit_ranges'', JObj (unset
        [''position_rad'', ''velocity_rad_s'', ''kp'', ''kd'', ''torque_nm'', ''source'']))]"

definition update :: "(string, json) dict \<Rightarrow> (string, json) dict \<Rightarrow> (string, json) dict" where
  "update d kvs = foldl (\<lambda>d (k, v). dict_set d k v) d kvs"

definition nameplate :: "pyfloat \<Rightarrow> pyfloat \<Rightarrow> pyfloat \<Rightarrow> pyfloat \<Rightarrow> (string, json) dict" where
  "nameplate rated_torque peak_torque rated_speed max_speed =
     [(''rated_torque_nm'', JFloat rated_torque), (''peak_torque_nm'', JFloat peak_torque),
      (''rated_speed_rad_s'', JFloat rated_speed), (''max_speed_rad_s'', JFloat max_speed)]"

definition J4340P_plate :: "(string, json) dict" where
  "J4340P_plate = nameplate (Fin 14) (Fin 40) (rnd (377 / 100)) (rnd (93 / 10))"

definition J4310P_plate :: "(string, json) dict" where
  "J4310P_plate = nameplate (rnd (35 / 10)) (rnd (125 / 10)) (rnd (1256 / 100)) (rnd (362 / 10))"

definition remove_suffix :: "string \<Rightarrow> string \<Rightarrow> string" where
  "remove_suffix suffix s = (if ends_with suffix s then take (length s - length suffix) s else s)"

definition direct_record :: "string \<Rightarrow> (string, json) dict" where
  "direct_record joint =
     (let r = update base_record
        [(''policy_joint'', JStr joint),
         (''policy_to_motor_sign'', JInt (case map_of CONFIRMED_POLICY_TO_MOTOR_SIGNS joint of
            Some n \<Rightarrow> n | None \<Rightarrow> 1))]
      in if is_leg joint \<or> joint \<in> set UPGRADED_SHOULDERS
         then update r ((''model'', JStr J4340P) # J4340P_plate) else r)"

definition coupled_record :: "(string, json) dict \<Rightarrow> string list \<Rightarrow> (string, json) dict" where
  "coupled_record plate pair = update base_record (plate @ [(''coupled_joints'', JArr (map JStr pair))])"

definition template_motors :: "string list \<Rightarrow> (string, (string, json) dict) dict" where
  "template_motors policy = dict_of (
     map (\<lambda>j. (remove_suffix ''_joint'' j @ ''_motor'', direct_record j))
       (filter (\<lambda>j. j \<notin> set DIFFERENTIAL_JOINTS) policy) @
     concat (map (\<lambda>(side, pair). map (\<lambda>suffix. (side @ ''_ankle_motor_'' @ suffix,
         coupled_record ((''model'', JStr J4310P) # J4310P_plate) pair)) [''a'', ''b'']) ANKLE_PAIRS) @
     map (\<lambda>suffix. (''head_motor_'' @ suffix,
         coupled_record [] [''head_pitch_joint'', ''head_roll_joint''])) [''a'', ''b''])"

definition lookup_key :: "(string, 'v) dict \<Rightarrow> string \<Rightarrow> 'v result" where
  "lookup_key d k = (case map_of d k of Some v \<Rightarrow> Inr v | None \<Rightarrow> Inl (KeyError k))"

definition complete_record :: "string \<Rightarrow> (string, json) dict \<Rightarrow> (string, json) dict result" where
  "complete_record label r =
     (let role = (case map_of r ''policy_joint'' of Some (JStr s) \<Rightarrow> s | _ \<Rightarrow> label) in
      rbind (lookup_key CONFIRMED_CAN_ENDPOINTS role) (\<lambda>(channel, can_id).
      rbind (lookup_key CONFIRMED_MOTOR_MODELS role) (\<lambda>model.
        Inr (update (update r
          [(''model'', JStr model), (''can_channel'', JInt channel), (''can_id'', JInt can_id),
           (''master_id'', JInt (can_id + 0x10))])
          (if contains ''4340P'' model then J4340P_plate
           else if contains ''4310P'' model then J4310P_plate
           else if contains ''3507'' model
           then [(''rated_torque_nm'', JFloat (rnd (8 / 10))), (''peak_torque_nm'', JFloat (Fin 3))]
           else if contains ''6248'' model
           then [(''rated_torque_nm'', JFloat (Fin 30)), (''peak_torque_nm'', JFloat (Fin 97))]
           else [])))))"

definition shadow_template :: json where
  "shadow_template = JObj (
     [(''required_before_arm'', JBool True), (''method'', JStr ''active_zero_gain_position_echo''),
      (''payload'', JStr ''position_echo_v0_kp0_kd0_tau0''), (''all_motors_disabled'', JBool True),
      (''completed'', JBool False)] @ unset
     [''duration_s'', ''minimum_motor_sample_coverage'', ''deadline_misses'', ''can_error_delta'',
      ''can_drop_delta'', ''nonzero_gain_or_torque_tx_attempts'', ''automatic_enable_attempts'',
      ''automatic_mode_switch_attempts'', ''evidence_report''])"

definition imu_template :: json where
  "imu_template = JObj
     [(''configured'', JBool False), (''vendor'', JStr ''Yahboom''),
      (''model'', JStr ''high_precision_9_axis''), (''transport'', JStr ''usb_serial_ch340''),
      (''device_path'', JNull), (''baud_rate'', JNull), (''mount_link'', JStr ''pelvis''),
      (''mounting_description'',
       JStr ''rear pelvis; sensor +Z backward; sensor +X down; sensor +Y right''),
      (''sensor_to_body_matrix'', JArr (map (\<lambda>row. JArr (map JInt row))
        [[0, 0, - 1], [0, - 1, 0], [- 1, 0, 0]])),
      (''body_to_sensor_quaternion_wxyz'', JArr [JFloat (Fin 0), JFloat (rnd (7071067811865476 / 10 ^ 16)),
        JFloat (Fin 0), JFloat (rnd (- 7071067811865476 / 10 ^ 16))]),
      (''gyro_units'', JStr ''rad_s''), (''acceleration_units'', JStr ''m_s2''),
      (''quaternion_order'', JStr ''wxyz''), (''orientation_convention'', JNull),
      (''expected_update_hz'', JFloat (Fin 100)), (''update_hz'', JNull), (''timestamp_source'', JNull),
      (''maximum_sample_age_ms'', JFloat (Fin 30)), (''maximum_sample_gap_ms'', JFloat (Fin 30)),
      (''yaw_source'', JStr ''integrated_body_gyro_z''), (''stand_resets_yaw'', JBool True),
      (''magnetometer_yaw_safety_role'', JStr ''monitor_only''),
      (''measured_yaw_drift_deg_per_min'', JNull), (''vendor_protocol_verified'', JBool False)]"

definition differential_template :: "string \<Rightarrow> string list \<Rightarrow> json" where
  "differential_template name pair = JObj
     [(''calibrated'', JBool False), (''joint_order'', JArr (map JStr pair)),
      (''motor_names'', JArr (map JStr
        (if ends_with ''_ankle'' name
         then map (\<lambda>s. remove_suffix ''_ankle'' name @ ''_ankle_motor_'' @ s) [''a'', ''b'']
         else [''head_motor_a'', ''head_motor_b'']))),
      (''joint_to_motor_matrix'', JArr [JArr [JFloat (Fin 1), JFloat (Fin 1)],
        JArr [JFloat (Fin 1), JFloat (Fin (- 1))]]),
      (''motor_zero_rad'', JArr [JFloat (Fin 0), JFloat (Fin 0)]),
      (''source'', JStr ''IDEAL_PLACEHOLDER_DO_NOT_ARM'')]"



definition make_hardware_template :: "string list \<Rightarrow> json result" where
  "make_hardware_template policy =
     (if length policy \<noteq> 31 \<or> length (remdups policy) \<noteq> 31
      then Inl (ValueError ''frozen policy contract must contain 31 unique joints'')
      else rbind (rmap (\<lambda>(label, r). rbind (complete_record label r) (\<lambda>r'. Inr (label, JObj r')))
        (template_motors policy)) (\<lambda>motors.
        if length motors \<noteq> 31
        then Inl (AssertionError ''generated hardware template must contain 31 physical motors'')
        else Inr (JObj
          [(''schema'', JStr ''sprite0825_hardware_contract_v3''), (''configured'', JBool False),
           (''motor_model_specs'', JObj (map (\<lambda>(m, values). (m, JObj values)) DAMIAO_MODEL_SPECS)),
           (''controller'', JObj
             [(''candidate'', JStr ''jetson_orin_nano_or_raspberry_pi_5''), (''usb_canfd_channels'', JInt 4),
              (''measured_round_trip_latency_required'', JBool True),
              (''nominal_bus_voltage_v'', JFloat (Fin 38)), (''damiao_embedded_kd_max'', JFloat (Fin 3))]),
           (''can_adapter'', JObj
             [(''backend'', JStr ''socketcan''), (''vendor'', JStr ''KunHong''), (''sdk_version'', JStr ''1.4.2''),
              (''logical_bus_names'', JArr (map JStr [''CANFD1'', ''CANFD2'', ''CANFD3'', ''CANFD4''])),
              (''interfaces'', JArr [JNull, JNull, JNull, JNull]),
              (''commissioning_shadow'', shadow_template)]),
           (''imu'', imu_template),
           (''estop'', JObj [(''configured'', JBool False), (''hardware_chain'', JNull),
              (''watchdog_timeout_ms'', JInt 20)]),
           (''motor_map'', JObj motors),
           (''differentials'', JObj (map (\<lambda>(name, pair). (name, differential_template name pair))
              DIFFERENTIAL_PAIRS))])))"

end
