(* ===== verification/Inventory.thy ===== *)
theory Inventory
  imports HardwareConfig HardwareTemplate
begin

text \<open>
  What a valid hardware inventory guarantees, and that the guarantees are what the construction of
  the runtime objects needs.
\<close>

section \<open>Checks that append nothing\<close>

lemma sequence_Nil: "sequence rs = Inr [] \<longleftrightarrow> (\<forall>r \<in> set rs. r = Inr [])"
proof (induction rs)
  case Nil
  then show ?case by (simp add: sequence_def)
next
  case (Cons r rs)
  then show ?case by (cases r) (auto simp: sequence_def rbind_eq_Inr)
qed

lemma unless_Nil [simp]: "unless b m = Inr [] \<longleftrightarrow> b"
  by (simp add: unless_def)

lemma listed_Nil [simp]: "listed m names = [] \<longleftrightarrow> names = []"
  by (simp add: listed_def)

lemma distinct_count: "distinct xs \<Longrightarrow> count_list xs x \<le> 1"
  by (induction xs) (auto simp: count_list_0_iff)

lemma repeated_count: "\<not> distinct xs \<Longrightarrow> \<exists>x \<in> set xs. 1 < count_list xs x"
proof (induction xs)
  case Nil
  then show ?case by simp
next
  case (Cons a xs)
  show ?case
  proof (cases "a \<in> set xs")
    case True
    then have "0 < count_list xs a" using count_list_0_iff [of xs a] by auto
    then show ?thesis by (intro bexI [of _ a]) simp_all
  next
    case False
    with Cons obtain x where "x \<in> set xs" "1 < count_list xs x" by auto
    then show ?thesis by (intro bexI [of _ x]) simp_all
  qed
qed

lemma duplicates_Nil: "duplicates xs = [] \<longleftrightarrow> distinct xs"
  using distinct_count [of xs] repeated_count [of xs]
  by (auto simp: duplicates_def filter_empty_conv not_less [symmetric])

section \<open>The loop over the motors\<close>

definition direct_of :: "json \<Rightarrow> string option" where
  "direct_of rec = (case jget rec ''policy_joint'' of JStr s \<Rightarrow> Some s | _ \<Rightarrow> None)"

lemma jget_not_dict: "\<not> is_dict v \<Longrightarrow> jget v k = JNull"
  by (cases v) (simp_all add: jget_def)

lemma record_facts:
  assumes "validate_motor_record N name rec policy = Inr (facts, es)"
  shows "mf_direct facts = direct_of rec" and "mf_coupled facts = coupled_of rec"
    and "mf_endpoint facts = endpoint_text (jget rec ''can_channel'') (jget rec ''can_id'')"
  using assms
  by (auto simp: validate_motor_record_def rbind_eq_Inr direct_of_def coupled_of_def jget_not_dict
      endpoint_text_def is_int_def split: if_splits)

definition motor_ok :: "numerics \<Rightarrow> string list \<Rightarrow> string \<Rightarrow> json \<Rightarrow> bool" where
  "motor_ok N policy name rec \<longleftrightarrow> is_dict rec \<and> motor_record_errors N name rec policy = Inr [] \<and>
     known_profile_errors N name rec (direct_of rec) (coupled_of rec) = Inr [] \<and>
     confirmed_errors name rec (direct_of rec) = []"

definition dcount :: "(string, nat) dict \<Rightarrow> string \<Rightarrow> nat" where
  "dcount d j = (case map_of d j of Some n \<Rightarrow> n | None \<Rightarrow> 0)"

lemma dcount_direct:
  "dcount (count_direct x d) j = dcount d j + (if x = Some j then 1 else 0)"
  by (auto simp: dcount_def count_direct_def split: option.split)

definition directs :: "string \<Rightarrow> (string \<times> json) list \<Rightarrow> nat" where
  "directs j ms = length (filter (\<lambda>(_, rec). direct_of rec = Some j) ms)"

definition pair_labels :: "string list \<Rightarrow> (string \<times> json) list \<Rightarrow> string list" where
  "pair_labels pair ms = map fst (filter (\<lambda>(_, rec). coupled_of rec = Some (map JStr pair)) ms)"

definition command_texts :: "(string \<times> json) list \<Rightarrow> string list" where
  "command_texts ms = concat (map (\<lambda>(_, rec).
     option_list (endpoint_text (jget rec ''can_channel'') (jget rec ''can_id''))) ms)"

definition feedback_texts :: "(string \<times> json) list \<Rightarrow> string list" where
  "feedback_texts ms = concat (map (\<lambda>(_, rec).
     option_list (endpoint_text (jget rec ''can_channel'') (jget rec ''master_id''))) ms)"

lemma map_JStr_jstring: "list_all is_str c \<Longrightarrow> map JStr (map jstring c) = c"
proof (induction c)
  case Nil
  then show ?case by simp
next
  case (Cons a c)
  then show ?case by (cases a) auto
qed

lemma inj_JStr: "map JStr xs = map JStr ys \<longleftrightarrow> xs = ys"
  by (simp add: inj_map_eq_map inj_def)

lemma note_coupled_labels:
  assumes "note_coupled name c labels = Inr labels'" and "map_of labels pair = Some ls"
  shows "map_of labels' pair = Some (ls @ (if c = Some (map JStr pair) then [name] else []))"
proof (cases c)
  case None
  with assms show ?thesis by (simp add: note_coupled_def)
next
  case (Some v)
  have h: "c = Some (map JStr p) \<Longrightarrow> list_all is_str v \<and> map jstring v = p" for p
    using Some by (simp add: list_all_iff comp_def)
  show ?thesis
  proof (cases "list_all is_str v")
    case False
    with h [of pair] assms Some show ?thesis by (auto simp: note_coupled_def split: if_splits)
  next
    case True
    have "c = Some (map JStr pair) \<longleftrightarrow> map jstring v = pair"
      using map_JStr_jstring [OF True] Some h by metis
    with True assms Some show ?thesis
      by (auto simp: note_coupled_def split: if_splits option.splits)
  qed
qed

lemma inventory_loop_spec:
  assumes "inventory_loop N policy ms s = Inr s'" and "iv_errors s' = []"
  shows "iv_errors s = [] \<and> (\<forall>(n, rec) \<in> set ms. motor_ok N policy n rec) \<and>
    (\<forall>j. dcount (iv_direct_counts s') j = dcount (iv_direct_counts s) j + directs j ms) \<and>
    (\<forall>pair ls. map_of (iv_coupled_labels s) pair = Some ls \<longrightarrow>
       map_of (iv_coupled_labels s') pair = Some (ls @ pair_labels pair ms)) \<and>
    iv_endpoints s' = iv_endpoints s @ command_texts ms \<and>
    iv_feedback_endpoints s' = iv_feedback_endpoints s @ feedback_texts ms"
  using assms
proof (induction ms arbitrary: s)
  case Nil
  then show ?case by (simp add: directs_def pair_labels_def command_texts_def feedback_texts_def)
next
  case (Cons m ms)
  obtain name rec where m: "m = (name, rec)" by (cases m)
  from Cons.prems(1) obtain facts es1 es2 labels where
    f: "validate_motor_record N name rec policy = Inr (facts, es1)"
    and e2: "(if is_dict rec then rbind (known_profile_errors N name rec (mf_direct facts) (mf_coupled facts))
         (\<lambda>es. Inr (es @ confirmed_errors name rec (mf_direct facts))) else Inr []) = Inr es2"
    and l: "note_coupled name (mf_coupled facts) (iv_coupled_labels s) = Inr labels"
    and rest: "inventory_loop N policy ms \<lparr>iv_errors = iv_errors s @ es1 @ es2,
          iv_direct_counts = count_direct (mf_direct facts) (iv_direct_counts s),
          iv_coupled_labels = labels,
          iv_endpoints = iv_endpoints s @ option_list (mf_endpoint facts),
          iv_feedback_endpoints = iv_feedback_endpoints s @
            option_list (endpoint_text (jget rec ''can_channel'') (jget rec ''master_id''))\<rparr> = Inr s'"
    unfolding m by (auto simp: rbind_eq_Inr)
  note fa = record_facts [OF f]
  from Cons.IH [OF rest Cons.prems(2)] have ih: "iv_errors s @ es1 @ es2 = []"
    "\<forall>(n, rec) \<in> set ms. motor_ok N policy n rec"
    "\<forall>j. dcount (iv_direct_counts s') j = dcount (count_direct (mf_direct facts) (iv_direct_counts s)) j + directs j ms"
    "\<forall>pair ls. map_of labels pair = Some ls \<longrightarrow> map_of (iv_coupled_labels s') pair = Some (ls @ pair_labels pair ms)"
    "iv_endpoints s' = iv_endpoints s @ option_list (mf_endpoint facts) @ command_texts ms"
    "iv_feedback_endpoints s' = iv_feedback_endpoints s @
       option_list (endpoint_text (jget rec ''can_channel'') (jget rec ''master_id'')) @ feedback_texts ms"
    by simp_all
  from ih(1) f have d: "is_dict rec" "motor_record_errors N name rec policy = Inr []"
    by (auto simp: validate_motor_record_def rbind_eq_Inr split: if_splits)
  with e2 ih(1) fa have "motor_ok N policy name rec"
    by (auto simp: motor_ok_def rbind_eq_Inr)
  moreover have "map_of (iv_coupled_labels s') pair = Some (ls @ pair_labels pair (m # ms))"
    if "map_of (iv_coupled_labels s) pair = Some ls" for pair ls
    using ih(4) note_coupled_labels [OF l that] fa(2) by (auto simp: pair_labels_def m)
  ultimately show ?case
    using ih fa by (auto simp: m dcount_direct directs_def command_texts_def feedback_texts_def)
qed

lemma count_direct_positive:
  assumes "\<forall>x \<in> set d. 0 < snd x"
  shows "\<forall>x \<in> set (count_direct y d). 0 < snd x"
proof (cases y)
  case None
  with assms show ?thesis by (simp add: count_direct_def)
next
  case (Some j)
  show ?thesis unfolding Some count_direct_def option.case by (rule ball_dict_set [OF assms]) simp
qed

lemma sort_Nil: "sort xs = [] \<longleftrightarrow> xs = []"
  by (metis set_empty set_sort)

lemma inventory_loop_positive:
  "inventory_loop N policy ms s = Inr s' \<Longrightarrow> \<forall>x \<in> set (iv_direct_counts s). 0 < snd x \<Longrightarrow>
    \<forall>x \<in> set (iv_direct_counts s'). 0 < snd x"
proof (induction ms arbitrary: s)
  case Nil
  then show ?case by simp
next
  case (Cons m ms)
  obtain name rec where m: "m = (name, rec)" by (cases m)
  from Cons.prems(1) obtain x s1 where "inventory_loop N policy ms s1 = Inr s'"
    "iv_direct_counts s1 = count_direct x (iv_direct_counts s)"
    unfolding m by (force simp: rbind_eq_Inr)
  with Cons.IH [of s1] count_direct_positive [OF Cons.prems(2), of x] show ?case by simp
qed

section \<open>A valid inventory\<close>

definition confirmed_motor :: "string \<Rightarrow> json \<Rightarrow> bool" where
  "confirmed_motor name rec \<longleftrightarrow>
     (let role = (case direct_of rec of Some d \<Rightarrow> d | None \<Rightarrow> name) in
      \<exists>channel can_id model. map_of CONFIRMED_CAN_ENDPOINTS role = Some (channel, can_id) \<and>
        map_of CONFIRMED_MOTOR_MODELS role = Some model \<and>
        int_value (jget rec ''can_channel'') = Some channel \<and>
        int_value (jget rec ''can_id'') = Some can_id \<and>
        int_value (jget rec ''master_id'') = Some (can_id + 0x10) \<and>
        jget rec ''model'' = JStr model)"

lemma json_eq_int_value: "json_eq_int v c \<Longrightarrow> int_value v = Some n \<Longrightarrow> n = c"
  by (cases v) auto

lemma motor_record_required:
  assumes "motor_record_errors N name rec policy = Inr []" and "f \<in> set MOTOR_REQUIRED_FIELDS"
  shows "present rec f"
  using assms by (auto simp: motor_record_errors_def Let_def sequence_Nil filter_empty_conv)

lemma motor_record_checks:
  assumes "motor_record_errors N name rec policy = Inr []"
  shows "id_errors (''motor_map.'' @ name) rec = []"
    and "limit_errors N (''motor_map.'' @ name) rec = Inr []"
    and "mit_range_errors N (''motor_map.'' @ name) rec = Inr []"
  using assms by (auto simp: motor_record_errors_def Let_def sequence_Nil)

lemma id_errors_values:
  assumes "id_errors label rec = []" and "present rec ''can_channel''" and "present rec ''can_id''"
    and "present rec ''master_id''"
  obtains c i where "int_value (jget rec ''can_channel'') = Some c" "0 \<le> c" "c < 4"
    "int_value (jget rec ''can_id'') = Some i" "0 \<le> i" "i \<le> 15"
    "int_value (jget rec ''master_id'') = Some (i + 0x10)"
  using assms by (auto simp: id_errors_def Let_def present_def split: if_splits option.splits)

lemma motor_ok_confirmed:
  assumes "motor_ok N policy name rec"
  shows "confirmed_motor name rec"
proof -
  have m: "motor_record_errors N name rec policy = Inr []"
    and c: "confirmed_errors name rec (direct_of rec) = []"
    using assms by (simp_all add: motor_ok_def)
  have "present rec ''can_channel''" "present rec ''can_id''" "present rec ''master_id''"
    by (rule motor_record_required [OF m], simp add: MOTOR_REQUIRED_FIELDS_def)+
  with motor_record_checks(1) [OF m] obtain ch i where v:
    "int_value (jget rec ''can_channel'') = Some ch" "int_value (jget rec ''can_id'') = Some i"
    "int_value (jget rec ''master_id'') = Some (i + 0x10)" by (rule id_errors_values)
  from c v show ?thesis
    by (auto simp: confirmed_errors_def confirmed_motor_def Let_def dest: json_eq_int_value
        split: option.splits if_splits)
qed

lemma valid_inventory_spec:
  assumes "validate_hardware_inventory N hardware policy = Inr r" and "inventory_valid r"
  defines "motors \<equiv> jfields (jget hardware ''motor_map'')"
  shows "length policy = 31" and "distinct policy" and "length motors = 31"
    and "\<forall>(n, rec) \<in> set motors. motor_ok N policy n rec"
    and "\<forall>j \<in> set policy. j \<notin> set DIFFERENTIAL_JOINTS \<longrightarrow> directs j motors = 1"
    and "\<forall>(name, pair) \<in> set DIFFERENTIAL_PAIRS. length (pair_labels pair motors) = 2"
    and "distinct (command_texts motors)" and "distinct (feedback_texts motors)"
    and "set (command_texts motors) \<inter> set (feedback_texts motors) = {}"
    and "can_adapter_errors N hardware = Inr []"
proof -
  from assms(1,2) obtain s where pre: "sequence
        [unless (length policy = 31 \<and> length (remdups policy) = 31)
           ''frozen policy contract must contain 31 unique joints'',
         can_adapter_errors N hardware, model_spec_errors N hardware, controller_errors N hardware,
         unless (is_dict (jget hardware ''motor_map'')) ''motor_map must be an object''] = Inr []"
    and loop: "inventory_loop N policy motors empty_inventory = Inr s" "iv_errors s = []"
    and cross: "cross_errors policy s = []" and len: "length motors = 31"
    unfolding validate_hardware_inventory_def motors_def
    by (auto simp: inventory_valid_def rbind_eq_Inr Let_def split: if_splits)
  from pre have pol: "length policy = 31" "length (remdups policy) = 31"
    and can: "can_adapter_errors N hardware = Inr []" by (simp_all add: sequence_Nil)
  have "distinct policy" using pol by (metis length_remdups_eq remdups_id_iff_distinct)
  with pol len can show "length policy = 31" "distinct policy" "length motors = 31"
    "can_adapter_errors N hardware = Inr []" by simp_all
  note sp = inventory_loop_spec [OF loop]
  then show "\<forall>(n, rec) \<in> set motors. motor_ok N policy n rec" by blast
  have dc: "dcount (iv_direct_counts s) j = directs j motors" for j
    using sp by (simp add: empty_inventory_def dcount_def)
  have "directs j motors = 1" if j: "j \<in> set policy" "j \<notin> set DIFFERENTIAL_JOINTS" for j
  proof -
    from cross have m: "missing_direct policy s = []" "duplicate_direct s = []" by (auto simp: cross_errors_def)
    from m(1) j have "j \<in> fst ` set (iv_direct_counts s)"
      by (auto simp: missing_direct_def filter_empty_conv)
    then obtain n where n: "map_of (iv_direct_counts s) j = Some n"
      by (metis map_of_eq_None_iff not_None_eq)
    from m(2) map_of_SomeD [OF n] have "n \<le> 1"
      by (auto simp: duplicate_direct_def sort_Nil filter_empty_conv)
    moreover have "0 < n"
      using inventory_loop_positive [OF loop(1)] map_of_SomeD [OF n] by (force simp: empty_inventory_def)
    ultimately show ?thesis using dc [of j] n by (simp add: dcount_def)
  qed
  then show "\<forall>j \<in> set policy. j \<notin> set DIFFERENTIAL_JOINTS \<longrightarrow> directs j motors = 1" by blast
  show "\<forall>(name, pair) \<in> set DIFFERENTIAL_PAIRS. length (pair_labels pair motors) = 2"
  proof clarify
    fix name pair assume p: "(name, pair) \<in> set DIFFERENTIAL_PAIRS"
    then have "map_of (iv_coupled_labels empty_inventory) pair = Some []"
      by (auto simp: empty_inventory_def DIFFERENTIAL_PAIRS_def)
    with sp have "map_of (iv_coupled_labels s) pair = Some (pair_labels pair motors)" by simp
    with cross p show "length (pair_labels pair motors) = 2"
      by (auto simp: cross_errors_def split: if_splits)
  qed
  have e: "iv_endpoints s = command_texts motors" "iv_feedback_endpoints s = feedback_texts motors"
    using sp by (simp_all add: empty_inventory_def)
  from cross have "duplicates (iv_endpoints s) = []" "duplicates (iv_feedback_endpoints s) = []"
    "filter (\<lambda>e. e \<in> set (iv_feedback_endpoints s)) (iv_endpoints s) = []"
    by (auto simp: cross_errors_def)
  then show "distinct (command_texts motors)" "distinct (feedback_texts motors)"
    "set (command_texts motors) \<inter> set (feedback_texts motors) = {}"
    unfolding duplicates_Nil e by (auto simp: filter_empty_conv)
qed

text \<open>
  C10. A hardware inventory that validates covers the robot exactly: the policy order has 31 distinct
  joints, there are 31 motor records, each sits at its confirmed CAN endpoint with the confirmed
  model and a Master ID sixteen above its CAN ID, every directly driven policy joint has exactly
  one motor, and every differential pair exactly two.
\<close>

theorem valid_inventory_is_complete:
  assumes "validate_hardware_inventory N hardware policy = Inr r" and "inventory_valid r"
  shows "length policy = 31 \<and> distinct policy \<and>
    length (jfields (jget hardware ''motor_map'')) = 31 \<and>
    list_all (\<lambda>(name, rec). confirmed_motor name rec) (jfields (jget hardware ''motor_map'')) \<and>
    list_all (\<lambda>j. j \<in> set DIFFERENTIAL_JOINTS \<or>
      length (filter (\<lambda>(_, rec). direct_of rec = Some j) (jfields (jget hardware ''motor_map''))) = 1) policy \<and>
    list_all (\<lambda>(_, pair). length (filter (\<lambda>(_, rec). coupled_of rec = Some (map JStr pair))
      (jfields (jget hardware ''motor_map''))) = 2) DIFFERENTIAL_PAIRS"
  using valid_inventory_spec [OF assms] motor_ok_confirmed
  by (fastforce simp: list_all_iff directs_def pair_labels_def)

section \<open>Building the decoder endpoints\<close>

lemma pair_of_Nil:
  assumes "pair_of N v name = Inr (x, [])"
  obtains a b low high where "v = JArr [a, b]" "to_float (parse_float N) a = Inr low"
    "to_float (parse_float N) b = Inr high" "isfinite low" "isfinite high" "\<not> fle high low"
proof -
  have "\<exists>a b. v = JArr [a, b]" using assms
    by (auto simp: pair_of_def split: json.splits list.splits)
  then obtain a b where v: "v = JArr [a, b]" by blast
  obtain r where r: "rbind (to_float (parse_float N) a) (\<lambda>low. rbind (to_float (parse_float N) b) (\<lambda>high.
      Inr (low, high))) = r" by blast
  have "\<exists>low high. r = Inr (low, high) \<and> isfinite low \<and> isfinite high \<and> \<not> fle high low"
    using assms unfolding v pair_of_def json.case list.case r
    by (cases r) (auto split: if_splits py_error.splits)
  with r v show ?thesis using that by (auto simp: rbind_eq_Inr)
qed

lemma optional_pair_Nil:
  assumes "rbind (optional_pair N rec f label) (\<lambda>(_, es). Inr es) = Inr []" and "present rec f"
  obtains x where "pair_of N (jget rec f) (label @ ''.'' @ f) = Inr (x, [])"
  using assms by (auto simp: optional_pair_def rbind_eq_Inr)

lemma jindex_present: "is_dict v \<Longrightarrow> present v f \<Longrightarrow> jindex v f = Inr (jget v f)"
  by (auto simp: jindex_def present_def jget_def split: option.splits)

lemma range_of_pair:
  assumes "is_dict mit" and "present mit f"
    and "rbind (optional_pair N mit f label) (\<lambda>(_, es). Inr es) = Inr []"
  shows "\<exists>xs low high. rbind (jindex mit f) json_iter = Inr xs \<and> range_list N xs = Inr [low, high] \<and>
    validate_range name [low, high] = Inr (low, high)"
proof -
  from optional_pair_Nil [OF assms(3,2)] obtain x where
    "pair_of N (jget mit f) (label @ ''.'' @ f) = Inr (x, [])" .
  then obtain a b low high where "jget mit f = JArr [a, b]" "to_float (parse_float N) a = Inr low"
    "to_float (parse_float N) b = Inr high" "isfinite low" "isfinite high" "\<not> fle high low"
    by (rule pair_of_Nil)
  then show ?thesis using jindex_present [OF assms(1,2)]
    by (simp add: range_list_def validate_range_def)
qed

lemma mit_ranges_built:
  assumes "mit_range_errors N label rec = Inr []" and "present rec ''mit_ranges''"
  shows "\<exists>r. ranges_of_json N (jget rec ''mit_ranges'') = Inr r \<and> register_readback_verified r"
proof -
  let ?m = "jget rec ''mit_ranges''"
  from assms have d: "is_dict ?m"
    and p: "\<forall>f \<in> {''position_rad'', ''velocity_rad_s'', ''kp'', ''kd'', ''torque_nm'', ''source''}. present ?m f"
    and q: "\<forall>f \<in> {''position_rad'', ''velocity_rad_s'', ''torque_nm''}.
      rbind (optional_pair N ?m f (label @ ''.mit_ranges'')) (\<lambda>(_, es). Inr es) = Inr []"
    and s: "jget ?m ''source'' = JStr ''motor_register_readback''"
    by (auto simp: mit_range_errors_def Let_def sequence_Nil present_def filter_empty_conv split: if_splits)
  have r: "\<exists>xs low high. rbind (jindex ?m f) json_iter = Inr xs \<and> range_list N xs = Inr [low, high] \<and>
      validate_range f [low, high] = Inr (low, high)"
    if "f \<in> {''position_rad'', ''velocity_rad_s'', ''torque_nm''}" for f
    using range_of_pair [OF d _ bspec [OF q that], of f] p that by auto
  from r [of "''position_rad''"] r [of "''velocity_rad_s''"] r [of "''torque_nm''"]
  show ?thesis using s jindex_present [OF d, of "''source''"] p
    by (auto simp: ranges_of_json_def new_mit_ranges_def register_readback_verified_def)
qed

definition plain_ids :: "json \<Rightarrow> bool" where
  "plain_ids rec = list_all (\<lambda>f. case jget rec f of JBool _ \<Rightarrow> False | _ \<Rightarrow> True)
     [''can_channel'', ''can_id'', ''master_id'']"

lemma plain_int: "(case v of JBool _ \<Rightarrow> False | _ \<Rightarrow> True) \<Longrightarrow> int_value v = Some n \<Longrightarrow> v = JInt n"
  by (cases v) auto

lemma json_int_value: "int_value v = Some n \<Longrightarrow> json_int p v = Inr n"
  by (cases v) auto

definition built_from :: "string list \<Rightarrow> (string \<times> json) \<Rightarrow> feedback_endpoint \<Rightarrow> bool" where
  "built_from interfaces m e \<longleftrightarrow> (\<exists>c i. jget (snd m) ''can_channel'' = JInt c \<and> 0 \<le> c \<and> c < 4 \<and>
     jget (snd m) ''can_id'' = JInt i \<and> jget (snd m) ''master_id'' = JInt (i + 0x10) \<and>
     ep_motor_name e = fst m \<and> ep_interface e = interfaces ! nat c \<and> ep_can_id e = i \<and>
     ep_master_id e = i + 0x10 \<and> register_readback_verified (ep_ranges e))"

lemma motor_endpoint_built:
  assumes ok: "motor_ok N policy name rec" and plain: "plain_ids rec" and name: "name \<noteq> []"
    and ifs: "length interfaces = 4" "\<forall>s \<in> set interfaces. s \<noteq> []"
  shows "\<exists>e. motor_endpoint N interfaces name rec = Inr e \<and> built_from interfaces (name, rec) e"
proof -
  have m: "motor_record_errors N name rec policy = Inr []" and d: "is_dict rec"
    using ok by (simp_all add: motor_ok_def)
  have pr: "present rec ''can_channel''" "present rec ''can_id''" "present rec ''master_id''"
    "present rec ''mit_ranges''"
    by (rule motor_record_required [OF m], simp add: MOTOR_REQUIRED_FIELDS_def)+
  from id_errors_values [OF motor_record_checks(1) [OF m] pr(1-3)] obtain c i where v:
    "int_value (jget rec ''can_channel'') = Some c" "0 \<le> c" "c < 4"
    "int_value (jget rec ''can_id'') = Some i" "0 \<le> i" "i \<le> 15"
    "int_value (jget rec ''master_id'') = Some (i + 0x10)" by blast
  have j: "jget rec ''can_channel'' = JInt c" "jget rec ''can_id'' = JInt i"
    "jget rec ''master_id'' = JInt (i + 0x10)"
    using plain plain_int v by (auto simp: plain_ids_def)
  from mit_ranges_built [OF motor_record_checks(3) [OF m] pr(4)] obtain r where
    r: "ranges_of_json N (jget rec ''mit_ranges'') = Inr r" "register_readback_verified r" by blast
  have l: "list_index interfaces c = Inr (interfaces ! nat c)"
    using v(2,3) ifs(1) by (simp add: list_index_def Let_def)
  have "interfaces ! nat c \<noteq> []" using v(2,3) ifs by simp
  with v name have "motor_endpoint N interfaces name rec = Inr \<lparr>ep_motor_name = name,
      ep_interface = interfaces ! nat c, ep_can_id = i, ep_master_id = i + 0x10, ep_ranges = r\<rparr>"
    using d jindex_present [OF d pr(1)] jindex_present [OF d pr(2)] jindex_present [OF d pr(3)]
      jindex_present [OF d pr(4)] r(1) l
    by (simp add: motor_endpoint_def j endpoint_of_json_def new_feedback_endpoint_def)
  then show ?thesis using j v r(2) by (simp add: built_from_def)
qed

lemma dict_set_not_Nil: "dict_set d k v \<noteq> []"
  by (induction d k v rule: dict_set.induct) auto

lemma register_returns:
  assumes "distinct (map (\<lambda>e. (ep_interface e, ep_master_id e)) es)"
    and "\<forall>e \<in> set es. (ep_interface e, ep_master_id e) \<notin> fst ` set d"
  shows "\<exists>d'. register_endpoints d es = Inr d' \<and> (es \<noteq> [] \<longrightarrow> d' \<noteq> [])"
  using assms
proof (induction es arbitrary: d)
  case Nil
  then show ?case by simp
next
  case (Cons e es)
  let ?d = "dict_set d (ep_interface e, ep_master_id e) e"
  have "\<exists>d'. register_endpoints ?d es = Inr d' \<and> (es \<noteq> [] \<longrightarrow> d' \<noteq> [])"
    using Cons.prems by (intro Cons.IH) (auto simp: image_iff)
  moreover have "?d \<noteq> []" by (rule dict_set_not_Nil)
  ultimately show ?case using Cons.prems by (cases es) auto
qed

lemma decoder_returns:
  "distinct (map (\<lambda>e. (ep_interface e, ep_master_id e)) es) \<Longrightarrow> es \<noteq> [] \<Longrightarrow>
    \<exists>d. new_feedback_decoder es = Inr d"
  using register_returns [of es "[]"] by (auto simp: new_feedback_decoder_def)

lemma interface_errors_Nil:
  assumes "interface_errors v = []"
  obtains names where "v = JArr names" "length names = 4" "distinct names"
    "\<forall>n \<in> set names. is_str n \<and> jstring n \<noteq> []"
  using assms by (auto simp: interface_errors_def interface_name_def list_ex_iff split: json.splits if_splits)

text \<open>Two motors with the same address would have the same texts.\<close>

lemma built_texts:
  assumes "list_all2 (built_from interfaces) ms es"
  shows "command_texts ms = map (\<lambda>(_, rec). py_str (jget rec ''can_channel'') @ '':'' @ py_str (jget rec ''can_id'')) ms"
    and "feedback_texts ms = map (\<lambda>(_, rec). py_str (jget rec ''can_channel'') @ '':'' @ py_str (jget rec ''master_id'')) ms"
  using assms
  by (induction rule: list_all2_induct)
    (auto simp: command_texts_def feedback_texts_def built_from_def endpoint_text_def is_int_def option_list_def)

lemma built_keys_distinct:
  assumes "list_all2 (built_from interfaces) ms es" and "length interfaces = 4" and "distinct interfaces"
  shows "distinct (command_texts ms) \<Longrightarrow> distinct (map (\<lambda>e. (ep_interface e, ep_can_id e)) es)"
    and "distinct (feedback_texts ms) \<Longrightarrow> distinct (map (\<lambda>e. (ep_interface e, ep_master_id e)) es)"
    and "set (command_texts ms) \<inter> set (feedback_texts ms) = {} \<Longrightarrow>
      set (map (\<lambda>e. (ep_interface e, ep_can_id e)) es) \<inter> set (map (\<lambda>e. (ep_interface e, ep_master_id e)) es) = {}"
proof -
  have len: "length ms = length es" using assms(1) by (rule list_all2_lengthD)
  have b: "built_from interfaces (ms ! k) (es ! k)" if "k < length es" for k
    using assms(1) that len by (simp add: list_all2_conv_all_nth)
  have same: "interfaces ! nat c = interfaces ! nat c' \<longleftrightarrow> c = c'"
    if "0 \<le> c" "c < 4" "0 \<le> c'" "c' < 4" for c c'
    using that assms(2,3) nth_eq_iff_index_eq [of interfaces "nat c" "nat c'"] by (auto simp: nat_eq_iff2)
  note t = built_texts [OF assms(1)]
  show "distinct (map (\<lambda>e. (ep_interface e, ep_can_id e)) es)" if "distinct (command_texts ms)"
    unfolding distinct_conv_nth
  proof (intro allI impI, simp only: length_map)
    fix i j assume ij: "i < length es" "j < length es" "i \<noteq> j"
    with that len have "command_texts ms ! i \<noteq> command_texts ms ! j"
      by (simp add: distinct_conv_nth t)
    with ij len b [OF ij(1)] b [OF ij(2)]
    show "map (\<lambda>e. (ep_interface e, ep_can_id e)) es ! i \<noteq> map (\<lambda>e. (ep_interface e, ep_can_id e)) es ! j"
      by (auto simp: t built_from_def split_beta same)
  qed
  show "distinct (map (\<lambda>e. (ep_interface e, ep_master_id e)) es)" if "distinct (feedback_texts ms)"
    unfolding distinct_conv_nth
  proof (intro allI impI, simp only: length_map)
    fix i j assume ij: "i < length es" "j < length es" "i \<noteq> j"
    with that len have "feedback_texts ms ! i \<noteq> feedback_texts ms ! j"
      by (simp add: distinct_conv_nth t)
    with ij len b [OF ij(1)] b [OF ij(2)]
    show "map (\<lambda>e. (ep_interface e, ep_master_id e)) es ! i \<noteq> map (\<lambda>e. (ep_interface e, ep_master_id e)) es ! j"
      by (auto simp: t built_from_def split_beta same)
  qed
  show "set (map (\<lambda>e. (ep_interface e, ep_can_id e)) es) \<inter> set (map (\<lambda>e. (ep_interface e, ep_master_id e)) es) = {}"
    if dj: "set (command_texts ms) \<inter> set (feedback_texts ms) = {}"
  proof (rule ccontr)
    assume "\<not> ?thesis"
    then obtain i j where ij: "i < length es" "j < length es"
      "ep_interface (es ! i) = ep_interface (es ! j)" "ep_can_id (es ! i) = ep_master_id (es ! j)"
      by (auto simp: in_set_conv_nth)
    with b [OF ij(1)] b [OF ij(2)] len have "command_texts ms ! i = feedback_texts ms ! j"
      by (auto simp: t built_from_def split_beta same)
    moreover have "command_texts ms ! i \<in> set (command_texts ms)" "feedback_texts ms ! j \<in> set (feedback_texts ms)"
      using ij len by (intro nth_mem; simp add: t)+
    ultimately show False using dj by auto
  qed
qed

lemma motors_built:
  assumes "\<forall>(n, rec) \<in> set ms. motor_ok N policy n rec"
    and "list_all (\<lambda>(name, rec). name \<noteq> [] \<and> plain_ids rec) ms"
    and "length ifs = 4" and "\<forall>s \<in> set ifs. s \<noteq> []"
  obtains es where "rmap (\<lambda>(name, raw). motor_endpoint N ifs name raw) ms = Inr es"
    and "list_all2 (built_from ifs) ms es"
proof -
  have "\<forall>m \<in> set ms. \<exists>e. (case m of (name, raw) \<Rightarrow> motor_endpoint N ifs name raw) = Inr e \<and> built_from ifs m e"
  proof
    fix m assume m: "m \<in> set ms"
    obtain name rec where mm: "m = (name, rec)" by (cases m)
    from m assms(1,2) have "motor_ok N policy name rec" "plain_ids rec" "name \<noteq> []"
      by (auto simp: mm list_all_iff)
    from motor_endpoint_built [OF this assms(3,4)] show
      "\<exists>e. (case m of (name, raw) \<Rightarrow> motor_endpoint N ifs name raw) = Inr e \<and> built_from ifs m e"
      by (simp add: mm)
  qed
  then obtain f where f: "\<forall>m \<in> set ms. (case m of (name, raw) \<Rightarrow> motor_endpoint N ifs name raw) = Inr (f m) \<and>
      built_from ifs m (f m)" by metis
  show thesis
    by (rule that [of "map f ms"]) (use f in \<open>simp_all add: rmap_eq_Inr list_all2_map2 list_all2_same\<close>)
qed

lemma built_facts:
  assumes "list_all2 (built_from ifs) ms es"
  shows "map ep_motor_name es = map fst ms" and "list_all (\<lambda>e. register_readback_verified (ep_ranges e)) es"
  using assms by (induction rule: list_all2_induct) (auto simp: built_from_def)

text \<open>
  C15. Validation is strong enough for what is built from it: from a valid inventory whose motor
  labels are not empty and whose integer fields are not JSON booleans, the 31 decoder endpoints are
  built, one per motor record in order and each from register read-back ranges, with no address
  used twice, and the feedback decoder accepts them.
\<close>

theorem valid_inventory_builds_endpoints:
  assumes "validate_hardware_inventory N hardware policy = Inr r" and "inventory_valid r"
    and "list_all (\<lambda>(name, rec). name \<noteq> [] \<and> plain_ids rec) (jfields (jget hardware ''motor_map''))"
  shows "\<exists>es d. endpoints_from_hardware_config N hardware 31 = Inr es \<and> length es = 31 \<and>
    map ep_motor_name es = map fst (jfields (jget hardware ''motor_map'')) \<and>
    list_all (\<lambda>e. register_readback_verified (ep_ranges e)) es \<and>
    distinct (map (\<lambda>e. (ep_interface e, ep_can_id e)) es @ map (\<lambda>e. (ep_interface e, ep_master_id e)) es) \<and>
    new_feedback_decoder es = Inr d"
proof -
  let ?ms = "jfields (jget hardware ''motor_map'')"
  note v = valid_inventory_spec [OF assms(1,2)]
  from v(10) have ad: "is_dict (jget hardware ''can_adapter'')"
    "interface_errors (jget (jget hardware ''can_adapter'') ''interfaces'') = []"
    by (auto simp: can_adapter_errors_def Let_def sequence_Nil split: if_splits)
  from interface_errors_Nil [OF ad(2)] obtain names where
    n: "jget (jget hardware ''can_adapter'') ''interfaces'' = JArr names" "length names = 4"
    "distinct names" "\<forall>n \<in> set names. is_str n \<and> jstring n \<noteq> []" .
  let ?ifs = "map jstring names"
  have ifs: "length ?ifs = 4" "\<forall>s \<in> set ?ifs. s \<noteq> []" using n by auto
  have "list_all is_str names" using n(4) by (simp add: list_all_iff)
  then have "map JStr ?ifs = names" by (rule map_JStr_jstring)
  with n(3) have di: "distinct ?ifs" by (metis distinct_map)
  from motors_built [OF v(4) assms(3) ifs] obtain es where
    rm: "rmap (\<lambda>(name, raw). motor_endpoint N ?ifs name raw) ?ms = Inr es"
    and b: "list_all2 (built_from ?ifs) ?ms es" .
  have len: "length es = 31" using list_all2_lengthD [OF b] v(3) by simp
  note k = built_keys_distinct [OF b ifs(1) di]
  have dist: "distinct (map (\<lambda>e. (ep_interface e, ep_can_id e)) es)"
    "distinct (map (\<lambda>e. (ep_interface e, ep_master_id e)) es)"
    "set (map (\<lambda>e. (ep_interface e, ep_can_id e)) es) \<inter> set (map (\<lambda>e. (ep_interface e, ep_master_id e)) es) = {}"
    by (rule k(1) [OF v(7)], rule k(2) [OF v(8)], rule k(3) [OF v(9)])
  have ne: "?ms \<noteq> []" "es \<noteq> []" using v(3) len by auto
  have md: "is_dict (jget hardware ''motor_map'')"
    using ne(1) by (cases "jget hardware ''motor_map''") auto
  from decoder_returns [OF dist(2) ne(2)] obtain d where d: "new_feedback_decoder es = Inr d" by blast
  have ns: "list_all (\<lambda>n. is_str n \<and> jstring n \<noteq> []) names" using n(4) by (simp add: list_all_iff)
  have "endpoints_from_hardware_config N hardware 31 = Inr es"
    unfolding endpoints_from_hardware_config_def Let_def n(1) json.case
    using ad(1) n(2) ns md ne(1) v(3) rm d dist by simp
  then show ?thesis using d dist len built_facts [OF b] by (intro exI [of _ es] exI [of _ d]) simp
qed

end
