(* ===== verification/FullBodySample.thy ===== *)
theory FullBodySample
  imports FullBodySafety Inventory
begin

text \<open>
  A full-body probe of 31 motors on four buses: one poll of each bus, an answer of every motor and one
  packet of each kind from the IMU.
\<close>

section \<open>The robot\<close>

definition body_bus :: "nat \<Rightarrow> string" where
  "body_bus b = ''can'' @ replicate b (CHR ''x'')"

definition body_endpoint :: "nat \<Rightarrow> nat \<Rightarrow> feedback_endpoint" where
  "body_endpoint b i = \<lparr>ep_motor_name = replicate (8 * b + i) (CHR ''m''), ep_interface = body_bus b,
     ep_can_id = int i + 1, ep_master_id = int i + 17, ep_ranges = sample_ranges\<rparr>"

definition body_items :: "nat \<Rightarrow> feedback_endpoint list" where
  "body_items b = map (body_endpoint b) [0..<(if b = 3 then 7 else 8)]"

definition body_groups :: "feedback_endpoint list list" where
  "body_groups = map body_items [0..<4]"

definition body_motors :: "feedback_endpoint list" where
  "body_motors = concat body_groups"

definition body_poller :: "nat \<Rightarrow> zero_gain_poller" where
  "body_poller b = new_zero_gain_poller (body_bus b)"

definition body_pollers :: "(string, zero_gain_poller) dict" where
  "body_pollers = map (\<lambda>b. (body_bus b, body_poller b)) [0..<4]"

lemma body_bus_eq [simp]: "body_bus b = body_bus c \<longleftrightarrow> b = c"
  by (simp add: body_bus_def)

lemma body_motor_cases:
  assumes "e \<in> set body_motors"
  obtains b i where "b < 4" and "i < 8" and "e = body_endpoint b i"
proof -
  from assms have "\<exists>b i. b < 4 \<and> i < 8 \<and> e = body_endpoint b i"
    by (force simp: body_motors_def body_groups_def body_items_def split: if_splits)
  with that show thesis by blast
qed

lemma on_body_bus: "b < 4 \<Longrightarrow> on_interface body_motors (body_bus b) = body_items b"
proof -
  have "filter (\<lambda>e. ep_interface e = body_bus b) (body_items c) = (if b = c then body_items c else [])" for c
    by (auto simp: body_items_def body_endpoint_def filter_map comp_def)
  then have "on_interface body_motors (body_bus b) = concat (map (\<lambda>c. if b = c then body_items c else []) [0..<4])"
    by (simp add: on_interface_def body_motors_def body_groups_def filter_concat comp_def)
  moreover assume "b < 4"
  then consider "b = 0" | "b = 1" | "b = 2" | "b = 3" by linarith
  then have "concat (map (\<lambda>c. if b = c then body_items c else []) [0..<4]) = body_items b"
    by cases (simp_all add: upt_rec numeral_2_eq_2 numeral_3_eq_3)
  ultimately show ?thesis by simp
qed

lemma length_body_items: "length (body_items b) = (if b = 3 then 7 else 8)"
  by (simp add: body_items_def)

lemma body_motors_length: "length body_motors = 31"
  by (simp add: body_motors_def body_groups_def upt_rec length_body_items)

lemma body_names_distinct: "distinct (map ep_motor_name body_motors)"
proof -
  have "map length (map ep_motor_name body_motors) = [0..<31]"
    by (simp add: body_motors_def body_groups_def body_items_def body_endpoint_def upt_rec)
  then have "distinct (map length (map ep_motor_name body_motors))" by simp
  then show ?thesis by (simp only: distinct_map)
qed

lemma body_keys_distinct: "distinct (map (\<lambda>e. (ep_interface e, ep_master_id e)) body_motors)"
proof -
  have "map (\<lambda>e. (length (ep_interface e), ep_master_id e)) body_motors =
      concat (map (\<lambda>b. map (\<lambda>i. (b + 3, int i + 17)) [0..<(if b = 3 then 7 else 8)]) [0..<4])"
    by (simp add: body_motors_def body_groups_def body_items_def body_endpoint_def body_bus_def upt_rec)
  moreover have "distinct \<dots>" by (simp add: upt_rec)
  ultimately have "distinct (map (\<lambda>(i, m). (length i, m)) (map (\<lambda>e. (ep_interface e, ep_master_id e)) body_motors))"
    by (simp add: comp_def)
  then show ?thesis by (simp only: distinct_map)
qed

section \<open>Answers\<close>

definition body_answer :: "feedback_endpoint \<Rightarrow> can_frame" where
  "body_answer e = sample_feedback_frame\<lparr>f_interface := ep_interface e, f_can_id := ep_master_id e,
     f_data := [word_of_int (ep_can_id e), 0, 0, 0, 0, 0, 30, 31]\<rparr>"

definition body_feedback :: "feedback_endpoint \<Rightarrow> feedback" where
  "body_feedback e = (case decode_damiao_feedback (body_answer e) e of Inr fb \<Rightarrow> fb | Inl _ \<Rightarrow> sample_feedback 6)"

lemma body_answer_fields:
  "f_interface (body_answer e) = ep_interface e" "f_can_id (body_answer e) = ep_master_id e"
  "is_fd (body_answer e)" "bit_rate_switch (body_answer e)"
  by (simp_all add: body_answer_def sample_feedback_frame_def)

lemma body_answer_decodes:
  assumes "e \<in> set body_motors"
  shows "decode_damiao_feedback (body_answer e) e = Inr (body_feedback e) \<and>
    fb_motor_name (body_feedback e) = ep_motor_name e \<and> disabled (body_feedback e)"
proof -
  from assms obtain b i where e: "i < 8" "e = body_endpoint b i" by (rule body_motor_cases)
  from e(1) consider "i = 0" | "i = 1" | "i = 2" | "i = 3" | "i = 4" | "i = 5" | "i = 6" | "i = 7" by linarith
  then have "\<exists>fb. decode_damiao_feedback (body_answer e) e = Inr fb \<and> fb_motor_name fb = ep_motor_name e \<and> disabled fb"
    by cases (simp_all add: e(2) body_answer_def decode_damiao_feedback_def sample_feedback_frame_def
      STATUS_NAMES_def body_endpoint_def sample_ranges_def byte_at_def uint_to_float_def int_fields float_eval)
  then show ?thesis by (auto simp: body_feedback_def)
qed

lemma body_decoder:
  obtains d where "new_feedback_decoder body_motors = Inr d"
    and "\<And>e. e \<in> set body_motors \<Longrightarrow> decoder_decode d (body_answer e) = Inr (body_feedback e)"
proof -
  from body_motors_length have "body_motors \<noteq> []" by auto
  with decoder_returns [OF body_keys_distinct] obtain d where d: "new_feedback_decoder body_motors = Inr d" by blast
  have "decoder_decode d (body_answer e) = Inr (body_feedback e)" if "e \<in> set body_motors" for e
    using decoder_lookup [OF d, of "(ep_interface e, ep_master_id e)" e] body_answer_decodes [OF that] that
    by (simp add: decoder_decode_def body_answer_fields)
  with d that show thesis by blast
qed

lemma body_keys:
  assumes "e \<in> set body_motors"
  shows "(ep_interface e, ep_master_id e) \<notin> command_keys body_motors"
    and "(ep_interface e, ep_master_id e) \<in> feedback_keys body_motors"
proof -
  have "ep_can_id a \<noteq> ep_master_id e" if "a \<in> set body_motors" for a
    using assms that by (elim body_motor_cases) (simp add: body_endpoint_def)
  then show "(ep_interface e, ep_master_id e) \<notin> command_keys body_motors" by (fastforce simp: command_keys_def)
  from assms show "(ep_interface e, ep_master_id e) \<in> feedback_keys body_motors" by (auto simp: feedback_keys_def)
qed

definition answers :: "feedback_endpoint list \<Rightarrow> (can_frame result \<times> pyfloat) list" where
  "answers es = map (\<lambda>e. (Inr (body_answer e), Fin 0)) es"

definition accept_all :: "feedback_endpoint list \<Rightarrow> body_state \<Rightarrow> body_state" where
  "accept_all es s = foldl (\<lambda>s e. body_accept (body_feedback e) (Fin 0) s) s es"

lemma can_drain_answers:
  assumes "\<And>e. e \<in> set body_motors \<Longrightarrow> decoder_decode d (body_answer e) = Inr (body_feedback e)"
    and "set es \<subseteq> set body_motors"
  shows "can_drain body_motors d (answers es) s = (accept_all es s, Inr ())"
  using assms(2)
proof (induction es arbitrary: s)
  case Nil
  then show ?case by (simp add: answers_def accept_all_def)
next
  case (Cons e es)
  then have e: "e \<in> set body_motors" by simp
  with Cons show ?case
    using assms(1) [OF e] body_answer_decodes [OF e] body_keys [OF e]
    by (simp add: answers_def accept_all_def body_answer_fields Let_def)
qed

lemma body_ready_answers:
  assumes "\<And>e. e \<in> set body_motors \<Longrightarrow> decoder_decode d (body_answer e) = Inr (body_feedback e)"
    and "list_all (\<lambda>es. set es \<subseteq> set body_motors \<and> length es \<le> 64) groups"
  shows "body_ready body_motors d (map (\<lambda>es. CanReady (answers es)) groups) s = (accept_all (concat groups) s, Inr ())"
  using assms(2)
proof (induction groups arbitrary: s)
  case Nil
  then show ?case by (simp add: accept_all_def)
next
  case (Cons es groups)
  then have "take 64 (answers es) = answers es" by (simp add: answers_def)
  with Cons can_drain_answers [OF assms(1), of es s] show ?case by (simp add: accept_all_def)
qed

section \<open>After the answers\<close>

text \<open>A dictionary that is given by a function of the motors.\<close>

definition by_motor :: "(feedback_endpoint \<Rightarrow> 'v) \<Rightarrow> (string, 'v) dict" where
  "by_motor g = map (\<lambda>e. (ep_motor_name e, g e)) body_motors"

lemma by_motor_lookup: "e \<in> set body_motors \<Longrightarrow> map_of (by_motor g) (ep_motor_name e) = Some (g e)"
  unfolding by_motor_def using body_names_distinct by (intro map_of_is_SomeI) (auto simp: comp_def)

lemma dict_set_map:
  "x \<in> set xs \<Longrightarrow> distinct (map n xs) \<Longrightarrow>
    dict_set (map (\<lambda>x. (n x, g x)) xs) (n x) v = map (\<lambda>y. (n y, if y = x then v else g y)) xs"
proof (induction xs)
  case (Cons a xs)
  then show ?case by (cases "a = x") (auto intro!: map_cong)
qed simp

lemma by_motor_set:
  "e \<in> set body_motors \<Longrightarrow> dict_set (by_motor g) (ep_motor_name e) v = by_motor (\<lambda>a. if a = e then v else g a)"
  using body_names_distinct by (simp add: by_motor_def dict_set_map)

lemma by_motor_append:
  "e \<in> set body_motors \<Longrightarrow>
    append_value (by_motor g) (body_feedback e) = by_motor (\<lambda>a. if a = e then g a @ [body_feedback a] else g a)"
  by (auto simp: append_value_def body_answer_decodes by_motor_lookup by_motor_set intro!: arg_cong [of _ _ by_motor])

lemma accept_all_state:
  assumes "set es \<subseteq> set body_motors" and "distinct es"
    and "bd_values s = by_motor g" and "bd_last_feedback s = by_motor (\<lambda>_. Fin 0)"
  shows "\<exists>targets. accept_all es s = s\<lparr>bd_targets := targets,
    bd_values := by_motor (\<lambda>a. g a @ (if a \<in> set es then [body_feedback a] else []))\<rparr>"
  using assms
proof (induction es arbitrary: s g)
  case Nil
  then show ?case by (auto simp: accept_all_def intro!: exI [of _ "bd_targets s"])
next
  case (Cons e es)
  then have e: "e \<in> set body_motors" by simp
  let ?s = "body_accept (body_feedback e) (Fin 0) s" and ?g = "\<lambda>a. if a = e then g a @ [body_feedback a] else g a"
  have s: "?s = s\<lparr>bd_values := by_motor ?g,
      bd_targets := dict_set (bd_targets s) (ep_motor_name e) (fb_position_rad (body_feedback e))\<rparr>"
    using Cons.prems(4) by_motor_set [OF e, of "\<lambda>_. Fin 0" "Fin 0"] body_answer_decodes [OF e]
    by (intro body_state.equality) (simp_all add: body_accept_def Cons.prems(3) by_motor_append [OF e])
  have g: "(\<lambda>a. ?g a @ (if a \<in> set es then [body_feedback a] else [])) =
      (\<lambda>a. g a @ (if a \<in> set (e # es) then [body_feedback a] else []))"
    using Cons.prems(2) by (auto simp: fun_eq_iff)
  from Cons.prems have "\<exists>targets. accept_all es ?s = ?s\<lparr>bd_targets := targets,
    bd_values := by_motor (\<lambda>a. ?g a @ (if a \<in> set es then [body_feedback a] else []))\<rparr>"
    by (intro Cons.IH) (auto simp: s)
  then obtain targets where "accept_all es ?s = ?s\<lparr>bd_targets := targets,
    bd_values := by_motor (\<lambda>a. g a @ (if a \<in> set (e # es) then [body_feedback a] else []))\<rparr>"
    unfolding g by blast
  moreover have "accept_all (e # es) s = accept_all es ?s" by (simp add: accept_all_def)
  ultimately show ?case by (auto simp: s)
qed

lemma body_motors_distinct: "distinct body_motors"
  using body_names_distinct by (simp only: distinct_map)

section \<open>The IMU\<close>

definition raw_frame :: bytes where
  "raw_frame = [0x7E, 0x23, 23, 4, 0, 0, 0, 0, 0, 0, 0, 0, 0, 0, 0, 0, 0, 0, 0, 0, 0, 0, 0xBC]"

definition quaternion_frame :: bytes where
  "quaternion_frame = [0x7E, 0x23, 21, 0x16, 0, 0, 0, 0, 0, 0, 0, 0, 0, 0, 0, 0, 0, 0, 0, 0, 0xCC]"

lemma raw_frame_decodes: "\<exists>p. decode_frame raw_frame = Inr p \<and> is_raw p \<and> \<not> is_quaternion p"
  by (simp add: decode_frame_def raw_frame_def FRAME_HEADER_def checksum_def FUNCTION_RAW_IMU_def
      slice_def Let_def)

lemma quaternion_frame_decodes: "\<exists>p. decode_frame quaternion_frame = Inr p \<and> is_quaternion p \<and> \<not> is_raw p"
  by (simp add: decode_frame_def quaternion_frame_def FRAME_HEADER_def checksum_def FUNCTION_RAW_IMU_def
      FUNCTION_QUATERNION_def slice_def Let_def)

lemma imu_packets:
  "imu_read (raw_frame @ quaternion_frame) (Fin 0) s = s\<lparr>bd_imu_raw := bd_imu_raw s + 1,
     bd_imu_quaternion := bd_imu_quaternion s + 1, bd_last_imu := Fin 0\<rparr>"
  if "bd_imu_decoder s = \<lparr>sd_maximum_frame_length = 64, sd_buffer = [], sd_rejected_frame_count = 0\<rparr>"
proof -
  from raw_frame_decodes quaternion_frame_decodes obtain p q where
    p: "decode_frame raw_frame = Inr p" "is_raw p" "\<not> is_quaternion p" and
    q: "decode_frame quaternion_frame = Inr q" "is_quaternion q" "\<not> is_raw q" by blast
  have "scan 64 (noisy_stream [([], raw_frame), ([], quaternion_frame)]) = ([p, q], [], 0)"
    using p q by (intro scan_stream) (simp add: raw_frame_def quaternion_frame_def)
  with that p q show ?thesis by (simp add: imu_read_def feed_def)
qed

section \<open>The polls\<close>

lemma body_poll:
  "\<exists>c f. encode_zero_gain_position_echo (body_endpoint b 0) (Fin 0) = Inr c \<and>
    send_zero_gain_poll (body_poller b) (ec_can_id c, ec_data c) (Some 72) =
      (\<lparr>zg_interface = body_bus b, zg_wire = [f], zg_tx_attempts = 1\<rparr>, Inr ())"
proof -
  have "ep_ranges (body_endpoint b 0) = ep_ranges sample_endpoint"
    by (simp add: body_endpoint_def sample_endpoint_def)
  from echo_encodes [OF trans [OF this sample_ranges_form] sample_symmetric, of 0] obtain n where
    n: "encode_zero_gain_position_echo (body_endpoint b 0) (Fin 0) = Inr \<lparr>ec_motor_name = ep_motor_name (body_endpoint b 0),
      ec_interface = ep_interface (body_endpoint b 0), ec_can_id = 1, ec_data = pack_mit n 2047 0 0 2047\<rparr>"
    "0 \<le> n" "n < 2 ^ 16" by (auto simp: body_endpoint_def)
  then show ?thesis
    by (simp add: send_zero_gain_poll_def standard_id_def validate_zero_gain_mit_payload_def body_poller_def
        pack_mit_fields canfd_pack_wire short_write_check_def length_wire_frame new_zero_gain_poller_def)
qed

definition body_slot :: "nat \<Rightarrow> pyfloat" where
  "body_slot b = rnd (1 / (64 * of_nat (length (body_items b))))"

definition fresh_bus :: "nat \<Rightarrow> bus" where
  "fresh_bus b = \<lparr>bu_interface = body_bus b, bu_items = body_items b, bu_slot = body_slot b,
     bu_poller = body_poller b, bu_next_send = Fin 0, bu_next_index = 0\<rparr>"

definition polled_bus :: "nat \<Rightarrow> bytes \<Rightarrow> bus" where
  "polled_bus b f = (fresh_bus b)\<lparr>bu_poller := \<lparr>zg_interface = body_bus b, zg_wire = [f], zg_tx_attempts = 1\<rparr>,
     bu_next_index := 1, bu_next_send := body_slot b\<rparr>"

lemma body_slot_positive: "fle (Fin (1 / 512)) (body_slot b)"
proof -
  have "rnd (1 / 512) = Fin (1 / 512)" by (simp add: float_eval)
  with rnd_mono [of "1 / 512" "1 / (64 * of_nat (length (body_items b)))"] show ?thesis
    by (simp add: body_slot_def length_body_items split: if_splits)
qed

lemma body_slot_facts:
  "fdiv (Fin 1) (fmul (Fin 64) (Fin (of_nat (length (body_items b))))) = Inr (body_slot b)"
  "fadd (Fin 0) (body_slot b) = body_slot b" "\<not> fle (body_slot b) (Fin 0)"
proof -
  have "rnd (of_int 512) = Fin 512" "rnd (of_int 448) = Fin 448" by (subst rnd_of_int; simp)+
  then show "fdiv (Fin 1) (fmul (Fin 64) (Fin (of_nat (length (body_items b))))) = Inr (body_slot b)"
    by (simp add: body_slot_def length_body_items)
  from body_slot_positive [of b] show "\<not> fle (body_slot b) (Fin 0)" by (cases "body_slot b") auto
  have "is_double (body_slot b)" by (simp add: body_slot_def)
  then show "fadd (Fin 0) (body_slot b) = body_slot b" by (cases "body_slot b") (auto simp: is_double_def)
qed

lemma body_bus_send:
  assumes "b < 4"
  shows "\<exists>f. bus_send (by_motor (\<lambda>_. Fin 0)) (Fin 0) (\<lambda>_. Some 72) 16 (fresh_bus b) = (polled_bus b f, Inr (15, []))"
proof -
  obtain c f where c: "encode_zero_gain_position_echo (body_endpoint b 0) (Fin 0) = Inr c"
    "send_zero_gain_poll (body_poller b) (ec_can_id c, ec_data c) (Some 72) =
      (\<lparr>zg_interface = body_bus b, zg_wire = [f], zg_tx_attempts = 1\<rparr>, Inr ())" using body_poll by blast
  have "body_items b \<in> set body_groups" "body_endpoint b 0 \<in> set (body_items b)"
    using assms by (auto simp: body_groups_def body_items_def)
  then have "body_endpoint b 0 \<in> set body_motors" unfolding body_motors_def by auto
  then have t: "lookup_result (by_motor (\<lambda>_. Fin 0)) (ep_motor_name (body_endpoint b 0)) = Inr (Fin 0)"
    by (simp add: lookup_result_def by_motor_lookup)
  have e: "body_items b ! 0 = body_endpoint b 0" by (simp add: body_items_def)
  have "bus_send (by_motor (\<lambda>_. Fin 0)) (Fin 0) (\<lambda>_. Some 72) (Suc (Suc 14)) (fresh_bus b) = (polled_bus b f, Inr (15, []))"
    unfolding bus_send.simps
    using length_body_items [of b]
    by (simp add: fresh_bus_def polled_bus_def Let_def e t c body_slot_facts(2,3) mod_less)
  then show ?thesis by auto
qed

lemma rmap_map: "(\<And>x. x \<in> set xs \<Longrightarrow> f (g x) = Inr (h x)) \<Longrightarrow> rmap f (map g xs) = Inr (map h xs)"
  by (induction xs) simp_all

lemma new_body_buses: "new_buses body_motors (Fin 64) (Fin 0) body_pollers = Inr (map fresh_bus [0..<4])"
  unfolding new_buses_def body_pollers_def
proof (rule rmap_map, goal_cases)
  case (1 b)
  then have "b < 4" by simp
  then show ?case using body_slot_facts(1) [of b] by (simp only: case_prod_conv Let_def on_body_bus) (simp add: fresh_bus_def)
qed

lemma body_buses_send:
  "list_all (\<lambda>b. b < 4) bs \<Longrightarrow> \<exists>fs. length fs = length bs \<and>
    buses_send (by_motor (\<lambda>_. Fin 0)) (Fin 0) (\<lambda>_ _. Some 72) (map fresh_bus bs) =
      (map2 polled_bus bs fs, Inr [])"
proof (induction bs)
  case (Cons b bs)
  then obtain fs where fs: "length fs = length bs"
    "buses_send (by_motor (\<lambda>_. Fin 0)) (Fin 0) (\<lambda>_ _. Some 72) (map fresh_bus bs) = (map2 polled_bus bs fs, Inr [])"
    by auto
  from Cons.prems body_bus_send [of b] obtain f where
    "bus_send (by_motor (\<lambda>_. Fin 0)) (Fin 0) (\<lambda>_. Some 72) 16 (fresh_bus b) = (polled_bus b f, Inr (15, []))" by auto
  with fs show ?case by (intro exI [of _ "f # fs"]) (simp add: drop_backlog_def)
qed simp

section \<open>The run\<close>

definition body_turns :: "body_turn list" where
  "body_turns =
     [\<lparr>bt_keep_running = True, bt_now = Fin 0, bt_sent = (\<lambda>_ _. Some 72),
       bt_ready = ImuReady (Inr (raw_frame @ quaternion_frame)) (Fin 0) # map (\<lambda>es. CanReady (answers es)) body_groups,
       bt_end_clock = Fin 0\<rparr>,
      \<lparr>bt_keep_running = False, bt_now = Fin 0, bt_sent = (\<lambda>_ _. None), bt_ready = [], bt_end_clock = Fin 0\<rparr>]"

definition body_start :: "bus list \<Rightarrow> body_state" where
  "body_start bs = \<lparr>bd_buses = bs, bd_targets = by_motor (\<lambda>_. Fin 0), bd_values = by_motor (\<lambda>_. []),
     bd_last_feedback = by_motor (\<lambda>_. Fin 0), bd_last_imu = Fin 0,
     bd_imu_decoder = \<lparr>sd_maximum_frame_length = 64, sd_buffer = [], sd_rejected_frame_count = 0\<rparr>,
     bd_imu_raw = 0, bd_imu_quaternion = 0, bd_discarded = 0, bd_errors = []\<rparr>"

definition body_end :: "bus list \<Rightarrow> (string, pyfloat) dict \<Rightarrow> body_state" where
  "body_end bs targets = (body_start bs)\<lparr>bd_targets := targets, bd_values := by_motor (\<lambda>e. [body_feedback e]),
     bd_imu_raw := 1, bd_imu_quaternion := 1\<rparr>"

lemma by_motor_cong: "(\<And>e. e \<in> set body_motors \<Longrightarrow> g e = h e) \<Longrightarrow> by_motor g = by_motor h"
  by (auto simp: by_motor_def)

lemma body_turn_events:
  assumes "\<And>e. e \<in> set body_motors \<Longrightarrow> decoder_decode d (body_answer e) = Inr (body_feedback e)"
  shows "\<exists>targets. body_ready body_motors d (bt_ready (hd body_turns)) (body_start bs) = (body_end bs targets, Inr ())"
proof -
  let ?s = "imu_read (raw_frame @ quaternion_frame) (Fin 0) (body_start bs)"
  have s: "?s = (body_start bs)\<lparr>bd_imu_raw := 1, bd_imu_quaternion := 1, bd_last_imu := Fin 0\<rparr>"
    by (subst imu_packets) (simp_all add: body_start_def)
  have g: "list_all (\<lambda>es. set es \<subseteq> set body_motors \<and> length es \<le> 64) body_groups"
    by (auto simp: list_all_iff body_motors_def body_groups_def length_body_items)
  have all: "body_ready body_motors d (bt_ready (hd body_turns)) (body_start bs) = (accept_all body_motors ?s, Inr ())"
    using body_ready_answers [OF assms g, of ?s] by (simp add: body_turns_def flip: body_motors_def)
  have "\<exists>targets. accept_all body_motors ?s = ?s\<lparr>bd_targets := targets,
    bd_values := by_motor (\<lambda>a. [] @ (if a \<in> set body_motors then [body_feedback a] else []))\<rparr>"
    by (rule accept_all_state) (simp_all add: body_motors_distinct s, simp_all add: body_start_def)
  moreover have "by_motor (\<lambda>a. [] @ (if a \<in> set body_motors then [body_feedback a] else [])) = by_motor (\<lambda>e. [body_feedback e])"
    by (rule by_motor_cong) simp
  ultimately obtain targets where "accept_all body_motors ?s = ?s\<lparr>bd_targets := targets, bd_values := by_motor (\<lambda>e. [body_feedback e])\<rparr>"
    by auto
  moreover have "?s\<lparr>bd_targets := targets, bd_values := by_motor (\<lambda>e. [body_feedback e])\<rparr> = body_end bs targets"
    unfolding s by (simp add: body_end_def body_start_def)
  ultimately show ?thesis using all by auto
qed

lemma body_loop_run:
  assumes "\<And>e. e \<in> set body_motors \<Longrightarrow> decoder_decode d (body_answer e) = Inr (body_feedback e)"
  shows "\<exists>fs targets. length fs = 4 \<and>
    body_loop body_motors d (Fin 0) (Fin 1) (Fin 1) body_turns (body_start (map fresh_bus [0..<4])) =
      Some (body_end (map2 polled_bus [0..<4] fs) targets, Inr ())"
proof -
  have "list_all (\<lambda>b. b < 4) [0..<4]" by (simp add: list_all_iff)
  from body_buses_send [OF this] obtain fs where fs: "length fs = 4"
    "buses_send (by_motor (\<lambda>_. Fin 0)) (Fin 0) (\<lambda>_ _. Some 72) (map fresh_bus [0..<4]) =
      (map2 polled_bus [0..<4] fs, Inr [])" by auto
  let ?bs = "map2 polled_bus [0..<4] fs"
  from body_turn_events [OF assms, of ?bs] obtain targets where
    ready: "body_ready body_motors d (bt_ready (hd body_turns)) (body_start ?bs) = (body_end ?bs targets, Inr ())" by blast
  have s1: "(body_start (map fresh_bus [0..<4]))\<lparr>bd_buses := ?bs, bd_errors := []\<rparr> = body_start ?bs"
    by (simp add: body_start_def)
  have s2: "bd_errors (body_end ?bs targets) = []" "bd_last_imu (body_end ?bs targets) = Fin 0"
    "stale_motors (Fin 0) (Fin 1) (bd_last_feedback (body_end ?bs targets)) = []"
    by (auto simp: body_end_def body_start_def stale_motors_def by_motor_def fsub_def filter_empty_conv)
  have st: "bd_targets (body_start b) = by_motor (\<lambda>_. Fin 0)" "bd_buses (body_start b) = b" "bd_errors (body_start b) = []" for b
    by (simp_all add: body_start_def)
  show ?thesis
    using fs ready s1 s2 by (intro exI [of _ fs] exI [of _ targets]) (simp add: body_turns_def st fsub_def Let_def)
qed

lemma body_report_passes:
  assumes "length fs = 4"
  shows "\<exists>r. body_report_of body_motors (Fin 1) (Fin 64) (Fin (1 / 2)) (Fin 80) (Fin (1 / 128))
    (body_end (map2 polled_bus [0..<4] fs) targets) = Inr r \<and> body_passed r"
proof -
  have "rnd (of_int 128) = Fin 128" "rnd (of_int 1) = Fin 1" by (subst rnd_of_int; simp)+
  moreover have "rnd (1 / 2) = Fin (1 / 2)" by (simp add: float_eval)
  ultimately have rates: "per_second (Suc 0) (Fin (1 / 128)) = Inr (Fin 128)"
    "coverage_of (Fin (1 / 128)) (Fin 64) [fb] = Inr (Fin 1)" for fb :: feedback
    by (simp_all add: per_second_def float_of_int_def coverage_of_def fint_def rtrunc_def int_truediv_def fmin_def)
  then have coverages: "on_values_result (coverage_of (Fin (1 / 128)) (Fin 64)) (by_motor (\<lambda>e. [body_feedback e])) =
      Inr (by_motor (\<lambda>_. Fin 1))"
    unfolding on_values_result_def by_motor_def by (intro rmap_map) simp
  have tx: "list_all (\<lambda>(_, count). 0 < count)
      (map (\<lambda>b. (bu_interface b, zg_tx_attempts (bu_poller b))) (map2 polled_bus [0..<4] fs))"
    by (auto simp: list_all_iff polled_bus_def)
  show ?thesis
    using tx by (simp add: body_report_of_def body_end_def body_start_def rates coverages body_passed_def Let_def)
      (auto simp: list_all_iff by_motor_lookup)
qed

lemma body_accepted:
  "body_checks body_motors True (Fin 1) (Fin 64) (Fin 1) (Fin (1 / 2)) (Fin 80) = Inr ()"
  "poller_checks body_motors body_pollers = Inr ()" "interface_check body_motors body_pollers = Inr ()"
proof -
  show "body_checks body_motors True (Fin 1) (Fin 64) (Fin 1) (Fin (1 / 2)) (Fin 80) = Inr ()"
    by (simp add: body_checks_def body_motors_length body_names_distinct in_range_def)
  have "list_all (\<lambda>b. b < 4) bs \<Longrightarrow> poller_checks body_motors (map (\<lambda>b. (body_bus b, body_poller b)) bs) = Inr ()" for bs
    by (induction bs) (simp_all add: on_body_bus length_body_items body_poller_def new_zero_gain_poller_def)
  then show "poller_checks body_motors body_pollers = Inr ()" by (simp add: body_pollers_def list_all_iff)
  have "ep_interface ` set (body_items b) = {body_bus b}" for b
    by (auto simp: body_items_def body_endpoint_def image_image image_constant_conv)
  then have "ep_interface ` set body_motors = body_bus ` {0..<4}"
    by (simp add: body_motors_def body_groups_def image_UN) auto
  then show "interface_check body_motors body_pollers = Inr ()"
    by (simp add: interface_check_def body_pollers_def comp_def)
qed

lemma body_probe:
  "\<exists>fs r. length fs = 4 \<and> collect_full_body_shadow body_pollers body_motors True (Fin 1) (Fin 64) (Fin 1) (Fin (1 / 2))
     (Fin 80) (Fin 0) body_turns (Fin (1 / 128)) =
       Some (bus_pollers (map2 polled_bus [0..<4] fs), Inr r) \<and> body_passed r"
proof -
  obtain d where d: "new_feedback_decoder body_motors = Inr d"
    "\<And>e. e \<in> set body_motors \<Longrightarrow> decoder_decode d (body_answer e) = Inr (body_feedback e)" using body_decoder by blast
  from body_loop_run [OF d(2)] obtain fs targets where fs: "length fs = 4"
    "body_loop body_motors d (Fin 0) (Fin 1) (Fin 1) body_turns (body_start (map fresh_bus [0..<4])) =
      Some (body_end (map2 polled_bus [0..<4] fs) targets, Inr ())" by blast
  from body_report_passes [OF fs(1)] obtain r where
    r: "body_report_of body_motors (Fin 1) (Fin 64) (Fin (1 / 2)) (Fin 80) (Fin (1 / 128))
      (body_end (map2 polled_bus [0..<4] fs) targets) = Inr r" "body_passed r" by blast
  have elapsed: "fsub (Fin (1 / 128)) (Fin 0) = Fin (1 / 128)" by (simp add: fsub_def float_eval)
  have names: "map (\<lambda>n. (n, v)) (map ep_motor_name body_motors) = by_motor (\<lambda>_. v)" for v :: 'v
    by (simp add: by_motor_def)
  show ?thesis
    using fs r unfolding collect_full_body_shadow_def body_accepted d(1) sample_stream_decoder new_body_buses
    by (intro exI [of _ fs] exI [of _ r])
      (simp only: rbind_Inr sum.case prod.case Let_def names elapsed flip: body_start_def,
        simp add: body_end_def body_start_def)
qed

lemma list_all2_related: "list_all2 P xs ys \<Longrightarrow> y \<in> set ys \<Longrightarrow> \<exists>x\<in>set xs. P x y"
  by (induction xs ys rule: list_all2_induct) auto

definition body_halt :: body_turn where
  "body_halt = \<lparr>bt_keep_running = False, bt_now = Fin 0, bt_sent = (\<lambda>_ _. None), bt_ready = [], bt_end_clock = Fin 0\<rparr>"

lemma body_turns_count: "0 < length body_turns" and body_halts: "\<not> bt_keep_running body_halt"
  by (simp_all add: body_turns_def body_halt_def)

theorem full_body_probe_rotates_zero_gain_witness:
  "\<exists>ps r ps1. collect_full_body_shadow body_pollers body_motors True (Fin 1) (Fin 64) (Fin 1) (Fin (1 / 2))
     (Fin 80) (Fin 0) body_turns (Fin (1 / 128)) = Some (ps, r) \<and>
   list_all (\<lambda>(i, p). \<exists>f. zg_wire p = [f] \<and> zero_gain_frame f \<and> frame_target f = 1) ps \<and>
   pollers_after (\<lambda>ts. collect_full_body_shadow body_pollers body_motors True (Fin 1) (Fin 64) (Fin 1) (Fin (1 / 2))
     (Fin 80) (Fin 0) ts (Fin (1 / 128))) body_turns body_halt (Suc 0) = Some ps1 \<and>
   list_all2 (\<lambda>(i, p) (i', p'). i' = i \<and> (\<exists>fs. zg_wire p' = zg_wire p @ fs \<and> length fs \<le> 16)) body_pollers ps1"
proof -
  from body_probe obtain fs r where run: "length fs = 4" "collect_full_body_shadow body_pollers body_motors True (Fin 1)
      (Fin 64) (Fin 1) (Fin (1 / 2)) (Fin 80) (Fin 0) body_turns (Fin (1 / 128)) =
       Some (bus_pollers (map2 polled_bus [0..<4] fs), Inr r)" by blast
  note probe = full_body_probe_rotates_zero_gain [OF run(2) body_halts]
  have "\<exists>f. zg_wire p = [f] \<and> zero_gain_frame f \<and> frame_target f = 1"
    if p: "(i, p) \<in> set (bus_pollers (map2 polled_bus [0..<4] fs))" for i p
  proof -
    from p obtain f where f: "zg_wire p = [f]" by (auto simp: bus_pollers_def polled_bus_def)
    from list_all2_related [OF conjunct1 [OF probe] p]
    obtain b where "b < 4" "i = body_bus b" "zero_gain_frame f"
      "frame_target f = ep_can_id (on_interface body_motors i ! (0 mod length (on_interface body_motors i)))"
      using f by (auto simp: body_pollers_def body_poller_def new_zero_gain_poller_def)
    moreover from this(1,2) have "ep_can_id (on_interface body_motors i ! (0 mod length (on_interface body_motors i))) = 1"
      by (simp add: on_body_bus) (simp add: body_items_def body_endpoint_def)
    ultimately show ?thesis using f by simp
  qed
  moreover from probe body_turns_count have "\<exists>ps1. pollers_after (\<lambda>ts. collect_full_body_shadow body_pollers
      body_motors True (Fin 1) (Fin 64) (Fin 1) (Fin (1 / 2)) (Fin 80) (Fin 0) ts (Fin (1 / 128)))
      body_turns body_halt (Suc 0) = Some ps1 \<and> list_all2 (\<lambda>(i, p) (i', p'). i' = i \<and>
        (\<exists>fs. zg_wire p' = zg_wire p @ fs \<and> length fs \<le> 16)) body_pollers ps1" by (auto simp: Let_def)
  ultimately show ?thesis using run(2) by (auto simp: list_all_iff)
qed

theorem passed_full_body_probe_is_evidence_witness:
  "\<exists>ps r n. collect_full_body_shadow body_pollers body_motors True (Fin 1) (Fin 64) (Fin 1) (Fin (1 / 2))
     (Fin 80) (Fin 0) body_turns (Fin (1 / 128)) = Some (ps, Inr r) \<and>
   map_of (br_rx_count_by_motor r) [] = Some n \<and> 0 < n \<and> map_of (br_status_codes_by_motor r) [] = Some [0]"
proof -
  from body_probe obtain fs r where run: "collect_full_body_shadow body_pollers body_motors True (Fin 1)
      (Fin 64) (Fin 1) (Fin (1 / 2)) (Fin 80) (Fin 0) body_turns (Fin (1 / 128)) =
       Some (bus_pollers (map2 polled_bus [0..<4] fs), Inr r)" "body_passed r" by blast
  have "body_endpoint 0 0 \<in> set body_motors"
    by (force simp: body_motors_def body_groups_def body_items_def upt_rec)
  with passed_full_body_probe_is_evidence [OF run] have
    "\<exists>n. map_of (br_rx_count_by_motor r) (ep_motor_name (body_endpoint 0 0)) = Some n \<and> 0 < n \<and>
      map_of (br_status_codes_by_motor r) (ep_motor_name (body_endpoint 0 0)) = Some [0]"
    unfolding list_all_iff by blast
  with run(1) show ?thesis by (auto simp: body_endpoint_def)
qed

end
