(* ===== verification/InventorySample.thy ===== *)
theory InventorySample
  imports Inventory
begin

text \<open>
  A complete hardware inventory that validates: the 31 motors at their confirmed endpoints. It shows
  that the guarantees of a valid inventory are not vacuous.
\<close>

definition sample_numerics :: numerics where
  "sample_numerics = \<lparr>parse_float = (\<lambda>_. None), parse_int = (\<lambda>_. None),
     as_array = (\<lambda>v. case v of JArr (JArr _ # _) \<Rightarrow> Inr ([2, 2], [Fin 1, Fin 1, Fin 1, Fin (- 1)])
       | _ \<Rightarrow> Inr ([2], [Fin 0, Fin 0])),
     orthonormal = (\<lambda>_. True), det = (\<lambda>_. Fin (- 2))\<rparr>"

definition motor_json :: "(string, json) dict \<Rightarrow> (string, json) dict \<Rightarrow> string \<Rightarrow> int \<Rightarrow> int \<Rightarrow> json" where
  "motor_json role plate model channel can_id = JObj (
     [(''model'', JStr model), (''firmware'', JStr ''v1''), (''can_channel'', JInt channel),
      (''can_id'', JInt can_id), (''master_id'', JInt (can_id + 16)), (''motor_zero_rad'', JFloat (Fin 0)),
      (''encoder_sign'', JInt 1), (''reduction_ratio'', JFloat (Fin 1)), (''linkage_ratio'', JFloat (Fin 1)),
      (''soft_limit_rad'', JArr [JFloat (Fin (- 1)), JFloat (Fin 1)]),
      (''hard_limit_rad'', JArr [JFloat (Fin (- 2)), JFloat (Fin 2)]),
      (''rated_current_a'', JFloat (Fin 1)), (''peak_current_a'', JFloat (Fin 5)),
      (''temperature_limit_c'', JFloat (Fin 80)),
      (''mit_ranges'', JObj
        [(''position_rad'', JArr [JFloat (Fin (- 4)), JFloat (Fin 4)]),
         (''velocity_rad_s'', JArr [JFloat (Fin (- 10)), JFloat (Fin 10)]),
         (''kp'', JArr [JFloat (Fin 0), JFloat (Fin 500)]), (''kd'', JArr [JFloat (Fin 0), JFloat (Fin 5)]),
         (''torque_nm'', JArr [JFloat (Fin (- 5)), JFloat (Fin 5)]),
         (''source'', JStr ''motor_register_readback'')])] @ plate @ role)"

definition direct_role :: "string \<Rightarrow> (string, json) dict" where
  "direct_role joint = [(''policy_joint'', JStr joint), (''policy_to_motor_sign'', JInt 1)]"

definition coupled_role :: "string list \<Rightarrow> (string, json) dict" where
  "coupled_role pair = [(''coupled_joints'', JArr (map JStr pair))]"

definition sample_mit :: json where
  "sample_mit = JObj
     [(''position_rad'', JArr [JFloat (Fin (- 4)), JFloat (Fin 4)]),
      (''velocity_rad_s'', JArr [JFloat (Fin (- 10)), JFloat (Fin 10)]),
      (''kp'', JArr [JFloat (Fin 0), JFloat (Fin 500)]), (''kd'', JArr [JFloat (Fin 0), JFloat (Fin 5)]),
      (''torque_nm'', JArr [JFloat (Fin (- 5)), JFloat (Fin 5)]),
      (''source'', JStr ''motor_register_readback'')]"

lemma motor_common:
  "is_dict (motor_json role plate model c i)"
  "jget (motor_json role plate model c i) ''model'' = JStr model"
  "jget (motor_json role plate model c i) ''firmware'' = JStr ''v1''"
  "jget (motor_json role plate model c i) ''can_channel'' = JInt c"
  "jget (motor_json role plate model c i) ''can_id'' = JInt i"
  "jget (motor_json role plate model c i) ''master_id'' = JInt (i + 16)"
  "jget (motor_json role plate model c i) ''motor_zero_rad'' = JFloat (Fin 0)"
  "jget (motor_json role plate model c i) ''encoder_sign'' = JInt 1"
  "jget (motor_json role plate model c i) ''reduction_ratio'' = JFloat (Fin 1)"
  "jget (motor_json role plate model c i) ''linkage_ratio'' = JFloat (Fin 1)"
  "jget (motor_json role plate model c i) ''soft_limit_rad'' = JArr [JFloat (Fin (- 1)), JFloat (Fin 1)]"
  "jget (motor_json role plate model c i) ''hard_limit_rad'' = JArr [JFloat (Fin (- 2)), JFloat (Fin 2)]"
  "jget (motor_json role plate model c i) ''rated_current_a'' = JFloat (Fin 1)"
  "jget (motor_json role plate model c i) ''peak_current_a'' = JFloat (Fin 5)"
  "jget (motor_json role plate model c i) ''temperature_limit_c'' = JFloat (Fin 80)"
  "jget (motor_json role plate model c i) ''mit_ranges'' = sample_mit"
  "''model'' \<in> fst ` set (jfields (motor_json role plate model c i))"
  by (simp_all add: motor_json_def jget_def sample_mit_def)

lemma motor_plate:
  "jget (motor_json role (nameplate a b x y) model c i) ''rated_torque_nm'' = JFloat a"
  "jget (motor_json role (nameplate a b x y) model c i) ''peak_torque_nm'' = JFloat b"
  "jget (motor_json role (nameplate a b x y) model c i) ''rated_speed_rad_s'' = JFloat x"
  "jget (motor_json role (nameplate a b x y) model c i) ''max_speed_rad_s'' = JFloat y"
  by (simp_all add: motor_json_def jget_def nameplate_def)

lemma motor_role:
  "jget (motor_json (direct_role j) (nameplate a b x y) model c i) ''policy_joint'' = JStr j"
  "jget (motor_json (direct_role j) (nameplate a b x y) model c i) ''policy_to_motor_sign'' = JInt 1"
  "coupled_of (motor_json (direct_role j) (nameplate a b x y) model c i) = None"
  "direct_of (motor_json (direct_role j) (nameplate a b x y) model c i) = Some j"
  "jget (motor_json (coupled_role p) (nameplate a b x y) model c i) ''policy_joint'' = JNull"
  "coupled_of (motor_json (coupled_role p) (nameplate a b x y) model c i) = Some (map JStr p)"
  "direct_of (motor_json (coupled_role p) (nameplate a b x y) model c i) = None"
  by (simp_all add: motor_json_def jget_def nameplate_def direct_role_def coupled_role_def
      coupled_of_def direct_of_def)

lemma sample_mit_ok: "mit_range_errors N label (motor_json role plate model c i) = Inr []"
proof -
  have f: "jget sample_mit ''position_rad'' = JArr [JFloat (Fin (- 4)), JFloat (Fin 4)]"
    "jget sample_mit ''velocity_rad_s'' = JArr [JFloat (Fin (- 10)), JFloat (Fin 10)]"
    "jget sample_mit ''kp'' = JArr [JFloat (Fin 0), JFloat (Fin 500)]"
    "jget sample_mit ''kd'' = JArr [JFloat (Fin 0), JFloat (Fin 5)]"
    "jget sample_mit ''torque_nm'' = JArr [JFloat (Fin (- 5)), JFloat (Fin 5)]"
    "jget sample_mit ''source'' = JStr ''motor_register_readback''"
    "is_dict sample_mit" "sample_mit \<noteq> JNull"
    by (simp_all add: sample_mit_def jget_def)
  show ?thesis
    by (simp add: mit_range_errors_def motor_common f present_def optional_pair_def pair_of_def
        sequence_Nil Let_def)
qed

lemma sample_limits_ok: "limit_errors N label (motor_json role plate model c i) = Inr []"
  by (simp add: limit_errors_def optional_pair_def present_def motor_common pair_of_def)

definition good :: "pyfloat \<Rightarrow> bool" where
  "good x = (isfinite x \<and> \<not> fle x (Fin 0))"

lemma record_ok:
  assumes "0 \<le> c" "c < 4" "0 \<le> i" "i \<le> 15" and "nonempty (JStr model)"
    and "good a" "good b" "good x" "good y"
    and "role = direct_role j \<and> j \<in> set policy \<or>
      role = coupled_role p \<and> in_pairs (map JStr p) DIFFERENTIAL_PAIRS"
  shows "motor_record_errors N name (motor_json role (nameplate a b x y) model c i) policy = Inr []"
proof -
  have v1: "nonempty (JStr ''v1'')"
    by (simp add: nonempty_def upper_def upper_char_def is_space_def)
  have pf: "positive_field N (motor_json role (nameplate a b x y) model c i) f label = Inr []"
    if "f \<in> set POSITIVE_FIELDS" for f label
    using that assms(6-9)
    by (auto simp: POSITIVE_FIELDS_def positive_field_def motor_common motor_plate good_def)
  have ids: "id_errors label (motor_json role (nameplate a b x y) model c i) = []" for label
    using assms(1-4) by (simp add: id_errors_def motor_common)
  from assms(10) show ?thesis
  proof
    assume "role = direct_role j \<and> j \<in> set policy"
    with assms(5) v1 pf ids show ?thesis
      by (auto simp: motor_record_errors_def Let_def sequence_Nil motor_common motor_plate motor_role
          present_def MOTOR_REQUIRED_FIELDS_def in_name_set_def hashable_def sign_error_def
          numeric_check_def numeric_test_def sample_mit_ok sample_limits_ok sample_mit_def)
  next
    assume "role = coupled_role p \<and> in_pairs (map JStr p) DIFFERENTIAL_PAIRS"
    with assms(5) v1 pf ids show ?thesis
      by (auto simp: motor_record_errors_def Let_def sequence_Nil motor_common motor_plate motor_role
          present_def MOTOR_REQUIRED_FIELDS_def sign_error_def
          numeric_check_def numeric_test_def sample_mit_ok sample_limits_ok sample_mit_def)
  qed
qed

section \<open>Known profiles\<close>

lemma good_plates:
  "good (Fin 14)" "good (Fin 40)" "good (rnd (377 / 100))" "good (rnd (93 / 10))"
  "good (rnd (35 / 10))" "good (rnd (125 / 10))" "good (rnd (1256 / 100))" "good (rnd (362 / 10))"
  by (simp_all add: good_def float_eval)

lemma close_same:
  assumes "good x" and "fle (Fin 0) tolerance"
  shows "close_to N tolerance x (JFloat x) = Inr True"
proof -
  from assms(1) obtain r where "x = Fin r" by (auto simp: good_def isfinite_iff)
  with assms(2) show ?thesis by (simp add: close_to_def numeric_test_def fsub_def)
qed

lemma tolerances: "fle (Fin 0) default_tolerance" "fle (Fin 0) (rnd (2 / 100))"
  by (simp_all add: default_tolerance_def ieee.rd_nonneg)

definition is_4340P :: "string \<Rightarrow> bool" where
  "is_4340P model = contains ''4340P'' (drop_char CHR ''-'' (upper model))"

definition is_4310P :: "string \<Rightarrow> bool" where
  "is_4310P model = contains ''4310P'' (drop_char CHR ''-'' (upper model))"

lemma speed_ok: "speed_errors N label (motor_json role J4340P_plate model c i) = Inr []"
proof -
  have "fle (rnd (36 / 10)) (rnd (377 / 100)) \<and> fle (rnd (377 / 100)) (Fin 4)"
    by (simp add: float_eval)
  moreover have "fle (fabs (fsub (rnd (93 / 10)) (rnd (93 / 10)))) (rnd (2 / 100))"
    using close_same [OF good_plates(4) tolerances(2)] by (simp add: close_to_def numeric_test_def)
  ultimately show ?thesis by (simp add: speed_errors_def J4340P_plate_def motor_plate)
qed

lemma direct_profile_ok:
  assumes "is_leg j \<or> j \<in> set UPGRADED_SHOULDERS \<Longrightarrow> is_4340P model"
  shows "known_profile_errors N name (motor_json (direct_role j) J4340P_plate model c i) (Some j) None = Inr []"
proof -
  let ?r = "motor_json (direct_role j) J4340P_plate model c i"
  have r: "jget ?r ''rated_torque_nm'' = JFloat (Fin 14)" "jget ?r ''peak_torque_nm'' = JFloat (Fin 40)"
    by (simp_all add: J4340P_plate_def motor_plate)
  have c: "close_to N default_tolerance (Fin 14) (JFloat (Fin 14)) = Inr True"
    "close_to N default_tolerance (Fin 40) (JFloat (Fin 40)) = Inr True"
    by (rule close_same [OF good_plates(1) tolerances(1)], rule close_same [OF good_plates(2) tolerances(1)])
  show ?thesis
    using assms by (auto simp: known_profile_errors_def Let_def sequence_Nil motor_common r c speed_ok
        is_4340P_def split: if_splits)
qed

lemma coupled_profile_ok:
  assumes "in_pairs (map JStr p) ANKLE_PAIRS \<Longrightarrow> is_4310P model"
  shows "known_profile_errors N name (motor_json (coupled_role p) J4310P_plate model c i) None
    (Some (map JStr p)) = Inr []"
proof -
  let ?r = "motor_json (coupled_role p) J4310P_plate model c i"
  have r: "jget ?r ''rated_torque_nm'' = JFloat (rnd (35 / 10))" "jget ?r ''peak_torque_nm'' = JFloat (rnd (125 / 10))"
    "jget ?r ''rated_speed_rad_s'' = JFloat (rnd (1256 / 100))" "jget ?r ''max_speed_rad_s'' = JFloat (rnd (362 / 10))"
    by (simp_all add: J4310P_plate_def motor_plate)
  note c = close_same [OF good_plates(5) tolerances(2), simplified]
    close_same [OF good_plates(6) tolerances(2), simplified]
    close_same [OF good_plates(7) tolerances(2), simplified]
    close_same [OF good_plates(8) tolerances(2), simplified]
  show ?thesis
    using assms by (auto simp: known_profile_errors_def Let_def sequence_Nil motor_common r c is_4310P_def)
qed

section \<open>The motors\<close>

definition motor_pairs :: "(string, string list) dict" where
  "motor_pairs =
     [(''left_ankle_motor_a'', LEFT_ANKLE), (''left_ankle_motor_b'', LEFT_ANKLE),
      (''right_ankle_motor_a'', RIGHT_ANKLE), (''right_ankle_motor_b'', RIGHT_ANKLE),
      (''head_motor_a'', [''head_pitch_joint'', ''head_roll_joint'']),
      (''head_motor_b'', [''head_pitch_joint'', ''head_roll_joint''])]"

definition sample_motor :: "string \<times> int \<times> int \<Rightarrow> string \<times> json" where
  "sample_motor x = (case x of (role, c, i) \<Rightarrow>
     (role, let model = (case map_of CONFIRMED_MOTOR_MODELS role of Some m \<Rightarrow> m | None \<Rightarrow> []) in
        case map_of motor_pairs role of
          Some pair \<Rightarrow> motor_json (coupled_role pair) J4310P_plate model c i
        | None \<Rightarrow> motor_json (direct_role role) J4340P_plate model c i))"

definition sample_motors :: "(string, json) dict" where
  "sample_motors = map sample_motor CONFIRMED_CAN_ENDPOINTS"

definition sample_policy :: "string list" where
  "sample_policy = filter (\<lambda>r. r \<notin> fst ` set motor_pairs) (map fst CONFIRMED_CAN_ENDPOINTS) @ DIFFERENTIAL_JOINTS"

lemma nonempty_models:
  "nonempty (JStr J4340P)" "nonempty (JStr J4310P)" "nonempty (JStr J3507)" "nonempty (JStr J6248P)"
  by (simp_all add: nonempty_def J4340P_def J4310P_def J3507_def J6248P_def upper_def upper_char_def is_space_def)

lemma model_kinds: "is_4340P J4340P" "is_4310P J4310P"
  by (simp_all add: is_4340P_def is_4310P_def J4340P_def J4310P_def upper_def upper_char_def drop_char_def)

definition slot_ok :: "string \<times> int \<times> int \<Rightarrow> bool" where
  "slot_ok x = (case x of (role, c, i) \<Rightarrow> 0 \<le> c \<and> c < 4 \<and> 0 \<le> i \<and> i \<le> 15 \<and>
     (case map_of CONFIRMED_MOTOR_MODELS role of None \<Rightarrow> False
      | Some m \<Rightarrow> m \<in> {J4340P, J4310P, J3507, J6248P} \<and>
         (case map_of motor_pairs role of
            Some p \<Rightarrow> p \<in> set (map snd DIFFERENTIAL_PAIRS) \<and> (p \<in> {LEFT_ANKLE, RIGHT_ANKLE} \<longrightarrow> m = J4310P)
          | None \<Rightarrow> (is_leg role \<or> role \<in> set UPGRADED_SHOULDERS \<longrightarrow> m = J4340P))))"

lemma slots_ok: "list_all slot_ok CONFIRMED_CAN_ENDPOINTS"
  by (simp add: CONFIRMED_CAN_ENDPOINTS_def slot_ok_def CONFIRMED_MOTOR_MODELS_def motor_pairs_def
      DIFFERENTIAL_PAIRS_def LEFT_ANKLE_def RIGHT_ANKLE_def is_leg_def ends_with_def
      UPGRADED_SHOULDERS_def)

lemma pairs_member:
  "p \<in> set (map snd DIFFERENTIAL_PAIRS) \<Longrightarrow> in_pairs (map JStr p) DIFFERENTIAL_PAIRS"
  by (auto simp: in_pairs_def)

lemma ankle_member: "in_pairs (map JStr p) ANKLE_PAIRS \<Longrightarrow> p \<in> {LEFT_ANKLE, RIGHT_ANKLE}"
  by (auto simp: in_pairs_def ANKLE_PAIRS_def inj_JStr)

lemma sample_motor_ok:
  assumes "x \<in> set CONFIRMED_CAN_ENDPOINTS"
  shows "motor_ok N sample_policy (fst (sample_motor x)) (snd (sample_motor x))"
proof -
  obtain role c i where x: "x = (role, c, i)" by (cases x)
  have "slot_ok x" using slots_ok assms by (simp add: list_all_iff)
  then obtain m where m: "map_of CONFIRMED_MOTOR_MODELS role = Some m" "m \<in> {J4340P, J4310P, J3507, J6248P}"
    and r: "0 \<le> c" "c < 4" "0 \<le> i" "i \<le> 15"
    and k: "case map_of motor_pairs role of
        Some p \<Rightarrow> p \<in> set (map snd DIFFERENTIAL_PAIRS) \<and> (p \<in> {LEFT_ANKLE, RIGHT_ANKLE} \<longrightarrow> m = J4310P)
      | None \<Rightarrow> (is_leg role \<or> role \<in> set UPGRADED_SHOULDERS \<longrightarrow> m = J4340P)"
    unfolding x slot_ok_def by (auto split: option.splits)
  have ne: "nonempty (JStr m)" using m(2) nonempty_models by auto
  have end_of: "map_of CONFIRMED_CAN_ENDPOINTS role = Some (c, i)"
  proof -
    have "distinct (map fst CONFIRMED_CAN_ENDPOINTS)" by (simp add: CONFIRMED_CAN_ENDPOINTS_def)
    with assms show ?thesis by (simp add: x)
  qed
  show ?thesis
  proof (cases "map_of motor_pairs role")
    case None
    let ?r = "motor_json (direct_role role) J4340P_plate m c i"
    have s: "sample_motor x = (role, ?r)" by (simp add: sample_motor_def x m(1) None)
    have "role \<in> set sample_policy"
      using assms None x by (force simp: sample_policy_def map_of_eq_None_iff)
    then have "motor_record_errors N role ?r sample_policy = Inr []"
      unfolding J4340P_plate_def using record_ok [OF r ne good_plates(1-4), of "direct_role role" role] by simp
    moreover have "known_profile_errors N role ?r (Some role) None = Inr []"
      using k None model_kinds(1) by (intro direct_profile_ok) auto
    moreover have d: "direct_of ?r = Some role" "coupled_of ?r = None"
      by (simp_all add: J4340P_plate_def motor_role)
    moreover have "confirmed_errors role ?r (Some role) = []"
      using end_of m(1) by (simp add: confirmed_errors_def motor_common)
    ultimately show ?thesis by (simp add: s motor_ok_def motor_common)
  next
    case (Some p)
    let ?r = "motor_json (coupled_role p) J4310P_plate m c i"
    have s: "sample_motor x = (role, ?r)" by (simp add: sample_motor_def x m(1) Some)
    have "in_pairs (map JStr p) DIFFERENTIAL_PAIRS" using k Some by (intro pairs_member) simp
    then have "motor_record_errors N role ?r sample_policy = Inr []"
      unfolding J4310P_plate_def
      using record_ok [OF r ne good_plates(5-8), of "coupled_role p" _ _ p] by simp
    moreover have "known_profile_errors N role ?r None (Some (map JStr p)) = Inr []"
      using k Some model_kinds(2) ankle_member [of p] by (intro coupled_profile_ok) auto
    moreover have d: "direct_of ?r = None" "coupled_of ?r = Some (map JStr p)"
      by (simp_all add: J4310P_plate_def motor_role)
    moreover have "confirmed_errors role ?r None = []"
      using end_of m(1) by (simp add: confirmed_errors_def motor_common)
    ultimately show ?thesis by (simp add: s motor_ok_def motor_common)
  qed
qed

lemma loop_returns:
  assumes "\<forall>(n, rec) \<in> set ms. motor_ok N policy n rec \<and> (\<forall>c. coupled_of rec = Some c \<longrightarrow> list_all is_str c)"
  shows "\<exists>s'. inventory_loop N policy ms s = Inr s' \<and> iv_errors s' = iv_errors s"
  using assms
proof (induction ms arbitrary: s)
  case Nil
  then show ?case by simp
next
  case (Cons m ms)
  obtain name rec where m: "m = (name, rec)" by (cases m)
  from Cons.prems have ok: "motor_ok N policy name rec"
    and c: "\<forall>c. coupled_of rec = Some c \<longrightarrow> list_all is_str c" by (auto simp: m)
  have tail: "\<forall>(n, rec) \<in> set ms. motor_ok N policy n rec \<and> (\<forall>c. coupled_of rec = Some c \<longrightarrow> list_all is_str c)"
    using Cons.prems by (simp add: m)
  from ok obtain facts where f: "validate_motor_record N name rec policy = Inr (facts, [])"
    by (auto simp: motor_ok_def validate_motor_record_def)
  note fa = record_facts [OF f]
  have k: "is_dict rec" "known_profile_errors N name rec (mf_direct facts) (mf_coupled facts) = Inr []"
    "confirmed_errors name rec (mf_direct facts) = []"
    using ok by (simp_all add: motor_ok_def fa)
  obtain l where l: "note_coupled name (mf_coupled facts) (iv_coupled_labels s) = Inr l"
  proof -
    have "\<exists>l. note_coupled name (coupled_of rec) (iv_coupled_labels s) = Inr l"
    proof (cases "coupled_of rec")
      case None
      then show ?thesis by (simp add: note_coupled_def)
    next
      case (Some v)
      with c have "list_all is_str v" by blast
      then have "\<not> list_ex (\<lambda>v. \<not> hashable v) v"
        by (auto simp: list_ex_iff list_all_iff hashable_def elim!: is_str.elims)
      with Some show ?thesis by (auto simp: note_coupled_def split: option.split)
    qed
    then show thesis using that fa by auto
  qed
  have ih: "\<exists>s'. inventory_loop N policy ms t = Inr s' \<and> iv_errors s' = e" if "iv_errors t = e" for t e
    using Cons.IH [OF tail, of t] that by simp
  show ?case by (simp add: m f k l) (rule ih, simp)
qed

section \<open>The document\<close>

definition sample_shadow :: "(string, json) dict" where
  "sample_shadow =
     [(''required_before_arm'', JBool True), (''completed'', JBool True), (''all_motors_disabled'', JBool True),
      (''method'', JStr ''active_zero_gain_position_echo''),
      (''payload'', JStr ''position_echo_v0_kp0_kd0_tau0''), (''evidence_report'', JStr ''REPORT''),
      (''duration_s'', JFloat (Fin 120)), (''minimum_motor_sample_coverage'', JFloat (Fin 1)),
      (''deadline_misses'', JFloat (Fin 0)), (''can_error_delta'', JFloat (Fin 0)), (''can_drop_delta'', JFloat (Fin 0)),
      (''nonzero_gain_or_torque_tx_attempts'', JFloat (Fin 0)), (''automatic_enable_attempts'', JFloat (Fin 0)),
      (''automatic_mode_switch_attempts'', JFloat (Fin 0))]"

definition sample_adapter :: "(string, json) dict" where
  "sample_adapter =
     [(''backend'', JStr ''socketcan''), (''vendor'', JStr ''VENDOR''), (''sdk_version'', JStr ''V1''),
      (''logical_bus_names'', JArr (map JStr [''CANFD1'', ''CANFD2'', ''CANFD3'', ''CANFD4''])),
      (''interfaces'', JArr (map JStr [''can0'', ''can1'', ''can2'', ''can3''])),
      (''commissioning_shadow'', JObj sample_shadow)]"

definition sample_differential :: "string list \<Rightarrow> json" where
  "sample_differential labels = JObj
     [(''calibrated'', JBool True), (''motor_names'', JArr (map JStr labels)),
      (''joint_to_motor_matrix'', JArr [JArr [JInt 1, JInt 1], JArr [JInt 1, JInt (- 1)]]),
      (''motor_zero_rad'', JArr [JInt 0, JInt 0]), (''source'', JStr ''BENCH'')]"

definition sample_hardware :: json where
  "sample_hardware = JObj
     [(''configured'', JBool True), (''can_adapter'', JObj sample_adapter),
      (''motor_model_specs'', JObj (map (\<lambda>(m, v). (m, JObj v)) DAMIAO_MODEL_SPECS)),
      (''controller'', JObj [(''nominal_bus_voltage_v'', JFloat (Fin 38)), (''damiao_embedded_kd_max'', JFloat (Fin 5))]),
      (''motor_map'', JObj sample_motors),
      (''imu'', JObj ((''configured'', JBool True) # map (\<lambda>f. (f, JStr ''set''))
         [''mount_link'', ''body_to_sensor_quaternion_wxyz'', ''gyro_units'', ''quaternion_order'',
          ''update_hz'', ''timestamp_source'', ''measured_yaw_drift_deg_per_min''])),
      (''estop'', JObj [(''configured'', JBool True), (''hardware_chain'', JStr ''RELAY'')]),
      (''differentials'', JObj
         [(''left_ankle'', sample_differential [''left_ankle_motor_a'', ''left_ankle_motor_b'']),
          (''right_ankle'', sample_differential [''right_ankle_motor_a'', ''right_ankle_motor_b'']),
          (''head'', sample_differential [''head_motor_a'', ''head_motor_b''])])]"

lemma sample_fields:
  "jget sample_hardware ''configured'' = JBool True"
  "jget sample_hardware ''can_adapter'' = JObj sample_adapter"
  "jget sample_hardware ''motor_map'' = JObj sample_motors"
  "jget sample_hardware ''motor_model_specs'' = JObj (map (\<lambda>(m, v). (m, JObj v)) DAMIAO_MODEL_SPECS)"
  by (simp_all add: sample_hardware_def jget_def)

lemma shadow_fields:
  "jget (JObj sample_shadow) ''required_before_arm'' = JBool True"
  "jget (JObj sample_shadow) ''completed'' = JBool True"
  "jget (JObj sample_shadow) ''all_motors_disabled'' = JBool True"
  "jget (JObj sample_shadow) ''method'' = JStr ''active_zero_gain_position_echo''"
  "jget (JObj sample_shadow) ''payload'' = JStr ''position_echo_v0_kp0_kd0_tau0''"
  "jget (JObj sample_shadow) ''evidence_report'' = JStr ''REPORT''"
  "jget (JObj sample_shadow) ''duration_s'' = JFloat (Fin 120)"
  "jget (JObj sample_shadow) ''minimum_motor_sample_coverage'' = JFloat (Fin 1)"
  "jget (JObj sample_shadow) ''deadline_misses'' = JFloat (Fin 0)"
  "jget (JObj sample_shadow) ''can_error_delta'' = JFloat (Fin 0)"
  "jget (JObj sample_shadow) ''can_drop_delta'' = JFloat (Fin 0)"
  "jget (JObj sample_shadow) ''nonzero_gain_or_torque_tx_attempts'' = JFloat (Fin 0)"
  "jget (JObj sample_shadow) ''automatic_enable_attempts'' = JFloat (Fin 0)"
  "jget (JObj sample_shadow) ''automatic_mode_switch_attempts'' = JFloat (Fin 0)"
  by (simp_all add: sample_shadow_def jget_def)

lemma shadow_ok: "shadow_errors N (JObj sample_shadow) = Inr []"
proof -
  have "nonempty (JStr ''REPORT'')"
    by (simp add: nonempty_def upper_def upper_char_def is_space_def)
  moreover have "flt (Fin 1) (rnd (99 / 100)) = False" by (simp add: float_eval)
  ultimately show ?thesis
    by (simp add: shadow_errors_def shadow_requirements_def sequence_Nil shadow_fields numeric_check_def
        numeric_test_def)
qed

lemma adapter_ok: "can_adapter_errors N sample_hardware = Inr []"
proof -
  have "nonempty (JStr ''VENDOR'')" "nonempty (JStr ''V1'')"
    by (simp_all add: nonempty_def upper_def upper_char_def is_space_def)
  moreover have "interface_errors (JArr (map JStr [''can0'', ''can1'', ''can2'', ''can3''])) = []"
    by (simp add: interface_errors_def interface_name_def interface_char_def)
  moreover have "jget (JObj sample_adapter) ''backend'' = JStr ''socketcan''"
    "jget (JObj sample_adapter) ''vendor'' = JStr ''VENDOR''"
    "jget (JObj sample_adapter) ''sdk_version'' = JStr ''V1''"
    "jget (JObj sample_adapter) ''logical_bus_names'' = JArr (map JStr [''CANFD1'', ''CANFD2'', ''CANFD3'', ''CANFD4''])"
    "jget (JObj sample_adapter) ''interfaces'' = JArr (map JStr [''can0'', ''can1'', ''can2'', ''can3''])"
    "jget (JObj sample_adapter) ''commissioning_shadow'' = JObj sample_shadow"
    by (simp_all add: sample_adapter_def jget_def)
  ultimately show ?thesis
    by (simp add: can_adapter_errors_def sequence_Nil sample_fields shadow_ok)
qed

lemma controller_ok: "controller_errors N sample_hardware = Inr []"
  by (simp add: controller_errors_def sample_hardware_def jget_def sequence_Nil numeric_check_def numeric_test_def)

lemma imu_ok: "imu_errors N sample_hardware = Inr []"
  by (simp add: imu_errors_def sample_hardware_def jget_def sequence_Nil present_def)

lemma estop_ok: "estop_errors sample_hardware = []"
  by (simp add: estop_errors_def sample_hardware_def jget_def nonempty_def upper_def upper_char_def is_space_def)

lemma close_finite:
  assumes "isfinite x"
  shows "close_to N default_tolerance x (JFloat x) = Inr True"
  using assms tolerances(1) by (auto simp: close_to_def numeric_test_def fsub_def isfinite_iff)

lemma spec_values:
  "list_all (\<lambda>(m, specs). list_all (\<lambda>(f, v). case v of JFloat x \<Rightarrow> isfinite x | _ \<Rightarrow> True) specs \<and>
     distinct (map fst specs)) DAMIAO_MODEL_SPECS"
  by (simp add: DAMIAO_MODEL_SPECS_def rpm_def py_pi_def float_eval)


lemma map_of_map_snd: "map_of (map (\<lambda>(m, v). (m, f v)) d) k = map_option f (map_of d k)"
  by (induction d) auto

lemma model_specs_ok: "model_spec_errors N sample_hardware = Inr []"
proof -
  have "distinct (map fst DAMIAO_MODEL_SPECS)" by (simp add: DAMIAO_MODEL_SPECS_def)
  then have look: "jget (JObj (map (\<lambda>(m, v). (m, JObj v)) DAMIAO_MODEL_SPECS)) m = JObj v"
    if "(m, v) \<in> set DAMIAO_MODEL_SPECS" for m v
    using that by (simp add: jget_def map_of_map_snd)
  have same: "jget (JObj v) f = x" if "(m, v) \<in> set DAMIAO_MODEL_SPECS" "(f, x) \<in> set v" for m v f x
  proof -
    have "distinct (map fst v)" using spec_values that by (fastforce simp: list_all_iff)
    with that show ?thesis by (simp add: jget_def)
  qed
  have fin: "isfinite y" if "(m, v) \<in> set DAMIAO_MODEL_SPECS" "(f, JFloat y) \<in> set v" for m v f y
    using spec_values that by (fastforce simp: list_all_iff)
  have keys: "(\<lambda>x. fst (case x of (m, v) \<Rightarrow> (m, JObj v))) ` set DAMIAO_MODEL_SPECS = fst ` set DAMIAO_MODEL_SPECS"
    by force
  show ?thesis
    by (auto simp: model_spec_errors_def sample_fields keys sequence_Nil look Let_def same
        split: json.split) (frule (1) fin, simp add: close_finite)
qed


section \<open>The loop\<close>

lemma inventory_loop_distinct:
  "inventory_loop N policy ms s = Inr s' \<Longrightarrow> distinct (keys (iv_direct_counts s)) \<Longrightarrow>
    distinct (keys (iv_direct_counts s'))"
proof (induction ms arbitrary: s)
  case Nil
  then show ?case by simp
next
  case (Cons m ms)
  obtain name rec where m: "m = (name, rec)" by (cases m)
  from Cons.prems(1) obtain x s1 where r: "inventory_loop N policy ms s1 = Inr s'"
    "iv_direct_counts s1 = count_direct x (iv_direct_counts s)"
    unfolding m by (force simp: rbind_eq_Inr)
  have "distinct (keys (count_direct x (iv_direct_counts s)))"
    using Cons.prems(2) distinct_keys_dict_set by (auto simp: count_direct_def split: option.split)
  then show ?case using Cons.IH [OF r(1)] r(2) by simp
qed

lemma dcount_value:
  assumes "distinct (keys d)" and "(j, n) \<in> set d"
  shows "dcount d j = n"
  using assms by (simp add: dcount_def)

lemma sample_motor_facts:
  "fst (sample_motor x) = fst x"
  "direct_of (snd (sample_motor x)) = (if map_of motor_pairs (fst x) = None then Some (fst x) else None)"
  "coupled_of (snd (sample_motor x)) = map_option (map JStr) (map_of motor_pairs (fst x))"
  "jget (snd (sample_motor x)) ''can_channel'' = JInt (fst (snd x))"
  "jget (snd (sample_motor x)) ''can_id'' = JInt (snd (snd x))"
  "jget (snd (sample_motor x)) ''master_id'' = JInt (snd (snd x) + 16)"
  by (cases x; simp add: sample_motor_def Let_def motor_common motor_role J4340P_plate_def
      J4310P_plate_def split: option.split)+

lemma sample_directs:
  "directs j sample_motors = length (filter (\<lambda>x. map_of motor_pairs (fst x) = None \<and> fst x = j) CONFIRMED_CAN_ENDPOINTS)"
  by (simp add: directs_def sample_motors_def filter_map comp_def split_beta sample_motor_facts if_distrib cong: if_cong)
    (metis (no_types, lifting))

lemma sample_pair_labels:
  "pair_labels pair sample_motors =
     map fst (filter (\<lambda>x. map_of motor_pairs (fst x) = Some pair) CONFIRMED_CAN_ENDPOINTS)"
  by (simp add: pair_labels_def sample_motors_def filter_map comp_def split_beta sample_motor_facts inj_JStr)

lemma sample_texts:
  "command_texts sample_motors = map (\<lambda>x. show_int (fst (snd x)) @ '':'' @ show_int (snd (snd x))) CONFIRMED_CAN_ENDPOINTS"
  "feedback_texts sample_motors = map (\<lambda>x. show_int (fst (snd x)) @ '':'' @ show_int (snd (snd x) + 16)) CONFIRMED_CAN_ENDPOINTS"
  by (simp_all add: command_texts_def feedback_texts_def sample_motors_def comp_def split_beta sample_motor_facts
      endpoint_text_def is_int_def option_list_def py_str_def)

lemma direct_count:
  "length (filter (\<lambda>x. P (fst x) \<and> fst x = j) xs) = count_list (filter P (map fst xs)) j"
  by (induction xs) auto

lemma count_distinct: "distinct xs \<Longrightarrow> count_list xs j = (if j \<in> set xs then 1 else 0)"
  by (induction xs) auto

lemma sample_direct_counts:
  "j \<in> set sample_policy \<Longrightarrow> j \<notin> set DIFFERENTIAL_JOINTS \<Longrightarrow> directs j sample_motors = 1"
  "directs j sample_motors \<le> 1"
  "j \<in> set DIFFERENTIAL_JOINTS \<Longrightarrow> directs j sample_motors = 0"
proof -
  have "distinct (map fst CONFIRMED_CAN_ENDPOINTS)" by (simp add: CONFIRMED_CAN_ENDPOINTS_def)
  then have d: "directs j sample_motors = (if j \<in> fst ` set CONFIRMED_CAN_ENDPOINTS \<and> map_of motor_pairs j = None then 1 else 0)"
    unfolding sample_directs direct_count [of "\<lambda>r. map_of motor_pairs r = None"] by (subst count_distinct) auto
  show "directs j sample_motors \<le> 1" by (simp add: d)
  show "directs j sample_motors = 1" if "j \<in> set sample_policy" "j \<notin> set DIFFERENTIAL_JOINTS"
    using that by (auto simp: d sample_policy_def map_of_eq_None_iff)
  have "list_all (\<lambda>j. j \<notin> fst ` set CONFIRMED_CAN_ENDPOINTS) DIFFERENTIAL_JOINTS"
    by (simp add: CONFIRMED_CAN_ENDPOINTS_def DIFFERENTIAL_JOINTS_def
        DIFFERENTIAL_PAIRS_def LEFT_ANKLE_def RIGHT_ANKLE_def)
  then show "directs j sample_motors = 0" if "j \<in> set DIFFERENTIAL_JOINTS"
    using that by (simp add: d list_all_iff)
qed

lemma sample_pair_counts: "list_all (\<lambda>(_, pair). length (pair_labels pair sample_motors) = 2) DIFFERENTIAL_PAIRS"
  unfolding sample_pair_labels
  by (simp add: DIFFERENTIAL_PAIRS_def motor_pairs_def CONFIRMED_CAN_ENDPOINTS_def LEFT_ANKLE_def RIGHT_ANKLE_def)

lemma sample_texts_distinct:
  "distinct (command_texts sample_motors)" "distinct (feedback_texts sample_motors)"
  "set (command_texts sample_motors) \<inter> set (feedback_texts sample_motors) = {}"
  unfolding sample_texts
  by (simp_all add: CONFIRMED_CAN_ENDPOINTS_def show_int_def show_nat.simps)

lemma sample_policy_size: "length sample_policy = 31" "distinct sample_policy"
  by (simp_all add: sample_policy_def motor_pairs_def CONFIRMED_CAN_ENDPOINTS_def DIFFERENTIAL_JOINTS_def
        DIFFERENTIAL_PAIRS_def LEFT_ANKLE_def RIGHT_ANKLE_def)

lemma sample_loop:
  obtains s where "inventory_loop N sample_policy sample_motors empty_inventory = Inr s"
    and "iv_errors s = []" and "cross_errors sample_policy s = []"
    and "\<forall>(name, pair) \<in> set DIFFERENTIAL_PAIRS. map_of (iv_coupled_labels s) pair = Some (pair_labels pair sample_motors)"
proof -
  have "\<forall>(n, rec) \<in> set sample_motors. motor_ok N sample_policy n rec \<and>
      (\<forall>c. coupled_of rec = Some c \<longrightarrow> list_all is_str c)"
  proof (rule ballI, unfold split_beta)
    fix m assume "m \<in> set sample_motors"
    then obtain x where x: "x \<in> set CONFIRMED_CAN_ENDPOINTS" "m = sample_motor x"
      by (auto simp: sample_motors_def)
    from sample_motor_ok [OF x(1)]
    show "motor_ok N sample_policy (fst m) (snd m) \<and> (\<forall>c. coupled_of (snd m) = Some c \<longrightarrow> list_all is_str c)"
      by (auto simp: x(2) sample_motor_facts list_all_iff)
  qed
  from loop_returns [OF this, of empty_inventory] obtain s where
    s: "inventory_loop N sample_policy sample_motors empty_inventory = Inr s" "iv_errors s = []"
    by (auto simp: empty_inventory_def)
  note sp = inventory_loop_spec [OF s]
  have dc: "dcount (iv_direct_counts s) j = directs j sample_motors" for j
    using sp by (simp add: empty_inventory_def dcount_def)
  have count: "n = directs j sample_motors \<and> 0 < n" if "(j, n) \<in> set (iv_direct_counts s)" for j n
    using dcount_value [OF inventory_loop_distinct [OF s(1)] that] dc
      inventory_loop_positive [OF s(1)] that by (force simp: empty_inventory_def)
  have labels: "map_of (iv_coupled_labels s) pair = Some (pair_labels pair sample_motors)"
    if "(name, pair) \<in> set DIFFERENTIAL_PAIRS" for name pair
  proof -
    have "map_of (iv_coupled_labels empty_inventory) pair = Some []"
      using that by (auto simp: empty_inventory_def DIFFERENTIAL_PAIRS_def)
    with sp show ?thesis by simp
  qed
  have e: "iv_endpoints s = command_texts sample_motors" "iv_feedback_endpoints s = feedback_texts sample_motors"
    using sp by (simp_all add: empty_inventory_def)
  have "missing_direct sample_policy s = []"
  proof -
    have "j \<in> fst ` set (iv_direct_counts s)" if j: "j \<in> set sample_policy" "j \<notin> set DIFFERENTIAL_JOINTS" for j
    proof (rule ccontr)
      assume "j \<notin> fst ` set (iv_direct_counts s)"
      then have "map_of (iv_direct_counts s) j = None" by (simp add: map_of_eq_None_iff)
      then have "directs j sample_motors = 0" using dc [of j] by (simp add: dcount_def)
      with sample_direct_counts(1) [OF j] show False by simp
    qed
    then show ?thesis by (auto simp: missing_direct_def filter_empty_conv)
  qed
  moreover have "\<not> 1 < n" if "(j, n) \<in> set (iv_direct_counts s)" for j n
    using count [OF that] sample_direct_counts(2) [of j] by simp
  then have "duplicate_direct s = []"
    by (auto simp: duplicate_direct_def filter_empty_conv sort_Nil)
  moreover have "filter (\<lambda>j. j \<in> set DIFFERENTIAL_JOINTS) (keys (iv_direct_counts s)) = []"
    using count sample_direct_counts(3) by (fastforce simp: filter_empty_conv)
  moreover have "duplicates (iv_endpoints s) = []" "duplicates (iv_feedback_endpoints s) = []"
    "filter (\<lambda>e. e \<in> set (iv_feedback_endpoints s)) (iv_endpoints s) = []"
    unfolding duplicates_Nil e using sample_texts_distinct by (auto simp: filter_empty_conv)
  moreover have "length (pair_labels pair sample_motors) = 2" if "(name, pair) \<in> set DIFFERENTIAL_PAIRS" for name pair
    using sample_pair_counts that by (auto simp: list_all_iff)
  ultimately have "cross_errors sample_policy s = []"
    using labels by (auto simp: cross_errors_def)
  with s labels show thesis using that by blast
qed


section \<open>The witnesses\<close>

lemma sample_differentials:
  "jget (JObj
         [(''left_ankle'', sample_differential [''left_ankle_motor_a'', ''left_ankle_motor_b'']),
          (''right_ankle'', sample_differential [''right_ankle_motor_a'', ''right_ankle_motor_b'']),
          (''head'', sample_differential [''head_motor_a'', ''head_motor_b''])]) name =
     (case map_of [(''left_ankle'', [''left_ankle_motor_a'', ''left_ankle_motor_b'']),
          (''right_ankle'', [''right_ankle_motor_a'', ''right_ankle_motor_b'']),
          (''head'', [''head_motor_a'', ''head_motor_b''])] name of
        Some l \<Rightarrow> sample_differential l | None \<Rightarrow> JNull)"
  by (simp add: jget_def)

lemma sample_matrix_ok: "matrix_errors sample_numerics name (sample_differential l) = Inr []"
proof -
  have "\<not> flt (fabs (Fin (- 2))) (rnd (1 / 1000000))" by (simp add: float_eval)
  then show ?thesis
    by (simp add: matrix_errors_def array_field_def sample_differential_def jget_def sample_numerics_def)
qed

lemma sample_source_ok:
  "nonempty (jget (sample_differential l) ''source'')"
  "\<not> contains ''PLACEHOLDER'' (py_str (jget (sample_differential l) ''source''))"
  by (simp_all add: sample_differential_def jget_def nonempty_def upper_def upper_char_def is_space_def py_str_def)

lemma differentials_ok:
  assumes "\<forall>(name, pair) \<in> set DIFFERENTIAL_PAIRS.
    map_of (iv_coupled_labels s) pair = Some (pair_labels pair sample_motors)"
  shows "differential_errors sample_numerics sample_hardware s = Inr []"
proof -
  have labels: "pair_labels LEFT_ANKLE sample_motors = [''left_ankle_motor_a'', ''left_ankle_motor_b'']"
    "pair_labels RIGHT_ANKLE sample_motors = [''right_ankle_motor_a'', ''right_ankle_motor_b'']"
    "pair_labels [''head_pitch_joint'', ''head_roll_joint''] sample_motors = [''head_motor_a'', ''head_motor_b'']"
    unfolding sample_pair_labels
    by (simp_all add: motor_pairs_def CONFIRMED_CAN_ENDPOINTS_def LEFT_ANKLE_def RIGHT_ANKLE_def)
  have d: "jget sample_hardware ''differentials'' = JObj
         [(''left_ankle'', sample_differential [''left_ankle_motor_a'', ''left_ankle_motor_b'']),
          (''right_ankle'', sample_differential [''right_ankle_motor_a'', ''right_ankle_motor_b'']),
          (''head'', sample_differential [''head_motor_a'', ''head_motor_b''])]"
    by (simp add: sample_hardware_def jget_def)
  have names: "motor_names_errors name (sample_differential [a, b]) [a, b] = []"
    if "a \<noteq> b" "a \<noteq> []" "b \<noteq> []" for name a b
    using that by (simp add: motor_names_errors_def sample_differential_def jget_def)
  have cal: "is_dict (sample_differential l)" "jget (sample_differential l) ''calibrated'' = JBool True" for l
    by (simp_all add: sample_differential_def jget_def)
  from assms show ?thesis
    by (simp add: differential_errors_def sequence_Nil DIFFERENTIAL_PAIRS_def Let_def d sample_differentials
        labels names cal sample_matrix_ok sample_source_ok)
qed

lemma sample_inventory_valid:
  "\<exists>r. validate_hardware_inventory sample_numerics sample_hardware sample_policy = Inr r \<and> inventory_valid r"
proof -
  obtain s where s: "inventory_loop sample_numerics sample_policy sample_motors empty_inventory = Inr s"
    "iv_errors s = []" "cross_errors sample_policy s = []"
    "\<forall>(name, pair) \<in> set DIFFERENTIAL_PAIRS. map_of (iv_coupled_labels s) pair = Some (pair_labels pair sample_motors)"
    by (rule sample_loop)
  have len: "length sample_motors = 31" by (simp add: sample_motors_def CONFIRMED_CAN_ENDPOINTS_def)
  have pre: "sequence
      [unless (length sample_policy = 31 \<and> length (remdups sample_policy) = 31)
         ''frozen policy contract must contain 31 unique joints'',
       can_adapter_errors sample_numerics sample_hardware, model_spec_errors sample_numerics sample_hardware,
       controller_errors sample_numerics sample_hardware,
       unless (is_dict (jget sample_hardware ''motor_map'')) ''motor_map must be an object''] = Inr []"
    by (simp add: sequence_Nil sample_policy_size distinct_remdups_id adapter_ok model_specs_ok controller_ok sample_fields)
  show ?thesis
    unfolding validate_hardware_inventory_def Let_def pre
    by (simp add: sample_fields s imu_ok differentials_ok [OF s(4)] estop_ok len inventory_valid_def)
qed

theorem valid_inventory_is_complete_witness:
  "length (jfields (jget sample_hardware ''motor_map'')) = 31 \<and>
    list_all (\<lambda>(name, rec). confirmed_motor name rec) (jfields (jget sample_hardware ''motor_map''))"
proof -
  obtain r where "validate_hardware_inventory sample_numerics sample_hardware sample_policy = Inr r"
    "inventory_valid r" using sample_inventory_valid by blast
  from valid_inventory_is_complete [OF this] show ?thesis by blast
qed

lemma sample_plain: "list_all (\<lambda>(name, rec). name \<noteq> [] \<and> plain_ids rec) sample_motors"
proof -
  have "list_all (\<lambda>x. fst x \<noteq> []) CONFIRMED_CAN_ENDPOINTS" by (simp add: CONFIRMED_CAN_ENDPOINTS_def)
  then show ?thesis
    by (auto simp: sample_motors_def list_all_iff split_beta plain_ids_def sample_motor_facts)
qed

theorem valid_inventory_builds_endpoints_witness:
  "\<exists>es d. endpoints_from_hardware_config sample_numerics sample_hardware 31 = Inr es \<and> length es = 31 \<and>
    new_feedback_decoder es = Inr d"
proof -
  obtain r where "validate_hardware_inventory sample_numerics sample_hardware sample_policy = Inr r"
    "inventory_valid r" using sample_inventory_valid by blast
  from valid_inventory_builds_endpoints [OF this] sample_plain show ?thesis
    by (auto simp: sample_fields)
qed

end
