(* ===== verification/WirePhases.thy ===== *)
theory WirePhases
  imports DamiaoCodec World
begin

text \<open>
  What a powered run may put on the wire. A frame is an echo (zero gains), an enable, a disable or a
  command; the permitted order is the automaton \<open>next_phase\<close>: echoes, then at most one enable
  followed by commands, then only disables and echoes. The gains of a run are the interface
  \<open>frozen_gains\<close>: as long as both encode to raw values strictly inside their range, a command frame
  can be taken for nothing else.
\<close>

section \<open>Frames and phases\<close>

datatype emitted = Echo | Enable | Disable | Command

definition frame_payload :: "bytes \<Rightarrow> bytes" where
  "frame_payload f = take 8 (drop 8 f)"

definition payload_kind :: "bytes \<Rightarrow> emitted" where
  "payload_kind d = (if d = ENABLE_PAYLOAD then Enable else if d = DISABLE_PAYLOAD then Disable
     else if mit_kp_raw d = 0 \<and> mit_kd_raw d = 0 then Echo else Command)"

definition emitted_of :: "bytes \<Rightarrow> emitted" where
  "emitted_of f = payload_kind (frame_payload f)"

datatype phase = Preparing | Powered | Disabling

fun next_phase :: "phase \<Rightarrow> emitted \<Rightarrow> phase option" where
  "next_phase Preparing Echo = Some Preparing"
| "next_phase Preparing Enable = Some Powered"
| "next_phase Powered Command = Some Powered"
| "next_phase Disabling Echo = Some Disabling"
| "next_phase p Disable = Some Disabling"
| "next_phase _ _ = None"

fun run_phases :: "phase \<Rightarrow> emitted list \<Rightarrow> phase option" where
  "run_phases p [] = Some p"
| "run_phases p (x # xs) = (case next_phase p x of None \<Rightarrow> None | Some q \<Rightarrow> run_phases q xs)"

lemma run_phases_append:
  "run_phases p (xs @ ys) = (case run_phases p xs of None \<Rightarrow> None | Some q \<Rightarrow> run_phases q ys)"
  by (induction xs arbitrary: p) (auto split: option.splits)

lemma enable_count:
  "run_phases p xs \<noteq> None \<Longrightarrow> count_list xs Enable \<le> (if p = Preparing then 1 else 0)"
proof (induction xs arbitrary: p)
  case Nil
  then show ?case by simp
next
  case (Cons x xs)
  from Cons.prems obtain q where q: "next_phase p x = Some q" "run_phases q xs \<noteq> None"
    by (auto split: option.splits)
  from Cons.IH [OF q(2)] q(1) show ?case by (cases p; cases x) (auto split: if_splits)
qed

lemma payload_of_wire_frame: "length d = 8 \<Longrightarrow> frame_payload (wire_frame i d) = d"
  by (simp add: frame_payload_def wire_frame_def ljust_def take_ljust)

section \<open>The kinds of the payloads\<close>

lemma ENABLE_kind: "payload_kind ENABLE_PAYLOAD = Enable"
  by (simp add: payload_kind_def)

lemma DISABLE_kind: "payload_kind DISABLE_PAYLOAD = Disable"
  by (simp add: payload_kind_def ENABLE_PAYLOAD_def DISABLE_PAYLOAD_def)

lemma control_raw:
  "mit_kp_raw ENABLE_PAYLOAD = 4095" "mit_kd_raw ENABLE_PAYLOAD = 4095"
  "mit_kp_raw DISABLE_PAYLOAD = 4095" "mit_kd_raw DISABLE_PAYLOAD = 4095"
proof -
  have e: "ENABLE_PAYLOAD = [255, 255, 255, 255, 255, 255, 255, 252]"
    by (simp add: ENABLE_PAYLOAD_def numeral_eq_Suc)
  have d: "DISABLE_PAYLOAD = [255, 255, 255, 255, 255, 255, 255, 253]"
    by (simp add: DISABLE_PAYLOAD_def numeral_eq_Suc)
  show "mit_kp_raw ENABLE_PAYLOAD = 4095" "mit_kd_raw ENABLE_PAYLOAD = 4095"
    "mit_kp_raw DISABLE_PAYLOAD = 4095" "mit_kd_raw DISABLE_PAYLOAD = 4095"
    by (simp_all add: mit_kp_raw_def mit_kd_raw_def byte_at_def e d)
qed

lemma encoded_raws:
  assumes "encode_damiao_mit_command e c s env = Inr ec"
  shows "length (ec_data ec) = 8"
    and "float_to_uint_strict ''kp'' (mc_kp c) (Fin 0, Fin 500) 12 = Inr (mit_kp_raw (ec_data ec))"
    and "float_to_uint_strict ''kd'' (mc_kd c) (Fin 0, Fin 5) 12 = Inr (mit_kd_raw (ec_data ec))"
proof -
  obtain p v kp kd t where e: "ec = \<lparr>ec_motor_name = ep_motor_name e, ec_interface = ep_interface e,
       ec_can_id = ep_can_id e, ec_data = pack_mit p v kp kd t\<rparr>"
    and f: "float_to_uint_strict ''position_rad'' (mc_position_rad c) (rng_position_rad (ep_ranges e)) 16 = Inr p"
      "float_to_uint_strict ''velocity_rad_s'' (mc_velocity_rad_s c) (rng_velocity_rad_s (ep_ranges e)) 12 = Inr v"
      "float_to_uint_strict ''kp'' (mc_kp c) (Fin 0, Fin 500) 12 = Inr kp"
      "float_to_uint_strict ''kd'' (mc_kd c) (Fin 0, Fin 5) 12 = Inr kd"
      "float_to_uint_strict ''feedforward_torque_nm'' (mc_feedforward_torque_nm c) (rng_torque_nm (ep_ranges e)) 12 = Inr t"
    using assms by (rule encode_spec)
  note b = strict_spec [OF f(1)] strict_spec [OF f(2)] strict_spec [OF f(3)] strict_spec [OF f(4)] strict_spec [OF f(5)]
  have r: "0 \<le> p" "p < 2 ^ 16" "0 \<le> v" "v < 2 ^ 12" "0 \<le> kp" "kp < 2 ^ 12" "0 \<le> kd" "kd < 2 ^ 12"
    "0 \<le> t" "t < 2 ^ 12"
    using b by simp_all
  from pack_mit_fields [OF r] f e show "length (ec_data ec) = 8"
    "float_to_uint_strict ''kp'' (mc_kp c) (Fin 0, Fin 500) 12 = Inr (mit_kp_raw (ec_data ec))"
    "float_to_uint_strict ''kd'' (mc_kd c) (Fin 0, Fin 5) 12 = Inr (mit_kd_raw (ec_data ec))"
    by simp_all
qed

lemma echo_payload:
  assumes "encode_zero_gain_position_echo e x = Inr ec"
  shows "length (ec_data ec) = 8" and "payload_kind (ec_data ec) = Echo"
proof -
  from assms obtain c s env where c: "encode_damiao_mit_command e c s env = Inr ec"
    "mc_kp c = Fin 0" "mc_kd c = Fin 0"
    by (auto simp: encode_zero_gain_position_echo_def new_mit_command_def rbind_eq_Inr Let_def split: if_splits)
  note r = encoded_raws [OF c(1)]
  have "rnd 500 = Fin 500" "rnd 5 = Fin 5" by (simp_all add: float_eval)
  then have "mit_kp_raw (ec_data ec) = 0" "mit_kd_raw (ec_data ec) = 0"
    using r(2,3) c(2,3) strict_zero_low [of 500 "''kp''" 12] strict_zero_low [of 5 "''kd''" 12] by simp_all
  with r(1) control_raw show "length (ec_data ec) = 8" "payload_kind (ec_data ec) = Echo"
    by (auto simp: payload_kind_def)
qed

locale frozen_gains =
  fixes kp kd :: pyfloat and kp_raw kd_raw :: int
  assumes kp_encodes: "float_to_uint_strict ''kp'' kp (Fin 0, Fin 500) 12 = Inr kp_raw"
    and kd_encodes: "float_to_uint_strict ''kd'' kd (Fin 0, Fin 5) 12 = Inr kd_raw"
    and kp_inside: "0 < kp_raw" "kp_raw < 4095"
begin

lemma command_payload:
  assumes "encode_damiao_mit_command e c s env = Inr ec" and "mc_kp c = kp" and "mc_kd c = kd"
  shows "length (ec_data ec) = 8" and "payload_kind (ec_data ec) = Command"
    and "mit_kp_raw (ec_data ec) = kp_raw" and "mit_kd_raw (ec_data ec) = kd_raw"
proof -
  note r = encoded_raws [OF assms(1)]
  from r(2,3) assms(2,3) kp_encodes kd_encodes
  show k: "mit_kp_raw (ec_data ec) = kp_raw" "mit_kd_raw (ec_data ec) = kd_raw" by simp_all
  with r(1) kp_inside control_raw show "length (ec_data ec) = 8" "payload_kind (ec_data ec) = Command"
    by (auto simp: payload_kind_def)
qed

end

section \<open>Programs that leave the writer alone\<close>

lemma holds_lift_bind:
  assumes "\<And>x. r = Inr x \<Longrightarrow> holds P (f x) Q E" and "\<And>e s. r = Inl e \<Longrightarrow> P s \<Longrightarrow> E e s"
  shows "holds P (io_bind (io_lift r) f) Q E"
  using assms by (cases r) (auto simp: holds_def io_bind_def io_lift_def)

lemma keeps_bind: "keeps I m \<Longrightarrow> (\<And>x. keeps I (f x)) \<Longrightarrow> keeps I (io_bind m f)"
  by (rule holds_bind)

lemma keeps_then: "keeps I m \<Longrightarrow> keeps I n \<Longrightarrow> keeps I (io_then m n)"
  by (rule holds_then)

lemma keeps_catch: "keeps I m \<Longrightarrow> (\<And>e. keeps I (h e)) \<Longrightarrow> keeps I (io_catch m h)"
  by (rule holds_catch)

lemma keeps_while: "(\<And>x. keeps I (body x)) \<Longrightarrow> keeps I (io_while n body x)"
  by (rule holds_while [where I = "\<lambda>_. I"]) (auto elim!: holds_conseq split: sum.splits)

lemma keeps_loop: "(\<And>x. keeps I (body x)) \<Longrightarrow> keeps I (io_loop k body x)"
  by (rule holds_loop [where I = "\<lambda>_. I"]) (auto elim!: holds_conseq split: sum.splits)

lemma keeps_return: "keeps I (io_return x)"
  by (rule holds_return)

lemma keeps_raise: "keeps I (io_raise e)"
  by (rule holds_raise)

lemma keeps_lift: "keeps I (io_lift r)"
  by (rule holds_lift)

lemma keeps_get: "keeps I (io_get f)"
  by (rule holds_get)

lemma keeps_when: "keeps I m \<Longrightarrow> keeps I (io_when b m)"
  by (rule holds_when)

lemma keeps_steps: "list_all (keeps I) ms \<Longrightarrow> keeps I (steps ms)"
  by (induction ms) (auto intro: keeps_return keeps_then)

lemma keeps_for: "(\<And>x. x \<in> set xs \<Longrightarrow> keeps I (f x)) \<Longrightarrow> keeps I (io_for f xs)"
  by (rule holds_for)

lemma keeps_if: "(b \<Longrightarrow> keeps I m) \<Longrightarrow> (\<not> b \<Longrightarrow> keeps I n) \<Longrightarrow> keeps I (if b then m else n)"
  by simp

lemma keeps_Let: "keeps I (f x) \<Longrightarrow> keeps I (let y = x in f y)"
  by simp

lemma keeps_pair: "(\<And>a b. x = (a, b) \<Longrightarrow> keeps I (f a b)) \<Longrightarrow> keeps I (case x of (a, b) \<Rightarrow> f a b)"
  by (cases x) simp

text \<open>The rules that push an invariant through a program.\<close>

lemmas keeps_rules = keeps_bind keeps_then keeps_catch keeps_loop keeps_return keeps_raise keeps_lift
  keeps_get keeps_when keeps_steps keeps_for keeps_if keeps_Let keeps_pair

lemma keeps_modify: "(\<And>s. I s \<Longrightarrow> I (f s)) \<Longrightarrow> keeps I (io_modify f)"
  by (rule holds_modify)

text \<open>An invariant of the writer and the transmissions to come, and one of the writer alone.\<close>

definition on_bus :: "('w \<Rightarrow> sent list \<Rightarrow> bool) \<Rightarrow> ('w, 'm) world_scheme \<Rightarrow> bool" where
  "on_bus J s = J (wd_writer s) (wd_tx s)"

definition on_writer :: "('w \<Rightarrow> bool) \<Rightarrow> ('w, 'm) world_scheme \<Rightarrow> bool" where
  "on_writer J s = J (wd_writer s)"

lemma on_writer_bus: "on_writer J = on_bus (\<lambda>w _. J w)"
  by (simp add: on_writer_def on_bus_def fun_eq_iff)

lemma keeps_bus:
  "keeps (on_bus K) monotonic" "keeps (on_bus K) receive_frame" "keeps (on_bus K) pause"
  by (auto simp: holds_def on_bus_def monotonic_def receive_frame_def pause_def split: list.splits sum.splits)

lemma keeps_monotonic: "keeps (on_writer J) monotonic"
  and keeps_receive_frame: "keeps (on_writer J) receive_frame"
  and keeps_pause: "keeps (on_writer J) pause"
  unfolding on_writer_bus by (rule keeps_bus)+

lemma keeps_frame: "(\<And>s. wd_writer (f s) = wd_writer s) \<Longrightarrow> keeps (on_writer J) (io_modify f)"
  by (rule keeps_modify) (simp add: on_writer_def)

lemma keeps_frame_bus:
  "(\<And>s. wd_writer (f s) = wd_writer s \<and> wd_tx (f s) = wd_tx s) \<Longrightarrow> keeps (on_bus K) (io_modify f)"
  by (rule keeps_modify) (simp add: on_bus_def)

text \<open>An invariant that does not look at the environment at all.\<close>

definition quiet :: "(('w, 'm) world_scheme \<Rightarrow> bool) \<Rightarrow> bool" where
  "quiet J \<longleftrightarrow> (\<forall>s w c r t sl. J (s\<lparr>wd_writer := w, wd_clock := c, wd_rx := r, wd_tx := t, wd_sleeps := sl\<rparr>) = J s)"

lemma quiet_updates:
  assumes "quiet J"
  shows "J (s\<lparr>wd_clock := c\<rparr>) = J s" "J (s\<lparr>wd_rx := r\<rparr>) = J s" "J (s\<lparr>wd_sleeps := sl\<rparr>) = J s"
    "J (s\<lparr>wd_writer := w, wd_tx := t\<rparr>) = J s"
proof -
  have q: "J (s\<lparr>wd_writer := w, wd_clock := c, wd_rx := r, wd_tx := t, wd_sleeps := sl\<rparr>) = J s" for s w c r t sl
    using assms by (simp add: quiet_def)
  show "J (s\<lparr>wd_clock := c\<rparr>) = J s"
    using q [where s = s and w = "wd_writer s" and r = "wd_rx s" and t = "wd_tx s" and sl = "wd_sleeps s"] by (cases s) simp
  show "J (s\<lparr>wd_rx := r\<rparr>) = J s"
    using q [where s = s and w = "wd_writer s" and c = "wd_clock s" and t = "wd_tx s" and sl = "wd_sleeps s"] by (cases s) simp
  show "J (s\<lparr>wd_sleeps := sl\<rparr>) = J s"
    using q [where s = s and w = "wd_writer s" and c = "wd_clock s" and r = "wd_rx s" and t = "wd_tx s"] by (cases s) simp
  show "J (s\<lparr>wd_writer := w, wd_tx := t\<rparr>) = J s"
    using q [where s = s and c = "wd_clock s" and r = "wd_rx s" and sl = "wd_sleeps s"] by (cases s) simp
qed

lemma keeps_quiet:
  assumes "quiet J"
  shows "keeps J monotonic" "keeps J receive_frame" "keeps J pause" "keeps J (io_call call c)"
  using quiet_updates [OF assms]
  by (auto simp: holds_def monotonic_def receive_frame_def pause_def io_call_def
      split: list.splits sum.splits prod.splits)

lemma holds_io_call:
  assumes "\<And>w t r w'. J w \<Longrightarrow> call w c t = (w', r) \<Longrightarrow> (case r of Inl e \<Rightarrow> L w' | Inr _ \<Rightarrow> K w')"
  shows "holds (on_writer J) (io_call call c) (\<lambda>_. on_writer K) (\<lambda>_. on_writer L)"
proof (rule holdsI)
  fix s x s'
  assume "on_writer J s" "io_call call c s = Some (Inr x, s')"
  then show "on_writer K s'"
    using assms [of "wd_writer s"] by (force simp: io_call_def on_writer_def split: list.splits prod.splits)
next
  fix s e s'
  assume "on_writer J s" "io_call call c s = Some (Inl e, s')"
  then show "on_writer L s'"
    using assms [of "wd_writer s"] by (force simp: io_call_def on_writer_def split: list.splits prod.splits)
qed

end
