(* ===== verification/PoweredHold.thy ===== *)
theory PoweredHold
  imports World
begin

text \<open>
  The powered holds and motions of one motor (\<open>single_joint_hold.py\<close>): preparation with zero-gain
  frames, one enable, guarded low-gain commands, and the verified disable that follows whatever
  happened. The writer is the \<open>SocketCanSingleMotorMitWriter\<close> of \<open>socketcan.py\<close>.
\<close>

section \<open>Receiving from the selected motor\<close>

definition receive_step ::
  "feedback_endpoint \<Rightarrow> pyfloat \<Rightarrow> unit \<Rightarrow> (('w, 'm) world_scheme, unit + feedback) io" where
  "receive_step e deadline _ = io_bind monotonic (\<lambda>t.
     if \<not> flt t deadline
     then io_raise (RuntimeError (ep_motor_name e @ '' feedback watchdog expired''))
     else io_catch
       (io_bind receive_frame (\<lambda>frame.
          if f_interface frame = ep_interface e \<and> f_can_id frame = ep_master_id e
          then io_bind (io_lift (decode_damiao_feedback frame e)) (\<lambda>fb. io_return (Inr fb))
          else io_return (Inl ())))
       (\<lambda>exc. if exc = BlockingIOError then io_then pause (io_return (Inl ())) else io_raise exc))"

definition receive_selected ::
  "feedback_endpoint \<Rightarrow> pyfloat \<Rightarrow> (('w, 'm) world_scheme, feedback) io" where
  "receive_selected e timeout = io_bind monotonic (\<lambda>t.
     io_loop 0 (receive_step e (fadd t timeout)) ())"

section \<open>Local variables and reports\<close>

record 'w guarded = "'w world" +
  gs_errors :: "string list"
  gs_command_count :: nat
  gs_feedback_count :: nat
  gs_max_error :: pyfloat
  gs_max_velocity :: pyfloat
  gs_max_torque :: pyfloat
  gs_max_mos :: int
  gs_max_rotor :: int
  gs_final_status :: "string option"
  gs_shutdown_error :: "string option"

record hold_vars = "single_motor_writer guarded" +
  hs_target :: "pyfloat option"

record motion_vars = "single_motor_writer guarded" +
  mo_initial :: "pyfloat option"
  mo_requested_minimum :: "pyfloat option"
  mo_requested_maximum :: "pyfloat option"
  mo_measured_minimum :: "pyfloat option"
  mo_measured_maximum :: "pyfloat option"
  mo_final_measured :: "pyfloat option"

record run_report =
  rr_motor_name :: string
  rr_duration_s :: pyfloat
  rr_rate_hz :: pyfloat
  rr_kp :: pyfloat
  rr_kd :: pyfloat
  rr_command_count :: nat
  rr_feedback_count :: nat
  rr_enable_attempts :: int
  rr_disable_attempts :: int
  rr_max_error :: pyfloat
  rr_max_velocity :: pyfloat
  rr_max_torque :: pyfloat
  rr_max_mos :: int
  rr_max_rotor :: int
  rr_final_status :: "string option"
  rr_errors :: "string list"

record hold_report = run_report +
  hr_target_position_rad :: "pyfloat option"

record motion_report = run_report +
  mr_initial_position_rad :: "pyfloat option"
  mr_requested_minimum_position_rad :: "pyfloat option"
  mr_requested_maximum_position_rad :: "pyfloat option"
  mr_measured_minimum_position_rad :: "pyfloat option"
  mr_measured_maximum_position_rad :: "pyfloat option"
  mr_final_measured_position_rad :: "pyfloat option"

definition run_passed :: "'a run_report_scheme \<Rightarrow> bool" where
  "run_passed r \<longleftrightarrow> rr_errors r = [] \<and> 0 < rr_command_count r \<and> 0 < rr_feedback_count r \<and>
     rr_final_status r = Some ''disabled'' \<and> rr_enable_attempts r = 1 \<and> 3 \<le> rr_disable_attempts r"

text \<open>The parameters of a run; the soft limits are the two floats the code unpacks.\<close>

record run_limits =
  lm_soft :: frange
  lm_rate :: pyfloat
  lm_kp :: pyfloat
  lm_kd :: pyfloat
  lm_max_error :: pyfloat
  lm_max_velocity :: pyfloat
  lm_max_torque :: pyfloat
  lm_mos_limit :: int
  lm_rotor_limit :: int
  lm_timeout :: pyfloat
  lm_expected :: "string \<times> string \<times> int"

section \<open>Guards and transmissions\<close>

definition check_guards :: "'a run_limits_scheme \<Rightarrow> string \<Rightarrow> pyfloat \<Rightarrow> feedback \<Rightarrow> unit result" where
  "check_guards p name error fb =
     (if flt (lm_max_error p) (fabs error)
      then Inl (RuntimeError (name @ '' position-error guard tripped''))
      else if flt (lm_max_velocity p) (fabs (fb_velocity_rad_s fb))
      then Inl (RuntimeError (name @ '' velocity guard tripped''))
      else if flt (lm_max_torque p) (fabs (fb_estimated_output_torque_nm fb))
      then Inl (RuntimeError (name @ '' torque guard tripped''))
      else if lm_mos_limit p \<le> fb_mos_temperature_c fb
      then Inl (RuntimeError (name @ '' MOS-temperature guard tripped''))
      else if lm_rotor_limit p \<le> fb_rotor_temperature_c fb
      then Inl (RuntimeError (name @ '' rotor-temperature guard tripped''))
      else Inr ())"

definition count_feedback :: "('w, 'm) guarded_scheme \<Rightarrow> ('w, 'm) guarded_scheme" where
  "count_feedback s = s\<lparr>gs_feedback_count := gs_feedback_count s + 1\<rparr>"

definition count_command :: "('w, 'm) guarded_scheme \<Rightarrow> ('w, 'm) guarded_scheme" where
  "count_command s = s\<lparr>gs_command_count := gs_command_count s + 1\<rparr>"

definition note_extremes ::
  "pyfloat \<Rightarrow> feedback \<Rightarrow> ('w, 'm) guarded_scheme \<Rightarrow> ('w, 'm) guarded_scheme" where
  "note_extremes error fb s = s\<lparr>
     gs_max_error := fmax (gs_max_error s) (fabs error),
     gs_max_velocity := fmax (gs_max_velocity s) (fabs (fb_velocity_rad_s fb)),
     gs_max_torque := fmax (gs_max_torque s) (fabs (fb_estimated_output_torque_nm fb)),
     gs_max_mos := max (gs_max_mos s) (fb_mos_temperature_c fb),
     gs_max_rotor := max (gs_max_rotor s) (fb_rotor_temperature_c fb)\<rparr>"

definition append_error :: "string \<Rightarrow> ('w, 'm) guarded_scheme \<Rightarrow> ('w, 'm) guarded_scheme" where
  "append_error m s = s\<lparr>gs_errors := gs_errors s @ [m]\<rparr>"

definition require_status :: "feedback \<Rightarrow> string \<Rightarrow> string \<Rightarrow> ('s, unit) io" where
  "require_status fb status message =
     io_when (fb_status_name fb \<noteq> status) (io_raise (RuntimeError message))"

definition send_echo ::
  "feedback_endpoint \<Rightarrow> pyfloat \<Rightarrow> ((single_motor_writer, 'm) world_scheme, unit) io" where
  "send_echo e position = io_bind (io_lift (encode_zero_gain_position_echo e position))
     (\<lambda>c. io_call sm_call (SCommand c))"

definition send_powered ::
  "feedback_endpoint \<Rightarrow> 'a run_limits_scheme \<Rightarrow> command_envelope \<Rightarrow> pyfloat \<Rightarrow> pyfloat \<Rightarrow> feedback
     \<Rightarrow> ((single_motor_writer, 'm) guarded_scheme, unit) io" where
  "send_powered e p envelope position velocity prepared =
     io_bind (io_lift (rbind (new_mit_state (fb_position_rad prepared) (fb_velocity_rad_s prepared)) (\<lambda>measured.
        rbind (new_mit_command position velocity (lm_kp p) (lm_kd p) (Fin 0)) (\<lambda>command.
          encode_damiao_mit_command e command measured envelope)))) (\<lambda>encoded.
     steps [io_call sm_call (SCommand encoded), io_modify count_command])"

definition envelope_of :: "'a run_limits_scheme \<Rightarrow> command_envelope result" where
  "envelope_of p = new_command_envelope (lm_soft p) (lm_max_velocity p) (lm_max_torque p) (lm_max_torque p)"

section \<open>The verified disable\<close>

text \<open>
  One round: disable, wait, poll with zero gain, and read the status. \<open>True\<close> leaves the loop; an
  exception is noted and the loop goes on. \<open>note\<close> is what the motion records of the reply.
\<close>

definition disable_round ::
  "feedback_endpoint \<Rightarrow> pyfloat \<Rightarrow> pyfloat \<Rightarrow>
     (feedback \<Rightarrow> (single_motor_writer, 'm) guarded_scheme \<Rightarrow> (single_motor_writer, 'm) guarded_scheme) \<Rightarrow>
     ((single_motor_writer, 'm) guarded_scheme, bool) io" where
  "disable_round e poll timeout note = io_catch
     (io_then (steps [io_call sm_call SDisable, pause, send_echo e poll])
        (io_bind (receive_selected e timeout) (\<lambda>final.
         io_then (io_modify (\<lambda>s. note final (s\<lparr>gs_final_status := Some (fb_status_name final)\<rparr>)))
           (io_get (\<lambda>s. 3 \<le> sm_disable_attempts (wd_writer s) \<and> gs_final_status s = Some ''disabled'')))))
     (\<lambda>exc. io_then (io_modify (\<lambda>s. s\<lparr>gs_shutdown_error := Some (exc_text exc)\<rparr>)) (io_return False))"

definition shutdown_step ::
  "feedback_endpoint \<Rightarrow> pyfloat \<Rightarrow> pyfloat \<Rightarrow>
     (feedback \<Rightarrow> (single_motor_writer, 'm) guarded_scheme \<Rightarrow> (single_motor_writer, 'm) guarded_scheme) \<Rightarrow>
     pyfloat \<Rightarrow> nat \<Rightarrow> ((single_motor_writer, 'm) guarded_scheme, nat + unit) io" where
  "shutdown_step e poll timeout note deadline attempts =
     io_bind (if attempts < 3 then io_return True
        else io_bind (io_get gs_final_status) (\<lambda>status.
          if status = Some ''disabled'' then io_return False
          else io_bind monotonic (\<lambda>t. io_return (flt t deadline))))
     (\<lambda>go. if \<not> go then io_return (Inr ())
        else io_bind (disable_round e poll timeout note)
          (\<lambda>stop. io_return (if stop then Inr () else Inl (attempts + 1))))"

definition verdict_error :: "string option \<Rightarrow> string option \<Rightarrow> string" where
  "verdict_error status shutdown_error =
     ''final disabled verification timed out at status '' @
     (case status of Some st \<Rightarrow> st | None \<Rightarrow> ''None'') @
     (case shutdown_error of Some m \<Rightarrow> if m = [] then [] else '': '' @ m | None \<Rightarrow> [])"

definition shut_down ::
  "feedback_endpoint \<Rightarrow> pyfloat \<Rightarrow> pyfloat \<Rightarrow>
     (feedback \<Rightarrow> (single_motor_writer, 'm) guarded_scheme \<Rightarrow> (single_motor_writer, 'm) guarded_scheme) \<Rightarrow>
     ((single_motor_writer, 'm) guarded_scheme, unit) io" where
  "shut_down e poll timeout note = io_bind monotonic (\<lambda>t.
     io_then (io_loop 3 (shutdown_step e poll timeout note (fadd t (Fin (1 / 2)))) 0)
       (io_modify (\<lambda>s. if gs_final_status s = Some ''disabled'' then s
          else append_error (verdict_error (gs_final_status s) (gs_shutdown_error s)) s)))"

section \<open>The powered hold\<close>

definition hold_accept :: "feedback_endpoint \<Rightarrow> 'a run_limits_scheme \<Rightarrow> feedback \<Rightarrow> (hold_vars, unit) io" where
  "hold_accept e p fb = io_bind (io_get hs_target) (\<lambda>target.
     let error = (case target of None \<Rightarrow> Fin 0 | Some x \<Rightarrow> fsub x (fb_position_rad fb)) in
     steps [io_modify count_feedback,
       require_status fb ''enabled''
         (ep_motor_name e @ '' status must be enabled, observed '' @ fb_status_name fb),
       io_modify (note_extremes error fb),
       io_lift (check_guards p (ep_motor_name e) error fb)])"

definition hold_cycle ::
  "feedback_endpoint \<Rightarrow> 'a run_limits_scheme \<Rightarrow> pyfloat \<Rightarrow> pyfloat \<Rightarrow> command_envelope \<Rightarrow> pyfloat \<Rightarrow> pyfloat
     \<Rightarrow> pyfloat \<times> feedback \<Rightarrow> (hold_vars, pyfloat \<times> feedback + unit) io" where
  "hold_cycle e p duration period envelope start target x = (case x of (next_send, prepared) \<Rightarrow>
     io_bind monotonic (\<lambda>t.
     if \<not> flt (fsub t start) duration then io_return (Inr ())
     else io_bind monotonic (\<lambda>now.
       if flt now next_send then io_then pause (io_return (Inl (next_send, prepared)))
       else io_then (send_powered e p envelope target (Fin 0) prepared)
         (io_bind (receive_selected e (lm_timeout p)) (\<lambda>fb.
          io_then (hold_accept e p fb) (io_return (Inl (fadd next_send period, fb))))))))"

definition hold_body ::
  "feedback_endpoint \<Rightarrow> 'a run_limits_scheme \<Rightarrow> pyfloat \<Rightarrow> pyfloat \<Rightarrow> (hold_vars, unit) io" where
  "hold_body e p duration period =
     io_then (send_echo e (Fin 0)) (io_bind (receive_selected e (lm_timeout p)) (\<lambda>initial.
       let target = fb_position_rad initial in
       steps
         [require_status initial ''disabled'' (ep_motor_name e @ '' must be disabled before powered hold''),
          io_modify (\<lambda>s. s\<lparr>hs_target := Some target\<rparr>),
          io_when (\<not> (fle (fadd (fst (lm_soft p)) (rnd (5 / 100))) target \<and>
              fle target (fsub (snd (lm_soft p)) (rnd (5 / 100)))))
            (io_raise (RuntimeError (ep_motor_name e @ '' measured position lacks 0.05 rad soft-limit margin''))),
          send_echo e target,
          io_bind (receive_selected e (lm_timeout p)) (\<lambda>prepared. steps
            [require_status prepared ''disabled''
               (ep_motor_name e @ '' changed status during zero-gain preparation''),
             io_bind (io_lift (envelope_of p)) (\<lambda>envelope.
               io_then (io_call sm_call SEnable) (io_bind monotonic (\<lambda>start.
                 io_loop 0 (hold_cycle e p duration period envelope start target) (start, prepared))))])]))"

definition hold_start :: "single_motor_writer world \<Rightarrow> hold_vars" where
  "hold_start w = \<lparr>wd_writer = wd_writer w, wd_clock = wd_clock w, wd_rx = wd_rx w, wd_tx = wd_tx w,
     wd_sleeps = wd_sleeps w, gs_errors = [], gs_command_count = 0, gs_feedback_count = 0,
     gs_max_error = Fin 0, gs_max_velocity = Fin 0, gs_max_torque = Fin 0, gs_max_mos = 0,
     gs_max_rotor = 0, gs_final_status = None, gs_shutdown_error = None, hs_target = None\<rparr>"

definition hold_report_of ::
  "feedback_endpoint \<Rightarrow> 'a run_limits_scheme \<Rightarrow> pyfloat \<Rightarrow> hold_vars \<Rightarrow> hold_report" where
  "hold_report_of e p duration s = \<lparr>rr_motor_name = ep_motor_name e, rr_duration_s = duration,
     rr_rate_hz = lm_rate p, rr_kp = lm_kp p, rr_kd = lm_kd p,
     rr_command_count = gs_command_count s, rr_feedback_count = gs_feedback_count s,
     rr_enable_attempts = sm_enable_attempts (wd_writer s),
     rr_disable_attempts = sm_disable_attempts (wd_writer s), rr_max_error = gs_max_error s,
     rr_max_velocity = gs_max_velocity s, rr_max_torque = gs_max_torque s,
     rr_max_mos = gs_max_mos s, rr_max_rotor = gs_max_rotor s,
     rr_final_status = gs_final_status s, rr_errors = gs_errors s,
     hr_target_position_rad = hs_target s\<rparr>"

definition hold_checks :: "feedback_endpoint \<Rightarrow> 'a run_limits_scheme \<Rightarrow> pyfloat \<Rightarrow> unit result" where
  "hold_checks e p duration =
     (if (ep_motor_name e, ep_interface e, ep_can_id e) \<noteq> lm_expected p
      then Inl (ValueError (''powered hold is restricted to '' @ fst (snd (lm_expected p)) @ '' '' @
        fst (lm_expected p)))
      else if \<not> (feq duration (Fin 2) \<and> feq (lm_rate p) (Fin 50) \<and> feq (lm_kp p) (rnd (2 / 10)) \<and>
        feq (lm_kd p) (rnd (5 / 100)))
      then Inl (ValueError ''first powered hold duration/rate/gains are frozen'')
      else if flt (rnd (1 / 10)) (lm_max_torque p) \<or> flt (rnd (2 / 10)) (lm_max_velocity p)
      then Inl (ValueError ''first powered hold safety envelope cannot be widened'')
      else if fle (snd (lm_soft p)) (fst (lm_soft p))
      then Inl (ValueError ''head-yaw soft position range is invalid'')
      else Inr ())"

text \<open>\<open>except BaseException as exc: errors.append(str(exc))\<close>, then the \<open>finally\<close> block\<close>

definition hold_run ::
  "feedback_endpoint \<Rightarrow> 'a run_limits_scheme \<Rightarrow> pyfloat \<Rightarrow> pyfloat \<Rightarrow> (hold_vars, unit) io" where
  "hold_run e p duration period =
     io_then (io_catch (hold_body e p duration period) (\<lambda>exc. io_modify (append_error (exc_text exc))))
       (io_bind (io_get hs_target) (\<lambda>target.
         shut_down e (case target of Some x \<Rightarrow> x | None \<Rightarrow> Fin 0) (lm_timeout p) (\<lambda>_ s. s)))"

definition run_head_yaw_low_gain_hold ::
  "feedback_endpoint \<Rightarrow> 'a run_limits_scheme \<Rightarrow> pyfloat \<Rightarrow> single_motor_writer world
     \<Rightarrow> (hold_report result \<times> hold_vars) option" where
  "run_head_yaw_low_gain_hold e p duration w =
     (case rbind (hold_checks e p duration) (\<lambda>_. fdiv (Fin 1) (lm_rate p)) of
        Inl err \<Rightarrow> Some (Inl err, hold_start w)
      | Inr period \<Rightarrow> (case hold_run e p duration period (hold_start w) of
            None \<Rightarrow> None
          | Some (Inl err, s) \<Rightarrow> Some (Inl err, s)
          | Some (Inr _, s) \<Rightarrow> Some (Inr (hold_report_of e p duration s), s)))"

text \<open>The default parameters, and the wrapper for the right wrist.\<close>

definition hold_defaults :: "frange \<Rightarrow> run_limits" where
  "hold_defaults soft = \<lparr>lm_soft = soft, lm_rate = Fin 50, lm_kp = rnd (2 / 10),
     lm_kd = rnd (5 / 100), lm_max_error = rnd (5 / 100), lm_max_velocity = rnd (2 / 10),
     lm_max_torque = rnd (1 / 10), lm_mos_limit = 100, lm_rotor_limit = 80,
     lm_timeout = rnd (1 / 10), lm_expected = (''head_yaw_motor'', ''kcan3'', 8)\<rparr>"

definition run_right_wrist_roll_low_gain_hold ::
  "feedback_endpoint \<Rightarrow> frange \<Rightarrow> single_motor_writer world \<Rightarrow> (hold_report result \<times> hold_vars) option" where
  "run_right_wrist_roll_low_gain_hold e soft =
     run_head_yaw_low_gain_hold e
       ((hold_defaults soft)\<lparr>lm_expected := (''right_wrist_roll_motor'', ''kcan4'', 7)\<rparr>) (Fin 2)"

end
