(* ===== verification/PoweredMotion.thy ===== *)
theory PoweredMotion
  imports PoweredHold HardwareTables
begin

text \<open>
  The powered motion of one motor (\<open>run_head_yaw_low_gain_motion\<close> of \<open>single_joint_hold.py\<close>) and its
  frozen profiles. \<open>x ** n\<close> on floats is the \<open>pow\<close> of the platform and is the parameter \<open>fpow\<close>.
\<close>

section \<open>The trajectory\<close>

type_synonym fpow = "pyfloat \<Rightarrow> nat \<Rightarrow> pyfloat"

definition radians :: "pyfloat \<Rightarrow> pyfloat" where
  "radians x = fmul x (case fdiv (Fin py_pi) (Fin 180) of Inr r \<Rightarrow> r | Inl _ \<Rightarrow> NaN)"

definition quintic_smoothstep :: "fpow \<Rightarrow> pyfloat \<Rightarrow> pyfloat \<times> pyfloat" where
  "quintic_smoothstep fpow fraction =
     (let x = fmin (fmax fraction (Fin 0)) (Fin 1) in
      (fadd (fsub (fmul (Fin 6) (fpow x 5)) (fmul (Fin 15) (fpow x 4))) (fmul (Fin 10) (fpow x 3)),
       fadd (fsub (fmul (Fin 30) (fpow x 4)) (fmul (Fin 60) (fpow x 3))) (fmul (Fin 30) (fpow x 2))))"

record motion_plan = run_limits +
  mp_excursion :: pyfloat
  mp_transition :: pyfloat
  mp_dwell :: pyfloat
  mp_sign :: int

fun walk_phases ::
  "fpow \<Rightarrow> pyfloat \<Rightarrow> (pyfloat \<times> pyfloat \<times> pyfloat) list \<Rightarrow> pyfloat \<Rightarrow> (pyfloat \<times> pyfloat) result" where
  "walk_phases fpow initial [] remaining = Inr (initial, Fin 0)"
| "walk_phases fpow initial ((duration, start, end) # rest) remaining =
     (if fle remaining duration
      then (if feq start end then Inr (start, Fin 0)
        else rbind (fdiv remaining duration) (\<lambda>q.
          let (fraction, derivative) = quintic_smoothstep fpow q; delta = fsub end start in
          rbind (fdiv (fmul delta derivative) duration) (\<lambda>v.
            Inr (fadd start (fmul delta fraction), v))))
      else walk_phases fpow initial rest (fsub remaining duration))"

definition target_at ::
  "fpow \<Rightarrow> motion_plan \<Rightarrow> pyfloat \<Rightarrow> pyfloat \<Rightarrow> pyfloat \<Rightarrow> (pyfloat \<times> pyfloat) result" where
  "target_at fpow p duration initial elapsed =
     (let signed_excursion = fmul (Fin (of_int (mp_sign p))) (mp_excursion p);
          up = fadd initial signed_excursion; down = fsub initial signed_excursion
      in walk_phases fpow initial
        [(mp_transition p, initial, up), (mp_dwell p, up, up), (mp_transition p, up, down),
         (mp_dwell p, down, down), (mp_transition p, down, initial), (mp_dwell p, initial, initial)]
        (fmin (fmax elapsed (Fin 0)) duration))"

section \<open>The run\<close>

definition note_measured :: "feedback \<Rightarrow> motion_vars \<Rightarrow> motion_vars" where
  "note_measured fb s = s\<lparr>
     mo_measured_minimum := Some (case mo_measured_minimum s of None \<Rightarrow> fb_position_rad fb
       | Some m \<Rightarrow> fmin m (fb_position_rad fb)),
     mo_measured_maximum := Some (case mo_measured_maximum s of None \<Rightarrow> fb_position_rad fb
       | Some m \<Rightarrow> fmax m (fb_position_rad fb)),
     mo_final_measured := Some (fb_position_rad fb)\<rparr>"

definition motion_accept ::
  "feedback_endpoint \<Rightarrow> motion_plan \<Rightarrow> feedback \<Rightarrow> pyfloat \<Rightarrow> (motion_vars, unit) io" where
  "motion_accept e p fb target = (let error = fsub target (fb_position_rad fb) in
     steps [io_modify count_feedback,
       require_status fb ''enabled''
         (ep_motor_name e @ '' status must be enabled, observed '' @ fb_status_name fb),
       io_modify (note_extremes error fb),
       io_modify (note_measured fb),
       io_lift (check_guards p (ep_motor_name e) error fb)])"

definition motion_cycle ::
  "fpow \<Rightarrow> feedback_endpoint \<Rightarrow> motion_plan \<Rightarrow> pyfloat \<Rightarrow> pyfloat \<Rightarrow> command_envelope \<Rightarrow> pyfloat \<Rightarrow> pyfloat
     \<Rightarrow> pyfloat \<times> feedback \<Rightarrow> (motion_vars, pyfloat \<times> feedback + unit) io" where
  "motion_cycle fpow e p duration period envelope start initial x = (case x of (next_send, prepared) \<Rightarrow>
     io_bind monotonic (\<lambda>t.
     if \<not> flt (fsub t start) duration then io_return (Inr ())
     else io_bind monotonic (\<lambda>now.
       if flt now next_send then io_then pause (io_return (Inl (next_send, prepared)))
       else io_bind (io_lift (target_at fpow p duration initial (fsub now start))) (\<lambda>(position, velocity).
         io_then (send_powered e p envelope position velocity prepared)
         (io_bind (receive_selected e (lm_timeout p)) (\<lambda>fb.
          io_then (motion_accept e p fb position) (io_return (Inl (fadd next_send period, fb)))))))))"

definition motion_body ::
  "fpow \<Rightarrow> feedback_endpoint \<Rightarrow> motion_plan \<Rightarrow> pyfloat \<Rightarrow> pyfloat \<Rightarrow> (motion_vars, unit) io" where
  "motion_body fpow e p duration period =
     io_then (send_echo e (Fin 0)) (io_bind (receive_selected e (lm_timeout p)) (\<lambda>first.
       let initial = fb_position_rad first;
           low = fsub initial (fabs (mp_excursion p)); high = fadd initial (fabs (mp_excursion p))
       in steps
         [require_status first ''disabled'' (ep_motor_name e @ '' must be disabled before powered motion''),
          io_modify (\<lambda>s. s\<lparr>mo_initial := Some initial, mo_requested_minimum := Some low,
            mo_requested_maximum := Some high\<rparr>),
          io_when (\<not> fle (fadd (fst (lm_soft p)) (lm_max_error p)) low)
            (io_raise (RuntimeError (ep_motor_name e @ '' initial position lacks lower soft-limit margin''))),
          io_when (\<not> fle high (fsub (snd (lm_soft p)) (lm_max_error p)))
            (io_raise (RuntimeError (ep_motor_name e @ '' initial position lacks upper soft-limit margin''))),
          send_echo e initial,
          io_bind (receive_selected e (lm_timeout p)) (\<lambda>prepared. steps
            [require_status prepared ''disabled''
               (ep_motor_name e @ '' changed status during zero-gain preparation''),
             io_bind (io_lift (envelope_of p)) (\<lambda>envelope.
               io_then (io_call sm_call SEnable) (io_bind monotonic (\<lambda>start.
                 io_loop 0 (motion_cycle fpow e p duration period envelope start initial) (start, prepared))))])]))"

definition motion_start :: "single_motor_writer world \<Rightarrow> motion_vars" where
  "motion_start w = \<lparr>wd_writer = wd_writer w, wd_clock = wd_clock w, wd_rx = wd_rx w, wd_tx = wd_tx w,
     wd_sleeps = wd_sleeps w, gs_errors = [], gs_command_count = 0, gs_feedback_count = 0,
     gs_max_error = Fin 0, gs_max_velocity = Fin 0, gs_max_torque = Fin 0, gs_max_mos = 0,
     gs_max_rotor = 0, gs_final_status = None, gs_shutdown_error = None, mo_initial = None,
     mo_requested_minimum = None, mo_requested_maximum = None, mo_measured_minimum = None,
     mo_measured_maximum = None, mo_final_measured = None\<rparr>"

definition motion_report_of ::
  "feedback_endpoint \<Rightarrow> motion_plan \<Rightarrow> pyfloat \<Rightarrow> motion_vars \<Rightarrow> motion_report" where
  "motion_report_of e p duration s = \<lparr>rr_motor_name = ep_motor_name e, rr_duration_s = duration,
     rr_rate_hz = lm_rate p, rr_kp = lm_kp p, rr_kd = lm_kd p,
     rr_command_count = gs_command_count s, rr_feedback_count = gs_feedback_count s,
     rr_enable_attempts = sm_enable_attempts (wd_writer s),
     rr_disable_attempts = sm_disable_attempts (wd_writer s), rr_max_error = gs_max_error s,
     rr_max_velocity = gs_max_velocity s, rr_max_torque = gs_max_torque s,
     rr_max_mos = gs_max_mos s, rr_max_rotor = gs_max_rotor s,
     rr_final_status = gs_final_status s, rr_errors = gs_errors s,
     mr_initial_position_rad = mo_initial s, mr_requested_minimum_position_rad = mo_requested_minimum s,
     mr_requested_maximum_position_rad = mo_requested_maximum s,
     mr_measured_minimum_position_rad = mo_measured_minimum s,
     mr_measured_maximum_position_rad = mo_measured_maximum s,
     mr_final_measured_position_rad = mo_final_measured s\<rparr>"

text \<open>
  A frozen profile: excursion, transition, dwell, rate, gains, the three guards, and the temperature
  limits.
\<close>

type_synonym profile = "pyfloat list \<times> int list"

definition profile_of :: "motion_plan \<Rightarrow> profile" where
  "profile_of p = ([mp_excursion p, mp_transition p, mp_dwell p, lm_rate p, lm_kp p, lm_kd p,
     lm_max_error p, lm_max_velocity p, lm_max_torque p], [lm_mos_limit p, lm_rotor_limit p])"

definition same_profile :: "profile \<Rightarrow> profile \<Rightarrow> bool" where
  "same_profile a b \<longleftrightarrow> list_all2 feq (fst a) (fst b) \<and> snd a = snd b"

definition FROZEN_PROFILES :: "profile list" where
  "FROZEN_PROFILES =
     [([rnd (2 / 100), Fin 1, Fin (1 / 2), Fin 50, Fin 1, rnd (2 / 10), rnd (5 / 100), rnd (2 / 10),
        rnd (1 / 10)], [100, 80]),
      ([radians (Fin 10), Fin 4, Fin 1, Fin 50, Fin 2, rnd (2 / 10), rnd (8 / 100), rnd (8 / 10),
        Fin (1 / 4)], [100, 80]),
      ([radians (Fin 5), Fin 4, Fin 1, Fin 50, Fin 2, rnd (2 / 10), rnd (8 / 100), rnd (6 / 10),
        rnd (2 / 10)], [100, 80]),
      ([radians (Fin 5), Fin 4, Fin 1, Fin 50, Fin 8, rnd (3 / 10), rnd (12 / 100), rnd (6 / 10),
        Fin 1], [100, 80]),
      ([radians (Fin 5), Fin 4, Fin 1, Fin 50, Fin 20, Fin (1 / 2), rnd (15 / 100), rnd (8 / 10),
        Fin (5 / 2)], [100, 80])]"

definition motion_checks :: "feedback_endpoint \<Rightarrow> motion_plan \<Rightarrow> unit result" where
  "motion_checks e p =
     (if (ep_motor_name e, ep_interface e, ep_can_id e) \<noteq> lm_expected p
      then Inl (ValueError (''powered motion is restricted to '' @ fst (snd (lm_expected p)) @ '' '' @
        fst (lm_expected p)))
      else if mp_sign p \<notin> {- 1, 1}
      then Inl (ValueError ''joint-to-motor sign must be -1 or +1'')
      else if \<not> list_ex (same_profile (profile_of p)) FROZEN_PROFILES
      then Inl (ValueError ''single-joint powered-motion trajectory, gains, and guards are frozen'')
      else if fle (snd (lm_soft p)) (fst (lm_soft p))
      then Inl (ValueError (ep_motor_name e @ '' soft position range is invalid''))
      else Inr ())"

definition motion_run ::
  "fpow \<Rightarrow> feedback_endpoint \<Rightarrow> motion_plan \<Rightarrow> pyfloat \<Rightarrow> pyfloat \<Rightarrow> (motion_vars, unit) io" where
  "motion_run fpow e p duration period =
     io_then (io_catch (motion_body fpow e p duration period) (\<lambda>exc. io_modify (append_error (exc_text exc))))
       (io_bind (io_get mo_initial) (\<lambda>initial.
         shut_down e (case initial of Some x \<Rightarrow> x | None \<Rightarrow> Fin 0) (lm_timeout p)
           (\<lambda>fb s. s\<lparr>mo_final_measured := Some (fb_position_rad fb)\<rparr>)))"

definition run_head_yaw_low_gain_motion ::
  "fpow \<Rightarrow> feedback_endpoint \<Rightarrow> motion_plan \<Rightarrow> single_motor_writer world
     \<Rightarrow> (motion_report result \<times> motion_vars) option" where
  "run_head_yaw_low_gain_motion fpow e p w =
     (let duration = fadd (fmul (Fin 3) (mp_transition p)) (fmul (Fin 3) (mp_dwell p)) in
      case rbind (motion_checks e p) (\<lambda>_. fdiv (Fin 1) (lm_rate p)) of
        Inl err \<Rightarrow> Some (Inl err, motion_start w)
      | Inr period \<Rightarrow> (case motion_run fpow e p duration period (motion_start w) of
            None \<Rightarrow> None
          | Some (Inl err, s) \<Rightarrow> Some (Inl err, s)
          | Some (Inr _, s) \<Rightarrow> Some (Inr (motion_report_of e p duration s), s)))"

section \<open>The frozen loaded-joint motions\<close>

definition loaded_motion ::
  "frange \<Rightarrow> pyfloat \<Rightarrow> pyfloat \<Rightarrow> pyfloat \<Rightarrow> pyfloat \<Rightarrow> pyfloat \<Rightarrow> string \<times> string \<times> int \<Rightarrow> int \<Rightarrow> motion_plan" where
  "loaded_motion soft kp kd max_error max_velocity max_torque expected sign =
     \<lparr>lm_soft = soft, lm_rate = Fin 50, lm_kp = kp, lm_kd = kd, lm_max_error = max_error,
      lm_max_velocity = max_velocity, lm_max_torque = max_torque, lm_mos_limit = 100,
      lm_rotor_limit = 80, lm_timeout = rnd (1 / 10), lm_expected = expected,
      mp_excursion = radians (Fin 5), mp_transition = Fin 4, mp_dwell = Fin 1, mp_sign = sign\<rparr>"

definition run_right_wrist_roll_low_gain_motion ::
  "fpow \<Rightarrow> feedback_endpoint \<Rightarrow> frange \<Rightarrow> single_motor_writer world
     \<Rightarrow> (motion_report result \<times> motion_vars) option" where
  "run_right_wrist_roll_low_gain_motion fpow e soft = run_head_yaw_low_gain_motion fpow e
     (loaded_motion soft (Fin 2) (rnd (2 / 10)) (rnd (8 / 100)) (rnd (6 / 10)) (rnd (2 / 10))
       (''right_wrist_roll_motor'', ''kcan4'', 7) (- 1))"

definition run_right_hip_yaw_low_gain_motion ::
  "fpow \<Rightarrow> feedback_endpoint \<Rightarrow> frange \<Rightarrow> single_motor_writer world
     \<Rightarrow> (motion_report result \<times> motion_vars) option" where
  "run_right_hip_yaw_low_gain_motion fpow e soft = run_head_yaw_low_gain_motion fpow e
     (loaded_motion soft (Fin 8) (rnd (3 / 10)) (rnd (12 / 100)) (rnd (6 / 10)) (Fin 1)
       (''right_hip_yaw_motor'', ''kcan2'', 3) 1)"

definition run_right_hip_yaw_medium_gain_motion ::
  "fpow \<Rightarrow> feedback_endpoint \<Rightarrow> frange \<Rightarrow> single_motor_writer world
     \<Rightarrow> (motion_report result \<times> motion_vars) option" where
  "run_right_hip_yaw_medium_gain_motion fpow e soft = run_head_yaw_low_gain_motion fpow e
     (loaded_motion soft (Fin 20) (Fin (1 / 2)) (rnd (15 / 100)) (rnd (8 / 10)) (Fin (5 / 2))
       (''right_hip_yaw_motor'', ''kcan2'', 3) 1)"

end
