(* ===== verification/PoweredSafety.thy ===== *)
theory PoweredSafety
  imports WirePhases PoweredMotion
begin

text \<open>
  The powered runs of one motor: the order of the frames on the wire, the disable that always
  follows, and what a passed report is evidence of.
\<close>

section \<open>The wire of one motor\<close>

definition gains_ok :: "int \<Rightarrow> int \<Rightarrow> bytes \<Rightarrow> bool" where
  "gains_ok kp kd f \<longleftrightarrow> emitted_of f \<noteq> Command \<or>
     mit_kp_raw (frame_payload f) = kp \<and> mit_kd_raw (frame_payload f) = kd"

definition phased :: "bytes list \<Rightarrow> int \<Rightarrow> int \<Rightarrow> phase set \<Rightarrow> single_motor_writer \<Rightarrow> bool" where
  "phased w0 kp kd S w \<longleftrightarrow> (\<exists>fs p. sm_wire w = w0 @ fs \<and> list_all (gains_ok kp kd) fs \<and>
     run_phases Preparing (map emitted_of fs) = Some p \<and> p \<in> S)"

lemma phased_mono: "phased w0 kp kd S w \<Longrightarrow> S \<subseteq> T \<Longrightarrow> phased w0 kp kd T w"
  by (auto simp: phased_def)

fun sm_payload :: "single_call \<Rightarrow> bytes" where
  "sm_payload (SCommand c) = ec_data c"
| "sm_payload SEnable = ENABLE_PAYLOAD"
| "sm_payload SDisable = DISABLE_PAYLOAD"

lemma sm_send_payload_wire:
  "sm_send_payload w d t = (w', r) \<Longrightarrow> (w' = w \<and> (\<exists>e. r = Inl e)) \<or>
    (length d = 8 \<and> w' = w\<lparr>sm_wire := sm_wire w @ [wire_frame (sm_can_id w) d]\<rparr>)"
  by (auto simp: sm_send_payload_def dest: canfd_pack_Inr split: if_splits sum.splits option.splits)

lemma sm_call_wire:
  assumes "sm_call w c t = (w', r)"
  shows "(sm_wire w' = sm_wire w \<and> (\<exists>e. r = Inl e)) \<or>
    (length (sm_payload c) = 8 \<and> sm_wire w' = sm_wire w @ [wire_frame (sm_can_id w) (sm_payload c)])"
  using assms sm_send_payload_wire [of w "sm_payload c" t]
  by (cases c) (fastforce split: prod.splits sum.splits if_splits)+

lemma phased_call:
  assumes kind: "payload_kind (sm_payload c) = k"
    and raws: "k = Command \<Longrightarrow> mit_kp_raw (sm_payload c) = kp \<and> mit_kd_raw (sm_payload c) = kd"
    and move: "\<forall>p \<in> S. \<exists>q \<in> T. next_phase p k = Some q"
  shows "holds (on_writer (phased w0 kp kd S)) (io_call sm_call c)
    (\<lambda>_. on_writer (phased w0 kp kd T)) (\<lambda>_. on_writer (phased w0 kp kd (S \<union> T)))"
proof (rule holds_io_call)
  fix w t r w' assume "phased w0 kp kd S w" and c: "sm_call w c t = (w', r)"
  then obtain fs p where fs: "sm_wire w = w0 @ fs" "list_all (gains_ok kp kd) fs"
    "run_phases Preparing (map emitted_of fs) = Some p" "p \<in> S" by (auto simp: phased_def)
  from move fs(4) obtain q where q: "q \<in> T" "next_phase p k = Some q" by blast
  from sm_call_wire [OF c] consider "sm_wire w' = sm_wire w" "\<exists>e. r = Inl e"
    | "length (sm_payload c) = 8" "sm_wire w' = sm_wire w @ [wire_frame (sm_can_id w) (sm_payload c)]" by blast
  then show "case r of Inl e \<Rightarrow> phased w0 kp kd (S \<union> T) w' | Inr _ \<Rightarrow> phased w0 kp kd T w'"
  proof cases
    case 1
    with fs show ?thesis by (auto simp: phased_def)
  next
    case 2
    let ?f = "wire_frame (sm_can_id w) (sm_payload c)"
    have f: "emitted_of ?f = k" "gains_ok kp kd ?f"
      using payload_of_wire_frame [OF 2(1)] kind raws by (auto simp: emitted_of_def gains_ok_def)
    have "phased w0 kp kd T w'"
      unfolding phased_def using fs 2(2) q f
      by (intro exI [of _ "fs @ [?f]"] exI [of _ q]) (simp add: run_phases_append)
    then show ?thesis using phased_mono [of w0 kp kd T w' "S \<union> T"] by (auto split: sum.split)
  qed
qed

lemma keeps_receive_bus: "keeps (on_bus K) (receive_selected e timeout)"
  unfolding receive_selected_def receive_step_def by (intro keeps_rules keeps_bus)

lemma keeps_receive_selected: "keeps (on_writer J) (receive_selected e timeout)"
  unfolding on_writer_bus by (rule keeps_receive_bus)

lemma keeps_require_status: "keeps I (require_status fb st m)"
  unfolding require_status_def by (intro keeps_rules)

lemma phased_echo:
  assumes "S \<subseteq> {Preparing, Disabling}"
  shows "keeps (on_writer (phased w0 kp kd S)) (send_echo e x)"
  unfolding send_echo_def
proof (rule holds_lift_bind)
  fix c assume c: "encode_zero_gain_position_echo e x = Inr c"
  have "\<forall>p \<in> S. \<exists>q \<in> S. next_phase p Echo = Some q" using assms by auto
  from phased_call [OF _ _ this, of "SCommand c" kp kd w0] echo_payload(2) [OF c]
  show "keeps (on_writer (phased w0 kp kd S)) (io_call sm_call (SCommand c))" by simp
qed

section \<open>The phases of a run\<close>

lemma phased_weaken:
  assumes "holds (on_writer (phased w0 kp kd S)) m (\<lambda>_. on_writer (phased w0 kp kd T)) (\<lambda>_. on_writer (phased w0 kp kd U))"
    and "T \<subseteq> T'" and "U \<subseteq> U'"
  shows "holds (on_writer (phased w0 kp kd S)) m (\<lambda>_. on_writer (phased w0 kp kd T')) (\<lambda>_. on_writer (phased w0 kp kd U'))"
  using assms(1) by (rule holds_conseq) (use assms(2,3) phased_mono in \<open>auto simp: on_writer_def\<close>)

abbreviation any_phase :: "phase set" where
  "any_phase \<equiv> {Preparing, Powered, Disabling}"

lemma phased_disable:
  "holds (on_writer (phased w0 kp kd any_phase)) (io_call sm_call SDisable)
    (\<lambda>_. on_writer (phased w0 kp kd {Disabling})) (\<lambda>_. on_writer (phased w0 kp kd any_phase))"
  using phased_call [of SDisable Disable kp kd any_phase "{Disabling}" w0] DISABLE_kind
  by (auto elim!: holds_conseq simp: insert_absorb insert_commute on_writer_def intro: phased_mono)

lemma phased_disable_round:
  assumes frame: "\<And>fb s. wd_writer (note fb s) = wd_writer s"
  shows "keeps (on_writer (phased w0 kp kd any_phase)) (disable_round e poll timeout note)"
proof -
  let ?D = "on_writer (phased w0 kp kd {Disabling})" and ?A = "on_writer (phased w0 kp kd any_phase)"
  have any: "?D s \<Longrightarrow> ?A s" for s
    using phased_mono by (auto simp: on_writer_def)
  have weak: "holds ?D m (\<lambda>_. ?D) (\<lambda>_. ?A)" if "keeps ?D m" for m
    using that by (rule holds_conseq) (auto intro: any)
  have poll: "holds ?A (steps [io_call sm_call SDisable, pause, send_echo e poll]) (\<lambda>_. ?D) (\<lambda>_. ?A)"
    by (rule holds_steps_Cons [OF phased_disable] holds_steps_Cons holds_steps_Nil weak
        keeps_pause phased_echo | simp)+
  have rest: "keeps ?D (io_bind (receive_selected e timeout) (\<lambda>final.
         io_then (io_modify (\<lambda>s. note final (s\<lparr>gs_final_status := Some (fb_status_name final)\<rparr>)))
           (io_get (\<lambda>s. 3 \<le> sm_disable_attempts (wd_writer s) \<and> gs_final_status s = Some ''disabled''))))"
    by (intro keeps_rules keeps_receive_selected keeps_frame) (simp add: frame)
  show ?thesis unfolding disable_round_def
  proof (rule holds_catch [where R = "\<lambda>_. ?A"])
    show "holds ?A (io_then (steps [io_call sm_call SDisable, pause, send_echo e poll])
        (io_bind (receive_selected e timeout) (\<lambda>final.
         io_then (io_modify (\<lambda>s. note final (s\<lparr>gs_final_status := Some (fb_status_name final)\<rparr>)))
           (io_get (\<lambda>s. 3 \<le> sm_disable_attempts (wd_writer s) \<and> gs_final_status s = Some ''disabled'')))))
        (\<lambda>_. ?A) (\<lambda>_. ?A)"
      by (rule holds_conseq [OF holds_then [OF poll weak [OF rest]]]) (auto intro: any)
    show "keeps ?A (io_then (io_modify (\<lambda>s. s\<lparr>gs_shutdown_error := Some (exc_text exc)\<rparr>)) (io_return False))" for exc
      by (intro keeps_rules keeps_frame) simp
  qed
qed

lemma phased_shut_down:
  assumes frame: "\<And>fb s. wd_writer (note fb s) = wd_writer s"
  shows "keeps (on_writer (phased w0 kp kd any_phase)) (shut_down e poll timeout note)"
  unfolding shut_down_def shutdown_step_def
  by (intro keeps_rules keeps_monotonic phased_disable_round frame keeps_frame)
    (auto simp: append_error_def)


context frozen_gains
begin

lemma phased_powered:
  assumes "lm_kp p = kp" and "lm_kd p = kd"
  shows "keeps (on_writer (phased w0 kp_raw kd_raw {Powered})) (send_powered e p env x v prepared)"
  unfolding send_powered_def
proof (rule holds_lift_bind)
  fix ec assume "rbind (new_mit_state (fb_position_rad prepared) (fb_velocity_rad_s prepared)) (\<lambda>measured.
      rbind (new_mit_command x v (lm_kp p) (lm_kd p) (Fin 0)) (\<lambda>command.
        encode_damiao_mit_command e command measured env)) = Inr ec"
  then obtain c st where c: "encode_damiao_mit_command e c st env = Inr ec" "mc_kp c = kp" "mc_kd c = kd"
    using assms by (auto simp: rbind_eq_Inr new_mit_command_def split: if_splits)
  from phased_call [of "SCommand ec" Command kp_raw kd_raw "{Powered}" "{Powered}" w0] command_payload [OF c]
  have "keeps (on_writer (phased w0 kp_raw kd_raw {Powered})) (io_call sm_call (SCommand ec))" by simp
  then show "keeps (on_writer (phased w0 kp_raw kd_raw {Powered}))
      (steps [io_call sm_call (SCommand ec), io_modify count_command])"
    by (intro keeps_steps) (auto intro: keeps_frame simp: count_command_def)
qed simp

lemma phased_enable:
  "holds (on_writer (phased w0 kp_raw kd_raw {Preparing})) (io_call sm_call SEnable)
    (\<lambda>_. on_writer (phased w0 kp_raw kd_raw {Powered})) (\<lambda>_. on_writer (phased w0 kp_raw kd_raw {Preparing, Powered}))"
  using phased_call [of SEnable Enable kp_raw kd_raw "{Preparing}" "{Powered}" w0] ENABLE_kind
  by (simp add: insert_commute)

lemma phased_hold_cycle:
  assumes "lm_kp p = kp" and "lm_kd p = kd"
  shows "keeps (on_writer (phased w0 kp_raw kd_raw {Powered})) (hold_cycle e p dur per env st tgt x)"
  unfolding hold_cycle_def hold_accept_def
  by (intro keeps_rules keeps_monotonic keeps_pause keeps_receive_selected phased_powered assms)
    (auto intro!: keeps_frame keeps_require_status keeps_lift simp: count_feedback_def note_extremes_def)

lemma phased_motion_cycle:
  assumes "lm_kp p = kp" and "lm_kd p = kd"
  shows "keeps (on_writer (phased w0 kp_raw kd_raw {Powered})) (motion_cycle fpow e p dur per env st tgt x)"
  unfolding motion_cycle_def motion_accept_def
  by (intro keeps_rules keeps_monotonic keeps_pause keeps_receive_selected phased_powered assms)
    (auto intro!: keeps_frame keeps_require_status keeps_lift
      simp: count_feedback_def note_extremes_def note_measured_def)

text \<open>From the enable to the end of the powered loop.\<close>

lemma phased_power_up:
  assumes "\<And>start x. keeps (on_writer (phased w0 kp_raw kd_raw {Powered})) (cycle start x)"
  shows "holds (on_writer (phased w0 kp_raw kd_raw {Preparing}))
    (io_then (io_call sm_call SEnable) (io_bind monotonic (\<lambda>start. io_loop 0 (cycle start) (start, prepared))))
    (\<lambda>_. on_writer (phased w0 kp_raw kd_raw {Preparing, Powered}))
    (\<lambda>_. on_writer (phased w0 kp_raw kd_raw {Preparing, Powered}))"
  by (rule holds_then [OF phased_enable])
    (rule phased_weaken [where T = "{Powered}" and U = "{Powered}"],
      intro keeps_rules keeps_monotonic assms, auto)

lemma phased_weak:
  "keeps (on_writer (phased w0 kp_raw kd_raw {Preparing})) m \<Longrightarrow>
    holds (on_writer (phased w0 kp_raw kd_raw {Preparing})) m
      (\<lambda>_. on_writer (phased w0 kp_raw kd_raw {Preparing}))
      (\<lambda>_. on_writer (phased w0 kp_raw kd_raw {Preparing, Powered}))"
  by (rule phased_weaken) auto

lemma phased_more:
  "on_writer (phased w0 kp_raw kd_raw {Preparing}) s \<Longrightarrow> on_writer (phased w0 kp_raw kd_raw {Preparing, Powered}) s"
  by (auto simp: on_writer_def intro: phased_mono)

lemma keeps_steps_Nil: "keeps I (steps [])"
  by (simp add: keeps_return)

lemmas phased_prologue = phased_weak [OF phased_echo] phased_weak [OF keeps_receive_selected]
  phased_weak [OF keeps_require_status] phased_weak [OF keeps_when] phased_weak [OF keeps_frame]

lemma phased_hold_body:
  assumes "lm_kp p = kp" and "lm_kd p = kd"
  shows "holds (on_writer (phased w0 kp_raw kd_raw {Preparing})) (hold_body e p dur per)
    (\<lambda>_. on_writer (phased w0 kp_raw kd_raw {Preparing, Powered}))
    (\<lambda>_. on_writer (phased w0 kp_raw kd_raw {Preparing, Powered}))"
  unfolding hold_body_def Let_def
  by (rule phased_power_up phased_hold_cycle assms holds_then holds_steps_Cons holds_lift_bind
      phased_prologue keeps_raise keeps_steps_Nil holds_bind | erule phased_more | simp)+

lemma phased_motion_body:
  assumes "lm_kp p = kp" and "lm_kd p = kd"
  shows "holds (on_writer (phased w0 kp_raw kd_raw {Preparing})) (motion_body fpow e p dur per)
    (\<lambda>_. on_writer (phased w0 kp_raw kd_raw {Preparing, Powered}))
    (\<lambda>_. on_writer (phased w0 kp_raw kd_raw {Preparing, Powered}))"
  unfolding motion_body_def Let_def
  by (rule phased_power_up phased_motion_cycle assms holds_then holds_steps_Cons holds_lift_bind
      phased_prologue keeps_raise keeps_steps_Nil holds_bind | erule phased_more | simp)+

lemma phased_guarded:
  assumes body: "holds (on_writer (phased w0 kp_raw kd_raw {Preparing})) m
      (\<lambda>_. on_writer (phased w0 kp_raw kd_raw {Preparing, Powered}))
      (\<lambda>_. on_writer (phased w0 kp_raw kd_raw {Preparing, Powered}))"
    and frame: "\<And>fb s. wd_writer (nt fb s) = wd_writer s"
  shows "holds (on_writer (phased w0 kp_raw kd_raw {Preparing}))
    (io_then (io_catch m (\<lambda>exc. io_modify (append_error (exc_text exc))))
       (io_bind (io_get target) (\<lambda>t. shut_down e (poll t) timeout nt)))
    (\<lambda>_. on_writer (phased w0 kp_raw kd_raw any_phase)) (\<lambda>_. on_writer (phased w0 kp_raw kd_raw any_phase))"
proof (rule holds_then [where R = "on_writer (phased w0 kp_raw kd_raw any_phase)"])
  show "holds (on_writer (phased w0 kp_raw kd_raw {Preparing}))
      (io_catch m (\<lambda>exc. io_modify (append_error (exc_text exc))))
      (\<lambda>_. on_writer (phased w0 kp_raw kd_raw any_phase)) (\<lambda>_. on_writer (phased w0 kp_raw kd_raw any_phase))"
  proof (rule phased_weaken [where T = "{Preparing, Powered}" and U = "{Preparing, Powered}"])
    show "holds (on_writer (phased w0 kp_raw kd_raw {Preparing}))
      (io_catch m (\<lambda>exc. io_modify (append_error (exc_text exc))))
      (\<lambda>_. on_writer (phased w0 kp_raw kd_raw {Preparing, Powered}))
      (\<lambda>_. on_writer (phased w0 kp_raw kd_raw {Preparing, Powered}))"
      by (rule holds_catch [OF body], rule keeps_frame) (simp add: append_error_def)
  qed auto
  show "keeps (on_writer (phased w0 kp_raw kd_raw any_phase))
      (io_bind (io_get target) (\<lambda>t. shut_down e (poll t) timeout nt))"
    by (intro keeps_rules phased_shut_down frame)
qed

lemma phased_hold_run:
  assumes "lm_kp p = kp" and "lm_kd p = kd"
  shows "holds (on_writer (phased w0 kp_raw kd_raw {Preparing})) (hold_run e p dur per)
    (\<lambda>_. on_writer (phased w0 kp_raw kd_raw any_phase)) (\<lambda>_. on_writer (phased w0 kp_raw kd_raw any_phase))"
  unfolding hold_run_def by (rule phased_guarded [OF phased_hold_body [OF assms]]) simp

lemma phased_motion_run:
  assumes "lm_kp p = kp" and "lm_kd p = kd"
  shows "holds (on_writer (phased w0 kp_raw kd_raw {Preparing})) (motion_run fpow e p dur per)
    (\<lambda>_. on_writer (phased w0 kp_raw kd_raw any_phase)) (\<lambda>_. on_writer (phased w0 kp_raw kd_raw any_phase))"
  unfolding motion_run_def by (rule phased_guarded [OF phased_motion_body [OF assms]]) simp

end

text \<open>The frozen gains of the hold and of the five motion profiles.\<close>

interpretation hold_gains: frozen_gains "rnd (2 / 10)" "rnd (5 / 100)" 1 40
  by unfold_locales (simp_all add: float_to_uint_strict_def float_eval)

interpretation micro_gains: frozen_gains "Fin 1" "rnd (2 / 10)" 8 163
  by unfold_locales (simp_all add: float_to_uint_strict_def float_eval)

interpretation wrist_gains: frozen_gains "Fin 2" "rnd (2 / 10)" 16 163
  by unfold_locales (simp_all add: float_to_uint_strict_def float_eval)

interpretation hip_gains: frozen_gains "Fin 8" "rnd (3 / 10)" 65 245
  by unfold_locales (simp_all add: float_to_uint_strict_def float_eval)

interpretation medium_gains: frozen_gains "Fin 20" "Fin (1 / 2)" 163 409
  by unfold_locales (simp_all add: float_to_uint_strict_def float_eval)

lemma feq_eq: "feq x y \<Longrightarrow> x = y"
  by (auto simp: feq_def)

definition wire_in_order :: "bytes list \<Rightarrow> bytes list \<Rightarrow> (int \<times> int) list \<Rightarrow> bool" where
  "wire_in_order w0 w gains \<longleftrightarrow> take (length w0) w = w0 \<and>
     (let fs = drop (length w0) w in run_phases Preparing (map emitted_of fs) \<noteq> None \<and>
       count_list (map emitted_of fs) Enable \<le> 1 \<and> list_ex (\<lambda>(kp, kd). list_all (gains_ok kp kd) fs) gains)"

lemma phased_start: "phased (sm_wire w) kp kd {Preparing} w"
  by (auto simp: phased_def intro!: exI [of _ "[]"])

lemma phased_in_order:
  assumes "phased w0 kp kd S w" and "(kp, kd) \<in> set gains"
  shows "wire_in_order w0 (sm_wire w) gains"
proof -
  from assms(1) obtain fs p where fs: "sm_wire w = w0 @ fs" "list_all (gains_ok kp kd) fs"
    "run_phases Preparing (map emitted_of fs) = Some p" by (auto simp: phased_def)
  with enable_count [of Preparing "map emitted_of fs"] assms(2) show ?thesis
    by (auto simp: wire_in_order_def list_ex_iff Let_def)
qed

section \<open>The disable always follows\<close>

text \<open>A program that only returns in states satisfying \<open>Q\<close> and never raises.\<close>

abbreviation never_raises :: "('s \<Rightarrow> bool) \<Rightarrow> ('s, 'a) io \<Rightarrow> ('a \<Rightarrow> 's \<Rightarrow> bool) \<Rightarrow> bool" where
  "never_raises P m Q \<equiv> holds P m Q (\<lambda>_ _. False)"

lemma never_raises_basic:
  "never_raises I (io_return x) (\<lambda>_. I)" "never_raises I (io_get f) (\<lambda>_. I)"
  "never_raises (\<lambda>_. True) monotonic (\<lambda>_ _. True)" "never_raises (\<lambda>_. True) (io_modify g) (\<lambda>_ _. True)"
  by (auto simp: holds_def io_return_def io_get_def monotonic_def io_modify_def split: list.splits)

lemma shutdown_step_returns: "never_raises (\<lambda>_. True) (shutdown_step e poll timeout nt d n) (\<lambda>_ _. True)"
proof -
  have "never_raises (\<lambda>_. True) (disable_round e poll timeout nt) (\<lambda>_ _. True)"
    unfolding disable_round_def
    by (rule holds_catch [where R = "\<lambda>_ _. True"])
      (auto simp: holds_def io_then_def io_bind_def io_modify_def io_return_def split: sum.splits)
  then show ?thesis unfolding shutdown_step_def
    by (auto intro!: holds_bind [where R = "\<lambda>_ _. True"] never_raises_basic
        never_raises_basic(1) [of "\<lambda>_. True", simplified])
qed

lemma shut_down_verdict:
  "never_raises (\<lambda>_. True) (shut_down e poll timeout nt)
    (\<lambda>_ s. gs_errors s \<noteq> [] \<or> gs_final_status s = Some ''disabled'')"
  unfolding shut_down_def
proof (rule holds_bind [where R = "\<lambda>_ _. True"], rule never_raises_basic)
  fix t
  show "never_raises (\<lambda>_. True)
     (io_then (io_loop 3 (shutdown_step e poll timeout nt (fadd t (Fin (1 / 2)))) 0)
       (io_modify (\<lambda>s. if gs_final_status s = Some ''disabled'' then s
          else append_error (verdict_error (gs_final_status s) (gs_shutdown_error s)) s)))
     (\<lambda>_ s. gs_errors s \<noteq> [] \<or> gs_final_status s = Some ''disabled'')"
  proof (rule holds_then [where R = "\<lambda>_. True"])
    show "never_raises (\<lambda>_. True) (io_loop 3 (shutdown_step e poll timeout nt (fadd t (Fin (1 / 2)))) 0) (\<lambda>_ _. True)"
      by (rule holds_loop [where I = "\<lambda>_ _. True"], rule holds_conseq [OF shutdown_step_returns])
        (auto split: sum.splits)
    show "never_raises (\<lambda>_. True) (io_modify (\<lambda>s. if gs_final_status s = Some ''disabled'' then s
          else append_error (verdict_error (gs_final_status s) (gs_shutdown_error s)) s))
     (\<lambda>_ s. gs_errors s \<noteq> [] \<or> gs_final_status s = Some ''disabled'')"
      by (rule holds_modify) (auto simp: append_error_def)
  qed
qed

definition disables :: "single_motor_writer \<Rightarrow> nat" where
  "disables w = count_list (map emitted_of (sm_wire w)) Disable"

definition sends_ok :: "nat \<Rightarrow> single_motor_writer \<Rightarrow> sent list \<Rightarrow> bool" where
  "sends_ok k w txs \<longleftrightarrow> list_all (\<lambda>t. t = Some 72) txs \<and> standard_id (sm_can_id w) \<and>
     int k \<le> sm_disable_attempts w \<and> sm_disable_attempts w \<le> int (disables w)"

lemma sm_send_payload_ok:
  assumes "standard_id (sm_can_id w)" and "length d = 8"
  shows "sm_send_payload w d (Some 72) = (w\<lparr>sm_wire := sm_wire w @ [wire_frame (sm_can_id w) d]\<rparr>, Inr ())"
  using assms by (simp add: sm_send_payload_def canfd_pack_wire short_write_check_def length_wire_frame)

lemma sm_call_ok:
  assumes "sm_call w c (Some 72) = (w', r)" and "standard_id (sm_can_id w)"
  shows "sm_can_id w' = sm_can_id w" and "disables w \<le> disables w'"
    and "c \<noteq> SDisable \<Longrightarrow> sm_disable_attempts w' = sm_disable_attempts w"
    and "c = SDisable \<Longrightarrow> r = Inr () \<and> sm_disable_attempts w' = sm_disable_attempts w + 1 \<and> disables w' = disables w + 1"
proof -
  have l: "length ENABLE_PAYLOAD = 8" "length DISABLE_PAYLOAD = 8"
    by (simp_all add: ENABLE_PAYLOAD_def DISABLE_PAYLOAD_def)
  show "sm_can_id w' = sm_can_id w" using sm_call_frame [of w c "Some 72"] assms(1) by simp
  show "disables w \<le> disables w'" using sm_call_wire [OF assms(1)] by (auto simp: disables_def)
  show "sm_disable_attempts w' = sm_disable_attempts w" if "c \<noteq> SDisable"
    using that assms sm_send_payload_wire [of w "sm_payload c" "Some 72"]
    by (cases c) (fastforce split: prod.splits sum.splits if_splits)+
  show "r = Inr () \<and> sm_disable_attempts w' = sm_disable_attempts w + 1 \<and> disables w' = disables w + 1"
    if "c = SDisable"
    using that assms sm_send_payload_ok [OF assms(2) l(2)] DISABLE_kind
    by (auto simp: disables_def emitted_of_def payload_of_wire_frame [OF l(2)])
qed

lemma keeps_sends_ok: "keeps (on_bus (sends_ok k)) (io_call sm_call c)"
proof -
  have "on_bus (sends_ok k) s'"
    if "on_bus (sends_ok k) s" "io_call sm_call c s = Some (r, s')" for s s' r
  proof -
    from that obtain ts w' where t: "wd_tx s = Some 72 # ts" "sm_call (wd_writer s) c (Some 72) = (w', r)"
      "wd_writer s' = w'" "wd_tx s' = ts"
      by (auto simp: on_bus_def sends_ok_def io_call_def split: list.splits prod.splits)
    from that(1) have "standard_id (sm_can_id (wd_writer s))" by (simp add: on_bus_def sends_ok_def)
    from sm_call_ok [OF t(2) this] that(1) t show ?thesis
      by (cases "c = SDisable") (auto simp: on_bus_def sends_ok_def)
  qed
  then show ?thesis by (auto simp: holds_def split: sum.splits)
qed

lemma sends_ok_disable: "never_raises (on_bus (sends_ok k)) (io_call sm_call SDisable) (\<lambda>_. on_bus (sends_ok (Suc k)))"
proof -
  have "r = Inr () \<and> on_bus (sends_ok (Suc k)) s'"
    if "on_bus (sends_ok k) s" "io_call sm_call SDisable s = Some (r, s')" for s s' r
  proof -
    from that obtain ts w' where t: "wd_tx s = Some 72 # ts" "sm_call (wd_writer s) SDisable (Some 72) = (w', r)"
      "wd_writer s' = w'" "wd_tx s' = ts"
      by (auto simp: on_bus_def sends_ok_def io_call_def split: list.splits prod.splits)
    from that(1) have "standard_id (sm_can_id (wd_writer s))" by (simp add: on_bus_def sends_ok_def)
    from sm_call_ok [OF t(2) this] that(1) t show ?thesis by (auto simp: on_bus_def sends_ok_def)
  qed
  then show ?thesis by (fastforce simp: holds_def)
qed

lemma keeps_sends_ok_echo: "keeps (on_bus (sends_ok k)) (send_echo e x)"
  unfolding send_echo_def by (intro keeps_rules keeps_sends_ok)

lemma sends_ok_round:
  assumes frame: "\<And>fb s. wd_writer (nt fb s) = wd_writer s \<and> wd_tx (nt fb s) = wd_tx s"
  shows "never_raises (on_bus (sends_ok k)) (disable_round e poll timeout nt)
    (\<lambda>b s. on_bus (sends_ok (Suc k)) s \<and> (b \<longrightarrow> 3 \<le> sm_disable_attempts (wd_writer s)))"
proof -
  let ?I = "on_bus (sends_ok (Suc k))"
  have poll: "holds (on_bus (sends_ok k)) (steps [io_call sm_call SDisable, pause, send_echo e poll])
      (\<lambda>_. ?I) (\<lambda>_. ?I)"
  proof (rule holds_steps_Cons)
    show "holds (on_bus (sends_ok k)) (io_call sm_call SDisable) (\<lambda>_. ?I) (\<lambda>_. ?I)"
      by (rule holds_conseq [OF sends_ok_disable]) auto
    show "keeps ?I (steps [pause, send_echo e poll])"
      by (intro keeps_steps) (auto intro: keeps_bus keeps_sends_ok_echo)
  qed
  have verdict: "holds ?I (io_get (\<lambda>s. 3 \<le> sm_disable_attempts (wd_writer s) \<and> gs_final_status s = Some ''disabled''))
      (\<lambda>b s. ?I s \<and> (b \<longrightarrow> 3 \<le> sm_disable_attempts (wd_writer s))) (\<lambda>_. ?I)"
    by (rule holds_get) simp
  have state: "keeps ?I (io_modify (\<lambda>s. nt final (s\<lparr>gs_final_status := Some (fb_status_name final)\<rparr>)))" for final
    by (rule keeps_frame_bus) (simp add: frame)
  show ?thesis unfolding disable_round_def
    by (rule holds_catch [where R = "\<lambda>_. ?I"], intro holds_then [OF poll] holds_bind [OF keeps_receive_bus]
        holds_then [OF state verdict]) (auto simp: holds_def io_then_def io_bind_def io_modify_def
        io_return_def on_bus_def)
qed

lemma sends_ok_shut_down:
  assumes frame: "\<And>fb s. wd_writer (nt fb s) = wd_writer s \<and> wd_tx (nt fb s) = wd_tx s"
  shows "never_raises (on_bus (sends_ok 0)) (shut_down e poll timeout nt)
    (\<lambda>_ s. 3 \<le> disables (wd_writer s))"
proof -
  let ?Q = "\<lambda>s. 3 \<le> disables (wd_writer s)"
  let ?I = "\<lambda>n. on_bus (sends_ok n)"
  have three: "?I n s \<Longrightarrow> 3 \<le> n \<or> 3 \<le> sm_disable_attempts (wd_writer s) \<Longrightarrow> ?Q s"
    for n and s :: "(single_motor_writer, 'a) guarded_scheme"
    by (auto simp: on_bus_def sends_ok_def)
  have body: "never_raises (?I n) (shutdown_step e poll timeout nt d n)
      (\<lambda>r s. case r of Inl m \<Rightarrow> ?I m s | Inr _ \<Rightarrow> ?Q s)" for d n
  proof -
    have go: "never_raises (?I n) (if n < 3 then io_return True
        else io_bind (io_get gs_final_status) (\<lambda>status.
          if status = Some ''disabled'' then io_return False
          else io_bind monotonic (\<lambda>t. io_return (flt t d)))) (\<lambda>b s. ?I n s \<and> (b \<or> 3 \<le> n))"
      by (auto simp: holds_def io_return_def io_bind_def io_get_def monotonic_def on_bus_def split: list.splits)
    show ?thesis unfolding shutdown_step_def
    proof (rule holds_bind [OF go])
      fix b show "never_raises (\<lambda>s. ?I n s \<and> (b \<or> 3 \<le> n)) (if \<not> b then io_return (Inr ())
        else io_bind (disable_round e poll timeout nt) (\<lambda>stop. io_return (if stop then Inr () else Inl (n + 1))))
          (\<lambda>r s. case r of Inl m \<Rightarrow> ?I m s | Inr _ \<Rightarrow> ?Q s)"
      proof (cases b)
        case False
        then show ?thesis using three by (auto intro!: holds_return)
      next
        case True
        have "never_raises (?I n) (io_bind (disable_round e poll timeout nt)
            (\<lambda>stop. io_return (if stop then Inr () else Inl (n + 1))))
            (\<lambda>r s. case r of Inl m \<Rightarrow> ?I m s | Inr _ \<Rightarrow> ?Q s)"
          by (rule holds_bind [OF sends_ok_round [OF frame]], rule holds_return) (auto intro: three)
        with True show ?thesis by (auto elim!: holds_conseq)
      qed
    qed
  qed
  show ?thesis unfolding shut_down_def
  proof (rule holds_bind)
    show "never_raises (?I 0) monotonic (\<lambda>_. ?I 0)"
      by (auto simp: holds_def monotonic_def on_bus_def split: list.splits)
    show "never_raises (?I 0) (io_then (io_loop 3 (shutdown_step e poll timeout nt (fadd t (Fin (1 / 2)))) 0)
       (io_modify (\<lambda>s. if gs_final_status s = Some ''disabled'' then s
          else append_error (verdict_error (gs_final_status s) (gs_shutdown_error s)) s))) (\<lambda>_. ?Q)" for t
      by (rule holds_then [where R = ?Q], rule holds_loop [where I = ?I], rule body)
        (rule holds_modify, simp add: append_error_def)
  qed
qed

lemma sends_ok_body:
  "keeps (on_bus (sends_ok 0)) (hold_body e p dur per)"
  "keeps (on_bus (sends_ok 0)) (motion_body fpow e q dur per)"
  unfolding hold_body_def hold_cycle_def hold_accept_def motion_body_def motion_cycle_def motion_accept_def
    send_powered_def Let_def require_status_def
  by (auto intro!: keeps_rules keeps_sends_ok keeps_sends_ok_echo keeps_bus keeps_receive_bus keeps_frame_bus
      simp: count_feedback_def count_command_def note_extremes_def note_measured_def)

end
