(* ===== verification/PoweredEvidence.thy ===== *)
theory PoweredEvidence
  imports PoweredSafety
begin

text \<open>
  What a passed report of a powered run is evidence of: every command was answered by feedback that
  respected every guard, from a position with the required margin to the soft limits.
\<close>

section \<open>What a run that raised nothing observed\<close>

lemma keeps_quiet_programs:
  assumes "quiet J"
  shows "keeps J (receive_selected e timeout)" "keeps J (send_echo e x)"
  unfolding receive_selected_def receive_step_def send_echo_def
  by (intro keeps_rules keeps_quiet assms)+

text \<open>\<open>n\<close> commands have no reply yet.\<close>

definition inside_limits :: "'a run_limits_scheme \<Rightarrow> nat \<Rightarrow> ('w, 'm) guarded_scheme \<Rightarrow> bool" where
  "inside_limits p n s \<longleftrightarrow> gs_command_count s = gs_feedback_count s + n \<and>
     fle (gs_max_error s) (lm_max_error p) \<and> fle (gs_max_velocity s) (lm_max_velocity p) \<and>
     fle (gs_max_torque s) (lm_max_torque p) \<and> gs_max_mos s < lm_mos_limit p \<and>
     gs_max_rotor s < lm_rotor_limit p"

lemma quiet_limits: "quiet (inside_limits p n)"
  by (simp add: quiet_def inside_limits_def)

lemma fmax_le: "fle a c \<Longrightarrow> \<not> flt c b \<Longrightarrow> fle (fmax a b) c"
  by (cases a; cases b; cases c) (auto simp: fmax_def)

lemma check_guards_limits:
  assumes "check_guards p name err fb = Inr ()" and "inside_limits p n s"
  shows "inside_limits p n (note_extremes err fb s)"
  using assms by (auto simp: check_guards_def inside_limits_def note_extremes_def intro: fmax_le split: if_splits)

text \<open>A feedback that passes the guards leaves one command less without reply.\<close>

lemma limits_checked:
  assumes "inside_limits p (Suc n) s"
    and "steps (io_modify count_feedback # require_status fb st m # io_modify (note_extremes err fb) # ms) s =
      Some (Inr x, s')"
    and "ms = [io_lift (check_guards p name err fb)] \<or>
      ms = [io_modify k, io_lift (check_guards p name err fb)]"
    and "\<And>s. inside_limits p n s \<Longrightarrow> inside_limits p n (k s)"
  shows "inside_limits p n s'"
proof -
  let ?s = "note_extremes err fb (count_feedback s)"
  from assms(2,3) have c: "check_guards p name err fb = Inr ()" and s': "s' = ?s \<or> s' = k ?s"
    by (auto simp: io_then_def io_bind_def io_modify_def require_status_def io_when_def io_raise_def
        io_lift_def io_return_def split: if_splits sum.splits)
  from assms(1) have "inside_limits p n (count_feedback s)" by (simp add: inside_limits_def count_feedback_def)
  from check_guards_limits [OF c this] assms(4) s' show ?thesis by auto
qed

lemma limits_accept:
  "holds (inside_limits p (Suc 0)) (hold_accept e p fb) (\<lambda>_. inside_limits p 0) (\<lambda>_ _. True)"
  unfolding hold_accept_def Let_def
  by (rule holds_bind [where R = "\<lambda>_. inside_limits p (Suc 0)"], rule holds_get, assumption, rule holdsI)
    (erule (1) limits_checked [where k = id], simp_all)

lemma limits_motion_accept:
  "holds (inside_limits p (Suc 0)) (motion_accept e p fb target) (\<lambda>_. inside_limits p 0) (\<lambda>_ _. True)"
  unfolding motion_accept_def Let_def
  by (rule holdsI) (erule (1) limits_checked [where k = "note_measured fb"],
      simp_all add: inside_limits_def note_measured_def)

lemma holds_any: "keeps J m \<Longrightarrow> holds J m (\<lambda>_. J) (\<lambda>_ _. True)"
  by (rule holds_conseq [where P' = J]) auto

lemma quiet_get: "holds J (io_get f) (\<lambda>_. J) E"
  by (rule holds_get)

lemmas quiet_calls = keeps_quiet [OF quiet_limits, THEN holds_any]
  keeps_quiet_programs [OF quiet_limits, THEN holds_any]

lemma limits_send:
  "holds (inside_limits p n) (send_powered e p env y v prepared) (\<lambda>_. inside_limits p (Suc n)) (\<lambda>_ _. True)"
  unfolding send_powered_def
  by (rule holds_lift_bind, rule holds_steps_Cons [OF quiet_calls(4)],
      rule holds_steps_Cons [where R = "inside_limits p (Suc n)"], rule holds_modify)
    (auto simp: inside_limits_def count_command_def intro: holds_return)

lemma limits_cycle:
  "holds (inside_limits p 0) (hold_cycle e p dur per env st tgt x) (\<lambda>_. inside_limits p 0) (\<lambda>_ _. True)"
  unfolding hold_cycle_def
  by (cases x) (auto intro!: holds_bind [OF quiet_calls(1)] holds_then [OF quiet_calls(3)]
      holds_then [OF limits_send] holds_return holds_bind [OF quiet_calls(5)] holds_then [OF limits_accept])

lemma limits_motion_cycle:
  "holds (inside_limits p 0) (motion_cycle fpow e p dur per env st tgt x) (\<lambda>_. inside_limits p 0) (\<lambda>_ _. True)"
  unfolding motion_cycle_def
  by (cases x) (auto intro!: holds_bind [OF quiet_calls(1)] holds_then [OF quiet_calls(3)] holds_lift_bind
      holds_then [OF limits_send] holds_return holds_bind [OF quiet_calls(5)] holds_then [OF limits_motion_accept]
      split: prod.split)

section \<open>From the measured position to the report\<close>

definition hold_margin :: "'a run_limits_scheme \<Rightarrow> hold_vars \<Rightarrow> bool" where
  "hold_margin p s \<longleftrightarrow> (\<exists>x. hs_target s = Some x \<and>
     fle (fadd (fst (lm_soft p)) (rnd (5 / 100))) x \<and> fle x (fsub (snd (lm_soft p)) (rnd (5 / 100))))"

definition motion_margin :: "motion_plan \<Rightarrow> motion_vars \<Rightarrow> bool" where
  "motion_margin p s \<longleftrightarrow> (\<exists>lo hi. mo_requested_minimum s = Some lo \<and>
     mo_requested_maximum s = Some hi \<and> fle (fadd (fst (lm_soft p)) (lm_max_error p)) lo \<and>
     fle hi (fsub (snd (lm_soft p)) (lm_max_error p)))"

lemma quiet_margins: "quiet (hold_margin p)" "quiet (motion_margin q)"
  by (simp_all add: quiet_def hold_margin_def motion_margin_def)

lemma holds_conj:
  assumes "holds P m Q E" and "holds P' m Q' E'"
  shows "holds (\<lambda>s. P s \<and> P' s) m (\<lambda>x s. Q x s \<and> Q' x s) (\<lambda>e s. E e s \<and> E' e s)"
  using assms by (auto simp: holds_def split: sum.splits)

lemma margin_cycles:
  "keeps (hold_margin p) (hold_cycle e p dur per env st tgt x)"
  "keeps (motion_margin q) (motion_cycle fpow e q dur per env st tgt x)"
  unfolding hold_cycle_def hold_accept_def motion_cycle_def motion_accept_def send_powered_def Let_def
  by (auto intro!: keeps_rules keeps_quiet keeps_quiet_programs quiet_margins keeps_modify keeps_require_status
      simp: hold_margin_def motion_margin_def count_feedback_def count_command_def note_extremes_def
        note_measured_def)

definition hold_evidence :: "'a run_limits_scheme \<Rightarrow> hold_vars \<Rightarrow> bool" where
  "hold_evidence p s \<longleftrightarrow> inside_limits p 0 s \<and> hold_margin p s"

definition motion_evidence :: "motion_plan \<Rightarrow> motion_vars \<Rightarrow> bool" where
  "motion_evidence p s \<longleftrightarrow> inside_limits p 0 s \<and> motion_margin p s"

lemma quiet_evidence: "quiet (hold_evidence p)" "quiet (motion_evidence q)"
  by (simp_all add: quiet_def hold_evidence_def motion_evidence_def inside_limits_def hold_margin_def
      motion_margin_def)

lemma evidence_cycles:
  "holds (hold_evidence p) (hold_cycle e p dur per env st tgt x) (\<lambda>_. hold_evidence p) (\<lambda>_ _. True)"
  "holds (motion_evidence q) (motion_cycle fpow e q dur per env st tgt x) (\<lambda>_. motion_evidence q) (\<lambda>_ _. True)"
  by (rule holds_conseq [OF holds_conj [OF limits_cycle margin_cycles(1)]], auto simp: hold_evidence_def)
    (rule holds_conseq [OF holds_conj [OF limits_motion_cycle margin_cycles(2)]], auto simp: motion_evidence_def)

lemma evidence_loop:
  assumes "\<And>x. holds J (cycle x) (\<lambda>_. J) (\<lambda>_ _. True)"
  shows "holds J (io_loop k cycle x) (\<lambda>_. J) (\<lambda>_ _. True)"
  by (rule holds_loop [where I = "\<lambda>_. J"], rule holds_conseq [OF assms]) (auto split: sum.splits)

lemma evidence_calls:
  assumes "quiet J"
  shows "holds J monotonic (\<lambda>_. J) (\<lambda>_ _. True)" "holds J (io_call call c) (\<lambda>_. J) (\<lambda>_ _. True)"
    "holds J (receive_selected e t) (\<lambda>_. J) (\<lambda>_ _. True)" "holds J (send_echo e x) (\<lambda>_. J) (\<lambda>_ _. True)"
    "holds J (require_status fb st m) (\<lambda>_. J) (\<lambda>_ _. True)" "holds J (steps []) (\<lambda>_. J) (\<lambda>_ _. True)"
  using keeps_quiet [OF assms, THEN holds_any] keeps_quiet_programs [OF assms, THEN holds_any]
    holds_any [OF keeps_require_status] holds_steps_Nil by auto

lemma hold_body_evidence:
  "holds (inside_limits p 0) (hold_body e p dur per) (\<lambda>_. hold_evidence p) (\<lambda>_ _. True)"
proof -
  let ?I = "inside_limits p 0" and ?J = "hold_evidence p"
  note before = evidence_calls [OF quiet_limits, of p 0]
  note after = evidence_calls [OF quiet_evidence(1), of p]
  have power: "holds ?J (steps [send_echo e x, io_bind (receive_selected e t) (\<lambda>prepared. steps
            [require_status prepared st m, io_bind (io_lift (envelope_of p)) (\<lambda>envelope.
               io_then (io_call sm_call SEnable) (io_bind monotonic (\<lambda>start.
                 io_loop 0 (hold_cycle e p dur per envelope start x) (start, prepared))))])])
      (\<lambda>_. ?J) (\<lambda>_ _. True)" for x t st m
    by (rule after evidence_loop evidence_cycles holds_steps_Cons holds_bind holds_then holds_lift_bind | simp)+
  have target: "holds ?I (io_modify (\<lambda>s. s\<lparr>hs_target := Some x\<rparr>))
      (\<lambda>_ s. ?I s \<and> hs_target s = Some x) (\<lambda>_ _. True)" for x
    by (rule holds_modify) (simp add: inside_limits_def)
  have margin: "holds (\<lambda>s. ?I s \<and> hs_target s = Some x) (io_when (\<not> (fle (fadd (fst (lm_soft p)) (rnd (5 / 100))) x \<and>
      fle x (fsub (snd (lm_soft p)) (rnd (5 / 100))))) (io_raise err)) (\<lambda>_. ?J) (\<lambda>_ _. True)" for x err
    by (rule holds_when) (auto intro: holds_raise simp: hold_evidence_def hold_margin_def)
  show ?thesis unfolding hold_body_def Let_def
    by (rule before holds_then holds_bind holds_steps_Cons [OF before(5)] holds_steps_Cons [OF target]
        holds_steps_Cons [OF margin] power)+
qed

lemma motion_body_evidence:
  "holds (inside_limits p 0) (motion_body fpow e p dur per) (\<lambda>_. motion_evidence p) (\<lambda>_ _. True)"
proof -
  let ?I = "inside_limits p 0" and ?J = "motion_evidence p"
  note before = evidence_calls [OF quiet_limits, of p 0]
  note after = evidence_calls [OF quiet_evidence(2), of p]
  have power: "holds ?J (steps [send_echo e x, io_bind (receive_selected e t) (\<lambda>prepared. steps
            [require_status prepared st m, io_bind (io_lift (envelope_of p)) (\<lambda>envelope.
               io_then (io_call sm_call SEnable) (io_bind monotonic (\<lambda>start.
                 io_loop 0 (motion_cycle fpow e p dur per envelope start x) (start, prepared))))])])
      (\<lambda>_. ?J) (\<lambda>_ _. True)" for x t st m
    by (rule after evidence_loop evidence_cycles holds_steps_Cons holds_bind holds_then holds_lift_bind | simp)+
  let ?R = "\<lambda>lo hi s. ?I s \<and> mo_requested_minimum s = Some lo \<and> mo_requested_maximum s = Some hi"
  have target: "holds ?I (io_modify (\<lambda>s. s\<lparr>mo_initial := Some x, mo_requested_minimum := Some lo,
      mo_requested_maximum := Some hi\<rparr>)) (\<lambda>_. ?R lo hi) (\<lambda>_ _. True)" for x lo hi
    by (rule holds_modify) (simp add: inside_limits_def)
  have lower: "holds (?R lo hi) (io_when (\<not> fle (fadd (fst (lm_soft p)) (lm_max_error p)) lo) (io_raise err))
      (\<lambda>_ s. ?R lo hi s \<and> fle (fadd (fst (lm_soft p)) (lm_max_error p)) lo) (\<lambda>_ _. True)" for lo hi err
    by (rule holds_when) (auto intro: holds_raise)
  have upper: "holds (\<lambda>s. ?R lo hi s \<and> fle (fadd (fst (lm_soft p)) (lm_max_error p)) lo)
      (io_when (\<not> fle hi (fsub (snd (lm_soft p)) (lm_max_error p))) (io_raise err)) (\<lambda>_. ?J) (\<lambda>_ _. True)" for lo hi err
    by (rule holds_when) (auto intro: holds_raise simp: motion_evidence_def motion_margin_def)
  show ?thesis unfolding motion_body_def Let_def
    by (rule before holds_then holds_bind holds_steps_Cons [OF before(5)] holds_steps_Cons [OF target]
        holds_steps_Cons [OF lower] holds_steps_Cons [OF upper] power)+
qed

end
