(* ===== verification/PoweredRuns.thy ===== *)
theory PoweredRuns
  imports PoweredEvidence
begin

text \<open>
  The properties of the powered runs of one motor, and a run of each on concrete inputs.
\<close>

section \<open>Evidence survives the shutdown\<close>

definition shutdown_neutral :: "(('w, 'm) guarded_scheme \<Rightarrow> bool) \<Rightarrow> bool" where
  "shutdown_neutral G \<longleftrightarrow> (\<forall>s x y z. G (s\<lparr>gs_errors := x, gs_final_status := y, gs_shutdown_error := z\<rparr>) = G s)"

definition failed_or :: "(('w, 'm) guarded_scheme \<Rightarrow> bool) \<Rightarrow> ('w, 'm) guarded_scheme \<Rightarrow> bool" where
  "failed_or G s \<longleftrightarrow> gs_errors s \<noteq> [] \<or> G s"

lemma neutral_updates:
  assumes "shutdown_neutral G"
  shows "G (s\<lparr>gs_errors := x\<rparr>) = G s" "G (s\<lparr>gs_final_status := y\<rparr>) = G s" "G (s\<lparr>gs_shutdown_error := z\<rparr>) = G s"
proof -
  have n: "G (s\<lparr>gs_errors := x, gs_final_status := y, gs_shutdown_error := z\<rparr>) = G s" for s x y z
    using assms by (simp add: shutdown_neutral_def)
  show "G (s\<lparr>gs_errors := x\<rparr>) = G s"
    using n [where s = s and y = "gs_final_status s" and z = "gs_shutdown_error s"] by (cases s) simp
  show "G (s\<lparr>gs_final_status := y\<rparr>) = G s"
    using n [where s = s and x = "gs_errors s" and z = "gs_shutdown_error s"] by (cases s) simp
  show "G (s\<lparr>gs_shutdown_error := z\<rparr>) = G s"
    using n [where s = s and x = "gs_errors s" and y = "gs_final_status s"] by (cases s) simp
qed

lemma quiet_failed_or: "quiet G \<Longrightarrow> quiet (failed_or G)"
  by (simp add: quiet_def failed_or_def)

lemma shut_down_keeps_evidence:
  assumes "quiet G" and "shutdown_neutral G" and "\<And>fb s. G (nt fb s) = G s"
    and "\<And>fb s. gs_errors (nt fb s) = gs_errors s"
  shows "keeps (failed_or G) (shut_down e poll timeout nt)"
  unfolding shut_down_def shutdown_step_def disable_round_def
  by (intro keeps_rules keeps_quiet keeps_quiet_programs quiet_failed_or assms(1) keeps_modify)
    (auto simp: neutral_updates [OF assms(2)] assms(3,4) append_error_def failed_or_def
      intro: keeps_quiet keeps_quiet_programs quiet_failed_or assms(1))

lemma evidence_run:
  assumes "holds J m (\<lambda>_. G) (\<lambda>_ _. True)" and "quiet G" and "shutdown_neutral G"
    and "\<And>fb s. G (nt fb s) = G s" and "\<And>fb s. gs_errors (nt fb s) = gs_errors s"
  shows "holds J (io_then (io_catch m (\<lambda>exc. io_modify (append_error (exc_text exc))))
      (io_bind (io_get target) (\<lambda>t. shut_down e (poll t) timeout nt)))
    (\<lambda>_. failed_or G) (\<lambda>_ _. True)"
proof (rule holds_then [where R = "failed_or G"])
  show "holds J (io_catch m (\<lambda>exc. io_modify (append_error (exc_text exc)))) (\<lambda>_. failed_or G) (\<lambda>_ _. True)"
    by (rule holds_catch [where R = "\<lambda>_ _. True"], rule holds_conseq [OF assms(1)])
      (auto intro: holds_modify simp: append_error_def failed_or_def)
  show "holds (failed_or G) (io_bind (io_get target) (\<lambda>t. shut_down e (poll t) timeout nt))
      (\<lambda>_. failed_or G) (\<lambda>_ _. True)"
    by (intro holds_bind [OF quiet_get] holds_any shut_down_keeps_evidence assms)
qed

lemma neutral_evidence: "shutdown_neutral (hold_evidence p)" "shutdown_neutral (motion_evidence q)"
  by (simp_all add: shutdown_neutral_def hold_evidence_def motion_evidence_def inside_limits_def
      hold_margin_def motion_margin_def)


lemma motion_run_evidence:
  "holds (inside_limits p 0) (motion_run fpow e p dur per) (\<lambda>_. failed_or (motion_evidence p)) (\<lambda>_ _. True)"
  unfolding motion_run_def
  by (rule evidence_run [OF motion_body_evidence quiet_evidence(2) neutral_evidence(2)])
    (simp_all add: motion_evidence_def inside_limits_def motion_margin_def)

section \<open>The verdict and the disable frames of a run\<close>

lemma guarded_never_raises:
  assumes frame: "\<And>fb s. wd_writer (nt fb s) = wd_writer s \<and> wd_tx (nt fb s) = wd_tx s"
  shows "never_raises (\<lambda>_. True) (io_then (io_catch m (\<lambda>exc. io_modify (append_error (exc_text exc))))
      (io_bind (io_get target) (\<lambda>t. shut_down e (poll t) timeout nt)))
    (\<lambda>_ s. gs_errors s \<noteq> [] \<or> gs_final_status s = Some ''disabled'')"
    and "keeps (on_bus (sends_ok 0)) m \<Longrightarrow> never_raises (on_bus (sends_ok 0))
      (io_then (io_catch m (\<lambda>exc. io_modify (append_error (exc_text exc))))
        (io_bind (io_get target) (\<lambda>t. shut_down e (poll t) timeout nt)))
      (\<lambda>_ s. 3 \<le> disables (wd_writer s))"
proof -
  have verdict: "never_raises (\<lambda>_. True) (io_bind (io_get target) (\<lambda>t. shut_down e (poll t) timeout nt))
      (\<lambda>_ s. gs_errors s \<noteq> [] \<or> gs_final_status s = Some ''disabled'')"
    by (rule holds_bind [OF quiet_get], rule shut_down_verdict)
  show "never_raises (\<lambda>_. True) (io_then (io_catch m (\<lambda>exc. io_modify (append_error (exc_text exc))))
      (io_bind (io_get target) (\<lambda>t. shut_down e (poll t) timeout nt)))
    (\<lambda>_ s. gs_errors s \<noteq> [] \<or> gs_final_status s = Some ''disabled'')"
    by (rule holds_then [OF _ verdict], rule holds_catch [where R = "\<lambda>_ _. True"])
      (simp_all add: holds_def [of _ m] holds_modify split: sum.splits)
  assume body: "keeps (on_bus (sends_ok 0)) m"
  show "never_raises (on_bus (sends_ok 0))
      (io_then (io_catch m (\<lambda>exc. io_modify (append_error (exc_text exc))))
        (io_bind (io_get target) (\<lambda>t. shut_down e (poll t) timeout nt)))
      (\<lambda>_ s. 3 \<le> disables (wd_writer s))"
    by (rule holds_then [where R = "on_bus (sends_ok 0)"], rule holds_catch [OF body])
      (auto intro!: holds_modify holds_bind [OF quiet_get] sends_ok_shut_down [OF frame]
        simp: on_bus_def append_error_def)
qed

lemma never_raisesD:
  assumes "never_raises P m Q" and "m s = Some (r, s')" and "P s"
  obtains x where "r = Inr x" and "Q x s'"
  using assms unfolding holds_def by (cases r) fastforce+

lemma holds_stateD:
  "holds P m (\<lambda>_. A) (\<lambda>_. A) \<Longrightarrow> m s = Some (r, s') \<Longrightarrow> P s \<Longrightarrow> A s'"
  unfolding holds_def by (cases r) fastforce+

lemma fresh_sends_ok:
  assumes "new_single_motor_writer i n c = Inr w" and "list_all (\<lambda>t. t = Some 72) txs"
  shows "sends_ok 0 w txs"
  using assms by (auto simp: new_single_motor_writer_def sends_ok_def split: if_splits)

section \<open>The properties of the hold\<close>

lemma hold_checks_gains:
  assumes "hold_checks e p duration = Inr ()"
  shows "lm_kp p = rnd (2 / 10)" "lm_kd p = rnd (5 / 100)" "lm_rate p = Fin 50"
  using assms by (auto simp: hold_checks_def dest: feq_eq split: if_splits)

lemma hold_run_starts:
  assumes "run_head_yaw_low_gain_hold e p duration w = Some (r, s)" and "hold_checks e p duration = Inr ()"
  obtains period res where "hold_run e p duration period (hold_start w) = Some (res, s)"
    and "r = Inr (hold_report_of e p duration s) \<or> (\<exists>err. res = Inl err)"
  using assms hold_checks_gains(3) [OF assms(2)]
  by (auto simp: run_head_yaw_low_gain_hold_def split: option.splits sum.splits prod.splits)

lemma hold_run_returns:
  assumes "hold_run e p dur per s0 = Some (res, s)"
  shows "res = Inr ()" and "gs_errors s \<noteq> [] \<or> gs_final_status s = Some ''disabled''"
proof -
  have "never_raises (\<lambda>_. True) (hold_run e p dur per)
      (\<lambda>_ s. gs_errors s \<noteq> [] \<or> gs_final_status s = Some ''disabled'')"
    unfolding hold_run_def by (rule guarded_never_raises(1)) simp
  from never_raisesD [OF this assms] show "res = Inr ()"
    "gs_errors s \<noteq> [] \<or> gs_final_status s = Some ''disabled''" by auto
qed

lemma hold_run_disables:
  assumes "hold_run e p dur per (hold_start w) = Some (res, s)"
    and "new_single_motor_writer i n c = Inr (wd_writer w)" and "list_all (\<lambda>t. t = Some 72) (wd_tx w)"
  shows "3 \<le> disables (wd_writer s)"
proof -
  have "never_raises (on_bus (sends_ok 0)) (hold_run e p dur per) (\<lambda>_ s. 3 \<le> disables (wd_writer s))"
    unfolding hold_run_def by (rule guarded_never_raises(2)) (simp_all add: sends_ok_body(1))
  moreover have "on_bus (sends_ok 0) (hold_start w)"
    using fresh_sends_ok [OF assms(2,3)] by (simp add: on_bus_def hold_start_def)
  ultimately show ?thesis using assms(1) by (auto elim: never_raisesD)
qed

lemma hold_run_order:
  assumes "hold_run e p dur per (hold_start w) = Some (res, s)" and "hold_checks e p duration = Inr ()"
  shows "wire_in_order (sm_wire (wd_writer w)) (sm_wire (wd_writer s)) [(1, 40)]"
proof -
  let ?A = "on_writer (phased (sm_wire (wd_writer w)) 1 40 any_phase)"
  have "holds (on_writer (phased (sm_wire (wd_writer w)) 1 40 {Preparing})) (hold_run e p dur per) (\<lambda>_. ?A) (\<lambda>_. ?A)"
    using hold_checks_gains [OF assms(2)] by (intro hold_gains.phased_hold_run)
  moreover have "on_writer (phased (sm_wire (wd_writer w)) 1 40 {Preparing}) (hold_start w)"
    using phased_start by (simp add: on_writer_def hold_start_def)
  ultimately have "?A s" using assms(1) by (blast dest: holds_stateD)
  then show ?thesis by (auto simp: on_writer_def intro: phased_in_order)
qed

text \<open>
  C1. Whatever the motor, the clock and the bus do, a powered hold that ends either refused the
  parameters before it sent anything, or returns a report in which a missing final ''disabled''
  status is an error, after frames in the permitted order: echoes, at most one enable, commands
  with raw gains 1 and 40, then only disables and echoes. With a fresh writer and a bus that takes
  every frame the motor is disabled at least three times.
\<close>

theorem powered_hold_fails_closed:
  assumes "run_head_yaw_low_gain_hold e p duration w = Some (r, s)"
  shows "case hold_checks e p duration of Inl err \<Rightarrow> r = Inl err \<and> s = hold_start w
    | Inr _ \<Rightarrow> \<exists>report. r = Inr report \<and>
        (rr_errors report \<noteq> [] \<or> rr_final_status report = Some ''disabled'') \<and>
        wire_in_order (sm_wire (wd_writer w)) (sm_wire (wd_writer s)) [(1, 40)] \<and>
        (new_single_motor_writer i n c = Inr (wd_writer w) \<longrightarrow> list_all (\<lambda>t. t = Some 72) (wd_tx w) \<longrightarrow>
          3 \<le> disables (wd_writer s))"
proof (cases "hold_checks e p duration")
  case (Inl err)
  with assms show ?thesis by (simp add: run_head_yaw_low_gain_hold_def)
next
  case (Inr u)
  then have ok: "hold_checks e p duration = Inr ()" by simp
  from hold_run_starts [OF assms ok] obtain period res where
    run: "hold_run e p duration period (hold_start w) = Some (res, s)"
    and r: "r = Inr (hold_report_of e p duration s) \<or> (\<exists>err. res = Inl err)" .
  from r hold_run_returns [OF run] have "r = Inr (hold_report_of e p duration s)"
    "gs_errors s \<noteq> [] \<or> gs_final_status s = Some ''disabled''" by auto
  with hold_run_order [OF run ok] hold_run_disables [OF run] ok show ?thesis
    by (simp add: hold_report_of_def)
qed


section \<open>The properties of the motion\<close>

lemma frozen_profile:
  assumes "motion_checks e p = Inr ()"
  shows "(lm_kp p, lm_kd p) \<in> {(Fin 1, rnd (2 / 10)), (Fin 2, rnd (2 / 10)), (Fin 8, rnd (3 / 10)), (Fin 20, Fin (1 / 2))}"
    and "lm_rate p = Fin 50" and "lm_mos_limit p = 100" and "lm_rotor_limit p = 80"
    and "lm_max_error p \<in> {rnd (5 / 100), rnd (8 / 100), rnd (12 / 100), rnd (15 / 100)}"
    and "lm_max_velocity p \<in> {rnd (2 / 10), rnd (6 / 10), rnd (8 / 10)}"
    and "lm_max_torque p \<in> {rnd (1 / 10), rnd (2 / 10), Fin (1 / 4), Fin 1, Fin (5 / 2)}"
proof -
  from assms have "list_ex (same_profile (profile_of p)) FROZEN_PROFILES"
    by (auto simp: motion_checks_def split: if_splits)
  then have "(lm_kp p, lm_kd p, lm_rate p, lm_mos_limit p, lm_rotor_limit p, lm_max_error p, lm_max_velocity p,
      lm_max_torque p) \<in>
    {(Fin 1, rnd (2 / 10), Fin 50, 100, 80, rnd (5 / 100), rnd (2 / 10), rnd (1 / 10)),
     (Fin 2, rnd (2 / 10), Fin 50, 100, 80, rnd (8 / 100), rnd (8 / 10), Fin (1 / 4)),
     (Fin 2, rnd (2 / 10), Fin 50, 100, 80, rnd (8 / 100), rnd (6 / 10), rnd (2 / 10)),
     (Fin 8, rnd (3 / 10), Fin 50, 100, 80, rnd (12 / 100), rnd (6 / 10), Fin 1),
     (Fin 20, Fin (1 / 2), Fin 50, 100, 80, rnd (15 / 100), rnd (8 / 10), Fin (5 / 2))}"
    by (auto simp: FROZEN_PROFILES_def same_profile_def profile_of_def dest!: feq_eq)
  then show "(lm_kp p, lm_kd p) \<in> {(Fin 1, rnd (2 / 10)), (Fin 2, rnd (2 / 10)), (Fin 8, rnd (3 / 10)), (Fin 20, Fin (1 / 2))}"
    "lm_rate p = Fin 50" "lm_mos_limit p = 100" "lm_rotor_limit p = 80"
    "lm_max_error p \<in> {rnd (5 / 100), rnd (8 / 100), rnd (12 / 100), rnd (15 / 100)}"
    "lm_max_velocity p \<in> {rnd (2 / 10), rnd (6 / 10), rnd (8 / 10)}"
    "lm_max_torque p \<in> {rnd (1 / 10), rnd (2 / 10), Fin (1 / 4), Fin 1, Fin (5 / 2)}"
    by auto
qed

lemma motion_run_starts:
  assumes "run_head_yaw_low_gain_motion fpow e p w = Some (r, s)" and "motion_checks e p = Inr ()"
  obtains duration period res where "motion_run fpow e p duration period (motion_start w) = Some (res, s)"
    and "r = Inr (motion_report_of e p duration s) \<or> (\<exists>err. res = Inl err)"
  using assms frozen_profile(2) [OF assms(2)]
  by (auto simp: run_head_yaw_low_gain_motion_def Let_def split: option.splits sum.splits prod.splits)

lemma motion_run_returns:
  assumes "motion_run fpow e p dur per s0 = Some (res, s)"
  shows "res = Inr ()" and "gs_errors s \<noteq> [] \<or> gs_final_status s = Some ''disabled''"
proof -
  have "never_raises (\<lambda>_. True) (motion_run fpow e p dur per)
      (\<lambda>_ s. gs_errors s \<noteq> [] \<or> gs_final_status s = Some ''disabled'')"
    unfolding motion_run_def by (rule guarded_never_raises(1)) simp
  from never_raisesD [OF this assms] show "res = Inr ()"
    "gs_errors s \<noteq> [] \<or> gs_final_status s = Some ''disabled''" by auto
qed

lemma motion_run_disables:
  assumes "motion_run fpow e p dur per (motion_start w) = Some (res, s)"
    and "new_single_motor_writer i n c = Inr (wd_writer w)" and "list_all (\<lambda>t. t = Some 72) (wd_tx w)"
  shows "3 \<le> disables (wd_writer s)"
proof -
  have "never_raises (on_bus (sends_ok 0)) (motion_run fpow e p dur per) (\<lambda>_ s. 3 \<le> disables (wd_writer s))"
    unfolding motion_run_def by (rule guarded_never_raises(2)) (simp_all add: sends_ok_body(2))
  moreover have "on_bus (sends_ok 0) (motion_start w)"
    using fresh_sends_ok [OF assms(2,3)] by (simp add: on_bus_def motion_start_def)
  ultimately show ?thesis using assms(1) by (auto elim: never_raisesD)
qed

lemma motion_run_order:
  assumes "motion_run fpow e p dur per (motion_start w) = Some (res, s)" and "motion_checks e p = Inr ()"
  shows "wire_in_order (sm_wire (wd_writer w)) (sm_wire (wd_writer s)) [(8, 163), (16, 163), (65, 245), (163, 409)]"
proof -
  let ?S = "\<lambda>kp kd. on_writer (phased (sm_wire (wd_writer w)) kp kd {Preparing})"
  let ?A = "\<lambda>kp kd. on_writer (phased (sm_wire (wd_writer w)) kp kd any_phase)"
  have start: "?S kp kd (motion_start w)" for kp kd
    using phased_start by (simp add: on_writer_def motion_start_def)
  have "\<exists>(kp, kd) \<in> {(8, 163), (16, 163), (65, 245), (163, 409)}.
    holds (?S kp kd) (motion_run fpow e p dur per) (\<lambda>_. ?A kp kd) (\<lambda>_. ?A kp kd)"
    using frozen_profile(1) [OF assms(2)] micro_gains.phased_motion_run wrist_gains.phased_motion_run
      hip_gains.phased_motion_run medium_gains.phased_motion_run by fastforce
  then obtain kp kd where g: "(kp, kd) \<in> {(8, 163), (16, 163), (65, 245), (163, 409)}"
    and h: "holds (?S kp kd) (motion_run fpow e p dur per) (\<lambda>_. ?A kp kd) (\<lambda>_. ?A kp kd)" by blast
  from holds_stateD [OF h assms(1) start] have "phased (sm_wire (wd_writer w)) kp kd any_phase (wd_writer s)"
    by (simp add: on_writer_def)
  then show ?thesis by (rule phased_in_order) (use g in auto)
qed

text \<open>
  C7. The same for the powered motions: every run that ends refused the parameters before sending
  or returns a report whose errors tell when the final ''disabled'' status is missing, the frames
  are in the permitted order with the raw gains of one frozen profile in every command, and with a
  fresh writer and a bus that takes every frame the motor is disabled at least three times.
\<close>

theorem powered_motion_fails_closed:
  assumes "run_head_yaw_low_gain_motion fpow e p w = Some (r, s)"
  shows "case motion_checks e p of Inl err \<Rightarrow> r = Inl err \<and> s = motion_start w
    | Inr _ \<Rightarrow> \<exists>report. r = Inr report \<and>
        (rr_errors report \<noteq> [] \<or> rr_final_status report = Some ''disabled'') \<and>
        wire_in_order (sm_wire (wd_writer w)) (sm_wire (wd_writer s))
          [(8, 163), (16, 163), (65, 245), (163, 409)] \<and>
        (new_single_motor_writer i n c = Inr (wd_writer w) \<longrightarrow> list_all (\<lambda>t. t = Some 72) (wd_tx w) \<longrightarrow>
          3 \<le> disables (wd_writer s))"
proof (cases "motion_checks e p")
  case (Inl err)
  with assms show ?thesis by (simp add: run_head_yaw_low_gain_motion_def)
next
  case (Inr u)
  then have ok: "motion_checks e p = Inr ()" by simp
  from motion_run_starts [OF assms ok] obtain duration period res where
    run: "motion_run fpow e p duration period (motion_start w) = Some (res, s)"
    and r: "r = Inr (motion_report_of e p duration s) \<or> (\<exists>err. res = Inl err)" .
  from r motion_run_returns [OF run] have "r = Inr (motion_report_of e p duration s)"
    "gs_errors s \<noteq> [] \<or> gs_final_status s = Some ''disabled''" by auto
  with motion_run_order [OF run ok] motion_run_disables [OF run] ok show ?thesis
    by (simp add: motion_report_of_def)
qed

text \<open>
  A passed report of a powered motion is evidence: the observed extremes respect the guards of
  the profile, every command was answered, and the whole excursion around the measured initial
  position stays inside the soft limits by at least the position-error guard.
\<close>

theorem passed_motion_is_evidence:
  assumes "run_head_yaw_low_gain_motion fpow e p w = Some (Inr report, s)" and "run_passed report"
  shows "rr_command_count report = rr_feedback_count report \<and> 0 < rr_feedback_count report \<and>
    fle (rr_max_error report) (lm_max_error p) \<and> fle (rr_max_velocity report) (lm_max_velocity p) \<and>
    fle (rr_max_torque report) (lm_max_torque p) \<and> rr_max_mos report < 100 \<and> rr_max_rotor report < 80 \<and>
    (\<exists>lo hi. mr_requested_minimum_position_rad report = Some lo \<and>
      mr_requested_maximum_position_rad report = Some hi \<and>
      fle (fadd (fst (lm_soft p)) (lm_max_error p)) lo \<and> fle hi (fsub (snd (lm_soft p)) (lm_max_error p)))"
proof -
  have ok: "motion_checks e p = Inr ()"
    using assms(1) by (cases "motion_checks e p") (simp_all add: run_head_yaw_low_gain_motion_def)
  from motion_run_starts [OF assms(1) ok] obtain duration period res where
    run: "motion_run fpow e p duration period (motion_start w) = Some (res, s)"
    and r: "(Inr report :: motion_report result) = Inr (motion_report_of e p duration s) \<or> (\<exists>err. res = Inl err)" .
  from r motion_run_returns(1) [OF run] have y: "report = motion_report_of e p duration s" "res = Inr ()" by auto
  note f = frozen_profile [OF ok]
  have "fle (Fin 0) (lm_max_error p)" "fle (Fin 0) (lm_max_velocity p)" "fle (Fin 0) (lm_max_torque p)"
    using f(5,6,7) by (auto simp: float_eval)
  with f(3,4) have "inside_limits p 0 (motion_start w)"
    by (simp add: inside_limits_def motion_start_def)
  with run y(2) motion_run_evidence [of p] have "failed_or (motion_evidence p) s"
    by (fastforce simp: holds_def)
  with assms(2) y(1) f(3,4) show ?thesis
    by (auto simp: run_passed_def motion_report_of_def failed_or_def motion_evidence_def motion_margin_def
        inside_limits_def)
qed

section \<open>Receiving ends\<close>

lemma receive_step_shrinks:
  "receive_step e deadline u s = Some (Inr (Inl y), s') \<Longrightarrow> length (wd_clock s') < length (wd_clock s)"
  by (auto simp: receive_step_def io_app monotonic_def receive_frame_def pause_def
      split: list.splits sum.splits option.splits if_splits)

lemma receive_step_defined:
  assumes "wd_clock s = t # ts" and "flt t deadline \<Longrightarrow> wd_rx s \<noteq> [] \<and> wd_sleeps s \<noteq> []"
  shows "\<exists>r s'. receive_step e deadline u s = Some (r, s') \<and> wd_clock s' = ts \<and>
    length (wd_rx s) \<le> length (wd_rx s') + 1 \<and> length (wd_sleeps s) \<le> length (wd_sleeps s') + 1 \<and>
    (r = Inr (Inl ()) \<longrightarrow> flt t deadline)"
proof (cases "flt t deadline")
  case False
  with assms(1) show ?thesis by (simp add: receive_step_def io_app monotonic_def)
next
  case True
  with assms obtain rx rxs sl sls where l: "wd_rx s = rx # rxs" "wd_sleeps s = sl # sls"
    by (meson neq_Nil_conv)
  let ?s = "s\<lparr>wd_clock := ts, wd_rx := rxs\<rparr>"
  have "\<exists>r s'. receive_step e deadline u s = Some (r, s') \<and> (s' = ?s \<or> s' = ?s\<lparr>wd_sleeps := sls\<rparr>)"
    using True assms(1) l
    by (simp add: receive_step_def io_app monotonic_def receive_frame_def pause_def if_distribR
        split: sum.split)
  with l True show ?thesis by fastforce
qed

lemma receive_loop_returns:
  assumes "\<exists>t \<in> set (wd_clock s). \<not> flt t deadline" and "length (wd_clock s) \<le> length (wd_rx s)"
    and "length (wd_clock s) \<le> length (wd_sleeps s)" and "length (wd_clock s) < n"
  shows "\<exists>r s'. io_while n (receive_step e deadline) () s = Some (r, s')"
  using assms
proof (induction n arbitrary: s)
  case 0
  then show ?case by simp
next
  case (Suc n)
  then obtain t ts where c: "wd_clock s = t # ts" by (cases "wd_clock s") auto
  with Suc.prems have "wd_rx s \<noteq> [] \<and> wd_sleeps s \<noteq> []" by auto
  with c obtain r s' where r: "receive_step e deadline () s = Some (r, s')" "wd_clock s' = ts"
    "length (wd_rx s) \<le> length (wd_rx s') + 1" "length (wd_sleeps s) \<le> length (wd_sleeps s') + 1"
    "r = Inr (Inl ()) \<Longrightarrow> flt t deadline" using receive_step_defined [of s t ts deadline e "()"] by auto
  show ?case
  proof (cases "r = Inr (Inl ())")
    case True
    with r(5) c Suc.prems r have "\<exists>r s''. io_while n (receive_step e deadline) () s' = Some (r, s'')"
      by (intro Suc.IH) auto
    with True r(1) show ?thesis by (simp add: io_app(11) del: io_while.simps)
  next
    case False
    with r(1) show ?thesis by (auto simp: io_app(11) simp del: io_while.simps split: sum.split)
  qed
qed

text \<open>
  C16. Waiting for the selected motor ends: once the clock has passed the deadline the wait has
  returned feedback or raised, whatever the bus delivered in between, as long as every \<open>receive\<close> and
  every \<open>sleep\<close> itself ends.
\<close>

theorem receive_selected_returns:
  assumes "wd_clock s = t0 # ts" and "\<exists>t \<in> set ts. \<not> flt t (fadd t0 timeout)"
    and "length ts \<le> length (wd_rx s)" and "length ts \<le> length (wd_sleeps s)"
  shows "\<exists>r s'. receive_selected e timeout s = Some (r, s')"
proof -
  have "\<exists>r s'. io_while (Suc (length ts)) (receive_step e (fadd t0 timeout)) () (s\<lparr>wd_clock := ts\<rparr>) = Some (r, s')"
    using assms by (intro receive_loop_returns) auto
  with assms(1) show ?thesis
    by (simp add: receive_selected_def io_app(6) monotonic_def io_loop_def del: io_while.simps)
qed

end
