(* ===== verification/PoweredSample.thy ===== *)
theory PoweredSample
  imports PoweredRuns
begin

text \<open>
  A powered hold and a powered motion on concrete inputs: a motor whose register ranges make the
  decoded feedback exact, a bus that takes every frame, and a reply to each poll.
\<close>

section \<open>The bench motor\<close>

definition bench_endpoint :: feedback_endpoint where
  "bench_endpoint = \<lparr>ep_motor_name = ''hip'', ep_interface = ''can0'', ep_can_id = 1, ep_master_id = 17,
     ep_ranges = \<lparr>rng_position_rad = (Fin 0, Fin (65535 / 8192)), rng_velocity_rad_s = (Fin (- 1 / 8), Fin 10),
       rng_torque_nm = (Fin (- 1 / 16), Fin 5), rng_source = ''motor_register_readback''\<rparr>\<rparr>"

definition bench_frame :: "byte \<Rightarrow> can_frame" where
  "bench_frame b = \<lparr>f_interface = ''can0'', f_can_id = 17, f_data = [b, 0x20, 0, 0, 0, 0, 30, 31],
     is_extended = False, is_remote = False, is_error = False, is_fd = True, bit_rate_switch = True,
     error_state_indicator = False, software_timestamp_ns = 9, hardware_timestamp_ns = 6,
     userspace_receive_timestamp_ns = 9\<rparr>"

definition bench_feedback :: "int \<Rightarrow> string \<Rightarrow> feedback" where
  "bench_feedback code status = \<lparr>fb_motor_name = ''hip'', fb_interface = ''can0'', fb_can_id = 1,
     fb_master_id = 17, fb_status_code = code, fb_status_name = status, fb_position_rad = Fin 1,
     fb_velocity_rad_s = Fin (- 1 / 8), fb_estimated_output_torque_nm = Fin (- 1 / 16),
     fb_mos_temperature_c = 30, fb_rotor_temperature_c = 31, fb_software_timestamp_ns = 9,
     fb_hardware_timestamp_ns = 6, fb_userspace_receive_timestamp_ns = 9\<rparr>"

lemma bench_decoded:
  "decode_damiao_feedback (bench_frame 0x11) bench_endpoint = Inr (bench_feedback 1 ''enabled'')"
  "decode_damiao_feedback (bench_frame 0x01) bench_endpoint = Inr (bench_feedback 0 ''disabled'')"
  by (simp_all add: decode_damiao_feedback_def bench_frame_def bench_feedback_def STATUS_NAMES_def
      bench_endpoint_def byte_at_def uint_to_float_def int_fields float_eval)

lemma bench_endpoint_fields:
  "ep_motor_name bench_endpoint = ''hip''" "ep_interface bench_endpoint = ''can0''"
  "ep_can_id bench_endpoint = 1" "ep_master_id bench_endpoint = 17"
  "f_interface (bench_frame b) = ''can0''" "f_can_id (bench_frame b) = 17"
  "fb_position_rad (bench_feedback k st) = Fin 1" "fb_velocity_rad_s (bench_feedback k st) = Fin (- 1 / 8)"
  "fb_estimated_output_torque_nm (bench_feedback k st) = Fin (- 1 / 16)"
  "fb_mos_temperature_c (bench_feedback k st) = 30" "fb_rotor_temperature_c (bench_feedback k st) = 31"
  "fb_status_name (bench_feedback k st) = st"
  by (simp_all add: bench_endpoint_def bench_frame_def bench_feedback_def)

definition bench_command :: "bytes \<Rightarrow> encoded_command" where
  "bench_command d = \<lparr>ec_motor_name = ''hip'', ec_interface = ''can0'', ec_can_id = 1, ec_data = d\<rparr>"

lemma bench_echoes:
  obtains d d' where "encode_zero_gain_position_echo bench_endpoint (Fin 0) = Inr (bench_command d)"
    and "encode_zero_gain_position_echo bench_endpoint (Fin 1) = Inr (bench_command d')"
    and "length d = 8" and "length d' = 8"
proof -
  have "\<exists>d. encode_zero_gain_position_echo bench_endpoint (Fin 0) = Inr (bench_command d)"
    "\<exists>d. encode_zero_gain_position_echo bench_endpoint (Fin 1) = Inr (bench_command d)"
    by (simp_all add: encode_zero_gain_position_echo_def bench_endpoint_def bench_command_def min_abs_def max_abs_def
      new_command_envelope_def validate_range_def encode_damiao_mit_command_def new_mit_state_def
      new_mit_command_def float_to_uint_strict_def estimated_output_torque_def float_eval)
  with that echo_payload(1) show thesis by (fastforce simp: bench_command_def)
qed

definition bench_request :: "pyfloat \<Rightarrow> pyfloat \<Rightarrow> mit_command" where
  "bench_request kp kd = \<lparr>mc_position_rad = Fin 1, mc_velocity_rad_s = Fin 0, mc_kp = kp, mc_kd = kd,
     mc_feedforward_torque_nm = Fin 0\<rparr>"

definition bench_state :: mit_state where
  "bench_state = \<lparr>ms_position_rad = Fin 1, ms_velocity_rad_s = Fin (- 1 / 8)\<rparr>"

definition bench_envelope :: command_envelope where
  "bench_envelope = \<lparr>env_position_rad = (Fin 0, Fin 4), env_maximum_velocity_rad_s = rnd (1 / 5),
     env_maximum_feedforward_torque_nm = rnd (1 / 10), env_maximum_output_torque_nm = rnd (1 / 10)\<rparr>"

lemma bench_commands:
  obtains d d' where
    "encode_damiao_mit_command bench_endpoint (bench_request (rnd (1 / 5)) (rnd (1 / 20))) bench_state
      bench_envelope = Inr (bench_command d)"
    and "encode_damiao_mit_command bench_endpoint (bench_request (Fin 1) (rnd (1 / 5))) bench_state
      bench_envelope = Inr (bench_command d')"
    and "length d = 8" and "length d' = 8"
proof -
  have "\<exists>d. encode_damiao_mit_command bench_endpoint (bench_request (rnd (1 / 5)) (rnd (1 / 20))) bench_state
      bench_envelope = Inr (bench_command d)"
    "\<exists>d. encode_damiao_mit_command bench_endpoint (bench_request (Fin 1) (rnd (1 / 5))) bench_state
      bench_envelope = Inr (bench_command d)"
    by (simp_all add: bench_endpoint_def bench_command_def bench_request_def bench_state_def bench_envelope_def
      max_abs_def encode_damiao_mit_command_def float_to_uint_strict_def estimated_output_torque_def float_eval)
  with that encoded_raws(1) show thesis by (fastforce simp: bench_command_def)
qed

section \<open>The bench bus\<close>

lemma bench_receive:
  assumes "flt u (fadd t timeout)"
  shows "receive_selected bench_endpoint timeout
      \<lparr>wd_writer = w, wd_clock = t # u # ts, wd_rx = Inr (bench_frame 0x11) # rs, wd_tx = tx, wd_sleeps = sl, \<dots> = m\<rparr> =
    Some (Inr (bench_feedback 1 ''enabled''),
      \<lparr>wd_writer = w, wd_clock = ts, wd_rx = rs, wd_tx = tx, wd_sleeps = sl, \<dots> = m\<rparr>)"
    "receive_selected bench_endpoint timeout
      \<lparr>wd_writer = w, wd_clock = t # u # ts, wd_rx = Inr (bench_frame 1) # rs, wd_tx = tx, wd_sleeps = sl, \<dots> = m\<rparr> =
    Some (Inr (bench_feedback 0 ''disabled''),
      \<lparr>wd_writer = w, wd_clock = ts, wd_rx = rs, wd_tx = tx, wd_sleeps = sl, \<dots> = m\<rparr>)"
  using assms bench_decoded
  by (simp_all add: receive_selected_def receive_step_def io_loop_def io_app monotonic_def receive_frame_def
      bench_endpoint_fields)

definition bench_writer :: "bytes list \<Rightarrow> int \<Rightarrow> int \<Rightarrow> int \<Rightarrow> single_motor_writer" where
  "bench_writer fs c e d = \<lparr>sm_interface = ''can0'', sm_motor_name = ''hip'', sm_can_id = 1, sm_wire = fs,
     sm_command_tx_attempts = c, sm_enable_attempts = e, sm_disable_attempts = d\<rparr>"

lemma bench_new: "new_single_motor_writer ''can0'' ''hip'' 1 = Inr (bench_writer [] 0 0 0)"
  by (simp add: new_single_motor_writer_def bench_writer_def standard_id_def)

lemma bench_calls:
  "length x = 8 \<Longrightarrow> sm_call (bench_writer fs c e d) (SCommand (bench_command x)) (Some 72) =
    (bench_writer (fs @ [wire_frame 1 x]) (c + 1) e d, Inr ())"
  "sm_call (bench_writer fs c e d) SEnable (Some 72) =
    (bench_writer (fs @ [wire_frame 1 ENABLE_PAYLOAD]) c (e + 1) d, Inr ())"
  "sm_call (bench_writer fs c e d) SDisable (Some 72) =
    (bench_writer (fs @ [wire_frame 1 DISABLE_PAYLOAD]) c e (d + 1), Inr ())"
proof -
  have l: "length ENABLE_PAYLOAD = 8" "length DISABLE_PAYLOAD = 8" and i: "standard_id 1"
    by (simp_all add: ENABLE_PAYLOAD_def DISABLE_PAYLOAD_def standard_id_def)
  note send = sm_send_payload_ok [of "bench_writer fs c e d"]
  show "length x = 8 \<Longrightarrow> sm_call (bench_writer fs c e d) (SCommand (bench_command x)) (Some 72) =
    (bench_writer (fs @ [wire_frame 1 x]) (c + 1) e d, Inr ())"
    "sm_call (bench_writer fs c e d) SEnable (Some 72) =
    (bench_writer (fs @ [wire_frame 1 ENABLE_PAYLOAD]) c (e + 1) d, Inr ())"
    "sm_call (bench_writer fs c e d) SDisable (Some 72) =
    (bench_writer (fs @ [wire_frame 1 DISABLE_PAYLOAD]) c e (d + 1), Inr ())"
    using send i l by (simp_all add: bench_writer_def bench_command_def)
qed

section \<open>The hold\<close>

definition bench_hold :: run_limits where
  "bench_hold = (hold_defaults (Fin 0, Fin 4))\<lparr>lm_expected := (''hip'', ''can0'', 1)\<rparr>"

definition bench_world :: "pyfloat \<Rightarrow> single_motor_writer world" where
  "bench_world stop = \<lparr>wd_writer = bench_writer [] 0 0 0,
     wd_clock = [Fin 0, Fin 0, Fin 0, Fin 0, Fin 0, Fin 0, Fin 0, Fin 0, Fin 0,
       stop, stop, stop, stop, stop, stop, stop, stop],
     wd_rx = [Inr (bench_frame 1), Inr (bench_frame 1), Inr (bench_frame 0x11), Inr (bench_frame 1),
       Inr (bench_frame 1), Inr (bench_frame 1)],
     wd_tx = [Some 72, Some 72, Some 72, Some 72, Some 72, Some 72, Some 72, Some 72, Some 72, Some 72],
     wd_sleeps = [Inr (), Inr (), Inr ()]\<rparr>"

lemma bench_encode:
  assumes "encode_damiao_mit_command bench_endpoint (bench_request kp kd) bench_state bench_envelope = Inr (bench_command d)"
    and "isfinite kp" and "isfinite kd"
  shows "rbind (new_mit_state (Fin 1) (Fin (- (1 / 8)))) (\<lambda>measured.
    rbind (new_mit_command (Fin 1) (Fin 0) kp kd (Fin 0)) (\<lambda>command.
        encode_damiao_mit_command bench_endpoint command measured bench_envelope)) = Inr (bench_command d)"
  using assms by (simp add: new_mit_state_def new_mit_command_def bench_request_def bench_state_def)

lemma bench_hold_fields:
  "lm_kp bench_hold = rnd (1 / 5)" "lm_kd bench_hold = rnd (1 / 20)" "lm_timeout bench_hold = rnd (1 / 10)"
  "lm_soft bench_hold = (Fin 0, Fin 4)"
  by (simp_all add: bench_hold_def hold_defaults_def)

lemma bench_hold_checks: "hold_checks bench_endpoint bench_hold (Fin 2) = Inr ()"
  by (simp add: hold_checks_def bench_hold_def hold_defaults_def bench_endpoint_fields float_eval)

lemma bench_hold_envelope: "envelope_of bench_hold = Inr bench_envelope"
  by (simp add: envelope_of_def bench_hold_def hold_defaults_def bench_envelope_def new_command_envelope_def
      validate_range_def float_eval)

lemma bench_guards:
  "check_guards bench_hold name (Fin 0) (bench_feedback k st) = Inr ()"
  by (simp add: check_guards_def bench_hold_def hold_defaults_def bench_endpoint_fields float_eval)

lemma bench_times:
  "flt (Fin 0) (fadd (Fin 0) (rnd (1 / 10)))" "flt (Fin 2) (fadd (Fin 2) (rnd (1 / 10)))"
  "flt (fsub (Fin 0) (Fin 0)) (Fin 2)" "\<not> flt (fsub (Fin 2) (Fin 0)) (Fin 2)" "\<not> flt (Fin 0) (Fin 0)"
  "fle (fadd (Fin 0) (rnd (1 / 20))) (Fin 1)" "fle (Fin 1) (fsub (Fin 4) (rnd (1 / 20)))"
  "fsub (Fin 1) (Fin 1) = Fin 0"
  by (simp_all add: float_eval)

definition bench_left :: "pyfloat \<Rightarrow> bytes list \<Rightarrow> single_motor_writer world" where
  "bench_left stop fs = \<lparr>wd_writer = bench_writer fs 3 1 0, wd_clock = [stop, stop, stop, stop, stop, stop, stop],
     wd_rx = [Inr (bench_frame 1), Inr (bench_frame 1), Inr (bench_frame 1)],
     wd_tx = [Some 72, Some 72, Some 72, Some 72, Some 72, Some 72], wd_sleeps = [Inr (), Inr (), Inr ()]\<rparr>"

definition bench_held :: "bytes list \<Rightarrow> hold_vars" where
  "bench_held fs = (hold_start (bench_left (Fin 2) fs))\<lparr>gs_command_count := 1, gs_feedback_count := 1,
        gs_max_velocity := Fin (1 / 8), gs_max_torque := Fin (1 / 16), gs_max_mos := 30, gs_max_rotor := 31,
        hs_target := Some (Fin 1)\<rparr>"

lemma bench_hold_body:
  "\<exists>fs. hold_body bench_endpoint bench_hold (Fin 2) per (hold_start (bench_world (Fin 2))) = Some (Inr (),
     bench_held fs)"
proof -
  obtain d d' where e: "encode_zero_gain_position_echo bench_endpoint (Fin 0) = Inr (bench_command d)"
    "encode_zero_gain_position_echo bench_endpoint (Fin 1) = Inr (bench_command d')" "length d = 8" "length d' = 8"
    by (rule bench_echoes)
  obtain c c' where c: "encode_damiao_mit_command bench_endpoint (bench_request (rnd (1 / 5)) (rnd (1 / 20))) bench_state
      bench_envelope = Inr (bench_command c)" "length c = 8" by (rule bench_commands)
  have "isfinite (rnd (1 / 5))" "isfinite (rnd (1 / 20))" by (simp_all add: float_eval)
  note enc = bench_encode [OF c(1) this]
  show ?thesis
    by (rule exI [of _ "[wire_frame 1 d, wire_frame 1 d', wire_frame 1 ENABLE_PAYLOAD, wire_frame 1 c]"])
      (simp add: bench_held_def hold_body_def hold_start_def bench_world_def bench_left_def send_echo_def e bench_calls io_app
        environment_app io_when_app bench_receive bench_times bench_endpoint_fields require_status_def
        Let_def bench_hold_fields bench_hold_envelope io_loop_def hold_cycle_def hold_accept_def
        send_powered_def enc c bench_guards count_command_def count_feedback_def note_extremes_def
        fmax_def del: sm_call.simps steps.simps)
qed

lemma bench_hold_runs:
  "\<exists>s. run_head_yaw_low_gain_hold bench_endpoint bench_hold (Fin 2) (bench_world (Fin 2)) =
     Some (Inr (hold_report_of bench_endpoint bench_hold (Fin 2) s), s) \<and>
     run_passed (hold_report_of bench_endpoint bench_hold (Fin 2) s)"
proof -
  obtain d d' where e: "encode_zero_gain_position_echo bench_endpoint (Fin 1) = Inr (bench_command d')" "length d' = 8"
    by (rule bench_echoes)
  obtain per where per: "fdiv (Fin 1) (lm_rate bench_hold) = Inr per"
    by (simp add: bench_hold_def hold_defaults_def)
  from bench_hold_body obtain fs where body:
    "hold_body bench_endpoint bench_hold (Fin 2) per (hold_start (bench_world (Fin 2))) = Some (Inr (),
     bench_held fs)" by blast
  have "\<exists>s. hold_run bench_endpoint bench_hold (Fin 2) per (hold_start (bench_world (Fin 2))) = Some (Inr (), s) \<and>
    gs_errors s = [] \<and> gs_command_count s = 1 \<and> gs_feedback_count s = 1 \<and> gs_final_status s = Some ''disabled'' \<and>
    sm_enable_attempts (wd_writer s) = 1 \<and> sm_disable_attempts (wd_writer s) = 3"
    by (simp add: hold_run_def io_app body)
      (simp add: bench_held_def hold_start_def bench_left_def io_app io_while_numeral shut_down_def io_loop_def shutdown_step_def
        disable_round_def environment_app send_echo_def e bench_calls bench_receive bench_times
        bench_endpoint_fields bench_hold_fields del: sm_call.simps steps.simps, simp add: bench_writer_def)
  then show ?thesis
    by (auto simp: run_head_yaw_low_gain_hold_def bench_hold_checks per hold_report_of_def run_passed_def)
qed

theorem powered_hold_fails_closed_witness:
  "\<exists>r s. run_head_yaw_low_gain_hold bench_endpoint bench_hold (Fin 2) (bench_world (Fin 2)) = Some (r, s) \<and>
    wire_in_order [] (sm_wire (wd_writer s)) [(1, 40)] \<and> 3 \<le> disables (wd_writer s)"
proof -
  obtain s where s: "run_head_yaw_low_gain_hold bench_endpoint bench_hold (Fin 2) (bench_world (Fin 2)) =
     Some (Inr (hold_report_of bench_endpoint bench_hold (Fin 2) s), s)" using bench_hold_runs by blast
  have "sm_wire (wd_writer (bench_world (Fin 2))) = []" by (simp add: bench_world_def bench_writer_def)
  moreover have "new_single_motor_writer ''can0'' ''hip'' 1 = Inr (wd_writer (bench_world (Fin 2)))"
    by (simp add: bench_world_def bench_new)
  moreover have "list_all (\<lambda>t. t = Some 72) (wd_tx (bench_world (Fin 2)))" by (simp add: bench_world_def)
  ultimately show ?thesis
    using s powered_hold_fails_closed [OF s, of "''can0''" "''hip''" 1] by (simp add: bench_hold_checks)
qed


section \<open>The motion\<close>

definition bench_motion :: motion_plan where
  "bench_motion = \<lparr>lm_soft = (Fin 0, Fin 4), lm_rate = Fin 50, lm_kp = Fin 1, lm_kd = rnd (1 / 5),
     lm_max_error = rnd (1 / 20), lm_max_velocity = rnd (1 / 5), lm_max_torque = rnd (1 / 10), lm_mos_limit = 100,
     lm_rotor_limit = 80, lm_timeout = rnd (1 / 10), lm_expected = (''hip'', ''can0'', 1),
     mp_excursion = rnd (1 / 50), mp_transition = Fin 1, mp_dwell = Fin (1 / 2), mp_sign = 1\<rparr>"

definition repeated_product :: fpow where
  "repeated_product x n = ((\<lambda>y. fmul y x) ^^ n) (Fin 1)"

lemma repeated_product_zero: "repeated_product (Fin 0) (Suc n) = Fin 0"
  by (induction n) (simp_all add: repeated_product_def)

lemma bench_motion_checks: "motion_checks bench_endpoint bench_motion = Inr ()"
  by (simp add: motion_checks_def bench_motion_def bench_endpoint_fields FROZEN_PROFILES_def same_profile_def
      profile_of_def float_eval)

lemma bench_motion_fields:
  "lm_kp bench_motion = Fin 1" "lm_kd bench_motion = rnd (1 / 5)" "lm_timeout bench_motion = rnd (1 / 10)"
  "lm_soft bench_motion = (Fin 0, Fin 4)" "lm_max_error bench_motion = rnd (1 / 20)"
  "mp_excursion bench_motion = rnd (1 / 50)" "lm_rate bench_motion = Fin 50"
  "mp_transition bench_motion = Fin 1" "mp_dwell bench_motion = Fin (1 / 2)"
  by (simp_all add: bench_motion_def)

lemma bench_motion_envelope: "envelope_of bench_motion = Inr bench_envelope"
  by (simp add: envelope_of_def bench_motion_def bench_envelope_def new_command_envelope_def
      validate_range_def float_eval)

lemma bench_motion_guards: "check_guards bench_motion name (Fin 0) (bench_feedback k st) = Inr ()"
  by (simp add: check_guards_def bench_motion_def bench_endpoint_fields float_eval)

lemma bench_motion_times:
  "flt (Fin 5) (fadd (Fin 5) (rnd (1 / 10)))"
  "flt (fsub (Fin 0) (Fin 0)) (Fin (9 / 2))" "\<not> flt (fsub (Fin 5) (Fin 0)) (Fin (9 / 2))"
  "fle (fadd (Fin 0) (rnd (1 / 20))) (fsub (Fin 1) (fabs (rnd (1 / 50))))"
  "fle (fadd (Fin 1) (fabs (rnd (1 / 50)))) (fsub (Fin 4) (rnd (1 / 20)))"
  by (simp_all add: float_eval)

lemma repeated_product_zeros: "repeated_product (Fin 0) (numeral k) = Fin 0"
  unfolding numeral_eq_Suc by (rule repeated_product_zero)

lemma quintic_start: "quintic_smoothstep repeated_product (Fin 0) = (Fin 0, Fin 0)"
  by (simp add: quintic_smoothstep_def repeated_product_zeros fmax_def fmin_def fsub_def Let_def)

lemma bench_motion_target:
  "target_at repeated_product bench_motion (Fin (9 / 2)) (Fin 1) (fsub (Fin 0) (Fin 0)) = Inr (Fin 1, Fin 0)"
proof -
  have "fadd (Fin 1) (fmul (fsub (fadd (Fin 1) (fmul (Fin 1) (rnd (1 / 50)))) (Fin 1)) (Fin 0)) = Fin 1"
    "fmul (fsub (fadd (Fin 1) (fmul (Fin 1) (rnd (1 / 50)))) (Fin 1)) (Fin 0) = Fin 0"
    "\<not> feq (Fin 1) (fadd (Fin 1) (fmul (Fin 1) (rnd (1 / 50))))"
    "fmin (fmax (fsub (Fin 0) (Fin 0)) (Fin 0)) (Fin (9 / 2)) = Fin 0"
    by (simp_all add: float_eval fmin_def fmax_def)
  then show ?thesis
    by (simp add: target_at_def bench_motion_def quintic_start Let_def del: fadd.simps fmul.simps)
qed

definition bench_moved :: "bytes list \<Rightarrow> motion_vars" where
  "bench_moved fs = (motion_start (bench_left (Fin 5) fs))\<lparr>gs_command_count := 1, gs_feedback_count := 1,
        gs_max_velocity := Fin (1 / 8), gs_max_torque := Fin (1 / 16), gs_max_mos := 30, gs_max_rotor := 31,
        mo_initial := Some (Fin 1), mo_requested_minimum := Some (fsub (Fin 1) (fabs (rnd (1 / 50)))),
        mo_requested_maximum := Some (fadd (Fin 1) (fabs (rnd (1 / 50)))),
        mo_measured_minimum := Some (Fin 1), mo_measured_maximum := Some (Fin 1), mo_final_measured := Some (Fin 1)\<rparr>"

lemma bench_motion_body:
  "\<exists>fs. motion_body repeated_product bench_endpoint bench_motion (Fin (9 / 2)) per (motion_start (bench_world (Fin 5))) =
     Some (Inr (), bench_moved fs)"
proof -
  obtain d d' where e: "encode_zero_gain_position_echo bench_endpoint (Fin 0) = Inr (bench_command d)"
    "encode_zero_gain_position_echo bench_endpoint (Fin 1) = Inr (bench_command d')" "length d = 8" "length d' = 8"
    by (rule bench_echoes)
  obtain c c' where c: "encode_damiao_mit_command bench_endpoint (bench_request (Fin 1) (rnd (1 / 5))) bench_state
      bench_envelope = Inr (bench_command c)" "length c = 8" by (rule bench_commands)
  have "isfinite (Fin 1)" "isfinite (rnd (1 / 5))" by (simp_all add: float_eval)
  note enc = bench_encode [OF c(1) this]
  show ?thesis
    by (rule exI [of _ "[wire_frame 1 d, wire_frame 1 d', wire_frame 1 ENABLE_PAYLOAD, wire_frame 1 c]"])
      (simp add: bench_moved_def motion_body_def motion_start_def bench_world_def bench_left_def send_echo_def e bench_calls io_app
        environment_app io_when_app bench_receive bench_times bench_motion_times bench_endpoint_fields require_status_def
        Let_def bench_motion_fields bench_motion_envelope io_loop_def motion_cycle_def motion_accept_def
        send_powered_def enc c bench_motion_guards count_command_def count_feedback_def note_extremes_def
        bench_motion_target note_measured_def
        fmax_def fmin_def del: sm_call.simps steps.simps)
qed

lemma bench_motion_runs:
  "\<exists>s duration. run_head_yaw_low_gain_motion repeated_product bench_endpoint bench_motion (bench_world (Fin 5)) =
     Some (Inr (motion_report_of bench_endpoint bench_motion duration s), s) \<and>
     run_passed (motion_report_of bench_endpoint bench_motion duration s)"
proof -
  obtain d d' where e: "encode_zero_gain_position_echo bench_endpoint (Fin 1) = Inr (bench_command d')" "length d' = 8"
    by (rule bench_echoes)
  obtain per where per: "fdiv (Fin 1) (Fin 50) = Inr per" by simp
  have dur: "fadd (fmul (Fin 3) (Fin 1)) (fmul (Fin 3) (Fin (1 / 2))) = Fin (9 / 2)" by (simp add: float_eval)
  obtain fs where body: "motion_body repeated_product bench_endpoint bench_motion (Fin (9 / 2)) per
      (motion_start (bench_world (Fin 5))) =
     Some (Inr (), bench_moved fs)"
    using bench_motion_body by blast
  have "\<exists>s. motion_run repeated_product bench_endpoint bench_motion (Fin (9 / 2)) per
      (motion_start (bench_world (Fin 5))) = Some (Inr (), s) \<and>
    gs_errors s = [] \<and> gs_command_count s = 1 \<and> gs_feedback_count s = 1 \<and> gs_final_status s = Some ''disabled'' \<and>
    sm_enable_attempts (wd_writer s) = 1 \<and> sm_disable_attempts (wd_writer s) = 3"
    by (simp add: motion_run_def io_app body)
      (simp add: bench_moved_def motion_start_def bench_left_def io_app io_while_numeral shut_down_def io_loop_def shutdown_step_def
        disable_round_def environment_app send_echo_def e bench_calls bench_receive bench_motion_times
        bench_endpoint_fields bench_motion_fields del: sm_call.simps steps.simps, simp add: bench_writer_def)
  then show ?thesis
    by (auto simp: run_head_yaw_low_gain_motion_def bench_motion_checks bench_motion_fields dur per
        motion_report_of_def run_passed_def Let_def simp del: fadd.simps fmul.simps fdiv.simps)
qed

theorem powered_motion_fails_closed_witness:
  "\<exists>r s. run_head_yaw_low_gain_motion repeated_product bench_endpoint bench_motion (bench_world (Fin 5)) = Some (r, s) \<and>
    wire_in_order [] (sm_wire (wd_writer s)) [(8, 163), (16, 163), (65, 245), (163, 409)] \<and>
    3 \<le> disables (wd_writer s)"
proof -
  obtain r s where s: "run_head_yaw_low_gain_motion repeated_product bench_endpoint bench_motion (bench_world (Fin 5)) =
     Some (r, s)" using bench_motion_runs by blast
  have "sm_wire (wd_writer (bench_world (Fin 5))) = []" by (simp add: bench_world_def bench_writer_def)
  moreover have "new_single_motor_writer ''can0'' ''hip'' 1 = Inr (wd_writer (bench_world (Fin 5)))"
    by (simp add: bench_world_def bench_new)
  moreover have "list_all (\<lambda>t. t = Some 72) (wd_tx (bench_world (Fin 5)))" by (simp add: bench_world_def)
  ultimately show ?thesis
    using s powered_motion_fails_closed [OF s, of "''can0''" "''hip''" 1] by (auto simp: bench_motion_checks)
qed

theorem passed_motion_is_evidence_witness:
  "\<exists>report s. run_head_yaw_low_gain_motion repeated_product bench_endpoint bench_motion (bench_world (Fin 5)) =
     Some (Inr report, s) \<and> run_passed report \<and>
    rr_command_count report = rr_feedback_count report \<and> fle (rr_max_torque report) (lm_max_torque bench_motion)"
proof -
  obtain report s where s: "run_head_yaw_low_gain_motion repeated_product bench_endpoint bench_motion
      (bench_world (Fin 5)) = Some (Inr report, s)" "run_passed report"
    using bench_motion_runs by blast
  from s passed_motion_is_evidence [OF s] show ?thesis by blast
qed

theorem receive_selected_returns_witness:
  "\<exists>r s. receive_selected bench_endpoint (Fin 1) ((bench_world (Fin 2))\<lparr>wd_clock := [Fin 0, Fin 1]\<rparr>) = Some (r, s)"
  by (rule receive_selected_returns [of _ "Fin 0" "[Fin 1]"]) (simp_all add: bench_world_def float_eval)

end
