(* ===== verification/GroupCore.thy ===== *)
theory GroupCore
  imports PoweredHold DamiaoProbe
begin

text \<open>
  What the runs of several motors on one bus share (\<open>motor_group_hold.py\<close> and the gates of
  \<open>ankle_pair_commissioning.py\<close>): the local variables every run keeps, the preparation and the
  enabling of the motors, and the disable of all motors with its verification. The writer is the
  \<open>SocketCanMotorGroupMitWriter\<close> of \<open>socketcan.py\<close>; \<open>timeout\<close> is the feedback timeout of the run and
  \<open>position_of\<close> the dict of the positions its echoes repeat.
\<close>

section \<open>The local variables\<close>

type_synonym identity = "string \<times> string \<times> int \<times> int"

type_synonym 'v by_name = "(string, 'v) dict"

record group_core = "motor_group_writer world" +
  gh_errors :: "string list"
  gh_latest :: "feedback by_name"
  gh_command_count :: "nat by_name"
  gh_feedback_count :: "nat by_name"
  gh_final_status :: "string option by_name"

text \<open>\<open>d[name] = f(d[name])\<close> on the dicts that are initialised for every name of the group.\<close>

definition adjust :: "string \<Rightarrow> ('v \<Rightarrow> 'v) \<Rightarrow> 'v by_name \<Rightarrow> 'v by_name" where
  "adjust name f d = (case map_of d name of None \<Rightarrow> d | Some v \<Rightarrow> dict_set d name (f v))"

definition group_errors :: "string \<Rightarrow> 'm group_core_scheme \<Rightarrow> 'm group_core_scheme" where
  "group_errors m s = s\<lparr>gh_errors := gh_errors s @ [m]\<rparr>"

definition endpoint_identity :: "feedback_endpoint \<Rightarrow> identity" where
  "endpoint_identity e = (ep_motor_name e, ep_interface e, ep_can_id e, ep_master_id e)"

definition same_keys :: "'v by_name \<Rightarrow> string list \<Rightarrow> bool" where
  "same_keys d names \<longleftrightarrow> set (keys d) = set names"

section \<open>Preparing and enabling\<close>

definition receive_endpoint ::
  "feedback_endpoint \<Rightarrow> pyfloat \<Rightarrow> (('w, 'm) world_scheme, feedback) io" where
  "receive_endpoint e timeout = receive_selected e timeout"

definition group_echo :: "feedback_endpoint \<Rightarrow> pyfloat \<Rightarrow> ('m group_core_scheme, unit) io" where
  "group_echo e position = io_bind (io_lift (encode_zero_gain_position_echo e position))
     (\<lambda>c. io_call mg_call (GCommand c))"

text \<open>The echo of the position a motor will be held at, before it is enabled.\<close>

definition prepare_motor ::
  "pyfloat \<Rightarrow> ('m group_core_scheme \<Rightarrow> pyfloat by_name) \<Rightarrow> feedback_endpoint \<Rightarrow> ('m group_core_scheme, unit) io" where
  "prepare_motor timeout position_of e = (let name = ep_motor_name e in
     io_bind (io_get (\<lambda>s. lookup_result (position_of s) name)) (\<lambda>found.
     io_bind (io_lift found) (\<lambda>position.
     io_then (group_echo e position) (io_bind (receive_endpoint e timeout) (\<lambda>fb. steps
         [require_status fb ''disabled'' (name @ '' changed status during preparation''),
          io_modify (\<lambda>s. s\<lparr>gh_latest := dict_set (gh_latest s) name fb\<rparr>)])))))"

definition enable_all :: "feedback_endpoint list \<Rightarrow> ('m group_core_scheme, unit) io" where
  "enable_all = io_for (\<lambda>e. io_call mg_call (GEnable (ep_motor_name e)))"

section \<open>The pace of the powered cycles\<close>

text \<open>
  \<open>while monotonic() - start < duration\<close>: sleep until the next cycle is due, do the work of the cycle
  and schedule the next one, from now when it is late already.
\<close>

definition paced_cycle ::
  "pyfloat \<Rightarrow> (pyfloat \<Rightarrow> ('m group_core_scheme, unit) io) \<Rightarrow> pyfloat \<Rightarrow> pyfloat \<Rightarrow> pyfloat
     \<Rightarrow> ('m group_core_scheme, pyfloat + unit) io" where
  "paced_cycle duration work period start next_cycle = io_bind monotonic (\<lambda>t.
     if \<not> flt (fsub t start) duration then io_return (Inr ())
     else io_bind monotonic (\<lambda>now.
       if flt now next_cycle then io_then pause (io_return (Inl next_cycle))
       else io_then (work (fsub now start)) (io_bind monotonic (\<lambda>after.
         let next = fadd next_cycle period in
         if fle next after then io_bind monotonic (\<lambda>late. io_return (Inl (fadd late period)))
         else io_return (Inl next)))))"

definition powered_run ::
  "pyfloat \<Rightarrow> ('m group_core_scheme \<Rightarrow> pyfloat by_name) \<Rightarrow> feedback_endpoint list \<Rightarrow> pyfloat \<Rightarrow>
     (pyfloat \<Rightarrow> ('m group_core_scheme, unit) io) \<Rightarrow> pyfloat \<Rightarrow> ('m group_core_scheme, unit) io" where
  "powered_run timeout position_of es duration work period = steps
     [io_for (prepare_motor timeout position_of) es,
      enable_all es,
      io_bind monotonic (\<lambda>start. io_loop 0 (paced_cycle duration work period start) start)]"

section \<open>The verified disable of every motor\<close>

text \<open>The \<open>sleep\<close> between the rounds is not guarded: an exception it raises leaves the function.\<close>

definition disable_all :: "feedback_endpoint list \<Rightarrow> ('m group_core_scheme, unit) io" where
  "disable_all es = io_then
     (io_for (\<lambda>e. io_catch (io_call mg_call (GDisable (ep_motor_name e)))
        (\<lambda>exc. io_modify (group_errors (ep_motor_name e @ '' disable failed: '' @ exc_text exc)))) es)
     pause"

definition verify_round ::
  "pyfloat \<Rightarrow> ('m group_core_scheme \<Rightarrow> pyfloat by_name) \<Rightarrow> feedback_endpoint \<Rightarrow> pyfloat \<Rightarrow> string option \<Rightarrow> ('m group_core_scheme, string option + string option) io" where
  "verify_round timeout position_of e deadline last_error = (let name = ep_motor_name e in
     io_bind (io_get (\<lambda>s. lookup_result (gh_final_status s) name)) (\<lambda>r. io_bind (io_lift r) (\<lambda>status.
     if status = Some ''disabled'' then io_return (Inr last_error)
     else io_bind monotonic (\<lambda>t.
       if \<not> flt t deadline then io_return (Inr last_error)
       else io_catch
         (io_then (io_call mg_call (GDisable name))
           (io_bind (io_get (\<lambda>s. case map_of (position_of s) name of Some x \<Rightarrow> x | None \<Rightarrow> Fin 0)) (\<lambda>position.
            io_then (group_echo e position) (io_bind (receive_endpoint e timeout) (\<lambda>fb.
              io_then (io_modify (\<lambda>s. s\<lparr>gh_final_status := dict_set (gh_final_status s) name (Some (fb_status_name fb))\<rparr>))
                (io_return (Inl last_error)))))))
         (\<lambda>exc. io_return (Inl (Some (exc_text exc))))))))"

definition verify_disabled ::
  "pyfloat \<Rightarrow> ('m group_core_scheme \<Rightarrow> pyfloat by_name) \<Rightarrow> feedback_endpoint \<Rightarrow> ('m group_core_scheme, unit) io" where
  "verify_disabled timeout position_of e = (let name = ep_motor_name e in
     io_bind monotonic (\<lambda>t.
     io_bind (io_loop 0 (verify_round timeout position_of e (fadd t (Fin (1 / 2)))) None) (\<lambda>last_error.
     io_bind (io_get (\<lambda>s. lookup_result (gh_final_status s) name)) (\<lambda>r. io_bind (io_lift r) (\<lambda>status.
       io_when (status \<noteq> Some ''disabled'')
         (io_modify (group_errors (name @ '' final disabled verification failed'' @
           (case last_error of Some m \<Rightarrow> if m = [] then [] else '': '' @ m | None \<Rightarrow> [])))))))))"

definition group_shut_down ::
  "pyfloat \<Rightarrow> ('m group_core_scheme \<Rightarrow> pyfloat by_name) \<Rightarrow> feedback_endpoint list \<Rightarrow> ('m group_core_scheme, unit) io" where
  "group_shut_down timeout position_of es = steps
     [disable_all es, disable_all es, disable_all es, io_for (verify_disabled timeout position_of) es]"

text \<open>\<open>try: body except BaseException as exc: errors.append(str(exc)) finally: ...\<close>\<close>

definition guarded_run ::
  "pyfloat \<Rightarrow> ('m group_core_scheme \<Rightarrow> pyfloat by_name) \<Rightarrow> feedback_endpoint list \<Rightarrow>
     ('m group_core_scheme, unit) io \<Rightarrow> ('m group_core_scheme, unit) io" where
  "guarded_run timeout position_of es body =
     io_then (io_catch body (\<lambda>exc. io_modify (group_errors (exc_text exc))))
       (group_shut_down timeout position_of es)"

end
