(* ===== verification/GroupHold.thy ===== *)
theory GroupHold
  imports GroupCore
begin

text \<open>
  The fail-closed holds of the fixed same-bus motor groups (\<open>motor_group_hold.py\<close>): every motor is
  measured and prepared with zero gains, all are enabled, each cycle commands and checks them in
  turn, and whatever happened all are disabled three times and verified one by one. The writer is
  the \<open>SocketCanMotorGroupMitWriter\<close> of \<open>socketcan.py\<close>.
\<close>

section \<open>The frozen groups\<close>

definition RIGHT_WRIST_GROUP :: "identity list" where
  "RIGHT_WRIST_GROUP = [(''right_wrist_yaw_motor'', ''kcan4'', 5, 0x15),
     (''right_wrist_pitch_motor'', ''kcan4'', 6, 0x16), (''right_wrist_roll_motor'', ''kcan4'', 7, 0x17)]"

definition RIGHT_ARM_GROUP :: "identity list" where
  "RIGHT_ARM_GROUP = [(''right_shoulder_pitch_motor'', ''kcan4'', 1, 0x11),
     (''right_shoulder_roll_motor'', ''kcan4'', 2, 0x12), (''right_shoulder_yaw_motor'', ''kcan4'', 3, 0x13),
     (''right_elbow_motor'', ''kcan4'', 4, 0x14)] @ RIGHT_WRIST_GROUP"

definition LEFT_ARM_GROUP :: "identity list" where
  "LEFT_ARM_GROUP = [(''left_shoulder_pitch_motor'', ''kcan3'', 1, 0x11),
     (''left_shoulder_roll_motor'', ''kcan3'', 2, 0x12), (''left_shoulder_yaw_motor'', ''kcan3'', 3, 0x13),
     (''left_elbow_motor'', ''kcan3'', 4, 0x14), (''left_wrist_yaw_motor'', ''kcan3'', 5, 0x15),
     (''left_wrist_pitch_motor'', ''kcan3'', 6, 0x16), (''left_wrist_roll_motor'', ''kcan3'', 7, 0x17)]"

definition LEFT_PROXIMAL_LEG_GROUP :: "identity list" where
  "LEFT_PROXIMAL_LEG_GROUP = [(''left_hip_pitch_motor'', ''kcan1'', 1, 0x11),
     (''left_hip_roll_motor'', ''kcan1'', 2, 0x12), (''left_hip_yaw_motor'', ''kcan1'', 3, 0x13),
     (''left_knee_motor'', ''kcan1'', 4, 0x14)]"

definition RIGHT_PROXIMAL_LEG_GROUP :: "identity list" where
  "RIGHT_PROXIMAL_LEG_GROUP = [(''right_hip_pitch_motor'', ''kcan2'', 1, 0x11),
     (''right_hip_roll_motor'', ''kcan2'', 2, 0x12), (''right_hip_yaw_motor'', ''kcan2'', 3, 0x13),
     (''right_knee_motor'', ''kcan2'', 4, 0x14)]"

definition WAIST_GROUP :: "identity list" where
  "WAIST_GROUP = [(''waist_yaw_motor'', ''kcan1'', 7, 0x17), (''waist_roll_motor'', ''kcan1'', 8, 0x18)]"

section \<open>Parameters, local variables and the report\<close>

record group_plan =
  gl_soft :: "frange by_name"
  gl_torque :: "pyfloat by_name"
  gl_feedback_torque :: "pyfloat by_name option"
  gl_identity :: "identity list"
  gl_interface :: string

record group_vars = group_core +
  gh_initial :: "pyfloat by_name"
  gh_targets :: "pyfloat by_name"
  gh_max_error :: "pyfloat by_name"
  gh_max_velocity :: "pyfloat by_name"
  gh_max_commanded :: "pyfloat by_name"
  gh_max_torque :: "pyfloat by_name"
  gh_max_mos :: "int by_name"
  gh_max_rotor :: "int by_name"

record group_hold_report =
  gr_interface :: string
  gr_names :: "string list"
  gr_initial :: "pyfloat by_name"
  gr_target :: "pyfloat by_name"
  gr_duration_s :: pyfloat
  gr_hold_rate_hz :: pyfloat
  gr_command_count :: "nat by_name"
  gr_feedback_count :: "nat by_name"
  gr_enable_attempts :: "int by_name"
  gr_disable_attempts :: "int by_name"
  gr_max_error :: "pyfloat by_name"
  gr_max_velocity :: "pyfloat by_name"
  gr_max_commanded_torque :: "pyfloat by_name"
  gr_max_torque :: "pyfloat by_name"
  gr_max_mos :: "int by_name"
  gr_max_rotor :: "int by_name"
  gr_final_status :: "string option by_name"
  gr_hold_errors :: "string list"

definition group_hold_passed :: "group_hold_report \<Rightarrow> bool" where
  "group_hold_passed r \<longleftrightarrow> gr_hold_errors r = [] \<and>
     list_all (\<lambda>(_, v). 0 < v) (gr_command_count r) \<and> list_all (\<lambda>(_, v). 0 < v) (gr_feedback_count r) \<and>
     list_all (\<lambda>(_, v). v = 1) (gr_enable_attempts r) \<and> list_all (\<lambda>(_, v). 3 \<le> v) (gr_disable_attempts r) \<and>
     list_all (\<lambda>(_, v). v = Some ''disabled'') (gr_final_status r)"

definition torque_guard :: "group_plan \<Rightarrow> pyfloat by_name" where
  "torque_guard p = (case gl_feedback_torque p of None \<Rightarrow> gl_torque p | Some d \<Rightarrow> d)"

definition group_hold_checks ::
  "motor_group_writer \<Rightarrow> feedback_endpoint list \<Rightarrow> group_plan \<Rightarrow> unit result" where
  "group_hold_checks w es p = (let names = map ep_motor_name es in
     if map endpoint_identity es \<noteq> gl_identity p
     then Inl (ValueError ''powered group hold does not match the frozen ordered group'')
     else if \<not> same_keys (gl_soft p) names
     then Inl (ValueError ''soft limits must exactly cover the frozen motor group'')
     else if \<not> same_keys (gl_torque p) names \<or>
       list_ex (\<lambda>(_, v). \<not> (flt (Fin 0) v \<and> fle v (Fin (1 / 2)))) (gl_torque p)
     then Inl (ValueError ''torque guards must exactly cover the group and be in (0, 0.5] Nm'')
     else if \<not> same_keys (torque_guard p) names \<or>
       list_ex (\<lambda>(_, v). \<not> (flt (Fin 0) v \<and> fle v (Fin 3))) (torque_guard p)
     then Inl (ValueError ''feedback torque guards must exactly cover the group and be in (0, 3.0] Nm'')
     else if mg_interface w \<noteq> gl_interface p
     then Inl (ValueError (''motor-group writer must use '' @ gl_interface p))
     else Inr ())"

section \<open>Measuring and preparing\<close>

abbreviation group_timeout :: pyfloat where
  "group_timeout \<equiv> rnd (1 / 10)"

definition group_measure :: "group_plan \<Rightarrow> feedback_endpoint \<Rightarrow> (group_vars, unit) io" where
  "group_measure p e = (let name = ep_motor_name e in
     io_then (group_echo e (Fin 0)) (io_bind (receive_endpoint e group_timeout) (\<lambda>fb.
       let position = fb_position_rad fb in steps
         [require_status fb ''disabled'' (name @ '' must start disabled''),
          io_modify (\<lambda>s. s\<lparr>gh_initial := dict_set (gh_initial s) name position\<rparr>),
          io_bind (io_lift (lookup_result (gl_soft p) name)) (\<lambda>(low, high).
            io_when (\<not> (fle (fadd low (rnd (5 / 100))) position \<and> fle position (fsub high (rnd (5 / 100)))))
              (io_raise (RuntimeError (name @ '' lacks soft-limit margin'')))),
          io_modify (\<lambda>s. s\<lparr>gh_targets := dict_set (gh_targets s) name position\<rparr>),
          io_modify (\<lambda>s. s\<lparr>gh_latest := dict_set (gh_latest s) name fb\<rparr>)])))"

section \<open>The powered cycle\<close>

definition group_limits :: "pyfloat \<Rightarrow> run_limits" where
  "group_limits torque = \<lparr>lm_soft = (Fin 0, Fin 0), lm_rate = Fin 50, lm_kp = rnd (2 / 10),
     lm_kd = rnd (5 / 100), lm_max_error = rnd (5 / 100), lm_max_velocity = rnd (2 / 10),
     lm_max_torque = torque, lm_mos_limit = 100, lm_rotor_limit = 80, lm_timeout = group_timeout,
     lm_expected = ([], [], 0)\<rparr>"

definition note_group :: "string \<Rightarrow> pyfloat \<Rightarrow> feedback \<Rightarrow> group_vars \<Rightarrow> group_vars" where
  "note_group name error fb s = s\<lparr>
     gh_max_error := adjust name (\<lambda>m. fmax m (fabs error)) (gh_max_error s),
     gh_max_velocity := adjust name (\<lambda>m. fmax m (fabs (fb_velocity_rad_s fb))) (gh_max_velocity s),
     gh_max_torque := adjust name (\<lambda>m. fmax m (fabs (fb_estimated_output_torque_nm fb))) (gh_max_torque s),
     gh_max_mos := adjust name (\<lambda>m. max m (fb_mos_temperature_c fb)) (gh_max_mos s),
     gh_max_rotor := adjust name (\<lambda>m. max m (fb_rotor_temperature_c fb)) (gh_max_rotor s)\<rparr>"

text \<open>
  The guards are those of \<open>check_guards\<close> with the feedback torque guard of the motor, which is looked
  up only when the position and velocity guards have passed.
\<close>

definition group_guards :: "group_plan \<Rightarrow> string \<Rightarrow> pyfloat \<Rightarrow> feedback \<Rightarrow> unit result" where
  "group_guards p name error fb =
     (if flt (rnd (5 / 100)) (fabs error) \<or> flt (rnd (2 / 10)) (fabs (fb_velocity_rad_s fb))
      then check_guards (group_limits (Fin 0)) name error fb
      else rbind (lookup_result (torque_guard p) name) (\<lambda>torque.
        check_guards (group_limits torque) name error fb))"

definition group_accept :: "group_plan \<Rightarrow> feedback \<Rightarrow> (group_vars, unit) io" where
  "group_accept p fb = (let name = fb_motor_name fb in
     io_bind (io_get (\<lambda>s. lookup_result (gh_feedback_count s) name)) (\<lambda>count.
     io_bind (io_lift count) (\<lambda>_. steps
       [io_modify (\<lambda>s. s\<lparr>gh_feedback_count := adjust name Suc (gh_feedback_count s)\<rparr>),
        require_status fb ''enabled'' (name @ '' status must be enabled, observed '' @ fb_status_name fb),
        io_bind (io_get (\<lambda>s. lookup_result (gh_targets s) name)) (\<lambda>target.
          io_bind (io_lift target) (\<lambda>x. let error = fsub x (fb_position_rad fb) in steps
            [io_modify (note_group name error fb), io_lift (group_guards p name error fb)]))])))"

definition group_request :: "pyfloat \<Rightarrow> mit_command result" where
  "group_request target = new_mit_command target (Fin 0) (rnd (2 / 10)) (rnd (5 / 100)) (Fin 0)"

definition group_encode ::
  "group_plan \<Rightarrow> feedback_endpoint \<Rightarrow> pyfloat result \<Rightarrow> feedback result
     \<Rightarrow> (encoded_command \<times> mit_command \<times> mit_state) result" where
  "group_encode p e target latest = (let name = ep_motor_name e in
     rbind (lookup_result (gl_soft p) name) (\<lambda>soft.
     rbind (lookup_result (gl_torque p) name) (\<lambda>torque.
     rbind (new_command_envelope soft (rnd (2 / 10)) torque torque) (\<lambda>envelope.
     rbind latest (\<lambda>fb.
     rbind (new_mit_state (fb_position_rad fb) (fb_velocity_rad_s fb)) (\<lambda>measured.
     rbind target (\<lambda>x.
     rbind (group_request x) (\<lambda>command.
     rbind (encode_damiao_mit_command e command measured envelope) (\<lambda>encoded.
       Inr (encoded, command, measured))))))))))"

definition group_command :: "group_plan \<Rightarrow> feedback_endpoint \<Rightarrow> (group_vars, unit) io" where
  "group_command p e = (let name = ep_motor_name e in
     io_bind (io_get (\<lambda>s. group_encode p e (lookup_result (gh_targets s) name) (lookup_result (gh_latest s) name)))
       (\<lambda>r. io_bind (io_lift r) (\<lambda>(encoded, command, measured).
     let commanded = estimated_output_torque command measured in
     steps
       [io_modify (\<lambda>s. s\<lparr>gh_max_commanded := adjust name (\<lambda>m. fmax m (fabs commanded)) (gh_max_commanded s)\<rparr>),
        io_call mg_call (GCommand encoded),
        io_modify (\<lambda>s. s\<lparr>gh_command_count := adjust name Suc (gh_command_count s)\<rparr>),
        io_bind (receive_endpoint e group_timeout) (\<lambda>fb. steps
          [group_accept p fb, io_modify (\<lambda>s. s\<lparr>gh_latest := dict_set (gh_latest s) name fb\<rparr>)])])))"

definition group_body :: "group_plan \<Rightarrow> feedback_endpoint list \<Rightarrow> pyfloat \<Rightarrow> (group_vars, unit) io" where
  "group_body p es period = steps
     [io_for (group_measure p) es,
      powered_run group_timeout gh_targets es (Fin 2) (\<lambda>_. io_for (group_command p) es) period]"

section \<open>The group hold\<close>

definition group_start :: "motor_group_writer world \<Rightarrow> feedback_endpoint list \<Rightarrow> group_vars" where
  "group_start w es = (let names = map ep_motor_name es; zero = (\<lambda>v. dict_of (map (\<lambda>n. (n, v)) names)) in
     \<lparr>wd_writer = wd_writer w, wd_clock = wd_clock w, wd_rx = wd_rx w, wd_tx = wd_tx w,
      wd_sleeps = wd_sleeps w, gh_errors = [], gh_latest = [],
      gh_command_count = dict_of (map (\<lambda>n. (n, 0)) names), gh_feedback_count = dict_of (map (\<lambda>n. (n, 0)) names),
      gh_final_status = dict_of (map (\<lambda>n. (n, None)) names), gh_initial = [], gh_targets = [],
      gh_max_error = zero (Fin 0), gh_max_velocity = zero (Fin 0), gh_max_commanded = zero (Fin 0),
      gh_max_torque = zero (Fin 0), gh_max_mos = dict_of (map (\<lambda>n. (n, 0)) names),
      gh_max_rotor = dict_of (map (\<lambda>n. (n, 0)) names)\<rparr>)"

definition group_hold_run ::
  "group_plan \<Rightarrow> feedback_endpoint list \<Rightarrow> pyfloat \<Rightarrow> (group_vars, unit) io" where
  "group_hold_run p es period = guarded_run group_timeout gh_targets es (group_body p es period)"

definition group_hold_report_of :: "feedback_endpoint list \<Rightarrow> group_vars \<Rightarrow> group_hold_report" where
  "group_hold_report_of es s = \<lparr>gr_interface = mg_interface (wd_writer s), gr_names = map ep_motor_name es,
     gr_initial = gh_initial s, gr_target = gh_targets s, gr_duration_s = Fin 2, gr_hold_rate_hz = Fin 50,
     gr_command_count = gh_command_count s, gr_feedback_count = gh_feedback_count s,
     gr_enable_attempts = mg_enable_attempts (wd_writer s), gr_disable_attempts = mg_disable_attempts (wd_writer s),
     gr_max_error = gh_max_error s, gr_max_velocity = gh_max_velocity s,
     gr_max_commanded_torque = gh_max_commanded s, gr_max_torque = gh_max_torque s,
     gr_max_mos = gh_max_mos s, gr_max_rotor = gh_max_rotor s, gr_final_status = gh_final_status s,
     gr_hold_errors = gh_errors s\<rparr>"

definition run_fixed_group_low_gain_hold ::
  "feedback_endpoint list \<Rightarrow> group_plan \<Rightarrow> motor_group_writer world
     \<Rightarrow> (group_hold_report result \<times> group_vars) option" where
  "run_fixed_group_low_gain_hold es p w =
     (case rbind (group_hold_checks (wd_writer w) es p) (\<lambda>_. fdiv (Fin 1) (Fin 50)) of
        Inl err \<Rightarrow> Some (Inl err, group_start w es)
      | Inr period \<Rightarrow> (case group_hold_run p es period (group_start w es) of
            None \<Rightarrow> None
          | Some (Inl err, s) \<Rightarrow> Some (Inl err, s)
          | Some (Inr _, s) \<Rightarrow> Some (Inr (group_hold_report_of es s), s)))"

section \<open>The groups\<close>

definition uniform_torque :: "feedback_endpoint list \<Rightarrow> string list \<Rightarrow> pyfloat \<Rightarrow> pyfloat \<Rightarrow> pyfloat by_name" where
  "uniform_torque es strong high low =
     dict_of (map (\<lambda>e. (ep_motor_name e, if ep_motor_name e \<in> set strong then high else low)) es)"

type_synonym group_runner =
  "feedback_endpoint list \<Rightarrow> frange by_name \<Rightarrow> motor_group_writer world
     \<Rightarrow> (group_hold_report result \<times> group_vars) option"

definition run_right_wrist_group_low_gain_hold :: group_runner where
  "run_right_wrist_group_low_gain_hold es soft = run_fixed_group_low_gain_hold es
     \<lparr>gl_soft = soft, gl_torque = uniform_torque es [] (rnd (1 / 10)) (rnd (1 / 10)), gl_feedback_torque = None,
      gl_identity = RIGHT_WRIST_GROUP, gl_interface = ''kcan4''\<rparr>"

definition run_right_arm_group_low_gain_hold :: group_runner where
  "run_right_arm_group_low_gain_hold es soft = run_fixed_group_low_gain_hold es
     \<lparr>gl_soft = soft, gl_torque = uniform_torque es
        [''right_shoulder_pitch_motor'', ''right_shoulder_roll_motor''] (Fin (1 / 2)) (rnd (1 / 10)),
      gl_feedback_torque = None, gl_identity = RIGHT_ARM_GROUP, gl_interface = ''kcan4''\<rparr>"

definition run_left_arm_group_low_gain_hold :: group_runner where
  "run_left_arm_group_low_gain_hold es soft = run_fixed_group_low_gain_hold es
     \<lparr>gl_soft = soft, gl_torque = uniform_torque es
        [''left_shoulder_pitch_motor'', ''left_shoulder_roll_motor''] (Fin (1 / 2)) (rnd (1 / 10)),
      gl_feedback_torque = None, gl_identity = LEFT_ARM_GROUP, gl_interface = ''kcan3''\<rparr>"

definition run_proximal_leg_group_low_gain_hold :: "string \<Rightarrow> group_runner" where
  "run_proximal_leg_group_low_gain_hold side es soft w =
     (if side \<noteq> ''left'' \<and> side \<noteq> ''right''
      then Some (Inl (ValueError ''proximal leg side must be left or right''), group_start w es)
      else run_fixed_group_low_gain_hold es
        \<lparr>gl_soft = soft, gl_torque = uniform_torque es [] (Fin (1 / 2)) (Fin (1 / 2)), gl_feedback_torque = None,
         gl_identity = (if side = ''left'' then LEFT_PROXIMAL_LEG_GROUP else RIGHT_PROXIMAL_LEG_GROUP),
         gl_interface = (if side = ''left'' then ''kcan1'' else ''kcan2'')\<rparr> w)"

definition run_waist_group_low_gain_hold :: group_runner where
  "run_waist_group_low_gain_hold es soft = run_fixed_group_low_gain_hold es
     \<lparr>gl_soft = soft, gl_torque = uniform_torque es [] (Fin (1 / 2)) (Fin (1 / 2)),
      gl_feedback_torque = Some [(''waist_yaw_motor'', Fin (1 / 2)), (''waist_roll_motor'', Fin (5 / 2))],
      gl_identity = WAIST_GROUP, gl_interface = ''kcan1''\<rparr>"

end
