(* ===== verification/GroupWire.thy ===== *)
theory GroupWire
  imports GroupCore PoweredRuns
begin

text \<open>
  The frames a run of several motors puts on the bus, motor by motor. A \<open>wire_rule\<close> says how a frame
  is classified, which frames are allowed and in which order; the interface \<open>disciplined\<close> asks that
  echoes, the enable and the disable obey it, and gives that the preparation, the enabling and the
  verified disable keep the frames of the followed motor in order, whatever happens to the others.
\<close>

section \<open>The wire of one motor of the group\<close>

definition frame_id :: "bytes \<Rightarrow> int" where
  "frame_id f = le_int (take 4 f)"

definition frames_of :: "int \<Rightarrow> bytes list \<Rightarrow> bytes list" where
  "frames_of i fs = filter (\<lambda>f. frame_id f = i) fs"

lemma frame_id_wire: "standard_id i \<Longrightarrow> frame_id (wire_frame i d) = i"
  by (auto simp: frame_id_def wire_frame_def standard_id_def intro: le_int_le_bytes)

text \<open>\<open>d\<close> maps the names of a writer to distinct standard identifiers.\<close>

definition proper_ids :: "(string, int) dict \<Rightarrow> bool" where
  "proper_ids d \<longleftrightarrow> distinct (map snd d) \<and> list_all standard_id (map snd d)"

lemma proper_ids_inj:
  assumes "proper_ids d" and "map_of d n = Some i" and "map_of d n' = Some i'" and "n \<noteq> n'"
  shows "i \<noteq> i'"
  using assms(1,4) map_of_SomeD [OF assms(2)] map_of_SomeD [OF assms(3)] unfolding proper_ids_def
  by (metis distinct_map inj_onD prod.inject snd_conv)

lemma proper_ids_standard: "proper_ids d \<Longrightarrow> map_of d n = Some i \<Longrightarrow> standard_id i"
  by (fastforce simp: proper_ids_def list_all_iff dest: map_of_SomeD)

lemma new_group_writer_proper:
  assumes "new_motor_group_writer iface eps = Inr w"
  shows "proper_ids (mg_can_id_by_name w)" and "mg_wire w = []"
proof -
  from assms have d: "mg_can_id_by_name w = dict_of eps" "mg_wire w = []"
    "length (remdups (map snd (dict_of eps))) = length (dict_of eps)" "list_all standard_id (map snd eps)"
    by (auto simp: new_motor_group_writer_def Let_def list_ex_iff list_all_iff split: if_splits)
  from d(3) have "distinct (map snd (dict_of eps))"
    by (metis length_map length_remdups_eq remdups_id_iff_distinct)
  moreover have "list_all standard_id (map snd (dict_of eps))"
    using d(4) dict_of_subset by (fastforce simp: list_all_iff)
  ultimately show "proper_ids (mg_can_id_by_name w)" by (simp add: d proper_ids_def)
  show "mg_wire w = []" by (fact d(2))
qed

fun mg_payload :: "group_call \<Rightarrow> bytes" where
  "mg_payload (GCommand c) = ec_data c"
| "mg_payload (GEnable _) = ENABLE_PAYLOAD"
| "mg_payload (GDisable _) = DISABLE_PAYLOAD"

fun mg_name :: "group_call \<Rightarrow> string" where
  "mg_name (GCommand c) = ec_motor_name c"
| "mg_name (GEnable n) = n"
| "mg_name (GDisable n) = n"

definition sends_one :: "motor_group_writer \<Rightarrow> group_call \<Rightarrow> motor_group_writer \<Rightarrow> bool" where
  "sends_one w c w' \<longleftrightarrow> (\<exists>j. map_of (mg_can_id_by_name w) (mg_name c) = Some j \<and>
     length (mg_payload c) = 8 \<and> mg_wire w' = mg_wire w @ [wire_frame j (mg_payload c)])"

lemma mg_send_payload_sends:
  "mg_send_payload w name data t = (w', r) \<Longrightarrow> (w' = w \<and> (\<exists>e. r = Inl e)) \<or>
    (\<exists>j. map_of (mg_can_id_by_name w) name = Some j \<and> length data = 8 \<and>
      w' = w\<lparr>mg_wire := mg_wire w @ [wire_frame j data]\<rparr>)"
  by (auto simp: mg_send_payload_def dest: canfd_pack_Inr split: if_splits sum.splits option.splits)

lemma mg_call_sends:
  assumes "mg_call w c t = (w', r)"
  shows "mg_can_id_by_name w' = mg_can_id_by_name w"
    and "(mg_wire w' = mg_wire w \<and> (\<exists>e. r = Inl e)) \<or> sends_one w c w'"
proof -
  show "mg_can_id_by_name w' = mg_can_id_by_name w" using mg_call_frame [of w c t] assms by simp
  show "(mg_wire w' = mg_wire w \<and> (\<exists>e. r = Inl e)) \<or> sends_one w c w'"
    using assms mg_send_payload_sends [of w "mg_name c" "mg_payload c" t]
    by (cases c) (fastforce simp: sends_one_def split: prod.splits sum.splits if_splits)+
qed

section \<open>Rules for the frames of one motor\<close>

record wire_rule =
  wr_step :: "phase \<Rightarrow> emitted \<Rightarrow> phase option"
  wr_kind :: "bytes \<Rightarrow> emitted"
  wr_ok :: "bytes \<Rightarrow> bool"
  wr_own :: "feedback_endpoint \<Rightarrow> bool"

fun runs :: "(phase \<Rightarrow> emitted \<Rightarrow> phase option) \<Rightarrow> phase \<Rightarrow> emitted list \<Rightarrow> phase option" where
  "runs step p [] = Some p"
| "runs step p (x # xs) = (case step p x of None \<Rightarrow> None | Some q \<Rightarrow> runs step q xs)"

lemma runs_append:
  "runs step p (xs @ ys) = (case runs step p xs of None \<Rightarrow> None | Some q \<Rightarrow> runs step q ys)"
  by (induction xs arbitrary: p) (auto split: option.splits)

lemma runs_next_phase: "runs next_phase p xs = run_phases p xs"
  by (induction xs arbitrary: p) (auto split: option.splits)

definition rule_phased ::
  "wire_rule \<Rightarrow> (string, int) dict \<Rightarrow> int \<Rightarrow> phase set \<Rightarrow> motor_group_writer \<Rightarrow> bool" where
  "rule_phased R d i S w \<longleftrightarrow> mg_can_id_by_name w = d \<and> list_all (wr_ok R) (frames_of i (mg_wire w)) \<and>
     (\<exists>p \<in> S. runs (wr_step R) Preparing (map (wr_kind R) (frames_of i (mg_wire w))) = Some p)"

lemma rule_phased_mono: "rule_phased R d i S w \<Longrightarrow> S \<subseteq> T \<Longrightarrow> rule_phased R d i T w"
  by (auto simp: rule_phased_def)

text \<open>\<open>n\<close> is the motor followed, \<open>i\<close> its identifier and \<open>d\<close> the identifiers of the writer.\<close>

abbreviation followed :: "(string, int) dict \<Rightarrow> string \<Rightarrow> int \<Rightarrow> bool" where
  "followed d n i \<equiv> proper_ids d \<and> map_of d n = Some i"

abbreviation motor_in ::
  "wire_rule \<Rightarrow> (string, int) dict \<Rightarrow> int \<Rightarrow> phase set \<Rightarrow> (motor_group_writer, 'm) world_scheme \<Rightarrow> bool" where
  "motor_in R d i S \<equiv> on_writer (rule_phased R d i S)"

lemma motor_in_mono: "motor_in R d i S s \<Longrightarrow> S \<subseteq> T \<Longrightarrow> motor_in R d i T s"
  by (auto simp: on_writer_def intro: rule_phased_mono)

lemma group_weaken:
  assumes "holds (motor_in R d i S) m (\<lambda>_. motor_in R d i T) (\<lambda>_. motor_in R d i U)" and "T \<subseteq> T'" and "U \<subseteq> U'"
  shows "holds (motor_in R d i S) m (\<lambda>_. motor_in R d i T') (\<lambda>_. motor_in R d i U')"
  using assms(1) by (rule holds_conseq) (use assms(2,3) motor_in_mono in auto)

lemma group_call_other:
  assumes "followed d n i" and "mg_name c \<noteq> n"
  shows "keeps (motor_in R d i S) (io_call mg_call c)"
proof (rule holds_io_call)
  fix w t r w' assume w: "rule_phased R d i S w" and c: "mg_call w c t = (w', r)"
  from w have d: "mg_can_id_by_name w = d" by (simp add: rule_phased_def)
  have "frames_of i (mg_wire w') = frames_of i (mg_wire w)"
    using mg_call_sends(2) [OF c]
  proof
    assume "sends_one w c w'"
    then obtain j where j: "map_of d (mg_name c) = Some j" "mg_wire w' = mg_wire w @ [wire_frame j (mg_payload c)]"
      by (auto simp: sends_one_def d)
    from proper_ids_inj [OF _ _ j(1), of n i] assms have "i \<noteq> j" by auto
    with j frame_id_wire [OF proper_ids_standard [OF _ j(1)]] assms(1) show ?thesis by (simp add: frames_of_def)
  qed auto
  with w mg_call_sends(1) [OF c] show "case r of Inl e \<Rightarrow> rule_phased R d i S w' | Inr _ \<Rightarrow> rule_phased R d i S w'"
    by (auto simp: rule_phased_def split: sum.split)
qed

lemma group_call_own:
  assumes "followed d n i" and "mg_name c = n"
    and frame: "length (mg_payload c) = 8 \<Longrightarrow> wr_kind R (wire_frame i (mg_payload c)) = k \<and> wr_ok R (wire_frame i (mg_payload c))"
    and move: "\<forall>p \<in> S. \<exists>q \<in> T. wr_step R p k = Some q"
  shows "holds (motor_in R d i S) (io_call mg_call c) (\<lambda>_. motor_in R d i T) (\<lambda>_. motor_in R d i (S \<union> T))"
proof (rule holds_io_call)
  fix w t r w' assume w: "rule_phased R d i S w" and c: "mg_call w c t = (w', r)"
  from w have d: "mg_can_id_by_name w = d" "mg_can_id_by_name w' = d"
    using mg_call_sends(1) [OF c] by (simp_all add: rule_phased_def)
  from mg_call_sends(2) [OF c]
  show "case r of Inl e \<Rightarrow> rule_phased R d i (S \<union> T) w' | Inr _ \<Rightarrow> rule_phased R d i T w'"
  proof
    assume "mg_wire w' = mg_wire w \<and> (\<exists>e. r = Inl e)"
    with w d show ?thesis by (auto simp: rule_phased_def)
  next
    assume "sends_one w c w'"
    then have l: "length (mg_payload c) = 8" "mg_wire w' = mg_wire w @ [wire_frame i (mg_payload c)]"
      using assms(1,2) by (auto simp: sends_one_def d)
    have "frame_id (wire_frame i (mg_payload c)) = i"
      using assms(1) by (auto intro: frame_id_wire proper_ids_standard)
    moreover from w move obtain p q where "p \<in> S" "q \<in> T" "wr_step R p k = Some q"
      "runs (wr_step R) Preparing (map (wr_kind R) (frames_of i (mg_wire w))) = Some p" by (auto simp: rule_phased_def)
    ultimately have "rule_phased R d i T w'"
      using w l d frame [OF l(1)] by (auto simp: rule_phased_def frames_of_def runs_append)
    then show ?thesis using rule_phased_mono [of R d i T w' "S \<union> T"] by (auto split: sum.split)
  qed
qed

section \<open>Pushing invariants through a run\<close>

lemma holds_get_bind:
  assumes "\<And>s. P s \<Longrightarrow> holds P (k (f s)) Q E"
  shows "holds P (io_bind (io_get f) k) Q E"
  using assms unfolding holds_def by (simp add: io_bind_def io_get_def)

lemma keeps_no_steps: "keeps I (steps [])"
  by (simp add: keeps_return)

lemma keeps_more_steps: "keeps I m \<Longrightarrow> keeps I (steps ms) \<Longrightarrow> keeps I (steps (m # ms))"
  unfolding steps.simps by (rule keeps_then)

lemmas keeps_intros = keeps_bind keeps_then keeps_catch keeps_loop keeps_return keeps_raise keeps_lift keeps_get
  keeps_when keeps_for keeps_if keeps_Let keeps_pair keeps_no_steps keeps_more_steps

lemma group_receive: "keeps (motor_in R d i S) (receive_endpoint e t)"
  unfolding receive_endpoint_def by (rule keeps_receive_selected)

lemma echo_name:
  assumes "encode_zero_gain_position_echo e x = Inr ec"
  shows "ec_motor_name ec = ep_motor_name e"
proof -
  from assms obtain c s env where "encode_damiao_mit_command e c s env = Inr ec"
    by (auto simp: encode_zero_gain_position_echo_def rbind_eq_Inr Let_def)
  then show ?thesis by (rule encode_spec) simp
qed

section \<open>Programs that keep a rule\<close>

locale disciplined =
  fixes R :: wire_rule
  assumes echo_steps: "wr_step R Preparing Echo = Some Preparing" "wr_step R Disabling Echo = Some Disabling"
    and enable_steps: "wr_step R Preparing Enable = Some Powered"
    and disable_steps: "wr_step R p Disable = Some Disabling"
    and enable_frame: "wr_kind R (wire_frame j ENABLE_PAYLOAD) = Enable" "wr_ok R (wire_frame j ENABLE_PAYLOAD)"
    and disable_frame: "wr_kind R (wire_frame j DISABLE_PAYLOAD) = Disable" "wr_ok R (wire_frame j DISABLE_PAYLOAD)"
    and echo_frame: "wr_own R e \<Longrightarrow> encode_zero_gain_position_echo e x = Inr c \<Longrightarrow>
      wr_kind R (wire_frame j (ec_data c)) = Echo \<and> wr_ok R (wire_frame j (ec_data c))"
begin

lemma echo_phase:
  assumes "followed d n i" and "S \<subseteq> {Preparing, Disabling}" and "ep_motor_name e = n \<Longrightarrow> wr_own R e"
  shows "keeps (motor_in R d i S) (group_echo e x)"
  unfolding group_echo_def
proof (rule holds_lift_bind)
  fix c assume c: "encode_zero_gain_position_echo e x = Inr c"
  have move: "\<forall>p \<in> S. \<exists>q \<in> S. wr_step R p Echo = Some q" using assms(2) echo_steps by auto
  show "keeps (motor_in R d i S) (io_call mg_call (GCommand c))"
  proof (cases "ec_motor_name c = n")
    case True
    with echo_name [OF c] assms(3) have "wr_own R e" by simp
    from group_call_own [OF assms(1) _ _ move, of "GCommand c"] True echo_frame [OF this c]
    show ?thesis by simp
  next
    case False
    with assms(1) group_call_other [of d n i "GCommand c"] show ?thesis by simp
  qed
qed simp

lemma echo_other:
  assumes "followed d n i" and "ep_motor_name e \<noteq> n"
  shows "keeps (motor_in R d i S) (group_echo e x)"
  unfolding group_echo_def
  by (rule holds_lift_bind) (use assms echo_name in \<open>auto intro!: group_call_other\<close>)

lemma prepare_phase:
  assumes "followed d n i" and "ep_motor_name e = n \<Longrightarrow> wr_own R e"
  shows "keeps (motor_in R d i {Preparing}) (prepare_motor timeout position_of e)"
  unfolding prepare_motor_def
  by (intro keeps_intros group_receive echo_phase [OF assms(1)] keeps_require_status keeps_frame)
    (auto intro: assms(2))

lemma enable_phase:
  fixes es :: "feedback_endpoint list"
  assumes f: "followed d n i" and distinct: "distinct (map ep_motor_name es)" and e: "n \<in> set (map ep_motor_name es)"
  shows "holds (motor_in R d i {Preparing}) (enable_all es)
    (\<lambda>_. motor_in R d i {Powered}) (\<lambda>_. motor_in R d i {Preparing, Powered})"
proof -
  let ?S = "\<lambda>xs :: feedback_endpoint list. if n \<in> set (map ep_motor_name xs) then {Powered} else {Preparing}"
  have "holds (motor_in R d i (?S [])) (io_for (\<lambda>e. io_call mg_call (GEnable (ep_motor_name e))) es)
      (\<lambda>_. motor_in R d i (?S es)) (\<lambda>_. motor_in R d i {Preparing, Powered})"
  proof (rule holds_for_prefix [where I = "\<lambda>xs. motor_in R d i (?S xs)"])
    fix xs x ys assume es: "es = xs @ x # ys"
    show "holds (motor_in R d i (?S xs)) (io_call mg_call (GEnable (ep_motor_name x)))
        (\<lambda>_. motor_in R d i (?S (xs @ [x]))) (\<lambda>_. motor_in R d i {Preparing, Powered})"
    proof (cases "ep_motor_name x = n")
      case True
      with es distinct have "n \<notin> set (map ep_motor_name xs)" by auto
      with True group_call_own [OF f, of "GEnable n" R Enable "{Preparing}" "{Powered}"] enable_frame enable_steps
      show ?thesis by (simp add: insert_commute)
    next
      case False
      then have "?S (xs @ [x]) = ?S xs" by auto
      moreover from False f have "keeps (motor_in R d i (?S xs)) (io_call mg_call (GEnable (ep_motor_name x)))"
        by (intro group_call_other) auto
      ultimately show ?thesis by (auto intro: group_weaken)
    qed
  qed
  with e show ?thesis by (simp add: enable_all_def)
qed

lemma disable_own:
  assumes "followed d n i"
  shows "holds (motor_in R d i any_phase) (io_call mg_call (GDisable n)) (\<lambda>_. motor_in R d i {Disabling})
    (\<lambda>_. motor_in R d i any_phase)"
  using group_call_own [OF assms, of "GDisable n" R Disable any_phase "{Disabling}"] disable_frame disable_steps
  by (simp add: insert_commute insert_absorb)

lemma disable_phase:
  assumes "followed d n i"
  shows "keeps (motor_in R d i any_phase) (io_call mg_call (GDisable m))"
proof (cases "m = n")
  case True
  from disable_own [OF assms] show ?thesis unfolding True by (rule group_weaken) auto
next
  case False
  with assms show ?thesis by (intro group_call_other) auto
qed

text \<open>A motor that was just disabled may be polled.\<close>

lemma disable_echo_phase:
  assumes f: "followed d n i" and own: "ep_motor_name e = n \<Longrightarrow> wr_own R e" and rest: "\<And>S. keeps (motor_in R d i S) m"
  shows "keeps (motor_in R d i any_phase) (io_then (io_call mg_call (GDisable (ep_motor_name e)))
    (io_bind (io_get pos) (\<lambda>x. io_then (group_echo e x) m)))"
proof (cases "ep_motor_name e = n")
  case True
  have "keeps (motor_in R d i {Disabling}) (io_bind (io_get pos) (\<lambda>x. io_then (group_echo e x) m))"
    using echo_phase [OF f, of "{Disabling}", OF _ own] by (intro keeps_intros rest) simp
  then have "holds (motor_in R d i {Disabling}) (io_bind (io_get pos) (\<lambda>x. io_then (group_echo e x) m))
      (\<lambda>_. motor_in R d i any_phase) (\<lambda>_. motor_in R d i any_phase)"
    by (rule group_weaken) auto
  with disable_own [OF f] show ?thesis unfolding True by (rule holds_then)
next
  case False
  then show ?thesis by (intro keeps_intros disable_phase [OF f] echo_other [OF f] rest)
qed

lemma shut_down_phase:
  assumes "followed d n i" and "\<And>e. e \<in> set es \<Longrightarrow> ep_motor_name e = n \<Longrightarrow> wr_own R e"
  shows "keeps (motor_in R d i any_phase) (group_shut_down timeout position_of es)"
proof -
  have disable: "keeps (motor_in R d i any_phase) (disable_all es)"
    unfolding disable_all_def
    by (intro keeps_intros disable_phase [OF assms(1)] keeps_pause keeps_frame) (simp add: group_errors_def)
  have "keeps (motor_in R d i any_phase) (verify_disabled timeout position_of e)" if "e \<in> set es" for e
    unfolding verify_disabled_def verify_round_def Let_def
    by (intro keeps_intros keeps_monotonic disable_echo_phase [OF assms(1)] assms(2) [OF that] group_receive keeps_frame)
      (simp_all add: group_errors_def)
  then show ?thesis unfolding group_shut_down_def
    by (intro keeps_intros disable)
qed

lemma power_phase:
  fixes es :: "feedback_endpoint list"
  assumes f: "followed d n i" and d: "distinct (map ep_motor_name es)" and n: "n \<in> set (map ep_motor_name es)"
    and own: "\<And>e. e \<in> set es \<Longrightarrow> ep_motor_name e = n \<Longrightarrow> wr_own R e"
    and work: "\<And>t. keeps (motor_in R d i {Powered}) (work t)"
  shows "holds (motor_in R d i {Preparing}) (powered_run timeout position_of es duration work period)
    (\<lambda>_. motor_in R d i {Powered}) (\<lambda>_. motor_in R d i {Preparing, Powered})"
proof -
  let ?E = "\<lambda>_. motor_in R d i {Preparing, Powered}"
  have prepare: "holds (motor_in R d i {Preparing}) (io_for (prepare_motor timeout position_of) es)
      (\<lambda>_. motor_in R d i {Preparing}) ?E"
    by (rule group_weaken, rule keeps_for, rule prepare_phase [OF f own], auto)
  have "keeps (motor_in R d i {Powered})
      (io_bind monotonic (\<lambda>start. io_loop 0 (paced_cycle duration work period start) start))"
    unfolding paced_cycle_def Let_def by (intro keeps_rules keeps_monotonic keeps_pause work)
  then have power: "holds (motor_in R d i {Powered})
      (io_bind monotonic (\<lambda>start. io_loop 0 (paced_cycle duration work period start) start))
      (\<lambda>_. motor_in R d i {Powered}) ?E"
    by (rule group_weaken) auto
  show ?thesis unfolding powered_run_def
    by (rule holds_steps_Cons [OF prepare], rule holds_steps_Cons [OF enable_phase [OF f d n]],
        rule holds_steps_Cons [OF power], rule holds_steps_Nil, assumption)
qed

lemma guarded_phase:
  assumes f: "followed d n i" and own: "\<And>e. e \<in> set es \<Longrightarrow> ep_motor_name e = n \<Longrightarrow> wr_own R e"
    and body: "holds (motor_in R d i {Preparing}) body (\<lambda>_. motor_in R d i {Powered})
      (\<lambda>_. motor_in R d i {Preparing, Powered})"
  shows "holds (motor_in R d i {Preparing}) (guarded_run timeout position_of es body)
    (\<lambda>_. motor_in R d i any_phase) (\<lambda>_. motor_in R d i any_phase)"
  unfolding guarded_run_def
proof (rule holds_then [OF _ shut_down_phase [OF f own]], rule group_weaken)
  show "holds (motor_in R d i {Preparing}) (io_catch body (\<lambda>exc. io_modify (group_errors (exc_text exc))))
      (\<lambda>_. motor_in R d i {Preparing, Powered}) (\<lambda>_. motor_in R d i {Preparing, Powered})"
  proof (rule holds_catch)
    show "holds (motor_in R d i {Preparing}) body (\<lambda>_. motor_in R d i {Preparing, Powered})
        (\<lambda>_. motor_in R d i {Preparing, Powered})"
      by (rule group_weaken [OF body]) auto
    show "keeps (motor_in R d i {Preparing, Powered}) (io_modify (group_errors (exc_text exc)))" for exc
      by (rule keeps_frame) (simp add: group_errors_def)
  qed
qed auto

end

section \<open>How often a motor is disabled\<close>

definition disables_of :: "int \<Rightarrow> motor_group_writer \<Rightarrow> nat" where
  "disables_of i w = count_list (map emitted_of (frames_of i (mg_wire w))) Disable"

text \<open>Every transmission to come succeeds and motor \<open>i\<close> was disabled \<open>k\<close> times.\<close>

definition group_sent ::
  "(string, int) dict \<Rightarrow> int \<Rightarrow> nat \<Rightarrow> motor_group_writer \<Rightarrow> sent list \<Rightarrow> bool" where
  "group_sent d i k w txs \<longleftrightarrow> list_all (\<lambda>t. t = Some 72) txs \<and> mg_can_id_by_name w = d \<and> k \<le> disables_of i w"

lemma disables_of_call:
  assumes "mg_call w c t = (w', r)"
  shows "disables_of i w \<le> disables_of i w'"
  using mg_call_sends(2) [OF assms] by (auto simp: disables_of_def sends_one_def frames_of_def)

lemma group_disable_ok:
  assumes "proper_ids (mg_can_id_by_name w)" and "map_of (mg_can_id_by_name w) n = Some i"
    and "mg_call w (GDisable n) (Some 72) = (w', r)"
  shows "r = Inr ()" and "disables_of i w' = Suc (disables_of i w)"
proof -
  have l: "length DISABLE_PAYLOAD = 8" by (simp add: DISABLE_PAYLOAD_def)
  note i = proper_ids_standard [OF assms(1,2)]
  have "mg_send_payload w n DISABLE_PAYLOAD (Some 72) =
      (w\<lparr>mg_wire := mg_wire w @ [wire_frame i DISABLE_PAYLOAD]\<rparr>, Inr ())"
    using assms(2) l i by (simp add: mg_send_payload_def canfd_pack_wire short_write_check_def length_wire_frame)
  with assms(3) show "r = Inr ()" "disables_of i w' = Suc (disables_of i w)"
    using frame_id_wire [OF i] payload_of_wire_frame [OF l] DISABLE_kind
    by (auto simp: disables_of_def frames_of_def emitted_of_def)
qed

lemma keeps_group_sent: "keeps (on_bus (group_sent d i k)) (io_call mg_call c)"
proof -
  have "on_bus (group_sent d i k) s'" if "on_bus (group_sent d i k) s" "io_call mg_call c s = Some (r, s')" for s s' r
  proof -
    from that obtain ts w' where t: "wd_tx s = Some 72 # ts" "mg_call (wd_writer s) c (Some 72) = (w', r)"
      "wd_writer s' = w'" "wd_tx s' = ts"
      by (auto simp: on_bus_def group_sent_def io_call_def split: list.splits prod.splits)
    with that(1) mg_call_sends(1) [OF t(2)] disables_of_call [OF t(2), of i] show ?thesis
      by (auto simp: on_bus_def group_sent_def)
  qed
  then show ?thesis by (auto simp: holds_def split: sum.splits)
qed

lemma group_sent_disable:
  assumes "followed d n i"
  shows "never_raises (on_bus (group_sent d i k)) (io_call mg_call (GDisable n)) (\<lambda>_. on_bus (group_sent d i (Suc k)))"
proof -
  have "r = Inr () \<and> on_bus (group_sent d i (Suc k)) s'"
    if "on_bus (group_sent d i k) s" "io_call mg_call (GDisable n) s = Some (r, s')" for s s' r
  proof -
    from that obtain ts w' where t: "wd_tx s = Some 72 # ts" "mg_call (wd_writer s) (GDisable n) (Some 72) = (w', r)"
      "wd_writer s' = w'" "wd_tx s' = ts"
      by (auto simp: on_bus_def group_sent_def io_call_def split: list.splits prod.splits)
    from that(1) have d: "mg_can_id_by_name (wd_writer s) = d" by (simp add: on_bus_def group_sent_def)
    with assms group_disable_ok [OF _ _ t(2), of i] that(1) t mg_call_sends(1) [OF t(2)] show ?thesis
      by (auto simp: on_bus_def group_sent_def)
  qed
  then show ?thesis by (fastforce simp: holds_def)
qed

lemma group_sent_receive: "keeps (on_bus (group_sent d i k)) (receive_endpoint e t)"
  unfolding receive_endpoint_def by (rule keeps_receive_bus)

lemma group_sent_echo: "keeps (on_bus (group_sent d i k)) (group_echo e x)"
  unfolding group_echo_def by (intro keeps_intros keeps_group_sent)

lemmas group_sent_rules = keeps_intros keeps_group_sent group_sent_receive group_sent_echo keeps_bus
  keeps_require_status keeps_frame_bus

lemma group_sent_verify: "keeps (on_bus (group_sent d i k)) (io_for (verify_disabled timeout position_of) es)"
  unfolding verify_disabled_def verify_round_def
  by (intro group_sent_rules) (simp_all add: group_errors_def)

lemma group_sent_disable_all:
  assumes f: "followed d n i" and e: "n \<in> set (map ep_motor_name es)"
  shows "keeps (on_bus (group_sent d i (Suc k))) (disable_all es)"
    and "holds (on_bus (group_sent d i k)) (disable_all es) (\<lambda>_. on_bus (group_sent d i (Suc k)))
      (\<lambda>_. on_bus (group_sent d i (Suc k)))"
proof -
  let ?I = "\<lambda>k. on_bus (group_sent d i k) :: (motor_group_writer, _) world_scheme \<Rightarrow> bool"
  let ?one = "\<lambda>e :: feedback_endpoint. io_catch (io_call mg_call (GDisable (ep_motor_name e)))
        (\<lambda>exc. io_modify (group_errors (ep_motor_name e @ '' disable failed: '' @ exc_text exc)))"
  let ?k = "\<lambda>xs :: feedback_endpoint list. if n \<in> set (map ep_motor_name xs) then Suc k else k"
  show "keeps (?I (Suc k)) (disable_all es)"
    unfolding disable_all_def by (intro group_sent_rules) (simp add: group_errors_def)
  have one: "keeps (?I j) (?one e)" for j e
    by (intro group_sent_rules) (simp add: group_errors_def)
  have "holds (?I (?k [])) (io_for ?one es) (\<lambda>_. ?I (?k es)) (\<lambda>_. ?I (Suc k))"
  proof (rule holds_for_prefix [where I = "\<lambda>xs. ?I (?k xs)"])
    fix xs x ys
    have never: "never_raises P (?one x) (\<lambda>_ _. True)" for P
      by (simp add: holds_def io_catch_def io_modify_def split: option.splits sum.splits)
    show "holds (?I (?k xs)) (?one x) (\<lambda>_. ?I (?k (xs @ [x]))) (\<lambda>_. ?I (Suc k))"
    proof (cases "ep_motor_name x = n \<and> n \<notin> set (map ep_motor_name xs)")
      case True
      then have "never_raises (?I (?k xs)) (?one x) (\<lambda>_. ?I (?k (xs @ [x])))"
        using group_sent_disable [OF f, of k] by (intro holds_catch [where R = "\<lambda>_ _. False"]) (simp_all add: holds_def)
      then show ?thesis by (rule holds_conseq) auto
    next
      case False
      then have "?k (xs @ [x]) = ?k xs" by auto
      with holds_conj [OF one [of "?k xs" x] never [of "?I (?k xs)"]] show ?thesis
        by (auto elim!: holds_conseq)
    qed
  qed
  with e have "holds (?I k) (io_for ?one es) (\<lambda>_. ?I (Suc k)) (\<lambda>_. ?I (Suc k))" by simp
  then show "holds (?I k) (disable_all es) (\<lambda>_. ?I (Suc k)) (\<lambda>_. ?I (Suc k))"
    unfolding disable_all_def by (rule holds_then) (rule keeps_bus)
qed

section \<open>The verdict of the shutdown\<close>

definition all_disabled :: "feedback_endpoint list \<Rightarrow> 'm group_core_scheme \<Rightarrow> bool" where
  "all_disabled es s \<longleftrightarrow> gh_errors s \<noteq> [] \<or>
     (\<forall>e \<in> set es. map_of (gh_final_status s) (ep_motor_name e) = Some (Some ''disabled''))"

lemma all_disabled_Nil: "all_disabled [] = (\<lambda>_. True)"
  by (simp add: all_disabled_def fun_eq_iff)

lemma quiet_all_disabled: "quiet (all_disabled es)"
  by (simp add: quiet_def all_disabled_def)

lemma keeps_quiet_group:
  assumes "quiet J"
  shows "keeps J (receive_endpoint e t)" "keeps J (group_echo e x)"
  unfolding receive_endpoint_def receive_selected_def receive_step_def group_echo_def
  by (intro keeps_intros keeps_quiet assms)+

lemma verify_round_verdict:
  assumes "ep_motor_name e \<notin> set (map ep_motor_name xs)"
  shows "keeps (all_disabled xs) (verify_round timeout position_of e deadline le)"
proof -
  have "all_disabled xs (s\<lparr>gh_final_status := dict_set (gh_final_status s) (ep_motor_name e) v\<rparr>)"
    if "all_disabled xs s" for s v
    using that assms by (auto simp: all_disabled_def image_iff)
  then show ?thesis unfolding verify_round_def Let_def
    by (intro keeps_intros keeps_quiet_group keeps_quiet quiet_all_disabled keeps_modify) auto
qed

lemma verify_disabled_verdict:
  assumes "ep_motor_name e \<notin> set (map ep_motor_name xs)"
  shows "holds (all_disabled xs) (verify_disabled timeout position_of e) (\<lambda>_. all_disabled (xs @ [e])) (\<lambda>_ _. True)"
proof -
  let ?last = "\<lambda>last_error. io_bind (io_get (\<lambda>s. lookup_result (gh_final_status s) (ep_motor_name e)))
      (\<lambda>r. io_bind (io_lift r) (\<lambda>status. io_when (status \<noteq> Some ''disabled'')
         (io_modify (group_errors (ep_motor_name e @ '' final disabled verification failed'' @
           (case last_error of Some m \<Rightarrow> if m = [] then [] else '': '' @ m | None \<Rightarrow> []))))))"
  have last: "holds (all_disabled xs) (?last le) (\<lambda>_. all_disabled (xs @ [e])) (\<lambda>_ _. True)" for le
    by (auto simp: holds_def io_app io_when_app lookup_result_def all_disabled_def group_errors_def
        split: option.splits sum.splits)
  have loop: "holds (all_disabled xs) (io_loop 0 (verify_round timeout position_of e dl) None) (\<lambda>_. all_disabled xs) (\<lambda>_ _. True)" for dl
    by (rule holds_any, intro keeps_loop verify_round_verdict assms)
  show ?thesis unfolding verify_disabled_def Let_def
    by (rule holds_bind [OF holds_any [OF keeps_quiet(1) [OF quiet_all_disabled]]], rule holds_bind [OF loop last])
qed

lemma shut_down_all_disabled:
  assumes "distinct (map ep_motor_name es)"
  shows "holds (\<lambda>_. True) (group_shut_down timeout position_of es) (\<lambda>_. all_disabled es) (\<lambda>_ _. True)"
proof -
  have any: "holds (\<lambda>_. True) m (\<lambda>_ _. True) (\<lambda>_ _. True)" for m :: "('m group_core_scheme, unit) io"
    by (simp add: holds_def split: sum.split)
  have "holds (all_disabled []) (io_for (verify_disabled timeout position_of) es) (\<lambda>_. all_disabled es) (\<lambda>_ _. True)"
    by (rule holds_for_prefix, rule verify_disabled_verdict) (use assms in auto)
  then have verify: "holds (\<lambda>_. True) (io_for (verify_disabled timeout position_of) es) (\<lambda>_. all_disabled es) (\<lambda>_ _. True)"
    by (simp add: all_disabled_Nil)
  show ?thesis unfolding group_shut_down_def
    by (rule holds_steps_Cons [OF any], rule holds_steps_Cons [OF any], rule holds_steps_Cons [OF any],
        rule holds_steps_Cons [OF verify], rule holds_steps_Nil)
qed

lemma guarded_verdict:
  assumes "distinct (map ep_motor_name es)"
  shows "holds (\<lambda>_. True) (guarded_run timeout position_of es body) (\<lambda>_. all_disabled es) (\<lambda>_ _. True)"
  unfolding guarded_run_def
  by (rule holds_then [where R = "\<lambda>_. True"], simp add: holds_def split: sum.split, rule shut_down_all_disabled [OF assms])

lemma guarded_disables:
  fixes es :: "feedback_endpoint list"
  assumes f: "followed d n i" and e: "n \<in> set (map ep_motor_name es)"
    and body: "keeps (on_bus (group_sent d i 0)) body"
  shows "holds (on_bus (group_sent d i 0)) (guarded_run timeout position_of es body) (\<lambda>_. on_bus (group_sent d i 3))
    (\<lambda>_. on_bus (group_sent d i 1))"
proof -
  let ?I = "\<lambda>k. on_bus (group_sent d i k) :: 'a group_core_scheme \<Rightarrow> bool"
  have less: "?I k s \<Longrightarrow> j \<le> k \<Longrightarrow> ?I j s" for j k s
    by (auto simp: on_bus_def group_sent_def)
  have round: "holds (?I k) (disable_all es) (\<lambda>_. ?I (Suc k)) (\<lambda>_. ?I 1)" for k
    by (rule holds_conseq [OF group_sent_disable_all(2) [OF f e, of k]]) (auto intro: less)
  have verify: "holds (?I 3) (io_for (verify_disabled timeout position_of) es) (\<lambda>_. ?I 3) (\<lambda>_. ?I 1)"
    by (rule holds_conseq [OF group_sent_verify [of d i 3]]) (auto intro: less)
  have shut: "holds (?I 0) (group_shut_down timeout position_of es) (\<lambda>_. ?I 3) (\<lambda>_. ?I 1)"
    unfolding group_shut_down_def
    by (rule holds_steps_Cons [OF round], rule holds_steps_Cons [OF round], rule holds_steps_Cons [OF round],
        simp only: numeral_3_eq_3 [symmetric], rule holds_steps_Cons [OF verify], rule holds_steps_Nil)
  have caught: "never_raises (?I 0) (io_catch body (\<lambda>exc. io_modify (group_errors (exc_text exc)))) (\<lambda>_. ?I 0)"
    by (rule holds_catch [OF body], rule holds_modify) (simp add: on_bus_def group_errors_def)
  show ?thesis unfolding guarded_run_def
    by (rule holds_then [OF _ shut], rule holds_conseq [OF caught]) auto
qed

section \<open>Evidence that outlives the shutdown\<close>

text \<open>An assertion the environment, the list of errors and the verdicts do not touch.\<close>

definition detached :: "('m group_core_scheme \<Rightarrow> bool) \<Rightarrow> bool" where
  "detached J \<longleftrightarrow> quiet J \<and>
     (\<forall>s x y. J (s\<lparr>gh_errors := x\<rparr>) = J s \<and> J (s\<lparr>gh_final_status := y\<rparr>) = J s)"

lemma powered_evidence:
  assumes q: "quiet J" and prepare: "\<And>e. keeps J (prepare_motor timeout position_of e)"
    and work: "\<And>t. holds J (work t) (\<lambda>_. J) (\<lambda>_ _. True)"
  shows "holds J (powered_run timeout position_of es duration work period) (\<lambda>_. J) (\<lambda>_ _. True)"
proof -
  note clock = holds_any [OF keeps_quiet(1) [OF q]] and wait = holds_any [OF keeps_quiet(3) [OF q]]
  have p: "holds J (io_for (prepare_motor timeout position_of) es) (\<lambda>_. J) (\<lambda>_ _. True)"
    by (intro holds_any keeps_for prepare)
  have e: "holds J (enable_all es) (\<lambda>_. J) (\<lambda>_ _. True)"
    unfolding enable_all_def by (intro holds_any keeps_for keeps_quiet q)
  have c: "holds J (paced_cycle duration work period start x) (\<lambda>_. J) (\<lambda>_ _. True)" for start x
    unfolding paced_cycle_def Let_def
    by (auto intro!: holds_bind [OF clock] holds_then [OF wait] holds_then [OF work] holds_return)
  have power: "holds J (io_bind monotonic (\<lambda>start. io_loop 0 (paced_cycle duration work period start) start))
      (\<lambda>_. J) (\<lambda>_ _. True)"
    by (rule holds_bind [OF clock], rule evidence_loop, rule c)
  show ?thesis unfolding powered_run_def
    by (rule holds_steps_Cons [OF p], rule holds_steps_Cons [OF e], rule holds_steps_Cons [OF power],
        rule holds_steps_Nil)
qed

lemma guarded_evidence:
  assumes "detached J" and body: "holds P body (\<lambda>_. J) (\<lambda>_ _. True)"
  shows "holds P (guarded_run timeout position_of es body) (\<lambda>_ s. gh_errors s \<noteq> [] \<or> J s) (\<lambda>_ _. True)"
proof -
  let ?F = "\<lambda>s. gh_errors s \<noteq> [] \<or> J s"
  have q: "quiet ?F" using assms(1) by (auto simp: detached_def quiet_def)
  have "keeps ?F (group_shut_down timeout position_of es)"
    unfolding group_shut_down_def disable_all_def verify_disabled_def verify_round_def Let_def
    by (intro keeps_intros keeps_quiet keeps_quiet_group q keeps_modify)
      (use assms(1) in \<open>auto simp: detached_def group_errors_def\<close>)
  then have shut: "holds ?F (group_shut_down timeout position_of es) (\<lambda>_. ?F) (\<lambda>_ _. True)" by (rule holds_any)
  have "holds P (io_catch body (\<lambda>exc. io_modify (group_errors (exc_text exc)))) (\<lambda>_. ?F) (\<lambda>_ _. True)"
    by (rule holds_catch [where R = "\<lambda>_ _. True"], rule holds_conseq [OF body])
      (auto simp: group_errors_def intro: holds_modify)
  then show ?thesis unfolding guarded_run_def by (rule holds_then [OF _ shut])
qed

section \<open>A run from its start\<close>

lemma run_disables:
  fixes es :: "feedback_endpoint list"
  assumes run: "guarded_run timeout position_of es body s0 = Some (res, s)"
    and f: "followed (mg_can_id_by_name (wd_writer s0)) n i" and n: "n \<in> set (map ep_motor_name es)"
    and body: "keeps (on_bus (group_sent (mg_can_id_by_name (wd_writer s0)) i 0)) body"
    and tx: "list_all (\<lambda>t. t = Some 72) (wd_tx s0)"
  shows "(case res of Inr _ \<Rightarrow> 3 | Inl _ \<Rightarrow> 1) \<le> disables_of i (wd_writer s)"
proof -
  have "on_bus (group_sent (mg_can_id_by_name (wd_writer s0)) i 0) s0"
    using tx by (simp add: on_bus_def group_sent_def)
  from holdsD [OF guarded_disables [OF f n body] this] run show ?thesis
    by (cases res) (force simp: on_bus_def group_sent_def)+
qed

context disciplined begin

lemma run_in_order:
  fixes es :: "feedback_endpoint list"
  assumes run: "guarded_run timeout position_of es body s0 = Some (res, s)"
    and f: "followed (mg_can_id_by_name (wd_writer s0)) n i" and empty: "mg_wire (wd_writer s0) = []"
    and own: "\<And>e. e \<in> set es \<Longrightarrow> ep_motor_name e = n \<Longrightarrow> wr_own R e"
    and body: "holds (motor_in R (mg_can_id_by_name (wd_writer s0)) i {Preparing}) body
      (\<lambda>_. motor_in R (mg_can_id_by_name (wd_writer s0)) i {Powered})
      (\<lambda>_. motor_in R (mg_can_id_by_name (wd_writer s0)) i {Preparing, Powered})"
  shows "rule_phased R (mg_can_id_by_name (wd_writer s0)) i any_phase (wd_writer s)"
proof -
  have "motor_in R (mg_can_id_by_name (wd_writer s0)) i {Preparing} s0"
    by (simp add: on_writer_def empty rule_phased_def frames_of_def)
  from holds_stateD [OF guarded_phase [OF f own body] run this] show ?thesis by (simp add: on_writer_def)
qed

end

end
