(* ===== verification/GroupSafety.thy ===== *)
theory GroupSafety
  imports GroupHold GroupWire
begin

text \<open>
  The frames a group hold puts on the bus: those of one motor follow the automaton of a single
  powered run with the frozen gains, whatever happens to the other motors.
\<close>

definition hold_rule :: wire_rule where
  "hold_rule = \<lparr>wr_step = next_phase, wr_kind = emitted_of, wr_ok = gains_ok 1 40, wr_own = (\<lambda>_. True)\<rparr>"

lemma control_frames:
  "emitted_of (wire_frame j ENABLE_PAYLOAD) = Enable" "emitted_of (wire_frame j DISABLE_PAYLOAD) = Disable"
  using ENABLE_kind DISABLE_kind
  by (simp_all add: emitted_of_def payload_of_wire_frame ENABLE_PAYLOAD_def DISABLE_PAYLOAD_def)

interpretation hold_wire: disciplined hold_rule
proof
  fix e x c j assume "encode_zero_gain_position_echo e x = Inr c"
  from echo_payload [OF this] show "wr_kind hold_rule (wire_frame j (ec_data c)) = Echo \<and> wr_ok hold_rule (wire_frame j (ec_data c))"
    by (simp add: hold_rule_def emitted_of_def gains_ok_def payload_of_wire_frame)
qed (simp_all add: hold_rule_def control_frames gains_ok_def)

lemma group_measure_phase:
  assumes "followed d n i"
  shows "keeps (motor_in hold_rule d i {Preparing}) (group_measure p e)"
  unfolding group_measure_def
  by (intro keeps_intros group_receive hold_wire.echo_phase [OF assms] keeps_require_status keeps_frame)
    (auto simp: hold_rule_def)

lemma group_command_phase:
  assumes "followed d n i"
  shows "keeps (motor_in hold_rule d i {Powered}) (group_command p e)"
proof -
  have call: "keeps (motor_in hold_rule d i {Powered}) (io_call mg_call (GCommand ec))"
    if "group_encode p e x l = Inr (ec, c, m)" for x l ec c m
  proof (cases "ec_motor_name ec = n")
    case True
    from that obtain env where e: "encode_damiao_mit_command e c m env = Inr ec"
      "mc_kp c = rnd (2 / 10)" "mc_kd c = rnd (5 / 100)"
      by (auto simp: group_encode_def group_request_def new_mit_command_def rbind_eq_Inr Let_def split: if_splits)
    from group_call_own [OF assms, of "GCommand ec" hold_rule Command "{Powered}" "{Powered}"] True
      hold_gains.command_payload [OF e] show ?thesis
      by (simp add: hold_rule_def emitted_of_def gains_ok_def payload_of_wire_frame)
  next
    case False
    with assms group_call_other [of d n i "GCommand ec"] show ?thesis by simp
  qed
  have accept: "keeps (motor_in hold_rule d i {Powered}) (group_accept p fb)" for fb
    unfolding group_accept_def by (intro keeps_intros keeps_frame keeps_require_status; simp add: note_group_def)
  have rest: "keeps (motor_in hold_rule d i {Powered}) (case y of (encoded, command, measured) \<Rightarrow>
       let commanded = estimated_output_torque command measured in steps
       [io_modify (\<lambda>s. s\<lparr>gh_max_commanded := adjust nm (\<lambda>m. fmax m (fabs commanded)) (gh_max_commanded s)\<rparr>),
        io_call mg_call (GCommand encoded),
        io_modify (\<lambda>s. s\<lparr>gh_command_count := adjust nm Suc (gh_command_count s)\<rparr>),
        io_bind (receive_endpoint e group_timeout) (\<lambda>fb. steps
          [group_accept p fb, io_modify (\<lambda>s. s\<lparr>gh_latest := dict_set (gh_latest s) nm fb\<rparr>)])])"
    if "group_encode p e x l = Inr y" for y x l nm
  proof (cases y)
    case (fields encoded command measured)
    note c = call [OF that [unfolded fields]]
    show ?thesis unfolding fields prod.case
      by (intro keeps_intros c keeps_frame accept group_receive; simp)
  qed
  show ?thesis unfolding group_command_def Let_def
    by (intro holds_get_bind holds_lift_bind) (rule rest [unfolded Let_def])
qed

lemma group_body_phase:
  assumes f: "followed d n i" and "distinct (map ep_motor_name es)" and "n \<in> set (map ep_motor_name es)"
  shows "holds (motor_in hold_rule d i {Preparing}) (group_body p es per)
    (\<lambda>_. motor_in hold_rule d i {Powered}) (\<lambda>_. motor_in hold_rule d i {Preparing, Powered})"
proof -
  have measure: "holds (motor_in hold_rule d i {Preparing}) (io_for (group_measure p) es)
      (\<lambda>_. motor_in hold_rule d i {Preparing}) (\<lambda>_. motor_in hold_rule d i {Preparing, Powered})"
    by (rule group_weaken, rule keeps_for, rule group_measure_phase [OF f], auto)
  have work: "keeps (motor_in hold_rule d i {Powered}) (io_for (group_command p) es)"
    by (intro keeps_for group_command_phase [OF f])
  show ?thesis unfolding group_body_def
    by (rule holds_steps_Cons [OF measure], rule holds_steps_Cons [OF hold_wire.power_phase [OF assms]])
      (simp add: hold_rule_def, rule work, rule holds_steps_Nil)
qed

lemma group_sent_body: "keeps (on_bus (group_sent d i k)) (group_body p es per)"
  unfolding group_body_def group_measure_def prepare_motor_def enable_all_def powered_run_def paced_cycle_def
    group_command_def group_accept_def
  by (intro group_sent_rules) (simp_all add: note_group_def)

end
