(* ===== verification/GroupRuns.thy ===== *)
theory GroupRuns
  imports GroupSafety
begin

text \<open>
  The properties of the group holds: what a passed report is evidence of, and the theorems on a
  whole run.
\<close>

section \<open>Evidence for one motor\<close>




















section \<open>The whole run\<close>


section \<open>The properties of the group holds\<close>

lemma group_checks_names:
  assumes "group_hold_checks w es p = Inr ()"
  shows "map ep_motor_name es = map fst (gl_identity p)"
    and "n \<in> set (map ep_motor_name es) \<Longrightarrow> \<exists>t. map_of (torque_guard p) n = Some t \<and> fle (Fin 0) t"
proof -
  from assms have c: "map endpoint_identity es = gl_identity p" "same_keys (torque_guard p) (map ep_motor_name es)"
    "list_all (\<lambda>(_, v). flt (Fin 0) v \<and> fle v (Fin 3)) (torque_guard p)"
    by (auto simp: group_hold_checks_def Let_def list_ex_iff list_all_iff split: if_splits)
  show "map ep_motor_name es = map fst (gl_identity p)"
    unfolding c(1) [symmetric] by (simp add: endpoint_identity_def)
  assume "n \<in> set (map ep_motor_name es)"
  then have "n \<in> fst ` set (torque_guard p)" using c(2) by (simp add: same_keys_def)
  then obtain t where "map_of (torque_guard p) n = Some t"
    by (metis map_of_eq_None_iff not_None_eq)
  moreover from this c(3) have "flt (Fin 0) t" by (auto simp: list_all_iff dest: map_of_SomeD)
  then have "fle (Fin 0) t" by (cases t) auto
  ultimately show "\<exists>t. map_of (torque_guard p) n = Some t \<and> fle (Fin 0) t" by blast
qed



lemma group_run_starts:
  assumes "run_fixed_group_low_gain_hold es p w = Some (r, s)" and "group_hold_checks (wd_writer w) es p = Inr ()"
  obtains period res where "group_hold_run p es period (group_start w es) = Some (res, s)"
    and "(\<exists>err. res = Inl err \<and> r = Inl err) \<or> res = Inr () \<and> r = Inr (group_hold_report_of es s)"
  using assms by (auto simp: run_fixed_group_low_gain_hold_def split: option.splits sum.splits prod.splits)

lemma group_run_wire:
  fixes es :: "feedback_endpoint list"
  assumes run: "group_hold_run p es per (group_start w es) = Some (res, s)"
    and new: "new_motor_group_writer iface eps = Inr (wd_writer w)"
    and names: "distinct (map ep_motor_name es)" and n: "n \<in> set (map ep_motor_name es)"
    and i: "map_of (mg_can_id_by_name (wd_writer w)) n = Some i"
  shows "wire_in_order [] (frames_of i (mg_wire (wd_writer s))) [(1, 40)]"
    and "list_all (\<lambda>t. t = Some 72) (wd_tx w) \<Longrightarrow> (case res of Inr _ \<Rightarrow> 3 | Inl _ \<Rightarrow> 1) \<le> disables_of i (wd_writer s)"
proof -
  have s0: "wd_writer (group_start w es) = wd_writer w" "wd_tx (group_start w es) = wd_tx w" "mg_wire (wd_writer w) = []"
    using new_group_writer_proper(2) [OF new] by (simp_all add: group_start_def Let_def)
  have f: "followed (mg_can_id_by_name (wd_writer (group_start w es))) n i"
    using new_group_writer_proper(1) [OF new] i by (simp add: s0)
  note run' = run [unfolded group_hold_run_def]
  have "rule_phased hold_rule (mg_can_id_by_name (wd_writer (group_start w es))) i any_phase (wd_writer s)"
    by (rule hold_wire.run_in_order [OF run' f _ _ group_body_phase [OF f names n]]) (simp_all add: s0 hold_rule_def)
  then show "wire_in_order [] (frames_of i (mg_wire (wd_writer s))) [(1, 40)]"
    using enable_count [of Preparing "map emitted_of (frames_of i (mg_wire (wd_writer s)))"]
    by (auto simp: rule_phased_def hold_rule_def runs_next_phase wire_in_order_def Let_def)
  assume "list_all (\<lambda>t. t = Some 72) (wd_tx w)"
  then show "(case res of Inr _ \<Rightarrow> 3 | Inl _ \<Rightarrow> 1) \<le> disables_of i (wd_writer s)"
    by (intro run_disables [OF run' f n group_sent_body]) (simp add: s0)
qed

text \<open>
  C2. Whatever the motors, the clock and the bus do, a group hold either refuses its parameters
  before sending anything, or the frames of every motor of the group are in the permitted order:
  echoes, at most one enable, commands with raw gains 1 and 40, then only disables and echoes. A
  returned report names an error or the verified ''disabled'' status of the motor, and on a bus that
  takes every frame the motor was disabled three times when a report is returned and once even when
  an interrupt of the shutdown sleep leaves the function.
\<close>

theorem group_hold_fails_closed:
  fixes es :: "feedback_endpoint list"
  assumes run: "run_fixed_group_low_gain_hold es p w = Some (r, s)"
    and new: "new_motor_group_writer iface eps = Inr (wd_writer w)"
    and names: "distinct (map fst (gl_identity p))"
    and e: "e \<in> set es" and i: "map_of (mg_can_id_by_name (wd_writer w)) (ep_motor_name e) = Some i"
  shows "case group_hold_checks (wd_writer w) es p of Inl err \<Rightarrow> r = Inl err \<and> s = group_start w es
    | Inr _ \<Rightarrow> wire_in_order [] (frames_of i (mg_wire (wd_writer s))) [(1, 40)] \<and>
        (case r of Inl _ \<Rightarrow> True | Inr report \<Rightarrow> gr_hold_errors report \<noteq> [] \<or>
          map_of (gr_final_status report) (ep_motor_name e) = Some (Some ''disabled'')) \<and>
        (list_all (\<lambda>t. t = Some 72) (wd_tx w) \<longrightarrow>
          (case r of Inr _ \<Rightarrow> 3 | Inl _ \<Rightarrow> 1) \<le> disables_of i (wd_writer s))"
proof (cases "group_hold_checks (wd_writer w) es p")
  case (Inl err)
  with run show ?thesis by (simp add: run_fixed_group_low_gain_hold_def)
next
  case (Inr u)
  then have ok: "group_hold_checks (wd_writer w) es p = Inr ()" by simp
  from group_run_starts [OF run ok] obtain per res where
    g: "group_hold_run p es per (group_start w es) = Some (res, s)"
    and r: "(\<exists>err. res = Inl err \<and> r = Inl err) \<or> res = Inr () \<and> r = Inr (group_hold_report_of es s)" .
  have d: "distinct (map ep_motor_name es)" using names group_checks_names(1) [OF ok] by simp
  have n: "ep_motor_name e \<in> set (map ep_motor_name es)" using e by simp
  note wire = group_run_wire [OF g new d n i]
  have "all_disabled es s" if "res = Inr ()"
    using holdsD(1) [OF guarded_verdict [OF d]] g that by (auto simp: group_hold_run_def)
  with r wire e show ?thesis
    by (auto simp: Inr all_disabled_def group_hold_report_of_def)
qed


end
