(* ===== verification/GroupSample.thy ===== *)
theory GroupSample
  imports GroupRuns PoweredSample
begin

text \<open>
  A group hold of two motors on concrete inputs, every frame taken and every poll answered.
\<close>

section \<open>The second motor\<close>

definition knee_endpoint :: feedback_endpoint where
  "knee_endpoint = bench_endpoint\<lparr>ep_motor_name := ''knee'', ep_can_id := 2, ep_master_id := 18\<rparr>"

definition knee_frame :: "byte \<Rightarrow> can_frame" where
  "knee_frame b = (bench_frame b)\<lparr>f_can_id := 18\<rparr>"

definition knee_feedback :: "int \<Rightarrow> string \<Rightarrow> feedback" where
  "knee_feedback code status = (bench_feedback code status)\<lparr>fb_motor_name := ''knee'', fb_can_id := 2, fb_master_id := 18\<rparr>"

lemma knee_decoded:
  "decode_damiao_feedback (knee_frame 0x12) knee_endpoint = Inr (knee_feedback 1 ''enabled'')"
  "decode_damiao_feedback (knee_frame 0x02) knee_endpoint = Inr (knee_feedback 0 ''disabled'')"
  by (simp_all add: decode_damiao_feedback_def knee_frame_def bench_frame_def knee_feedback_def bench_feedback_def
      STATUS_NAMES_def knee_endpoint_def bench_endpoint_def byte_at_def uint_to_float_def int_fields float_eval)

lemma knee_fields:
  "ep_motor_name knee_endpoint = ''knee''" "ep_interface knee_endpoint = ''can0''"
  "ep_can_id knee_endpoint = 2" "ep_master_id knee_endpoint = 18"
  "f_interface (knee_frame b) = ''can0''" "f_can_id (knee_frame b) = 18"
  "fb_position_rad (knee_feedback k st) = Fin 1" "fb_velocity_rad_s (knee_feedback k st) = Fin (- 1 / 8)"
  "fb_estimated_output_torque_nm (knee_feedback k st) = Fin (- 1 / 16)"
  "fb_mos_temperature_c (knee_feedback k st) = 30" "fb_rotor_temperature_c (knee_feedback k st) = 31"
  "fb_status_name (knee_feedback k st) = st" "fb_motor_name (knee_feedback k st) = ''knee''"
  "fb_motor_name (bench_feedback k st) = ''hip''"
  by (simp_all add: knee_endpoint_def knee_frame_def knee_feedback_def bench_endpoint_def bench_frame_def
      bench_feedback_def)

definition knee_command :: "bytes \<Rightarrow> encoded_command" where
  "knee_command d = \<lparr>ec_motor_name = ''knee'', ec_interface = ''can0'', ec_can_id = 2, ec_data = d\<rparr>"

lemma knee_echoes:
  obtains d d' where "encode_zero_gain_position_echo knee_endpoint (Fin 0) = Inr (knee_command d)"
    and "encode_zero_gain_position_echo knee_endpoint (Fin 1) = Inr (knee_command d')"
    and "length d = 8" and "length d' = 8"
proof -
  have "\<exists>d. encode_zero_gain_position_echo knee_endpoint (Fin 0) = Inr (knee_command d)"
    "\<exists>d. encode_zero_gain_position_echo knee_endpoint (Fin 1) = Inr (knee_command d)"
    by (simp_all add: encode_zero_gain_position_echo_def knee_endpoint_def bench_endpoint_def knee_command_def
      min_abs_def max_abs_def new_command_envelope_def validate_range_def encode_damiao_mit_command_def
      new_mit_state_def new_mit_command_def float_to_uint_strict_def estimated_output_torque_def float_eval)
  with that echo_payload(1) show thesis by (fastforce simp: knee_command_def)
qed

definition group_bench :: group_plan where
  "group_bench = \<lparr>gl_soft = [(''hip'', (Fin 0, Fin 4)), (''knee'', (Fin 0, Fin 4))],
     gl_torque = [(''hip'', rnd (1 / 10)), (''knee'', rnd (1 / 10))], gl_feedback_torque = None,
     gl_identity = [(''hip'', ''can0'', 1, 17), (''knee'', ''can0'', 2, 18)], gl_interface = ''can0''\<rparr>"

definition two_motors :: "feedback_endpoint list" where
  "two_motors = [bench_endpoint, knee_endpoint]"

lemma group_encode_length:
  "group_encode p e x l = Inr (ec, c, m) \<Longrightarrow> length (ec_data ec) = 8"
  by (auto simp: group_encode_def rbind_eq_Inr Let_def intro: encoded_raws(1))

lemma group_commands:
  obtains d d' c c' m m' where
    "group_encode group_bench bench_endpoint (Inr (Fin 1)) (Inr (bench_feedback k st)) = Inr (bench_command d, c, m)"
    and "group_encode group_bench knee_endpoint (Inr (Fin 1)) (Inr (knee_feedback k st)) = Inr (knee_command d', c', m')"
    and "length d = 8" and "length d' = 8"
proof -
  have "\<exists>d c m. group_encode group_bench bench_endpoint (Inr (Fin 1)) (Inr (bench_feedback k st)) = Inr (bench_command d, c, m)"
    "\<exists>d c m. group_encode group_bench knee_endpoint (Inr (Fin 1)) (Inr (knee_feedback k st)) = Inr (knee_command d, c, m)"
    by (simp_all add: group_encode_def group_request_def group_bench_def lookup_result_def knee_fields bench_endpoint_fields
      new_mit_state_def new_mit_command_def new_command_envelope_def validate_range_def)
     (simp_all add: knee_endpoint_def bench_endpoint_def knee_command_def bench_command_def
      max_abs_def encode_damiao_mit_command_def float_to_uint_strict_def estimated_output_torque_def float_eval)
  with that group_encode_length show thesis by (fastforce simp: bench_command_def knee_command_def)
qed

section \<open>The run\<close>

lemma knee_receive:
  assumes "flt u (fadd t timeout)"
  shows "receive_selected knee_endpoint timeout
      \<lparr>wd_writer = w, wd_clock = t # u # ts, wd_rx = Inr (knee_frame 0x12) # rs, wd_tx = tx, wd_sleeps = sl, \<dots> = m\<rparr> =
    Some (Inr (knee_feedback 1 ''enabled''),
      \<lparr>wd_writer = w, wd_clock = ts, wd_rx = rs, wd_tx = tx, wd_sleeps = sl, \<dots> = m\<rparr>)"
    "receive_selected knee_endpoint timeout
      \<lparr>wd_writer = w, wd_clock = t # u # ts, wd_rx = Inr (knee_frame 2) # rs, wd_tx = tx, wd_sleeps = sl, \<dots> = m\<rparr> =
    Some (Inr (knee_feedback 0 ''disabled''),
      \<lparr>wd_writer = w, wd_clock = ts, wd_rx = rs, wd_tx = tx, wd_sleeps = sl, \<dots> = m\<rparr>)"
  using assms knee_decoded
  by (simp_all add: receive_selected_def receive_step_def io_loop_def io_app monotonic_def receive_frame_def
      knee_fields)

definition two_writer :: "bytes list \<Rightarrow> int \<times> int \<Rightarrow> int \<times> int \<Rightarrow> int \<times> int \<Rightarrow> motor_group_writer" where
  "two_writer fs c e d = \<lparr>mg_interface = ''can0'', mg_can_id_by_name = [(''hip'', 1), (''knee'', 2)], mg_wire = fs,
     mg_command_tx_attempts = [(''hip'', fst c), (''knee'', snd c)],
     mg_enable_attempts = [(''hip'', fst e), (''knee'', snd e)],
     mg_disable_attempts = [(''hip'', fst d), (''knee'', snd d)]\<rparr>"

lemma two_new: "new_motor_group_writer ''can0'' [(''hip'', 1), (''knee'', 2)] = Inr (two_writer [] (0, 0) (0, 0) (0, 0))"
  by (simp add: new_motor_group_writer_def two_writer_def standard_id_def Let_def)

lemma two_send:
  assumes "length x = 8"
  shows "mg_send_payload (two_writer fs c e d) ''hip'' x (Some 72) = (two_writer (fs @ [wire_frame 1 x]) c e d, Inr ())"
    "mg_send_payload (two_writer fs c e d) ''knee'' x (Some 72) = (two_writer (fs @ [wire_frame 2 x]) c e d, Inr ())"
  using assms by (simp_all add: mg_send_payload_def two_writer_def canfd_pack_wire standard_id_def short_write_check_def
      length_wire_frame)

lemma two_calls:
  "length x = 8 \<Longrightarrow> mg_call (two_writer fs (a, b) e d) (GCommand (bench_command x)) (Some 72) =
    (two_writer (fs @ [wire_frame 1 x]) (a + 1, b) e d, Inr ())"
  "length x = 8 \<Longrightarrow> mg_call (two_writer fs (a, b) e d) (GCommand (knee_command x)) (Some 72) =
    (two_writer (fs @ [wire_frame 2 x]) (a, b + 1) e d, Inr ())"
  "mg_call (two_writer fs c (a, b) d) (GEnable ''hip'') (Some 72) =
    (two_writer (fs @ [wire_frame 1 ENABLE_PAYLOAD]) c (a + 1, b) d, Inr ())"
  "mg_call (two_writer fs c (a, b) d) (GEnable ''knee'') (Some 72) =
    (two_writer (fs @ [wire_frame 2 ENABLE_PAYLOAD]) c (a, b + 1) d, Inr ())"
  "mg_call (two_writer fs c e (a, b)) (GDisable ''hip'') (Some 72) =
    (two_writer (fs @ [wire_frame 1 DISABLE_PAYLOAD]) c e (a + 1, b), Inr ())"
  "mg_call (two_writer fs c e (a, b)) (GDisable ''knee'') (Some 72) =
    (two_writer (fs @ [wire_frame 2 DISABLE_PAYLOAD]) c e (a, b + 1), Inr ())"
proof -
  have l: "length ENABLE_PAYLOAD = 8" "length DISABLE_PAYLOAD = 8"
    by (simp_all add: ENABLE_PAYLOAD_def DISABLE_PAYLOAD_def)
  note sends = two_send [OF l(1)] two_send [OF l(2)]
  have ids: "mg_can_id_by_name (two_writer fs c e d) = [(''hip'', 1), (''knee'', 2)]"
    "mg_interface (two_writer fs c e d) = ''can0''" for fs c e d by (simp_all add: two_writer_def)
  show "length x = 8 \<Longrightarrow> mg_call (two_writer fs (a, b) e d) (GCommand (bench_command x)) (Some 72) =
    (two_writer (fs @ [wire_frame 1 x]) (a + 1, b) e d, Inr ())"
    "length x = 8 \<Longrightarrow> mg_call (two_writer fs (a, b) e d) (GCommand (knee_command x)) (Some 72) =
    (two_writer (fs @ [wire_frame 2 x]) (a, b + 1) e d, Inr ())"
    by (simp_all add: ids bench_command_def knee_command_def two_send) (simp_all add: two_writer_def bump_def)
  show "mg_call (two_writer fs c (a, b) d) (GEnable ''hip'') (Some 72) =
    (two_writer (fs @ [wire_frame 1 ENABLE_PAYLOAD]) c (a + 1, b) d, Inr ())"
    "mg_call (two_writer fs c (a, b) d) (GEnable ''knee'') (Some 72) =
    (two_writer (fs @ [wire_frame 2 ENABLE_PAYLOAD]) c (a, b + 1) d, Inr ())"
    "mg_call (two_writer fs c e (a, b)) (GDisable ''hip'') (Some 72) =
    (two_writer (fs @ [wire_frame 1 DISABLE_PAYLOAD]) c e (a + 1, b), Inr ())"
    "mg_call (two_writer fs c e (a, b)) (GDisable ''knee'') (Some 72) =
    (two_writer (fs @ [wire_frame 2 DISABLE_PAYLOAD]) c e (a, b + 1), Inr ())"
    by (simp_all add: sends) (simp_all add: two_writer_def bump_def)
qed

definition group_world :: "motor_group_writer world" where
  "group_world = \<lparr>wd_writer = two_writer [] (0, 0) (0, 0) (0, 0),
     wd_clock = [Fin 0, Fin 0, Fin 0, Fin 0, Fin 0, Fin 0, Fin 0, Fin 0, Fin 0, Fin 0, Fin 0, Fin 0, Fin 0, Fin 0,
       Fin 0, Fin 0, Fin 2, Fin 2, Fin 2, Fin 2, Fin 2, Fin 2, Fin 2, Fin 2, Fin 2],
     wd_rx = [Inr (bench_frame 1), Inr (knee_frame 2), Inr (bench_frame 1), Inr (knee_frame 2),
       Inr (bench_frame 0x11), Inr (knee_frame 0x12), Inr (bench_frame 1), Inr (knee_frame 2)],
     wd_tx = [Some 72, Some 72, Some 72, Some 72, Some 72, Some 72, Some 72, Some 72, Some 72, Some 72, Some 72,
       Some 72, Some 72, Some 72, Some 72, Some 72, Some 72, Some 72],
     wd_sleeps = [Inr (), Inr (), Inr ()]\<rparr>"

lemma two_checks: "group_hold_checks (two_writer [] (0, 0) (0, 0) (0, 0)) two_motors group_bench = Inr ()"
  by (auto simp: group_hold_checks_def two_writer_def two_motors_def group_bench_def endpoint_identity_def
      bench_endpoint_fields knee_fields same_keys_def torque_guard_def Let_def float_eval)

lemma two_guards:
  "group_guards group_bench ''hip'' (Fin 0) (bench_feedback k st) = Inr ()"
  "group_guards group_bench ''knee'' (Fin 0) (knee_feedback k st) = Inr ()"
  by (simp_all add: group_guards_def group_bench_def torque_guard_def lookup_result_def check_guards_def
      group_limits_def bench_endpoint_fields knee_fields float_eval)

lemma two_times: "\<not> fle (fadd (Fin 0) (rnd (1 / 50))) (Fin 0)" "flt (Fin 2) (rnd (5 / 2))"
  by (simp_all add: float_eval)

lemma two_soft: "map_of (gl_soft group_bench) ''hip'' = Some (Fin 0, Fin 4)"
  "map_of (gl_soft group_bench) ''knee'' = Some (Fin 0, Fin 4)"
  by (simp_all add: group_bench_def)

text \<open>The state after the powered cycle.\<close>

definition two_held :: "bytes list \<Rightarrow> pyfloat by_name \<Rightarrow> group_vars" where
  "two_held fs mc =
     (group_start group_world two_motors)\<lparr>wd_writer := two_writer fs (3, 3) (1, 1) (0, 0),
       wd_clock := [Fin 2, Fin 2, Fin 2, Fin 2, Fin 2, Fin 2, Fin 2, Fin 2],
       wd_rx := [Inr (bench_frame 1), Inr (knee_frame 2)],
       wd_tx := [Some 72, Some 72, Some 72, Some 72, Some 72, Some 72, Some 72, Some 72, Some 72, Some 72],
       gh_initial := [(''hip'', Fin 1), (''knee'', Fin 1)], gh_targets := [(''hip'', Fin 1), (''knee'', Fin 1)],
       gh_latest := [(''hip'', bench_feedback 1 ''enabled''), (''knee'', knee_feedback 1 ''enabled'')],
       gh_command_count := [(''hip'', 1), (''knee'', 1)], gh_feedback_count := [(''hip'', 1), (''knee'', 1)],
       gh_max_velocity := [(''hip'', Fin (1 / 8)), (''knee'', Fin (1 / 8))],
       gh_max_torque := [(''hip'', Fin (1 / 16)), (''knee'', Fin (1 / 16))], gh_max_commanded := mc,
       gh_max_mos := [(''hip'', 30), (''knee'', 30)], gh_max_rotor := [(''hip'', 31), (''knee'', 31)]\<rparr>"

lemma group_body_runs:
  "\<exists>fs mc. group_body group_bench two_motors (rnd (1 / 50)) (group_start group_world two_motors) = Some (Inr (),
     two_held fs mc)"
proof -
  obtain d0 d1 where h: "encode_zero_gain_position_echo bench_endpoint (Fin 0) = Inr (bench_command d0)"
    "encode_zero_gain_position_echo bench_endpoint (Fin 1) = Inr (bench_command d1)" "length d0 = 8" "length d1 = 8"
    by (rule bench_echoes)
  obtain k0 k1 where k: "encode_zero_gain_position_echo knee_endpoint (Fin 0) = Inr (knee_command k0)"
    "encode_zero_gain_position_echo knee_endpoint (Fin 1) = Inr (knee_command k1)" "length k0 = 8" "length k1 = 8"
    by (rule knee_echoes)
  obtain d2 k2 c c' m m' where g:
    "group_encode group_bench bench_endpoint (Inr (Fin 1)) (Inr (bench_feedback 0 ''disabled'')) = Inr (bench_command d2, c, m)"
    "group_encode group_bench knee_endpoint (Inr (Fin 1)) (Inr (knee_feedback 0 ''disabled'')) = Inr (knee_command k2, c', m')"
    "length d2 = 8" "length k2 = 8" by (rule group_commands)
  show ?thesis
    by (intro exI, simp add: two_held_def group_body_def two_motors_def group_measure_def prepare_motor_def powered_run_def paced_cycle_def enable_all_def
        group_command_def group_accept_def group_echo_def receive_endpoint_def group_start_def group_world_def
        Let_def h k g two_calls two_guards two_times two_soft bench_receive knee_receive bench_times environment_app
        io_app io_when_app bench_endpoint_fields knee_fields require_status_def io_loop_def lookup_result_def
        adjust_def note_group_def dict_of_def fmax_def del: mg_call.simps steps.simps)
qed

lemma group_runs:
  "\<exists>s. run_fixed_group_low_gain_hold two_motors group_bench group_world =
     Some (Inr (group_hold_report_of two_motors s), s) \<and> group_hold_passed (group_hold_report_of two_motors s)"
proof -
  obtain d0 d1 where h: "encode_zero_gain_position_echo bench_endpoint (Fin 1) = Inr (bench_command d1)" "length d1 = 8"
    by (rule bench_echoes)
  obtain k0 k1 where k: "encode_zero_gain_position_echo knee_endpoint (Fin 1) = Inr (knee_command k1)" "length k1 = 8"
    by (rule knee_echoes)
  have w: "wd_writer group_world = two_writer [] (0, 0) (0, 0) (0, 0)" by (simp add: group_world_def)
  have per: "fdiv (Fin 1) (Fin 50) = Inr (rnd (1 / 50))" by simp
  obtain fs mc where body: "group_body group_bench two_motors (rnd (1 / 50)) (group_start group_world two_motors) = Some (Inr (),
     two_held fs mc)"
    using group_body_runs by blast
  have "\<exists>s. group_hold_run group_bench two_motors (rnd (1 / 50)) (group_start group_world two_motors) = Some (Inr (), s) \<and>
    gh_errors s = [] \<and> gh_command_count s = [(''hip'', 1), (''knee'', 1)] \<and> gh_feedback_count s = [(''hip'', 1), (''knee'', 1)] \<and>
    gh_final_status s = [(''hip'', Some ''disabled''), (''knee'', Some ''disabled'')] \<and>
    mg_enable_attempts (wd_writer s) = [(''hip'', 1), (''knee'', 1)] \<and>
    mg_disable_attempts (wd_writer s) = [(''hip'', 4), (''knee'', 4)]"
    by (simp add: group_hold_run_def guarded_run_def io_app body)
      (simp add: two_held_def group_start_def group_world_def group_shut_down_def disable_all_def verify_disabled_def verify_round_def
        two_motors_def group_echo_def receive_endpoint_def Let_def h k two_calls bench_receive knee_receive bench_times
        environment_app io_app io_when_app io_while_numeral bench_endpoint_fields knee_fields io_loop_def lookup_result_def
        two_times dict_of_def del: mg_call.simps steps.simps, simp add: two_writer_def)
  then show ?thesis
    by (auto simp: run_fixed_group_low_gain_hold_def w two_checks per group_hold_report_of_def group_hold_passed_def
        simp del: fdiv.simps)
qed

theorem group_hold_fails_closed_witness:
  "\<exists>r s. run_fixed_group_low_gain_hold two_motors group_bench group_world = Some (r, s) \<and>
    wire_in_order [] (frames_of 2 (mg_wire (wd_writer s))) [(1, 40)] \<and> 3 \<le> disables_of 2 (wd_writer s)"
proof -
  obtain report s where s: "run_fixed_group_low_gain_hold two_motors group_bench group_world = Some (Inr report, s)"
    using group_runs by blast
  have w: "wd_writer group_world = two_writer [] (0, 0) (0, 0) (0, 0)" "list_all (\<lambda>t. t = Some 72) (wd_tx group_world)"
    by (simp_all add: group_world_def)
  have p: "new_motor_group_writer ''can0'' [(''hip'', 1), (''knee'', 2)] = Inr (wd_writer group_world)"
    "distinct (map fst (gl_identity group_bench))" "knee_endpoint \<in> set two_motors"
    "map_of (mg_can_id_by_name (wd_writer group_world)) (ep_motor_name knee_endpoint) = Some 2"
    by (simp_all add: two_new w group_bench_def two_motors_def knee_fields two_writer_def)
  from group_hold_fails_closed [OF s p] s show ?thesis by (simp add: w two_checks)
qed


end
