(* ===== verification/RegisterAudit.thy ===== *)
theory RegisterAudit
  imports Registers WirePhases
begin

text \<open>
  What the register audits put on the buses, what a returned report contains, and that a range
  readback turns every motor of the inventory into one with register-verified ranges.
\<close>

section \<open>Only read requests, and few of them\<close>

definition audited :: "int list \<Rightarrow> int \<Rightarrow> readers \<Rightarrow> bool" where
  "audited rids bound readers \<longleftrightarrow> total_tx readers \<le> bound \<and>
     (\<forall>r \<in> snd ` set readers. \<forall>f \<in> set (rr_wire r). read_request_frame rids (rr_allowed_motor_can_ids r) f)"

lemma audited_mono: "audited rids b readers \<Longrightarrow> b \<le> c \<Longrightarrow> audited rids c readers"
  by (simp add: audited_def)

lemma total_tx_set:
  "map_of readers iface = Some r \<Longrightarrow>
    total_tx (dict_set readers iface r') = total_tx readers + (rr_tx_attempts r' - rr_tx_attempts r)"
  unfolding total_tx_def
  by (induction readers iface r' rule: dict_set.induct) (auto split: if_splits)

lemma send_read_request_count:
  "rr_tx_attempts (fst (send_read_request_with rids msg r c n)) \<le> rr_tx_attempts r + 1"
  by (auto simp: send_read_request_with_def canfd_pack_wire standard_PARAMETER_CAN_ID
      split: prod.splits option.splits)

lemma reader_call_audited:
  assumes "audited rids b readers" and "reader_call (send_read_request_with rids msg) readers c t = (readers', res)"
  shows "audited rids (b + 1) readers'"
proof -
  obtain iface req where c: "c = (iface, req)" by (cases c)
  show ?thesis
  proof (cases "map_of readers iface")
    case None
    with assms show ?thesis by (simp add: reader_call_def c audited_def)
  next
    case (Some r)
    define r' where "r' = fst (send_read_request_with rids msg r req t)"
    have readers': "readers' = dict_set readers iface r'"
      using assms(2) Some by (simp add: reader_call_def c r'_def split: prod.splits)
    have r: "\<forall>f \<in> set (rr_wire r). read_request_frame rids (rr_allowed_motor_can_ids r) f"
      using assms(1) map_of_SomeD [OF Some] by (force simp: audited_def)
    then have "\<forall>f \<in> set (rr_wire r'). read_request_frame rids (rr_allowed_motor_can_ids r') f"
      using send_read_request_frame [of rids msg r req t] unfolding r'_def by force
    moreover have "total_tx readers' \<le> total_tx readers + 1"
      using send_read_request_count [of rids msg r req t] total_tx_set [OF Some]
      by (simp add: readers' r'_def)
    ultimately show ?thesis
      using assms(1) dict_set_subset [of readers iface r'] by (fastforce simp: audited_def readers')
  qed
qed

text \<open>What happens between two requests changes no reader.\<close>

lemma keeps_receive_or_skip: "keeps (on_writer J) receive_or_skip"
  unfolding receive_or_skip_def
  by (intro keeps_rules keeps_receive_frame)
    (auto split: py_error.split intro!: keeps_rules keeps_pause keeps_frame)

lemma keeps_response_step: "keeps (on_writer J) (response_step k e rid deadline u)"
  unfolding response_step_def
  by (intro keeps_rules keeps_monotonic)
    (auto split: option.split intro!: keeps_rules keeps_receive_or_skip)

text \<open>
  A budget of requests: every request of the register \<open>rid\<close> of the motor \<open>e\<close> uses up \<open>cost e rid\<close> of it.
  An audit then uses up at most the retries for every motor and register.
\<close>

locale request_budget =
  fixes k :: audit_kind and P :: "int \<Rightarrow> readers \<Rightarrow> bool" and cost :: "feedback_endpoint \<Rightarrow> int \<Rightarrow> nat"
  assumes weaken: "P b readers \<Longrightarrow> b \<le> c \<Longrightarrow> P c readers"
    and request: "P b readers \<Longrightarrow> reader_call (ak_send k) readers (ep_interface e, ep_can_id e, rid) t = (readers', r) \<Longrightarrow>
      P (b + int (cost e rid)) readers'"
begin

lemma budget_weaken:
  assumes "holds (on_writer (P b)) m (\<lambda>_. on_writer (P c)) (\<lambda>_. on_writer (P c))" and "c \<le> d"
  shows "holds (on_writer (P b)) m (\<lambda>_. on_writer (P d)) (\<lambda>_. on_writer (P d))"
  by (rule holds_conseq [OF assms(1)]) (use assms(2) in \<open>auto simp: on_writer_def elim: weaken\<close>)

lemma budget_bind:
  assumes "holds (on_writer (P b)) m (\<lambda>_. on_writer (P c)) (\<lambda>_. on_writer (P c))"
    and "\<And>x. holds (on_writer (P c)) (f x) (\<lambda>_. on_writer (P d)) (\<lambda>_. on_writer (P d))" and "c \<le> d"
  shows "holds (on_writer (P b)) (io_bind m f) (\<lambda>_. on_writer (P d)) (\<lambda>_. on_writer (P d))"
  by (rule holds_bind [OF holds_conseq [OF assms(1)] assms(2)])
    (use assms(3) in \<open>auto simp: on_writer_def elim: weaken\<close>)

lemma budget_pure: "b \<le> c \<Longrightarrow> holds (on_writer (P b)) (io_lift r) (\<lambda>_. on_writer (P c)) (\<lambda>_. on_writer (P c))"
  by (rule budget_weaken [OF keeps_lift])

lemma budget_return: "b \<le> c \<Longrightarrow> holds (on_writer (P b)) (io_return x) (\<lambda>_. on_writer (P c)) (\<lambda>_. on_writer (P c))"
  by (rule budget_weaken [OF keeps_return])

lemma read_once_budget:
  "holds (on_writer (P b)) (read_once k timeout e rid)
     (\<lambda>_. on_writer (P (b + int (cost e rid)))) (\<lambda>_. on_writer (P (b + int (cost e rid))))"
  unfolding read_once_def
proof (rule holds_then [OF holds_io_call])
  fix readers t r readers'
  assume "P b readers" and "reader_call (ak_send k) readers (ep_interface e, ep_can_id e, rid) t = (readers', r)"
  from request [OF this] show "case r of Inl _ \<Rightarrow> P (b + int (cost e rid)) readers' | Inr _ \<Rightarrow> P (b + int (cost e rid)) readers'"
    by (simp split: sum.split)
qed (intro keeps_rules keeps_monotonic keeps_response_step keeps_frame; simp)

lemma read_retrying_budget:
  "holds (on_writer (P b)) (read_retrying n k timeout e rid)
     (\<lambda>_. on_writer (P (b + int (n * cost e rid)))) (\<lambda>_. on_writer (P (b + int (n * cost e rid))))"
proof (induction n arbitrary: b)
  case 0
  then show ?case by (simp add: keeps_return)
next
  case (Suc n)
  have "holds (on_writer (P (b + int (cost e rid)))) (read_retrying n k timeout e rid)
      (\<lambda>_. on_writer (P (b + int (Suc n * cost e rid)))) (\<lambda>_. on_writer (P (b + int (Suc n * cost e rid))))"
    using Suc [of "b + int (cost e rid)"] by (simp add: add.assoc)
  then show ?case unfolding read_retrying.simps
    by (intro budget_bind [OF read_once_budget]) (auto split: option.split intro!: budget_return)
qed

lemma read_register_budget:
  "holds (on_writer (P b)) (read_register n k timeout e rn)
     (\<lambda>_. on_writer (P (b + int (n * cost e (fst rn))))) (\<lambda>_. on_writer (P (b + int (n * cost e (fst rn)))))"
  unfolding read_register_def
  by (cases rn) (auto intro!: budget_bind [OF read_retrying_budget]
      split: option.split simp: io_raise_def intro: budget_pure budget_return)

lemma io_map_budget:
  assumes "\<And>x b. holds (on_writer (P b)) (f x) (\<lambda>_. on_writer (P (b + int (c x)))) (\<lambda>_. on_writer (P (b + int (c x))))"
  shows "holds (on_writer (P b)) (io_map f xs)
    (\<lambda>_. on_writer (P (b + int (sum_list (map c xs))))) (\<lambda>_. on_writer (P (b + int (sum_list (map c xs)))))"
proof (induction xs arbitrary: b)
  case Nil
  then show ?case by (simp add: keeps_return)
next
  case (Cons x xs)
  have e: "b + int (sum_list (map c (x # xs))) = b + int (c x) + int (sum_list (map c xs))" by simp
  show ?case unfolding io_map.simps e
    by (intro budget_bind [OF assms] budget_bind [OF Cons] keeps_return) simp_all
qed

lemma io_for_budget:
  assumes "\<And>x b. holds (on_writer (P b)) (f x) (\<lambda>_. on_writer (P (b + int (c x)))) (\<lambda>_. on_writer (P (b + int (c x))))"
  shows "holds (on_writer (P b)) (io_for f xs)
    (\<lambda>_. on_writer (P (b + int (sum_list (map c xs))))) (\<lambda>_. on_writer (P (b + int (sum_list (map c xs)))))"
proof (induction xs arbitrary: b)
  case Nil
  then show ?case by (simp add: keeps_return)
next
  case (Cons x xs)
  have e: "b + int (sum_list (map c (x # xs))) = b + int (c x) + int (sum_list (map c xs))" by simp
  show ?case unfolding io_for.simps io_then_def e
    by (intro budget_bind [OF assms] Cons) simp_all
qed

lemma read_motor_budget:
  "holds (on_writer (P b)) (read_motor n k timeout e)
     (\<lambda>_. on_writer (P (b + int (sum_list (map (\<lambda>rn. n * cost e (fst rn)) (ak_registers k))))))
     (\<lambda>_. on_writer (P (b + int (sum_list (map (\<lambda>rn. n * cost e (fst rn)) (ak_registers k))))))"
  unfolding read_motor_def
  by (rule budget_bind [OF io_map_budget [OF read_register_budget]]) (simp_all add: keeps_frame)

lemma collect_registers_budget:
  "holds (on_writer (P b)) (collect_registers k es timeout retries)
    (\<lambda>_. on_writer (P (b + int (sum_list (map (\<lambda>e. sum_list (map (\<lambda>rn. nat retries * cost e (fst rn)) (ak_registers k))) es)))))
    (\<lambda>_. on_writer (P (b + int (sum_list (map (\<lambda>e. sum_list (map (\<lambda>rn. nat retries * cost e (fst rn)) (ak_registers k))) es)))))"
  unfolding collect_registers_def io_then_def
  by (intro budget_bind [OF keeps_get] budget_bind [OF keeps_lift] budget_bind [OF keeps_frame]
      budget_bind [OF io_for_budget [OF read_motor_budget]] keeps_bind keeps_get keeps_when keeps_raise)
    simp_all

end

text \<open>The requests of all readers.\<close>

lemma range_send: "ak_send mit_range_audit = send_read_request_with range_register_ids
    ''only PMAX/VMAX/TMAX registers 21/22/23 may be read''"
  by (simp add: mit_range_audit_def send_read_request_def)

interpretation all_requests: request_budget mit_range_audit "audited range_register_ids" "\<lambda>_ _. 1"
  by unfold_locales (simp_all add: audited_mono reader_call_audited range_send)

interpretation commissioning_requests: request_budget commissioning_audit "audited commissioning_register_ids" "\<lambda>_ _. 1"
  by unfold_locales (simp_all add: audited_mono reader_call_audited commissioning_audit_def send_commissioning_read_request_def)

text \<open>The requests of one register of one motor, as frames on the wire of the reader of its interface.\<close>

definition register_request :: "feedback_endpoint \<Rightarrow> int \<Rightarrow> bytes" where
  "register_request e rid = wire_frame PARAMETER_CAN_ID (read_request_data (ep_can_id e) rid)"

definition asked :: "string \<Rightarrow> bytes \<Rightarrow> readers \<Rightarrow> nat" where
  "asked iface f readers = (case map_of readers iface of None \<Rightarrow> 0 | Some r \<Rightarrow> count_list (rr_wire r) f)"

abbreviation same_request :: "string \<Rightarrow> bytes \<Rightarrow> feedback_endpoint \<Rightarrow> int \<Rightarrow> nat" where
  "same_request iface f e rid \<equiv> (if ep_interface e = iface \<and> register_request e rid = f then 1 else 0)"

lemma send_request_wire:
  "rr_wire (fst (send_read_request_with rids msg r (m, rid) n)) \<in>
     {rr_wire r, rr_wire r @ [wire_frame PARAMETER_CAN_ID (read_request_data m rid)]}"
  by (auto simp: send_read_request_with_def canfd_pack_wire standard_PARAMETER_CAN_ID split: option.splits)

lemma reader_call_asked:
  assumes "reader_call (send_read_request_with rids msg) readers (ep_interface e, ep_can_id e, rid) t = (readers', r)"
  shows "asked iface f readers' \<le> asked iface f readers + same_request iface f e rid"
proof (cases "map_of readers (ep_interface e)")
  case None
  with assms show ?thesis by (simp add: reader_call_def)
next
  case (Some rd)
  with assms have r': "readers' = dict_set readers (ep_interface e) (fst (send_read_request_with rids msg rd (ep_can_id e, rid) t))"
    by (auto simp: reader_call_def split: prod.splits)
  from send_request_wire [of rids msg rd "ep_can_id e" rid t] Some show ?thesis
    by (cases "ep_interface e = iface") (auto simp: r' asked_def register_request_def)
qed

interpretation one_request: request_budget mit_range_audit "\<lambda>b readers. int (asked iface f readers) \<le> b" "same_request iface f"
  for iface f
proof
  fix b readers rid t readers' r and e :: feedback_endpoint
  assume "int (asked iface f readers) \<le> b"
    and "reader_call (ak_send mit_range_audit) readers (ep_interface e, ep_can_id e, rid) t = (readers', r)"
  with reader_call_asked [of range_register_ids _ readers e rid t readers' r iface f]
  show "int (asked iface f readers') \<le> b + int (same_request iface f e rid)" unfolding range_send by fastforce
qed simp

text \<open>Motors with different standard addresses have different requests.\<close>

definition distinct_addresses :: "feedback_endpoint list \<Rightarrow> bool" where
  "distinct_addresses es \<longleftrightarrow> distinct (map (\<lambda>e. (ep_interface e, ep_can_id e)) es) \<and> list_all (\<lambda>e. standard_id (ep_can_id e)) es"

lemma request_bytes:
  assumes "standard_id m"
  shows "read_request_data m rid = [word_of_int (m mod 256), word_of_int (m div 256), 0x33, word_of_int rid, 0, 0, 0, 0]"
proof -
  have "0 \<le> m" "m \<le> 0x7FF" using assms by (auto simp: standard_id_def)
  then have "m AND 0xFF = m mod 256" "drop_bit 8 m AND 0xFF = m div 256" by (simp_all add: int_and_255 drop_bit_eq_div)
  then show ?thesis by (simp add: read_request_data_def READ_OPCODE_def)
qed

lemma byte_inj: "0 \<le> a \<Longrightarrow> a < 256 \<Longrightarrow> 0 \<le> b \<Longrightarrow> b < 256 \<Longrightarrow> (word_of_int a :: byte) = word_of_int b \<Longrightarrow> a = b"
  by (metis mod_pos_pos_trivial uint_byte_of_int)

lemma register_request_inj:
  assumes "standard_id (ep_can_id e)" and "standard_id (ep_can_id e')" and "rid \<in> {21, 22, 23}" and "rid' \<in> {21, 22, 23}"
    and "register_request e rid = register_request e' rid'"
  shows "ep_can_id e = ep_can_id e' \<and> rid = rid'"
proof -
  let ?m = "ep_can_id e" and ?n = "ep_can_id e'"
  have r: "0 \<le> ?m" "?m \<le> 0x7FF" "0 \<le> ?n" "?n \<le> 0x7FF" using assms(1,2) by (auto simp: standard_id_def)
  from arg_cong [OF assms(5), of canfd_unpack]
  have "read_request_data ?m rid = read_request_data ?n rid'"
    by (simp add: register_request_def wire_frame_unpack standard_PARAMETER_CAN_ID request_bytes [OF assms(1)]
        request_bytes [OF assms(2)] ljust_def)
  then have bytes: "(word_of_int (?m mod 256) :: byte) = word_of_int (?n mod 256)"
    "(word_of_int (?m div 256) :: byte) = word_of_int (?n div 256)" "(word_of_int rid :: byte) = word_of_int rid'"
    by (simp_all add: request_bytes [OF assms(1)] request_bytes [OF assms(2)])
  have "?m mod 256 = ?n mod 256" by (rule byte_inj [OF _ _ _ _ bytes(1)]) simp_all
  moreover have "?m div 256 = ?n div 256" by (rule byte_inj [OF _ _ _ _ bytes(2)]) (use r in simp_all)
  ultimately have "?m = ?n" by (metis div_mult_mod_eq)
  moreover have "rid = rid'" by (rule byte_inj [OF _ _ _ _ bytes(3)]) (use assms(3,4) in auto)
  ultimately show ?thesis ..
qed

lemma sum_at_most_one:
  assumes "distinct (map g xs)"
  shows "sum_list (map (\<lambda>x. if g x = a then n else 0) xs) \<le> (n :: nat)"
  using assms
proof (induction xs)
  case (Cons x xs)
  have none: "a \<notin> g ` set ys \<Longrightarrow> sum_list (map (\<lambda>x. if g x = a then n else 0) ys) = 0" for ys
    by (induction ys) auto
  from Cons show ?case by (cases "g x = a") (auto simp: none image_iff)
qed simp

lemma one_motor_requests:
  assumes "distinct_addresses es" and "e \<in> set es" and "rid \<in> {21, 22, 23}"
  shows "sum_list (map (\<lambda>e'. sum_list (map (\<lambda>rn. n * same_request (ep_interface e) (register_request e rid) e' (fst rn))
    MIT_RANGE_REGISTERS)) es) \<le> n"
proof -
  let ?g = "\<lambda>e. (ep_interface e, ep_can_id e)"
  have one: "sum_list (map (\<lambda>rn. n * same_request (ep_interface e) (register_request e rid) e' (fst rn)) MIT_RANGE_REGISTERS) =
      (if ?g e' = ?g e then n else 0)" if "e' \<in> set es" for e'
  proof -
    have s: "standard_id (ep_can_id e')" "standard_id (ep_can_id e)"
      using assms(1,2) that by (auto simp: distinct_addresses_def list_all_iff)
    have "register_request e' r = register_request e rid \<longleftrightarrow> ep_can_id e' = ep_can_id e \<and> r = rid" if "r \<in> {21, 22, 23}" for r
      using register_request_inj [OF s that assms(3)] by (auto simp: register_request_def)
    then show ?thesis using assms(3) by (auto simp: MIT_RANGE_REGISTERS_def)
  qed
  then have "sum_list (map (\<lambda>e'. sum_list (map (\<lambda>rn. n * same_request (ep_interface e) (register_request e rid) e' (fst rn))
      MIT_RANGE_REGISTERS)) es) = sum_list (map (\<lambda>e'. if ?g e' = ?g e then n else 0) es)"
    by (intro arg_cong [where f = sum_list] map_cong refl)
  also have "\<dots> \<le> n" using assms(1) by (intro sum_at_most_one) (simp add: distinct_addresses_def)
  finally show ?thesis .
qed

text \<open>
  C17. With readers that have sent nothing yet, whatever the buses and the clock do, and whether the audit of the motor ranges returns or
  raises, every frame on the wire of every reader is a read request for an allowed motor and one of
  the registers 21, 22 and 23; all readers together send at most \<open>retries\<close> requests for each of the three
  registers of each motor; and when the motors have distinct standard addresses, no single register of
  a single motor is asked for more than \<open>retries\<close> times on its interface.
\<close>
theorem register_audit_only_reads:
  assumes "collect_mit_range_registers es timeout retries s = Some (r, s')"
    and "\<forall>rd \<in> snd ` set (wd_writer s). rr_wire rd = []"
  shows "(\<forall>rd \<in> snd ` set (wd_writer s'). \<forall>f \<in> set (rr_wire rd).
      read_request_frame range_register_ids (rr_allowed_motor_can_ids rd) f) \<and>
    total_tx (wd_writer s') \<le> total_tx (wd_writer s) + int (nat retries * 3 * length es) \<and>
    (distinct_addresses es \<longrightarrow> (\<forall>e \<in> set es. \<forall>rid \<in> set range_register_ids.
      asked (ep_interface e) (register_request e rid) (wd_writer s') \<le> nat retries))"
proof -
  have run: "collect_registers mit_range_audit es timeout retries s = Some (r, s')"
    using assms(1) by (simp add: collect_mit_range_registers_def)
  have regs: "ak_registers mit_range_audit = MIT_RANGE_REGISTERS" "length MIT_RANGE_REGISTERS = 3"
    by (simp_all add: mit_range_audit_def MIT_RANGE_REGISTERS_def)
  have "on_writer (audited range_register_ids (total_tx (wd_writer s))) s"
    using assms(2) by (simp add: on_writer_def audited_def)
  from holdsD [OF all_requests.collect_registers_budget this] run
  have "on_writer (audited range_register_ids (total_tx (wd_writer s) + int (nat retries * 3 * length es))) s'"
    by (cases r) (fastforce simp: regs sum_list_triv mult.commute mult.left_commute)+
  moreover have "asked (ep_interface e) (register_request e rid) (wd_writer s') \<le> nat retries"
    if "distinct_addresses es" "e \<in> set es" "rid \<in> set range_register_ids" for e rid
  proof -
    let ?P = "\<lambda>b readers. int (asked (ep_interface e) (register_request e rid) readers) \<le> b"
    have "on_writer (?P 0) s"
      using assms(2) by (auto simp: on_writer_def asked_def split: option.split dest!: map_of_SomeD)
    from holdsD [OF one_request.collect_registers_budget this] run
    have "on_writer (?P (0 + int (sum_list (map (\<lambda>e'. sum_list (map (\<lambda>rn. nat retries *
        same_request (ep_interface e) (register_request e rid) e' (fst rn)) MIT_RANGE_REGISTERS)) es)))) s'"
      by (cases r) (simp_all add: regs)
    moreover have "rid \<in> {21, 22, 23}" using that(3) by (simp add: range_register_ids_def)
    ultimately show ?thesis
      using one_motor_requests [OF that(1,2), of rid "nat retries"] by (simp add: on_writer_def)
  qed
  ultimately show ?thesis by (simp add: on_writer_def audited_def)
qed

section \<open>What a returned report says\<close>

definition positive_json :: "json \<Rightarrow> bool" where
  "positive_json v \<longleftrightarrow> (\<exists>x > 0. v = JFloat (Fin x))"

definition measured :: "json \<Rightarrow> bool" where
  "measured j \<longleftrightarrow> (\<exists>p v t. 0 < p \<and> 0 < v \<and> 0 < t \<and>
     j = JObj [(''PMAX'', JFloat (Fin p)), (''VMAX'', JFloat (Fin v)), (''TMAX'', JFloat (Fin t))])"

abbreviation unread :: "(string, json) dict \<Rightarrow> reading \<Rightarrow> bool" where
  "unread ms \<equiv> \<lambda>s. rd_motors s = ms"

lemma quiet_unread: "quiet (unread ms)"
  by (simp add: quiet_def)

lemmas unread_env = keeps_quiet [OF quiet_unread]

lemma decoded_positive:
  "decode_read_response frame c m r = Inr v \<Longrightarrow> positive_json (rv_value v)"
  by (auto simp: decode_read_response_def rbind_eq_Inr positive_value_def positive_json_def isfinite_iff
      split: option.splits if_splits)

lemma holds_read_once:
  "holds (unread ms) (read_once mit_range_audit timeout e rid)
     (\<lambda>d s. unread ms s \<and> (\<forall>v. d = Some v \<longrightarrow> positive_json (rv_value v))) (\<lambda>_ _. True)"
proof -
  let ?Q = "\<lambda>d s. unread ms s \<and> (\<forall>v. d = Some v \<longrightarrow> positive_json (rv_value v))"
  have true: "holds (unread ms) m (\<lambda>_. unread ms) (\<lambda>_ _. True)" if "keeps (unread ms) m" for m :: "(reading, 'a) io"
    by (rule holds_conseq [OF that]) simp_all
  have skip: "keeps (unread ms) receive_or_skip"
    unfolding receive_or_skip_def
    by (intro keeps_rules unread_env) (auto split: py_error.split intro!: keeps_rules unread_env keeps_modify)
  have body: "holds (unread ms) (response_step mit_range_audit e rid deadline u)
      (\<lambda>r s. case r of Inl y \<Rightarrow> unread ms s | Inr z \<Rightarrow> ?Q z s) (\<lambda>_ _. True)" for deadline u
    unfolding response_step_def
  proof (intro holds_bind [OF true [OF unread_env(1)]])
    fix t :: pyfloat
    show "holds (unread ms) (if \<not> flt t deadline then io_return (Inr None)
       else io_bind receive_or_skip (\<lambda>received. case received of None \<Rightarrow> io_return (Inl ())
        | Some frame \<Rightarrow> if f_can_id frame = DAMIAO_PARAMETER_CAN_ID \<or> f_can_id frame \<noteq> ep_master_id e
            then io_return (Inl ())
            else io_bind (io_lift (ak_decode mit_range_audit frame (ep_can_id e) (ep_master_id e) rid))
              (\<lambda>v. io_return (Inr (Some v)))))
      (\<lambda>r s. case r of Inl y \<Rightarrow> unread ms s | Inr z \<Rightarrow> ?Q z s) (\<lambda>_ _. True)"
      by (auto intro!: holds_bind [OF true [OF skip]] holds_return holds_lift_bind
          split: option.split simp: mit_range_audit_def decoded_positive)
  qed
  show ?thesis unfolding read_once_def
    by (intro holds_then [OF true] holds_bind [OF true] unread_env keeps_modify
        holds_loop [where I = "\<lambda>_. unread ms" and Q = ?Q] body) simp_all
qed

lemma holds_read_register:
  "holds (unread ms) (read_register n mit_range_audit timeout e rn)
     (\<lambda>y s. unread ms s \<and> fst y = snd rn \<and> positive_json (snd y)) (\<lambda>_ _. True)"
proof -
  have "holds (unread ms) (read_retrying n mit_range_audit timeout e rid)
      (\<lambda>d s. unread ms s \<and> (\<forall>v. d = Some v \<longrightarrow> positive_json (rv_value v))) (\<lambda>_ _. True)" for rid
  proof (induction n)
    case 0
    then show ?case by (simp add: holds_return)
  next
    case (Suc n)
    then have "holds (\<lambda>s. unread ms s \<and> (\<forall>v. d = Some v \<longrightarrow> positive_json (rv_value v)))
        (case d of None \<Rightarrow> read_retrying n mit_range_audit timeout e rid | Some v \<Rightarrow> io_return (Some v))
        (\<lambda>d s. unread ms s \<and> (\<forall>v. d = Some v \<longrightarrow> positive_json (rv_value v))) (\<lambda>_ _. True)" for d
      by (cases d) (auto intro: holds_return)
    then show ?case unfolding read_retrying.simps by (rule holds_bind [OF holds_read_once])
  qed
  note r = this
  obtain rid name where rn: "rn = (rid, name)" by (cases rn)
  show ?thesis unfolding read_register_def rn prod.case
  proof (rule holds_bind [OF r])
    fix d
    show "holds (\<lambda>s. unread ms s \<and> (\<forall>v. d = Some v \<longrightarrow> positive_json (rv_value v)))
        (case d of None \<Rightarrow> io_raise (RuntimeError (''no valid '' @ name @ '' response from '' @
           ep_motor_name e @ '' after the attempts''))
         | Some v \<Rightarrow> io_return (name, rv_value v))
        (\<lambda>y s. unread ms s \<and> fst y = snd (rid, name) \<and> positive_json (snd y)) (\<lambda>_ _. True)"
      by (cases d) (auto intro!: holds_return holds_raise)
  qed
qed

lemma holds_io_map:
  assumes "\<And>x. holds I (f x) (\<lambda>y s. I s \<and> R x y) E"
  shows "holds I (io_map f xs) (\<lambda>ys s. I s \<and> list_all2 R xs ys) E"
proof (induction xs)
  case Nil
  then show ?case by (simp add: holds_return)
next
  case (Cons x xs)
  have rest: "holds (\<lambda>s. I s \<and> R x y) (io_bind (io_map f xs) (\<lambda>ys. io_return (y # ys)))
      (\<lambda>ys s. I s \<and> list_all2 R (x # xs) ys) E" for y
  proof (cases "R x y")
    case True
    then show ?thesis by (auto intro!: holds_bind [OF Cons] holds_return)
  next
    case False
    then show ?thesis by (simp add: holds_def)
  qed
  show ?case unfolding io_map.simps by (rule holds_bind [OF assms rest])
qed

lemma holds_read_motor:
  "holds (unread ms) (read_motor n mit_range_audit timeout e)
     (\<lambda>_ s. \<exists>j. rd_motors s = dict_set ms (ep_motor_name e) j \<and> measured j) (\<lambda>_ _. True)"
  unfolding read_motor_def
proof (rule holds_bind [OF holds_io_map [OF holds_read_register]], rule holds_modify)
  fix ys s
  assume "unread ms s \<and> list_all2 (\<lambda>rn y. fst y = snd rn \<and> positive_json (snd y)) (ak_registers mit_range_audit) ys"
  then obtain p v t where "0 < p" "0 < v" "0 < t"
    "ys = [(''PMAX'', JFloat (Fin p)), (''VMAX'', JFloat (Fin v)), (''TMAX'', JFloat (Fin t))]"
    by (auto simp: mit_range_audit_def MIT_RANGE_REGISTERS_def list_all2_Cons1 positive_json_def)
  then have "measured (JObj (dict_of ys))" by (auto simp: measured_def)
  with \<open>unread ms s \<and> _\<close> show "\<exists>j. rd_motors (s\<lparr>rd_motors := dict_set (rd_motors s) (ep_motor_name e) (JObj (dict_of ys))\<rparr>)
      = dict_set ms (ep_motor_name e) j \<and> measured j" by auto
qed

definition covers :: "feedback_endpoint list \<Rightarrow> (string, json) dict \<Rightarrow> bool" where
  "covers es ms \<longleftrightarrow> map fst ms = map ep_motor_name es \<and> (\<forall>j \<in> snd ` set ms. measured j)"

lemma dict_set_new: "k \<notin> fst ` set d \<Longrightarrow> dict_set d k v = d @ [(k, v)]"
  by (induction d k v rule: dict_set.induct) auto

lemma covers_snoc:
  assumes "covers xs ms" and "ep_motor_name x \<notin> set (map ep_motor_name xs)" and "measured j"
  shows "covers (xs @ [x]) (dict_set ms (ep_motor_name x) j)"
proof -
  have "fst ` set ms = set (map ep_motor_name xs)"
    using assms(1) unfolding covers_def by (metis list.set_map)
  then have "dict_set ms (ep_motor_name x) j = ms @ [(ep_motor_name x, j)]"
    using assms(2) by (simp add: dict_set_new)
  with assms show ?thesis by (auto simp: covers_def)
qed

text \<open>A postcondition that depends on a value of the state before.\<close>

lemma holds_ghost:
  assumes "\<And>v. C v \<Longrightarrow> holds (\<lambda>s. g s = v) m Q E"
  shows "holds (\<lambda>s. C (g s)) m Q E"
  using assms unfolding holds_def by blast

lemma holds_read_motors:
  assumes "distinct (map ep_motor_name es)"
  shows "holds (unread []) (io_for (read_motor n mit_range_audit timeout) es)
    (\<lambda>_ s. covers es (rd_motors s)) (\<lambda>_ _. True)"
proof -
  let ?I = "\<lambda>xs s. covers xs (rd_motors s)"
  have "holds (?I []) (io_for (read_motor n mit_range_audit timeout) es) (\<lambda>_. ?I es) (\<lambda>_ _. True)"
  proof (rule holds_for_prefix [where I = ?I])
    fix xs x ys assume es: "es = xs @ x # ys"
    with assms have new: "ep_motor_name x \<notin> set (map ep_motor_name xs)" by auto
    show "holds (?I xs) (read_motor n mit_range_audit timeout x) (\<lambda>_. ?I (xs @ [x])) (\<lambda>_ _. True)"
      by (rule holds_ghost, rule holds_conseq [OF holds_read_motor]) (auto intro: covers_snoc [OF _ new])
  qed
  then show ?thesis by (rule holds_conseq) (auto simp: covers_def)
qed

lemma collected_document:
  assumes "collect_mit_range_registers es timeout retries s = Some (Inr report, s')"
  shows "report = audit_document mit_range_audit (length es) s' \<and> covers es (rd_motors s')
    \<and> distinct (map ep_motor_name es)"
proof -
  have "audit_checks (wd_writer s) es timeout retries = Inr ()"
    using assms by (auto simp: collect_mit_range_registers_def collect_registers_def io_app
        split: option.splits sum.splits)
  then have dist: "distinct (map ep_motor_name es)" by (auto simp: audit_checks_def split: if_splits)
  have "holds (\<lambda>_. True) (collect_mit_range_registers es timeout retries)
      (\<lambda>report s. report = audit_document mit_range_audit (length es) s \<and> covers es (rd_motors s)) (\<lambda>_ _. True)"
    unfolding collect_mit_range_registers_def collect_registers_def
    by (rule holds_bind [where R = "\<lambda>_ _. True"], rule holds_get, rule TrueI,
        rule holds_then [where R = "\<lambda>_. True"], rule holds_lift, simp_all,
        rule holds_then [where R = "unread []"], rule holds_modify, simp,
        rule holds_then [OF holds_read_motors [OF dist]],
        rule holds_then [where R = "\<lambda>s. covers es (rd_motors s)"])
      (auto intro!: holds_bind [where R = "\<lambda>_ s. covers es (rd_motors s)"] holds_get holds_when holds_raise)
  with assms dist show ?thesis by (auto dest: holdsD(1))
qed

section \<open>Installing the readback\<close>

lemma document_fields:
  "jget (audit_document mit_range_audit n s) ''mode'' = JStr ''read_only_damiao_mit_range_register_audit''"
  "jget (audit_document mit_range_audit n s) ''passed'' = JBool (length (rd_motors s) = n)"
  "jget (audit_document mit_range_audit n s) ''motors'' = JObj (rd_motors s)"
  "jget (audit_document mit_range_audit n s) ''tx_count'' = JInt (total_tx (wd_writer s))"
  "jget (audit_document mit_range_audit n s) ''write_register_attempts'' = JInt 0"
  "jget (audit_document mit_range_audit n s) ''enable_attempts'' = JInt 0"
  "jget (audit_document mit_range_audit n s) ''mode_switch_attempts'' = JInt 0"
  by (simp_all add: audit_document_def mit_range_audit_def jget_def)

text \<open>The ranges of a verified readback: symmetric, from the registers.\<close>

definition verified_ranges :: "numerics \<Rightarrow> json \<Rightarrow> bool" where
  "verified_ranges N rec \<longleftrightarrow> (\<exists>p v t. 0 < p \<and> 0 < v \<and> 0 < t \<and>
     rbind (jindex rec ''mit_ranges'') (ranges_of_json N) = Inr
       \<lparr>rng_position_rad = (Fin (- p), Fin p), rng_velocity_rad_s = (Fin (- v), Fin v),
        rng_torque_nm = (Fin (- t), Fin t), rng_source = ''motor_register_readback''\<rparr>)"

lemma ranges_of_readback:
  assumes "0 < p" and "0 < v" and "0 < t"
  shows "ranges_of_json N (readback_ranges digest evidence (Fin p) (Fin v) (Fin t)) = Inr
    \<lparr>rng_position_rad = (Fin (- p), Fin p), rng_velocity_rad_s = (Fin (- v), Fin v),
     rng_torque_nm = (Fin (- t), Fin t), rng_source = ''motor_register_readback''\<rparr>"
  using assms
  by (simp add: ranges_of_json_def readback_ranges_def symmetric_range_def jindex_def range_list_def
      validate_range_def new_mit_ranges_def)

lemma readback_record_verified:
  assumes "measured values" and "is_dict rec"
  shows "\<exists>rec'. readback_record N digest evidence values name rec = Inr rec' \<and> verified_ranges N rec'"
proof -
  obtain p v t where pvt: "0 < p" "0 < v" "0 < t"
    "values = JObj [(''PMAX'', JFloat (Fin p)), (''VMAX'', JFloat (Fin v)), (''TMAX'', JFloat (Fin t))]"
    using assms(1) by (auto simp: measured_def)
  let ?rec = "JObj (dict_set (jfields rec) ''mit_ranges'' (readback_ranges digest evidence (Fin p) (Fin v) (Fin t)))"
  have "readback_record N digest evidence values name rec = Inr ?rec"
    using pvt assms(2) by (simp add: readback_record_def float_field_def jindex_def)
  moreover have "verified_ranges N ?rec"
    using pvt ranges_of_readback [OF pvt(1-3)] by (auto simp: verified_ranges_def jindex_def)
  ultimately show ?thesis by blast
qed

lemma readback_loop_verified:
  assumes "\<forall>(name, rec) \<in> set mm. is_dict rec \<and> (\<exists>j. map_of ms name = Some j \<and> measured j)"
  shows "\<exists>mm'. readback_loop N digest evidence (JObj ms) mm = (mm', Inr (int (length mm))) \<and>
    map fst mm' = map fst mm \<and> (\<forall>rec \<in> snd ` set mm'. verified_ranges N rec)"
  using assms
proof (induction mm)
  case Nil
  then show ?case by simp
next
  case (Cons nr mm)
  obtain name rec where nr: "nr = (name, rec)" by (cases nr)
  with Cons.prems obtain j where j: "map_of ms name = Some j" "measured j" "is_dict rec" by auto
  then obtain rec' where "readback_record N digest evidence j name rec = Inr rec'" "verified_ranges N rec'"
    using readback_record_verified by blast
  moreover from Cons obtain mm' where "readback_loop N digest evidence (JObj ms) mm = (mm', Inr (int (length mm)))"
    "map fst mm' = map fst mm" "\<forall>rec \<in> snd ` set mm'. verified_ranges N rec" by auto
  ultimately show ?case by (simp add: nr jindex_def j)
qed

text \<open>
  C18. The range audit and the installation of its report fit together: when the audit of the
  motors of a hardware document returns, installing the report succeeds for every motor, whatever
  the digest, and from the updated document every motor is read back with finite symmetric ranges
  that count as verified by the register readback.
\<close>
theorem readback_gives_verified_ranges:
  assumes "collect_mit_range_registers es timeout retries s = Some (Inr report, s')"
    and "is_dict hardware" and "jget hardware ''motor_map'' = JObj mm"
    and "set (map ep_motor_name es) = fst ` set mm" and "\<forall>rec \<in> snd ` set mm. is_dict rec"
  shows "\<exists>hardware' mm'. apply_mit_range_readback N digest hardware report evidence =
      (hardware', Inr (int (length mm))) \<and> jget hardware' ''motor_map'' = JObj mm' \<and>
    map fst mm' = map fst mm \<and> (\<forall>rec \<in> snd ` set mm'. verified_ranges N rec)"
proof -
  from collected_document [OF assms(1)] have report: "report = audit_document mit_range_audit (length es) s'"
    and cov: "covers es (rd_motors s')" by blast+
  have names: "fst ` set (rd_motors s') = fst ` set mm"
    using cov assms(4) unfolding covers_def by (metis list.set_map)
  have all: "length (rd_motors s') = length es"
    using cov unfolding covers_def by (metis length_map)
  have checks: "readback_checks hardware report = Inr ()"
    by (simp add: readback_checks_def report document_fields all assms(3) names)
  have "\<forall>(name, rec) \<in> set mm. is_dict rec \<and> (\<exists>j. map_of (rd_motors s') name = Some j \<and> measured j)"
  proof (intro ballI, clarify, intro conjI)
    fix name rec assume nr: "(name, rec) \<in> set mm"
    then show "is_dict rec" using assms(5) by force
    have "name \<in> fst ` set (rd_motors s')" using nr names by force
    then obtain j where "map_of (rd_motors s') name = Some j"
      by (metis map_of_eq_None_iff not_None_eq)
    moreover from map_of_SomeD [OF this] have "measured j" using cov by (force simp: covers_def)
    ultimately show "\<exists>j. map_of (rd_motors s') name = Some j \<and> measured j" by blast
  qed
  from readback_loop_verified [OF this, of N "digest report" evidence] obtain mm' where
    "readback_loop N (digest report) evidence (JObj (rd_motors s')) mm = (mm', Inr (int (length mm)))"
    "map fst mm' = map fst mm" "\<forall>rec \<in> snd ` set mm'. verified_ranges N rec" by blast
  then have "apply_mit_range_readback N digest hardware report evidence =
      (JObj (dict_set (jfields hardware) ''motor_map'' (JObj mm')), Inr (int (length mm)))"
    using checks by (simp add: apply_mit_range_readback_def report document_fields assms(3))
  moreover have "jget (JObj (dict_set (jfields hardware) ''motor_map'' (JObj mm'))) ''motor_map'' = JObj mm'"
    by (simp add: jget_def)
  ultimately show ?thesis
    using \<open>map fst mm' = map fst mm\<close> \<open>\<forall>rec \<in> snd ` set mm'. verified_ranges N rec\<close> by blast
qed

section \<open>One motor read on concrete inputs\<close>

text \<open>A reply of motor 1 with \<open>12.5\<close>, \<open>30\<close> and \<open>10\<close> in the three registers.\<close>

definition probed_reply :: "int \<Rightarrow> bytes \<Rightarrow> can_frame" where
  "probed_reply rid value = \<lparr>f_interface = ''can0'', f_can_id = 0x11,
     f_data = [1, 0, 0x33, word_of_int rid] @ value, is_extended = False, is_remote = False,
     is_error = False, is_fd = True, bit_rate_switch = True, error_state_indicator = False,
     software_timestamp_ns = 1, hardware_timestamp_ns = 1, userspace_receive_timestamp_ns = 2\<rparr>"

definition probed_motor :: feedback_endpoint where
  "probed_motor = \<lparr>ep_motor_name = ''hip'', ep_interface = ''can0'', ep_can_id = 1, ep_master_id = 0x11,
     ep_ranges = \<lparr>rng_position_rad = (Fin (- 1), Fin 1), rng_velocity_rad_s = (Fin (- 1), Fin 1),
       rng_torque_nm = (Fin (- 1), Fin 1), rng_source = ''operator_confirmed_drive_configuration''\<rparr>\<rparr>"

definition probed_reader :: "bytes list \<Rightarrow> int \<Rightarrow> readers" where
  "probed_reader frames n = [(''can0'', \<lparr>rr_interface = ''can0'', rr_allowed_motor_can_ids = [1],
     rr_wire = frames, rr_tx_attempts = n\<rparr>)]"

definition probed_reading :: reading where
  "probed_reading = \<lparr>wd_writer = probed_reader [] 0,
     wd_clock = [Fin 0, Fin 0, Fin 0, Fin 0, Fin 0, Fin 0, Fin 0, Fin 0, Fin 0],
     wd_rx = [Inl BlockingIOError, Inr (probed_reply 21 [0, 0, 0x48, 0x41]),
       Inr (probed_reply 22 [0, 0, 0xF0, 0x41]), Inl (SocketCanTimestampError []),
       Inr (probed_reply 23 [0, 0, 0x20, 0x41])],
     wd_tx = [Some 72, Some 72, Some 72], wd_sleeps = [Inr ()],
     rd_attempts = 0, rd_discarded = 0, rd_motors = []\<rparr>"

definition probed_read :: reading where
  "probed_read = probed_reading\<lparr>
     wd_writer := probed_reader (map (\<lambda>r. wire_frame 0x7FF (read_request_data 1 r)) [21, 22, 23]) 3,
     wd_clock := [Fin 0], wd_rx := [], wd_tx := [], wd_sleeps := [], rd_attempts := 3, rd_discarded := 1,
     rd_motors := [(''hip'', JObj [(''PMAX'', JFloat (Fin (25 / 2))), (''VMAX'', JFloat (Fin 30)),
       (''TMAX'', JFloat (Fin 10))])]\<rparr>"

lemma probed_decodes:
  "decode_read_response (probed_reply 21 [0, 0, 0x48, 0x41]) 1 0x11 21 =
     Inr \<lparr>rv_master_id = 0x11, rv_register_id = 21, rv_register_name = ''PMAX'', rv_value = JFloat (Fin (25 / 2))\<rparr>"
  "decode_read_response (probed_reply 22 [0, 0, 0xF0, 0x41]) 1 0x11 22 =
     Inr \<lparr>rv_master_id = 0x11, rv_register_id = 22, rv_register_name = ''VMAX'', rv_value = JFloat (Fin 30)\<rparr>"
  "decode_read_response (probed_reply 23 [0, 0, 0x20, 0x41]) 1 0x11 23 =
     Inr \<lparr>rv_master_id = 0x11, rv_register_id = 23, rv_register_name = ''TMAX'', rv_value = JFloat (Fin 10)\<rparr>"
  by (simp_all add: decode_read_response_def response_checks_def payload_command_id_def byte_at_def
      probed_reply_def READ_OPCODE_def MIT_RANGE_REGISTERS_def positive_value_def float32_def
      float32_of_int_def slice_def pow2_def Let_def)

lemma probed_calls:
  "rid \<in> {21, 22, 23} \<Longrightarrow>
    reader_call send_read_request (probed_reader fs n) (''can0'', 1, rid) (Some 72) =
      (probed_reader (fs @ [wire_frame 0x7FF (read_request_data 1 rid)]) (n + 1), Inr ())"
  using standard_PARAMETER_CAN_ID
  by (simp add: reader_call_def probed_reader_def send_read_request_def send_read_request_with_def
      range_register_ids_def canfd_pack_wire short_write_check_def length_wire_frame
      PARAMETER_CAN_ID_def read_request_data_def)

lemma total_tx_probed: "total_tx (probed_reader fs n) = n"
  by (simp add: total_tx_def probed_reader_def)

lemma probed_deadline: "flt (Fin 0) (fadd (Fin 0) (rnd (1 / 10)))"
  by (simp add: float_eval)

lemma probed_fields:
  "ep_interface probed_motor = ''can0''" "ep_can_id probed_motor = 1" "ep_master_id probed_motor = 0x11"
  "ep_motor_name probed_motor = ''hip''" "f_can_id (probed_reply rid v) = 0x11"
  by (simp_all add: probed_motor_def probed_reply_def)

lemmas probed_eval = read_once_def response_step_def receive_or_skip_def io_app environment_app
  probed_fields probed_calls probed_decodes probed_deadline DAMIAO_PARAMETER_CAN_ID_def io_loop_def
  receive_frame_def mit_range_audit_def

lemma probed_run:
  "collect_mit_range_registers [probed_motor] (rnd (1 / 10)) 3 probed_reading =
    Some (Inr (audit_document mit_range_audit 1 probed_read), probed_read)"
proof -
  have checks: "audit_checks (probed_reader [] 0) [probed_motor] (rnd (1 / 10)) 3 = Inr ()"
    by (simp add: audit_checks_def probed_reader_def probed_fields float_eval)
  show ?thesis
    by (simp add: collect_mit_range_registers_def collect_registers_def probed_reading_def probed_read_def checks
        read_motor_def read_register_def MIT_RANGE_REGISTERS_def numeral_3_eq_3 probed_eval
        io_when_app dict_of_def total_tx_probed)
qed

theorem register_audit_only_reads_witness:
  "list_all (\<lambda>rd. list_all (read_request_frame range_register_ids (rr_allowed_motor_can_ids rd)) (rr_wire rd))
     (map snd (wd_writer probed_read)) \<and>
    total_tx (wd_writer probed_read) \<le> total_tx (wd_writer probed_reading) + int (nat 3 * 3 * length [probed_motor]) \<and>
    asked ''can0'' (register_request probed_motor 22) (wd_writer probed_read) \<le> nat 3"
proof -
  have clear: "\<forall>rd \<in> snd ` set (wd_writer probed_reading). rr_wire rd = []"
    by (simp add: probed_reading_def probed_reader_def)
  have "distinct_addresses [probed_motor]" by (simp add: distinct_addresses_def probed_fields standard_id_def)
  with register_audit_only_reads [OF probed_run clear] show ?thesis
    by (simp add: list_all_iff probed_fields range_register_ids_def)
qed

definition probed_numerics :: numerics where
  "probed_numerics = \<lparr>parse_float = (\<lambda>_. None), parse_int = (\<lambda>_. None),
     as_array = (\<lambda>_. Inr ([], [])), orthonormal = (\<lambda>_. False), det = (\<lambda>_. NaN)\<rparr>"

theorem readback_gives_verified_ranges_witness:
  "\<exists>hardware' mm'. apply_mit_range_readback probed_numerics (\<lambda>_. ''digest'')
      (JObj [(''motor_map'', JObj [(''hip'', JObj [])])]) (audit_document mit_range_audit 1 probed_read)
      (JStr ''report.json'') = (hardware', Inr (int (length [(''hip'', JObj [])]))) \<and>
    jget hardware' ''motor_map'' = JObj mm' \<and> map fst mm' = map fst [(''hip'', JObj [])] \<and>
    list_all (verified_ranges probed_numerics) (map snd mm')"
proof -
  have "\<exists>hardware' mm'. apply_mit_range_readback probed_numerics (\<lambda>_. ''digest'')
      (JObj [(''motor_map'', JObj [(''hip'', JObj [])])]) (audit_document mit_range_audit 1 probed_read)
      (JStr ''report.json'') = (hardware', Inr (int (length [(''hip'', JObj [])]))) \<and>
    jget hardware' ''motor_map'' = JObj mm' \<and> map fst mm' = map fst [(''hip'', JObj [])] \<and>
    (\<forall>rec \<in> snd ` set mm'. verified_ranges probed_numerics rec)"
    by (rule readback_gives_verified_ranges [OF probed_run]) (simp_all add: jget_def probed_fields)
  then show ?thesis by (simp only: list_all_iff set_map)
qed

end
