(* ===== verification/Heading.thy ===== *)
theory Heading
  imports HardwareTables
begin

text \<open>
  The outer heading controller (\<open>heading.py\<close>) and the fixed commissioning command schedule
  (\<open>command_schedule.py\<close>), with the bounds of what they command.
\<close>

section \<open>The controller\<close>

definition wrap_to_pi :: "pyfloat \<Rightarrow> pyfloat result" where
  "wrap_to_pi angle =
     (if \<not> isfinite angle then Inl (ValueError ''heading angle must be finite'')
      else rbind (fmod_py (fadd angle (Fin py_pi)) (fmul (Fin 2) (Fin py_pi)))
        (\<lambda>m. Inr (fsub m (Fin py_pi))))"

record heading_config =
  hc_stiffness :: pyfloat
  hc_yaw_rate_limit_rad_s :: pyfloat
  hc_manual_yaw_deadband_rad_s :: pyfloat

definition default_heading_config :: heading_config where
  "default_heading_config = \<lparr>hc_stiffness = rnd (1 / 2), hc_yaw_rate_limit_rad_s = rnd (2 / 10),
     hc_manual_yaw_deadband_rad_s = rnd (1 / 100)\<rparr>"

definition heading_validate :: "heading_config \<Rightarrow> unit result" where
  "heading_validate c =
     (if \<not> list_all isfinite [hc_stiffness c, hc_yaw_rate_limit_rad_s c, hc_manual_yaw_deadband_rad_s c]
      then Inl (ValueError ''heading controller values must be finite'')
      else if fle (hc_stiffness c) (Fin 0) then Inl (ValueError ''heading stiffness must be positive'')
      else if fle (hc_yaw_rate_limit_rad_s c) (Fin 0)
      then Inl (ValueError ''yaw-rate limit must be positive'')
      else if \<not> (fle (Fin 0) (hc_manual_yaw_deadband_rad_s c) \<and>
                 flt (hc_manual_yaw_deadband_rad_s c) (hc_yaw_rate_limit_rad_s c))
      then Inl (ValueError ''manual yaw deadband must be non-negative and below the limit'')
      else Inr ())"

record heading_controller =
  hd_config :: heading_config
  hd_target_yaw :: "pyfloat option"

definition new_heading_controller :: "heading_config option \<Rightarrow> heading_controller result" where
  "new_heading_controller config =
     (let c = (case config of None \<Rightarrow> default_heading_config | Some c \<Rightarrow> c) in
      rbind (heading_validate c) (\<lambda>_. Inr \<lparr>hd_config = c, hd_target_yaw = None\<rparr>))"

definition heading_reset :: "heading_controller \<Rightarrow> pyfloat \<Rightarrow> heading_controller result" where
  "heading_reset h yaw = rbind (wrap_to_pi yaw) (\<lambda>t. Inr (h\<lparr>hd_target_yaw := Some t\<rparr>))"

definition clamp_rate :: "pyfloat \<Rightarrow> pyfloat \<Rightarrow> pyfloat" where
  "clamp_rate limit x = fmax (fneg limit) (fmin limit x)"

text \<open>The controller of a call that raises is the one its last assignment left.\<close>

definition heading_update ::
  "heading_controller \<Rightarrow> pyfloat \<Rightarrow> pyfloat \<Rightarrow> bool \<Rightarrow> heading_controller \<times> pyfloat result" where
  "heading_update h yaw requested standing =
     (case wrap_to_pi yaw of Inl e \<Rightarrow> (h, Inl e)
      | Inr current \<Rightarrow>
      if \<not> isfinite requested then (h, Inl (ValueError ''requested yaw rate must be finite''))
      else case (if hd_target_yaw h = None then heading_reset h current else Inr h) of Inl e \<Rightarrow> (h, Inl e)
      | Inr h1 \<Rightarrow>
      if standing then
        (case heading_reset h1 current of Inl e \<Rightarrow> (h1, Inl e) | Inr h2 \<Rightarrow> (h2, Inr (Fin 0)))
      else
      (let limit = hc_yaw_rate_limit_rad_s (hd_config h1) in
       if flt (hc_manual_yaw_deadband_rad_s (hd_config h1)) (fabs requested)
       then (case heading_reset h1 current of Inl e \<Rightarrow> (h1, Inl e)
             | Inr h2 \<Rightarrow> (h2, Inr (clamp_rate limit requested)))
       else (h1, rbind (wrap_to_pi (fsub (the (hd_target_yaw h1)) current)) (\<lambda>error.
               Inr (clamp_rate limit (fmul (hc_stiffness (hd_config h1)) error))))))"

section \<open>The schedule\<close>

definition PROFILE :: string where "PROFILE = ''stand-walk-stop-40s''"
definition PROFILE_010 :: string where "PROFILE_010 = ''stand-walk010-stop-40s''"

definition PROFILE_SPEEDS :: "(string, pyfloat) dict" where
  "PROFILE_SPEEDS = [(PROFILE, rnd (5 / 100)), (PROFILE_010, rnd (10 / 100))]"

definition third :: "pyfloat \<Rightarrow> pyfloat \<Rightarrow> pyfloat result" where
  "third elapsed start = fdiv (fsub elapsed start) (Fin 3)"

definition sample_stand_walk_stop :: "pyfloat \<Rightarrow> string \<Rightarrow> (pyfloat \<times> string) result" where
  "sample_stand_walk_stop elapsed profile =
     (case map_of PROFILE_SPEEDS profile of None \<Rightarrow> Inl (ValueError ''unsupported command profile'')
      | Some speed \<Rightarrow>
      if \<not> isfinite elapsed \<or> flt elapsed (Fin 0)
      then Inl (ValueError ''elapsed time must be finite and nonnegative'')
      else if flt elapsed (Fin 10) then Inr (Fin 0, ''stand'')
      else if flt elapsed (Fin 13)
      then rbind (third elapsed (Fin 10)) (\<lambda>x.
        Inr (fmul (fmul (fmul speed x) x) (fsub (Fin 3) (fmul (Fin 2) x)), ''ramp_forward''))
      else if flt elapsed (Fin 27) then Inr (speed, ''forward'')
      else if flt elapsed (Fin 30)
      then rbind (third elapsed (Fin 27)) (\<lambda>x.
        Inr (fmul speed (fsub (Fin 1) (fmul (fmul x x) (fsub (Fin 3) (fmul (Fin 2) x)))), ''ramp_stop''))
      else Inr (Fin 0, ''final_stand''))"

definition countdown :: "pyfloat \<Rightarrow> int option result" where
  "countdown elapsed =
     (if fle (Fin 35) elapsed \<and> flt elapsed (Fin 40)
      then rbind (fceil (fsub (Fin 40) elapsed)) (\<lambda>n. Inr (Some n)) else Inr None)"

section \<open>The wrapped angle\<close>

definition wrapped :: "pyfloat \<Rightarrow> bool" where
  "wrapped y \<longleftrightarrow> (\<exists>r. y = Fin r \<and> - py_pi \<le> r \<and> r \<le> py_pi)"

text \<open>Every angle a sensor can report is far below this bound.\<close>

definition moderate :: "pyfloat \<Rightarrow> bool" where
  "moderate y \<longleftrightarrow> (\<exists>a. y = Fin a \<and> \<bar>a\<bar> \<le> pow2 960)"

lemma pi_doubles:
  "rnd py_pi = Fin py_pi" "rnd (- py_pi) = Fin (- py_pi)" "rnd (2 * py_pi) = Fin (2 * py_pi)"
proof -
  have p: "py_pi = of_int 884279719003555 * pow2 (- 48)" by (simp add: py_pi_def pow2_def)
  show pi: "rnd py_pi = Fin py_pi" unfolding p by (rule rnd_exact) simp_all
  show "rnd (- py_pi) = Fin (- py_pi)" by (simp add: rnd_minus pi)
  have e: "2 * py_pi = of_int 884279719003555 * pow2 (- 47)" by (simp add: py_pi_def pow2_def)
  show "rnd (2 * py_pi) = Fin (2 * py_pi)" unfolding e by (rule rnd_exact) simp_all
qed

lemma rnd_inside:
  assumes "rnd a = Fin a" and "rnd b = Fin b" and "a \<le> x" and "x \<le> b"
  shows "\<exists>r. rnd x = Fin r \<and> a \<le> r \<and> r \<le> b"
  using rnd_mono [OF assms(3)] rnd_mono [OF assms(4)] assms(1,2) by (cases "rnd x") auto

lemma fmod_inside:
  assumes b: "0 < b" "rnd b = Fin b"
  shows "\<exists>m. fmod_py (Fin x) (Fin b) = Inr (Fin m) \<and> 0 \<le> m \<and> m \<le> b"
proof (cases "0 \<le> x")
  case True
  then have "rtrunc (x / b) = \<lfloor>x / b\<rfloor>" using b by (simp add: rtrunc_def)
  moreover have "of_int \<lfloor>x / b\<rfloor> * b \<le> x"
    using of_int_floor_le [of "x / b"] b(1) by (metis pos_le_divide_eq)
  moreover have "x / b < of_int \<lfloor>x / b\<rfloor> + 1" by linarith
  then have "x < b + b * of_int \<lfloor>x / b\<rfloor>" using b(1) by (simp add: pos_divide_less_eq algebra_simps)
  ultimately have "0 \<le> x - b * of_int \<lfloor>x / b\<rfloor>" "x - b * of_int \<lfloor>x / b\<rfloor> < b" "rtrunc (x / b) = \<lfloor>x / b\<rfloor>"
    by (simp_all add: mult.commute)
  then show ?thesis using b by (auto simp: Let_def)
next
  case False
  then have t: "rtrunc (x / b) = \<lceil>x / b\<rceil>" using b by (simp add: rtrunc_def zero_le_divide_iff)
  define m where "m = x - b * of_int \<lceil>x / b\<rceil>"
  have m: "- b < m" "m \<le> 0"
  proof -
    have "of_int \<lceil>x / b\<rceil> - 1 < x / b" by linarith
    then have "(of_int \<lceil>x / b\<rceil> - 1) * b < x" using b(1) by (metis pos_less_divide_eq)
    then show "- b < m" by (simp add: m_def algebra_simps)
    have "x \<le> of_int \<lceil>x / b\<rceil> * b"
      using le_of_int_ceiling [of "x / b"] b(1) by (metis pos_divide_le_eq)
    then show "m \<le> 0" by (simp add: m_def mult.commute)
  qed
  have "\<exists>r. rnd (m + b) = Fin r \<and> 0 \<le> r \<and> r \<le> b" if "m \<noteq> 0"
    using rnd_inside [of 0 b "m + b"] b m by simp
  moreover have "fmod_py (Fin x) (Fin b) = Inr (if m \<noteq> 0 then rnd (m + b) else Fin 0)"
    using b m by (simp add: t m_def [symmetric] Let_def)
  ultimately show ?thesis using b by (cases "m = 0") auto
qed

lemma wrap_wrapped:
  assumes "moderate y"
  shows "\<exists>t. wrap_to_pi y = Inr t \<and> wrapped t"
proof -
  obtain a where y: "y = Fin a" and a: "\<bar>a\<bar> \<le> pow2 960" using assms by (auto simp: moderate_def)
  have pi: "0 < py_pi" "py_pi < 4" by (simp_all add: py_pi_def)
  have big: "rnd (pow2 961) = Fin (pow2 961)" "rnd (- pow2 961) = Fin (- pow2 961)"
    using rnd_exact [of 1 961] rnd_exact [of "- 1" 961] by simp_all
  have "pow2 961 = 2 * pow2 960" "4 \<le> pow2 960" using pow2_Suc [of 960] pow2_le_iff [of 2 960]
    by (simp_all add: pow2_def [of 2] del: pow2_le_iff)
  with a pi have "- pow2 961 \<le> a + py_pi" "a + py_pi \<le> pow2 961" by (simp_all add: abs_le_iff)
  from rnd_inside [OF big(2,1) this] obtain x where x: "rnd (a + py_pi) = Fin x" by blast
  obtain m where m: "fmod_py (Fin x) (Fin (2 * py_pi)) = Inr (Fin m)" "0 \<le> m" "m \<le> 2 * py_pi"
    using fmod_inside [OF _ pi_doubles(3)] pi by auto
  from rnd_inside [OF pi_doubles(2,1), of "m - py_pi"] m(2,3)
  show ?thesis by (auto simp: wrap_to_pi_def y x pi_doubles m(1) fsub_Fin wrapped_def simp del: fmod_py.simps)
qed

text \<open>The same for every finite double: adding pi to the largest ones is absorbed by the rounding.\<close>

definition largest_double :: rat where
  "largest_double = of_int (2 ^ 53 - 1) * pow2 971"

lemma largest_double_bounds: "pow2 1023 \<le> largest_double" "largest_double + pow2 971 = pow2 1024"
proof -
  have p: "pow2 1023 = of_int (2 ^ 52) * pow2 971" "pow2 1024 = of_int (2 ^ 53) * pow2 971"
    using pow2_grid [of 971 1023] pow2_grid [of 971 1024] by simp_all
  show "pow2 1023 \<le> largest_double" unfolding p largest_double_def by (intro mult_right_mono) simp_all
  show "largest_double + pow2 971 = pow2 1024" unfolding p largest_double_def by (simp add: algebra_simps)
qed

lemma double_below_largest:
  assumes "is_double (Fin a)"
  shows "\<bar>a\<bar> \<le> largest_double"
proof (cases "\<bar>a\<bar> < pow2 1023")
  case True
  then show ?thesis using largest_double_bounds(1) by linarith
next
  case False
  have d: "rnd_rat \<bar>a\<bar> = \<bar>a\<bar>" "\<bar>a\<bar> < pow2 1024" using is_double_abs [OF assms] by (simp_all add: is_double_Fin)
  from False have pos: "0 < \<bar>a\<bar>" using pow2_pos [of 1023] by linarith
  have "rlog2 \<bar>a\<bar> < 1024" "1023 \<le> rlog2 \<bar>a\<bar>" using pos d(2) False by (simp_all add: rlog2_less_iff rlog2_ge_iff)
  then have "qexp \<bar>a\<bar> = 971" by (simp add: qexp_def)
  with d(1) pos have "\<bar>a\<bar> = of_int (rhe (\<bar>a\<bar> / pow2 971)) * pow2 971" by (simp add: rnd_rat_def Let_def)
  then obtain k where k: "\<bar>a\<bar> = of_int k * pow2 971" by blast
  have p: "pow2 1024 = of_int (2 ^ 53) * pow2 971" using pow2_grid [of 971 1024] by simp
  from d(2) have "k < 2 ^ 53" unfolding k p by (simp del: of_int_power)
  then have "of_int k \<le> (of_int (2 ^ 53 - 1) :: rat)" by (simp only: of_int_le_iff)
  then show ?thesis unfolding k largest_double_def by (rule mult_right_mono) simp
qed

lemma add_pi_finite:
  assumes "is_double (Fin a)"
  shows "\<exists>x. rnd (a + py_pi) = Fin x"
proof -
  have pi: "0 < py_pi" "py_pi < 4" by (simp_all add: py_pi_def)
  have small: "4 * 2 < pow2 971" using pow2_less_iff [of 3 971] by (simp add: pow2_def [of 3] del: pow2_less_iff)
  define top where "top = largest_double + py_pi"
  have q: "top / pow2 971 = of_int (2 ^ 53 - 1) + py_pi / pow2 971" by (simp add: top_def largest_double_def add_divide_distrib)
  have frac: "0 < py_pi / pow2 971" "py_pi / pow2 971 < 1 / 2" using pi small by (simp_all add: divide_less_eq)
  then have "0 \<le> py_pi / pow2 971" "py_pi / pow2 971 < 1" by linarith+
  then have "\<lfloor>top / pow2 971\<rfloor> = 2 ^ 53 - 1" unfolding q by (intro floor_unique) simp_all
  then have r: "rhe (top / pow2 971) = 2 ^ 53 - 1" using frac q by (simp add: rhe_def Let_def)
  have t: "pow2 1023 \<le> top" "top < pow2 1024" using largest_double_bounds pi small by (simp_all add: top_def)
  then have pos: "0 < top" using pow2_pos [of 1023] by linarith
  then have "1023 \<le> rlog2 top" "rlog2 top < 1024" using t by (simp_all add: rlog2_ge_iff rlog2_less_iff)
  then have "qexp top = 971" using pos by (simp add: qexp_def)
  then have up: "rnd_rat top = largest_double" using r pos by (simp add: rnd_rat_def Let_def largest_double_def)
  have "rnd_rat largest_double = largest_double" unfolding largest_double_def by (rule rnd_rat_exact) simp_all
  then have down: "rnd_rat (- largest_double) = - largest_double" by (simp add: rnd_rat_minus)
  have "- largest_double \<le> a + py_pi" "a + py_pi \<le> top" using double_below_largest [OF assms] pi by (simp_all add: top_def abs_le_iff)
  from rnd_rat_mono [OF this(1)] rnd_rat_mono [OF this(2)] up down
  have "- largest_double \<le> rnd_rat (a + py_pi)" "rnd_rat (a + py_pi) \<le> largest_double" by simp_all
  moreover have "largest_double < pow2 1024" using largest_double_bounds(2) pow2_pos [of 971] by linarith
  ultimately show ?thesis by (simp add: rnd_alt)
qed

lemma wrap_double:
  assumes "is_double y" and "isfinite y"
  shows "\<exists>t. wrap_to_pi y = Inr t \<and> wrapped t"
proof -
  obtain a where y: "y = Fin a" using assms(2) by (auto simp: isfinite_iff)
  obtain x where x: "rnd (a + py_pi) = Fin x" using add_pi_finite assms(1) y by blast
  have "0 < py_pi" by (simp add: py_pi_def)
  then obtain m where m: "fmod_py (Fin x) (Fin (2 * py_pi)) = Inr (Fin m)" "0 \<le> m" "m \<le> 2 * py_pi"
    using fmod_inside [OF _ pi_doubles(3)] by auto
  from rnd_inside [OF pi_doubles(2,1), of "m - py_pi"] m(2,3)
  show ?thesis by (auto simp: wrap_to_pi_def y x pi_doubles m(1) fsub_Fin wrapped_def simp del: fmod_py.simps)
qed

text \<open>The interval is closed: the double below \<open>-pi\<close> is wrapped to \<open>pi\<close> itself by the last rounding.\<close>

lemma wrap_reaches_pi: "wrap_to_pi (Fin (- py_pi - 1 / 2251799813685248)) = Inr (Fin py_pi)"
proof -
  have tiny: "rnd (- 1 / 2251799813685248) = Fin (- 1 / 2251799813685248)"
    using rnd_exact [of "- 1" "- 51"] by (simp add: pow2_def)
  have up: "rnd (- 1 / 2251799813685248 + 2 * py_pi) = Fin (2 * py_pi)"
    by (simp add: py_pi_def rnd_def rnd_rat_def rlog2_def qexp_def pow2_def rhe_def log2n.simps Let_def)
  have "\<lceil>- 1 / 2251799813685248 / (2 * py_pi)\<rceil> = 0"
    by (simp add: ceiling_eq_iff py_pi_def)
  then have "rtrunc (- 1 / 2251799813685248 / (2 * py_pi)) = 0"
    by (simp add: rtrunc_def py_pi_def)
  then have "fmod_py (Fin (- 1 / 2251799813685248)) (Fin (2 * py_pi)) = Inr (Fin (2 * py_pi))"
    using up by (simp add: Let_def py_pi_def)
  moreover have "fadd (Fin (- py_pi - 1 / 2251799813685248)) (Fin py_pi) = Fin (- 1 / 2251799813685248)"
    using tiny by simp
  ultimately show ?thesis
    by (simp add: wrap_to_pi_def pi_doubles fsub_Fin del: fmod_py.simps fadd.simps)
qed

lemma wrapped_moderate: "wrapped y \<Longrightarrow> moderate y"
proof -
  assume "wrapped y"
  then obtain r where r: "y = Fin r" "\<bar>r\<bar> \<le> py_pi" by (auto simp: wrapped_def abs_le_iff)
  moreover have "py_pi \<le> pow2 2" by (simp add: py_pi_def pow2_def)
  moreover have "pow2 2 \<le> pow2 960" by simp
  ultimately show ?thesis unfolding moderate_def by (metis order_trans)
qed

lemma difference_moderate:
  assumes "wrapped x" and "wrapped y"
  shows "moderate (fsub x y)"
proof -
  obtain a b where ab: "x = Fin a" "y = Fin b" "- (2 * py_pi) \<le> a - b" "a - b \<le> 2 * py_pi"
    using assms by (fastforce simp: wrapped_def)
  have two: "rnd (- (2 * py_pi)) = Fin (- (2 * py_pi))" using rnd_minus [of "2 * py_pi"] by (simp add: pi_doubles)
  from rnd_inside [OF two pi_doubles(3) ab(3,4)] obtain r where
    r: "rnd (a - b) = Fin r" "\<bar>r\<bar> \<le> 2 * py_pi" by (auto simp: abs_le_iff)
  moreover have "2 * py_pi \<le> pow2 3" by (simp add: py_pi_def pow2_def)
  moreover have "pow2 3 \<le> pow2 960" by simp
  ultimately show ?thesis unfolding moderate_def ab fsub_Fin by (metis order_trans)
qed

section \<open>The commanded rate\<close>

lemma clamp_rate_bounds:
  assumes "0 < l"
  shows "\<exists>w. clamp_rate (Fin l) x = Fin w \<and> \<bar>w\<bar> \<le> l"
  using assms by (cases x) (auto simp: clamp_rate_def fmin_def fmax_def abs_le_iff)

definition heading_ok :: "rat \<Rightarrow> heading_controller \<Rightarrow> bool" where
  "heading_ok l h \<longleftrightarrow> 0 < l \<and> hc_yaw_rate_limit_rad_s (hd_config h) = Fin l \<and>
     (\<forall>t. hd_target_yaw h = Some t \<longrightarrow> wrapped t)"

lemma heading_reset_ok:
  assumes "heading_ok l h" and "is_double yaw" and "isfinite yaw"
  shows "\<exists>t. heading_reset h yaw = Inr (h\<lparr>hd_target_yaw := Some t\<rparr>) \<and> wrapped t"
  using wrap_double [OF assms(2,3)] by (auto simp: heading_reset_def)

lemma heading_update_ok:
  assumes h: "heading_ok l h" and "is_double yaw" and "isfinite yaw" and "isfinite requested"
  shows "\<exists>h' w. heading_update h yaw requested standing = (h', Inr (Fin w)) \<and> heading_ok l h' \<and> \<bar>w\<bar> \<le> l \<and>
    (standing \<longrightarrow> w = 0) \<and>
    (\<not> standing \<and> fle (fabs requested) (hc_manual_yaw_deadband_rad_s (hd_config h)) \<and> hd_target_yaw h \<noteq> None
       \<longrightarrow> hd_target_yaw h' = hd_target_yaw h)"
proof -
  obtain c where c: "wrap_to_pi yaw = Inr c" "wrapped c" using wrap_double [OF assms(2,3)] by blast
  obtain t where t: "heading_reset g c = Inr (g\<lparr>hd_target_yaw := Some t\<rparr>)" "wrapped t" for g
    using wrap_wrapped [OF wrapped_moderate [OF c(2)]] by (auto simp: heading_reset_def)
  define h1 where "h1 = (if hd_target_yaw h = None then h\<lparr>hd_target_yaw := Some t\<rparr> else h)"
  have h1: "(if hd_target_yaw h = None then heading_reset h c else Inr h) = Inr h1"
    by (simp add: h1_def t)
  have kept: "hd_target_yaw h \<noteq> None \<Longrightarrow> hd_target_yaw h1 = hd_target_yaw h" by (simp add: h1_def)
  have ok1: "heading_ok l h1" "hd_target_yaw h1 \<noteq> None" "hd_config h1 = hd_config h"
    using h t by (auto simp: h1_def heading_ok_def)
  have ok2: "heading_ok l (h1\<lparr>hd_target_yaw := Some t\<rparr>)" using ok1 t by (simp add: heading_ok_def)
  obtain y where y: "hd_target_yaw h1 = Some y" "wrapped y" using ok1 by (auto simp: heading_ok_def)
  obtain e where e: "wrap_to_pi (fsub y c) = Inr e"
    using wrap_wrapped [OF difference_moderate [OF y(2) c(2)]] by blast
  have l: "0 < l" "hc_yaw_rate_limit_rad_s (hd_config h1) = Fin l" using ok1 by (simp_all add: heading_ok_def)
  note b = clamp_rate_bounds [OF l(1)]
  have excl: "flt a b \<Longrightarrow> \<not> fle b a" for a b by (cases a; cases b) auto
  show ?thesis
  proof (cases "standing \<or> flt (hc_manual_yaw_deadband_rad_s (hd_config h1)) (fabs requested)")
    case True
    then show ?thesis using b [of requested] ok2 l assms(4) excl
      by (auto simp: heading_update_def c h1 t Let_def ok1(3))
  next
    case False
    then show ?thesis using b [of "fmul (hc_stiffness (hd_config h1)) e"] ok1 l assms(4) kept
      by (auto simp: heading_update_def c h1 y e Let_def)
  qed
qed

text \<open>The answers of a controller to a sequence of calls.\<close>

fun heading_run :: "heading_controller \<Rightarrow> (pyfloat \<times> pyfloat \<times> bool) list \<Rightarrow> pyfloat result list" where
  "heading_run h [] = []"
| "heading_run h ((yaw, requested, standing) # calls) =
     (case heading_update h yaw requested standing of (h', r) \<Rightarrow> r # heading_run h' calls)"

lemma new_heading_controller_ok:
  assumes "new_heading_controller config = Inr h"
  shows "\<exists>l. heading_ok l h"
proof -
  have v: "heading_validate (hd_config h) = Inr ()" "hd_target_yaw h = None"
    using assms by (auto simp: new_heading_controller_def Let_def rbind_eq_Inr)
  then obtain l where "hc_yaw_rate_limit_rad_s (hd_config h) = Fin l" "0 < l"
    by (auto simp: heading_validate_def isfinite_iff split: if_splits)
  with v(2) show ?thesis by (auto simp: heading_ok_def)
qed

text \<open>
  C19. A heading controller that was constructed answers every call on a finite yaw and a finite
  request, as large as a double can be, with a yaw rate inside the configured limit, whatever the operator asks for, the stiffness and the
  history; no call raises, and a standing robot is never told to turn.
\<close>
theorem heading_rate_bounded:
  assumes "new_heading_controller config = Inr h"
    and "\<forall>(yaw, requested, standing) \<in> set calls. is_double yaw \<and> isfinite yaw \<and> isfinite requested"
  shows "\<exists>l. hc_yaw_rate_limit_rad_s (hd_config h) = Fin l \<and>
    list_all2 (\<lambda>(yaw, requested, standing) r. \<exists>w. r = Inr (Fin w) \<and> \<bar>w\<bar> \<le> l \<and> (standing \<longrightarrow> w = 0))
      calls (heading_run h calls)"
proof -
  obtain l where l: "heading_ok l h" using new_heading_controller_ok [OF assms(1)] by blast
  have "list_all2 (\<lambda>(yaw, requested, standing) r. \<exists>w. r = Inr (Fin w) \<and> \<bar>w\<bar> \<le> l \<and> (standing \<longrightarrow> w = 0))
      calls (heading_run g calls)" if "heading_ok l g" for g
    using that assms(2)
  proof (induction calls arbitrary: g)
    case Nil
    then show ?case by simp
  next
    case (Cons x calls)
    obtain yaw requested standing where x: "x = (yaw, requested, standing)" by (cases x)
    from Cons.prems x obtain g' w where "heading_update g yaw requested standing = (g', Inr (Fin w))"
      "heading_ok l g'" "\<bar>w\<bar> \<le> l" "standing \<longrightarrow> w = 0"
      using heading_update_ok [of l g yaw requested standing] by auto
    with Cons.IH [of g'] Cons.prems(2) x show ?case by simp
  qed
  with l show ?thesis by (auto simp: heading_ok_def)
qed

definition sample_heading :: heading_controller where
  "sample_heading = \<lparr>hd_config = default_heading_config, hd_target_yaw = None\<rparr>"

theorem heading_rate_bounded_witness:
  "\<exists>l. hc_yaw_rate_limit_rad_s (hd_config sample_heading) = Fin l \<and>
    (\<exists>a b. heading_run sample_heading [(Fin 3, Fin 0, False), (Fin (- 3), Fin 9, False), (Fin 100, Fin 0, True)] =
      [Inr (Fin a), Inr (Fin b), Inr (Fin 0)] \<and> \<bar>a\<bar> \<le> l \<and> \<bar>b\<bar> \<le> l)"
proof -
  have new: "new_heading_controller None = Inr sample_heading"
    by (simp add: new_heading_controller_def heading_validate_def default_heading_config_def
        sample_heading_def float_eval)
  have "is_double (Fin 3)" "is_double (Fin (- 3))" "is_double (Fin 100)" by (simp_all add: float_eval)
  then have "\<forall>(yaw, requested, standing) \<in> set [(Fin 3, Fin 0, False), (Fin (- 3), Fin 9, False), (Fin 100, Fin 0, True)].
      is_double yaw \<and> isfinite yaw \<and> isfinite requested" by simp
  from heading_rate_bounded [OF new this] show ?thesis by (fastforce simp: list_all2_Cons1)
qed

section \<open>The schedule\<close>

text \<open>The schedule answers exactly the known profiles at finite non-negative times.\<close>

lemma schedule_total:
  "returns (sample_stand_walk_stop elapsed profile) \<longleftrightarrow>
     profile \<in> {PROFILE, PROFILE_010} \<and> isfinite elapsed \<and> \<not> flt elapsed (Fin 0)"
  by (auto simp: sample_stand_walk_stop_def PROFILE_SPEEDS_def third_def fdiv.simps rbind_def
      isfinite_iff fsub_def split: option.splits if_splits pyfloat.splits sum.splits)

end
