(* ===== verification/NativeIpc.thy ===== *)
theory NativeIpc
  imports PyFloat Bytes
begin

text \<open>
  The binary packets between the policy actor and the native loop (\<open>native_ipc.py\<close>): doubles and
  integers in the little-endian layouts of \<open>struct\<close>, the checks on both sides, and the hash of the
  ordered joint names.
\<close>

section \<open>Doubles as eight bytes\<close>

fun double_bits :: "pyfloat \<Rightarrow> int" where
  "double_bits (Fin r) =
     (if r = 0 then 0
      else (if r < 0 then 2 ^ 63 else 0) +
        (if rlog2 \<bar>r\<bar> < - 1022 then \<lfloor>\<bar>r\<bar> / pow2 (- 1074)\<rfloor>
         else (rlog2 \<bar>r\<bar> + 1023) * 2 ^ 52 + (\<lfloor>\<bar>r\<bar> / pow2 (rlog2 \<bar>r\<bar> - 52)\<rfloor> - 2 ^ 52)))"
| "double_bits PInf = 2047 * 2 ^ 52"
| "double_bits NInf = 2 ^ 63 + 2047 * 2 ^ 52"
| "double_bits NaN = 2047 * 2 ^ 52 + 2 ^ 51"

definition double_of_bits :: "int \<Rightarrow> pyfloat" where
  "double_of_bits v =
     (let e = v div 2 ^ 52 mod 2048; m = v mod 2 ^ 52; negative = 2 ^ 63 \<le> v in
      if e = 2047 then (if m \<noteq> 0 then NaN else if negative then NInf else PInf)
      else let x = (if e = 0 then of_int m * pow2 (- 1074) else of_int (2 ^ 52 + m) * pow2 (e - 1075))
           in Fin (if negative then - x else x))"

text \<open>
  A Python float with the sign of its zero, which \<open>struct.pack\<close> keeps: the other floats are their value.
\<close>

datatype ipc_float = Number pyfloat | NegativeZero

fun float_value :: "ipc_float \<Rightarrow> pyfloat" where
  "float_value (Number x) = x"
| "float_value NegativeZero = Fin 0"

fun float_bits :: "ipc_float \<Rightarrow> int" where
  "float_bits (Number x) = double_bits x"
| "float_bits NegativeZero = 2 ^ 63"

definition float_of_bits :: "int \<Rightarrow> ipc_float" where
  "float_of_bits v = (if v = 2 ^ 63 then NegativeZero else Number (double_of_bits v))"

definition pack_double :: "ipc_float \<Rightarrow> bytes" where
  "pack_double x = le_bytes 8 (float_bits x)"

definition unpack_double :: "bytes \<Rightarrow> ipc_float" where
  "unpack_double b = float_of_bits (le_int b)"

definition unpack_doubles :: "nat \<Rightarrow> nat \<Rightarrow> bytes \<Rightarrow> ipc_float list" where
  "unpack_doubles start n b =
     map (\<lambda>i. unpack_double (slice (start + 8 * i) (start + 8 * i + 8) b)) [0..<n]"

section \<open>The packets\<close>

definition MAGIC :: bytes where "MAGIC = [0x53, 0x50, 0x52, 0x54]"
definition VERSION :: int where "VERSION = 1"
definition STATE_KIND :: int where "STATE_KIND = 1"
definition TARGET_KIND :: int where "TARGET_KIND = 2"
definition JOINT_COUNT :: nat where "JOINT_COUNT = 31"
definition STATE_PACKET_SIZE :: nat where "STATE_PACKET_SIZE = 528"
definition TARGET_PACKET_SIZE :: nat where "TARGET_PACKET_SIZE = 1280"

definition ipc_vector :: "string \<Rightarrow> ipc_float list \<Rightarrow> ipc_float list result" where
  "ipc_vector label values =
     (if length values \<noteq> JOINT_COUNT \<or> \<not> list_all (\<lambda>x. isfinite (float_value x)) values
      then Inl (ValueError (label @ '' must contain 31 finite values'')) else Inr values)"

record state_packet =
  sp_sequence :: int
  sp_monotonic_ns :: int
  sp_motor_order_hash :: int
  sp_position_rad :: "ipc_float list"
  sp_velocity_rad_s :: "ipc_float list"

text \<open>\<open>"<4sHHQqQ"\<close>, the part both layouts begin with.\<close>

definition pack_header :: "int \<Rightarrow> int \<Rightarrow> int \<Rightarrow> int \<Rightarrow> bytes result" where
  "pack_header kind sequence timestamp name_hash =
     rbind (pack_uint 2 VERSION) (\<lambda>v. rbind (pack_uint 2 kind) (\<lambda>k.
     rbind (pack_uint 8 sequence) (\<lambda>s. rbind (pack_sint 8 timestamp) (\<lambda>t.
     rbind (pack_uint 8 name_hash) (\<lambda>h. Inr (MAGIC @ v @ k @ s @ t @ h))))))"

definition header_matches :: "int \<Rightarrow> bytes \<Rightarrow> bool" where
  "header_matches kind b = (slice 0 4 b = MAGIC \<and> le_int (slice 4 6 b) = VERSION \<and> le_int (slice 6 8 b) = kind)"

definition state_pack :: "state_packet \<Rightarrow> bytes result" where
  "state_pack p =
     rbind (ipc_vector ''position_rad'' (sp_position_rad p)) (\<lambda>position.
     rbind (ipc_vector ''velocity_rad_s'' (sp_velocity_rad_s p)) (\<lambda>velocity.
     rbind (pack_header STATE_KIND (sp_sequence p) (sp_monotonic_ns p) (sp_motor_order_hash p)) (\<lambda>header.
       Inr (header @ concat (map pack_double (position @ velocity))))))"

definition state_unpack :: "bytes \<Rightarrow> state_packet result" where
  "state_unpack b =
     (if length b \<noteq> STATE_PACKET_SIZE then Inl (ValueError ''native state packet must be 528 bytes'')
      else if \<not> header_matches STATE_KIND b then Inl (ValueError ''native state packet header mismatch'')
      else let values = unpack_doubles 32 62 b in
        rbind (ipc_vector ''position_rad'' (take JOINT_COUNT values)) (\<lambda>position.
        rbind (ipc_vector ''velocity_rad_s'' (drop JOINT_COUNT values)) (\<lambda>velocity.
          Inr \<lparr>sp_sequence = le_int (slice 8 16 b), sp_monotonic_ns = le_sint (slice 16 24 b),
            sp_motor_order_hash = le_int (slice 24 32 b), sp_position_rad = position,
            sp_velocity_rad_s = velocity\<rparr>)))"

record target_packet =
  tp_sequence :: int
  tp_monotonic_ns :: int
  tp_joint_order_hash :: int
  tp_source_state_sequence :: int
  tp_position_rad :: "ipc_float list"
  tp_velocity_rad_s :: "ipc_float list"
  tp_kp :: "ipc_float list"
  tp_kd :: "ipc_float list"
  tp_feedforward_torque_nm :: "ipc_float list"

definition check_gains :: "ipc_float list \<Rightarrow> ipc_float list \<Rightarrow> unit result" where
  "check_gains kp kd = (if list_ex (\<lambda>x. flt (float_value x) (Fin 0)) (kp @ kd)
     then Inl (ValueError ''policy target Kp/Kd must be non-negative'') else Inr ())"

definition target_vectors :: "(string \<times> ipc_float list) list \<Rightarrow> ipc_float list list result" where
  "target_vectors = rmap (\<lambda>(label, values). ipc_vector label values)"

definition labelled :: "ipc_float list list \<Rightarrow> (string \<times> ipc_float list) list" where
  "labelled = zip [''position_rad'', ''velocity_rad_s'', ''kp'', ''kd'', ''feedforward_torque_nm'']"

definition target_pack :: "target_packet \<Rightarrow> bytes result" where
  "target_pack p =
     rbind (target_vectors (labelled [tp_position_rad p, tp_velocity_rad_s p, tp_kp p, tp_kd p,
        tp_feedforward_torque_nm p])) (\<lambda>vectors.
     rbind (check_gains (vectors ! 2) (vectors ! 3)) (\<lambda>_.
     rbind (pack_header TARGET_KIND (tp_sequence p) (tp_monotonic_ns p) (tp_joint_order_hash p)) (\<lambda>header.
     rbind (pack_uint 8 (tp_source_state_sequence p)) (\<lambda>source.
       Inr (header @ source @ concat (map pack_double (concat vectors)))))))"

definition target_unpack :: "bytes \<Rightarrow> target_packet result" where
  "target_unpack b =
     (if length b \<noteq> TARGET_PACKET_SIZE then Inl (ValueError ''policy target packet must be 1280 bytes'')
      else if \<not> header_matches TARGET_KIND b then Inl (ValueError ''policy target packet header mismatch'')
      else let values = unpack_doubles 40 155 b in
        rbind (target_vectors (labelled
          (map (\<lambda>i. slice (i * JOINT_COUNT) ((i + 1) * JOINT_COUNT) values) [0..<5]))) (\<lambda>vectors.
        rbind (check_gains (vectors ! 2) (vectors ! 3)) (\<lambda>_.
          Inr \<lparr>tp_sequence = le_int (slice 8 16 b), tp_monotonic_ns = le_sint (slice 16 24 b),
            tp_joint_order_hash = le_int (slice 24 32 b), tp_source_state_sequence = le_int (slice 32 40 b),
            tp_position_rad = vectors ! 0, tp_velocity_rad_s = vectors ! 1, tp_kp = vectors ! 2,
            tp_kd = vectors ! 3, tp_feedforward_torque_nm = vectors ! 4\<rparr>)))"

section \<open>The hash of the joint names\<close>

text \<open>\<open>name.encode("utf-8")\<close> of the code points below 256.\<close>

definition utf8_char :: "char \<Rightarrow> bytes" where
  "utf8_char c = (let n = of_char c :: int in
     if n < 128 then [word_of_int n] else [word_of_int (192 + n div 64), word_of_int (128 + n mod 64)])"

definition utf8 :: "string \<Rightarrow> bytes" where
  "utf8 s = concat (map utf8_char s)"

definition fnv_step :: "64 word \<Rightarrow> byte \<Rightarrow> 64 word" where
  "fnv_step h b = (h XOR ucast b) * 0x100000001B3"

fun hash_names :: "64 word \<Rightarrow> string list \<Rightarrow> (64 word) result" where
  "hash_names h [] = Inr h"
| "hash_names h (name # names) =
     (if name = [] \<or> char_of (0 :: nat) \<in> set name
      then Inl (ValueError ''IPC names must be non-empty and contain no NUL'')
      else hash_names (foldl fnv_step h (utf8 name @ [0])) names)"

definition ordered_name_hash :: "string list \<Rightarrow> (64 word) result" where
  "ordered_name_hash names =
     (if length names \<noteq> JOINT_COUNT \<or> \<not> distinct names
      then Inl (ValueError ''ordered IPC name list must contain 31 unique names'')
      else hash_names 0xCBF29CE484222325 names)"

section \<open>A double survives its bytes\<close>

lemma bit_parts:
  fixes e m :: int
  assumes "0 \<le> e" "e < 2048" "0 \<le> m" "m < 2 ^ 52" and v: "v = (if s then 2 ^ 63 else 0) + (e * 2 ^ 52 + m)"
  shows "v mod 2 ^ 52 = m" and "v div 2 ^ 52 mod 2048 = e" and "2 ^ 63 \<le> v \<longleftrightarrow> s"
    and "0 \<le> v" and "v < 2 ^ 64"
proof -
  have v': "v = ((if s then 2048 else 0) + e) * 2 ^ 52 + m" using v by (simp add: algebra_simps)
  have c: "(c * 2 ^ 52 + m) mod 2 ^ 52 = m" "(c * 2 ^ 52 + m) div 2 ^ 52 = c" for c :: int
    using assms(3,4) by simp_all
  show "v mod 2 ^ 52 = m" unfolding v' by (rule c)
  have "v div 2 ^ 52 = (if s then 2048 else 0) + e" unfolding v' by (rule c)
  then show "v div 2 ^ 52 mod 2048 = e" using assms(1,2) by (cases s) simp_all
  show "2 ^ 63 \<le> v \<longleftrightarrow> s" "0 \<le> v" "v < 2 ^ 64" unfolding v using assms(1-4) by (cases s; simp)+
qed

lemma on_grid:
  assumes "is_double (Fin a)" and "a \<noteq> 0"
  shows "\<exists>m. a = of_int m * pow2 (qexp a)"
  using assms by (metis is_double_Fin rnd_rat_def)

text \<open>The fields of a positive double.\<close>

lemma double_fields:
  assumes "is_double (Fin a)" and "0 < a"
  shows "\<exists>e m. 0 \<le> e \<and> e < 2047 \<and> 0 \<le> m \<and> m < 2 ^ 52 \<and>
    (if rlog2 a < - 1022 then \<lfloor>a / pow2 (- 1074)\<rfloor>
     else (rlog2 a + 1023) * 2 ^ 52 + (\<lfloor>a / pow2 (rlog2 a - 52)\<rfloor> - 2 ^ 52)) = e * 2 ^ 52 + m \<and>
    a = (if e = 0 then of_int m * pow2 (- 1074) else of_int (2 ^ 52 + m) * pow2 (e - 1075))"
proof -
  obtain k where k: "a = of_int k * pow2 (qexp a)" using on_grid [OF assms(1)] assms(2) by auto
  have top: "a < pow2 1024" using assms by (simp add: is_double_Fin)
  note b = rlog2_bounds [OF assms(2)]
  show ?thesis
  proof (cases "rlog2 a < - 1022")
    case True
    then have a: "a = of_int k * pow2 (- 1074)" using k assms(2) by (simp add: qexp_def)
    have "a < pow2 (- 1022)" using True assms(2) by (simp add: rlog2_less_iff)
    also have "pow2 (- 1022) = of_int (2 ^ 52) * pow2 (- 1074)" using pow2_grid [of "- 1074" "- 1022"] by simp
    finally have "k < 2 ^ 52" by (simp add: a del: of_int_power)
    moreover have "0 < k" using assms(2) unfolding a by (metis of_int_0_less_iff pow2_pos zero_less_mult_pos2)
    ultimately show ?thesis using True a by (intro exI [of _ 0] exI [of _ k]) simp
  next
    case False
    define e where "e = rlog2 a + 1023"
    have q: "qexp a = rlog2 a - 52" using False assms(2) by (simp add: qexp_def)
    then have a: "a = of_int k * pow2 (rlog2 a - 52)" using k by simp
    have p: "pow2 (rlog2 a) = of_int (2 ^ 52) * pow2 (rlog2 a - 52)"
      "pow2 (rlog2 a + 1) = of_int (2 ^ 53) * pow2 (rlog2 a - 52)"
      using pow2_grid [of "rlog2 a - 52" "rlog2 a"] pow2_grid [of "rlog2 a - 52" "rlog2 a + 1"] by simp_all
    have "of_int (2 ^ 52) * pow2 (rlog2 a - 52) \<le> of_int k * pow2 (rlog2 a - 52)"
      "of_int k * pow2 (rlog2 a - 52) < of_int (2 ^ 53) * pow2 (rlog2 a - 52)"
      using b a p by simp_all
    then have kb: "2 ^ 52 \<le> k" "k < 2 ^ 53" by (simp_all del: of_int_power)
    have "rlog2 a < 1024" using top assms(2) by (simp add: rlog2_less_iff)
    then have e: "0 < e" "e < 2047" using False by (simp_all add: e_def)
    have "a / pow2 (rlog2 a - 52) = of_int k" using a by (metis nonzero_mult_div_cancel_right pow2_nonzero)
    then have f: "\<lfloor>a / pow2 (rlog2 a - 52)\<rfloor> = k" by (metis floor_of_int)
    have "rlog2 a - 52 = e - 1075" by (simp add: e_def)
    with a have v: "a = of_int (2 ^ 52 + (k - 2 ^ 52)) * pow2 (e - 1075)" by (metis add_diff_cancel_left' diff_add_cancel)
    show ?thesis
    proof (rule exI [of _ e], rule exI [of _ "k - 2 ^ 52"], intro conjI)
      show "(if rlog2 a < - 1022 then \<lfloor>a / pow2 (- 1074)\<rfloor>
          else (rlog2 a + 1023) * 2 ^ 52 + (\<lfloor>a / pow2 (rlog2 a - 52)\<rfloor> - 2 ^ 52)) = e * 2 ^ 52 + (k - 2 ^ 52)"
        using False unfolding f e_def by simp
      show "a = (if e = 0 then of_int (k - 2 ^ 52) * pow2 (- 1074) else of_int (2 ^ 52 + (k - 2 ^ 52)) * pow2 (e - 1075))"
        using v e(1) by (metis less_irrefl)
    qed (use e kb in simp_all)
  qed
qed

lemma double_roundtrip:
  assumes "is_double (Fin r)"
  shows "double_of_bits (double_bits (Fin r)) = Fin r \<and> 0 \<le> double_bits (Fin r) \<and> double_bits (Fin r) < 2 ^ 64"
proof (cases "r = 0")
  case True
  then show ?thesis by (simp add: double_of_bits_def)
next
  case False
  then obtain e m where f: "0 \<le> e" "e < 2047" "0 \<le> m" "m < 2 ^ 52"
    "double_bits (Fin r) = (if r < 0 then 2 ^ 63 else 0) + (e * 2 ^ 52 + m)"
    "\<bar>r\<bar> = (if e = 0 then of_int m * pow2 (- 1074) else of_int (2 ^ 52 + m) * pow2 (e - 1075))"
    using double_fields [OF is_double_abs [OF assms]] by auto
  define v where "v = double_bits (Fin r)"
  define x where "x = (if e = 0 then of_int m * pow2 (- 1074) else of_int (2 ^ 52 + m) * pow2 (e - 1075))"
  note p = bit_parts [OF f(1) _ f(3,4) f(5) [folded v_def]]
  have "double_of_bits v = Fin (if r < 0 then - x else x)"
    using p f(2) unfolding double_of_bits_def Let_def x_def by simp
  moreover have "(if r < 0 then - x else x) = r" using f(6) unfolding x_def [symmetric] by (simp add: abs_if split: if_splits)
  ultimately show ?thesis using p f(2) unfolding v_def [symmetric] by simp
qed

lemma negative_zero_bits: "double_of_bits (2 ^ 63) = Fin 0"
  by (simp add: double_of_bits_def)

lemma float_roundtrip:
  assumes "is_double (float_value x)" and "isfinite (float_value x)"
  shows "float_of_bits (float_bits x) = x \<and> 0 \<le> float_bits x \<and> float_bits x < 2 ^ 64"
proof (cases x)
  case (Number y)
  then obtain r where y: "y = Fin r" using assms by (auto simp: isfinite_iff)
  with assms Number have d: "double_of_bits (double_bits (Fin r)) = Fin r" "0 \<le> double_bits (Fin r)"
    "double_bits (Fin r) < 2 ^ 64" using double_roundtrip [of r] by simp_all
  have "double_bits (Fin r) \<noteq> 2 ^ 63"
  proof
    assume bits: "double_bits (Fin r) = 2 ^ 63"
    with d(1) negative_zero_bits have "r = 0" by simp
    with bits show False by simp
  qed
  with d show ?thesis by (simp add: Number y float_of_bits_def del: double_bits.simps)
qed (simp add: float_of_bits_def)

lemma unpack_pack_double: "is_double (float_value x) \<Longrightarrow> isfinite (float_value x) \<Longrightarrow> unpack_double (pack_double x) = x"
  using float_roundtrip [of x] by (simp add: unpack_double_def pack_double_def le_int_le_bytes)

lemma slice_doubles:
  assumes "i < length xs" and "length h = n"
  shows "slice (n + 8 * i) (n + 8 * i + 8) (h @ concat (map pack_double xs)) = pack_double (xs ! i)"
proof -
  have "take 8 (drop (8 * i) (concat (map pack_double xs))) = pack_double (xs ! i)" if "i < length xs" for xs i
    using that
  proof (induction xs arbitrary: i)
    case Nil
    then show ?case by simp
  next
    case (Cons x xs)
    then show ?case by (cases i) (simp_all add: pack_double_def)
  qed
  with assms show ?thesis by (simp add: slice_def)
qed

text \<open>What a Python float in a message is: a finite double.\<close>

definition finite_doubles :: "ipc_float list \<Rightarrow> bool" where
  "finite_doubles xs = list_all (\<lambda>x. is_double (float_value x) \<and> isfinite (float_value x)) xs"

lemma unpack_packed_doubles:
  assumes "finite_doubles xs" and "length h = n"
  shows "unpack_doubles n (length xs) (h @ concat (map pack_double xs)) = xs"
  using assms unfolding unpack_doubles_def
  by (intro nth_equalityI) (auto simp: slice_doubles unpack_pack_double finite_doubles_def list_all_length)

section \<open>Packets survive the transport\<close>

lemma pack_header_spec:
  assumes "pack_header kind sequence timestamp name_hash = Inr h"
  shows "length h = 32" and "header_matches kind (h @ rest)" and "le_int (slice 8 16 (h @ rest)) = sequence"
    and "le_sint (slice 16 24 (h @ rest)) = timestamp" and "le_int (slice 24 32 (h @ rest)) = name_hash"
proof -
  have h: "h = MAGIC @ le_bytes 2 VERSION @ le_bytes 2 kind @ le_bytes 8 sequence @ le_bytes 8 timestamp @
      le_bytes 8 name_hash"
    and r: "0 \<le> kind" "kind < 2 ^ 16" "0 \<le> sequence" "sequence < 2 ^ 64" "- (2 ^ 63) \<le> timestamp"
      "timestamp < 2 ^ 63" "0 \<le> name_hash" "name_hash < 2 ^ 64"
    using assms by (auto simp: pack_header_def pack_uint_def pack_sint_def rbind_eq_Inr split: if_splits)
  have m: "length MAGIC = 4" by (simp add: MAGIC_def)
  show "length h = 32" by (simp add: h m)
  show "header_matches kind (h @ rest)"
    using r by (simp add: header_matches_def h m slice_def le_int_le_bytes VERSION_def del: le_bytes.simps)
  show "le_int (slice 8 16 (h @ rest)) = sequence" "le_sint (slice 16 24 (h @ rest)) = timestamp"
    "le_int (slice 24 32 (h @ rest)) = name_hash"
    using r by (simp_all add: h m slice_def le_int_le_bytes le_sint_le_bytes)
qed

lemma ipc_vector_Inr [simp]:
  "ipc_vector label xs = Inr ys \<longleftrightarrow> length xs = JOINT_COUNT \<and> list_all (\<lambda>x. isfinite (float_value x)) xs \<and> ys = xs"
  by (auto simp: ipc_vector_def)

lemma length_doubles: "length (concat (map pack_double xs)) = 8 * length xs"
  by (induction xs) (simp_all add: pack_double_def)

lemma state_roundtrip:
  assumes "state_pack p = Inr b" and "finite_doubles (sp_position_rad p @ sp_velocity_rad_s p)"
  shows "length b = STATE_PACKET_SIZE \<and> state_unpack b = Inr p"
proof -
  let ?vals = "sp_position_rad p @ sp_velocity_rad_s p"
  from assms(1) obtain h where
    h: "pack_header STATE_KIND (sp_sequence p) (sp_monotonic_ns p) (sp_motor_order_hash p) = Inr h"
    and b: "b = h @ concat (map pack_double ?vals)"
    and n: "length (sp_position_rad p) = 31" "length (sp_velocity_rad_s p) = 31"
    by (auto simp: state_pack_def rbind_eq_Inr JOINT_COUNT_def)
  note s = pack_header_spec [OF h]
  have "unpack_doubles 32 62 b = ?vals"
    using unpack_packed_doubles [OF assms(2) s(1)] n by (simp add: b)
  moreover have "length b = 528" using n s(1) by (simp add: b length_doubles del: map_append concat_append)
  ultimately show ?thesis
    using s(2-5) [of "concat (map pack_double ?vals)", folded b] n assms(2)
    by (auto simp: state_unpack_def STATE_PACKET_SIZE_def JOINT_COUNT_def Let_def finite_doubles_def list_all_iff
        rbind_def ipc_vector_def)
qed

text \<open>The five vectors of a target.\<close>

definition target_values :: "target_packet \<Rightarrow> ipc_float list list" where
  "target_values p = [tp_position_rad p, tp_velocity_rad_s p, tp_kp p, tp_kd p, tp_feedforward_torque_nm p]"

lemma target_vectors_Inr:
  assumes "length vs = 5"
  shows "target_vectors (labelled vs) = Inr ws \<longleftrightarrow>
    (\<forall>v \<in> set vs. length v = JOINT_COUNT \<and> list_all (\<lambda>x. isfinite (float_value x)) v) \<and> ws = vs"
proof -
  obtain a b c d e where "vs = [a, b, c, d, e]"
    using assms by (auto simp: length_Suc_conv eval_nat_numeral)
  then show ?thesis
    by (auto simp: target_vectors_def labelled_def rbind_eq_Inr)
qed

lemma slices_of_five:
  assumes "length a = n" "length b = n" "length c = n" "length d = n" "length e = n"
  shows "map (\<lambda>i. slice (i * n) ((i + 1) * n) (a @ b @ c @ d @ e)) [0..<5] = [a, b, c, d, e]"
  using assms by (simp add: slice_def eval_nat_numeral upt_rec)

lemma target_roundtrip:
  assumes "target_pack p = Inr b" and "finite_doubles (concat (target_values p))"
  shows "length b = TARGET_PACKET_SIZE \<and> target_unpack b = Inr p"
proof -
  let ?vals = "concat (target_values p)"
  have five: "length (target_values p) = 5" by (simp add: target_values_def)
  from assms(1) obtain h where
    h: "pack_header TARGET_KIND (tp_sequence p) (tp_monotonic_ns p) (tp_joint_order_hash p) = Inr h"
    and b: "b = h @ le_bytes 8 (tp_source_state_sequence p) @ concat (map pack_double ?vals)"
    and src: "0 \<le> tp_source_state_sequence p" "tp_source_state_sequence p < 2 ^ 64"
    and n: "\<forall>v \<in> set (target_values p). length v = 31"
    and ok: "target_vectors (labelled (target_values p)) = Inr (target_values p)"
      "check_gains (tp_kp p) (tp_kd p) = Inr ()"
    by (auto simp: target_pack_def rbind_eq_Inr target_vectors_Inr [OF five] JOINT_COUNT_def pack_uint_def
        target_values_def [symmetric] split: if_splits) (simp_all add: target_values_def)
  note s = pack_header_spec [OF h]
  have vals: "unpack_doubles 40 155 b = ?vals"
    using unpack_packed_doubles [OF assms(2), of "h @ le_bytes 8 (tp_source_state_sequence p)" 40] n s(1)
    by (simp add: b target_values_def)
  have "length b = 1280" using n s(1) by (simp add: b length_doubles target_values_def)
  moreover have "le_int (slice 32 40 b) = tp_source_state_sequence p"
    using s(1) src by (simp add: b slice_def le_int_le_bytes)
  moreover have "map (\<lambda>i. slice (i * JOINT_COUNT) ((i + 1) * JOINT_COUNT) ?vals) [0..<5] = target_values p"
    using n slices_of_five [of "tp_position_rad p" 31] by (simp add: target_values_def JOINT_COUNT_def)
  ultimately show ?thesis
    using s(2-5) [of "le_bytes 8 (tp_source_state_sequence p) @ concat (map pack_double ?vals)", folded b] ok
    by (simp add: target_unpack_def TARGET_PACKET_SIZE_def vals Let_def) (simp add: target_values_def)
qed

text \<open>Whatever bytes arrive, an accepted target has finite vectors of 31 and no negative gain.\<close>

lemma accepted_target:
  assumes "target_unpack b = Inr p"
  shows "\<forall>v \<in> set (target_values p). length v = 31 \<and> list_all (\<lambda>x. isfinite (float_value x)) v"
    and "\<forall>g \<in> set (tp_kp p @ tp_kd p). fle (Fin 0) (float_value g)"
proof -
  let ?vs = "map (\<lambda>i. slice (i * JOINT_COUNT) ((i + 1) * JOINT_COUNT) (unpack_doubles 40 155 b)) [0..<5]"
  from assms obtain ws where ws: "target_vectors (labelled ?vs) = Inr ws" "check_gains (ws ! 2) (ws ! 3) = Inr ()"
    "tp_position_rad p = ws ! 0" "tp_velocity_rad_s p = ws ! 1" "tp_kp p = ws ! 2" "tp_kd p = ws ! 3"
    "tp_feedforward_torque_nm p = ws ! 4"
    by (auto simp: target_unpack_def Let_def rbind_eq_Inr split: if_splits)
  have "length ?vs = 5" by simp
  from target_vectors_Inr [OF this] ws(1) have v: "\<forall>v \<in> set ws. length v = 31 \<and> list_all (\<lambda>x. isfinite (float_value x)) v" "length ws = 5"
    by (auto simp: JOINT_COUNT_def simp del: upt.simps)
  then have "ws = target_values p"
    by (intro nth_equalityI) (auto simp: target_values_def ws less_Suc_eq eval_nat_numeral)
  with v show *: "\<forall>v \<in> set (target_values p). length v = 31 \<and> list_all (\<lambda>x. isfinite (float_value x)) v" by simp
  have "list_all (\<lambda>x. isfinite (float_value x)) (tp_kp p @ tp_kd p)" using * by (simp add: target_values_def)
  moreover have "\<forall>g \<in> set (tp_kp p @ tp_kd p). \<not> flt (float_value g) (Fin 0)"
    using ws by (auto simp: check_gains_def list_ex_iff split: if_splits)
  ultimately show "\<forall>g \<in> set (tp_kp p @ tp_kd p). fle (Fin 0) (float_value g)"
    by (auto simp: list_all_iff isfinite_iff dest!: bspec)
qed

text \<open>
  C20. Packets survive the transport bit for bit: what either side packs has exactly the fixed size
  and unpacks to the packet it came from, every finite double included, with the sign of a zero; and
  whatever bytes arrive, a target is only accepted with five finite vectors of 31 values and no negative
  gain.
\<close>
theorem ipc_packets_survive:
  "(state_pack p = Inr b \<and> finite_doubles (sp_position_rad p @ sp_velocity_rad_s p) \<longrightarrow>
      length b = STATE_PACKET_SIZE \<and> state_unpack b = Inr p) \<and>
   (target_pack q = Inr c \<and> finite_doubles (concat (target_values q)) \<longrightarrow>
      length c = TARGET_PACKET_SIZE \<and> target_unpack c = Inr q) \<and>
   (target_unpack d = Inr t \<longrightarrow>
      (\<forall>v \<in> set (target_values t). length v = 31 \<and> list_all (\<lambda>x. isfinite (float_value x)) v) \<and>
      (\<forall>g \<in> set (tp_kp t @ tp_kd t). fle (Fin 0) (float_value g)))"
  using state_roundtrip target_roundtrip accepted_target by blast

definition sample_state_packet :: state_packet where
  "sample_state_packet = \<lparr>sp_sequence = 7, sp_monotonic_ns = - 1, sp_motor_order_hash = 5,
     sp_position_rad = replicate 31 (Number (Fin (1 / 2))), sp_velocity_rad_s = replicate 31 NegativeZero\<rparr>"

definition sample_target_packet :: target_packet where
  "sample_target_packet = \<lparr>tp_sequence = 8, tp_monotonic_ns = 9, tp_joint_order_hash = 5, tp_source_state_sequence = 7,
     tp_position_rad = replicate 31 (Number (Fin (1 / 2))), tp_velocity_rad_s = replicate 31 (Number (Fin 0)),
     tp_kp = replicate 31 (Number (Fin 1)), tp_kd = replicate 31 NegativeZero,
     tp_feedforward_torque_nm = replicate 31 (Number (Fin (- 1 / 2)))\<rparr>"

theorem ipc_packets_survive_witness:
  "\<exists>b c. state_pack sample_state_packet = Inr b \<and> target_pack sample_target_packet = Inr c \<and>
    (length b = STATE_PACKET_SIZE \<and> state_unpack b = Inr sample_state_packet) \<and>
    (length c = TARGET_PACKET_SIZE \<and> target_unpack c = Inr sample_target_packet) \<and>
    list_all (\<lambda>v. length v = 31 \<and> list_all (\<lambda>x. isfinite (float_value x)) v) (target_values sample_target_packet) \<and>
    list_all (\<lambda>g. fle (Fin 0) (float_value g)) (tp_kp sample_target_packet @ tp_kd sample_target_packet)"
proof -
  obtain b where b: "state_pack sample_state_packet = Inr b"
    by (auto simp: state_pack_def sample_state_packet_def JOINT_COUNT_def list_all_iff pack_header_def pack_uint_def
        pack_sint_def VERSION_def STATE_KIND_def rbind_def ipc_vector_def)
  have five: "length (target_values sample_target_packet) = 5" by (simp add: target_values_def)
  have "target_vectors (labelled (target_values sample_target_packet)) = Inr (target_values sample_target_packet)"
    by (simp add: target_vectors_Inr [OF five]) (simp add: target_values_def sample_target_packet_def JOINT_COUNT_def list_all_iff)
  then obtain c where c: "target_pack sample_target_packet = Inr c"
    by (auto simp: target_pack_def target_values_def sample_target_packet_def check_gains_def list_ex_iff pack_header_def
        pack_uint_def pack_sint_def VERSION_def TARGET_KIND_def)
  have half: "is_double (Fin (1 / 2))" "is_double (Fin (- 1 / 2))" "is_double (Fin 0)" "is_double (Fin 1)"
    by (simp_all add: float_eval)
  have "finite_doubles (sp_position_rad sample_state_packet @ sp_velocity_rad_s sample_state_packet)"
    "finite_doubles (concat (target_values sample_target_packet))"
    using half by (simp_all add: finite_doubles_def sample_state_packet_def target_values_def sample_target_packet_def list_all_iff)
  with ipc_packets_survive [of sample_state_packet b sample_target_packet c c sample_target_packet] b c show ?thesis
    unfolding list_all_iff by auto
qed

section \<open>The hash is FNV-1a of an unambiguous encoding\<close>

definition name_bytes :: "string list \<Rightarrow> bytes" where
  "name_bytes names = concat (map (\<lambda>n. utf8 n @ [0]) names)"

definition fnv1a :: "bytes \<Rightarrow> 64 word" where
  "fnv1a b = foldl fnv_step 0xCBF29CE484222325 b"

lemma hash_names_fold:
  "hash_names h names = Inr k \<Longrightarrow>
    k = foldl fnv_step h (name_bytes names) \<and> (\<forall>n \<in> set names. char_of (0 :: nat) \<notin> set n)"
  by (induction h names rule: hash_names.induct) (auto simp: name_bytes_def split: if_splits)

lemma char_code: "0 \<le> (of_char c :: int) \<and> (of_char c :: int) < 256"
  by (cases c) (simp add: of_char_def split: if_splits)

lemma uint_small: "0 \<le> n \<Longrightarrow> n < 256 \<Longrightarrow> uint (word_of_int n :: byte) = n"
  by (simp add: uint_word_of_int take_bit_eq_mod)

lemma utf8_char_codes:
  "map uint (utf8_char c) = (if (of_char c :: int) < 128 then [of_char c]
     else [192 + of_char c div 64, 128 + of_char c mod 64])"
proof -
  have r: "0 \<le> (of_char c :: int)" "(of_char c :: int) < 256" using char_code by simp_all
  then have "192 + of_char c div 64 < (256 :: int)" "128 + of_char c mod 64 < (256 :: int)"
    "0 \<le> 192 + of_char c div (64 :: int)" "0 \<le> 128 + of_char c mod (64 :: int)" by auto
  then show ?thesis using r unfolding utf8_char_def Let_def
    by (cases "(of_char c :: int) < 128") (simp_all only: if_True if_False list.map uint_small)
qed

lemma utf8_char_prefix:
  assumes "utf8_char c @ x = utf8_char d @ y"
  shows "c = d \<and> x = y"
proof -
  define m n where "m = (of_char c :: int)" and "n = (of_char d :: int)"
  have r: "0 \<le> m" "m < 256" "0 \<le> n" "n < 256" using char_code by (simp_all add: m_def n_def)
  have "map uint (utf8_char c) @ map uint x = map uint (utf8_char d) @ map uint y"
    using arg_cong [OF assms, of "map uint"] by simp
  then have e: "(if m < 128 then [m] else [192 + m div 64, 128 + m mod 64]) @ map uint x =
      (if n < 128 then [n] else [192 + n div 64, 128 + n mod 64]) @ map uint y"
    by (simp only: utf8_char_codes m_def n_def)
  have "m = n"
  proof (cases "m < 128 \<or> n < 128")
    case True
    have "192 + m div 64 \<noteq> n" if "n < 128" using r that by simp
    moreover have "192 + n div 64 \<noteq> m" if "m < 128" using r that by simp
    ultimately show ?thesis using e True by (auto split: if_splits)
  next
    case False
    with e have "m div 64 = n div 64" "m mod 64 = n mod 64" by simp_all
    then show ?thesis by (metis mult_div_mod_eq)
  qed
  then have "c = d" by (simp add: m_def n_def)
  with assms show ?thesis by simp
qed

lemma utf8_nonzero: "char_of (0 :: nat) \<notin> set s \<Longrightarrow> 0 \<notin> set (utf8 s)"
proof -
  assume s: "char_of (0 :: nat) \<notin> set s"
  have "0 \<notin> set (utf8_char c)" if "c \<in> set s" for c
  proof
    assume "0 \<in> set (utf8_char c)"
    then have "0 \<in> set (map uint (utf8_char c))" by (metis image_eqI list.set_map uint_0_eq)
    moreover have "0 \<le> (of_char c :: int) div 64" "0 \<le> (of_char c :: int) mod 64"
      using char_code [of c] by (simp_all add: pos_imp_zdiv_nonneg_iff)
    ultimately have "of_char c = (0 :: int)" by (auto simp: utf8_char_codes split: if_splits)
    then have "of_char c = (0 :: nat)" by (metis of_nat_of_char of_nat_eq_0_iff)
    then have "c = char_of (0 :: nat)" by (metis char_of_char)
    with s that show False by simp
  qed
  then show ?thesis by (auto simp: utf8_def)
qed

lemma utf8_inj: "utf8 s = utf8 t \<Longrightarrow> s = t"
proof (induction s arbitrary: t)
  case Nil
  have "utf8_char c \<noteq> []" for c by (simp add: utf8_char_def Let_def)
  with Nil show ?case by (cases t) (auto simp: utf8_def)
next
  case (Cons c s)
  have "utf8_char c \<noteq> []" by (simp add: utf8_char_def Let_def)
  with Cons.prems obtain d u where t: "t = d # u" by (cases t) (auto simp: utf8_def)
  with Cons.prems have "utf8_char c @ utf8 s = utf8_char d @ utf8 u" by (simp add: utf8_def)
  from utf8_char_prefix [OF this] Cons.IH show ?case by (simp add: t)
qed

lemma split_at_zero:
  "0 \<notin> set a \<Longrightarrow> 0 \<notin> set b \<Longrightarrow> a @ 0 # x = b @ 0 # y \<Longrightarrow> a = b \<and> x = y" for a b x y :: "byte list"
proof -
  assume z: "0 \<notin> set a" "0 \<notin> set b" and e: "a @ 0 # x = b @ 0 # y"
  have w: "takeWhile (\<lambda>w. w \<noteq> 0) (c @ 0 # z) = c" if "0 \<notin> set c" for c z :: "byte list"
    using that by (induction c) auto
  have "a = b" using arg_cong [OF e, of "takeWhile (\<lambda>w. w \<noteq> 0)"] by (simp only: w [OF z(1)] w [OF z(2)])
  with e show ?thesis by simp
qed

lemma name_bytes_inj:
  assumes "name_bytes ms = name_bytes ns" and "\<forall>n \<in> set ms \<union> set ns. char_of (0 :: nat) \<notin> set n"
  shows "ms = ns"
  using assms
proof (induction ms arbitrary: ns)
  case Nil
  then show ?case by (cases ns) (auto simp: name_bytes_def)
next
  case (Cons m ms)
  then obtain n ns' where ns: "ns = n # ns'" by (cases ns) (auto simp: name_bytes_def)
  have "utf8 m @ 0 # name_bytes ms = utf8 n @ 0 # name_bytes ns'"
    using Cons.prems(1) by (simp add: ns name_bytes_def)
  moreover have "0 \<notin> set (utf8 m)" "0 \<notin> set (utf8 n)"
    using Cons.prems(2) by (auto simp: ns intro!: utf8_nonzero)
  ultimately have "utf8 m = utf8 n" "name_bytes ms = name_bytes ns'"
    using split_at_zero by blast+
  with Cons.IH [of ns'] Cons.prems(2) show ?case by (auto simp: ns dest: utf8_inj)
qed

text \<open>
  The joint-order hash is the 64-bit FNV-1a hash, with wrap-around, of a byte string that
  determines the ordered names: two accepted orders that differ never feed the hash the same bytes.
\<close>
theorem name_hash_is_fnv1a:
  assumes "ordered_name_hash names = Inr h"
  shows "h = fnv1a (name_bytes names) \<and>
    (\<forall>names' h'. ordered_name_hash names' = Inr h' \<and> name_bytes names' = name_bytes names \<longrightarrow> names' = names)"
proof -
  have n: "h = fnv1a (name_bytes names)" "\<forall>n \<in> set names. char_of (0 :: nat) \<notin> set n"
    using assms hash_names_fold by (auto simp: ordered_name_hash_def fnv1a_def split: if_splits)
  have "names' = names" if "ordered_name_hash names' = Inr h'" "name_bytes names' = name_bytes names" for names' h'
  proof (rule name_bytes_inj [OF that(2)])
    show "\<forall>n \<in> set names' \<union> set names. char_of (0 :: nat) \<notin> set n"
      using that(1) hash_names_fold n(2) by (auto simp: ordered_name_hash_def split: if_splits)
  qed
  with n(1) show ?thesis by blast
qed

lemma hash_names_returns:
  "\<forall>n \<in> set names. n \<noteq> [] \<and> char_of (0 :: nat) \<notin> set n \<Longrightarrow> \<exists>k. hash_names h names = Inr k"
  by (induction h names rule: hash_names.induct) auto

definition sample_names :: "string list" where
  "sample_names = map (\<lambda>i. replicate i CHR 0x6A @ ''x'') [0..<31]"

theorem name_hash_is_fnv1a_witness:
  "\<exists>h. ordered_name_hash sample_names = Inr h \<and> h = fnv1a (name_bytes sample_names)"
proof -
  have "inj (\<lambda>i. replicate i CHR 0x6A @ ''x'')"
    by (rule injI) (metis append_same_eq length_replicate)
  then have "distinct sample_names" "length sample_names = JOINT_COUNT"
    by (simp_all add: sample_names_def distinct_map inj_on_def JOINT_COUNT_def)
  moreover have "\<forall>n \<in> set sample_names. n \<noteq> [] \<and> char_of (0 :: nat) \<notin> set n"
    by (auto simp: sample_names_def char_of_def)
  then obtain k where "hash_names 0xCBF29CE484222325 sample_names = Inr k" using hash_names_returns by blast
  ultimately have "ordered_name_hash sample_names = Inr k" by (simp add: ordered_name_hash_def)
  with name_hash_is_fnv1a [OF this] show ?thesis by blast
qed

end
