(* ===== verification/Arrays.thy ===== *)
theory Arrays
  imports PyFloat Json
begin

text \<open>
  The array operations of numpy the runtime uses, as a parameter: numpy is not part of the
  repository. A vector is the list of its float64 entries, a matrix the list of its rows;
  comparisons of entries and \<open>isfinite\<close> are those of the float64 values. What a property relies on
  is stated as a hypothesis about the parameter, in the words of numpy's documentation.
\<close>

type_synonym vec = "pyfloat list"
type_synonym mat = "pyfloat list list"

record numpy =
  np_add :: "vec \<Rightarrow> vec \<Rightarrow> vec"
  np_subtract :: "vec \<Rightarrow> vec \<Rightarrow> vec"
  np_multiply :: "vec \<Rightarrow> vec \<Rightarrow> vec"
  np_maximum :: "vec \<Rightarrow> vec \<Rightarrow> vec"
  np_clip :: "vec \<Rightarrow> vec \<Rightarrow> vec \<Rightarrow> vec"
  np_max :: "vec \<Rightarrow> pyfloat"
  np_matvec :: "mat \<Rightarrow> vec \<Rightarrow> vec"
  np_transpose :: "mat \<Rightarrow> mat"
  np_solve :: "mat \<Rightarrow> vec \<Rightarrow> vec result"
  np_det :: "mat \<Rightarrow> pyfloat"
  np_inv :: "mat \<Rightarrow> mat result"
  np_matmul :: "mat \<Rightarrow> mat \<Rightarrow> mat"
  np_matsub :: "mat \<Rightarrow> mat \<Rightarrow> mat"
  np_diag :: "vec \<Rightarrow> mat"
  np_diagonal :: "mat \<Rightarrow> vec"
  np_max_abs :: "mat \<Rightarrow> pyfloat"

text \<open>A vector of \<open>n\<close> finite entries.\<close>

definition finite_vector :: "nat \<Rightarrow> vec \<Rightarrow> bool" where
  "finite_vector n v = (length v = n \<and> list_all isfinite v)"

definition any_negative :: "vec \<Rightarrow> bool" where
  "any_negative v = list_ex (\<lambda>x. flt x (Fin 0)) v"

text \<open>\<open>v[i]\<close> of a vector.\<close>

definition vec_at :: "vec \<Rightarrow> nat \<Rightarrow> pyfloat result" where
  "vec_at v i = (if i < length v then Inr (v ! i) else Inl IndexError)"

text \<open>
  \<open>numpy.clip\<close> is documented as \<open>minimum(maximum(x, lo), hi)\<close>: entries outside the interval are moved to
  its edges, the upper bound wins when the bounds are crossed, and a NaN among the three is the result.
  \<open>a * b\<close> of equally long vectors is entrywise IEEE multiplication.
\<close>

definition clip_entry :: "pyfloat \<Rightarrow> pyfloat \<Rightarrow> pyfloat \<Rightarrow> pyfloat" where
  "clip_entry x lo hi = (if NaN \<in> {x, lo, hi} then NaN else fmin (fmax x lo) hi)"

fun clip_entries :: "vec \<Rightarrow> vec \<Rightarrow> vec \<Rightarrow> vec" where
  "clip_entries (x # xs) (l # ls) (h # hs) = clip_entry x l h # clip_entries xs ls hs"
| "clip_entries _ _ _ = []"

definition clips :: "numpy \<Rightarrow> bool" where
  "clips np \<longleftrightarrow> (\<forall>x lo hi n. finite_vector n x \<longrightarrow> finite_vector n lo \<longrightarrow> finite_vector n hi \<longrightarrow>
     np_clip np x lo hi = clip_entries x lo hi)"

definition multiplies :: "numpy \<Rightarrow> bool" where
  "multiplies np \<longleftrightarrow> (\<forall>x y. length x = length y \<longrightarrow> np_multiply np x y = map2 fmul x y)"

text \<open>The operations on vectors, entry by entry, and those of 2 by 2 systems by Cramer's rule.\<close>

definition finite_or_nan :: "pyfloat result \<Rightarrow> pyfloat" where
  "finite_or_nan r = (case r of Inr x \<Rightarrow> x | Inl _ \<Rightarrow> NaN)"

definition dot :: "vec \<Rightarrow> vec \<Rightarrow> pyfloat" where
  "dot x y = foldl fadd (Fin 0) (map2 fmul x y)"

fun det2 :: "mat \<Rightarrow> pyfloat" where
  "det2 [[a, b], [c, d]] = fsub (fmul a d) (fmul b c)"
| "det2 _ = NaN"

fun solve2 :: "mat \<Rightarrow> vec \<Rightarrow> vec result" where
  "solve2 [[a, b], [c, d]] [x, y] =
     (let n = det2 [[a, b], [c, d]] in
      if n = Fin 0 then Inl (RuntimeError ''Singular matrix'')
      else Inr [finite_or_nan (fdiv (fsub (fmul d x) (fmul b y)) n),
                finite_or_nan (fdiv (fsub (fmul a y) (fmul c x)) n)])"
| "solve2 _ _ = Inl (ValueError ''shapes'')"

fun inv2 :: "mat \<Rightarrow> mat result" where
  "inv2 [[a, b], [c, d]] =
     (let n = det2 [[a, b], [c, d]]; q = (\<lambda>x. finite_or_nan (fdiv x n)) in
      if n = Fin 0 then Inl (RuntimeError ''Singular matrix'')
      else Inr [[q d, q (fneg b)], [q (fneg c), q a]])"
| "inv2 _ = Inl (ValueError ''shapes'')"

definition entrywise_numpy :: numpy where
  "entrywise_numpy = \<lparr>np_add = map2 fadd, np_subtract = map2 fsub, np_multiply = map2 fmul,
     np_maximum = map2 fmax, np_clip = clip_entries, np_max = foldl fmax NInf,
     np_matvec = (\<lambda>m v. map (\<lambda>r. dot r v) m), np_transpose = transpose,
     np_solve = solve2, np_det = det2, np_inv = inv2,
     np_matmul = (\<lambda>a b. map (\<lambda>r. map (dot r) (transpose b)) a), np_matsub = map2 (map2 fsub),
     np_diag = (\<lambda>v. map (\<lambda>i. (replicate (length v) (Fin 0))[i := v ! i]) [0..<length v]),
     np_diagonal = (\<lambda>m. map (\<lambda>i. m ! i ! i) [0..<length m]),
     np_max_abs = (\<lambda>m. foldl fmax NInf (map fabs (concat m)))\<rparr>"

lemma entrywise_clips: "clips entrywise_numpy"
  by (simp add: clips_def entrywise_numpy_def)

lemma entrywise_multiplies: "multiplies entrywise_numpy"
  by (simp add: multiplies_def entrywise_numpy_def)

lemma length_clip_entries [simp]:
  "length lo = length x \<Longrightarrow> length hi = length x \<Longrightarrow> length (clip_entries x lo hi) = length x"
  by (induction x lo hi rule: clip_entries.induct) auto

lemma clip_entries_nth:
  assumes "length lo = length x" and "length hi = length x" and "i < length x"
  shows "clip_entries x lo hi ! i = clip_entry (x ! i) (lo ! i) (hi ! i)"
  using assms
proof (induction x lo hi arbitrary: i rule: clip_entries.induct)
  case (1 x xs l ls h hs)
  then show ?case by (cases i) auto
qed auto

lemma clip_entry_inside:
  assumes "isfinite x" "isfinite lo" "isfinite hi" "flt lo hi"
  shows "fle lo (clip_entry x lo hi)" and "fle (clip_entry x lo hi) hi" and "isfinite (clip_entry x lo hi)"
  using assms by (auto simp: clip_entry_def fmin_def fmax_def isfinite_iff)

lemma finite_vector_nth: "finite_vector n v \<Longrightarrow> i < n \<Longrightarrow> isfinite (v ! i)"
  by (auto simp: finite_vector_def list_all_length)

end
