(* ===== verification/TargetProjection.thy ===== *)
theory TargetProjection
  imports Arrays
begin

text \<open>
  The projection of policy targets into the reviewed joint limits (\<open>target_projection.py\<close>): the
  parsers of commissioning multipliers, the clamp watchdog, and the protected projector, with the
  \<open>JointImpedanceTarget\<close> of \<open>multirate_control.py\<close> they work on.
\<close>

section \<open>Impedance targets\<close>

record impedance_target =
  it_position_rad :: vec
  it_velocity_rad_s :: vec
  it_kp :: vec
  it_kd :: vec
  it_feedforward_torque_nm :: vec

definition joint_vector :: "string \<Rightarrow> vec \<Rightarrow> vec result" where
  "joint_vector name v = (if finite_vector 31 v then Inr v
     else Inl (ValueError (name @ '' must be a finite 31-vector'')))"

definition new_impedance_target :: "vec \<Rightarrow> vec \<Rightarrow> vec \<Rightarrow> vec \<Rightarrow> vec \<Rightarrow> impedance_target result" where
  "new_impedance_target position velocity kp kd feedforward =
     rbind (joint_vector ''position_rad'' position) (\<lambda>p.
     rbind (joint_vector ''velocity_rad_s'' velocity) (\<lambda>v.
     rbind (joint_vector ''kp'' kp) (\<lambda>kp'. rbind (joint_vector ''kd'' kd) (\<lambda>kd'.
     rbind (joint_vector ''feedforward_torque_nm'' feedforward) (\<lambda>f.
       if any_negative kp' \<or> any_negative kd'
       then Inl (ValueError ''joint impedance gains must be non-negative'')
       else Inr \<lparr>it_position_rad = p, it_velocity_rad_s = v, it_kp = kp', it_kd = kd',
                 it_feedforward_torque_nm = f\<rparr>)))))"

section \<open>Multiplier overrides\<close>

text \<open>\<open>specification.partition("=")\<close>; the parser of numeric text is a parameter.\<close>

definition partition_eq :: "string \<Rightarrow> string \<times> bool \<times> string" where
  "partition_eq s = (takeWhile (\<lambda>c. c \<noteq> CHR ''='') s, CHR ''='' \<in> set s,
     tl (dropWhile (\<lambda>c. c \<noteq> CHR ''='') s))"

text \<open>\<open>{name: index for index, name in enumerate(names)}[name]\<close>: the last index of a repeated name.\<close>

fun name_index :: "string list \<Rightarrow> string \<Rightarrow> nat" where
  "name_index [] name = 0"
| "name_index (n # ns) name = (if n = name \<and> name \<notin> set ns then 0 else Suc (name_index ns name))"

fun parse_overrides ::
  "(string \<Rightarrow> pyfloat result) \<Rightarrow> string \<Rightarrow> pyfloat \<Rightarrow> string list \<Rightarrow> string list \<Rightarrow> vec \<times> string list \<Rightarrow>
     vec result" where
  "parse_overrides parse kind highest names [] (result, seen) = Inr result"
| "parse_overrides parse kind highest names (s # specs) (result, seen) =
     (case partition_eq s of (name, separator, raw) \<Rightarrow>
      if \<not> separator \<or> name \<notin> set names then Inl (ValueError (''invalid joint '' @ kind @ '' multiplier: '' @ s))
      else if name \<in> set seen then Inl (ValueError (''duplicate joint '' @ kind @ '' multiplier: '' @ name))
      else rbind (parse raw) (\<lambda>value.
        if \<not> isfinite value \<or> \<not> (flt (Fin 0) value \<and> fle value highest)
        then Inl (ValueError (''joint '' @ kind @ '' multiplier for '' @ name @ '' is out of range''))
        else parse_overrides parse kind highest names specs
          (result[name_index names name := value], name # seen)))"

definition parse_joint_gain_multiplier_overrides ::
  "(string \<Rightarrow> pyfloat result) \<Rightarrow> string list \<Rightarrow> string list \<Rightarrow> vec result" where
  "parse_joint_gain_multiplier_overrides parse names specs =
     parse_overrides parse ''gain'' (Fin 1) names specs (replicate (length names) (Fin 1), [])"

definition parse_joint_damping_multiplier_overrides ::
  "(string \<Rightarrow> pyfloat result) \<Rightarrow> string list \<Rightarrow> string list \<Rightarrow> vec result" where
  "parse_joint_damping_multiplier_overrides parse names specs =
     parse_overrides parse ''damping'' (Fin 4) names specs (replicate (length names) (Fin 1), [])"

section \<open>The clamp watchdog\<close>

record watchdog =
  wg_joint_names :: "string list"
  wg_watched :: "string list"
  wg_minimum_overshoot :: pyfloat
  wg_maximum_ticks :: int
  wg_ignored_ticks :: int
  wg_consecutive :: "(string, int) dict"
  wg_update_count :: int
  wg_maximum_observed :: "(string, int) dict"

definition new_watchdog ::
  "string list \<Rightarrow> string list \<Rightarrow> pyfloat \<Rightarrow> int \<Rightarrow> int \<Rightarrow> watchdog result" where
  "new_watchdog names watched overshoot ticks ignored =
     (let unknown = sorted_set (filter (\<lambda>w. w \<notin> set names) watched) in
      if watched = [] \<or> \<not> distinct watched
      then Inl (ValueError ''clamp watchdog joints must be nonempty and unique'')
      else if unknown \<noteq> []
      then Inl (ValueError (''unknown clamp watchdog joints: '' @ join '', '' unknown))
      else if \<not> isfinite overshoot \<or> \<not> (flt (Fin 0) overshoot \<and> fle overshoot (rnd (2 / 10)))
      then Inl (ValueError ''clamp watchdog overshoot must be in (0, 0.2] rad'')
      else if \<not> (1 \<le> ticks \<and> ticks \<le> 100)
      then Inl (ValueError ''clamp watchdog consecutive ticks must be in [1, 100]'')
      else if \<not> (0 \<le> ignored \<and> ignored \<le> 1000)
      then Inl (ValueError ''clamp watchdog ignored initial ticks must be in [0, 1000]'')
      else Inr \<lparr>wg_joint_names = names, wg_watched = watched, wg_minimum_overshoot = overshoot,
        wg_maximum_ticks = ticks, wg_ignored_ticks = ignored,
        wg_consecutive = map (\<lambda>n. (n, 0)) watched, wg_update_count = 0,
        wg_maximum_observed = map (\<lambda>n. (n, 0)) watched\<rparr>)"

definition dict_get :: "(string, int) dict \<Rightarrow> string \<Rightarrow> int" where
  "dict_get d k = (case map_of d k of Some v \<Rightarrow> v | None \<Rightarrow> 0)"

definition overshoots :: "watchdog \<Rightarrow> vec \<Rightarrow> vec \<Rightarrow> string \<Rightarrow> bool" where
  "overshoots w raw projected name = (let i = name_index (wg_joint_names w) name in
     flt (wg_minimum_overshoot w) (fabs (fsub (raw ! i) (projected ! i))))"

text \<open>One joint of one update; the watchdog of an update that trips keeps what it counted.\<close>

definition watch_joint :: "vec \<Rightarrow> vec \<Rightarrow> watchdog \<Rightarrow> string \<Rightarrow> watchdog \<times> unit result" where
  "watch_joint raw projected w name =
     (let n = (if overshoots w raw projected name then dict_get (wg_consecutive w) name + 1 else 0);
          w' = w\<lparr>wg_consecutive := dict_set (wg_consecutive w) name n,
                 wg_maximum_observed := dict_set (wg_maximum_observed w) name
                   (max (dict_get (wg_maximum_observed w) name) n)\<rparr>
      in if wg_maximum_ticks w \<le> n
         then (w', Inl (RuntimeError (''clamp watchdog tripped for '' @ name))) else (w', Inr ()))"

fun watch_joints :: "vec \<Rightarrow> vec \<Rightarrow> watchdog \<Rightarrow> string list \<Rightarrow> watchdog \<times> unit result" where
  "watch_joints raw projected w [] = (w, Inr ())"
| "watch_joints raw projected w (name # names) =
     (case watch_joint raw projected w name of (w', Inl e) \<Rightarrow> (w', Inl e)
      | (w', Inr _) \<Rightarrow> watch_joints raw projected w' names)"

definition watchdog_update :: "watchdog \<Rightarrow> vec \<Rightarrow> vec \<Rightarrow> watchdog \<times> unit result" where
  "watchdog_update w raw projected =
     (if \<not> finite_vector (length (wg_joint_names w)) raw \<or> \<not> finite_vector (length (wg_joint_names w)) projected
      then (w, Inl (ValueError ''clamp watchdog positions must be finite joint vectors''))
      else let w' = w\<lparr>wg_update_count := wg_update_count w + 1\<rparr> in
        if wg_update_count w' \<le> wg_ignored_ticks w' then (w', Inr ())
        else watch_joints raw projected w' (wg_watched w'))"

section \<open>The projector\<close>

record projector =
  pj_joint_names :: "string list"
  pj_lower_rad :: vec
  pj_upper_rad :: vec
  pj_gain_scale :: pyfloat
  pj_maximum_embedded_kd :: pyfloat
  pj_joint_gain_multipliers :: vec
  pj_joint_damping_multipliers :: vec
  pj_clamp_count_by_joint :: "(string, int) dict"
  pj_maximum_raw_position_overshoot_rad :: pyfloat

definition ordered_limits :: "vec \<Rightarrow> vec \<Rightarrow> bool" where
  "ordered_limits low high = (finite_vector 31 low \<and> finite_vector 31 high \<and> list_all2 flt low high)"

definition multipliers_ok :: "pyfloat \<Rightarrow> vec \<Rightarrow> bool" where
  "multipliers_ok highest m = (finite_vector 31 m \<and> list_all (\<lambda>x. flt (Fin 0) x \<and> fle x highest) m)"

definition new_projector ::
  "string list \<Rightarrow> vec \<Rightarrow> vec \<Rightarrow> pyfloat \<Rightarrow> pyfloat \<Rightarrow> vec option \<Rightarrow> vec option \<Rightarrow> projector result" where
  "new_projector names low high gain_scale kd_max gains damping =
     (let gains' = (case gains of None \<Rightarrow> replicate 31 (Fin 1) | Some v \<Rightarrow> v);
          damping' = (case damping of None \<Rightarrow> replicate 31 (Fin 1) | Some v \<Rightarrow> v) in
      if length names \<noteq> 31 \<or> \<not> distinct names
      then Inl (ValueError ''joint_names must contain 31 unique joints'')
      else if \<not> ordered_limits low high
      then Inl (ValueError ''joint soft limits must be finite ordered 31-vectors'')
      else if \<not> isfinite gain_scale \<or> \<not> (flt (Fin 0) gain_scale \<and> fle gain_scale (Fin 1))
      then Inl (ValueError ''gain_scale must be finite and in (0, 1]'')
      else if \<not> isfinite kd_max \<or> fle kd_max (Fin 0)
      then Inl (ValueError ''maximum_embedded_kd must be finite and positive'')
      else if \<not> multipliers_ok (Fin 1) gains'
      then Inl (ValueError ''joint_gain_multipliers must be a finite (0, 1] 31-vector'')
      else if \<not> multipliers_ok (Fin 4) damping'
      then Inl (ValueError ''joint_damping_multipliers must be a finite (0, 4] 31-vector'')
      else Inr \<lparr>pj_joint_names = names, pj_lower_rad = low, pj_upper_rad = high,
        pj_gain_scale = gain_scale, pj_maximum_embedded_kd = kd_max, pj_joint_gain_multipliers = gains',
        pj_joint_damping_multipliers = damping', pj_clamp_count_by_joint = map (\<lambda>n. (n, 0)) names,
        pj_maximum_raw_position_overshoot_rad = Fin 0\<rparr>)"

text \<open>The soft limits of a limit report, joint by joint in policy order.\<close>

definition soft_limit_candidate ::
  "(string \<Rightarrow> pyfloat option) \<Rightarrow> json \<Rightarrow> string \<Rightarrow> (pyfloat \<times> pyfloat) result" where
  "soft_limit_candidate parse limits name =
     (if \<not> is_dict (jget limits name) then Inl (TypeError ''limit entry is not an object'')
      else case jget (jget limits name) ''soft_limit_rad_candidate'' of
        JArr [a, b] \<Rightarrow> rbind (to_float parse a) (\<lambda>lo. rbind (to_float parse b) (\<lambda>hi. Inr (lo, hi)))
      | _ \<Rightarrow> Inl (ValueError (''missing soft-limit candidate for '' @ name)))"

definition from_limit_report ::
  "(string \<Rightarrow> pyfloat option) \<Rightarrow> string list \<Rightarrow> json \<Rightarrow> pyfloat \<Rightarrow> pyfloat \<Rightarrow> vec option \<Rightarrow> vec option \<Rightarrow>
     projector result" where
  "from_limit_report parse names report gain_scale kd_max gains damping =
     (let limits = jget report ''joint_limits'' in
      if \<not> is_dict limits \<or> fst ` set (jfields limits) \<noteq> set names
      then Inl (ValueError ''limit report must exactly cover the policy joint order'')
      else rbind (rmap (soft_limit_candidate parse limits) names) (\<lambda>pairs.
        new_projector names (map fst pairs) (map snd pairs) gain_scale kd_max gains damping))"

definition count_clamps :: "string list \<Rightarrow> vec \<Rightarrow> vec \<Rightarrow> (string, int) dict \<Rightarrow> (string, int) dict" where
  "count_clamps names bounded position counts =
     foldl (\<lambda>d i. if feq (bounded ! i) (position ! i) then d
                  else dict_set d (names ! i) (dict_get d (names ! i) + 1))
       counts [0..<length position]"

definition project :: "numpy \<Rightarrow> projector \<Rightarrow> impedance_target \<Rightarrow> projector \<times> impedance_target result" where
  "project np pj t =
     (let position = it_position_rad t; kp = it_kp t; kd = it_kd t in
      if \<not> list_all (finite_vector 31) [position, it_velocity_rad_s t, kp, kd, it_feedforward_torque_nm t]
      then (pj, Inl (ValueError ''protected target vectors must be finite 31-vectors''))
      else if any_negative kp \<or> any_negative kd
      then (pj, Inl (ValueError ''protected target Kp/Kd must be non-negative''))
      else
      (let bounded = np_clip np position (pj_lower_rad pj) (pj_upper_rad pj);
           overshoot = np_maximum np (np_subtract np (pj_lower_rad pj) position)
             (np_subtract np position (pj_upper_rad pj));
           pj' = pj\<lparr>pj_maximum_raw_position_overshoot_rad :=
               fmax (pj_maximum_raw_position_overshoot_rad pj)
                 (np_max np (np_maximum np overshoot (replicate 31 (Fin 0)))),
             pj_clamp_count_by_joint :=
               count_clamps (pj_joint_names pj) bounded position (pj_clamp_count_by_joint pj)\<rparr>;
           scale = np_multiply np (replicate 31 (pj_gain_scale pj)) (pj_joint_gain_multipliers pj);
           projected_kp = np_multiply np scale kp;
           projected_kd = np_multiply np (np_multiply np scale (pj_joint_damping_multipliers pj)) kd;
           projected_ff = np_multiply np scale (it_feedforward_torque_nm t)
       in if list_ex (\<lambda>x. flt (pj_maximum_embedded_kd pj) x) projected_kd
          then (pj', Inl (ValueError ''projected Kd exceeds the qualified Damiao limit''))
          else (pj', new_impedance_target bounded (it_velocity_rad_s t) projected_kp projected_kd projected_ff)))"

definition project_position :: "numpy \<Rightarrow> projector \<Rightarrow> vec \<Rightarrow> vec result" where
  "project_position np pj position =
     (if \<not> finite_vector 31 position then Inl (ValueError ''protected position must be a finite 31-vector'')
      else Inr (np_clip np position (pj_lower_rad pj) (pj_upper_rad pj)))"

definition outside_limits :: "projector \<Rightarrow> vec \<Rightarrow> nat list" where
  "outside_limits pj position = filter (\<lambda>i. flt (position ! i) (pj_lower_rad pj ! i) \<or>
     flt (pj_upper_rad pj ! i) (position ! i)) [0..<length position]"

definition require_position_within_limits :: "projector \<Rightarrow> string \<Rightarrow> vec \<Rightarrow> vec result" where
  "require_position_within_limits pj label position =
     (if \<not> finite_vector 31 position then Inl (ValueError (label @ '' must be a finite 31-vector''))
      else let outside = outside_limits pj position in
        if outside \<noteq> []
        then Inl (ValueError (label @ '' is outside reviewed soft limits: '' @
          join '', '' (map (\<lambda>i. pj_joint_names pj ! i) outside)))
        else Inr position)"

end
