(* ===== verification/ProjectionSafety.thy ===== *)
theory ProjectionSafety
  imports TargetProjection
begin

text \<open>
  What the protected projector lets through, and when the clamp watchdog trips: exactly when some
  watched joint overshoots in the configured number of consecutive counted updates.
\<close>

section \<open>Scaling never raises a gain\<close>

definition doubles :: "vec \<Rightarrow> bool" where
  "doubles v = list_all is_double v"

definition unit_scale :: "pyfloat \<Rightarrow> bool" where
  "unit_scale s \<longleftrightarrow> (\<exists>r. s = Fin r \<and> 0 \<le> r \<and> r \<le> 1)"

lemma unit_scale_mul:
  assumes "unit_scale s" and "unit_scale t"
  shows "unit_scale (fmul s t)"
proof -
  obtain a b where ab: "s = Fin a" "t = Fin b" "0 \<le> a" "a \<le> 1" "0 \<le> b" "b \<le> 1"
    using assms by (auto simp: unit_scale_def)
  then have "0 \<le> a * b" "a * b \<le> 1" by (simp_all add: mult_le_one)
  then show ?thesis using ieee.rd_unit [of "a * b" 1] by (auto simp: unit_scale_def ab)
qed

lemma scaled_below:
  assumes "unit_scale s" and "is_double (Fin x)" and "0 \<le> x"
  shows "\<exists>y. fmul s (Fin x) = Fin y \<and> 0 \<le> y \<and> y \<le> x"
proof -
  obtain a where a: "s = Fin a" "0 \<le> a" "a \<le> 1" using assms(1) by (auto simp: unit_scale_def)
  then have "0 \<le> a * x" "a * x \<le> x" using assms(3) by (simp_all add: mult_left_le_one_le)
  moreover have "rnd x = Fin x" using assms(2) by (simp add: is_double_def)
  ultimately show ?thesis
    using rnd_mono [of 0 "a * x"] rnd_mono [of "a * x" x] by (cases "rnd (a * x)") (auto simp: a)
qed

section \<open>The projected target\<close>

text \<open>A projector as it was constructed, whatever it has counted since.\<close>

definition projector_ok :: "projector \<Rightarrow> bool" where
  "projector_ok pj \<longleftrightarrow> isfinite (pj_maximum_embedded_kd pj) \<and> ordered_limits (pj_lower_rad pj) (pj_upper_rad pj) \<and> unit_scale (pj_gain_scale pj) \<and>
     multipliers_ok (Fin 1) (pj_joint_gain_multipliers pj) \<and>
     multipliers_ok (Fin 4) (pj_joint_damping_multipliers pj)"

lemma new_projector_ok: "new_projector names lo hi gs kd gm dm = Inr pj \<Longrightarrow> projector_ok pj"
  by (auto simp: new_projector_def projector_ok_def Let_def unit_scale_def isfinite_iff
      split: if_splits option.splits)

lemma project_keeps:
  "pj_lower_rad (fst (project np pj t)) = pj_lower_rad pj"
  "pj_upper_rad (fst (project np pj t)) = pj_upper_rad pj"
  "pj_gain_scale (fst (project np pj t)) = pj_gain_scale pj"
  "pj_maximum_embedded_kd (fst (project np pj t)) = pj_maximum_embedded_kd pj"
  "pj_joint_gain_multipliers (fst (project np pj t)) = pj_joint_gain_multipliers pj"
  "pj_joint_damping_multipliers (fst (project np pj t)) = pj_joint_damping_multipliers pj"
  "pj_joint_names (fst (project np pj t)) = pj_joint_names pj"
  by (simp_all add: project_def Let_def)

lemma project_ok: "projector_ok pj \<Longrightarrow> projector_ok (fst (project np pj t))"
  by (simp add: projector_ok_def project_keeps)

text \<open>What is promised of the answer \<open>u\<close> to the target \<open>t\<close>.\<close>

definition protected :: "projector \<Rightarrow> impedance_target \<Rightarrow> impedance_target \<Rightarrow> bool" where
  "protected pj t u \<longleftrightarrow> (\<forall>i < 31.
     fle (pj_lower_rad pj ! i) (it_position_rad u ! i) \<and> fle (it_position_rad u ! i) (pj_upper_rad pj ! i) \<and>
     (fle (pj_lower_rad pj ! i) (it_position_rad t ! i) \<and> fle (it_position_rad t ! i) (pj_upper_rad pj ! i)
        \<longrightarrow> it_position_rad u ! i = it_position_rad t ! i) \<and>
     fle (Fin 0) (it_kp u ! i) \<and> fle (it_kp u ! i) (it_kp t ! i) \<and>
     fle (Fin 0) (it_kd u ! i) \<and> fle (it_kd u ! i) (pj_maximum_embedded_kd pj)) \<and>
     it_velocity_rad_s u = it_velocity_rad_s t"

lemma new_impedance_target_fields:
  assumes "new_impedance_target p v k d f = Inr u"
  shows "it_position_rad u = p" "it_velocity_rad_s u = v" "it_kp u = k" "it_kd u = d"
    "it_feedforward_torque_nm u = f" "finite_vector 31 k" "finite_vector 31 d" "\<not> any_negative d"
  using assms by (auto simp: new_impedance_target_def rbind_eq_Inr joint_vector_def split: if_splits)

lemma project_spec:
  assumes np: "clips np" "multiplies np" and ok: "projector_ok pj" and "project np pj t = (pj', Inr u)"
  obtains s where "length s = 31" "\<forall>i < 31. unit_scale (s ! i)"
    "it_position_rad u = clip_entries (it_position_rad t) (pj_lower_rad pj) (pj_upper_rad pj)"
    "it_kp u = map2 fmul s (it_kp t)" "it_velocity_rad_s u = it_velocity_rad_s t"
    "finite_vector 31 (it_position_rad t)" "finite_vector 31 (it_kp t)" "finite_vector 31 (it_kd u)"
    "\<not> any_negative (it_kp t)" "\<not> any_negative (it_kd u)"
    "\<not> list_ex (\<lambda>x. flt (pj_maximum_embedded_kd pj) x) (it_kd u)"
proof -
  let ?s = "np_multiply np (replicate 31 (pj_gain_scale pj)) (pj_joint_gain_multipliers pj)"
  have lim: "finite_vector 31 (pj_lower_rad pj)" "finite_vector 31 (pj_upper_rad pj)"
    using ok by (auto simp: projector_ok_def ordered_limits_def)
  have gm: "length (pj_joint_gain_multipliers pj) = 31"
    using ok by (auto simp: projector_ok_def multipliers_ok_def finite_vector_def)
  have v: "finite_vector 31 (it_position_rad t)" "finite_vector 31 (it_kp t)" "\<not> any_negative (it_kp t)"
    "\<not> list_ex (\<lambda>x. flt (pj_maximum_embedded_kd pj) x) (it_kd u)"
    and new: "new_impedance_target (np_clip np (it_position_rad t) (pj_lower_rad pj) (pj_upper_rad pj))
      (it_velocity_rad_s t) (np_multiply np ?s (it_kp t)) (it_kd u) (it_feedforward_torque_nm u) = Inr u"
    using assms(4)
    by (auto simp: project_def Let_def new_impedance_target_def rbind_eq_Inr joint_vector_def split: if_splits)
  have s: "?s = map2 fmul (replicate 31 (pj_gain_scale pj)) (pj_joint_gain_multipliers pj)"
    using np(2) gm by (simp add: multiplies_def)
  have "unit_scale (?s ! i)" if "i < 31" for i
  proof -
    have "unit_scale (pj_joint_gain_multipliers pj ! i)"
      using ok that gm by (force simp: projector_ok_def multipliers_ok_def list_all_length unit_scale_def
          finite_vector_def isfinite_iff)
    then show ?thesis using ok that gm by (simp add: s unit_scale_mul projector_ok_def)
  qed
  moreover have "length ?s = 31" by (simp add: s gm)
  moreover have "np_multiply np ?s (it_kp t) = map2 fmul ?s (it_kp t)"
    using np(2) v(2) \<open>length ?s = 31\<close> by (simp add: multiplies_def finite_vector_def)
  moreover have "np_clip np (it_position_rad t) (pj_lower_rad pj) (pj_upper_rad pj) =
      clip_entries (it_position_rad t) (pj_lower_rad pj) (pj_upper_rad pj)"
    using np(1) v(1) lim by (simp add: clips_def)
  ultimately show ?thesis
    using new_impedance_target_fields [OF new] v by (intro that [of ?s]) simp_all
qed

lemma project_protected:
  assumes "clips np" "multiplies np" and ok: "projector_ok pj" and p: "project np pj t = (pj', Inr u)"
    and d: "doubles (it_kp t)"
  shows "protected pj t u"
proof -
  obtain s where s: "length s = 31" "\<forall>i < 31. unit_scale (s ! i)"
    "it_position_rad u = clip_entries (it_position_rad t) (pj_lower_rad pj) (pj_upper_rad pj)"
    "it_kp u = map2 fmul s (it_kp t)" "it_velocity_rad_s u = it_velocity_rad_s t"
    "finite_vector 31 (it_position_rad t)" "finite_vector 31 (it_kp t)" "finite_vector 31 (it_kd u)"
    "\<not> any_negative (it_kp t)" "\<not> any_negative (it_kd u)"
    "\<not> list_ex (\<lambda>x. flt (pj_maximum_embedded_kd pj) x) (it_kd u)"
    using project_spec [OF assms(1,2) ok p] .
  have lim: "finite_vector 31 (pj_lower_rad pj)" "finite_vector 31 (pj_upper_rad pj)"
    "list_all2 flt (pj_lower_rad pj) (pj_upper_rad pj)"
    using ok by (auto simp: projector_ok_def ordered_limits_def)
  show ?thesis unfolding protected_def
  proof (intro conjI allI impI)
    fix i :: nat assume i: "i < 31"
    note fin = finite_vector_nth [OF s(6) i] finite_vector_nth [OF lim(1) i] finite_vector_nth [OF lim(2) i]
    have pos: "it_position_rad u ! i = clip_entry (it_position_rad t ! i) (pj_lower_rad pj ! i) (pj_upper_rad pj ! i)"
      using s lim i by (simp add: clip_entries_nth finite_vector_def)
    have "flt (pj_lower_rad pj ! i) (pj_upper_rad pj ! i)"
      using lim i by (simp add: list_all2_conv_all_nth finite_vector_def)
    from clip_entry_inside [OF fin this]
    show "fle (pj_lower_rad pj ! i) (it_position_rad u ! i)" "fle (it_position_rad u ! i) (pj_upper_rad pj ! i)"
      by (simp_all add: pos)
    show "it_position_rad u ! i = it_position_rad t ! i"
      if "fle (pj_lower_rad pj ! i) (it_position_rad t ! i) \<and> fle (it_position_rad t ! i) (pj_upper_rad pj ! i)"
      using that fin by (auto simp: pos clip_entry_def fmin_def fmax_def isfinite_iff)
    obtain x where x: "it_kp t ! i = Fin x" using finite_vector_nth [OF s(7) i] by (auto simp: isfinite_iff)
    have "0 \<le> x" using s(7,9) i x by (fastforce simp: any_negative_def list_ex_length finite_vector_def)
    moreover have "is_double (Fin x)" using d x i s(7) by (auto simp: doubles_def list_all_length finite_vector_def)
    ultimately obtain y where "fmul (s ! i) (Fin x) = Fin y" "0 \<le> y" "y \<le> x"
      using scaled_below s(2) i by blast
    then show "fle (Fin 0) (it_kp u ! i)" "fle (it_kp u ! i) (it_kp t ! i)"
      using s i by (simp_all add: x finite_vector_def)
    obtain k where k: "it_kd u ! i = Fin k" using finite_vector_nth [OF s(8) i] by (auto simp: isfinite_iff)
    show "fle (Fin 0) (it_kd u ! i)" using s(8,10) i k
      by (fastforce simp: any_negative_def list_ex_length finite_vector_def)
    have "\<not> flt (pj_maximum_embedded_kd pj) (Fin k)"
      using s(8,11) i k by (fastforce simp: list_ex_length finite_vector_def)
    then show "fle (it_kd u ! i) (pj_maximum_embedded_kd pj)"
      using k ok by (cases "pj_maximum_embedded_kd pj") (auto simp: projector_ok_def)
  qed (rule s)
qed

text \<open>The answers of a projector to a sequence of policy targets.\<close>

fun project_run :: "numpy \<Rightarrow> projector \<Rightarrow> impedance_target list \<Rightarrow> impedance_target result list" where
  "project_run np pj [] = []"
| "project_run np pj (t # ts) = (case project np pj t of (pj', r) \<Rightarrow> r # project_run np pj' ts)"

text \<open>
  C21. Whatever targets the policy sends one after the other, every target the protected projector
  passes on lies inside the reviewed soft limits, keeps the positions that were inside, never has a
  higher stiffness than asked for, and has a damping between zero and the qualified limit.
\<close>
theorem projected_targets_protected:
  assumes "new_projector names lo hi gs kd gm dm = Inr pj" and "clips np" and "multiplies np"
    and "\<forall>t \<in> set ts. doubles (it_kp t)"
  shows "list_all2 (\<lambda>t r. \<forall>u. r = Inr u \<longrightarrow> protected pj t u) ts (project_run np pj ts)"
proof -
  have "list_all2 (\<lambda>t r. \<forall>u. r = Inr u \<longrightarrow> protected pj t u) ts (project_run np pj' ts)"
    if "projector_ok pj'" "protected pj' = protected pj" for pj'
    using that assms(4)
  proof (induction ts arbitrary: pj')
    case Nil
    then show ?case by simp
  next
    case (Cons t ts)
    let ?next = "fst (project np pj' t)"
    have "protected ?next = protected pj'"
      by (simp add: fun_eq_iff protected_def project_keeps)
    moreover have "protected pj' t u" if "snd (project np pj' t) = Inr u" for u
      using project_protected [OF assms(2,3) Cons.prems(1), of t ?next u] that Cons.prems(3) by (cases "project np pj' t") simp
    ultimately show ?case
      using Cons.IH [of ?next] Cons.prems project_ok by (simp add: case_prod_beta)
  qed
  from this [OF new_projector_ok [OF assms(1)]] show ?thesis by simp
qed

definition sample_policy_target :: impedance_target where
  "sample_policy_target = \<lparr>it_position_rad = replicate 31 (Fin 2), it_velocity_rad_s = replicate 31 (Fin 0),
     it_kp = replicate 31 (Fin 8), it_kd = replicate 31 (Fin 1), it_feedforward_torque_nm = replicate 31 (Fin 0)\<rparr>"

definition sample_joints :: "string list" where
  "sample_joints = map (\<lambda>i. replicate i CHR 0x6A) [0..<31]"

theorem projected_targets_protected_witness:
  "\<exists>pj u. new_projector sample_joints (replicate 31 (Fin (- 1))) (replicate 31 (Fin 1)) (Fin (1 / 2)) (Fin 3)
      None None = Inr pj \<and> project_run entrywise_numpy pj [sample_policy_target] = [Inr u] \<and>
    protected pj sample_policy_target u"
proof -
  have "distinct sample_joints" "length sample_joints = 31"
    by (auto simp: sample_joints_def distinct_map intro!: inj_onI dest: arg_cong [of _ _ length])
  then obtain pj where pj: "new_projector sample_joints (replicate 31 (Fin (- 1))) (replicate 31 (Fin 1)) (Fin (1 / 2))
      (Fin 3) None None = Inr pj"
    and f: "pj_lower_rad pj = replicate 31 (Fin (- 1))" "pj_upper_rad pj = replicate 31 (Fin 1)"
      "pj_gain_scale pj = Fin (1 / 2)" "pj_maximum_embedded_kd pj = Fin 3"
      "pj_joint_gain_multipliers pj = replicate 31 (Fin 1)" "pj_joint_damping_multipliers pj = replicate 31 (Fin 1)"
    by (simp add: new_projector_def ordered_limits_def finite_vector_def multipliers_ok_def list_all2_conv_all_nth
        list_all_iff Let_def)
  have halves: "rnd (1 / 2) = Fin (1 / 2)" "rnd 4 = Fin 4" by (simp_all add: float_eval)
  have zip: "map2 fmul (replicate 31 a) (replicate 31 b) = replicate 31 (fmul a b)" for a b
    by (simp add: zip_replicate)
  have clip: "clip_entries (replicate n (Fin 2)) (replicate n (Fin (- 1))) (replicate n (Fin 1)) = replicate n (Fin 1)"
    for n by (induction n) (simp_all add: clip_entry_def fmin_def fmax_def)
  have "snd (project entrywise_numpy pj sample_policy_target) = Inr \<lparr>it_position_rad = replicate 31 (Fin 1),
      it_velocity_rad_s = replicate 31 (Fin 0), it_kp = replicate 31 (Fin 4), it_kd = replicate 31 (Fin (1 / 2)),
      it_feedforward_torque_nm = replicate 31 (Fin 0)\<rparr>"
    by (simp add: project_def Let_def f sample_policy_target_def entrywise_numpy_def zip clip finite_vector_def
        any_negative_def halves new_impedance_target_def joint_vector_def list_all_iff list_ex_iff)
  then obtain u where u: "project_run entrywise_numpy pj [sample_policy_target] = [Inr u]"
    by (simp add: case_prod_beta)
  have "doubles (it_kp sample_policy_target)"
    by (simp add: doubles_def sample_policy_target_def list_all_iff float_eval)
  with projected_targets_protected [OF pj entrywise_clips entrywise_multiplies, of "[sample_policy_target]"] pj u
  show ?thesis by auto
qed

section \<open>Runs of a predicate\<close>

definition has_run :: "nat \<Rightarrow> ('x \<Rightarrow> bool) \<Rightarrow> 'x list \<Rightarrow> bool" where
  "has_run n P xs \<longleftrightarrow> (\<exists>ys zs ws. xs = ys @ zs @ ws \<and> length zs = n \<and> list_all P zs)"

definition streak :: "('x \<Rightarrow> bool) \<Rightarrow> 'x list \<Rightarrow> nat" where
  "streak P xs = length (takeWhile P (rev xs))"

lemma streak_simps [simp]: "streak P [] = 0" "streak P (xs @ [x]) = (if P x then streak P xs + 1 else 0)"
  by (simp_all add: streak_def)

lemma suffix_snoc:
  "(\<exists>ys zs. xs @ [x] = ys @ zs \<and> length zs = Suc n \<and> list_all P zs) \<longleftrightarrow>
     P x \<and> (\<exists>ys zs. xs = ys @ zs \<and> length zs = n \<and> list_all P zs)"
proof
  assume "\<exists>ys zs. xs @ [x] = ys @ zs \<and> length zs = Suc n \<and> list_all P zs"
  then obtain ys zs where "xs @ [x] = ys @ zs" "length zs = Suc n" "list_all P zs" by blast
  then show "P x \<and> (\<exists>ys zs. xs = ys @ zs \<and> length zs = n \<and> list_all P zs)"
    by (cases zs rule: rev_cases) auto
next
  assume "P x \<and> (\<exists>ys zs. xs = ys @ zs \<and> length zs = n \<and> list_all P zs)"
  then obtain ys zs where "P x" "xs = ys @ zs" "length zs = n" "list_all P zs" by blast
  then show "\<exists>ys zs. xs @ [x] = ys @ zs \<and> length zs = Suc n \<and> list_all P zs"
    by (intro exI [of _ ys] exI [of _ "zs @ [x]"]) simp
qed

lemma suffix_streak: "(\<exists>ys zs. xs = ys @ zs \<and> length zs = n \<and> list_all P zs) \<longleftrightarrow> n \<le> streak P xs"
proof (induction xs arbitrary: n rule: rev_induct)
  case Nil
  then show ?case by auto
next
  case (snoc x xs)
  show ?case
  proof (cases n)
    case 0
    then show ?thesis by auto
  next
    case (Suc m)
    then show ?thesis by (simp only: suffix_snoc snoc streak_simps) simp
  qed
qed

lemma has_run_Nil: "0 < n \<Longrightarrow> \<not> has_run n P []"
  by (simp add: has_run_def)

lemma has_run_snoc: "has_run n P (xs @ [x]) \<longleftrightarrow> has_run n P xs \<or> n \<le> streak P (xs @ [x])"
proof -
  have "has_run n P (xs @ [x]) \<longleftrightarrow> has_run n P xs \<or> (\<exists>ys zs. xs @ [x] = ys @ zs \<and> length zs = n \<and> list_all P zs)"
  proof
    assume "has_run n P (xs @ [x])"
    then obtain ys zs ws where e: "xs @ [x] = ys @ zs @ ws" "length zs = n" "list_all P zs"
      by (auto simp: has_run_def)
    show "has_run n P xs \<or> (\<exists>ys zs. xs @ [x] = ys @ zs \<and> length zs = n \<and> list_all P zs)"
    proof (cases ws rule: rev_cases)
      case Nil
      with e show ?thesis by auto
    next
      case (snoc vs v)
      with e have "xs = ys @ zs @ vs" by simp
      with e show ?thesis by (auto simp: has_run_def)
    qed
  next
    assume "has_run n P xs \<or> (\<exists>ys zs. xs @ [x] = ys @ zs \<and> length zs = n \<and> list_all P zs)"
    then show "has_run n P (xs @ [x])"
    proof
      assume "has_run n P xs"
      then obtain ys zs ws where "xs = ys @ zs @ ws" "length zs = n" "list_all P zs" by (auto simp: has_run_def)
      then show ?thesis unfolding has_run_def
        by (intro exI [of _ ys] exI [of _ zs] exI [of _ "ws @ [x]"]) simp
    next
      assume "\<exists>ys zs. xs @ [x] = ys @ zs \<and> length zs = n \<and> list_all P zs"
      then show ?thesis unfolding has_run_def by (metis append_Nil2)
    qed
  qed
  then show ?thesis by (simp only: suffix_streak)
qed

section \<open>When the watchdog trips\<close>

text \<open>What the watchdog will count for one joint in the next counted update.\<close>

definition next_count :: "watchdog \<Rightarrow> vec \<times> vec \<Rightarrow> string \<Rightarrow> int" where
  "next_count w x name = (if overshoots w (fst x) (snd x) name then dict_get (wg_consecutive w) name + 1 else 0)"

definition same_watchdog :: "watchdog \<Rightarrow> watchdog \<Rightarrow> bool" where
  "same_watchdog v w \<longleftrightarrow> wg_joint_names v = wg_joint_names w \<and> wg_watched v = wg_watched w \<and>
     wg_minimum_overshoot v = wg_minimum_overshoot w \<and> wg_maximum_ticks v = wg_maximum_ticks w \<and>
     wg_ignored_ticks v = wg_ignored_ticks w"

lemma same_watchdog_overshoots: "same_watchdog v w \<Longrightarrow> overshoots v = overshoots w"
  by (simp add: same_watchdog_def overshoots_def fun_eq_iff)

lemma dict_get_set [simp]: "dict_get (dict_set d k v) j = (if j = k then v else dict_get d j)"
  by (simp add: dict_get_def)

lemma watch_joint_spec:
  "watch_joint (fst x) (snd x) w name = (w', r) \<Longrightarrow>
     same_watchdog w' w \<and> wg_update_count w' = wg_update_count w \<and>
     (\<forall>n. dict_get (wg_consecutive w') n = (if n = name then next_count w x name else dict_get (wg_consecutive w) n)) \<and>
     (r = Inr () \<longleftrightarrow> next_count w x name < wg_maximum_ticks w)"
  by (auto simp: watch_joint_def next_count_def same_watchdog_def Let_def split: if_splits)

lemma watch_joints_spec:
  assumes "distinct names" and "watch_joints (fst x) (snd x) w names = (w', r)"
  shows "(r = Inr () \<longleftrightarrow> (\<forall>n \<in> set names. next_count w x n < wg_maximum_ticks w)) \<and>
    (r = Inr () \<longrightarrow> same_watchdog w' w \<and> wg_update_count w' = wg_update_count w \<and>
      (\<forall>n. dict_get (wg_consecutive w') n =
         (if n \<in> set names then next_count w x n else dict_get (wg_consecutive w) n)))"
  using assms
proof (induction names arbitrary: w)
  case Nil
  then show ?case by (simp add: same_watchdog_def)
next
  case (Cons name names)
  obtain w1 r1 where w1: "watch_joint (fst x) (snd x) w name = (w1, r1)" by (cases "watch_joint (fst x) (snd x) w name")
  note one = watch_joint_spec [OF w1]
  have next1: "next_count w1 x n = next_count w x n" if "n \<noteq> name" for n
    using one that same_watchdog_overshoots [of w1 w] by (simp add: next_count_def)
  have ne: "n \<noteq> name" if "n \<in> set names" for n using Cons.prems(1) that by auto
  show ?case
  proof (cases r1)
    case (Inl e)
    with one Cons.prems(2) w1 show ?thesis by auto
  next
    case (Inr u)
    then have rest: "watch_joints (fst x) (snd x) w1 names = (w', r)" using Cons.prems(2) w1 by simp
    have "distinct names" using Cons.prems(1) by simp
    from Cons.IH [OF this rest] one Inr next1 ne show ?thesis
      by (auto simp: same_watchdog_def)
  qed
qed

fun watchdog_run :: "watchdog \<Rightarrow> (vec \<times> vec) list \<Rightarrow> watchdog \<times> unit result" where
  "watchdog_run w [] = (w, Inr ())"
| "watchdog_run w (x # xs) = (case watchdog_update w (fst x) (snd x) of
     (w', Inl e) \<Rightarrow> (w', Inl e) | (w', Inr _) \<Rightarrow> watchdog_run w' xs)"

lemma watchdog_run_snoc:
  "watchdog_run w (xs @ [x]) = (case watchdog_run w xs of (w', Inl e) \<Rightarrow> (w', Inl e)
     | (w', Inr _) \<Rightarrow> watchdog_update w' (fst x) (snd x))"
  by (induction xs arbitrary: w) (auto split: prod.splits sum.splits)

definition counted :: "watchdog \<Rightarrow> (vec \<times> vec) list \<Rightarrow> (vec \<times> vec) list" where
  "counted w xs = drop (nat (wg_ignored_ticks w)) xs"

definition over :: "watchdog \<Rightarrow> string \<Rightarrow> vec \<times> vec \<Rightarrow> bool" where
  "over w name x = overshoots w (fst x) (snd x) name"

definition tripping :: "watchdog \<Rightarrow> (vec \<times> vec) list \<Rightarrow> bool" where
  "tripping w xs \<longleftrightarrow> (\<exists>name \<in> set (wg_watched w). has_run (nat (wg_maximum_ticks w)) (over w name) (counted w xs))"

lemma counted_snoc:
  assumes "0 \<le> wg_ignored_ticks w"
  shows "counted w (xs @ [x]) = (if int (length xs) + 1 \<le> wg_ignored_ticks w then [] else counted w xs @ [x])"
  using assms by (auto simp: counted_def drop_append)

text \<open>The state after updates that did not trip: every counter is the current streak.\<close>

definition tracks :: "watchdog \<Rightarrow> (vec \<times> vec) list \<Rightarrow> watchdog \<Rightarrow> bool" where
  "tracks w xs v \<longleftrightarrow> same_watchdog v w \<and> wg_update_count v = int (length xs) \<and>
     (\<forall>n \<in> set (wg_watched w). dict_get (wg_consecutive v) n = int (streak (over w n) (counted w xs)))"

definition fresh_watchdog :: "watchdog \<Rightarrow> bool" where
  "fresh_watchdog w \<longleftrightarrow> distinct (wg_watched w) \<and> 1 \<le> wg_maximum_ticks w \<and> 0 \<le> wg_ignored_ticks w \<and>
     wg_update_count w = 0 \<and> wg_consecutive w = map (\<lambda>n. (n, 0)) (wg_watched w)"

lemma dict_get_zeros: "dict_get (map (\<lambda>n. (n, 0)) ns) k = 0"
  by (induction ns) (auto simp: dict_get_def)

lemma update_tracks:
  assumes fresh: "fresh_watchdog w" and v: "tracks w xs v"
    and x: "finite_vector (length (wg_joint_names w)) (fst x)" "finite_vector (length (wg_joint_names w)) (snd x)"
    and u: "watchdog_update v (fst x) (snd x) = (v', r)"
  shows "(r = Inr () \<longleftrightarrow> (\<forall>n \<in> set (wg_watched w). int (streak (over w n) (counted w (xs @ [x]))) < wg_maximum_ticks w)) \<and>
    (r = Inr () \<longrightarrow> tracks w (xs @ [x]) v')"
proof -
  have same: "same_watchdog v w" and len: "wg_update_count v = int (length xs)" using v by (simp_all add: tracks_def)
  have f: "0 \<le> wg_ignored_ticks w" "1 \<le> wg_maximum_ticks w" "distinct (wg_watched w)"
    using fresh by (simp_all add: fresh_watchdog_def)
  define v1 where "v1 = v\<lparr>wg_update_count := wg_update_count v + 1\<rparr>"
  have step: "(v', r) = (if int (length xs) + 1 \<le> wg_ignored_ticks w then (v1, Inr ())
      else watch_joints (fst x) (snd x) v1 (wg_watched w))"
    using u x same len by (auto simp: watchdog_update_def Let_def v1_def same_watchdog_def split: if_splits)
  note cs = counted_snoc [OF f(1), of xs x]
  show ?thesis
  proof (cases "int (length xs) + 1 \<le> wg_ignored_ticks w")
    case True
    then have e: "counted w xs = []" "counted w (xs @ [x]) = []" by (simp_all add: counted_def)
    then have "dict_get (wg_consecutive v) n = 0" if "n \<in> set (wg_watched w)" for n
      using v that by (simp add: tracks_def)
    with True step e f same len show ?thesis by (simp add: tracks_def v1_def same_watchdog_def)
  next
    case False
    then have "watch_joints (fst x) (snd x) v1 (wg_watched w) = (v', r)" using step by simp
    note spec = watch_joints_spec [OF f(3) this]
    have nc: "next_count v1 x n = int (streak (over w n) (counted w (xs @ [x])))" if "n \<in> set (wg_watched w)" for n
    proof -
      have "same_watchdog v1 w" using same by (simp add: v1_def same_watchdog_def)
      then show ?thesis using v that False cs same_watchdog_overshoots [of v1 w]
        by (simp add: next_count_def tracks_def over_def v1_def)
    qed
    have m: "wg_maximum_ticks v1 = wg_maximum_ticks w" using same by (simp add: v1_def same_watchdog_def)
    from spec nc m same len show ?thesis by (auto simp: tracks_def v1_def same_watchdog_def)
  qed
qed

lemma tripping_snoc:
  assumes "fresh_watchdog w"
  shows "tripping w (xs @ [x]) \<longleftrightarrow> tripping w xs \<or>
    (\<exists>n \<in> set (wg_watched w). wg_maximum_ticks w \<le> int (streak (over w n) (counted w (xs @ [x]))))"
proof -
  have f: "0 \<le> wg_ignored_ticks w" "1 \<le> wg_maximum_ticks w" using assms by (simp_all add: fresh_watchdog_def)
  have pos: "0 < nat (wg_maximum_ticks w)" using f(2) by simp
  show ?thesis
  proof (cases "int (length xs) + 1 \<le> wg_ignored_ticks w")
    case True
    then have "counted w xs = []" "counted w (xs @ [x]) = []" by (simp_all add: counted_def)
    with f has_run_Nil [OF pos] show ?thesis by (simp add: tripping_def)
  next
    case False
    then have "counted w (xs @ [x]) = counted w xs @ [x]" using counted_snoc [OF f(1)] by simp
    then show ?thesis using f(2) by (auto simp: tripping_def has_run_snoc nat_le_iff simp del: streak_simps)
  qed
qed

text \<open>
  The clamp watchdog implements its specification: over any sequence of well-formed updates it
  trips if and only if some watched joint overshot the limit in the configured number of
  consecutive updates, not counting the ignored initial ones.
\<close>
theorem watchdog_trips_iff:
  assumes "new_watchdog names watched overshoot ticks ignored = Inr w"
    and "\<forall>(raw, projected) \<in> set xs. finite_vector (length names) raw \<and> finite_vector (length names) projected"
  shows "returns (snd (watchdog_run w xs)) \<longleftrightarrow> \<not> tripping w xs"
proof -
  have fresh: "fresh_watchdog w" and names: "wg_joint_names w = names"
    using assms(1) by (auto simp: new_watchdog_def fresh_watchdog_def Let_def split: if_splits)
  have "(snd (watchdog_run w xs) = Inr () \<longleftrightarrow> \<not> tripping w xs) \<and>
      (snd (watchdog_run w xs) = Inr () \<longrightarrow> tracks w xs (fst (watchdog_run w xs)))"
    using assms(2)
  proof (induction xs rule: rev_induct)
    case Nil
    have "\<not> has_run (nat (wg_maximum_ticks w)) P ([] :: (vec \<times> vec) list)" for P
      using fresh by (intro has_run_Nil) (simp add: fresh_watchdog_def)
    then have "\<not> tripping w []" by (simp add: tripping_def counted_def)
    then show ?case using fresh
      by (simp add: tracks_def same_watchdog_def fresh_watchdog_def counted_def dict_get_zeros)
  next
    case (snoc x xs)
    obtain v r where v: "watchdog_run w xs = (v, r)" by (cases "watchdog_run w xs")
    obtain v' r' where u: "watchdog_update v (fst x) (snd x) = (v', r')" by (cases "watchdog_update v (fst x) (snd x)")
    have ih: "(r = Inr () \<longleftrightarrow> \<not> tripping w xs) \<and> (r = Inr () \<longrightarrow> tracks w xs v)" using snoc v by simp
    show ?case
    proof (cases r)
      case (Inl e)
      with ih v fresh show ?thesis by (simp add: watchdog_run_snoc tripping_snoc)
    next
      case (Inr y)
      then have t: "tracks w xs v" "\<not> tripping w xs" using ih by simp_all
      have fin: "finite_vector (length (wg_joint_names w)) (fst x)" "finite_vector (length (wg_joint_names w)) (snd x)"
        using snoc.prems names by (auto simp: split_beta)
      from update_tracks [OF fresh t(1) fin u] t(2) v u Inr show ?thesis
        by (auto simp: watchdog_run_snoc tripping_snoc [OF fresh] not_le)
    qed
  qed
  then show ?thesis by (cases "snd (watchdog_run w xs)") auto
qed

theorem watchdog_trips_iff_witness:
  "\<exists>w. new_watchdog [''hip'', ''knee''] [''knee''] (rnd (1 / 10)) 2 1 = Inr w \<and>
    (returns (snd (watchdog_run w (replicate 3 ([Fin 0, Fin 1], [Fin 0, Fin 0])))) \<longleftrightarrow>
     \<not> tripping w (replicate 3 ([Fin 0, Fin 1], [Fin 0, Fin 0])))"
proof -
  have "isfinite (rnd (1 / 10))" "flt (Fin 0) (rnd (1 / 10))" "fle (rnd (1 / 10)) (rnd (2 / 10))"
    by (simp_all add: float_eval)
  then obtain w where w: "new_watchdog [''hip'', ''knee''] [''knee''] (rnd (1 / 10)) 2 1 = Inr w"
    by (simp add: new_watchdog_def sorted_set_def Let_def)
  from watchdog_trips_iff [OF this, of "replicate 3 ([Fin 0, Fin 1], [Fin 0, Fin 0])"] w
  show ?thesis by (auto simp: finite_vector_def)
qed

end
