(* ===== verification/Coupling.thy ===== *)
theory Coupling
  imports Arrays Hardware
begin

text \<open>
  Differential pairs: the calibrated coupling \<open>q_motor = A q_joint + zero\<close> of two joints (\<open>ankle.py\<close>)
  and the drive coordinates of a pair (\<open>DifferentialPairDriveMap\<close> of \<open>motor_mapping.py\<close>). The linear
  algebra is numpy's, a parameter.
\<close>

section \<open>The coupling of two joints\<close>

record coupling =
  cp_matrix :: mat
  cp_zero :: vec

definition vector2 :: "string \<Rightarrow> vec \<Rightarrow> vec result" where
  "vector2 name v = (if length v \<noteq> 2 then Inl (ValueError (name @ '' must have shape (2,)''))
     else if \<not> list_all isfinite v then Inl (ValueError (name @ '' contains a non-finite value''))
     else Inr v)"

definition new_differential_pair :: "numpy \<Rightarrow> mat \<Rightarrow> vec \<Rightarrow> coupling result" where
  "new_differential_pair np matrix zero = rbind (vector2 ''motor_zero_rad'' zero) (\<lambda>z.
     if length matrix \<noteq> 2 \<or> \<not> list_all (\<lambda>row. length row = 2) matrix
     then Inl (ValueError ''joint_to_motor_matrix must be 2x2'')
     else if \<not> list_all (list_all isfinite) matrix
     then Inl (ValueError ''joint_to_motor_matrix contains a non-finite value'')
     else if flt (fabs (np_det np matrix)) (rnd (1 / 10 ^ 8))
     then Inl (ValueError ''joint_to_motor_matrix is singular'')
     else Inr \<lparr>cp_matrix = matrix, cp_zero = z\<rparr>)"

definition ideal_symmetric :: "numpy \<Rightarrow> coupling result" where
  "ideal_symmetric np = new_differential_pair np [[Fin 1, Fin 1], [Fin 1, Fin (- 1)]] [Fin 0, Fin 0]"

definition joint_to_motor_position :: "numpy \<Rightarrow> coupling \<Rightarrow> vec \<Rightarrow> vec result" where
  "joint_to_motor_position np c joint = rbind (vector2 ''joint_position'' joint) (\<lambda>position.
     Inr (np_add np (np_matvec np (cp_matrix c) position) (cp_zero c)))"

definition motor_to_joint_position :: "numpy \<Rightarrow> coupling \<Rightarrow> vec \<Rightarrow> vec result" where
  "motor_to_joint_position np c motor = rbind (vector2 ''motor_position'' motor) (\<lambda>position.
     np_solve np (cp_matrix c) (np_subtract np position (cp_zero c)))"

definition joint_to_motor_velocity :: "numpy \<Rightarrow> coupling \<Rightarrow> vec \<Rightarrow> vec result" where
  "joint_to_motor_velocity np c joint = rbind (vector2 ''joint_velocity'' joint) (\<lambda>velocity.
     Inr (np_matvec np (cp_matrix c) velocity))"

definition motor_to_joint_velocity :: "numpy \<Rightarrow> coupling \<Rightarrow> vec \<Rightarrow> vec result" where
  "motor_to_joint_velocity np c motor = rbind (vector2 ''motor_velocity'' motor) (np_solve np (cp_matrix c))"

definition joint_to_motor_torque :: "numpy \<Rightarrow> coupling \<Rightarrow> vec \<Rightarrow> vec result" where
  "joint_to_motor_torque np c joint = rbind (vector2 ''joint_torque'' joint)
     (np_solve np (np_transpose np (cp_matrix c)))"

definition motor_to_joint_torque :: "numpy \<Rightarrow> coupling \<Rightarrow> vec \<Rightarrow> vec result" where
  "motor_to_joint_torque np c motor = rbind (vector2 ''motor_torque'' motor) (\<lambda>torque.
     Inr (np_matvec np (np_transpose np (cp_matrix c)) torque))"

definition motor_impedance_matrix :: "numpy \<Rightarrow> coupling \<Rightarrow> vec \<Rightarrow> mat result" where
  "motor_impedance_matrix np c joint_gains = rbind (vector2 ''joint_gains'' joint_gains) (\<lambda>gains.
     rbind (np_inv np (cp_matrix c)) (\<lambda>inverse.
       Inr (np_matmul np (np_matmul np (np_transpose np inverse) (np_diag np gains)) inverse)))"

definition diagonal_motor_gains :: "numpy \<Rightarrow> coupling \<Rightarrow> vec \<Rightarrow> pyfloat \<Rightarrow> vec result" where
  "diagonal_motor_gains np c joint_gains tolerance = rbind (motor_impedance_matrix np c joint_gains) (\<lambda>matrix.
     if flt tolerance (np_max_abs np (np_matsub np matrix (np_diag np (np_diagonal np matrix))))
     then Inl (ValueError ''joint gains require cross-coupled motor impedance; embedded diagonal PD is insufficient'')
     else Inr (np_diagonal np matrix))"

section \<open>Fitting a coupling\<close>

record numpy_fit = numpy +
  nf_rank :: "mat \<Rightarrow> int"
  nf_cond :: "mat \<Rightarrow> pyfloat"
  nf_lstsq :: "mat \<Rightarrow> mat \<Rightarrow> mat"
  nf_add_row :: "mat \<Rightarrow> vec \<Rightarrow> mat"
  nf_rms :: "mat \<Rightarrow> vec"
  nf_max_abs_columns :: "mat \<Rightarrow> vec"

record coupling_fit =
  cf_matrix :: mat
  cf_zero :: vec
  cf_determinant :: pyfloat
  cf_excitation_condition :: pyfloat
  cf_matrix_condition :: pyfloat
  cf_rms_residual_rad :: vec
  cf_max_abs_residual_rad :: vec
  cf_sample_count :: int
  cf_maximum_rms_residual_rad :: pyfloat
  cf_maximum_condition_number :: pyfloat
  cf_passed :: bool

definition samples_of_two :: "mat \<Rightarrow> bool" where
  "samples_of_two m = list_all (\<lambda>row. length row = 2) m"

definition fit_differential_pair ::
  "'a numpy_fit_scheme \<Rightarrow> mat \<Rightarrow> mat \<Rightarrow> pyfloat \<Rightarrow> pyfloat \<Rightarrow> coupling_fit result" where
  "fit_differential_pair np joints motors maximum_rms maximum_condition =
     (if joints = [] \<or> \<not> samples_of_two joints \<or> \<not> samples_of_two motors \<or> length motors \<noteq> length joints
      then Inl (ValueError ''joint and motor samples must both have shape [N, 2]'')
      else if length joints < 6
      then Inl (ValueError ''at least six ankle calibration samples are required'')
      else if \<not> list_all (list_all isfinite) joints \<or> \<not> list_all (list_all isfinite) motors
      then Inl (ValueError ''differential calibration samples must be finite'')
      else let design = map (\<lambda>row. row @ [Fin 1]) joints in
      if nf_rank np design \<noteq> 3
      then Inl (ValueError ''differential samples do not independently excite both joints'')
      else let excitation = nf_cond np design;
          coefficients = nf_lstsq np design motors;
          matrix = np_transpose (numpy.truncate np) (take 2 coefficients);
          zero = (if 2 < length coefficients then coefficients ! 2 else []);
          determinant = np_det (numpy.truncate np) matrix in
      if flt (fabs determinant) (rnd (1 / 10 ^ 6))
      then Inl (ValueError ''fitted differential matrix is singular'')
      else let predicted = nf_add_row np
            (np_matmul (numpy.truncate np) joints (np_transpose (numpy.truncate np) matrix)) zero;
          residual = np_matsub (numpy.truncate np) motors predicted;
          rms = nf_rms np residual;
          fitted = nf_cond np matrix in
      Inr \<lparr>cf_matrix = matrix, cf_zero = zero, cf_determinant = determinant,
        cf_excitation_condition = excitation, cf_matrix_condition = fitted, cf_rms_residual_rad = rms,
        cf_max_abs_residual_rad = nf_max_abs_columns np residual, cf_sample_count = int (length joints),
        cf_maximum_rms_residual_rad = maximum_rms, cf_maximum_condition_number = maximum_condition,
        cf_passed = (fle excitation maximum_condition \<and> fle fitted maximum_condition \<and>
          fle (np_max (numpy.truncate np) rms) maximum_rms)\<rparr>)"

section \<open>The drive coordinates of a pair\<close>

record drive_pair =
  dp_name :: string
  dp_joint_names :: "string list"
  dp_motor_names :: "string list"
  dp_drive_zero_rad :: vec
  dp_encoder_sign :: vec
  dp_coupling :: coupling

definition new_drive_pair ::
  "string \<Rightarrow> string list \<Rightarrow> string list \<Rightarrow> vec \<Rightarrow> vec \<Rightarrow> coupling \<Rightarrow> drive_pair result" where
  "new_drive_pair name joints motors zeros signs c =
     (case map_of DIFFERENTIAL_PAIRS name of None \<Rightarrow> Inl (ValueError ''unknown differential pair'')
      | Some expected \<Rightarrow>
          if joints \<noteq> expected
          then Inl (ValueError ''differential joint order must match the hardware contract'')
          else if length motors \<noteq> 2 \<or> \<not> distinct motors
          then Inl (ValueError ''differential motor_names must contain two unique labels'')
          else if \<not> finite_vector 2 zeros
          then Inl (ValueError ''differential drive_zero_rad must be a finite two-vector'')
          else if length signs \<noteq> 2 \<or> \<not> list_all (\<lambda>x. x = Fin 1 \<or> x = Fin (- 1)) signs
          then Inl (ValueError ''differential encoder_sign must be a two-vector of -1 or 1'')
          else Inr \<lparr>dp_name = name, dp_joint_names = joints, dp_motor_names = motors,
            dp_drive_zero_rad = zeros, dp_encoder_sign = signs, dp_coupling = c\<rparr>)"

definition pair_to_drive_position :: "numpy \<Rightarrow> drive_pair \<Rightarrow> vec \<Rightarrow> vec result" where
  "pair_to_drive_position np p joint = rbind (joint_to_motor_position np (dp_coupling p) joint) (\<lambda>canonical.
     Inr (np_add np (dp_drive_zero_rad p) (np_multiply np (dp_encoder_sign p) canonical)))"

definition drive_to_pair_position :: "numpy \<Rightarrow> drive_pair \<Rightarrow> vec \<Rightarrow> vec result" where
  "drive_to_pair_position np p drive = motor_to_joint_position np (dp_coupling p)
     (np_multiply np (dp_encoder_sign p) (np_subtract np drive (dp_drive_zero_rad p)))"

definition pair_to_drive_velocity :: "numpy \<Rightarrow> drive_pair \<Rightarrow> vec \<Rightarrow> vec result" where
  "pair_to_drive_velocity np p joint = rbind (joint_to_motor_velocity np (dp_coupling p) joint) (\<lambda>v.
     Inr (np_multiply np (dp_encoder_sign p) v))"

definition drive_to_pair_velocity :: "numpy \<Rightarrow> drive_pair \<Rightarrow> vec \<Rightarrow> vec result" where
  "drive_to_pair_velocity np p drive = motor_to_joint_velocity np (dp_coupling p)
     (np_multiply np (dp_encoder_sign p) drive)"

definition pair_to_drive_torque :: "numpy \<Rightarrow> drive_pair \<Rightarrow> vec \<Rightarrow> vec result" where
  "pair_to_drive_torque np p joint = rbind (joint_to_motor_torque np (dp_coupling p) joint) (\<lambda>t.
     Inr (np_multiply np (dp_encoder_sign p) t))"

definition drive_to_pair_torque :: "numpy \<Rightarrow> drive_pair \<Rightarrow> vec \<Rightarrow> vec result" where
  "drive_to_pair_torque np p drive = motor_to_joint_torque np (dp_coupling p)
     (np_multiply np (dp_encoder_sign p) drive)"

definition joint_to_drive_matrix :: "numpy \<Rightarrow> drive_pair \<Rightarrow> mat" where
  "joint_to_drive_matrix np p = np_matmul np (np_diag np (dp_encoder_sign p)) (cp_matrix (dp_coupling p))"

end
