(* ===== verification/PairGate.thy ===== *)
theory PairGate
  imports GroupCore Coupling
begin

text \<open>
  The fail-closed first-powered gates of one differential pair (\<open>ankle_pair_commissioning.py\<close>): the
  ankle at zero torque, an ankle or the head held by host PD torque, and the pitch direction test.
  Every command has zero embedded gains; the torque comes from the host and is bounded. The runs
  share their preparation, pace and shutdown with the group holds.
\<close>

section \<open>The frozen pairs\<close>

definition ANKLE_GROUPS :: "(string, identity list) dict" where
  "ANKLE_GROUPS =
     [(''left'', [(''left_ankle_motor_a'', ''kcan1'', 5, 0x15), (''left_ankle_motor_b'', ''kcan1'', 6, 0x16)]),
      (''right'', [(''right_ankle_motor_a'', ''kcan2'', 5, 0x15), (''right_ankle_motor_b'', ''kcan2'', 6, 0x16)])]"

definition HEAD_GROUP :: "identity list" where
  "HEAD_GROUP = [(''head_motor_a'', ''kcan2'', 7, 0x17), (''head_motor_b'', ''kcan2'', 8, 0x18)]"

section \<open>Local variables\<close>

text \<open>\<open>initial\<close> is called \<open>initial_motor\<close> in the gates with a torque.\<close>

record pair_vars = group_core +
  pv_initial :: "pyfloat by_name"

record zero_vars = pair_vars +
  zv_initial_joint :: "pyfloat by_name"
  zv_max_drift :: "pyfloat by_name"
  zv_max_velocity :: "pyfloat by_name"
  zv_max_torque :: "pyfloat by_name"

record torque_vars = pair_vars +
  tv_max_joint_velocity :: "pyfloat by_name"
  tv_max_joint_torque :: "pyfloat by_name"
  tv_max_motor_command :: "pyfloat by_name"
  tv_max_motor_estimated :: "pyfloat by_name"

record pd_vars = torque_vars +
  dv_target_joint :: "pyfloat by_name"
  dv_max_joint_error :: "pyfloat by_name"

record pitch_vars = torque_vars +
  cv_initial_joint :: "pyfloat by_name"
  cv_final_joint :: "pyfloat by_name"
  cv_max_positive :: pyfloat
  cv_min_negative :: pyfloat

section \<open>What the gates share\<close>

definition pair_checks ::
  "string \<Rightarrow> string \<Rightarrow> identity list \<Rightarrow> motor_group_writer \<Rightarrow> feedback_endpoint list \<Rightarrow> drive_pair \<Rightarrow> frange by_name
     \<Rightarrow> unit result" where
  "pair_checks mismatch coverage expected w es pair soft = (let names = map ep_motor_name es in
     if map endpoint_identity es \<noteq> expected \<or> dp_motor_names pair \<noteq> map fst expected
     then Inl (ValueError mismatch)
     else if mg_interface w \<noteq> fst (snd (hd expected)) \<or> \<not> same_keys soft names
     then Inl (ValueError coverage)
     else Inr ())"

abbreviation pair_timeout :: pyfloat where
  "pair_timeout \<equiv> rnd (2 / 100)"

text \<open>\<open>low + margin <= x <= high - margin\<close>\<close>

definition inside_margin :: "pyfloat \<Rightarrow> frange \<Rightarrow> pyfloat \<Rightarrow> bool" where
  "inside_margin margin = (\<lambda>(low, high) x. fle (fadd low margin) x \<and> fle x (fsub high margin))"

definition pair_measure ::
  "pyfloat \<Rightarrow> string \<Rightarrow> frange by_name \<Rightarrow> feedback_endpoint \<Rightarrow> ('m pair_vars_scheme, unit) io" where
  "pair_measure margin lacks soft e = (let name = ep_motor_name e in
     io_then (group_echo e (Fin 0)) (io_bind (receive_endpoint e pair_timeout) (\<lambda>fb. steps
         [require_status fb ''disabled'' (name @ '' must start disabled''),
          io_bind (io_lift (lookup_result soft name)) (\<lambda>limits.
            io_when (\<not> inside_margin margin limits (fb_position_rad fb)) (io_raise (RuntimeError (name @ lacks)))),
          io_modify (\<lambda>s. s\<lparr>pv_initial := dict_set (pv_initial s) name (fb_position_rad fb)\<rparr>),
          io_modify (\<lambda>s. s\<lparr>gh_latest := dict_set (gh_latest s) name fb\<rparr>)])))"

text \<open>
  The joint coordinates of the measured positions: two finite values, by joint name.
\<close>

definition reconstruct ::
  "numpy \<Rightarrow> drive_pair \<Rightarrow> string list \<Rightarrow> string \<Rightarrow> pyfloat by_name \<Rightarrow> vec result" where
  "reconstruct np pair names failure initial = rbind (rmap (lookup_result initial) names) (\<lambda>xs.
     rbind (drive_to_pair_position np pair xs) (\<lambda>vs.
       if length vs \<noteq> 2 \<or> \<not> list_all isfinite vs then Inl (RuntimeError failure) else Inr vs))"

definition zip_strict :: "string list \<Rightarrow> vec \<Rightarrow> pyfloat by_name result" where
  "zip_strict names vs = (if length names \<noteq> length vs
     then Inl (ValueError ''zip() arguments have different lengths'') else Inr (dict_of (zip names vs)))"

definition latest_of :: "(feedback \<Rightarrow> pyfloat) \<Rightarrow> string list \<Rightarrow> ('m group_core_scheme, vec) io" where
  "latest_of f names = io_bind (io_get (\<lambda>s. rmap (\<lambda>n. rbind (lookup_result (gh_latest s) n) (\<lambda>fb. Inr (f fb))) names))
     io_lift"

definition counted :: "string \<Rightarrow> 'm group_core_scheme \<Rightarrow> 'm group_core_scheme" where
  "counted name s = s\<lparr>gh_command_count := adjust name Suc (gh_command_count s)\<rparr>"

definition answered :: "string \<Rightarrow> 'm group_core_scheme \<Rightarrow> 'm group_core_scheme" where
  "answered name s = s\<lparr>gh_feedback_count := adjust name Suc (gh_feedback_count s)\<rparr>"

definition latest_is :: "string \<Rightarrow> feedback \<Rightarrow> 'm group_core_scheme \<Rightarrow> 'm group_core_scheme" where
  "latest_is name fb s = s\<lparr>gh_latest := dict_set (gh_latest s) name fb\<rparr>"

definition guard :: "bool \<Rightarrow> string \<Rightarrow> ('s, unit) io" where
  "guard trips message = io_when trips (io_raise (RuntimeError message))"

text \<open>\<open>math.floor(duration * rate * 0.95)\<close>\<close>

definition ffloor :: "pyfloat \<Rightarrow> int result" where
  "ffloor = to_int_by floor"

definition minimum_count :: "pyfloat \<Rightarrow> pyfloat \<Rightarrow> int result" where
  "minimum_count duration rate = ffloor (fmul (fmul duration rate) (rnd (95 / 100)))"

definition counts_passed :: "int \<Rightarrow> nat by_name \<Rightarrow> nat by_name \<Rightarrow> int by_name \<Rightarrow> int by_name \<Rightarrow> string option by_name \<Rightarrow> bool" where
  "counts_passed minimum commands feedbacks enables disables status \<longleftrightarrow>
     list_all (\<lambda>(_, v). minimum \<le> int v) commands \<and> list_all (\<lambda>(_, v). minimum \<le> int v) feedbacks \<and>
     list_all (\<lambda>(_, v). v = 1) enables \<and> list_all (\<lambda>(_, v). 3 \<le> v) disables \<and>
     list_all (\<lambda>(_, v). v = Some ''disabled'') status"

definition zeros_for :: "string list \<Rightarrow> pyfloat by_name" where
  "zeros_for names = dict_of (map (\<lambda>n. (n, Fin 0)) names)"

section \<open>The zero-torque gate\<close>

definition zero_answer :: "feedback_endpoint \<Rightarrow> (zero_vars, unit) io" where
  "zero_answer e = (let name = ep_motor_name e in
     io_bind (receive_endpoint e pair_timeout) (\<lambda>fb. let velocity = fabs (fb_velocity_rad_s fb);
         torque = fabs (fb_estimated_output_torque_nm fb) in
     io_then (io_modify (answered name))
     (io_then (require_status fb ''enabled'' (name @ '' status must be enabled''))
     (io_bind (io_get (\<lambda>s. lookup_result (pv_initial s) name)) (\<lambda>r. io_bind (io_lift r) (\<lambda>x.
       let drift = fabs (fsub (fb_position_rad fb) x) in steps
       [io_modify (\<lambda>s. s\<lparr>zv_max_drift := adjust name (\<lambda>m. fmax m drift) (zv_max_drift s),
          zv_max_velocity := adjust name (\<lambda>m. fmax m velocity) (zv_max_velocity s),
          zv_max_torque := adjust name (\<lambda>m. fmax m torque) (zv_max_torque s)\<rparr>),
        guard (flt (rnd (5 / 100)) drift) (name @ '' position-drift guard tripped''),
        guard (flt (rnd (2 / 10)) velocity) (name @ '' velocity guard tripped''),
        guard (flt (rnd (1 / 10)) torque) (name @ '' torque guard tripped''),
        io_modify (latest_is name fb)]))))))"

definition zero_command :: "feedback_endpoint \<Rightarrow> (zero_vars, unit) io" where
  "zero_command e = (let name = ep_motor_name e in
     io_bind (io_get (\<lambda>s. lookup_result (gh_latest s) name)) (\<lambda>r. io_bind (io_lift r) (\<lambda>latest. steps
       [group_echo e (fb_position_rad latest), io_modify (counted name), zero_answer e])))"

definition zero_body ::
  "numpy \<Rightarrow> drive_pair \<Rightarrow> frange by_name \<Rightarrow> feedback_endpoint list \<Rightarrow> pyfloat \<Rightarrow> (zero_vars, unit) io" where
  "zero_body np pair soft es period = steps
     [io_for (pair_measure (rnd (5 / 100)) '' lacks soft-limit margin'' soft) es,
      io_bind (io_get (\<lambda>s. rbind (reconstruct np pair (map ep_motor_name es)
          ''ankle differential reconstruction is not finite'' (pv_initial s)) (zip_strict (dp_joint_names pair))))
        (\<lambda>r. io_bind (io_lift r) (\<lambda>joints. io_modify (\<lambda>s. s\<lparr>zv_initial_joint := joints\<rparr>))),
      powered_run pair_timeout pv_initial es (Fin 2) (\<lambda>_. io_for zero_command es) period]"

record zero_torque_report =
  zr_side :: string
  zr_interface :: string
  zr_motor_names :: "string list"
  zr_initial_motor :: "pyfloat by_name"
  zr_initial_joint :: "pyfloat by_name"
  zr_duration_s :: pyfloat
  zr_rate_hz_per_motor :: pyfloat
  zr_command_count :: "nat by_name"
  zr_feedback_count :: "nat by_name"
  zr_enable_attempts :: "int by_name"
  zr_disable_attempts :: "int by_name"
  zr_max_drift :: "pyfloat by_name"
  zr_max_velocity :: "pyfloat by_name"
  zr_max_torque :: "pyfloat by_name"
  zr_final_status :: "string option by_name"
  zr_gate_errors :: "string list"

definition zero_torque_passed :: "zero_torque_report \<Rightarrow> bool result" where
  "zero_torque_passed r = rbind (minimum_count (zr_duration_s r) (zr_rate_hz_per_motor r)) (\<lambda>minimum.
     Inr (zr_gate_errors r = [] \<and> counts_passed minimum (zr_command_count r) (zr_feedback_count r)
       (zr_enable_attempts r) (zr_disable_attempts r) (zr_final_status r)))"

definition zero_start :: "motor_group_writer world \<Rightarrow> string list \<Rightarrow> zero_vars" where
  "zero_start w names =
     \<lparr>wd_writer = wd_writer w, wd_clock = wd_clock w, wd_rx = wd_rx w, wd_tx = wd_tx w,
      wd_sleeps = wd_sleeps w, gh_errors = [], gh_latest = [],
      gh_command_count = dict_of (map (\<lambda>n. (n, 0)) names), gh_feedback_count = dict_of (map (\<lambda>n. (n, 0)) names),
      gh_final_status = dict_of (map (\<lambda>n. (n, None)) names), pv_initial = [], zv_initial_joint = [],
      zv_max_drift = zeros_for names, zv_max_velocity = zeros_for names, zv_max_torque = zeros_for names\<rparr>"

definition zero_report_of :: "string \<Rightarrow> string \<Rightarrow> feedback_endpoint list \<Rightarrow> zero_vars \<Rightarrow> zero_torque_report" where
  "zero_report_of side interface es s = \<lparr>zr_side = side, zr_interface = interface,
     zr_motor_names = map ep_motor_name es, zr_initial_motor = pv_initial s, zr_initial_joint = zv_initial_joint s,
     zr_duration_s = Fin 2, zr_rate_hz_per_motor = Fin 500, zr_command_count = gh_command_count s,
     zr_feedback_count = gh_feedback_count s, zr_enable_attempts = mg_enable_attempts (wd_writer s),
     zr_disable_attempts = mg_disable_attempts (wd_writer s), zr_max_drift = zv_max_drift s,
     zr_max_velocity = zv_max_velocity s, zr_max_torque = zv_max_torque s,
     zr_final_status = gh_final_status s, zr_gate_errors = gh_errors s\<rparr>"

text \<open>
  A gate: refused by its checks, or run with the guarded shutdown; then the report of a gate that
  returned, or the exception that left it.
\<close>

definition run_gate ::
  "'x result \<Rightarrow> ('x \<Rightarrow> 'm pair_vars_scheme \<Rightarrow> 'r) \<Rightarrow> ('x \<Rightarrow> ('m pair_vars_scheme, unit) io) \<Rightarrow>
     feedback_endpoint list \<Rightarrow> 'm pair_vars_scheme \<Rightarrow> ('r result \<times> 'm pair_vars_scheme) option" where
  "run_gate checks report_of body es start = (case checks of Inl err \<Rightarrow> Some (Inl err, start)
     | Inr x \<Rightarrow> (case guarded_run pair_timeout pv_initial es (body x) start of None \<Rightarrow> None
         | Some (Inl err, s) \<Rightarrow> Some (Inl err, s) | Some (Inr _, s) \<Rightarrow> Some (Inr (report_of x s), s)))"

definition zero_checks ::
  "string \<Rightarrow> frange by_name \<Rightarrow> motor_group_writer \<Rightarrow> feedback_endpoint list \<Rightarrow> drive_pair
     \<Rightarrow> (identity list \<times> pyfloat) result" where
  "zero_checks side soft w es pair = (case map_of ANKLE_GROUPS side of
       None \<Rightarrow> Inl (ValueError ''ankle side must be left or right'')
     | Some expected \<Rightarrow>
         rbind (pair_checks ''ankle gate does not match the frozen ordered differential pair''
           ''ankle writer or soft-limit coverage mismatch'' expected w es pair soft) (\<lambda>_.
         rbind (fdiv (Fin 1) (Fin 500)) (\<lambda>period. Inr (expected, period))))"

definition run_ankle_pair_zero_torque_gate ::
  "numpy \<Rightarrow> feedback_endpoint list \<Rightarrow> drive_pair \<Rightarrow> string \<Rightarrow> frange by_name \<Rightarrow> motor_group_writer world
     \<Rightarrow> (zero_torque_report result \<times> zero_vars) option" where
  "run_ankle_pair_zero_torque_gate np es pair side soft w =
     run_gate (zero_checks side soft (wd_writer w) es pair)
       (\<lambda>(expected, _). zero_report_of side (fst (snd (hd expected))) es)
       (\<lambda>(_, period). zero_body np pair soft es period) es (zero_start w (map ep_motor_name es))"

section \<open>Host torque\<close>

text \<open>
  \<open>dict(zip(pair.joint_names, ...))\<close> and the loop over \<open>enumerate(pair.joint_names)\<close>: the joint
  torques, one after the other; the second component of an item is its index.
\<close>

record torque_limits =
  tl_joint_kp :: pyfloat
  tl_joint_kd :: pyfloat
  tl_joint_torque :: pyfloat
  tl_motor_torque :: pyfloat
  tl_motor_velocity :: pyfloat

definition clamp_torque :: "pyfloat \<Rightarrow> pyfloat \<Rightarrow> pyfloat" where
  "clamp_torque highest torque = fmax (fneg highest) (fmin highest torque)"

definition note_joint :: "string \<Rightarrow> pyfloat \<Rightarrow> pyfloat \<Rightarrow> 'm torque_vars_scheme \<Rightarrow> 'm torque_vars_scheme" where
  "note_joint joint velocity torque s = s\<lparr>
     tv_max_joint_velocity := adjust joint (\<lambda>m. fmax m (fabs velocity)) (tv_max_joint_velocity s),
     tv_max_joint_torque := adjust joint (\<lambda>m. fmax m (fabs torque)) (tv_max_joint_torque s)\<rparr>"

definition indexed :: "string list \<Rightarrow> (string \<times> nat) list" where
  "indexed names = zip names [0..<length names]"

definition motor_torques ::
  "numpy \<Rightarrow> drive_pair \<Rightarrow> torque_limits \<Rightarrow> string \<Rightarrow> vec \<Rightarrow> ('s, vec) io" where
  "motor_torques np pair lims message joint_torque =
     io_bind (io_lift (pair_to_drive_torque np pair joint_torque)) (\<lambda>torques.
       io_then (guard (list_ex (\<lambda>t. flt (tl_motor_torque lims) (fabs t)) torques) message) (io_return torques))"

definition torque_encode ::
  "torque_limits \<Rightarrow> frange by_name \<Rightarrow> feedback_endpoint \<Rightarrow> feedback result \<Rightarrow> pyfloat \<Rightarrow> encoded_command result" where
  "torque_encode lims soft e latest torque =
     rbind (lookup_result soft (ep_motor_name e)) (\<lambda>limits. rbind latest (\<lambda>fb.
     rbind (new_mit_command (fb_position_rad fb) (Fin 0) (Fin 0) (Fin 0) torque) (\<lambda>command.
     rbind (new_mit_state (fb_position_rad fb) (fb_velocity_rad_s fb)) (\<lambda>measured.
     rbind (new_command_envelope limits (tl_motor_velocity lims) (tl_motor_torque lims) (tl_motor_torque lims))
       (encode_damiao_mit_command e command measured)))))"

text \<open>
  One motor of a cycle: the command, its answer and the guards; \<open>drift\<close> is the guard of the PD gate
  on the position, which the direction gate does not have.
\<close>

definition drift_guard :: "pyfloat option \<Rightarrow> string \<Rightarrow> pyfloat \<Rightarrow> ('m pair_vars_scheme, unit) io" where
  "drift_guard drift name position = (case drift of None \<Rightarrow> io_return ()
     | Some highest \<Rightarrow> io_bind (io_get (\<lambda>s. lookup_result (pv_initial s) name)) (\<lambda>r. io_bind (io_lift r) (\<lambda>x.
         guard (flt highest (fabs (fsub position x))) (name @ '' position-drift guard tripped''))))"

definition torque_answer ::
  "torque_limits \<Rightarrow> pyfloat option \<Rightarrow> feedback_endpoint \<Rightarrow> ('m torque_vars_scheme, unit) io" where
  "torque_answer lims drift e = (let name = ep_motor_name e in
     io_bind (receive_endpoint e pair_timeout) (\<lambda>fb. let estimated = fabs (fb_estimated_output_torque_nm fb) in steps
       [io_modify (answered name),
        require_status fb ''enabled'' (name @ '' status must be enabled''),
        drift_guard drift name (fb_position_rad fb),
        guard (flt (tl_motor_velocity lims) (fabs (fb_velocity_rad_s fb))) (name @ '' velocity guard tripped''),
        io_modify (\<lambda>s. s\<lparr>tv_max_motor_estimated :=
          adjust name (\<lambda>m. fmax m estimated) (tv_max_motor_estimated s)\<rparr>),
        guard (flt (tl_motor_torque lims) estimated) (name @ '' estimated-torque guard tripped''),
        io_modify (latest_is name fb)]))"

definition torque_command ::
  "torque_limits \<Rightarrow> frange by_name \<Rightarrow> pyfloat option \<Rightarrow> vec \<Rightarrow> feedback_endpoint \<times> nat
     \<Rightarrow> ('m torque_vars_scheme, unit) io" where
  "torque_command lims soft drift torques = (\<lambda>(e, i). let name = ep_motor_name e in
     io_bind (io_lift (vec_at torques i)) (\<lambda>torque.
     io_bind (io_get (\<lambda>s. torque_encode lims soft e (lookup_result (gh_latest s) name) torque)) (\<lambda>r.
     io_bind (io_lift r) (\<lambda>command. steps
       [io_call mg_call (GCommand command),
        io_modify (counted name),
        io_modify (\<lambda>s. s\<lparr>tv_max_motor_command := adjust name (\<lambda>m. fmax m (fabs torque)) (tv_max_motor_command s)\<rparr>),
        torque_answer lims drift e]))))"

text \<open>The joint position and velocity of the latest feedback of both motors.\<close>

definition joint_state ::
  "numpy \<Rightarrow> drive_pair \<Rightarrow> string list \<Rightarrow> ('m group_core_scheme, vec \<times> vec) io" where
  "joint_state np pair names =
     io_bind (latest_of fb_position_rad names) (\<lambda>motor_position.
     io_bind (latest_of fb_velocity_rad_s names) (\<lambda>motor_velocity.
     io_bind (io_lift (drive_to_pair_position np pair motor_position)) (\<lambda>joint_position.
     io_bind (io_lift (drive_to_pair_velocity np pair motor_velocity)) (\<lambda>joint_velocity.
       io_return (joint_position, joint_velocity)))))"

section \<open>The joint PD gate\<close>

record pd_plan =
  pl_mechanism :: string
  pl_expected :: "identity list"
  pl_soft :: "frange by_name"
  pl_limits :: torque_limits
  pl_position_drift :: pyfloat
  pl_position_error :: pyfloat

definition pd_joint ::
  "pd_plan \<Rightarrow> vec \<Rightarrow> vec \<Rightarrow> string \<times> nat \<Rightarrow> (pd_vars, pyfloat) io" where
  "pd_joint p joint_position joint_velocity = (\<lambda>(joint, i). let lims = pl_limits p in
     io_bind (io_get (\<lambda>s. lookup_result (dv_target_joint s) joint)) (\<lambda>r. io_bind (io_lift r) (\<lambda>target.
     io_bind (io_lift (vec_at joint_position i)) (\<lambda>position.
     io_bind (io_lift (vec_at joint_velocity i)) (\<lambda>velocity.
       let error = fsub target position;
           torque = clamp_torque (tl_joint_torque lims)
             (fsub (fmul (tl_joint_kp lims) error) (fmul (tl_joint_kd lims) velocity)) in
       io_then (io_modify (\<lambda>s. s\<lparr>dv_max_joint_error := adjust joint (\<lambda>m. fmax m (fabs error)) (dv_max_joint_error s)\<rparr>))
       (io_then (io_modify (note_joint joint velocity torque))
       (io_then (guard (flt (pl_position_error p) (fabs error)) (joint @ '' position-error guard tripped''))
         (io_return torque))))))))"

definition pd_work ::
  "numpy \<Rightarrow> drive_pair \<Rightarrow> pd_plan \<Rightarrow> feedback_endpoint list \<Rightarrow> (pd_vars, unit) io" where
  "pd_work np pair p es =
     io_bind (joint_state np pair (map ep_motor_name es)) (\<lambda>(joint_position, joint_velocity).
     io_bind (io_map (pd_joint p joint_position joint_velocity) (indexed (dp_joint_names pair))) (\<lambda>joint_torque.
     io_bind (motor_torques np pair (pl_limits p) (''mapped '' @ pl_mechanism p @ '' motor torque guard tripped'')
       joint_torque) (\<lambda>torques.
     io_for (torque_command (pl_limits p) (pl_soft p) (Some (pl_position_drift p)) torques)
       (zip es [0..<length es]))))"

definition pd_body ::
  "numpy \<Rightarrow> drive_pair \<Rightarrow> pd_plan \<Rightarrow> feedback_endpoint list \<Rightarrow> pyfloat \<Rightarrow> (pd_vars, unit) io" where
  "pd_body np pair p es period = steps
     [io_for (pair_measure (rnd (5 / 100)) '' lacks soft-limit margin'' (pl_soft p)) es,
      io_bind (io_get (\<lambda>s. rbind (reconstruct np pair (map ep_motor_name es)
          (pl_mechanism p @ '' differential reconstruction is not finite'') (pv_initial s))
          (zip_strict (dp_joint_names pair))))
        (\<lambda>r. io_bind (io_lift r) (\<lambda>joints. io_modify (\<lambda>s. s\<lparr>dv_target_joint := joints\<rparr>))),
      powered_run pair_timeout pv_initial es (Fin 2) (\<lambda>_. pd_work np pair p es) period]"

record joint_pd_report =
  jr_side :: string
  jr_interface :: string
  jr_motor_names :: "string list"
  jr_target_joint :: "pyfloat by_name"
  jr_duration_s :: pyfloat
  jr_rate_hz_per_motor :: pyfloat
  jr_joint_kp :: pyfloat
  jr_joint_kd :: pyfloat
  jr_maximum_joint_torque :: pyfloat
  jr_command_count :: "nat by_name"
  jr_feedback_count :: "nat by_name"
  jr_enable_attempts :: "int by_name"
  jr_disable_attempts :: "int by_name"
  jr_max_joint_error :: "pyfloat by_name"
  jr_max_joint_velocity :: "pyfloat by_name"
  jr_max_joint_torque :: "pyfloat by_name"
  jr_max_motor_command :: "pyfloat by_name"
  jr_max_motor_estimated :: "pyfloat by_name"
  jr_final_status :: "string option by_name"
  jr_gate_errors :: "string list"

definition joint_pd_passed :: "joint_pd_report \<Rightarrow> bool result" where
  "joint_pd_passed r = rbind (minimum_count (jr_duration_s r) (jr_rate_hz_per_motor r)) (\<lambda>minimum.
     Inr (jr_gate_errors r = [] \<and> counts_passed minimum (jr_command_count r) (jr_feedback_count r)
       (jr_enable_attempts r) (jr_disable_attempts r) (jr_final_status r)))"

definition pd_start :: "motor_group_writer world \<Rightarrow> string list \<Rightarrow> string list \<Rightarrow> pd_vars" where
  "pd_start w names joints =
     \<lparr>wd_writer = wd_writer w, wd_clock = wd_clock w, wd_rx = wd_rx w, wd_tx = wd_tx w,
      wd_sleeps = wd_sleeps w, gh_errors = [], gh_latest = [],
      gh_command_count = dict_of (map (\<lambda>n. (n, 0)) names), gh_feedback_count = dict_of (map (\<lambda>n. (n, 0)) names),
      gh_final_status = dict_of (map (\<lambda>n. (n, None)) names), pv_initial = [],
      tv_max_joint_velocity = zeros_for joints, tv_max_joint_torque = zeros_for joints,
      tv_max_motor_command = zeros_for names, tv_max_motor_estimated = zeros_for names,
      dv_target_joint = [], dv_max_joint_error = zeros_for joints\<rparr>"

definition pd_report_of :: "pd_plan \<Rightarrow> feedback_endpoint list \<Rightarrow> pd_vars \<Rightarrow> joint_pd_report" where
  "pd_report_of p es s = \<lparr>jr_side = pl_mechanism p, jr_interface = fst (snd (hd (pl_expected p))),
     jr_motor_names = map ep_motor_name es, jr_target_joint = dv_target_joint s,
     jr_duration_s = Fin 2, jr_rate_hz_per_motor = Fin 500, jr_joint_kp = tl_joint_kp (pl_limits p),
     jr_joint_kd = tl_joint_kd (pl_limits p), jr_maximum_joint_torque = tl_joint_torque (pl_limits p),
     jr_command_count = gh_command_count s, jr_feedback_count = gh_feedback_count s,
     jr_enable_attempts = mg_enable_attempts (wd_writer s), jr_disable_attempts = mg_disable_attempts (wd_writer s),
     jr_max_joint_error = dv_max_joint_error s, jr_max_joint_velocity = tv_max_joint_velocity s,
     jr_max_joint_torque = tv_max_joint_torque s, jr_max_motor_command = tv_max_motor_command s,
     jr_max_motor_estimated = tv_max_motor_estimated s, jr_final_status = gh_final_status s,
     jr_gate_errors = gh_errors s\<rparr>"

definition pd_checks ::
  "pd_plan \<Rightarrow> motor_group_writer \<Rightarrow> feedback_endpoint list \<Rightarrow> drive_pair \<Rightarrow> pyfloat result" where
  "pd_checks p w es pair =
     rbind (pair_checks (pl_mechanism p @ '' PD gate does not match the frozen ordered differential pair'')
       (pl_mechanism p @ '' writer or soft-limit coverage mismatch'') (pl_expected p) w es pair (pl_soft p)) (\<lambda>_.
     rbind (fdiv (Fin 1) (Fin 500)) (\<lambda>period. let lims = pl_limits p in
       if \<not> list_all (\<lambda>v. isfinite v \<and> flt (Fin 0) v)
         [tl_joint_kp lims, tl_joint_kd lims, tl_joint_torque lims, tl_motor_torque lims, tl_motor_velocity lims,
          pl_position_drift p, pl_position_error p]
       then Inl (ValueError (pl_mechanism p @ '' PD limits must be finite and positive''))
       else Inr period))"

definition run_differential_pair_joint_pd_gate ::
  "numpy \<Rightarrow> feedback_endpoint list \<Rightarrow> drive_pair \<Rightarrow> pd_plan \<Rightarrow> motor_group_writer world
     \<Rightarrow> (joint_pd_report result \<times> pd_vars) option" where
  "run_differential_pair_joint_pd_gate np es pair p w =
     run_gate (pd_checks p (wd_writer w) es pair) (\<lambda>_. pd_report_of p es) (pd_body np pair p es) es
       (pd_start w (map ep_motor_name es) (dp_joint_names pair))"

definition ankle_pd_plan :: "string \<Rightarrow> identity list \<Rightarrow> frange by_name \<Rightarrow> pd_plan" where
  "ankle_pd_plan side expected soft = \<lparr>pl_mechanism = side, pl_expected = expected, pl_soft = soft,
     pl_limits = \<lparr>tl_joint_kp = Fin (1 / 2), tl_joint_kd = rnd (5 / 100), tl_joint_torque = rnd (15 / 100),
       tl_motor_torque = Fin (1 / 4), tl_motor_velocity = rnd (3 / 10)\<rparr>,
     pl_position_drift = rnd (8 / 100), pl_position_error = rnd (8 / 100)\<rparr>"

definition head_pd_plan :: "frange by_name \<Rightarrow> pd_plan" where
  "head_pd_plan soft = \<lparr>pl_mechanism = ''head'', pl_expected = HEAD_GROUP, pl_soft = soft,
     pl_limits = \<lparr>tl_joint_kp = rnd (2 / 10), tl_joint_kd = rnd (3 / 100), tl_joint_torque = rnd (5 / 100),
       tl_motor_torque = rnd (1 / 10), tl_motor_velocity = rnd (2 / 10)\<rparr>,
     pl_position_drift = rnd (5 / 100), pl_position_error = rnd (5 / 100)\<rparr>"

definition run_ankle_pair_joint_pd_gate ::
  "numpy \<Rightarrow> feedback_endpoint list \<Rightarrow> drive_pair \<Rightarrow> string \<Rightarrow> frange by_name \<Rightarrow> motor_group_writer world
     \<Rightarrow> (joint_pd_report result \<times> pd_vars) option" where
  "run_ankle_pair_joint_pd_gate np es pair side soft w = (case map_of ANKLE_GROUPS side of
       None \<Rightarrow> Some (Inl (ValueError ''ankle side must be left or right''),
         pd_start w (map ep_motor_name es) (dp_joint_names pair))
     | Some expected \<Rightarrow> run_differential_pair_joint_pd_gate np es pair (ankle_pd_plan side expected soft) w)"

definition run_head_pair_joint_pd_gate ::
  "numpy \<Rightarrow> feedback_endpoint list \<Rightarrow> drive_pair \<Rightarrow> frange by_name \<Rightarrow> motor_group_writer world
     \<Rightarrow> (joint_pd_report result \<times> pd_vars) option" where
  "run_head_pair_joint_pd_gate np es pair soft = run_differential_pair_joint_pd_gate np es pair (head_pd_plan soft)"

end
