(* ===== verification/PitchGate.thy ===== *)
theory PitchGate
  imports PairGate
begin

text \<open>
  The pitch direction gate of one unloaded ankle (\<open>run_ankle_pitch_direction_gate\<close> of
  \<open>ankle_pair_commissioning.py\<close>): the pitch is driven a small excursion to both sides, or slowly to the
  negative one, and the measured response has to have the commanded direction.
\<close>

section \<open>Excitation tiers\<close>

record tier =
  ti_duration_s :: pyfloat
  ti_directions :: "string list"
  ti_limits :: torque_limits

definition excitation_tiers :: "(string, tier) dict" where
  "excitation_tiers =
     [(''low'', \<lparr>ti_duration_s = Fin (9 / 2), ti_directions = [''positive'', ''negative''],
        ti_limits = \<lparr>tl_joint_kp = Fin 4, tl_joint_kd = rnd (5 / 100), tl_joint_torque = rnd (15 / 100),
          tl_motor_torque = Fin (1 / 4), tl_motor_velocity = rnd (30 / 100)\<rparr>\<rparr>),
      (''observable'', \<lparr>ti_duration_s = Fin (9 / 2), ti_directions = [''positive'', ''negative''],
        ti_limits = \<lparr>tl_joint_kp = Fin 16, tl_joint_kd = rnd (10 / 100), tl_joint_torque = Fin (1 / 2),
          tl_motor_torque = rnd (30 / 100), tl_motor_velocity = rnd (40 / 100)\<rparr>\<rparr>),
      (''negative-slow'', \<lparr>ti_duration_s = Fin 5, ti_directions = [''negative''],
        ti_limits = \<lparr>tl_joint_kp = Fin 16, tl_joint_kd = rnd (10 / 100), tl_joint_torque = Fin (1 / 2),
          tl_motor_torque = rnd (30 / 100), tl_motor_velocity = rnd (80 / 100)\<rparr>\<rparr>)]"

abbreviation excursion :: pyfloat where
  "excursion \<equiv> rnd (3 / 100)"

abbreviation minimum_response :: pyfloat where
  "minimum_response \<equiv> rnd (2 / 1000)"

abbreviation maximum_displacement :: pyfloat where
  "maximum_displacement \<equiv> rnd (8 / 100)"

text \<open>The first phase whose end is later than \<open>elapsed\<close>; after the last one the scale is zero.\<close>

fun by_phase :: "pyfloat \<Rightarrow> (pyfloat \<times> pyfloat result) list \<Rightarrow> pyfloat result" where
  "by_phase elapsed [] = Inr (Fin 0)"
| "by_phase elapsed ((limit, value) # phases) = (if flt elapsed limit then value else by_phase elapsed phases)"

definition pitch_scale :: "string \<Rightarrow> pyfloat \<Rightarrow> pyfloat result" where
  "pitch_scale tier elapsed =
     (let ramp = (\<lambda>begins lasts. fdiv (fsub elapsed begins) lasts);
          back = (\<lambda>begins lasts. fdiv (fneg (fsub elapsed begins)) lasts) in
      if tier = ''negative-slow'' then by_phase elapsed
        [(Fin (1 / 2), Inr (Fin 0)),
         (Fin 2, back (Fin (1 / 2)) (Fin (3 / 2))),
         (Fin 3, Inr (Fin (- 1))),
         (Fin (9 / 2), rbind (ramp (Fin 3) (Fin (3 / 2))) (\<lambda>x. Inr (fadd (Fin (- 1)) x)))]
      else by_phase elapsed
        [(Fin (1 / 2), Inr (Fin 0)),
         (Fin 1, ramp (Fin (1 / 2)) (Fin (1 / 2))),
         (Fin (3 / 2), Inr (Fin 1)),
         (Fin 2, rbind (ramp (Fin (3 / 2)) (Fin (1 / 2))) (\<lambda>x. Inr (fsub (Fin 1) x))),
         (Fin (5 / 2), Inr (Fin 0)),
         (Fin 3, back (Fin (5 / 2)) (Fin (1 / 2))),
         (Fin (7 / 2), Inr (Fin (- 1))),
         (Fin 4, rbind (ramp (Fin (7 / 2)) (Fin (1 / 2))) (\<lambda>x. Inr (fadd (Fin (- 1)) x)))])"

section \<open>The start of the test\<close>

text \<open>Both targets of the excursion have to keep a margin to the soft limits of both motors.\<close>

definition target_margins ::
  "frange by_name \<Rightarrow> vec \<Rightarrow> (string \<times> nat) list \<Rightarrow> unit result" where
  "target_margins soft target items = rbind (rmap (\<lambda>(name, i).
     rbind (lookup_result soft name) (\<lambda>limits. rbind (vec_at target i) (\<lambda>x.
       if \<not> inside_margin (rnd (5 / 100)) limits x
       then Inl (RuntimeError (name @ '' target lacks soft-limit margin'')) else Inr ()))) items) (\<lambda>_. Inr ())"

definition pitch_targets ::
  "numpy \<Rightarrow> drive_pair \<Rightarrow> frange by_name \<Rightarrow> string list \<Rightarrow> pyfloat \<Rightarrow> pyfloat \<Rightarrow> unit result" where
  "pitch_targets np pair soft names pitch roll = rbind (rmap (\<lambda>sign.
     rbind (pair_to_drive_position np pair [fadd pitch (fmul sign excursion), roll]) (\<lambda>target.
       target_margins soft target (indexed names))) [Fin (- 1), Fin 1]) (\<lambda>_. Inr ())"

definition pitch_initial ::
  "numpy \<Rightarrow> drive_pair \<Rightarrow> string list \<Rightarrow> (pitch_vars, pyfloat \<times> pyfloat) io" where
  "pitch_initial np pair names =
     io_bind (io_get (\<lambda>s. reconstruct np pair names ''ankle direction reconstruction is not finite'' (pv_initial s)))
       (\<lambda>r. io_bind (io_lift r) (\<lambda>joints.
     io_bind (io_lift (zip_strict (dp_joint_names pair) joints)) (\<lambda>named.
     io_then (io_modify (\<lambda>s. s\<lparr>cv_initial_joint := named\<rparr>))
     (io_bind (io_lift (vec_at joints 0)) (\<lambda>pitch. io_bind (io_lift (vec_at joints 1)) (\<lambda>roll.
       io_return (pitch, roll)))))))"

section \<open>One cycle\<close>

definition pitch_joint ::
  "torque_limits \<Rightarrow> vec \<Rightarrow> vec \<Rightarrow> vec \<Rightarrow> string \<times> nat \<Rightarrow> (pitch_vars, pyfloat) io" where
  "pitch_joint lims desired joint_position joint_velocity = (\<lambda>(joint, i).
     io_bind (io_lift (vec_at joint_velocity i)) (\<lambda>velocity.
     io_bind (io_lift (vec_at desired i)) (\<lambda>target.
     io_bind (io_lift (vec_at joint_position i)) (\<lambda>position.
       let torque = clamp_torque (tl_joint_torque lims)
             (fsub (fmul (tl_joint_kp lims) (fsub target position)) (fmul (tl_joint_kd lims) velocity)) in
       io_then (io_modify (note_joint joint velocity torque))
       (io_then (guard (flt (tl_motor_velocity lims) (fabs velocity)) (joint @ '' velocity guard tripped''))
         (io_return torque))))))"

definition pitch_work ::
  "numpy \<Rightarrow> drive_pair \<Rightarrow> string \<Rightarrow> tier \<Rightarrow> frange by_name \<Rightarrow> feedback_endpoint list \<Rightarrow> pyfloat \<Rightarrow> pyfloat
     \<Rightarrow> pyfloat \<Rightarrow> (pitch_vars, unit) io" where
  "pitch_work np pair name t soft es pitch roll elapsed = (let lims = ti_limits t in
     io_bind (joint_state np pair (map ep_motor_name es)) (\<lambda>(joint_position, joint_velocity).
     io_bind (io_lift (vec_at joint_position 0)) (\<lambda>x. let response = fsub x pitch in
     io_then (io_modify (\<lambda>s. s\<lparr>cv_max_positive := fmax (cv_max_positive s) response,
        cv_min_negative := fmin (cv_min_negative s) response\<rparr>))
     (io_then (guard (flt maximum_displacement (fabs response)) ''ankle pitch displacement guard tripped'')
     (io_bind (io_lift (vec_at joint_position 1)) (\<lambda>y.
     io_then (guard (flt maximum_displacement (fabs (fsub y roll))) ''ankle roll displacement guard tripped'')
     (io_bind (io_lift (pitch_scale name elapsed)) (\<lambda>scale.
     io_bind (io_map (pitch_joint lims [fadd pitch (fmul scale excursion), roll] joint_position joint_velocity)
       (indexed (dp_joint_names pair))) (\<lambda>joint_torque.
     io_bind (motor_torques np pair lims ''mapped ankle direction motor torque guard tripped'' joint_torque) (\<lambda>torques.
     io_for (torque_command lims soft None torques) (zip es [0..<length es])))))))))))"

section \<open>The gate\<close>

definition pitch_finish ::
  "numpy \<Rightarrow> drive_pair \<Rightarrow> tier \<Rightarrow> string list \<Rightarrow> (pitch_vars, unit) io" where
  "pitch_finish np pair t names =
     io_bind (latest_of fb_position_rad names) (\<lambda>positions.
     io_bind (io_lift (rbind (drive_to_pair_position np pair positions) (zip_strict (dp_joint_names pair)))) (\<lambda>joints. steps
       [io_modify (\<lambda>s. s\<lparr>cv_final_joint := joints\<rparr>),
        io_modify (\<lambda>s. if ''positive'' \<in> set (ti_directions t) \<and> flt (cv_max_positive s) minimum_response
          then group_errors ''positive pitch command produced no qualified positive response'' s else s),
        io_modify (\<lambda>s. if ''negative'' \<in> set (ti_directions t) \<and> flt (fneg minimum_response) (cv_min_negative s)
          then group_errors ''negative pitch command produced no qualified negative response'' s else s)]))"

definition pitch_body ::
  "numpy \<Rightarrow> drive_pair \<Rightarrow> string \<Rightarrow> tier \<Rightarrow> frange by_name \<Rightarrow> feedback_endpoint list \<Rightarrow> pyfloat
     \<Rightarrow> (pitch_vars, unit) io" where
  "pitch_body np pair name t soft es period = (let names = map ep_motor_name es in
     io_then (io_for (pair_measure (rnd (10 / 100)) '' lacks direction-test margin'' soft) es)
     (io_bind (pitch_initial np pair names) (\<lambda>(pitch, roll).
     io_then (io_lift (pitch_targets np pair soft names pitch roll))
     (io_then (powered_run pair_timeout pv_initial es (ti_duration_s t)
        (pitch_work np pair name t soft es pitch roll) period)
       (pitch_finish np pair t names)))))"

record pitch_report =
  qr_side :: string
  qr_interface :: string
  qr_motor_names :: "string list"
  qr_initial_joint :: "pyfloat by_name"
  qr_final_joint :: "pyfloat by_name"
  qr_requested_excursion :: pyfloat
  qr_required_directions :: "string list"
  qr_max_positive :: pyfloat
  qr_min_negative :: pyfloat
  qr_minimum_response :: pyfloat
  qr_duration_s :: pyfloat
  qr_rate_hz_per_motor :: pyfloat
  qr_joint_kp :: pyfloat
  qr_joint_kd :: pyfloat
  qr_maximum_joint_torque :: pyfloat
  qr_command_count :: "nat by_name"
  qr_feedback_count :: "nat by_name"
  qr_enable_attempts :: "int by_name"
  qr_disable_attempts :: "int by_name"
  qr_max_joint_velocity :: "pyfloat by_name"
  qr_max_joint_torque :: "pyfloat by_name"
  qr_max_motor_command :: "pyfloat by_name"
  qr_max_motor_estimated :: "pyfloat by_name"
  qr_final_status :: "string option by_name"
  qr_gate_errors :: "string list"

definition pitch_passed :: "pitch_report \<Rightarrow> bool result" where
  "pitch_passed r = rbind (minimum_count (qr_duration_s r) (qr_rate_hz_per_motor r)) (\<lambda>minimum.
     Inr (qr_gate_errors r = [] \<and>
       (''positive'' \<notin> set (qr_required_directions r) \<or> fle (qr_minimum_response r) (qr_max_positive r)) \<and>
       (''negative'' \<notin> set (qr_required_directions r) \<or> fle (qr_min_negative r) (fneg (qr_minimum_response r))) \<and>
       counts_passed minimum (qr_command_count r) (qr_feedback_count r)
         (qr_enable_attempts r) (qr_disable_attempts r) (qr_final_status r)))"

definition pitch_start :: "motor_group_writer world \<Rightarrow> string list \<Rightarrow> string list \<Rightarrow> pitch_vars" where
  "pitch_start w names joints =
     \<lparr>wd_writer = wd_writer w, wd_clock = wd_clock w, wd_rx = wd_rx w, wd_tx = wd_tx w,
      wd_sleeps = wd_sleeps w, gh_errors = [], gh_latest = [],
      gh_command_count = dict_of (map (\<lambda>n. (n, 0)) names), gh_feedback_count = dict_of (map (\<lambda>n. (n, 0)) names),
      gh_final_status = dict_of (map (\<lambda>n. (n, None)) names), pv_initial = [],
      tv_max_joint_velocity = zeros_for joints, tv_max_joint_torque = zeros_for joints,
      tv_max_motor_command = zeros_for names, tv_max_motor_estimated = zeros_for names,
      cv_initial_joint = [], cv_final_joint = [], cv_max_positive = Fin 0, cv_min_negative = Fin 0\<rparr>"

definition pitch_report_of ::
  "string \<Rightarrow> string \<Rightarrow> tier \<Rightarrow> feedback_endpoint list \<Rightarrow> pitch_vars \<Rightarrow> pitch_report" where
  "pitch_report_of side interface t es s = \<lparr>qr_side = side, qr_interface = interface,
     qr_motor_names = map ep_motor_name es, qr_initial_joint = cv_initial_joint s,
     qr_final_joint = cv_final_joint s, qr_requested_excursion = excursion,
     qr_required_directions = ti_directions t, qr_max_positive = cv_max_positive s,
     qr_min_negative = cv_min_negative s, qr_minimum_response = minimum_response,
     qr_duration_s = ti_duration_s t, qr_rate_hz_per_motor = Fin 500,
     qr_joint_kp = tl_joint_kp (ti_limits t), qr_joint_kd = tl_joint_kd (ti_limits t),
     qr_maximum_joint_torque = tl_joint_torque (ti_limits t), qr_command_count = gh_command_count s,
     qr_feedback_count = gh_feedback_count s, qr_enable_attempts = mg_enable_attempts (wd_writer s),
     qr_disable_attempts = mg_disable_attempts (wd_writer s), qr_max_joint_velocity = tv_max_joint_velocity s,
     qr_max_joint_torque = tv_max_joint_torque s, qr_max_motor_command = tv_max_motor_command s,
     qr_max_motor_estimated = tv_max_motor_estimated s, qr_final_status = gh_final_status s,
     qr_gate_errors = gh_errors s\<rparr>"

definition pitch_checks ::
  "string \<Rightarrow> string \<Rightarrow> frange by_name \<Rightarrow> motor_group_writer \<Rightarrow> feedback_endpoint list \<Rightarrow> drive_pair
     \<Rightarrow> (identity list \<times> pyfloat \<times> tier) result" where
  "pitch_checks side name soft w es pair = (case map_of ANKLE_GROUPS side of
       None \<Rightarrow> Inl (ValueError ''ankle side must be left or right'')
     | Some expected \<Rightarrow>
         rbind (pair_checks ''ankle direction gate does not match the frozen ordered pair''
           ''ankle direction writer or soft-limit coverage mismatch'' expected w es pair soft) (\<lambda>_.
         rbind (fdiv (Fin 1) (Fin 500)) (\<lambda>period. case map_of excitation_tiers name of
             None \<Rightarrow> Inl (ValueError ''unknown ankle pitch-direction excitation tier'')
           | Some t \<Rightarrow> Inr (expected, period, t))))"

definition run_ankle_pitch_direction_gate ::
  "numpy \<Rightarrow> feedback_endpoint list \<Rightarrow> drive_pair \<Rightarrow> string \<Rightarrow> frange by_name \<Rightarrow> string \<Rightarrow> motor_group_writer world
     \<Rightarrow> (pitch_report result \<times> pitch_vars) option" where
  "run_ankle_pitch_direction_gate np es pair side soft name w =
     run_gate (pitch_checks side name soft (wd_writer w) es pair)
       (\<lambda>(expected, _, t). pitch_report_of side (fst (snd (hd expected))) t es)
       (\<lambda>(_, period, t). pitch_body np pair name t soft es period) es
       (pitch_start w (map ep_motor_name es) (dp_joint_names pair))"

end
