(* ===== verification/PairSafety.thy ===== *)
theory PairSafety
  imports PitchGate GroupWire
begin

text \<open>
  The frames of the gates of a differential pair. Every frame that is not an enable or a disable has
  zero embedded gains and a host torque within the limit of the gate; until the enable and after the
  first disable the torque is zero.
\<close>

section \<open>The rule of a gate\<close>

text \<open>
  \<open>R\<close> is the torque range of the motor. A frame whose torque field encodes zero is an \<open>Echo\<close>, any other
  frame that is not an enable or a disable a \<open>Command\<close>; both may follow the enable.
\<close>

fun pair_step :: "phase \<Rightarrow> emitted \<Rightarrow> phase option" where
  "pair_step Preparing Echo = Some Preparing"
| "pair_step Preparing Enable = Some Powered"
| "pair_step Powered Echo = Some Powered"
| "pair_step Powered Command = Some Powered"
| "pair_step Disabling Echo = Some Disabling"
| "pair_step p Disable = Some Disabling"
| "pair_step _ _ = None"

definition encodes_torque :: "frange \<Rightarrow> pyfloat \<Rightarrow> bytes \<Rightarrow> bool" where
  "encodes_torque R t d \<longleftrightarrow> float_to_uint_strict ''feedforward_torque_nm'' t R 12 = Inr (mit_torque_raw d)"

definition pair_kind :: "frange \<Rightarrow> bytes \<Rightarrow> emitted" where
  "pair_kind R f = (let d = frame_payload f in
     if d = ENABLE_PAYLOAD then Enable else if d = DISABLE_PAYLOAD then Disable
     else if encodes_torque R (Fin 0) d then Echo else Command)"

definition pair_ok :: "frange \<Rightarrow> pyfloat \<Rightarrow> bytes \<Rightarrow> bool" where
  "pair_ok R limit f = (let d = frame_payload f in d = ENABLE_PAYLOAD \<or> d = DISABLE_PAYLOAD \<or>
     mit_kp_raw d = 0 \<and> mit_kd_raw d = 0 \<and>
     (encodes_torque R (Fin 0) d \<or> (\<exists>t. fle (fabs t) limit \<and> encodes_torque R t d)))"

definition pair_rule :: "frange \<Rightarrow> pyfloat \<Rightarrow> wire_rule" where
  "pair_rule R limit = \<lparr>wr_step = pair_step, wr_kind = pair_kind R, wr_ok = pair_ok R limit,
     wr_own = (\<lambda>e. rng_torque_nm (ep_ranges e) = R)\<rparr>"

definition pair_in_order :: "frange \<Rightarrow> pyfloat \<Rightarrow> bytes list \<Rightarrow> bool" where
  "pair_in_order R limit fs \<longleftrightarrow> runs pair_step Preparing (map (pair_kind R) fs) \<noteq> None \<and>
     count_list (map (pair_kind R) fs) Enable \<le> 1 \<and> list_all (pair_ok R limit) fs"

lemma pair_enable_count:
  "runs pair_step p xs \<noteq> None \<Longrightarrow> count_list xs Enable \<le> (if p = Preparing then 1 else 0)"
proof (induction xs arbitrary: p)
  case (Cons x xs)
  from Cons.prems obtain q where q: "pair_step p x = Some q" "runs pair_step q xs \<noteq> None"
    by (auto split: option.splits)
  from Cons.IH [OF q(2)] q(1) show ?case by (cases p; cases x) (auto split: if_splits)
qed simp

lemma zero_gain_payload:
  assumes "encode_damiao_mit_command e c s env = Inr ec" and "mc_kp c = Fin 0" and "mc_kd c = Fin 0"
  shows "length (ec_data ec) = 8" and "mit_kp_raw (ec_data ec) = 0" and "mit_kd_raw (ec_data ec) = 0"
    and "encodes_torque (rng_torque_nm (ep_ranges e)) (mc_feedforward_torque_nm c) (ec_data ec)"
    and "ec_data ec \<noteq> ENABLE_PAYLOAD" and "ec_data ec \<noteq> DISABLE_PAYLOAD"
proof -
  obtain p v kp kd t where e: "ec = \<lparr>ec_motor_name = ep_motor_name e, ec_interface = ep_interface e,
       ec_can_id = ep_can_id e, ec_data = pack_mit p v kp kd t\<rparr>"
    and f: "float_to_uint_strict ''position_rad'' (mc_position_rad c) (rng_position_rad (ep_ranges e)) 16 = Inr p"
      "float_to_uint_strict ''velocity_rad_s'' (mc_velocity_rad_s c) (rng_velocity_rad_s (ep_ranges e)) 12 = Inr v"
      "float_to_uint_strict ''kp'' (mc_kp c) (Fin 0, Fin 500) 12 = Inr kp"
      "float_to_uint_strict ''kd'' (mc_kd c) (Fin 0, Fin 5) 12 = Inr kd"
      "float_to_uint_strict ''feedforward_torque_nm'' (mc_feedforward_torque_nm c) (rng_torque_nm (ep_ranges e)) 12 = Inr t"
    using assms(1) by (rule encode_spec)
  note b = strict_spec [OF f(1)] strict_spec [OF f(2)] strict_spec [OF f(3)] strict_spec [OF f(4)] strict_spec [OF f(5)]
  have r: "0 \<le> p" "p < 2 ^ 16" "0 \<le> v" "v < 2 ^ 12" "0 \<le> kp" "kp < 2 ^ 12" "0 \<le> kd" "kd < 2 ^ 12"
    "0 \<le> t" "t < 2 ^ 12"
    using b by simp_all
  have "rnd 500 = Fin 500" "rnd 5 = Fin 5" by (simp_all add: float_eval)
  then have "kp = 0" "kd = 0"
    using f(3,4) assms(2,3) strict_zero_low [of 500 "''kp''" 12] strict_zero_low [of 5 "''kd''" 12] by simp_all
  with pack_mit_fields [OF r] f e show l: "length (ec_data ec) = 8" "mit_kp_raw (ec_data ec) = 0"
    "mit_kd_raw (ec_data ec) = 0"
    "encodes_torque (rng_torque_nm (ep_ranges e)) (mc_feedforward_torque_nm c) (ec_data ec)"
    by (simp_all add: encodes_torque_def)
  from l(2) control_raw show "ec_data ec \<noteq> ENABLE_PAYLOAD" "ec_data ec \<noteq> DISABLE_PAYLOAD" by auto
qed

lemma echo_frame_zero:
  assumes "encode_zero_gain_position_echo e x = Inr ec" and "rng_torque_nm (ep_ranges e) = R"
  shows "pair_kind R (wire_frame j (ec_data ec)) = Echo" and "pair_ok R limit (wire_frame j (ec_data ec))"
proof -
  from assms(1) obtain c s env where c: "encode_damiao_mit_command e c s env = Inr ec"
    "mc_kp c = Fin 0" "mc_kd c = Fin 0" "mc_feedforward_torque_nm c = Fin 0"
    by (auto simp: encode_zero_gain_position_echo_def new_mit_command_def rbind_eq_Inr Let_def split: if_splits)
  from zero_gain_payload [OF c(1-3)] c(4) assms(2)
  show "pair_kind R (wire_frame j (ec_data ec)) = Echo" "pair_ok R limit (wire_frame j (ec_data ec))"
    by (simp_all add: pair_kind_def pair_ok_def payload_of_wire_frame Let_def)
qed

interpretation pair_wire: disciplined "pair_rule R limit" for R limit
proof
  have l: "length ENABLE_PAYLOAD = 8" "length DISABLE_PAYLOAD = 8"
    by (simp_all add: ENABLE_PAYLOAD_def DISABLE_PAYLOAD_def)
  have n: "DISABLE_PAYLOAD \<noteq> ENABLE_PAYLOAD" using DISABLE_kind by (auto simp: payload_kind_def)
  show "wr_kind (pair_rule R limit) (wire_frame j ENABLE_PAYLOAD) = Enable"
    "wr_ok (pair_rule R limit) (wire_frame j ENABLE_PAYLOAD)"
    "wr_kind (pair_rule R limit) (wire_frame j DISABLE_PAYLOAD) = Disable"
    "wr_ok (pair_rule R limit) (wire_frame j DISABLE_PAYLOAD)" for j
    using l n by (simp_all add: pair_rule_def pair_kind_def pair_ok_def payload_of_wire_frame Let_def)
  fix e x c j assume "wr_own (pair_rule R limit) e" "encode_zero_gain_position_echo e x = Inr c"
  then show "wr_kind (pair_rule R limit) (wire_frame j (ec_data c)) = Echo \<and>
      wr_ok (pair_rule R limit) (wire_frame j (ec_data c))"
    using echo_frame_zero by (simp add: pair_rule_def)
qed (simp_all add: pair_rule_def)

section \<open>The programs of the gates keep the rule\<close>

lemma keeps_io_map: "(\<And>x. keeps I (f x)) \<Longrightarrow> keeps I (io_map f xs)"
  by (induction xs) (auto intro!: keeps_bind keeps_return)

lemma keeps_option: "keeps I m \<Longrightarrow> (\<And>x. keeps I (f x)) \<Longrightarrow> keeps I (case z of None \<Rightarrow> m | Some x \<Rightarrow> f x)"
  by (cases z) simp_all

lemma bookkeeping_writer [simp]:
  "wd_writer (counted n s) = wd_writer s" "wd_writer (answered n s) = wd_writer s"
  "wd_writer (latest_is n fb s) = wd_writer s" "wd_writer (note_joint j v t u) = wd_writer u"
  "wd_tx (counted n s) = wd_tx s" "wd_tx (answered n s) = wd_tx s"
  "wd_tx (latest_is n fb s) = wd_tx s" "wd_tx (note_joint j v t u) = wd_tx u"
  by (simp_all add: counted_def answered_def latest_is_def note_joint_def)

lemmas pair_programs = pair_measure_def guard_def latest_of_def joint_state_def motor_torques_def

lemma pair_echo:
  assumes f: "followed d n i" and own: "ep_motor_name e = n \<Longrightarrow> rng_torque_nm (ep_ranges e) = R"
  shows "keeps (motor_in (pair_rule R limit) d i S) (group_echo e x)"
  unfolding group_echo_def
proof (rule holds_lift_bind)
  fix c assume c: "encode_zero_gain_position_echo e x = Inr c"
  show "keeps (motor_in (pair_rule R limit) d i S) (io_call mg_call (GCommand c))"
  proof (cases "ec_motor_name c = n")
    case True
    with echo_name [OF c] own have R: "rng_torque_nm (ep_ranges e) = R" by simp
    have "\<forall>p \<in> S. \<exists>q \<in> S. pair_step p Echo = Some q" by (metis pair_step.simps(1,3,5) phase.exhaust)
    then show ?thesis
      using group_call_own [OF f, of "GCommand c" "pair_rule R limit" Echo S S] True echo_frame_zero [OF c R]
      by (simp add: pair_rule_def)
  next
    case False
    with f group_call_other [of d n i "GCommand c"] show ?thesis by simp
  qed
qed simp

lemma pair_measure_phase:
  assumes "followed d n i" and "ep_motor_name e = n \<Longrightarrow> rng_torque_nm (ep_ranges e) = R"
  shows "keeps (motor_in (pair_rule R limit) d i S) (pair_measure margin lacks soft e)"
  unfolding pair_programs Let_def
  by (intro keeps_intros group_receive pair_echo [OF assms] keeps_require_status keeps_frame) simp_all

lemma zero_command_phase:
  assumes "followed d n i" and "ep_motor_name e = n \<Longrightarrow> rng_torque_nm (ep_ranges e) = R"
  shows "keeps (motor_in (pair_rule R limit) d i S) (zero_command e)"
  unfolding zero_command_def zero_answer_def pair_programs Let_def
  by (intro keeps_intros group_receive pair_echo [OF assms] keeps_require_status keeps_frame) simp_all

lemma torque_encode_spec:
  assumes "torque_encode lims soft e latest torque = Inr ec"
  obtains c m env where "encode_damiao_mit_command e c m env = Inr ec" and "mc_kp c = Fin 0" and "mc_kd c = Fin 0"
    and "mc_feedforward_torque_nm c = torque" and "fle (fabs torque) (tl_motor_torque lims)"
proof -
  from assms obtain c m env fb limits where c: "encode_damiao_mit_command e c m env = Inr ec"
    "new_command_envelope limits (tl_motor_velocity lims) (tl_motor_torque lims) (tl_motor_torque lims) = Inr env"
    "mc_kp c = Fin 0" "mc_kd c = Fin 0" "mc_feedforward_torque_nm c = torque" "isfinite torque"
    by (auto simp: torque_encode_def new_mit_command_def rbind_eq_Inr split: if_splits)
  from encode_checks(3) [OF c(1)] envelope_spec [OF c(2)] c(5,6)
  have "fle (fabs torque) (tl_motor_torque lims)"
    by (auto simp: isfinite_iff not_flt)
  with c that show thesis by blast
qed

lemma torque_call_phase:
  assumes f: "followed d n i" and own: "ep_motor_name e = n \<Longrightarrow> rng_torque_nm (ep_ranges e) = R"
    and enc: "torque_encode lims soft e latest torque = Inr ec" and limit: "tl_motor_torque lims = limit"
  shows "keeps (motor_in (pair_rule R limit) d i {Powered}) (io_call mg_call (GCommand ec))"
proof (cases "ec_motor_name ec = n")
  case True
  from enc obtain c m env where c: "encode_damiao_mit_command e c m env = Inr ec" "mc_kp c = Fin 0" "mc_kd c = Fin 0"
    "mc_feedforward_torque_nm c = torque" "fle (fabs torque) limit"
    unfolding limit [symmetric] by (rule torque_encode_spec)
  from c(1) have "ec_motor_name ec = ep_motor_name e" by (rule encode_spec) simp
  with own True have R: "rng_torque_nm (ep_ranges e) = R" by simp
  let ?f = "wire_frame i (ec_data ec)"
  have k: "pair_kind R ?f = Echo \<or> pair_kind R ?f = Command" "pair_ok R limit ?f"
    using zero_gain_payload [OF c(1-3)] c(4,5) R
    by (auto simp: pair_kind_def pair_ok_def payload_of_wire_frame Let_def)
  then have "\<forall>p \<in> {Powered}. \<exists>q \<in> {Powered}. pair_step p (pair_kind R ?f) = Some q" by auto
  then show ?thesis
    using group_call_own [OF f, of "GCommand ec" "pair_rule R limit" "pair_kind R ?f" "{Powered}" "{Powered}"] True k
    by (simp add: pair_rule_def)
next
  case False
  with f group_call_other [of d n i "GCommand ec"] show ?thesis by simp
qed

lemma torque_answer_keeps: "keeps (on_writer J) (torque_answer lims drift e)"
  unfolding torque_answer_def drift_guard_def pair_programs receive_endpoint_def Let_def
  by (intro keeps_intros keeps_option keeps_receive_selected keeps_require_status keeps_frame) simp_all

lemma torque_command_phase:
  assumes "followed d n i" and "ep_motor_name (fst z) = n \<Longrightarrow> rng_torque_nm (ep_ranges (fst z)) = R"
    and "tl_motor_torque lims = limit"
  shows "keeps (motor_in (pair_rule R limit) d i {Powered}) (torque_command lims soft drift torques z)"
proof (cases z)
  case (Pair e k)
  note call = torque_call_phase [OF assms(1) _ _ assms(3)]
  show ?thesis unfolding Pair torque_command_def Let_def prod.case
    by (intro keeps_bind [OF keeps_lift] holds_get_bind holds_lift_bind)
      (use assms(2) Pair in \<open>auto intro!: keeps_intros call torque_answer_keeps keeps_frame simp del: steps.simps\<close>)
qed

text \<open>The reconstruction and the joint torques do not touch the writer.\<close>

lemma pd_joint_keeps: "keeps (on_writer J) (pd_joint p x v z)"
  unfolding pd_joint_def Let_def pair_programs by (cases z) (auto intro!: keeps_intros keeps_frame)

lemma pitch_joint_keeps: "keeps (on_writer J) (pitch_joint lims t x v z)"
  unfolding pitch_joint_def Let_def pair_programs by (cases z) (auto intro!: keeps_intros keeps_frame)

lemma shared_keeps:
  "keeps I (joint_state np pair names)" "keeps I (motor_torques np pair lims m ts)" "keeps I (guard b msg)"
  unfolding pair_programs by (intro keeps_intros)+

lemma pitch_ends_keep:
  "keeps (on_writer J) (pitch_initial np pair names)" "keeps (on_writer J) (pitch_finish np pair t names)"
  unfolding pair_programs pitch_initial_def pitch_finish_def
  by (intro keeps_intros keeps_frame; simp add: group_errors_def)+

text \<open>\<open>n\<close> is the motor followed and \<open>R\<close> its torque range.\<close>

abbreviation ranged :: "feedback_endpoint list \<Rightarrow> string \<Rightarrow> frange \<Rightarrow> bool" where
  "ranged es n R \<equiv> \<forall>e \<in> set es. ep_motor_name e = n \<longrightarrow> rng_torque_nm (ep_ranges e) = R"

lemma torque_commands_phase:
  assumes "followed d n i" and "ranged es n R" and "tl_motor_torque lims = limit"
  shows "keeps (motor_in (pair_rule R limit) d i {Powered}) (io_for (torque_command lims soft drift torques) (zip es ks))"
  by (rule keeps_for, rule torque_command_phase [OF assms(1) _ assms(3)])
    (use assms(2) in \<open>auto dest: set_zip_leftD\<close>)

lemma pd_work_phase:
  assumes "followed d n i" and "ranged es n R" and "tl_motor_torque (pl_limits p) = limit"
  shows "keeps (motor_in (pair_rule R limit) d i {Powered}) (pd_work np pair p es)"
  unfolding pd_work_def
  by (intro keeps_bind keeps_pair keeps_io_map shared_keeps pd_joint_keeps torque_commands_phase [OF assms])

lemma pitch_work_phase:
  assumes "followed d n i" and "ranged es n R" and "tl_motor_torque (ti_limits t) = limit"
  shows "keeps (motor_in (pair_rule R limit) d i {Powered}) (pitch_work np pair nm t soft es pitch roll elapsed)"
  unfolding pitch_work_def Let_def
  by (intro keeps_bind keeps_then keeps_lift keeps_pair keeps_io_map shared_keeps pitch_joint_keeps keeps_frame
      torque_commands_phase [OF assms]) simp

text \<open>What a gate does around the powered part keeps the phase.\<close>

abbreviation body_phase :: "frange \<Rightarrow> pyfloat \<Rightarrow> (string, int) dict \<Rightarrow> int \<Rightarrow> ('m pair_vars_scheme, unit) io \<Rightarrow> bool" where
  "body_phase R limit d i body \<equiv> holds (motor_in (pair_rule R limit) d i {Preparing}) body
     (\<lambda>_. motor_in (pair_rule R limit) d i {Powered}) (\<lambda>_. motor_in (pair_rule R limit) d i {Preparing, Powered})"

lemma preparing_weaken:
  assumes "keeps (motor_in A d i {Preparing}) m"
  shows "holds (motor_in A d i {Preparing}) m (\<lambda>_. motor_in A d i {Preparing})
    (\<lambda>_. motor_in A d i {Preparing, Powered})"
  using assms by (rule group_weaken) auto

lemma powered_phase:
  fixes es :: "feedback_endpoint list"
  assumes "followed d n i" and "distinct (map ep_motor_name es)" and "n \<in> set (map ep_motor_name es)"
    and "ranged es n R" and "\<And>t. keeps (motor_in (pair_rule R limit) d i {Powered}) (work t)"
  shows "body_phase R limit d i (powered_run timeout position_of es duration work period)"
  by (rule pair_wire.power_phase [OF assms(1-3) _ assms(5)]) (use assms(4) in \<open>simp add: pair_rule_def\<close>)

lemma measured_phase:
  assumes "followed d n i" and "ranged es n R"
  shows "keeps (motor_in (pair_rule R limit) d i S) (io_for (pair_measure margin lacks soft) es)"
  by (intro keeps_for pair_measure_phase [OF assms(1)]) (use assms(2) in auto)

lemma zero_body_phase:
  fixes es :: "feedback_endpoint list"
  assumes f: "followed d n i" and es: "distinct (map ep_motor_name es)" "n \<in> set (map ep_motor_name es)" "ranged es n R"
  shows "body_phase R limit d i (zero_body np pair soft es period)"
proof -
  have work: "keeps (motor_in (pair_rule R limit) d i {Powered}) (io_for zero_command es)"
    by (intro keeps_for zero_command_phase [OF f]) (use es(3) in auto)
  show ?thesis unfolding zero_body_def
    by (rule holds_steps_Cons [OF preparing_weaken [OF measured_phase [OF f es(3)]]],
        rule holds_steps_Cons [OF preparing_weaken], intro keeps_intros keeps_frame, simp,
        rule holds_steps_Cons [OF powered_phase [OF f es work]], rule holds_steps_Nil, assumption)
qed

lemma pd_body_phase:
  fixes es :: "feedback_endpoint list"
  assumes f: "followed d n i" and es: "distinct (map ep_motor_name es)" "n \<in> set (map ep_motor_name es)" "ranged es n R"
  shows "body_phase R (tl_motor_torque (pl_limits p)) d i (pd_body np pair p es period)"
  unfolding pd_body_def
  by (rule holds_steps_Cons [OF preparing_weaken [OF measured_phase [OF f es(3)]]],
      rule holds_steps_Cons [OF preparing_weaken], intro keeps_intros keeps_frame, simp,
      rule holds_steps_Cons [OF powered_phase [OF f es pd_work_phase [OF f es(3) refl]]], rule holds_steps_Nil, assumption)

lemma pitch_body_phase:
  fixes es :: "feedback_endpoint list"
  assumes f: "followed d n i" and es: "distinct (map ep_motor_name es)" "n \<in> set (map ep_motor_name es)" "ranged es n R"
  shows "body_phase R (tl_motor_torque (ti_limits t)) d i (pitch_body np pair nm t soft es period)"
proof -
  let ?A = "pair_rule R (tl_motor_torque (ti_limits t))"
  have finish: "holds (motor_in ?A d i {Powered}) (pitch_finish np pair t names) (\<lambda>_. motor_in ?A d i {Powered})
      (\<lambda>_. motor_in ?A d i {Preparing, Powered})" for names
    by (rule group_weaken [OF pitch_ends_keep(2)]) auto
  note power = powered_phase [OF f es pitch_work_phase [OF f es(3) refl]]
  show ?thesis unfolding pitch_body_def Let_def
    by (rule holds_then [OF preparing_weaken [OF measured_phase [OF f es(3)]]],
        rule holds_bind [OF preparing_weaken [OF pitch_ends_keep(1)]], clarsimp,
        rule holds_then [OF preparing_weaken [OF keeps_lift]], rule holds_then [OF power finish])
qed

section \<open>The bodies only send\<close>

lemmas pair_sent_rules = group_sent_rules keeps_io_map keeps_option keeps_pair

lemma sent_shared:
  "keeps (on_bus (group_sent d i k)) (pair_measure margin lacks soft e)"
  "keeps (on_bus (group_sent d i k)) (torque_command lims soft drift torques z)"
  "keeps (on_bus (group_sent d i k)) (joint_state np pair names)"
  "keeps (on_bus (group_sent d i k)) (motor_torques np pair lims m ts)"
  unfolding pair_programs torque_command_def torque_answer_def drift_guard_def Let_def
  by (intro pair_sent_rules; simp)+

lemma sent_powered:
  assumes "\<And>t. keeps (on_bus (group_sent d i k)) (work t)"
  shows "keeps (on_bus (group_sent d i k)) (powered_run timeout position_of es duration work period)"
  unfolding powered_run_def prepare_motor_def enable_all_def paced_cycle_def Let_def
  by (intro pair_sent_rules assms) simp_all

lemma sent_bodies:
  "keeps (on_bus (group_sent d i k)) (zero_body np pair soft es period)"
  "keeps (on_bus (group_sent d i k)) (pd_body np pair p es period)"
  "keeps (on_bus (group_sent d i k)) (pitch_body np pair nm t soft es period)"
proof -
  show "keeps (on_bus (group_sent d i k)) (zero_body np pair soft es period)"
    unfolding zero_body_def zero_command_def zero_answer_def guard_def Let_def
    by (intro pair_sent_rules sent_powered sent_shared) simp_all
  show "keeps (on_bus (group_sent d i k)) (pd_body np pair p es period)"
    unfolding pd_body_def pd_work_def pd_joint_def guard_def Let_def
    by (intro pair_sent_rules sent_powered sent_shared) simp_all
  show "keeps (on_bus (group_sent d i k)) (pitch_body np pair nm t soft es period)"
    unfolding pitch_body_def pitch_work_def pitch_joint_def pitch_initial_def pitch_finish_def guard_def latest_of_def Let_def
    by (intro pair_sent_rules sent_powered sent_shared) (simp_all add: group_errors_def)
qed

section \<open>Any gate fails closed\<close>

definition gate_outcome ::
  "frange \<Rightarrow> pyfloat \<Rightarrow> int \<Rightarrow> string \<Rightarrow> bool \<Rightarrow> ('m pair_vars_scheme \<Rightarrow> 'r) \<Rightarrow> 'r result \<Rightarrow> 'm pair_vars_scheme \<Rightarrow> bool" where
  "gate_outcome R limit i name taken report_of r s \<longleftrightarrow> pair_in_order R limit (frames_of i (mg_wire (wd_writer s))) \<and>
     (case r of Inl _ \<Rightarrow> True | Inr report \<Rightarrow> report = report_of s \<and>
        (gh_errors s \<noteq> [] \<or> map_of (gh_final_status s) name = Some (Some ''disabled''))) \<and>
     (taken \<longrightarrow> (case r of Inr _ \<Rightarrow> 3 | Inl _ \<Rightarrow> 1) \<le> disables_of i (wd_writer s))"

lemma gate_fails_closed:
  fixes es :: "feedback_endpoint list"
  assumes run: "run_gate checks report_of body es start = Some (r, s)" and ok: "checks = Inr x"
    and new: "new_motor_group_writer iface eps = Inr (wd_writer start)"
    and d: "distinct (map ep_motor_name es)" and e: "e \<in> set es"
    and i: "map_of (mg_can_id_by_name (wd_writer start)) (ep_motor_name e) = Some i"
    and R: "R = rng_torque_nm (ep_ranges e)"
    and phase: "\<lbrakk>followed (mg_can_id_by_name (wd_writer start)) (ep_motor_name e) i;
       ep_motor_name e \<in> set (map ep_motor_name es); ranged es (ep_motor_name e) R\<rbrakk>
      \<Longrightarrow> body_phase R limit (mg_can_id_by_name (wd_writer start)) i (body x)"
    and sent: "keeps (on_bus (group_sent (mg_can_id_by_name (wd_writer start)) i 0)) (body x)"
  shows "gate_outcome R limit i (ep_motor_name e) (list_all (\<lambda>t. t = Some 72) (wd_tx start)) (report_of x) r s"
proof -
  from run ok obtain res where g: "guarded_run pair_timeout pv_initial es (body x) start = Some (res, s)"
    and r: "(\<exists>err. res = Inl err \<and> r = Inl err) \<or> res = Inr () \<and> r = Inr (report_of x s)"
    by (auto simp: run_gate_def split: option.splits sum.splits)
  have f: "followed (mg_can_id_by_name (wd_writer start)) (ep_motor_name e) i"
    using new_group_writer_proper(1) [OF new] i by simp
  have n: "ep_motor_name e \<in> set (map ep_motor_name es)" using e by simp
  have ranged: "ranged es (ep_motor_name e) R"
    using d e R by (metis distinct_map inj_on_def)
  have "rule_phased (pair_rule R limit) (mg_can_id_by_name (wd_writer start)) i any_phase (wd_writer s)"
    by (rule pair_wire.run_in_order [OF g f new_group_writer_proper(2) [OF new] _ phase [OF f n ranged]])
      (use ranged in \<open>simp add: pair_rule_def\<close>)
  then have order: "pair_in_order R limit (frames_of i (mg_wire (wd_writer s)))"
    using pair_enable_count [of Preparing "map (pair_kind R) (frames_of i (mg_wire (wd_writer s)))"]
    by (auto simp: rule_phased_def pair_rule_def pair_in_order_def)
  have verdict: "all_disabled es s" if "res = Inr ()"
    using holdsD(1) [OF guarded_verdict [OF d]] g that by auto
  have "(case res of Inr _ \<Rightarrow> 3 | Inl _ \<Rightarrow> 1) \<le> disables_of i (wd_writer s)" if "list_all (\<lambda>t. t = Some 72) (wd_tx start)"
    by (rule run_disables [OF g f n sent that])
  with order verdict r e show ?thesis by (auto simp: gate_outcome_def all_disabled_def)
qed

lemma pair_checks_names:
  assumes "pair_checks mismatch coverage expected w es pair soft = Inr u" and "distinct (map fst expected)"
  shows "distinct (map ep_motor_name es)"
proof -
  from assms(1) have "map endpoint_identity es = expected"
    by (auto simp: pair_checks_def Let_def split: if_splits)
  then have "map fst expected = map ep_motor_name es" by (auto simp: endpoint_identity_def)
  with assms(2) show ?thesis by simp
qed

lemma ankle_groups_distinct: "map_of ANKLE_GROUPS side = Some expected \<Longrightarrow> distinct (map fst expected)"
  by (auto simp: ANKLE_GROUPS_def split: if_splits)

end
