(* ===== verification/PairRuns.thy ===== *)
theory PairRuns
  imports PairSafety GroupRuns
begin

text \<open>
  The properties of the gates of a differential pair: each fails closed, and a joint PD gate without
  errors is evidence.
\<close>

section \<open>The gates fail closed\<close>

lemma zero_checks_names:
  assumes "zero_checks side soft w es pair = Inr x"
  shows "distinct (map ep_motor_name es)"
  using assms pair_checks_names ankle_groups_distinct
  by (fastforce simp: zero_checks_def rbind_eq_Inr split: option.splits)

lemma pitch_checks_names:
  assumes "pitch_checks side name soft w es pair = Inr (expected, period, t)"
  shows "distinct (map ep_motor_name es)" and "map_of excitation_tiers name = Some t"
  using assms pair_checks_names ankle_groups_distinct
  by (fastforce simp: pitch_checks_def rbind_eq_Inr split: option.splits)+

lemma pd_checks_names:
  assumes "pd_checks p w es pair = Inr period" and "distinct (map fst (pl_expected p))"
  shows "distinct (map ep_motor_name es)"
  using assms pair_checks_names by (auto simp: pd_checks_def rbind_eq_Inr Let_def split: if_splits)

text \<open>
  Whatever the two motors, the clock and the bus do, the zero-torque gate of an ankle either refuses
  its arguments before sending anything, or every frame of each motor is an enable, a disable or a
  frame with zero gains and zero torque, in the permitted order with at most one enable. A returned
  report names an error or the verified ''disabled'' status, and on a bus that takes every frame the
  motor was disabled three times when a report is returned and once even when an interrupt of the
  shutdown leaves the function.
\<close>
theorem zero_torque_gate_fails_closed:
  fixes es :: "feedback_endpoint list"
  assumes "run_ankle_pair_zero_torque_gate np es pair side soft w = Some (r, s)"
    and "new_motor_group_writer iface eps = Inr (wd_writer w)"
    and "e \<in> set es" and "map_of (mg_can_id_by_name (wd_writer w)) (ep_motor_name e) = Some i"
  shows "case zero_checks side soft (wd_writer w) es pair of
      Inl err \<Rightarrow> r = Inl err \<and> s = zero_start w (map ep_motor_name es)
    | Inr (expected, _) \<Rightarrow> gate_outcome (rng_torque_nm (ep_ranges e)) (Fin 0) i (ep_motor_name e)
        (list_all (\<lambda>t. t = Some 72) (wd_tx w)) (zero_report_of side (fst (snd (hd expected))) es) r s"
proof (cases "zero_checks side soft (wd_writer w) es pair")
  case (Inl err)
  with assms(1) show ?thesis by (simp add: run_ankle_pair_zero_torque_gate_def run_gate_def)
next
  case (Inr x)
  have w: "wd_writer (zero_start w names) = wd_writer w" "wd_tx (zero_start w names) = wd_tx w" for names
    by (simp_all add: zero_start_def)
  obtain expected period where x: "x = (expected, period)" by (cases x)
  note d = zero_checks_names [OF Inr]
  show ?thesis
    using gate_fails_closed [OF assms(1) [unfolded run_ankle_pair_zero_torque_gate_def] Inr _ d assms(3) _ refl,
        of iface eps i "Fin 0"] zero_body_phase [OF _ d] sent_bodies(1) assms(2,4)
    by (simp add: w Inr x)
qed

text \<open>
  C22. The joint PD gate of an ankle or of the head fails closed: after its checks every frame of each
  motor is an enable, a disable or a frame with zero embedded gains whose torque field encodes a
  torque within the motor limit of the plan, zero before the enable and after the first disable, with
  at most one enable; a returned report names an error or the verified ''disabled'' status, and the
  motor was disabled three times on a bus that takes every frame.
\<close>
theorem joint_pd_gate_fails_closed:
  fixes es :: "feedback_endpoint list"
  assumes "run_differential_pair_joint_pd_gate np es pair p w = Some (r, s)"
    and "distinct (map fst (pl_expected p))" and "new_motor_group_writer iface eps = Inr (wd_writer w)"
    and "e \<in> set es" and "map_of (mg_can_id_by_name (wd_writer w)) (ep_motor_name e) = Some i"
  shows "case pd_checks p (wd_writer w) es pair of
      Inl err \<Rightarrow> r = Inl err \<and> s = pd_start w (map ep_motor_name es) (dp_joint_names pair)
    | Inr _ \<Rightarrow> gate_outcome (rng_torque_nm (ep_ranges e)) (tl_motor_torque (pl_limits p)) i (ep_motor_name e)
        (list_all (\<lambda>t. t = Some 72) (wd_tx w)) (pd_report_of p es) r s"
proof (cases "pd_checks p (wd_writer w) es pair")
  case (Inl err)
  with assms(1) show ?thesis by (simp add: run_differential_pair_joint_pd_gate_def run_gate_def)
next
  case (Inr period)
  have w: "wd_writer (pd_start w names joints) = wd_writer w" "wd_tx (pd_start w names joints) = wd_tx w" for names joints
    by (simp_all add: pd_start_def)
  note d = pd_checks_names [OF Inr assms(2)]
  show ?thesis
    using gate_fails_closed [OF assms(1) [unfolded run_differential_pair_joint_pd_gate_def] Inr _ d assms(4) _ refl,
        of iface eps i "tl_motor_torque (pl_limits p)"] pd_body_phase [OF _ d] sent_bodies(2) assms(3,5)
    by (simp add: w Inr)
qed

text \<open>
  The pitch direction gate fails closed in every tier: after its checks every frame of each motor is
  an enable, a disable or a frame with zero embedded gains whose torque field encodes a torque within
  the motor limit of the tier, zero before the enable and after the first disable, with at most one
  enable; a returned report names an error or the verified ''disabled'' status, and the motor was
  disabled three times on a bus that takes every frame.
\<close>
theorem pitch_gate_fails_closed:
  fixes es :: "feedback_endpoint list"
  assumes "run_ankle_pitch_direction_gate np es pair side soft name w = Some (r, s)"
    and "new_motor_group_writer iface eps = Inr (wd_writer w)"
    and "e \<in> set es" and "map_of (mg_can_id_by_name (wd_writer w)) (ep_motor_name e) = Some i"
  shows "case pitch_checks side name soft (wd_writer w) es pair of
      Inl err \<Rightarrow> r = Inl err \<and> s = pitch_start w (map ep_motor_name es) (dp_joint_names pair)
    | Inr (expected, _, t) \<Rightarrow> map_of excitation_tiers name = Some t \<and>
        gate_outcome (rng_torque_nm (ep_ranges e)) (tl_motor_torque (ti_limits t)) i (ep_motor_name e)
        (list_all (\<lambda>t. t = Some 72) (wd_tx w)) (pitch_report_of side (fst (snd (hd expected))) t es) r s"
proof (cases "pitch_checks side name soft (wd_writer w) es pair")
  case (Inl err)
  with assms(1) show ?thesis by (simp add: run_ankle_pitch_direction_gate_def run_gate_def)
next
  case (Inr x)
  have w: "wd_writer (pitch_start w names joints) = wd_writer w" "wd_tx (pitch_start w names joints) = wd_tx w"
    for names joints by (simp_all add: pitch_start_def)
  obtain expected period t where x: "x = (expected, period, t)" by (cases x)
  note c = pitch_checks_names [OF Inr [unfolded x]]
  show ?thesis
    using gate_fails_closed [OF assms(1) [unfolded run_ankle_pitch_direction_gate_def] Inr _ c(1) assms(3) _ refl,
        of iface eps i "tl_motor_torque (ti_limits t)"] pitch_body_phase [OF _ c(1)] sent_bodies(3) assms(2,4) c(2)
    by (simp add: w Inr x)
qed

section \<open>Evidence of a joint PD gate\<close>













end
