(* ===== verification/PairSample.thy ===== *)
theory PairSample
  imports PairRuns PoweredSample
begin

text \<open>
  The gates of the left ankle on concrete inputs: two motors with the ranges of the bench motor and a
  coupling that is the identity. A zero-torque gate and a direction gate whose first poll fails, and a
  joint PD gate of one cycle.
\<close>

section \<open>The motors\<close>

definition ankle :: "string \<Rightarrow> int \<Rightarrow> feedback_endpoint" where
  "ankle name k = bench_endpoint\<lparr>ep_motor_name := name, ep_interface := ''kcan1'', ep_can_id := k, ep_master_id := k + 16\<rparr>"

definition ankle_frame :: "int \<Rightarrow> byte \<Rightarrow> can_frame" where
  "ankle_frame k b = (bench_frame b)\<lparr>f_interface := ''kcan1'', f_can_id := k + 16\<rparr>"

definition ankle_feedback :: "string \<Rightarrow> int \<Rightarrow> int \<Rightarrow> string \<Rightarrow> feedback" where
  "ankle_feedback name k code status = (bench_feedback code status)\<lparr>fb_motor_name := name, fb_interface := ''kcan1'',
     fb_can_id := k, fb_master_id := k + 16\<rparr>"

lemma ankle_fields:
  "ep_motor_name (ankle name k) = name" "ep_interface (ankle name k) = ''kcan1''"
  "ep_can_id (ankle name k) = k" "ep_master_id (ankle name k) = k + 16"
  "f_interface (ankle_frame k b) = ''kcan1''" "f_can_id (ankle_frame k b) = k + 16"
  "fb_position_rad (ankle_feedback name k c st) = Fin 1" "fb_velocity_rad_s (ankle_feedback name k c st) = Fin (- 1 / 8)"
  "fb_estimated_output_torque_nm (ankle_feedback name k c st) = Fin (- 1 / 16)"
  "fb_status_name (ankle_feedback name k c st) = st"
  by (simp_all add: ankle_def ankle_frame_def ankle_feedback_def bench_endpoint_def bench_frame_def bench_feedback_def)

lemma ankle_decoded:
  assumes "k \<in> {5, 6}"
  shows "decode_damiao_feedback (ankle_frame k (word_of_int (16 + k))) (ankle name k) = Inr (ankle_feedback name k 1 ''enabled'')"
    and "decode_damiao_feedback (ankle_frame k (word_of_int k)) (ankle name k) = Inr (ankle_feedback name k 0 ''disabled'')"
  using assms
  by (auto simp: decode_damiao_feedback_def ankle_frame_def bench_frame_def ankle_feedback_def bench_feedback_def
      STATUS_NAMES_def ankle_def bench_endpoint_def byte_at_def uint_to_float_def int_fields float_eval)

definition ankle_command :: "string \<Rightarrow> int \<Rightarrow> bytes \<Rightarrow> encoded_command" where
  "ankle_command name k d = \<lparr>ec_motor_name = name, ec_interface = ''kcan1'', ec_can_id = k, ec_data = d\<rparr>"

lemma ankle_echo:
  assumes "x = Fin 0 \<or> x = Fin 1"
  obtains d where "\<And>name k. encode_zero_gain_position_echo (ankle name k) x = Inr (ankle_command name k d)" and "length d = 8"
proof -
  have "\<exists>d. \<forall>name k. encode_zero_gain_position_echo (ankle name k) x = Inr (ankle_command name k d)"
    using assms
    by (auto simp: encode_zero_gain_position_echo_def ankle_def bench_endpoint_def ankle_command_def
      min_abs_def max_abs_def new_command_envelope_def validate_range_def encode_damiao_mit_command_def
      new_mit_state_def new_mit_command_def float_to_uint_strict_def estimated_output_torque_def float_eval)
  with that echo_payload(1) show thesis by (fastforce simp: ankle_command_def)
qed

lemma ankle_receive:
  assumes "flt u (fadd t timeout)" and "k \<in> {5, 6}"
  shows "receive_selected (ankle name k) timeout
      \<lparr>wd_writer = w, wd_clock = t # u # ts, wd_rx = Inr (ankle_frame k (word_of_int (16 + k))) # rs, wd_tx = tx, wd_sleeps = sl, \<dots> = m\<rparr> =
    Some (Inr (ankle_feedback name k 1 ''enabled''),
      \<lparr>wd_writer = w, wd_clock = ts, wd_rx = rs, wd_tx = tx, wd_sleeps = sl, \<dots> = m\<rparr>)"
    "receive_selected (ankle name k) timeout
      \<lparr>wd_writer = w, wd_clock = t # u # ts, wd_rx = Inr (ankle_frame k (word_of_int k)) # rs, wd_tx = tx, wd_sleeps = sl, \<dots> = m\<rparr> =
    Some (Inr (ankle_feedback name k 0 ''disabled''),
      \<lparr>wd_writer = w, wd_clock = ts, wd_rx = rs, wd_tx = tx, wd_sleeps = sl, \<dots> = m\<rparr>)"
    "receive_selected (ankle name k) timeout
      \<lparr>wd_writer = w, wd_clock = t # u # ts, wd_rx = Inl OSError # rs, wd_tx = tx, wd_sleeps = sl, \<dots> = m\<rparr> =
    Some (Inl OSError, \<lparr>wd_writer = w, wd_clock = ts, wd_rx = rs, wd_tx = tx, wd_sleeps = sl, \<dots> = m\<rparr>)"
  using assms(1) ankle_decoded [OF assms(2)]
  by (simp_all add: receive_selected_def receive_step_def io_loop_def io_app monotonic_def receive_frame_def
      ankle_fields)

lemmas ankle_receives = ankle_receive [where k = 5, simplified] ankle_receive [where k = 6, simplified]

section \<open>The writer\<close>

abbreviation motor_a :: string where "motor_a \<equiv> ''left_ankle_motor_a''"
abbreviation motor_b :: string where "motor_b \<equiv> ''left_ankle_motor_b''"

definition ankles_writer :: "bytes list \<Rightarrow> int \<times> int \<Rightarrow> int \<times> int \<Rightarrow> int \<times> int \<Rightarrow> motor_group_writer" where
  "ankles_writer fs c e d = \<lparr>mg_interface = ''kcan1'', mg_can_id_by_name = [(motor_a, 5), (motor_b, 6)], mg_wire = fs,
     mg_command_tx_attempts = [(motor_a, fst c), (motor_b, snd c)],
     mg_enable_attempts = [(motor_a, fst e), (motor_b, snd e)],
     mg_disable_attempts = [(motor_a, fst d), (motor_b, snd d)]\<rparr>"

lemma ankles_new: "new_motor_group_writer ''kcan1'' [(motor_a, 5), (motor_b, 6)] = Inr (ankles_writer [] (0, 0) (0, 0) (0, 0))"
  by (simp add: new_motor_group_writer_def ankles_writer_def standard_id_def Let_def)

lemma ankles_send:
  assumes "length x = 8"
  shows "mg_send_payload (ankles_writer fs c e d) motor_a x (Some 72) = (ankles_writer (fs @ [wire_frame 5 x]) c e d, Inr ())"
    "mg_send_payload (ankles_writer fs c e d) motor_b x (Some 72) = (ankles_writer (fs @ [wire_frame 6 x]) c e d, Inr ())"
  using assms by (simp_all add: mg_send_payload_def ankles_writer_def canfd_pack_wire standard_id_def short_write_check_def
      length_wire_frame)

lemma ankles_calls:
  "length x = 8 \<Longrightarrow> mg_call (ankles_writer fs (a, b) e d) (GCommand (ankle_command motor_a 5 x)) (Some 72) =
    (ankles_writer (fs @ [wire_frame 5 x]) (a + 1, b) e d, Inr ())"
  "length x = 8 \<Longrightarrow> mg_call (ankles_writer fs (a, b) e d) (GCommand (ankle_command motor_b 6 x)) (Some 72) =
    (ankles_writer (fs @ [wire_frame 6 x]) (a, b + 1) e d, Inr ())"
  "mg_call (ankles_writer fs c (a, b) d) (GEnable motor_a) (Some 72) =
    (ankles_writer (fs @ [wire_frame 5 ENABLE_PAYLOAD]) c (a + 1, b) d, Inr ())"
  "mg_call (ankles_writer fs c (a, b) d) (GEnable motor_b) (Some 72) =
    (ankles_writer (fs @ [wire_frame 6 ENABLE_PAYLOAD]) c (a, b + 1) d, Inr ())"
  "mg_call (ankles_writer fs c e (a, b)) (GDisable motor_a) (Some 72) =
    (ankles_writer (fs @ [wire_frame 5 DISABLE_PAYLOAD]) c e (a + 1, b), Inr ())"
  "mg_call (ankles_writer fs c e (a, b)) (GDisable motor_b) (Some 72) =
    (ankles_writer (fs @ [wire_frame 6 DISABLE_PAYLOAD]) c e (a, b + 1), Inr ())"
proof -
  have l: "length ENABLE_PAYLOAD = 8" "length DISABLE_PAYLOAD = 8"
    by (simp_all add: ENABLE_PAYLOAD_def DISABLE_PAYLOAD_def)
  note sends = ankles_send [OF l(1)] ankles_send [OF l(2)]
  have ids: "mg_can_id_by_name (ankles_writer fs c e d) = [(motor_a, 5), (motor_b, 6)]"
    "mg_interface (ankles_writer fs c e d) = ''kcan1''" for fs c e d by (simp_all add: ankles_writer_def)
  show "length x = 8 \<Longrightarrow> mg_call (ankles_writer fs (a, b) e d) (GCommand (ankle_command motor_a 5 x)) (Some 72) =
    (ankles_writer (fs @ [wire_frame 5 x]) (a + 1, b) e d, Inr ())"
    "length x = 8 \<Longrightarrow> mg_call (ankles_writer fs (a, b) e d) (GCommand (ankle_command motor_b 6 x)) (Some 72) =
    (ankles_writer (fs @ [wire_frame 6 x]) (a, b + 1) e d, Inr ())"
    by (simp_all add: ids ankle_command_def ankles_send) (simp_all add: ankles_writer_def bump_def)
  show "mg_call (ankles_writer fs c (a, b) d) (GEnable motor_a) (Some 72) =
    (ankles_writer (fs @ [wire_frame 5 ENABLE_PAYLOAD]) c (a + 1, b) d, Inr ())"
    "mg_call (ankles_writer fs c (a, b) d) (GEnable motor_b) (Some 72) =
    (ankles_writer (fs @ [wire_frame 6 ENABLE_PAYLOAD]) c (a, b + 1) d, Inr ())"
    "mg_call (ankles_writer fs c e (a, b)) (GDisable motor_a) (Some 72) =
    (ankles_writer (fs @ [wire_frame 5 DISABLE_PAYLOAD]) c e (a + 1, b), Inr ())"
    "mg_call (ankles_writer fs c e (a, b)) (GDisable motor_b) (Some 72) =
    (ankles_writer (fs @ [wire_frame 6 DISABLE_PAYLOAD]) c e (a, b + 1), Inr ())"
    by (simp_all add: sends) (simp_all add: ankles_writer_def bump_def)
qed

section \<open>The shutdown\<close>

abbreviation left_pair :: "feedback_endpoint list" where
  "left_pair \<equiv> [ankle motor_a 5, ankle motor_b 6]"

abbreviation disabled_replies :: "can_frame result list" where
  "disabled_replies \<equiv> [Inr (ankle_frame 5 5), Inr (ankle_frame 6 6)]"

lemma ankle_times: "flt (Fin 2) (fadd (Fin 2) (rnd (1 / 50)))" "flt (Fin 2) (rnd (5 / 2))"
  "flt (Fin 0) (fadd (Fin 0) (rnd (1 / 50)))" "flt (Fin 0) (rnd (1 / 50))" "flt (Fin 2) (rnd (101 / 50))"
  by (simp_all add: float_eval)

lemma ankles_shut_down:
  assumes "map_of init motor_a = v" and "map_of init motor_b = v" and "v = None \<or> v = Some (Fin 1)"
  shows "\<exists>fs' c'. group_shut_down pair_timeout pv_initial left_pair
      \<lparr>wd_writer = ankles_writer fs c e (0, 0), wd_clock = [Fin 2, Fin 2, Fin 2, Fin 2, Fin 2, Fin 2, Fin 2, Fin 2], wd_rx = disabled_replies,
       wd_tx = [Some 72, Some 72, Some 72, Some 72, Some 72, Some 72, Some 72, Some 72, Some 72, Some 72], wd_sleeps = [Inr (), Inr (), Inr ()], gh_errors = es, gh_latest = lt,
       gh_command_count = cc, gh_feedback_count = fc, gh_final_status = [(motor_a, None), (motor_b, None)],
       pv_initial = init, \<dots> = m\<rparr> =
    Some (Inr (), \<lparr>wd_writer = ankles_writer fs' c' e (4, 4), wd_clock = [], wd_rx = [],
       wd_tx = [], wd_sleeps = [], gh_errors = es, gh_latest = lt, gh_command_count = cc, gh_feedback_count = fc,
       gh_final_status = [(motor_a, Some ''disabled''), (motor_b, Some ''disabled'')], pv_initial = init, \<dots> = m\<rparr>)"
proof -
  let ?x = "case v of Some x \<Rightarrow> x | None \<Rightarrow> Fin 0"
  from assms(3) have "?x = Fin 0 \<or> ?x = Fin 1" by auto
  then obtain d where echo: "\<And>name k. encode_zero_gain_position_echo (ankle name k) ?x = Inr (ankle_command name k d)"
    and l: "length d = 8" using ankle_echo by blast
  obtain p q where c: "c = (p, q)" by (cases c)
  show ?thesis
    by (intro exI, simp add: group_shut_down_def disable_all_def verify_disabled_def verify_round_def group_echo_def
        receive_endpoint_def Let_def l ankles_calls ankle_receives ankle_fields ankle_times
        environment_app io_app io_when_app io_loop_def lookup_result_def assms(1,2) echo c io_while_numeral del: mg_call.simps steps.simps)
qed

section \<open>A poll that fails\<close>

definition failing_world :: "motor_group_writer world" where
  "failing_world = \<lparr>wd_writer = ankles_writer [] (0, 0) (0, 0) (0, 0),
     wd_clock = [Fin 0, Fin 0, Fin 2, Fin 2, Fin 2, Fin 2, Fin 2, Fin 2, Fin 2, Fin 2],
     wd_rx = Inl OSError # disabled_replies,
     wd_tx = [Some 72, Some 72, Some 72, Some 72, Some 72, Some 72, Some 72, Some 72, Some 72, Some 72, Some 72],
     wd_sleeps = [Inr (), Inr (), Inr ()]\<rparr>"

definition failing_start :: "'m \<Rightarrow> 'm pair_vars_scheme" where
  "failing_start m = \<lparr>wd_writer = wd_writer failing_world, wd_clock = wd_clock failing_world,
     wd_rx = wd_rx failing_world, wd_tx = wd_tx failing_world, wd_sleeps = wd_sleeps failing_world,
     gh_errors = [], gh_latest = [], gh_command_count = [(motor_a, 0), (motor_b, 0)],
     gh_feedback_count = [(motor_a, 0), (motor_b, 0)], gh_final_status = [(motor_a, None), (motor_b, None)],
     pv_initial = [], \<dots> = m\<rparr>"

lemma failing_run:
  assumes body: "\<And>s s'. io_for (pair_measure margin lacks soft) left_pair s = Some (Inl OSError, s') \<Longrightarrow>
    body s = Some (Inl OSError, s')"
  shows "\<exists>s. guarded_run pair_timeout pv_initial left_pair body (failing_start m) = Some (Inr (), s)"
proof -
  obtain d where echo: "\<And>name k. encode_zero_gain_position_echo (ankle name k) (Fin 0) = Inr (ankle_command name k d)"
    and l: "length d = 8" using ankle_echo by blast
  define failed :: "string list \<Rightarrow> 'a pair_vars_scheme" where
    "failed es = \<lparr>wd_writer = ankles_writer [wire_frame 5 d] (1, 0) (0, 0) (0, 0),
       wd_clock = [Fin 2, Fin 2, Fin 2, Fin 2, Fin 2, Fin 2, Fin 2, Fin 2], wd_rx = disabled_replies,
       wd_tx = [Some 72, Some 72, Some 72, Some 72, Some 72, Some 72, Some 72, Some 72, Some 72, Some 72],
       wd_sleeps = [Inr (), Inr (), Inr ()], gh_errors = es, gh_latest = [],
       gh_command_count = [(motor_a, 0), (motor_b, 0)], gh_feedback_count = [(motor_a, 0), (motor_b, 0)],
       gh_final_status = [(motor_a, None), (motor_b, None)], pv_initial = [], \<dots> = m\<rparr>" for es
  have "io_for (pair_measure margin lacks soft) left_pair (failing_start m) = Some (Inl OSError, failed [])"
    by (simp add: failing_start_def failing_world_def failed_def pair_measure_def group_echo_def receive_endpoint_def
        Let_def l ankles_calls ankle_receives ankle_fields ankle_times environment_app io_app echo
        del: mg_call.simps steps.simps)
  then have "body (failing_start m) = Some (Inl OSError, failed [])" by (rule body)
  moreover have "\<exists>s. group_shut_down pair_timeout pv_initial left_pair (failed es) = Some (Inr (), s)" for es
  proof -
    have "map_of ([] :: pyfloat by_name) n = None" for n by simp
    from ankles_shut_down [OF this this disjI1 [OF refl], of "[wire_frame 5 d]" "(1, 0)" "(0, 0)" es "[]"
      "[(motor_a, 0), (motor_b, 0)]" "[(motor_a, 0), (motor_b, 0)]" m] show ?thesis
      unfolding failed_def by blast
  qed
  moreover have "group_errors e (failed es) = failed (es @ [e])" for e es
    by (simp add: group_errors_def failed_def)
  ultimately show ?thesis by (simp add: guarded_run_def io_app)
qed

definition identity_pair :: drive_pair where
  "identity_pair = \<lparr>dp_name = ''left_ankle'', dp_joint_names = LEFT_ANKLE, dp_motor_names = [motor_a, motor_b],
     dp_drive_zero_rad = [Fin 0, Fin 0], dp_encoder_sign = [Fin 1, Fin 1],
     dp_coupling = \<lparr>cp_matrix = [[Fin 1, Fin 0], [Fin 0, Fin 1]], cp_zero = [Fin 0, Fin 0]\<rparr>\<rparr>"

definition ankles_soft :: "frange by_name" where
  "ankles_soft = [(motor_a, (Fin 0, Fin 4)), (motor_b, (Fin 0, Fin 4))]"

lemma ankles_pair_checks:
  "pair_checks mismatch coverage [(motor_a, ''kcan1'', 5, 0x15), (motor_b, ''kcan1'', 6, 0x16)]
     (ankles_writer fs c e d) left_pair identity_pair ankles_soft = Inr ()"
  by (auto simp: pair_checks_def endpoint_identity_def ankle_fields identity_pair_def ankles_soft_def ankles_writer_def
      same_keys_def)

lemma left_group: "map_of ANKLE_GROUPS ''left'' = Some [(motor_a, ''kcan1'', 5, 0x15), (motor_b, ''kcan1'', 6, 0x16)]"
  by (simp add: ANKLE_GROUPS_def)

lemma third: "fdiv (Fin 1) (Fin 500) = Inr (rnd (1 / 500))"
  by simp

lemma ankles_range: "rng_torque_nm (ep_ranges (ankle name k)) = (Fin (- 1 / 16), Fin 5)"
  by (simp add: ankle_def bench_endpoint_def)

lemma failing_facts:
  "new_motor_group_writer ''kcan1'' [(motor_a, 5), (motor_b, 6)] = Inr (wd_writer failing_world)"
  "map_of (mg_can_id_by_name (wd_writer failing_world)) motor_a = Some 5"
  "list_all (\<lambda>t. t = Some 72) (wd_tx failing_world)" "ankle motor_a 5 \<in> set left_pair"
  by (simp_all add: failing_world_def ankles_new) (simp add: ankles_writer_def)

theorem zero_torque_gate_fails_closed_witness:
  "\<exists>r s. run_ankle_pair_zero_torque_gate entrywise_numpy left_pair identity_pair ''left'' ankles_soft failing_world = Some (r, s) \<and>
    gate_outcome (Fin (- 1 / 16), Fin 5) (Fin 0) 5 motor_a True (zero_report_of ''left'' ''kcan1'' left_pair) r s"
proof -
  have checks: "zero_checks ''left'' ankles_soft (wd_writer failing_world) left_pair identity_pair =
      Inr ([(motor_a, ''kcan1'', 5, 0x15), (motor_b, ''kcan1'', 6, 0x16)], rnd (1 / 500))"
    by (simp add: zero_checks_def left_group ankles_pair_checks failing_world_def third del: fdiv.simps)
  have start: "\<exists>m. zero_start failing_world [motor_a, motor_b] = failing_start m"
    by (intro exI) (simp add: zero_start_def failing_start_def)
  then obtain m where m: "zero_start failing_world [motor_a, motor_b] = failing_start m" by blast
  have "\<exists>s. guarded_run pair_timeout pv_initial left_pair
      (zero_body entrywise_numpy identity_pair ankles_soft left_pair (rnd (1 / 500))) (failing_start m) = Some (Inr (), s)"
    by (rule failing_run [of "rnd (5 / 100)" "'' lacks soft-limit margin''" ankles_soft])
      (simp add: zero_body_def io_app del: io_for.simps)
  then obtain s where "guarded_run pair_timeout pv_initial left_pair
      (zero_body entrywise_numpy identity_pair ankles_soft left_pair (rnd (1 / 500))) (failing_start m) = Some (Inr (), s)" ..
  then obtain r where run: "run_ankle_pair_zero_torque_gate entrywise_numpy left_pair identity_pair ''left'' ankles_soft
      failing_world = Some (r, s)"
    by (simp add: run_ankle_pair_zero_torque_gate_def run_gate_def checks ankle_fields m)
  from zero_torque_gate_fails_closed [OF run failing_facts(1,4)] failing_facts(2,3)
  have "gate_outcome (Fin (- 1 / 16), Fin 5) (Fin 0) 5 motor_a True (zero_report_of ''left'' ''kcan1'' left_pair) r s"
    by (simp add: checks ankle_fields ankles_range)
  with run show ?thesis by blast
qed

theorem pitch_gate_fails_closed_witness:
  "\<exists>r s t. run_ankle_pitch_direction_gate entrywise_numpy left_pair identity_pair ''left'' ankles_soft ''low'' failing_world =
      Some (r, s) \<and> map_of excitation_tiers ''low'' = Some t \<and>
    gate_outcome (Fin (- 1 / 16), Fin 5) (Fin (1 / 4)) 5 motor_a True (pitch_report_of ''left'' ''kcan1'' t left_pair) r s"
proof -
  obtain t where t: "map_of excitation_tiers ''low'' = Some t" and limit: "tl_motor_torque (ti_limits t) = Fin (1 / 4)"
    by (simp add: excitation_tiers_def)
  have checks: "pitch_checks ''left'' ''low'' ankles_soft (wd_writer failing_world) left_pair identity_pair =
      Inr ([(motor_a, ''kcan1'', 5, 0x15), (motor_b, ''kcan1'', 6, 0x16)], rnd (1 / 500), t)"
    by (simp add: pitch_checks_def left_group ankles_pair_checks failing_world_def third t del: fdiv.simps)
  have start: "\<exists>m. pitch_start failing_world [motor_a, motor_b] joints = failing_start m" for joints
    by (intro exI) (simp add: pitch_start_def failing_start_def)
  then obtain m where m: "pitch_start failing_world [motor_a, motor_b] (dp_joint_names identity_pair) = failing_start m" by blast
  have "\<exists>s. guarded_run pair_timeout pv_initial left_pair
      (pitch_body entrywise_numpy identity_pair ''low'' t ankles_soft left_pair (rnd (1 / 500))) (failing_start m) = Some (Inr (), s)"
    by (rule failing_run [of "rnd (10 / 100)" "'' lacks direction-test margin''" ankles_soft])
      (simp add: pitch_body_def Let_def io_app del: io_for.simps)
  then obtain s where "guarded_run pair_timeout pv_initial left_pair
      (pitch_body entrywise_numpy identity_pair ''low'' t ankles_soft left_pair (rnd (1 / 500))) (failing_start m) = Some (Inr (), s)" ..
  then obtain r where run: "run_ankle_pitch_direction_gate entrywise_numpy left_pair identity_pair ''left'' ankles_soft ''low''
      failing_world = Some (r, s)"
    by (simp add: run_ankle_pitch_direction_gate_def run_gate_def checks ankle_fields m)
  from pitch_gate_fails_closed [OF run failing_facts(1,4)] failing_facts(2,3)
  have "gate_outcome (Fin (- 1 / 16), Fin 5) (Fin (1 / 4)) 5 motor_a True (pitch_report_of ''left'' ''kcan1'' t left_pair) r s"
    by (simp add: checks ankle_fields ankles_range limit)
  with run t show ?thesis by blast
qed

section \<open>A joint PD gate of one cycle\<close>

definition left_plan :: pd_plan where
  "left_plan = ankle_pd_plan ''left'' [(motor_a, ''kcan1'', 5, 0x15), (motor_b, ''kcan1'', 6, 0x16)] ankles_soft"

definition host_torque :: pyfloat where
  "host_torque = Fin (3602879701896397 / 576460752303423488)"

lemma identity_joints:
  "drive_to_pair_position entrywise_numpy identity_pair [Fin 1, Fin 1] = Inr [Fin 1, Fin 1]"
  "drive_to_pair_velocity entrywise_numpy identity_pair [Fin (- (1 / 8)), Fin (- (1 / 8))] = Inr [Fin (- (1 / 8)), Fin (- (1 / 8))]"
  "pair_to_drive_torque entrywise_numpy identity_pair [host_torque, host_torque] = Inr [host_torque, host_torque]"
  by (simp_all add: drive_to_pair_position_def drive_to_pair_velocity_def pair_to_drive_torque_def identity_pair_def
      motor_to_joint_position_def motor_to_joint_velocity_def joint_to_motor_torque_def vector2_def entrywise_numpy_def
      finite_or_nan_def host_torque_def float_eval)

lemma host_torque_value:
  "fsub (Fin 1) (Fin 1) = Fin 0" "\<not> flt (rnd (2 / 25)) (Fin 0)"
  "clamp_torque (rnd (3 / 20)) (fsub (fmul (Fin (1 / 2)) (Fin 0)) (fmul (rnd (1 / 20)) (Fin (- (1 / 8))))) = host_torque"
  "clamp_torque (rnd (3 / 20)) (fsub (Fin 0) (fmul (rnd (1 / 20)) (Fin (- (1 / 8))))) = host_torque"
  "\<not> flt (Fin (1 / 4)) (fabs host_torque)"
  by (simp_all add: clamp_torque_def host_torque_def fmax_def fmin_def float_eval)

lemma ankle_torque_encode:
  obtains d where "\<And>name k c st. name = motor_a \<or> name = motor_b \<Longrightarrow>
      torque_encode (pl_limits left_plan) ankles_soft (ankle name k) (Inr (ankle_feedback name k c st)) host_torque =
      Inr (ankle_command name k d)" and "length d = 8"
proof -
  have "\<exists>d. \<forall>name k c st. name = motor_a \<or> name = motor_b \<longrightarrow>
      torque_encode (pl_limits left_plan) ankles_soft (ankle name k) (Inr (ankle_feedback name k c st)) host_torque =
      Inr (ankle_command name k d)"
    by (simp add: torque_encode_def ankle_fields ankles_soft_def lookup_result_def left_plan_def ankle_pd_plan_def
      new_mit_state_def new_mit_command_def new_command_envelope_def validate_range_def host_torque_def
      ankle_def bench_endpoint_def ankle_command_def max_abs_def encode_damiao_mit_command_def
      float_to_uint_strict_def estimated_output_torque_def float_eval) blast
  then obtain d where d: "\<And>name k c st. name = motor_a \<or> name = motor_b \<Longrightarrow>
      torque_encode (pl_limits left_plan) ankles_soft (ankle name k) (Inr (ankle_feedback name k c st)) host_torque =
      Inr (ankle_command name k d)" by blast
  have "length d = 8"
    using torque_encode_spec [OF d [OF disjI1 [OF refl]]] zero_gain_payload(1) by (metis ankle_command_def encoded_command.select_convs(4))
  with that d show thesis by blast
qed

definition pd_world :: "motor_group_writer world" where
  "pd_world = \<lparr>wd_writer = ankles_writer [] (0, 0) (0, 0) (0, 0),
     wd_clock = [Fin 0, Fin 0, Fin 0, Fin 0, Fin 0, Fin 0, Fin 0, Fin 0, Fin 0, Fin 0, Fin 0, Fin 0, Fin 0, Fin 0,
       Fin 0, Fin 0, Fin 2, Fin 2, Fin 2, Fin 2, Fin 2, Fin 2, Fin 2, Fin 2, Fin 2],
     wd_rx = disabled_replies @ disabled_replies @ [Inr (ankle_frame 5 21), Inr (ankle_frame 6 22)] @ disabled_replies,
     wd_tx = [Some 72, Some 72, Some 72, Some 72, Some 72, Some 72, Some 72, Some 72, Some 72, Some 72, Some 72,
       Some 72, Some 72, Some 72, Some 72, Some 72, Some 72, Some 72],
     wd_sleeps = [Inr (), Inr (), Inr ()]\<rparr>"

type_synonym pd_maxima = "pyfloat by_name \<times> pyfloat by_name \<times> pyfloat by_name \<times> pyfloat by_name \<times> pyfloat by_name"

definition pd_at :: "bytes list \<Rightarrow> int \<Rightarrow> int \<Rightarrow> pyfloat list \<Rightarrow> can_frame result list \<Rightarrow> sent list \<Rightarrow>
     feedback by_name \<Rightarrow> nat by_name \<Rightarrow> pyfloat by_name \<Rightarrow> pd_maxima \<Rightarrow> pd_vars" where
  "pd_at fs c e ts rs tx lt cc target = (\<lambda>(vel, tor, cmd, est, err).
     \<lparr>wd_writer = ankles_writer fs (c, c) (e, e) (0, 0),
      wd_clock = ts @ [Fin 2, Fin 2, Fin 2, Fin 2, Fin 2, Fin 2, Fin 2, Fin 2], wd_rx = rs @ disabled_replies,
      wd_tx = tx @ [Some 72, Some 72, Some 72, Some 72, Some 72, Some 72, Some 72, Some 72, Some 72, Some 72],
      wd_sleeps = [Inr (), Inr (), Inr ()], gh_errors = [], gh_latest = lt, gh_command_count = cc,
      gh_feedback_count = cc, gh_final_status = [(motor_a, None), (motor_b, None)],
      pv_initial = [(motor_a, Fin 1), (motor_b, Fin 1)], tv_max_joint_velocity = vel, tv_max_joint_torque = tor,
      tv_max_motor_command = cmd, tv_max_motor_estimated = est, dv_target_joint = target, dv_max_joint_error = err\<rparr>)"

abbreviation pd_before :: "feedback by_name" where
  "pd_before \<equiv> [(motor_a, ankle_feedback motor_a 5 0 ''disabled''), (motor_b, ankle_feedback motor_b 6 0 ''disabled'')]"

abbreviation zero_counts :: "nat by_name" where
  "zero_counts \<equiv> [(motor_a, 0), (motor_b, 0)]"

abbreviation pd_target :: "pyfloat by_name" where
  "pd_target \<equiv> [(''left_ankle_pitch_joint'', Fin 1), (''left_ankle_roll_joint'', Fin 1)]"

lemma pd_numbers:
  "inside_margin (rnd (1 / 20)) (Fin 0, Fin 4) (Fin 1)" "\<not> fle (fadd (Fin 0) (rnd (1 / 500))) (Fin 0)"
  "flt (fsub (Fin 0) (Fin 0)) (Fin 2)" "\<not> flt (fsub (Fin 2) (Fin 0)) (Fin 2)" "\<not> flt (Fin 0) (Fin 0)"
  "\<not> flt (rnd (2 / 25)) (Fin 0)" "\<not> flt (rnd (3 / 10)) (Fin (1 / 8))" "\<not> flt (Fin (1 / 4)) (Fin (1 / 16))"
  by (simp_all add: inside_margin_def float_eval)

lemma soft: "map_of ankles_soft motor_a = Some (Fin 0, Fin 4)" "map_of ankles_soft motor_b = Some (Fin 0, Fin 4)"
  by (simp_all add: ankles_soft_def)

lemma left_names: "dp_joint_names identity_pair = [''left_ankle_pitch_joint'', ''left_ankle_roll_joint'']"
  "LEFT_ANKLE = [''left_ankle_pitch_joint'', ''left_ankle_roll_joint'']"
  by (simp_all add: identity_pair_def LEFT_ANKLE_def)

lemma adjust_counts:
  "adjust motor_a f [(motor_a, x), (motor_b, y)] = [(motor_a, f x), (motor_b, y)]"
  "adjust motor_b f [(motor_a, x), (motor_b, y)] = [(motor_a, x), (motor_b, f y)]"
  by (simp_all add: adjust_def)

lemma pd_work_runs:
  assumes "\<And>name k c st. name = motor_a \<or> name = motor_b \<Longrightarrow>
      torque_encode (pl_limits left_plan) ankles_soft (ankle name k) (Inr (ankle_feedback name k c st)) host_torque =
      Inr (ankle_command name k d)" and "length d = 8"
  shows "\<exists>lt cc v1 v2 v3 v4 v5. pd_work entrywise_numpy identity_pair left_plan left_pair
       (pd_at fs 2 1 (Fin 0 # Fin 0 # Fin 0 # Fin 0 # ts) [Inr (ankle_frame 5 21), Inr (ankle_frame 6 22)] [Some 72, Some 72]
         pd_before zero_counts pd_target p) =
     Some (Inr (), pd_at (fs @ [wire_frame 5 d, wire_frame 6 d]) 3 1 ts [] [] lt cc pd_target (v1, v2, v3, v4, v5))"
proof -
  have plan: "pl_soft left_plan = ankles_soft" "tl_motor_torque (pl_limits left_plan) = Fin (1 / 4)"
    "tl_motor_velocity (pl_limits left_plan) = rnd (3 / 10)" "tl_joint_torque (pl_limits left_plan) = rnd (3 / 20)"
    "tl_joint_kp (pl_limits left_plan) = Fin (1 / 2)" "tl_joint_kd (pl_limits left_plan) = rnd (1 / 20)"
    "pl_position_drift left_plan = rnd (2 / 25)" "pl_position_error left_plan = rnd (2 / 25)"
    by (simp_all add: left_plan_def ankle_pd_plan_def)
  obtain vel tor cmd est err where p: "p = (vel, tor, cmd, est, err)" by (cases p)
  show ?thesis
    by (intro exI, subst p, simp add: pd_at_def
        pd_work_def pd_joint_def torque_command_def torque_answer_def drift_guard_def joint_state_def
        latest_of_def motor_torques_def guard_def receive_endpoint_def
        Let_def assms plan ankles_calls ankle_receives ankle_times pd_numbers
        identity_joints host_torque_value environment_app io_app io_when_app ankle_fields require_status_def
        lookup_result_def soft left_names adjust_counts
        indexed_def vec_at_def counted_def answered_def latest_is_def note_joint_def
        del: mg_call.simps steps.simps)
qed

lemma pd_prepares:
  "\<exists>d d' v. \<forall>body s. body (pd_at [wire_frame 5 d, wire_frame 6 d, wire_frame 5 d', wire_frame 6 d',
         wire_frame 5 ENABLE_PAYLOAD, wire_frame 6 ENABLE_PAYLOAD] 2 1
       [Fin 0, Fin 0, Fin 0, Fin 0, Fin 0, Fin 0, Fin 0, Fin 0, Fin 2]
       [Inr (ankle_frame 5 21), Inr (ankle_frame 6 22)] [Some 72, Some 72] pd_before zero_counts pd_target v) =
     Some (Inr (), s) \<longrightarrow> steps
     [io_for (pair_measure (rnd (5 / 100)) '' lacks soft-limit margin'' ankles_soft) left_pair,
      io_bind (io_get (\<lambda>s. rbind (reconstruct entrywise_numpy identity_pair [motor_a, motor_b] m (pv_initial s))
          (zip_strict (dp_joint_names identity_pair))))
        (\<lambda>r. io_bind (io_lift r) (\<lambda>joints. io_modify (\<lambda>s. s\<lparr>dv_target_joint := joints\<rparr>))),
      steps [io_for (prepare_motor pair_timeout pv_initial) left_pair, enable_all left_pair, body]]
     (pd_start pd_world [motor_a, motor_b] LEFT_ANKLE) = Some (Inr (), s)"
proof -
  obtain d0 where e0: "\<And>name k. encode_zero_gain_position_echo (ankle name k) (Fin 0) = Inr (ankle_command name k d0)"
    and l0: "length d0 = 8" using ankle_echo by blast
  obtain d1 where e1: "\<And>name k. encode_zero_gain_position_echo (ankle name k) (Fin 1) = Inr (ankle_command name k d1)"
    and l1: "length d1 = 8" using ankle_echo by blast
  let ?v = "(zeros_for LEFT_ANKLE, zeros_for LEFT_ANKLE, zeros_for [motor_a, motor_b], zeros_for [motor_a, motor_b],
    zeros_for LEFT_ANKLE)"
  show ?thesis
    by (rule exI [of _ d0], rule exI [of _ d1], rule exI [of _ ?v], simp add: pd_at_def pair_measure_def prepare_motor_def enable_all_def
        group_echo_def receive_endpoint_def reconstruct_def zip_strict_def pd_start_def pd_world_def Let_def e0 l0 e1 l1
        ankles_calls ankle_receives ankle_times pd_numbers identity_joints environment_app io_app io_when_app
        ankle_fields require_status_def lookup_result_def soft left_names dict_of_def
        del: mg_call.simps steps.simps)
qed

lemma pd_body_runs:
  "\<exists>fs lt cc v. pd_body entrywise_numpy identity_pair left_plan left_pair (rnd (1 / 500))
     (pd_start pd_world [motor_a, motor_b] LEFT_ANKLE) = Some (Inr (), pd_at fs 3 1 [] [] [] lt cc pd_target v)"
proof -
  obtain d where e: "\<And>name k c st. name = motor_a \<or> name = motor_b \<Longrightarrow>
      torque_encode (pl_limits left_plan) ankles_soft (ankle name k) (Inr (ankle_feedback name k c st)) host_torque =
      Inr (ankle_command name k d)" and l: "length d = 8" using ankle_torque_encode by blast
  let ?work = "pd_work entrywise_numpy identity_pair left_plan left_pair"
  let ?loop = "io_bind monotonic (\<lambda>start. io_loop 0 (paced_cycle (Fin 2) (\<lambda>_. ?work) (rnd (1 / 500)) start) start)"
  have soft: "pl_soft left_plan = ankles_soft" by (simp add: left_plan_def ankle_pd_plan_def)
  have loop: "\<exists>fs' lt cc v1 v2 v3 v4 v5. ?loop (pd_at fs 2 1 [Fin 0, Fin 0, Fin 0, Fin 0, Fin 0, Fin 0, Fin 0, Fin 0, Fin 2]
       [Inr (ankle_frame 5 21), Inr (ankle_frame 6 22)] [Some 72, Some 72] pd_before zero_counts pd_target p) =
     Some (Inr (), pd_at fs' 3 1 [] [] [] lt cc pd_target (v1, v2, v3, v4, v5))" for fs p
  proof -
    obtain lt cc v1 v2 v3 v4 v5 where work: "?work
       (pd_at fs 2 1 [Fin 0, Fin 0, Fin 0, Fin 0, Fin 0, Fin 2] [Inr (ankle_frame 5 21), Inr (ankle_frame 6 22)]
         [Some 72, Some 72] pd_before zero_counts pd_target p) =
       Some (Inr (), pd_at (fs @ [wire_frame 5 d, wire_frame 6 d]) 3 1 [Fin 0, Fin 2] [] [] lt cc pd_target (v1, v2, v3, v4, v5))"
      using pd_work_runs [OF e l, of fs "[Fin 0, Fin 2]" p] by blast
    have tick: "monotonic (pd_at fs c e (t # ts) rs tx lt cc tg q) = Some (Inr t, pd_at fs c e ts rs tx lt cc tg q)"
      for fs c e t ts rs tx lt cc tg q
      by (cases q) (simp add: monotonic_def pd_at_def)
    have clock: "wd_clock (pd_at fs c e ts rs tx lt cc tg q) = ts @ [Fin 2, Fin 2, Fin 2, Fin 2, Fin 2, Fin 2, Fin 2, Fin 2]"
      for fs c e ts rs tx lt cc tg q
      by (cases q) (simp add: pd_at_def)
    show ?thesis
      by (intro exI, simp add: io_app tick io_loop_def paced_cycle_def clock io_while_numeral pd_numbers work Let_def)
  qed
  have names: "map ep_motor_name left_pair = [motor_a, motor_b]" by (simp add: ankle_fields)
  from pd_prepares [of "pl_mechanism left_plan @ '' differential reconstruction is not finite''"] obtain d d' v where
    prepared: "\<And>body s. body (pd_at [wire_frame 5 d, wire_frame 6 d, wire_frame 5 d', wire_frame 6 d',
         wire_frame 5 ENABLE_PAYLOAD, wire_frame 6 ENABLE_PAYLOAD] 2 1
       [Fin 0, Fin 0, Fin 0, Fin 0, Fin 0, Fin 0, Fin 0, Fin 0, Fin 2]
       [Inr (ankle_frame 5 21), Inr (ankle_frame 6 22)] [Some 72, Some 72] pd_before zero_counts pd_target v) =
     Some (Inr (), s) \<Longrightarrow> steps
     [io_for (pair_measure (rnd (5 / 100)) '' lacks soft-limit margin'' ankles_soft) left_pair,
      io_bind (io_get (\<lambda>s. rbind (reconstruct entrywise_numpy identity_pair [motor_a, motor_b]
            (pl_mechanism left_plan @ '' differential reconstruction is not finite'') (pv_initial s))
          (zip_strict (dp_joint_names identity_pair))))
        (\<lambda>r. io_bind (io_lift r) (\<lambda>joints. io_modify (\<lambda>s. s\<lparr>dv_target_joint := joints\<rparr>))),
      steps [io_for (prepare_motor pair_timeout pv_initial) left_pair, enable_all left_pair, body]]
     (pd_start pd_world [motor_a, motor_b] LEFT_ANKLE) = Some (Inr (), s)" by blast
  from loop [of _ v] obtain fs lt cc q where "?loop (pd_at [wire_frame 5 d, wire_frame 6 d, wire_frame 5 d', wire_frame 6 d',
         wire_frame 5 ENABLE_PAYLOAD, wire_frame 6 ENABLE_PAYLOAD] 2 1
       [Fin 0, Fin 0, Fin 0, Fin 0, Fin 0, Fin 0, Fin 0, Fin 0, Fin 2]
       [Inr (ankle_frame 5 21), Inr (ankle_frame 6 22)] [Some 72, Some 72] pd_before zero_counts pd_target v) =
     Some (Inr (), pd_at fs 3 1 [] [] [] lt cc pd_target q)" by blast
  from prepared [of ?loop, OF this] show ?thesis
    unfolding pd_body_def powered_run_def soft names by blast
qed

lemma left_plan_checks: "pd_checks left_plan (wd_writer pd_world) left_pair identity_pair = Inr (rnd (1 / 500))"
proof -
  have "list_all (\<lambda>v. isfinite v \<and> flt (Fin 0) v)
      [Fin (1 / 2), rnd (5 / 100), rnd (15 / 100), Fin (1 / 4), rnd (3 / 10), rnd (8 / 100), rnd (8 / 100)]"
    by (simp add: float_eval)
  then show ?thesis
    by (simp add: pd_checks_def Let_def third pd_world_def left_plan_def ankle_pd_plan_def ankles_pair_checks del: fdiv.simps)
qed

lemma ankle_joints: "dp_joint_names identity_pair = LEFT_ANKLE"
  by (simp add: identity_pair_def)

lemma left_gate:
  obtains report s where
    "run_differential_pair_joint_pd_gate entrywise_numpy left_pair identity_pair left_plan pd_world = Some (Inr report, s)"
    and "jr_gate_errors report = []"
proof -
  obtain fs lt cc v where body: "pd_body entrywise_numpy identity_pair left_plan left_pair (rnd (1 / 500))
     (pd_start pd_world [motor_a, motor_b] LEFT_ANKLE) = Some (Inr (), pd_at fs 3 1 [] [] [] lt cc pd_target v)"
    using pd_body_runs by blast
  obtain v1 v2 v3 v4 v5 where v: "v = (v1, v2, v3, v4, v5)" by (cases v)
  have "map_of [(motor_a, Fin 1), (motor_b, Fin 1)] motor_a = Some (Fin 1)"
    "map_of [(motor_a, Fin 1), (motor_b, Fin 1)] motor_b = Some (Fin 1)" by simp_all
  from ankles_shut_down [OF this disjI2 [OF refl], of fs "(3, 3)" "(1, 1)" "[]" lt cc cc]
  obtain s where down: "group_shut_down pair_timeout pv_initial left_pair (pd_at fs 3 1 [] [] [] lt cc pd_target v) =
      Some (Inr (), s)" and clean: "gh_errors s = []"
    unfolding pd_at_def v by fastforce
  have "guarded_run pair_timeout pv_initial left_pair (pd_body entrywise_numpy identity_pair left_plan left_pair (rnd (1 / 500)))
      (pd_start pd_world [motor_a, motor_b] LEFT_ANKLE) = Some (Inr (), s)"
    using down by (simp add: guarded_run_def io_app body del: steps.simps)
  then have "run_differential_pair_joint_pd_gate entrywise_numpy left_pair identity_pair left_plan pd_world =
      Some (Inr (pd_report_of left_plan left_pair s), s)"
    by (simp add: run_differential_pair_joint_pd_gate_def run_gate_def left_plan_checks ankle_fields ankle_joints)
  moreover from clean have "jr_gate_errors (pd_report_of left_plan left_pair s) = []" by (simp add: pd_report_of_def)
  ultimately show thesis by (rule that)
qed

lemma left_plan_fields: "distinct (map fst (pl_expected left_plan))" "tl_motor_torque (pl_limits left_plan) = Fin (1 / 4)"
  "new_motor_group_writer ''kcan1'' [(motor_a, 5), (motor_b, 6)] = Inr (wd_writer pd_world)"
  "map_of (mg_can_id_by_name (wd_writer pd_world)) motor_a = Some 5" "list_all (\<lambda>t. t = Some 72) (wd_tx pd_world)"
  by (simp_all add: left_plan_def ankle_pd_plan_def pd_world_def ankles_new) (simp add: ankles_writer_def)

theorem joint_pd_gate_fails_closed_witness:
  "\<exists>report s. run_differential_pair_joint_pd_gate entrywise_numpy left_pair identity_pair left_plan pd_world = Some (Inr report, s) \<and>
    gate_outcome (Fin (- 1 / 16), Fin 5) (Fin (1 / 4)) 5 motor_a True (pd_report_of left_plan left_pair) (Inr report) s"
proof -
  obtain report s where run: "run_differential_pair_joint_pd_gate entrywise_numpy left_pair identity_pair left_plan pd_world =
      Some (Inr report, s)" by (rule left_gate)
  from joint_pd_gate_fails_closed [OF run left_plan_fields(1,3) failing_facts(4)] left_plan_fields
  have "gate_outcome (Fin (- 1 / 16), Fin 5) (Fin (1 / 4)) 5 motor_a True (pd_report_of left_plan left_pair) (Inr report) s"
    by (simp add: left_plan_checks ankle_fields ankles_range)
  with run show ?thesis by blast
qed


end
