(* ===== verification/MotorMapping.thy ===== *)
theory MotorMapping
  imports Coupling HardwareConfig DamiaoProbe
begin

text \<open>
  The maps between policy joints and physical motors (\<open>motor_mapping.py\<close>): single motors with a signed
  ratio, the drive impedance of a differential pair, the map of the whole robot, and its construction
  from the hardware document.
\<close>

section \<open>Direct motors\<close>

record direct_map =
  dm_motor_name :: string
  dm_policy_joint :: string
  dm_drive_zero_rad :: pyfloat
  dm_encoder_sign :: int
  dm_policy_to_motor_sign :: int
  dm_total_ratio :: pyfloat

definition finite_scalar :: "string \<Rightarrow> pyfloat \<Rightarrow> pyfloat result" where
  "finite_scalar name x = (if isfinite x then Inr x else Inl (ValueError (name @ '' must be finite'')))"

definition sign_value :: "string \<Rightarrow> json \<Rightarrow> int result" where
  "sign_value name v = (if json_eq_int v 1 then Inr 1 else if json_eq_int v (- 1) then Inr (- 1)
     else Inl (ValueError (name @ '' must be -1 or 1'')))"

definition new_direct_map ::
  "numerics \<Rightarrow> string \<Rightarrow> string \<Rightarrow> json \<Rightarrow> json \<Rightarrow> json \<Rightarrow> pyfloat \<Rightarrow> direct_map result" where
  "new_direct_map N motor joint zero encoder policy ratio =
     (if motor = [] \<or> joint = [] then Inl (ValueError ''motor_name and policy_joint are required'')
      else rbind (rbind (to_float (parse_float N) zero) (finite_scalar ''drive_zero_rad'')) (\<lambda>z.
      rbind (sign_value ''encoder_sign'' encoder) (\<lambda>e.
      rbind (sign_value ''policy_to_motor_sign'' policy) (\<lambda>p.
      rbind (finite_scalar ''total_ratio'' ratio) (\<lambda>r.
        if fle r (Fin 0) then Inl (ValueError ''total_ratio must be positive'')
        else Inr \<lparr>dm_motor_name = motor, dm_policy_joint = joint, dm_drive_zero_rad = z,
          dm_encoder_sign = e, dm_policy_to_motor_sign = p, dm_total_ratio = r\<rparr>)))))"

definition signed_ratio :: "direct_map \<Rightarrow> pyfloat" where
  "signed_ratio m = fmul (Fin (of_int (dm_encoder_sign m * dm_policy_to_motor_sign m))) (dm_total_ratio m)"

definition direct_to_drive_position :: "direct_map \<Rightarrow> pyfloat \<Rightarrow> pyfloat result" where
  "direct_to_drive_position m x = rbind (finite_scalar ''joint position'' x) (\<lambda>q.
     Inr (fadd (dm_drive_zero_rad m) (fmul (signed_ratio m) q)))"

definition drive_to_direct_position :: "direct_map \<Rightarrow> pyfloat \<Rightarrow> pyfloat result" where
  "drive_to_direct_position m x = rbind (finite_scalar ''drive position'' x) (\<lambda>q.
     fdiv (fsub q (dm_drive_zero_rad m)) (signed_ratio m))"

definition direct_to_drive_velocity :: "direct_map \<Rightarrow> pyfloat \<Rightarrow> pyfloat result" where
  "direct_to_drive_velocity m x = rbind (finite_scalar ''joint velocity'' x) (\<lambda>v. Inr (fmul (signed_ratio m) v))"

definition drive_to_direct_velocity :: "direct_map \<Rightarrow> pyfloat \<Rightarrow> pyfloat result" where
  "drive_to_direct_velocity m x = rbind (finite_scalar ''drive velocity'' x) (\<lambda>v. fdiv v (signed_ratio m))"

definition direct_to_drive_torque :: "direct_map \<Rightarrow> pyfloat \<Rightarrow> pyfloat result" where
  "direct_to_drive_torque m x = rbind (finite_scalar ''joint torque'' x) (\<lambda>t. fdiv t (signed_ratio m))"

definition drive_to_direct_torque :: "direct_map \<Rightarrow> pyfloat \<Rightarrow> pyfloat result" where
  "drive_to_direct_torque m x = rbind (finite_scalar ''drive torque'' x) (\<lambda>t. Inr (fmul (signed_ratio m) t))"

definition direct_to_drive_gains :: "direct_map \<Rightarrow> pyfloat \<Rightarrow> pyfloat \<Rightarrow> (pyfloat \<times> pyfloat) result" where
  "direct_to_drive_gains m kp kd = (let scale = fmul (dm_total_ratio m) (dm_total_ratio m) in
     rbind (rbind (finite_scalar ''joint kp'' kp) (\<lambda>x. fdiv x scale)) (\<lambda>p.
     rbind (rbind (finite_scalar ''joint kd'' kd) (\<lambda>x. fdiv x scale)) (\<lambda>d. Inr (p, d))))"

definition direct_impedance_command ::
  "direct_map \<Rightarrow> pyfloat \<Rightarrow> pyfloat \<Rightarrow> pyfloat \<Rightarrow> pyfloat \<Rightarrow> pyfloat \<Rightarrow> mit_command result" where
  "direct_impedance_command m position velocity kp kd feedforward =
     rbind (direct_to_drive_gains m kp kd) (\<lambda>(drive_kp, drive_kd).
     rbind (direct_to_drive_position m position) (\<lambda>p.
     rbind (direct_to_drive_velocity m velocity) (\<lambda>v.
     rbind (direct_to_drive_torque m feedforward) (\<lambda>t.
       new_mit_command p v drive_kp drive_kd t))))"

section \<open>The drive impedance of a pair\<close>

text \<open>
  The exact joint impedance in drive coordinates, split into the diagonal gains the drives apply
  themselves and the coupled rest, which the host adds as a torque.
\<close>

definition pair_impedance_commands ::
  "numpy \<Rightarrow> drive_pair \<Rightarrow> vec \<Rightarrow> vec \<Rightarrow> vec \<Rightarrow> vec \<Rightarrow> vec \<Rightarrow> vec \<Rightarrow> vec \<Rightarrow> mit_command list result" where
  "pair_impedance_commands np p dpos dvel mpos mvel kp kd ff =
     (if \<not> list_all (finite_vector 2) [dpos, dvel, mpos, mvel, kp, kd, ff]
      then Inl (ValueError ''differential impedance inputs must be finite two-vectors'')
      else if any_negative kp \<or> any_negative kd
      then Inl (ValueError ''differential impedance gains must be non-negative'')
      else rbind (pair_to_drive_position np p dpos) (\<lambda>dpos'.
      rbind (pair_to_drive_velocity np p dvel) (\<lambda>dvel'.
      rbind (pair_to_drive_position np p mpos) (\<lambda>mpos'.
      rbind (pair_to_drive_velocity np p mvel) (\<lambda>mvel'.
      rbind (np_inv np (joint_to_drive_matrix np p)) (\<lambda>inverse.
        let position_error = np_subtract np dpos' mpos';
            velocity_error = np_subtract np dvel' mvel';
            drive = (\<lambda>g. np_matmul np (np_matmul np (np_transpose np inverse) (np_diag np g)) inverse);
            embedded_kp = np_diagonal np (drive kp);
            embedded_kd = np_diagonal np (drive kd);
            coupled_torque = np_add np
              (np_add np (np_matvec np (np_matsub np (drive kp) (np_diag np embedded_kp)) position_error)
                         (np_matvec np (np_matsub np (drive kd) (np_diag np embedded_kd)) velocity_error))
              (np_matvec np (np_transpose np inverse) ff)
        in rmap (\<lambda>i. rbind (vec_at dpos' i) (\<lambda>x. rbind (vec_at dvel' i) (\<lambda>v.
             rbind (vec_at embedded_kp i) (\<lambda>k. rbind (vec_at embedded_kd i) (\<lambda>d.
             rbind (vec_at coupled_torque i) (\<lambda>t. new_mit_command x v k d t)))))) [0, 1]))))))"

section \<open>The map of the robot\<close>

record motor_map =
  mm_policy_joint_names :: "string list"
  mm_direct :: "(string, direct_map) dict"
  mm_differentials :: "(string, drive_pair) dict"

definition new_motor_map ::
  "string list \<Rightarrow> (string, direct_map) dict \<Rightarrow> (string, drive_pair) dict \<Rightarrow> motor_map result" where
  "new_motor_map names direct differentials =
     (if length names \<noteq> 31 \<or> \<not> distinct names
      then Inl (ValueError ''policy_joint_names must contain 31 unique joints'')
      else if set (keys direct) \<noteq> set names - set DIFFERENTIAL_JOINTS
      then Inl (ValueError ''direct motor map does not exactly cover non-differential joints'')
      else if set (keys differentials) \<noteq> set (keys DIFFERENTIAL_PAIRS)
      then Inl (ValueError ''left/right ankle and head differential maps are required'')
      else Inr \<lparr>mm_policy_joint_names = names, mm_direct = direct, mm_differentials = differentials\<rparr>)"

definition ankles :: "motor_map \<Rightarrow> (string, drive_pair) dict result" where
  "ankles m = rbind (lookup_result (mm_differentials m) ''left_ankle'') (\<lambda>l.
     rbind (lookup_result (mm_differentials m) ''right_ankle'') (\<lambda>r.
       Inr [(''left'', l), (''right'', r)]))"

definition physical_motor_names :: "motor_map \<Rightarrow> string list result" where
  "physical_motor_names m = rbind (rmap (lookup_result (mm_differentials m)) (keys DIFFERENTIAL_PAIRS)) (\<lambda>ps.
     Inr (map (dm_motor_name \<circ> snd) (mm_direct m) @ concat (map dp_motor_names ps)))"

definition map_vector :: "string \<Rightarrow> vec \<Rightarrow> vec result" where
  "map_vector name v = (if finite_vector 31 v then Inr v
     else Inl (ValueError (name @ '' must be a finite 31-vector'')))"

datatype map_kind = MapPosition | MapVelocity | MapTorque

fun kind_name :: "map_kind \<Rightarrow> string" where
  "kind_name MapPosition = ''position''"
| "kind_name MapVelocity = ''velocity''"
| "kind_name MapTorque = ''torque''"

fun direct_to_drive :: "map_kind \<Rightarrow> direct_map \<Rightarrow> pyfloat \<Rightarrow> pyfloat result" where
  "direct_to_drive MapPosition = direct_to_drive_position"
| "direct_to_drive MapVelocity = direct_to_drive_velocity"
| "direct_to_drive MapTorque = direct_to_drive_torque"

fun drive_to_direct :: "map_kind \<Rightarrow> direct_map \<Rightarrow> pyfloat \<Rightarrow> pyfloat result" where
  "drive_to_direct MapPosition = drive_to_direct_position"
| "drive_to_direct MapVelocity = drive_to_direct_velocity"
| "drive_to_direct MapTorque = drive_to_direct_torque"

fun pair_to_drive :: "map_kind \<Rightarrow> numpy \<Rightarrow> drive_pair \<Rightarrow> vec \<Rightarrow> vec result" where
  "pair_to_drive MapPosition = pair_to_drive_position"
| "pair_to_drive MapVelocity = pair_to_drive_velocity"
| "pair_to_drive MapTorque = pair_to_drive_torque"

fun drive_to_pair :: "map_kind \<Rightarrow> numpy \<Rightarrow> drive_pair \<Rightarrow> vec \<Rightarrow> vec result" where
  "drive_to_pair MapPosition = drive_to_pair_position"
| "drive_to_pair MapVelocity = drive_to_pair_velocity"
| "drive_to_pair MapTorque = drive_to_pair_torque"

text \<open>\<open>d.update(zip(names, values, strict=True))\<close>\<close>

definition update_strict :: "(string, 'v) dict \<Rightarrow> string list \<Rightarrow> 'v list \<Rightarrow> (string, 'v) dict result" where
  "update_strict d names vs = (if length names \<noteq> length vs
     then Inl (ValueError ''zip() arguments have different lengths'')
     else Inr (foldl (\<lambda>d (k, v). dict_set d k v) d (zip names vs)))"

text \<open>\<open>for key in keys: d = f(d, key)\<close>, where \<open>f\<close> can raise.\<close>

fun rfold :: "('d \<Rightarrow> 'k \<Rightarrow> 'd result) \<Rightarrow> 'd \<Rightarrow> 'k list \<Rightarrow> 'd result" where
  "rfold f d [] = Inr d"
| "rfold f d (k # ks) = rbind (f d k) (\<lambda>d'. rfold f d' ks)"

definition joint_to_motor :: "numpy \<Rightarrow> motor_map \<Rightarrow> map_kind \<Rightarrow> vec \<Rightarrow> (string, pyfloat) dict result" where
  "joint_to_motor np m kind v = rbind (map_vector (''joint '' @ kind_name kind) v) (\<lambda>vector.
     let joint = zip (mm_policy_joint_names m) vector in
     rbind (rfold (\<lambda>d (name, mapping). rbind (lookup_result joint name) (\<lambda>x.
         rbind (direct_to_drive kind mapping x) (\<lambda>y. Inr (dict_set d (dm_motor_name mapping) y))))
       [] (mm_direct m)) (\<lambda>result.
     rbind (rfold (\<lambda>d (_, mapping). rbind (rmap (lookup_result joint) (dp_joint_names mapping)) (\<lambda>xs.
         rbind (pair_to_drive kind np mapping xs) (update_strict d (dp_motor_names mapping))))
       result (mm_differentials m)) (\<lambda>result.
     if length result \<noteq> 31
     then Inl (RuntimeError ''policy-to-motor mapping did not produce 31 physical motors'')
     else Inr result)))"

definition joint_to_motor_positions :: "numpy \<Rightarrow> motor_map \<Rightarrow> vec \<Rightarrow> (string, pyfloat) dict result" where
  "joint_to_motor_positions np m = joint_to_motor np m MapPosition"

definition joint_to_motor_velocities :: "numpy \<Rightarrow> motor_map \<Rightarrow> vec \<Rightarrow> (string, pyfloat) dict result" where
  "joint_to_motor_velocities np m = joint_to_motor np m MapVelocity"

definition joint_to_motor_torques :: "numpy \<Rightarrow> motor_map \<Rightarrow> vec \<Rightarrow> (string, pyfloat) dict result" where
  "joint_to_motor_torques np m = joint_to_motor np m MapTorque"

definition motor_values ::
  "motor_map \<Rightarrow> string \<Rightarrow> (string, pyfloat) dict \<Rightarrow> (string, pyfloat) dict result" where
  "motor_values m name vs = rbind (physical_motor_names m) (\<lambda>motors.
     if set (keys vs) \<noteq> set motors
     then Inl (ValueError (name @ '' must exactly cover all 31 physical motors''))
     else rmap (\<lambda>(k, v). rbind (finite_scalar name v) (\<lambda>x. Inr (k, x))) vs)"

definition motor_to_joint :: "numpy \<Rightarrow> motor_map \<Rightarrow> map_kind \<Rightarrow> (string, pyfloat) dict \<Rightarrow> vec result" where
  "motor_to_joint np m kind vs = rbind (motor_values m (''motor '' @ kind_name kind) vs) (\<lambda>motor.
     rbind (rfold (\<lambda>d (name, mapping). rbind (lookup_result motor (dm_motor_name mapping)) (\<lambda>x.
         rbind (drive_to_direct kind mapping x) (\<lambda>y. Inr (dict_set d name y))))
       [] (mm_direct m)) (\<lambda>joint.
     rbind (rfold (\<lambda>d (_, mapping). rbind (rmap (lookup_result motor) (dp_motor_names mapping)) (\<lambda>xs.
         rbind (drive_to_pair kind np mapping xs) (update_strict d (dp_joint_names mapping))))
       joint (mm_differentials m)) (\<lambda>joint.
     rmap (lookup_result joint) (mm_policy_joint_names m))))"

definition motor_to_joint_positions :: "numpy \<Rightarrow> motor_map \<Rightarrow> (string, pyfloat) dict \<Rightarrow> vec result" where
  "motor_to_joint_positions np m = motor_to_joint np m MapPosition"

definition motor_to_joint_velocities :: "numpy \<Rightarrow> motor_map \<Rightarrow> (string, pyfloat) dict \<Rightarrow> vec result" where
  "motor_to_joint_velocities np m = motor_to_joint np m MapVelocity"

definition motor_to_joint_torques :: "numpy \<Rightarrow> motor_map \<Rightarrow> (string, pyfloat) dict \<Rightarrow> vec result" where
  "motor_to_joint_torques np m = motor_to_joint np m MapTorque"

section \<open>Impedance commands\<close>

record joint_impedance =
  ji_desired_position :: vec
  ji_desired_velocity :: vec
  ji_measured_position :: vec
  ji_measured_velocity :: vec
  ji_kp :: vec
  ji_kd :: vec
  ji_feedforward :: vec

definition impedance_vectors :: "joint_impedance \<Rightarrow> joint_impedance result" where
  "impedance_vectors j =
     rbind (map_vector ''desired position'' (ji_desired_position j)) (\<lambda>_.
     rbind (map_vector ''desired velocity'' (ji_desired_velocity j)) (\<lambda>_.
     rbind (map_vector ''measured position'' (ji_measured_position j)) (\<lambda>_.
     rbind (map_vector ''measured velocity'' (ji_measured_velocity j)) (\<lambda>_.
     rbind (map_vector ''joint kp'' (ji_kp j)) (\<lambda>_. rbind (map_vector ''joint kd'' (ji_kd j)) (\<lambda>_.
     rbind (map_vector ''joint feedforward'' (ji_feedforward j)) (\<lambda>_.
       if any_negative (ji_kp j) \<or> any_negative (ji_kd j)
       then Inl (ValueError ''joint impedance gains must be non-negative'')
       else Inr j)))))))"

definition index_of :: "string list \<Rightarrow> string \<Rightarrow> nat result" where
  "index_of names name = lookup_result (zip names [0..<length names]) name"

definition entries :: "vec \<Rightarrow> nat list \<Rightarrow> vec" where
  "entries v is = map ((!) v) is"

definition direct_command ::
  "motor_map \<Rightarrow> joint_impedance \<Rightarrow> (string, mit_command) dict \<Rightarrow> string \<times> direct_map
     \<Rightarrow> (string, mit_command) dict result" where
  "direct_command m j = (\<lambda>d (name, mapping). rbind (index_of (mm_policy_joint_names m) name) (\<lambda>i.
     rbind (direct_impedance_command mapping (ji_desired_position j ! i) (ji_desired_velocity j ! i)
       (ji_kp j ! i) (ji_kd j ! i) (ji_feedforward j ! i)) (\<lambda>c. Inr (dict_set d (dm_motor_name mapping) c))))"

definition pair_command ::
  "numpy \<Rightarrow> motor_map \<Rightarrow> joint_impedance \<Rightarrow> (string, mit_command) dict \<Rightarrow> string \<times> drive_pair
     \<Rightarrow> (string, mit_command) dict result" where
  "pair_command np m j = (\<lambda>d (_, mapping).
     rbind (rmap (index_of (mm_policy_joint_names m)) (dp_joint_names mapping)) (\<lambda>is.
     rbind (pair_impedance_commands np mapping (entries (ji_desired_position j) is)
       (entries (ji_desired_velocity j) is) (entries (ji_measured_position j) is)
       (entries (ji_measured_velocity j) is) (entries (ji_kp j) is) (entries (ji_kd j) is)
       (entries (ji_feedforward j) is)) (update_strict d (dp_motor_names mapping))))"

definition joint_impedance_to_motor_commands ::
  "numpy \<Rightarrow> motor_map \<Rightarrow> joint_impedance \<Rightarrow> (string, mit_command) dict result" where
  "joint_impedance_to_motor_commands np m impedance = rbind (impedance_vectors impedance) (\<lambda>j.
     rbind (rfold (direct_command m j) [] (mm_direct m)) (\<lambda>commands.
     rbind (rfold (pair_command np m j) commands (mm_differentials m)) (\<lambda>commands.
     rbind (physical_motor_names m) (\<lambda>motors.
       if set (keys commands) \<noteq> set motors
       then Inl (RuntimeError ''impedance mapping did not produce the exact physical motor set'')
       else Inr commands))))"

section \<open>The map of a hardware document\<close>

text \<open>
  \<open>len(v)\<close>; \<open>v.items()\<close> and \<open>v.get(key)\<close>, which only a dictionary has; an array as a vector and as a
  matrix, where the shapes that every later test refuses become the empty vector.
\<close>

fun json_len :: "json \<Rightarrow> nat result" where
  "json_len (JObj kvs) = Inr (length kvs)"
| "json_len (JArr xs) = Inr (length xs)"
| "json_len (JStr s) = Inr (length s)"
| "json_len _ = Inl (TypeError ''object has no len()'')"

definition json_items :: "json \<Rightarrow> (string, json) dict result" where
  "json_items v = (if is_dict v then Inr (jfields v) else Inl (AttributeError ''object has no attribute items''))"

definition json_get :: "json \<Rightarrow> string \<Rightarrow> json result" where
  "json_get v k = (if is_dict v then Inr (jget v k) else Inl (AttributeError ''object has no attribute get''))"

definition array_vector :: "numerics \<Rightarrow> json \<Rightarrow> vec result" where
  "array_vector N v = rbind (as_array N v) (\<lambda>(shape, xs).
     Inr (if shape = [length xs] then xs else []))"

definition array_matrix :: "numerics \<Rightarrow> json \<Rightarrow> mat result" where
  "array_matrix N v = rbind (as_array N v) (\<lambda>(shape, xs).
     Inr (case xs of [a, b, c, d] \<Rightarrow> if shape = [2, 2] then [[a, b], [c, d]] else [] | _ \<Rightarrow> []))"

text \<open>
  The direct motors: a record without \<open>policy_joint\<close> is skipped. A \<open>policy_joint\<close> that is not a string
  never survives the checks of the constructors; here it raises at once.
\<close>

definition direct_of_record ::
  "numerics \<Rightarrow> (string, direct_map) dict \<Rightarrow> string \<times> json \<Rightarrow> (string, direct_map) dict result" where
  "direct_of_record N = (\<lambda>d (motor, rec). rbind (json_get rec ''policy_joint'') (\<lambda>joint.
     case joint of JNull \<Rightarrow> Inr d
     | JStr name \<Rightarrow>
         rbind (jindex rec ''motor_zero_rad'') (\<lambda>zero. rbind (jindex rec ''encoder_sign'') (\<lambda>encoder.
         rbind (jindex rec ''policy_to_motor_sign'') (\<lambda>policy.
         rbind (float_field N rec ''reduction_ratio'') (\<lambda>reduction.
         rbind (float_field N rec ''linkage_ratio'') (\<lambda>linkage.
         rbind (new_direct_map N motor name zero encoder policy (fmul reduction linkage)) (\<lambda>mapping.
           Inr (dict_set d name mapping)))))))
     | _ \<Rightarrow> Inl (TypeError ''policy_joint must be a string'')))"

definition record_field :: "json \<Rightarrow> string \<Rightarrow> json \<Rightarrow> json result" where
  "record_field records field name = (case name of
       JStr n \<Rightarrow> rbind (jindex records n) (\<lambda>rec. jindex rec field)
     | _ \<Rightarrow> Inl (KeyError []))"

definition pair_of_record ::
  "numerics \<Rightarrow> numpy \<Rightarrow> json \<Rightarrow> json \<Rightarrow> (string, drive_pair) dict \<Rightarrow> string \<times> string list
     \<Rightarrow> (string, drive_pair) dict result" where
  "pair_of_record N np hardware records = (\<lambda>d (name, joints).
     rbind (rbind (jindex hardware ''differentials'') (\<lambda>v. jindex v name)) (\<lambda>rec.
     rbind (rbind (jindex rec ''motor_names'') json_iter) (\<lambda>motors.
     rbind (rbind (rmap (record_field records ''motor_zero_rad'') motors) (\<lambda>vs. array_vector N (JArr vs))) (\<lambda>zeros.
     rbind (rbind (rmap (record_field records ''encoder_sign'') motors) (\<lambda>vs. array_vector N (JArr vs))) (\<lambda>signs.
     rbind (rbind (jindex rec ''joint_to_motor_matrix'') (array_matrix N)) (\<lambda>matrix.
     rbind (rbind (jindex rec ''motor_zero_rad'') (array_vector N)) (\<lambda>zero.
     rbind (new_differential_pair np matrix zero) (\<lambda>coupling.
     rbind (new_drive_pair name joints (map jstring motors) zeros signs coupling) (\<lambda>pair.
       Inr (dict_set d name pair))))))))))"

definition motor_map_checks :: "numerics \<Rightarrow> json \<Rightarrow> string list \<Rightarrow> bool \<Rightarrow> unit result" where
  "motor_map_checks N hardware policy require_armable =
     (if require_armable
      then if jget hardware ''configured'' \<noteq> JBool True
        then Inl (ValueError ''hardware configured=true is required for a motor map'')
        else rbind (validate_hardware_inventory N hardware policy) (\<lambda>report.
          if \<not> inventory_valid report
          then Inl (ValueError (''hardware inventory is invalid: '' @ join ''; '' (hw_errors report)))
          else Inr ())
      else rbind (json_len (if ''motor_map'' \<in> set (keys (jfields hardware)) then jget hardware ''motor_map'' else JObj []))
        (\<lambda>n. if n \<noteq> 31 then Inl (ValueError ''receive-only motor map requires exactly 31 physical motors'')
          else Inr ()))"

definition motor_map_from_hardware_config ::
  "numerics \<Rightarrow> numpy \<Rightarrow> json \<Rightarrow> string list \<Rightarrow> bool \<Rightarrow> motor_map result" where
  "motor_map_from_hardware_config N np hardware policy require_armable =
     rbind (motor_map_checks N hardware policy require_armable) (\<lambda>_.
     rbind (jindex hardware ''motor_map'') (\<lambda>records.
     rbind (rbind (json_items records) (rfold (direct_of_record N) [])) (\<lambda>direct.
     rbind (rfold (pair_of_record N np hardware records) [] DIFFERENTIAL_PAIRS) (\<lambda>differentials.
     rbind (new_motor_map policy direct differentials) (\<lambda>m.
     rbind (physical_motor_names m) (\<lambda>motors.
       if set motors \<noteq> set (keys (jfields records))
       then Inl (ValueError ''coordinate map does not exactly cover hardware motor_map'')
       else Inr m))))))"

end
