(* ===== verification/MappingSafety.thy ===== *)
theory MappingSafety
  imports MotorMapping
begin

text \<open>
  What the maps of \<open>motor_mapping.py\<close> promise: a joint vector reaches every physical motor exactly once,
  through the transform of that motor, and the scalar maps raise for no finite value.
\<close>

section \<open>Loops that fill a dictionary\<close>

lemma update_strict_spec:
  assumes "update_strict d names vs = Inr d'"
  shows "set (keys d') = set (keys d) \<union> set names" and "distinct (keys d) \<Longrightarrow> distinct (keys d')"
    and "n \<notin> set names \<Longrightarrow> map_of d' n = map_of d n"
    and "distinct names \<Longrightarrow> map (map_of d') names = map Some vs"
proof -
  from assms have l: "length names = length vs" and d': "d' = foldl (\<lambda>d (k, v). dict_set d k v) d (zip names vs)"
    by (auto simp: update_strict_def split: if_splits)
  have look: "map_of (foldl (\<lambda>d (k, v). dict_set d k v) d (zip ns xs)) n = map_of d n"
    if "n \<notin> set ns" "length ns = length xs" for ns :: "string list" and xs :: "'a list" and n d
    using that(2,1) by (induction ns xs arbitrary: d rule: list_induct2) auto
  have "map (map_of (foldl (\<lambda>d (k, v). dict_set d k v) d (zip ns xs))) ns = map Some xs"
    if "length ns = length xs" "distinct ns" for ns :: "string list" and xs :: "'a list" and d
    using that by (induction ns xs arbitrary: d rule: list_induct2) (auto simp: look)
  then show "distinct names \<Longrightarrow> map (map_of d') names = map Some vs" using l d' by blast
  from l have "fst ` set (zip names vs) = set names" by (metis list.set_map map_fst_zip)
  then show "set (keys d') = set (keys d) \<union> set names"
    by (simp add: d' dict_fold_keys)
  show "n \<notin> set names \<Longrightarrow> map_of d' n = map_of d n" using l look by (simp add: d')
  show "distinct (keys d) \<Longrightarrow> distinct (keys d')" unfolding d' by (rule dict_fold_distinct)
qed

lemma set_keys_dict_set: "set (keys (dict_set d k v)) = insert k (set (keys d))"
  by simp

text \<open>
  A step writes the entries \<open>names k\<close> of its key and nothing else; the values satisfy \<open>meant k\<close>.
\<close>

locale filler =
  fixes step :: "(string, 'v) dict \<Rightarrow> 'k \<Rightarrow> (string, 'v) dict result"
    and names :: "'k \<Rightarrow> string list" and meant :: "'k \<Rightarrow> 'v list \<Rightarrow> bool"
  assumes step_keys: "step d k = Inr d' \<Longrightarrow> set (keys d') = set (keys d) \<union> set (names k)"
    and step_distinct: "step d k = Inr d' \<Longrightarrow> distinct (keys d) \<Longrightarrow> distinct (keys d')"
    and step_other: "step d k = Inr d' \<Longrightarrow> n \<notin> set (names k) \<Longrightarrow> map_of d' n = map_of d n"
    and step_meant: "step d k = Inr d' \<Longrightarrow> distinct (names k) \<Longrightarrow>
      \<exists>ys. meant k ys \<and> map (map_of d') (names k) = map Some ys"
begin

lemma fold_keys: "rfold step d ks = Inr d' \<Longrightarrow> set (keys d') = set (keys d) \<union> set (concat (map names ks))"
proof (induction ks arbitrary: d)
  case (Cons k ks)
  then obtain d1 where "step d k = Inr d1" "rfold step d1 ks = Inr d'" by (auto simp: rbind_eq_Inr)
  with Cons.IH [of d1] step_keys [of d k d1] show ?case by auto
qed simp

lemma fold_distinct: "rfold step d ks = Inr d' \<Longrightarrow> distinct (keys d) \<Longrightarrow> distinct (keys d')"
proof (induction ks arbitrary: d)
  case (Cons k ks)
  then obtain d1 where "step d k = Inr d1" "rfold step d1 ks = Inr d'" by (auto simp: rbind_eq_Inr)
  with Cons.IH [of d1] step_distinct [of d k d1] Cons.prems(2) show ?case by blast
qed simp

lemma fold_other:
  "rfold step d ks = Inr d' \<Longrightarrow> n \<notin> set (concat (map names ks)) \<Longrightarrow> map_of d' n = map_of d n"
proof (induction ks arbitrary: d)
  case (Cons k ks)
  then obtain d1 where "step d k = Inr d1" "rfold step d1 ks = Inr d'" by (auto simp: rbind_eq_Inr)
  with Cons.IH [of d1] step_other [of d k d1 n] Cons.prems(2) show ?case by simp
qed simp

lemma fold_meant:
  "rfold step d ks = Inr d' \<Longrightarrow> distinct (concat (map names ks)) \<Longrightarrow> k \<in> set ks \<Longrightarrow>
    \<exists>ys. meant k ys \<and> map (map_of d') (names k) = map Some ys"
proof (induction ks arbitrary: d)
  case (Cons j ks)
  then obtain d1 where j: "step d j = Inr d1" and rest: "rfold step d1 ks = Inr d'" by (auto simp: rbind_eq_Inr)
  show ?case
  proof (cases "k \<in> set ks")
    case True
    with Cons.IH [OF rest] Cons.prems(2) show ?thesis by simp
  next
    case False
    with Cons.prems have "k = j" "distinct (names j)" by auto
    moreover have "map (map_of d') (names j) = map (map_of d1) (names j)"
      using fold_other [OF rest] Cons.prems(2) by auto
    ultimately show ?thesis using step_meant [OF j] by metis
  qed
qed simp

end

text \<open>The two loops of \<open>_joint_to_motor\<close> and the two of \<open>_motor_to_joint\<close>.\<close>

interpretation to_motor_direct: filler
  "\<lambda>d (name, mapping). rbind (lookup_result joint name) (\<lambda>x. rbind (direct_to_drive kind mapping x)
     (\<lambda>y. Inr (dict_set d (dm_motor_name mapping) y)))"
  "\<lambda>(name, mapping). [dm_motor_name mapping]"
  "\<lambda>(name, mapping) ys. \<exists>x y. lookup_result joint name = Inr x \<and> direct_to_drive kind mapping x = Inr y \<and> ys = [y]"
  by unfold_locales
    (auto simp: rbind_eq_Inr split_beta set_keys_dict_set intro: distinct_keys_dict_set simp del: distinct_map set_map)

interpretation to_motor_pair: filler
  "\<lambda>d (name, mapping). rbind (rmap (lookup_result joint) (dp_joint_names mapping)) (\<lambda>xs.
     rbind (pair_to_drive kind np mapping xs) (update_strict d (dp_motor_names mapping)))"
  "\<lambda>(name, mapping). dp_motor_names mapping"
  "\<lambda>(name, mapping) ys. \<exists>xs. rmap (lookup_result joint) (dp_joint_names mapping) = Inr xs \<and>
     pair_to_drive kind np mapping xs = Inr ys"
  by unfold_locales
    (auto simp: rbind_eq_Inr split_beta update_strict_spec(1,3) dest: update_strict_spec(2,4) simp del: distinct_map set_map)

interpretation to_joint_direct: filler
  "\<lambda>d (name, mapping). rbind (lookup_result motor (dm_motor_name mapping)) (\<lambda>x. rbind (drive_to_direct kind mapping x)
     (\<lambda>y. Inr (dict_set d name y)))"
  "\<lambda>(name, mapping). [name]"
  "\<lambda>(name, mapping) ys. \<exists>x y. lookup_result motor (dm_motor_name mapping) = Inr x \<and>
     drive_to_direct kind mapping x = Inr y \<and> ys = [y]"
  by unfold_locales
    (auto simp: rbind_eq_Inr split_beta set_keys_dict_set intro: distinct_keys_dict_set simp del: distinct_map set_map)

interpretation to_joint_pair: filler
  "\<lambda>d (name, mapping). rbind (rmap (lookup_result motor) (dp_motor_names mapping)) (\<lambda>xs.
     rbind (drive_to_pair kind np mapping xs) (update_strict d (dp_joint_names mapping)))"
  "\<lambda>(name, mapping). dp_joint_names mapping"
  "\<lambda>(name, mapping) ys. \<exists>xs. rmap (lookup_result motor) (dp_motor_names mapping) = Inr xs \<and>
     drive_to_pair kind np mapping xs = Inr ys"
  by unfold_locales
    (auto simp: rbind_eq_Inr split_beta update_strict_spec(1,3) dest: update_strict_spec(2,4) simp del: distinct_map set_map)

section \<open>Every motor exactly once\<close>

text \<open>
  What the construction from a hardware document leaves behind: two dictionaries, and pairs of two
  motors whose joints are those of the hardware contract.
\<close>

definition sound_map :: "motor_map \<Rightarrow> bool" where
  "sound_map m \<longleftrightarrow> distinct (keys (mm_direct m)) \<and> distinct (keys (mm_differentials m)) \<and>
     (\<forall>(name, p) \<in> set (mm_differentials m). map_of DIFFERENTIAL_PAIRS name = Some (dp_joint_names p) \<and>
        length (dp_motor_names p) = 2 \<and> distinct (dp_motor_names p)) \<and>
     length (mm_policy_joint_names m) = 31 \<and> distinct (mm_policy_joint_names m) \<and>
     set (keys (mm_direct m)) = set (mm_policy_joint_names m) - set DIFFERENTIAL_JOINTS \<and>
     set (keys (mm_differentials m)) = set (keys DIFFERENTIAL_PAIRS)"

abbreviation motors_of :: "motor_map \<Rightarrow> string list" where
  "motors_of m \<equiv> map (dm_motor_name \<circ> snd) (mm_direct m) @ concat (map (dp_motor_names \<circ> snd) (mm_differentials m))"

lemma differential_tables: "distinct (keys DIFFERENTIAL_PAIRS)" "length (keys DIFFERENTIAL_PAIRS) = 3"
  "distinct DIFFERENTIAL_JOINTS" "length DIFFERENTIAL_JOINTS = 6"
  by (simp_all add: DIFFERENTIAL_PAIRS_def DIFFERENTIAL_JOINTS_def LEFT_ANKLE_def RIGHT_ANKLE_def)

lemma rfold_step: "rfold f d ks = Inr d' \<Longrightarrow> k \<in> set ks \<Longrightarrow> \<exists>d1 d2. f d1 k = Inr d2"
  by (induction ks arbitrary: d) (auto simp: rbind_eq_Inr)

lemma rfold_pres:
  assumes "rfold f d ks = Inr d'" and "P d" and "\<And>d k d'. k \<in> set ks \<Longrightarrow> f d k = Inr d' \<Longrightarrow> P d \<Longrightarrow> P d'"
  shows "P d'"
  using assms by (induction ks arbitrary: d) (auto simp: rbind_eq_Inr)

lemma pair_of_record_pair:
  assumes "pair_of_record N np hardware records d (name, joints) = Inr d'"
  shows "\<exists>p. d' = dict_set d name p \<and> map_of DIFFERENTIAL_PAIRS name = Some (dp_joint_names p) \<and>
    length (dp_motor_names p) = 2 \<and> distinct (dp_motor_names p)"
  using assms by (auto simp: pair_of_record_def rbind_eq_Inr new_drive_pair_def split: option.splits if_splits)

lemma direct_of_record_direct:
  "direct_of_record N d (motor, rec) = Inr d' \<Longrightarrow> d' = d \<or> (\<exists>k v. dict_set d k v = d')"
  by (cases "jget rec ''policy_joint''")
    (auto simp: direct_of_record_def json_get_def rbind_eq_Inr split: if_splits)

lemma map_is_sound:
  assumes "motor_map_from_hardware_config N np hardware policy armable = Inr m"
  shows "sound_map m" and "mm_policy_joint_names m = policy"
    and "\<exists>records motors. jindex hardware ''motor_map'' = Inr records \<and> physical_motor_names m = Inr motors \<and>
      set motors = set (keys (jfields records))"
proof -
  from assms obtain records items direct pairs motors where r: "jindex hardware ''motor_map'' = Inr records"
    and direct: "rfold (direct_of_record N) [] items = Inr direct"
    and pairs: "rfold (pair_of_record N np hardware records) [] DIFFERENTIAL_PAIRS = Inr pairs"
    and new: "new_motor_map policy direct pairs = Inr m" and motors: "physical_motor_names m = Inr motors"
    and cover: "set motors = set (keys (jfields records))"
    unfolding motor_map_from_hardware_config_def rbind_eq_Inr by (auto split: if_splits)
  from r motors cover show "\<exists>records motors. jindex hardware ''motor_map'' = Inr records \<and>
      physical_motor_names m = Inr motors \<and> set motors = set (keys (jfields records))" by blast
  from new have m: "m = \<lparr>mm_policy_joint_names = policy, mm_direct = direct, mm_differentials = pairs\<rparr>"
    and size: "length policy = 31" "distinct policy"
    and keys: "set (keys direct) = set policy - set DIFFERENTIAL_JOINTS" "set (keys pairs) = set (keys DIFFERENTIAL_PAIRS)"
    unfolding new_motor_map_def by (simp_all split: if_splits)
  have d: "distinct (keys direct)"
    by (rule rfold_pres [OF direct, where P = "\<lambda>d. distinct (keys d)"])
      (auto dest!: direct_of_record_direct intro: distinct_keys_dict_set simp del: distinct_map)
  let ?Q = "\<lambda>(name, p). map_of DIFFERENTIAL_PAIRS name = Some (dp_joint_names p) \<and>
    length (dp_motor_names p) = 2 \<and> distinct (dp_motor_names p)"
  have "distinct (keys pairs) \<and> (\<forall>x \<in> set pairs. ?Q x)"
  proof (rule rfold_pres [OF pairs])
    fix d k d' assume "pair_of_record N np hardware records d k = Inr d'" "distinct (keys d) \<and> (\<forall>x \<in> set d. ?Q x)"
    with pair_of_record_pair [of N np hardware records d "fst k" "snd k" d']
    show "distinct (keys d') \<and> (\<forall>x \<in> set d'. ?Q x)"
      by (auto intro: distinct_keys_dict_set dest!: subsetD [OF dict_set_subset] simp del: distinct_map)
  qed simp
  with d size keys m show "sound_map m" "mm_policy_joint_names m = policy" by (auto simp: sound_map_def)
qed

lemma physical_names:
  assumes sound: "sound_map m" and motors: "physical_motor_names m = Inr motors"
  shows "set motors = set (motors_of m)"
proof -
  from motors obtain ps where ps: "rmap (lookup_result (mm_differentials m)) (keys DIFFERENTIAL_PAIRS) = Inr ps"
    and motors: "motors = map (dm_motor_name \<circ> snd) (mm_direct m) @ concat (map dp_motor_names ps)"
    by (auto simp: physical_motor_names_def rbind_eq_Inr)
  have "rmap (lookup_result d) ks = Inr ps \<Longrightarrow> set ps = {p. \<exists>k \<in> set ks. map_of d k = Some p}" for d ks
    by (induction ks arbitrary: ps) (auto simp: rbind_eq_Inr lookup_result_def split: option.splits)
  with ps sound have "set ps = {p. \<exists>k \<in> set (keys (mm_differentials m)). map_of (mm_differentials m) k = Some p}"
    by (simp add: sound_map_def)
  also have "\<dots> = ran (map_of (mm_differentials m))"
    unfolding set_map dom_map_of_conv_image_fst [symmetric] by (auto simp: ran_def)
  also have "\<dots> = snd ` set (mm_differentials m)"
    using sound by (intro ran_distinct) (simp add: sound_map_def)
  finally show ?thesis by (auto simp: motors)
qed

lemma differential_member:
  assumes "sound_map m" and "(name, js) \<in> set DIFFERENTIAL_PAIRS"
  obtains p where "(name, p) \<in> set (mm_differentials m)" and "dp_joint_names p = js"
proof -
  from assms differential_tables(1) have "map_of DIFFERENTIAL_PAIRS name = Some js"
    and "name \<in> fst ` set (mm_differentials m)" by (auto simp: sound_map_def intro: fst_imageI)
  with assms(1) that show thesis by (fastforce simp: sound_map_def)
qed

lemma same_length_distinct: "set xs = set ys \<Longrightarrow> distinct ys \<Longrightarrow> length xs \<le> length ys \<Longrightarrow> distinct xs"
  by (metis card_distinct card_length distinct_card le_antisym)

lemma three_pairs:
  assumes sound: "sound_map m"
  shows "length (mm_differentials m) = 3"
proof -
  from sound have "length (mm_differentials m) = card (set (keys (mm_differentials m)))"
    unfolding sound_map_def by (metis distinct_card length_map)
  also have "\<dots> = card (set (keys DIFFERENTIAL_PAIRS))" using sound by (simp add: sound_map_def)
  also have "\<dots> = 3" using differential_tables(1,2) distinct_card by metis
  finally show ?thesis .
qed

lemma length_of_pairs: "\<forall>(_, p) \<in> set ps. length (f p) = 2 \<Longrightarrow> length (concat (map (f \<circ> snd) ps)) = 2 * length ps"
  by (induction ps) auto

lemma motors_of_length:
  assumes sound: "sound_map m" and joints: "set DIFFERENTIAL_JOINTS \<subseteq> set (mm_policy_joint_names m)"
  shows "length (motors_of m) = 31"
proof -
  from sound have "\<forall>(name, p) \<in> set (mm_differentials m). length (dp_motor_names p) = 2"
    by (auto simp: sound_map_def)
  from length_of_pairs [OF this] three_pairs [OF sound]
  have six: "length (concat (map (dp_motor_names \<circ> snd) (mm_differentials m))) = 6" by simp
  have "length (mm_direct m) = card (set (keys (mm_direct m)))"
    using sound unfolding sound_map_def by (metis distinct_card length_map)
  also have "\<dots> = card (set (mm_policy_joint_names m) - set DIFFERENTIAL_JOINTS)" using sound by (simp add: sound_map_def)
  also have "\<dots> = card (set (mm_policy_joint_names m)) - card (set DIFFERENTIAL_JOINTS)"
    by (rule card_Diff_subset [OF _ joints]) simp
  also have "\<dots> = 25" using sound differential_tables(3,4) by (simp add: sound_map_def distinct_card)
  finally show ?thesis using six by simp
qed

lemma lookups_found: "rmap (lookup_result d) ns = Inr xs \<longleftrightarrow> map (map_of d) ns = map Some xs"
  by (induction ns arbitrary: xs) (auto simp: rbind_eq_Inr lookup_result_def Cons_eq_map_conv split: option.splits)

lemma pair_loop_joints:
  assumes sound: "sound_map m" and run: "rfold (\<lambda>d (name, mapping). rbind (rmap (lookup_result joint) (dp_joint_names mapping)) (\<lambda>xs.
     rbind (pair_to_drive kind np mapping xs) (update_strict d (dp_motor_names mapping)))) r (mm_differentials m) = Inr d"
  shows "set DIFFERENTIAL_JOINTS \<subseteq> fst ` set joint"
proof
  fix j assume "j \<in> set DIFFERENTIAL_JOINTS"
  then obtain name js where "(name, js) \<in> set DIFFERENTIAL_PAIRS" and j: "j \<in> set js"
    by (auto simp: DIFFERENTIAL_JOINTS_def)
  then obtain p where p: "(name, p) \<in> set (mm_differentials m)" "dp_joint_names p = js"
    using differential_member [OF sound] by blast
  with rfold_step [OF run p(1)] obtain xs where "map (map_of joint) js = map Some xs"
    by (auto simp: rbind_eq_Inr lookups_found)
  moreover from j have "map_of joint j \<in> set (map (map_of joint) js)" by simp
  ultimately have "j \<in> dom (map_of joint)" by auto
  then show "j \<in> fst ` set joint" by (simp add: dom_map_of_conv_image_fst)
qed

lemma zip_lookups:
  assumes "rmap (lookup_result d) names = Inr w" and "distinct names" and "j \<in> set names"
  shows "map_of (zip names w) j = map_of d j"
proof -
  from assms(3) obtain i where i: "i < length names" "names ! i = j" by (auto simp: in_set_conv_nth)
  from assms(1) have l: "length w = length names" by (rule rmap_length)
  from assms(1) i l have "map_of d j = Some (w ! i)"
    unfolding lookups_found by (metis length_map nth_map)
  with i l assms(2) show ?thesis by (auto simp: in_set_zip)
qed

text \<open>
  C24. A joint vector that the map of a hardware document translates reaches each of the 31 motors of
  the document exactly once: a single motor gets the transform of its own joint, and the two motors of
  a differential pair get the transform of the two joints of the pair, in the order of the contract.
\<close>
theorem joint_vector_reaches_every_motor:
  assumes build: "motor_map_from_hardware_config N np hardware policy armable = Inr m"
    and run: "joint_to_motor np m kind v = Inr d"
  shows "length d = 31 \<and> distinct (keys d) \<and>
    (\<exists>records. jindex hardware ''motor_map'' = Inr records \<and> set (keys d) = set (keys (jfields records))) \<and>
    (\<forall>(joint, mapping) \<in> set (mm_direct m). \<exists>x y. map_of (zip policy v) joint = Some x \<and>
       direct_to_drive kind mapping x = Inr y \<and> map_of d (dm_motor_name mapping) = Some y) \<and>
    (\<forall>(_, pair) \<in> set (mm_differentials m). \<exists>xs ys. map (map_of (zip policy v)) (dp_joint_names pair) = map Some xs \<and>
       pair_to_drive kind np pair xs = Inr ys \<and> map (map_of d) (dp_motor_names pair) = map Some ys)"
proof -
  note sound = map_is_sound [OF build]
  let ?joint = "zip policy v"
  let ?f = "\<lambda>d (name, mapping). rbind (lookup_result ?joint name) (\<lambda>x. rbind (direct_to_drive kind mapping x)
     (\<lambda>y. Inr (dict_set d (dm_motor_name mapping) y)))"
  let ?g = "\<lambda>d (name, mapping). rbind (rmap (lookup_result ?joint) (dp_joint_names mapping)) (\<lambda>xs.
     rbind (pair_to_drive kind np mapping xs) (update_strict d (dp_motor_names mapping)))"
  from run sound(2) obtain r where first: "rfold ?f [] (mm_direct m) = Inr r"
    and second: "rfold ?g r (mm_differentials m) = Inr d" and l: "length d = 31"
    by (auto simp: joint_to_motor_def rbind_eq_Inr Let_def map_vector_def split: if_splits)
  have names: "map (\<lambda>(name, mapping). [dm_motor_name mapping]) (mm_direct m) = map (\<lambda>x. [(dm_motor_name \<circ> snd) x]) (mm_direct m)"
    "map (\<lambda>(name, mapping). dp_motor_names mapping) (mm_differentials m) = map (dp_motor_names \<circ> snd) (mm_differentials m)"
    by auto
  have dd: "distinct (keys d)"
    by (rule to_motor_pair.fold_distinct [OF second to_motor_direct.fold_distinct [OF first]]) simp
  have cover: "set (keys d) = set (motors_of m)"
    using to_motor_pair.fold_keys [OF second] to_motor_direct.fold_keys [OF first] by (simp add: names)
  have joints: "set DIFFERENTIAL_JOINTS \<subseteq> set policy"
    using pair_loop_joints [OF sound(1) second] by (rule subset_trans) (auto dest: set_zip_leftD)
  have once: "distinct (motors_of m)"
    using same_length_distinct [OF cover [symmetric] dd] motors_of_length [OF sound(1)] joints sound(2) l by simp
  then have once_direct: "distinct (concat (map (\<lambda>(name, mapping). [dm_motor_name mapping]) (mm_direct m)))"
    and once_pair: "distinct (concat (map (\<lambda>(name, mapping). dp_motor_names mapping) (mm_differentials m)))"
    unfolding names by (simp_all add: comp_def)
  have direct: "\<exists>x y. map_of ?joint j = Some x \<and> direct_to_drive kind mp x = Inr y \<and> map_of d (dm_motor_name mp) = Some y"
    if "(j, mp) \<in> set (mm_direct m)" for j mp
  proof -
    from that once have "dm_motor_name mp \<notin> set (concat (map (\<lambda>(name, mapping). dp_motor_names mapping) (mm_differentials m)))"
      unfolding names by force
    with to_motor_pair.fold_other [OF second this] to_motor_direct.fold_meant [OF first once_direct that] show ?thesis
      by (auto simp: lookup_result_def split: option.splits)
  qed
  have pair: "\<exists>xs ys. map (map_of ?joint) (dp_joint_names p) = map Some xs \<and> pair_to_drive kind np p xs = Inr ys \<and>
      map (map_of d) (dp_motor_names p) = map Some ys" if "(n, p) \<in> set (mm_differentials m)" for n p
    using to_motor_pair.fold_meant [OF second once_pair that] by (auto simp: lookups_found)
  have records: "\<exists>records. jindex hardware ''motor_map'' = Inr records \<and> set (keys d) = set (keys (jfields records))"
    using sound(3) physical_names [OF sound(1)] cover by auto
  show ?thesis using l dd records direct pair by (intro conjI) auto
qed

section \<open>Every joint from its motors\<close>

lemma pair_joints:
  assumes sound: "sound_map m"
  shows "set (concat (map (dp_joint_names \<circ> snd) (mm_differentials m))) = set DIFFERENTIAL_JOINTS"
    and "distinct (concat (map (dp_joint_names \<circ> snd) (mm_differentials m)))"
proof -
  have two: "\<forall>(_, js) \<in> set DIFFERENTIAL_PAIRS. length js = 2"
    by (simp add: DIFFERENTIAL_PAIRS_def LEFT_ANKLE_def RIGHT_ANKLE_def)
  have table: "(n, dp_joint_names p) \<in> set DIFFERENTIAL_PAIRS" if "(n, p) \<in> set (mm_differentials m)" for n p
    using sound that by (auto simp: sound_map_def dest: map_of_SomeD)
  have held: "j \<in> set (concat (map (dp_joint_names \<circ> snd) (mm_differentials m))) \<longleftrightarrow>
      (\<exists>n p. (n, p) \<in> set (mm_differentials m) \<and> j \<in> set (dp_joint_names p))" for j by force
  have tabled: "j \<in> set DIFFERENTIAL_JOINTS \<longleftrightarrow> (\<exists>n js. (n, js) \<in> set DIFFERENTIAL_PAIRS \<and> j \<in> set js)" for j
    by (force simp: DIFFERENTIAL_JOINTS_def)
  show joints: "set (concat (map (dp_joint_names \<circ> snd) (mm_differentials m))) = set DIFFERENTIAL_JOINTS"
  proof (rule set_eqI)
    fix j show "j \<in> set (concat (map (dp_joint_names \<circ> snd) (mm_differentials m))) \<longleftrightarrow> j \<in> set DIFFERENTIAL_JOINTS"
      unfolding held tabled using table differential_member [OF sound] by metis
  qed
  have "\<forall>(_, p) \<in> set (mm_differentials m). length (dp_joint_names p) = 2" using table two by fastforce
  from length_of_pairs [OF this] three_pairs [OF sound] differential_tables(3,4)
  show "distinct (concat (map (dp_joint_names \<circ> snd) (mm_differentials m)))"
    by (intro same_length_distinct [OF joints]) simp_all
qed

text \<open>
  For a policy that contains the joints of the differential pairs, motor values that the map of a
  hardware document translates back give each of the 31 policy
  joints exactly one value, in the order of the policy: a direct joint the value of its own motor, and
  the two joints of a differential pair the values of the two motors of the pair.
\<close>
theorem motor_values_reach_every_joint:
  assumes build: "motor_map_from_hardware_config N np hardware policy armable = Inr m"
    and joints: "set DIFFERENTIAL_JOINTS \<subseteq> set policy"
    and run: "motor_to_joint np m kind vs = Inr w"
  shows "length w = 31 \<and> (\<exists>motor. motor_values m (''motor '' @ kind_name kind) vs = Inr motor \<and>
    (\<forall>(joint, mapping) \<in> set (mm_direct m). \<exists>x y. map_of motor (dm_motor_name mapping) = Some x \<and>
       drive_to_direct kind mapping x = Inr y \<and> map_of (zip policy w) joint = Some y) \<and>
    (\<forall>(_, pair) \<in> set (mm_differentials m). \<exists>xs ys. map (map_of motor) (dp_motor_names pair) = map Some xs \<and>
       drive_to_pair kind np pair xs = Inr ys \<and> map (map_of (zip policy w)) (dp_joint_names pair) = map Some ys))"
proof -
  note sound = map_is_sound [OF build]
  from sound have size: "length policy = 31" "distinct policy" by (auto simp: sound_map_def)
  from run sound(2) obtain motor r d where motor: "motor_values m (''motor '' @ kind_name kind) vs = Inr motor"
    and first: "rfold (\<lambda>d (name, mapping). rbind (lookup_result motor (dm_motor_name mapping)) (\<lambda>x.
         rbind (drive_to_direct kind mapping x) (\<lambda>y. Inr (dict_set d name y)))) [] (mm_direct m) = Inr r"
    and second: "rfold (\<lambda>d (name, mapping). rbind (rmap (lookup_result motor) (dp_motor_names mapping)) (\<lambda>xs.
         rbind (drive_to_pair kind np mapping xs) (update_strict d (dp_joint_names mapping)))) r (mm_differentials m) = Inr d"
    and w: "rmap (lookup_result d) policy = Inr w"
    by (auto simp: motor_to_joint_def rbind_eq_Inr)
  note look = zip_lookups [OF w size(2)]
  have names: "map (\<lambda>(name, mapping). [name]) (mm_direct m) = map (\<lambda>x. [fst x]) (mm_direct m)"
    "map (\<lambda>(name, mapping). dp_joint_names mapping) (mm_differentials m) = map (dp_joint_names \<circ> snd) (mm_differentials m)"
    by auto
  have once_direct: "distinct (concat (map (\<lambda>(name, mapping). [name]) (mm_direct m)))"
    and once_pair: "distinct (concat (map (\<lambda>(name, mapping). dp_joint_names mapping) (mm_differentials m)))"
    using sound(1) pair_joints(2) [OF sound(1)] unfolding names by (simp_all add: sound_map_def)
  have direct: "\<exists>x y. map_of motor (dm_motor_name mp) = Some x \<and> drive_to_direct kind mp x = Inr y \<and>
      map_of (zip policy w) j = Some y" if "(j, mp) \<in> set (mm_direct m)" for j mp
  proof -
    from that sound have j: "j \<in> set policy" "j \<notin> set DIFFERENTIAL_JOINTS" by (auto simp: sound_map_def dest: fst_imageI)
    then have "j \<notin> set (concat (map (\<lambda>(name, mapping). dp_joint_names mapping) (mm_differentials m)))"
      unfolding names pair_joints(1) [OF sound(1)] by simp
    with to_joint_pair.fold_other [OF second this] to_joint_direct.fold_meant [OF first once_direct that] look [OF j(1)]
    show ?thesis by (auto simp: lookup_result_def split: option.splits)
  qed
  have pair: "\<exists>xs ys. map (map_of motor) (dp_motor_names p) = map Some xs \<and> drive_to_pair kind np p xs = Inr ys \<and>
      map (map_of (zip policy w)) (dp_joint_names p) = map Some ys" if "(n, p) \<in> set (mm_differentials m)" for n p
  proof -
    have "set (dp_joint_names p) \<subseteq> set policy"
      using that pair_joints(1) [OF sound(1)] joints by fastforce
    then have same: "map (map_of (zip policy w)) (dp_joint_names p) = map (map_of d) (dp_joint_names p)"
      using look by (auto intro: map_cong)
    show ?thesis unfolding same
      using to_joint_pair.fold_meant [OF second once_pair that] by (auto simp: lookups_found simp del: map_eq_conv)
  qed
  show ?thesis using rmap_length [OF w] size(1) motor direct pair by auto
qed

section \<open>The scalar maps of a motor\<close>

lemma fdiv_defined: "q \<noteq> 0 \<Longrightarrow> \<exists>y. fdiv x (Fin q) = Inr y"
  by (cases x) simp_all

lemma signed_ratio_nonzero:
  assumes "new_direct_map N motor joint zero encoder policy ratio = Inr m" and "is_double ratio"
  shows "\<exists>q. q \<noteq> 0 \<and> signed_ratio m = Fin q"
proof -
  from assms(1) obtain r where r: "ratio = Fin r" "0 < r" "dm_total_ratio m = Fin r"
    and e: "dm_encoder_sign m = 1 \<or> dm_encoder_sign m = - 1" and p: "dm_policy_to_motor_sign m = 1 \<or> dm_policy_to_motor_sign m = - 1"
    by (cases ratio) (auto simp: new_direct_map_def rbind_eq_Inr finite_scalar_def sign_value_def split: if_splits)
  from assms(2) r have "rnd r = Fin r" by (simp add: is_double_def)
  then have "rnd r = Fin r" "rnd (- r) = Fin (- r)" using rnd_minus [of r] by simp_all
  with e p r show ?thesis by (auto simp: signed_ratio_def)
qed

text \<open>
  A direct motor that its constructor accepts, with a ratio that is a double, never divides by
  zero in its six coordinate maps: each returns for every finite value and raises \<open>ValueError\<close> for the
  infinities and NaN, and for nothing else.
\<close>
theorem direct_maps_fail_only_on_nonfinite:
  assumes "new_direct_map N motor joint zero encoder policy ratio = Inr m" and "is_double ratio"
  shows "(isfinite x \<and> (\<exists>y. direct_to_drive kind m x = Inr y) \<and> (\<exists>y. drive_to_direct kind m x = Inr y)) \<or>
    (\<not> isfinite x \<and> (\<exists>t. direct_to_drive kind m x = Inl (ValueError t)) \<and> (\<exists>t. drive_to_direct kind m x = Inl (ValueError t)))"
proof -
  obtain q where q: "q \<noteq> 0" "signed_ratio m = Fin q" using signed_ratio_nonzero [OF assms] by blast
  show ?thesis
    by (cases kind; cases x) (simp_all add: q direct_to_drive_position_def drive_to_direct_position_def
      direct_to_drive_velocity_def drive_to_direct_velocity_def direct_to_drive_torque_def drive_to_direct_torque_def
      finite_scalar_def fdiv_defined del: fdiv.simps)
qed

text \<open>
  The gains divide by the square of the ratio, which rounds to zero for a tiny ratio that the
  constructor accepts.
\<close>

lemma gains_divide_by_zero:
  assumes "rnd (r * r) = Fin 0" and "dm_total_ratio m = Fin r"
  shows "direct_to_drive_gains m (Fin 1) (Fin 1) = Inl ZeroDivisionError"
  using assms by (simp add: direct_to_drive_gains_def finite_scalar_def)

end
