(* ===== verification/MappingSample.thy ===== *)
theory MappingSample
  imports MappingSafety InventorySample
begin

text \<open>
  The motor map of the complete sample inventory, on concrete vectors: every direct motor has ratio one
  and every pair the symmetric coupling.
\<close>

fun plain_number :: "json \<Rightarrow> pyfloat" where
  "plain_number (JInt i) = Fin (of_int i)"
| "plain_number (JFloat x) = x"
| "plain_number _ = NaN"

fun plain_array :: "json \<Rightarrow> (nat list \<times> pyfloat list) result" where
  "plain_array (JArr [JArr xs, JArr ys]) = Inr ([2, length xs], map plain_number (xs @ ys))"
| "plain_array (JArr xs) = Inr ([length xs], map plain_number xs)"
| "plain_array _ = Inl (ValueError ''array'')"

definition mapping_numerics :: numerics where
  "mapping_numerics = sample_numerics\<lparr>as_array := plain_array, parse_float := [''-1'' \<mapsto> Fin (- 1), ''1'' \<mapsto> Fin 1]\<rparr>"

definition unit_map :: "string \<Rightarrow> direct_map" where
  "unit_map role = \<lparr>dm_motor_name = role, dm_policy_joint = role, dm_drive_zero_rad = Fin 0, dm_encoder_sign = 1,
     dm_policy_to_motor_sign = 1, dm_total_ratio = Fin 1\<rparr>"

definition unit_pair :: "string \<Rightarrow> string list \<Rightarrow> string list \<Rightarrow> drive_pair" where
  "unit_pair name joints motors = \<lparr>dp_name = name, dp_joint_names = joints, dp_motor_names = motors,
     dp_drive_zero_rad = [Fin 0, Fin 0], dp_encoder_sign = [Fin 1, Fin 1],
     dp_coupling = \<lparr>cp_matrix = [[Fin 1, Fin 1], [Fin 1, Fin (- 1)]], cp_zero = [Fin 0, Fin 0]\<rparr>\<rparr>"

lemma rfold_plain:
  assumes "\<And>d k. k \<in> set ks \<Longrightarrow> f d k = Inr (if P k then dict_set d (key k) (val k) else d)"
  shows "rfold f d ks = Inr (foldl (\<lambda>d (k, v). dict_set d k v) d (map (\<lambda>k. (key k, val k)) (filter P ks)))"
  using assms by (induction ks arbitrary: d) auto

definition direct_roles :: "string list" where
  "direct_roles = filter (\<lambda>r. map_of motor_pairs r = None) (keys CONFIRMED_CAN_ENDPOINTS)"

lemma direct_fields:
  "jindex (motor_json (direct_role j) (nameplate a b x y) model c i) ''motor_zero_rad'' = Inr (JFloat (Fin 0))"
  "jindex (motor_json role plate model c i) ''encoder_sign'' = Inr (JInt 1)"
  "jindex (motor_json role plate model c i) ''motor_zero_rad'' = Inr (JFloat (Fin 0))"
  "jindex (motor_json (direct_role j) (nameplate a b x y) model c i) ''policy_to_motor_sign'' = Inr (JInt 1)"
  "float_field N (motor_json role plate model c i) ''reduction_ratio'' = Inr (Fin 1)"
  "float_field N (motor_json role plate model c i) ''linkage_ratio'' = Inr (Fin 1)"
  by (simp_all add: jindex_def motor_json_def direct_role_def nameplate_def float_field_def)

lemma sample_direct_step:
  assumes "fst x \<noteq> []"
  shows "direct_of_record mapping_numerics d (sample_motor x) =
    Inr (if map_of motor_pairs (fst x) = None then dict_set d (fst x) (unit_map (fst x)) else d)"
proof -
  obtain role c i where x: "x = (role, c, i)" by (cases x)
  have unit: "new_direct_map N role role (JFloat (Fin 0)) (JInt 1) (JInt 1) (Fin 1) = Inr (unit_map role)" if "role \<noteq> []" for N
    using that by (simp add: new_direct_map_def finite_scalar_def sign_value_def unit_map_def)
  show ?thesis
    using assms unit unfolding x
    by (cases "map_of motor_pairs role") (simp_all add: direct_of_record_def sample_motor_def Let_def json_get_def
      J4340P_plate_def J4310P_plate_def motor_role motor_common direct_fields)
qed

lemma direct_roles:
  "rfold (direct_of_record mapping_numerics) [] sample_motors = Inr (map (\<lambda>r. (r, unit_map r)) direct_roles)"
proof -
  have roles: "list_all (\<lambda>x. fst x \<noteq> []) CONFIRMED_CAN_ENDPOINTS" "distinct direct_roles"
    by (simp_all add: CONFIRMED_CAN_ENDPOINTS_def direct_roles_def motor_pairs_def)
  then have "rfold (\<lambda>d x. direct_of_record mapping_numerics d (sample_motor x)) [] CONFIRMED_CAN_ENDPOINTS =
      Inr (dict_of (map (\<lambda>x. (fst x, unit_map (fst x))) (filter (\<lambda>x. map_of motor_pairs (fst x) = None) CONFIRMED_CAN_ENDPOINTS)))"
    unfolding dict_of_def by (intro rfold_plain) (simp add: sample_direct_step list_all_iff)
  also have "map (\<lambda>x. (fst x, unit_map (fst x))) (filter (\<lambda>x. map_of motor_pairs (fst x) = None) CONFIRMED_CAN_ENDPOINTS) =
      map (\<lambda>r. (r, unit_map r)) direct_roles"
    by (simp add: direct_roles_def filter_map comp_def)
  also have "rfold (\<lambda>d x. direct_of_record mapping_numerics d (sample_motor x)) [] CONFIRMED_CAN_ENDPOINTS =
      rfold (direct_of_record mapping_numerics) [] sample_motors"
  proof -
    have "rfold (\<lambda>d x. f d (g x)) d xs = rfold f d (map g xs)" for f :: "('d \<Rightarrow> 'k \<Rightarrow> 'd result)" and g d xs
      by (induction xs arbitrary: d) (auto intro!: arg_cong [where f = "rbind _"])
    then show ?thesis by (simp add: sample_motors_def)
  qed
  finally show ?thesis using roles(2) by (simp add: comp_def)
qed

definition unit_pairs :: "(string, drive_pair) dict" where
  "unit_pairs =
     [(''left_ankle'', unit_pair ''left_ankle'' LEFT_ANKLE [''left_ankle_motor_a'', ''left_ankle_motor_b'']),
      (''right_ankle'', unit_pair ''right_ankle'' RIGHT_ANKLE [''right_ankle_motor_a'', ''right_ankle_motor_b'']),
      (''head'', unit_pair ''head'' [''head_pitch_joint'', ''head_roll_joint''] [''head_motor_a'', ''head_motor_b''])]"

lemma coupled_fields:
  assumes "map_of motor_pairs role = Some pair" and "map_of CONFIRMED_CAN_ENDPOINTS role = Some (c, i)"
  shows "record_field (JObj sample_motors) ''motor_zero_rad'' (JStr role) = Inr (JFloat (Fin 0))"
    and "record_field (JObj sample_motors) ''encoder_sign'' (JStr role) = Inr (JInt 1)"
proof -
  have look: "map_of (map sample_motor xs) role = map_option (\<lambda>v. snd (sample_motor (role, v))) (map_of xs role)" for xs
    by (induction xs) (auto simp: sample_motor_facts)
  from look [of CONFIRMED_CAN_ENDPOINTS] assms
  show "record_field (JObj sample_motors) ''motor_zero_rad'' (JStr role) = Inr (JFloat (Fin 0))"
    and "record_field (JObj sample_motors) ''encoder_sign'' (JStr role) = Inr (JInt 1)"
    by (simp_all add: record_field_def sample_motors_def jindex_def [of "JObj _"])
      (simp_all add: sample_motor_def Let_def direct_fields)
qed

lemma pair_steps:
  "rfold (pair_of_record mapping_numerics entrywise_numpy sample_hardware (JObj sample_motors)) [] DIFFERENTIAL_PAIRS = Inr unit_pairs"
proof -
  have endpoints: "map_of CONFIRMED_CAN_ENDPOINTS ''left_ankle_motor_a'' = Some (0, 5)"
    "map_of CONFIRMED_CAN_ENDPOINTS ''left_ankle_motor_b'' = Some (0, 6)"
    "map_of CONFIRMED_CAN_ENDPOINTS ''right_ankle_motor_a'' = Some (1, 5)"
    "map_of CONFIRMED_CAN_ENDPOINTS ''right_ankle_motor_b'' = Some (1, 6)"
    "map_of CONFIRMED_CAN_ENDPOINTS ''head_motor_a'' = Some (1, 7)"
    "map_of CONFIRMED_CAN_ENDPOINTS ''head_motor_b'' = Some (1, 8)"
    by (simp_all add: CONFIRMED_CAN_ENDPOINTS_def)
  have pairs: "map_of motor_pairs ''left_ankle_motor_a'' = Some LEFT_ANKLE" "map_of motor_pairs ''left_ankle_motor_b'' = Some LEFT_ANKLE"
    "map_of motor_pairs ''right_ankle_motor_a'' = Some RIGHT_ANKLE" "map_of motor_pairs ''right_ankle_motor_b'' = Some RIGHT_ANKLE"
    "map_of motor_pairs ''head_motor_a'' = Some [''head_pitch_joint'', ''head_roll_joint'']"
    "map_of motor_pairs ''head_motor_b'' = Some [''head_pitch_joint'', ''head_roll_joint'']"
    by (simp_all add: motor_pairs_def)
  have table: "map_of DIFFERENTIAL_PAIRS ''left_ankle'' = Some LEFT_ANKLE" "map_of DIFFERENTIAL_PAIRS ''right_ankle'' = Some RIGHT_ANKLE"
    "map_of DIFFERENTIAL_PAIRS ''head'' = Some [''head_pitch_joint'', ''head_roll_joint'']"
    by (simp_all add: DIFFERENTIAL_PAIRS_def)
  have fit: "new_differential_pair entrywise_numpy [[Fin 1, Fin 1], [Fin 1, Fin (- 1)]] [Fin 0, Fin 0] =
      Inr \<lparr>cp_matrix = [[Fin 1, Fin 1], [Fin 1, Fin (- 1)]], cp_zero = [Fin 0, Fin 0]\<rparr>"
    by (simp add: new_differential_pair_def vector2_def entrywise_numpy_def float_eval)
  have doc: "jindex sample_hardware ''differentials'' = Inr (JObj
         [(''left_ankle'', sample_differential [''left_ankle_motor_a'', ''left_ankle_motor_b'']),
          (''right_ankle'', sample_differential [''right_ankle_motor_a'', ''right_ankle_motor_b'']),
          (''head'', sample_differential [''head_motor_a'', ''head_motor_b''])])"
    by (simp add: sample_hardware_def jindex_def)
  have pair_fields: "jindex (sample_differential l) ''motor_names'' = Inr (JArr (map JStr l))"
    "jindex (sample_differential l) ''joint_to_motor_matrix'' = Inr (JArr [JArr [JInt 1, JInt 1], JArr [JInt 1, JInt (- 1)]])"
    "jindex (sample_differential l) ''motor_zero_rad'' = Inr (JArr [JInt 0, JInt 0])" for l
    by (simp_all add: sample_differential_def jindex_def)
  note coupled = coupled_fields [OF pairs(1) endpoints(1)] coupled_fields [OF pairs(2) endpoints(2)]
    coupled_fields [OF pairs(3) endpoints(3)] coupled_fields [OF pairs(4) endpoints(4)]
    coupled_fields [OF pairs(5) endpoints(5)] coupled_fields [OF pairs(6) endpoints(6)]
  have array: "as_array mapping_numerics = plain_array" by (simp add: mapping_numerics_def)
  have step: "pair_of_record mapping_numerics entrywise_numpy sample_hardware (JObj sample_motors) d (name, joints) =
      Inr (dict_set d name (unit_pair name joints [a, b]))"
    if "jindex (JObj
         [(''left_ankle'', sample_differential [''left_ankle_motor_a'', ''left_ankle_motor_b'']),
          (''right_ankle'', sample_differential [''right_ankle_motor_a'', ''right_ankle_motor_b'']),
          (''head'', sample_differential [''head_motor_a'', ''head_motor_b''])]) name = Inr (sample_differential [a, b])"
      and "map_of DIFFERENTIAL_PAIRS name = Some joints" and "a \<noteq> b"
      and "record_field (JObj sample_motors) ''motor_zero_rad'' (JStr a) = Inr (JFloat (Fin 0))"
      and "record_field (JObj sample_motors) ''motor_zero_rad'' (JStr b) = Inr (JFloat (Fin 0))"
      and "record_field (JObj sample_motors) ''encoder_sign'' (JStr a) = Inr (JInt 1)"
      and "record_field (JObj sample_motors) ''encoder_sign'' (JStr b) = Inr (JInt 1)" for d name joints a b
    using that by (simp add: pair_of_record_def doc pair_fields array fit array_vector_def array_matrix_def new_drive_pair_def
        finite_vector_def unit_pair_def)
  show ?thesis
    by (simp add: DIFFERENTIAL_PAIRS_def step table coupled jindex_def unit_pairs_def)
qed

section \<open>The map and two vectors\<close>

definition unit_motor_map :: motor_map where
  "unit_motor_map = \<lparr>mm_policy_joint_names = sample_policy, mm_direct = map (\<lambda>r. (r, unit_map r)) direct_roles,
     mm_differentials = unit_pairs\<rparr>"

lemma roles_values: "direct_roles =
   [''left_hip_pitch_joint'', ''left_hip_roll_joint'', ''left_hip_yaw_joint'', ''left_knee_joint'', ''waist_yaw_joint'',
    ''waist_roll_joint'', ''right_hip_pitch_joint'', ''right_hip_roll_joint'', ''right_hip_yaw_joint'', ''right_knee_joint'',
    ''left_shoulder_pitch_joint'', ''left_shoulder_roll_joint'', ''left_shoulder_yaw_joint'', ''left_elbow_joint'',
    ''left_wrist_yaw_joint'', ''left_wrist_pitch_joint'', ''left_wrist_roll_joint'', ''head_yaw_joint'',
    ''right_shoulder_pitch_joint'', ''right_shoulder_roll_joint'', ''right_shoulder_yaw_joint'', ''right_elbow_joint'',
    ''right_wrist_yaw_joint'', ''right_wrist_pitch_joint'', ''right_wrist_roll_joint'']"
  by (simp add: direct_roles_def CONFIRMED_CAN_ENDPOINTS_def motor_pairs_def)

lemma sample_policy_roles: "sample_policy = direct_roles @ DIFFERENTIAL_JOINTS"
proof -
  have "filter (\<lambda>r. r \<notin> fst ` set motor_pairs) ks = filter (\<lambda>r. map_of motor_pairs r = None) ks" for ks
    by (simp add: map_of_eq_None_iff)
  then show ?thesis by (simp add: sample_policy_def direct_roles_def)
qed

lemma unit_physical: "physical_motor_names unit_motor_map = Inr (direct_roles @
    [''left_ankle_motor_a'', ''left_ankle_motor_b'', ''right_ankle_motor_a'', ''right_ankle_motor_b'', ''head_motor_a'', ''head_motor_b''])"
  by (simp add: physical_motor_names_def unit_motor_map_def unit_pairs_def unit_pair_def unit_map_def comp_def
      DIFFERENTIAL_PAIRS_def lookup_result_def)

lemma unit_map_accepted: "new_motor_map sample_policy (map (\<lambda>r. (r, unit_map r)) direct_roles) unit_pairs = Inr unit_motor_map"
proof -
  have "set direct_roles \<inter> set DIFFERENTIAL_JOINTS = {}"
    by (simp add: roles_values DIFFERENTIAL_JOINTS_def DIFFERENTIAL_PAIRS_def LEFT_ANKLE_def RIGHT_ANKLE_def)
  then show ?thesis
    using sample_policy_size by (auto simp: new_motor_map_def unit_motor_map_def sample_policy_roles comp_def
        unit_pairs_def DIFFERENTIAL_PAIRS_def image_image)
qed

lemma sample_map_builds:
  "motor_map_from_hardware_config mapping_numerics entrywise_numpy sample_hardware sample_policy False = Inr unit_motor_map"
proof -
  have records: "jindex sample_hardware ''motor_map'' = Inr (JObj sample_motors)"
    "jget sample_hardware ''motor_map'' = JObj sample_motors" "''motor_map'' \<in> fst ` set (jfields sample_hardware)"
    by (simp_all add: sample_hardware_def jindex_def jget_def)
  have n: "length sample_motors = 31" by (simp add: sample_motors_def CONFIRMED_CAN_ENDPOINTS_def)
  have names: "fst ` set sample_motors = fst ` set CONFIRMED_CAN_ENDPOINTS"
    by (force simp: sample_motors_def sample_motor_facts)
  have "set (direct_roles @ [''left_ankle_motor_a'', ''left_ankle_motor_b'', ''right_ankle_motor_a'', ''right_ankle_motor_b'',
      ''head_motor_a'', ''head_motor_b'']) = fst ` set CONFIRMED_CAN_ENDPOINTS"
    unfolding roles_values by (simp add: CONFIRMED_CAN_ENDPOINTS_def insert_commute)
  then show ?thesis
    by (simp add: motor_map_from_hardware_config_def motor_map_checks_def records n json_items_def direct_roles pair_steps
        unit_map_accepted unit_physical names)
qed

definition quarter_vector :: vec where
  "quarter_vector = replicate 31 (Fin (1 / 4))"

definition uniform_motors :: "'v \<Rightarrow> 'v \<Rightarrow> 'v \<Rightarrow> (string, 'v) dict" where
  "uniform_motors x u w = map (\<lambda>r. (r, x)) direct_roles @
     [(''left_ankle_motor_a'', u), (''left_ankle_motor_b'', w), (''right_ankle_motor_a'', u),
      (''right_ankle_motor_b'', w), (''head_motor_a'', u), (''head_motor_b'', w)]"

abbreviation quarter_motors :: "(string, pyfloat) dict" where
  "quarter_motors \<equiv> uniform_motors (Fin (1 / 4)) (Fin (1 / 2)) (Fin 0)"

lemma unit_velocity:
  "direct_to_drive MapVelocity (unit_map r) (Fin (1 / 4)) = Inr (Fin (1 / 4))"
  "drive_to_direct MapVelocity (unit_map r) (Fin (1 / 4)) = Inr (Fin (1 / 4))"
  "pair_to_drive MapVelocity entrywise_numpy (unit_pair n js ms) [Fin (1 / 4), Fin (1 / 4)] = Inr [Fin (1 / 2), Fin 0]"
  "drive_to_pair MapVelocity entrywise_numpy (unit_pair n js ms) [Fin (1 / 2), Fin 0] = Inr [Fin (1 / 4), Fin (1 / 4)]"
  by (simp_all add: direct_to_drive_velocity_def drive_to_direct_velocity_def signed_ratio_def unit_map_def finite_scalar_def
      pair_to_drive_velocity_def drive_to_pair_velocity_def joint_to_motor_velocity_def motor_to_joint_velocity_def
      vector2_def unit_pair_def entrywise_numpy_def finite_or_nan_def dot_def float_eval)

lemma quarter_lookup: "j \<in> set sample_policy \<Longrightarrow> lookup_result (zip sample_policy quarter_vector) j = Inr (Fin (1 / 4))"
proof -
  assume "j \<in> set sample_policy"
  then obtain i where "i < 31" "sample_policy ! i = j" using sample_policy_size by (auto simp: in_set_conv_nth)
  with sample_policy_size have "map_of (zip sample_policy quarter_vector) j = Some (Fin (1 / 4))"
    by (auto simp: quarter_vector_def in_set_zip intro!: map_of_is_SomeI exI [of _ i])
  then show ?thesis by (simp add: lookup_result_def)
qed

lemma roles_policy: "set direct_roles \<subseteq> set sample_policy" "set DIFFERENTIAL_JOINTS \<subseteq> set sample_policy" "distinct direct_roles"
proof -
  show "set direct_roles \<subseteq> set sample_policy" "set DIFFERENTIAL_JOINTS \<subseteq> set sample_policy"
    by (simp_all add: sample_policy_roles)
  show "distinct direct_roles" by (simp add: roles_values)
qed

lemma pair_policy: "set LEFT_ANKLE \<subseteq> set sample_policy" "set RIGHT_ANKLE \<subseteq> set sample_policy"
  "set [''head_pitch_joint'', ''head_roll_joint''] \<subseteq> set sample_policy"
  using roles_policy(2) by (simp_all add: DIFFERENTIAL_JOINTS_def DIFFERENTIAL_PAIRS_def)

lemma quarter_runs: "joint_to_motor entrywise_numpy unit_motor_map MapVelocity quarter_vector = Inr quarter_motors"
proof -
  have vector: "map_vector name quarter_vector = Inr quarter_vector" for name
    by (simp add: map_vector_def finite_vector_def quarter_vector_def list_all_iff)
  let ?f = "\<lambda>d (name, mapping). rbind (lookup_result (zip sample_policy quarter_vector) name) (\<lambda>x.
     rbind (direct_to_drive MapVelocity mapping x) (\<lambda>y. Inr (dict_set d (dm_motor_name mapping) y)))"
  have "rfold ?f [] (map (\<lambda>r. (r, unit_map r)) direct_roles) =
      Inr (foldl (\<lambda>d (k, v). dict_set d k v) [] (map (\<lambda>k. (fst k, Fin (1 / 4))) (filter (\<lambda>_. True) (map (\<lambda>r. (r, unit_map r)) direct_roles))))"
    by (rule rfold_plain) (use roles_policy(1) in \<open>auto simp: quarter_lookup unit_velocity unit_map_def [THEN arg_cong [where f = dm_motor_name]] simp del: direct_to_drive.simps\<close>)
  also have "\<dots> = Inr (map (\<lambda>r. (r, Fin (1 / 4))) direct_roles)"
    using roles_policy(3) by (subst dict_fold_new) (simp_all add: comp_def)
  finally have direct: "rfold ?f [] (map (\<lambda>r. (r, unit_map r)) direct_roles) = Inr (map (\<lambda>r. (r, Fin (1 / 4))) direct_roles)" .
  have pairs: "rfold (\<lambda>d (name, mapping). rbind (rmap (lookup_result (zip sample_policy quarter_vector)) (dp_joint_names mapping)) (\<lambda>xs.
     rbind (pair_to_drive MapVelocity entrywise_numpy mapping xs) (update_strict d (dp_motor_names mapping))))
     (map (\<lambda>r. (r, Fin (1 / 4))) direct_roles) unit_pairs = Inr quarter_motors"
    using pair_policy by (simp add: unit_pairs_def unit_pair_def [THEN arg_cong [where f = dp_joint_names]]
        unit_pair_def [THEN arg_cong [where f = dp_motor_names]] LEFT_ANKLE_def RIGHT_ANKLE_def quarter_lookup unit_velocity
        update_strict_def roles_values uniform_motors_def del: pair_to_drive.simps)
  show ?thesis
    by (simp add: joint_to_motor_def vector unit_motor_map_def direct pairs Let_def
        del: direct_to_drive.simps pair_to_drive.simps) (simp add: uniform_motors_def roles_values)
qed

lemma uniform_keys: "keys (uniform_motors x u w) = direct_roles @
    [''left_ankle_motor_a'', ''left_ankle_motor_b'', ''right_ankle_motor_a'', ''right_ankle_motor_b'', ''head_motor_a'', ''head_motor_b'']"
  by (simp add: uniform_motors_def comp_def)

lemma uniform_values:
  assumes "isfinite x" "isfinite u" "isfinite w"
  shows "motor_values unit_motor_map name (uniform_motors x u w) = Inr (uniform_motors x u w)"
proof -
  have "rmap (\<lambda>(k, v). rbind (finite_scalar name v) (\<lambda>x. Inr (k, x))) d = Inr d" if "list_all (\<lambda>(_, v). isfinite v) d"
    for d :: "(string, pyfloat) dict"
    using that by (induction d) (auto simp: finite_scalar_def)
  moreover have "list_all (\<lambda>(_, v). isfinite v) (uniform_motors x u w)" using assms by (auto simp: uniform_motors_def list_all_iff)
  ultimately show ?thesis by (simp add: motor_values_def unit_physical uniform_keys del: set_append set_map)
qed

lemma uniform_lookup:
  "r \<in> set direct_roles \<Longrightarrow> map_of (uniform_motors x u w) r = Some x"
  "map_of (uniform_motors x u w) ''left_ankle_motor_a'' = Some u" "map_of (uniform_motors x u w) ''left_ankle_motor_b'' = Some w"
  "map_of (uniform_motors x u w) ''right_ankle_motor_a'' = Some u" "map_of (uniform_motors x u w) ''right_ankle_motor_b'' = Some w"
  "map_of (uniform_motors x u w) ''head_motor_a'' = Some u" "map_of (uniform_motors x u w) ''head_motor_b'' = Some w"
proof -
  have "map_of (map (\<lambda>r. (r, x)) rs) r = Some x" if "r \<in> set rs" for rs r
    using that by (simp add: map_of_map_restrict)
  then show "r \<in> set direct_roles \<Longrightarrow> map_of (uniform_motors x u w) r = Some x"
    unfolding uniform_motors_def map_of_append by (intro map_add_find_right)
qed (simp_all add: uniform_motors_def roles_values)

lemma uniform_back:
  assumes finite: "isfinite x" "isfinite u" "isfinite w"
    and direct: "\<And>r. drive_to_direct kind (unit_map r) x = Inr y"
    and pair: "\<And>n js ms. drive_to_pair kind entrywise_numpy (unit_pair n js ms) [u, w] = Inr [y, y]"
  shows "motor_to_joint entrywise_numpy unit_motor_map kind (uniform_motors x u w) = Inr (replicate 31 y)"
proof -
  let ?m = "uniform_motors x u w"
  have look: "r \<in> set direct_roles \<Longrightarrow> lookup_result ?m r = Inr x"
    "lookup_result ?m ''left_ankle_motor_a'' = Inr u" "lookup_result ?m ''left_ankle_motor_b'' = Inr w"
    "lookup_result ?m ''right_ankle_motor_a'' = Inr u" "lookup_result ?m ''right_ankle_motor_b'' = Inr w"
    "lookup_result ?m ''head_motor_a'' = Inr u" "lookup_result ?m ''head_motor_b'' = Inr w" for r
    by (simp_all add: lookup_result_def uniform_lookup)
  let ?f = "\<lambda>d (name, mapping). rbind (lookup_result ?m (dm_motor_name mapping)) (\<lambda>x.
     rbind (drive_to_direct kind mapping x) (\<lambda>y. Inr (dict_set d name y)))"
  have "rfold ?f [] (map (\<lambda>r. (r, unit_map r)) direct_roles) =
      Inr (foldl (\<lambda>d (k, v). dict_set d k v) [] (map (\<lambda>k. (fst k, y)) (filter (\<lambda>_. True) (map (\<lambda>r. (r, unit_map r)) direct_roles))))"
    by (rule rfold_plain) (auto simp: look direct unit_map_def [THEN arg_cong [where f = dm_motor_name]])
  also have "\<dots> = Inr (map (\<lambda>r. (r, y)) direct_roles)"
    using roles_policy(3) by (subst dict_fold_new) (simp_all add: comp_def)
  finally have directs: "rfold ?f [] (map (\<lambda>r. (r, unit_map r)) direct_roles) = Inr (map (\<lambda>r. (r, y)) direct_roles)" .
  let ?joints = "map (\<lambda>r. (r, y)) (direct_roles @ DIFFERENTIAL_JOINTS)"
  have pairs: "rfold (\<lambda>d (name, mapping). rbind (rmap (lookup_result ?m) (dp_motor_names mapping)) (\<lambda>xs.
     rbind (drive_to_pair kind entrywise_numpy mapping xs) (update_strict d (dp_joint_names mapping))))
     (map (\<lambda>r. (r, y)) direct_roles) unit_pairs = Inr ?joints"
    by (simp add: unit_pairs_def unit_pair_def [THEN arg_cong [where f = dp_joint_names]]
        unit_pair_def [THEN arg_cong [where f = dp_motor_names]] LEFT_ANKLE_def RIGHT_ANKLE_def look pair
        update_strict_def roles_values DIFFERENTIAL_JOINTS_def DIFFERENTIAL_PAIRS_def)
  have "map (\<lambda>_. y) sample_policy = replicate 31 y" using sample_policy_size(1) by (simp add: map_replicate_const)
  moreover have "rmap (lookup_result ?joints) sample_policy = Inr (map (\<lambda>_. y) sample_policy)"
    by (simp add: lookups_found sample_policy_roles map_of_map_restrict del: map_append)
  ultimately show ?thesis
    by (simp add: motor_to_joint_def uniform_values [OF finite] directs pairs unit_motor_map_def [THEN arg_cong [where f = mm_direct]]
        unit_motor_map_def [THEN arg_cong [where f = mm_differentials]]
        unit_motor_map_def [THEN arg_cong [where f = mm_policy_joint_names]] del: map_append)
qed

lemma quarter_back: "motor_to_joint entrywise_numpy unit_motor_map MapVelocity quarter_motors = Inr quarter_vector"
  using uniform_back [OF _ _ _ unit_velocity(2,4)] by (simp add: quarter_vector_def)

theorem joint_vector_reaches_every_motor_witness:
  "length quarter_motors = 31 \<and> distinct (keys quarter_motors) \<and> map_of quarter_motors ''left_knee_joint'' = Some (Fin (1 / 4)) \<and>
    map (map_of quarter_motors) [''head_motor_a'', ''head_motor_b''] = [Some (Fin (1 / 2)), Some (Fin 0)]"
proof -
  note reach = joint_vector_reaches_every_motor [OF sample_map_builds quarter_runs]
  have "(''left_knee_joint'', unit_map ''left_knee_joint'') \<in> set (mm_direct unit_motor_map)"
    by (simp add: unit_motor_map_def roles_values)
  moreover have "map_of (zip sample_policy quarter_vector) ''left_knee_joint'' = Some (Fin (1 / 4))"
    using quarter_lookup [of "''left_knee_joint''"] roles_policy(1) by (simp add: roles_values lookup_result_def split: option.splits)
  ultimately have "map_of quarter_motors ''left_knee_joint'' = Some (Fin (1 / 4))"
    using reach unit_velocity(1) by (fastforce simp: unit_map_def simp del: direct_to_drive.simps)
  with reach show ?thesis by (simp add: uniform_motors_def roles_values)
qed

theorem motor_values_reach_every_joint_witness:
  "motor_to_joint entrywise_numpy unit_motor_map MapVelocity quarter_motors = Inr quarter_vector \<and> length quarter_vector = 31"
  using motor_values_reach_every_joint [OF sample_map_builds roles_policy(2) quarter_back] quarter_back by blast

theorem direct_maps_fail_only_on_nonfinite_witness:
  "(\<exists>m. new_direct_map mapping_numerics ''knee'' ''knee'' (JFloat (Fin 0)) (JInt 1) (JInt (- 1)) (Fin 2) = Inr m \<and>
     (\<exists>y. drive_to_direct MapTorque m (Fin 3) = Inr y) \<and> (\<exists>t. drive_to_direct MapTorque m NaN = Inl (ValueError t)))"
proof -
  obtain m where m: "new_direct_map mapping_numerics ''knee'' ''knee'' (JFloat (Fin 0)) (JInt 1) (JInt (- 1)) (Fin 2) = Inr m"
    by (simp add: new_direct_map_def finite_scalar_def sign_value_def)
  have "is_double (Fin 2)" by (simp add: is_double_def float_eval)
  from direct_maps_fail_only_on_nonfinite [OF m this, of "Fin 3" MapTorque] direct_maps_fail_only_on_nonfinite [OF m this, of NaN MapTorque] m
  show ?thesis by auto
qed

end
