(* ===== verification/MultiRate.thy ===== *)
theory MultiRate
  imports MotorMapping TargetProjection Damiao
begin

text \<open>
  The multi-rate controller of \<open>multirate_control.py\<close>: at every state tick the host computes the torque
  of both ankles, and at every policy tick it also commands all other motors; a frame is encoded within
  the command envelopes of the measured states before anything reaches the transport.
\<close>

section \<open>What numpy adds\<close>

text \<open>The sign change of a vector and \<open>numpy.isclose\<close> of two entries.\<close>

record numpy_control = numpy +
  nc_negative :: "vec \<Rightarrow> vec"
  nc_isclose :: "pyfloat \<Rightarrow> pyfloat \<Rightarrow> bool"

section \<open>Command frames\<close>

definition ANKLE_PAIR_NAMES :: "string list" where
  "ANKLE_PAIR_NAMES = [''left_ankle'', ''right_ankle'']"

record command_frame =
  cm_state_tick :: int
  cm_ankle_commands :: "(string, mit_command) dict"
  cm_other_motor_commands :: "(string, mit_command) dict"
  cm_ankle_joint_torque_nm :: "(string, vec) dict"
  cm_saturated_ankle_joints :: "string list"

definition updates_other_motors :: "command_frame \<Rightarrow> bool" where
  "updates_other_motors f = (cm_other_motor_commands f \<noteq> [])"

record encoded_frame =
  ef_state_tick :: int
  ef_ankle_commands :: "encoded_command list"
  ef_other_motor_commands :: "encoded_command list"

definition ankle_motors :: "motor_map \<Rightarrow> string list result" where
  "ankle_motors m = rbind (rmap (\<lambda>pair. rbind (lookup_result (mm_differentials m) pair) (\<lambda>p. Inr (dp_motor_names p)))
     ANKLE_PAIR_NAMES) (\<lambda>mss. Inr (concat mss))"

definition encode_motor ::
  "interp \<Rightarrow> (string, command_profile) dict \<Rightarrow> (string, mit_command) dict \<Rightarrow> (string, mit_state) dict
     \<Rightarrow> string \<Rightarrow> encoded_command result" where
  "encode_motor interp profiles commands states name =
     rbind (lookup_result profiles name) (\<lambda>p. rbind (lookup_result commands name) (\<lambda>c.
     rbind (lookup_result states name) (\<lambda>s. profile_encode interp p c s)))"

definition encode_multirate_command_frame ::
  "interp \<Rightarrow> motor_map \<Rightarrow> command_profile list \<Rightarrow> command_frame \<Rightarrow> (string, mit_state) dict \<Rightarrow> encoded_frame result" where
  "encode_multirate_command_frame interp m profiles frame states = (let by_name = profile_map profiles in
     rbind (physical_motor_names m) (\<lambda>all_motors.
     if set (keys by_name) \<noteq> set all_motors \<or> length by_name \<noteq> length profiles
     then Inl (ValueError ''command profiles must exactly cover all 31 physical motors'')
     else if set (keys states) \<noteq> set all_motors
     then Inl (ValueError ''measured motor states must exactly cover all 31 physical motors'')
     else rbind (ankle_motors m) (\<lambda>expected_ankles.
     if set (keys (cm_ankle_commands frame)) \<noteq> set expected_ankles
     then Inl (ValueError ''frame must contain exactly the four physical ankle motors'')
     else let expected_other = (if updates_other_motors frame
         then filter (\<lambda>n. n \<notin> set expected_ankles) all_motors else []) in
     if set (keys (cm_other_motor_commands frame)) \<noteq> set expected_other
     then Inl (ValueError ''frame contains an invalid 50 Hz other-motor command set'')
     else rbind (rmap (encode_motor interp by_name (cm_ankle_commands frame) states) (sorted_set expected_ankles)) (\<lambda>ankle.
     rbind (rmap (encode_motor interp by_name (cm_other_motor_commands frame) states) (sorted_set expected_other)) (\<lambda>other.
       Inr \<lparr>ef_state_tick = cm_state_tick frame, ef_ankle_commands = ankle, ef_other_motor_commands = other\<rparr>)))))"

section \<open>The controller\<close>

record multirate_controller =
  mr_mapping :: motor_map
  mr_joint_effort_limit_nm :: vec
  mr_policy_hz :: int
  mr_state_hz :: int
  mr_state_ticks_per_policy :: int
  mr_ankle_motor_names :: "string list"
  mr_target :: "impedance_target option"
  mr_state_tick :: int

definition new_multirate_controller :: "motor_map \<Rightarrow> vec \<Rightarrow> int \<Rightarrow> int \<Rightarrow> multirate_controller result" where
  "new_multirate_controller m effort policy_hz state_hz =
     (if policy_hz \<le> 0 \<or> state_hz \<le> 0 \<or> state_hz mod policy_hz \<noteq> 0
      then Inl (ValueError ''state_hz must be a positive integer multiple of policy_hz'')
      else if policy_hz \<noteq> 50 \<or> state_hz \<noteq> 500
      then Inl (ValueError ''Sprite0825 deployment requires policy_hz=50 and state_hz=500'')
      else rbind (joint_vector ''joint_effort_limit_nm'' effort) (\<lambda>limits.
        if list_ex (\<lambda>x. fle x (Fin 0)) limits then Inl (ValueError ''joint effort limits must be positive'')
        else rbind (ankle_motors m) (\<lambda>names.
          Inr \<lparr>mr_mapping = m, mr_joint_effort_limit_nm = limits, mr_policy_hz = policy_hz, mr_state_hz = state_hz,
            mr_state_ticks_per_policy = state_hz div policy_hz, mr_ankle_motor_names = names,
            mr_target = None, mr_state_tick = 0\<rparr>)))"

definition latch_policy_target :: "impedance_target \<Rightarrow> multirate_controller \<Rightarrow> multirate_controller" where
  "latch_policy_target target c = c\<lparr>mr_target := Some target\<rparr>"

definition measured_joint_state ::
  "numpy_control \<Rightarrow> multirate_controller \<Rightarrow> (string, mit_state) dict \<Rightarrow> (vec \<times> vec) result" where
  "measured_joint_state np c states = rbind (physical_motor_names (mr_mapping c)) (\<lambda>expected.
     if set (keys states) \<noteq> set expected
     then Inl (ValueError ''measured motor states must exactly cover all 31 motors'')
     else let positions = map (\<lambda>(name, s). (name, ms_position_rad s)) states;
              velocities = map (\<lambda>(name, s). (name, ms_velocity_rad_s s)) states in
       rbind (motor_to_joint_positions (numpy.truncate np) (mr_mapping c) positions) (\<lambda>p.
       rbind (motor_to_joint_velocities (numpy.truncate np) (mr_mapping c) velocities) (\<lambda>v. Inr (p, v))))"

text \<open>The torque of the two joints of a pair: the impedance law of the target, before the limit.\<close>

definition raw_torque :: "numpy_control \<Rightarrow> impedance_target \<Rightarrow> vec \<Rightarrow> vec \<Rightarrow> nat list \<Rightarrow> vec" where
  "raw_torque np target position velocity is = (let np' = numpy.truncate np in
     np_add np' (np_add np'
       (np_multiply np' (entries (it_kp target) is)
          (np_subtract np' (entries (it_position_rad target) is) (entries position is)))
       (np_multiply np' (entries (it_kd target) is)
          (np_subtract np' (entries (it_velocity_rad_s target) is) (entries velocity is))))
       (entries (it_feedforward_torque_nm target) is))"

definition saturated_of :: "numpy_control \<Rightarrow> vec \<Rightarrow> vec \<Rightarrow> string \<times> nat \<Rightarrow> string list result" where
  "saturated_of np raw limited = (\<lambda>(joint, i). rbind (vec_at raw i) (\<lambda>r. rbind (vec_at limited i) (\<lambda>l.
     Inr (if nc_isclose np r l then [] else [joint]))))"

definition ankle_motor_command ::
  "(string, mit_state) dict \<Rightarrow> vec \<Rightarrow> (string, mit_command) dict \<Rightarrow> string \<times> nat \<Rightarrow> (string, mit_command) dict result" where
  "ankle_motor_command states motor_torque = (\<lambda>d (name, i). rbind (lookup_result states name) (\<lambda>s.
     rbind (vec_at motor_torque i) (\<lambda>t.
     rbind (new_mit_command (ms_position_rad s) (Fin 0) (Fin 0) (Fin 0) t) (\<lambda>c. Inr (dict_set d name c)))))"

type_synonym ankle_results = "(string, mit_command) dict \<times> (string, vec) dict \<times> string list"

definition ankle_pair_commands ::
  "numpy_control \<Rightarrow> multirate_controller \<Rightarrow> impedance_target \<Rightarrow> (string, mit_state) dict \<Rightarrow> vec \<Rightarrow> vec
     \<Rightarrow> ankle_results \<Rightarrow> string \<Rightarrow> ankle_results result" where
  "ankle_pair_commands np c target states position velocity = (\<lambda>(commands, torques, saturated) pair_name.
     rbind (lookup_result (mm_differentials (mr_mapping c)) pair_name) (\<lambda>pair.
     rbind (rmap (index_of (mm_policy_joint_names (mr_mapping c))) (dp_joint_names pair)) (\<lambda>is.
     let raw = raw_torque np target position velocity is;
         limits = entries (mr_joint_effort_limit_nm c) is;
         limited = np_clip (numpy.truncate np) raw (nc_negative np limits) limits in
     rbind (rmap (saturated_of np raw limited) (zip (dp_joint_names pair) [0..<length (dp_joint_names pair)])) (\<lambda>sat.
     rbind (pair_to_drive_torque (numpy.truncate np) pair limited) (\<lambda>motor_torque.
     rbind (rfold (ankle_motor_command states motor_torque) commands
         (zip (dp_motor_names pair) [0..<length (dp_motor_names pair)])) (\<lambda>commands.
       Inr (commands, dict_set torques pair_name limited, saturated @ concat sat)))))))"

definition ankle_commands ::
  "numpy_control \<Rightarrow> multirate_controller \<Rightarrow> impedance_target \<Rightarrow> (string, mit_state) dict \<Rightarrow> vec \<Rightarrow> vec \<Rightarrow> ankle_results result" where
  "ankle_commands np c target states position velocity =
     rfold (ankle_pair_commands np c target states position velocity) ([], [], []) ANKLE_PAIR_NAMES"

text \<open>The state changes only when the frame is complete: an exception leaves the controller as it was.\<close>

definition multirate_frame ::
  "numpy_control \<Rightarrow> multirate_controller \<Rightarrow> (string, mit_state) dict \<Rightarrow> command_frame result" where
  "multirate_frame np c states = (case mr_target c of
       None \<Rightarrow> Inl (RuntimeError ''a policy target must be latched before stepping'')
     | Some target \<Rightarrow> rbind (measured_joint_state np c states) (\<lambda>(position, velocity).
         rbind (ankle_commands np c target states position velocity) (\<lambda>(commands, torques, saturated).
         rbind (if mr_state_tick c mod mr_state_ticks_per_policy c = 0
           then rbind (joint_impedance_to_motor_commands (numpy.truncate np) (mr_mapping c)
               \<lparr>ji_desired_position = it_position_rad target, ji_desired_velocity = it_velocity_rad_s target,
                ji_measured_position = position, ji_measured_velocity = velocity, ji_kp = it_kp target,
                ji_kd = it_kd target, ji_feedforward = it_feedforward_torque_nm target\<rparr>)
             (\<lambda>all_commands. Inr (filter (\<lambda>(name, _). name \<notin> set (mr_ankle_motor_names c)) all_commands))
           else Inr []) (\<lambda>other.
           Inr \<lparr>cm_state_tick = mr_state_tick c, cm_ankle_commands = commands, cm_other_motor_commands = other,
             cm_ankle_joint_torque_nm = torques, cm_saturated_ankle_joints = saturated\<rparr>))))"

definition multirate_step ::
  "numpy_control \<Rightarrow> multirate_controller \<Rightarrow> (string, mit_state) dict \<Rightarrow> command_frame result \<times> multirate_controller" where
  "multirate_step np c states = (case multirate_frame np c states of Inl err \<Rightarrow> (Inl err, c)
     | Inr frame \<Rightarrow> (Inr frame, c\<lparr>mr_state_tick := mr_state_tick c + 1\<rparr>))"

end
