(* ===== verification/MultiRateSafety.thy ===== *)
theory MultiRateSafety
  imports MultiRate MappingSafety DamiaoCodec
begin

text \<open>
  What the multi-rate controller promises: at every tick the four ankle motors are driven by a limited
  joint torque alone, the other motors are commanded at policy ticks only, and a frame of the controller
  always covers the motors the encoder asks for.
\<close>

section \<open>Runs of the controller\<close>

inductive controller_run :: "numpy_control \<Rightarrow> multirate_controller \<Rightarrow> multirate_controller \<Rightarrow> bool" for np c0 where
  start: "controller_run np c0 c0"
| latch: "controller_run np c0 c \<Longrightarrow> controller_run np c0 (latch_policy_target target c)"
| step: "controller_run np c0 c \<Longrightarrow> multirate_step np c states = (r, c') \<Longrightarrow> controller_run np c0 c'"

lemma multirate_step_state: "multirate_step np c states = (r, c') \<Longrightarrow> c' = c \<or> c' = c\<lparr>mr_state_tick := mr_state_tick c + 1\<rparr>"
  by (auto simp: multirate_step_def split: sum.splits)

lemma controller_run_frozen:
  assumes "controller_run np c0 c"
  shows "mr_mapping c = mr_mapping c0 \<and> mr_joint_effort_limit_nm c = mr_joint_effort_limit_nm c0 \<and>
    mr_state_ticks_per_policy c = mr_state_ticks_per_policy c0 \<and> mr_ankle_motor_names c = mr_ankle_motor_names c0"
  using assms by induction (auto simp: latch_policy_target_def dest!: multirate_step_state)

lemma new_multirate_controller_fields:
  assumes "new_multirate_controller m effort policy_hz state_hz = Inr c"
  shows "mr_mapping c = m" and "mr_joint_effort_limit_nm c = effort" and "mr_state_ticks_per_policy c = 10"
    and "ankle_motors m = Inr (mr_ankle_motor_names c)" and "mr_state_tick c = 0" and "finite_vector 31 effort"
    and "list_all (\<lambda>x. \<not> fle x (Fin 0)) effort"
  using assms by (auto simp: new_multirate_controller_def rbind_eq_Inr joint_vector_def list_ex_iff list_all_iff
      split: if_splits)

section \<open>The limited torque\<close>

text \<open>The arithmetic of vectors entry by entry, as numpy documents it for float64 arrays of equal shape.\<close>

definition entrywise_control :: "numpy_control \<Rightarrow> bool" where
  "entrywise_control np \<longleftrightarrow> (\<forall>x y. length x = length y \<longrightarrow> np_add (numpy.truncate np) x y = map2 fadd x y \<and>
     np_subtract (numpy.truncate np) x y = map2 fsub x y \<and> np_multiply (numpy.truncate np) x y = map2 fmul x y) \<and>
   (\<forall>x lo hi. length x = length lo \<longrightarrow> length lo = length hi \<longrightarrow> np_clip (numpy.truncate np) x lo hi = clip_entries x lo hi) \<and>
   (\<forall>x. nc_negative np x = map fneg x)"

lemma raw_torque_length: "entrywise_control np \<Longrightarrow> length (raw_torque np target position velocity is) = length is"
  by (simp add: entrywise_control_def raw_torque_def Let_def entries_def)

lemma clip_entry_bound:
  assumes "isfinite l" and "\<not> fle l (Fin 0)" and "isfinite (clip_entry x (fneg l) l)"
  shows "fle (fabs (clip_entry x (fneg l) l)) l"
  using assms by (cases l; cases x) (auto simp: clip_entry_def fmin_def fmax_def)

lemma limited_bound:
  assumes "entrywise_control np" and "length raw = length ls" and "i < length ls" and "isfinite (ls ! i)" and "\<not> fle (ls ! i) (Fin 0)"
    and "isfinite (np_clip (numpy.truncate np) raw (nc_negative np ls) ls ! i)"
  shows "fle (fabs (np_clip (numpy.truncate np) raw (nc_negative np ls) ls ! i)) (ls ! i)"
  using assms clip_entry_bound [of "ls ! i" "raw ! i"]
  by (simp add: entrywise_control_def clip_entries_nth)

section \<open>Commands of the ankles\<close>

text \<open>Every joint torque of a pair is within the effort limit of its joint.\<close>

definition limited_torque :: "multirate_controller \<Rightarrow> drive_pair \<Rightarrow> vec \<Rightarrow> bool" where
  "limited_torque c p torque \<longleftrightarrow> list_all2 (\<lambda>joint t. \<exists>limit.
     map_of (zip (mm_policy_joint_names (mr_mapping c)) (mr_joint_effort_limit_nm c)) joint = Some limit \<and> fle (fabs t) limit)
     (dp_joint_names p) torque"

text \<open>
  A command without embedded gains at the measured position, whose torque is the drive torque of a
  limited joint torque of a pair the motor belongs to.
\<close>

definition torque_only :: "numpy_control \<Rightarrow> multirate_controller \<Rightarrow> (string, mit_state) dict \<Rightarrow> string \<Rightarrow> mit_command \<Rightarrow> bool" where
  "torque_only np c states name cmd \<longleftrightarrow> mc_kp cmd = Fin 0 \<and> mc_kd cmd = Fin 0 \<and> mc_velocity_rad_s cmd = Fin 0 \<and>
     (\<exists>s. map_of states name = Some s \<and> mc_position_rad cmd = ms_position_rad s) \<and>
     (\<exists>pair p torque ts. pair \<in> set ANKLE_PAIR_NAMES \<and> map_of (mm_differentials (mr_mapping c)) pair = Some p \<and>
        name \<in> set (dp_motor_names p) \<and> limited_torque c p torque \<and>
        pair_to_drive_torque (numpy.truncate np) p torque = Inr ts \<and> mc_feedforward_torque_nm cmd \<in> set ts)"

lemma pair_torque_finite:
  assumes "pair_to_drive_torque np p torque = Inr ts"
  shows "length torque = 2 \<and> list_all isfinite torque"
  using assms by (auto simp: pair_to_drive_torque_def joint_to_motor_torque_def vector2_def rbind_eq_Inr split: if_splits)

lemma index_of_limit:
  assumes "index_of names j = Inr i" and "length names = length v"
  shows "i < length v \<and> (distinct names \<longrightarrow> map_of (zip names v) j = Some (v ! i))"
proof -
  from assms have "map_of (zip names [0..<length names]) j = Some i"
    by (auto simp: index_of_def lookup_result_def split: option.splits)
  then have "(j, i) \<in> set (zip names [0..<length names])" by (rule map_of_SomeD)
  then have "i < length names" "names ! i = j" by (auto simp: in_set_zip)
  with assms(2) show ?thesis by (auto simp: in_set_zip)
qed

definition sized :: "multirate_controller \<Rightarrow> bool" where
  "sized c \<longleftrightarrow> length (mm_policy_joint_names (mr_mapping c)) = 31 \<and> distinct (mm_policy_joint_names (mr_mapping c)) \<and>
     finite_vector 31 (mr_joint_effort_limit_nm c) \<and> list_all (\<lambda>x. \<not> fle x (Fin 0)) (mr_joint_effort_limit_nm c)"

lemma length_entries: "length (entries v is) = length is"
  by (simp add: entries_def)

lemma limited_torque_clip:
  assumes np: "entrywise_control np" and c: "sized c"
    and "is": "rmap (index_of (mm_policy_joint_names (mr_mapping c))) (dp_joint_names p) = Inr is"
    and len: "length raw = length is" and t: "torque = np_clip (numpy.truncate np) raw
      (nc_negative np (entries (mr_joint_effort_limit_nm c) is)) (entries (mr_joint_effort_limit_nm c) is)"
    and finite: "list_all isfinite torque"
  shows "limited_torque c p torque"
proof -
  let ?names = "mm_policy_joint_names (mr_mapping c)" and ?effort = "mr_joint_effort_limit_nm c"
  from "is" have idx: "list_all2 (\<lambda>j i. index_of ?names j = Inr i) (dp_joint_names p) is" by (simp add: rmap_eq_Inr)
  then have l: "length (dp_joint_names p) = length is" by (rule list_all2_lengthD)
  from c have size: "length ?names = length ?effort" "distinct ?names" by (auto simp: sized_def finite_vector_def)
  have lt: "length torque = length is"
    using np len by (simp add: t entrywise_control_def entries_def length_clip_entries)
  have "\<exists>limit. map_of (zip ?names ?effort) (dp_joint_names p ! k) = Some limit \<and> fle (fabs (torque ! k)) limit"
    if k: "k < length is" for k
  proof -
    from list_all2_nthD [OF idx] k l have "index_of ?names (dp_joint_names p ! k) = Inr (is ! k)" by simp
    with index_of_limit size have i: "is ! k < length ?effort" "map_of (zip ?names ?effort) (dp_joint_names p ! k) = Some (?effort ! (is ! k))"
      by blast+
    with c have e: "isfinite (?effort ! (is ! k))" "\<not> fle (?effort ! (is ! k)) (Fin 0)"
      by (auto simp: sized_def finite_vector_def list_all_length)
    have entry: "entries ?effort is ! k = ?effort ! (is ! k)" using k by (simp add: entries_def)
    have "fle (fabs (torque ! k)) (entries ?effort is ! k)"
      unfolding t by (rule limited_bound [OF np]) (use len k e finite lt in \<open>simp_all add: entry length_entries list_all_length t [symmetric]\<close>)
    with i entry show ?thesis by simp
  qed
  with l lt show ?thesis by (simp add: limited_torque_def list_all2_conv_all_nth)
qed

definition driven_by :: "(string, mit_state) dict \<Rightarrow> vec \<Rightarrow> string \<times> mit_command \<Rightarrow> bool" where
  "driven_by states ts = (\<lambda>(name, cmd). mc_kp cmd = Fin 0 \<and> mc_kd cmd = Fin 0 \<and> mc_velocity_rad_s cmd = Fin 0 \<and>
     (\<exists>s. map_of states name = Some s \<and> mc_position_rad cmd = ms_position_rad s) \<and> mc_feedforward_torque_nm cmd \<in> set ts)"

lemma ankle_motor_command_spec:
  assumes "ankle_motor_command states ts d (name, i) = Inr d'"
  shows "\<exists>cmd. d' = dict_set d name cmd \<and> driven_by states ts (name, cmd)"
  using assms by (auto simp: ankle_motor_command_def rbind_eq_Inr lookup_result_def vec_at_def new_mit_command_def
      driven_by_def split: option.splits if_splits)

lemma ankle_motors_fold:
  assumes "rfold (ankle_motor_command states ts) d items = Inr d'"
  shows "set (keys d') = set (keys d) \<union> fst ` set items \<and>
    (\<forall>x \<in> set d'. x \<in> set d \<or> (fst x \<in> fst ` set items \<and> driven_by states ts x))"
  using assms
proof (induction items arbitrary: d)
  case (Cons x items)
  obtain name i where x: "x = (name, i)" by (cases x)
  from Cons.prems obtain d1 where d1: "ankle_motor_command states ts d (name, i) = Inr d1"
    and rest: "rfold (ankle_motor_command states ts) d1 items = Inr d'" by (auto simp: x rbind_eq_Inr)
  obtain cmd where cmd: "d1 = dict_set d name cmd" "driven_by states ts (name, cmd)"
    using ankle_motor_command_spec [OF d1] by blast
  have sub: "set d1 \<subseteq> insert (name, cmd) (set d)" unfolding cmd(1) by (rule dict_set_subset)
  have "y \<in> set d \<or> (fst y \<in> fst ` set (x # items) \<and> driven_by states ts y)" if "y \<in> set d'" for y
  proof (cases "y \<in> set d1")
    case True
    with sub have "y = (name, cmd) \<or> y \<in> set d" by blast
    with cmd(2) show ?thesis by (auto simp: x)
  next
    case False
    with Cons.IH [OF rest] that show ?thesis by auto
  qed
  moreover have "set (keys d') = set (keys d) \<union> fst ` set (x # items)"
    using Cons.IH [OF rest] by (simp add: cmd(1) x Un_commute insert_commute)
  ultimately show ?case by blast
qed auto

definition ankle_results_ok ::
  "numpy_control \<Rightarrow> multirate_controller \<Rightarrow> (string, mit_state) dict \<Rightarrow> ankle_results \<Rightarrow> bool" where
  "ankle_results_ok np c states = (\<lambda>(commands, torques, _).
     (\<forall>(name, cmd) \<in> set commands. torque_only np c states name cmd) \<and>
     (\<forall>(pair, torque) \<in> set torques. \<exists>p. map_of (mm_differentials (mr_mapping c)) pair = Some p \<and> limited_torque c p torque))"

lemma ankle_pair_commands_ok:
  assumes np: "entrywise_control np" and c: "sized c" and pair: "pair \<in> set ANKLE_PAIR_NAMES"
    and run: "ankle_pair_commands np c target states position velocity r pair = Inr r'" and ok: "ankle_results_ok np c states r"
  shows "ankle_results_ok np c states r' \<and> (\<exists>p. map_of (mm_differentials (mr_mapping c)) pair = Some p \<and>
    set (keys (fst r')) = set (keys (fst r)) \<union> set (dp_motor_names p) \<and> map fst (fst (snd r')) = map fst (dict_set (fst (snd r)) pair []))"
proof -
  obtain commands torques sat where r: "r = (commands, torques, sat)" by (cases r)
  let ?limits = "\<lambda>is. entries (mr_joint_effort_limit_nm c) is"
  let ?raw = "raw_torque np target position velocity"
  let ?limited = "\<lambda>is. np_clip (numpy.truncate np) (?raw is) (nc_negative np (?limits is)) (?limits is)"
  from run obtain p "is" ts d more where p: "map_of (mm_differentials (mr_mapping c)) pair = Some p"
    and "is": "rmap (index_of (mm_policy_joint_names (mr_mapping c))) (dp_joint_names p) = Inr is"
    and ts: "pair_to_drive_torque (numpy.truncate np) p (?limited is) = Inr ts"
    and d: "rfold (ankle_motor_command states ts) commands (zip (dp_motor_names p) [0..<length (dp_motor_names p)]) = Inr d"
    and r': "r' = (d, dict_set torques pair (?limited is), more)"
    by (auto simp: ankle_pair_commands_def r rbind_eq_Inr Let_def lookup_result_def split: option.splits)
  have limited: "limited_torque c p (?limited is)"
    by (rule limited_torque_clip [OF np c "is" raw_torque_length [OF np] refl]) (use pair_torque_finite [OF ts] in blast)
  have names: "fst ` set (zip (dp_motor_names p) [0..<length (dp_motor_names p)]) = set (dp_motor_names p)"
    by (metis length_map list.set_map map_fst_zip map_nth length_upt diff_zero)
  have own: "torque_only np c states name cmd" if "driven_by states ts (name, cmd)" "name \<in> set (dp_motor_names p)" for name cmd
    using that limited p ts pair unfolding torque_only_def driven_by_def by blast
  from ankle_motors_fold [OF d] have keys: "set (keys d) = set (keys commands) \<union> set (dp_motor_names p)"
    and entries: "\<forall>x \<in> set d. x \<in> set commands \<or> (fst x \<in> set (dp_motor_names p) \<and> driven_by states ts x)"
    unfolding names by blast+
  from ok have "\<forall>(name, cmd) \<in> set d. torque_only np c states name cmd"
    using entries own by (auto simp: ankle_results_ok_def r)
  moreover have "\<exists>p. map_of (mm_differentials (mr_mapping c)) n = Some p \<and> limited_torque c p t"
    if "(n, t) \<in> set (dict_set torques pair (?limited is))" for n t
  proof -
    from that dict_set_subset have "(n, t) = (pair, ?limited is) \<or> (n, t) \<in> set torques" by fast
    with p limited ok show ?thesis by (auto simp: ankle_results_ok_def r)
  qed
  ultimately have "ankle_results_ok np c states r'" by (auto simp: ankle_results_ok_def r')
  moreover have "map fst (dict_set torques pair (?limited is)) = map fst (dict_set torques pair [])"
    by (simp add: keys_dict_set_new)
  ultimately show ?thesis using p keys by (simp add: r r')
qed

lemma ankle_commands_ok:
  assumes np: "entrywise_control np" and c: "sized c" and names: "ankle_motors (mr_mapping c) = Inr motors"
    and run: "ankle_commands np c target states position velocity = Inr r"
  shows "ankle_results_ok np c states r \<and> set (keys (fst r)) = set motors \<and> keys (fst (snd r)) = ANKLE_PAIR_NAMES"
proof -
  from names obtain pl pr where two: "map_of (mm_differentials (mr_mapping c)) ''left_ankle'' = Some pl"
    "map_of (mm_differentials (mr_mapping c)) ''right_ankle'' = Some pr" "motors = dp_motor_names pl @ dp_motor_names pr"
    by (auto simp: ankle_motors_def ANKLE_PAIR_NAMES_def rbind_eq_Inr lookup_result_def split: option.splits)
  from run obtain r1 where r1: "ankle_pair_commands np c target states position velocity ([], [], []) ''left_ankle'' = Inr r1"
    and r: "ankle_pair_commands np c target states position velocity r1 ''right_ankle'' = Inr r"
    by (auto simp: ankle_commands_def ANKLE_PAIR_NAMES_def rbind_eq_Inr)
  have start: "ankle_results_ok np c states ([], [], [])" by (simp add: ankle_results_ok_def)
  have left: "''left_ankle'' \<in> set ANKLE_PAIR_NAMES" and right: "''right_ankle'' \<in> set ANKLE_PAIR_NAMES"
    by (simp_all add: ANKLE_PAIR_NAMES_def)
  from ankle_pair_commands_ok [OF np c left r1 start] two have one: "ankle_results_ok np c states r1"
    "set (keys (fst r1)) = set (dp_motor_names pl)" "keys (fst (snd r1)) = [''left_ankle'']" by auto
  from ankle_pair_commands_ok [OF np c right r one(1)] two one(2,3) show ?thesis
    by (auto simp: keys_dict_set_new ANKLE_PAIR_NAMES_def image_iff)
qed

section \<open>Every step\<close>

lemma run_sized:
  assumes "new_motor_map names direct differentials = Inr m" and "new_multirate_controller m effort policy_hz state_hz = Inr c0"
    and "controller_run np c0 c"
  shows "sized c" and "mr_mapping c = m" and "mr_state_ticks_per_policy c = 10" and "ankle_motors m = Inr (mr_ankle_motor_names c)"
    and "mr_ankle_motor_names c = mr_ankle_motor_names c0"
proof -
  note f = controller_run_frozen [OF assms(3)] new_multirate_controller_fields [OF assms(2)]
  from assms(1) have "length (mm_policy_joint_names m) = 31" "distinct (mm_policy_joint_names m)"
    by (auto simp: new_motor_map_def split: if_splits)
  with f show "sized c" "mr_mapping c = m" "mr_state_ticks_per_policy c = 10" "ankle_motors m = Inr (mr_ankle_motor_names c)"
    "mr_ankle_motor_names c = mr_ankle_motor_names c0" by (simp_all add: sized_def)
qed

lemma all_commands_cover:
  assumes "joint_impedance_to_motor_commands np m j = Inr d" and "physical_motor_names m = Inr motors"
  shows "set (keys d) = set motors"
  using assms by (auto simp: joint_impedance_to_motor_commands_def rbind_eq_Inr split: if_splits)

lemma frame_parts:
  assumes "multirate_frame np c states = Inr frame"
  obtains target position velocity r motors where "mr_target c = Some target"
    "measured_joint_state np c states = Inr (position, velocity)" "physical_motor_names (mr_mapping c) = Inr motors"
    "set (keys states) = set motors"
    "ankle_commands np c target states position velocity = Inr r" "cm_state_tick frame = mr_state_tick c"
    "cm_ankle_commands frame = fst r" "cm_ankle_joint_torque_nm frame = fst (snd r)"
    "set (keys (cm_other_motor_commands frame)) =
      (if mr_state_tick c mod mr_state_ticks_per_policy c = 0 then set motors - set (mr_ankle_motor_names c) else {})"
proof -
  from assms obtain target where t: "mr_target c = Some target" by (auto simp: multirate_frame_def split: option.splits)
  with assms obtain position velocity commands torques saturated other where
    m: "measured_joint_state np c states = Inr (position, velocity)"
    and a: "ankle_commands np c target states position velocity = Inr (commands, torques, saturated)"
    and o: "(if mr_state_tick c mod mr_state_ticks_per_policy c = 0
           then rbind (joint_impedance_to_motor_commands (numpy.truncate np) (mr_mapping c)
               \<lparr>ji_desired_position = it_position_rad target, ji_desired_velocity = it_velocity_rad_s target,
                ji_measured_position = position, ji_measured_velocity = velocity, ji_kp = it_kp target,
                ji_kd = it_kd target, ji_feedforward = it_feedforward_torque_nm target\<rparr>)
             (\<lambda>all_commands. Inr (filter (\<lambda>(name, _). name \<notin> set (mr_ankle_motor_names c)) all_commands))
           else Inr []) = Inr other"
    and f: "frame = \<lparr>cm_state_tick = mr_state_tick c, cm_ankle_commands = commands, cm_other_motor_commands = other,
             cm_ankle_joint_torque_nm = torques, cm_saturated_ankle_joints = saturated\<rparr>"
    by (auto simp: multirate_frame_def rbind_eq_Inr)
  from m obtain motors where motors: "physical_motor_names (mr_mapping c) = Inr motors" "set (keys states) = set motors"
    by (auto simp: measured_joint_state_def rbind_eq_Inr split: if_splits)
  have kept: "set (keys (filter (\<lambda>(name, _). name \<notin> A) d)) = set (keys d) - A" for A and d :: "(string, mit_command) dict"
    by force
  have "set (keys other) =
      (if mr_state_tick c mod mr_state_ticks_per_policy c = 0 then set motors - set (mr_ankle_motor_names c) else {})"
  proof (cases "mr_state_tick c mod mr_state_ticks_per_policy c = 0")
    case True
    with o obtain d where d: "joint_impedance_to_motor_commands (numpy.truncate np) (mr_mapping c)
        \<lparr>ji_desired_position = it_position_rad target, ji_desired_velocity = it_velocity_rad_s target,
         ji_measured_position = position, ji_measured_velocity = velocity, ji_kp = it_kp target,
         ji_kd = it_kd target, ji_feedforward = it_feedforward_torque_nm target\<rparr> = Inr d"
      and other: "other = filter (\<lambda>(name, _). name \<notin> set (mr_ankle_motor_names c)) d" by (auto simp: rbind_eq_Inr)
    show ?thesis using True all_commands_cover [OF d motors(1)] unfolding other kept by simp
  next
    case False
    with o show ?thesis by auto
  qed
  with t m a f motors show thesis by (intro that) (auto simp del: set_map)
qed

lemma step_facts:
  assumes "new_motor_map names direct differentials = Inr m" and "new_multirate_controller m effort policy_hz state_hz = Inr c0"
    and "entrywise_control np" and "controller_run np c0 c" and "multirate_step np c states = (Inr frame, c')"
  shows "cm_state_tick frame = mr_state_tick c \<and> mr_state_tick c' = mr_state_tick c + 1 \<and>
    set (keys (cm_ankle_commands frame)) = set (mr_ankle_motor_names c0) \<and>
    (\<forall>(name, cmd) \<in> set (cm_ankle_commands frame). torque_only np c states name cmd) \<and>
    keys (cm_ankle_joint_torque_nm frame) = ANKLE_PAIR_NAMES \<and>
    (\<forall>(pair, torque) \<in> set (cm_ankle_joint_torque_nm frame). \<exists>p. map_of (mm_differentials m) pair = Some p \<and>
       limited_torque c p torque) \<and>
    (\<exists>motors. physical_motor_names m = Inr motors \<and> set (keys (cm_other_motor_commands frame)) =
       (if mr_state_tick c mod 10 = 0 then set motors - set (mr_ankle_motor_names c0) else {}))"
proof -
  note c = run_sized [OF assms(1,2,4)]
  from assms(5) have frame: "multirate_frame np c states = Inr frame" and c': "mr_state_tick c' = mr_state_tick c + 1"
    by (auto simp: multirate_step_def split: sum.splits)
  from frame show ?thesis
  proof (rule frame_parts)
    fix target position velocity r motors
    assume run: "ankle_commands np c target states position velocity = Inr r" and tick: "cm_state_tick frame = mr_state_tick c"
      and parts: "cm_ankle_commands frame = fst r" "cm_ankle_joint_torque_nm frame = fst (snd r)"
      and motors: "physical_motor_names (mr_mapping c) = Inr motors"
      and other: "set (keys (cm_other_motor_commands frame)) =
        (if mr_state_tick c mod mr_state_ticks_per_policy c = 0 then set motors - set (mr_ankle_motor_names c) else {})"
    from c(2,4) have "ankle_motors (mr_mapping c) = Inr (mr_ankle_motor_names c)" by simp
    from ankle_commands_ok [OF assms(3) c(1) this run] c(2,5) motors other tick c' show ?thesis
      by (auto simp: parts c(3) ankle_results_ok_def split_beta simp del: set_map)
  qed
qed

text \<open>
  C25. A step of the controller, in any run from a fresh one over a map the constructor accepts, advances
  the tick by one and commands exactly the motors of the two ankles without embedded gains, at their
  measured positions, with a torque that is the drive torque of joint torques within the effort limits;
  the motors that are not in an ankle are commanded at every tenth tick, all of them, and otherwise none.
\<close>
theorem multirate_step_commands:
  assumes "new_motor_map names direct differentials = Inr m" and "new_multirate_controller m effort policy_hz state_hz = Inr c0"
    and "entrywise_control np" and "controller_run np c0 c" and "multirate_step np c states = (Inr frame, c')"
  shows "cm_state_tick frame = mr_state_tick c \<and> mr_state_tick c' = mr_state_tick c + 1 \<and>
    set (keys (cm_ankle_commands frame)) = set (mr_ankle_motor_names c0) \<and>
    (\<forall>(name, cmd) \<in> set (cm_ankle_commands frame). torque_only np c states name cmd) \<and>
    keys (cm_ankle_joint_torque_nm frame) = ANKLE_PAIR_NAMES \<and>
    (\<forall>(pair, torque) \<in> set (cm_ankle_joint_torque_nm frame). \<exists>p. map_of (mm_differentials m) pair = Some p \<and>
       limited_torque c p torque) \<and>
    (\<exists>motors. physical_motor_names m = Inr motors \<and> set (keys (cm_other_motor_commands frame)) =
       (if mr_state_tick c mod 10 = 0 then set motors - set (mr_ankle_motor_names c0) else {}))"
  using step_facts [OF assms] .

section \<open>Encoding a frame of the controller\<close>

lemma encode_motor_result:
  assumes "name \<in> set (keys profiles)" and "name \<in> set (keys commands)" and "name \<in> set (keys states)"
  shows "\<exists>p cmd s. map_of profiles name = Some p \<and> map_of commands name = Some cmd \<and> map_of states name = Some s \<and>
    encode_motor interp profiles commands states name = profile_encode interp p cmd s"
proof -
  have "\<exists>v. map_of d name = Some v" if "name \<in> set (keys d)" for d :: "(string, 'v) dict"
    using that by (induction d) auto
  with assms obtain p cmd s where "map_of profiles name = Some p" "map_of commands name = Some cmd" "map_of states name = Some s"
    by meson
  then show ?thesis by (auto simp: encode_motor_def lookup_result_def)
qed

lemma rmap_cases:
  "(\<exists>ys. rmap f xs = Inr ys) \<or> (\<exists>x e. x \<in> set xs \<and> f x = Inl e \<and> rmap f xs = Inl e)"
proof (induction xs)
  case (Cons x xs)
  then show ?case by (cases "f x") auto
qed simp

lemma profile_encode_name: "profile_encode interp p cmd s = Inr e \<Longrightarrow> ec_motor_name e = ep_motor_name (pf_endpoint p)"
  by (auto simp: profile_encode_def rbind_eq_Inr encode_damiao_mit_command_def Let_def split: if_splits)

lemma profile_map_name: "map_of (profile_map ps) name = Some p \<Longrightarrow> ep_motor_name (pf_endpoint p) = name"
  using dict_of_subset [of "map (\<lambda>p. (ep_motor_name (pf_endpoint p), p)) ps"]
  by (auto simp: profile_map_def dest!: map_of_SomeD)

text \<open>
  The commands of a set of motors are encoded in the order of the names, or the first refusal of a
  profile is raised.
\<close>

lemma encode_motors:
  assumes "set names \<subseteq> set (keys (profile_map profiles))" and "set names \<subseteq> set (keys commands)" and "set names \<subseteq> set (keys states)"
  shows "(\<exists>es. rmap (encode_motor interp (profile_map profiles) commands states) names = Inr es \<and> map ec_motor_name es = names) \<or>
    (\<exists>name p cmd s e. map_of (profile_map profiles) name = Some p \<and> map_of commands name = Some cmd \<and> map_of states name = Some s \<and>
       profile_encode interp p cmd s = Inl e \<and> rmap (encode_motor interp (profile_map profiles) commands states) names = Inl e)"
    (is "?all \<or> ?refused")
proof -
  let ?f = "encode_motor interp (profile_map profiles) commands states"
  have one: "\<exists>p cmd s. map_of (profile_map profiles) x = Some p \<and> map_of commands x = Some cmd \<and> map_of states x = Some s \<and>
      ?f x = profile_encode interp p cmd s" if "x \<in> set names" for x
    using that assms by (intro encode_motor_result) auto
  have name: "ec_motor_name e = x" if "x \<in> set names" "?f x = Inr e" for x e
    using one [OF that(1)] that(2) profile_encode_name profile_map_name by metis
  consider (all) es where "rmap ?f names = Inr es" | (refused) x e where "x \<in> set names" "?f x = Inl e" "rmap ?f names = Inl e"
    using rmap_cases [of ?f names] by blast
  then show ?thesis
  proof cases
    case all
    then have "list_all2 (\<lambda>x e. ?f x = Inr e) names es" by (simp add: rmap_eq_Inr)
    then have "map ec_motor_name es = names"
      using name by (simp add: list_all2_conv_all_nth list_eq_iff_nth_eq [of _ names])
    with all show ?thesis by blast
  next
    case refused
    with one [OF refused(1)] show ?thesis by metis
  qed
qed

lemma ankle_motors_physical:
  assumes "ankle_motors m = Inr names" and "physical_motor_names m = Inr motors"
  shows "set names \<subseteq> set motors"
  using assms by (auto simp: ankle_motors_def physical_motor_names_def ANKLE_PAIR_NAMES_def DIFFERENTIAL_PAIRS_def
      rbind_eq_Inr lookup_result_def split: option.splits)

lemma expected_other_motors:
  assumes "set (keys other) = (if P then set motors - set names else {})"
  shows "(if other \<noteq> [] then filter (\<lambda>n. n \<notin> set names) motors else []) =
    (if P then filter (\<lambda>n. n \<notin> set names) motors else [])"
  using assms by (cases other) (auto split: if_splits simp: filter_empty_conv empty_filter_conv)

text \<open>
  C26. A frame of the controller always passes the coverage checks of the encoder: with profiles that
  cover the physical motors once, encoding it returns the commands of the ankle motors and of the other
  commanded motors, each in the order of their names and with the tick of the frame, or it raises what
  the profile of one commanded motor raises for the command and the measured state of that motor.
\<close>
theorem controller_frames_encode:
  assumes map: "new_motor_map names direct differentials = Inr m" and new: "new_multirate_controller m effort policy_hz state_hz = Inr c0"
    and np: "entrywise_control np" and run: "controller_run np c0 c" and step: "multirate_step np c states = (Inr frame, c')"
    and motors: "physical_motor_names m = Inr motors" and once: "distinct (map (ep_motor_name \<circ> pf_endpoint) profiles)"
    and cover: "set (map (ep_motor_name \<circ> pf_endpoint) profiles) = set motors"
    and ankles: "ankle = sorted_set (mr_ankle_motor_names c0)"
    and others: "other = sorted_set (if mr_state_tick c mod 10 = 0 then filter (\<lambda>n. n \<notin> set (mr_ankle_motor_names c0)) motors else [])"
  shows "case encode_multirate_command_frame interp m profiles frame states of
      Inr e \<Rightarrow> ef_state_tick e = mr_state_tick c \<and> map ec_motor_name (ef_ankle_commands e) = ankle \<and>
        map ec_motor_name (ef_other_motor_commands e) = other
    | Inl err \<Rightarrow> \<exists>name p cmd s. map_of (profile_map profiles) name = Some p \<and> map_of states name = Some s \<and>
        (map_of (cm_ankle_commands frame) name = Some cmd \<or> map_of (cm_other_motor_commands frame) name = Some cmd) \<and>
        profile_encode interp p cmd s = Inl err"
proof -
  let ?A = "mr_ankle_motor_names c0" and ?P = "mr_state_tick c mod 10 = 0"
  let ?O = "if ?P then filter (\<lambda>n. n \<notin> set ?A) motors else []"
  note c = run_sized [OF map new run]
  from step_facts [OF map new np run step] motors
  have tick: "cm_state_tick frame = mr_state_tick c" and ak: "set (keys (cm_ankle_commands frame)) = set ?A"
    and ok: "set (keys (cm_other_motor_commands frame)) = (if ?P then set motors - set ?A else {})" by auto
  from step have "multirate_frame np c states = Inr frame" by (auto simp: multirate_step_def split: sum.splits)
  then have sk: "set (keys states) = set motors" by (rule frame_parts) (use motors c(2) in auto)
  have pk: "set (keys (profile_map profiles)) = set motors" using cover by (simp add: profile_map_def image_image)
  have A: "ankle_motors m = Inr ?A" using c(4,5) by simp
  have sub: "set ?A \<subseteq> set motors" by (rule ankle_motors_physical [OF A motors])
  have O: "(if updates_other_motors frame then filter (\<lambda>n. n \<notin> set ?A) motors else []) = ?O"
    using expected_other_motors [OF ok] by (simp add: updates_other_motors_def)
  have "set ?O = (if ?P then set motors - set ?A else {})" by auto
  then have encoded: "encode_multirate_command_frame interp m profiles frame states =
     rbind (rmap (encode_motor interp (profile_map profiles) (cm_ankle_commands frame) states) ankle) (\<lambda>es.
     rbind (rmap (encode_motor interp (profile_map profiles) (cm_other_motor_commands frame) states) other) (\<lambda>os.
       Inr \<lparr>ef_state_tick = cm_state_tick frame, ef_ankle_commands = es, ef_other_motor_commands = os\<rparr>))"
    unfolding encode_multirate_command_frame_def Let_def motors A rbind_Inr O
    using ak ok sk pk once by (simp add: profile_map_length ankles others del: set_map)
  have a: "set ankle \<subseteq> set (keys (profile_map profiles))" "set ankle \<subseteq> set (keys (cm_ankle_commands frame))" "set ankle \<subseteq> set (keys states)"
    using sub ak sk pk by (auto simp: ankles)
  have o: "set other \<subseteq> set (keys (profile_map profiles))" "set other \<subseteq> set (keys (cm_other_motor_commands frame))" "set other \<subseteq> set (keys states)"
    using ok sk pk by (auto simp: others split: if_splits)
  from encode_motors [OF a, of interp] encode_motors [OF o, of interp] show ?thesis
    unfolding encoded by (auto simp: tick) blast+
qed

end
