(* ===== verification/MultiRateSample.thy ===== *)
theory MultiRateSample
  imports MultiRateSafety MappingSample
begin

text \<open>
  A step of the multi-rate controller on the sample motor map: every motor at rest in its zero, a policy
  target one radian away with a gain that the effort limit of the ankles cuts.
\<close>

definition control_numpy :: numpy_control where
  "control_numpy = \<lparr>np_add = map2 fadd, np_subtract = map2 fsub, np_multiply = map2 fmul,
     np_maximum = map2 fmax, np_clip = clip_entries, np_max = foldl fmax NInf,
     np_matvec = (\<lambda>m v. map (\<lambda>r. dot r v) m), np_transpose = transpose,
     np_solve = solve2, np_det = det2, np_inv = inv2,
     np_matmul = (\<lambda>a b. map (\<lambda>r. map (dot r) (transpose b)) a), np_matsub = map2 (map2 fsub),
     np_diag = (\<lambda>v. map (\<lambda>i. (replicate (length v) (Fin 0))[i := v ! i]) [0..<length v]),
     np_diagonal = (\<lambda>m. map (\<lambda>i. m ! i ! i) [0..<length m]),
     np_max_abs = (\<lambda>m. foldl fmax NInf (map fabs (concat m))), nc_negative = map fneg, nc_isclose = (=)\<rparr>"

lemma control_truncate: "numpy.truncate control_numpy = entrywise_numpy"
  by (simp add: control_numpy_def entrywise_numpy_def numpy.truncate_def)

lemma control_entrywise: "entrywise_control control_numpy"
  unfolding entrywise_control_def control_truncate by (simp add: entrywise_numpy_def control_numpy_def)

abbreviation all31 :: "rat \<Rightarrow> vec" where
  "all31 x \<equiv> replicate 31 (Fin x)"

definition sample_target :: impedance_target where
  "sample_target = \<lparr>it_position_rad = all31 (1 / 4), it_velocity_rad_s = all31 0, it_kp = all31 8, it_kd = all31 0,
     it_feedforward_torque_nm = all31 0\<rparr>"

definition sample_controller :: multirate_controller where
  "sample_controller = \<lparr>mr_mapping = unit_motor_map, mr_joint_effort_limit_nm = all31 1, mr_policy_hz = 50, mr_state_hz = 500,
     mr_state_ticks_per_policy = 10, mr_ankle_motor_names =
       [''left_ankle_motor_a'', ''left_ankle_motor_b'', ''right_ankle_motor_a'', ''right_ankle_motor_b''],
     mr_target = None, mr_state_tick = 0\<rparr>"

lemma sample_ankle_motors: "ankle_motors unit_motor_map =
   Inr [''left_ankle_motor_a'', ''left_ankle_motor_b'', ''right_ankle_motor_a'', ''right_ankle_motor_b'']"
  by (simp add: ankle_motors_def ANKLE_PAIR_NAMES_def unit_motor_map_def unit_pairs_def unit_pair_def lookup_result_def)

lemma sample_controller_made: "new_multirate_controller unit_motor_map (all31 1) 50 500 = Inr sample_controller"
  by (simp add: new_multirate_controller_def joint_vector_def finite_vector_def list_all_iff list_ex_iff sample_ankle_motors
      sample_controller_def)

definition at_rest :: "(string, mit_state) dict" where
  "at_rest = (let s = \<lparr>ms_position_rad = Fin 0, ms_velocity_rad_s = Fin 0\<rparr> in uniform_motors s s s)"

lemma at_rest_values: "map (\<lambda>(name, s). (name, f s)) at_rest = (let x = f \<lparr>ms_position_rad = Fin 0, ms_velocity_rad_s = Fin 0\<rparr> in
    uniform_motors x x x)"
  by (simp add: at_rest_def uniform_motors_def Let_def)

lemma unit_zero:
  "drive_to_direct MapPosition (unit_map r) (Fin 0) = Inr (Fin 0)"
  "drive_to_direct MapVelocity (unit_map r) (Fin 0) = Inr (Fin 0)"
  "drive_to_pair MapPosition entrywise_numpy (unit_pair n js ms) [Fin 0, Fin 0] = Inr [Fin 0, Fin 0]"
  "drive_to_pair MapVelocity entrywise_numpy (unit_pair n js ms) [Fin 0, Fin 0] = Inr [Fin 0, Fin 0]"
  by (simp_all add: drive_to_direct_position_def drive_to_direct_velocity_def signed_ratio_def unit_map_def finite_scalar_def
      drive_to_pair_position_def drive_to_pair_velocity_def motor_to_joint_position_def motor_to_joint_velocity_def
      vector2_def unit_pair_def entrywise_numpy_def finite_or_nan_def dot_def float_eval)

lemma sample_measured: "mr_mapping c = unit_motor_map \<Longrightarrow> measured_joint_state control_numpy c at_rest = Inr (all31 0, all31 0)"
  using uniform_back [OF _ _ _ unit_zero(1,3)] uniform_back [OF _ _ _ unit_zero(2,4)]
  by (simp add: measured_joint_state_def unit_physical at_rest_values control_truncate motor_to_joint_positions_def
      motor_to_joint_velocities_def del: set_append set_map drive_to_direct.simps drive_to_pair.simps)
    (simp add: at_rest_def Let_def uniform_keys del: set_append set_map)

lemma sample_index:
  assumes "j \<in> set sample_policy"
  obtains i where "index_of sample_policy j = Inr i" "i < 31"
proof -
  from assms obtain i where i: "i < length sample_policy" "sample_policy ! i = j" by (auto simp: in_set_conv_nth)
  with sample_policy_size have "map_of (zip sample_policy [0..<length sample_policy]) j = Some i"
    by (intro map_of_is_SomeI) (auto simp: in_set_zip intro!: exI [of _ i])
  with i sample_policy_size that show ?thesis by (auto simp: index_of_def lookup_result_def)
qed

lemma sample_indices:
  assumes "set js \<subseteq> set sample_policy"
  shows "\<exists>ks. rmap (index_of sample_policy) js = Inr ks \<and> (\<forall>x. entries (all31 x) ks = replicate (length js) (Fin x))"
  using assms
proof (induction js)
  case (Cons j js)
  then obtain ks where ks: "rmap (index_of sample_policy) js = Inr ks" "\<forall>x. entries (all31 x) ks = replicate (length js) (Fin x)"
    by auto
  from Cons.prems have "j \<in> set sample_policy" by simp
  then obtain i where "index_of sample_policy j = Inr i" "i < 31" by (rule sample_index)
  with ks show ?case by (intro exI [of _ "i # ks"]) (simp add: entries_def)
qed (simp add: entries_def)

lemma pair_indices:
  assumes "set [j1, j2] \<subseteq> set sample_policy"
  obtains ks where "rmap (index_of sample_policy) [j1, j2] = Inr ks" "\<forall>x. entries (all31 x) ks = [Fin x, Fin x]"
  using sample_indices [OF assms] by (auto simp: numeral_2_eq_2)

section \<open>The ankles\<close>

lemma sample_torque:
  assumes "\<forall>x. entries (all31 x) ks = [Fin x, Fin x]"
  shows "raw_torque control_numpy sample_target (all31 0) (all31 0) ks = [Fin 2, Fin 2]"
    and "np_clip entrywise_numpy [Fin 2, Fin 2] (nc_negative control_numpy [Fin 1, Fin 1]) [Fin 1, Fin 1] = [Fin 1, Fin 1]"
    and "pair_to_drive_torque entrywise_numpy (unit_pair n js ms) [Fin 1, Fin 1] = Inr [Fin 1, Fin 0]"
  by (simp_all add: raw_torque_def control_truncate sample_target_def assms, simp_all add: control_numpy_def clip_entry_def fmin_def fmax_def
      pair_to_drive_torque_def joint_to_motor_torque_def vector2_def unit_pair_def entrywise_numpy_def finite_or_nan_def dot_def float_eval)

definition push :: "rat \<Rightarrow> mit_command" where
  "push t = \<lparr>mc_position_rad = Fin 0, mc_velocity_rad_s = Fin 0, mc_kp = Fin 0, mc_kd = Fin 0, mc_feedforward_torque_nm = Fin t\<rparr>"

definition latched :: multirate_controller where
  "latched = latch_policy_target sample_target sample_controller"

lemma latched_fields: "mr_mapping latched = unit_motor_map" "mr_joint_effort_limit_nm latched = all31 1"
  "mr_target latched = Some sample_target" "mr_state_tick latched = 0" "mr_state_ticks_per_policy latched = 10"
  "mr_ankle_motor_names latched = mr_ankle_motor_names sample_controller"
  by (simp_all add: latched_def latch_policy_target_def sample_controller_def)

lemma sample_pair:
  assumes pair: "map_of unit_pairs pair = Some (unit_pair pair [j1, j2] [ma, mb])"
    and joints: "set [j1, j2] \<subseteq> set sample_policy"
    and motors: "map_of at_rest ma = Some \<lparr>ms_position_rad = Fin 0, ms_velocity_rad_s = Fin 0\<rparr>"
      "map_of at_rest mb = Some \<lparr>ms_position_rad = Fin 0, ms_velocity_rad_s = Fin 0\<rparr>"
  shows "ankle_pair_commands control_numpy latched sample_target at_rest (all31 0) (all31 0) (d, torques, sat) pair =
    Inr (dict_set (dict_set d ma (push 1)) mb (push 0), dict_set torques pair [Fin 1, Fin 1], sat @ [j1, j2])"
proof -
  from joints obtain ks where ks: "rmap (index_of sample_policy) [j1, j2] = Inr ks" and e: "\<forall>x. entries (all31 x) ks = [Fin x, Fin x]"
    by (rule pair_indices)
  have close: "\<not> nc_isclose control_numpy (Fin 2) (Fin 1)" by (simp add: control_numpy_def)
  have names: "dp_joint_names (unit_pair pair js ms) = js" "dp_motor_names (unit_pair pair js ms) = ms" for js ms
    by (simp_all add: unit_pair_def)
  have policy: "mm_policy_joint_names unit_motor_map = sample_policy" "mm_differentials unit_motor_map = unit_pairs"
    by (simp_all add: unit_motor_map_def)
  have sat: "rmap (saturated_of control_numpy [Fin 2, Fin 2] [Fin 1, Fin 1]) (zip [j1, j2] [0..<length [j1, j2]]) = Inr [[j1], [j2]]"
    using close by (simp add: saturated_of_def vec_at_def upt_rec)
  have drives: "rfold (ankle_motor_command at_rest [Fin 1, Fin 0]) d (zip [ma, mb] [0..<length [ma, mb]]) =
      Inr (dict_set (dict_set d ma (push 1)) mb (push 0))"
    using motors by (simp add: ankle_motor_command_def lookup_result_def vec_at_def new_mit_command_def push_def upt_rec)
  have found: "lookup_result unit_pairs pair = Inr (unit_pair pair [j1, j2] [ma, mb])"
    using pair by (simp add: lookup_result_def)
  note torque = sample_torque [OF e] and ten = spec [OF e, of 1]
  show ?thesis
    unfolding ankle_pair_commands_def split latched_fields policy found rbind_Inr names ks Let_def torque(1) ten control_truncate
      torque(2) sat torque(3) drives by simp
qed

lemma at_rest_lookup: "name \<in> {''left_ankle_motor_a'', ''left_ankle_motor_b'', ''right_ankle_motor_a'', ''right_ankle_motor_b''} \<Longrightarrow>
   map_of at_rest name = Some \<lparr>ms_position_rad = Fin 0, ms_velocity_rad_s = Fin 0\<rparr>"
  by (auto simp: at_rest_def Let_def uniform_lookup)

lemma sample_ankles: "\<exists>torques sat. ankle_commands control_numpy latched sample_target at_rest (all31 0) (all31 0) =
   Inr ([(''left_ankle_motor_a'', push 1), (''left_ankle_motor_b'', push 0), (''right_ankle_motor_a'', push 1),
     (''right_ankle_motor_b'', push 0)], torques, sat)"
proof -
  obtain l1 l2 r1 r2 where j: "LEFT_ANKLE = [l1, l2]" "RIGHT_ANKLE = [r1, r2]" by (simp add: LEFT_ANKLE_def RIGHT_ANKLE_def)
  have "map_of unit_pairs ''left_ankle'' = Some (unit_pair ''left_ankle'' [l1, l2] [''left_ankle_motor_a'', ''left_ankle_motor_b''])"
    "map_of unit_pairs ''right_ankle'' = Some (unit_pair ''right_ankle'' [r1, r2] [''right_ankle_motor_a'', ''right_ankle_motor_b''])"
    by (simp_all add: unit_pairs_def j)
  note pairs = sample_pair [OF this(1) _ at_rest_lookup at_rest_lookup] sample_pair [OF this(2) _ at_rest_lookup at_rest_lookup]
  show ?thesis using pair_policy by (simp add: ankle_commands_def ANKLE_PAIR_NAMES_def pairs j)
qed

section \<open>The other motors\<close>

definition reach :: "rat \<Rightarrow> rat \<Rightarrow> mit_command" where
  "reach x k = \<lparr>mc_position_rad = Fin x, mc_velocity_rad_s = Fin 0, mc_kp = Fin k, mc_kd = Fin 0, mc_feedforward_torque_nm = Fin 0\<rparr>"

definition sample_impedance :: joint_impedance where
  "sample_impedance = \<lparr>ji_desired_position = all31 (1 / 4), ji_desired_velocity = all31 0, ji_measured_position = all31 0,
     ji_measured_velocity = all31 0, ji_kp = all31 8, ji_kd = all31 0, ji_feedforward = all31 0\<rparr>"

lemma sample_direct: "rfold (direct_command unit_motor_map sample_impedance) [] (mm_direct unit_motor_map) =
    Inr (map (\<lambda>r. (r, reach (1 / 4) 8)) direct_roles)"
proof -
  have one: "direct_impedance_command (unit_map r) (Fin (1 / 4)) (Fin 0) (Fin 8) (Fin 0) (Fin 0) = Inr (reach (1 / 4) 8)" for r
    by (simp add: direct_impedance_command_def direct_to_drive_gains_def direct_to_drive_position_def direct_to_drive_velocity_def
        direct_to_drive_torque_def signed_ratio_def unit_map_def finite_scalar_def new_mit_command_def reach_def float_eval)
  have step: "direct_command unit_motor_map sample_impedance d (r, unit_map r) = Inr (dict_set d r (reach (1 / 4) 8))" if "r \<in> set direct_roles" for d r
  proof -
    from that roles_policy(1) have "r \<in> set sample_policy" by blast
    then obtain i where "index_of sample_policy r = Inr i" "i < 31" by (rule sample_index)
    with one show ?thesis by (simp add: direct_command_def sample_impedance_def unit_motor_map_def unit_map_def [THEN arg_cong [where f = dm_motor_name]])
  qed
  have "rfold (direct_command unit_motor_map sample_impedance) [] (map (\<lambda>r. (r, unit_map r)) direct_roles) =
      Inr (foldl (\<lambda>d (k, v). dict_set d k v) [] (map (\<lambda>k. (fst k, reach (1 / 4) 8)) (filter (\<lambda>_. True) (map (\<lambda>r. (r, unit_map r)) direct_roles))))"
    by (rule rfold_plain) (use step in auto)
  also have "\<dots> = Inr (map (\<lambda>r. (r, reach (1 / 4) 8)) direct_roles)"
    using roles_policy(3) by (subst dict_fold_new) (simp_all add: comp_def)
  finally show ?thesis by (simp add: unit_motor_map_def)
qed

text \<open>The impedance of a pair with the symmetric coupling, one matrix at a time.\<close>

abbreviation half_inverse :: mat where
  "half_inverse \<equiv> [[Fin (1 / 2), Fin (1 / 2)], [Fin (1 / 2), Fin (- (1 / 2))]]"

lemma unit_drive:
  "pair_to_drive_position entrywise_numpy (unit_pair n js ms) [Fin (1 / 4), Fin (1 / 4)] = Inr [Fin (1 / 2), Fin 0]"
  "pair_to_drive_position entrywise_numpy (unit_pair n js ms) [Fin 0, Fin 0] = Inr [Fin 0, Fin 0]"
  "pair_to_drive_velocity entrywise_numpy (unit_pair n js ms) [Fin 0, Fin 0] = Inr [Fin 0, Fin 0]"
  by (simp_all add: pair_to_drive_position_def pair_to_drive_velocity_def joint_to_motor_position_def joint_to_motor_velocity_def
      vector2_def unit_pair_def entrywise_numpy_def dot_def float_eval)

lemma unit_matrix: "joint_to_drive_matrix entrywise_numpy (unit_pair n js ms) = [[Fin 1, Fin 1], [Fin 1, Fin (- 1)]]"
  by (simp add: joint_to_drive_matrix_def unit_pair_def entrywise_numpy_def dot_def upt_rec float_eval)

lemma unit_inverse: "np_inv entrywise_numpy [[Fin 1, Fin 1], [Fin 1, Fin (- 1)]] = Inr half_inverse"
  by (simp add: entrywise_numpy_def finite_or_nan_def float_eval)

lemma unit_gains:
  "np_matmul entrywise_numpy (np_matmul entrywise_numpy (np_transpose entrywise_numpy half_inverse)
     (np_diag entrywise_numpy [Fin 8, Fin 8])) half_inverse = [[Fin 4, Fin 0], [Fin 0, Fin 4]]"
  "np_matmul entrywise_numpy (np_matmul entrywise_numpy (np_transpose entrywise_numpy half_inverse)
     (np_diag entrywise_numpy [Fin 0, Fin 0])) half_inverse = [[Fin 0, Fin 0], [Fin 0, Fin 0]]"
  by (simp_all add: entrywise_numpy_def dot_def upt_rec float_eval)

lemma unit_rest:
  "np_diagonal entrywise_numpy [[Fin a, Fin b], [Fin c, Fin d]] = [Fin a, Fin d]"
  "np_matsub entrywise_numpy [[Fin 4, Fin 0], [Fin 0, Fin 4]] (np_diag entrywise_numpy [Fin 4, Fin 4]) = [[Fin 0, Fin 0], [Fin 0, Fin 0]]"
  "np_matsub entrywise_numpy [[Fin 0, Fin 0], [Fin 0, Fin 0]] (np_diag entrywise_numpy [Fin 0, Fin 0]) = [[Fin 0, Fin 0], [Fin 0, Fin 0]]"
  "np_subtract entrywise_numpy [Fin x, Fin y] [Fin 0, Fin 0] = [rnd x, rnd y]"
  "np_matvec entrywise_numpy [[Fin 0, Fin 0], [Fin 0, Fin 0]] [Fin x, Fin y] = [Fin 0, Fin 0]"
  "np_matvec entrywise_numpy (np_transpose entrywise_numpy half_inverse) [Fin 0, Fin 0] = [Fin 0, Fin 0]"
  "np_add entrywise_numpy [Fin 0, Fin 0] [Fin 0, Fin 0] = [Fin 0, Fin 0]"
  by (simp_all add: entrywise_numpy_def dot_def upt_rec fsub_def)

lemma unit_impedance: "pair_impedance_commands entrywise_numpy (unit_pair n js ms) [Fin (1 / 4), Fin (1 / 4)] [Fin 0, Fin 0] [Fin 0, Fin 0] [Fin 0, Fin 0]
    [Fin 8, Fin 8] [Fin 0, Fin 0] [Fin 0, Fin 0] = Inr [reach (1 / 2) 4, reach 0 4]"
proof -
  have two: "rnd (1 / 2) = Fin (1 / 2)" by (simp add: float_eval)
  show ?thesis
    by (simp add: pair_impedance_commands_def unit_drive unit_matrix unit_inverse unit_gains unit_rest two Let_def finite_vector_def
        any_negative_def vec_at_def new_mit_command_def reach_def)
qed

lemma sample_pair_command:
  assumes "set [j1, j2] \<subseteq> set sample_policy"
  shows "pair_command entrywise_numpy unit_motor_map sample_impedance d (n, unit_pair n [j1, j2] [ma, mb]) =
    Inr (dict_set (dict_set d ma (reach (1 / 2) 4)) mb (reach 0 4))"
proof -
  from assms obtain ks where ks: "rmap (index_of sample_policy) [j1, j2] = Inr ks" and e: "\<forall>x. entries (all31 x) ks = [Fin x, Fin x]"
    by (rule pair_indices)
  show ?thesis
    using ks by (simp add: pair_command_def unit_pair_def [THEN arg_cong [where f = dp_joint_names]]
        unit_pair_def [THEN arg_cong [where f = dp_motor_names]] unit_motor_map_def sample_impedance_def e unit_impedance update_strict_def
        del: rmap.simps)
qed

lemma sample_commands: "\<exists>d. joint_impedance_to_motor_commands entrywise_numpy unit_motor_map sample_impedance = Inr d \<and>
   snd ` set d \<subseteq> {reach (1 / 4) 8, reach (1 / 2) 4, reach 0 4}"
proof -
  obtain l1 l2 r1 r2 where j: "LEFT_ANKLE = [l1, l2]" "RIGHT_ANKLE = [r1, r2]" by (simp add: LEFT_ANKLE_def RIGHT_ANKLE_def)
  have vectors: "impedance_vectors sample_impedance = Inr sample_impedance"
    by (simp add: impedance_vectors_def map_vector_def finite_vector_def any_negative_def sample_impedance_def list_all_iff list_ex_iff)
  have "rfold (pair_command entrywise_numpy unit_motor_map sample_impedance) (map (\<lambda>r. (r, reach (1 / 4) 8)) direct_roles)
      (mm_differentials unit_motor_map) = Inr (map (\<lambda>r. (r, reach (1 / 4) 8)) direct_roles @
        [(''left_ankle_motor_a'', reach (1 / 2) 4), (''left_ankle_motor_b'', reach 0 4), (''right_ankle_motor_a'', reach (1 / 2) 4),
         (''right_ankle_motor_b'', reach 0 4), (''head_motor_a'', reach (1 / 2) 4), (''head_motor_b'', reach 0 4)])"
    using pair_policy by (simp add: unit_motor_map_def [THEN arg_cong [where f = mm_differentials]] unit_pairs_def j sample_pair_command)
      (simp add: roles_values)
  then show ?thesis
    by (auto simp: joint_impedance_to_motor_commands_def vectors sample_direct unit_physical image_Un image_image)
qed

section \<open>The first step\<close>

lemma sample_frame:
  obtains frame where "multirate_step control_numpy latched at_rest = (Inr frame, latched\<lparr>mr_state_tick := 1\<rparr>)"
    "cm_ankle_commands frame = [(''left_ankle_motor_a'', push 1), (''left_ankle_motor_b'', push 0), (''right_ankle_motor_a'', push 1),
     (''right_ankle_motor_b'', push 0)]"
    "snd ` set (cm_other_motor_commands frame) \<subseteq> {reach (1 / 4) 8, reach (1 / 2) 4, reach 0 4}"
proof -
  obtain torques sat where a: "ankle_commands control_numpy latched sample_target at_rest (all31 0) (all31 0) =
     Inr ([(''left_ankle_motor_a'', push 1), (''left_ankle_motor_b'', push 0), (''right_ankle_motor_a'', push 1),
       (''right_ankle_motor_b'', push 0)], torques, sat)" using sample_ankles by blast
  obtain d where d: "joint_impedance_to_motor_commands entrywise_numpy unit_motor_map sample_impedance = Inr d" "snd ` set d \<subseteq> {reach (1 / 4) 8, reach (1 / 2) 4, reach 0 4}"
    using sample_commands by blast
  have "sample_impedance = \<lparr>ji_desired_position = it_position_rad sample_target, ji_desired_velocity = it_velocity_rad_s sample_target,
      ji_measured_position = all31 0, ji_measured_velocity = all31 0, ji_kp = it_kp sample_target,
      ji_kd = it_kd sample_target, ji_feedforward = it_feedforward_torque_nm sample_target\<rparr>"
    by (simp add: sample_impedance_def sample_target_def)
  with a d(1) have "multirate_step control_numpy latched at_rest = (Inr \<lparr>cm_state_tick = 0,
      cm_ankle_commands = [(''left_ankle_motor_a'', push 1), (''left_ankle_motor_b'', push 0), (''right_ankle_motor_a'', push 1),
       (''right_ankle_motor_b'', push 0)],
      cm_other_motor_commands = filter (\<lambda>(name, _). name \<notin> set (mr_ankle_motor_names sample_controller)) d,
      cm_ankle_joint_torque_nm = torques, cm_saturated_ankle_joints = sat\<rparr>, latched\<lparr>mr_state_tick := 1\<rparr>)"
    by (simp add: multirate_step_def multirate_frame_def latched_fields sample_measured control_truncate)
  then show ?thesis by (rule that) (use d(2) in auto)
qed

lemma sample_multirate_run: "controller_run control_numpy sample_controller latched"
  unfolding latched_def by (intro controller_run.latch controller_run.start)

theorem multirate_step_commands_witness:
  "\<exists>frame c'. multirate_step control_numpy latched at_rest = (Inr frame, c') \<and> mr_state_tick c' = 1 \<and>
     torque_only control_numpy latched at_rest ''left_ankle_motor_a'' (push 1) \<and>
     ''left_knee_joint'' \<in> set (keys (cm_other_motor_commands frame)) \<and>
     ''left_ankle_motor_a'' \<notin> set (keys (cm_other_motor_commands frame))"
proof -
  obtain frame where frame: "multirate_step control_numpy latched at_rest = (Inr frame, latched\<lparr>mr_state_tick := 1\<rparr>)"
    and ankles: "cm_ankle_commands frame = [(''left_ankle_motor_a'', push 1), (''left_ankle_motor_b'', push 0),
     (''right_ankle_motor_a'', push 1), (''right_ankle_motor_b'', push 0)]" by (rule sample_frame)
  note facts = multirate_step_commands [OF unit_map_accepted sample_controller_made control_entrywise sample_multirate_run frame]
  from facts have "torque_only control_numpy latched at_rest ''left_ankle_motor_a'' (push 1)" by (simp add: ankles)
  moreover from facts have "set (keys (cm_other_motor_commands frame)) = set (direct_roles @ [''left_ankle_motor_a'',
      ''left_ankle_motor_b'', ''right_ankle_motor_a'', ''right_ankle_motor_b'', ''head_motor_a'', ''head_motor_b'']) -
      set (mr_ankle_motor_names sample_controller)"
    by (simp only: unit_physical latched_fields sum.inject) simp
  then have "''left_knee_joint'' \<in> set (keys (cm_other_motor_commands frame))"
    "''left_ankle_motor_a'' \<notin> set (keys (cm_other_motor_commands frame))"
    by (simp_all only:) (simp_all add: sample_controller_def roles_values)
  ultimately show ?thesis using frame by (intro exI [of _ frame] exI [of _ "latched\<lparr>mr_state_tick := 1\<rparr>"]) simp
qed

section \<open>Encoding it\<close>

definition profile_of :: "string \<Rightarrow> command_profile" where
  "profile_of name = sample_profile\<lparr>pf_endpoint := sample_endpoint\<lparr>ep_motor_name := name\<rparr>\<rparr>"

lemma profile_of_encodes:
  assumes c: "c = \<lparr>mc_position_rad = Fin x, mc_velocity_rad_s = Fin 0, mc_kp = Fin k, mc_kd = Fin 0, mc_feedforward_torque_nm = Fin t\<rparr>"
    and x: "- 1 \<le> x" "x \<le> 1" and k: "0 \<le> k" "k \<le> 500" and t: "- 4 \<le> t" "t \<le> 4"
    and w: "estimated_output_torque c sample_state = Fin w" "\<bar>w\<bar> \<le> 4"
  shows "\<exists>e. profile_encode (\<lambda>_ _ _. Fin 4) (profile_of name) c sample_state = Inr e"
proof -
  have envelope: "envelope_for_state (\<lambda>_ _ _. Fin 4) (profile_of name) sample_state =
      Inr \<lparr>env_position_rad = (Fin (- 1), Fin 1), env_maximum_velocity_rad_s = Fin 10, env_maximum_feedforward_torque_nm = Fin 4,
        env_maximum_output_torque_nm = Fin 4\<rparr>"
    by (simp add: envelope_for_state_def profile_of_def sample_profile_def sample_endpoint_def sample_ranges_def sample_state_def
        torque_limit_at_speed_def sample_limits_valid)
      (simp add: sample_limits_def min_abs_def new_command_envelope_def validate_range_def float_eval)
  have d: "is_double (Fin (- 1))" "is_double (Fin 1)" "is_double (Fin (- 4))" "is_double (Fin 4)" "is_double (Fin 0)"
    "is_double (Fin 500)" "is_double (Fin 5)" "is_double (Fin (- 10))" "is_double (Fin 10)" "is_double (Fin (- 5))"
    "isfinite (fsub (Fin 1) (Fin (- 1)))" "isfinite (fsub (Fin 4) (Fin (- 4)))" "isfinite (fsub (Fin 500) (Fin 0))"
    "isfinite (fsub (Fin 5) (Fin 0))" "isfinite (fsub (Fin 10) (Fin (- 10)))" "isfinite (fsub (Fin 5) (Fin (- 5)))"
    by (simp_all add: float_eval)
  obtain n0 n1 n2 n3 n4 n5 where n: "float_to_uint_strict ''position_rad'' (Fin x) (Fin (- 1), Fin 1) 16 = Inr n0"
    "float_to_uint_strict ''position_rad'' (Fin x) (Fin (- 4), Fin 4) 16 = Inr n1"
    "float_to_uint_strict ''velocity_rad_s'' (Fin 0) (Fin (- 10), Fin 10) 12 = Inr n2"
    "float_to_uint_strict ''kp'' (Fin k) (Fin 0, Fin 500) 12 = Inr n3"
    "float_to_uint_strict ''kd'' (Fin 0) (Fin 0, Fin 5) 12 = Inr n4"
    "float_to_uint_strict ''feedforward_torque_nm'' (Fin t) (Fin (- 5), Fin 5) 12 = Inr n5"
    using strict_returns [OF d(1,2), of x 16 "''position_rad''"] strict_returns [OF d(3,4), of x 16 "''position_rad''"]
      strict_returns [OF d(8,9), of 0 12 "''velocity_rad_s''"] strict_returns [OF d(5,6), of k 12 "''kp''"]
      strict_returns [OF d(5,7), of 0 12 "''kd''"] strict_returns [OF d(10), of 5 t 12 "''feedforward_torque_nm''"] d x k t by auto
  have f: "mc_position_rad c = Fin x" "mc_velocity_rad_s c = Fin 0" "mc_kp c = Fin k" "mc_kd c = Fin 0" "mc_feedforward_torque_nm c = Fin t"
    by (simp_all add: c)
  have r: "ep_ranges (pf_endpoint (profile_of name)) = sample_ranges" "pf_maximum_embedded_kd (profile_of name) = Fin 3"
    by (simp_all add: profile_of_def sample_profile_def sample_endpoint_def)
  show ?thesis
    unfolding profile_encode_def envelope encode_damiao_mit_command_def Let_def w(1) f r
    using n w(2) t by (simp add: sample_ranges_def max_abs_def fmax_def abs_le_iff not_less)
qed

lemma sample_profiles_encode:
  assumes "c \<in> {push 1, push 0, reach (1 / 4) 8, reach (1 / 2) 4, reach 0 4}"
  shows "\<exists>e. profile_encode (\<lambda>_ _ _. Fin 4) (profile_of name) c sample_state = Inr e"
proof -
  have pushes: "estimated_output_torque (push 1) sample_state = Fin 1" "estimated_output_torque (push 0) sample_state = Fin 0"
    by (simp_all add: estimated_output_torque_def push_def sample_state_def float_eval)
  have reaches: "estimated_output_torque (reach (1 / 4) 8) sample_state = Fin 2"
    "estimated_output_torque (reach (1 / 2) 4) sample_state = Fin 2" "estimated_output_torque (reach 0 4) sample_state = Fin 0"
    by (simp_all add: estimated_output_torque_def reach_def sample_state_def float_eval)
  note push = profile_of_encodes [OF push_def] and reach = profile_of_encodes [OF reach_def]
  from assms push [OF _ _ _ _ _ _ pushes(1)] push [OF _ _ _ _ _ _ pushes(2)] reach [OF _ _ _ _ _ _ reaches(1)]
    reach [OF _ _ _ _ _ _ reaches(2)] reach [OF _ _ _ _ _ _ reaches(3)] show ?thesis by auto
qed

theorem controller_frames_encode_witness:
  "\<exists>frame e. multirate_step control_numpy latched at_rest = (Inr frame, latched\<lparr>mr_state_tick := 1\<rparr>) \<and>
     encode_multirate_command_frame (\<lambda>_ _ _. Fin 4) unit_motor_map (map profile_of (keys at_rest)) frame at_rest = Inr e \<and>
     ef_state_tick e = 0 \<and> ''left_ankle_motor_a'' \<in> set (map ec_motor_name (ef_ankle_commands e)) \<and>
     ''left_knee_joint'' \<in> set (map ec_motor_name (ef_other_motor_commands e))"
proof -
  obtain frame where frame: "multirate_step control_numpy latched at_rest = (Inr frame, latched\<lparr>mr_state_tick := 1\<rparr>)"
    and ankles: "cm_ankle_commands frame = [(''left_ankle_motor_a'', push 1), (''left_ankle_motor_b'', push 0),
     (''right_ankle_motor_a'', push 1), (''right_ankle_motor_b'', push 0)]"
    and other: "snd ` set (cm_other_motor_commands frame) \<subseteq> {reach (1 / 4) 8, reach (1 / 2) 4, reach 0 4}" by (rule sample_frame)
  have profile: "ep_motor_name (pf_endpoint (profile_of n)) = n" for n by (simp add: profile_of_def)
  have names: "map (ep_motor_name \<circ> pf_endpoint) (map profile_of (keys at_rest)) = keys at_rest" by (simp add: profile comp_def)
  have rest: "keys at_rest = direct_roles @ [''left_ankle_motor_a'', ''left_ankle_motor_b'', ''right_ankle_motor_a'',
      ''right_ankle_motor_b'', ''head_motor_a'', ''head_motor_b'']" unfolding at_rest_def Let_def by (rule uniform_keys)
  have once: "distinct (map (ep_motor_name \<circ> pf_endpoint) (map profile_of (keys at_rest)))"
    unfolding names unfolding rest by (simp add: roles_values)
  have cover: "set (map (ep_motor_name \<circ> pf_endpoint) (map profile_of (keys at_rest))) = set (direct_roles @ [''left_ankle_motor_a'',
      ''left_ankle_motor_b'', ''right_ankle_motor_a'', ''right_ankle_motor_b'', ''head_motor_a'', ''head_motor_b''])"
    unfolding names unfolding rest by (rule refl)
  have same: "n = n' \<and> s = sample_state" if "map_of (profile_map (map profile_of (keys at_rest))) n = Some p" "map_of at_rest n = Some s"
      "p = profile_of n'" for n n' p s
    using that profile_map_name [OF that(1)] map_of_SomeD [OF that(2)] by (auto simp: profile at_rest_def Let_def uniform_motors_def sample_state_def)
  let ?e = "encode_multirate_command_frame (\<lambda>_ _ _. Fin 4) unit_motor_map (map profile_of (keys at_rest)) frame at_rest"
  note facts = controller_frames_encode [OF unit_map_accepted sample_controller_made control_entrywise sample_multirate_run frame unit_physical
      once cover refl refl, of "\<lambda>_ _ _. Fin 4"]
  show ?thesis
  proof (cases ?e)
    case (Inr e)
    with facts have "ef_state_tick e = 0 \<and> ''left_ankle_motor_a'' \<in> set (map ec_motor_name (ef_ankle_commands e)) \<and>
        ''left_knee_joint'' \<in> set (map ec_motor_name (ef_other_motor_commands e))"
      by (simp add: latched_fields sample_controller_def roles_values del: set_map)
    with Inr frame show ?thesis by blast
  next
    case (Inl err)
    with facts obtain n p c s where p: "map_of (profile_map (map profile_of (keys at_rest))) n = Some p" "map_of at_rest n = Some s"
      and c: "map_of (cm_ankle_commands frame) n = Some c \<or> map_of (cm_other_motor_commands frame) n = Some c"
      and err: "profile_encode (\<lambda>_ _ _. Fin 4) p c s = Inl err" by auto
    from p(1) have "p \<in> profile_of ` UNIV"
      using dict_of_subset [of "map (\<lambda>p. (ep_motor_name (pf_endpoint p), p)) (map profile_of (keys at_rest))"]
      by (fastforce simp: profile_map_def dest!: map_of_SomeD)
    with p same have "p = profile_of n" "s = sample_state" by blast+
    moreover from c other have "c \<in> {push 1, push 0, reach (1 / 4) 8, reach (1 / 2) 4, reach 0 4}"
      by (fastforce simp: ankles dest!: map_of_SomeD)
    ultimately show ?thesis using err sample_profiles_encode [of c n] by simp
  qed
qed

end
