(* ===== verification/ImuReceive.thy ===== *)
theory ImuReceive
  imports Yahboom
begin

text \<open>
  The bounded reception of the IMU in the event loop of the policy (\<open>imu_receive.py\<close>): every pass drains
  what the serial port holds, gives the decoded packets a receipt time, and commits them only when the
  whole batch is within its bounds. Time is the integer nanoseconds of the monotonic clock. The answers of
  the port and of the clock are functions of the iteration; \<open>accept\<close> only stores its arguments, so the
  committed packets are the list of its calls. What the code keeps as attributes on the decoder is the
  record \<open>imu_receiver\<close>.
\<close>

section \<open>State\<close>

record drain_stats =
  ds_calls :: nat
  ds_over_2ms_count :: nat
  ds_maximum_wall_ms :: pyfloat
  ds_maximum_thread_cpu_ms :: pyfloat

record imu_receiver =
  ir_decoder :: stream_decoder
  ir_partial_since :: "int option"
  ir_stats :: drain_stats

record drain_turn =
  dt_pending :: "nat result"
  dt_clock :: int
  dt_read :: "bytes result"

record drain =
  dr_receiver :: imu_receiver
  dr_total :: nat
  dr_packets :: "(yahboom_packet \<times> int) list"
  dr_counts :: "nat \<times> nat"

definition FRESH_NS :: int where "FRESH_NS = 30000000"

section \<open>One pass\<close>

text \<open>The counts of raw and quaternion packets; a third of a kind is a backlog.\<close>

fun count_packet :: "yahboom_packet \<Rightarrow> nat \<times> nat \<Rightarrow> nat \<times> nat" where
  "count_packet (YahboomRawImu _ _ _) (r, q) = (r + 1, q)"
| "count_packet (YahboomQuaternion _) (r, q) = (r, q + 1)"
| "count_packet (YahboomEuler _) (r, q) = (r, q)"

fun count_packets :: "yahboom_packet list \<Rightarrow> nat \<times> nat \<Rightarrow> (nat \<times> nat) result" where
  "count_packets [] c = Inr c"
| "count_packets (p # ps) c = (case count_packet p c of (r, q) \<Rightarrow>
     if 2 < r \<or> 2 < q then Inl (RuntimeError ''IMU backlog contains more than two report cycles'')
     else count_packets ps (r, q))"

text \<open>The receipt times of a batch: the first packet may begin with bytes of an earlier pass.\<close>

fun stamp_packets :: "int \<Rightarrow> int \<Rightarrow> yahboom_packet list \<Rightarrow> (yahboom_packet \<times> int) list" where
  "stamp_packets packet_time received [] = []"
| "stamp_packets packet_time received (p # ps) = (p, packet_time) # map (\<lambda>q. (q, received)) ps"

definition packet_time_of :: "int \<Rightarrow> int option \<Rightarrow> int" where
  "packet_time_of started partial_since = (case partial_since of None \<Rightarrow> started | Some p \<Rightarrow> min started p)"

definition next_partial :: "int \<Rightarrow> int option \<Rightarrow> yahboom_packet list \<Rightarrow> stream_decoder \<Rightarrow> int option" where
  "next_partial started partial_since decoded d = (if sd_buffer d = [] then None
     else Some (if decoded = [] then packet_time_of started partial_since else started))"

text \<open>One read: whether the loop goes on.\<close>

definition drain_read :: "int \<Rightarrow> bytes \<Rightarrow> drain \<Rightarrow> drain \<times> bool result" where
  "drain_read started payload s =
     (let rc = dr_receiver s; partial_since = ir_partial_since rc in
      case feed (ir_decoder rc) payload of (decoded, d) \<Rightarrow>
        let s' = s\<lparr>dr_total := dr_total s + length payload,
          dr_receiver := rc\<lparr>ir_decoder := d, ir_partial_since := next_partial started partial_since decoded d\<rparr>\<rparr> in
        case count_packets decoded (dr_counts s) of Inl err \<Rightarrow> (s', Inl err)
        | Inr c \<Rightarrow> (s'\<lparr>dr_counts := c, dr_packets := dr_packets s @
              stamp_packets (packet_time_of started partial_since) started decoded\<rparr>, Inr True))"

definition drain_step :: "int \<Rightarrow> drain_turn \<Rightarrow> drain \<Rightarrow> drain \<times> bool result" where
  "drain_step started t s = (case dt_pending t of Inl err \<Rightarrow> (s, Inl err)
     | Inr pending \<Rightarrow>
         if pending = 0 then (s, Inr False)
         else if 256 < dr_total s + pending \<or> FRESH_NS < dt_clock t - started
         then (s, Inl (RuntimeError ''IMU receive backlog exceeds bounded drain''))
         else (case dt_read t of Inl err \<Rightarrow> (s, Inl err)
           | Inr payload \<Rightarrow> if payload = [] then (s, Inr False) else drain_read started payload s))"

text \<open>The eight iterations; the count is of those that are left.\<close>

fun drain_loop :: "int \<Rightarrow> (nat \<Rightarrow> drain_turn) \<Rightarrow> nat \<Rightarrow> drain \<Rightarrow> drain \<times> unit result" where
  "drain_loop started turns 0 s = (s, Inl (RuntimeError ''IMU receive queue did not drain''))"
| "drain_loop started turns (Suc n) s = (case drain_step started (turns (7 - n)) s of
     (s', Inl err) \<Rightarrow> (s', Inl err)
   | (s', Inr again) \<Rightarrow> if again then drain_loop started turns n s' else (s', Inr ()))"

fun drain_commit :: "(nat \<Rightarrow> int) \<Rightarrow> nat \<Rightarrow> (yahboom_packet \<times> int) list \<Rightarrow> (yahboom_packet \<times> int) list \<times> unit result" where
  "drain_commit clocks i [] = ([], Inr ())"
| "drain_commit clocks i ((p, received) # ps) =
     (if FRESH_NS < clocks i - received then ([], Inl (RuntimeError ''IMU decoded packet stale before commit''))
      else (case drain_commit clocks (i + 1) ps of (accepted, out) \<Rightarrow> ((p, received) # accepted, out)))"

definition stale_partial :: "int \<Rightarrow> imu_receiver \<Rightarrow> bool" where
  "stale_partial started rc = (sd_buffer (ir_decoder rc) \<noteq> [] \<and>
     (case ir_partial_since rc of None \<Rightarrow> False | Some p \<Rightarrow> FRESH_NS < started - p))"

definition drain_batch ::
  "int \<Rightarrow> (nat \<Rightarrow> drain_turn) \<Rightarrow> int \<Rightarrow> (nat \<Rightarrow> int) \<Rightarrow> imu_receiver
     \<Rightarrow> imu_receiver \<times> (yahboom_packet \<times> int) list \<times> unit result" where
  "drain_batch started turns batch_clock clocks rc =
     (if stale_partial started rc then (rc, [], Inl (RuntimeError ''IMU partial frame stale''))
      else (case drain_loop started turns 8 \<lparr>dr_receiver = rc, dr_total = 0, dr_packets = [], dr_counts = (0, 0)\<rparr> of
          (s, Inl err) \<Rightarrow> (dr_receiver s, [], Inl err)
        | (s, Inr _) \<Rightarrow>
            if FRESH_NS < batch_clock - started
            then (dr_receiver s, [], Inl (RuntimeError ''IMU receive batch stale before commit''))
            else (case drain_commit clocks 0 (dr_packets s) of (accepted, out) \<Rightarrow> (dr_receiver s, accepted, out))))"

section \<open>The timing of a pass\<close>

text \<open>The \<open>finally\<close> block of \<open>drain_imu\<close>; an error of it replaces the outcome of the pass.\<close>

definition elapsed_ms :: "int \<Rightarrow> int \<Rightarrow> pyfloat result" where
  "elapsed_ms started stop = rbind (float_of_int (stop - started)) (\<lambda>ns. fdiv ns (Fin 1000000))"

definition note_drain :: "int \<Rightarrow> int \<Rightarrow> int \<Rightarrow> int \<Rightarrow> drain_stats \<Rightarrow> drain_stats result" where
  "note_drain started stop cpu_started cpu_stop st =
     rbind (elapsed_ms started stop) (\<lambda>wall. rbind (elapsed_ms cpu_started cpu_stop) (\<lambda>cpu.
       Inr \<lparr>ds_calls = ds_calls st + 1,
            ds_over_2ms_count = ds_over_2ms_count st + (if flt (Fin 2) wall then 1 else 0),
            ds_maximum_wall_ms = fmax (ds_maximum_wall_ms st) wall,
            ds_maximum_thread_cpu_ms = fmax (ds_maximum_thread_cpu_ms st) cpu\<rparr>))"

definition drain_imu ::
  "int \<Rightarrow> int \<Rightarrow> (nat \<Rightarrow> drain_turn) \<Rightarrow> int \<Rightarrow> (nat \<Rightarrow> int) \<Rightarrow> int \<Rightarrow> int \<Rightarrow> imu_receiver
     \<Rightarrow> imu_receiver \<times> (yahboom_packet \<times> int) list \<times> unit result" where
  "drain_imu started cpu_started turns batch_clock clocks stop cpu_stop rc =
     (case drain_batch started turns batch_clock clocks rc of (rc', accepted, out) \<Rightarrow>
        (case note_drain started stop cpu_started cpu_stop (ir_stats rc') of
           Inl err \<Rightarrow> (rc', accepted, Inl err)
         | Inr st \<Rightarrow> (rc'\<lparr>ir_stats := st\<rparr>, accepted, out)))"

section \<open>Freshness of the last packets\<close>

fun require_fresh :: "(string \<times> int) list \<Rightarrow> int \<Rightarrow> int \<Rightarrow> unit result" where
  "require_fresh [] now maximum_age = Inr ()"
| "require_fresh ((name, timestamp) # rest) now maximum_age =
     (if timestamp \<le> 0 \<or> now < timestamp
      then Inl (RuntimeError (''IMU '' @ name @ '' receipt timestamp invalid''))
      else if maximum_age < now - timestamp then Inl (RuntimeError (''IMU '' @ name @ '' stale''))
      else require_fresh rest now maximum_age)"

definition require_fresh_imu :: "int \<Rightarrow> int \<Rightarrow> int \<Rightarrow> int \<Rightarrow> unit result" where
  "require_fresh_imu raw quaternion now maximum_age =
     require_fresh [(''raw'', raw), (''quaternion'', quaternion)] now maximum_age"

end
