(* ===== verification/ImuSafety.thy ===== *)
theory ImuSafety
  imports ImuReceive
begin

text \<open>
  What a pass of the bounded IMU reception commits: the packets of the bytes it read, few and fresh, and
  how far the receipt times can be trusted.
\<close>

section \<open>The reads of a pass\<close>

definition payload_of :: "drain_turn \<Rightarrow> bytes" where
  "payload_of t = (case dt_read t of Inr b \<Rightarrow> b | Inl _ \<Rightarrow> [])"

definition read_bytes :: "(nat \<Rightarrow> drain_turn) \<Rightarrow> nat \<Rightarrow> bytes" where
  "read_bytes turns k = concat (map (payload_of \<circ> turns) [0..<k])"

text \<open>\<open>read(n)\<close> of the serial port returns at most \<open>n\<close> bytes.\<close>

definition port_ok :: "(nat \<Rightarrow> drain_turn) \<Rightarrow> bool" where
  "port_ok turns \<longleftrightarrow> (\<forall>i n. dt_pending (turns i) = Inr n \<longrightarrow> length (payload_of (turns i)) \<le> n)"

definition kinds :: "yahboom_packet list \<Rightarrow> nat \<times> nat" where
  "kinds ps = (length (filter is_raw ps), length (filter is_quaternion ps))"

definition few :: "nat \<times> nat \<Rightarrow> bool" where
  "few c \<longleftrightarrow> fst c \<le> 2 \<and> snd c \<le> 2"

definition drain_inv :: "imu_receiver \<Rightarrow> int \<Rightarrow> (nat \<Rightarrow> drain_turn) \<Rightarrow> nat \<Rightarrow> drain \<Rightarrow> bool" where
  "drain_inv rc started turns k s \<longleftrightarrow>
     scan (sd_maximum_frame_length (ir_decoder rc)) (sd_buffer (ir_decoder rc) @ read_bytes turns k) =
       (map fst (dr_packets s), sd_buffer (ir_decoder (dr_receiver s)),
        sd_rejected_frame_count (ir_decoder (dr_receiver s)) - sd_rejected_frame_count (ir_decoder rc)) \<and>
     sd_rejected_frame_count (ir_decoder rc) \<le> sd_rejected_frame_count (ir_decoder (dr_receiver s)) \<and>
     sd_maximum_frame_length (ir_decoder (dr_receiver s)) = sd_maximum_frame_length (ir_decoder rc) \<and>
     dr_total s = length (read_bytes turns k) \<and> dr_total s \<le> 256 \<and>
     list_all (\<lambda>(p, t). t \<le> started) (dr_packets s) \<and>
     dr_counts s = kinds (map fst (dr_packets s)) \<and> few (dr_counts s)"

lemma count_packets_kinds:
  "count_packets ps c = Inr c' \<Longrightarrow> few c \<Longrightarrow>
    c' = (fst c + fst (kinds ps), snd c + snd (kinds ps)) \<and> few c'"
proof (induction ps c rule: count_packets.induct)
  case (2 p ps c)
  obtain r q where rq: "count_packet p c = (r, q)" by fastforce
  with 2 have c: "c' = (r + fst (kinds ps), q + snd (kinds ps)) \<and> few c'"
    by (auto simp: few_def split: if_splits)
  from rq have "r = fst c + fst (kinds [p]) \<and> q = snd c + snd (kinds [p])"
    by (cases p; cases c) (auto simp: kinds_def)
  with c show ?case by (auto simp: kinds_def)
qed (auto simp: kinds_def)

lemma stamp_packets_facts:
  "map fst (stamp_packets a b ps) = ps"
  "a \<le> b \<Longrightarrow> list_all (\<lambda>(p, t). t \<le> b) (stamp_packets a b ps)"
  by (cases ps; simp add: list_all_iff comp_def)+

lemma packet_time_le: "packet_time_of started partial_since \<le> started"
  by (simp add: packet_time_of_def split: option.split)

lemma drain_read_inv:
  assumes inv: "drain_inv rc started turns k s" and payload: "payload_of (turns k) = payload"
    and fits: "dr_total s + length payload \<le> 256" and run: "drain_read started payload s = (s', Inr again)"
  shows "drain_inv rc started turns (Suc k) s'"
proof -
  let ?m = "sd_maximum_frame_length (ir_decoder rc)" and ?d = "ir_decoder (dr_receiver s)"
  have more: "read_bytes turns (Suc k) = read_bytes turns k @ payload" using payload by (simp add: read_bytes_def)
  obtain ps r n where sc: "scan ?m (sd_buffer ?d @ payload) = (ps, r, n)" by (cases "scan ?m (sd_buffer ?d @ payload)")
  have "scan ?m (sd_buffer (ir_decoder rc) @ read_bytes turns (Suc k)) = (map fst (dr_packets s) @ ps, r,
      sd_rejected_frame_count ?d - sd_rejected_frame_count (ir_decoder rc) + n)"
    unfolding more append_assoc [symmetric] using inv by (subst scan_append) (simp add: drain_inv_def sc)
  moreover from run inv sc obtain c where "count_packets ps (dr_counts s) = Inr c"
    "s' = s\<lparr>dr_total := dr_total s + length payload, dr_receiver := (dr_receiver s)\<lparr>ir_decoder :=
      ?d\<lparr>sd_buffer := r, sd_rejected_frame_count := sd_rejected_frame_count ?d + n\<rparr>,
      ir_partial_since := next_partial started (ir_partial_since (dr_receiver s)) ps
        (?d\<lparr>sd_buffer := r, sd_rejected_frame_count := sd_rejected_frame_count ?d + n\<rparr>)\<rparr>,
      dr_counts := c, dr_packets := dr_packets s @
        stamp_packets (packet_time_of started (ir_partial_since (dr_receiver s))) started ps\<rparr>"
    by (auto simp: drain_read_def feed_def drain_inv_def Let_def split: sum.splits)
  moreover from this(1) inv have "c = kinds (map fst (dr_packets s) @ ps)" "few c"
    using count_packets_kinds [of ps "dr_counts s" c] by (auto simp: drain_inv_def kinds_def)
  ultimately show ?thesis using inv fits stamp_packets_facts [of _ started] packet_time_le
    by (simp add: drain_inv_def more)
qed

lemma drain_step_inv:
  assumes "drain_inv rc started turns k s" and "port_ok turns" and "drain_step started (turns k) s = (s', Inr again)"
  shows "if again then drain_inv rc started turns (Suc k) s' else s' = s"
proof -
  from assms(3) consider "\<not> again" "s' = s" | pending payload where "dt_pending (turns k) = Inr pending"
      "dr_total s + pending \<le> 256" "dt_read (turns k) = Inr payload" "drain_read started payload s = (s', Inr again)" again
    by (auto simp: drain_step_def drain_read_def Let_def split: sum.splits if_splits prod.splits)
  then show ?thesis
  proof cases
    case 2
    moreover from 2(3) have p: "payload_of (turns k) = payload" by (simp add: payload_of_def)
    moreover from assms(2) 2(1) have "length (payload_of (turns k)) \<le> pending" by (simp only: port_ok_def)
    ultimately show ?thesis using drain_read_inv [OF assms(1) p] by simp
  qed simp
qed

lemma drain_loop_inv:
  "drain_loop started turns n s = (s', Inr ()) \<Longrightarrow> n \<le> 8 \<Longrightarrow> port_ok turns \<Longrightarrow> drain_inv rc started turns (8 - n) s \<Longrightarrow>
    \<exists>k\<le>8. drain_inv rc started turns k s'"
proof (induction n arbitrary: s)
  case (Suc n)
  from Suc.prems(2) have k: "8 - Suc n = 7 - n" "8 - n = Suc (7 - n)" by auto
  from Suc.prems(1) obtain s1 again where s1: "drain_step started (turns (7 - n)) s = (s1, Inr again)"
    "if again then drain_loop started turns n s1 = (s', Inr ()) else s' = s1"
    by (auto split: prod.splits sum.splits if_splits)
  from drain_step_inv [OF Suc.prems(4) [unfolded k] Suc.prems(3) s1(1)] s1(2) Suc.IH [of s1] Suc.prems k show ?case
    by (cases again) (auto intro: exI [of _ "7 - n"])
qed simp

lemma drain_commit_prefix:
  assumes "drain_commit clocks i ps = (accepted, out)"
  shows "\<exists>rest. ps = accepted @ rest \<and> (out = Inr () \<longrightarrow> rest = []) \<and>
    (\<forall>j < length accepted. clocks (i + j) - snd (accepted ! j) \<le> FRESH_NS)"
  using assms
proof (induction clocks i ps arbitrary: accepted out rule: drain_commit.induct)
  case (2 clocks i p received ps)
  show ?case
  proof (cases "FRESH_NS < clocks i - received")
    case False
    obtain a o' where a: "drain_commit clocks (i + 1) ps = (a, o')" by fastforce
    from "2.IH" [OF False a] obtain rest where "ps = a @ rest" "o' = Inr () \<longrightarrow> rest = []"
      "\<forall>j < length a. clocks (i + 1 + j) - snd (a ! j) \<le> FRESH_NS" by blast
    with "2.prems" False a show ?thesis by (auto simp: nth_Cons split: nat.split)
  qed (use "2.prems" in auto)
qed auto

section \<open>What a pass commits\<close>

lemma drain_commit_nil: "drain_inv rc started turns 0 \<lparr>dr_receiver = rc, dr_total = 0, dr_packets = [], dr_counts = (0, 0)\<rparr>
   \<longleftrightarrow> scan (sd_maximum_frame_length (ir_decoder rc)) (sd_buffer (ir_decoder rc)) = ([], sd_buffer (ir_decoder rc), 0)"
  by (simp add: drain_inv_def read_bytes_def kinds_def few_def)

lemma filter_prefix: "few (kinds (a @ b)) \<Longrightarrow> few (kinds a)"
  by (simp add: few_def kinds_def)

lemma drain_batch_commits:
  assumes "drain_batch started turns batch_clock clocks rc = (rc', accepted, out)" and "port_ok turns"
    and "settled (ir_decoder rc)"
  shows "\<exists>k\<le>8. \<exists>rest. length (read_bytes turns k) \<le> 256 \<and>
    fst (feed (ir_decoder rc) (read_bytes turns k)) = map fst accepted @ rest \<and>
    (out = Inr () \<longrightarrow> rest = [] \<and> ir_decoder rc' = snd (feed (ir_decoder rc) (read_bytes turns k))) \<and>
    list_all (\<lambda>(p, t). t \<le> started) accepted \<and> few (kinds (map fst accepted)) \<and>
    (\<forall>i < length accepted. clocks i - snd (accepted ! i) \<le> FRESH_NS)"
proof (cases "accepted = [] \<and> out \<noteq> Inr ()")
  case True
  then show ?thesis by (intro exI [of _ 0] conjI exI [of _ "fst (feed (ir_decoder rc) (read_bytes turns 0))"])
    (auto simp: read_bytes_def few_def kinds_def)
next
  case False
  with assms(1) obtain s where s: "drain_loop started turns 8 \<lparr>dr_receiver = rc, dr_total = 0, dr_packets = [], dr_counts = (0, 0)\<rparr> = (s, Inr ())"
    and c: "drain_commit clocks 0 (dr_packets s) = (accepted, out)" and rc': "rc' = dr_receiver s"
    by (auto simp: drain_batch_def split: if_splits sum.splits prod.splits)
  have "drain_inv rc started turns 0 \<lparr>dr_receiver = rc, dr_total = 0, dr_packets = [], dr_counts = (0, 0)\<rparr>"
    unfolding drain_commit_nil using assms(3) by (simp add: settled_def)
  with drain_loop_inv [OF s _ assms(2)] obtain k where k: "k \<le> 8" and inv: "drain_inv rc started turns k s" by auto
  from drain_commit_prefix [OF c] obtain rest where rest: "dr_packets s = accepted @ rest"
    "out = Inr () \<longrightarrow> rest = []" "\<forall>j < length accepted. clocks j - snd (accepted ! j) \<le> FRESH_NS" by auto
  have "feed (ir_decoder rc) (read_bytes turns k) = (map fst (dr_packets s), ir_decoder (dr_receiver s))"
    using inv by (auto simp: drain_inv_def feed_def intro!: stream_decoder.equality)
  with k inv rest filter_prefix show ?thesis unfolding rc'
    by (intro exI [of _ k] conjI exI [of _ "map fst rest"]) (auto simp: drain_inv_def)
qed

text \<open>
  C35. What a pass of the IMU reception commits is fresh and bounded, whatever the port and the clock
  answer: the committed packets are a prefix of what the decoder finds in at most 256 bytes that the port
  returned, all of it when the pass succeeds; at most two of a kind are committed; no receipt time is later
  than the start of the pass, and each packet was at most 30 ms old, by its receipt time, when it was committed.
\<close>

theorem imu_pass_commits_fresh:
  assumes "drain_imu started cpu_started turns batch_clock clocks stop cpu_stop rc = (rc', accepted, out)"
    and "port_ok turns" and "settled (ir_decoder rc)"
  shows "\<exists>k\<le>8. \<exists>rest. length (read_bytes turns k) \<le> 256 \<and>
    fst (feed (ir_decoder rc) (read_bytes turns k)) = map fst accepted @ rest \<and>
    (out = Inr () \<longrightarrow> rest = [] \<and> ir_decoder rc' = snd (feed (ir_decoder rc) (read_bytes turns k))) \<and>
    list_all (\<lambda>(p, t). t \<le> started) accepted \<and>
    length (filter is_raw (map fst accepted)) \<le> 2 \<and> length (filter is_quaternion (map fst accepted)) \<le> 2 \<and>
    (\<forall>i < length accepted. clocks i - snd (accepted ! i) \<le> 30000000)"
proof -
  from assms(1) obtain rc1 out1 where b: "drain_batch started turns batch_clock clocks rc = (rc1, accepted, out1)"
    and o: "out = Inr () \<longrightarrow> out1 = Inr () \<and> ir_decoder rc' = ir_decoder rc1"
    by (auto simp: drain_imu_def split: prod.splits sum.splits)
  from drain_batch_commits [OF b assms(2,3)] o show ?thesis
    unfolding few_def kinds_def fst_conv snd_conv FRESH_NS_def by metis
qed

section \<open>How far the receipt times can be trusted\<close>

text \<open>
  The receipt time of a packet after the first is the start of the pass. That is an upper bound of its age
  when no frame is rejected: the first packet takes all the older bytes.
\<close>

lemma sync_suffix: "\<exists>j. sync b = drop j b"
proof (induction b rule: sync.induct)
  case (3 x y zs)
  show ?case
  proof (cases "[x, y] = FRAME_HEADER")
    case False
    with 3 obtain j where "sync (y # zs) = drop j (y # zs)" by auto
    with False show ?thesis by (intro exI [of _ "Suc j"]) simp
  qed (auto intro: exI [of _ 0])
qed (auto intro: exI [of _ 0] exI [of _ 1])

lemma settled_buffer:
  assumes "scan m r = ([], r, 0)" and "3 \<le> length r"
  shows "sync r = r" and "length r < unat (r ! 2)"
proof -
  from assms(1) show r: "sync r = r"
    by (subst (asm) scan_sync) (auto simp: Let_def split: if_splits sum.splits prod.splits)
  from assms show "length r < unat (r ! 2)"
    by (subst (asm) scan_sync) (auto simp: Let_def r split: if_splits sum.splits prod.splits)
qed

lemma scan_clean_first:
  assumes "scan m b = (p # ps, rest, 0)"
  shows "5 \<le> unat (sync b ! 2)" and "scan m (drop (unat (sync b ! 2)) (sync b)) = (ps, rest, 0)"
  using assms by (subst (asm) scan_sync; auto simp: Let_def split: if_splits sum.splits prod.splits)+

lemma clean_feed_uses_older_bytes_first:
  assumes "scan m r = ([], r, 0)" and "scan m (r @ data) = (p # ps, rest, 0)"
  shows "\<exists>i. scan m (drop i data) = (ps, rest, 0)"
proof -
  let ?n = "unat (sync (r @ data) ! 2)"
  obtain j where j: "sync (r @ data) = drop j (r @ data)" using sync_suffix by blast
  have "length r \<le> j + ?n"
  proof (cases "length r < 3")
    case True
    with scan_clean_first(1) [OF assms(2)] show ?thesis by linarith
  next
    case False
    note r = settled_buffer [OF assms(1)]
    from False r(1) sync_header [of r data] have "sync (r @ data) = r @ data" by simp
    with r(2) False show ?thesis by (simp add: nth_append)
  qed
  moreover have "drop ?n (sync (r @ data)) = drop (j + ?n) (r @ data)" using j by (metis add.commute drop_drop)
  with scan_clean_first(2) [OF assms(2)] have "scan m (drop (j + ?n) (r @ data)) = (ps, rest, 0)" by simp
  ultimately show ?thesis by (intro exI [of _ "j + ?n - length r"]) simp
qed

text \<open>
  With a rejected frame the receipt time can be too late: here a corrupted header makes the decoder wait
  for sixty bytes, and two frames that are completely or partly read in the first pass come out in the
  second. The second of them gets the receipt time of the second pass, 20 ms later than its first bytes.
\<close>

definition corrupt_header :: bytes where "corrupt_header = [0x7E, 0x23, 60]"

definition one_read :: "bytes \<Rightarrow> nat \<Rightarrow> drain_turn" where
  "one_read b i = \<lparr>dt_pending = Inr (if i = 0 then length b else 0), dt_clock = 0,
     dt_read = Inr (if i = 0 then b else [])\<rparr>"

definition filler :: bytes where
  "filler = [0, 0, 0, 0, 0, 0, 0, 0, 0, 0, 0, 0, 0, 0, 0, 0, 0, 0, 0, 0, 0, 0, 0]"

definition first_pass :: bytes where "first_pass = corrupt_header @ euler_frame @ take 10 euler_frame"
definition second_pass :: bytes where "second_pass = drop 10 euler_frame @ filler"

lemma first_scan: "scan 64 first_pass = ([], first_pass, 0)"
  by (subst scan_sync) (simp add: first_pass_def corrupt_header_def euler_frame_def FRAME_HEADER_def Let_def)

lemma second_scan:
  "scan 64 (first_pass @ second_pass) =
    ([YahboomEuler [Fin 1, Fin 0, Fin 0], YahboomEuler [Fin 1, Fin 0, Fin 0]], [], 1)"
proof -
  have b: "first_pass @ second_pass = corrupt_header @ euler_frame @ euler_frame @ filler"
    by (simp add: first_pass_def second_pass_def)
  have "scan 64 (filler) = ([], [], 0)"
    using sync_noise [of filler "[]"] by (subst scan_sync) (simp add: filler_def)
  then have "scan 64 ([0x23, 60] @ euler_frame @ [] @ euler_frame @ filler) =
      ([YahboomEuler [Fin 1, Fin 0, Fin 0], YahboomEuler [Fin 1, Fin 0, Fin 0]], [], 0)"
    by (subst scan_frame [OF euler_frame_decodes], simp add: euler_frame_def, simp,
        subst scan_frame [OF euler_frame_decodes], simp add: euler_frame_def, simp, simp)
  moreover have "sync (first_pass @ second_pass) = first_pass @ second_pass" "(first_pass @ second_pass) ! 2 = 60"
    "tl (first_pass @ second_pass) = [0x23, 60] @ euler_frame @ [] @ euler_frame @ filler"
    "length (first_pass @ second_pass) = 60"
    unfolding b by (simp_all add: corrupt_header_def FRAME_HEADER_def euler_frame_def filler_def)
  moreover have "decode_frame (first_pass @ second_pass) = Inl (ValueError ''Yahboom frame checksum mismatch'')"
    unfolding b by (simp add: decode_frame_def corrupt_header_def FRAME_HEADER_def euler_frame_def checksum_def filler_def)
  ultimately show ?thesis by (subst scan_sync) (simp add: Let_def)
qed

definition idle_stats :: drain_stats where
  "idle_stats = \<lparr>ds_calls = 0, ds_over_2ms_count = 0, ds_maximum_wall_ms = Fin 0, ds_maximum_thread_cpu_ms = Fin 0\<rparr>"

definition idle_receiver :: "bytes \<Rightarrow> int option \<Rightarrow> nat \<Rightarrow> imu_receiver" where
  "idle_receiver buffer since rejected = \<lparr>ir_decoder = \<lparr>sd_maximum_frame_length = 64, sd_buffer = buffer,
     sd_rejected_frame_count = rejected\<rparr>, ir_partial_since = since, ir_stats = idle_stats\<rparr>"

lemma one_read_facts: "dt_pending (one_read b 0) = Inr (length b)" "dt_pending (one_read b (Suc i)) = Inr 0"
  "dt_clock (one_read b i) = 0" "dt_read (one_read b 0) = Inr b"
  by (simp_all add: one_read_def)

lemma drain_loop_unfold:
  "0 < n \<Longrightarrow> drain_loop started turns n s = (case drain_step started (turns (8 - n)) s of
     (s', Inl err) \<Rightarrow> (s', Inl err)
   | (s', Inr again) \<Rightarrow> if again then drain_loop started turns (n - 1) s' else (s', Inr ()))"
  by (cases n) (simp_all split: prod.split sum.split)

lemmas drain_loop_starts = drain_loop_unfold [of 8, simplified] drain_loop_unfold [of 7, simplified]

lemma passes_lengths: "length first_pass = 30" "length second_pass = 30" "first_pass \<noteq> []" "second_pass \<noteq> []"
  by (simp_all add: first_pass_def second_pass_def corrupt_header_def euler_frame_def filler_def)

lemma rejected_frame_hides_age:
  "drain_batch 1 (one_read first_pass) 1 (\<lambda>_. 1) (idle_receiver [] None 0) =
    (idle_receiver first_pass (Some 1) 0, [], Inr ())"
  "drain_batch 20000001 (one_read second_pass) 20000001 (\<lambda>_. 20000001) (idle_receiver first_pass (Some 1) 0) =
    (idle_receiver [] None 1, [(YahboomEuler [Fin 1, Fin 0, Fin 0], 1),
      (YahboomEuler [Fin 1, Fin 0, Fin 0], 20000001)], Inr ())"
proof -
  show "drain_batch 1 (one_read first_pass) 1 (\<lambda>_. 1) (idle_receiver [] None 0) =
    (idle_receiver first_pass (Some 1) 0, [], Inr ())"
    unfolding drain_batch_def
    by (simp add: drain_loop_starts stale_partial_def idle_receiver_def drain_step_def one_read_facts passes_lengths drain_read_def
        feed_def first_scan next_partial_def packet_time_of_def FRESH_NS_def Let_def)
  show "drain_batch 20000001 (one_read second_pass) 20000001 (\<lambda>_. 20000001) (idle_receiver first_pass (Some 1) 0) =
    (idle_receiver [] None 1, [(YahboomEuler [Fin 1, Fin 0, Fin 0], 1),
      (YahboomEuler [Fin 1, Fin 0, Fin 0], 20000001)], Inr ())"
    unfolding drain_batch_def
    by (simp add: drain_loop_starts stale_partial_def idle_receiver_def drain_step_def one_read_facts passes_lengths drain_read_def
        feed_def second_scan next_partial_def packet_time_of_def FRESH_NS_def Let_def)
qed

theorem imu_pass_commits_fresh_witness:
  "\<exists>rc' w rest. drain_imu 20000001 0 (one_read second_pass) 20000001 (\<lambda>_. 20000001) 20000001 0
     (idle_receiver first_pass (Some 1) 0) = (rc', [(YahboomEuler [Fin 1, Fin 0, Fin 0], 1),
      (YahboomEuler [Fin 1, Fin 0, Fin 0], 20000001)], Inr ()) \<and>
   length w \<le> 256 \<and> fst (feed (ir_decoder (idle_receiver first_pass (Some 1) 0)) w) =
     [YahboomEuler [Fin 1, Fin 0, Fin 0], YahboomEuler [Fin 1, Fin 0, Fin 0]] @ rest"
proof -
  have z: "elapsed_ms t t = Inr (Fin 0)" for t by (simp add: elapsed_ms_def float_of_int_def)
  obtain rc' where run: "drain_imu 20000001 0 (one_read second_pass) 20000001 (\<lambda>_. 20000001) 20000001 0
     (idle_receiver first_pass (Some 1) 0) = (rc', [(YahboomEuler [Fin 1, Fin 0, Fin 0], 1),
      (YahboomEuler [Fin 1, Fin 0, Fin 0], 20000001)], Inr ())"
    by (simp add: drain_imu_def rejected_frame_hides_age note_drain_def z)
  have "port_ok (one_read second_pass)"
    by (auto simp: port_ok_def payload_of_def one_read_def)
  moreover have "settled (ir_decoder (idle_receiver first_pass (Some 1) 0))"
    by (simp add: settled_def idle_receiver_def first_scan)
  ultimately show ?thesis using run imu_pass_commits_fresh [OF run] by auto
qed

end
