(* ===== verification/PelvisImu.thy ===== *)
theory PelvisImu
  imports Arrays Heading Safety
begin

text \<open>
  The frame conversion of the pelvis IMU, the validity gate of its samples and the integration of the yaw
  rate (\<open>imu.py\<close>), and the session heading of the telemetry (\<open>session_heading.py\<close>). The norm, the trace,
  the index of the largest entry and \<open>allclose\<close> of numpy, and \<open>math.sqrt\<close>, \<open>math.hypot\<close> and the float
  power, are parameters. A vector argument is the list of its entries.
\<close>

section \<open>Numpy\<close>

record numpy_imu = numpy +
  ni_norm :: "vec \<Rightarrow> pyfloat"
  ni_trace :: "mat \<Rightarrow> pyfloat"
  ni_argmax :: "vec \<Rightarrow> nat"
  ni_close_to_eye :: "mat \<Rightarrow> bool"
  ni_sqrt :: "pyfloat \<Rightarrow> pyfloat result"
  ni_hypot :: "pyfloat \<Rightarrow> pyfloat \<Rightarrow> pyfloat"
  ni_square :: "pyfloat \<Rightarrow> pyfloat"

text \<open>\<open>x / y\<close> of a numpy number does not raise; the divisors below are never a negative zero.\<close>

definition np_divide :: "pyfloat \<Rightarrow> pyfloat \<Rightarrow> pyfloat" where
  "np_divide x y = (case fdiv x y of Inr q \<Rightarrow> q | Inl _ \<Rightarrow> inf_of_sign (fsgn x))"

definition vector3 :: "vec \<Rightarrow> string \<Rightarrow> vec result" where
  "vector3 v name = (if finite_vector 3 v then Inr v else Inl (ValueError (name @ '' must contain three finite values'')))"

definition finite_matrix3 :: "mat \<Rightarrow> bool" where
  "finite_matrix3 m = (length m = 3 \<and> list_all (finite_vector 3) m)"

section \<open>Quaternions\<close>

definition TINY_NORM :: pyfloat where
  "TINY_NORM = rnd (1 / 1000000000)"

definition normalize_quaternion_wxyz :: "numpy_imu \<Rightarrow> vec \<Rightarrow> vec result" where
  "normalize_quaternion_wxyz np q =
     (if \<not> finite_vector 4 q then Inl (ValueError ''quaternion must contain four finite values'')
      else let norm = ni_norm np q in
        if flt norm TINY_NORM then Inl (ValueError ''quaternion norm is zero'')
        else Inr (map (\<lambda>x. np_divide x norm) q))"

fun rotation_of :: "vec \<Rightarrow> mat result" where
  "rotation_of [w, x, y, z] = Inr
     [[fsub (Fin 1) (fmul (Fin 2) (fadd (fmul y y) (fmul z z))),
       fmul (Fin 2) (fsub (fmul x y) (fmul z w)), fmul (Fin 2) (fadd (fmul x z) (fmul y w))],
      [fmul (Fin 2) (fadd (fmul x y) (fmul z w)),
       fsub (Fin 1) (fmul (Fin 2) (fadd (fmul x x) (fmul z z))), fmul (Fin 2) (fsub (fmul y z) (fmul x w))],
      [fmul (Fin 2) (fsub (fmul x z) (fmul y w)), fmul (Fin 2) (fadd (fmul y z) (fmul x w)),
       fsub (Fin 1) (fmul (Fin 2) (fadd (fmul x x) (fmul y y)))]]"
| "rotation_of _ = Inl (ValueError ''not enough values to unpack'')"

definition quaternion_wxyz_to_matrix :: "numpy_imu \<Rightarrow> vec \<Rightarrow> mat result" where
  "quaternion_wxyz_to_matrix np q = rbind (normalize_quaternion_wxyz np q) rotation_of"

text \<open>The four branches divide by twice the root of a sum of diagonal entries.\<close>

definition quaternion_scale :: "numpy_imu \<Rightarrow> pyfloat \<Rightarrow> pyfloat result" where
  "quaternion_scale np x = rbind (ni_sqrt np x) (\<lambda>s. Inr (fmul s (Fin 2)))"

definition unnormalized_quaternion :: "numpy_imu \<Rightarrow> mat \<Rightarrow> vec result" where
  "unnormalized_quaternion np m =
     (let r = (\<lambda>i j. m ! i ! j); quarter = fmul (Fin (1 / 4)); trace = ni_trace np m;
          diagonal = (\<lambda>i j k. fsub (fsub (fadd (Fin 1) (r i i)) (r j j)) (r k k)) in
      if flt (Fin 0) trace then rbind (quaternion_scale np (fadd trace (Fin 1))) (\<lambda>s. Inr
        [quarter s, np_divide (fsub (r 2 1) (r 1 2)) s, np_divide (fsub (r 0 2) (r 2 0)) s,
         np_divide (fsub (r 1 0) (r 0 1)) s])
      else let index = ni_argmax np (np_diagonal np m) in
      if index = 0 then rbind (quaternion_scale np (diagonal 0 1 2)) (\<lambda>s. Inr
        [np_divide (fsub (r 2 1) (r 1 2)) s, quarter s, np_divide (fadd (r 0 1) (r 1 0)) s,
         np_divide (fadd (r 0 2) (r 2 0)) s])
      else if index = 1 then rbind (quaternion_scale np (diagonal 1 0 2)) (\<lambda>s. Inr
        [np_divide (fsub (r 0 2) (r 2 0)) s, np_divide (fadd (r 0 1) (r 1 0)) s, quarter s,
         np_divide (fadd (r 1 2) (r 2 1)) s])
      else rbind (quaternion_scale np (diagonal 2 0 1)) (\<lambda>s. Inr
        [np_divide (fsub (r 1 0) (r 0 1)) s, np_divide (fadd (r 0 2) (r 2 0)) s,
         np_divide (fadd (r 1 2) (r 2 1)) s, quarter s]))"

definition matrix_to_quaternion_wxyz :: "numpy_imu \<Rightarrow> mat \<Rightarrow> vec result" where
  "matrix_to_quaternion_wxyz np m =
     (if \<not> finite_matrix3 m then Inl (ValueError ''rotation matrix must be finite and 3x3'')
      else rbind (unnormalized_quaternion np m) (\<lambda>v. rbind (normalize_quaternion_wxyz np v) (\<lambda>q.
        Inr (if fle (Fin 0) (q ! 0) then q else map fneg q))))"

section \<open>The mount\<close>

text \<open>\<open>math.isclose(x, 1.0, abs_tol=1e-9)\<close>, whose relative tolerance is 1e-9 too.\<close>

definition close_to_one :: "pyfloat \<Rightarrow> bool" where
  "close_to_one x = (feq x (Fin 1) \<or> isfinite x \<and>
     fle (fabs (fsub x (Fin 1))) (fmax (fmul TINY_NORM (fmax (fabs x) (Fin 1))) TINY_NORM))"

definition new_imu_mount :: "numpy_imu \<Rightarrow> mat \<Rightarrow> mat result" where
  "new_imu_mount np m =
     (if \<not> finite_matrix3 m then Inl (ValueError ''sensor_to_body_matrix must be finite and 3x3'')
      else if \<not> ni_close_to_eye np (np_matmul np (np_transpose np m) m)
      then Inl (ValueError ''sensor_to_body_matrix must be orthonormal'')
      else if \<not> close_to_one (np_det np m)
      then Inl (ValueError ''sensor_to_body_matrix must be a right-handed rotation'')
      else Inr m)"

definition REAR_PELVIS :: mat where
  "REAR_PELVIS = [[Fin 0, Fin 0, Fin (- 1)], [Fin 0, Fin (- 1), Fin 0], [Fin (- 1), Fin 0, Fin 0]]"

definition sprite0825_rear_pelvis :: "numpy_imu \<Rightarrow> mat result" where
  "sprite0825_rear_pelvis np = new_imu_mount np REAR_PELVIS"

definition body_to_sensor_quaternion_wxyz :: "numpy_imu \<Rightarrow> mat \<Rightarrow> vec result" where
  "body_to_sensor_quaternion_wxyz np mount = matrix_to_quaternion_wxyz np (np_transpose np mount)"

definition vector_sensor_to_body :: "numpy_imu \<Rightarrow> mat \<Rightarrow> vec \<Rightarrow> vec result" where
  "vector_sensor_to_body np mount v = rbind (vector3 v ''sensor vector'') (\<lambda>x. Inr (np_matvec np mount x))"

record raw_imu_sample =
  ri_monotonic_ns :: int
  ri_angular_velocity :: vec
  ri_linear_acceleration :: vec
  ri_orientation :: vec
  ri_magnetic_field :: "vec option"

record pelvis_sample =
  pi_monotonic_ns :: int
  pi_angular_velocity :: vec
  pi_linear_acceleration :: vec
  pi_orientation :: vec
  pi_projected_gravity :: vec
  pi_magnetic_field :: "vec option"

definition DOWN :: vec where
  "DOWN = [Fin 0, Fin 0, Fin (- 1)]"

definition transform_pelvis_sample :: "numpy_imu \<Rightarrow> raw_imu_sample \<Rightarrow> mat \<Rightarrow> pelvis_sample result" where
  "transform_pelvis_sample np raw mount =
     rbind (quaternion_wxyz_to_matrix np (ri_orientation raw)) (\<lambda>world_from_sensor.
     let world_from_body = np_matmul np world_from_sensor (np_transpose np mount);
         gravity = np_matvec np (np_transpose np world_from_body) DOWN in
     rbind (case ri_magnetic_field raw of None \<Rightarrow> Inr None
       | Some m \<Rightarrow> rbind (vector_sensor_to_body np mount m) (\<lambda>x. Inr (Some x))) (\<lambda>magnetic.
     rbind (vector_sensor_to_body np mount (ri_angular_velocity raw)) (\<lambda>angular.
     rbind (vector_sensor_to_body np mount (ri_linear_acceleration raw)) (\<lambda>accel.
     rbind (matrix_to_quaternion_wxyz np world_from_body) (\<lambda>orientation.
       Inr \<lparr>pi_monotonic_ns = ri_monotonic_ns raw, pi_angular_velocity = angular, pi_linear_acceleration = accel,
         pi_orientation = orientation, pi_projected_gravity = gravity, pi_magnetic_field = magnetic\<rparr>)))))"

section \<open>The validity gate\<close>

record imu_limits =
  il_expected_update_hz :: pyfloat
  il_maximum_age_ms :: pyfloat
  il_maximum_gap_ms :: pyfloat
  il_quaternion_norm_tolerance :: pyfloat
  il_maximum_angular_speed :: pyfloat
  il_maximum_acceleration :: pyfloat

text \<open>\<open>math.radians(2000.0)\<close> multiplies by the rounded quotient of pi and 180.\<close>

definition default_imu_limits :: imu_limits where
  "default_imu_limits = \<lparr>il_expected_update_hz = Fin 100, il_maximum_age_ms = Fin 30, il_maximum_gap_ms = Fin 30,
     il_quaternion_norm_tolerance = rnd (5 / 100),
     il_maximum_angular_speed = fmul (Fin 2000) (rnd (py_pi / 180)),
     il_maximum_acceleration = fmul (Fin 16) (rnd (980665 / 100000))\<rparr>"

definition imu_limits_validate :: "imu_limits \<Rightarrow> unit result" where
  "imu_limits_validate l =
     (if \<not> list_all (\<lambda>x. isfinite x \<and> flt (Fin 0) x)
          [il_expected_update_hz l, il_maximum_age_ms l, il_maximum_gap_ms l, il_quaternion_norm_tolerance l,
           il_maximum_angular_speed l, il_maximum_acceleration l]
      then Inl (ValueError ''IMU validity limits must be finite and positive'') else Inr ())"

record imu_gate =
  ig_limits :: imu_limits
  ig_previous :: "int option"

definition new_imu_gate :: "imu_limits option \<Rightarrow> imu_gate result" where
  "new_imu_gate limits = (let l = (case limits of None \<Rightarrow> default_imu_limits | Some l \<Rightarrow> l) in
     rbind (imu_limits_validate l) (\<lambda>_. Inr \<lparr>ig_limits = l, ig_previous = None\<rparr>))"

definition gap_errors :: "imu_gate \<Rightarrow> int \<Rightarrow> string list result" where
  "gap_errors g stamp = (case ig_previous g of None \<Rightarrow> Inr []
     | Some previous \<Rightarrow> rbind (age_ms stamp previous) (\<lambda>gap.
         Inr (if fle gap (Fin 0) then [''non_monotonic_timestamp'']
              else if flt (il_maximum_gap_ms (ig_limits g)) gap then [''sample_gap''] else [])))"

definition quaternion_errors :: "numpy_imu \<Rightarrow> imu_limits \<Rightarrow> vec \<Rightarrow> string list" where
  "quaternion_errors np l q = (if \<not> finite_vector 4 q then [''invalid_quaternion'']
     else if flt (il_quaternion_norm_tolerance l) (fabs (fsub (ni_norm np q) (Fin 1))) then [''quaternion_norm''] else [])"

definition imu_vector_errors :: "numpy_imu \<Rightarrow> imu_limits \<Rightarrow> vec \<Rightarrow> vec \<Rightarrow> string list" where
  "imu_vector_errors np l angular accel =
     (case rbind (vector3 angular ''angular velocity'') (\<lambda>w. rbind (vector3 accel ''linear acceleration'') (\<lambda>a. Inr (w, a))) of
        Inl _ \<Rightarrow> [''invalid_vector'']
      | Inr (w, a) \<Rightarrow> (if flt (il_maximum_angular_speed l) (ni_norm np w) then [''angular_speed_range''] else []) @
          (if flt (il_maximum_acceleration l) (ni_norm np a) then [''acceleration_range''] else []))"

definition imu_gate_check ::
  "numpy_imu \<Rightarrow> imu_gate \<Rightarrow> raw_imu_sample \<Rightarrow> int \<Rightarrow> imu_gate \<times> (bool \<times> string list) result" where
  "imu_gate_check np g s now =
     (let stamp = ri_monotonic_ns s; l = ig_limits g in
      case rbind (age_ms now stamp) (\<lambda>age. rbind (gap_errors g stamp) (\<lambda>gap. Inr
        ((if stamp \<le> 0 \<or> now < stamp then [''invalid_timestamp''] else []) @
         (if flt (il_maximum_age_ms l) age then [''stale_sample''] else []) @ gap @
         quaternion_errors np l (ri_orientation s) @ imu_vector_errors np l (ri_angular_velocity s) (ri_linear_acceleration s)))) of
        Inl e \<Rightarrow> (g, Inl e)
      | Inr errors \<Rightarrow> (if 0 < stamp then g\<lparr>ig_previous := Some stamp\<rparr> else g, Inr (errors = [], errors)))"

section \<open>The yaw estimator\<close>

definition wrap_to_pi_imu :: "pyfloat \<Rightarrow> pyfloat result" where
  "wrap_to_pi_imu angle = rbind (fmod_py (fadd angle (Fin py_pi)) (fmul (Fin 2) (Fin py_pi))) (\<lambda>m. Inr (fsub m (Fin py_pi)))"

record yaw_estimator =
  ye_gyro_bias :: pyfloat
  ye_maximum_gap_ns :: int
  ye_yaw_rad :: pyfloat
  ye_previous_rate :: "pyfloat option"
  ye_previous_ns :: "int option"

definition new_yaw_estimator :: "pyfloat \<Rightarrow> pyfloat \<Rightarrow> yaw_estimator result" where
  "new_yaw_estimator bias gap =
     (if \<not> isfinite bias then Inl (ValueError ''gyro bias must be finite'')
      else if \<not> isfinite gap \<or> fle gap (Fin 0) then Inl (ValueError ''maximum gap must be finite and positive'')
      else rbind (fint (fmul gap (Fin 1000000))) (\<lambda>n. Inr \<lparr>ye_gyro_bias = bias, ye_maximum_gap_ns = n, ye_yaw_rad = Fin 0,
        ye_previous_rate = None, ye_previous_ns = None\<rparr>))"

definition yaw_reset :: "yaw_estimator \<Rightarrow> int option \<Rightarrow> yaw_estimator" where
  "yaw_reset y stamp = y\<lparr>ye_yaw_rad := Fin 0, ye_previous_rate := None, ye_previous_ns := stamp\<rparr>"

text \<open>The midpoint rule of one step, with the seconds of an integer number of nanoseconds.\<close>

definition integrated :: "pyfloat \<Rightarrow> pyfloat \<Rightarrow> pyfloat \<Rightarrow> int \<Rightarrow> pyfloat result" where
  "integrated yaw previous rate elapsed = rbind (float_of_int elapsed) (\<lambda>n. rbind (fdiv n (Fin 1000000000)) (\<lambda>s.
     wrap_to_pi_imu (fadd yaw (fmul (fmul (Fin (1 / 2)) (fadd previous rate)) s))))"

definition yaw_update :: "yaw_estimator \<Rightarrow> pyfloat \<Rightarrow> int \<Rightarrow> bool \<Rightarrow> yaw_estimator \<times> pyfloat result" where
  "yaw_update y body_rate stamp standing =
     (let rate = fsub body_rate (ye_gyro_bias y) in
      if \<not> isfinite rate \<or> stamp \<le> 0
      then (y, Inl (ValueError ''yaw update must be finite and positively timestamped''))
      else if standing then ((yaw_reset y (Some stamp))\<lparr>ye_previous_rate := Some rate\<rparr>, Inr (Fin 0))
      else case (ye_previous_ns y, ye_previous_rate y) of
        (Some previous_ns, Some previous) \<Rightarrow>
          let elapsed = stamp - previous_ns in
          if elapsed \<le> 0 \<or> ye_maximum_gap_ns y < elapsed
          then (y, Inl (ValueError ''yaw integration timestamp gap is invalid''))
          else (case integrated (ye_yaw_rad y) previous rate elapsed of
              Inl e \<Rightarrow> (y, Inl e)
            | Inr yaw \<Rightarrow> (y\<lparr>ye_yaw_rad := yaw, ye_previous_ns := Some stamp, ye_previous_rate := Some rate\<rparr>, Inr yaw))
      | _ \<Rightarrow> (y\<lparr>ye_previous_ns := Some stamp, ye_previous_rate := Some rate\<rparr>, Inr (ye_yaw_rad y)))"

section \<open>The session heading\<close>

record session_heading =
  sh_yaw_rad :: pyfloat
  sh_origin_ns :: "int option"
  sh_previous_ns :: "int option"
  sh_previous_rate :: "pyfloat option"
  sh_valid :: bool

definition session_reset :: session_heading where
  "session_reset = \<lparr>sh_yaw_rad = Fin 0, sh_origin_ns = None, sh_previous_ns = None, sh_previous_rate = None, sh_valid = True\<rparr>"

text \<open>The Euler heading rate of a tilted body, undefined when gravity is missing or the body lies down.\<close>

definition heading_rate :: "numpy_imu \<Rightarrow> vec \<Rightarrow> vec \<Rightarrow> int \<Rightarrow> pyfloat option" where
  "heading_rate np omega gravity stamp =
     (if \<not> finite_vector 3 omega \<or> \<not> finite_vector 3 gravity \<or> stamp \<le> 0 then None
      else let norm = ni_norm np gravity in
      if flt norm (rnd (1 / 1000000)) then None
      else let down = map (\<lambda>x. np_divide x norm) gravity; cos_pitch = ni_hypot np (down ! 1) (down ! 2) in
      if flt cos_pitch (rnd (2 / 10)) then None
      else Some (np_divide (fsub (fmul (fneg (down ! 1)) (omega ! 1)) (fmul (down ! 2) (omega ! 2))) (ni_square np cos_pitch)))"

definition session_update ::
  "numpy_imu \<Rightarrow> session_heading \<Rightarrow> vec \<Rightarrow> vec \<Rightarrow> int \<Rightarrow> session_heading \<times> pyfloat result" where
  "session_update np h omega gravity stamp =
     (case heading_rate np omega gravity stamp of None \<Rightarrow> (h\<lparr>sh_valid := False\<rparr>, Inr (sh_yaw_rad h))
      | Some rate \<Rightarrow> (case sh_previous_ns h of
          None \<Rightarrow> (h\<lparr>sh_origin_ns := Some stamp, sh_previous_ns := Some stamp, sh_previous_rate := Some rate\<rparr>, Inr (sh_yaw_rad h))
        | Some previous \<Rightarrow> (case rbind (float_of_int (stamp - previous)) (\<lambda>n. fdiv n (Fin 1000000000)) of
            Inl e \<Rightarrow> (h, Inl e)
          | Inr dt \<Rightarrow>
              if fle dt (Fin 0) \<or> flt (rnd (5 / 100)) dt then (h\<lparr>sh_valid := False\<rparr>, Inr (sh_yaw_rad h))
              else (let yaw = (if sh_valid h
                      then fadd (sh_yaw_rad h) (fmul (fmul (Fin (1 / 2)) (fadd (the (sh_previous_rate h)) rate)) dt)
                      else sh_yaw_rad h) in
                (h\<lparr>sh_yaw_rad := yaw, sh_previous_ns := Some stamp, sh_previous_rate := Some rate\<rparr>, Inr yaw)))))"

definition session_report :: "session_heading \<Rightarrow> json" where
  "session_report h = JObj [(''reset_before_first_policy_inference'', JBool True),
     (''origin_monotonic_ns'', (case sh_origin_ns h of None \<Rightarrow> JNull | Some n \<Rightarrow> JInt n)),
     (''relative_yaw_rad'', JFloat (sh_yaw_rad h)), (''valid'', JBool (sh_valid h)),
     (''integration'', JStr ''policy_tick_gyro_trapezoid_tilt_corrected''),
     (''gyro_bias_subtracted'', JBool False), (''affects_policy_or_commands'', JBool False)]"

end
