(* ===== verification/PelvisSafety.thy ===== *)
theory PelvisSafety
  imports PelvisImu
begin

text \<open>
  What the validity gate of the pelvis IMU accepts, in exact nanoseconds, and what the yaw estimator does
  with gaps and with every other input.
\<close>

section \<open>The gate\<close>

lemma age_ms_30: "age_ms now ts = Inr a \<Longrightarrow> fle a (Fin 30) \<longleftrightarrow> now - ts \<le> 30000000"
  using age_ms_bound [of now ts a 30] by (simp add: float_eval)

lemma age_ms_0: "age_ms now ts = Inr a \<Longrightarrow> fle a (Fin 0) \<longleftrightarrow> now - ts \<le> 0"
  using age_ms_bound [of now ts a 0] by (simp add: float_eval)

lemma age_ms_number: "age_ms now ts = Inr a \<Longrightarrow> a \<noteq> NaN"
  by (auto simp: age_ms_def rbind_eq_Inr dest: float_of_int_Fin)

lemma gap_errors_Nil:
  assumes "gap_errors g stamp = Inr []" and "il_maximum_gap_ms (ig_limits g) = Fin 30" and "ig_previous g = Some p"
  shows "p < stamp \<and> stamp - p \<le> 30000000"
proof -
  from assms obtain gap where gap: "age_ms stamp p = Inr gap" "\<not> fle gap (Fin 0)" "\<not> flt (Fin 30) gap"
    by (auto simp: gap_errors_def rbind_eq_Inr split: if_splits)
  from gap(3) age_ms_number [OF gap(1)] have "fle gap (Fin 30)" by (simp add: not_flt)
  with gap(2) age_ms_0 [OF gap(1)] age_ms_30 [OF gap(1)] show ?thesis by auto
qed

lemma imu_vector_errors_Nil:
  "imu_vector_errors np l w a = [] \<longleftrightarrow> finite_vector 3 w \<and> finite_vector 3 a \<and>
     \<not> flt (il_maximum_angular_speed l) (ni_norm np w) \<and> \<not> flt (il_maximum_acceleration l) (ni_norm np a)"
  by (auto simp: imu_vector_errors_def vector3_def)

lemma quaternion_errors_Nil:
  "quaternion_errors np l q = [] \<longleftrightarrow> finite_vector 4 q \<and>
     \<not> flt (il_quaternion_norm_tolerance l) (fabs (fsub (ni_norm np q) (Fin 1)))"
  by (simp add: quaternion_errors_def)

lemma imu_gate_check_limits: "imu_gate_check np g s now = (g', out) \<Longrightarrow> ig_limits g' = ig_limits g"
  by (auto simp: imu_gate_check_def Let_def split: sum.splits if_splits)

lemma imu_gate_check_keeps: "imu_gate_check np g s now = (g', Inr out) \<Longrightarrow> 0 < ri_monotonic_ns s \<Longrightarrow>
    ig_previous g' = Some (ri_monotonic_ns s)"
  by (auto simp: imu_gate_check_def Let_def split: sum.splits if_splits)

lemma accepted_errors:
  assumes "imu_gate_check np g s now = (g', Inr (True, es))"
  obtains age where "age_ms now (ri_monotonic_ns s) = Inr age" and "gap_errors g (ri_monotonic_ns s) = Inr []"
    and "0 < ri_monotonic_ns s" and "ri_monotonic_ns s \<le> now" and "\<not> flt (il_maximum_age_ms (ig_limits g)) age"
    and "quaternion_errors np (ig_limits g) (ri_orientation s) = []"
    and "imu_vector_errors np (ig_limits g) (ri_angular_velocity s) (ri_linear_acceleration s) = []" and "es = []"
  using assms by (auto simp: imu_gate_check_def Let_def rbind_eq_Inr split: sum.splits if_splits)

text \<open>
  C38. Of two samples checked one after the other with the default age and gap limits, the first with a
  positive timestamp, the second is accepted only when it is strictly later than the first, at most 30 ms
  later, not from the future and at most 30 ms old, all to the nanosecond; and only when its quaternion and
  its two vectors are finite, the norm of the quaternion is within the tolerance of one, and the norms of
  the angular velocity and of the acceleration do not exceed the limits of the gate.
\<close>

theorem accepted_imu_sample_is_fresh:
  assumes "imu_gate_check np g s now = (g1, Inr out)" and "0 < ri_monotonic_ns s"
    and "imu_gate_check np g1 s' now' = (g2, Inr (True, es))"
    and "il_maximum_age_ms (ig_limits g) = Fin 30" and "il_maximum_gap_ms (ig_limits g) = Fin 30"
  shows "ri_monotonic_ns s < ri_monotonic_ns s' \<and> ri_monotonic_ns s' \<le> ri_monotonic_ns s + 30000000 \<and>
    ri_monotonic_ns s' \<le> now' \<and> now' \<le> ri_monotonic_ns s' + 30000000 \<and>
    ig_previous g2 = Some (ri_monotonic_ns s') \<and> es = [] \<and>
    finite_vector 4 (ri_orientation s') \<and> finite_vector 3 (ri_angular_velocity s') \<and>
    finite_vector 3 (ri_linear_acceleration s') \<and>
    \<not> flt (il_quaternion_norm_tolerance (ig_limits g)) (fabs (fsub (ni_norm np (ri_orientation s')) (Fin 1))) \<and>
    \<not> flt (il_maximum_angular_speed (ig_limits g)) (ni_norm np (ri_angular_velocity s')) \<and>
    \<not> flt (il_maximum_acceleration (ig_limits g)) (ni_norm np (ri_linear_acceleration s'))"
proof -
  note same = imu_gate_check_limits [OF assms(1)] and before = imu_gate_check_keeps [OF assms(1,2)]
  obtain age where ok: "age_ms now' (ri_monotonic_ns s') = Inr age" "gap_errors g1 (ri_monotonic_ns s') = Inr []"
    "0 < ri_monotonic_ns s'" "ri_monotonic_ns s' \<le> now'" "\<not> flt (Fin 30) age" "es = []"
    "quaternion_errors np (ig_limits g) (ri_orientation s') = []"
    "imu_vector_errors np (ig_limits g) (ri_angular_velocity s') (ri_linear_acceleration s') = []"
    using accepted_errors [OF assms(3)] assms(4) same by metis
  from ok(5) age_ms_number [OF ok(1)] have "fle age (Fin 30)" by (simp add: not_flt)
  with age_ms_30 [OF ok(1)] have "now' - ri_monotonic_ns s' \<le> 30000000" by blast
  moreover have "ri_monotonic_ns s < ri_monotonic_ns s' \<and> ri_monotonic_ns s' - ri_monotonic_ns s \<le> 30000000"
    using gap_errors_Nil [OF ok(2) _ before] same assms(5) by simp
  ultimately show ?thesis
    using ok(4,6,7,8) imu_gate_check_keeps [OF assms(3) ok(3)] by (simp add: imu_vector_errors_Nil quaternion_errors_Nil)
qed

section \<open>A sample inside an older gap\<close>

definition sample_imu_numpy :: numpy_imu where
  "sample_imu_numpy = numpy.extend entrywise_numpy \<lparr>ni_norm = (\<lambda>v. case v of x # _ \<Rightarrow> fabs x | [] \<Rightarrow> Fin 0),
     ni_trace = (\<lambda>m. foldl fadd (Fin 0) (np_diagonal entrywise_numpy m)), ni_argmax = (\<lambda>_. 0),
     ni_close_to_eye = (\<lambda>m. m = [[Fin 1, Fin 0, Fin 0], [Fin 0, Fin 1, Fin 0], [Fin 0, Fin 0, Fin 1]]),
     ni_sqrt = Inr, ni_hypot = fadd, ni_square = (\<lambda>x. fmul x x)\<rparr>"

definition sample_imu :: "int \<Rightarrow> raw_imu_sample" where
  "sample_imu stamp = \<lparr>ri_monotonic_ns = stamp, ri_angular_velocity = [Fin 0, Fin 0, Fin 0],
     ri_linear_acceleration = [Fin 0, Fin 0, Fin 10], ri_orientation = [Fin 1, Fin 0, Fin 0, Fin 0], ri_magnetic_field = None\<rparr>"

abbreviation sample_gate :: "int option \<Rightarrow> imu_gate" where
  "sample_gate p \<equiv> \<lparr>ig_limits = default_imu_limits, ig_previous = p\<rparr>"

lemma sample_vectors_pass:
  "quaternion_errors sample_imu_numpy default_imu_limits (ri_orientation (sample_imu t)) = []"
  "imu_vector_errors sample_imu_numpy default_imu_limits (ri_angular_velocity (sample_imu t)) (ri_linear_acceleration (sample_imu t)) = []"
  by (simp_all add: quaternion_errors_Nil imu_vector_errors_Nil sample_imu_def finite_vector_def sample_imu_numpy_def numpy.defs
      default_imu_limits_def py_pi_def float_eval)

lemma sample_gate_check:
  assumes "0 < t" and "t \<le> now" and "now - t \<le> 30000000" and "\<bar>t - p\<bar> \<le> 2 ^ 53" and "p < t" and "t - p \<le> 30000000"
  shows "imu_gate_check sample_imu_numpy (sample_gate (Some p)) (sample_imu t) now = (sample_gate (Some t), Inr (True, []))"
proof -
  obtain age where age: "age_ms now t = Inr age" using assms(2,3) by (simp add: age_ms_def float_of_int_exact)
  obtain gap where gap: "age_ms t p = Inr gap" using assms(4) by (simp add: age_ms_def float_of_int_exact)
  have "\<not> flt (Fin 30) age" "\<not> flt (Fin 30) gap" "\<not> fle gap (Fin 0)"
    using age_ms_30 [OF age] age_ms_30 [OF gap] age_ms_0 [OF gap] age_ms_number [OF age] age_ms_number [OF gap] assms
    by (simp_all add: not_flt)
  then show ?thesis
    using assms(1,2) age gap sample_vectors_pass [of t]
    by (simp add: imu_gate_check_def gap_errors_def) (simp add: sample_imu_def default_imu_limits_def)
qed

lemma sample_gate_first:
  assumes "0 < t" and "t \<le> now" and "now - t \<le> 30000000"
  shows "imu_gate_check sample_imu_numpy (sample_gate None) (sample_imu t) now = (sample_gate (Some t), Inr (True, []))"
proof -
  obtain age where age: "age_ms now t = Inr age" using assms(2,3) by (simp add: age_ms_def float_of_int_exact)
  have "\<not> flt (Fin 30) age" using age_ms_30 [OF age] age_ms_number [OF age] assms by (simp add: not_flt)
  then show ?thesis
    using assms(1,2) age sample_vectors_pass [of t]
    by (simp add: imu_gate_check_def gap_errors_def) (simp add: sample_imu_def default_imu_limits_def)
qed

theorem accepted_imu_sample_is_fresh_witness:
  "imu_gate_check sample_imu_numpy (sample_gate (Some 100000000)) (sample_imu 110000000) 111000000 =
     (sample_gate (Some 110000000), Inr (True, [])) \<and> 111000000 - ri_monotonic_ns (sample_imu 110000000) \<le> 30000000"
proof -
  have first: "imu_gate_check sample_imu_numpy (sample_gate None) (sample_imu 100000000) 100000000 =
    (sample_gate (Some 100000000), Inr (True, []))" by (rule sample_gate_first) simp_all
  have "imu_gate_check sample_imu_numpy (sample_gate (Some 100000000)) (sample_imu 110000000) 111000000 =
    (sample_gate (Some 110000000), Inr (True, []))" by (rule sample_gate_check) simp_all
  from accepted_imu_sample_is_fresh [OF first _ this] this show ?thesis
    by (simp add: sample_imu_def default_imu_limits_def)
qed

text \<open>
  The gate remembers the sample it checked last, not the last one it accepted: after a sample of 110 ms was
  accepted, an older one of 90 ms is rejected but moves the reference back, and one of 95 ms, still older
  than the accepted sample, is accepted.
\<close>

lemma rejected_sample_moves_reference:
  "imu_gate_check sample_imu_numpy (sample_gate (Some 110000000)) (sample_imu 90000000) 112000000 =
     (sample_gate (Some 90000000), Inr (False, [''non_monotonic_timestamp''])) \<and>
   imu_gate_check sample_imu_numpy (sample_gate (Some 90000000)) (sample_imu 95000000) 113000000 =
     (sample_gate (Some 95000000), Inr (True, []))"
proof
  have age: "age_ms 112000000 90000000 = Inr (Fin 22)" "age_ms 90000000 110000000 = Inr (Fin (- 20))"
    by (simp_all add: age_ms_def float_of_int_exact float_eval)
  show "imu_gate_check sample_imu_numpy (sample_gate (Some 110000000)) (sample_imu 90000000) 112000000 =
     (sample_gate (Some 90000000), Inr (False, [''non_monotonic_timestamp'']))"
    using sample_vectors_pass [of 90000000] age by (simp add: imu_gate_check_def gap_errors_def sample_imu_def default_imu_limits_def)
  show "imu_gate_check sample_imu_numpy (sample_gate (Some 90000000)) (sample_imu 95000000) 113000000 =
     (sample_gate (Some 95000000), Inr (True, []))" by (rule sample_gate_check) simp_all
qed

section \<open>The yaw estimator\<close>

definition within_power :: "int \<Rightarrow> pyfloat \<Rightarrow> bool" where
  "within_power k x \<longleftrightarrow> (\<exists>a. x = Fin a \<and> \<bar>a\<bar> \<le> pow2 k)"

lemma rnd_power:
  assumes "\<bar>x\<bar> \<le> pow2 k" and "0 \<le> k" and "k \<le> 970"
  shows "within_power k (rnd x)"
proof -
  have p: "rnd (pow2 k) = Fin (pow2 k)" "rnd (- pow2 k) = Fin (- pow2 k)"
    using rnd_exact [of 1 k] rnd_exact [of "- 1" k] assms(2,3) by simp_all
  from rnd_inside [OF p(2,1), of x] assms(1) show ?thesis by (auto simp: within_power_def abs_le_iff)
qed

lemma power_add:
  assumes "within_power k x" and "within_power k y" and "0 \<le> k" and "k < 970"
  shows "within_power (k + 1) (fadd x y)"
proof -
  from assms(1,2) obtain a b where ab: "x = Fin a" "y = Fin b" "\<bar>a\<bar> \<le> pow2 k" "\<bar>b\<bar> \<le> pow2 k"
    by (auto simp: within_power_def)
  then have "\<bar>a + b\<bar> \<le> pow2 (k + 1)" unfolding pow2_Suc by linarith
  with rnd_power [of "a + b" "k + 1"] ab assms(3,4) show ?thesis by simp
qed

lemma power_mul:
  assumes "within_power j x" and "within_power k y" and "0 \<le> j + k" and "j + k \<le> 970"
  shows "within_power (j + k) (fmul x y)"
proof -
  from assms(1,2) obtain a b where ab: "x = Fin a" "y = Fin b" "\<bar>a\<bar> \<le> pow2 j" "\<bar>b\<bar> \<le> pow2 k"
    by (auto simp: within_power_def)
  then have "\<bar>a * b\<bar> \<le> pow2 (j + k)" unfolding pow2_add abs_mult by (intro mult_mono) simp_all
  with rnd_power [of "a * b" "j + k"] ab assms(3,4) show ?thesis by simp
qed

lemma power_mono: "within_power j x \<Longrightarrow> j \<le> k \<Longrightarrow> within_power k x"
  unfolding within_power_def by (metis order_trans pow2_le_iff)

lemma wrap_imu: "moderate y \<Longrightarrow> wrap_to_pi_imu y = wrap_to_pi y"
  by (auto simp: moderate_def wrap_to_pi_imu_def wrap_to_pi_def)

lemma seconds_bounded:
  assumes "0 \<le> n" and "n \<le> 2 ^ 62" and "float_of_int n = Inr x" and "fdiv x (Fin 1000000000) = Inr s"
  shows "within_power 62 s"
proof -
  have p: "(2 :: rat) ^ 62 = pow2 62" by (simp add: pow2_def)
  have "(of_int n :: rat) \<le> of_int (2 ^ 62)" using assms(2) by (simp only: of_int_le_iff)
  then have "\<bar>of_int n :: rat\<bar> \<le> pow2 62" using assms(1) p by simp
  from rnd_power [OF this] obtain a where a: "rnd (of_int n) = Fin a" "\<bar>a\<bar> \<le> pow2 62"
    by (auto simp: within_power_def)
  with assms(3,4) have s: "s = rnd (a / 1000000000)" by (auto simp: float_of_int_def)
  have "\<bar>a / 1000000000\<bar> \<le> \<bar>a\<bar>" by (simp add: divide_le_eq)
  with a(2) have "\<bar>a / 1000000000\<bar> \<le> pow2 62" by (rule order_trans [rotated])
  from rnd_power [OF this] s show ?thesis by simp
qed

lemma integrated_wrapped:
  assumes "wrapped yaw" and "within_power 20 previous" and "within_power 20 rate" and "0 \<le> n" and "n \<le> 2 ^ 62"
    and "integrated yaw previous rate n = Inr yaw'"
  shows "wrapped yaw'"
proof -
  from assms(6) obtain x s where x: "float_of_int n = Inr x" "fdiv x (Fin 1000000000) = Inr s"
    "wrap_to_pi_imu (fadd yaw (fmul (fmul (Fin (1 / 2)) (fadd previous rate)) s)) = Inr yaw'"
    by (auto simp: integrated_def rbind_eq_Inr)
  have "within_power (- 1) (Fin (1 / 2))" unfolding within_power_def by (rule exI [of _ "1 / 2"]) (simp add: pow2_def)
  from power_mul [OF this power_add [OF assms(2,3)]] have "within_power 20 (fmul (Fin (1 / 2)) (fadd previous rate))" by simp
  from power_mul [OF this seconds_bounded [OF assms(4,5) x(1,2)]]
  have turn: "within_power 82 (fmul (fmul (Fin (1 / 2)) (fadd previous rate)) s)" by simp
  have "py_pi \<le> pow2 82" by (simp add: py_pi_def pow2_def)
  with assms(1) have "within_power 82 yaw" by (fastforce simp: wrapped_def within_power_def abs_le_iff)
  from power_mono [OF power_add [OF this turn], of 960]
  have "within_power 960 (fadd yaw (fmul (fmul (Fin (1 / 2)) (fadd previous rate)) s))" by simp
  then have "moderate (fadd yaw (fmul (fmul (Fin (1 / 2)) (fadd previous rate)) s))" by (simp add: moderate_def within_power_def)
  with wrap_wrapped [OF this] wrap_imu [OF this] x(3) show ?thesis by auto
qed

fun yaw_run :: "yaw_estimator \<Rightarrow> (pyfloat \<times> int \<times> bool) list \<Rightarrow> yaw_estimator \<times> pyfloat result list" where
  "yaw_run y [] = (y, [])"
| "yaw_run y ((rate, stamp, standing) # steps) = (case yaw_update y rate stamp standing of (y1, out) \<Rightarrow>
     (case yaw_run y1 steps of (y2, outs) \<Rightarrow> (y2, out # outs)))"

definition yaw_ok :: "pyfloat \<Rightarrow> yaw_estimator \<Rightarrow> bool" where
  "yaw_ok bias y \<longleftrightarrow> ye_gyro_bias y = bias \<and> ye_maximum_gap_ns y \<le> 2 ^ 62 \<and> wrapped (ye_yaw_rad y) \<and>
     (\<forall>r. ye_previous_rate y = Some r \<longrightarrow> within_power 20 r)"

lemma wrapped_zero: "wrapped (Fin 0)"
  by (simp add: wrapped_def py_pi_def)

lemma yaw_update_ok:
  assumes "yaw_ok bias y" and "isfinite (fsub rate bias) \<longrightarrow> within_power 20 (fsub rate bias)"
    and "yaw_update y rate stamp standing = (y', out)"
  shows "yaw_ok bias y' \<and> (\<forall>yaw. out = Inr yaw \<longrightarrow> wrapped yaw)"
proof (cases "isfinite (fsub rate bias) \<and> 0 < stamp \<and> \<not> standing \<and> ye_previous_ns y \<noteq> None \<and> ye_previous_rate y \<noteq> None")
  case True
  then obtain p r where pr: "ye_previous_ns y = Some p" "ye_previous_rate y = Some r" by auto
  have power: "within_power 20 r" "within_power 20 (fsub rate bias)" "wrapped (ye_yaw_rad y)" "ye_gyro_bias y = bias"
    using assms(1,2) True pr by (auto simp: yaw_ok_def)
  show ?thesis
  proof (cases "stamp - p \<le> 0 \<or> ye_maximum_gap_ns y < stamp - p")
    case False
    then have n: "0 \<le> stamp - p" "stamp - p \<le> 2 ^ 62" using assms(1) by (auto simp: yaw_ok_def)
    note integrated_wrapped [OF power(3,1,2) n]
    then show ?thesis using assms(1,3) True False pr power
      by (auto simp: yaw_update_def Let_def yaw_ok_def split: sum.splits)
  qed (use assms(1,3) True pr power in \<open>auto simp: yaw_update_def Let_def\<close>)
next
  case False
  with assms show ?thesis
    by (auto simp: yaw_update_def Let_def yaw_ok_def yaw_reset_def wrapped_zero split: if_splits option.splits)
qed

lemma yaw_run_ok:
  assumes "yaw_ok bias y" and "list_all (\<lambda>(rate, _). isfinite (fsub rate bias) \<longrightarrow> within_power 20 (fsub rate bias)) steps"
    and "yaw_run y steps = (y', outs)"
  shows "yaw_ok bias y' \<and> list_all (\<lambda>out. \<forall>yaw. out = Inr yaw \<longrightarrow> wrapped yaw) outs"
  using assms
proof (induction steps arbitrary: y y' outs)
  case (Cons step steps)
  obtain rate stamp standing where step: "step = (rate, stamp, standing)" by (cases step)
  obtain y1 out where one: "yaw_update y rate stamp standing = (y1, out)" by fastforce
  from yaw_update_ok [OF Cons.prems(1) _ this] Cons.prems(2) step have "yaw_ok bias y1" "\<forall>yaw. out = Inr yaw \<longrightarrow> wrapped yaw" by auto
  with Cons.IH [of y1] Cons.prems(2,3) step one show ?case by (auto split: prod.splits)
qed simp

text \<open>
  C39. The integrated yaw is always an angle: whatever the sequence of rates, timestamps and standing flags, as
  long as no rate without its bias exceeds two to the twentieth radians per second and the gap bound is
  below two to the sixty-second nanoseconds, every yaw the estimator returns or keeps lies between -pi and
  pi; in particular it is never a NaN.
\<close>

theorem integrated_yaw_is_wrapped:
  assumes "new_yaw_estimator bias gap = Inr y" and "ye_maximum_gap_ns y \<le> 2 ^ 62"
    and "list_all (\<lambda>(rate, _). isfinite (fsub rate bias) \<longrightarrow> within_power 20 (fsub rate bias)) steps"
    and "yaw_run y steps = (y', outs)"
  shows "wrapped (ye_yaw_rad y') \<and> list_all (\<lambda>out. \<forall>yaw. out = Inr yaw \<longrightarrow> wrapped yaw) outs"
proof -
  have "yaw_ok bias y" using assms(1,2) by (auto simp: new_yaw_estimator_def rbind_eq_Inr yaw_ok_def wrapped_zero split: if_splits)
  from yaw_run_ok [OF this assms(3,4)] show ?thesis by (simp add: yaw_ok_def)
qed

text \<open>A refused gap never heals by itself: only a standing update restarts the integration.\<close>

lemma yaw_gap_refused:
  assumes "ye_previous_ns y = Some p" and "ye_previous_rate y = Some r" and "ye_maximum_gap_ns y < stamp - p"
  shows "\<exists>e. yaw_update y rate stamp False = (y, Inl e)"
  using assms by (simp add: yaw_update_def Let_def)

text \<open>
  C40. A gap stops the integration for good: once a timestamp is more than the maximum gap after the last
  integrated one, every update at that or any later time raises and changes nothing, however closely the
  updates follow each other, until an update says that the robot stands, which starts again from zero.
\<close>

theorem yaw_gap_latches:
  assumes "ye_previous_ns y = Some p" and "ye_previous_rate y = Some r" and "ye_maximum_gap_ns y < stamp - p"
    and "list_all (\<lambda>(_, t, standing). \<not> standing \<and> stamp \<le> t) steps" and "yaw_run y steps = (y', outs)"
    and "isfinite (fsub rate (ye_gyro_bias y))" and "0 < now" and "yaw_update y' rate now True = (y2, out)"
  shows "y' = y \<and> list_all (\<lambda>out. \<exists>e. out = Inl e) outs \<and> out = Inr (Fin 0) \<and> ye_yaw_rad y2 = Fin 0 \<and>
    ye_previous_ns y2 = Some now"
proof -
  from assms(4,5) have "y' = y \<and> list_all (\<lambda>out. \<exists>e. out = Inl e) outs"
  proof (induction steps arbitrary: y' outs)
    case (Cons step steps)
    obtain rate t where step: "step = (rate, t, False)" "stamp \<le> t" using Cons.prems(1) by (cases step) auto
    then have "ye_maximum_gap_ns y < t - p" using assms(3) by simp
    from yaw_gap_refused [OF assms(1,2) this] obtain e where "yaw_update y rate t False = (y, Inl e)" by blast
    with Cons.IH Cons.prems step show ?case by (auto split: prod.splits)
  qed simp
  then show ?thesis using assms(6,7,8) by (auto simp: yaw_update_def Let_def yaw_reset_def)
qed

definition sample_yaw :: yaw_estimator where
  "sample_yaw = \<lparr>ye_gyro_bias = Fin 0, ye_maximum_gap_ns = 30000000, ye_yaw_rad = Fin 0, ye_previous_rate = None,
     ye_previous_ns = None\<rparr>"

lemma sample_yaw_new: "new_yaw_estimator (Fin 0) (Fin 30) = Inr sample_yaw"
  by (simp add: new_yaw_estimator_def sample_yaw_def float_eval)

theorem integrated_yaw_is_wrapped_witness:
  "wrapped (ye_yaw_rad (fst (yaw_run sample_yaw [(Fin 1, 10000000, False), (Fin 2, 20000000, False), (NaN, 30000000, False)])))"
proof -
  have "within_power 20 (Fin 1)" "within_power 20 (Fin 2)" by (simp_all add: within_power_def pow2_def)
  then have "list_all (\<lambda>(rate, _). isfinite (fsub rate (Fin 0)) \<longrightarrow> within_power 20 (fsub rate (Fin 0)))
    [(Fin 1, 10000000 :: int, False), (Fin 2, 20000000, False), (NaN, 30000000, False)]" by (simp add: float_eval)
  from integrated_yaw_is_wrapped [OF sample_yaw_new _ this prod.collapse [symmetric]] show ?thesis
    by (simp add: sample_yaw_def del: yaw_run.simps)
qed

theorem yaw_gap_latches_witness:
  "fst (yaw_run (sample_yaw\<lparr>ye_previous_ns := Some 10000000, ye_previous_rate := Some (Fin 1)\<rparr>)
     [(Fin 1, 50000000, False), (Fin 1, 52000000, False)]) =
   sample_yaw\<lparr>ye_previous_ns := Some 10000000, ye_previous_rate := Some (Fin 1)\<rparr>"
  (is "fst (yaw_run ?y ?steps) = _")
proof -
  obtain y' outs where run: "yaw_run ?y ?steps = (y', outs)" by fastforce
  obtain y2 out where up: "yaw_update y' (Fin 0) 60000000 True = (y2, out)" by fastforce
  have "isfinite (fsub (Fin 0) (ye_gyro_bias ?y))" by (simp add: sample_yaw_def float_eval)
  from yaw_gap_latches [OF _ _ _ _ run this _ up, of 10000000 "Fin 1" 50000000] run show ?thesis
    by (simp add: sample_yaw_def)
qed

end
