(* ===== verification/Contract.thy ===== *)
theory Contract
  imports MotorMapping
begin

text \<open>
  The timing and the policy contract of \<open>contracts.py\<close>: the frequencies, the frozen policy document and
  its validation against the hardware runtime. A document is a parsed JSON object; the conversions of
  numeric text are the parameter \<open>N\<close>. The validator collects messages and raises them together; an
  exception of a conversion it does not catch leaves it at once.
\<close>

definition EXPECTED_OBSERVATION_TERMS :: "(string \<times> int \<times> int) list" where
  "EXPECTED_OBSERVATION_TERMS =
     [(''joint_pos'', 31, 8), (''joint_vel'', 31, 8), (''actions'', 31, 8), (''base_ang_vel'', 3, 8),
      (''projected_gravity'', 3, 8), (''velocity_commands'', 3, 0)]"

definition JOINT_VECTOR_FIELDS :: "string list" where
  "JOINT_VECTOR_FIELDS = [''default_joint_pos'', ''action_offset'', ''action_scale'', ''stiffness'',
     ''damping'', ''effort_limit'', ''velocity_limit'']"

section \<open>Conversions\<close>

text \<open>\<open>v.get(k, d)\<close>, \<open>int(v.get(k, -1))\<close> and \<open>float(v.get(k, d))\<close>\<close>

definition jget_or :: "json \<Rightarrow> string \<Rightarrow> json \<Rightarrow> json" where
  "jget_or v k d = (case map_of (jfields v) k of None \<Rightarrow> d | Some x \<Rightarrow> x)"

definition int_field :: "numerics \<Rightarrow> json \<Rightarrow> string \<Rightarrow> int result" where
  "int_field N v k = json_int (parse_int N) (jget_or v k (JInt (- 1)))"

definition float_or :: "numerics \<Rightarrow> json \<Rightarrow> string \<Rightarrow> rat \<Rightarrow> pyfloat result" where
  "float_or N v k d = to_float (parse_float N) (jget_or v k (JFloat (Fin d)))"

text \<open>\<open>math.isclose(a, b, rel_tol=0.0, abs_tol=t)\<close>: a difference is below a zero tolerance when it is zero.\<close>

definition isclose_abs :: "pyfloat \<Rightarrow> pyfloat \<Rightarrow> pyfloat \<Rightarrow> bool" where
  "isclose_abs a b tolerance = (feq a b \<or> isfinite a \<and> isfinite b \<and>
     (let d = fabs (fsub b a) in fle d (Fin 0) \<or> fle d tolerance))"

fun type_or_value_error :: "py_error \<Rightarrow> bool" where
  "type_or_value_error (TypeError _) = True"
| "type_or_value_error (ValueError _) = True"
| "type_or_value_error _ = False"

fun missing_or_invalid :: "py_error \<Rightarrow> bool" where
  "missing_or_invalid (KeyError _) = True"
| "missing_or_invalid e = type_or_value_error e"

definition observation_term_dim :: "numerics \<Rightarrow> json \<Rightarrow> int result" where
  "observation_term_dim N t =
     (if ''dim'' \<in> set (keys (jfields t)) then json_int (parse_int N) (jget t ''dim'')
      else case jget t ''shape'' of
          JArr (e # es) \<Rightarrow> rfold (\<lambda>r x. rbind (json_int (parse_int N) x) (\<lambda>n. Inr (r * n))) 1 (e # es)
        | _ \<Rightarrow> Inr (- 1))"

section \<open>Timing\<close>

record runtime_timing =
  rt_policy_hz :: int
  rt_state_hz :: int
  rt_motor_internal_hz :: int
  rt_policy_target_semantics :: string

definition validate_timing :: "runtime_timing \<Rightarrow> unit result" where
  "validate_timing t =
     (if rt_policy_hz t \<le> 0 then Inl (ValueError ''policy_hz must be positive'')
      else if rt_state_hz t \<le> 0 then Inl (ValueError ''state_hz must be positive'')
      else if rt_motor_internal_hz t \<le> 0 then Inl (ValueError ''motor_internal_hz must be positive'')
      else if rt_state_hz t mod rt_policy_hz t \<noteq> 0
      then Inl (ValueError ''state_hz must be an integer multiple of policy_hz'')
      else if rt_motor_internal_hz t mod rt_state_hz t \<noteq> 0
      then Inl (ValueError ''motor_internal_hz must be an integer multiple of state_hz'')
      else if rt_policy_target_semantics t \<noteq> ''zero_order_hold_for_20ms''
      then Inl (ValueError ''policy target must use the qualified 20 ms zero-order hold'') else Inr ())"

definition state_updates_per_policy :: "runtime_timing \<Rightarrow> int result" where
  "state_updates_per_policy t = (if rt_policy_hz t = 0 then Inl ZeroDivisionError
     else Inr (rt_state_hz t div rt_policy_hz t))"

section \<open>The contract\<close>

record policy_contract =
  pc_path :: string
  pc_data :: json

definition contract_policy_hz :: "numerics \<Rightarrow> policy_contract \<Rightarrow> int result" where
  "contract_policy_hz N c =
     rbind (float_field N (pc_data c) ''policy_dt'') (\<lambda>dt. rbind (fdiv (Fin 1) dt) (\<lambda>q.
     rbind (fround q) (\<lambda>hz. rbind (float_of_int hz) (\<lambda>h.
       if \<not> isclose_abs (fmul h dt) (Fin 1) (rnd (1 / 1000000000))
       then Inl (ValueError ''policy_dt does not represent an integer frequency'') else Inr hz))))"

definition maximum_history_length :: "numerics \<Rightarrow> policy_contract \<Rightarrow> int result" where
  "maximum_history_length N c =
     rbind (rbind (jindex (pc_data c) ''observation_terms'') json_iter) (\<lambda>ts.
     rbind (rmap (\<lambda>t. rbind (jindex t ''history_length'') (json_int (parse_int N))) ts) (\<lambda>ns.
       if ns = [] then Inl (ValueError ''max() iterable argument is empty'') else Inr (Max (set ns))))"

definition contract_joint_vector :: "numerics \<Rightarrow> json \<Rightarrow> string \<Rightarrow> (string list \<times> pyfloat list) result" where
  "contract_joint_vector N data name =
     (if \<not> is_list (jget data name) then Inr ([name @ '' must contain exactly 31 values''], [])
      else rbind (json_iter (jget data name)) (\<lambda>vs.
        if length vs \<noteq> 31 then Inr ([name @ '' must contain exactly 31 values''], [])
        else case rmap (to_float (parse_float N)) vs of
            Inl e \<Rightarrow> if type_or_value_error e then Inr ([name @ '' must contain only numeric values''], []) else Inl e
          | Inr xs \<Rightarrow> if \<not> list_all isfinite xs then Inr ([name @ '' contains a non-finite value''], []) else Inr ([], xs)))"

section \<open>Validation\<close>

definition sign_errors :: "(string, pyfloat list) dict \<Rightarrow> string \<Rightarrow> string list" where
  "sign_errors vectors name = (case map_of vectors name of None \<Rightarrow> []
     | Some v \<Rightarrow> if name \<in> {''action_scale'', ''effort_limit'', ''velocity_limit''}
         then (if v \<noteq> [] \<and> \<not> list_all (flt (Fin 0)) v then [name @ '' values must be positive''] else [])
         else (if v \<noteq> [] \<and> \<not> list_all (fle (Fin 0)) v then [name @ '' values must be non-negative''] else []))"

definition vector_errors :: "numerics \<Rightarrow> json \<Rightarrow> string list result" where
  "vector_errors N data = rbind (rmap (contract_joint_vector N data) JOINT_VECTOR_FIELDS) (\<lambda>rs.
     let vectors = zip JOINT_VECTOR_FIELDS (map snd rs) in
     Inr (concat (map fst rs) @ concat (map (sign_errors vectors)
       [''action_scale'', ''effort_limit'', ''velocity_limit'', ''stiffness'', ''damping''])))"

definition joint_name_errors :: "json \<Rightarrow> string list result" where
  "joint_name_errors data = (case jget data ''joint_names'' of
       JArr names \<Rightarrow> if length names \<noteq> 31 then Inr [''joint_names must contain exactly 31 entries'']
         else if \<not> list_all hashable names then Inl (TypeError ''unhashable type'')
         else unless (list_all is_str names \<and> distinct names) ''joint_names must be 31 unique strings''
     | _ \<Rightarrow> Inr [''joint_names must contain exactly 31 entries''])"

definition scalar_errors :: "numerics \<Rightarrow> policy_contract \<Rightarrow> runtime_timing \<Rightarrow> string list result" where
  "scalar_errors N c t = (let data = pc_data c in sequence
     [rbind (contract_policy_hz N c) (\<lambda>hz. unless (hz = rt_policy_hz t)
        (''policy was trained at '' @ show_int hz @ '' Hz but runtime requests '' @ show_int (rt_policy_hz t) @ '' Hz'')),
      unless (jget data ''observation_has_horizontal_base_velocity'' = JBool False)
        ''actor observation must not contain horizontal base velocity'',
      unless (jget data ''observation_has_global_position'' = JBool False) ''actor observation must not contain global position'',
      unless (jget data ''observation_has_global_yaw'' = JBool False) ''actor observation must not contain global yaw'',
      rbind (int_field N data ''action_dim'') (\<lambda>n. unless (n = 31) ''expected 31 policy actions''),
      rbind (float_or N data ''physics_dt'' (- 1)) (\<lambda>dt. unless (isclose dt (rnd (2 / 1000)) (rnd (1 / 1000000000000)))
        ''physics_dt must be 0.002 s (500 Hz)''),
      rbind (int_field N data ''decimation'') (\<lambda>n. rbind (state_updates_per_policy t) (\<lambda>steps.
        unless (n = steps) ''decimation does not match state_hz / policy_hz'')),
      rbind (float_or N data ''physics_dt'' (- 1)) (\<lambda>dt. rbind (int_field N data ''decimation'') (\<lambda>n.
        rbind (float_of_int n) (\<lambda>d. rbind (float_or N data ''policy_dt'' (- 2)) (\<lambda>p.
        unless (isclose (fmul dt d) p (rnd (1 / 1000000000000))) ''policy_dt must equal physics_dt * decimation''))))])"

definition observation_term_errors :: "numerics \<Rightarrow> int \<Rightarrow> json \<times> string \<times> int \<times> int \<Rightarrow> string list result" where
  "observation_term_errors N cursor = (\<lambda>(t, name, frame_dim, history). let expected = frame_dim * max history 1 in
     if \<not> is_dict t then Inl (AttributeError ''object has no attribute get'') else sequence
     [unless (jget t ''name'' = JStr name) (''observation term order mismatch at '' @ name),
      rbind (int_field N t ''frame_dim'') (\<lambda>n. unless (n = frame_dim) (name @ '' frame_dim mismatch'')),
      rbind (int_field N t ''history_length'') (\<lambda>n. unless (n = history) (name @ '' history_length mismatch'')),
      rbind (int_field N t ''start'') (\<lambda>n. unless (n = cursor) (name @ '' observation slice is not contiguous'')),
      rbind (int_field N t ''end'') (\<lambda>n. if n \<noteq> cursor + expected then Inr [name @ '' observation dimension mismatch'']
        else rbind (observation_term_dim N t) (\<lambda>d. unless (d = expected) (name @ '' observation dimension mismatch'')))])"

fun observation_errors :: "numerics \<Rightarrow> int \<Rightarrow> (json \<times> string \<times> int \<times> int) list \<Rightarrow> (string list \<times> int) result" where
  "observation_errors N cursor [] = Inr ([], cursor)"
| "observation_errors N cursor ((t, name, frame_dim, history) # rest) =
     rbind (observation_term_errors N cursor (t, name, frame_dim, history)) (\<lambda>es.
     rbind (observation_errors N (cursor + frame_dim * max history 1) rest) (\<lambda>(more, c). Inr (es @ more, c)))"

definition observation_layout_errors :: "numerics \<Rightarrow> json \<Rightarrow> string list result" where
  "observation_layout_errors N data = (case jget data ''observation_terms'' of
       JArr terms \<Rightarrow> if length terms \<noteq> length EXPECTED_OBSERVATION_TERMS then Inr [''unexpected observation term count'']
         else rbind (observation_errors N 0 (zip terms EXPECTED_OBSERVATION_TERMS)) (\<lambda>(es, cursor).
           rbind (int_field N data ''actor_observation_dim'') (\<lambda>n.
             Inr (es @ (if n \<noteq> cursor then [''actor_observation_dim does not match observation slices''] else []))))
     | _ \<Rightarrow> Inr [''unexpected observation term count''])"

definition handoff_errors :: "numerics \<Rightarrow> json \<Rightarrow> string list result" where
  "handoff_errors N data = sequence
     [unless (jget data ''base_ang_vel_frame'' = JStr ''root_link_local'') ''base angular velocity must use the root-link local frame'',
      unless (jget data ''projected_gravity_definition'' = JStr ''R_world_to_base @ [0, 0, -1]'')
        ''unsupported projected-gravity definition'',
      unless (jget data ''quaternion_order'' = JStr ''wxyz'') ''quaternion_order must be wxyz'',
      unless (jget data ''command_layout'' = JArr [JStr ''vx'', JStr ''vy'', JStr ''yaw_rate''])
        ''command_layout must be [vx, vy, yaw_rate]'',
      (case float_field N data ''deployment_handoff_seconds'' of
         Inl e \<Rightarrow> if missing_or_invalid e then Inr [''deployment_handoff_seconds is missing or invalid''] else Inl e
       | Inr s \<Rightarrow> unless (isfinite s \<and> \<not> flt s (Fin 0)) ''deployment_handoff_seconds must be finite and non-negative''),
      unless (jget data ''deployment_handoff_mode'' = JStr ''smoothstep_from_pose_equivalent_action'') ''unsupported deployment_handoff_mode'',
      unless (jget data ''deployment_initial_velocity_mode'' = JStr ''zero'') ''deployment_initial_velocity_mode must be zero'']"

definition EXPECTED_ANKLE :: "(string \<times> pyfloat) list" where
  "EXPECTED_ANKLE = [(''rated_torque_nm'', Fin (7 / 2)), (''peak_torque_nm'', Fin (25 / 2)), (''rated_speed_rad_s'', rnd (1256 / 100)),
     (''no_load_speed_rad_s'', rnd (362 / 10)), (''joint_to_motor_ratio'', Fin 1)]"

definition ankle_errors :: "numerics \<Rightarrow> json \<Rightarrow> string list result" where
  "ankle_errors N data = (let ankle = jget data ''physical_ankle_differential'' in
     if \<not> is_dict ankle \<or> jget ankle ''enabled'' \<noteq> JBool True then Inr [''physical differential-ankle contract is missing'']
     else sequence (map (\<lambda>(name, target). case float_field N ankle name of
         Inl e \<Rightarrow> if missing_or_invalid e then Inr [''physical_ankle_differential.'' @ name @ '' is missing''] else Inl e
       | Inr actual \<Rightarrow> unless (isclose_abs actual target (rnd (1 / 1000000)))
           (''physical_ankle_differential.'' @ name @ '' mismatch'')) EXPECTED_ANKLE))"

definition validate_for_hardware :: "numerics \<Rightarrow> policy_contract \<Rightarrow> runtime_timing \<Rightarrow> unit result" where
  "validate_for_hardware N c t = rbind (validate_timing t) (\<lambda>_.
     rbind (sequence [scalar_errors N c t, joint_name_errors (pc_data c), vector_errors N (pc_data c),
       unless (jget (pc_data c) ''action_formula'' = JStr ''target_joint_pos = action_offset + action_scale * policy_action'')
         ''unsupported action_formula'',
       observation_layout_errors N (pc_data c), handoff_errors N (pc_data c), ankle_errors N (pc_data c)]) (\<lambda>errors.
     if errors \<noteq> [] then Inl (ValueError (join ''; '' errors)) else Inr ()))"

section \<open>Summary\<close>

text \<open>\<open>bool(v)\<close>\<close>

fun json_bool :: "json \<Rightarrow> bool" where
  "json_bool JNull = False"
| "json_bool (JBool b) = b"
| "json_bool (JInt n) = (n \<noteq> 0)"
| "json_bool (JFloat x) = (x \<noteq> Fin 0)"
| "json_bool (JStr s) = (s \<noteq> [])"
| "json_bool (JArr xs) = (xs \<noteq> [])"
| "json_bool (JObj kvs) = (kvs \<noteq> [])"

definition contract_summary :: "numerics \<Rightarrow> policy_contract \<Rightarrow> (string, json) dict result" where
  "contract_summary N c = rbind (contract_policy_hz N c) (\<lambda>hz. rbind (maximum_history_length N c) (\<lambda>history.
     rbind (float_of_int history) (\<lambda>h. rbind (float_of_int hz) (\<lambda>f. rbind (fdiv (fmul (Fin 1000) h) f) (\<lambda>ms.
     rbind (rbind (jindex (pc_data c) ''actor_observation_dim'') (json_int (parse_int N))) (\<lambda>observation.
     rbind (rbind (jindex (pc_data c) ''action_dim'') (json_int (parse_int N))) (\<lambda>action.
     rbind (jindex (pc_data c) ''observation_has_horizontal_base_velocity'') (\<lambda>velocity.
       Inr [(''policy_hz'', JInt hz), (''history_frames'', JInt history), (''history_window_ms'', JFloat ms),
         (''observation_dim'', JInt observation), (''action_dim'', JInt action),
         (''horizontal_base_velocity'', JBool (json_bool velocity))]))))))))"

end
