(* ===== verification/LimitDerivation.thy ===== *)
theory LimitDerivation
  imports MotorMapping Contract
begin

text \<open>
  The derivation of motor limits from the joint limits of the URDF and their installation in the hardware
  document (\<open>limit_derivation.py\<close>). The parsed URDF is the list of its joints, with the texts of the limit
  attributes; the SHA-256 of the file and of the report, and \<open>numpy.min\<close> and \<open>numpy.max\<close>, are parameters.
  A joint name of the contract that is not a string never survives; here it raises at once.
\<close>

section \<open>Joint limits\<close>

type_synonym bounds = "pyfloat \<times> pyfloat"

record urdf_joint =
  uj_name :: "string option"
  uj_limit :: "(string option \<times> string option) option"

record numpy_limits = numpy +
  np_amin :: "vec \<Rightarrow> pyfloat"
  np_amax :: "vec \<Rightarrow> pyfloat"

text \<open>\<open>float(text)\<close>\<close>

definition text_float :: "numerics \<Rightarrow> string \<Rightarrow> pyfloat result" where
  "text_float N s = to_float (parse_float N) (JStr s)"

definition urdf_bounds :: "numerics \<Rightarrow> string \<Rightarrow> (string option \<times> string option) option \<Rightarrow> bounds result" where
  "urdf_bounds N name limit = (case limit of
       Some (Some low_text, Some high_text) \<Rightarrow>
         rbind (text_float N low_text) (\<lambda>low. rbind (text_float N high_text) (\<lambda>high.
           if \<not> (isfinite low \<and> isfinite high) \<or> fle high low
           then Inl (ValueError (''URDF joint '' @ name @ '' has invalid lower/upper limit''))
           else Inr (low, high)))
     | _ \<Rightarrow> Inl (ValueError (''URDF joint '' @ name @ '' has no finite lower/upper limit'')))"

definition urdf_step :: "numerics \<Rightarrow> string list \<Rightarrow> (string, bounds) dict \<Rightarrow> urdf_joint \<Rightarrow> (string, bounds) dict result" where
  "urdf_step N names d joint = (case uj_name joint of None \<Rightarrow> Inr d
     | Some name \<Rightarrow> if name \<notin> set names then Inr d
         else rbind (urdf_bounds N name (uj_limit joint)) (\<lambda>b. Inr (dict_set d name b)))"

definition urdf_joint_limits :: "numerics \<Rightarrow> urdf_joint list \<Rightarrow> string list \<Rightarrow> (string, bounds) dict result" where
  "urdf_joint_limits N joints names = rbind (rfold (urdf_step N names) [] joints) (\<lambda>d.
     let missing = sorted_set (filter (\<lambda>n. n \<notin> set (keys d)) names) in
     if missing \<noteq> [] then Inl (ValueError (''URDF is missing policy joint limits: '' @ join '', '' missing))
     else Inr d)"

definition inset :: "pyfloat \<Rightarrow> bounds \<Rightarrow> bounds result" where
  "inset margin b = (case b of (low, high) \<Rightarrow>
     if \<not> isfinite margin \<or> fle margin (Fin 0) then Inl (ValueError ''soft margin must be finite and positive'')
     else if fle (fsub high low) (fmul (Fin 2) margin)
     then Inl (ValueError ''soft margin leaves no usable range inside the bounds'')
     else Inr (fadd low margin, fsub high margin))"

definition soft_limits :: "pyfloat \<Rightarrow> (string, bounds) dict \<Rightarrow> (string, bounds) dict result" where
  "soft_limits margin hard = rmap (\<lambda>(name, b). rbind (inset margin b) (\<lambda>s. Inr (name, s))) hard"

text \<open>One override of the soft limits, strictly inside the hard limits of the joint.\<close>

definition override_step ::
  "(string, bounds) dict \<Rightarrow> (string, bounds) dict \<Rightarrow> string \<times> pyfloat list \<Rightarrow> (string, bounds) dict result" where
  "override_step hard = (\<lambda>soft (name, bound_list). case bound_list of
       [low, high] \<Rightarrow> rbind (lookup_result hard name) (\<lambda>(hard_low, hard_high).
         if \<not> (isfinite low \<and> isfinite high) \<or> \<not> (flt hard_low low \<and> flt low high \<and> flt high hard_high)
         then Inl (ValueError (''soft-limit override for '' @ name @ '' must be finite and strictly inside URDF hard limits''))
         else Inr (dict_set soft name (low, high)))
     | _ \<Rightarrow> Inl (ValueError (''soft-limit override for '' @ name @ '' must contain lower and upper'')))"

definition overridden ::
  "string list \<Rightarrow> (string, bounds) dict \<Rightarrow> (string, pyfloat list) dict \<Rightarrow> (string, bounds) dict \<Rightarrow> (string, bounds) dict result" where
  "overridden names hard overrides soft =
     (let unknown = sorted_set (filter (\<lambda>n. n \<notin> set names) (keys overrides)) in
      if unknown \<noteq> [] then Inl (ValueError (''unknown joint soft-limit overrides: '' @ join '', '' unknown))
      else rfold (override_step hard) soft overrides)"

section \<open>Motor limits\<close>

definition limit_pair :: "numpy_limits \<Rightarrow> pyfloat list \<Rightarrow> json" where
  "limit_pair np xs = JArr [JFloat (np_amin np xs), JFloat (np_amax np xs)]"

definition json_bounds :: "bounds \<Rightarrow> json" where
  "json_bounds b = JArr [JFloat (fst b), JFloat (snd b)]"

definition direct_bounds :: "numpy_limits \<Rightarrow> direct_map \<Rightarrow> bounds \<Rightarrow> json result" where
  "direct_bounds np m b = rbind (rmap (direct_to_drive_position m) [fst b, snd b]) (\<lambda>xs. Inr (limit_pair np xs))"

definition direct_candidate ::
  "numpy_limits \<Rightarrow> (string, bounds) dict \<Rightarrow> (string, bounds) dict \<Rightarrow> string \<Rightarrow> direct_map \<Rightarrow> json result" where
  "direct_candidate np hard soft joint m =
     rbind (rbind (lookup_result hard joint) (direct_bounds np m)) (\<lambda>h.
     rbind (rbind (lookup_result soft joint) (direct_bounds np m)) (\<lambda>s.
       Inr (JObj [(''topology'', JStr ''direct''), (''policy_joints'', JArr [JStr joint]),
         (''hard_limit_rad_candidate'', h), (''soft_limit_rad_candidate'', s)])))"

text \<open>\<open>itertools.product\<close> of the limits of two joints, mapped to the drives of the pair.\<close>

definition corners :: "bounds \<Rightarrow> bounds \<Rightarrow> vec list" where
  "corners a b = [[fst a, fst b], [fst a, snd b], [snd a, fst b], [snd a, snd b]]"

definition corner_positions ::
  "numpy_limits \<Rightarrow> (string, bounds) dict \<Rightarrow> drive_pair \<Rightarrow> vec list result" where
  "corner_positions np limits p = rbind (rmap (lookup_result limits) (dp_joint_names p)) (\<lambda>bs.
     case bs of [a, b] \<Rightarrow> rmap (pair_to_drive_position (numpy.truncate np) p) (corners a b) | _ \<Rightarrow> Inl IndexError)"

definition column_bounds :: "numpy_limits \<Rightarrow> vec list \<Rightarrow> nat \<Rightarrow> json result" where
  "column_bounds np positions index = rbind (rmap (\<lambda>v. vec_at v index) positions) (\<lambda>xs. Inr (limit_pair np xs))"

definition pair_candidate ::
  "numpy_limits \<Rightarrow> string \<Rightarrow> drive_pair \<Rightarrow> vec list \<Rightarrow> vec list \<Rightarrow> nat \<Rightarrow> json result" where
  "pair_candidate np name p hard soft index =
     rbind (column_bounds np hard index) (\<lambda>h. rbind (column_bounds np soft index) (\<lambda>s.
       Inr (JObj [(''topology'', JStr ''differential''), (''differential_pair'', JStr name),
         (''policy_joints'', JArr (map JStr (dp_joint_names p))),
         (''hard_limit_rad_candidate'', h), (''soft_limit_rad_candidate'', s)])))"

definition direct_limits ::
  "numpy_limits \<Rightarrow> (string, bounds) dict \<Rightarrow> (string, bounds) dict \<Rightarrow> (string, json) dict \<Rightarrow> string \<times> direct_map
     \<Rightarrow> (string, json) dict result" where
  "direct_limits np hard soft = (\<lambda>d (joint, m). rbind (direct_candidate np hard soft joint m) (\<lambda>c.
     Inr (dict_set d (dm_motor_name m) c)))"

definition pair_limits ::
  "numpy_limits \<Rightarrow> (string, bounds) dict \<Rightarrow> (string, bounds) dict \<Rightarrow> (string, json) dict \<Rightarrow> string \<times> drive_pair
     \<Rightarrow> (string, json) dict result" where
  "pair_limits np hard soft = (\<lambda>d (name, p).
     rbind (corner_positions np hard p) (\<lambda>h. rbind (corner_positions np soft p) (\<lambda>s.
     rbind (rmap (pair_candidate np name p h s) [0..<length (dp_motor_names p)]) (\<lambda>cs.
       update_strict d (dp_motor_names p) cs))))"

definition derived_motor_limits ::
  "numpy_limits \<Rightarrow> (string, bounds) dict \<Rightarrow> (string, bounds) dict \<Rightarrow> motor_map \<Rightarrow> (string, json) dict result" where
  "derived_motor_limits np hard soft m =
     rbind (rfold (direct_limits np hard soft) [] (mm_direct m)) (\<lambda>d.
     rbind (rfold (pair_limits np hard soft) d (mm_differentials m)) (\<lambda>motors.
     rbind (physical_motor_names m) (\<lambda>names.
       if set (keys motors) \<noteq> set names
       then Inl (RuntimeError ''derived motor limits do not exactly cover the 31-motor map'')
       else Inr motors)))"

section \<open>The report\<close>

fun truthy :: "json \<Rightarrow> bool" where
  "truthy JNull = False"
| "truthy (JBool b) = b"
| "truthy (JInt n) = (n \<noteq> 0)"
| "truthy (JFloat x) = (\<not> feq x (Fin 0))"
| "truthy (JStr s) = (s \<noteq> [])"
| "truthy (JArr xs) = (xs \<noteq> [])"
| "truthy (JObj kvs) = (kvs \<noteq> [])"

definition or_text :: "json \<Rightarrow> string \<Rightarrow> string" where
  "or_text v d = (if truthy v then py_str v else d)"

definition json_names :: "json \<Rightarrow> string list result" where
  "json_names v = rbind (json_iter v) (rmap (\<lambda>x. case x of JStr s \<Rightarrow> Inr s
     | _ \<Rightarrow> Inl (TypeError ''joint names must be strings'')))"

definition LIMIT_MODE :: string where
  "LIMIT_MODE = ''offline_urdf_limit_derivation_no_hardware_io''"

definition pair_report :: "numpy_limits \<Rightarrow> drive_pair \<Rightarrow> json" where
  "pair_report np p = JObj [(''joint_order'', JArr (map JStr (dp_joint_names p))),
     (''motor_order'', JArr (map JStr (dp_motor_names p))),
     (''joint_to_drive_matrix'', JArr (map (\<lambda>row. JArr (map JFloat row)) (joint_to_drive_matrix (numpy.truncate np) p)))]"

definition joint_report :: "(string, bounds) dict \<Rightarrow> (string, bounds) dict \<Rightarrow> string \<Rightarrow> json result" where
  "joint_report hard soft n = rbind (lookup_result hard n) (\<lambda>h. rbind (lookup_result soft n) (\<lambda>s.
     Inr (JObj [(''hard_limit_rad_candidate'', json_bounds h), (''soft_limit_rad_candidate'', json_bounds s)])))"

definition limit_report ::
  "numpy_limits \<Rightarrow> string \<Rightarrow> string \<Rightarrow> pyfloat \<Rightarrow> string list \<Rightarrow> string list \<Rightarrow> (string, bounds) dict \<Rightarrow> (string, bounds) dict
     \<Rightarrow> motor_map \<Rightarrow> (string, json) dict \<Rightarrow> json result" where
  "limit_report np asset sha margin names overrides hard soft m motors =
     rbind (rmap (\<lambda>n. rbind (lookup_result soft n) (\<lambda>b. Inr (n, json_bounds b))) (sorted_set overrides)) (\<lambda>over.
     rbind (rmap (\<lambda>n. rbind (joint_report hard soft n) (\<lambda>j. Inr (n, j))) names) (\<lambda>joints.
     Inr (JObj [(''mode'', JStr LIMIT_MODE), (''asset_urdf'', JStr asset), (''asset_urdf_sha256'', JStr sha),
       (''soft_margin_rad_each_joint_boundary'', JFloat margin),
       (''joint_soft_limit_overrides'', JObj over), (''joint_limits'', JObj (dict_of joints)),
       (''motor_limits'', JObj motors),
       (''differential_pairs'', JObj (map (\<lambda>(n, p). (n, pair_report np p)) (mm_differentials m))),
       (''confirmed_physical_hard_limits'', JBool False),
       (''warnings'', JArr (map JStr
         [''URDF limits are design candidates until confirmed against physical hard stops.'',
          ''Differential motor min/max boxes do not replace joint-space limit checks.'',
          ''Runtime must reject joint-space violations before mapping to differential motors.'']))])))"

definition derive_limit_candidates ::
  "numerics \<Rightarrow> numpy_limits \<Rightarrow> json \<Rightarrow> json \<Rightarrow> string \<Rightarrow> string \<Rightarrow> urdf_joint list \<Rightarrow> pyfloat
     \<Rightarrow> (string, pyfloat list) dict \<Rightarrow> json result" where
  "derive_limit_candidates N np hardware data urdf_name actual_hash urdf margin overrides =
     (let expected_hash = or_text (jget data ''asset_urdf_sha256'') [] in
      if expected_hash = [] \<or> actual_hash \<noteq> expected_hash then Inl (ValueError ''URDF SHA256 mismatch'')
      else rbind (rbind (jindex data ''joint_names'') json_names) (\<lambda>names.
      rbind (urdf_joint_limits N urdf names) (\<lambda>hard.
      rbind (soft_limits margin hard) (\<lambda>soft0.
      rbind (overridden names hard overrides soft0) (\<lambda>soft.
      rbind (motor_map_from_hardware_config N (numpy.truncate np) hardware names False) (\<lambda>m.
      rbind (derived_motor_limits np hard soft m) (\<lambda>motors.
        limit_report np (or_text (jget data ''asset_urdf'') urdf_name) actual_hash margin names (keys overrides)
          hard soft m motors)))))))"

section \<open>Installation\<close>

definition float_list :: "numerics \<Rightarrow> json \<Rightarrow> string \<Rightarrow> pyfloat list result" where
  "float_list N v k = rbind (rbind (jindex v k) json_iter) (rmap (to_float (parse_float N)))"

text \<open>\<open>hard[0] < soft[0] < soft[1] < hard[1]\<close> looks at an entry only when the comparisons before it hold.\<close>

definition strictly_nested :: "pyfloat list \<Rightarrow> pyfloat list \<Rightarrow> bool result" where
  "strictly_nested hard soft =
     rbind (vec_at hard 0) (\<lambda>h0. rbind (vec_at soft 0) (\<lambda>s0. if \<not> flt h0 s0 then Inr False
     else rbind (vec_at soft 1) (\<lambda>s1. if \<not> flt s0 s1 then Inr False
     else rbind (vec_at hard 1) (\<lambda>h1. Inr (flt s1 h1)))))"

definition checked_limits :: "numerics \<Rightarrow> string \<Rightarrow> json \<Rightarrow> (pyfloat list \<times> pyfloat list) result" where
  "checked_limits N name candidate =
     rbind (float_list N candidate ''hard_limit_rad_candidate'') (\<lambda>hard.
     rbind (float_list N candidate ''soft_limit_rad_candidate'') (\<lambda>soft.
     if \<not> list_all isfinite (hard @ soft) then Inl (ValueError (''non-finite limit for '' @ name))
     else rbind (strictly_nested hard soft) (\<lambda>nested.
       if \<not> nested then Inl (ValueError (''limits are not strictly nested for '' @ name))
       else Inr (hard, soft))))"

definition limit_provenance :: "string \<Rightarrow> json \<Rightarrow> json" where
  "limit_provenance digest margin = JObj [(''source'', JStr ''contract_pinned_urdf_design_limits''),
     (''report_content_sha256'', JStr digest), (''soft_margin_rad_each_joint_boundary'', margin),
     (''physical_hard_stop_measured'', JBool False), (''runtime_role'', JStr ''conservative software guard'')]"

text \<open>The record keeps the two limits when the margin is missing from the report.\<close>

definition limited_record ::
  "numerics \<Rightarrow> string \<Rightarrow> json \<Rightarrow> json \<Rightarrow> string \<Rightarrow> json \<Rightarrow> json \<times> unit result" where
  "limited_record N digest report limits name rec =
     (case rbind (jindex limits name) (checked_limits N name) of Inl e \<Rightarrow> (rec, Inl e)
      | Inr (hard, soft) \<Rightarrow>
          if \<not> is_dict rec then (rec, Inl (TypeError ''object does not support item assignment''))
          else let d = dict_set (dict_set (jfields rec) ''hard_limit_rad'' (JArr (map JFloat hard)))
                 ''soft_limit_rad'' (JArr (map JFloat soft)) in
            (case jindex report ''soft_margin_rad_each_joint_boundary'' of Inl e \<Rightarrow> (JObj d, Inl e)
             | Inr margin \<Rightarrow> (JObj (dict_set d ''limit_provenance'' (limit_provenance digest margin)), Inr ())))"

fun limit_loop ::
  "numerics \<Rightarrow> string \<Rightarrow> json \<Rightarrow> json \<Rightarrow> (string, json) dict \<Rightarrow> (string, json) dict \<times> int result" where
  "limit_loop N digest report limits [] = ([], Inr 0)"
| "limit_loop N digest report limits ((name, rec) # rest) =
     (case limited_record N digest report limits name rec of
        (rec', Inl e) \<Rightarrow> ((name, rec') # rest, Inl e)
      | (rec', Inr _) \<Rightarrow> (case limit_loop N digest report limits rest of
          (rest', updated) \<Rightarrow> ((name, rec') # rest', rbind updated (\<lambda>n. Inr (n + 2)))))"

definition apply_limit_candidates :: "numerics \<Rightarrow> (json \<Rightarrow> string) \<Rightarrow> json \<Rightarrow> json \<Rightarrow> json \<times> int result" where
  "apply_limit_candidates N digest hardware report =
     (let limits = jget report ''motor_limits''; motors = jget hardware ''motor_map'' in
      if jget report ''mode'' \<noteq> JStr LIMIT_MODE then (hardware, Inl (ValueError ''unexpected limit report mode''))
      else if \<not> is_dict limits \<or> \<not> is_dict motors
      then (hardware, Inl (ValueError ''limit report and hardware motor_map must be objects''))
      else if set (keys (jfields limits)) \<noteq> set (keys (jfields motors))
      then (hardware, Inl (ValueError ''limit motor set mismatch''))
      else (case limit_loop N (digest report) report limits (jfields motors) of
        (records, updated) \<Rightarrow> (JObj (dict_set (jfields hardware) ''motor_map'' (JObj records)), updated)))"

end
