(* ===== verification/LimitSafety.thy ===== *)
theory LimitSafety
  imports LimitDerivation MappingSafety
begin

text \<open>
  What the derived motor limits promise: the range of a single motor contains the image of every joint
  position within the joint limits, rounding included; and what the installation leaves in the hardware
  document is finite and strictly nested.
\<close>

section \<open>Monotone drives\<close>

text \<open>\<open>numpy.min\<close> and \<open>numpy.max\<close> of a vector without NaN bound its entries.\<close>

definition extremes :: "numpy_limits \<Rightarrow> bool" where
  "extremes np \<longleftrightarrow> (\<forall>v x. NaN \<notin> set v \<longrightarrow> x \<in> set v \<longrightarrow> fle (np_amin np v) x \<and> fle x (np_amax np v))"

lemma fle_infinite: "fle x PInf \<longleftrightarrow> x \<noteq> NaN" "fle NInf x \<longleftrightarrow> x \<noteq> NaN"
  by (cases x; simp)+

lemma fadd_mono: "fle u v \<Longrightarrow> fle (fadd (Fin z) u) (fadd (Fin z) v)"
  by (cases u; cases v) (simp_all add: rnd_mono fle_infinite)

lemma fmul_mono:
  assumes "x \<le> y"
  shows "0 \<le> c \<Longrightarrow> fle (fmul (Fin c) (Fin x)) (fmul (Fin c) (Fin y))"
    and "c \<le> 0 \<Longrightarrow> fle (fmul (Fin c) (Fin y)) (fmul (Fin c) (Fin x))"
  using assms by (simp_all add: rnd_mono mult_left_mono mult_left_mono_neg)

text \<open>A direct motor whose zero and signed ratio are finite, as the constructor makes it.\<close>

definition plain_drive :: "direct_map \<Rightarrow> bool" where
  "plain_drive m \<longleftrightarrow> isfinite (dm_drive_zero_rad m) \<and> isfinite (signed_ratio m)"

lemma direct_position_between:
  assumes "plain_drive m" and "direct_to_drive_position m low = Inr a" and "direct_to_drive_position m high = Inr b"
    and "isfinite x" and "fle low x" and "fle x high"
  shows "\<exists>y. direct_to_drive_position m x = Inr y \<and> (fle a y \<and> fle y b \<or> fle b y \<and> fle y a)"
proof -
  from assms(1) obtain z c where m: "dm_drive_zero_rad m = Fin z" "signed_ratio m = Fin c"
    by (cases "dm_drive_zero_rad m"; cases "signed_ratio m") (auto simp: plain_drive_def)
  from assms(2,3) have "isfinite low" "isfinite high"
    by (auto simp: direct_to_drive_position_def finite_scalar_def split: if_splits)
  with assms(4-6) obtain l q h where x: "low = Fin l" "x = Fin q" "high = Fin h" "l \<le> q" "q \<le> h"
    by (cases low; cases x; cases high) auto
  show ?thesis
  proof (cases "0 \<le> c")
    case True
    from fadd_mono [OF fmul_mono(1) [OF x(4) True], of z] fadd_mono [OF fmul_mono(1) [OF x(5) True], of z] assms(2,3)
    show ?thesis by (simp add: direct_to_drive_position_def finite_scalar_def x(1-3) m)
  next
    case False
    then have c: "c \<le> 0" by simp
    from fadd_mono [OF fmul_mono(2) [OF x(4) c], of z] fadd_mono [OF fmul_mono(2) [OF x(5) c], of z] assms(2,3)
    show ?thesis by (simp add: direct_to_drive_position_def finite_scalar_def x(1-3) m)
  qed
qed

lemma direct_bounds_contain:
  assumes "plain_drive m" and "extremes np" and "direct_bounds np m (low, high) = Inr j"
  shows "\<exists>lo hi. j = json_bounds (lo, hi) \<and> (\<forall>x. isfinite x \<longrightarrow> fle low x \<longrightarrow> fle x high \<longrightarrow>
    (\<exists>y. direct_to_drive_position m x = Inr y \<and> fle lo y \<and> fle y hi))"
proof -
  from assms(3) obtain a b where ab: "direct_to_drive_position m low = Inr a" "direct_to_drive_position m high = Inr b"
    and j: "j = json_bounds (np_amin np [a, b], np_amax np [a, b])"
    by (auto simp: direct_bounds_def rbind_eq_Inr limit_pair_def json_bounds_def)
  have "\<exists>y. direct_to_drive_position m x = Inr y \<and> fle (np_amin np [a, b]) y \<and> fle y (np_amax np [a, b])"
    if "isfinite x" "fle low x" "fle x high" for x
  proof -
    from direct_position_between [OF assms(1) ab that] obtain y where
      y: "direct_to_drive_position m x = Inr y" "fle a y \<and> fle y b \<or> fle b y \<and> fle y a" by blast
    then have n: "NaN \<notin> set [a, b]" using fle_NaN by auto
    have "fle (np_amin np [a, b]) a" "fle (np_amin np [a, b]) b" "fle a (np_amax np [a, b])" "fle b (np_amax np [a, b])"
      using assms(2) n unfolding extremes_def by (metis list.set_intros)+
    with y show ?thesis using fle_trans by metis
  qed
  with j show ?thesis by auto
qed

lemma is_double_fmul: "is_double (fmul a b)"
  by (cases a; cases b) (auto simp: inf_of_sign_def is_double_def [of PInf] is_double_def [of NInf] is_double_def [of NaN])

lemma new_direct_map_plain:
  assumes "new_direct_map N motor joint zero encoder policy ratio = Inr m" and "is_double ratio"
  shows "plain_drive m"
  using signed_ratio_nonzero [OF assms] assms(1)
  by (auto simp: plain_drive_def new_direct_map_def rbind_eq_Inr finite_scalar_def split: if_splits)

lemma direct_of_record_plain:
  assumes "direct_of_record N d k = Inr d'" and "\<forall>(j, m) \<in> set d. plain_drive m"
  shows "\<forall>(j, m) \<in> set d'. plain_drive m"
proof -
  obtain motor rec where k: "k = (motor, rec)" by fastforce
  show ?thesis
  proof (cases "jget rec ''policy_joint''")
    case (JStr name)
    with assms(1) k obtain zero encoder policy ratio mapping where
      "new_direct_map N motor name zero encoder policy ratio = Inr mapping" "is_double ratio" "d' = dict_set d name mapping"
      by (auto simp: direct_of_record_def json_get_def rbind_eq_Inr is_double_fmul split: if_splits)
    with new_direct_map_plain [OF this(1,2)] assms(2) show ?thesis
      by (auto dest!: subsetD [OF dict_set_subset])
  qed (use assms k in \<open>auto simp: direct_of_record_def json_get_def rbind_eq_Inr split: if_splits\<close>)
qed

lemma map_is_plain:
  assumes "motor_map_from_hardware_config N np hardware policy armable = Inr m"
  shows "\<forall>(j, d) \<in> set (mm_direct m). plain_drive d"
proof -
  from assms obtain items direct pairs where direct: "rfold (direct_of_record N) [] items = Inr direct"
    and "new_motor_map policy direct pairs = Inr m"
    unfolding motor_map_from_hardware_config_def rbind_eq_Inr by (auto split: if_splits)
  then have m: "mm_direct m = direct" by (auto simp: new_motor_map_def split: if_splits)
  show ?thesis unfolding m
    by (rule rfold_pres [OF direct, where P = "\<lambda>d. \<forall>(j, m) \<in> set d. plain_drive m"])
      (simp, rule direct_of_record_plain)
qed

section \<open>The loops over the motors\<close>

interpretation derive_direct: filler
  "direct_limits np hard soft" "\<lambda>(joint, m). [dm_motor_name m]"
  "\<lambda>(joint, m) cs. \<exists>c. direct_candidate np hard soft joint m = Inr c \<and> cs = [c]" for np hard soft
  by unfold_locales
    (auto simp: direct_limits_def rbind_eq_Inr split_beta set_keys_dict_set intro: distinct_keys_dict_set
      simp del: distinct_map set_map)

interpretation derive_pair: filler
  "pair_limits np hard soft" "\<lambda>(name, p). dp_motor_names p"
  "\<lambda>(name, p) cs. \<exists>h s. corner_positions np hard p = Inr h \<and> corner_positions np soft p = Inr s \<and>
     rmap (pair_candidate np name p h s) [0..<length (dp_motor_names p)] = Inr cs" for np hard soft
  by unfold_locales
    (auto simp: pair_limits_def rbind_eq_Inr split_beta update_strict_spec(1,3) dest: update_strict_spec(2,4)
      simp del: distinct_map set_map)

text \<open>With a document that names 31 different motors, no motor is named twice by the map.\<close>

lemma corner_joints: "corner_positions np limits p = Inr vs \<Longrightarrow> set (dp_joint_names p) \<subseteq> fst ` set limits"
proof
  fix j assume "corner_positions np limits p = Inr vs" "j \<in> set (dp_joint_names p)"
  then obtain bs where "map (map_of limits) (dp_joint_names p) = map Some bs"
    by (auto simp: corner_positions_def rbind_eq_Inr lookups_found)
  with \<open>j \<in> set (dp_joint_names p)\<close> have "map_of limits j \<in> Some ` set bs" by (metis imageI list.set_map)
  then show "j \<in> fst ` set limits" by (auto dest: map_of_SomeD intro: fst_imageI)
qed

lemma motors_distinct:
  assumes build: "motor_map_from_hardware_config N np0 hardware names False = Inr m"
    and keys: "distinct (keys (jfields (jget hardware ''motor_map'')))"
    and pairs: "rfold (pair_limits np hard soft) d (mm_differentials m) = Inr motors" and "fst ` set hard \<subseteq> set names"
  shows "distinct (motors_of m)"
proof -
  note sound = map_is_sound [OF build]
  from build have n: "json_len (jget hardware ''motor_map'') = Inr 31"
    by (auto simp: motor_map_from_hardware_config_def motor_map_checks_def rbind_eq_Inr split: if_splits)
  from sound(3) obtain records ms where r: "jindex hardware ''motor_map'' = Inr records"
    "physical_motor_names m = Inr ms" "set ms = set (keys (jfields records))" by blast
  then have records: "jget hardware ''motor_map'' = records"
    by (auto simp: jindex_def jget_def split: if_splits option.splits)
  have joints: "set DIFFERENTIAL_JOINTS \<subseteq> set (mm_policy_joint_names m)"
  proof
    fix j assume "j \<in> set DIFFERENTIAL_JOINTS"
    then obtain name js where "(name, js) \<in> set DIFFERENTIAL_PAIRS" and j: "j \<in> set js"
      by (auto simp: DIFFERENTIAL_JOINTS_def)
    then obtain p where p: "(name, p) \<in> set (mm_differentials m)" "dp_joint_names p = js"
      using differential_member [OF sound(1)] by blast
    with rfold_step [OF pairs p(1)] obtain h where "corner_positions np hard p = Inr h"
      by (auto simp: pair_limits_def rbind_eq_Inr)
    from corner_joints [OF this] p(2) j assms(4) sound(2) show "j \<in> set (mm_policy_joint_names m)" by auto
  qed
  from build r(1) have "is_dict records"
    by (auto simp: motor_map_from_hardware_config_def rbind_eq_Inr json_items_def split: if_splits)
  then have "length (keys (jfields records)) = 31"
    using n unfolding records by (cases records) auto
  moreover have "length (motors_of m) = 31" by (rule motors_of_length [OF sound(1) joints])
  moreover have "set (motors_of m) = set (keys (jfields records))" using physical_names [OF sound(1) r(2)] r(3) by simp
  ultimately show ?thesis using keys unfolding records by (intro same_length_distinct [of "motors_of m"]) (assumption+, linarith)
qed

section \<open>The derived report\<close>

lemma urdf_keys: "urdf_joint_limits N urdf names = Inr hard \<Longrightarrow> fst ` set hard \<subseteq> set names"
proof -
  assume "urdf_joint_limits N urdf names = Inr hard"
  then have "rfold (urdf_step N names) [] urdf = Inr hard"
    by (auto simp: urdf_joint_limits_def rbind_eq_Inr Let_def split: if_splits)
  then show ?thesis
    by (rule rfold_pres [where P = "\<lambda>d. fst ` set d \<subseteq> set names"])
      (auto simp: urdf_step_def rbind_eq_Inr split: option.splits if_splits dest!: subsetD [OF dict_set_subset])
qed

lemma direct_motor_candidate:
  assumes "derived_motor_limits np hard soft m = Inr motors" and "distinct (motors_of m)" and "(joint, d) \<in> set (mm_direct m)"
  shows "\<exists>c. direct_candidate np hard soft joint d = Inr c \<and> map_of motors (dm_motor_name d) = Some c"
proof -
  from assms(1) obtain r where first: "rfold (direct_limits np hard soft) [] (mm_direct m) = Inr r"
    and second: "rfold (pair_limits np hard soft) r (mm_differentials m) = Inr motors"
    by (auto simp: derived_motor_limits_def rbind_eq_Inr split: if_splits)
  have names: "map (\<lambda>(joint, m). [dm_motor_name m]) (mm_direct m) = map (\<lambda>x. [(dm_motor_name \<circ> snd) x]) (mm_direct m)"
    "map (\<lambda>(name, p). dp_motor_names p) (mm_differentials m) = map (dp_motor_names \<circ> snd) (mm_differentials m)"
    by auto
  have once: "distinct (concat (map (\<lambda>(joint, m). [dm_motor_name m]) (mm_direct m)))"
    using assms(2) unfolding names by (simp add: comp_def)
  from assms(3) have "dm_motor_name d \<in> set (map (dm_motor_name \<circ> snd) (mm_direct m))" by force
  with assms(2) have "dm_motor_name d \<notin> set (concat (map (\<lambda>(name, p). dp_motor_names p) (mm_differentials m)))"
    unfolding names distinct_append by blast
  from derive_pair.fold_other [OF second this] derive_direct.fold_meant [OF first once assms(3)] show ?thesis by auto
qed

lemma report_lookup:
  assumes "rmap (\<lambda>n. rbind (f n) (\<lambda>v. Inr (n, v))) names = Inr kvs" and "distinct names" and "n \<in> set names"
  shows "\<exists>v. f n = Inr v \<and> map_of kvs n = Some v"
  using assms by (induction names arbitrary: kvs) (auto simp: rbind_eq_Inr)

lemma report_keys: "rmap (\<lambda>n. rbind (f n) (\<lambda>v. Inr (n, v))) names = Inr kvs \<Longrightarrow> map fst kvs = names"
  by (induction names arbitrary: kvs) (auto simp: rbind_eq_Inr)

lemma derived_report:
  assumes "derive_limit_candidates N np hardware data urdf_name sha urdf margin overrides = Inr report"
    and "rbind (jindex data ''joint_names'') json_names = Inr names"
    and "motor_map_from_hardware_config N (numpy.truncate np) hardware names False = Inr m"
    and "distinct (keys (jfields (jget hardware ''motor_map'')))" and "(joint, d) \<in> set (mm_direct m)"
  obtains h s c where "direct_candidate np [(joint, h)] [(joint, s)] joint d = Inr c"
    and "jget (jget report ''joint_limits'') joint =
      JObj [(''hard_limit_rad_candidate'', json_bounds h), (''soft_limit_rad_candidate'', json_bounds s)]"
    and "jget (jget report ''motor_limits'') (dm_motor_name d) = c"
proof -
  from assms(1,2,3) obtain hard soft motors asset where hard: "urdf_joint_limits N urdf names = Inr hard"
    and motors: "derived_motor_limits np hard soft m = Inr motors"
    and report: "limit_report np asset sha margin names (keys overrides) hard soft m motors = Inr report"
    by (auto simp: derive_limit_candidates_def rbind_eq_Inr Let_def split: if_splits)
  from report obtain joints where joints: "rmap (\<lambda>n. rbind (joint_report hard soft n) (\<lambda>v. Inr (n, v))) names = Inr joints"
    and r: "jget report ''joint_limits'' = JObj (dict_of joints)" "jget report ''motor_limits'' = JObj motors"
    by (auto simp: limit_report_def rbind_eq_Inr jget_def)
  note sound = map_is_sound [OF assms(3)]
  from motors obtain d0 where "rfold (pair_limits np hard soft) d0 (mm_differentials m) = Inr motors"
    by (auto simp: derived_motor_limits_def rbind_eq_Inr split: if_splits)
  from direct_motor_candidate [OF motors motors_distinct [OF assms(3,4) this urdf_keys [OF hard]] assms(5)]
  obtain c where c: "direct_candidate np hard soft joint d = Inr c" "map_of motors (dm_motor_name d) = Some c" by blast
  from sound(1,2) assms(5) have n: "joint \<in> set names" "distinct names"
    by (auto simp: sound_map_def dest: fst_imageI)
  from report_lookup [OF joints n(2,1)] obtain h s where hs: "lookup_result hard joint = Inr h" "lookup_result soft joint = Inr s"
    "map_of joints joint = Some (JObj [(''hard_limit_rad_candidate'', json_bounds h), (''soft_limit_rad_candidate'', json_bounds s)])"
    by (auto simp: joint_report_def rbind_eq_Inr)
  moreover have "dict_of joints = joints" using report_keys [OF joints] n(2) by simp
  moreover from c(1) hs(1,2) have "direct_candidate np [(joint, h)] [(joint, s)] joint d = Inr c"
    by (simp add: direct_candidate_def lookup_result_def)
  ultimately show thesis using c(2) r that [of h s c] by (simp add: jget_def)
qed

definition contains_images :: "direct_map \<Rightarrow> json \<Rightarrow> json \<Rightarrow> bool" where
  "contains_images d joint_range motor_range \<longleftrightarrow> (\<exists>low high lo hi. joint_range = json_bounds (low, high) \<and>
     motor_range = json_bounds (lo, hi) \<and> (\<forall>x. isfinite x \<longrightarrow> fle low x \<longrightarrow> fle x high \<longrightarrow>
       (\<exists>y. direct_to_drive_position d x = Inr y \<and> fle lo y \<and> fle y hi)))"

lemma candidate_contains:
  assumes "direct_candidate np [(joint, h)] [(joint, s)] joint d = Inr c" and "plain_drive d" and "extremes np"
  shows "contains_images d (json_bounds h) (jget c ''hard_limit_rad_candidate'')"
    and "contains_images d (json_bounds s) (jget c ''soft_limit_rad_candidate'')"
proof -
  from assms(1) obtain hj sj where "direct_bounds np d (fst h, snd h) = Inr hj" "direct_bounds np d (fst s, snd s) = Inr sj"
    and c: "jget c ''hard_limit_rad_candidate'' = hj" "jget c ''soft_limit_rad_candidate'' = sj"
    by (auto simp: direct_candidate_def rbind_eq_Inr lookup_result_def jget_def)
  note hc = direct_bounds_contain [OF assms(2,3) this(1)] and sc = direct_bounds_contain [OF assms(2,3) this(2)]
  from hc show "contains_images d (json_bounds h) (jget c ''hard_limit_rad_candidate'')"
    unfolding contains_images_def c by (metis prod.collapse)
  from sc show "contains_images d (json_bounds s) (jget c ''soft_limit_rad_candidate'')"
    unfolding contains_images_def c by (metis prod.collapse)
qed

text \<open>
  C36. The derived range of a single motor is wide enough: whatever the calibration of the motor, every
  joint position within the joint limits of the report is translated to a motor position within the
  motor limits of the report, in rounded arithmetic, for the hard and for the soft limits.
\<close>

theorem derived_limits_contain_images:
  assumes "derive_limit_candidates N np hardware data urdf_name sha urdf margin overrides = Inr report"
    and "rbind (jindex data ''joint_names'') json_names = Inr names"
    and "motor_map_from_hardware_config N (numpy.truncate np) hardware names False = Inr m"
    and "distinct (keys (jfields (jget hardware ''motor_map'')))" and "extremes np" and "(joint, d) \<in> set (mm_direct m)"
    and "field = ''hard_limit_rad_candidate'' \<or> field = ''soft_limit_rad_candidate''"
  shows "contains_images d (jget (jget (jget report ''joint_limits'') joint) field)
    (jget (jget (jget report ''motor_limits'') (dm_motor_name d)) field)"
proof -
  from map_is_plain [OF assms(3)] assms(6) have plain: "plain_drive d" by auto
  obtain h s c where c: "direct_candidate np [(joint, h)] [(joint, s)] joint d = Inr c"
    "jget (jget report ''joint_limits'') joint =
      JObj [(''hard_limit_rad_candidate'', json_bounds h), (''soft_limit_rad_candidate'', json_bounds s)]"
    "jget (jget report ''motor_limits'') (dm_motor_name d) = c" using derived_report [OF assms(1-4,6)] by blast
  from candidate_contains [OF c(1) plain assms(5)] assms(7) show ?thesis
    by (auto simp: c(2,3)) (auto simp: jget_def)
qed

section \<open>The installed limits\<close>

text \<open>
  What a record is after the installation: its limits are finite and strictly nested, they and the provenance
  are those of the report's entry for this motor, and no other field changed.
\<close>

definition nested_limits :: "json \<Rightarrow> bool" where
  "nested_limits rec \<longleftrightarrow> (\<exists>hard soft. jget rec ''hard_limit_rad'' = JArr (map JFloat hard) \<and>
     jget rec ''soft_limit_rad'' = JArr (map JFloat soft) \<and> 2 \<le> length hard \<and> 2 \<le> length soft \<and>
     list_all isfinite (hard @ soft) \<and> flt (hard ! 0) (soft ! 0) \<and> flt (soft ! 0) (soft ! 1) \<and> flt (soft ! 1) (hard ! 1))"

definition installed_from :: "numerics \<Rightarrow> string \<Rightarrow> json \<Rightarrow> string \<Rightarrow> json \<Rightarrow> bool" where
  "installed_from N digest report name rec \<longleftrightarrow> (\<exists>candidate hard soft margin.
     jindex (jget report ''motor_limits'') name = Inr candidate \<and>
     float_list N candidate ''hard_limit_rad_candidate'' = Inr hard \<and>
     float_list N candidate ''soft_limit_rad_candidate'' = Inr soft \<and>
     jindex report ''soft_margin_rad_each_joint_boundary'' = Inr margin \<and>
     jget rec ''hard_limit_rad'' = JArr (map JFloat hard) \<and> jget rec ''soft_limit_rad'' = JArr (map JFloat soft) \<and>
     jget rec ''limit_provenance'' = limit_provenance digest margin)"

definition only_limits_changed :: "json \<Rightarrow> json \<Rightarrow> bool" where
  "only_limits_changed rec rec' \<longleftrightarrow>
     (\<forall>k. k \<notin> {''hard_limit_rad'', ''soft_limit_rad'', ''limit_provenance''} \<longrightarrow> jget rec' k = jget rec k)"

lemma checked_limits_nested:
  assumes "checked_limits N name c = Inr (hard, soft)"
  shows "2 \<le> length hard \<and> 2 \<le> length soft \<and> list_all isfinite (hard @ soft) \<and> flt (hard ! 0) (soft ! 0) \<and>
    flt (soft ! 0) (soft ! 1) \<and> flt (soft ! 1) (hard ! 1)"
  using assms by (auto simp: checked_limits_def rbind_eq_Inr strictly_nested_def vec_at_def split: if_splits)

lemma checked_limits_read:
  "checked_limits N name c = Inr (hard, soft) \<Longrightarrow> float_list N c ''hard_limit_rad_candidate'' = Inr hard \<and>
     float_list N c ''soft_limit_rad_candidate'' = Inr soft"
  by (auto simp: checked_limits_def rbind_eq_Inr split: if_splits)

lemma limited_record_nested:
  assumes "limited_record N digest report (jget report ''motor_limits'') name rec = (rec', Inr ())"
  shows "nested_limits rec' \<and> installed_from N digest report name rec' \<and> only_limits_changed rec rec'"
proof -
  from assms obtain hard soft margin where
    c: "rbind (jindex (jget report ''motor_limits'') name) (checked_limits N name) = Inr (hard, soft)"
    and margin: "jindex report ''soft_margin_rad_each_joint_boundary'' = Inr margin"
    and rec': "rec' = JObj (dict_set (dict_set (dict_set (jfields rec) ''hard_limit_rad'' (JArr (map JFloat hard)))
      ''soft_limit_rad'' (JArr (map JFloat soft))) ''limit_provenance'' (limit_provenance digest margin))"
    by (auto simp: limited_record_def Let_def split: sum.splits if_splits)
  from c obtain v where v: "jindex (jget report ''motor_limits'') name = Inr v" "checked_limits N name v = Inr (hard, soft)"
    by (auto simp: rbind_eq_Inr)
  have fields: "jget rec' ''hard_limit_rad'' = JArr (map JFloat hard)" "jget rec' ''soft_limit_rad'' = JArr (map JFloat soft)"
    "jget rec' ''limit_provenance'' = limit_provenance digest margin" "only_limits_changed rec rec'"
    by (auto simp: rec' jget_def only_limits_changed_def)
  from checked_limits_nested [OF v(2)] checked_limits_read [OF v(2)] v(1) margin fields show ?thesis
    unfolding nested_limits_def installed_from_def by blast
qed

lemma limit_loop_nested:
  "limit_loop N digest report (jget report ''motor_limits'') records = (records', Inr n) \<Longrightarrow> n = 2 * int (length records) \<and>
    list_all2 (\<lambda>(name, rec) (name', rec'). name' = name \<and> nested_limits rec' \<and>
      installed_from N digest report name rec' \<and> only_limits_changed rec rec') records records'"
proof (induction records arbitrary: records' n)
  case (Cons r records)
  obtain name rec where r: "r = (name, rec)" by fastforce
  obtain rec' out where rec': "limited_record N digest report (jget report ''motor_limits'') name rec = (rec', out)" by fastforce
  obtain rs u where rs: "limit_loop N digest report (jget report ''motor_limits'') records = (rs, u)" by fastforce
  from Cons.prems r rec' rs obtain k where ok: "out = Inr ()" "u = Inr k" "records' = (name, rec') # rs" "n = k + 2"
    by (auto simp: rbind_eq_Inr split: sum.splits)
  with Cons.IH [of rs k] rs limited_record_nested [of N digest report name rec rec'] rec' r show ?case by simp
qed simp

text \<open>
  C37. Installing a limit report is safe: when it returns, it has written two limits and their provenance into
  the record of every motor of the document. The limits are the ones the report gives for that very motor, they
  are finite and the soft range is strictly inside the hard range; the provenance carries the digest of the
  report and its margin. No other field of a motor record and no other field of the document has changed.
\<close>

theorem installed_limits_are_nested:
  assumes "apply_limit_candidates N digest hardware report = (hardware', Inr n)"
  shows "n = 2 * int (length (jfields (jget hardware ''motor_map''))) \<and>
    list_all2 (\<lambda>(name, rec) (name', rec'). name' = name \<and> nested_limits rec' \<and>
      installed_from N (digest report) report name rec' \<and> only_limits_changed rec rec')
      (jfields (jget hardware ''motor_map'')) (jfields (jget hardware' ''motor_map'')) \<and>
    set (keys (jfields (jget hardware ''motor_map''))) = set (keys (jfields (jget report ''motor_limits''))) \<and>
    (\<forall>k. k \<noteq> ''motor_map'' \<longrightarrow> jget hardware' k = jget hardware k)"
proof -
  from assms obtain records where l: "limit_loop N (digest report) report (jget report ''motor_limits'')
      (jfields (jget hardware ''motor_map'')) = (records, Inr n)"
    and h: "hardware' = JObj (dict_set (jfields hardware) ''motor_map'' (JObj records))"
    and k: "set (keys (jfields (jget report ''motor_limits''))) = set (keys (jfields (jget hardware ''motor_map'')))"
    by (auto simp: apply_limit_candidates_def Let_def split: if_splits prod.splits)
  have "jfields (jget hardware' ''motor_map'') = records" "k \<noteq> ''motor_map'' \<Longrightarrow> jget hardware' k = jget hardware k" for k
    by (simp_all add: h jget_def)
  with limit_loop_nested [OF l] k show ?thesis by simp
qed

end
