(* ===== verification/LimitSample.thy ===== *)
theory LimitSample
  imports LimitSafety MappingSample
begin

text \<open>
  The limits of the complete sample inventory from a URDF in which every joint moves between -1 and 1,
  and the installation of a report in a document of one motor.
\<close>

definition sample_limit_numpy :: numpy_limits where
  "sample_limit_numpy = numpy.extend entrywise_numpy
     \<lparr>np_amin = foldl (\<lambda>a x. if fle x a then x else a) PInf, np_amax = foldl (\<lambda>a x. if fle a x then x else a) NInf\<rparr>"

lemma sample_limit_truncate: "numpy.truncate sample_limit_numpy = entrywise_numpy"
  by (simp add: sample_limit_numpy_def numpy.defs entrywise_numpy_def)

lemma sample_extreme:
  "np_amin sample_limit_numpy = foldl (\<lambda>a x. if fle x a then x else a) PInf"
  "np_amax sample_limit_numpy = foldl (\<lambda>a x. if fle a x then x else a) NInf"
  by (simp_all add: sample_limit_numpy_def numpy.defs)

lemma low_fold:
  assumes "NaN \<notin> set v" and "a \<noteq> NaN"
  shows "fle (foldl (\<lambda>a x. if fle x a then x else a) a v) a \<and> (x \<in> set v \<longrightarrow> fle (foldl (\<lambda>a x. if fle x a then x else a) a v) x)"
  using assms
proof (induction v arbitrary: a)
  case Nil
  then show ?case by (cases a) auto
next
  case (Cons y v)
  let ?b = "if fle y a then y else a"
  have b: "?b \<noteq> NaN" "fle ?b a" "fle ?b y" using Cons.prems by (cases y; cases a; auto)+
  from Cons.IH [of ?b] Cons.prems b(1) have i: "fle (foldl (\<lambda>a x. if fle x a then x else a) ?b v) ?b"
    "x \<in> set v \<longrightarrow> fle (foldl (\<lambda>a x. if fle x a then x else a) ?b v) x" by auto
  from fle_trans [OF i(1) b(2)] fle_trans [OF i(1) b(3)] i(2) show ?case by auto
qed

lemma high_fold:
  assumes "NaN \<notin> set v" and "a \<noteq> NaN"
  shows "fle a (foldl (\<lambda>a x. if fle a x then x else a) a v) \<and> (x \<in> set v \<longrightarrow> fle x (foldl (\<lambda>a x. if fle a x then x else a) a v))"
  using assms
proof (induction v arbitrary: a)
  case Nil
  then show ?case by (cases a) auto
next
  case (Cons y v)
  let ?b = "if fle a y then y else a"
  have b: "?b \<noteq> NaN" "fle a ?b" "fle y ?b" using Cons.prems by (cases y; cases a; auto)+
  from Cons.IH [of ?b] Cons.prems b(1) have i: "fle ?b (foldl (\<lambda>a x. if fle a x then x else a) ?b v)"
    "x \<in> set v \<longrightarrow> fle x (foldl (\<lambda>a x. if fle a x then x else a) ?b v)" by auto
  from fle_trans [OF b(2) i(1)] fle_trans [OF b(3) i(1)] i(2) show ?case by auto
qed

lemma sample_extremes: "extremes sample_limit_numpy"
  using low_fold [of _ PInf] high_fold [of _ NInf] by (simp add: extremes_def sample_extreme)

section \<open>The derivation on the sample inventory\<close>

definition sample_limit_contract :: json where
  "sample_limit_contract = JObj [(''asset_urdf_sha256'', JStr ''5ab1e''), (''joint_names'', JArr (map JStr sample_policy))]"

definition sample_urdf :: "urdf_joint list" where
  "sample_urdf = map (\<lambda>n. \<lparr>uj_name = Some n, uj_limit = Some (Some ''-1'', Some ''1'')\<rparr>) sample_policy"

abbreviation hard_range :: bounds where
  "hard_range \<equiv> (Fin (- 1), Fin 1)"

abbreviation soft_range :: bounds where
  "soft_range \<equiv> (Fin (- (7 / 8)), Fin (7 / 8))"

abbreviation everywhere :: "bounds \<Rightarrow> (string, bounds) dict" where
  "everywhere b \<equiv> map (\<lambda>n. (n, b)) sample_policy"

lemma sample_names: "rbind (jindex sample_limit_contract ''joint_names'') json_names = Inr sample_policy"
proof -
  have "rmap (\<lambda>x. case x of JStr s \<Rightarrow> Inr s | _ \<Rightarrow> Inl (TypeError ''joint names must be strings'')) (map JStr xs) = Inr xs" for xs
    by (induction xs) auto
  then show ?thesis by (simp add: sample_limit_contract_def jindex_def json_names_def)
qed

lemma sample_distinct: "distinct sample_policy"
  by (rule sample_policy_size(2))

lemma sample_hard: "urdf_joint_limits mapping_numerics sample_urdf sample_policy = Inr (everywhere hard_range)"
proof -
  have step: "urdf_step mapping_numerics sample_policy d (\<lparr>uj_name = Some n, uj_limit = Some (Some ''-1'', Some ''1'')\<rparr>) =
      Inr (dict_set d n hard_range)" if "n \<in> set sample_policy" for d n
    using that by (simp add: urdf_step_def urdf_bounds_def text_float_def mapping_numerics_def)
  have "rfold (urdf_step mapping_numerics sample_policy) [] (map (\<lambda>n. \<lparr>uj_name = Some n, uj_limit = Some (Some ''-1'', Some ''1'')\<rparr>) ns) =
      Inr (dict_of (map (\<lambda>n. (n, hard_range)) ns))" if "set ns \<subseteq> set sample_policy" for ns
  proof -
    have "rfold (urdf_step mapping_numerics sample_policy) d (map (\<lambda>n. \<lparr>uj_name = Some n, uj_limit = Some (Some ''-1'', Some ''1'')\<rparr>) ns) =
        Inr (foldl (\<lambda>d (k, v). dict_set d k v) d (map (\<lambda>n. (n, hard_range)) ns))" for d
      using that by (induction ns arbitrary: d) (auto simp: step)
    then show ?thesis by (simp add: dict_of_def)
  qed
  then show ?thesis
    using sample_distinct by (simp add: urdf_joint_limits_def sample_urdf_def comp_def image_image)
qed

lemma sample_soft: "soft_limits (Fin (1 / 8)) (everywhere hard_range) = Inr (everywhere soft_range)"
proof -
  have "inset (Fin (1 / 8)) hard_range = Inr soft_range" by (simp add: inset_def float_eval)
  then have "rmap (\<lambda>(name, b). rbind (inset (Fin (1 / 8)) b) (\<lambda>s. Inr (name, s))) (map (\<lambda>n. (n, hard_range)) ns) =
      Inr (map (\<lambda>n. (n, soft_range)) ns)" for ns
    by (induction ns) auto
  then show ?thesis by (simp add: soft_limits_def)
qed

lemma everywhere_lookup: "n \<in> set sample_policy \<Longrightarrow> lookup_result (everywhere b) n = Inr b"
  by (simp add: lookup_result_def map_of_map_restrict)

definition sample_candidate :: "string \<Rightarrow> json" where
  "sample_candidate r = JObj [(''topology'', JStr ''direct''), (''policy_joints'', JArr [JStr r]),
     (''hard_limit_rad_candidate'', json_bounds hard_range), (''soft_limit_rad_candidate'', json_bounds soft_range)]"

lemma sample_direct_candidates: "rfold (direct_limits sample_limit_numpy (everywhere hard_range) (everywhere soft_range)) []
    (map (\<lambda>r. (r, unit_map r)) direct_roles) = Inr (map (\<lambda>r. (r, sample_candidate r)) direct_roles)"
proof -
  have bounds: "direct_bounds sample_limit_numpy (unit_map r) hard_range = Inr (json_bounds hard_range)"
    "direct_bounds sample_limit_numpy (unit_map r) soft_range = Inr (json_bounds soft_range)" for r
    by (simp_all add: direct_bounds_def direct_to_drive_position_def finite_scalar_def signed_ratio_def unit_map_def
        limit_pair_def json_bounds_def sample_extreme float_eval)
  have "direct_candidate sample_limit_numpy (everywhere hard_range) (everywhere soft_range) r (unit_map r) = Inr (sample_candidate r)"
    if "r \<in> set direct_roles" for r
    using that roles_policy(1) bounds [of r] by (simp add: direct_candidate_def everywhere_lookup sample_candidate_def subset_iff)
  then have "rfold (direct_limits sample_limit_numpy (everywhere hard_range) (everywhere soft_range)) []
      (map (\<lambda>r. (r, unit_map r)) direct_roles) = Inr (foldl (\<lambda>d (k, v). dict_set d k v) []
      (map (\<lambda>k. (fst k, sample_candidate (fst k))) (filter (\<lambda>_. True) (map (\<lambda>r. (r, unit_map r)) direct_roles))))"
    by (intro rfold_plain) (auto simp: direct_limits_def unit_map_def [THEN arg_cong [where f = dm_motor_name]])
  also have "\<dots> = Inr (map (\<lambda>r. (r, sample_candidate r)) direct_roles)"
    using roles_policy(3) by (subst dict_fold_new) (simp_all add: comp_def)
  finally show ?thesis .
qed

lemma sample_corners:
  assumes "set joints \<subseteq> set sample_policy" and "joints = [j, k]"
  shows "corner_positions sample_limit_numpy (everywhere hard_range) (unit_pair n joints ms) =
      Inr [[Fin (- 2), Fin 0], [Fin 0, Fin (- 2)], [Fin 0, Fin 2], [Fin 2, Fin 0]]"
    and "corner_positions sample_limit_numpy (everywhere soft_range) (unit_pair n joints ms) =
      Inr [[Fin (- (7 / 4)), Fin 0], [Fin 0, Fin (- (7 / 4))], [Fin 0, Fin (7 / 4)], [Fin (7 / 4), Fin 0]]"
  using assms by (simp_all add: corner_positions_def unit_pair_def everywhere_lookup corners_def sample_limit_truncate
      pair_to_drive_position_def joint_to_motor_position_def vector2_def entrywise_numpy_def finite_or_nan_def dot_def float_eval)

definition sample_pair_candidate :: "string \<Rightarrow> string list \<Rightarrow> json" where
  "sample_pair_candidate name joints = JObj [(''topology'', JStr ''differential''), (''differential_pair'', JStr name),
     (''policy_joints'', JArr (map JStr joints)), (''hard_limit_rad_candidate'', json_bounds (Fin (- 2), Fin 2)),
     (''soft_limit_rad_candidate'', json_bounds (Fin (- (7 / 4)), Fin (7 / 4)))]"

lemma sample_pair_step:
  assumes "set joints \<subseteq> set sample_policy" and "joints = [j, k]"
  shows "pair_limits sample_limit_numpy (everywhere hard_range) (everywhere soft_range) d (n, unit_pair n joints [a, b]) =
    Inr (dict_set (dict_set d a (sample_pair_candidate n joints)) b (sample_pair_candidate n joints))"
proof -
  have names: "dp_motor_names (unit_pair n joints [a, b]) = [a, b]" "dp_joint_names (unit_pair n joints [a, b]) = joints"
    by (simp_all add: unit_pair_def)
  show ?thesis
    by (simp add: pair_limits_def sample_corners [OF assms] names pair_candidate_def column_bounds_def vec_at_def
        update_strict_def sample_pair_candidate_def limit_pair_def json_bounds_def sample_extreme)
qed

definition sample_motor_table :: "(string, json) dict" where
  "sample_motor_table = map (\<lambda>r. (r, sample_candidate r)) direct_roles @
     [(''left_ankle_motor_a'', sample_pair_candidate ''left_ankle'' LEFT_ANKLE),
      (''left_ankle_motor_b'', sample_pair_candidate ''left_ankle'' LEFT_ANKLE),
      (''right_ankle_motor_a'', sample_pair_candidate ''right_ankle'' RIGHT_ANKLE),
      (''right_ankle_motor_b'', sample_pair_candidate ''right_ankle'' RIGHT_ANKLE),
      (''head_motor_a'', sample_pair_candidate ''head'' [''head_pitch_joint'', ''head_roll_joint'']),
      (''head_motor_b'', sample_pair_candidate ''head'' [''head_pitch_joint'', ''head_roll_joint''])]"

lemma sample_motor_limits:
  "derived_motor_limits sample_limit_numpy (everywhere hard_range) (everywhere soft_range) unit_motor_map = Inr sample_motor_table"
proof -
  note steps = sample_pair_step [OF pair_policy(1) LEFT_ANKLE_def] sample_pair_step [OF pair_policy(2) RIGHT_ANKLE_def]
    sample_pair_step [OF pair_policy(3) refl]
  have "rfold (pair_limits sample_limit_numpy (everywhere hard_range) (everywhere soft_range))
      (map (\<lambda>r. (r, sample_candidate r)) direct_roles) unit_pairs = Inr sample_motor_table"
    by (simp add: unit_pairs_def steps roles_values sample_motor_table_def)
  moreover have "map fst sample_motor_table = direct_roles @ [''left_ankle_motor_a'', ''left_ankle_motor_b'',
      ''right_ankle_motor_a'', ''right_ankle_motor_b'', ''head_motor_a'', ''head_motor_b'']"
    by (simp add: sample_motor_table_def comp_def)
  then have "fst ` set sample_motor_table = set (direct_roles @ [''left_ankle_motor_a'', ''left_ankle_motor_b'',
      ''right_ankle_motor_a'', ''right_ankle_motor_b'', ''head_motor_a'', ''head_motor_b''])"
    by (metis set_map)
  ultimately show ?thesis
    by (simp add: derived_motor_limits_def sample_direct_candidates unit_physical unit_motor_map_def [THEN arg_cong [where f = mm_direct]]
        unit_motor_map_def [THEN arg_cong [where f = mm_differentials]] del: set_append)
qed

lemma sample_derivation:
  obtains report where "derive_limit_candidates mapping_numerics sample_limit_numpy sample_hardware sample_limit_contract
    ''robot.urdf'' ''5ab1e'' sample_urdf (Fin (1 / 8)) [] = Inr report"
proof -
  have "rmap (\<lambda>n. rbind (joint_report (everywhere hard_range) (everywhere soft_range) n) (\<lambda>j. Inr (n, j))) ns = Inr
      (map (\<lambda>n. (n, JObj [(''hard_limit_rad_candidate'', json_bounds hard_range), (''soft_limit_rad_candidate'', json_bounds soft_range)])) ns)"
    if "set ns \<subseteq> set sample_policy" for ns
    using that by (induction ns) (simp_all add: joint_report_def everywhere_lookup)
  moreover have none: "sorted_set ([] :: string list) = []" by simp
  ultimately show thesis
    using that by (simp add: derive_limit_candidates_def sample_names sample_hard sample_soft sample_map_builds
        sample_motor_limits sample_limit_truncate none overridden_def limit_report_def Let_def or_text_def py_str_def)
      (simp add: sample_limit_contract_def jget_def)
qed

theorem derived_limits_contain_images_witness:
  "\<exists>report. derive_limit_candidates mapping_numerics sample_limit_numpy sample_hardware sample_limit_contract
      ''robot.urdf'' ''5ab1e'' sample_urdf (Fin (1 / 8)) [] = Inr report \<and>
    contains_images (unit_map ''left_knee_joint'')
      (jget (jget (jget report ''joint_limits'') ''left_knee_joint'') ''soft_limit_rad_candidate'')
      (jget (jget (jget report ''motor_limits'') ''left_knee_joint'') ''soft_limit_rad_candidate'')"
proof -
  obtain report where r: "derive_limit_candidates mapping_numerics sample_limit_numpy sample_hardware sample_limit_contract
    ''robot.urdf'' ''5ab1e'' sample_urdf (Fin (1 / 8)) [] = Inr report" by (rule sample_derivation)
  have m: "motor_map_from_hardware_config mapping_numerics (numpy.truncate sample_limit_numpy) sample_hardware sample_policy False =
    Inr unit_motor_map" by (simp add: sample_limit_truncate sample_map_builds)
  have "jfields (jget sample_hardware ''motor_map'') = sample_motors" by (simp add: sample_hardware_def jget_def)
  then have d: "distinct (keys (jfields (jget sample_hardware ''motor_map'')))"
    by (simp add: sample_motors_def CONFIRMED_CAN_ENDPOINTS_def sample_motor_facts)
  have "(''left_knee_joint'', unit_map ''left_knee_joint'') \<in> set (mm_direct unit_motor_map)"
    by (simp add: unit_motor_map_def roles_values)
  from derived_limits_contain_images [OF r sample_names m d sample_extremes this, of "''soft_limit_rad_candidate''"] r
  show ?thesis by (auto simp: unit_map_def [THEN arg_cong [where f = dm_motor_name]])
qed

section \<open>An installation\<close>

definition sample_limit_report :: json where
  "sample_limit_report = JObj [(''mode'', JStr LIMIT_MODE), (''soft_margin_rad_each_joint_boundary'', JFloat (Fin (1 / 8))),
     (''motor_limits'', JObj [(''knee'', sample_candidate ''knee'')])]"

definition sample_limit_hardware :: json where
  "sample_limit_hardware = JObj [(''operator'', JStr ''alice''), (''motor_map'', JObj [(''knee'', JObj [(''can_id'', JInt 4)])])]"

theorem installed_limits_are_nested_witness:
  "\<exists>h. apply_limit_candidates mapping_numerics (\<lambda>_. ''d1'') sample_limit_hardware sample_limit_report = (h, Inr 2) \<and>
    nested_limits (jget (jget h ''motor_map'') ''knee'') \<and> jget (jget (jget h ''motor_map'') ''knee'') ''can_id'' = JInt 4 \<and>
    jget (jget (jget h ''motor_map'') ''knee'') ''hard_limit_rad'' = JArr [JFloat (Fin (- 1)), JFloat (Fin 1)] \<and>
    jget (jget (jget h ''motor_map'') ''knee'') ''limit_provenance'' = limit_provenance ''d1'' (JFloat (Fin (1 / 8))) \<and>
    jget h ''operator'' = JStr ''alice''"
proof -
  have "\<exists>h. apply_limit_candidates mapping_numerics (\<lambda>_. ''d1'') sample_limit_hardware sample_limit_report = (h, Inr 2) \<and>
      map fst (jfields (jget h ''motor_map'')) = [''knee'']"
    by (simp add: apply_limit_candidates_def sample_limit_hardware_def sample_limit_report_def jget_def LIMIT_MODE_def
        limited_record_def checked_limits_def float_list_def sample_candidate_def json_bounds_def jindex_def
        strictly_nested_def vec_at_def Let_def)
  then obtain h where h: "apply_limit_candidates mapping_numerics (\<lambda>_. ''d1'') sample_limit_hardware sample_limit_report = (h, Inr 2)"
    by blast
  note nested = installed_limits_are_nested [OF h]
  have records: "jfields (jget sample_limit_hardware ''motor_map'') = [(''knee'', JObj [(''can_id'', JInt 4)])]"
    by (simp add: sample_limit_hardware_def jget_def)
  from nested obtain rec where rec: "jfields (jget h ''motor_map'') = [(''knee'', rec)]" "nested_limits rec"
    "only_limits_changed (JObj [(''can_id'', JInt 4)]) rec" "installed_from mapping_numerics ''d1'' sample_limit_report ''knee'' rec"
    unfolding records by (auto simp: list_all2_Cons1)
  from rec(3) have "jget rec ''can_id'' = JInt 4" by (simp add: only_limits_changed_def jget_def)
  moreover have "jget h ''operator'' = JStr ''alice''" using nested by (simp add: sample_limit_hardware_def jget_def)
  moreover have "jget (jget h ''motor_map'') ''knee'' = rec" using rec(1) by (simp add: jget_def)
  moreover from rec(4) have "jget rec ''hard_limit_rad'' = JArr [JFloat (Fin (- 1)), JFloat (Fin 1)]"
    "jget rec ''limit_provenance'' = limit_provenance ''d1'' (JFloat (Fin (1 / 8)))"
    by (auto simp: installed_from_def sample_limit_report_def jget_def jindex_def sample_candidate_def float_list_def json_bounds_def)
  ultimately show ?thesis using h rec(2) by metis
qed

end
