(* ===== verification/Startup.thy ===== *)
theory Startup
  imports Contract MultiRate
begin

text \<open>
  The two startup blends: the handoff from the measured pose to the policy actions (\<open>handoff.py\<close>), and
  the ramp that holds a captured pose and then admits a protected target (\<open>physical_startup.py\<close>). Both
  weigh with the same smoothstep. An exception leaves the object as the statements before it did.
\<close>

section \<open>What numpy adds\<close>

record numpy_startup = numpy +
  ns_divide :: "vec \<Rightarrow> vec \<Rightarrow> vec"

text \<open>A number times a vector: numpy repeats the number.\<close>

definition np_scale :: "numpy_startup \<Rightarrow> pyfloat \<Rightarrow> vec \<Rightarrow> vec" where
  "np_scale np a v = np_multiply (numpy.truncate np) (replicate (length v) a) v"

definition smoothstep :: "pyfloat \<Rightarrow> pyfloat" where
  "smoothstep x = fmul (fmul x x) (fsub (Fin 3) (fmul (Fin 2) x))"

text \<open>\<open>min(1.0, k / n)\<close>, weighed\<close>

definition ramp_weight :: "int \<Rightarrow> int \<Rightarrow> pyfloat result" where
  "ramp_weight k n = rbind (int_truediv k n) (\<lambda>x. Inr (smoothstep (fmin (Fin 1) x)))"

section \<open>The measured-pose handoff\<close>

record handoff =
  ho_offset :: vec
  ho_scale :: vec
  ho_total_steps :: int
  ho_completed_steps :: int
  ho_initial_action :: "vec option"

definition contract_vector :: "numerics \<Rightarrow> json \<Rightarrow> string \<Rightarrow> vec result" where
  "contract_vector N data name = rbind (jindex data name) (\<lambda>v. rbind (as_array N v) (\<lambda>(shape, xs).
     if shape \<noteq> [31] \<or> \<not> list_all isfinite xs then Inl (ValueError (name @ '' must be a finite 31-vector'')) else Inr xs))"

definition new_handoff :: "numerics \<Rightarrow> policy_contract \<Rightarrow> handoff result" where
  "new_handoff N c = (let data = pc_data c in
     if jget data ''deployment_handoff_mode'' \<noteq> JStr ''smoothstep_from_pose_equivalent_action''
     then Inl (ValueError ''unsupported deployment handoff mode'')
     else if jget data ''deployment_initial_velocity_mode'' \<noteq> JStr ''zero''
     then Inl (ValueError ''deployment initial velocity mode must be zero'')
     else rbind (to_float (parse_float N) (jget_or data ''deployment_handoff_seconds'' (JFloat NaN))) (\<lambda>seconds.
       if \<not> isfinite seconds \<or> flt seconds (Fin 0)
       then Inl (ValueError ''deployment_handoff_seconds must be finite and non-negative'')
       else rbind (contract_vector N data ''action_offset'') (\<lambda>offset. rbind (contract_vector N data ''action_scale'') (\<lambda>scale.
         if list_ex (\<lambda>x. fle (fabs x) (rnd (1 / 1000000000000))) scale
         then Inl (ValueError ''action_scale values must be non-zero for measured-pose handoff'')
         else rbind (contract_policy_hz N c) (\<lambda>hz. rbind (float_of_int hz) (\<lambda>f. rbind (fround (fmul seconds f)) (\<lambda>steps.
           Inr \<lparr>ho_offset = offset, ho_scale = scale, ho_total_steps = max 0 steps, ho_completed_steps = 0,
             ho_initial_action = None\<rparr>)))))))"

definition handoff_complete :: "handoff \<Rightarrow> bool" where
  "handoff_complete h = (ho_total_steps h \<le> ho_completed_steps h)"

definition handoff_progress :: "handoff \<Rightarrow> pyfloat result" where
  "handoff_progress h = (if ho_total_steps h = 0 then Inr (Fin 1) else ramp_weight (ho_completed_steps h) (ho_total_steps h))"

definition initial_action_of :: "numpy_startup \<Rightarrow> handoff \<Rightarrow> vec \<Rightarrow> vec" where
  "initial_action_of np h measured = (case ho_initial_action h of Some a \<Rightarrow> a
     | None \<Rightarrow> ns_divide np (np_subtract (numpy.truncate np) measured (ho_offset h)) (ho_scale h))"

text \<open>\<open>(1.0 - a) * x + a * y\<close>\<close>

definition mix :: "numpy_startup \<Rightarrow> pyfloat \<Rightarrow> vec \<Rightarrow> vec \<Rightarrow> vec" where
  "mix np a x y = np_add (numpy.truncate np) (np_scale np (fsub (Fin 1) a) x) (np_scale np a y)"

definition handoff_blend :: "numpy_startup \<Rightarrow> handoff \<Rightarrow> vec \<Rightarrow> vec \<Rightarrow> vec result \<times> handoff" where
  "handoff_blend np h policy_action measured_position =
     (case rbind (joint_vector ''policy_action'' policy_action) (\<lambda>a.
        rbind (joint_vector ''measured_joint_position'' measured_position) (\<lambda>m. Inr (a, m))) of
       Inl e \<Rightarrow> (Inl e, h)
     | Inr (action, measured) \<Rightarrow> let initial = initial_action_of np h measured; h' = h\<lparr>ho_initial_action := Some initial\<rparr> in
         if ho_total_steps h' = 0 \<or> handoff_complete h' then (Inr action, h')
         else let h'' = h'\<lparr>ho_completed_steps := ho_completed_steps h' + 1\<rparr> in
           (rbind (handoff_progress h'') (\<lambda>b. Inr (mix np b initial action)), h''))"

section \<open>The physical startup ramp\<close>

record startup_ramp =
  sr_policy_hz :: pyfloat
  sr_hold_seconds :: pyfloat
  sr_ramp_seconds :: pyfloat
  sr_hold_steps :: int
  sr_ramp_steps :: int
  sr_completed_steps :: int
  sr_initial_position_rad :: "vec option"
  sr_last_alpha :: pyfloat
  sr_maximum_output_position_delta_rad :: pyfloat
  sr_previous_output :: "vec option"

definition new_startup_ramp :: "pyfloat \<Rightarrow> pyfloat \<Rightarrow> pyfloat \<Rightarrow> startup_ramp result" where
  "new_startup_ramp policy_hz hold_seconds ramp_seconds =
     (if \<not> isfinite policy_hz then Inl (ValueError ''policy_hz must be finite'')
      else if \<not> isfinite hold_seconds then Inl (ValueError ''hold_seconds must be finite'')
      else if \<not> isfinite ramp_seconds then Inl (ValueError ''ramp_seconds must be finite'')
      else if fle policy_hz (Fin 0) then Inl (ValueError ''policy_hz must be positive'')
      else if flt hold_seconds (Fin 0) \<or> fle ramp_seconds (Fin 0)
      then Inl (ValueError ''hold_seconds must be non-negative and ramp_seconds positive'')
      else rbind (fceil (fmul hold_seconds policy_hz)) (\<lambda>hold. rbind (fceil (fmul ramp_seconds policy_hz)) (\<lambda>ramp.
        Inr \<lparr>sr_policy_hz = policy_hz, sr_hold_seconds = hold_seconds, sr_ramp_seconds = ramp_seconds,
          sr_hold_steps = hold, sr_ramp_steps = max 1 ramp, sr_completed_steps = 0, sr_initial_position_rad = None,
          sr_last_alpha = Fin 0, sr_maximum_output_position_delta_rad = Fin 0, sr_previous_output = None\<rparr>)))"

definition ramp_alpha :: "startup_ramp \<Rightarrow> pyfloat result" where
  "ramp_alpha r = (if sr_completed_steps r < sr_hold_steps r then Inr (Fin 0)
     else ramp_weight (sr_completed_steps r - sr_hold_steps r + 1) (sr_ramp_steps r))"

definition ramp_complete :: "startup_ramp \<Rightarrow> bool" where
  "ramp_complete r = (sr_hold_steps r + sr_ramp_steps r \<le> sr_completed_steps r)"

text \<open>\<open>numpy.max(numpy.abs(x - y))\<close> is taken of the matrix with the one row \<open>x - y\<close>.\<close>

definition ramp_output_delta :: "numpy_startup \<Rightarrow> startup_ramp \<Rightarrow> vec \<Rightarrow> pyfloat" where
  "ramp_output_delta np r position = (case sr_previous_output r of None \<Rightarrow> sr_maximum_output_position_delta_rad r
     | Some previous \<Rightarrow> fmax (sr_maximum_output_position_delta_rad r)
         (np_max_abs (numpy.truncate np) [np_subtract (numpy.truncate np) position previous]))"

definition ramp_apply ::
  "numpy_startup \<Rightarrow> startup_ramp \<Rightarrow> impedance_target \<Rightarrow> vec \<Rightarrow> impedance_target result \<times> startup_ramp" where
  "ramp_apply np r target measured_position =
     (case joint_vector ''measured_position_rad'' measured_position of Inl e \<Rightarrow> (Inl e, r)
      | Inr measured \<Rightarrow>
        let initial = (case sr_initial_position_rad r of Some p \<Rightarrow> p | None \<Rightarrow> measured);
            r' = r\<lparr>sr_initial_position_rad := Some initial\<rparr> in
        (case ramp_alpha r' of Inl e \<Rightarrow> (Inl e, r')
         | Inr alpha \<Rightarrow> let position = mix np alpha initial (it_position_rad target) in
             (new_impedance_target position (np_scale np alpha (it_velocity_rad_s target)) (np_scale np alpha (it_kp target))
                (np_scale np alpha (it_kd target)) (np_scale np alpha (it_feedforward_torque_nm target)),
              r'\<lparr>sr_maximum_output_position_delta_rad := ramp_output_delta np r' position, sr_previous_output := Some position,
                 sr_last_alpha := alpha, sr_completed_steps := sr_completed_steps r' + 1\<rparr>)))"

definition ramp_report :: "startup_ramp \<Rightarrow> (string, json) dict" where
  "ramp_report r =
     [(''enabled'', JBool True), (''policy_hz'', JFloat (sr_policy_hz r)), (''hold_seconds'', JFloat (sr_hold_seconds r)),
      (''ramp_seconds'', JFloat (sr_ramp_seconds r)), (''hold_steps'', JInt (sr_hold_steps r)),
      (''ramp_steps'', JInt (sr_ramp_steps r)), (''completed_steps'', JInt (sr_completed_steps r)),
      (''complete'', JBool (ramp_complete r)), (''last_alpha'', JFloat (sr_last_alpha r)),
      (''maximum_output_position_delta_rad'', JFloat (sr_maximum_output_position_delta_rad r))]"

end
