(* ===== verification/StartupSafety.thy ===== *)
theory StartupSafety
  imports Startup
begin

text \<open>
  What the startup blends promise: the smoothstep weight is a number of the unit interval in binary64
  arithmetic, so a ramp never amplifies a gain, and after the ramp a target passes unchanged; a handoff
  ends after its policy ticks; and what the validator of contracts accepts can be run.
\<close>

section \<open>The smoothstep weight\<close>

lemma double_rnd: "is_double (Fin x) \<Longrightarrow> rnd x = Fin x"
  by (simp add: is_double_def)

lemma rnd_ge: "c \<le> x \<Longrightarrow> is_double (Fin c) \<Longrightarrow> fle (Fin c) (rnd x)"
  using rnd_mono [of c x] by (simp add: double_rnd)

lemma rnd_le: "x \<le> c \<Longrightarrow> is_double (Fin c) \<Longrightarrow> fle (rnd x) (Fin c)"
  using rnd_mono [of x c] by (simp add: double_rnd)

lemma rnd_stays_inside:
  assumes "a \<le> x" and "x \<le> b" and "is_double (Fin a)" and "is_double (Fin b)"
  shows "\<exists>r. rnd x = Fin r \<and> a \<le> r \<and> r \<le> b"
  using rnd_ge [OF assms(1,3)] rnd_le [OF assms(2,4)] by (cases "rnd x") auto

lemma rnd_Fin: "rnd x = Fin r \<Longrightarrow> r = rnd_rat x"
  by (auto simp: rnd_alt split: if_splits)

lemma small_doubles [simp]: "is_double (Fin 0)" "is_double (Fin 1)" "is_double (Fin 2)" "is_double (Fin 3)"
  "is_double (Fin (1 / 4))" "is_double (Fin (1 / 2))"
  by (simp_all add: float_eval)

text \<open>A product that is above one by half a unit in the last place at most is rounded to one at most.\<close>

lemma rnd_near_one: "x \<le> 1 + pow2 (- 53) \<Longrightarrow> fle (rnd x) (Fin 1)"
proof -
  have p: "1 + pow2 (- 53) = 9007199254740993 / 9007199254740992" by (simp add: pow2_def)
  have "rnd (1 + pow2 (- 53)) = Fin 1" unfolding p by (simp add: float_eval)
  then show "x \<le> 1 + pow2 (- 53) \<Longrightarrow> fle (rnd x) (Fin 1)" using rnd_mono [of x "1 + pow2 (- 53)"] by simp
qed

text \<open>Between one half and one the term \<open>3 - 2 * l\<close> is exact.\<close>

lemma upper_half_grid:
  assumes "is_double (Fin l)" and "1 / 2 \<le> l" and "l \<le> 1"
  shows "\<exists>k. l = of_int k * pow2 (- 53) \<and> 0 \<le> k \<and> k \<le> 2 ^ 53"
proof -
  have "- 1 \<le> rlog2 l" using assms(2) by (subst rlog2_ge_iff) (simp_all add: pow2_def)
  then have q: "- 53 \<le> qexp l" using assms(2) by (simp add: qexp_def)
  from assms(1) have "rnd_rat l = l" by (simp add: is_double_Fin)
  then have "l = of_int (rhe (l / pow2 (qexp l))) * pow2 (qexp l)" using assms(2) by (simp add: rnd_rat_def Let_def split: if_splits)
  also have "\<dots> = of_int (rhe (l / pow2 (qexp l)) * 2 ^ nat (qexp l - (- 53))) * pow2 (- 53)"
    using pow2_grid [OF q] by simp
  finally obtain k where k: "l = of_int k * pow2 (- 53)" by blast
  have p: "pow2 (- 53) = 1 / 2 ^ 53" by (simp add: pow2_def)
  from k assms(2,3) have "0 \<le> k" "of_int k \<le> (2 ^ 53 :: rat)" by (simp_all add: p field_simps zero_le_divide_iff)
  then have "k \<le> 2 ^ 53" by (metis of_int_le_iff of_int_numeral of_int_power)
  with k \<open>0 \<le> k\<close> show ?thesis by blast
qed

lemma upper_half_exact:
  assumes "is_double (Fin l)" and "1 / 2 \<le> l" and "l \<le> 1"
  shows "rnd (2 * l) = Fin (2 * l)" and "rnd (3 - 2 * l) = Fin (3 - 2 * l)"
proof -
  obtain k where k: "l = of_int k * pow2 (- 53)" "0 \<le> k" "k \<le> 2 ^ 53" using upper_half_grid [OF assms] by blast
  have p: "pow2 (- 53) = 1 / 2 ^ 53" "pow2 (- 52) = 1 / 2 ^ 52" by (simp_all add: pow2_def)
  have "k \<ge> 2 ^ 52" using assms(2) k(1) by (simp add: p field_simps)
  with k(3) have small: "\<bar>3 * 2 ^ 52 - k\<bar> \<le> 2 ^ 53" by simp
  have e: "2 * l = of_int k * pow2 (- 52)" "3 - 2 * l = of_int (3 * 2 ^ 52 - k) * pow2 (- 52)"
    by (simp_all add: k(1) p field_simps)
  show "rnd (2 * l) = Fin (2 * l)" unfolding e(1) by (rule rnd_exact) (use k in simp_all)
  show "rnd (3 - 2 * l) = Fin (3 - 2 * l)" unfolding e(2) by (rule rnd_exact) (use small in simp_all)
qed

lemma square_error:
  assumes "is_double (Fin l)" and "1 / 2 \<le> l" and "l \<le> 1" and "rnd (l * l) = Fin x"
  shows "0 \<le> x" and "x \<le> l * l + pow2 (- 54)"
proof -
  show "0 \<le> x" using rnd_ge [of 0 "l * l"] assms by simp
  show "x \<le> l * l + pow2 (- 54)"
  proof (cases "l = 1")
    case True
    with assms(4) show ?thesis by (simp add: double_rnd)
  next
    case False
    with assms(2,3) have "l * l < 1" "0 < l * l" by (auto intro: mult_strict_mono' [of l 1 l 1, simplified])
    then have "rlog2 (l * l) < 0" by (simp add: rlog2_less_iff)
    then have "qexp (l * l) \<le> - 53" using \<open>0 < l * l\<close> by (simp add: qexp_def)
    then have "pow2 (qexp (l * l)) \<le> pow2 (- 53)" by (rule pow2_le_iff [THEN iffD2])
    moreover have "pow2 (- 53) / 2 = pow2 (- 54)" by (simp add: pow2_def)
    ultimately have "pow2 (qexp (l * l)) / 2 \<le> pow2 (- 54)" by linarith
    with rnd_rat_error [of "l * l"] show ?thesis unfolding rnd_Fin [OF assms(4)] abs_le_iff by linarith
  qed
qed

lemma smoothstep_unit:
  assumes l: "is_double (Fin l)" "0 \<le> l" "l \<le> 1"
  shows "\<exists>s. smoothstep (Fin l) = Fin s \<and> 0 \<le> s \<and> s \<le> 1"
proof -
  from rnd_stays_inside [of 0 "l * l" 1] l obtain x where x: "rnd (l * l) = Fin x" "0 \<le> x" "x \<le> 1"
    by (auto simp: mult_le_one)
  from rnd_stays_inside [of 0 "2 * l" 2] l obtain d where d: "rnd (2 * l) = Fin d" "0 \<le> d" "d \<le> 2" by auto
  from rnd_stays_inside [of 1 "3 - d" 3] d obtain y where y: "rnd (3 - d) = Fin y" "1 \<le> y" "y \<le> 3" by auto
  have s: "smoothstep (Fin l) = rnd (x * y)" by (simp add: smoothstep_def x d y fsub_def)
  have "fle (rnd (x * y)) (Fin 1)"
  proof (cases "l \<le> 1 / 2")
    case True
    with l(2) have "l * l \<le> 1 / 2 * (1 / 2)" by (intro mult_mono) auto
    with rnd_le [of "l * l" "1 / 4"] x have "x \<le> 1 / 4" by simp
    with x y have "x * y \<le> 1 / 4 * 3" by (intro mult_mono) auto
    then show ?thesis by (intro rnd_near_one) (use pow2_pos [of "- 53"] in linarith)
  next
    case False
    then have h: "1 / 2 \<le> l" by simp
    from upper_half_exact [OF l(1) h l(3)] d y have y': "y = 3 - 2 * l" by simp
    let ?u = "pow2 (- 54)" and ?e = "1 - l"
    from square_error [OF l(1) h l(3) x(1)] have "x \<le> l * l + ?u" by simp
    with y have "x * y \<le> (l * l + ?u) * y" by (intro mult_right_mono) auto
    also have "\<dots> = 1 - ?e * ?e * (1 + 2 * l) + ?u * (3 - 2 * l)" by (simp add: y' field_simps)
    also have "\<dots> \<le> 1 + ?u * 2"
    proof -
      have "0 \<le> ?e * ?e * (1 + 2 * l)" using l by simp
      moreover have "?u * (3 - 2 * l) \<le> ?u * 2" using h by (intro mult_left_mono) auto
      ultimately show ?thesis by linarith
    qed
    also have "?u * 2 = pow2 (- 53)" by (simp add: pow2_def)
    finally show ?thesis by (rule rnd_near_one)
  qed
  moreover have "fle (Fin 0) (rnd (x * y))" using x y by (intro rnd_ge) auto
  ultimately show ?thesis unfolding s by (cases "rnd (x * y)") auto
qed

lemma smoothstep_one: "smoothstep (Fin 1) = Fin 1"
  by (simp add: smoothstep_def float_eval)

lemma ramp_weight_unit:
  assumes "0 \<le> k" and "0 < n" and "k \<le> 2 ^ 900"
  shows "\<exists>s. ramp_weight k n = Inr (Fin s) \<and> 0 \<le> s \<and> s \<le> 1 \<and> (n \<le> k \<longrightarrow> s = 1)"
proof -
  let ?q = "of_int k / of_int n :: rat"
  have big: "is_double (Fin (pow2 900))" using rnd_exact [of 1 900] by (simp add: is_double_def)
  have "?q \<le> of_int k" using assms by (simp add: divide_le_eq mult_le_cancel_left1)
  also have "\<dots> \<le> pow2 900" using assms(3) by (simp add: pow2_def)
  finally obtain r where r: "rnd ?q = Fin r" "0 \<le> r" using rnd_stays_inside [of 0 ?q "pow2 900"] assms big by auto
  have one: "1 \<le> r" if "n \<le> k" using rnd_ge [of 1 ?q] that assms r by simp
  have d: "is_double (Fin r)" using is_double_rnd [of ?q] by (simp add: r)
  have t: "int_truediv k n = Inr (Fin r)" using assms by (simp add: int_truediv_def r)
  show ?thesis
  proof (cases "r < 1")
    case True
    with smoothstep_unit [OF d r(2)] one show ?thesis by (auto simp: ramp_weight_def t fmin_def)
  next
    case False
    then show ?thesis by (simp add: ramp_weight_def t fmin_def smoothstep_one)
  qed
qed

section \<open>Weighted vectors\<close>

text \<open>The arithmetic of numpy on vectors of equal length, entry by entry.\<close>

definition elementwise :: "numpy_startup \<Rightarrow> bool" where
  "elementwise np \<longleftrightarrow> (\<forall>x y. length x = length y \<longrightarrow> np_add (numpy.truncate np) x y = map2 fadd x y \<and>
     np_multiply (numpy.truncate np) x y = map2 fmul x y)"

lemma scale_entries: "elementwise np \<Longrightarrow> np_scale np a v = map (fmul a) v"
  by (simp add: elementwise_def np_scale_def map2_map_map [symmetric] zip_replicate1 comp_def)

definition doubles :: "vec \<Rightarrow> bool" where
  "doubles v \<longleftrightarrow> finite_vector 31 v \<and> list_all is_double v"

lemma doubles_entry: "doubles v \<Longrightarrow> x \<in> set v \<Longrightarrow> \<exists>r. x = Fin r \<and> is_double (Fin r)"
  by (auto simp: doubles_def finite_vector_def list_all_iff isfinite_iff)

lemma weigh_entry:
  assumes "0 \<le> a" and "a \<le> 1" and "is_double (Fin x)"
  shows "\<exists>r. fmul (Fin a) (Fin x) = Fin r \<and> (0 \<le> x \<longrightarrow> 0 \<le> r \<and> r \<le> x) \<and> \<bar>r\<bar> \<le> \<bar>x\<bar> \<and> is_double (Fin r)"
proof -
  have d: "is_double (Fin (- x))" using assms(3) rnd_minus [of x] by (simp add: is_double_def)
  show ?thesis
  proof (cases "0 \<le> x")
    case True
    with assms have "0 \<le> a * x" "a * x \<le> x" by (simp_all add: mult_left_le_one_le)
    with rnd_stays_inside [of 0 "a * x" x] assms(3) obtain r where "rnd (a * x) = Fin r" "0 \<le> r" "r \<le> x" by auto
    with True is_double_rnd [of "a * x"] show ?thesis by simp
  next
    case False
    with assms have "x \<le> a * x" "a * x \<le> 0" by (simp_all add: mult_nonneg_nonpos mult_le_cancel_right1)
    with rnd_stays_inside [of x "a * x" 0] assms(3) obtain r where "rnd (a * x) = Fin r" "x \<le> r" "r \<le> 0" by auto
    with False is_double_rnd [of "a * x"] show ?thesis by simp
  qed
qed

lemma weigh_ends:
  assumes "doubles v"
  shows "map (fmul (Fin 1)) v = v" and "map (fmul (Fin 0)) v = replicate 31 (Fin 0)"
proof -
  have "fmul (Fin 1) x = x \<and> fmul (Fin 0) x = Fin 0" if "x \<in> set v" for x
    using doubles_entry [OF assms that] by (auto simp: double_rnd)
  then show "map (fmul (Fin 1)) v = v" by (simp add: map_idI)
  have "map (fmul (Fin 0)) v = map (\<lambda>_. Fin 0) v"
    using \<open>\<And>x. x \<in> set v \<Longrightarrow> fmul (Fin 1) x = x \<and> fmul (Fin 0) x = Fin 0\<close> by simp
  then show "map (fmul (Fin 0)) v = replicate 31 (Fin 0)"
    using assms by (simp add: map_replicate_const doubles_def finite_vector_def)
qed

lemma mix_ends:
  assumes "elementwise np" and "doubles x" and "doubles y"
  shows "mix np (Fin 0) x y = x" and "mix np (Fin 1) x y = y"
proof -
  have len: "length x = 31" "length y = 31" using assms(2,3) by (simp_all add: doubles_def finite_vector_def)
  have zero: "map2 fadd v (replicate 31 (Fin 0)) = v" "map2 fadd (replicate 31 (Fin 0)) v = v" if "doubles v" for v
  proof -
    have "length v = 31" using that by (simp add: doubles_def finite_vector_def)
    moreover have "fadd z (Fin 0) = z \<and> fadd (Fin 0) z = z" if "z \<in> set v" for z
      using doubles_entry [OF \<open>doubles v\<close> that] by (auto simp: double_rnd)
    ultimately show "map2 fadd v (replicate 31 (Fin 0)) = v" "map2 fadd (replicate 31 (Fin 0)) v = v"
      by (auto simp: list_eq_iff_nth_eq)
  qed
  have one: "fsub (Fin 1) (Fin 0) = Fin 1" "fsub (Fin 1) (Fin 1) = Fin 0" by (simp_all add: fsub_def double_rnd)
  show "mix np (Fin 0) x y = x" "mix np (Fin 1) x y = y"
    using assms len by (simp_all add: mix_def scale_entries one weigh_ends elementwise_def zero)
qed

text \<open>Positions below \<open>2 ^ 900\<close> stay finite when they are mixed.\<close>

definition moderate :: "vec \<Rightarrow> bool" where
  "moderate v \<longleftrightarrow> doubles v \<and> list_all (\<lambda>x. fle (fabs x) (Fin (pow2 900))) v"

lemma moderate_doubles: "moderate v \<Longrightarrow> doubles v"
  by (simp add: moderate_def)

lemma mix_finite:
  assumes np: "elementwise np" and a: "0 \<le> a" "a \<le> 1" and v: "moderate x" "moderate y"
  shows "finite_vector 31 (mix np (Fin a) x y)"
proof -
  have big: "is_double (Fin (2 * pow2 900))" "is_double (Fin (- (2 * pow2 900)))"
    using rnd_exact [of 1 901] rnd_exact [of "- 1" 901] pow2_Suc [of 900] by (simp_all add: is_double_def)
  from rnd_stays_inside [of 0 "1 - a" 1] a obtain b where b: "fsub (Fin 1) (Fin a) = Fin b" "0 \<le> b" "b \<le> 1" by (auto simp: fsub_def)
  have len: "length x = 31" "length y = 31" using v by (simp_all add: moderate_def doubles_def finite_vector_def)
  have "isfinite (fadd (fmul (Fin b) p) (fmul (Fin a) q))" if "p \<in> set x" "q \<in> set y" for p q
  proof -
    from that v obtain p' q' where e: "p = Fin p'" "q = Fin q'" "is_double (Fin p')" "is_double (Fin q')"
      using doubles_entry moderate_doubles by meson
    with that v have m: "\<bar>p'\<bar> \<le> pow2 900" "\<bar>q'\<bar> \<le> pow2 900" by (auto simp: moderate_def list_all_iff)
    from weigh_entry [OF b(2,3) e(3)] weigh_entry [OF a e(4)] obtain r s where
      r: "fmul (Fin b) p = Fin r" "fmul (Fin a) q = Fin s" "\<bar>r\<bar> \<le> \<bar>p'\<bar>" "\<bar>s\<bar> \<le> \<bar>q'\<bar>" by (auto simp: e)
    with m have "- (2 * pow2 900) \<le> r + s" "r + s \<le> 2 * pow2 900" by (auto simp: abs_le_iff)
    with rnd_stays_inside [OF this big(2,1)] r show ?thesis by auto
  qed
  then show ?thesis
    using np len by (auto simp: mix_def scale_entries elementwise_def b finite_vector_def list_all_length set_conv_nth)
qed

section \<open>The startup ramp\<close>

text \<open>A target the constructor accepts, with moderate positions.\<close>

definition good_target :: "impedance_target \<Rightarrow> bool" where
  "good_target t \<longleftrightarrow> moderate (it_position_rad t) \<and> list_all doubles [it_velocity_rad_s t, it_kp t, it_kd t, it_feedforward_torque_nm t] \<and>
     \<not> any_negative (it_kp t) \<and> \<not> any_negative (it_kd t)"

lemma weighed_gain:
  assumes "0 \<le> a" and "a \<le> 1" and "doubles v"
  shows "finite_vector 31 (map (fmul (Fin a)) v)" and "\<not> any_negative v \<Longrightarrow> \<not> any_negative (map (fmul (Fin a)) v)"
    and "list_all2 (\<lambda>out x. fle (fabs out) (fabs x)) (map (fmul (Fin a)) v) v"
    and "\<not> any_negative v \<Longrightarrow> list_all2 (\<lambda>out x. fle (Fin 0) out \<and> fle out x) (map (fmul (Fin a)) v) v"
proof -
  have entry: "\<exists>y r. fmul (Fin a) x = Fin r \<and> x = Fin y \<and> (0 \<le> y \<longrightarrow> 0 \<le> r \<and> r \<le> y) \<and> \<bar>r\<bar> \<le> \<bar>y\<bar>" if "x \<in> set v" for x
  proof -
    from doubles_entry [OF assms(3) that] obtain y where y: "x = Fin y" "is_double (Fin y)" by blast
    from weigh_entry [OF assms(1,2) y(2)] y show ?thesis by blast
  qed
  show "finite_vector 31 (map (fmul (Fin a)) v)" using assms(3) entry by (fastforce simp: finite_vector_def doubles_def list_all_iff)
  show "list_all2 (\<lambda>out x. fle (fabs out) (fabs x)) (map (fmul (Fin a)) v) v"
    using entry by (fastforce simp: list_all2_map1 list.rel_refl_strong intro!: list.rel_refl_strong)
  show four: "list_all2 (\<lambda>out x. fle (Fin 0) out \<and> fle out x) (map (fmul (Fin a)) v) v" if n: "\<not> any_negative v"
  proof -
    have "fle (Fin 0) (fmul (Fin a) x) \<and> fle (fmul (Fin a) x) x" if "x \<in> set v" for x
      using entry [OF that] n that by (fastforce simp: any_negative_def list_ex_iff)
    then show ?thesis by (auto simp: list_all2_map1 intro!: list.rel_refl_strong)
  qed
  show "\<not> any_negative (map (fmul (Fin a)) v)" if n: "\<not> any_negative v"
  proof -
    have "\<not> flt (fmul (Fin a) x) (Fin 0)" if "x \<in> set v" for x
      using entry [OF that] n that by (fastforce simp: any_negative_def list_ex_iff)
    then show ?thesis by (auto simp: any_negative_def list_ex_iff)
  qed
qed

lemma new_startup_ramp_fields:
  assumes "new_startup_ramp hz hold ramp = Inr r"
  shows "sr_completed_steps r = 0" and "0 \<le> sr_hold_steps r" and "1 \<le> sr_ramp_steps r" and "sr_initial_position_rad r = None"
proof -
  from assms obtain h p hs rs where f: "hz = Fin p" "hold = Fin h" "0 \<le> h" "0 < p" and hs: "fceil (fmul hold hz) = Inr hs"
    and r: "r = \<lparr>sr_policy_hz = hz, sr_hold_seconds = hold, sr_ramp_seconds = ramp, sr_hold_steps = hs, sr_ramp_steps = max 1 rs,
      sr_completed_steps = 0, sr_initial_position_rad = None, sr_last_alpha = Fin 0,
      sr_maximum_output_position_delta_rad = Fin 0, sr_previous_output = None\<rparr>"
    by (auto simp: new_startup_ramp_def rbind_eq_Inr isfinite_iff not_less not_le split: if_splits)
  from f have "fle (Fin 0) (fmul hold hz)" using rnd_ge [of 0 "h * p"] by simp
  with hs have "0 \<le> hs" by (cases "fmul hold hz") (auto simp: fceil_def)
  with r show "sr_completed_steps r = 0" "0 \<le> sr_hold_steps r" "1 \<le> sr_ramp_steps r" "sr_initial_position_rad r = None" by simp_all
qed

text \<open>What stays true of a ramp: its lengths, and that a captured pose is one that was measured.\<close>

definition ramp_ok :: "startup_ramp \<Rightarrow> bool" where
  "ramp_ok r \<longleftrightarrow> 0 \<le> sr_hold_steps r \<and> 1 \<le> sr_ramp_steps r \<and> 0 \<le> sr_completed_steps r \<and>
     (\<forall>p. sr_initial_position_rad r = Some p \<longrightarrow> moderate p)"

definition captured :: "startup_ramp \<Rightarrow> vec \<Rightarrow> vec" where
  "captured r measured = (case sr_initial_position_rad r of Some p \<Rightarrow> p | None \<Rightarrow> measured)"

lemma ramp_alpha_unit:
  assumes "ramp_ok r" and "sr_completed_steps r < 2 ^ 900"
  shows "\<exists>a. ramp_alpha r = Inr (Fin a) \<and> 0 \<le> a \<and> a \<le> 1 \<and> (sr_completed_steps r < sr_hold_steps r \<longrightarrow> a = 0) \<and>
    (sr_hold_steps r + sr_ramp_steps r \<le> sr_completed_steps r + 1 \<longrightarrow> a = 1)"
proof (cases "sr_completed_steps r < sr_hold_steps r")
  case True
  with assms(1) show ?thesis by (simp add: ramp_alpha_def ramp_ok_def)
next
  case False
  let ?k = "sr_completed_steps r - sr_hold_steps r + 1"
  have "0 \<le> ?k" "0 < sr_ramp_steps r" "?k \<le> 2 ^ 900" using False assms by (auto simp: ramp_ok_def)
  from ramp_weight_unit [OF this] False show ?thesis by (auto simp: ramp_alpha_def)
qed

text \<open>One step of the ramp succeeds with a weight of the unit interval.\<close>

lemma ramp_step:
  assumes np: "elementwise np" and r: "ramp_ok r" "sr_completed_steps r < 2 ^ 900"
    and t: "good_target target" and m: "moderate measured"
  obtains a out r' where "ramp_apply np r target measured = (Inr out, r')" "0 \<le> a" "a \<le> 1"
    "sr_completed_steps r < sr_hold_steps r \<longrightarrow> a = 0" "sr_hold_steps r + sr_ramp_steps r \<le> sr_completed_steps r + 1 \<longrightarrow> a = 1"
    "out = \<lparr>it_position_rad = mix np (Fin a) (captured r measured) (it_position_rad target),
       it_velocity_rad_s = map (fmul (Fin a)) (it_velocity_rad_s target), it_kp = map (fmul (Fin a)) (it_kp target),
       it_kd = map (fmul (Fin a)) (it_kd target), it_feedforward_torque_nm = map (fmul (Fin a)) (it_feedforward_torque_nm target)\<rparr>"
    "ramp_ok r'" "sr_completed_steps r' = sr_completed_steps r + 1" "sr_hold_steps r' = sr_hold_steps r"
    "sr_ramp_steps r' = sr_ramp_steps r" "sr_initial_position_rad r' = Some (captured r measured)"
proof -
  obtain a where a: "ramp_alpha r = Inr (Fin a)" "0 \<le> a" "a \<le> 1" "sr_completed_steps r < sr_hold_steps r \<longrightarrow> a = 0"
    "sr_hold_steps r + sr_ramp_steps r \<le> sr_completed_steps r + 1 \<longrightarrow> a = 1" using ramp_alpha_unit [OF r] by blast
  have pose: "moderate (captured r measured)" using r m by (auto simp: captured_def ramp_ok_def split: option.splits)
  from t have v: "doubles (it_velocity_rad_s target)" "doubles (it_kp target)" "doubles (it_kd target)"
    "doubles (it_feedforward_torque_nm target)" "\<not> any_negative (it_kp target)" "\<not> any_negative (it_kd target)"
    "moderate (it_position_rad target)" by (simp_all add: good_target_def)
  have fin: "finite_vector 31 (mix np (Fin a) (captured r measured) (it_position_rad target))"
    by (rule mix_finite [OF np a(2,3) pose v(7)])
  have made: "new_impedance_target (mix np (Fin a) (captured r measured) (it_position_rad target))
      (np_scale np (Fin a) (it_velocity_rad_s target)) (np_scale np (Fin a) (it_kp target)) (np_scale np (Fin a) (it_kd target))
      (np_scale np (Fin a) (it_feedforward_torque_nm target)) =
    Inr \<lparr>it_position_rad = mix np (Fin a) (captured r measured) (it_position_rad target),
       it_velocity_rad_s = map (fmul (Fin a)) (it_velocity_rad_s target), it_kp = map (fmul (Fin a)) (it_kp target),
       it_kd = map (fmul (Fin a)) (it_kd target), it_feedforward_torque_nm = map (fmul (Fin a)) (it_feedforward_torque_nm target)\<rparr>"
    using weighed_gain [OF a(2,3) v(1)] weighed_gain [OF a(2,3) v(2)] weighed_gain [OF a(2,3) v(3)] weighed_gain [OF a(2,3) v(4)] v fin
    by (simp add: new_impedance_target_def joint_vector_def scale_entries [OF np])
  have alpha: "ramp_alpha (r\<lparr>sr_initial_position_rad := Some p\<rparr>) = Inr (Fin a)" for p
    using a(1) by (simp add: ramp_alpha_def split: if_splits)
  have measured: "joint_vector ''measured_position_rad'' measured = Inr measured"
    using m by (simp add: joint_vector_def moderate_def doubles_def)
  have "\<exists>r'. ramp_apply np r target measured = (Inr \<lparr>it_position_rad = mix np (Fin a) (captured r measured) (it_position_rad target),
       it_velocity_rad_s = map (fmul (Fin a)) (it_velocity_rad_s target), it_kp = map (fmul (Fin a)) (it_kp target),
       it_kd = map (fmul (Fin a)) (it_kd target), it_feedforward_torque_nm = map (fmul (Fin a)) (it_feedforward_torque_nm target)\<rparr>, r') \<and>
      ramp_ok r' \<and> sr_completed_steps r' = sr_completed_steps r + 1 \<and> sr_hold_steps r' = sr_hold_steps r \<and>
      sr_ramp_steps r' = sr_ramp_steps r \<and> sr_initial_position_rad r' = Some (captured r measured)"
    using pose r by (simp add: ramp_apply_def measured captured_def [symmetric] alpha made Let_def ramp_ok_def)
  with a that show thesis by metis
qed

inductive ramp_run :: "numpy_startup \<Rightarrow> startup_ramp \<Rightarrow> startup_ramp \<Rightarrow> bool" for np r0 where
  start: "ramp_run np r0 r0"
| step: "ramp_run np r0 r \<Longrightarrow> good_target target \<Longrightarrow> moderate measured \<Longrightarrow> sr_completed_steps r < 2 ^ 900 \<Longrightarrow>
    ramp_apply np r target measured = (res, r') \<Longrightarrow> ramp_run np r0 r'"

lemma ramp_run_ok:
  assumes "ramp_run np r0 r" and "elementwise np" and "ramp_ok r0"
  shows "ramp_ok r \<and> sr_hold_steps r = sr_hold_steps r0 \<and> sr_ramp_steps r = sr_ramp_steps r0"
  using assms(1)
proof induction
  case start
  from assms(3) show ?case by simp
next
  case (step r target measured res r')
  then have "ramp_ok r" by blast
  from ramp_step [OF assms(2) this step.hyps(4,2,3)] step show ?case by (metis Pair_inject)
qed

lemma new_ramp_ok: "new_startup_ramp hz hold ramp = Inr r \<Longrightarrow> ramp_ok r"
  using new_startup_ramp_fields [of hz hold ramp r] by (simp add: ramp_ok_def)

text \<open>
  C27. The ramp never amplifies: in every state a fresh ramp reaches, each gain of the target it gives out
  lies between zero and the gain of the protected target, and velocity and feedforward torque never exceed
  theirs in magnitude; while the pose is held every gain, velocity and torque is zero and the position is
  the captured pose.
\<close>
theorem startup_ramp_never_amplifies:
  assumes "new_startup_ramp hz hold ramp = Inr r0" and "elementwise np" and "ramp_run np r0 r" and "sr_completed_steps r < 2 ^ 900"
    and "good_target target" and "moderate measured"
  shows "\<exists>out r'. ramp_apply np r target measured = (Inr out, r') \<and>
    list_all2 (\<lambda>k k'. fle (Fin 0) k \<and> fle k k') (it_kp out) (it_kp target) \<and>
    list_all2 (\<lambda>k k'. fle (Fin 0) k \<and> fle k k') (it_kd out) (it_kd target) \<and>
    list_all2 (\<lambda>v v'. fle (fabs v) (fabs v')) (it_velocity_rad_s out) (it_velocity_rad_s target) \<and>
    list_all2 (\<lambda>f f'. fle (fabs f) (fabs f')) (it_feedforward_torque_nm out) (it_feedforward_torque_nm target) \<and>
    (sr_completed_steps r < sr_hold_steps r0 \<longrightarrow> sr_initial_position_rad r' = Some (it_position_rad out) \<and>
       list_all (\<lambda>v. v = replicate 31 (Fin 0)) [it_velocity_rad_s out, it_kp out, it_kd out, it_feedforward_torque_nm out])"
proof -
  note ok = ramp_run_ok [OF assms(3,2) new_ramp_ok [OF assms(1)]]
  from ok have "ramp_ok r" by blast
  then show ?thesis
  proof (rule ramp_step [OF assms(2) _ assms(4,5,6)], goal_cases)
    case (1 a out r')
    from assms(5) have v: "doubles (it_velocity_rad_s target)" "doubles (it_kp target)" "doubles (it_kd target)"
      "doubles (it_feedforward_torque_nm target)" "\<not> any_negative (it_kp target)" "\<not> any_negative (it_kd target)"
      "doubles (it_position_rad target)" by (simp_all add: good_target_def moderate_def)
    have pose: "doubles (captured r measured)"
      using \<open>ramp_ok r\<close> assms(6) by (auto simp: captured_def ramp_ok_def moderate_def split: option.splits)
    have held: "sr_initial_position_rad r' = Some (it_position_rad out) \<and>
       list_all (\<lambda>v. v = replicate 31 (Fin 0)) [it_velocity_rad_s out, it_kp out, it_kd out, it_feedforward_torque_nm out]"
      if "sr_completed_steps r < sr_hold_steps r0"
      using that ok 1 mix_ends(1) [OF assms(2) pose v(7)] weigh_ends(2) v(1-4) by simp
    show ?case
      using 1(1) held weighed_gain(3) [OF 1(2,3) v(1)] weighed_gain(3) [OF 1(2,3) v(4)] weighed_gain(4) [OF 1(2,3) v(2) v(5)]
        weighed_gain(4) [OF 1(2,3) v(3) v(6)] 1(6) by (intro exI [of _ out] exI [of _ r']) simp
  qed
qed

section \<open>Completion of the ramp\<close>

fun ramp_applies ::
  "numpy_startup \<Rightarrow> startup_ramp \<Rightarrow> (impedance_target \<times> vec) list \<Rightarrow> impedance_target result list \<times> startup_ramp" where
  "ramp_applies np r [] = ([], r)"
| "ramp_applies np r ((target, measured) # rest) = (case ramp_apply np r target measured of
     (out, r') \<Rightarrow> (case ramp_applies np r' rest of (outs, r'') \<Rightarrow> (out # outs, r'')))"

lemma ramp_last_step:
  assumes np: "elementwise np" and r: "ramp_ok r" "sr_completed_steps r < 2 ^ 900" and t: "good_target target" and m: "moderate measured"
  shows "\<exists>out r'. ramp_apply np r target measured = (Inr out, r') \<and> ramp_ok r' \<and> sr_completed_steps r' = sr_completed_steps r + 1 \<and>
    sr_hold_steps r' = sr_hold_steps r \<and> sr_ramp_steps r' = sr_ramp_steps r \<and>
    (sr_hold_steps r + sr_ramp_steps r \<le> sr_completed_steps r + 1 \<longrightarrow> out = target)"
proof (rule ramp_step [OF assms], goal_cases)
  case (1 a out r')
  have pose: "doubles (captured r measured)"
    using r m by (auto simp: captured_def ramp_ok_def moderate_def split: option.splits)
  have "out = target" if "sr_hold_steps r + sr_ramp_steps r \<le> sr_completed_steps r + 1"
    using that 1 t mix_ends(2) [OF np pose] by (simp add: good_target_def moderate_def weigh_ends)
  with 1 show ?case by blast
qed

text \<open>
  C28. A ramp always completes: with acceptable targets and poses no application fails, the ramp is
  complete after as many applications as it has hold and ramp steps, and from the last of them on each
  target passes through unchanged.
\<close>
theorem startup_ramp_completes:
  assumes "new_startup_ramp hz hold ramp = Inr r0" and np: "elementwise np" and "length inputs \<le> 2 ^ 900"
    and "list_all (\<lambda>(target, measured). good_target target \<and> moderate measured) inputs"
    and "ramp_applies np r0 inputs = (outs, r)"
  shows "length outs = length inputs \<and> list_all returns outs \<and> sr_completed_steps r = int (length inputs) \<and>
    (sr_hold_steps r0 + sr_ramp_steps r0 \<le> int (length inputs) \<longrightarrow> ramp_complete r) \<and>
    (\<forall>i < length inputs. sr_hold_steps r0 + sr_ramp_steps r0 \<le> int i + 1 \<longrightarrow> outs ! i = Inr (fst (inputs ! i)))"
proof -
  have run: "length outs = length inputs \<and> list_all returns outs \<and> sr_completed_steps r = sr_completed_steps r1 + int (length inputs) \<and>
      sr_hold_steps r = sr_hold_steps r1 \<and> sr_ramp_steps r = sr_ramp_steps r1 \<and>
      (\<forall>i < length inputs. sr_hold_steps r1 + sr_ramp_steps r1 \<le> sr_completed_steps r1 + int i + 1 \<longrightarrow> outs ! i = Inr (fst (inputs ! i)))"
    if "ramp_ok r1" "sr_completed_steps r1 + int (length inputs) \<le> 2 ^ 900" "ramp_applies np r1 inputs = (outs, r)"
      "list_all (\<lambda>(target, measured). good_target target \<and> moderate measured) inputs" for r1
    using that
  proof (induction inputs arbitrary: r1 outs)
    case (Cons x inputs)
    obtain target measured where x: "x = (target, measured)" by (cases x)
    from Cons.prems have g: "good_target target" "moderate measured" "sr_completed_steps r1 < 2 ^ 900" by (simp_all add: x)
    obtain out r' where o: "ramp_apply np r1 target measured = (Inr out, r')" "ramp_ok r'" "sr_completed_steps r' = sr_completed_steps r1 + 1"
      "sr_hold_steps r' = sr_hold_steps r1" "sr_ramp_steps r' = sr_ramp_steps r1"
      "sr_hold_steps r1 + sr_ramp_steps r1 \<le> sr_completed_steps r1 + 1 \<longrightarrow> out = target"
      using ramp_last_step [OF np Cons.prems(1) g(3,1,2)] by blast
    with Cons.prems(3) obtain outs' where rest: "ramp_applies np r' inputs = (outs', r)" "outs = Inr out # outs'"
      by (auto simp: x split: prod.splits)
    from Cons.IH [OF o(2) _ rest(1)] Cons.prems(2,4) o(3) have ih: "length outs' = length inputs \<and> list_all returns outs' \<and>
        sr_completed_steps r = sr_completed_steps r' + int (length inputs) \<and> sr_hold_steps r = sr_hold_steps r' \<and> sr_ramp_steps r = sr_ramp_steps r' \<and>
        (\<forall>i < length inputs. sr_hold_steps r' + sr_ramp_steps r' \<le> sr_completed_steps r' + int i + 1 \<longrightarrow> outs' ! i = Inr (fst (inputs ! i)))"
      by simp
    have "outs ! i = Inr (fst ((x # inputs) ! i))"
      if "i < length (x # inputs)" "sr_hold_steps r1 + sr_ramp_steps r1 \<le> sr_completed_steps r1 + int i + 1" for i
      using that ih o rest(2) x by (cases i) (simp_all add: algebra_simps)
    with ih o rest(2) show ?case by simp
  qed simp
  note f = new_startup_ramp_fields [OF assms(1)]
  have "sr_completed_steps r0 + int (length inputs) \<le> 2 ^ 900" using assms(3) f(1) by simp
  from run [OF new_ramp_ok [OF assms(1)] this assms(5,4)] f(1) show ?thesis by (auto simp: ramp_complete_def)
qed

section \<open>The handoff\<close>

fun handoff_blends :: "numpy_startup \<Rightarrow> handoff \<Rightarrow> (vec \<times> vec) list \<Rightarrow> vec result list \<times> handoff" where
  "handoff_blends np h [] = ([], h)"
| "handoff_blends np h ((action, measured) # rest) = (case handoff_blend np h action measured of
     (out, h') \<Rightarrow> (case handoff_blends np h' rest of (outs, h'') \<Rightarrow> (out # outs, h'')))"

definition handoff_ok :: "handoff \<Rightarrow> bool" where
  "handoff_ok h \<longleftrightarrow> 0 \<le> ho_completed_steps h \<and> ho_completed_steps h \<le> ho_total_steps h \<and> ho_total_steps h \<le> 2 ^ 900"

lemma handoff_step:
  assumes "handoff_ok h" and "finite_vector 31 action" and "finite_vector 31 measured"
  shows "\<exists>out h'. handoff_blend np h action measured = (Inr out, h') \<and> handoff_ok h' \<and> ho_total_steps h' = ho_total_steps h \<and>
    ho_completed_steps h' = min (ho_total_steps h) (ho_completed_steps h + 1) \<and>
    (ho_total_steps h \<le> ho_completed_steps h \<longrightarrow> out = action)"
proof (cases "ho_total_steps h \<le> ho_completed_steps h")
  case True
  with assms show ?thesis by (simp add: handoff_blend_def joint_vector_def Let_def handoff_complete_def handoff_ok_def)
next
  case False
  with assms(1) have "0 \<le> ho_completed_steps h + 1" "0 < ho_total_steps h" "ho_completed_steps h + 1 \<le> 2 ^ 900"
    by (auto simp: handoff_ok_def)
  from ramp_weight_unit [OF this] obtain s where s: "ramp_weight (ho_completed_steps h + 1) (ho_total_steps h) = Inr (Fin s)" by blast
  with False assms show ?thesis
    by (auto simp: handoff_blend_def joint_vector_def Let_def handoff_complete_def handoff_progress_def handoff_ok_def)
qed

lemma new_handoff_fields:
  assumes "new_handoff N c = Inr h"
  shows "ho_completed_steps h = 0" and "0 \<le> ho_total_steps h"
  using assms by (auto simp: new_handoff_def Let_def rbind_eq_Inr split: if_splits)

text \<open>
  A handoff ends: no blend of finite vectors fails, the handoff is complete after its policy ticks,
  and every later blend is the policy action itself.
\<close>
theorem handoff_completes:
  assumes "new_handoff N c = Inr h0" and "ho_total_steps h0 \<le> 2 ^ 900"
    and "list_all (\<lambda>(action, measured). finite_vector 31 action \<and> finite_vector 31 measured) inputs"
    and "handoff_blends np h0 inputs = (outs, h)"
  shows "length outs = length inputs \<and> list_all returns outs \<and> ho_completed_steps h = min (ho_total_steps h0) (int (length inputs)) \<and>
    (ho_total_steps h0 \<le> int (length inputs) \<longrightarrow> handoff_complete h) \<and>
    (\<forall>i < length inputs. ho_total_steps h0 \<le> int i \<longrightarrow> outs ! i = Inr (fst (inputs ! i)))"
proof -
  have run: "length outs = length inputs \<and> list_all returns outs \<and> ho_total_steps h = ho_total_steps h1 \<and>
      ho_completed_steps h = min (ho_total_steps h1) (ho_completed_steps h1 + int (length inputs)) \<and>
      (\<forall>i < length inputs. ho_total_steps h1 \<le> ho_completed_steps h1 + int i \<longrightarrow> outs ! i = Inr (fst (inputs ! i)))"
    if "handoff_ok h1" "handoff_blends np h1 inputs = (outs, h)"
      "list_all (\<lambda>(action, measured). finite_vector 31 action \<and> finite_vector 31 measured) inputs" for h1
    using that
  proof (induction inputs arbitrary: h1 outs)
    case Nil
    then show ?case by (auto simp: handoff_ok_def)
  next
    case (Cons x inputs)
    obtain action measured where x: "x = (action, measured)" by (cases x)
    from Cons.prems have g: "finite_vector 31 action" "finite_vector 31 measured" by (simp_all add: x)
    obtain out h' where o: "handoff_blend np h1 action measured = (Inr out, h')" "handoff_ok h'" "ho_total_steps h' = ho_total_steps h1"
      "ho_completed_steps h' = min (ho_total_steps h1) (ho_completed_steps h1 + 1)" "ho_total_steps h1 \<le> ho_completed_steps h1 \<longrightarrow> out = action"
      using handoff_step [OF Cons.prems(1) g, of np] by blast
    with Cons.prems(2) obtain outs' where rest: "handoff_blends np h' inputs = (outs', h)" "outs = Inr out # outs'"
      by (auto simp: x split: prod.splits)
    from Cons.IH [OF o(2) rest(1)] Cons.prems(3) have ih: "length outs' = length inputs \<and> list_all returns outs' \<and>
        ho_total_steps h = ho_total_steps h' \<and> ho_completed_steps h = min (ho_total_steps h') (ho_completed_steps h' + int (length inputs)) \<and>
        (\<forall>i < length inputs. ho_total_steps h' \<le> ho_completed_steps h' + int i \<longrightarrow> outs' ! i = Inr (fst (inputs ! i)))" by simp
    have "outs ! i = Inr (fst ((x # inputs) ! i))"
      if "i < length (x # inputs)" "ho_total_steps h1 \<le> ho_completed_steps h1 + int i" for i
      using that ih o rest(2) x by (cases i) (auto simp: min_def split: if_splits)
    with ih o rest(2) show ?case by auto
  qed
  note f = new_handoff_fields [OF assms(1)]
  have "handoff_ok h0" using f assms(2) by (simp add: handoff_ok_def)
  from run [OF this assms(4,3)] f show ?thesis by (auto simp: handoff_complete_def)
qed

end
