(* ===== verification/ContractSafety.thy ===== *)
theory ContractSafety
  imports Startup Inventory
begin

text \<open>
  What a policy contract that passes the validator is: the frequencies fit, the fields have the types and
  signs the runtime relies on, and the summary and the handoff can be computed from it.
\<close>

section \<open>Reading an accepted field\<close>

lemma jget_jindex: "jget v k \<noteq> JNull \<Longrightarrow> jindex v k = Inr (jget v k)"
  by (cases v) (auto simp: jget_def jindex_def split: option.splits)

lemma int_field_jindex:
  assumes "int_field N v k = Inr n" and "n \<noteq> - 1" and "is_dict v"
  shows "rbind (jindex v k) (json_int (parse_int N)) = Inr n"
  using assms by (auto simp: int_field_def jget_or_def jindex_def split: option.splits)

lemma is_str_list: "list_all is_str vs \<Longrightarrow> \<exists>ss. vs = map JStr ss"
proof (induction vs)
  case (Cons v vs)
  then obtain ss s where "vs = map JStr ss" "v = JStr s" by (auto elim: is_str.elims)
  then show ?case by (intro exI [of _ "s # ss"]) simp
qed simp

lemma distinct_names: "distinct (map JStr ss) \<longleftrightarrow> distinct ss"
  by (simp add: distinct_map inj_on_def)

lemma contract_joint_vector_ok:
  assumes "contract_joint_vector N data name = Inr ([], v)"
  shows "rbind (jindex data name) (float_list N) = Inr v \<and> finite_vector 31 v"
proof -
  from assms obtain vs where vs: "jget data name = JArr vs" "length vs = 31" "rmap (to_float (parse_float N)) vs = Inr v" "list_all isfinite v"
    by (cases "jget data name") (auto simp: contract_joint_vector_def split: if_splits sum.splits)
  then have "length v = 31" by (auto simp: rmap_eq_Inr dest: list_all2_lengthD)
  with vs jget_jindex [of data name] show ?thesis by (simp add: float_list_def finite_vector_def)
qed

lemma concat_map_Nil: "concat (map f xs) = [] \<longleftrightarrow> list_all (\<lambda>x. f x = []) xs"
  by (simp add: list_all_iff)

lemma sign_errors_meaning:
  assumes "map_of vectors f = Some v" and "v \<noteq> []"
  shows "f \<in> {''action_scale'', ''effort_limit'', ''velocity_limit''} \<Longrightarrow> sign_errors vectors f = [] \<Longrightarrow> list_all (flt (Fin 0)) v"
    and "f \<in> {''stiffness'', ''damping''} \<Longrightarrow> sign_errors vectors f = [] \<Longrightarrow> list_all (fle (Fin 0)) v"
  using assms by (auto simp: sign_errors_def split: if_splits)

lemma vector_errors_ok:
  assumes "vector_errors N data = Inr []" and "f \<in> set JOINT_VECTOR_FIELDS"
  shows "\<exists>v. rbind (jindex data f) (float_list N) = Inr v \<and> finite_vector 31 v \<and>
    (f \<in> {''action_scale'', ''effort_limit'', ''velocity_limit''} \<longrightarrow> list_all (flt (Fin 0)) v) \<and>
    (f \<in> {''stiffness'', ''damping''} \<longrightarrow> list_all (fle (Fin 0)) v)"
proof -
  from assms(1) obtain rs where rs: "rmap (contract_joint_vector N data) JOINT_VECTOR_FIELDS = Inr rs" "concat (map fst rs) = []"
    "concat (map (sign_errors (zip JOINT_VECTOR_FIELDS (map snd rs)))
       [''action_scale'', ''effort_limit'', ''velocity_limit'', ''stiffness'', ''damping'']) = []"
    by (auto simp: vector_errors_def rbind_eq_Inr Let_def)
  from rs(1) have all: "list_all2 (\<lambda>f r. contract_joint_vector N data f = Inr r) JOINT_VECTOR_FIELDS rs" by (simp add: rmap_eq_Inr)
  from assms(2) obtain i where i: "i < length JOINT_VECTOR_FIELDS" "f = JOINT_VECTOR_FIELDS ! i" by (auto simp: in_set_conv_nth)
  with all have n: "i < length rs" "length JOINT_VECTOR_FIELDS = length rs" by (auto dest: list_all2_lengthD)
  with rs(2) have "fst (rs ! i) = []" by simp
  moreover from list_all2_nthD [OF all i(1)] i(2) have "contract_joint_vector N data f = Inr (rs ! i)" by simp
  ultimately obtain v where v: "contract_joint_vector N data f = Inr ([], v)" "snd (rs ! i) = v" by (cases "rs ! i") simp
  have "distinct JOINT_VECTOR_FIELDS" by (simp add: JOINT_VECTOR_FIELDS_def)
  with i n v(2) have m: "map_of (zip JOINT_VECTOR_FIELDS (map snd rs)) f = Some v"
    by (auto intro!: map_of_is_SomeI simp: in_set_zip)
  from contract_joint_vector_ok [OF v(1)] have "length v = 31" by (simp add: finite_vector_def)
  then have "v \<noteq> []" by auto
  from rs(3) have e: "list_all (\<lambda>k. sign_errors (zip JOINT_VECTOR_FIELDS (map snd rs)) k = [])
       [''action_scale'', ''effort_limit'', ''velocity_limit'', ''stiffness'', ''damping'']" by (simp only: concat_map_Nil)
  have checked: "sign_errors (zip JOINT_VECTOR_FIELDS (map snd rs)) f = []"
    if "f \<in> set [''action_scale'', ''effort_limit'', ''velocity_limit'', ''stiffness'', ''damping'']"
    using e [unfolded list_all_iff] that by (rule bspec)
  note sign = sign_errors_meaning [OF m \<open>v \<noteq> []\<close>]
  have pos: "list_all (flt (Fin 0)) v" if f: "f \<in> {''action_scale'', ''effort_limit'', ''velocity_limit''}"
    by (rule sign(1) [OF f], rule checked) (use f in auto)
  have nonneg: "list_all (fle (Fin 0)) v" if f: "f \<in> {''stiffness'', ''damping''}"
    by (rule sign(2) [OF f], rule checked) (use f in auto)
  from contract_joint_vector_ok [OF v(1)] have "rbind (jindex data f) (float_list N) = Inr v" "finite_vector 31 v" by blast+
  then show ?thesis by (intro exI [of _ v] conjI impI pos nonneg)
qed

lemma accepted_vector_list:
  assumes "vector_errors N data = Inr []" and "f \<in> set JOINT_VECTOR_FIELDS"
  obtains vs where "jget data f = JArr vs"
proof -
  from assms(1) obtain rs where rs: "rmap (contract_joint_vector N data) JOINT_VECTOR_FIELDS = Inr rs" "concat (map fst rs) = []"
    by (auto simp: vector_errors_def rbind_eq_Inr Let_def)
  then have "list_all2 (\<lambda>f r. contract_joint_vector N data f = Inr r) JOINT_VECTOR_FIELDS rs" by (simp add: rmap_eq_Inr)
  with assms(2) obtain r where "r \<in> set rs" "contract_joint_vector N data f = Inr r"
    unfolding list_all2_conv_all_nth by (metis in_set_conv_nth)
  with rs(2) have "contract_joint_vector N data f = Inr ([], snd r)" by (cases r) auto
  then have "is_list (jget data f)" by (auto simp: contract_joint_vector_def split: if_splits)
  with that show thesis by (cases "jget data f") auto
qed

section \<open>The observation\<close>

definition OBSERVATION_SLICES :: "(string \<times> int \<times> int) list" where
  "OBSERVATION_SLICES = [(''joint_pos'', 0, 248), (''joint_vel'', 248, 496), (''actions'', 496, 744), (''base_ang_vel'', 744, 768),
     (''projected_gravity'', 768, 792), (''velocity_commands'', 792, 795)]"

definition observation_slice :: "numerics \<Rightarrow> json \<Rightarrow> string \<times> int \<times> int \<Rightarrow> bool" where
  "observation_slice N t = (\<lambda>(name, first, stop). jget t ''name'' = JStr name \<and> int_field N t ''start'' = Inr first \<and>
     int_field N t ''end'' = Inr stop)"

lemma observation_term_ok:
  assumes "observation_term_errors N cursor (t, name, frame_dim, history) = Inr []"
  shows "is_dict t \<and> observation_slice N t (name, cursor, cursor + frame_dim * max history 1) \<and> int_field N t ''history_length'' = Inr history"
  using assms by (auto simp: observation_term_errors_def Let_def sequence_Nil observation_slice_def rbind_eq_Inr split: if_splits)

lemma observation_layout_ok:
  assumes "observation_layout_errors N data = Inr []"
  shows "\<exists>ts. jget data ''observation_terms'' = JArr ts \<and> list_all2 (observation_slice N) ts OBSERVATION_SLICES \<and>
    list_all2 (\<lambda>t (_, _, history). is_dict t \<and> int_field N t ''history_length'' = Inr history) ts EXPECTED_OBSERVATION_TERMS \<and>
    int_field N data ''actor_observation_dim'' = Inr 795"
proof -
  from assms obtain ts where ts: "jget data ''observation_terms'' = JArr ts" "length ts = length EXPECTED_OBSERVATION_TERMS"
    by (cases "jget data ''observation_terms''") (auto simp: observation_layout_errors_def split: if_splits)
  then have "length ts = 6" by (simp add: EXPECTED_OBSERVATION_TERMS_def)
  then obtain a b c d e f where six: "ts = [a, b, c, d, e, f]" by (auto simp: length_Suc_conv eval_nat_numeral)
  from assms ts(2) show ?thesis
    unfolding observation_layout_errors_def ts(1) six
    by (auto simp: EXPECTED_OBSERVATION_TERMS_def OBSERVATION_SLICES_def rbind_eq_Inr split: if_splits dest!: observation_term_ok)
qed

section \<open>Acceptance\<close>

lemma accepted_parts:
  assumes "validate_for_hardware N c t = Inr ()"
  shows "validate_timing t = Inr ()" and "scalar_errors N c t = Inr []" and "joint_name_errors (pc_data c) = Inr []"
    and "vector_errors N (pc_data c) = Inr []" and "observation_layout_errors N (pc_data c) = Inr []"
    and "handoff_errors N (pc_data c) = Inr []" and "ankle_errors N (pc_data c) = Inr []"
  using assms by (auto simp: validate_for_hardware_def rbind_eq_Inr sequence_Nil split: if_splits)

lemma accepted_scalars:
  assumes "validate_for_hardware N c t = Inr ()"
  shows "contract_policy_hz N c = Inr (rt_policy_hz t)" and "int_field N (pc_data c) ''action_dim'' = Inr 31"
    and "jget (pc_data c) ''observation_has_horizontal_base_velocity'' = JBool False"
    and "\<exists>s. float_field N (pc_data c) ''deployment_handoff_seconds'' = Inr (Fin s) \<and> 0 \<le> s"
    and "jget (pc_data c) ''deployment_handoff_mode'' = JStr ''smoothstep_from_pose_equivalent_action''"
    and "jget (pc_data c) ''deployment_initial_velocity_mode'' = JStr ''zero''"
proof -
  note scalar = accepted_parts(2) [OF assms] and mode = accepted_parts(6) [OF assms]
  from scalar show "contract_policy_hz N c = Inr (rt_policy_hz t)" "int_field N (pc_data c) ''action_dim'' = Inr 31"
    "jget (pc_data c) ''observation_has_horizontal_base_velocity'' = JBool False"
    by (simp_all add: scalar_errors_def Let_def sequence_Nil rbind_eq_Inr)
  from mode show "jget (pc_data c) ''deployment_handoff_mode'' = JStr ''smoothstep_from_pose_equivalent_action''"
    "jget (pc_data c) ''deployment_initial_velocity_mode'' = JStr ''zero''" by (simp_all add: handoff_errors_def sequence_Nil)
  from mode have "(case float_field N (pc_data c) ''deployment_handoff_seconds'' of
         Inl e \<Rightarrow> if missing_or_invalid e then Inr [''deployment_handoff_seconds is missing or invalid''] else Inl e
       | Inr s \<Rightarrow> unless (isfinite s \<and> \<not> flt s (Fin 0)) ''deployment_handoff_seconds must be finite and non-negative'') = Inr []"
    by (simp add: handoff_errors_def sequence_Nil)
  then show "\<exists>s. float_field N (pc_data c) ''deployment_handoff_seconds'' = Inr (Fin s) \<and> 0 \<le> s"
    by (auto simp: isfinite_iff split: sum.splits if_splits)
qed

text \<open>
  C29. A contract the validator accepts is well typed: the policy period is the period of the requested
  frequency, the three frequencies divide each other, the joints are 31 different strings, every joint
  vector is a list of 31 finite numbers with the sign its field needs, the observation terms are the
  expected ones in contiguous slices of the 795 inputs, and the handoff time is a finite number of at least zero.
\<close>
theorem accepted_contract_is_typed:
  assumes "validate_for_hardware N c t = Inr ()"
  shows "contract_policy_hz N c = Inr (rt_policy_hz t) \<and> 0 < rt_policy_hz t \<and> rt_policy_hz t dvd rt_state_hz t \<and>
    rt_state_hz t dvd rt_motor_internal_hz t \<and>
    (\<exists>names. jget (pc_data c) ''joint_names'' = JArr (map JStr names) \<and> length names = 31 \<and> distinct names) \<and>
    (\<forall>f \<in> set JOINT_VECTOR_FIELDS. \<exists>v. rbind (jindex (pc_data c) f) (float_list N) = Inr v \<and> finite_vector 31 v \<and>
       (f \<in> {''action_scale'', ''effort_limit'', ''velocity_limit''} \<longrightarrow> list_all (flt (Fin 0)) v) \<and>
       (f \<in> {''stiffness'', ''damping''} \<longrightarrow> list_all (fle (Fin 0)) v)) \<and>
    (\<exists>ts. jget (pc_data c) ''observation_terms'' = JArr ts \<and> list_all2 (observation_slice N) ts OBSERVATION_SLICES) \<and>
    int_field N (pc_data c) ''actor_observation_dim'' = Inr 795 \<and>
    (\<exists>s. float_field N (pc_data c) ''deployment_handoff_seconds'' = Inr (Fin s) \<and> 0 \<le> s)"
proof -
  note p = accepted_parts [OF assms]
  from p(1) have timing: "0 < rt_policy_hz t" "rt_policy_hz t dvd rt_state_hz t" "rt_state_hz t dvd rt_motor_internal_hz t"
    by (auto simp: validate_timing_def split: if_splits)
  from p(3) obtain vs where "jget (pc_data c) ''joint_names'' = JArr vs" "length vs = 31" "list_all is_str vs" "distinct vs"
    by (cases "jget (pc_data c) ''joint_names''") (auto simp: joint_name_errors_def split: if_splits)
  then have names: "\<exists>names. jget (pc_data c) ''joint_names'' = JArr (map JStr names) \<and> length names = 31 \<and> distinct names"
    using is_str_list [of vs] by (auto simp: distinct_names)
  from observation_layout_ok [OF p(5)] vector_errors_ok [OF p(4)] names timing accepted_scalars(1,4) [OF assms] show ?thesis by blast
qed

section \<open>What can be computed from it\<close>

lemma contract_policy_hz_float:
  assumes "contract_policy_hz N c = Inr hz" and "0 < hz"
  shows "\<exists>f. float_of_int hz = Inr (Fin f) \<and> 1 \<le> f"
proof -
  from assms(1) obtain h where h: "float_of_int hz = Inr h" by (auto simp: contract_policy_hz_def rbind_eq_Inr)
  then obtain f where f: "h = Fin f" "rnd (of_int hz) = Fin f" by (cases "rnd (of_int hz)") (auto simp: float_of_int_def)
  have "fle (rnd 1) (rnd (of_int hz))" using assms(2) by (intro rnd_mono) simp
  moreover have "rnd 1 = Fin 1" using rnd_of_int [of 1] by simp
  ultimately show ?thesis using h f by simp
qed

lemma accepted_history:
  assumes "validate_for_hardware N c t = Inr ()"
  shows "maximum_history_length N c = Inr 8"
proof -
  from observation_layout_ok [OF accepted_parts(5) [OF assms]] obtain ts where ts: "jget (pc_data c) ''observation_terms'' = JArr ts"
    and h: "list_all2 (\<lambda>t (_, _, history). is_dict t \<and> int_field N t ''history_length'' = Inr history) ts EXPECTED_OBSERVATION_TERMS" by blast
  have field: "rbind (jindex x ''history_length'') (json_int (parse_int N)) = Inr n"
    if "is_dict x" "int_field N x ''history_length'' = Inr n" "n \<noteq> - 1" for x n
    using int_field_jindex [OF that(2,3,1)] .
  from h obtain a b d e f g where six: "ts = [a, b, d, e, f, g]"
    "rbind (jindex a ''history_length'') (json_int (parse_int N)) = Inr 8" "rbind (jindex b ''history_length'') (json_int (parse_int N)) = Inr 8"
    "rbind (jindex d ''history_length'') (json_int (parse_int N)) = Inr 8" "rbind (jindex e ''history_length'') (json_int (parse_int N)) = Inr 8"
    "rbind (jindex f ''history_length'') (json_int (parse_int N)) = Inr 8" "rbind (jindex g ''history_length'') (json_int (parse_int N)) = Inr 0"
    by (auto simp: EXPECTED_OBSERVATION_TERMS_def list_all2_Cons2 field)
  then show ?thesis using ts jget_jindex [of "pc_data c" "''observation_terms''"] by (simp add: maximum_history_length_def)
qed

text \<open>
  The summary of an accepted contract is always computed, and it says what the deployment needs: the
  requested policy frequency, eight frames of history over eight policy periods, 795 observations, 31
  actions and no horizontal base velocity.
\<close>
theorem accepted_contract_summary:
  assumes "validate_for_hardware N c t = Inr ()"
  shows "\<exists>f. rnd (of_int (rt_policy_hz t)) = Fin f \<and> contract_summary N c = Inr
    [(''policy_hz'', JInt (rt_policy_hz t)), (''history_frames'', JInt 8), (''history_window_ms'', JFloat (rnd (8000 / f))),
     (''observation_dim'', JInt 795), (''action_dim'', JInt 31), (''horizontal_base_velocity'', JBool False)]"
proof -
  note s = accepted_scalars [OF assms]
  have "0 < rt_policy_hz t" using accepted_parts(1) [OF assms] by (auto simp: validate_timing_def split: if_splits)
  with contract_policy_hz_float [OF s(1)] obtain f where f: "float_of_int (rt_policy_hz t) = Inr (Fin f)" "1 \<le> f" by blast
  then have r: "rnd (of_int (rt_policy_hz t)) = Fin f" by (cases "rnd (of_int (rt_policy_hz t))") (auto simp: float_of_int_def)
  have dict: "is_dict (pc_data c)" using s(3) by (cases "pc_data c") (auto simp: jget_def)
  have o: "int_field N (pc_data c) ''actor_observation_dim'' = Inr 795"
    using observation_layout_ok [OF accepted_parts(5) [OF assms]] by blast
  have v: "jindex (pc_data c) ''observation_has_horizontal_base_velocity'' = Inr (JBool False)"
    using s(3) jget_jindex [of "pc_data c" "''observation_has_horizontal_base_velocity''"] by simp
  have ms: "float_of_int 8 = Inr (Fin 8)" "fmul (Fin 1000) (Fin 8) = Fin 8000" by (simp_all add: float_eval)
  show ?thesis
    using f r by (simp add: contract_summary_def s(1) accepted_history [OF assms] ms v int_field_jindex [OF o _ dict]
        int_field_jindex [OF s(2) _ dict] del: fmul.simps)
qed

text \<open>
  C30. From an accepted contract the measured-pose handoff is made, unless an action scale is at most
  \<open>1e-12\<close> or the number of its ticks is beyond the range of a float; it starts without a captured
  action, with the offset and the scale of the contract and the rounded number of policy ticks of the
  handoff time. What is assumed of numpy is that it converts a list of 31 numbers to their floats.
\<close>
theorem accepted_contract_hands_off:
  assumes "validate_for_hardware N c t = Inr ()" and "float_field N (pc_data c) ''deployment_handoff_seconds'' = Inr seconds"
    and "rnd (of_int (rt_policy_hz t)) = hz"
    and "\<And>vs xs. rmap (to_float (parse_float N)) vs = Inr xs \<Longrightarrow> as_array N (JArr vs) = Inr ([length xs], xs)"
  shows "\<exists>offset scale. rbind (jindex (pc_data c) ''action_offset'') (float_list N) = Inr offset \<and>
    rbind (jindex (pc_data c) ''action_scale'') (float_list N) = Inr scale \<and>
    new_handoff N c = (if list_ex (\<lambda>x. fle (fabs x) (rnd (1 / 1000000000000))) scale
       then Inl (ValueError ''action_scale values must be non-zero for measured-pose handoff'')
       else rbind (fround (fmul seconds hz)) (\<lambda>n. Inr \<lparr>ho_offset = offset, ho_scale = scale, ho_total_steps = max 0 n,
         ho_completed_steps = 0, ho_initial_action = None\<rparr>))"
proof -
  note s = accepted_scalars [OF assms(1)]
  have "0 < rt_policy_hz t" using accepted_parts(1) [OF assms(1)] by (auto simp: validate_timing_def split: if_splits)
  with contract_policy_hz_float [OF s(1)] obtain f where f: "float_of_int (rt_policy_hz t) = Inr (Fin f)" by blast
  then have hz: "float_of_int (rt_policy_hz t) = Inr hz" using assms(3) by (cases hz) (auto simp: float_of_int_def)
  have vector: "\<exists>v. rbind (jindex (pc_data c) k) (float_list N) = Inr v \<and> contract_vector N (pc_data c) k = Inr v"
    if k: "k \<in> set JOINT_VECTOR_FIELDS" for k
  proof -
    from vector_errors_ok [OF accepted_parts(4) [OF assms(1)] k] obtain v where
      v: "rbind (jindex (pc_data c) k) (float_list N) = Inr v" "finite_vector 31 v" by blast
    from accepted_parts(4) [OF assms(1)] k obtain vs where vs: "jget (pc_data c) k = JArr vs" by (rule accepted_vector_list)
    with jget_jindex [of "pc_data c" k] have j: "jindex (pc_data c) k = Inr (JArr vs)" by simp
    with v assms(4) [of vs v] show ?thesis by (simp add: contract_vector_def float_list_def finite_vector_def)
  qed
  have k: "''action_offset'' \<in> set JOINT_VECTOR_FIELDS" "''action_scale'' \<in> set JOINT_VECTOR_FIELDS" by (simp_all add: JOINT_VECTOR_FIELDS_def)
  from vector [OF k(1)] vector [OF k(2)] obtain offset scale where
    v: "rbind (jindex (pc_data c) ''action_offset'') (float_list N) = Inr offset" "contract_vector N (pc_data c) ''action_offset'' = Inr offset"
      "rbind (jindex (pc_data c) ''action_scale'') (float_list N) = Inr scale" "contract_vector N (pc_data c) ''action_scale'' = Inr scale" by blast
  from s(4) assms(2) obtain q where q: "seconds = Fin q" "0 \<le> q" by auto
  from assms(2) have "to_float (parse_float N) (jget_or (pc_data c) ''deployment_handoff_seconds'' d) = Inr seconds" for d
    by (auto simp: float_field_def jindex_def jget_or_def rbind_eq_Inr split: if_splits option.splits)
  then show ?thesis
    using v q by (intro exI [of _ offset] exI [of _ scale]) (simp add: new_handoff_def Let_def s(1,5,6) hz)
qed

end
