(* ===== verification/StartupSample.thy ===== *)
theory StartupSample
  imports StartupSafety ContractSafety InventorySample
begin

text \<open>A complete policy contract, a ramp and a handoff on concrete numbers.\<close>

section \<open>A contract\<close>

definition term_json :: "string \<Rightarrow> int \<Rightarrow> int \<Rightarrow> int \<Rightarrow> int \<Rightarrow> json" where
  "term_json name frame history first stop = JObj [(''name'', JStr name), (''frame_dim'', JInt frame),
     (''history_length'', JInt history), (''start'', JInt first), (''end'', JInt stop), (''dim'', JInt (stop - first))]"

definition ones :: json where
  "ones = JArr (replicate 31 (JInt 1))"

definition sample_contract :: policy_contract where
  "sample_contract = \<lparr>pc_path = ''policy.json'', pc_data = JObj
     [(''policy_dt'', JFloat (rnd (1 / 50))), (''physics_dt'', JFloat (rnd (1 / 500))), (''decimation'', JInt 10),
      (''observation_has_horizontal_base_velocity'', JBool False), (''observation_has_global_position'', JBool False),
      (''observation_has_global_yaw'', JBool False), (''action_dim'', JInt 31), (''joint_names'', JArr (map JStr sample_policy)),
      (''default_joint_pos'', ones), (''action_offset'', ones), (''action_scale'', ones), (''stiffness'', ones), (''damping'', ones),
      (''effort_limit'', ones), (''velocity_limit'', ones),
      (''action_formula'', JStr ''target_joint_pos = action_offset + action_scale * policy_action''),
      (''observation_terms'', JArr [term_json ''joint_pos'' 31 8 0 248, term_json ''joint_vel'' 31 8 248 496,
         term_json ''actions'' 31 8 496 744, term_json ''base_ang_vel'' 3 8 744 768, term_json ''projected_gravity'' 3 8 768 792,
         term_json ''velocity_commands'' 3 0 792 795]),
      (''actor_observation_dim'', JInt 795), (''base_ang_vel_frame'', JStr ''root_link_local''),
      (''projected_gravity_definition'', JStr ''R_world_to_base @ [0, 0, -1]''), (''quaternion_order'', JStr ''wxyz''),
      (''command_layout'', JArr [JStr ''vx'', JStr ''vy'', JStr ''yaw_rate'']), (''deployment_handoff_seconds'', JFloat (Fin 2)),
      (''deployment_handoff_mode'', JStr ''smoothstep_from_pose_equivalent_action''), (''deployment_initial_velocity_mode'', JStr ''zero''),
      (''physical_ankle_differential'', JObj [(''enabled'', JBool True), (''rated_torque_nm'', JFloat (Fin (7 / 2))),
         (''peak_torque_nm'', JFloat (Fin (25 / 2))), (''rated_speed_rad_s'', JFloat (rnd (1256 / 100))),
         (''no_load_speed_rad_s'', JFloat (rnd (362 / 10))), (''joint_to_motor_ratio'', JInt 1)])]\<rparr>"

definition sample_timing :: runtime_timing where
  "sample_timing = \<lparr>rt_policy_hz = 50, rt_state_hz = 500, rt_motor_internal_hz = 1000,
     rt_policy_target_semantics = ''zero_order_hold_for_20ms''\<rparr>"

definition list_numerics :: numerics where
  "list_numerics = sample_numerics\<lparr>as_array := (\<lambda>v. rbind (rbind (json_iter v) (rmap (to_float (\<lambda>_. None)))) (\<lambda>xs. Inr ([length xs], xs)))\<rparr>"

lemma list_numerics_parsers: "parse_float list_numerics = (\<lambda>_. None)" "parse_int list_numerics = (\<lambda>_. None)"
  by (simp_all add: list_numerics_def sample_numerics_def)

abbreviation sample_data :: json where
  "sample_data \<equiv> pc_data sample_contract"

lemma sample_vectors: "f \<in> set JOINT_VECTOR_FIELDS \<Longrightarrow> jget sample_data f = ones"
proof -
  have "list_all (\<lambda>f. jget sample_data f = ones) JOINT_VECTOR_FIELDS"
    by (simp add: JOINT_VECTOR_FIELDS_def sample_contract_def jget_def)
  then show "f \<in> set JOINT_VECTOR_FIELDS \<Longrightarrow> jget sample_data f = ones" unfolding list_all_iff by (rule bspec)
qed

lemma ones_values: "rmap (to_float p) (replicate n (JInt 1)) = Inr (replicate n (Fin 1))"
  by (induction n) (simp_all add: float_of_int_def rnd_of_int [of 1, simplified])

lemma sample_vector: "f \<in> set JOINT_VECTOR_FIELDS \<Longrightarrow> contract_joint_vector list_numerics sample_data f = Inr ([], replicate 31 (Fin 1))"
  using ones_values [of "\<lambda>_. None" 31] by (simp add: contract_joint_vector_def sample_vectors ones_def list_numerics_parsers list_all_iff)

lemma sign_errors_ones: "(\<And>v. map_of vectors f = Some v \<Longrightarrow> v = replicate 31 (Fin 1)) \<Longrightarrow> sign_errors vectors f = []"
  by (cases "map_of vectors f") (simp_all add: sign_errors_def list_all_iff)

lemma sample_vector_errors: "vector_errors list_numerics sample_data = Inr []"
proof -
  have "rmap (contract_joint_vector list_numerics sample_data) fs = Inr (map (\<lambda>_. ([], replicate 31 (Fin 1))) fs)"
    if "set fs \<subseteq> set JOINT_VECTOR_FIELDS" for fs
    using that by (induction fs) (simp_all add: sample_vector)
  from this [of JOINT_VECTOR_FIELDS] have r: "rmap (contract_joint_vector list_numerics sample_data) JOINT_VECTOR_FIELDS =
      Inr (map (\<lambda>_. ([], replicate 31 (Fin 1))) JOINT_VECTOR_FIELDS)" by simp
  have s: "sign_errors (zip JOINT_VECTOR_FIELDS (map (\<lambda>_. replicate 31 (Fin 1)) JOINT_VECTOR_FIELDS)) f = []" for f
  proof -
    have "v = replicate 31 (Fin 1)" if "map_of (zip fs (map (\<lambda>_. replicate 31 (Fin 1)) fs)) f = Some v" for fs :: "string list" and v
      using that by (induction fs) (auto split: if_splits)
    from this [of JOINT_VECTOR_FIELDS] show ?thesis by (rule sign_errors_ones)
  qed
  show ?thesis unfolding vector_errors_def r rbind_Inr Let_def by (simp add: comp_def s)
qed

text \<open>The doubles of 0.02 and 0.002 and their products.\<close>

lemma sample_periods:
  "rnd (1 / 50) = Fin (5764607523034235 / 288230376151711744)" "rnd (1 / 500) = Fin (1152921504606847 / 576460752303423488)" "fdiv (Fin 1) (Fin (5764607523034235 / 288230376151711744)) = Inr (Fin 50)"
  "fmul (Fin 50) (Fin (5764607523034235 / 288230376151711744)) = Fin 1" "fmul (Fin (1152921504606847 / 576460752303423488)) (Fin 10) = Fin (5764607523034235 / 288230376151711744)"
  by (simp_all add: float_eval)

lemma sample_policy_hz: "contract_policy_hz list_numerics sample_contract = Inr 50"
proof -
  have "float_field list_numerics sample_data ''policy_dt'' = Inr (Fin (5764607523034235 / 288230376151711744))"
    by (simp add: float_field_def jindex_def sample_contract_def sample_periods)
  moreover have "fround (Fin 50) = Inr 50" "float_of_int 50 = Inr (Fin 50)" by (simp_all add: float_eval)
  ultimately show ?thesis by (simp add: contract_policy_hz_def sample_periods isclose_abs_def feq_def del: fdiv.simps fmul.simps)
qed

lemma sample_scalar_errors: "scalar_errors list_numerics sample_contract sample_timing = Inr []"
proof -
  have dt: "float_or list_numerics sample_data ''physics_dt'' d = Inr (rnd (1 / 500))"
    "float_or list_numerics sample_data ''policy_dt'' d = Inr (rnd (1 / 50))" for d
    by (simp_all add: float_or_def jget_or_def sample_contract_def)
  have int: "int_field list_numerics sample_data ''action_dim'' = Inr 31" "int_field list_numerics sample_data ''decimation'' = Inr 10"
    by (simp_all add: int_field_def jget_or_def sample_contract_def)
  have flags: "jget sample_data ''observation_has_horizontal_base_velocity'' = JBool False"
    "jget sample_data ''observation_has_global_position'' = JBool False" "jget sample_data ''observation_has_global_yaw'' = JBool False"
    by (simp_all add: jget_def sample_contract_def)
  have close: "isclose (rnd (1 / 500)) (rnd (2 / 1000)) t" for t
    by (simp add: isclose_def feq_def)
  have ten: "float_of_int 10 = Inr (Fin 10)" by (simp add: float_eval)
  have product: "isclose (fmul (rnd (1 / 500)) (Fin 10)) (rnd (1 / 50)) (rnd (1 / 1000000000000))"
    by (simp add: isclose_def feq_def sample_periods del: fmul.simps)
  show ?thesis
    by (simp add: scalar_errors_def Let_def sequence_Nil dt int flags sample_policy_hz ten sample_timing_def state_updates_per_policy_def
        del: fmul.simps) (use close [of "rnd (1 / 1000000000000)"] product in simp)
qed

lemma sample_layout_errors: "observation_layout_errors list_numerics sample_data = Inr []"
proof -
  have t: "observation_term_errors list_numerics cursor (term_json n f h a b, n', f', h') = Inr []"
    if "n = n'" "f = f'" "h = h'" "a = cursor" "b = a + f * max h 1" for cursor n f h a b n' f' h'
    using that by (simp add: observation_term_errors_def Let_def sequence_Nil int_field_def jget_or_def term_json_def jget_def observation_term_dim_def)
  have "jget sample_data ''observation_terms'' = JArr [term_json ''joint_pos'' 31 8 0 248, term_json ''joint_vel'' 31 8 248 496,
         term_json ''actions'' 31 8 496 744, term_json ''base_ang_vel'' 3 8 744 768, term_json ''projected_gravity'' 3 8 768 792,
         term_json ''velocity_commands'' 3 0 792 795]" "int_field list_numerics sample_data ''actor_observation_dim'' = Inr 795"
    by (simp_all add: jget_def sample_contract_def int_field_def jget_or_def)
  then show ?thesis by (simp add: observation_layout_errors_def EXPECTED_OBSERVATION_TERMS_def t)
qed

lemma sample_other_errors:
  "joint_name_errors sample_data = Inr []" "handoff_errors list_numerics sample_data = Inr []" "ankle_errors list_numerics sample_data = Inr []"
proof -
  have "jget sample_data ''joint_names'' = JArr (map JStr sample_policy)" by (simp add: jget_def sample_contract_def)
  then show "joint_name_errors sample_data = Inr []"
    using sample_policy_size by (simp add: joint_name_errors_def list_all_iff hashable_def distinct_names)
  show "handoff_errors list_numerics sample_data = Inr []"
    by (simp add: handoff_errors_def sequence_Nil jget_def sample_contract_def float_field_def jindex_def)
  have "jget sample_data ''physical_ankle_differential'' = JObj [(''enabled'', JBool True), (''rated_torque_nm'', JFloat (Fin (7 / 2))),
         (''peak_torque_nm'', JFloat (Fin (25 / 2))), (''rated_speed_rad_s'', JFloat (rnd (1256 / 100))),
         (''no_load_speed_rad_s'', JFloat (rnd (362 / 10))), (''joint_to_motor_ratio'', JInt 1)]"
    by (simp add: jget_def sample_contract_def)
  then show "ankle_errors list_numerics sample_data = Inr []"
    by (simp add: ankle_errors_def Let_def EXPECTED_ANKLE_def sequence_Nil jget_def float_field_def jindex_def isclose_abs_def feq_def
        float_of_int_def rnd_of_int [of 1, simplified])
qed

lemma sample_contract_accepted: "validate_for_hardware list_numerics sample_contract sample_timing = Inr ()"
proof -
  have "validate_timing sample_timing = Inr ()" by (simp add: validate_timing_def sample_timing_def)
  moreover have "jget sample_data ''action_formula'' = JStr ''target_joint_pos = action_offset + action_scale * policy_action''"
    by (simp add: jget_def sample_contract_def)
  ultimately show ?thesis
    by (simp add: validate_for_hardware_def sequence_def sample_scalar_errors sample_other_errors sample_vector_errors sample_layout_errors
        unless_def)
qed

theorem accepted_contract_is_typed_witness:
  "contract_policy_hz list_numerics sample_contract = Inr 50 \<and> (50 :: int) dvd 500 \<and>
     int_field list_numerics sample_data ''actor_observation_dim'' = Inr 795"
  using accepted_contract_is_typed [OF sample_contract_accepted] by (simp add: sample_timing_def)

theorem accepted_contract_summary_witness:
  "\<exists>ms. contract_summary list_numerics sample_contract = Inr
    [(''policy_hz'', JInt 50), (''history_frames'', JInt 8), (''history_window_ms'', JFloat ms),
     (''observation_dim'', JInt 795), (''action_dim'', JInt 31), (''horizontal_base_velocity'', JBool False)]"
  using accepted_contract_summary [OF sample_contract_accepted] by (auto simp: sample_timing_def)

lemma sample_handoff_made: "\<exists>h. new_handoff list_numerics sample_contract = Inr h \<and> ho_total_steps h = 100"
proof -
  have fields: "jget sample_data ''deployment_handoff_mode'' = JStr ''smoothstep_from_pose_equivalent_action''"
    "jget sample_data ''deployment_initial_velocity_mode'' = JStr ''zero''"
    "jget_or sample_data ''deployment_handoff_seconds'' d = JFloat (Fin 2)" for d
    by (simp_all add: jget_def jget_or_def sample_contract_def)
  have f: "''action_scale'' \<in> set JOINT_VECTOR_FIELDS" "''action_offset'' \<in> set JOINT_VECTOR_FIELDS" by (simp_all add: JOINT_VECTOR_FIELDS_def)
  have "rmap (to_float (\<lambda>_. None)) (replicate 31 (JInt 1)) = Inr (replicate 31 (Fin 1))" by (rule ones_values)
  then have vector: "contract_vector list_numerics sample_data k = Inr (replicate 31 (Fin 1))" if "k \<in> set JOINT_VECTOR_FIELDS" for k
    using sample_vectors [OF that] jget_jindex [of sample_data k]
    by (simp add: contract_vector_def ones_def list_numerics_def list_all_iff)
  have steps: "fround (fmul (Fin 2) (Fin 50)) = Inr 100" "float_of_int 50 = Inr (Fin 50)" by (simp_all add: float_eval)
  have tiny: "\<not> fle (Fin 1) (rnd (1 / 1000000000000))" by (simp add: float_eval)
  then show ?thesis
    by (simp add: new_handoff_def Let_def fields vector f list_ex_iff sample_policy_hz steps del: fmul.simps)
qed

theorem accepted_contract_hands_off_witness:
  "\<exists>h. new_handoff list_numerics sample_contract = Inr h \<and> ho_total_steps h = 100 \<and> ho_completed_steps h = 0"
proof -
  have seconds: "float_field list_numerics sample_data ''deployment_handoff_seconds'' = Inr (Fin 2)"
    by (simp add: float_field_def jindex_def sample_contract_def)
  have hz: "rnd (of_int (rt_policy_hz sample_timing)) = Fin 50" using rnd_of_int [of 50] by (simp add: sample_timing_def)
  have arrays: "as_array list_numerics (JArr vs) = Inr ([length xs], xs)" if "rmap (to_float (parse_float list_numerics)) vs = Inr xs" for vs xs
    using that by (simp add: list_numerics_parsers) (simp add: list_numerics_def)
  have f: "''action_scale'' \<in> set JOINT_VECTOR_FIELDS" by (simp add: JOINT_VECTOR_FIELDS_def)
  have scale: "rbind (jindex sample_data ''action_scale'') (float_list list_numerics) = Inr (replicate 31 (Fin 1))"
    using contract_joint_vector_ok [OF sample_vector [OF f]] by blast
  have steps: "fround (fmul (Fin 2) (Fin 50)) = Inr 100" by (simp add: float_eval)
  have tiny: "\<not> fle (Fin 1) (rnd (1 / 1000000000000))" by (simp add: float_eval)
  from accepted_contract_hands_off [OF sample_contract_accepted seconds hz arrays] tiny show ?thesis
    by (auto simp: scale steps list_ex_iff simp del: fmul.simps)
qed

section \<open>A ramp and a handoff\<close>

definition startup_numpy :: numpy_startup where
  "startup_numpy = \<lparr>np_add = map2 fadd, np_subtract = map2 fsub, np_multiply = map2 fmul,
     np_maximum = map2 fmax, np_clip = clip_entries, np_max = foldl fmax NInf,
     np_matvec = (\<lambda>m v. map (\<lambda>r. dot r v) m), np_transpose = transpose,
     np_solve = solve2, np_det = det2, np_inv = inv2,
     np_matmul = (\<lambda>a b. map (\<lambda>r. map (dot r) (transpose b)) a), np_matsub = map2 (map2 fsub),
     np_diag = (\<lambda>v. map (\<lambda>i. (replicate (length v) (Fin 0))[i := v ! i]) [0..<length v]),
     np_diagonal = (\<lambda>m. map (\<lambda>i. m ! i ! i) [0..<length m]),
     np_max_abs = (\<lambda>m. foldl fmax NInf (map fabs (concat m))),
     ns_divide = map2 (\<lambda>x y. finite_or_nan (fdiv x y))\<rparr>"

lemma startup_elementwise: "elementwise startup_numpy"
  by (simp add: elementwise_def startup_numpy_def numpy.truncate_def)

definition short_ramp :: startup_ramp where
  "short_ramp = \<lparr>sr_policy_hz = Fin 50, sr_hold_seconds = Fin (1 / 32), sr_ramp_seconds = Fin (1 / 16), sr_hold_steps = 2,
     sr_ramp_steps = 4, sr_completed_steps = 0, sr_initial_position_rad = None, sr_last_alpha = Fin 0,
     sr_maximum_output_position_delta_rad = Fin 0, sr_previous_output = None\<rparr>"

lemma short_ramp_made: "new_startup_ramp (Fin 50) (Fin (1 / 32)) (Fin (1 / 16)) = Inr short_ramp"
  by (simp add: new_startup_ramp_def short_ramp_def float_eval)

definition uniform_target :: impedance_target where
  "uniform_target = \<lparr>it_position_rad = replicate 31 (Fin 1), it_velocity_rad_s = replicate 31 (Fin 0), it_kp = replicate 31 (Fin 2),
     it_kd = replicate 31 (Fin 1), it_feedforward_torque_nm = replicate 31 (Fin 0)\<rparr>"

lemma uniform_moderate: "is_double (Fin x) \<Longrightarrow> \<bar>x\<bar> \<le> 1 \<Longrightarrow> moderate (replicate 31 (Fin x))"
proof -
  have "(1 :: rat) \<le> pow2 900" by (simp add: pow2_def)
  then show "is_double (Fin x) \<Longrightarrow> \<bar>x\<bar> \<le> 1 \<Longrightarrow> moderate (replicate 31 (Fin x))"
    by (simp add: moderate_def doubles_def finite_vector_def list_all_iff)
qed

lemma uniform_good: "good_target uniform_target"
  by (simp add: good_target_def uniform_target_def uniform_moderate doubles_def finite_vector_def list_all_iff any_negative_def list_ex_iff)

theorem startup_ramp_never_amplifies_witness:
  "\<exists>out r'. ramp_apply startup_numpy short_ramp uniform_target (replicate 31 (Fin 0)) = (Inr out, r') \<and>
     it_kp out = replicate 31 (Fin 0) \<and> sr_initial_position_rad r' = Some (it_position_rad out)"
proof -
  have "sr_completed_steps short_ramp < 2 ^ 900" "sr_completed_steps short_ramp < sr_hold_steps short_ramp" by (simp_all add: short_ramp_def)
  with startup_ramp_never_amplifies [OF short_ramp_made startup_elementwise ramp_run.start _ uniform_good uniform_moderate, of 0]
  show ?thesis by fastforce
qed

theorem startup_ramp_completes_witness:
  "\<exists>outs r. ramp_applies startup_numpy short_ramp (replicate 8 (uniform_target, replicate 31 (Fin 0))) = (outs, r) \<and>
     ramp_complete r \<and> outs ! 7 = Inr uniform_target"
proof -
  obtain outs r where run: "ramp_applies startup_numpy short_ramp (replicate 8 (uniform_target, replicate 31 (Fin 0))) = (outs, r)" by force
  have size: "length (replicate 8 (uniform_target, replicate 31 (Fin 0))) \<le> 2 ^ 900" by simp
  have good: "list_all (\<lambda>(target, measured). good_target target \<and> moderate measured) (replicate 8 (uniform_target, replicate 31 (Fin 0)))"
    by (simp add: list_all_iff uniform_good uniform_moderate)
  from startup_ramp_completes [OF short_ramp_made startup_elementwise size good run] run show ?thesis by (simp add: short_ramp_def)
qed

theorem handoff_completes_witness:
  "\<exists>h0 outs h. new_handoff list_numerics sample_contract = Inr h0 \<and>
     handoff_blends startup_numpy h0 (replicate 120 (replicate 31 (Fin 1), replicate 31 (Fin 0))) = (outs, h) \<and>
     handoff_complete h \<and> outs ! 110 = Inr (replicate 31 (Fin 1))"
proof -
  obtain h0 where h0: "new_handoff list_numerics sample_contract = Inr h0" "ho_total_steps h0 = 100"
    using sample_handoff_made by blast
  obtain outs h where run: "handoff_blends startup_numpy h0 (replicate 120 (replicate 31 (Fin 1), replicate 31 (Fin 0))) = (outs, h)" by force
  have total: "ho_total_steps h0 \<le> 2 ^ 900" by (simp add: h0)
  have good: "list_all (\<lambda>(action, measured). finite_vector 31 action \<and> finite_vector 31 measured)
      (replicate 120 (replicate 31 (Fin 1), replicate 31 (Fin 0)))" by (simp add: list_all_iff finite_vector_def)
  from handoff_completes [OF h0(1) total good run] run h0 show ?thesis by auto
qed

end
