(* ===== verification/Spec2Isabelle.thy ===== *)
theory Spec2Isabelle
  imports Safety Telemetry Writers Preflight DamiaoCodec AuditEvidence FullBodySample InventorySample PoweredSample GroupSample
    RegisterAudit Heading NativeIpc ProjectionSafety PairSample MappingSample
    MultiRateSample ImuSafety PelvisSafety LimitSample StartupSample
begin

text \<open>
  Verification library of the Sprite robot runtime, \<open>src/src/open_sprite_runtime\<close> (Python): the part of
  the repository that decides what reaches the 31 motors of a humanoid robot over four CAN-FD buses. It is
  a shallow embedding: every function below is translated from the source by hand, with the source's names
  where HOL allows them, and every theorem is about those functions.

  THE PROGRAM AND ITS PARTS. The runtime is layered, and the theories follow the layers.
  (1) Transport: \<open>socketcan.py\<close> audits \<open>ip -j\<close> snapshots, opens sockets, parses frames and timestamps, and
  gives out writers that can send one kind of frame each. Theories \<open>SocketCan\<close> (model), \<open>Writers\<close> (what a
  writer can put on the bus), \<open>Preflight\<close> (what a passed audit and an open mean).
  (2) Codec: \<open>damiao.py\<close> packs commands into eight bytes and decodes feedback. Theories \<open>Damiao\<close>,
  \<open>DamiaoCodec\<close>; the receive-only audit is \<open>DamiaoAudit\<close> and \<open>AuditEvidence\<close>, the zero-gain probes are
  \<open>DamiaoProbe\<close> and \<open>ProbeSafety\<close>. \<open>full_body_probe.py\<close>, which polls all four buses and the IMU in one loop,
  is \<open>FullBody\<close>, \<open>FullBodySafety\<close> and \<open>FullBodySample\<close>.
  (3) Inventory: \<open>hardware.py\<close> validates the JSON description of the robot and builds the runtime objects.
  Theories \<open>HardwareTables\<close>, \<open>Hardware\<close>, \<open>HardwareConfig\<close>, \<open>HardwareTemplate\<close>, \<open>Inventory\<close> (what a valid
  inventory guarantees), \<open>InventorySample\<close> (one that validates).
  (4) Runtime decisions: \<open>safety.py\<close> is \<open>Safety\<close>, \<open>telemetry.py\<close> is \<open>Telemetry\<close>, \<open>target_projection.py\<close> is
  \<open>TargetProjection\<close> and \<open>ProjectionSafety\<close>, \<open>heading.py\<close> and \<open>command_schedule.py\<close> are \<open>Heading\<close>,
  \<open>native_ipc.py\<close> is \<open>NativeIpc\<close>.
  (5) Powered commissioning: \<open>single_joint_hold.py\<close> is \<open>PoweredHold\<close>, \<open>PoweredMotion\<close>, \<open>PoweredSafety\<close>,
  \<open>PoweredEvidence\<close>, \<open>PoweredRuns\<close>, \<open>PoweredSample\<close>; \<open>motor_group_hold.py\<close> is \<open>GroupCore\<close>, \<open>GroupHold\<close>,
  \<open>GroupWire\<close>, \<open>GroupSafety\<close>, \<open>GroupRuns\<close>, \<open>GroupSample\<close>; \<open>ankle_pair_commissioning.py\<close> is \<open>PairGate\<close>,
  \<open>PitchGate\<close>, \<open>PairSafety\<close>, \<open>PairRuns\<close>, \<open>PairSample\<close>; \<open>damiao_registers.py\<close> is \<open>Registers\<close> and
  \<open>RegisterAudit\<close>.
  (6) Policy side: \<open>ankle.py\<close> and \<open>motor_mapping.py\<close> are \<open>Coupling\<close>, \<open>MotorMapping\<close>, \<open>MappingSafety\<close>,
  \<open>MappingSample\<close>; \<open>multirate_control.py\<close> is \<open>MultiRate\<close>, \<open>MultiRateSafety\<close>, \<open>MultiRateSample\<close>;
  \<open>contracts.py\<close> is \<open>Contract\<close> and \<open>ContractSafety\<close>; \<open>handoff.py\<close> and \<open>physical_startup.py\<close> are \<open>Startup\<close>,
  \<open>StartupSafety\<close>, \<open>StartupSample\<close>; \<open>yahboom_imu.py\<close> and the command of \<open>imu_fusion.py\<close> are \<open>Yahboom\<close>; the
  bounded reception of \<open>imu_receive.py\<close> is \<open>ImuReceive\<close> and \<open>ImuSafety\<close>; \<open>imu.py\<close> and
  \<open>session_heading.py\<close> are \<open>PelvisImu\<close> and \<open>PelvisSafety\<close>; \<open>limit_derivation.py\<close> is \<open>LimitDerivation\<close>,
  \<open>LimitSafety\<close> and \<open>LimitSample\<close>.
  Shared: \<open>Prelude\<close> (exceptions, results, dictionaries), \<open>PyFloat\<close> (doubles), \<open>Bytes\<close>, \<open>Json\<close>, \<open>Arrays\<close>
  (numpy), \<open>Gate\<close> (latching gates), \<open>World\<close> (programs that talk to a bus), \<open>WirePhases\<close> (the order of the
  frames of a run).

  HOW THE PARTS INTERACT. A validated inventory yields endpoints, command profiles and telemetry limits
  (\<open>Inventory.valid_inventory_builds_endpoints\<close>); a register audit installs verified ranges in the
  inventory; the motor map of the inventory carries joint vectors to motors; the multi-rate controller
  turns a measured state and a policy target into a frame of commands; the command profiles encode the
  frame; the restricted writers send it. The commissioning runs use the same codec and writers. Each of
  these compositions is modelled by calling the definitions of the lower theory, as the code does.

  HOW PYTHON IS RENDERED. A function that can raise returns \<open>'a result\<close>, that is \<open>py_error + 'a\<close>, with a
  constructor of \<open>py_error\<close> per exception class and the message without its formatted numbers. A class is
  a record; its methods take and return the record, and where Python keeps changes although a call raises
  the record is returned beside the exception. A \<open>__post_init__\<close> that validates is the \<open>new_\<close> function of
  its class. A dict is an association list in insertion order (\<open>dict_set\<close>, \<open>keys\<close>), unbounded integers are
  \<open>int\<close>, bytes are lists of 8-bit words. Floats are binary64: a finite double is the rational number it
  stands for and every operation is the exact one followed by \<open>rnd\<close>, round to nearest even, so the
  theorems are about the rounded arithmetic of the program and not about real numbers. The two zeros are
  one value, except in the packets of \<open>NativeIpc\<close>: \<open>struct.pack\<close> keeps the sign of a zero, and the vectors
  of a packet hold floats that carry it (\<open>ipc_float\<close>). Object identity, logging and
  the \<open>to_dict\<close> serialisers are left out.

  THE ENVIRONMENT. What the program cannot decide is an argument: the readings of the clock, the outcomes
  of \<open>receive\<close>, of each send and of each sleep, given as lists that a run consumes. The probes take one
  record per turn of their loop. A result \<open>None\<close> says that the given answers ended while the program was
  running, so every theorem about a finished run holds for all environments, including those that
  interrupt a sleep or fail a send. Loops on a clock (\<open>io_loop\<close> of \<open>World\<close>) run with fuel: the number of
  clock readings that are left plus a small constant. Every iteration consumes a reading, so the fuel
  never decides (\<open>io_while_fuel\<close>); that a wait for feedback ends once the clock passes its deadline is
  \<open>PoweredRuns.receive_selected_returns\<close>. All other loops are structural or have a measure.

  PARAMETERS. numpy (\<open>interp\<close>, linear solves, matrix products, element-wise operations), \<open>math.pow\<close>, \<open>math.sqrt\<close>, \<open>math.hypot\<close>, float
  \<open>sum\<close>, the parsing of numeric strings and SHA-256 are not part of the repository. They are arguments of
  the definitions that use them (\<open>numpy_control\<close>, \<open>numpy_startup\<close>, \<open>numpy_limits\<close>, \<open>numpy_imu\<close>, \<open>numerics\<close>, \<open>py_sum\<close>, \<open>fpow\<close>, digests),
  and a property that relies on one names its documented behaviour as a hypothesis, discharged by the
  concrete instance of the witness. In particular \<open>numpy.clip\<close> is \<open>minimum(maximum(x, lo), hi)\<close> entry by entry:
  crossed bounds give the upper one and a NaN among the three is the result (\<open>Arrays.clip_entry\<close>).

  INTERFACES. \<open>Gate.latching_gate\<close> is the contract of a component that remembers faults until they are
  cleared, interpreted by the safety supervisor. \<open>Writers.restricted_writer\<close> is the contract of a writer
  that can only send permitted frames, interpreted by the zero-gain poller, the two register readers, the
  set-zero writer, the single-motor and the group writer. \<open>WirePhases.frozen_gains\<close> says that the gains of
  a run cannot be mistaken for another kind of frame, interpreted by the five gain sets of the code.
  \<open>GroupWire.disciplined\<close> asks of a run of several motors that its sends obey a rule, and is interpreted by
  the group holds and by the gates of a pair. \<open>RegisterAudit.request_budget\<close> asks of a measure of a register
  reader how much one request adds to it, and bounds what a whole audit adds; it is interpreted by all requests of
  either audit and by the requests of one register of one motor. \<open>MappingSafety.filler\<close> is the loop that fills a dictionary,
  interpreted by the four loops of the motor map. \<open>PyFloat.rounding\<close> collects the laws of a rounding,
  interpreted by \<open>rnd\<close>.

  WHAT THE LEMMAS SHOW. Transport: no sequence of calls makes a writer send a frame outside its permission;
  a listen-only open never reaches a bus that is not audited. Codec: encoded commands respect the limits of
  their motor, raw fields are monotone and fit, what is encoded is what is read back. Powered runs: every
  run either refuses before sending or leaves the wire in the order echoes, enable, commands, disables, with
  the disable verified or reported; a passed report is evidence for each guard. Probes: only zero-gain
  frames, in rotation, at most sixteen frames per bus in each turn; a passed probe heard every motor, disabled. Gates
  and supervisors: what blocks a transmission keeps blocking until it is cleared. Inventory and contract:
  what validates is complete and typed, and builds the objects that are built from it. Policy side: a joint
  vector reaches every motor once, controller frames pass the encoder, startup blends stay between zero and
  the protected gains and end. IMU stream: decoding is independent of the chunks and loses no valid frame; a
  pass of the reception commits only few and fresh packets. Pelvis IMU: an accepted sample is fresh and follows
  the one checked before it, the integrated yaw is always an angle, and a gap stops it until the robot
  stands. Limits: the motor limits derived for a single motor contain the image of every joint position
  within its joint limits, and installed limits are those of the report, finite and strictly nested. Native
  packets return every finite double with its sign, that of a zero included.
  The bound 2 to the 900 in \<open>StartupSafety\<close> keeps intermediate sums of
  finite inputs finite in binary64.

  NOT MODELLED, AND WHY. The command line, file output and the MuJoCo viewer are glue around these
  operations. The policy clients and shadows (\<open>native_policy_client.py\<close>, \<open>policy_shadow.py\<close>, \<open>shadow.py\<close>)
  are drivers around onnxruntime, sockets and numpy whose own decisions are calls of the modelled parts.
  The system identification scripts are offline array programs. The device sessions of the IMU sources
  need pyserial and smbus. The C++ real-time loop under \<open>src/native\<close> and the scripts under \<open>src/tools\<close> are
  outside the Python runtime that this library covers.
\<close>

end
